(* ===== verification/DriverBase.thy ===== *)
theory DriverBase
  imports Main "HOL-Library.Word" "HOL-Library.Monad_Syntax" "HOL-Library.Signed_Division"
begin

text \<open>
  Shared ground of the development: the C integer types of the driver at their widths, the
  NTSTATUS codes with \<open>NT_SUCCESS\<close>, checked C arithmetic, memory cells that may fault, and
  the lemma collections the component theories use.

  Conventions. A computation that may dereference memory or do signed arithmetic returns an
  \<open>option\<close>: \<open>None\<close> is a run that the C++ language does not define (a read or write outside a
  buffer, a NULL dereference, a signed overflow, an assertion-free double free), \<open>Some\<close> is a
  normal return. Error codes are ordinary NTSTATUS results inside \<open>Some\<close>. Pointers that the
  code compares with NULL are options as well.

  The values of the NTSTATUS codes and of the kernel-streaming constants, and the sizes of the
  kernel-streaming structures, are those of the Windows headers (ntstatus.h, ks.h, ksmedia.h,
  wtypes.h) that the sources include.
\<close>

unbundle bit_operations_syntax

section \<open>Integer types\<close>

type_synonym BYTE = "8 word"
type_synonym USHORT = "16 word"
type_synonym INT16 = "16 word"
type_synonym ULONG = "32 word"
type_synonym LONG = "32 word"
type_synonym BOOL = "32 word"
type_synonym SIZE_T = "64 word"
type_synonym NTSTATUS = "32 word"

definition TRUE_BOOL :: BOOL where "TRUE_BOOL = 1"
definition FALSE_BOOL :: BOOL where "FALSE_BOOL = 0"

section \<open>Lemma collections\<close>

named_theorems status_defs "the values of the NTSTATUS codes"
named_theorems const_defs "the values of the other constants"
named_theorems op_defs "definitions of the operations of a component"

section \<open>NTSTATUS\<close>

text \<open>\<open>NT_SUCCESS(s)\<close> is \<open>((NTSTATUS)(s)) >= 0\<close> on the signed 32-bit code.\<close>

definition NT_SUCCESS :: "NTSTATUS \<Rightarrow> bool" where
  "NT_SUCCESS s \<longleftrightarrow> 0 \<le> sint s"

definition STATUS_SUCCESS :: NTSTATUS where [status_defs]: "STATUS_SUCCESS = 0"
definition STATUS_BUFFER_OVERFLOW :: NTSTATUS where [status_defs]: "STATUS_BUFFER_OVERFLOW = 0x80000005"
definition STATUS_DEVICE_BUSY :: NTSTATUS where [status_defs]: "STATUS_DEVICE_BUSY = 0x80000011"
definition STATUS_NO_MORE_ENTRIES :: NTSTATUS where [status_defs]: "STATUS_NO_MORE_ENTRIES = 0x8000001A"
definition STATUS_UNSUCCESSFUL :: NTSTATUS where [status_defs]: "STATUS_UNSUCCESSFUL = 0xC0000001"
definition STATUS_NOT_IMPLEMENTED :: NTSTATUS where [status_defs]: "STATUS_NOT_IMPLEMENTED = 0xC0000002"
definition STATUS_INVALID_HANDLE :: NTSTATUS where [status_defs]: "STATUS_INVALID_HANDLE = 0xC0000008"
definition STATUS_INVALID_PARAMETER :: NTSTATUS where [status_defs]: "STATUS_INVALID_PARAMETER = 0xC000000D"
definition STATUS_INVALID_DEVICE_REQUEST :: NTSTATUS where [status_defs]: "STATUS_INVALID_DEVICE_REQUEST = 0xC0000010"
definition STATUS_BUFFER_TOO_SMALL :: NTSTATUS where [status_defs]: "STATUS_BUFFER_TOO_SMALL = 0xC0000023"
definition STATUS_OBJECT_NAME_NOT_FOUND :: NTSTATUS where [status_defs]: "STATUS_OBJECT_NAME_NOT_FOUND = 0xC0000034"
definition STATUS_INSUFFICIENT_RESOURCES :: NTSTATUS where [status_defs]: "STATUS_INSUFFICIENT_RESOURCES = 0xC000009A"
definition STATUS_NOT_SUPPORTED :: NTSTATUS where [status_defs]: "STATUS_NOT_SUPPORTED = 0xC00000BB"
definition STATUS_CANCELLED :: NTSTATUS where [status_defs]: "STATUS_CANCELLED = 0xC0000120"
definition STATUS_INVALID_DEVICE_STATE :: NTSTATUS where [status_defs]: "STATUS_INVALID_DEVICE_STATE = 0xC0000184"
definition STATUS_NOT_FOUND :: NTSTATUS where [status_defs]: "STATUS_NOT_FOUND = 0xC0000225"
definition STATUS_DEVICE_FEATURE_NOT_SUPPORTED :: NTSTATUS where [status_defs]: "STATUS_DEVICE_FEATURE_NOT_SUPPORTED = 0xC0000463"

lemma NT_SUCCESS_codes [simp]:
  "NT_SUCCESS STATUS_SUCCESS"
  "\<not> NT_SUCCESS STATUS_BUFFER_OVERFLOW"
  "\<not> NT_SUCCESS STATUS_DEVICE_BUSY"
  "\<not> NT_SUCCESS STATUS_NO_MORE_ENTRIES"
  "\<not> NT_SUCCESS STATUS_UNSUCCESSFUL"
  "\<not> NT_SUCCESS STATUS_NOT_IMPLEMENTED"
  "\<not> NT_SUCCESS STATUS_INVALID_HANDLE"
  "\<not> NT_SUCCESS STATUS_INVALID_PARAMETER"
  "\<not> NT_SUCCESS STATUS_INVALID_DEVICE_REQUEST"
  "\<not> NT_SUCCESS STATUS_BUFFER_TOO_SMALL"
  "\<not> NT_SUCCESS STATUS_OBJECT_NAME_NOT_FOUND"
  "\<not> NT_SUCCESS STATUS_INSUFFICIENT_RESOURCES"
  "\<not> NT_SUCCESS STATUS_NOT_SUPPORTED"
  "\<not> NT_SUCCESS STATUS_CANCELLED"
  "\<not> NT_SUCCESS STATUS_INVALID_DEVICE_STATE"
  "\<not> NT_SUCCESS STATUS_NOT_FOUND"
  "\<not> NT_SUCCESS STATUS_DEVICE_FEATURE_NOT_SUPPORTED"
  by (simp_all add: NT_SUCCESS_def status_defs)

lemma STATUS_SUCCESS_neq [simp]:
  "STATUS_SUCCESS \<noteq> STATUS_BUFFER_OVERFLOW" "STATUS_BUFFER_OVERFLOW \<noteq> STATUS_SUCCESS"
  "STATUS_SUCCESS \<noteq> STATUS_BUFFER_TOO_SMALL" "STATUS_BUFFER_TOO_SMALL \<noteq> STATUS_SUCCESS"
  "STATUS_SUCCESS \<noteq> STATUS_INVALID_PARAMETER" "STATUS_INVALID_PARAMETER \<noteq> STATUS_SUCCESS"
  "STATUS_SUCCESS \<noteq> STATUS_UNSUCCESSFUL" "STATUS_UNSUCCESSFUL \<noteq> STATUS_SUCCESS"
  "STATUS_BUFFER_TOO_SMALL \<noteq> STATUS_BUFFER_OVERFLOW" "STATUS_BUFFER_OVERFLOW \<noteq> STATUS_BUFFER_TOO_SMALL"
  "STATUS_UNSUCCESSFUL \<noteq> STATUS_BUFFER_OVERFLOW" "STATUS_BUFFER_OVERFLOW \<noteq> STATUS_UNSUCCESSFUL"
  "STATUS_INVALID_PARAMETER \<noteq> STATUS_BUFFER_OVERFLOW" "STATUS_BUFFER_OVERFLOW \<noteq> STATUS_INVALID_PARAMETER"
  by (simp_all add: status_defs)

section \<open>Unsigned 32-bit values as numbers\<close>

lemma unat_of_nat_ULONG: "x < 4294967296 \<Longrightarrow> unat (of_nat x :: ULONG) = x"
  by (simp add: unat_of_nat)

lemma unat_le_iff: "(m :: ULONG) \<le> n \<longleftrightarrow> unat m \<le> unat n"
  by (rule word_le_nat_alt)

lemma unat_less_iff: "(m :: ULONG) < n \<longleftrightarrow> unat m < unat n"
  by (rule word_less_nat_alt)

lemma unat_ULONG_less: "unat (n :: ULONG) < 4294967296"
  using unsigned_less [of n] by simp

lemma unat_add_ULONG:
  "unat (m :: ULONG) + unat n < 4294967296 \<Longrightarrow> unat (m + n) = unat m + unat n"
  by (simp add: unat_word_ariths)

text \<open>
  Where the code does mostly index arithmetic on ULONG, the model keeps the number and writes the
  wrap-around out: \<open>ulong\<close> reduces a result to 32 bits and \<open>usub\<close> is the unsigned subtraction.
\<close>

definition ulong :: "nat \<Rightarrow> nat" where "ulong n = n mod 4294967296"

definition usub :: "nat \<Rightarrow> nat \<Rightarrow> nat" where "usub a b = ulong (a + (4294967296 - b))"

lemma ulong_id [simp]: "n < 4294967296 \<Longrightarrow> ulong n = n"
  by (simp add: ulong_def)

lemma ulong_less [simp]: "ulong n < 4294967296"
  by (simp add: ulong_def)

lemma usub_id [simp]: "b \<le> a \<Longrightarrow> a < 4294967296 \<Longrightarrow> usub a b = a - b"
proof -
  assume a: "b \<le> a" "a < 4294967296"
  then have "a + (4294967296 - b) = (a - b) + 4294967296" by simp
  then have "usub a b = (a - b + 4294967296) mod 4294967296" by (simp only: usub_def ulong_def)
  then show ?thesis using a by (simp only: mod_add_self2) simp
qed

section \<open>Checked signed arithmetic\<close>

text \<open>
  The 32-bit \<open>long\<close> of the target. \<open>ck_long\<close> passes a mathematical result that fits and is
  \<open>None\<close> on a signed overflow. The truncating division of C is \<open>sdiv\<close>.
\<close>

definition LONG_MIN :: int where [const_defs]: "LONG_MIN = -2147483648"
definition LONG_MAX :: int where [const_defs]: "LONG_MAX = 2147483647"

definition ck_long :: "int \<Rightarrow> int option" where
  "ck_long x = (if LONG_MIN \<le> x \<and> x \<le> LONG_MAX then Some x else None)"

lemma ck_long_Some [simp]: "LONG_MIN \<le> x \<Longrightarrow> x \<le> LONG_MAX \<Longrightarrow> ck_long x = Some x"
  by (simp add: ck_long_def)

lemma sint_long_range: "LONG_MIN \<le> sint (v :: LONG)" "sint (v :: LONG) \<le> LONG_MAX"
  using sint_range_size [of v] by (auto simp: const_defs word_size)

lemma sint_word_of_int_long:
  "LONG_MIN \<le> x \<Longrightarrow> x \<le> LONG_MAX \<Longrightarrow> sint (word_of_int x :: LONG) = x"
  by (simp add: const_defs sint_sbintrunc' signed_take_bit_int_eq_self_iff)

section \<open>Memory cells that may fault\<close>

text \<open>\<open>load\<close> and \<open>store\<close> access one element of a buffer; outside the buffer they fault.\<close>

definition load :: "'a list \<Rightarrow> nat \<Rightarrow> 'a option" where
  "load b i = (if i < length b then Some (b ! i) else None)"

definition store :: "'a list \<Rightarrow> nat \<Rightarrow> 'a \<Rightarrow> 'a list option" where
  "store b i v = (if i < length b then Some (b[i := v]) else None)"

text \<open>\<open>store_all b i vs\<close> stores consecutive elements (a struct or a memory copy).\<close>

fun store_all :: "'a list \<Rightarrow> nat \<Rightarrow> 'a list \<Rightarrow> 'a list option" where
  "store_all b i [] = Some b"
| "store_all b i (v # vs) = do { b' \<leftarrow> store b i v; store_all b' (Suc i) vs }"

lemma store_all_eq:
  "i + length vs \<le> length b \<Longrightarrow>
     store_all b i vs = Some (take i b @ vs @ drop (i + length vs) b)"
proof (induction vs arbitrary: b i)
  case Nil
  then show ?case by simp
next
  case (Cons v vs)
  then have i: "i < length b" by simp
  have "store_all (b[i := v]) (Suc i) vs
      = Some (take (Suc i) (b[i := v]) @ vs @ drop (Suc i + length vs) (b[i := v]))"
    using Cons.prems by (intro Cons.IH) simp
  also have "take (Suc i) (b[i := v]) = take i b @ [v]"
    using i by (simp add: take_Suc_conv_app_nth)
  finally show ?case using i by (simp add: store_def)
qed

lemma store_all_None: "length b < i + length vs \<Longrightarrow> vs \<noteq> [] \<Longrightarrow> store_all b i vs = None"
proof (induction vs arbitrary: b i)
  case (Cons v vs)
  show ?case
  proof (cases "vs = []")
    case True
    with Cons.prems show ?thesis by (simp add: store_def)
  next
    case False
    with Cons.prems have "store_all (b[i := v]) (Suc i) vs = None"
      by (intro Cons.IH) simp_all
    then show ?thesis by (simp add: store_def)
  qed
qed simp

lemma store_all_length: "store_all b i vs = Some b' \<Longrightarrow> length b' = length b"
  by (induction vs arbitrary: b i) (auto simp: store_def split: if_splits Option.bind_splits)

lemma store_all_Some_iff:
  "vs \<noteq> [] \<Longrightarrow> (\<exists>b'. store_all b i vs = Some b') \<longleftrightarrow> i + length vs \<le> length b"
  by (metis linorder_not_less option.distinct(1) store_all_None store_all_eq)

section \<open>Slices of a buffer\<close>

definition slice :: "'a list \<Rightarrow> nat \<Rightarrow> nat \<Rightarrow> 'a list" where
  "slice xs i n = take n (drop i xs)"

definition put_slice :: "'a list \<Rightarrow> nat \<Rightarrow> 'a list \<Rightarrow> 'a list" where
  "put_slice xs i vs = take i xs @ vs @ drop (i + length vs) xs"

lemma length_slice [simp]: "i + n \<le> length xs \<Longrightarrow> length (slice xs i n) = n"
  by (simp add: slice_def)

lemma length_put_slice [simp]: "i + length vs \<le> length xs \<Longrightarrow> length (put_slice xs i vs) = length xs"
  by (simp add: put_slice_def)

lemma store_all_put_slice: "i + length vs \<le> length b \<Longrightarrow> store_all b i vs = Some (put_slice b i vs)"
  by (simp add: store_all_eq put_slice_def)

lemma slice_put_same: "i + length vs \<le> length xs \<Longrightarrow> slice (put_slice xs i vs) i (length vs) = vs"
  by (simp add: slice_def put_slice_def)

lemma slice_put_other:
  assumes "i + length vs \<le> length xs" and "j + n \<le> length xs" and "j + n \<le> i \<or> i + length vs \<le> j"
  shows "slice (put_slice xs i vs) j n = slice xs j n"
proof (rule nth_equalityI)
  show "length (slice (put_slice xs i vs) j n) = length (slice xs j n)" using assms by simp
  fix k assume "k < length (slice (put_slice xs i vs) j n)"
  then have k: "k < n" using assms by simp
  then show "slice (put_slice xs i vs) j n ! k = slice xs j n ! k"
    using assms by (auto simp: slice_def put_slice_def nth_append)
qed

lemma slice_append: "i + m + n \<le> length xs \<Longrightarrow> slice xs i (m + n) = slice xs i m @ slice xs (i + m) n"
  by (simp add: slice_def take_add add.commute)

lemma slice_Suc: "i < length xs \<Longrightarrow> slice xs i (Suc n) = xs ! i # slice xs (Suc i) n"
  by (simp add: slice_def Cons_nth_drop_Suc [symmetric])

lemma slice_0 [simp]: "slice xs i 0 = []"
  by (simp add: slice_def)

lemma drop_slice: "drop k (slice xs i (k + n)) = slice xs (i + k) n"
  by (simp add: slice_def drop_take add.commute)

text \<open>RtlCopyMemory between two buffers, with the offsets of its pointers.\<close>

definition rtl_copy :: "BYTE list \<Rightarrow> nat \<Rightarrow> BYTE list \<Rightarrow> nat \<Rightarrow> nat \<Rightarrow> BYTE list option" where
  "rtl_copy dst off src soff n =
     (if off + n \<le> length dst \<and> soff + n \<le> length src
      then Some (put_slice dst off (slice src soff n)) else None)"

lemma rtl_copy_eq:
  "off + n \<le> length dst \<Longrightarrow> soff + n \<le> length src \<Longrightarrow>
     rtl_copy dst off src soff n = Some (put_slice dst off (slice src soff n))"
  by (simp add: rtl_copy_def)

lemma put_slice_append:
  "i + length us + length vs \<le> length xs \<Longrightarrow>
     put_slice (put_slice xs i us) (i + length us) vs = put_slice xs i (us @ vs)"
  by (simp add: put_slice_def ac_simps)

lemma put_slice_Nil [simp]: "put_slice xs i [] = xs"
  by (simp add: put_slice_def)

end
