(* ===== verification/Normalize.thy ===== *)
theory Normalize
  imports DriverBase
begin

text \<open>
  The level normalisation macros of sysvad.h. The driver rounds every volume it is asked to set
  to a multiple of the stepping delta inside the advertised range. The macros work on the signed
  32-bit \<open>long\<close>; each addition, product and negation is checked, so a signed overflow is
  \<open>None\<close>. The lemmas show when the macros are defined, that the result is a multiple of the
  step nearest to the argument, and that the volume macro is total, monotone and idempotent.
\<close>

definition VOLUME_STEPPING_DELTA :: int where [const_defs]: "VOLUME_STEPPING_DELTA = 0x8000"
definition VOLUME_SIGNED_MAXIMUM :: int where [const_defs]: "VOLUME_SIGNED_MAXIMUM = 0"
definition VOLUME_SIGNED_MINIMUM :: int where [const_defs]: "VOLUME_SIGNED_MINIMUM = -96 * 0x10000"
definition PEAKMETER_STEPPING_DELTA :: int where [const_defs]: "PEAKMETER_STEPPING_DELTA = 0x1000"
definition PEAKMETER_SIGNED_MAXIMUM :: int where [const_defs]: "PEAKMETER_SIGNED_MAXIMUM = LONG_MAX"
definition PEAKMETER_SIGNED_MINIMUM :: int where [const_defs]: "PEAKMETER_SIGNED_MINIMUM = LONG_MIN"

section \<open>The macros\<close>

definition VALUE_NORMALIZE_P :: "int \<Rightarrow> int \<Rightarrow> int option" where
  "VALUE_NORMALIZE_P v step =
     do { s \<leftarrow> ck_long (v + step sdiv 2); ck_long ((s sdiv step) * step) }"

definition VALUE_NORMALIZE :: "int \<Rightarrow> int \<Rightarrow> int option" where
  "VALUE_NORMALIZE v step =
     (if v > 0 then VALUE_NORMALIZE_P v step
      else do { m \<leftarrow> ck_long (- v); p \<leftarrow> VALUE_NORMALIZE_P m step; ck_long (- p) })"

definition VALUE_NORMALIZE_IN_RANGE_EX :: "int \<Rightarrow> int \<Rightarrow> int \<Rightarrow> int \<Rightarrow> int option" where
  "VALUE_NORMALIZE_IN_RANGE_EX v mn mx step =
     (if v > mx then Some mx else if v < mn then Some mn else VALUE_NORMALIZE v step)"

definition VOLUME_NORMALIZE_IN_RANGE :: "int \<Rightarrow> int option" where
  "VOLUME_NORMALIZE_IN_RANGE v =
     VALUE_NORMALIZE_IN_RANGE_EX v VOLUME_SIGNED_MINIMUM VOLUME_SIGNED_MAXIMUM VOLUME_STEPPING_DELTA"

definition PEAKMETER_NORMALIZE_IN_RANGE :: "int \<Rightarrow> int option" where
  "PEAKMETER_NORMALIZE_IN_RANGE v =
     VALUE_NORMALIZE_IN_RANGE_EX v PEAKMETER_SIGNED_MINIMUM PEAKMETER_SIGNED_MAXIMUM
       PEAKMETER_STEPPING_DELTA"

section \<open>Rounding to the nearest multiple\<close>

text \<open>The mathematical rounding the macros compute: to the nearest multiple, halves away from zero.\<close>

definition round_step :: "int \<Rightarrow> int \<Rightarrow> int" where
  "round_step v step =
     (if v > 0 then (v + step div 2) div step * step else - ((- v + step div 2) div step * step))"

lemma sdiv_nonneg: "0 \<le> (a :: int) \<Longrightarrow> 0 < b \<Longrightarrow> a sdiv b = a div b"
  by (cases "a = 0") (simp_all add: signed_divide_int_def)

lemma div_mult_bounds: "0 < (s :: int) \<Longrightarrow> a div s * s \<le> a \<and> a < a div s * s + s"
  using pos_mod_sign [of s a] pos_mod_bound [of s a]
  by (simp add: minus_mod_eq_div_mult [symmetric])

lemma VALUE_NORMALIZE_P_nonneg:
  assumes "0 < step" and "0 \<le> v" and "v + step div 2 \<le> LONG_MAX"
  shows "VALUE_NORMALIZE_P v step = Some ((v + step div 2) div step * step)"
proof -
  let ?a = "v + step div 2"
  have a: "0 \<le> ?a" using assms by simp
  have q: "0 \<le> ?a div step * step" "?a div step * step \<le> ?a"
    using assms a div_mult_bounds [of step ?a] by (simp_all add: pos_imp_zdiv_nonneg_iff)
  have "LONG_MIN \<le> 0" by (simp add: const_defs)
  then show ?thesis
    using assms a q by (simp add: VALUE_NORMALIZE_P_def sdiv_nonneg)
qed

lemma VALUE_NORMALIZE_defined:
  assumes "0 < step" and "\<bar>v\<bar> + step div 2 \<le> LONG_MAX"
  shows "VALUE_NORMALIZE v step = Some (round_step v step)"
proof (cases "v > 0")
  case True
  then show ?thesis
    using assms VALUE_NORMALIZE_P_nonneg [of step v]
    by (simp add: VALUE_NORMALIZE_def round_step_def)
next
  case False
  let ?a = "- v + step div 2"
  have st: "0 \<le> step div 2" using assms by simp
  have a: "0 \<le> ?a" using st False by simp
  have q: "0 \<le> ?a div step * step" "?a div step * step \<le> ?a"
    using assms(1) a div_mult_bounds [of step ?a] by (simp_all del: uminus_add_conv_diff add: pos_imp_zdiv_nonneg_iff)
  have "LONG_MIN = - LONG_MAX - 1" "0 \<le> LONG_MAX" by (simp_all add: const_defs)
  then show ?thesis
    using assms False st q VALUE_NORMALIZE_P_nonneg [of step "- v"]
    by (simp add: VALUE_NORMALIZE_def round_step_def)
qed

lemma round_step_dvd: "step dvd round_step v step"
  by (simp add: round_step_def)

lemma round_step_nearest:
  assumes "0 < step"
  shows "2 * \<bar>round_step v step - v\<bar> \<le> step"
proof -
  define h where "h = step div 2"
  have h: "2 * h \<le> step" "step \<le> 2 * h + 1" unfolding h_def by simp_all
  have near: "2 * \<bar>(m + h) div step * step - m\<bar> \<le> step" for m
  proof -
    have "2 * \<bar>q - m\<bar> \<le> step" if "q \<le> m + h" "m + h < q + step" for q
      using that h by arith
    then show ?thesis using div_mult_bounds [OF assms, of "m + h"] by blast
  qed
  show ?thesis
    using near [of v] near [of "- v"]
    unfolding round_step_def h_def [symmetric] by (auto simp: abs_minus_commute add.commute)
qed

lemma round_step_multiple:
  assumes "0 < step" and "step dvd v"
  shows "round_step v step = v"
proof -
  obtain k where k: "v = step * k" using assms by blast
  have h: "0 \<le> step div 2" "step div 2 < step" using assms by auto
  have "(step * m + step div 2) div step = m" for m
    using h by simp
  from this [of k] this [of "- k"] show ?thesis
    unfolding round_step_def k by (simp add: mult.commute)
qed

lemma round_step_mono:
  assumes "0 < step" and "v \<le> w"
  shows "round_step v step \<le> round_step w step"
proof -
  have h: "0 \<le> step div 2" "step div 2 < step" using assms by auto
  have P: "0 \<le> (m + step div 2) div step * step" if "0 \<le> m" for m
    using that h assms by (simp add: pos_imp_zdiv_nonneg_iff)
  have M: "(m + step div 2) div step * step \<le> (n + step div 2) div step * step" if "m \<le> n" for m n
    using that assms by (simp add: zdiv_mono1)
  show ?thesis
    using assms P [of "- v"] P [of w] M [of v w] M [of "- w" "- v"]
    by (auto simp: round_step_def)
qed

section \<open>The volume macro\<close>

lemma VOLUME_NORMALIZE_total:
  "VOLUME_NORMALIZE_IN_RANGE v =
     Some (round_step (max VOLUME_SIGNED_MINIMUM (min VOLUME_SIGNED_MAXIMUM v)) VOLUME_STEPPING_DELTA)"
proof -
  let ?r = "\<lambda>x. round_step x VOLUME_STEPPING_DELTA"
  have e: "?r VOLUME_SIGNED_MAXIMUM = VOLUME_SIGNED_MAXIMUM"
          "?r VOLUME_SIGNED_MINIMUM = VOLUME_SIGNED_MINIMUM"
    by (simp_all add: const_defs round_step_def)
  have d: "VALUE_NORMALIZE v VOLUME_STEPPING_DELTA = Some (?r v)"
    if "VOLUME_SIGNED_MINIMUM \<le> v" "v \<le> VOLUME_SIGNED_MAXIMUM"
    using that by (intro VALUE_NORMALIZE_defined) (simp_all add: const_defs)
  have o: "VOLUME_SIGNED_MINIMUM \<le> VOLUME_SIGNED_MAXIMUM" by (simp add: const_defs)
  show ?thesis
    using o by (auto simp: VOLUME_NORMALIZE_IN_RANGE_def VALUE_NORMALIZE_IN_RANGE_EX_def e d
        max_def min_def)
qed

lemma VOLUME_NORMALIZE_range:
  assumes "VOLUME_NORMALIZE_IN_RANGE v = Some w"
  shows "VOLUME_SIGNED_MINIMUM \<le> w \<and> w \<le> VOLUME_SIGNED_MAXIMUM \<and> VOLUME_STEPPING_DELTA dvd w"
proof -
  let ?c = "max VOLUME_SIGNED_MINIMUM (min VOLUME_SIGNED_MAXIMUM v)"
  have w: "w = round_step ?c VOLUME_STEPPING_DELTA"
    using assms by (simp add: VOLUME_NORMALIZE_total)
  have "VOLUME_SIGNED_MINIMUM \<le> ?c" "?c \<le> VOLUME_SIGNED_MAXIMUM" by (simp_all add: const_defs)
  then have "round_step VOLUME_SIGNED_MINIMUM VOLUME_STEPPING_DELTA \<le> w"
      "w \<le> round_step VOLUME_SIGNED_MAXIMUM VOLUME_STEPPING_DELTA"
    unfolding w by (simp_all add: round_step_mono const_defs)
  moreover have "round_step VOLUME_SIGNED_MINIMUM VOLUME_STEPPING_DELTA = VOLUME_SIGNED_MINIMUM"
      "round_step VOLUME_SIGNED_MAXIMUM VOLUME_STEPPING_DELTA = VOLUME_SIGNED_MAXIMUM"
    by (simp_all add: const_defs round_step_def)
  ultimately show ?thesis by (simp add: w round_step_dvd)
qed

text \<open>
  C1. Every volume a client asks for, over the whole range of the 32-bit \<open>long\<close>, is normalised
  without a signed overflow: the result lies in the advertised range [-96 dB, 0 dB], is a
  multiple of the stepping delta, is a fixed point of the macro, is within half a step of the
  argument clamped to the range, and the macro is monotone.
\<close>

theorem volume_normalize_correct:
  shows "\<exists>w. VOLUME_NORMALIZE_IN_RANGE v = Some w
      \<and> VOLUME_SIGNED_MINIMUM \<le> w \<and> w \<le> VOLUME_SIGNED_MAXIMUM
      \<and> VOLUME_STEPPING_DELTA dvd w
      \<and> VOLUME_NORMALIZE_IN_RANGE w = Some w
      \<and> 2 * \<bar>w - max VOLUME_SIGNED_MINIMUM (min VOLUME_SIGNED_MAXIMUM v)\<bar> \<le> VOLUME_STEPPING_DELTA
      \<and> the (VOLUME_NORMALIZE_IN_RANGE (min v u)) \<le> w"
proof -
  let ?n = "\<lambda>x. max VOLUME_SIGNED_MINIMUM (min VOLUME_SIGNED_MAXIMUM x)"
  define w where "w = round_step (?n v) VOLUME_STEPPING_DELTA"
  have s: "0 < VOLUME_STEPPING_DELTA" by (simp add: const_defs)
  have d: "VOLUME_NORMALIZE_IN_RANGE v = Some w" by (simp add: VOLUME_NORMALIZE_total w_def)
  note r = VOLUME_NORMALIZE_range [OF d]
  then have "?n w = w" by simp
  then have "VOLUME_NORMALIZE_IN_RANGE w = Some w"
    using r s by (simp add: VOLUME_NORMALIZE_total round_step_multiple)
  moreover have "2 * \<bar>w - ?n v\<bar> \<le> VOLUME_STEPPING_DELTA"
    unfolding w_def by (rule round_step_nearest [OF s])
  moreover have "the (VOLUME_NORMALIZE_IN_RANGE (min v u)) \<le> w"
    unfolding w_def VOLUME_NORMALIZE_total option.sel by (rule round_step_mono [OF s]) simp
  ultimately show ?thesis using d r by blast
qed

section \<open>The peak meter macro\<close>

text \<open>
  The peak-meter range is the whole \<open>long\<close>, so its clamp does nothing and the rounding itself
  may overflow near both ends.
\<close>

lemma PEAKMETER_NORMALIZE_defined:
  assumes "\<bar>v\<bar> \<le> LONG_MAX - 0x800"
  shows "PEAKMETER_NORMALIZE_IN_RANGE v = Some (round_step v PEAKMETER_STEPPING_DELTA)"
proof -
  have "VALUE_NORMALIZE v PEAKMETER_STEPPING_DELTA = Some (round_step v PEAKMETER_STEPPING_DELTA)"
    using assms by (intro VALUE_NORMALIZE_defined) (simp_all add: const_defs)
  moreover have "\<not> PEAKMETER_SIGNED_MAXIMUM < v" "\<not> v < PEAKMETER_SIGNED_MINIMUM"
    using assms by (simp_all add: const_defs)
  ultimately show ?thesis
    by (simp add: PEAKMETER_NORMALIZE_IN_RANGE_def VALUE_NORMALIZE_IN_RANGE_EX_def)
qed

lemma PEAKMETER_NORMALIZE_overflow:
  assumes "LONG_MIN \<le> v" and "v \<le> LONG_MAX" and "LONG_MAX - 0x800 < \<bar>v\<bar>"
  shows "PEAKMETER_NORMALIZE_IN_RANGE v = None"
  using assms
  by (auto simp: PEAKMETER_NORMALIZE_IN_RANGE_def VALUE_NORMALIZE_IN_RANGE_EX_def
      VALUE_NORMALIZE_def VALUE_NORMALIZE_P_def ck_long_def const_defs sdiv_nonneg
      split: Option.bind_splits if_splits)

end
