(* ===== verification/MixerHw.thy ===== *)
theory MixerHw
  imports Normalize
begin

text \<open>
  The virtual mixer hardware: class CSYSVADHW of hw.cpp (registers for volume, mute and peak
  meter per topology node, the mux, three device-specific values) and the accessors of
  CAdapterCommon in common.cpp that forward to it when \<open>m_pHW\<close> is not NULL. The register arrays
  are lists of MAX_TOPOLOGY_NODES elements (\<open>hw_ok\<close>). The locale \<open>register_bank\<close> is the contract
  a property handler relies on when it reads and writes a bank of registers; it is interpreted on
  the volume and the mute accessors of the adapter object.
\<close>

section \<open>CSYSVADHW\<close>

definition MAX_TOPOLOGY_NODES :: nat where [const_defs]: "MAX_TOPOLOGY_NODES = 20"

record CSYSVADHW =
  m_MuteControls :: "BOOL list"
  m_VolumeControls :: "LONG list"
  m_PeakMeterControls :: "LONG list"
  m_ulMux :: ULONG
  m_bDevSpecific :: BOOL
  m_iDevSpecific :: LONG
  m_uiDevSpecific :: ULONG

definition hw_ok :: "CSYSVADHW \<Rightarrow> bool" where
  "hw_ok hw \<longleftrightarrow> length (m_MuteControls hw) = MAX_TOPOLOGY_NODES
     \<and> length (m_VolumeControls hw) = MAX_TOPOLOGY_NODES
     \<and> length (m_PeakMeterControls hw) = MAX_TOPOLOGY_NODES"

definition hw_MixerReset :: "CSYSVADHW \<Rightarrow> CSYSVADHW" where
  "hw_MixerReset hw = hw \<lparr>
     m_VolumeControls := replicate MAX_TOPOLOGY_NODES 0xFFFFFFFF,
     m_MuteControls := replicate MAX_TOPOLOGY_NODES 0,
     m_PeakMeterControls := replicate MAX_TOPOLOGY_NODES (word_of_int (PEAKMETER_SIGNED_MAXIMUM sdiv 2)),
     m_ulMux := 2 \<rparr>"

text \<open>The constructor runs on uninitialised arrays, the argument \<open>raw\<close>.\<close>

definition CSYSVADHW_ctor :: "CSYSVADHW \<Rightarrow> CSYSVADHW" where
  "CSYSVADHW_ctor raw = hw_MixerReset (raw \<lparr> m_ulMux := 0, m_bDevSpecific := FALSE_BOOL,
     m_iDevSpecific := 0, m_uiDevSpecific := 0 \<rparr>)"

definition hw_bGetDevSpecific :: "CSYSVADHW \<Rightarrow> BOOL" where
  "hw_bGetDevSpecific hw = m_bDevSpecific hw"

definition hw_bSetDevSpecific :: "CSYSVADHW \<Rightarrow> BOOL \<Rightarrow> CSYSVADHW" where
  "hw_bSetDevSpecific hw b = hw \<lparr> m_bDevSpecific := b \<rparr>"

definition hw_iGetDevSpecific :: "CSYSVADHW \<Rightarrow> LONG" where
  "hw_iGetDevSpecific hw = m_iDevSpecific hw"

definition hw_iSetDevSpecific :: "CSYSVADHW \<Rightarrow> LONG \<Rightarrow> CSYSVADHW" where
  "hw_iSetDevSpecific hw i = hw \<lparr> m_iDevSpecific := i \<rparr>"

definition hw_uiGetDevSpecific :: "CSYSVADHW \<Rightarrow> ULONG" where
  "hw_uiGetDevSpecific hw = m_uiDevSpecific hw"

definition hw_uiSetDevSpecific :: "CSYSVADHW \<Rightarrow> ULONG \<Rightarrow> CSYSVADHW" where
  "hw_uiSetDevSpecific hw u = hw \<lparr> m_uiDevSpecific := u \<rparr>"

definition hw_GetMixerMute :: "CSYSVADHW \<Rightarrow> ULONG \<Rightarrow> ULONG \<Rightarrow> BOOL" where
  "hw_GetMixerMute hw ulNode ulChannel =
     (if unat ulNode < MAX_TOPOLOGY_NODES then m_MuteControls hw ! unat ulNode else 0)"

definition hw_GetMixerMux :: "CSYSVADHW \<Rightarrow> ULONG" where
  "hw_GetMixerMux hw = m_ulMux hw"

definition hw_GetMixerVolume :: "CSYSVADHW \<Rightarrow> ULONG \<Rightarrow> ULONG \<Rightarrow> LONG" where
  "hw_GetMixerVolume hw ulNode ulChannel =
     (if unat ulNode < MAX_TOPOLOGY_NODES then m_VolumeControls hw ! unat ulNode else 0)"

definition hw_GetMixerPeakMeter :: "CSYSVADHW \<Rightarrow> ULONG \<Rightarrow> ULONG \<Rightarrow> LONG" where
  "hw_GetMixerPeakMeter hw ulNode ulChannel =
     (if unat ulNode < MAX_TOPOLOGY_NODES then m_PeakMeterControls hw ! unat ulNode else 0)"

definition hw_SetMixerMute :: "CSYSVADHW \<Rightarrow> ULONG \<Rightarrow> ULONG \<Rightarrow> BOOL \<Rightarrow> CSYSVADHW" where
  "hw_SetMixerMute hw ulNode ulChannel fMute =
     (if unat ulNode < MAX_TOPOLOGY_NODES
      then hw \<lparr> m_MuteControls := (m_MuteControls hw)[unat ulNode := fMute] \<rparr> else hw)"

definition hw_SetMixerMux :: "CSYSVADHW \<Rightarrow> ULONG \<Rightarrow> CSYSVADHW" where
  "hw_SetMixerMux hw ulNode = hw \<lparr> m_ulMux := ulNode \<rparr>"

definition hw_SetMixerVolume :: "CSYSVADHW \<Rightarrow> ULONG \<Rightarrow> ULONG \<Rightarrow> LONG \<Rightarrow> CSYSVADHW" where
  "hw_SetMixerVolume hw ulNode ulChannel lVolume =
     (if unat ulNode < MAX_TOPOLOGY_NODES
      then hw \<lparr> m_VolumeControls := (m_VolumeControls hw)[unat ulNode := lVolume] \<rparr> else hw)"

lemmas hw_defs = hw_MixerReset_def CSYSVADHW_ctor_def hw_bGetDevSpecific_def hw_bSetDevSpecific_def
  hw_iGetDevSpecific_def hw_iSetDevSpecific_def hw_uiGetDevSpecific_def hw_uiSetDevSpecific_def
  hw_GetMixerMute_def hw_GetMixerMux_def hw_GetMixerVolume_def hw_GetMixerPeakMeter_def
  hw_SetMixerMute_def hw_SetMixerMux_def hw_SetMixerVolume_def

lemma hw_ok_ctor [simp]: "hw_ok (CSYSVADHW_ctor raw)"
  by (simp add: hw_ok_def hw_defs)

lemma hw_ok_preserved [simp]:
  "hw_ok (hw_MixerReset hw)"
  "hw_ok hw \<Longrightarrow> hw_ok (hw_SetMixerMute hw n c b)"
  "hw_ok hw \<Longrightarrow> hw_ok (hw_SetMixerVolume hw n c v)"
  "hw_ok hw \<Longrightarrow> hw_ok (hw_SetMixerMux hw n)"
  "hw_ok hw \<Longrightarrow> hw_ok (hw_bSetDevSpecific hw b)"
  "hw_ok hw \<Longrightarrow> hw_ok (hw_iSetDevSpecific hw i)"
  "hw_ok hw \<Longrightarrow> hw_ok (hw_uiSetDevSpecific hw u)"
  by (simp_all add: hw_ok_def hw_defs)

section \<open>The accessors of the adapter object\<close>

text \<open>
  \<open>m_pHW\<close> of CAdapterCommon: NULL before Init and after Cleanup, so an option. Every accessor is
  guarded by \<open>if (m_pHW)\<close>.
\<close>

type_synonym m_pHW = "CSYSVADHW option"

definition bDevSpecificRead :: "m_pHW \<Rightarrow> BOOL" where
  "bDevSpecificRead p = (case p of Some hw \<Rightarrow> hw_bGetDevSpecific hw | None \<Rightarrow> FALSE_BOOL)"

definition bDevSpecificWrite :: "m_pHW \<Rightarrow> BOOL \<Rightarrow> m_pHW" where
  "bDevSpecificWrite p b = map_option (\<lambda>hw. hw_bSetDevSpecific hw b) p"

definition iDevSpecificRead :: "m_pHW \<Rightarrow> LONG" where
  "iDevSpecificRead p = (case p of Some hw \<Rightarrow> hw_iGetDevSpecific hw | None \<Rightarrow> 0)"

definition iDevSpecificWrite :: "m_pHW \<Rightarrow> LONG \<Rightarrow> m_pHW" where
  "iDevSpecificWrite p i = map_option (\<lambda>hw. hw_iSetDevSpecific hw i) p"

definition uiDevSpecificRead :: "m_pHW \<Rightarrow> ULONG" where
  "uiDevSpecificRead p = (case p of Some hw \<Rightarrow> hw_uiGetDevSpecific hw | None \<Rightarrow> 0)"

definition uiDevSpecificWrite :: "m_pHW \<Rightarrow> ULONG \<Rightarrow> m_pHW" where
  "uiDevSpecificWrite p u = map_option (\<lambda>hw. hw_uiSetDevSpecific hw u) p"

definition MixerMuteRead :: "m_pHW \<Rightarrow> ULONG \<Rightarrow> ULONG \<Rightarrow> BOOL" where
  "MixerMuteRead p Index Channel =
     (case p of Some hw \<Rightarrow> hw_GetMixerMute hw Index Channel | None \<Rightarrow> 0)"

definition MixerMuteWrite :: "m_pHW \<Rightarrow> ULONG \<Rightarrow> ULONG \<Rightarrow> BOOL \<Rightarrow> m_pHW" where
  "MixerMuteWrite p Index Channel Value = map_option (\<lambda>hw. hw_SetMixerMute hw Index Channel Value) p"

definition MixerMuxRead :: "m_pHW \<Rightarrow> ULONG" where
  "MixerMuxRead p = (case p of Some hw \<Rightarrow> hw_GetMixerMux hw | None \<Rightarrow> 0)"

definition MixerMuxWrite :: "m_pHW \<Rightarrow> ULONG \<Rightarrow> m_pHW" where
  "MixerMuxWrite p Index = map_option (\<lambda>hw. hw_SetMixerMux hw Index) p"

definition MixerVolumeRead :: "m_pHW \<Rightarrow> ULONG \<Rightarrow> ULONG \<Rightarrow> LONG" where
  "MixerVolumeRead p Index Channel =
     (case p of Some hw \<Rightarrow> hw_GetMixerVolume hw Index Channel | None \<Rightarrow> 0)"

definition MixerVolumeWrite :: "m_pHW \<Rightarrow> ULONG \<Rightarrow> ULONG \<Rightarrow> LONG \<Rightarrow> m_pHW" where
  "MixerVolumeWrite p Index Channel Value =
     map_option (\<lambda>hw. hw_SetMixerVolume hw Index Channel Value) p"

definition MixerPeakMeterRead :: "m_pHW \<Rightarrow> ULONG \<Rightarrow> ULONG \<Rightarrow> LONG" where
  "MixerPeakMeterRead p Index Channel =
     (case p of Some hw \<Rightarrow> hw_GetMixerPeakMeter hw Index Channel | None \<Rightarrow> 0)"

definition MixerReset :: "m_pHW \<Rightarrow> m_pHW" where
  "MixerReset p = map_option hw_MixerReset p"

lemmas mixer_defs = bDevSpecificRead_def bDevSpecificWrite_def iDevSpecificRead_def
  iDevSpecificWrite_def uiDevSpecificRead_def uiDevSpecificWrite_def MixerMuteRead_def
  MixerMuteWrite_def MixerMuxRead_def MixerMuxWrite_def MixerVolumeRead_def MixerVolumeWrite_def
  MixerPeakMeterRead_def MixerReset_def

text \<open>The adapter after a successful Init: the object exists and its arrays have their size.\<close>

definition mixer_ok :: "m_pHW \<Rightarrow> bool" where
  "mixer_ok p = (case p of Some hw \<Rightarrow> hw_ok hw | None \<Rightarrow> False)"

lemma mixer_ok_preserved [simp]:
  "mixer_ok p \<Longrightarrow> mixer_ok (MixerReset p)"
  "mixer_ok p \<Longrightarrow> mixer_ok (MixerMuteWrite p n c b)"
  "mixer_ok p \<Longrightarrow> mixer_ok (MixerVolumeWrite p n c v)"
  "mixer_ok p \<Longrightarrow> mixer_ok (MixerMuxWrite p n)"
  "mixer_ok p \<Longrightarrow> mixer_ok (bDevSpecificWrite p b)"
  "mixer_ok p \<Longrightarrow> mixer_ok (iDevSpecificWrite p i)"
  "mixer_ok p \<Longrightarrow> mixer_ok (uiDevSpecificWrite p u)"
  by (simp_all add: mixer_ok_def mixer_defs split: option.splits)

section \<open>The contract of a register bank\<close>

text \<open>
  What the property handlers use of the mixer: a read after a write to a node returns the value
  written if the node exists, other nodes keep their value, the channel is ignored, and a write
  to the same node replaces the previous one.
\<close>

locale register_bank =
  fixes ok :: "'s \<Rightarrow> bool"
    and rd :: "'s \<Rightarrow> ULONG \<Rightarrow> ULONG \<Rightarrow> 'v"
    and wr :: "'s \<Rightarrow> ULONG \<Rightarrow> ULONG \<Rightarrow> 'v \<Rightarrow> 's"
  assumes wr_ok: "ok s \<Longrightarrow> ok (wr s n c v)"
    and rd_wr: "ok s \<Longrightarrow> unat n < MAX_TOPOLOGY_NODES \<Longrightarrow>
                  rd (wr s n c v) m d = (if m = n then v else rd s m d)"
    and wr_outside: "MAX_TOPOLOGY_NODES \<le> unat n \<Longrightarrow> wr s n c v = s"
    and wr_channel: "wr s n c v = wr s n d v"
    and wr_wr: "wr (wr s n c v) n d w = wr s n d w"
begin

text \<open>Writing a list of channels of one node, as a loop over the channels does.\<close>

lemma fold_wr_ok: "ok s \<Longrightarrow> ok (fold (\<lambda>i s. wr s n i v) is s)"
  by (induction "is" arbitrary: s) (simp_all add: wr_ok)

lemma fold_wr_collapse:
  "fold (\<lambda>i s. wr s n i v) is s = (if is = [] then s else wr s n c v)"
proof (induction "is" arbitrary: s)
  case (Cons i "is")
  have "wr (wr s n i v) n c v = wr s n c v" by (rule wr_wr)
  then show ?case using Cons.IH [of "wr s n i v"] wr_channel [of s n i v c] by simp
qed simp

lemma fold_wr_read:
  assumes "ok s" and "unat n < MAX_TOPOLOGY_NODES" and "is \<noteq> []"
  shows "rd (fold (\<lambda>i s. wr s n i v) is s) m d = (if m = n then v else rd s m d)"
  using assms by (simp add: fold_wr_collapse [where c = 0] rd_wr)

text \<open>A run of writes to arbitrary nodes and channels: each node holds the last value written.\<close>

lemma wr_other_commute_read:
  assumes "ok s" and "unat n < MAX_TOPOLOGY_NODES" and "unat m < MAX_TOPOLOGY_NODES" and "n \<noteq> m"
  shows "rd (wr (wr s n c v) m d w) n e = v"
  using assms by (simp add: rd_wr wr_ok)

end

lemma nth_update_unat:
  "unat (n :: ULONG) < length xs \<Longrightarrow> xs[unat n := v] ! unat m = (if m = n then v else xs ! unat m)"
  by (auto simp: nth_list_update dest: unsigned_word_eqI)

interpretation vol: register_bank mixer_ok MixerVolumeRead MixerVolumeWrite
proof
  fix p :: m_pHW and n m c d :: ULONG and v w :: LONG
  show "mixer_ok p \<Longrightarrow> mixer_ok (MixerVolumeWrite p n c v)" by simp
  show "mixer_ok p \<Longrightarrow> unat n < MAX_TOPOLOGY_NODES \<Longrightarrow>
      MixerVolumeRead (MixerVolumeWrite p n c v) m d = (if m = n then v else MixerVolumeRead p m d)"
    by (auto simp: mixer_ok_def hw_ok_def mixer_defs hw_defs nth_update_unat split: option.splits)
qed (auto simp: mixer_defs hw_defs option.map_comp comp_def map_option_case split: option.splits)

interpretation mute: register_bank mixer_ok MixerMuteRead MixerMuteWrite
proof
  fix p :: m_pHW and n m c d :: ULONG and v w :: BOOL
  show "mixer_ok p \<Longrightarrow> mixer_ok (MixerMuteWrite p n c v)" by simp
  show "mixer_ok p \<Longrightarrow> unat n < MAX_TOPOLOGY_NODES \<Longrightarrow>
      MixerMuteRead (MixerMuteWrite p n c v) m d = (if m = n then v else MixerMuteRead p m d)"
    by (auto simp: mixer_ok_def hw_ok_def mixer_defs hw_defs nth_update_unat split: option.splits)
qed (auto simp: mixer_defs hw_defs option.map_comp comp_def map_option_case split: option.splits)

end
