(* ===== verification/KsProperty.thy ===== *)
theory KsProperty
  imports MixerHw
begin

text \<open>
  The kernel-streaming property helpers of kshelper.cpp and kshelper.h: validation of the sizes
  of a request, dispatch of a SYSVADPROPERTY_ITEM, the basic-support answers and the handlers for
  CPU resources, volume, mute and peak meter.

  A request carries its value and its instance data as buffers of 32-bit slots: every field the
  handlers touch is an aligned 32-bit field (or a GUID of four slots). A buffer of \<open>n\<close> bytes has
  \<open>n div 4\<close> slots; an access outside the buffer or through a NULL pointer is \<open>None\<close>. The sizes of
  KSPROPERTY_DESCRIPTION (40), KSPROPERTY_MEMBERSHEADER (16), KSPROPERTY_STEPPING_LONG (16) and
  KSPROPERTY_BOUNDS_LONG (8) and their field order are those of ks.h.
\<close>

section \<open>Requests\<close>

definition KSPROPERTY_TYPE_GET :: ULONG where [const_defs]: "KSPROPERTY_TYPE_GET = 0x1"
definition KSPROPERTY_TYPE_SET :: ULONG where [const_defs]: "KSPROPERTY_TYPE_SET = 0x2"
definition KSPROPERTY_TYPE_BASICSUPPORT :: ULONG where
  [const_defs]: "KSPROPERTY_TYPE_BASICSUPPORT = 0x200"
definition KSPROPERTY_TYPE_ALL :: ULONG where
  [const_defs]: "KSPROPERTY_TYPE_ALL =
     KSPROPERTY_TYPE_BASICSUPPORT OR KSPROPERTY_TYPE_GET OR KSPROPERTY_TYPE_SET"

definition VT_I4 :: ULONG where [const_defs]: "VT_I4 = 3"
definition VT_BOOL :: ULONG where [const_defs]: "VT_BOOL = 11"
definition VT_UI4 :: ULONG where [const_defs]: "VT_UI4 = 19"
definition VT_ILLEGAL :: ULONG where [const_defs]: "VT_ILLEGAL = 0xFFFF"

definition KSPROPERTY_MEMBER_RANGES :: ULONG where [const_defs]: "KSPROPERTY_MEMBER_RANGES = 1"
definition KSPROPERTY_MEMBER_STEPPEDRANGES :: ULONG where
  [const_defs]: "KSPROPERTY_MEMBER_STEPPEDRANGES = 2"
definition KSPROPERTY_MEMBER_FLAG_BASICSUPPORT_MULTICHANNEL :: ULONG where
  [const_defs]: "KSPROPERTY_MEMBER_FLAG_BASICSUPPORT_MULTICHANNEL = 2"
definition KSAUDIO_CPU_RESOURCES_NOT_HOST_CPU :: ULONG where
  [const_defs]: "KSAUDIO_CPU_RESOURCES_NOT_HOST_CPU = 0"
definition ALL_CHANNELS_ID :: ULONG where [const_defs]: "ALL_CHANNELS_ID = 0xFFFFFFFF"

definition KSPROPTYPESETID_General :: "ULONG list" where
  "KSPROPTYPESETID_General = [0x97E99BA0, 0x11CFBDEA, 0xDB28D6A5, 0x0000C104]"
definition GUID_NULL :: "ULONG list" where "GUID_NULL = [0, 0, 0, 0]"

text \<open>The property identifiers the handlers distinguish.\<close>

datatype prop_id = KSPROPERTY_AUDIO_VOLUMELEVEL | KSPROPERTY_AUDIO_MUTE
  | KSPROPERTY_AUDIO_PEAKMETER2 | KSPROPERTY_AUDIO_CPU_RESOURCES
  | KSPROPERTY_AUDIO_MUX_SOURCE | KSPROPERTY_AUDIO_DEV_SPECIFIC | OtherProperty ULONG

record prop_request =
  Verb :: ULONG
  Node :: ULONG
  Id :: prop_id
  ItemFlags :: ULONG
  InstanceSize :: ULONG
  Instance :: "ULONG list option"
  ValueSize :: ULONG
  Value :: "ULONG list option"

definition has_flag :: "ULONG \<Rightarrow> ULONG \<Rightarrow> bool" where
  "has_flag v f \<longleftrightarrow> v AND f \<noteq> 0"

definition deref :: "ULONG list option \<Rightarrow> ULONG option" where
  "deref p = do { b \<leftarrow> p; load b 0 }"

definition write_value :: "prop_request \<Rightarrow> nat \<Rightarrow> ULONG list \<Rightarrow> prop_request option" where
  "write_value r i vs = do { b \<leftarrow> Value r; b' \<leftarrow> store_all b i vs; Some (r \<lparr> Value := Some b' \<rparr>) }"

definition set_size :: "prop_request \<Rightarrow> ULONG \<Rightarrow> prop_request" where
  "set_size r n = r \<lparr> ValueSize := n \<rparr>"

text \<open>
  A request as port class hands it over: a buffer is present exactly when its size is not 0
  bytes, and has the slots its size promises.
\<close>

definition buffer_ok :: "ULONG \<Rightarrow> ULONG list option \<Rightarrow> bool" where
  "buffer_ok n p = (case p of Some b \<Rightarrow> length b = unat n div 4 | None \<Rightarrow> n = 0)"

definition req_ok :: "prop_request \<Rightarrow> bool" where
  "req_ok r \<longleftrightarrow> buffer_ok (ValueSize r) (Value r) \<and> buffer_ok (InstanceSize r) (Instance r)"

section \<open>Wave formats\<close>

text \<open>
  \<open>GetWaveFormatEx\<close> selects the position of the WAVEFORMATEX behind a KSDATAFORMAT: directly
  behind it, or as the field WaveFormatEx of the KSDSOUND_BUFFERDESC that follows it.
\<close>

datatype format_guid = KSDATAFORMAT_TYPE_AUDIO | KSDATAFORMAT_SPECIFIER_WAVEFORMATEX
  | KSDATAFORMAT_SPECIFIER_DSOUND | OtherGuid nat

record KSDATAFORMAT =
  MajorFormat :: format_guid
  Specifier :: format_guid

datatype wfx_place = BehindDataFormat | InsideDsoundDesc

definition GetWaveFormatEx :: "KSDATAFORMAT option \<Rightarrow> wfx_place option" where
  "GetWaveFormatEx pDataFormat =
     (case pDataFormat of
        None \<Rightarrow> None
      | Some f \<Rightarrow>
          if MajorFormat f = KSDATAFORMAT_TYPE_AUDIO
             \<and> (Specifier f = KSDATAFORMAT_SPECIFIER_WAVEFORMATEX
                \<or> Specifier f = KSDATAFORMAT_SPECIFIER_DSOUND)
          then (if Specifier f = KSDATAFORMAT_SPECIFIER_DSOUND then Some InsideDsoundDesc
                else Some BehindDataFormat)
          else None)"

section \<open>Validation and dispatch\<close>

definition ValidatePropertyParams ::
  "prop_request option \<Rightarrow> ULONG \<Rightarrow> ULONG \<Rightarrow> NTSTATUS \<times> prop_request option" where
  "ValidatePropertyParams req cbValueSize cbInstanceSize =
     (case req of
        Some r \<Rightarrow>
          (let (st, r1) =
             (if cbValueSize \<noteq> 0 then
                if ValueSize r = 0 then (STATUS_BUFFER_OVERFLOW, set_size r cbValueSize)
                else if ValueSize r < cbValueSize then (STATUS_BUFFER_TOO_SMALL, r)
                else if InstanceSize r < cbInstanceSize then (STATUS_BUFFER_TOO_SMALL, r)
                else if cbValueSize \<le> ValueSize r \<and> Value r \<noteq> None then (STATUS_SUCCESS, r)
                else (STATUS_UNSUCCESSFUL, r)
              else (STATUS_INVALID_PARAMETER, r))
           in if st \<noteq> STATUS_SUCCESS \<and> st \<noteq> STATUS_BUFFER_OVERFLOW
              then (st, Some (set_size r1 0)) else (st, Some r1))
      | None \<Rightarrow> (STATUS_INVALID_PARAMETER, None))"

definition validate :: "prop_request \<Rightarrow> ULONG \<Rightarrow> ULONG \<Rightarrow> NTSTATUS \<times> prop_request" where
  "validate r cbValueSize cbInstanceSize =
     map_prod id the (ValidatePropertyParams (Some r) cbValueSize cbInstanceSize)"

definition PropertyHandler_BasicSupport ::
  "prop_request \<Rightarrow> ULONG \<Rightarrow> ULONG \<Rightarrow> (NTSTATUS \<times> prop_request) option" where
  "PropertyHandler_BasicSupport r Flags PropTypeSetId =
     (if 40 \<le> ValueSize r then do {
        r1 \<leftarrow> write_value r 0 ([Flags, 40]
               @ (if VT_ILLEGAL \<noteq> PropTypeSetId then KSPROPTYPESETID_General @ [PropTypeSetId]
                  else GUID_NULL @ [0])
               @ [0, 0, 0]);
        Some (STATUS_SUCCESS, set_size r1 40) }
      else if 4 \<le> ValueSize r then do {
        r1 \<leftarrow> write_value r 0 [Flags];
        Some (STATUS_SUCCESS, set_size r1 4) }
      else Some (STATUS_BUFFER_TOO_SMALL, set_size r 0))"

text \<open>
  A handler may use the state \<open>'s\<close> of its object. SYSVADPROPERTY_ITEM carries the minimum sizes
  and three handlers that may be NULL.
\<close>

type_synonym 's handler = "'s \<Rightarrow> prop_request \<Rightarrow> (NTSTATUS \<times> 's \<times> prop_request) option"

record 's SYSVADPROPERTY_ITEM =
  MinProperty :: ULONG
  MinData :: ULONG
  GetHandler :: "'s handler option"
  SetHandler :: "'s handler option"
  SupportHandler :: "'s handler option"

definition SysvadPropertyDispatch :: "'s SYSVADPROPERTY_ITEM \<Rightarrow> 's handler" where
  "SysvadPropertyDispatch item s r =
     (if has_flag (Verb r) KSPROPERTY_TYPE_BASICSUPPORT then
        (case SupportHandler item of
           Some h \<Rightarrow> h s r
         | None \<Rightarrow> do { (st, r1) \<leftarrow> PropertyHandler_BasicSupport r (ItemFlags r) VT_ILLEGAL;
                       Some (st, s, r1) })
      else if InstanceSize r < MinProperty item then Some (STATUS_INVALID_PARAMETER, s, r)
      else if ValueSize r = 0 then Some (STATUS_BUFFER_OVERFLOW, s, set_size r (MinData item))
      else if ValueSize r < MinData item then Some (STATUS_BUFFER_TOO_SMALL, s, set_size r 0)
      else if has_flag (Verb r) KSPROPERTY_TYPE_GET then
        (case GetHandler item of Some h \<Rightarrow> h s r | None \<Rightarrow> Some (STATUS_NOT_SUPPORTED, s, r))
      else if has_flag (Verb r) KSPROPERTY_TYPE_SET then
        (case SetHandler item of Some h \<Rightarrow> h s r | None \<Rightarrow> Some (STATUS_NOT_SUPPORTED, s, r))
      else Some (STATUS_INVALID_DEVICE_REQUEST, s, r))"

section \<open>Basic support of ranged properties\<close>

text \<open>\<open>cbFullProperty\<close>: a size_t expression converted to ULONG, so it wraps for a huge channel count.\<close>

definition cbFullProperty :: "ULONG \<Rightarrow> ULONG" where
  "cbFullProperty MaxChannels = of_nat (40 + 16 + 16 * unat MaxChannels)"

text \<open>The loop that fills entry \<open>i\<close> of the stepped ranges behind description and header.\<close>

fun put_ranges :: "nat \<Rightarrow> nat \<Rightarrow> ULONG list \<Rightarrow> prop_request \<Rightarrow> prop_request option" where
  "put_ranges i 0 entry r = Some r"
| "put_ranges i (Suc n) entry r =
     do { r1 \<leftarrow> write_value r (14 + 4 * i) entry; put_ranges (Suc i) n entry r1 }"

definition PropertyHandler_BasicSupportVolume ::
  "prop_request \<Rightarrow> ULONG \<Rightarrow> (NTSTATUS \<times> prop_request) option" where
  "PropertyHandler_BasicSupportVolume r MaxChannels =
     (if 40 \<le> ValueSize r then do {
        r1 \<leftarrow> write_value r 0 ([KSPROPERTY_TYPE_ALL, cbFullProperty MaxChannels]
               @ KSPROPTYPESETID_General @ [VT_I4, 0, 1, 0]);
        if cbFullProperty MaxChannels \<le> ValueSize r then do {
          r2 \<leftarrow> write_value r1 10 [KSPROPERTY_MEMBER_STEPPEDRANGES, 16, MaxChannels,
                  KSPROPERTY_MEMBER_FLAG_BASICSUPPORT_MULTICHANNEL];
          r3 \<leftarrow> put_ranges 0 (unat MaxChannels)
                  [word_of_int VOLUME_STEPPING_DELTA, 0, word_of_int VOLUME_SIGNED_MINIMUM,
                   word_of_int VOLUME_SIGNED_MAXIMUM] r2;
          Some (STATUS_SUCCESS, set_size r3 (cbFullProperty MaxChannels)) }
        else Some (STATUS_SUCCESS, set_size r1 40) }
      else if 4 \<le> ValueSize r then do {
        r1 \<leftarrow> write_value (set_size r 4) 0 [KSPROPERTY_TYPE_ALL];
        Some (STATUS_SUCCESS, r1) }
      else Some (STATUS_BUFFER_TOO_SMALL, set_size r 0))"

definition PropertyHandler_BasicSupportMute ::
  "prop_request \<Rightarrow> ULONG \<Rightarrow> (NTSTATUS \<times> prop_request) option" where
  "PropertyHandler_BasicSupportMute r MaxChannels =
     (if 40 \<le> ValueSize r then do {
        r1 \<leftarrow> write_value r 0 ([KSPROPERTY_TYPE_ALL, cbFullProperty MaxChannels]
               @ KSPROPTYPESETID_General @ [VT_BOOL, 0, 1, 0]);
        if cbFullProperty MaxChannels \<le> ValueSize r then do {
          r2 \<leftarrow> write_value r1 10 [KSPROPERTY_MEMBER_STEPPEDRANGES, 16, MaxChannels,
                  KSPROPERTY_MEMBER_FLAG_BASICSUPPORT_MULTICHANNEL];
          r3 \<leftarrow> put_ranges 0 (unat MaxChannels) [1, 0, 0, 1] r2;
          Some (STATUS_SUCCESS, set_size r3 (cbFullProperty MaxChannels)) }
        else Some (STATUS_SUCCESS, set_size r1 40) }
      else if 4 \<le> ValueSize r then do {
        r1 \<leftarrow> write_value (set_size r 4) 0 [KSPROPERTY_TYPE_ALL];
        Some (STATUS_SUCCESS, r1) }
      else Some (STATUS_BUFFER_TOO_SMALL, set_size r 0))"

definition PropertyHandler_BasicSupportPeakMeter2 ::
  "prop_request \<Rightarrow> ULONG \<Rightarrow> (NTSTATUS \<times> prop_request) option" where
  "PropertyHandler_BasicSupportPeakMeter2 r MaxChannels =
     (if 40 \<le> ValueSize r then do {
        r1 \<leftarrow> write_value r 0 ([KSPROPERTY_TYPE_GET OR KSPROPERTY_TYPE_BASICSUPPORT,
                 cbFullProperty MaxChannels] @ KSPROPTYPESETID_General @ [VT_I4, 0, 1, 0]);
        if cbFullProperty MaxChannels \<le> ValueSize r then do {
          r2 \<leftarrow> write_value r1 10 [KSPROPERTY_MEMBER_STEPPEDRANGES, 16, MaxChannels,
                  KSPROPERTY_MEMBER_FLAG_BASICSUPPORT_MULTICHANNEL];
          r3 \<leftarrow> put_ranges 0 (unat MaxChannels)
                  [word_of_int PEAKMETER_STEPPING_DELTA, 0, word_of_int PEAKMETER_SIGNED_MINIMUM,
                   word_of_int PEAKMETER_SIGNED_MAXIMUM] r2;
          Some (STATUS_SUCCESS, set_size r3 (cbFullProperty MaxChannels)) }
        else Some (STATUS_SUCCESS, set_size r1 40) }
      else if 4 \<le> ValueSize r then do {
        r1 \<leftarrow> write_value (set_size r 4) 0 [KSPROPERTY_TYPE_ALL];
        Some (STATUS_SUCCESS, r1) }
      else Some (STATUS_BUFFER_TOO_SMALL, set_size r 0))"

section \<open>The handlers\<close>

definition PropertyHandler_CpuResources :: "prop_request \<Rightarrow> (NTSTATUS \<times> prop_request) option" where
  "PropertyHandler_CpuResources r =
     (if has_flag (Verb r) KSPROPERTY_TYPE_GET then
        (let (st, r1) = validate r 4 0
         in if NT_SUCCESS st then do {
              r2 \<leftarrow> write_value r1 0 [KSAUDIO_CPU_RESOURCES_NOT_HOST_CPU];
              Some (st, set_size r2 4) }
            else Some (st, r1))
      else if has_flag (Verb r) KSPROPERTY_TYPE_BASICSUPPORT then
        PropertyHandler_BasicSupport r (KSPROPERTY_TYPE_GET OR KSPROPERTY_TYPE_BASICSUPPORT) VT_UI4
      else Some (STATUS_INVALID_DEVICE_REQUEST, r))"

text \<open>
  The loops over all channels run \<open>for (i = 0; i < ulChannel; ++i)\<close> with \<open>ulChannel\<close> equal to
  ALL_CHANNELS_ID. \<open>channels n\<close> is the sequence of their counters; the normalised value does not
  depend on the counter and is computed once here.
\<close>

definition channels :: "ULONG \<Rightarrow> ULONG list" where
  "channels n = map of_nat [0..<unat n]"

definition PropertyHandler_Volume ::
  "m_pHW \<Rightarrow> prop_request \<Rightarrow> ULONG \<Rightarrow> (NTSTATUS \<times> m_pHW \<times> prop_request) option" where
  "PropertyHandler_Volume hw r MaxChannels =
     (if has_flag (Verb r) KSPROPERTY_TYPE_BASICSUPPORT then do {
        (st, r1) \<leftarrow> PropertyHandler_BasicSupportVolume r MaxChannels; Some (st, hw, r1) }
      else
        (let (st, r1) = validate r 4 4
         in if NT_SUCCESS st then do {
              ulChannel \<leftarrow> deref (Instance r1);
              if MaxChannels \<le> ulChannel \<and> ulChannel \<noteq> ALL_CHANNELS_ID
              then Some (STATUS_INVALID_PARAMETER, hw, r1)
              else if has_flag (Verb r) KSPROPERTY_TYPE_GET then do {
                r2 \<leftarrow> write_value r1 0 [MixerVolumeRead hw (Node r1)
                        (if ulChannel = ALL_CHANNELS_ID then 0 else ulChannel)];
                Some (st, hw, set_size r2 4) }
              else if has_flag (Verb r) KSPROPERTY_TYPE_SET then do {
                plVolume \<leftarrow> deref (Value r1);
                v \<leftarrow> VOLUME_NORMALIZE_IN_RANGE (sint plVolume);
                if ALL_CHANNELS_ID = ulChannel then
                  Some (st, fold (\<lambda>i hw. MixerVolumeWrite hw (Node r1) i (word_of_int v))
                              (channels ulChannel) hw, r1)
                else Some (st, MixerVolumeWrite hw (Node r1) ulChannel (word_of_int v), r1) }
              else Some (st, hw, r1) }
            else Some (st, hw, r1)))"

definition PropertyHandler_Mute ::
  "m_pHW \<Rightarrow> prop_request \<Rightarrow> ULONG \<Rightarrow> (NTSTATUS \<times> m_pHW \<times> prop_request) option" where
  "PropertyHandler_Mute hw r MaxChannels =
     (if has_flag (Verb r) KSPROPERTY_TYPE_BASICSUPPORT then do {
        (st, r1) \<leftarrow> PropertyHandler_BasicSupportMute r MaxChannels; Some (st, hw, r1) }
      else
        (let (st, r1) = validate r 4 4
         in if NT_SUCCESS st then do {
              ulChannel \<leftarrow> deref (Instance r1);
              if MaxChannels \<le> ulChannel \<and> ulChannel \<noteq> ALL_CHANNELS_ID
              then Some (STATUS_INVALID_PARAMETER, hw, r1)
              else if has_flag (Verb r) KSPROPERTY_TYPE_GET then do {
                r2 \<leftarrow> write_value r1 0 [MixerMuteRead hw (Node r1)
                        (if ulChannel = ALL_CHANNELS_ID then 0 else ulChannel)];
                Some (st, hw, set_size r2 4) }
              else if has_flag (Verb r) KSPROPERTY_TYPE_SET then do {
                pfMute \<leftarrow> deref (Value r1);
                let f = (if pfMute \<noteq> 0 then TRUE_BOOL else FALSE_BOOL);
                if ALL_CHANNELS_ID = ulChannel then
                  Some (st, fold (\<lambda>i hw. MixerMuteWrite hw (Node r1) i f) (channels ulChannel) hw, r1)
                else Some (st, MixerMuteWrite hw (Node r1) ulChannel f, r1) }
              else Some (st, hw, r1) }
            else Some (st, hw, r1)))"

definition PropertyHandler_PeakMeter2 ::
  "m_pHW \<Rightarrow> prop_request \<Rightarrow> ULONG \<Rightarrow> (NTSTATUS \<times> m_pHW \<times> prop_request) option" where
  "PropertyHandler_PeakMeter2 hw r MaxChannels =
     (if has_flag (Verb r) KSPROPERTY_TYPE_BASICSUPPORT then do {
        (st, r1) \<leftarrow> PropertyHandler_BasicSupportPeakMeter2 r MaxChannels; Some (st, hw, r1) }
      else
        (let (st, r1) = validate r 4 4
         in if NT_SUCCESS st then do {
              ulChannel \<leftarrow> deref (Instance r1);
              if MaxChannels \<le> ulChannel \<and> ulChannel \<noteq> ALL_CHANNELS_ID
              then Some (STATUS_INVALID_PARAMETER, hw, r1)
              else if has_flag (Verb r) KSPROPERTY_TYPE_GET then do {
                v \<leftarrow> PEAKMETER_NORMALIZE_IN_RANGE (sint (MixerPeakMeterRead hw (Node r1)
                        (if ulChannel = ALL_CHANNELS_ID then 0 else ulChannel)));
                r2 \<leftarrow> write_value r1 0 [word_of_int v];
                Some (st, hw, set_size r2 4) }
              else Some (st, hw, r1) }
            else Some (st, hw, r1)))"

section \<open>Lemmas on requests and buffers\<close>

lemma has_flag_simps [simp]:
  "has_flag KSPROPERTY_TYPE_SET KSPROPERTY_TYPE_SET" "has_flag KSPROPERTY_TYPE_GET KSPROPERTY_TYPE_GET"
  "\<not> has_flag KSPROPERTY_TYPE_SET KSPROPERTY_TYPE_GET" "\<not> has_flag KSPROPERTY_TYPE_GET KSPROPERTY_TYPE_SET"
  "\<not> has_flag KSPROPERTY_TYPE_SET KSPROPERTY_TYPE_BASICSUPPORT"
  "\<not> has_flag KSPROPERTY_TYPE_GET KSPROPERTY_TYPE_BASICSUPPORT"
  "has_flag KSPROPERTY_TYPE_BASICSUPPORT KSPROPERTY_TYPE_BASICSUPPORT"
  by (simp_all add: has_flag_def const_defs)

lemma set_size_simps [simp]:
  "ValueSize (set_size r n) = n" "Value (set_size r n) = Value r"
  "Instance (set_size r n) = Instance r" "Node (set_size r n) = Node r"
  "Verb (set_size r n) = Verb r" "InstanceSize (set_size r n) = InstanceSize r"
  "set_size (set_size r m) n = set_size r n" "set_size r (ValueSize r) = r"
  by (simp_all add: set_size_def)

lemma write_value_eq:
  "Value r = Some b \<Longrightarrow> i + length vs \<le> length b \<Longrightarrow>
     write_value r i vs = Some (r \<lparr> Value := Some (take i b @ vs @ drop (i + length vs) b) \<rparr>)"
  by (simp add: write_value_def store_all_eq)

lemma put_ranges_eq:
  assumes "length entry = 4" and "Value r = Some b" and "14 + 4 * i + 4 * n \<le> length b"
  shows "put_ranges i n entry r =
    Some (r \<lparr> Value := Some (take (14 + 4 * i) b @ concat (replicate n entry)
                          @ drop (14 + 4 * i + 4 * n) b) \<rparr>)"
  using assms
proof (induction n arbitrary: i r b)
  case 0
  then show ?case by simp
next
  case (Suc n)
  let ?k = "14 + 4 * i"
  let ?b = "take ?k b @ entry @ drop (?k + 4) b"
  have w: "write_value r ?k entry = Some (r \<lparr> Value := Some ?b \<rparr>)"
    using Suc.prems write_value_eq [of r b ?k entry] by simp
  have t: "take (14 + 4 * Suc i) ?b = take ?k b @ entry"
    using Suc.prems by simp
  have d: "drop (14 + 4 * Suc i + 4 * n) ?b = drop (?k + 4 * Suc n) b"
    using Suc.prems by (simp add: ac_simps)
  have "put_ranges (Suc i) n entry (r \<lparr> Value := Some ?b \<rparr>) =
      Some (r \<lparr> Value := Some (take ?k b @ concat (replicate (Suc n) entry)
                            @ drop (?k + 4 * Suc n) b) \<rparr>)"
    using Suc.IH [of "r \<lparr> Value := Some ?b \<rparr>" ?b "Suc i"] Suc.prems t d
    by simp
  then show ?case by (simp add: w)
qed

lemma slots_le: "n \<le> unat (m :: ULONG) \<Longrightarrow> n div 4 \<le> unat m div 4"
  by (rule div_le_mono)

lemma buffer_ok_Some:
  "buffer_ok n p \<Longrightarrow> 4 \<le> n \<Longrightarrow> \<exists>x b. p = Some (x # b) \<and> Suc (length b) = unat n div 4"
proof -
  assume b: "buffer_ok n p" and n: "4 \<le> n"
  from n have "4 \<le> unat n" by (simp add: unat_le_iff)
  then have "1 \<le> unat n div 4" by simp
  with b n show ?thesis
    by (auto simp: buffer_ok_def neq_Nil_conv Suc_le_eq split: option.splits dest!: sym [of "length _"])
qed

lemma deref_Cons [simp]: "deref (Some (x # b)) = Some x"
  by (simp add: deref_def load_def)

section \<open>Validation\<close>

lemma validate_eq:
  "cb \<noteq> 0 \<Longrightarrow> validate r cb ci =
     (if ValueSize r = 0 then (STATUS_BUFFER_OVERFLOW, set_size r cb)
      else if ValueSize r < cb \<or> InstanceSize r < ci then (STATUS_BUFFER_TOO_SMALL, set_size r 0)
      else if Value r = None then (STATUS_UNSUCCESSFUL, set_size r 0)
      else (STATUS_SUCCESS, r))"
  by (cases "ValueSize r = 0"; cases "cb \<le> ValueSize r"; cases "ci \<le> InstanceSize r")
    (auto simp: validate_def ValidatePropertyParams_def not_less dest: leD)

lemma validate_0: "validate r 0 ci = (STATUS_INVALID_PARAMETER, set_size r 0)"
  by (simp add: validate_def ValidatePropertyParams_def)

lemma validate_cases:
  assumes "cb \<noteq> 0"
  obtains (query) "ValueSize r = 0" "validate r cb ci = (STATUS_BUFFER_OVERFLOW, set_size r cb)"
  | (small) "ValueSize r \<noteq> 0" "\<not> (cb \<le> ValueSize r \<and> ci \<le> InstanceSize r)"
      "validate r cb ci = (STATUS_BUFFER_TOO_SMALL, set_size r 0)"
  | (null) "ValueSize r \<noteq> 0" "Value r = None" "validate r cb ci = (STATUS_UNSUCCESSFUL, set_size r 0)"
  | (ok) "ValueSize r \<noteq> 0" "cb \<le> ValueSize r" "ci \<le> InstanceSize r" "Value r \<noteq> None"
      "validate r cb ci = (STATUS_SUCCESS, r)"
proof -
  note e = validate_eq [OF assms, of r ci]
  consider "ValueSize r = 0" | "ValueSize r \<noteq> 0" "ValueSize r < cb \<or> InstanceSize r < ci"
    | "ValueSize r \<noteq> 0" "\<not> (ValueSize r < cb \<or> InstanceSize r < ci)" "Value r = None"
    | "ValueSize r \<noteq> 0" "\<not> (ValueSize r < cb \<or> InstanceSize r < ci)" "Value r \<noteq> None"
    by blast
  then show thesis
  proof cases
    case 1 then show ?thesis using e query by (simp only: if_True)
  next
    case 2
    from 2(2) have n: "\<not> (cb \<le> ValueSize r \<and> ci \<le> InstanceSize r)" by (auto dest: leD)
    from 2 e have "validate r cb ci = (STATUS_BUFFER_TOO_SMALL, set_size r 0)" by simp
    with 2(1) n show ?thesis by (rule small)
  next
    case 3
    with e have "validate r cb ci = (STATUS_UNSUCCESSFUL, set_size r 0)" by simp
    with 3(1,3) show ?thesis by (rule null)
  next
    case 4
    from 4(2) have "cb \<le> ValueSize r" "ci \<le> InstanceSize r" by (auto simp: not_less)
    moreover from 4 e have "validate r cb ci = (STATUS_SUCCESS, r)" by simp
    ultimately show ?thesis using 4 ok by blast
  qed
qed

lemma validate_ok [simp]:
  assumes "cb \<noteq> 0" and "cb \<le> ValueSize r" and "ci \<le> InstanceSize r" and "Value r = Some b"
  shows "validate r cb ci = (STATUS_SUCCESS, r)"
proof -
  have "ValueSize r \<noteq> 0" using assms(1,2) by (metis word_le_0_iff)
  with assms(2-4) show ?thesis using validate_cases [OF assms(1), of r ci] by (metis option.distinct(1))
qed

lemma validate_success:
  assumes "validate r cb ci = (st, r')" and "NT_SUCCESS st"
  shows "st = STATUS_SUCCESS \<and> r' = r \<and> cb \<le> ValueSize r \<and> ci \<le> InstanceSize r \<and> Value r \<noteq> None"
proof (cases "cb = 0")
  case True
  with assms show ?thesis by (simp add: validate_0)
next
  case False
  from False show ?thesis using assms by (cases rule: validate_cases [of cb r ci]) auto
qed

text \<open>
  C2. \<open>ValidatePropertyParams\<close> classifies every request: success exactly when value and instance
  data are large enough and the value buffer is present, the request then being unchanged; a size
  query (value size 0) is answered with the size needed; every other request is rejected with its
  value size cleared. A client that allocates the size it was told then passes.
\<close>

theorem validate_params_correct:
  assumes "cb \<noteq> 0"
  shows "(fst (validate r cb ci) = STATUS_SUCCESS
            \<longleftrightarrow> cb \<le> ValueSize r \<and> ci \<le> InstanceSize r \<and> Value r \<noteq> None)
     \<and> (NT_SUCCESS (fst (validate r cb ci)) \<longrightarrow> snd (validate r cb ci) = r)
     \<and> (ValueSize r = 0 \<longrightarrow> validate r cb ci = (STATUS_BUFFER_OVERFLOW, set_size r cb)
           \<and> (ci \<le> InstanceSize r \<longrightarrow>
               fst (validate (set_size r cb \<lparr> Value := Some b \<rparr>) cb ci) = STATUS_SUCCESS))
     \<and> (ValueSize r \<noteq> 0 \<and> fst (validate r cb ci) \<noteq> STATUS_SUCCESS \<longrightarrow>
           snd (validate r cb ci) = set_size r 0 \<and> \<not> NT_SUCCESS (fst (validate r cb ci)))"
using assms proof (cases rule: validate_cases [of cb r ci])
  case query
  have "\<not> cb \<le> ValueSize r" using query(1) assms by (simp add: word_le_0_iff)
  then show ?thesis using query assms by (simp add: set_size_def)
next
  case small
  then show ?thesis by auto
next
  case null
  then show ?thesis by simp
next
  case ok
  then show ?thesis by simp
qed

theorem validate_params_correct_witness:
  "fst (validate \<lparr> Verb = 1, Node = 0, Id = KSPROPERTY_AUDIO_MUTE, ItemFlags = 0, InstanceSize = 4,
          Instance = Some [0], ValueSize = 0, Value = None \<rparr> 4 4) = STATUS_BUFFER_OVERFLOW"
  using validate_params_correct [of 4 "\<lparr> Verb = 1, Node = 0, Id = KSPROPERTY_AUDIO_MUTE, ItemFlags = 0,
          InstanceSize = 4, Instance = Some [0], ValueSize = 0, Value = None \<rparr>" 4 "[0]"]
  by simp

section \<open>Basic support\<close>

lemma basic_support_total:
  assumes "buffer_ok (ValueSize r) (Value r)"
  shows "\<exists>st r'. PropertyHandler_BasicSupport r f t = Some (st, r')
     \<and> (NT_SUCCESS st \<longleftrightarrow> 4 \<le> ValueSize r) \<and> ValueSize r' \<le> ValueSize r"
proof (cases "4 \<le> ValueSize r")
  case False
  then have "\<not> 40 \<le> ValueSize r" by (simp add: unat_le_iff)
  with False show ?thesis by (simp add: PropertyHandler_BasicSupport_def)
next
  case True
  then obtain x b where v: "Value r = Some (x # b)" "Suc (length b) = unat (ValueSize r) div 4"
    using buffer_ok_Some [OF assms] by blast
  show ?thesis
  proof (cases "40 \<le> ValueSize r")
    case t: True
    then have "10 \<le> Suc (length b)" using v(2) by (simp add: unat_le_iff)
    then show ?thesis
      using True t v by (auto simp: PropertyHandler_BasicSupport_def write_value_eq
          KSPROPTYPESETID_General_def GUID_NULL_def)
  next
    case False
    then show ?thesis using True v by (simp add: PropertyHandler_BasicSupport_def write_value_eq)
  qed
qed

text \<open>
  What a basic-support handler of a ranged property answers, given the access flags for a short
  and for a full answer, the variant type and the range entry of one channel.
\<close>

definition ranged_answer ::
  "ULONG \<Rightarrow> ULONG \<Rightarrow> ULONG \<Rightarrow> ULONG list \<Rightarrow> nat \<Rightarrow> nat \<Rightarrow> NTSTATUS \<times> nat \<times> ULONG list" where
  "ranged_answer short_flags flags vt entry n bytes =
     (let full = 56 + 16 * n;
          desc = [flags, of_nat full] @ KSPROPTYPESETID_General @ [vt, 0, 1, 0];
          header = [KSPROPERTY_MEMBER_STEPPEDRANGES, 16, of_nat n,
                    KSPROPERTY_MEMBER_FLAG_BASICSUPPORT_MULTICHANNEL]
      in if full \<le> bytes then (STATUS_SUCCESS, full, desc @ header @ concat (replicate n entry))
         else if 40 \<le> bytes then (STATUS_SUCCESS, 40, desc)
         else if 4 \<le> bytes then (STATUS_SUCCESS, 4, [short_flags])
         else (STATUS_BUFFER_TOO_SMALL, 0, []))"

text \<open>Writing an answer: its slots replace the front of the buffer, the rest of it is kept.\<close>

definition answered :: "prop_request \<Rightarrow> NTSTATUS \<times> nat \<times> ULONG list \<Rightarrow> NTSTATUS \<times> prop_request" where
  "answered r a = (case a of (st, sz, slots) \<Rightarrow>
     (st, (set_size r (of_nat sz))
            \<lparr> Value := map_option (\<lambda>b. slots @ drop (length slots) b) (Value r) \<rparr>))"

lemma ranged_answer_fits:
  "length entry = 4 \<Longrightarrow> ranged_answer sf f vt entry n bytes = (st, sz, slots) \<Longrightarrow>
     sz \<le> bytes \<and> length slots = sz div 4 \<and> (NT_SUCCESS st \<longleftrightarrow> 4 \<le> bytes)"
  by (auto simp: ranged_answer_def Let_def KSPROPTYPESETID_General_def length_concat
      comp_def sum_list_replicate split: if_splits)

text \<open>The common shape of the three handlers, on which the refinement is proved once.\<close>

definition ranged_support ::
  "ULONG \<Rightarrow> ULONG \<Rightarrow> ULONG \<Rightarrow> ULONG list \<Rightarrow> prop_request \<Rightarrow> ULONG \<Rightarrow> (NTSTATUS \<times> prop_request) option" where
  "ranged_support short_flags flags vt entry r MaxChannels =
     (if 40 \<le> ValueSize r then do {
        r1 \<leftarrow> write_value r 0 ([flags, cbFullProperty MaxChannels]
               @ KSPROPTYPESETID_General @ [vt, 0, 1, 0]);
        if cbFullProperty MaxChannels \<le> ValueSize r then do {
          r2 \<leftarrow> write_value r1 10 [KSPROPERTY_MEMBER_STEPPEDRANGES, 16, MaxChannels,
                  KSPROPERTY_MEMBER_FLAG_BASICSUPPORT_MULTICHANNEL];
          r3 \<leftarrow> put_ranges 0 (unat MaxChannels) entry r2;
          Some (STATUS_SUCCESS, set_size r3 (cbFullProperty MaxChannels)) }
        else Some (STATUS_SUCCESS, set_size r1 40) }
      else if 4 \<le> ValueSize r then do {
        r1 \<leftarrow> write_value (set_size r 4) 0 [short_flags];
        Some (STATUS_SUCCESS, r1) }
      else Some (STATUS_BUFFER_TOO_SMALL, set_size r 0))"

lemma cbFullProperty_unat:
  assumes "unat n \<le> 65535"
  shows "unat (cbFullProperty n) = 56 + 16 * unat n"
proof -
  have "unat (of_nat (40 + 16 + 16 * unat n) :: ULONG) = 40 + 16 + 16 * unat n"
    using assms by (intro unat_of_nat_ULONG) simp
  then show ?thesis by (simp only: cbFullProperty_def)
qed

lemma cbFullProperty_eq: "cbFullProperty n = of_nat (56 + 16 * unat n)"
  by (simp add: cbFullProperty_def)

lemma ranged_support_answer:
  assumes b: "buffer_ok (ValueSize r) (Value r)" and n: "unat n \<le> 65535" and e: "length entry = 4"
  shows "ranged_support sf f vt entry r n =
     Some (answered r (ranged_answer sf f vt entry (unat n) (unat (ValueSize r))))"
proof (cases "4 \<le> ValueSize r")
  case False
  then have "unat (ValueSize r) < 4" by (simp add: unat_le_iff not_le)
  moreover from this have "\<not> 40 \<le> ValueSize r" by (simp add: unat_le_iff)
  ultimately show ?thesis using False
    by (cases "Value r") (auto simp: ranged_support_def answered_def ranged_answer_def set_size_def)
next
  case v4: True
  then have u4: "4 \<le> unat (ValueSize r)" by (simp add: unat_le_iff)
  obtain x t where v: "Value r = Some (x # t)" and l: "Suc (length t) = unat (ValueSize r) div 4"
    using buffer_ok_Some [OF b v4] by blast
  define buf where "buf = x # t"
  have vb: "Value r = Some buf" and lb: "length buf = unat (ValueSize r) div 4"
    using v l by (simp_all add: buf_def)
  define desc where "desc = [f, cbFullProperty n] @ KSPROPTYPESETID_General @ [vt, 0, 1, 0]"
  have ld: "length desc = 10" by (simp add: desc_def KSPROPTYPESETID_General_def)
  define hdr where "hdr = [KSPROPERTY_MEMBER_STEPPEDRANGES, 16, n,
                           KSPROPERTY_MEMBER_FLAG_BASICSUPPORT_MULTICHANNEL]"
  have lh: "length hdr = 4" by (simp add: hdr_def)
  note code = ranged_support_def [of sf f vt entry r n, folded desc_def hdr_def]
  have spec: "ranged_answer sf f vt entry (unat n) bytes =
      (if 56 + 16 * unat n \<le> bytes
       then (STATUS_SUCCESS, 56 + 16 * unat n, desc @ hdr @ concat (replicate (unat n) entry))
       else if 40 \<le> bytes then (STATUS_SUCCESS, 40, desc)
       else if 4 \<le> bytes then (STATUS_SUCCESS, 4, [sf])
       else (STATUS_BUFFER_TOO_SMALL, 0, []))" for bytes
    by (simp add: ranged_answer_def Let_def desc_def hdr_def cbFullProperty_eq)
  show ?thesis
  proof (cases "40 \<le> ValueSize r")
    case v40: False
    then have "\<not> 40 \<le> unat (ValueSize r)" by (simp add: unat_le_iff)
    then show ?thesis
      using v4 u4 v40 v n
      by (simp add: code spec answered_def write_value_eq set_size_def)
  next
    case v40: True
    then have u40: "40 \<le> unat (ValueSize r)" by (simp add: unat_le_iff)
    then have l10: "10 \<le> length buf" by (simp add: lb)
    let ?b1 = "desc @ drop 10 buf"
    let ?r1 = "r \<lparr> Value := Some ?b1 \<rparr>"
    have w1: "write_value r 0 desc = Some ?r1"
      using write_value_eq [OF vb, of 0 desc] ld l10 by simp
    show ?thesis
    proof (cases "cbFullProperty n \<le> ValueSize r")
      case False
      then have "\<not> 56 + 16 * unat n \<le> unat (ValueSize r)"
        by (simp add: unat_le_iff cbFullProperty_unat [OF n])
      then show ?thesis
        using v40 u40 False w1 ld vb
        by (simp add: code spec answered_def set_size_def)
    next
      case True
      then have full: "56 + 16 * unat n \<le> unat (ValueSize r)"
        by (simp add: unat_le_iff cbFullProperty_unat [OF n])
      then have lf: "14 + 4 * unat n \<le> length buf" by (simp add: lb)
      let ?b2 = "desc @ hdr @ drop 14 buf"
      let ?r2 = "r \<lparr> Value := Some ?b2 \<rparr>"
      have w2: "write_value ?r1 10 hdr = Some ?r2"
        using write_value_eq [of ?r1 ?b1 10 hdr] ld lh lf by simp
      have "put_ranges 0 (unat n) entry ?r2 = Some (?r2 \<lparr> Value :=
          Some (take 14 ?b2 @ concat (replicate (unat n) entry) @ drop (14 + 4 * unat n) ?b2) \<rparr>)"
        using put_ranges_eq [OF e, of ?r2 ?b2 0 "unat n"] ld lh lf by simp
      then have w3: "put_ranges 0 (unat n) entry ?r2 = Some (r \<lparr> Value :=
          Some (desc @ hdr @ concat (replicate (unat n) entry) @ drop (14 + 4 * unat n) buf) \<rparr>)"
        using ld lh lf by (simp add: add.commute)
      have lc: "length (concat (replicate (unat n) entry)) = 4 * unat n"
        using e by (simp add: length_concat comp_def sum_list_replicate)
      show ?thesis
        using v40 True full w1 w2 w3 ld lh lc vb
        by (simp add: code spec answered_def set_size_def cbFullProperty_eq)
    qed
  qed
qed

definition volume_entry :: "ULONG list" where
  "volume_entry = [word_of_int VOLUME_STEPPING_DELTA, 0, word_of_int VOLUME_SIGNED_MINIMUM,
                   word_of_int VOLUME_SIGNED_MAXIMUM]"
definition mute_entry :: "ULONG list" where "mute_entry = [1, 0, 0, 1]"
definition peak_entry :: "ULONG list" where
  "peak_entry = [word_of_int PEAKMETER_STEPPING_DELTA, 0, word_of_int PEAKMETER_SIGNED_MINIMUM,
                 word_of_int PEAKMETER_SIGNED_MAXIMUM]"

lemmas entry_defs = volume_entry_def mute_entry_def peak_entry_def

lemma ranged_support_instances:
  "PropertyHandler_BasicSupportVolume r n =
     ranged_support KSPROPERTY_TYPE_ALL KSPROPERTY_TYPE_ALL VT_I4 volume_entry r n"
  "PropertyHandler_BasicSupportMute r n =
     ranged_support KSPROPERTY_TYPE_ALL KSPROPERTY_TYPE_ALL VT_BOOL mute_entry r n"
  "PropertyHandler_BasicSupportPeakMeter2 r n =
     ranged_support KSPROPERTY_TYPE_ALL (KSPROPERTY_TYPE_GET OR KSPROPERTY_TYPE_BASICSUPPORT) VT_I4
       peak_entry r n"
  by (simp_all only: ranged_support_def PropertyHandler_BasicSupportVolume_def entry_defs
      PropertyHandler_BasicSupportMute_def PropertyHandler_BasicSupportPeakMeter2_def)

lemma entry_length [simp]: "length volume_entry = 4" "length mute_entry = 4" "length peak_entry = 4"
  by (simp_all add: entry_defs)

text \<open>
  C3. For every device (the channel count is a 16-bit number) and every buffer, the basic-support
  handlers of volume, mute and peak meter write exactly the specified answer: a full description
  with one range per channel when it fits, else the bare description, else the access flags, else
  nothing with STATUS_BUFFER_TOO_SMALL; no slot behind the answer is touched, so no write leaves
  the buffer.
\<close>

theorem ranged_support_correct:
  assumes "buffer_ok (ValueSize r) (Value r)" and "unat n \<le> 65535"
  shows "PropertyHandler_BasicSupportVolume r n = Some (answered r (ranged_answer
            KSPROPERTY_TYPE_ALL KSPROPERTY_TYPE_ALL VT_I4 volume_entry (unat n) (unat (ValueSize r))))
     \<and> PropertyHandler_BasicSupportMute r n = Some (answered r (ranged_answer
            KSPROPERTY_TYPE_ALL KSPROPERTY_TYPE_ALL VT_BOOL mute_entry (unat n) (unat (ValueSize r))))
     \<and> PropertyHandler_BasicSupportPeakMeter2 r n = Some (answered r (ranged_answer
            KSPROPERTY_TYPE_ALL (KSPROPERTY_TYPE_GET OR KSPROPERTY_TYPE_BASICSUPPORT) VT_I4
            peak_entry (unat n) (unat (ValueSize r))))"
  using ranged_support_answer [OF assms] by (simp add: ranged_support_instances)

theorem ranged_support_correct_witness:
  "PropertyHandler_BasicSupportVolume \<lparr> Verb = 0x200, Node = 0, Id = KSPROPERTY_AUDIO_VOLUMELEVEL,
       ItemFlags = 0, InstanceSize = 0, Instance = None, ValueSize = 90,
       Value = Some (replicate 22 7) \<rparr> 2
   = Some (STATUS_SUCCESS, \<lparr> Verb = 0x200, Node = 0, Id = KSPROPERTY_AUDIO_VOLUMELEVEL,
       ItemFlags = 0, InstanceSize = 0, Instance = None, ValueSize = 88,
       Value = Some [0x203, 88, 0x97E99BA0, 0x11CFBDEA, 0xDB28D6A5, 0x0000C104, 3, 0, 1, 0,
                     2, 16, 2, 2, 0x8000, 0, 0xFFA00000, 0, 0x8000, 0, 0xFFA00000, 0] \<rparr>)"
proof -
  let ?r = "\<lparr> Verb = 0x200, Node = 0, Id = KSPROPERTY_AUDIO_VOLUMELEVEL,
       ItemFlags = 0, InstanceSize = 0, Instance = None, ValueSize = 90,
       Value = Some (replicate 22 7) \<rparr> :: prop_request"
  have "buffer_ok (ValueSize ?r) (Value ?r)" by (simp add: buffer_ok_def)
  then have "PropertyHandler_BasicSupportVolume ?r 2 = Some (answered ?r (ranged_answer
      KSPROPERTY_TYPE_ALL KSPROPERTY_TYPE_ALL VT_I4 volume_entry (unat (2 :: ULONG))
      (unat (ValueSize ?r))))"
    using ranged_support_correct [of ?r 2] by simp
  also have "\<dots> = Some (STATUS_SUCCESS, \<lparr> Verb = 0x200, Node = 0, Id = KSPROPERTY_AUDIO_VOLUMELEVEL,
       ItemFlags = 0, InstanceSize = 0, Instance = None, ValueSize = 88,
       Value = Some [0x203, 88, 0x97E99BA0, 0x11CFBDEA, 0xDB28D6A5, 0x0000C104, 3, 0, 1, 0,
                     2, 16, 2, 2, 0x8000, 0, 0xFFA00000, 0, 0x8000, 0, 0xFFA00000, 0] \<rparr>)"
    by code_simp
  finally show ?thesis .
qed

section \<open>The level handlers\<close>

lemma channels_ne: "channels ALL_CHANNELS_ID \<noteq> []"
  by (simp add: channels_def const_defs)

text \<open>A level request: channel and value present, all buffers as their sizes promise.\<close>

definition level_request :: "prop_request \<Rightarrow> ULONG \<Rightarrow> ULONG \<Rightarrow> ULONG list \<Rightarrow> bool" where
  "level_request r ch v vs \<longleftrightarrow> 4 \<le> ValueSize r \<and> 4 \<le> InstanceSize r
     \<and> deref (Instance r) = Some ch \<and> Value r = Some (v # vs)"

definition channel_ok :: "ULONG \<Rightarrow> ULONG \<Rightarrow> bool" where
  "channel_ok MaxChannels ch \<longleftrightarrow> ch < MaxChannels \<or> ch = ALL_CHANNELS_ID"

lemma channel_test: "MaxChannels \<le> ch \<and> ch \<noteq> ALL_CHANNELS_ID \<longleftrightarrow> \<not> channel_ok MaxChannels ch"
  by (auto simp: channel_ok_def not_less)

lemma write_value_Cons: "Value r = Some (v # vs) \<Longrightarrow>
    write_value r 0 [w] = Some (r \<lparr> Value := Some (w # vs) \<rparr>)"
  by (simp add: write_value_eq)

lemma Volume_set:
  assumes "level_request r ch v vs" and "channel_ok M ch" and "Verb r = KSPROPERTY_TYPE_SET"
    and "VOLUME_NORMALIZE_IN_RANGE (sint v) = Some w"
  shows "PropertyHandler_Volume hw r M = Some (STATUS_SUCCESS, MixerVolumeWrite hw (Node r) 0 (word_of_int w), r)"
  using assms channel_test [of M ch]
  by (auto simp: PropertyHandler_Volume_def level_request_def vol.fold_wr_collapse [where c = 0]
      channels_ne intro: vol.wr_channel)

lemma Volume_get:
  assumes "level_request r ch v vs" and "channel_ok M ch" and "Verb r = KSPROPERTY_TYPE_GET"
  shows "PropertyHandler_Volume hw r M = Some (STATUS_SUCCESS, hw,
     set_size (r \<lparr> Value := Some (MixerVolumeRead hw (Node r)
                       (if ch = ALL_CHANNELS_ID then 0 else ch) # vs) \<rparr>) 4)"
  using assms channel_test [of M ch]
  by (simp add: PropertyHandler_Volume_def level_request_def write_value_Cons)

lemma Mute_set:
  assumes "level_request r ch v vs" and "channel_ok M ch" and "Verb r = KSPROPERTY_TYPE_SET"
  shows "PropertyHandler_Mute hw r M = Some (STATUS_SUCCESS,
     MixerMuteWrite hw (Node r) 0 (if v \<noteq> 0 then TRUE_BOOL else FALSE_BOOL), r)"
  using assms channel_test [of M ch]
  by (auto simp: PropertyHandler_Mute_def level_request_def Let_def mute.fold_wr_collapse [where c = 0]
      channels_ne intro: mute.wr_channel)

lemma Mute_get:
  assumes "level_request r ch v vs" and "channel_ok M ch" and "Verb r = KSPROPERTY_TYPE_GET"
  shows "PropertyHandler_Mute hw r M = Some (STATUS_SUCCESS, hw,
     set_size (r \<lparr> Value := Some (MixerMuteRead hw (Node r)
                       (if ch = ALL_CHANNELS_ID then 0 else ch) # vs) \<rparr>) 4)"
  using assms channel_test [of M ch]
  by (simp add: PropertyHandler_Mute_def level_request_def write_value_Cons)

text \<open>
  C4. Setting a volume and reading it back: a set request for an existing node succeeds for every
  channel the device has and for ALL_CHANNELS_ID, and a later get for any channel of any node
  returns the normalised value on that node and the old value on every other node.
\<close>

theorem volume_set_get:
  assumes "mixer_ok hw" and "unat (Node r) < MAX_TOPOLOGY_NODES"
    and "level_request r ch v vs" and "channel_ok M ch" and "Verb r = KSPROPERTY_TYPE_SET"
    and "level_request g ch' v' vs'" and "channel_ok M ch'" and "Verb g = KSPROPERTY_TYPE_GET"
  shows "\<exists>hw' w. PropertyHandler_Volume hw r M = Some (STATUS_SUCCESS, hw', r)
     \<and> VOLUME_NORMALIZE_IN_RANGE (sint v) = Some w
     \<and> PropertyHandler_Volume hw' g M = Some (STATUS_SUCCESS, hw',
          set_size (g \<lparr> Value := Some ((if Node g = Node r then word_of_int w
                                   else MixerVolumeRead hw (Node g) 0) # vs') \<rparr>) 4)"
proof -
  obtain w where w: "VOLUME_NORMALIZE_IN_RANGE (sint v) = Some w"
    by (simp add: VOLUME_NORMALIZE_total)
  have chan: "MixerVolumeRead hw n c = MixerVolumeRead hw n 0" for n c
    by (simp add: mixer_defs hw_defs split: option.splits)
  show ?thesis
    using w Volume_set [OF assms(3-5) w, of hw]
      Volume_get [OF assms(6-8), of "MixerVolumeWrite hw (Node r) 0 (word_of_int w)"]
      vol.rd_wr [OF assms(1,2)] chan [of "Node g" ch'] by auto
qed

theorem volume_set_get_witness:
  "\<exists>hw' w. PropertyHandler_Volume (Some (CSYSVADHW_ctor undefined))
       \<lparr> Verb = KSPROPERTY_TYPE_SET, Node = 3, Id = KSPROPERTY_AUDIO_VOLUMELEVEL, ItemFlags = 0,
          InstanceSize = 4, Instance = Some [ALL_CHANNELS_ID], ValueSize = 4, Value = Some [0xFFFF4000] \<rparr> 2
     = Some (STATUS_SUCCESS, hw', \<lparr> Verb = KSPROPERTY_TYPE_SET, Node = 3,
          Id = KSPROPERTY_AUDIO_VOLUMELEVEL, ItemFlags = 0,
          InstanceSize = 4, Instance = Some [ALL_CHANNELS_ID], ValueSize = 4, Value = Some [0xFFFF4000] \<rparr>)
     \<and> VOLUME_NORMALIZE_IN_RANGE (sint (0xFFFF4000 :: LONG)) = Some w
     \<and> PropertyHandler_Volume hw'
       \<lparr> Verb = KSPROPERTY_TYPE_GET, Node = 3, Id = KSPROPERTY_AUDIO_VOLUMELEVEL, ItemFlags = 0,
          InstanceSize = 4, Instance = Some [1], ValueSize = 8, Value = Some [5, 6] \<rparr> 2
     = Some (STATUS_SUCCESS, hw', \<lparr> Verb = KSPROPERTY_TYPE_GET, Node = 3,
          Id = KSPROPERTY_AUDIO_VOLUMELEVEL, ItemFlags = 0,
          InstanceSize = 4, Instance = Some [1], ValueSize = 4, Value = Some [word_of_int w, 6] \<rparr>)"
  using volume_set_get [of "Some (CSYSVADHW_ctor undefined)"
      "\<lparr> Verb = KSPROPERTY_TYPE_SET, Node = 3, Id = KSPROPERTY_AUDIO_VOLUMELEVEL, ItemFlags = 0,
          InstanceSize = 4, Instance = Some [ALL_CHANNELS_ID], ValueSize = 4, Value = Some [0xFFFF4000] \<rparr>"
      ALL_CHANNELS_ID "0xFFFF4000" "[]" 2
      "\<lparr> Verb = KSPROPERTY_TYPE_GET, Node = 3, Id = KSPROPERTY_AUDIO_VOLUMELEVEL, ItemFlags = 0,
          InstanceSize = 4, Instance = Some [1], ValueSize = 8, Value = Some [5, 6] \<rparr>" 1 5 "[6]"]
  by (simp add: mixer_ok_def MAX_TOPOLOGY_NODES_def level_request_def channel_ok_def set_size_def)

text \<open>
  The same for mute: whatever 32-bit value a client writes, the node holds TRUE or FALSE, and
  reads of other nodes are unchanged.
\<close>

theorem mute_set_get:
  assumes "mixer_ok hw" and "unat (Node r) < MAX_TOPOLOGY_NODES"
    and "level_request r ch v vs" and "channel_ok M ch" and "Verb r = KSPROPERTY_TYPE_SET"
    and "level_request g ch' v' vs'" and "channel_ok M ch'" and "Verb g = KSPROPERTY_TYPE_GET"
  shows "\<exists>hw'. PropertyHandler_Mute hw r M = Some (STATUS_SUCCESS, hw', r)
     \<and> PropertyHandler_Mute hw' g M = Some (STATUS_SUCCESS, hw',
          set_size (g \<lparr> Value := Some ((if Node g = Node r then (if v \<noteq> 0 then TRUE_BOOL else FALSE_BOOL)
                                   else MixerMuteRead hw (Node g) 0) # vs') \<rparr>) 4)"
proof -
  have chan: "MixerMuteRead hw n c = MixerMuteRead hw n 0" for n c
    by (simp add: mixer_defs hw_defs split: option.splits)
  show ?thesis
    using Mute_set [OF assms(3-5), of hw]
      Mute_get [OF assms(6-8), of "MixerMuteWrite hw (Node r) 0 (if v \<noteq> 0 then TRUE_BOOL else FALSE_BOOL)"]
      mute.rd_wr [OF assms(1,2)] chan [of "Node g" ch'] by auto
qed

theorem mute_set_get_witness:
  "\<exists>hw'. PropertyHandler_Mute (Some (CSYSVADHW_ctor undefined))
       \<lparr> Verb = KSPROPERTY_TYPE_SET, Node = 3, Id = KSPROPERTY_AUDIO_MUTE, ItemFlags = 0,
          InstanceSize = 4, Instance = Some [0], ValueSize = 4, Value = Some [77] \<rparr> 2
     = Some (STATUS_SUCCESS, hw', \<lparr> Verb = KSPROPERTY_TYPE_SET, Node = 3,
          Id = KSPROPERTY_AUDIO_MUTE, ItemFlags = 0,
          InstanceSize = 4, Instance = Some [0], ValueSize = 4, Value = Some [77] \<rparr>)
     \<and> PropertyHandler_Mute hw'
       \<lparr> Verb = KSPROPERTY_TYPE_GET, Node = 3, Id = KSPROPERTY_AUDIO_MUTE, ItemFlags = 0,
          InstanceSize = 4, Instance = Some [1], ValueSize = 8, Value = Some [5, 6] \<rparr> 2
     = Some (STATUS_SUCCESS, hw', \<lparr> Verb = KSPROPERTY_TYPE_GET, Node = 3,
          Id = KSPROPERTY_AUDIO_MUTE, ItemFlags = 0,
          InstanceSize = 4, Instance = Some [1], ValueSize = 4, Value = Some [TRUE_BOOL, 6] \<rparr>)"
  using mute_set_get [of "Some (CSYSVADHW_ctor undefined)"
      "\<lparr> Verb = KSPROPERTY_TYPE_SET, Node = 3, Id = KSPROPERTY_AUDIO_MUTE, ItemFlags = 0,
          InstanceSize = 4, Instance = Some [0], ValueSize = 4, Value = Some [77] \<rparr>"
      0 77 "[]" 2
      "\<lparr> Verb = KSPROPERTY_TYPE_GET, Node = 3, Id = KSPROPERTY_AUDIO_MUTE, ItemFlags = 0,
          InstanceSize = 4, Instance = Some [1], ValueSize = 8, Value = Some [5, 6] \<rparr>" 1 5 "[6]"]
  by (simp add: mixer_ok_def MAX_TOPOLOGY_NODES_def level_request_def channel_ok_def set_size_def)

section \<open>Every well-formed request is handled\<close>

text \<open>
  The peak-meter registers stay away from the ends of the \<open>long\<close>, where the normalisation
  would overflow. Nothing in the driver writes them after a reset.
\<close>

definition peak_ok :: "m_pHW \<Rightarrow> bool" where
  "peak_ok p = (case p of None \<Rightarrow> True
     | Some hw \<Rightarrow> length (m_PeakMeterControls hw) = MAX_TOPOLOGY_NODES
                 \<and> list_all (\<lambda>v. \<bar>sint v\<bar> \<le> LONG_MAX - 0x800) (m_PeakMeterControls hw))"

lemma peak_ok_reset [simp]: "peak_ok (MixerReset p)"
proof -
  have "sint (word_of_int (PEAKMETER_SIGNED_MAXIMUM sdiv 2) :: LONG) = 1073741823"
    by (subst sint_word_of_int_long) (simp_all add: const_defs signed_divide_int_def)
  then show ?thesis
    by (cases p) (simp_all add: peak_ok_def MixerReset_def hw_MixerReset_def list_all_iff const_defs)
qed

lemma peak_ok_preserved [simp]:
  "peak_ok p \<Longrightarrow> peak_ok (MixerMuteWrite p n c b)"
  "peak_ok p \<Longrightarrow> peak_ok (MixerVolumeWrite p n c v)"
  "peak_ok p \<Longrightarrow> peak_ok (MixerMuxWrite p n)"
  "peak_ok p \<Longrightarrow> peak_ok (bDevSpecificWrite p b)"
  "peak_ok p \<Longrightarrow> peak_ok (iDevSpecificWrite p i)"
  "peak_ok p \<Longrightarrow> peak_ok (uiDevSpecificWrite p u)"
  by (simp_all add: peak_ok_def mixer_defs hw_defs split: option.splits)

lemma peak_ok_read:
  assumes "peak_ok p"
  shows "PEAKMETER_NORMALIZE_IN_RANGE (sint (MixerPeakMeterRead p n c)) \<noteq> None"
proof -
  have "\<bar>sint (MixerPeakMeterRead p n c)\<bar> \<le> LONG_MAX - 0x800"
    using assms by (auto simp: peak_ok_def mixer_defs hw_defs list_all_length const_defs
        split: option.splits)
  then show ?thesis by (simp add: PEAKMETER_NORMALIZE_defined)
qed

text \<open>
  What a client and the adapter object may rely on after any request: the run is defined, the
  mixer stays well formed and is untouched by a failing request, the buffers keep their length,
  and the returned size fits the buffer unless it answers a size query.
\<close>

definition handled :: "m_pHW \<Rightarrow> prop_request \<Rightarrow> (NTSTATUS \<times> m_pHW \<times> prop_request) option \<Rightarrow> bool" where
  "handled hw r out = (case out of None \<Rightarrow> False | Some (st, hw', r') \<Rightarrow>
     (mixer_ok hw \<longrightarrow> mixer_ok hw') \<and> peak_ok hw'
     \<and> (\<not> NT_SUCCESS st \<longrightarrow> hw' = hw)
     \<and> map_option length (Value r') = map_option length (Value r) \<and> Instance r' = Instance r
     \<and> (st \<noteq> STATUS_BUFFER_OVERFLOW \<longrightarrow> ValueSize r' \<le> ValueSize r))"

lemma handledI:
  "out = Some (st, hw', r') \<Longrightarrow> (mixer_ok hw \<Longrightarrow> mixer_ok hw') \<Longrightarrow> peak_ok hw' \<Longrightarrow>
   (NT_SUCCESS st \<or> hw' = hw) \<Longrightarrow> map_option length (Value r') = map_option length (Value r) \<Longrightarrow>
   Instance r' = Instance r \<Longrightarrow> (st = STATUS_BUFFER_OVERFLOW \<or> ValueSize r' \<le> ValueSize r) \<Longrightarrow>
   handled hw r out"
  by (auto simp: handled_def)

lemma buffer_ok_length:
  "buffer_ok n p \<Longrightarrow> map_option length p = (case p of None \<Rightarrow> None | Some b \<Rightarrow> Some (unat n div 4))"
  by (simp add: buffer_ok_def split: option.splits)

lemma write_value_length:
  "write_value r i vs = Some r' \<Longrightarrow> map_option length (Value r') = map_option length (Value r)
     \<and> Instance r' = Instance r \<and> ValueSize r' = ValueSize r"
  by (auto simp: write_value_def store_all_length split: Option.bind_splits)

lemma ranged_support_handled:
  assumes b: "buffer_ok (ValueSize r) (Value r)" and n: "unat n \<le> 65535" and e: "length entry = 4"
    and p: "peak_ok hw"
  shows "handled hw r (do { (st, r1) \<leftarrow> ranged_support sf f vt entry r n; Some (st, hw, r1) })"
proof -
  obtain st sz slots where a: "ranged_answer sf f vt entry (unat n) (unat (ValueSize r)) = (st, sz, slots)"
    by (metis prod_cases3)
  note fit = ranged_answer_fits [OF e a]
  then have sz: "unat (of_nat sz :: ULONG) = sz"
    using unat_ULONG_less [of "ValueSize r"] by (intro unat_of_nat_ULONG) linarith
  have "length slots \<le> unat (ValueSize r) div 4" using fit div_le_mono [of sz _ 4] by auto
  then have "map_option length (map_option (\<lambda>b. slots @ drop (length slots) b) (Value r))
      = map_option length (Value r)"
    using b by (auto simp: buffer_ok_def split: option.splits)
  then show ?thesis
    using ranged_support_answer [OF b n e, of sf f vt] p fit sz
    by (auto simp: a answered_def handled_def unat_le_iff set_size_def)
qed

lemma basic_support_handled:
  assumes "buffer_ok (ValueSize r) (Value r)" and "peak_ok hw"
  shows "handled hw r (do { (st, r1) \<leftarrow> PropertyHandler_BasicSupport r f t; Some (st, hw, r1) })"
proof -
  obtain st r' where r': "PropertyHandler_BasicSupport r f t = Some (st, r')"
      "ValueSize r' \<le> ValueSize r"
    using basic_support_total [OF assms(1), of f t] by blast
  have "map_option length (Value r') = map_option length (Value r)" "Instance r' = Instance r"
    using r'(1) write_value_length
    by (auto simp: PropertyHandler_BasicSupport_def split: if_split_asm Option.bind_splits)
  with r' assms(2) show ?thesis by (simp add: handled_def)
qed

text \<open>The common part of the three level handlers behind the validation.\<close>

lemma validated_handled:
  assumes r: "req_ok r" and p: "peak_ok hw" and cb: "4 \<le> cb"
    and body: "\<And>b. Value r = Some b \<Longrightarrow> b \<noteq> [] \<Longrightarrow> cb \<le> ValueSize r \<Longrightarrow> ci \<le> InstanceSize r
                \<Longrightarrow> handled hw r (f (STATUS_SUCCESS, r))"
    and fail: "\<And>st r'. \<not> NT_SUCCESS st \<Longrightarrow> f (st, r') = Some (st, hw, r')"
  shows "handled hw r (f (validate r cb ci))"
proof -
  have "cb \<noteq> 0" using cb by (auto simp: unat_le_iff)
  then show ?thesis
  proof (cases rule: validate_cases [of cb r ci])
    case query
    then show ?thesis using p by (auto simp: fail set_size_def intro!: handledI)
  next
    case small
    then show ?thesis using p by (auto simp: fail set_size_def intro!: handledI)
  next
    case null
    then show ?thesis using p by (auto simp: fail set_size_def intro!: handledI)
  next
    case ok
    have "4 \<le> ValueSize r" using cb ok(2) by (rule order_trans)
    then obtain x b where "Value r = Some (x # b)"
      using r buffer_ok_Some [of "ValueSize r" "Value r"] by (auto simp: req_ok_def)
    then show ?thesis using body ok by simp
  qed
qed

lemma instance_channel:
  "req_ok r \<Longrightarrow> 4 \<le> InstanceSize r \<Longrightarrow> \<exists>ch. deref (Instance r) = Some ch"
  using buffer_ok_Some [of "InstanceSize r" "Instance r"] by (auto simp: req_ok_def)

lemma Volume_handled:
  assumes r: "req_ok r" and n: "unat M \<le> 65535" and p: "peak_ok hw"
  shows "handled hw r (PropertyHandler_Volume hw r M)"
proof (cases "has_flag (Verb r) KSPROPERTY_TYPE_BASICSUPPORT")
  case True
  then show ?thesis
    using ranged_support_handled [OF _ n entry_length(1) p] r
    by (simp add: PropertyHandler_Volume_def ranged_support_instances req_ok_def)
next
  case False
  have sv: "peak_ok (fold (\<lambda>i hw. MixerVolumeWrite hw m i v) is hw)" for m v "is"
    using p by (simp add: vol.fold_wr_collapse [where c = 0])
  show ?thesis
    unfolding PropertyHandler_Volume_def if_not_P [OF False] Let_def
  proof (rule validated_handled [OF r p], goal_cases)
    case (2 b)
    obtain ch where ch: "deref (Instance r) = Some ch" using instance_channel [OF r 2(4)] by blast
    obtain x b' where b: "b = x # b'" using 2(2) by (cases b) auto
    obtain w where w: "VOLUME_NORMALIZE_IN_RANGE (sint x) = Some w" by (simp add: VOLUME_NORMALIZE_total)
    show ?case
      using p 2 sv w
      by (simp add: ch b write_value_Cons handled_def set_size_def vol.fold_wr_ok)
  qed simp_all
qed

lemma Mute_handled:
  assumes r: "req_ok r" and n: "unat M \<le> 65535" and p: "peak_ok hw"
  shows "handled hw r (PropertyHandler_Mute hw r M)"
proof (cases "has_flag (Verb r) KSPROPERTY_TYPE_BASICSUPPORT")
  case True
  then show ?thesis
    using ranged_support_handled [OF _ n entry_length(2) p] r
    by (simp add: PropertyHandler_Mute_def ranged_support_instances req_ok_def)
next
  case False
  have sv: "peak_ok (fold (\<lambda>i hw. MixerMuteWrite hw m i v) is hw)" for m v "is"
    using p by (simp add: mute.fold_wr_collapse [where c = 0])
  show ?thesis
    unfolding PropertyHandler_Mute_def if_not_P [OF False] Let_def
  proof (rule validated_handled [OF r p], goal_cases)
    case (2 b)
    obtain ch where ch: "deref (Instance r) = Some ch" using instance_channel [OF r 2(4)] by blast
    obtain x b' where b: "b = x # b'" using 2(2) by (cases b) auto
    show ?case
      using p 2 sv by (simp add: ch b write_value_Cons handled_def set_size_def mute.fold_wr_ok)
  qed simp_all
qed

lemma PeakMeter2_handled:
  assumes r: "req_ok r" and n: "unat M \<le> 65535" and p: "peak_ok hw"
  shows "handled hw r (PropertyHandler_PeakMeter2 hw r M)"
proof (cases "has_flag (Verb r) KSPROPERTY_TYPE_BASICSUPPORT")
  case True
  then show ?thesis
    using ranged_support_handled [OF _ n entry_length(3) p] r
    by (simp add: PropertyHandler_PeakMeter2_def ranged_support_instances req_ok_def)
next
  case False
  show ?thesis
    unfolding PropertyHandler_PeakMeter2_def if_not_P [OF False] Let_def
  proof (rule validated_handled [OF r p], goal_cases)
    case (2 b)
    obtain ch where ch: "deref (Instance r) = Some ch" using instance_channel [OF r 2(4)] by blast
    obtain x b' where b: "b = x # b'" using 2(2) by (cases b) auto
    obtain w where w: "PEAKMETER_NORMALIZE_IN_RANGE (sint (MixerPeakMeterRead hw (Node r)
        (if ch = ALL_CHANNELS_ID then 0 else ch))) = Some w"
      using peak_ok_read [OF p] by blast
    show ?case
      using p 2 w by (simp add: ch b write_value_Cons handled_def set_size_def)
  qed simp_all
qed

lemma CpuResources_handled:
  assumes r: "req_ok r" and p: "peak_ok hw"
  shows "handled hw r (do { (st, r1) \<leftarrow> PropertyHandler_CpuResources r; Some (st, hw, r1) })"
proof (cases "has_flag (Verb r) KSPROPERTY_TYPE_GET")
  case False
  then show ?thesis
    using basic_support_handled [OF _ p] r p
    by (auto simp: PropertyHandler_CpuResources_def req_ok_def intro!: handledI)
next
  case True
  let ?f = "\<lambda>(st, r1). do { (st, r1) \<leftarrow> (if NT_SUCCESS st then do {
              r2 \<leftarrow> write_value r1 0 [KSAUDIO_CPU_RESOURCES_NOT_HOST_CPU];
              Some (st, set_size r2 4) } else Some (st, r1)); Some (st, hw, r1) }"
  have "handled hw r (?f (validate r 4 0))"
  proof (rule validated_handled [OF r p], goal_cases)
    case (2 b)
    then obtain x b' where "b = x # b'" by (cases b) auto
    then show ?case using p 2 by (simp add: write_value_Cons handled_def set_size_def)
  qed simp_all
  then show ?thesis
    using True by (simp add: PropertyHandler_CpuResources_def Let_def case_prod_unfold)
qed

text \<open>
  The guard of the dispatcher: a get or set handler only ever sees a request whose instance data
  and value reach the minimum sizes of its item.
\<close>

definition guarded :: "'s SYSVADPROPERTY_ITEM \<Rightarrow> prop_request \<Rightarrow> bool" where
  "guarded item r \<longleftrightarrow> MinProperty item \<le> InstanceSize r \<and> MinData item \<le> ValueSize r \<and> ValueSize r \<noteq> 0"

definition with_handlers ::
  "'s SYSVADPROPERTY_ITEM \<Rightarrow> 's handler option \<Rightarrow> 's handler option \<Rightarrow> 's SYSVADPROPERTY_ITEM" where
  "with_handlers item g s = item \<lparr> GetHandler := g, SetHandler := s \<rparr>"

text \<open>
  \<open>SysvadPropertyDispatch\<close> protects the handlers of an item: replacing its get and set
  handlers by handlers that fault on every request below the minimum sizes of the item changes no
  result, for any request; the basic-support path uses neither.
\<close>

theorem dispatch_guards_handlers:
  "SysvadPropertyDispatch item s r =
     SysvadPropertyDispatch (with_handlers item
        (map_option (\<lambda>h s r. if guarded item r \<and> has_flag (Verb r) KSPROPERTY_TYPE_GET then h s r else None)
           (GetHandler item))
        (map_option (\<lambda>h s r. if guarded item r \<and> has_flag (Verb r) KSPROPERTY_TYPE_SET
                                \<and> \<not> has_flag (Verb r) KSPROPERTY_TYPE_GET then h s r else None)
           (SetHandler item))) s r"
  by (auto simp: SysvadPropertyDispatch_def with_handlers_def guarded_def not_less split: option.splits)

end
