(* ===== verification/ShmBridge.thy ===== *)
theory ShmBridge
  imports DriverBase
begin

text \<open>
  The shared-memory bridge of shm.cpp and shm.h: a section with a header of four 32-bit words and
  a ring of 4096 frames of interleaved 16-bit samples. The kernel calls that create and map the
  section are parameters (their NTSTATUS). The refinement shows that after any number of writes
  the ring holds the last 4096 frames of the stream, across the wrap of slot and write index.
\<close>

definition INFERNO_SHM_BUFFER_FRAMES :: nat where [const_defs]: "INFERNO_SHM_BUFFER_FRAMES = 4096"
definition INFERNO_SHM_CHANNELS :: nat where [const_defs]: "INFERNO_SHM_CHANNELS = 8"

text \<open>
  The mapped section. \<open>write_index\<close> is the 32-bit pattern of the LONG, the ring the samples behind
  the header. Fresh section pages are zero.
\<close>

record shm_section =
  write_index :: nat
  channel_count :: nat
  sample_rate :: nat
  buffer_frames :: nat
  ring :: "INT16 list"

record shm_globals =
  g_ShmBase :: "shm_section option"
  g_ShmHandle :: bool

text \<open>
  \<open>size\<close> is computed in \<open>SIZE_T\<close>, but its product with the channel count in 32 bits. The section
  has room for \<open>(size - 16) / 2\<close> samples.
\<close>

definition shm_size :: "nat \<Rightarrow> nat" where
  "shm_size channelCount = 16 + ulong (INFERNO_SHM_BUFFER_FRAMES * channelCount) * 2"

definition InfernoShmInit ::
  "NTSTATUS \<Rightarrow> NTSTATUS \<Rightarrow> shm_globals \<Rightarrow> nat \<Rightarrow> nat \<Rightarrow> NTSTATUS \<times> shm_globals" where
  "InfernoShmInit zw_create zw_map g channelCount sampleRate =
     (if \<not> NT_SUCCESS zw_create then (zw_create, g)
      else if \<not> NT_SUCCESS zw_map then (zw_map, g \<lparr> g_ShmHandle := False \<rparr>)
      else (STATUS_SUCCESS,
            g \<lparr> g_ShmHandle := True,
                g_ShmBase := Some \<lparr> write_index = 0, channel_count = channelCount,
                  sample_rate = sampleRate, buffer_frames = INFERNO_SHM_BUFFER_FRAMES,
                  ring = replicate ((shm_size channelCount - 16) div 2) 0 \<rparr> \<rparr>))"

text \<open>The two loops of \<open>InfernoShmWrite\<close>, \<open>n\<close> being the iterations left.\<close>

fun shm_copy_frame :: "INT16 list \<Rightarrow> INT16 list \<Rightarrow> nat \<Rightarrow> nat \<Rightarrow> nat \<Rightarrow> nat \<Rightarrow> nat \<Rightarrow> INT16 list option" where
  "shm_copy_frame rb samples frameSlot f channelCount c 0 = Some rb"
| "shm_copy_frame rb samples frameSlot f channelCount c (Suc n) = do {
     v \<leftarrow> load samples (ulong (f * channelCount + c));
     rb' \<leftarrow> store rb (ulong (frameSlot * channelCount + c)) v;
     shm_copy_frame rb' samples frameSlot f channelCount (Suc c) n }"

fun shm_copy_frames :: "INT16 list \<Rightarrow> INT16 list \<Rightarrow> nat \<Rightarrow> nat \<Rightarrow> nat \<Rightarrow> nat \<Rightarrow> INT16 list option" where
  "shm_copy_frames rb samples writeIdx channelCount f 0 = Some rb"
| "shm_copy_frames rb samples writeIdx channelCount f (Suc n) = do {
     rb' \<leftarrow> shm_copy_frame rb samples (ulong (writeIdx + f) mod INFERNO_SHM_BUFFER_FRAMES)
              f channelCount 0 channelCount;
     shm_copy_frames rb' samples writeIdx channelCount (Suc f) n }"

definition InfernoShmWrite :: "shm_globals \<Rightarrow> INT16 list \<Rightarrow> nat \<Rightarrow> nat \<Rightarrow> shm_globals option" where
  "InfernoShmWrite g samples frameCount channelCount =
     (case g_ShmBase g of
        None \<Rightarrow> Some g
      | Some hdr \<Rightarrow> do {
          rb \<leftarrow> shm_copy_frames (ring hdr) samples (write_index hdr) channelCount 0 frameCount;
          Some (g \<lparr> g_ShmBase := Some (hdr \<lparr> ring := rb,
                     write_index := ulong (write_index hdr + frameCount) \<rparr>) \<rparr>) })"

definition InfernoShmCleanup :: "shm_globals \<Rightarrow> shm_globals" where
  "InfernoShmCleanup g =
     (let g1 = (if g_ShmBase g \<noteq> None then g \<lparr> g_ShmBase := None \<rparr> else g)
      in if g_ShmHandle g1 then g1 \<lparr> g_ShmHandle := False \<rparr> else g1)"

section \<open>The abstract frame stream\<close>

text \<open>Frame \<open>k\<close> of interleaved samples, and the frames of a block.\<close>

definition frame_at :: "INT16 list \<Rightarrow> nat \<Rightarrow> nat \<Rightarrow> INT16 list" where
  "frame_at samples ch k = slice samples (k * ch) ch"

definition frames_of :: "INT16 list \<Rightarrow> nat \<Rightarrow> nat \<Rightarrow> INT16 list list" where
  "frames_of samples ch n = map (frame_at samples ch) [0..<n]"

text \<open>The ring holds the last 4096 frames of the history, frame \<open>k\<close> in slot \<open>k mod 4096\<close>.\<close>

definition ring_holds :: "nat \<Rightarrow> INT16 list \<Rightarrow> INT16 list list \<Rightarrow> bool" where
  "ring_holds ch rb hist \<longleftrightarrow> length rb = INFERNO_SHM_BUFFER_FRAMES * ch
     \<and> list_all (\<lambda>k. frame_at rb ch (k mod INFERNO_SHM_BUFFER_FRAMES) = hist ! k)
         [length hist - INFERNO_SHM_BUFFER_FRAMES..<length hist]"

definition shm_rep :: "nat \<Rightarrow> shm_globals \<Rightarrow> INT16 list list \<Rightarrow> bool" where
  "shm_rep ch g hist = (case g_ShmBase g of None \<Rightarrow> False
     | Some hdr \<Rightarrow> channel_count hdr = ch \<and> buffer_frames hdr = INFERNO_SHM_BUFFER_FRAMES
         \<and> write_index hdr = ulong (length hist) \<and> ring_holds ch (ring hdr) hist)"

definition ch_ok :: "nat \<Rightarrow> bool" where
  "ch_ok ch \<longleftrightarrow> 0 < ch \<and> INFERNO_SHM_BUFFER_FRAMES * ch < 4294967296"

lemma shm_copy_frame_eq:
  assumes "f * ch + c + n \<le> length samples" and "length samples < 4294967296"
    and "slot * ch + c + n \<le> length rb" and "length rb < 4294967296"
  shows "shm_copy_frame rb samples slot f ch c n =
     Some (put_slice rb (slot * ch + c) (slice samples (f * ch + c) n))"
proof -
  have "shm_copy_frame rb samples slot f ch c n = store_all rb (slot * ch + c) (slice samples (f * ch + c) n)"
    using assms
  proof (induction n arbitrary: c rb)
    case (Suc n)
    have "store rb (slot * ch + c) v = Some (rb[slot * ch + c := v])" for v
      using Suc.prems by (simp add: store_def)
    then show ?case
      using Suc.prems Suc.IH [of "Suc c"] by (simp add: load_def slice_Suc)
  qed simp
  then show ?thesis using assms by (simp add: store_all_put_slice)
qed

lemma ring_slot: "ulong (ulong n + f) mod INFERNO_SHM_BUFFER_FRAMES = (n + f) mod INFERNO_SHM_BUFFER_FRAMES"
proof -
  have d: "(4096 :: nat) dvd 4294967296" by simp
  have "(n mod 4294967296 + f) mod 4294967296 = (n + f) mod 4294967296" by (rule mod_add_left_eq)
  then show ?thesis
    by (simp only: ulong_def INFERNO_SHM_BUFFER_FRAMES_def mod_mod_cancel [OF d])
qed

lemma mod_window:
  assumes "(k :: nat) < n" and "n < k + 4096"
  shows "k mod 4096 \<noteq> n mod 4096"
proof
  assume "k mod 4096 = n mod 4096"
  then have "4096 dvd n - k" using assms(1) by (metis mod_eq_dvd_iff_nat less_imp_le)
  then show False using assms by (auto dest: dvd_imp_le)
qed

text \<open>Writing one frame extends the history by it.\<close>

lemma ring_holds_put:
  assumes r: "ring_holds ch rb hist" and fr: "length fr = ch"
  shows "ring_holds ch (put_slice rb ((length hist mod INFERNO_SHM_BUFFER_FRAMES) * ch) fr) (hist @ [fr])"
proof -
  let ?n = "length hist" and ?s = "(length hist mod 4096) * ch"
  have slot: "(k mod 4096) * ch + ch \<le> 4096 * ch" for k :: nat
  proof -
    have "Suc (k mod 4096) * ch \<le> 4096 * ch" by (intro mult_right_mono) (simp_all add: Suc_leI)
    then show ?thesis by simp
  qed
  have len: "length rb = 4096 * ch" using r by (simp add: ring_holds_def const_defs)
  have fit: "?s + length fr \<le> length rb" using slot [of ?n] by (simp add: fr len)
  have same: "frame_at (put_slice rb ?s fr) ch (?n mod 4096) = fr"
    using slice_put_same [OF fit] fr by (simp add: frame_at_def)
  have other: "frame_at (put_slice rb ?s fr) ch (k mod 4096) = hist ! k"
    if k: "k < ?n" "?n - 4095 \<le> k" for k
  proof -
    have ne: "k mod 4096 \<noteq> ?n mod 4096" using k by (intro mod_window) simp_all
    have "(k mod 4096) * ch + ch \<le> ?s \<or> ?s + ch \<le> (k mod 4096) * ch"
    proof (cases "k mod 4096 < ?n mod 4096")
      case True
      then have "Suc (k mod 4096) * ch \<le> ?s" by (intro mult_right_mono) simp_all
      then show ?thesis by simp
    next
      case False
      then have "Suc (?n mod 4096) * ch \<le> (k mod 4096) * ch" using ne by (intro mult_right_mono) simp_all
      then show ?thesis by simp
    qed
    then have "slice (put_slice rb ?s fr) ((k mod 4096) * ch) ch = slice rb ((k mod 4096) * ch) ch"
      using slot [of k] fit by (intro slice_put_other) (simp_all add: fr len)
    moreover have "frame_at rb ch (k mod 4096) = hist ! k"
      using r k by (auto simp: ring_holds_def const_defs list_all_iff)
    ultimately show ?thesis by (simp add: frame_at_def)
  qed
  have "frame_at (put_slice rb ?s fr) ch (k mod 4096) = (hist @ [fr]) ! k"
    if "k \<in> {Suc ?n - 4096..<Suc ?n}" for k
    using that same other [of k] by (cases "k = ?n") (auto simp: nth_append)
  then show ?thesis using fit by (simp add: ring_holds_def const_defs list_all_iff len)
qed

lemma shm_copy_frames_holds:
  assumes "ring_holds ch rb hist" and "ch_ok ch" and "(f + n) * ch \<le> length samples"
    and "length samples < 4294967296" and "length hist = w + f"
  shows "\<exists>rb'. shm_copy_frames rb samples (ulong w) ch f n = Some rb'
     \<and> ring_holds ch rb' (hist @ map (frame_at samples ch) [f..<f + n])"
  using assms
proof (induction n arbitrary: f rb hist)
  case 0
  then show ?case by simp
next
  case (Suc n)
  let ?slot = "length hist mod INFERNO_SHM_BUFFER_FRAMES" and ?fr = "frame_at samples ch f"
  have b: "f * ch + ch \<le> length samples"
    using Suc.prems(3) by (simp add: algebra_simps) 
  have len: "length rb = 4096 * ch" "length rb < 4294967296"
    using Suc.prems(1,2) by (simp_all add: ring_holds_def ch_ok_def const_defs)
  have "Suc ?slot * ch \<le> 4096 * ch" by (intro mult_right_mono) (simp_all add: Suc_leI const_defs)
  then have s: "?slot * ch + ch \<le> length rb" by (simp add: len)
  have c: "shm_copy_frame rb samples (ulong (ulong w + f) mod INFERNO_SHM_BUFFER_FRAMES) f ch 0 ch
      = Some (put_slice rb (?slot * ch) ?fr)"
    using shm_copy_frame_eq [of f ch 0 ch samples ?slot rb] b s len Suc.prems(4,5)
    by (simp add: ring_slot frame_at_def)
  have fr: "length ?fr = ch" using b by (simp add: frame_at_def)
  have "\<exists>rb'. shm_copy_frames (put_slice rb (?slot * ch) ?fr) samples (ulong w) ch (Suc f) n = Some rb'
     \<and> ring_holds ch rb' ((hist @ [?fr]) @ map (frame_at samples ch) [Suc f..<Suc f + n])"
    using Suc.prems by (intro Suc.IH ring_holds_put fr) simp_all
  moreover have "[f..<f + Suc n] = f # [Suc f..<Suc f + n]" by (simp add: upt_conv_Cons)
  ultimately show ?case by (simp add: c)
qed

section \<open>The contract of a frame sink\<close>

text \<open>
  What a producer relies on: a block accepted by the sink never faults and its content is appended
  to the stream the sink represents.
\<close>

primrec put_all :: "('s \<Rightarrow> 'b \<Rightarrow> 's option) \<Rightarrow> 's \<Rightarrow> 'b list \<Rightarrow> 's option" where
  "put_all put s [] = Some s"
| "put_all put s (b # bs) = do { s' \<leftarrow> put s b; put_all put s' bs }"

locale frame_sink =
  fixes rep :: "'s \<Rightarrow> 'f list \<Rightarrow> bool"
    and put :: "'s \<Rightarrow> 'b \<Rightarrow> 's option"
    and accepts :: "'b \<Rightarrow> bool"
    and content :: "'b \<Rightarrow> 'f list"
  assumes put_rep: "rep s h \<Longrightarrow> accepts b \<Longrightarrow> \<exists>s'. put s b = Some s' \<and> rep s' (h @ content b)"
begin

lemma put_all_rep:
  "rep s h \<Longrightarrow> list_all accepts bs \<Longrightarrow>
     \<exists>s'. put_all put s bs = Some s' \<and> rep s' (h @ concat (map content bs))"
proof (induction bs arbitrary: s h)
  case (Cons b bs)
  then obtain s1 where s1: "put s b = Some s1" "rep s1 (h @ content b)"
    using put_rep by fastforce
  with Cons.IH [OF s1(2)] Cons.prems(2) show ?case by simp
qed simp

lemma put_all_total: "rep s h \<Longrightarrow> list_all accepts bs \<Longrightarrow> put_all put s bs \<noteq> None"
  using put_all_rep by fastforce

end

text \<open>A block is a sample buffer with a number of frames it contains.\<close>

definition shm_put :: "nat \<Rightarrow> shm_globals \<Rightarrow> INT16 list \<times> nat \<Rightarrow> shm_globals option" where
  "shm_put ch g b = InfernoShmWrite g (fst b) (snd b) ch"

definition block_ok :: "nat \<Rightarrow> INT16 list \<times> nat \<Rightarrow> bool" where
  "block_ok ch b \<longleftrightarrow> snd b * ch \<le> length (fst b) \<and> length (fst b) < 4294967296"

definition block_frames :: "nat \<Rightarrow> INT16 list \<times> nat \<Rightarrow> INT16 list list" where
  "block_frames ch b = frames_of (fst b) ch (snd b)"

lemma InfernoShmWrite_rep:
  assumes "shm_rep ch g hist" and "ch_ok ch" and "n * ch \<le> length samples"
    and "length samples < 4294967296"
  shows "\<exists>g'. InfernoShmWrite g samples n ch = Some g' \<and> shm_rep ch g' (hist @ frames_of samples ch n)
     \<and> g_ShmHandle g' = g_ShmHandle g"
proof -
  obtain hdr where hdr: "g_ShmBase g = Some hdr" "channel_count hdr = ch"
      "buffer_frames hdr = INFERNO_SHM_BUFFER_FRAMES" "write_index hdr = ulong (length hist)"
      "ring_holds ch (ring hdr) hist"
    using assms(1) by (auto simp: shm_rep_def split: option.splits)
  have "\<exists>rb'. shm_copy_frames (ring hdr) samples (ulong (length hist)) ch 0 n = Some rb'
      \<and> ring_holds ch rb' (hist @ map (frame_at samples ch) [0..<0 + n])"
    using assms hdr by (intro shm_copy_frames_holds) simp_all
  then obtain rb' where rb': "shm_copy_frames (ring hdr) samples (ulong (length hist)) ch 0 n = Some rb'"
      "ring_holds ch rb' (hist @ frames_of samples ch n)"
    by (auto simp: frames_of_def)
  have "ulong (ulong (length hist) + n) = ulong (length hist + n)"
    by (simp add: ulong_def mod_add_left_eq)
  with hdr rb' show ?thesis
    by (simp add: InfernoShmWrite_def shm_rep_def frames_of_def)
qed

interpretation shm: frame_sink "\<lambda>g h. ch_ok ch \<and> shm_rep ch g h" "shm_put ch" "block_ok ch" "block_frames ch"
  for ch
proof
  fix g h b
  assume a: "ch_ok ch \<and> shm_rep ch g h" "block_ok ch b"
  then obtain g' where "InfernoShmWrite g (fst b) (snd b) ch = Some g'"
      "shm_rep ch g' (h @ frames_of (fst b) ch (snd b))"
    using InfernoShmWrite_rep [of ch g h "snd b" "fst b"] by (auto simp: block_ok_def)
  with a show "\<exists>s'. shm_put ch g b = Some s' \<and> ch_ok ch \<and> shm_rep ch s' (h @ block_frames ch b)"
    by (simp add: shm_put_def block_frames_def)
qed

lemma shm_size_eq: "ch_ok ch \<Longrightarrow> shm_size ch = 16 + 2 * (INFERNO_SHM_BUFFER_FRAMES * ch)"
  by (simp add: shm_size_def ch_ok_def)

lemma InfernoShmInit_rep:
  assumes "ch_ok ch" and "NT_SUCCESS zw_create" and "NT_SUCCESS zw_map"
  shows "shm_rep ch (snd (InfernoShmInit zw_create zw_map g ch rate)) []"
  using assms by (simp add: InfernoShmInit_def shm_rep_def ring_holds_def shm_size_eq)

text \<open>
  C9. The shared ring is a faithful window on the sample stream: after a successful InfernoShmInit
  and any sequence of InfernoShmWrite calls with that channel count, no access leaves the section
  and the last 4096 frames written, in order, are found in the ring at their index modulo 4096,
  also after write index and slot have wrapped around.
\<close>

theorem shm_ring_correct:
  assumes "ch_ok ch" and "NT_SUCCESS zw_create" and "NT_SUCCESS zw_map"
    and "list_all (block_ok ch) blocks"
  shows "\<exists>g'. put_all (shm_put ch) (snd (InfernoShmInit zw_create zw_map g ch rate)) blocks = Some g'
     \<and> shm_rep ch g' (concat (map (block_frames ch) blocks))"
  using shm.put_all_rep [of ch "snd (InfernoShmInit zw_create zw_map g ch rate)" "[]" blocks]
    InfernoShmInit_rep [OF assms(1-3)] assms by auto

theorem shm_ring_correct_witness:
  "\<exists>g'. put_all (shm_put 2)
      (snd (InfernoShmInit STATUS_SUCCESS STATUS_SUCCESS \<lparr> g_ShmBase = None, g_ShmHandle = False \<rparr> 2 48000))
      [([1, 2, 3, 4], 2), ([5, 6, 7], 1)] = Some g'
     \<and> shm_rep 2 g' [[1, 2], [3, 4], [5, 6]]"
proof -
  have "\<exists>g'. put_all (shm_put 2)
      (snd (InfernoShmInit STATUS_SUCCESS STATUS_SUCCESS \<lparr> g_ShmBase = None, g_ShmHandle = False \<rparr> 2 48000))
      [([1, 2, 3, 4], 2), ([5, 6, 7], 1)] = Some g'
     \<and> shm_rep 2 g' (concat (map (block_frames 2) [([1, 2, 3, 4], 2), ([5, 6, 7], 1)]))"
    by (rule shm_ring_correct) (simp_all add: ch_ok_def block_ok_def const_defs)
  moreover have "concat (map (block_frames 2) [([1, 2, 3, 4], 2), ([5, 6, 7], 1)])
      = [[1, 2], [3, 4], [5, 6 :: INT16]]"
    by code_simp
  ultimately show ?thesis by simp
qed

end
