(* ===== verification/SaveData.thy ===== *)
theory SaveData
  imports KsProperty ShmBridge
begin

text \<open>
  Class CSaveData of savedata.cpp: the sink that collects rendered audio in a ring of frames,
  queues full frames to work items that append them to a wave file, and copies the samples into
  the shared-memory bridge. ULONG arithmetic is on numbers with the wrap-around written out
  (\<open>ulong\<close>, \<open>usub\<close>); the data buffer, the table of frame flags and the work items are lists that
  fault outside their bounds. The results of kernel calls (allocation, file and wait calls) are
  arguments. \<open>disk\<close> is the content of the data file; a write at the file pointer replaces the
  bytes there and extends the file.
\<close>

section \<open>State\<close>

definition DEFAULT_FRAME_COUNT :: nat where [const_defs]: "DEFAULT_FRAME_COUNT = 4"
definition DEFAULT_FRAME_SIZE :: nat where [const_defs]: "DEFAULT_FRAME_SIZE = 4096 * 4"
definition DEFAULT_BUFFER_SIZE :: nat where [const_defs]: "DEFAULT_BUFFER_SIZE = 4096 * 4 * 4"
definition MAX_WORKER_ITEM_COUNT :: nat where [const_defs]: "MAX_WORKER_ITEM_COUNT = 8"
definition WAVE_FORMAT_PCM :: nat where [const_defs]: "WAVE_FORMAT_PCM = 1"

text \<open>A WAVEFORMATEX in memory: the two fields the code reads and all its bytes.\<close>

record WAVEFORMATEX =
  wFormatTag :: nat
  cbSize :: nat
  wfx_bytes :: "BYTE list"

text \<open>\<open>pData\<close> is the offset in the data buffer; \<open>EventDone\<close> is whether the event is signalled.\<close>

record SAVEWORKER_PARAM =
  WorkItem :: bool
  ulFrameNo :: nat
  ulDataSize :: nat
  pData :: nat
  EventDone :: bool

record CSaveData =
  m_FileName :: "string option"
  m_FileHandle :: bool
  m_pDataBuffer :: "BYTE list option"
  m_ulBufferSize :: nat
  m_ulFrameIndex :: nat
  m_ulFrameCount :: nat
  m_ulFrameSize :: nat
  m_ulBufferOffset :: nat
  m_fFrameUsed :: "bool list option"
  dwFileSize :: nat
  dwFormatLength :: nat
  dwDataLength :: nat
  m_waveFormat :: "WAVEFORMATEX option"
  m_pFilePtr :: "nat option"
  m_pWorkItems :: "SAVEWORKER_PARAM list option"
  m_fWriteDisabled :: bool
  m_bInitialized :: bool

type_synonym disk = "BYTE list"

text \<open>The object is allocated in zeroed memory, so the work items start as NULL.\<close>

definition CSaveData_ctor :: CSaveData where
  "CSaveData_ctor = \<lparr> m_FileName = None, m_FileHandle = False, m_pDataBuffer = None,
     m_ulBufferSize = DEFAULT_BUFFER_SIZE, m_ulFrameIndex = 0, m_ulFrameCount = DEFAULT_FRAME_COUNT,
     m_ulFrameSize = DEFAULT_FRAME_SIZE, m_ulBufferOffset = 0, m_fFrameUsed = None,
     dwFileSize = 0, dwFormatLength = 18, dwDataLength = 0, m_waveFormat = None, m_pFilePtr = None,
     m_pWorkItems = None, m_fWriteDisabled = False, m_bInitialized = False \<rparr>"

section \<open>The wave file\<close>

definition le32 :: "nat \<Rightarrow> BYTE list" where
  "le32 n = map (\<lambda>i. of_nat (n div 256 ^ i)) [0..<4]"

definition write_at :: "disk \<Rightarrow> nat \<Rightarrow> BYTE list \<Rightarrow> disk" where
  "write_at f pos bs = take pos (f @ replicate (pos - length f) 0) @ bs @ drop (pos + length bs) f"

text \<open>The packed headers: RIFF tag, size, WAVE tag, fmt tag, format length; data tag, length.\<close>

definition file_header :: "CSaveData \<Rightarrow> BYTE list" where
  "file_header d = le32 0x46464952 @ le32 (dwFileSize d) @ le32 0x45564157 @ le32 0x20746D66
     @ le32 (dwFormatLength d)"

definition data_header :: "CSaveData \<Rightarrow> BYTE list" where
  "data_header d = le32 0x61746164 @ le32 (dwDataLength d)"

definition format_length :: "WAVEFORMATEX \<Rightarrow> nat" where
  "format_length w = (if wFormatTag w = WAVE_FORMAT_PCM then 16 else 18 + cbSize w)"

definition FileClose :: "NTSTATUS \<Rightarrow> CSaveData \<Rightarrow> NTSTATUS \<times> CSaveData" where
  "FileClose zw_close d =
     (if m_FileHandle d then (zw_close, d \<lparr> m_FileHandle := False \<rparr>) else (STATUS_SUCCESS, d))"

definition FileOpen :: "NTSTATUS \<Rightarrow> bool \<Rightarrow> CSaveData \<Rightarrow> disk \<Rightarrow> NTSTATUS \<times> CSaveData \<times> disk" where
  "FileOpen zw_create fOverWrite d f =
     (if \<not> m_bInitialized d then (STATUS_UNSUCCESSFUL, d, f)
      else if \<not> m_FileHandle d then
        (if NT_SUCCESS zw_create then (zw_create, d \<lparr> m_FileHandle := True \<rparr>, if fOverWrite then [] else f)
         else (zw_create, d, f))
      else (STATUS_SUCCESS, d, f))"

definition FileWrite :: "NTSTATUS \<Rightarrow> BYTE list \<Rightarrow> CSaveData \<Rightarrow> disk \<Rightarrow> (NTSTATUS \<times> CSaveData \<times> disk) option" where
  "FileWrite zw_write bytes d f =
     (if m_FileHandle d then do {
        pos \<leftarrow> m_pFilePtr d;
        Some (if NT_SUCCESS zw_write
              then (zw_write, d \<lparr> m_pFilePtr := Some (pos + length bytes) \<rparr>, write_at f pos bytes)
              else (zw_write, d, f)) }
      else Some (STATUS_INVALID_HANDLE, d, f))"

text \<open>One ZwWriteFile of the header: a failure is logged and the pointer advances all the same.\<close>

definition header_write :: "NTSTATUS \<Rightarrow> nat \<Rightarrow> BYTE list \<Rightarrow> disk \<Rightarrow> disk" where
  "header_write zw_write pos bytes f = (if NT_SUCCESS zw_write then write_at f pos bytes else f)"

definition FileWriteHeader :: "NTSTATUS \<Rightarrow> NTSTATUS \<Rightarrow> NTSTATUS \<Rightarrow> CSaveData \<Rightarrow> disk \<Rightarrow>
    (NTSTATUS \<times> CSaveData \<times> disk) option" where
  "FileWriteHeader w1 w2 w3 d f =
     (case (m_FileHandle d, m_waveFormat d) of
        (True, Some wfx) \<Rightarrow> do {
          _ \<leftarrow> m_pFilePtr d;
          let len = format_length wfx;
          let d1 = d \<lparr> dwFormatLength := len \<rparr>;
          let f1 = header_write w1 0 (file_header d1) f;
          let f2 = header_write w2 20 (take len (wfx_bytes wfx)) f1;
          let f3 = header_write w3 (20 + len) (data_header d1) f2;
          Some (w3, d1 \<lparr> m_pFilePtr := Some (20 + len + 8) \<rparr>, f3) }
      | _ \<Rightarrow> Some (STATUS_INVALID_HANDLE, d, f))"

definition SetDataFormat :: "bool \<Rightarrow> format_guid \<Rightarrow> WAVEFORMATEX \<Rightarrow> CSaveData \<Rightarrow> NTSTATUS \<times> CSaveData" where
  "SetDataFormat alloc spec wfx d =
     (if spec = KSDATAFORMAT_SPECIFIER_DSOUND \<or> spec = KSDATAFORMAT_SPECIFIER_WAVEFORMATEX then
        (if alloc
         then (STATUS_SUCCESS,
               d \<lparr> m_waveFormat := Some (wfx \<lparr> wfx_bytes := take (format_length wfx) (wfx_bytes wfx) \<rparr>) \<rparr>)
         else (STATUS_INSUFFICIENT_RESOURCES, d \<lparr> m_waveFormat := None \<rparr>))
      else (STATUS_SUCCESS, d))"

definition SetMaxWriteSize :: "(nat \<Rightarrow> BYTE list option) \<Rightarrow> nat \<Rightarrow> CSaveData \<Rightarrow> NTSTATUS \<times> CSaveData" where
  "SetMaxWriteSize alloc ulMaxWriteSize d =
     (if 4294967296 \<le> ulMaxWriteSize * DEFAULT_FRAME_COUNT then (STATUS_INSUFFICIENT_RESOURCES, d)
      else (let bufferSize = ulMaxWriteSize * DEFAULT_FRAME_COUNT
            in case alloc bufferSize of
                 None \<Rightarrow> (STATUS_INSUFFICIENT_RESOURCES, d)
               | Some buffer \<Rightarrow>
                   (STATUS_SUCCESS, d \<lparr> m_pDataBuffer := Some buffer, m_ulBufferSize := bufferSize,
                      m_ulFrameSize := ulMaxWriteSize \<rparr>)))"

definition Disable :: "bool \<Rightarrow> CSaveData \<Rightarrow> CSaveData" where
  "Disable fDisable d = d \<lparr> m_fWriteDisabled := fDisable \<rparr>"

definition ReadData :: "CSaveData \<Rightarrow> CSaveData" where "ReadData d = d"

section \<open>Work items\<close>

text \<open>
  \<open>items\<close> gives for each of the eight calls of IoAllocateWorkItem whether it succeeded. A work
  item that was allocated is idle; the ones behind a failure stay zeroed.
\<close>

definition idle_item :: SAVEWORKER_PARAM where
  "idle_item = \<lparr> WorkItem = True, ulFrameNo = 0, ulDataSize = 0, pData = 0, EventDone = True \<rparr>"
definition zero_item :: SAVEWORKER_PARAM where
  "zero_item = \<lparr> WorkItem = False, ulFrameNo = 0, ulDataSize = 0, pData = 0, EventDone = False \<rparr>"

definition InitializeWorkItems :: "bool \<Rightarrow> bool list \<Rightarrow> CSaveData \<Rightarrow> NTSTATUS \<times> CSaveData" where
  "InitializeWorkItems alloc items d =
     (if m_pWorkItems d \<noteq> None then (STATUS_SUCCESS, d)
      else if alloc then
        (let good = takeWhile (\<lambda>b. b) (take MAX_WORKER_ITEM_COUNT items);
             d1 = d \<lparr> m_pWorkItems := Some (replicate (length good) idle_item
                        @ replicate (MAX_WORKER_ITEM_COUNT - length good) zero_item) \<rparr>
         in if length good = MAX_WORKER_ITEM_COUNT then (STATUS_SUCCESS, d1)
            else (STATUS_INSUFFICIENT_RESOURCES, d1))
      else (STATUS_INSUFFICIENT_RESOURCES, d))"

text \<open>DestroyWorkItems frees every allocated work item once; the count is the second result.\<close>

definition DestroyWorkItems :: "CSaveData \<Rightarrow> CSaveData \<times> nat" where
  "DestroyWorkItems d =
     (case m_pWorkItems d of None \<Rightarrow> (d, 0)
      | Some items \<Rightarrow> (d \<lparr> m_pWorkItems := None \<rparr>, length (filter WorkItem items)))"

text \<open>The first work item whose event is signalled; its event is reset.\<close>

fun find_free :: "nat \<Rightarrow> SAVEWORKER_PARAM list \<Rightarrow> nat option" where
  "find_free i [] = None"
| "find_free i (w # ws) = (if EventDone w \<and> WorkItem w then Some i else find_free (Suc i) ws)"

definition GetNewWorkItem :: "CSaveData \<Rightarrow> (nat option \<times> CSaveData) option" where
  "GetNewWorkItem d = do {
     items \<leftarrow> m_pWorkItems d;
     Some (case find_free 0 items of
             None \<Rightarrow> (None, d)
           | Some i \<Rightarrow> (Some i, d \<lparr> m_pWorkItems := Some (items[i := (items ! i) \<lparr> EventDone := False \<rparr>]) \<rparr>)) }"

text \<open>A queued work item is one whose event is not signalled.\<close>

definition SaveFrame :: "nat \<Rightarrow> nat \<Rightarrow> CSaveData \<Rightarrow> CSaveData option" where
  "SaveFrame frameNo dataSize d = do {
     (p, d1) \<leftarrow> GetNewWorkItem d;
     case p of
       None \<Rightarrow> Some d1
     | Some i \<Rightarrow> do {
         items \<leftarrow> m_pWorkItems d1;
         Some (d1 \<lparr> m_pWorkItems := Some (items[i := (items ! i)
                \<lparr> ulFrameNo := frameNo, ulDataSize := dataSize,
                  pData := ulong (frameNo * m_ulFrameSize d1) \<rparr>]) \<rparr>) } }"

text \<open>
  The callback of work item \<open>i\<close>: it waits for the file mutex (\<open>wait\<close>), opens the file, appends
  the frame, closes the file, clears the frame's flag and signals the event.
\<close>

definition SaveFrameWorkerCallback :: "NTSTATUS \<Rightarrow> NTSTATUS \<Rightarrow> NTSTATUS \<Rightarrow> nat \<Rightarrow> CSaveData \<Rightarrow> disk \<Rightarrow>
    (CSaveData \<times> disk) option" where
  "SaveFrameWorkerCallback wait zw_create zw_write i d f = do {
     items \<leftarrow> m_pWorkItems d;
     p \<leftarrow> load items i;
     (d3, f3) \<leftarrow>
       (if WorkItem p \<and> wait = STATUS_SUCCESS then
          (case FileOpen zw_create False d f of (st, d1, f1) \<Rightarrow> do {
             (d2, f2) \<leftarrow>
               (if NT_SUCCESS st then do {
                  buf \<leftarrow> m_pDataBuffer d1;
                  bytes \<leftarrow> (if pData p + ulDataSize p \<le> length buf
                            then Some (slice buf (pData p) (ulDataSize p)) else None);
                  (_, d', f') \<leftarrow> FileWrite zw_write bytes d1 f1;
                  Some (snd (FileClose STATUS_SUCCESS d'), f') }
                else Some (d1, f1));
             used \<leftarrow> m_fFrameUsed d2;
             used' \<leftarrow> store used (ulFrameNo p) False;
             Some (d2 \<lparr> m_fFrameUsed := Some used' \<rparr>, f2) })
        else Some (d, f));
     Some (d3 \<lparr> m_pWorkItems := Some (items[i := p \<lparr> EventDone := True \<rparr>]) \<rparr>, f3) }"

text \<open>
  WaitAllWorkItems queues the partially filled frame and then waits for every event; the waits
  end when the callbacks have run, which is not part of this function.
\<close>

definition WaitAllWorkItems :: "CSaveData \<Rightarrow> CSaveData option" where
  "WaitAllWorkItems d =
     (if ulong (m_ulFrameIndex d * m_ulFrameSize d) < m_ulBufferOffset d
      then SaveFrame (m_ulFrameIndex d)
             (usub (m_ulBufferOffset d) (ulong (m_ulFrameIndex d * m_ulFrameSize d))) d
      else Some d)"

section \<open>Writing audio data\<close>

text \<open>The buffer read as little-endian 16-bit samples.\<close>

fun samples_of :: "BYTE list \<Rightarrow> INT16 list" where
  "samples_of (lo # hi # bs) = (ucast lo OR push_bit 8 (ucast hi)) # samples_of bs"
| "samples_of _ = []"

text \<open>The number of bytes the first copy of WriteData moves: up to the end of the ring.\<close>

definition first_part :: "CSaveData \<Rightarrow> nat \<Rightarrow> nat" where
  "first_part d n =
     (if usub (m_ulBufferSize d) (m_ulBufferOffset d) < n
      then usub (m_ulBufferSize d) (m_ulBufferOffset d) else n)"

text \<open>The shared-memory part: whole frames of the first copy.\<close>

definition bridge_write :: "shm_globals \<Rightarrow> BYTE list \<Rightarrow> nat \<Rightarrow> shm_globals option" where
  "bridge_write g pBuffer ulWriteBytes =
     (if 0 < ulWriteBytes then
        (let frameCount = ulWriteBytes div 2 div INFERNO_SHM_CHANNELS
         in if 0 < frameCount then InfernoShmWrite g (samples_of pBuffer) frameCount INFERNO_SHM_CHANNELS
            else Some g)
      else Some g)"

text \<open>The left-over copy into the next frame, if that frame is free.\<close>

definition write_leftover :: "BYTE list \<Rightarrow> nat \<Rightarrow> nat \<Rightarrow> CSaveData \<Rightarrow> CSaveData option" where
  "write_leftover pBuffer ulWriteBytes n d =
     (if ulWriteBytes \<noteq> n then do {
        used \<leftarrow> m_fFrameUsed d;
        u \<leftarrow> load used (m_ulFrameIndex d);
        if \<not> u then do {
          buf \<leftarrow> m_pDataBuffer d;
          buf' \<leftarrow> rtl_copy buf (m_ulBufferOffset d) pBuffer ulWriteBytes (usub n ulWriteBytes);
          Some (d \<lparr> m_pDataBuffer := Some buf',
                    m_ulBufferOffset := ulong (m_ulBufferOffset d + usub n ulWriteBytes) \<rparr>) }
        else Some d }
      else Some d)"

definition WriteData :: "CSaveData \<Rightarrow> shm_globals \<Rightarrow> BYTE list \<Rightarrow> nat \<Rightarrow> (CSaveData \<times> shm_globals) option" where
  "WriteData d g pBuffer ulByteCount =
     (if m_fWriteDisabled d then Some (d, g)
      else if ulByteCount = 0 then Some (d, g)
      else do {
        let n = (if m_ulFrameSize d < ulByteCount then m_ulFrameSize d else ulByteCount);
        used \<leftarrow> m_fFrameUsed d;
        u \<leftarrow> load used (m_ulFrameIndex d);
        if \<not> u then do {
          let ulWriteBytes = first_part d n;
          buf \<leftarrow> m_pDataBuffer d;
          buf1 \<leftarrow> rtl_copy buf (m_ulBufferOffset d) pBuffer 0 ulWriteBytes;
          let off1 = ulong (m_ulBufferOffset d + ulWriteBytes);
          g1 \<leftarrow> bridge_write g pBuffer ulWriteBytes;
          let atEnd = (off1 = m_ulBufferSize d);
          let fSaveFrame = (ulong (ulong (m_ulFrameIndex d + 1) * m_ulFrameSize d) \<le> off1 \<or> atEnd);
          let d1 = d \<lparr> m_pDataBuffer := Some buf1, m_ulBufferOffset := (if atEnd then 0 else off1) \<rparr>;
          let d2 = (if fSaveFrame
                    then d1 \<lparr> m_fFrameUsed := Some (used[m_ulFrameIndex d := True]),
                              m_ulFrameIndex := ulong (m_ulFrameIndex d + 1) mod m_ulFrameCount d \<rparr>
                    else d1);
          d3 \<leftarrow> write_leftover pBuffer ulWriteBytes n d2;
          d4 \<leftarrow> (if fSaveFrame then SaveFrame (m_ulFrameIndex d) (m_ulFrameSize d) d3 else Some d3);
          Some (d4, g1) }
        else Some (d, g) })"

section \<open>Initialisation and destruction\<close>

text \<open>The results of the kernel calls of one run of Initialize.\<close>

record init_env =
  e_folder1 :: NTSTATUS
  e_folder2 :: NTSTATUS
  e_alloc_name :: bool
  e_alloc_data :: "nat \<Rightarrow> BYTE list option"
  e_alloc_flags :: bool
  e_alloc_items :: bool
  e_items :: "bool list"
  e_wait :: NTSTATUS
  e_create :: NTSTATUS
  e_write1 :: NTSTATUS
  e_write2 :: NTSTATUS
  e_write3 :: NTSTATUS

record stream_ids =
  m_ulStreamId :: nat
  m_ulOffloadStreamId :: nat

fun dec_string :: "nat \<Rightarrow> string" where
  "dec_string n = (if n < 10 then [char_of (48 + n)] else dec_string (n div 10) @ [char_of (48 + n mod 10)])"

text \<open>\<open>%d\<close> prints the ULONG counter as a signed int.\<close>

definition printf_d :: "nat \<Rightarrow> string" where
  "printf_d n = (if n < 2147483648 then dec_string n else CHR ''-'' # dec_string (4294967296 - n))"

definition data_file_name :: "bool \<Rightarrow> stream_ids \<Rightarrow> string" where
  "data_file_name off ids =
     [CHR 0x5C] @ ''DriverData'' @ [CHR 0x5C] @ ''Audio_Samples'' @ [CHR 0x5C] @ ''Sysvad''
       @ [CHR 0x5C] @ ''STREAM'' @ ''_'' @ (if off then ''OFFLOAD'' else ''HOST'') @ ''_''
       @ printf_d (if off then m_ulOffloadStreamId ids else m_ulStreamId ids) @ ''.wav''"

definition bump_id :: "bool \<Rightarrow> stream_ids \<Rightarrow> stream_ids" where
  "bump_id off ids =
     (if off then ids \<lparr> m_ulOffloadStreamId := ulong (m_ulOffloadStreamId ids + 1) \<rparr>
      else ids \<lparr> m_ulStreamId := ulong (m_ulStreamId ids + 1) \<rparr>)"

text \<open>The last step of Initialize: create the data file and write its header.\<close>

definition init_file :: "init_env \<Rightarrow> CSaveData \<Rightarrow> disk \<Rightarrow> (NTSTATUS \<times> CSaveData \<times> disk) option" where
  "init_file e d f =
     (let d1 = d \<lparr> m_pFilePtr := Some 0, m_bInitialized := True \<rparr>
      in if e_wait e = STATUS_SUCCESS then
           (case FileOpen (e_create e) True d1 f of (st, d2, f2) \<Rightarrow>
              if NT_SUCCESS st then do {
                (st', d3, f3) \<leftarrow> FileWriteHeader (e_write1 e) (e_write2 e) (e_write3 e) d2 f2;
                Some (st', snd (FileClose STATUS_SUCCESS d3), f3) }
              else Some (st, d2, f2))
         else Some (e_wait e, d1, f))"

definition CSaveData_Initialize :: "init_env \<Rightarrow> bool \<Rightarrow> stream_ids \<Rightarrow> CSaveData \<Rightarrow> disk \<Rightarrow>
    (NTSTATUS \<times> stream_ids \<times> CSaveData \<times> disk) option" where
  "CSaveData_Initialize e off ids d f =
     (let ids' = bump_id off ids
      in if \<not> NT_SUCCESS (e_folder1 e) then Some (e_folder1 e, ids', d, f)
         else if \<not> NT_SUCCESS (e_folder2 e) then Some (e_folder2 e, ids', d, f)
         else if \<not> e_alloc_name e then Some (STATUS_INSUFFICIENT_RESOURCES, ids', d, f)
         else
           (let d1 = d \<lparr> m_FileName := Some (data_file_name off ids') \<rparr>
            in case e_alloc_data e (m_ulBufferSize d1) of
                 None \<Rightarrow> Some (STATUS_INSUFFICIENT_RESOURCES, ids', d1 \<lparr> m_pDataBuffer := None \<rparr>, f)
               | Some buf \<Rightarrow>
                   (let d2 = d1 \<lparr> m_pDataBuffer := Some buf \<rparr>
                    in if \<not> e_alloc_flags e
                       then Some (STATUS_INSUFFICIENT_RESOURCES, ids', d2 \<lparr> m_fFrameUsed := None \<rparr>, f)
                       else
                         (let d3 = d2 \<lparr> m_fFrameUsed := Some (replicate (m_ulFrameCount d2) False) \<rparr>
                          in case InitializeWorkItems (e_alloc_items e) (e_items e) d3 of (st, d4) \<Rightarrow>
                               if NT_SUCCESS st then do {
                                 (st', d5, f') \<leftarrow> init_file e d4 f; Some (st', ids', d5, f') }
                               else Some (st, ids', d4, f)))))"

text \<open>
  The destructor: frees the work items, rewrites the header with the final sizes and releases the
  buffers. Its result is the object with every pointer cleared, and the file.
\<close>

definition CSaveData_dtor :: "NTSTATUS \<Rightarrow> NTSTATUS \<Rightarrow> NTSTATUS \<Rightarrow> NTSTATUS \<Rightarrow> NTSTATUS \<Rightarrow> CSaveData \<Rightarrow> disk \<Rightarrow>
    (CSaveData \<times> disk) option" where
  "CSaveData_dtor wait zw_create w1 w2 w3 d f =
     (let d1 = fst (DestroyWorkItems d)
      in do {
        (d2, f2) \<leftarrow>
          (case m_pFilePtr d1 of
             None \<Rightarrow> Some (d1, f)
           | Some pos \<Rightarrow>
               (let da = d1 \<lparr> dwFileSize := usub (ulong pos) 8,
                              dwDataLength := usub (usub (usub (ulong pos) 20) (dwFormatLength d1)) 8 \<rparr>
                in if wait = STATUS_SUCCESS then
                     (case FileOpen zw_create False da f of (st, db, fb) \<Rightarrow>
                        if NT_SUCCESS st then do {
                          (_, dc, fc) \<leftarrow> FileWriteHeader w1 w2 w3 db fb;
                          Some (snd (FileClose STATUS_SUCCESS dc), fc) }
                        else Some (db, fb))
                   else Some (da, f)));
        Some (d2 \<lparr> m_waveFormat := None, m_fFrameUsed := None, m_FileName := None,
                   m_pDataBuffer := None \<rparr>, f2) })"

section \<open>The invariant of the ring of frames\<close>

definition save_ok :: "CSaveData \<Rightarrow> bool" where
  "save_ok d \<longleftrightarrow>
     (case (m_pDataBuffer d, m_fFrameUsed d, m_pWorkItems d) of
        (Some buf, Some used, Some items) \<Rightarrow>
          length buf = m_ulBufferSize d \<and> length used = m_ulFrameCount d
          \<and> length items = MAX_WORKER_ITEM_COUNT
      | _ \<Rightarrow> False)
     \<and> m_ulBufferSize d = m_ulFrameCount d * m_ulFrameSize d \<and> m_ulBufferSize d < 4294967296
     \<and> 0 < m_ulFrameSize d \<and> m_ulFrameIndex d < m_ulFrameCount d
     \<and> m_ulFrameIndex d * m_ulFrameSize d \<le> m_ulBufferOffset d
     \<and> m_ulBufferOffset d < (m_ulFrameIndex d + 1) * m_ulFrameSize d"

text \<open>The bytes of the frame being filled, and the bytes WriteData takes of a request.\<close>

definition pending :: "CSaveData \<Rightarrow> BYTE list" where
  "pending d = (case m_pDataBuffer d of None \<Rightarrow> []
     | Some buf \<Rightarrow> slice buf (m_ulFrameIndex d * m_ulFrameSize d)
                     (m_ulBufferOffset d - m_ulFrameIndex d * m_ulFrameSize d))"

definition taken :: "CSaveData \<Rightarrow> BYTE list \<Rightarrow> nat \<Rightarrow> BYTE list" where
  "taken d p n = take (min n (m_ulFrameSize d)) p"

section \<open>Copies and slices\<close>

lemma slice_front: "slice p 0 n = take n p"
  by (simp add: slice_def)

lemma slice_put_extend:
  assumes "a \<le> off" and "off + length v \<le> length buf"
  shows "slice (put_slice buf off v) a (off - a + length v) = slice buf a (off - a) @ v"
proof -
  have "slice (put_slice buf off v) a (off - a + length v)
      = slice (put_slice buf off v) a (off - a) @ slice (put_slice buf off v) (a + (off - a)) (length v)"
    using assms by (intro slice_append) simp
  then show ?thesis
    using assms slice_put_same [of off v buf] slice_put_other [of off v buf a "off - a"] by simp
qed

lemma length_samples_of: "length (samples_of p) = length p div 2"
  by (induction p rule: samples_of.induct) simp_all

section \<open>Queueing a frame\<close>

lemma find_free_spec:
  "find_free k items = Some i \<Longrightarrow>
     k \<le> i \<and> i - k < length items \<and> EventDone (items ! (i - k)) \<and> WorkItem (items ! (i - k))"
proof (induction k items rule: find_free.induct)
  case (2 k w ws)
  then show ?case
    by (cases "EventDone w \<and> WorkItem w") (auto simp: Suc_diff_le nth_Cons')
qed simp

lemma find_free_0: "find_free 0 items = Some i \<Longrightarrow> i < length items \<and> EventDone (items ! i) \<and> WorkItem (items ! i)"
  using find_free_spec [of 0 items i] by simp

text \<open>The work item a frame is queued with, and SaveFrame as an update of the work items alone.\<close>

definition queue_item :: "nat \<Rightarrow> nat \<Rightarrow> nat \<Rightarrow> SAVEWORKER_PARAM \<Rightarrow> SAVEWORKER_PARAM" where
  "queue_item frameNo dataSize off w =
     w \<lparr> EventDone := False, ulFrameNo := frameNo, ulDataSize := dataSize, pData := off \<rparr>"

lemma SaveFrame_eq:
  assumes "m_pWorkItems d = Some items"
  shows "SaveFrame frameNo dataSize d = Some (d \<lparr> m_pWorkItems :=
     Some (case find_free 0 items of None \<Rightarrow> items
           | Some i \<Rightarrow> items[i := queue_item frameNo dataSize (ulong (frameNo * m_ulFrameSize d)) (items ! i)]) \<rparr>)"
proof (cases "find_free 0 items")
  case None
  then show ?thesis using assms by (cases d) (simp add: SaveFrame_def GetNewWorkItem_def)
next
  case (Some i)
  then have "i < length items" by (simp add: find_free_0)
  then show ?thesis using assms Some by (simp add: SaveFrame_def GetNewWorkItem_def queue_item_def)
qed

section \<open>One call of WriteData\<close>

text \<open>The parts of a well-formed sink by name.\<close>

lemma save_okE:
  assumes "save_ok d"
  obtains buf used items where
    "m_pDataBuffer d = Some buf" "m_fFrameUsed d = Some used" "m_pWorkItems d = Some items"
    "length buf = m_ulFrameCount d * m_ulFrameSize d" "length used = m_ulFrameCount d"
    "length items = MAX_WORKER_ITEM_COUNT"
  using assms by (auto simp: save_ok_def split: option.splits)

lemma save_ok_bounds:
  assumes "save_ok d"
  shows "m_ulBufferSize d = m_ulFrameCount d * m_ulFrameSize d" "m_ulBufferSize d < 4294967296"
    "0 < m_ulFrameSize d" "m_ulFrameIndex d < m_ulFrameCount d"
    "m_ulFrameIndex d * m_ulFrameSize d \<le> m_ulBufferOffset d"
    "m_ulBufferOffset d < (m_ulFrameIndex d + 1) * m_ulFrameSize d"
    "(m_ulFrameIndex d + 1) * m_ulFrameSize d \<le> m_ulBufferSize d"
    "m_ulFrameSize d \<le> m_ulBufferSize d" "m_ulFrameCount d \<le> m_ulBufferSize d"
proof -
  show *: "m_ulBufferSize d = m_ulFrameCount d * m_ulFrameSize d" "m_ulBufferSize d < 4294967296"
    "0 < m_ulFrameSize d" "m_ulFrameIndex d < m_ulFrameCount d"
    "m_ulFrameIndex d * m_ulFrameSize d \<le> m_ulBufferOffset d"
    "m_ulBufferOffset d < (m_ulFrameIndex d + 1) * m_ulFrameSize d"
    using assms unfolding save_ok_def by blast+
  show "(m_ulFrameIndex d + 1) * m_ulFrameSize d \<le> m_ulBufferSize d"
    unfolding *(1) using *(4) by (intro mult_right_mono) simp_all
  then show "m_ulFrameSize d \<le> m_ulBufferSize d" by simp
  show "m_ulFrameCount d \<le> m_ulBufferSize d" using *(1,3) by simp
qed

text \<open>
  The state a write leaves before a full frame is queued, for \<open>m\<close> bytes: within the frame, into
  the next frame, exactly to the end of the ring, or around it.
\<close>

definition filled :: "CSaveData \<Rightarrow> BYTE list \<Rightarrow> nat \<Rightarrow> CSaveData" where
  "filled d p m = d \<lparr> m_pDataBuffer := map_option (\<lambda>buf. put_slice buf (m_ulBufferOffset d) (take m p)) (m_pDataBuffer d) \<rparr>"

definition marked :: "CSaveData \<Rightarrow> CSaveData" where
  "marked d = d \<lparr> m_fFrameUsed := map_option (\<lambda>u. u[m_ulFrameIndex d := True]) (m_fFrameUsed d),
                  m_ulFrameIndex := (m_ulFrameIndex d + 1) mod m_ulFrameCount d \<rparr>"

definition frame_free :: "CSaveData \<Rightarrow> nat \<Rightarrow> bool" where
  "frame_free d i = (case m_fFrameUsed d of None \<Rightarrow> False | Some u \<Rightarrow> i < length u \<and> \<not> u ! i)"

lemma first_part_eq: "save_ok d \<Longrightarrow> first_part d n = min (m_ulBufferSize d - m_ulBufferOffset d) n"
  using save_ok_bounds [of d] by (simp add: first_part_def min_def not_less less_imp_le)

lemma WriteData_free:
  assumes ok: "save_ok d" and en: "\<not> m_fWriteDisabled d" and n: "0 < n" "n \<le> length p"
    and free: "frame_free d (m_ulFrameIndex d)"
    and m: "m = min n (m_ulFrameSize d)" and w: "w = min (m_ulBufferSize d - m_ulBufferOffset d) m"
    and g: "bridge_write g p w = Some g1"
  shows "WriteData d g p n =
    (let off = m_ulBufferOffset d + w;
         e = filled d p w \<lparr> m_ulBufferOffset := (if off = m_ulBufferSize d then 0 else off) \<rparr>
     in if (m_ulFrameIndex d + 1) * m_ulFrameSize d \<le> off
        then do { d3 \<leftarrow> write_leftover p w m (marked e);
                  d4 \<leftarrow> SaveFrame (m_ulFrameIndex d) (m_ulFrameSize d) d3; Some (d4, g1) }
        else do { d3 \<leftarrow> write_leftover p w m e; Some (d3, g1) })"
proof -
  note b = save_ok_bounds [OF ok]
  obtain buf used items where s: "m_pDataBuffer d = Some buf" "m_fFrameUsed d = Some used"
      "m_pWorkItems d = Some items" "length buf = m_ulFrameCount d * m_ulFrameSize d"
      "length used = m_ulFrameCount d"
    using save_okE [OF ok] by metis
  have fr: "m_ulFrameIndex d < length used" "\<not> used ! m_ulFrameIndex d"
    using free s by (simp_all add: frame_free_def)
  have mm: "(if m_ulFrameSize d < n then m_ulFrameSize d else n) = m" using m by simp
  have wp: "first_part d m = w" using first_part_eq [OF ok] w by simp
  have wl: "w \<le> length p" "m_ulBufferOffset d + w \<le> length buf"
    using w m n b s by simp_all
  have c: "rtl_copy buf (m_ulBufferOffset d) p 0 w = Some (put_slice buf (m_ulBufferOffset d) (take w p))"
    using wl by (simp add: rtl_copy_eq slice_front)
  have o: "ulong (m_ulBufferOffset d + w) = m_ulBufferOffset d + w"
    using wl s b by simp
  have i: "ulong (Suc (m_ulFrameIndex d)) = Suc (m_ulFrameIndex d)" using b(2,4,9) by simp
  have ii: "ulong (Suc (m_ulFrameIndex d) * m_ulFrameSize d) = Suc (m_ulFrameIndex d) * m_ulFrameSize d"
    using b(2,7) by simp
  have atEnd: "Suc (m_ulFrameIndex d) * m_ulFrameSize d \<le> m_ulBufferOffset d + w"
    if "m_ulBufferOffset d + w = m_ulBufferSize d"
    using that b(7) by simp
  have test: "(Suc (m_ulFrameIndex d) * m_ulFrameSize d \<le> m_ulBufferOffset d + w
      \<or> m_ulBufferOffset d + w = m_ulBufferSize d)
      = (Suc (m_ulFrameIndex d) * m_ulFrameSize d \<le> m_ulBufferOffset d + w)"
    using atEnd by blast
  show ?thesis
    unfolding WriteData_def Let_def mm wp
    using en n s fr c g by (simp add: load_def o i ii test filled_def marked_def Let_def del: mult_Suc)
qed

text \<open>The three ways a write into a free frame can end.\<close>

lemma frame_arith:
  fixes fi fc fs off m :: nat
  assumes "0 < fs" "fi < fc" "fi * fs \<le> off" "off < (fi + 1) * fs" "m \<le> fs"
  shows "off + m < fc * fs \<Longrightarrow> (fi + 1) * fs \<le> off + m \<Longrightarrow> fi + 1 < fc"
    and "off + m < (fi + 2) * fs"
    and "fc * fs \<le> off + m \<Longrightarrow> fi + 1 = fc"
proof -
  show "fi + 1 < fc" if "off + m < fc * fs" "(fi + 1) * fs \<le> off + m"
  proof -
    have "(fi + 1) * fs < fc * fs" using that by linarith
    then show ?thesis unfolding mult_less_cancel2 by blast
  qed
  show l: "off + m < (fi + 2) * fs" using assms by simp
  show "fi + 1 = fc" if "fc * fs \<le> off + m"
  proof -
    have "fc * fs < (fi + 2) * fs" using that l by linarith
    then have "fc < fi + 2" unfolding mult_less_cancel2 by blast
    then show ?thesis using assms(2) by simp
  qed
qed

definition stay_state :: "CSaveData \<Rightarrow> BYTE list \<Rightarrow> nat \<Rightarrow> CSaveData" where
  "stay_state d p m = filled d p m \<lparr> m_ulBufferOffset := m_ulBufferOffset d + m \<rparr>"

definition wrap_state :: "CSaveData \<Rightarrow> BYTE list \<Rightarrow> nat \<Rightarrow> CSaveData" where
  "wrap_state d p w = marked (filled d p w \<lparr> m_ulBufferOffset := 0 \<rparr>)"

definition wrapped_state :: "CSaveData \<Rightarrow> BYTE list \<Rightarrow> nat \<Rightarrow> nat \<Rightarrow> CSaveData" where
  "wrapped_state d p w m =
     (let e = wrap_state d p w
      in if w \<noteq> m \<and> frame_free e 0
         then e \<lparr> m_pDataBuffer := map_option (\<lambda>buf. put_slice buf 0 (slice p w (m - w))) (m_pDataBuffer e),
                  m_ulBufferOffset := m - w \<rparr>
         else e)"

lemma save_ok_stay:
  assumes "save_ok d" and "m \<le> length p" and "m_ulBufferOffset d + m < (m_ulFrameIndex d + 1) * m_ulFrameSize d"
  shows "save_ok (stay_state d p m)"
  using assms save_ok_bounds [OF assms(1)]
  by (auto simp: save_ok_def stay_state_def filled_def split: option.splits)

lemma save_ok_next:
  assumes ok: "save_ok d" and m: "m \<le> length p" "m \<le> m_ulFrameSize d"
    and lo: "(m_ulFrameIndex d + 1) * m_ulFrameSize d \<le> m_ulBufferOffset d + m"
    and hi: "m_ulBufferOffset d + m < m_ulBufferSize d"
  shows "save_ok (marked (stay_state d p m))"
    and "m_ulFrameIndex (marked (stay_state d p m)) = m_ulFrameIndex d + 1"
proof -
  note b = save_ok_bounds [OF ok]
  have fi: "m_ulFrameIndex d + 1 < m_ulFrameCount d"
    by (rule frame_arith(1) [OF b(3,4,5,6) m(2) _ lo]) (use hi b(1) in simp)
  show i: "m_ulFrameIndex (marked (stay_state d p m)) = m_ulFrameIndex d + 1"
    using fi by (simp add: marked_def stay_state_def filled_def)
  have "m_ulBufferOffset d + m < (m_ulFrameIndex d + 2) * m_ulFrameSize d"
    by (rule frame_arith(2) [OF b(3,4,5,6) m(2)])
  then show "save_ok (marked (stay_state d p m))"
    using ok m lo hi fi b
    by (auto simp: save_ok_def stay_state_def filled_def marked_def split: option.splits)
qed

lemma save_ok_wrap:
  assumes ok: "save_ok d" and w: "w \<le> length p" "m_ulBufferOffset d + w = m_ulBufferSize d"
    and fi: "m_ulFrameIndex d + 1 = m_ulFrameCount d"
  shows "save_ok (wrap_state d p w)" and "m_ulFrameIndex (wrap_state d p w) = 0"
proof -
  note b = save_ok_bounds [OF ok]
  show "m_ulFrameIndex (wrap_state d p w) = 0"
    using fi by (simp add: wrap_state_def marked_def filled_def)
  then show "save_ok (wrap_state d p w)"
    using ok w b by (auto simp: save_ok_def wrap_state_def filled_def marked_def split: option.splits)
qed

lemma save_ok_wrapped:
  assumes ok: "save_ok d" and w: "w \<le> m" "m \<le> length p" "m \<le> m_ulFrameSize d" "0 < w"
    "m_ulBufferOffset d + w = m_ulBufferSize d" and fi: "m_ulFrameIndex d + 1 = m_ulFrameCount d"
  shows "save_ok (wrapped_state d p w m)"
proof -
  have wl: "w \<le> length p" using w by simp
  note e = save_ok_wrap [OF ok wl w(5) fi]
  note b = save_ok_bounds [OF e(1)]
  have fs: "m_ulFrameSize (wrap_state d p w) = m_ulFrameSize d"
    by (simp add: wrap_state_def marked_def filled_def)
  have "m - w \<le> m_ulFrameCount (wrap_state d p w) * m_ulFrameSize d"
  proof -
    have "m_ulFrameSize d \<le> m_ulFrameCount (wrap_state d p w) * m_ulFrameSize d"
      using b(1,8) fs by metis
    then show ?thesis using w(3) by linarith
  qed
  then show ?thesis
    using e w b fs
    by (auto simp: save_ok_def wrapped_state_def Let_def split: option.splits)
qed

lemma WriteData_cases:
  assumes ok: "save_ok d" and en: "\<not> m_fWriteDisabled d" and n: "0 < n" "n \<le> length p"
    and free: "frame_free d (m_ulFrameIndex d)"
    and m: "m = min n (m_ulFrameSize d)" and w: "w = min (m_ulBufferSize d - m_ulBufferOffset d) m"
    and g: "bridge_write g p w = Some g1"
  obtains
    (stay) "w = m" "m_ulBufferOffset d + m < (m_ulFrameIndex d + 1) * m_ulFrameSize d"
      "WriteData d g p n = Some (stay_state d p m, g1)"
  | (next_frame) "w = m" "(m_ulFrameIndex d + 1) * m_ulFrameSize d \<le> m_ulBufferOffset d + m"
      "m_ulBufferOffset d + m < m_ulBufferSize d"
      "WriteData d g p n = map_option (\<lambda>d'. (d', g1))
         (SaveFrame (m_ulFrameIndex d) (m_ulFrameSize d) (marked (stay_state d p m)))"
  | (wrap) "m_ulBufferSize d \<le> m_ulBufferOffset d + m" "w = m_ulBufferSize d - m_ulBufferOffset d"
      "m_ulFrameIndex d + 1 = m_ulFrameCount d"
      "WriteData d g p n = map_option (\<lambda>d'. (d', g1))
         (SaveFrame (m_ulFrameIndex d) (m_ulFrameSize d) (wrapped_state d p w m))"
proof -
  note b = save_ok_bounds [OF ok]
  note W = WriteData_free [OF assms]
  have mo: "m \<le> m_ulFrameSize d" "m \<le> length p" using m n by simp_all
  have lt: "m_ulBufferOffset d < m_ulBufferSize d" using b by linarith
  have same: "m_ulFrameSize (filled d p w) = m_ulFrameSize d" by (simp add: filled_def)
  consider "m_ulBufferOffset d + m < (m_ulFrameIndex d + 1) * m_ulFrameSize d"
    | "(m_ulFrameIndex d + 1) * m_ulFrameSize d \<le> m_ulBufferOffset d + m" "m_ulBufferOffset d + m < m_ulBufferSize d"
    | "m_ulBufferSize d \<le> m_ulBufferOffset d + m" by linarith
  then show thesis
  proof cases
    case 1
    then have "m_ulBufferOffset d + m < m_ulBufferSize d" using b by linarith
    with 1 show ?thesis
      using W w by (intro stay) (simp_all add: stay_state_def write_leftover_def)
  next
    case 2
    then show ?thesis
      using W w by (intro next_frame) (simp_all add: stay_state_def write_leftover_def map_option_case
          split: option.split)
  next
    case 3
    then have wr: "w = m_ulBufferSize d - m_ulBufferOffset d" using w by simp
    have off: "m_ulBufferOffset d + w = m_ulBufferSize d" using wr lt by simp
    have fi: "m_ulFrameIndex d + 1 = m_ulFrameCount d"
      by (rule frame_arith(3) [OF b(3,4,5,6) mo(1)]) (use 3 b(1) in simp)
    have wl: "w \<le> length p" "w \<le> m" using w mo by simp_all
    note e = save_ok_wrap [OF ok wl(1) off fi]
    have "m_ulFrameCount (wrap_state d p w) = m_ulFrameCount d"
        "m_ulFrameSize (wrap_state d p w) = m_ulFrameSize d"
      by (simp_all add: wrap_state_def marked_def filled_def)
    then obtain buf used where s: "m_pDataBuffer (wrap_state d p w) = Some buf"
        "m_fFrameUsed (wrap_state d p w) = Some used"
        "length buf = m_ulFrameCount d * m_ulFrameSize d" "length used = m_ulFrameCount d"
      using save_okE [OF e(1)] by metis
    have o0: "m_ulBufferOffset (wrap_state d p w) = 0" by (simp add: wrap_state_def marked_def)
    have l: "m - w \<le> length buf" "m < 4294967296" using s b mo by simp_all
    have ne: "used \<noteq> []" "0 < m_ulFrameCount d" using s b(4) by auto
    have lo: "write_leftover p w m (wrap_state d p w) = Some (wrapped_state d p w m)"
      using s e(2) o0 l wl mo ne
      by (simp add: write_leftover_def wrapped_state_def frame_free_def load_def rtl_copy_eq Let_def)
    have "(m_ulFrameIndex d + 1) * m_ulFrameSize d \<le> m_ulBufferOffset d + w" using off b by simp
    then have "WriteData d g p n = map_option (\<lambda>d'. (d', g1))
         (SaveFrame (m_ulFrameIndex d) (m_ulFrameSize d) (wrapped_state d p w m))"
      using W off lo [unfolded wrap_state_def]
      by (simp add: Let_def map_option_case wrap_state_def split: option.split)
    with 3 wr fi show ?thesis by (intro wrap)
  qed
qed

section \<open>Writes never leave the buffers\<close>

definition shm_ready :: "shm_globals \<Rightarrow> bool" where
  "shm_ready g \<longleftrightarrow> g_ShmBase g = None \<or> (\<exists>hist. shm_rep INFERNO_SHM_CHANNELS g hist)"

lemma ch_ok_8: "ch_ok INFERNO_SHM_CHANNELS"
  by (simp add: ch_ok_def const_defs)

text \<open>The bridge receives the whole frames of the first copy.\<close>

lemma bridge_write_frames:
  assumes "shm_rep INFERNO_SHM_CHANNELS g hist" and "w \<le> length p" and "length p < 4294967296"
  shows "\<exists>g1. bridge_write g p w = Some g1
     \<and> shm_rep INFERNO_SHM_CHANNELS g1 (hist @ frames_of (samples_of p) INFERNO_SHM_CHANNELS (w div 16))"
proof (cases "w div 16 = 0")
  case True
  then have "w div 2 div 8 = 0" by (simp only: div_mult2_eq [symmetric]) simp
  with assms True show ?thesis by (simp add: bridge_write_def Let_def frames_of_def const_defs)
next
  case False
  have d: "w div 2 div INFERNO_SHM_CHANNELS = w div 16"
    by (simp add: const_defs div_mult2_eq [symmetric])
  have "w div 16 * 8 \<le> w div 2" by linarith
  also have "\<dots> \<le> length p div 2" using assms(2) by (rule div_le_mono)
  finally have "w div 16 * INFERNO_SHM_CHANNELS \<le> length (samples_of p)"
    by (simp add: length_samples_of const_defs)
  moreover have "length (samples_of p) < 4294967296" using assms(3) by (simp add: length_samples_of)
  ultimately obtain g1 where "InfernoShmWrite g (samples_of p) (w div 16) INFERNO_SHM_CHANNELS = Some g1"
      "shm_rep INFERNO_SHM_CHANNELS g1 (hist @ frames_of (samples_of p) INFERNO_SHM_CHANNELS (w div 16))"
    using InfernoShmWrite_rep [OF assms(1) ch_ok_8] by blast
  moreover have "0 < w" using False by (auto intro: ccontr)
  ultimately show ?thesis using False by (simp add: bridge_write_def d)
qed

lemma bridge_write_ready:
  assumes "shm_ready g" and "w \<le> length p" and "length p < 4294967296"
  shows "\<exists>g1. bridge_write g p w = Some g1 \<and> shm_ready g1"
proof (cases "g_ShmBase g = None")
  case True
  then show ?thesis by (simp add: bridge_write_def Let_def InfernoShmWrite_def shm_ready_def)
next
  case False
  then obtain hist where "shm_rep INFERNO_SHM_CHANNELS g hist" using assms(1) by (auto simp: shm_ready_def)
  from bridge_write_frames [OF this assms(2,3)] show ?thesis by (auto simp: shm_ready_def)
qed

lemma SaveFrame_ok:
  assumes "save_ok d"
  shows "\<exists>d'. SaveFrame fr sz d = Some d' \<and> save_ok d'"
proof -
  obtain items where i: "m_pWorkItems d = Some items" using save_okE [OF assms] by metis
  show ?thesis
    using assms by (auto simp: SaveFrame_eq [OF i] i save_ok_def split: option.splits)
qed

lemma write_data_safe_aux:
  assumes "save_ok d" and "shm_ready g" and "n \<le> length p" and "length p < 4294967296"
  shows "\<exists>d' g'. WriteData d g p n = Some (d', g') \<and> save_ok d' \<and> shm_ready g'"
proof -
  note b = save_ok_bounds [OF assms(1)]
  obtain used where u: "m_fFrameUsed d = Some used" "length used = m_ulFrameCount d"
    using save_okE [OF assms(1)] by metis
  consider "m_fWriteDisabled d \<or> n = 0" | "\<not> m_fWriteDisabled d" "0 < n" "used ! m_ulFrameIndex d"
    | "\<not> m_fWriteDisabled d" "0 < n" "frame_free d (m_ulFrameIndex d)"
    using u b(4) by (auto simp: frame_free_def)
  then show ?thesis
  proof cases
    case 1
    then show ?thesis using assms by (auto simp: WriteData_def)
  next
    case 2
    then show ?thesis using assms u b(4) by (simp add: WriteData_def load_def Let_def)
  next
    case 3
    define m where "m = min n (m_ulFrameSize d)"
    define w where "w = min (m_ulBufferSize d - m_ulBufferOffset d) m"
    have l: "m \<le> length p" "m \<le> m_ulFrameSize d" "w \<le> m" "w \<le> length p"
      using assms(3) by (auto simp: m_def w_def min_def)
    have w0: "0 < w" using 3 b by (auto simp: m_def w_def)
    obtain g1 where g1: "bridge_write g p w = Some g1" "shm_ready g1"
      using bridge_write_ready [OF assms(2) l(4) assms(4)] by blast
    from assms(1) 3(1,2) assms(3) 3(3) m_def w_def g1(1) show ?thesis
    proof (cases rule: WriteData_cases)
      case stay
      then show ?thesis using g1 save_ok_stay [OF assms(1) l(1)] by simp
    next
      case next_frame
      then have "save_ok (marked (stay_state d p m))"
        using save_ok_next(1) [OF assms(1) l(1,2)] by simp
      then show ?thesis using next_frame SaveFrame_ok g1 by fastforce
    next
      case wrap
      then have "save_ok (wrapped_state d p w m)"
        using save_ok_wrapped [OF assms(1) l(3,1,2) w0] b by simp
      then show ?thesis using wrap SaveFrame_ok g1 by fastforce
    qed
  qed
qed

text \<open>
  C10. WriteData is safe in every state the sink can be in: for any byte count up to the length of
  the source buffer (larger than a frame included), any frame flags, any work-item states and
  with or without the shared section mapped, all copies stay inside the data buffer, the table of
  flags, the work items and the shared section, no 32-bit offset wraps, and the ring invariant
  (offset inside the current frame, index below the count) is re-established.
\<close>

theorem write_data_safe:
  assumes "save_ok d" and "shm_ready g" and "n \<le> length p" and "length p < 4294967296"
  shows "\<exists>d' g'. WriteData d g p n = Some (d', g') \<and> save_ok d' \<and> shm_ready g'"
  by (rule write_data_safe_aux [OF assms])

section \<open>The work items drain into the file\<close>

text \<open>Running the callbacks of the queued work items, in the order of the items, without errors.\<close>

primrec run_items :: "nat list \<Rightarrow> CSaveData \<Rightarrow> disk \<Rightarrow> (CSaveData \<times> disk) option" where
  "run_items [] d f = Some (d, f)"
| "run_items (i # is) d f = do {
     items \<leftarrow> m_pWorkItems d;
     p \<leftarrow> load items i;
     (d1, f1) \<leftarrow> (if EventDone p then Some (d, f)
                else SaveFrameWorkerCallback STATUS_SUCCESS STATUS_SUCCESS STATUS_SUCCESS i d f);
     run_items is d1 f1 }"

definition drain :: "CSaveData \<Rightarrow> disk \<Rightarrow> (CSaveData \<times> disk) option" where
  "drain d f = run_items [0..<MAX_WORKER_ITEM_COUNT] d f"

definition file_ready :: "CSaveData \<Rightarrow> disk \<Rightarrow> bool" where
  "file_ready d f \<longleftrightarrow> m_bInitialized d \<and> \<not> m_FileHandle d \<and> m_pFilePtr d = Some (length f)"

definition items_idle :: "CSaveData \<Rightarrow> bool" where
  "items_idle d = (case m_pWorkItems d of None \<Rightarrow> False
     | Some items \<Rightarrow> length items = MAX_WORKER_ITEM_COUNT \<and> list_all (\<lambda>w. EventDone w \<and> WorkItem w) items)"

definition quiet :: "CSaveData \<Rightarrow> bool" where
  "quiet d \<longleftrightarrow> items_idle d
     \<and> (case m_fFrameUsed d of None \<Rightarrow> False | Some u \<Rightarrow> list_all (\<lambda>b. \<not> b) u)"

lemma run_items_idle:
  assumes "m_pWorkItems d = Some items" and "list_all (\<lambda>i. i < length items \<and> EventDone (items ! i)) is"
  shows "run_items is d f = Some (d, f)"
  using assms(2) by (induction "is") (simp_all add: assms(1) load_def)

lemma drain_idle: "items_idle d \<Longrightarrow> drain d f = Some (d, f)"
  unfolding drain_def
  by (auto simp: items_idle_def list_all_iff split: option.splits intro!: run_items_idle)

lemma write_at_end: "write_at f (length f) bs = f @ bs"
  by (simp add: write_at_def)

text \<open>One frame queued into idle work items, and its callback.\<close>

lemma save_and_drain:
  assumes idle: "items_idle e" and buf: "m_pDataBuffer e = Some buf"
    and fit: "fr * m_ulFrameSize e + sz \<le> length buf" "length buf < 4294967296"
    and u: "m_fFrameUsed e = Some used" "fr < length used"
    and f: "file_ready e f"
  shows "\<exists>items. do { e1 \<leftarrow> SaveFrame fr sz e; drain e1 f }
     = Some (e \<lparr> m_pWorkItems := Some items, m_fFrameUsed := Some (used[fr := False]),
                 m_pFilePtr := Some (length f + sz) \<rparr>,
             f @ slice buf (fr * m_ulFrameSize e) sz)
     \<and> length items = MAX_WORKER_ITEM_COUNT \<and> list_all (\<lambda>w. EventDone w \<and> WorkItem w) items"
proof -
  obtain w ws where i: "m_pWorkItems e = Some (w # ws)" "length ws = 7" "EventDone w" "WorkItem w"
      "list_all (\<lambda>w. EventDone w \<and> WorkItem w) ws"
    using idle by (auto simp: items_idle_def const_defs length_Suc_conv numeral_eq_Suc split: option.splits)
  let ?off = "fr * m_ulFrameSize e"
  let ?q = "queue_item fr sz ?off w"
  let ?e1 = "e \<lparr> m_pWorkItems := Some (?q # ws) \<rparr>"
  let ?items = "?q \<lparr> EventDone := True \<rparr> # ws"
  let ?e2 = "e \<lparr> m_pWorkItems := Some ?items, m_fFrameUsed := Some (used[fr := False]),
                 m_pFilePtr := Some (length f + sz) \<rparr>"
  have o: "ulong ?off = ?off" using fit by simp
  have s: "SaveFrame fr sz e = Some ?e1" using i by (simp add: SaveFrame_eq o)
  have c: "SaveFrameWorkerCallback STATUS_SUCCESS STATUS_SUCCESS STATUS_SUCCESS 0 ?e1 f
      = Some (?e2, f @ slice buf ?off sz)"
    using i buf fit u f
    by (cases e) (simp add: SaveFrameWorkerCallback_def load_def store_def queue_item_def FileOpen_def
        FileWrite_def FileClose_def file_ready_def write_at_end)
  have r: "[0..<MAX_WORKER_ITEM_COUNT] = 0 # [1..<MAX_WORKER_ITEM_COUNT]"
    by (simp add: const_defs upt_conv_Cons)
  have "run_items [1..<MAX_WORKER_ITEM_COUNT] ?e2 f' = Some (?e2, f')" for f'
  proof (rule run_items_idle [where items = ?items])
    have "EventDone (ws ! (i - 1))" if "1 \<le> i" "i < 8" for i
      using i(2,5) that by (simp add: list_all_length)
    then show "list_all (\<lambda>i. i < length ?items \<and> EventDone (?items ! i)) [1..<MAX_WORKER_ITEM_COUNT]"
      using i(2) by (auto simp: list_all_iff const_defs nth_Cons')
  qed simp
  then have d: "drain ?e1 f = Some (?e2, f @ slice buf ?off sz)"
    using c i(2) by (simp add: drain_def r load_def queue_item_def)
  show ?thesis
    using i s d by (intro exI [of _ ?items]) (simp add: queue_item_def const_defs)
qed

section \<open>No byte is lost\<close>

text \<open>One write with the work items running before the next one.\<close>

definition write_and_flush :: "CSaveData \<times> shm_globals \<times> disk \<Rightarrow> BYTE list \<times> nat \<Rightarrow>
    (CSaveData \<times> shm_globals \<times> disk) option" where
  "write_and_flush = (\<lambda>(d, g, f) (p, n). do {
     (d1, g1) \<leftarrow> WriteData d g p n;
     (d2, f2) \<leftarrow> drain d1 f;
     Some (d2, g1, f2) })"

text \<open>The sink between two such writes, holding the stream of bytes \<open>stream\<close> for frame size \<open>fs\<close>.\<close>

definition sink_rep :: "nat \<Rightarrow> WAVEFORMATEX option \<times> nat \<Rightarrow> CSaveData \<times> shm_globals \<times> disk \<Rightarrow> BYTE list \<Rightarrow> bool" where
  "sink_rep fs fmt = (\<lambda>(d, g, f) stream.
     save_ok d \<and> quiet d \<and> file_ready d f \<and> shm_ready g \<and> \<not> m_fWriteDisabled d
     \<and> 2 \<le> m_ulFrameCount d \<and> m_ulFrameSize d = fs
     \<and> m_waveFormat d = fst fmt \<and> dwFormatLength d = snd fmt \<and> f @ pending d = stream)"

definition chunk_ok :: "BYTE list \<times> nat \<Rightarrow> bool" where
  "chunk_ok c \<longleftrightarrow> snd c \<le> length (fst c) \<and> length (fst c) < 4294967296"

definition chunk_bytes :: "nat \<Rightarrow> BYTE list \<times> nat \<Rightarrow> BYTE list" where
  "chunk_bytes fs c = take (min (snd c) fs) (fst c)"

lemma sink_rep_saved:
  assumes e: "save_ok e" "items_idle e" "file_ready e f" "shm_ready g1" "\<not> m_fWriteDisabled e"
      "2 \<le> m_ulFrameCount e" "m_ulFrameSize e = fs" "m_waveFormat e = fst fmt" "dwFormatLength e = snd fmt"
    and u: "m_fFrameUsed e = Some (u[fr := True])" "list_all (\<lambda>b. \<not> b) u" and fr: "fr < m_ulFrameCount e"
    and buf: "m_pDataBuffer e = Some buf"
    and stream: "f @ slice buf (fr * fs) fs @ pending e = stream"
  shows "\<exists>s'. do { (d2, f2) \<leftarrow> do { e1 \<leftarrow> SaveFrame fr fs e; drain e1 f }; Some (d2, g1, f2) } = Some s'
     \<and> sink_rep fs fmt s' stream"
proof -
  note b = save_ok_bounds [OF e(1)]
  have lb: "length buf = m_ulFrameCount e * fs" "length u = m_ulFrameCount e"
    using save_okE [OF e(1)] buf u(1) e(7) by (metis option.inject, metis length_list_update option.inject)
  have "Suc fr * fs \<le> m_ulFrameCount e * fs" using fr by (intro mult_right_mono) simp_all
  then have fit: "fr * m_ulFrameSize e + fs \<le> length buf" using lb e(7) by simp
  have len: "length buf < 4294967296" using lb b e(7) by simp
  obtain items where r: "do { e1 \<leftarrow> SaveFrame fr fs e; drain e1 f }
     = Some (e \<lparr> m_pWorkItems := Some items, m_fFrameUsed := Some (u[fr := True, fr := False]),
                 m_pFilePtr := Some (length f + fs) \<rparr>, f @ slice buf (fr * m_ulFrameSize e) fs)"
      and items: "length items = MAX_WORKER_ITEM_COUNT" "list_all (\<lambda>w. EventDone w \<and> WorkItem w) items"
    using save_and_drain [OF e(2) buf fit len u(1) _ e(3)] fr lb by auto
  have clear: "list_all (\<lambda>b. \<not> b) (u[fr := False])"
    using u(2) by (auto simp: list_all_iff dest!: set_update_subset_insert [THEN subsetD])
  have sl: "length (slice buf (fr * fs) fs) = fs" using fit e(7) by simp
  show ?thesis
    using e u fr buf r items clear lb b stream sl
    by (simp add: sink_rep_def save_ok_def quiet_def items_idle_def file_ready_def pending_def)
qed

lemma map_option_bind: "(do { x \<leftarrow> map_option h a; k x }) = (do { x \<leftarrow> a; k (h x) })"
  by (cases a) simp_all

lemma write_and_flush_rep:
  assumes rep: "sink_rep fs fmt (d, g, f) stream" and c: "chunk_ok (p, n)"
  shows "\<exists>s'. write_and_flush (d, g, f) (p, n) = Some s' \<and> sink_rep fs fmt s' (stream @ chunk_bytes fs (p, n))"
proof -
  have ok: "save_ok d" and q: "quiet d" and fr: "file_ready d f" and g: "shm_ready g"
    and en: "\<not> m_fWriteDisabled d" and fc: "2 \<le> m_ulFrameCount d" and fs: "m_ulFrameSize d = fs"
    and fm: "m_waveFormat d = fst fmt" "dwFormatLength d = snd fmt"
    and st: "stream = f @ pending d"
    using rep by (simp_all add: sink_rep_def)
  note b = save_ok_bounds [OF ok]
  have np: "n \<le> length p" "length p < 4294967296" using c by (simp_all add: chunk_ok_def)
  obtain buf used items where s: "m_pDataBuffer d = Some buf" "m_fFrameUsed d = Some used"
      "m_pWorkItems d = Some items" "length buf = m_ulBufferSize d" "length used = m_ulFrameCount d"
    using save_okE [OF ok] b(1) by metis
  have un: "list_all (\<lambda>b. \<not> b) used" and ii: "items_idle d"
    using q s by (simp_all add: quiet_def)
  let ?fi = "m_ulFrameIndex d" and ?off = "m_ulBufferOffset d"
  show ?thesis
  proof (cases "n = 0")
    case True
    then have "write_and_flush (d, g, f) (p, n) = Some (d, g, f)"
      using drain_idle [OF ii] by (simp add: write_and_flush_def WriteData_def)
    then show ?thesis using rep True by (simp add: chunk_bytes_def)
  next
    case False
    define m where "m = min n (m_ulFrameSize d)"
    define w where "w = min (m_ulBufferSize d - ?off) m"
    have l: "m \<le> length p" "m \<le> m_ulFrameSize d" "w \<le> m" "w \<le> length p"
      using np by (auto simp: m_def w_def min_def)
    have free: "frame_free d ?fi"
      using s un b(4) by (simp add: frame_free_def list_all_length)
    have cb: "chunk_bytes fs (p, n) = take m p" by (simp add: chunk_bytes_def m_def fs)
    have lm: "length (take m p) = m" using l by simp
    obtain g1 where g1: "bridge_write g p w = Some g1" "shm_ready g1"
      using bridge_write_ready [OF g l(4) np(2)] by blast
    define v where "v = put_slice buf ?off (take m p)"
    have n0: "0 < n" using False by simp
    from ok en n0 np(1) free m_def w_def g1(1) show ?thesis
    proof (cases rule: WriteData_cases)
      case stay
      have fit: "?off + length (take m p) \<le> length buf" using stay(2) b(7) s lm by linarith
      have "slice v (?fi * m_ulFrameSize d) (?off - ?fi * m_ulFrameSize d + m)
          = pending d @ take m p"
        unfolding v_def using slice_put_extend [OF b(5) fit] lm s by (simp add: pending_def)
      then have "pending (stay_state d p m) = pending d @ take m p"
        using s b(5) by (simp add: pending_def stay_state_def filled_def v_def)
      moreover have "items_idle (stay_state d p m)" using ii
        by (simp add: items_idle_def stay_state_def filled_def)
      ultimately show ?thesis
        using stay(3) drain_idle [of "stay_state d p m" f] save_ok_stay [OF ok l(1) stay(2)]
          q fr g1 en fc fs fm st cb
        by (simp add: write_and_flush_def sink_rep_def quiet_def file_ready_def stay_state_def
            filled_def items_idle_def)
    next
      case next_frame
      let ?e = "marked (stay_state d p m)"
      note e = save_ok_next [OF ok l(1,2) next_frame(2,3)]
      have fit: "?off + length (take m p) \<le> length buf" using next_frame(3) s lm by simp
      have k: "?fi * fs + (fs + (?off + m - Suc ?fi * fs)) = ?fi * fs + (?off - ?fi * fs + m)"
        using next_frame(2) b(5) fs by simp
      have "slice v (?fi * fs) (fs + (?off + m - Suc ?fi * fs))
          = slice v (?fi * fs) fs @ slice v (?fi * fs + fs) (?off + m - Suc ?fi * fs)"
        using k fit lm b(5) fs by (intro slice_append) (simp add: v_def)
      moreover have "slice v (?fi * fs) (?off - ?fi * fs + m) = pending d @ take m p"
        unfolding v_def using slice_put_extend [OF _ fit, of "?fi * fs"] b(5) fs lm s
        by (simp add: pending_def)
      ultimately have sl: "slice v (?fi * fs) fs @ slice v (Suc ?fi * fs) (?off + m - Suc ?fi * fs)
          = pending d @ take m p"
        using k by (simp add: add.commute)
      have p': "pending ?e = slice v (Suc ?fi * fs) (?off + m - Suc ?fi * fs)"
        using e(2) s fs by (simp add: pending_def) (simp add: marked_def stay_state_def filled_def v_def)
      have "\<exists>s'. do { (d2, f2) \<leftarrow> do { e1 \<leftarrow> SaveFrame ?fi fs ?e; drain e1 f }; Some (d2, g1, f2) } = Some s'
          \<and> sink_rep fs fmt s' (f @ pending d @ take m p)"
      proof (rule sink_rep_saved [OF e(1)])
        show "m_fFrameUsed ?e = Some (used[?fi := True])" "m_pDataBuffer ?e = Some v"
          "items_idle ?e" "file_ready ?e f" "\<not> m_fWriteDisabled ?e" "2 \<le> m_ulFrameCount ?e"
          "m_ulFrameSize ?e = fs" "?fi < m_ulFrameCount ?e" "m_waveFormat ?e = fst fmt"
          "dwFormatLength ?e = snd fmt"
          using s ii fr en fc fs fm b(4)
          by (simp_all add: marked_def stay_state_def filled_def v_def items_idle_def file_ready_def)
        show "f @ slice v (?fi * fs) fs @ pending ?e = f @ pending d @ take m p" using p' sl by simp
      qed (use g1 un in simp_all)
      then show ?thesis
        using next_frame(4) cb st fs by (simp add: write_and_flush_def map_option_bind)
    next
      case wrap
      have off: "?off + w = m_ulBufferSize d" using wrap(2) b by linarith
      have w0: "0 < w" using wrap(2) b by linarith
      let ?e = "wrapped_state d p w m"
      note e = save_ok_wrapped [OF ok l(3,1,2) w0 off wrap(3)]
      have lw: "length (take w p) = w" using l by simp
      have fit: "?off + length (take w p) \<le> length buf" using off s lw by simp
      define v1 where "v1 = put_slice buf ?off (take w p)"
      define v2 where "v2 = (if w = m then v1 else put_slice v1 0 (slice p w (m - w)))"
      have ffs: "?off - ?fi * fs + w = fs" "fs \<le> ?fi * fs" "?fi * fs + fs = length buf"
      proof -
        have "?fi * fs + fs = m_ulBufferSize d" using wrap(3) b(1) fs by (metis add.commute mult_Suc Suc_eq_plus1)
        then show "?off - ?fi * fs + w = fs" "?fi * fs + fs = length buf" using off b(5) fs s by simp_all
        have "1 \<le> ?fi" using wrap(3) fc by linarith
        then show "fs \<le> ?fi * fs" by simp
      qed
      have s1: "slice v1 (?fi * fs) fs = pending d @ take w p"
        unfolding v1_def using slice_put_extend [OF _ fit, of "?fi * fs"] b(5) fs lw s ffs(1)
        by (simp add: pending_def)
      have sl: "slice v2 (?fi * fs) fs = slice v1 (?fi * fs) fs"
      proof (cases "w = m")
        case False
        have lv: "length v1 = length buf" using fit by (simp add: v1_def)
        have ls: "length (slice p w (m - w)) = m - w" using l by simp
        have "m - w \<le> fs" using l fs by linarith
        then have "slice (put_slice v1 0 (slice p w (m - w))) (?fi * fs) fs = slice v1 (?fi * fs) fs"
          using ffs lv ls by (intro slice_put_other) linarith+
        then show ?thesis using False by (simp add: v2_def)
      qed (simp add: v2_def)
      have u0: "\<not> used[?fi := True] ! 0" "0 < length used"
        using un s fc wrap(3) by (auto simp: list_all_length nth_list_update)
      have p2: "pending ?e = slice p w (m - w)" "m_pDataBuffer ?e = Some v2"
        using s u0 wrap(3) fit l ffs fs
        by (auto simp: pending_def wrapped_state_def wrap_state_def marked_def filled_def Let_def
            frame_free_def v2_def v1_def slice_put_same [where i = 0, simplified] slice_def put_slice_def)
      have tk: "take w p @ slice p w (m - w) = take m p"
        using slice_append [of 0 w "m - w" p] l by (simp add: slice_def)
      have "\<exists>s'. do { (d2, f2) \<leftarrow> do { e1 \<leftarrow> SaveFrame ?fi fs ?e; drain e1 f }; Some (d2, g1, f2) } = Some s'
          \<and> sink_rep fs fmt s' (f @ pending d @ take m p)"
      proof (rule sink_rep_saved [OF e])
        show "m_fFrameUsed ?e = Some (used[?fi := True])"
          "items_idle ?e" "file_ready ?e f" "\<not> m_fWriteDisabled ?e" "2 \<le> m_ulFrameCount ?e"
          "m_ulFrameSize ?e = fs" "?fi < m_ulFrameCount ?e" "m_waveFormat ?e = fst fmt"
          "dwFormatLength ?e = snd fmt"
          using s ii fr en fc fs fm b(4)
          by (simp_all add: wrapped_state_def wrap_state_def marked_def filled_def Let_def
              items_idle_def file_ready_def)
        show "f @ slice v2 (?fi * fs) fs @ pending ?e = f @ pending d @ take m p"
          using p2(1) sl s1 tk by simp
      qed (use g1 un p2 in simp_all)
      then show ?thesis
        using wrap(4) cb st fs by (simp add: write_and_flush_def map_option_bind)
    qed
  qed
qed

interpretation wave: frame_sink "sink_rep fs fmt" write_and_flush chunk_ok "chunk_bytes fs" for fs fmt
proof
  fix s h b
  assume "sink_rep fs fmt s h" "chunk_ok b"
  then show "\<exists>s'. write_and_flush s b = Some s' \<and> sink_rep fs fmt s' (h @ chunk_bytes fs b)"
    using write_and_flush_rep by (cases s; cases b) blast
qed

text \<open>
  C11. No byte is lost while the work items keep up: starting from a sink that has written nothing
  of the stream yet, any sequence of writes, each followed by the callbacks of the frames it
  queued, leaves file content and partially filled frame together equal to the previous content
  followed by the bytes of all writes in order, over any number of wrap-arounds of the ring (a
  write larger than a frame is cut to the frame size).
\<close>

theorem save_data_lossless:
  assumes "sink_rep fs fmt (d, g, f) (f @ pending d)" and "list_all chunk_ok chunks"
  shows "\<exists>d' g' f'. put_all write_and_flush (d, g, f) chunks = Some (d', g', f')
     \<and> save_ok d' \<and> f' @ pending d' = f @ pending d @ concat (map (chunk_bytes fs) chunks)"
  using wave.put_all_rep [OF assms] by (auto simp: sink_rep_def)

section \<open>The wave file of a whole stream\<close>

text \<open>The file a stream should leave: RIFF sizes, format block and data block of the bytes.\<close>

definition wav_image :: "WAVEFORMATEX \<Rightarrow> BYTE list \<Rightarrow> disk" where
  "wav_image wfx bytes =
     (let fl = format_length wfx
      in le32 0x46464952 @ le32 (20 + fl + length bytes) @ le32 0x45564157 @ le32 0x20746D66 @ le32 fl
           @ take fl (wfx_bytes wfx) @ le32 0x61746164 @ le32 (length bytes) @ bytes)"

text \<open>Initialize, the writes, the final wait with the callbacks it waits for, and the destructor.\<close>

definition record_stream :: "init_env \<Rightarrow> bool \<Rightarrow> stream_ids \<Rightarrow> WAVEFORMATEX \<Rightarrow> shm_globals \<Rightarrow>
    (BYTE list \<times> nat) list \<Rightarrow> disk \<Rightarrow> disk option" where
  "record_stream e off ids wfx g chunks f0 = do {
     let d0 = snd (SetDataFormat True KSDATAFORMAT_SPECIFIER_WAVEFORMATEX wfx CSaveData_ctor);
     (st, _, d1, f1) \<leftarrow> CSaveData_Initialize e off ids d0 f0;
     (d2, g2, f2) \<leftarrow> put_all write_and_flush (d1, g, f1) chunks;
     d3 \<leftarrow> WaitAllWorkItems d2;
     (d4, f4) \<leftarrow> drain d3 f2;
     (_, f5) \<leftarrow> CSaveData_dtor STATUS_SUCCESS STATUS_SUCCESS STATUS_SUCCESS STATUS_SUCCESS STATUS_SUCCESS d4 f4;
     Some f5 }"

text \<open>An environment in which every kernel call of Initialize succeeds.\<close>

definition env_ok :: "init_env \<Rightarrow> bool" where
  "env_ok e \<longleftrightarrow> NT_SUCCESS (e_folder1 e) \<and> NT_SUCCESS (e_folder2 e) \<and> e_alloc_name e
     \<and> map_option length (e_alloc_data e DEFAULT_BUFFER_SIZE) = Some DEFAULT_BUFFER_SIZE
     \<and> e_alloc_flags e \<and> e_alloc_items e \<and> 8 \<le> length (e_items e) \<and> list_all (\<lambda>b. b) (e_items e)
     \<and> e_wait e = STATUS_SUCCESS \<and> NT_SUCCESS (e_create e) \<and> NT_SUCCESS (e_write1 e)
     \<and> NT_SUCCESS (e_write2 e) \<and> NT_SUCCESS (e_write3 e)"

lemma length_le32 [simp]: "length (le32 n) = 4"
  by (simp add: le32_def)

lemma length_headers [simp]: "length (file_header d) = 20" "length (data_header d) = 8"
  by (simp_all add: file_header_def data_header_def)

lemma write_at_replace:
  "length bs = length bs' \<Longrightarrow> write_at (a @ bs @ c) (length a) bs' = a @ bs' @ c"
  by (simp add: write_at_def)

lemma write_at_extend: "length a = pos \<Longrightarrow> write_at a pos bs = a @ bs"
  by (auto simp: write_at_end)

definition header_image :: "CSaveData \<Rightarrow> WAVEFORMATEX \<Rightarrow> BYTE list" where
  "header_image d wfx = file_header d @ take (format_length wfx) (wfx_bytes wfx) @ data_header d"

lemma FileWriteHeader_fresh:
  assumes "m_FileHandle d" and "m_waveFormat d = Some wfx" and "m_pFilePtr d \<noteq> None"
    and "NT_SUCCESS w1" "NT_SUCCESS w2" "NT_SUCCESS w3" and "length (wfx_bytes wfx) = format_length wfx"
  shows "FileWriteHeader w1 w2 w3 d [] = Some (w3,
     d \<lparr> dwFormatLength := format_length wfx, m_pFilePtr := Some (28 + format_length wfx) \<rparr>,
     header_image (d \<lparr> dwFormatLength := format_length wfx \<rparr>) wfx)"
  using assms
  by (auto simp: FileWriteHeader_def header_write_def Let_def header_image_def write_at_extend
      data_header_def)

lemma FileWriteHeader_rewrite:
  assumes "m_FileHandle d" and "m_waveFormat d = Some wfx" and "m_pFilePtr d \<noteq> None"
    and "NT_SUCCESS w1" "NT_SUCCESS w2" "NT_SUCCESS w3" and "length (wfx_bytes wfx) = format_length wfx"
  shows "FileWriteHeader w1 w2 w3 d (header_image d0 wfx @ bytes) = Some (w3,
     d \<lparr> dwFormatLength := format_length wfx, m_pFilePtr := Some (28 + format_length wfx) \<rparr>,
     header_image (d \<lparr> dwFormatLength := format_length wfx \<rparr>) wfx @ bytes)"
proof -
  let ?d = "d \<lparr> dwFormatLength := format_length wfx \<rparr>" and ?w = "wfx_bytes wfx"
  have tw: "take (format_length wfx) ?w = ?w" using assms(7) by simp
  have 1: "write_at (header_image d0 wfx @ bytes) 0 (file_header ?d)
      = file_header ?d @ ?w @ data_header d0 @ bytes"
    using write_at_replace [of "file_header d0" "file_header ?d" "[]" "?w @ data_header d0 @ bytes"] tw
    by (simp add: header_image_def)
  have 2: "write_at (file_header ?d @ ?w @ data_header d0 @ bytes) 20 ?w
      = file_header ?d @ ?w @ data_header d0 @ bytes"
    using write_at_replace [of ?w ?w "file_header ?d"] by simp
  have 3: "write_at (file_header ?d @ ?w @ data_header d0 @ bytes) (20 + format_length wfx) (data_header ?d)
      = file_header ?d @ ?w @ data_header ?d @ bytes"
    using write_at_replace [of "data_header d0" "data_header ?d" "file_header ?d @ ?w" bytes] assms(7)
    by simp
  have h: "data_header ?d = data_header d" by (simp add: data_header_def)
  show ?thesis
    using assms 1 2 3 tw h
    by (auto simp: FileWriteHeader_def header_write_def Let_def header_image_def)
qed

lemma InitializeWorkItems_all:
  assumes "8 \<le> length items" and "list_all (\<lambda>b. b) items" and "m_pWorkItems d = None"
  shows "InitializeWorkItems True items d =
     (STATUS_SUCCESS, d \<lparr> m_pWorkItems := Some (replicate MAX_WORKER_ITEM_COUNT idle_item) \<rparr>)"
proof -
  have "takeWhile (\<lambda>b. b) (take 8 items) = take 8 items"
    using assms(2) by (auto simp: takeWhile_eq_all_conv list_all_iff dest: in_set_takeD)
  then have "length (takeWhile (\<lambda>b. b) (take 8 items)) = 8" by (simp only: length_take) (use assms(1) in simp)
  then show ?thesis using assms(1,3) by (simp add: InitializeWorkItems_def Let_def const_defs)
qed

lemma Initialize_sink:
  assumes e: "env_ok e" and fl: "length (wfx_bytes wfx) = format_length wfx" and g: "shm_ready g"
    and d0: "d0 = CSaveData_ctor \<lparr> m_waveFormat := Some wfx \<rparr>"
  shows "\<exists>ids' d1. CSaveData_Initialize e off ids d0 f0 =
       Some (e_write3 e, ids', d1, header_image (d0 \<lparr> dwFormatLength := format_length wfx \<rparr>) wfx)
     \<and> sink_rep DEFAULT_FRAME_SIZE (Some wfx, format_length wfx)
          (d1, g, header_image (d0 \<lparr> dwFormatLength := format_length wfx \<rparr>) wfx)
          (header_image (d0 \<lparr> dwFormatLength := format_length wfx \<rparr>) wfx)"
proof -
  let ?h = "header_image (d0 \<lparr> dwFormatLength := format_length wfx \<rparr>) wfx"
  obtain buf where buf: "e_alloc_data e DEFAULT_BUFFER_SIZE = Some buf" "length buf = DEFAULT_BUFFER_SIZE"
    using e by (auto simp: env_ok_def)
  let ?d3 = "d0 \<lparr> m_FileName := Some (data_file_name off (bump_id off ids)), m_pDataBuffer := Some buf,
      m_fFrameUsed := Some (replicate DEFAULT_FRAME_COUNT False),
      m_pWorkItems := Some (replicate MAX_WORKER_ITEM_COUNT idle_item) \<rparr>"
  let ?d5 = "?d3 \<lparr> m_pFilePtr := Some (28 + format_length wfx), m_bInitialized := True,
      dwFormatLength := format_length wfx \<rparr>"
  let ?dh = "?d3 \<lparr> m_pFilePtr := Some 0, m_bInitialized := True, m_FileHandle := True \<rparr>"
  have w: "FileWriteHeader (e_write1 e) (e_write2 e) (e_write3 e) ?dh [] = Some (e_write3 e,
     ?dh \<lparr> dwFormatLength := format_length wfx, m_pFilePtr := Some (28 + format_length wfx) \<rparr>, ?h)"
    using FileWriteHeader_fresh [of ?dh wfx "e_write1 e" "e_write2 e" "e_write3 e"] e fl d0
    by (simp add: header_image_def file_header_def data_header_def env_ok_def)
  have i: "init_file e ?d3 f0 = Some (e_write3 e, ?d5, ?h)"
    using w e d0 by (simp add: init_file_def FileOpen_def FileClose_def env_ok_def CSaveData_ctor_def)
  have "CSaveData_Initialize e off ids d0 f0 = Some (e_write3 e, bump_id off ids, ?d5, ?h)"
    using e buf d0 i InitializeWorkItems_all [of "e_items e"]
    by (simp add: CSaveData_Initialize_def Let_def env_ok_def CSaveData_ctor_def)
  moreover have "sink_rep DEFAULT_FRAME_SIZE (Some wfx, format_length wfx) (?d5, g, ?h) ?h"
  proof -
    have "length ?h = 28 + format_length wfx" using fl by (simp add: header_image_def)
    moreover have "pending ?d5 = []" by (simp add: pending_def d0 CSaveData_ctor_def)
    ultimately show ?thesis
      using g buf by (simp add: sink_rep_def save_ok_def quiet_def items_idle_def file_ready_def d0
          CSaveData_ctor_def const_defs idle_item_def list_all_iff)
  qed
  ultimately show ?thesis by blast
qed

text \<open>The final wait flushes the partial frame.\<close>

lemma WaitAll_drain:
  assumes rep: "sink_rep fs fmt (d, g, f) stream"
  shows "\<exists>d3 d4. WaitAllWorkItems d = Some d3 \<and> drain d3 f = Some (d4, stream)
     \<and> m_pFilePtr d4 = Some (length stream) \<and> m_bInitialized d4 \<and> \<not> m_FileHandle d4
     \<and> m_waveFormat d4 = fst fmt \<and> dwFormatLength d4 = snd fmt"
proof -
  have ok: "save_ok d" and q: "quiet d" and fr: "file_ready d f" and st: "stream = f @ pending d"
    and fm: "m_waveFormat d = fst fmt" "dwFormatLength d = snd fmt"
    using rep by (simp_all add: sink_rep_def)
  note b = save_ok_bounds [OF ok]
  have ii: "items_idle d" using q by (simp add: quiet_def)
  obtain buf used items where s: "m_pDataBuffer d = Some buf" "m_fFrameUsed d = Some used"
      "m_pWorkItems d = Some items" "length buf = m_ulBufferSize d" "length used = m_ulFrameCount d"
    using save_okE [OF ok] b(1) by metis
  have u: "ulong (m_ulFrameIndex d * m_ulFrameSize d) = m_ulFrameIndex d * m_ulFrameSize d"
    using b by simp
  let ?sz = "m_ulBufferOffset d - m_ulFrameIndex d * m_ulFrameSize d"
  have us: "usub (m_ulBufferOffset d) (m_ulFrameIndex d * m_ulFrameSize d) = ?sz"
    using b by (intro usub_id) linarith+
  show ?thesis
  proof (cases "m_ulFrameIndex d * m_ulFrameSize d < m_ulBufferOffset d")
    case False
    then have "pending d = []" by (simp add: pending_def s)
    then show ?thesis
      using False drain_idle [OF ii] fr fm st
      by (simp add: WaitAllWorkItems_def u file_ready_def)
  next
    case True
    have fit: "m_ulFrameIndex d * m_ulFrameSize d + ?sz \<le> length buf" "length buf < 4294967296"
      using b s by simp_all
    obtain items' where r: "do { e1 \<leftarrow> SaveFrame (m_ulFrameIndex d) ?sz d; drain e1 f }
     = Some (d \<lparr> m_pWorkItems := Some items', m_fFrameUsed := Some (used[m_ulFrameIndex d := False]),
                 m_pFilePtr := Some (length f + ?sz) \<rparr>,
             f @ slice buf (m_ulFrameIndex d * m_ulFrameSize d) ?sz)"
      using save_and_drain [OF ii s(1) fit s(2) _ fr] b(4) s(5) by auto
    have p: "slice buf (m_ulFrameIndex d * m_ulFrameSize d) ?sz = pending d" "length (pending d) = ?sz"
      using s fit by (simp_all add: pending_def)
    have W: "WaitAllWorkItems d = SaveFrame (m_ulFrameIndex d) ?sz d"
      using True by (simp add: WaitAllWorkItems_def u us)
    obtain d3 where d3: "SaveFrame (m_ulFrameIndex d) ?sz d = Some d3"
      using r by (cases "SaveFrame (m_ulFrameIndex d) ?sz d") simp_all
    show ?thesis
      using r d3 p fr fm st by (simp add: W file_ready_def)
  qed
qed

lemma CSaveData_dtor_file:
  assumes "m_pFilePtr d = Some (length f)" and "m_bInitialized d" and "\<not> m_FileHandle d"
    and "m_waveFormat d = Some wfx" and "dwFormatLength d = format_length wfx"
    and "length (wfx_bytes wfx) = format_length wfx"
    and "f = header_image d0 wfx @ bytes" and "length f < 4294967296"
  shows "\<exists>d'. CSaveData_dtor STATUS_SUCCESS STATUS_SUCCESS STATUS_SUCCESS STATUS_SUCCESS STATUS_SUCCESS d f
     = Some (d', wav_image wfx bytes)"
proof -
  let ?d1 = "fst (DestroyWorkItems d)"
  have d1: "m_pFilePtr ?d1 = Some (length f)" "m_bInitialized ?d1" "\<not> m_FileHandle ?d1"
      "m_waveFormat ?d1 = Some wfx" "dwFormatLength ?d1 = format_length wfx"
    using assms by (simp_all add: DestroyWorkItems_def split: option.splits)
  have lf: "length f = 28 + format_length wfx + length bytes"
    using assms(6,7) by (simp add: header_image_def)
  have sz: "usub (length f) 8 = 20 + format_length wfx + length bytes"
      "usub (usub (usub (length f) 20) (format_length wfx)) 8 = length bytes"
    using lf assms(8) by simp_all
  let ?db = "?d1 \<lparr> dwFileSize := 20 + format_length wfx + length bytes, dwDataLength := length bytes,
                m_FileHandle := True \<rparr>"
  have w: "FileWriteHeader STATUS_SUCCESS STATUS_SUCCESS STATUS_SUCCESS ?db f = Some (STATUS_SUCCESS,
      ?db \<lparr> dwFormatLength := format_length wfx, m_pFilePtr := Some (28 + format_length wfx) \<rparr>,
      header_image (?db \<lparr> dwFormatLength := format_length wfx \<rparr>) wfx @ bytes)"
    unfolding assms(7) using d1 assms(6) by (intro FileWriteHeader_rewrite) simp_all
  have "header_image (?db \<lparr> dwFormatLength := format_length wfx \<rparr>) wfx @ bytes = wav_image wfx bytes"
    by (simp add: header_image_def file_header_def data_header_def wav_image_def Let_def)
  then show ?thesis
    using w d1 sz assms(8) by (simp add: CSaveData_dtor_def Let_def FileOpen_def)
qed


section \<open>What the bridge sees, and what a busy frame suffers\<close>

lemma map_option_fixed: "Some (a, b) = map_option (\<lambda>d. (d, c)) x \<Longrightarrow> x = Some a \<and> b = c"
  by (cases x) simp_all

text \<open>
  C13. What reaches the shared ring: a write into a free frame extends the shared stream by the
  whole 16-byte frames among the bytes that fit before the end of the data buffer. The bytes that
  WriteData copies around the end of the buffer, and a trailing partial frame, are stored in the
  file buffer but never reach the shared stream.
\<close>

theorem write_data_bridge:
  assumes "save_ok d" and "\<not> m_fWriteDisabled d" and "0 < n" and "n \<le> length p"
    and "length p < 4294967296" and "frame_free d (m_ulFrameIndex d)"
    and "shm_rep INFERNO_SHM_CHANNELS g hist"
  shows "\<exists>d' g'. WriteData d g p n = Some (d', g')
     \<and> shm_rep INFERNO_SHM_CHANNELS g' (hist @ frames_of (samples_of p) INFERNO_SHM_CHANNELS
          (min (m_ulBufferSize d - m_ulBufferOffset d) (min n (m_ulFrameSize d)) div 16))"
proof -
  let ?m = "min n (m_ulFrameSize d)"
  let ?w = "min (m_ulBufferSize d - m_ulBufferOffset d) ?m"
  have l: "?w \<le> length p" using assms(4) by (auto simp: min_def)
  obtain g1 where g1: "bridge_write g p ?w = Some g1"
      "shm_rep INFERNO_SHM_CHANNELS g1 (hist @ frames_of (samples_of p) INFERNO_SHM_CHANNELS (?w div 16))"
    using bridge_write_frames [OF assms(7) l assms(5)] by blast
  have "shm_ready g" using assms(7) by (auto simp: shm_ready_def)
  then obtain d' g' where W: "WriteData d g p n = Some (d', g')"
    using write_data_safe_aux [OF assms(1) _ assms(4,5)] by blast
  from assms(1-4,6) refl refl g1(1) have "\<exists>d'. WriteData d g p n = Some (d', g1)"
    by (cases rule: WriteData_cases) (use W in \<open>auto dest: map_option_fixed\<close>)
  then show ?thesis using g1(2) by blast
qed

text \<open>A small sink of two frames of four bytes, and one of two frames of 32 bytes.\<close>

definition small_sink :: "nat \<Rightarrow> CSaveData" where
  "small_sink fs = CSaveData_ctor \<lparr> m_pDataBuffer := Some (replicate (2 * fs) 0), m_ulBufferSize := 2 * fs,
     m_ulFrameCount := 2, m_ulFrameSize := fs, m_fFrameUsed := Some [False, False],
     m_pWorkItems := Some (replicate MAX_WORKER_ITEM_COUNT idle_item), m_pFilePtr := Some 0,
     m_bInitialized := True \<rparr>"

lemma small_sink_ok: "0 < fs \<Longrightarrow> fs < 1000 \<Longrightarrow> save_ok (small_sink fs)"
  by (simp add: save_ok_def small_sink_def CSaveData_ctor_def)

text \<open>Frames lost for the bridge: at offset 48 of 64, only one of the two frames written arrives.\<close>

theorem write_data_bridge_witness:
  "\<exists>d' g'. WriteData (small_sink 32 \<lparr> m_ulFrameIndex := 1, m_ulBufferOffset := 48 \<rparr>)
        (snd (InfernoShmInit STATUS_SUCCESS STATUS_SUCCESS \<lparr> g_ShmBase = None, g_ShmHandle = False \<rparr> 8 48000))
        (replicate 16 1 @ replicate 16 2) 32 = Some (d', g')
     \<and> shm_rep INFERNO_SHM_CHANNELS g' [replicate 8 0x0101]"
proof -
  have "\<exists>d' g'. WriteData (small_sink 32 \<lparr> m_ulFrameIndex := 1, m_ulBufferOffset := 48 \<rparr>)
        (snd (InfernoShmInit STATUS_SUCCESS STATUS_SUCCESS \<lparr> g_ShmBase = None, g_ShmHandle = False \<rparr> 8 48000))
        (replicate 16 1 @ replicate 16 2) 32 = Some (d', g')
     \<and> shm_rep INFERNO_SHM_CHANNELS g' ([] @ frames_of (samples_of (replicate 16 1 @ replicate 16 2))
          INFERNO_SHM_CHANNELS (min (64 - 48) (min 32 32) div 16))"
    using write_data_bridge [of "small_sink 32 \<lparr> m_ulFrameIndex := 1, m_ulBufferOffset := 48 \<rparr>" 32
        "replicate 16 1 @ replicate 16 2"
        "snd (InfernoShmInit STATUS_SUCCESS STATUS_SUCCESS \<lparr> g_ShmBase = None, g_ShmHandle = False \<rparr> 8 48000)" "[]"]
      InfernoShmInit_rep [OF ch_ok_8, of STATUS_SUCCESS STATUS_SUCCESS _ 48000]
    by (simp add: save_ok_def small_sink_def CSaveData_ctor_def frame_free_def INFERNO_SHM_CHANNELS_def)
  moreover have "[] @ frames_of (samples_of (replicate 16 1 @ replicate 16 2))
          INFERNO_SHM_CHANNELS (min (64 - 48) (min 32 32) div 16) = [replicate 8 0x0101]"
    by code_simp
  ultimately show ?thesis by simp
qed

text \<open>
  C14. The availability check covers only the frame a write starts in: a write that crosses into
  the next frame replaces the first bytes of that frame also when its flag says that it is still
  waiting to be saved, so the file receives the new bytes in place of the old ones.
\<close>

theorem write_data_overruns_busy_frame:
  assumes "save_ok d" and "shm_ready g" and "\<not> m_fWriteDisabled d" and "0 < n" and "n \<le> length p"
    and "length p < 4294967296" and "frame_free d (m_ulFrameIndex d)" and "n \<le> m_ulFrameSize d"
    and "(m_ulFrameIndex d + 1) * m_ulFrameSize d < m_ulBufferOffset d + n"
    and "m_ulBufferOffset d + n < m_ulBufferSize d"
    and "\<not> frame_free d (m_ulFrameIndex d + 1)"
  shows "\<exists>d' g' buf'. WriteData d g p n = Some (d', g') \<and> m_pDataBuffer d' = Some buf'
     \<and> (let over = m_ulBufferOffset d + n - (m_ulFrameIndex d + 1) * m_ulFrameSize d
        in slice buf' ((m_ulFrameIndex d + 1) * m_ulFrameSize d) over = slice p (n - over) over)"
proof -
  note b = save_ok_bounds [OF assms(1)]
  obtain buf items where s: "m_pDataBuffer d = Some buf" "m_pWorkItems d = Some items"
      "length buf = m_ulBufferSize d"
    using save_okE [OF assms(1)] b(1) by metis
  define w where "w = min (m_ulBufferSize d - m_ulBufferOffset d) n"
  have n: "n = min n (m_ulFrameSize d)" using assms(8) by simp
  have "w \<le> length p" using assms(5) by (simp add: w_def)
  then obtain g1 where g1: "bridge_write g p w = Some g1"
    using bridge_write_ready [OF assms(2) _ assms(6)] by blast
  let ?lim = "(m_ulFrameIndex d + 1) * m_ulFrameSize d"
  let ?over = "m_ulBufferOffset d + n - ?lim"
  let ?v = "put_slice buf (m_ulBufferOffset d) (take n p)"
  have o: "?over \<le> n" "m_ulBufferOffset d + (n - ?over) = ?lim" using assms(9) b(6) by linarith+
  have lt: "length (take n p) = n" using assms(5) by simp
  have fit: "m_ulBufferOffset d + length (take n p) \<le> length buf" using assms(10) s lt by simp
  have "slice ?v (m_ulBufferOffset d) (length (take n p)) = take n p" by (rule slice_put_same [OF fit])
  then have "slice ?v (m_ulBufferOffset d) (n - ?over + ?over) = take n p" using o(1) lt by simp
  then have "slice ?v (m_ulBufferOffset d + (n - ?over)) ?over = drop (n - ?over) (take n p)"
    using drop_slice [of "n - ?over" ?v "m_ulBufferOffset d" ?over] by simp
  also have "\<dots> = slice p (n - ?over) ?over" using o(1) by (simp add: slice_def drop_take)
  finally have sl: "slice ?v ?lim ?over = slice p (n - ?over) ?over" by (simp only: o(2))
  from assms(1,3-5,7) n w_def g1
  have "WriteData d g p n = map_option (\<lambda>d'. (d', g1))
         (SaveFrame (m_ulFrameIndex d) (m_ulFrameSize d) (marked (stay_state d p n)))"
    by (cases rule: WriteData_cases) (use assms(9,10) in simp_all)
  then show ?thesis
    using s sl SaveFrame_eq [of "marked (stay_state d p n)" items]
    by (simp add: marked_def stay_state_def filled_def Let_def)
qed

theorem write_data_overruns_busy_frame_witness:
  "\<exists>d' g' buf'. WriteData (small_sink 4 \<lparr> m_ulBufferOffset := 2, m_fFrameUsed := Some [False, True],
           m_pDataBuffer := Some [1, 2, 3, 4, 5, 6, 7, 8] \<rparr>)
        \<lparr> g_ShmBase = None, g_ShmHandle = False \<rparr> [11, 12, 13, 14] 4 = Some (d', g')
     \<and> m_pDataBuffer d' = Some buf' \<and> slice buf' 4 2 = [13, 14]"
  using write_data_overruns_busy_frame [of "small_sink 4 \<lparr> m_ulBufferOffset := 2,
      m_fFrameUsed := Some [False, True], m_pDataBuffer := Some [1, 2, 3, 4, 5, 6, 7, 8] \<rparr>"
      "\<lparr> g_ShmBase = None, g_ShmHandle = False \<rparr>" 4 "[11, 12, 13, 14]"]
  by (simp add: save_ok_def small_sink_def CSaveData_ctor_def shm_ready_def frame_free_def slice_def)

theorem write_data_safe_witness:
  "\<exists>d' g'. WriteData (small_sink 4) \<lparr> g_ShmBase = None, g_ShmHandle = False \<rparr> [1, 2, 3, 4, 5] 5 = Some (d', g')
     \<and> save_ok d' \<and> shm_ready g'"
  by (rule write_data_safe) (simp_all add: small_sink_ok shm_ready_def)

theorem save_data_lossless_witness:
  "\<exists>d' g' f'. put_all write_and_flush (small_sink 4, \<lparr> g_ShmBase = None, g_ShmHandle = False \<rparr>, [])
        [([1, 2, 3], 3), ([4, 5, 6], 3), ([7, 8, 9], 3)] = Some (d', g', f')
     \<and> save_ok d' \<and> f' @ pending d' = [1, 2, 3, 4, 5, 6, 7, 8, 9]"
proof -
  have p: "pending (small_sink 4) = []" by (simp add: pending_def small_sink_def CSaveData_ctor_def)
  have "sink_rep 4 (None, 18) (small_sink 4, \<lparr> g_ShmBase = None, g_ShmHandle = False \<rparr>, []) ([] @ pending (small_sink 4))"
    using small_sink_ok [of 4]
    by (simp add: sink_rep_def quiet_def items_idle_def file_ready_def shm_ready_def p list_all_iff)
      (simp add: small_sink_def CSaveData_ctor_def idle_item_def list_all_iff)
  from save_data_lossless [OF this, of "[([1, 2, 3], 3), ([4, 5, 6], 3), ([7, 8, 9], 3)]"]
  show ?thesis by (simp add: p chunk_ok_def chunk_bytes_def del: put_all.simps)
qed


end
