(* ===== verification/ToneGenerator.thy ===== *)
theory ToneGenerator
  imports DriverBase
begin

unbundle bit_operations_syntax

text \<open>
  Class ToneGenerator of ToneGenerator.cpp and ToneGenerator.h: the sine source whose frames are
  handed out in buffers of any length, with the rest of a split frame kept for the next call.

  The floating-point operations are parameters (record \<open>fp_ops\<close> over a type of doubles), so the
  lemmas hold for any arithmetic; the conversions to integers follow the code, a value outside
  the integer range being \<open>None\<close> as in C. A buffer is a list of bytes, and \<open>ASSERT\<close> is not part
  of a release build.
\<close>

section \<open>Arithmetic on doubles\<close>

record 'd fp_ops =
  fadd :: "'d \<Rightarrow> 'd \<Rightarrow> 'd"
  fsub :: "'d \<Rightarrow> 'd \<Rightarrow> 'd"
  fmul :: "'d \<Rightarrow> 'd \<Rightarrow> 'd"
  fdiv :: "'d \<Rightarrow> 'd \<Rightarrow> 'd"
  fge :: "'d \<Rightarrow> 'd \<Rightarrow> bool"
  fsin :: "'d \<Rightarrow> 'd"
  ftrunc :: "'d \<Rightarrow> int"
  fint :: "int \<Rightarrow> 'd"
  F_127_5 :: 'd
  TWO_PI :: 'd

definition ConvertToLong :: "'d fp_ops \<Rightarrow> 'd \<Rightarrow> LONG option" where
  "ConvertToLong ops Value =
     (let x = ftrunc ops (fmul ops Value (fint ops 2147483647))
      in if -2147483648 \<le> x \<and> x \<le> 2147483647 then Some (word_of_int x) else None)"

definition ConvertToShort :: "'d fp_ops \<Rightarrow> 'd \<Rightarrow> INT16 option" where
  "ConvertToShort ops Value =
     (let x = ftrunc ops (fmul ops Value (fint ops 32767))
      in if -32768 \<le> x \<and> x \<le> 32767 then Some (word_of_int x) else None)"

definition ConvertToUChar :: "'d fp_ops \<Rightarrow> 'd \<Rightarrow> BYTE option" where
  "ConvertToUChar ops Value =
     (let x = ftrunc ops (fadd ops (fmul ops Value (F_127_5 ops)) (F_127_5 ops))
      in if 0 \<le> x \<and> x \<le> 255 then Some (word_of_int x) else None)"

section \<open>The object\<close>

record 'd ToneGenerator =
  m_Frequency :: nat
  m_ChannelCount :: nat
  m_BitsPerSample :: nat
  m_SamplesPerSecond :: nat
  m_Theta :: 'd
  m_SampleIncrement :: 'd
  m_Mute :: bool
  m_PartialFrame :: "BYTE list option"
  m_PartialFrameBytes :: nat
  m_FrameSize :: nat
  m_ToneAmplitude :: 'd
  m_ToneDCOffset :: 'd

text \<open>The constructor leaves the doubles of the raw object uninitialised.\<close>

definition tone_ctor :: "'d ToneGenerator \<Rightarrow> 'd ToneGenerator" where
  "tone_ctor raw = raw \<lparr> m_Frequency := 0, m_ChannelCount := 0, m_BitsPerSample := 0,
     m_SamplesPerSecond := 0, m_Mute := False, m_PartialFrame := None, m_PartialFrameBytes := 0,
     m_FrameSize := 0 \<rparr>"

definition tone_dtor :: "'d ToneGenerator \<Rightarrow> 'd ToneGenerator" where
  "tone_dtor t = (if m_PartialFrame t \<noteq> None
                  then t \<lparr> m_PartialFrame := None, m_PartialFrameBytes := 0 \<rparr> else t)"

definition SetMute :: "bool \<Rightarrow> 'd ToneGenerator \<Rightarrow> 'd ToneGenerator" where
  "SetMute v t = t \<lparr> m_Mute := v \<rparr>"

text \<open>The fields of the WAVEFORMATEXTENSIBLE the code reads.\<close>

record tone_format =
  tf_tag :: nat
  tf_subformat_pcm :: bool
  tf_channels :: nat
  tf_bits :: nat
  tf_rate :: nat

text \<open>\<open>save\<close> and \<open>alloc\<close> are results of the kernel.\<close>

definition tone_Init :: "'d fp_ops \<Rightarrow> NTSTATUS \<Rightarrow> bool \<Rightarrow> nat \<Rightarrow> 'd \<Rightarrow> 'd \<Rightarrow> 'd \<Rightarrow> tone_format \<Rightarrow>
    'd ToneGenerator \<Rightarrow> NTSTATUS \<times> 'd ToneGenerator" where
  "tone_Init ops save alloc ToneFrequency Amplitude DCOffset InitialPhase wfx t =
     (if tf_tag wfx \<noteq> 1 \<and> \<not> (tf_tag wfx = 0xFFFE \<and> tf_subformat_pcm wfx) then (STATUS_NOT_SUPPORTED, t)
      else if \<not> NT_SUCCESS save then (save, t)
      else
        (let t1 = t \<lparr> m_Theta := InitialPhase, m_Frequency := ToneFrequency, m_ToneAmplitude := Amplitude,
               m_ToneDCOffset := DCOffset, m_ChannelCount := tf_channels wfx, m_BitsPerSample := tf_bits wfx,
               m_SamplesPerSecond := tf_rate wfx, m_Mute := False,
               m_SampleIncrement := fdiv ops (fmul ops (fint ops (int ToneFrequency)) (TWO_PI ops))
                                      (fint ops (int (tf_rate wfx))),
               m_FrameSize := ulong (tf_channels wfx * tf_bits wfx) div 8 \<rparr>
         in if alloc then (STATUS_SUCCESS, t1 \<lparr> m_PartialFrame := Some (replicate (m_FrameSize t1) 0) \<rparr>)
            else (STATUS_INSUFFICIENT_RESOURCES, t1 \<lparr> m_PartialFrame := None \<rparr>)))"

section \<open>Frames\<close>

definition word_bytes :: "nat \<Rightarrow> 'a::len word \<Rightarrow> BYTE list" where
  "word_bytes k w = map (\<lambda>i. ucast (drop_bit (8 * i) w)) [0..<k]"

text \<open>
  One iteration of the channel loop, for the frame at offset \<open>off\<close>. The 24-bit branch always
  writes to the start of the frame; a sample width without a branch writes nothing.
\<close>

definition channel_write :: "'d fp_ops \<Rightarrow> nat \<Rightarrow> 'd \<Rightarrow> BYTE list \<Rightarrow> nat \<Rightarrow> nat \<Rightarrow> BYTE list option" where
  "channel_write ops bits sinValue buf off i =
     (if bits = 8 then do { v \<leftarrow> ConvertToUChar ops sinValue; store buf (off + i) v }
      else if bits = 16 then do { v \<leftarrow> ConvertToShort ops sinValue; store_all buf (off + 2 * i) (word_bytes 2 v) }
      else if bits = 24 then do {
        v \<leftarrow> ConvertToLong ops sinValue;
        store_all buf off (word_bytes 3 (signed_drop_bit 8 v)) }
      else if bits = 32 then do { v \<leftarrow> ConvertToLong ops sinValue; store_all buf (off + 4 * i) (word_bytes 4 v) }
      else Some buf)"

fun channel_loop :: "'d fp_ops \<Rightarrow> nat \<Rightarrow> 'd \<Rightarrow> BYTE list \<Rightarrow> nat \<Rightarrow> nat \<Rightarrow> nat \<Rightarrow> BYTE list option" where
  "channel_loop ops bits sinValue buf off i 0 = Some buf"
| "channel_loop ops bits sinValue buf off i (Suc n) = do {
     buf' \<leftarrow> channel_write ops bits sinValue buf off i;
     channel_loop ops bits sinValue buf' off (Suc i) n }"

definition next_theta :: "'d fp_ops \<Rightarrow> 'd ToneGenerator \<Rightarrow> 'd \<Rightarrow> 'd" where
  "next_theta ops t theta =
     (let x = fadd ops theta (m_SampleIncrement t)
      in if fge ops x (TWO_PI ops) then fsub ops x (TWO_PI ops) else x)"

definition sin_value :: "'d fp_ops \<Rightarrow> 'd ToneGenerator \<Rightarrow> 'd \<Rightarrow> 'd" where
  "sin_value ops t theta = fadd ops (m_ToneDCOffset t) (fmul ops (m_ToneAmplitude t) (fsin ops theta))"

definition InitNewFrame :: "'d fp_ops \<Rightarrow> 'd ToneGenerator \<Rightarrow> BYTE list \<Rightarrow> nat \<Rightarrow> nat \<Rightarrow>
    ('d ToneGenerator \<times> BYTE list) option" where
  "InitNewFrame ops t buf off FrameSize =
     (if FrameSize \<noteq> ulong (m_ChannelCount t * m_BitsPerSample t) div 8 then do {
        buf' \<leftarrow> store_all buf off (replicate FrameSize 0);
        Some (t, buf') }
      else do {
        buf' \<leftarrow> channel_loop ops (m_BitsPerSample t) (sin_value ops t (m_Theta t)) buf off 0 (m_ChannelCount t);
        Some (t \<lparr> m_Theta := next_theta ops t (m_Theta t) \<rparr>, buf') })"

fun generate_frames :: "'d fp_ops \<Rightarrow> nat \<Rightarrow> 'd ToneGenerator \<Rightarrow> BYTE list \<Rightarrow> nat \<Rightarrow>
    ('d ToneGenerator \<times> BYTE list) option" where
  "generate_frames ops 0 t buf pos = Some (t, buf)"
| "generate_frames ops (Suc n) t buf pos = do {
     (t', buf') \<leftarrow> InitNewFrame ops t buf pos (m_FrameSize t);
     generate_frames ops n t' buf' (pos + m_FrameSize t) }"

text \<open>The residual bytes of the last frame; the result includes the bytes copied.\<close>

definition copy_residue :: "'d ToneGenerator \<Rightarrow> BYTE list \<Rightarrow> nat \<Rightarrow> ('d ToneGenerator \<times> BYTE list \<times> nat) option" where
  "copy_residue t Buffer len =
     (if m_PartialFrameBytes t \<noteq> 0 then do {
        p \<leftarrow> m_PartialFrame t;
        let offset = usub (m_FrameSize t) (m_PartialFrameBytes t);
        let copyBytes = min (m_PartialFrameBytes t) len;
        b \<leftarrow> rtl_copy Buffer 0 p offset copyBytes;
        p' \<leftarrow> store_all p offset (replicate copyBytes 0);
        Some (t \<lparr> m_PartialFrame := Some p', m_PartialFrameBytes := 0 \<rparr>, b, copyBytes) }
      else Some (t, Buffer, 0))"

definition split_frame :: "'d fp_ops \<Rightarrow> 'd ToneGenerator \<Rightarrow> BYTE list \<Rightarrow> nat \<Rightarrow> nat \<Rightarrow>
    ('d ToneGenerator \<times> BYTE list) option" where
  "split_frame ops t buf pos len = do {
     p \<leftarrow> m_PartialFrame t;
     (t1, p1) \<leftarrow> InitNewFrame ops t p 0 (m_FrameSize t);
     b \<leftarrow> rtl_copy buf pos p1 0 len;
     p2 \<leftarrow> store_all p1 0 (replicate len 0);
     Some (t1 \<lparr> m_PartialFrame := Some p2, m_PartialFrameBytes := usub (m_FrameSize t) (ulong len) \<rparr>, b) }"

text \<open>
  \<open>disabled\<close> is the registry setting g_DisableToneGenerator, \<open>save\<close> the result of saving the
  floating-point state. A frame size of zero is a division by zero.
\<close>

definition GenerateSine :: "'d fp_ops \<Rightarrow> bool \<Rightarrow> NTSTATUS \<Rightarrow> 'd ToneGenerator \<Rightarrow> BYTE list \<Rightarrow> nat \<Rightarrow>
    ('d ToneGenerator \<times> BYTE list) option" where
  "GenerateSine ops disabled save t Buffer BufferLength =
     (if m_Mute t \<or> disabled \<or> \<not> NT_SUCCESS save then do {
        b \<leftarrow> store_all Buffer 0 (replicate BufferLength 0);
        Some (t, b) }
      else do {
        (t1, b1, pos) \<leftarrow> copy_residue t Buffer BufferLength;
        if BufferLength - pos = 0 then Some (t1, b1)
        else if m_FrameSize t1 = 0 then None
        else do {
          let frames = (BufferLength - pos) div m_FrameSize t1;
          (t2, b2) \<leftarrow> generate_frames ops frames t1 b1 pos;
          let rest = BufferLength - pos - frames * m_FrameSize t1;
          if rest = 0 then Some (t2, b2)
          else split_frame ops t2 b2 (pos + frames * m_FrameSize t1) rest } })"

section \<open>The tone as a stream of bytes\<close>

text \<open>The bytes of one sample, and of the frames the object is going to produce from a phase on.\<close>

definition sample_bytes :: "'d fp_ops \<Rightarrow> nat \<Rightarrow> 'd \<Rightarrow> BYTE list option" where
  "sample_bytes ops bits v =
     (if bits = 8 then map_option (\<lambda>x. [x]) (ConvertToUChar ops v)
      else if bits = 16 then map_option (word_bytes 2) (ConvertToShort ops v)
      else if bits = 24 then map_option (\<lambda>x. word_bytes 3 (signed_drop_bit 8 x)) (ConvertToLong ops v)
      else map_option (word_bytes 4) (ConvertToLong ops v))"

definition frame_bytes :: "'d fp_ops \<Rightarrow> 'd ToneGenerator \<Rightarrow> 'd \<Rightarrow> BYTE list" where
  "frame_bytes ops t theta =
     concat (replicate (m_ChannelCount t) (the (sample_bytes ops (m_BitsPerSample t) (sin_value ops t theta))))"

fun tone_from :: "'d fp_ops \<Rightarrow> 'd ToneGenerator \<Rightarrow> 'd \<Rightarrow> nat \<Rightarrow> BYTE list" where
  "tone_from ops t theta 0 = []"
| "tone_from ops t theta (Suc n) = frame_bytes ops t theta @ tone_from ops t (next_theta ops t theta) n"

fun theta_after :: "'d fp_ops \<Rightarrow> 'd ToneGenerator \<Rightarrow> 'd \<Rightarrow> nat \<Rightarrow> 'd" where
  "theta_after ops t theta 0 = theta"
| "theta_after ops t theta (Suc n) = theta_after ops t (next_theta ops t theta) n"

text \<open>
  A working generator: a supported format (24 bits only with one channel), samples that convert
  without overflow, and a partial frame buffer of one frame.
\<close>

definition tone_ok :: "'d fp_ops \<Rightarrow> 'd ToneGenerator \<Rightarrow> bool" where
  "tone_ok ops t \<longleftrightarrow> m_ChannelCount t \<noteq> 0 \<and> m_ChannelCount t < 65536
     \<and> (m_BitsPerSample t \<in> {8, 16, 32} \<or> m_BitsPerSample t = 24 \<and> m_ChannelCount t = 1)
     \<and> m_FrameSize t = m_ChannelCount t * m_BitsPerSample t div 8
     \<and> m_PartialFrameBytes t < m_FrameSize t \<and> \<not> m_Mute t
     \<and> (case m_PartialFrame t of None \<Rightarrow> False | Some p \<Rightarrow> length p = m_FrameSize t)
     \<and> (\<forall>theta. sample_bytes ops (m_BitsPerSample t) (sin_value ops t theta) \<noteq> None)"

definition residue :: "'d ToneGenerator \<Rightarrow> BYTE list" where
  "residue t = drop (m_FrameSize t - m_PartialFrameBytes t) (the (m_PartialFrame t))"

definition upcoming :: "'d fp_ops \<Rightarrow> 'd ToneGenerator \<Rightarrow> nat \<Rightarrow> BYTE list" where
  "upcoming ops t n = residue t @ tone_from ops t (m_Theta t) n"

lemma length_word_bytes [simp]: "length (word_bytes k w) = k"
  by (simp add: word_bytes_def)

definition stride :: "nat \<Rightarrow> nat" where "stride bits = (if bits = 24 then 0 else bits div 8)"

lemma sample_bytes_length: "sample_bytes ops bits v = Some s \<Longrightarrow> bits \<in> {8, 16, 24, 32} \<Longrightarrow> length s = bits div 8"
  by (auto simp: sample_bytes_def split: if_splits)

lemma channel_write_eq:
  assumes "bits \<in> {8, 16, 24, 32}" and "sample_bytes ops bits v = Some s"
  shows "channel_write ops bits v buf off i = store_all buf (off + stride bits * i) s"
proof -
  have [simp]: "Option.bind (store buf j x) Some = store buf j x" for j and x :: BYTE
    by (cases "store buf j x") simp_all
  show ?thesis using assms by (auto simp: channel_write_def sample_bytes_def stride_def)
qed

lemma channel_loop_eq:
  assumes b: "bits \<in> {8, 16, 32}" and s: "sample_bytes ops bits v = Some s"
  shows "off + bits div 8 * (i + n) \<le> length buf \<Longrightarrow>
    channel_loop ops bits v buf off i n = Some (put_slice buf (off + bits div 8 * i) (concat (replicate n s)))"
proof (induction n arbitrary: buf i)
  case (Suc n)
  have l: "length s = bits div 8" using sample_bytes_length [OF s] b by auto
  have st: "stride bits = bits div 8" using b by (auto simp: stride_def)
  have w: "channel_write ops bits v buf off i = Some (put_slice buf (off + bits div 8 * i) s)"
    using channel_write_eq [OF _ s, of buf off i] b Suc.prems
    by (auto simp: st l store_all_put_slice algebra_simps)
  have c: "length (concat (replicate n s)) = bits div 8 * n" by (induction n) (simp_all add: l algebra_simps)
  have "channel_loop ops bits v (put_slice buf (off + bits div 8 * i) s) off (Suc i) n
      = Some (put_slice (put_slice buf (off + bits div 8 * i) s) (off + bits div 8 * Suc i) (concat (replicate n s)))"
    using Suc.prems by (intro Suc.IH) (simp add: l algebra_simps)
  also have "\<dots> = Some (put_slice buf (off + bits div 8 * i) (s @ concat (replicate n s)))"
    using put_slice_append [of "off + bits div 8 * i" s "concat (replicate n s)" buf] Suc.prems c
    by (simp add: l algebra_simps)
  finally show ?case using w by simp
qed simp

lemma frame_bytes_length: "tone_ok ops t \<Longrightarrow> length (frame_bytes ops t theta) = m_FrameSize t"
proof -
  assume t: "tone_ok ops t"
  then obtain s where s: "sample_bytes ops (m_BitsPerSample t) (sin_value ops t theta) = Some s"
    by (auto simp: tone_ok_def)
  have "length s = m_BitsPerSample t div 8" using sample_bytes_length [OF s] t by (auto simp: tone_ok_def)
  moreover have "length (concat (replicate n s)) = n * length s" for n by (induction n) simp_all
  ultimately show ?thesis using s t by (auto simp: frame_bytes_def tone_ok_def)
qed

lemma InitNewFrame_eq:
  assumes t: "tone_ok ops t" and off: "off + m_FrameSize t \<le> length buf"
  shows "InitNewFrame ops t buf off (m_FrameSize t)
     = Some (t \<lparr> m_Theta := next_theta ops t (m_Theta t) \<rparr>, put_slice buf off (frame_bytes ops t (m_Theta t)))"
proof -
  let ?v = "sin_value ops t (m_Theta t)" and ?b = "m_BitsPerSample t"
  obtain s where s: "sample_bytes ops ?b ?v = Some s" using t by (auto simp: tone_ok_def)
  have "m_ChannelCount t * ?b \<le> 65536 * 32"
    using t by (intro mult_mono) (auto simp: tone_ok_def)
  then have fs: "m_FrameSize t = ulong (m_ChannelCount t * ?b) div 8" using t by (simp add: tone_ok_def)
  have "channel_loop ops ?b ?v buf off 0 (m_ChannelCount t) = Some (put_slice buf off (frame_bytes ops t (m_Theta t)))"
  proof (cases "?b = 24")
    case True
    then have c: "m_ChannelCount t = 1" using t by (simp add: tone_ok_def)
    have "length s = 3" using sample_bytes_length [OF s] True by simp
    then show ?thesis
      using channel_write_eq [OF _ s, of buf off 0] True c off t s
      by (simp add: store_all_put_slice stride_def frame_bytes_def tone_ok_def)
  next
    case False
    then have b: "?b \<in> {8, 16, 32}" using t by (auto simp: tone_ok_def)
    have "off + ?b div 8 * (0 + m_ChannelCount t) \<le> length buf" using off b t by (auto simp: tone_ok_def)
    from channel_loop_eq [OF b s this] show ?thesis using s by (simp add: frame_bytes_def)
  qed
  then show ?thesis using fs by (simp add: InitNewFrame_def)
qed

lemma tone_params [simp]:
  "frame_bytes ops (t \<lparr> m_Theta := x \<rparr>) th = frame_bytes ops t th"
  "frame_bytes ops (t \<lparr> m_PartialFrame := p, m_PartialFrameBytes := k \<rparr>) th = frame_bytes ops t th"
  "next_theta ops (t \<lparr> m_Theta := x \<rparr>) th = next_theta ops t th"
  "next_theta ops (t \<lparr> m_PartialFrame := p, m_PartialFrameBytes := k \<rparr>) th = next_theta ops t th"
  by (simp_all add: frame_bytes_def next_theta_def sin_value_def)

lemma tone_from_params [simp]:
  "tone_from ops (t \<lparr> m_Theta := x \<rparr>) th n = tone_from ops t th n"
  "tone_from ops (t \<lparr> m_PartialFrame := p, m_PartialFrameBytes := k \<rparr>) th n = tone_from ops t th n"
  "theta_after ops (t \<lparr> m_Theta := x \<rparr>) th n = theta_after ops t th n"
  "theta_after ops (t \<lparr> m_PartialFrame := p, m_PartialFrameBytes := k \<rparr>) th n = theta_after ops t th n"
  by (induction n arbitrary: th) simp_all

lemma tone_ok_theta [simp]: "tone_ok ops (t \<lparr> m_Theta := x \<rparr>) = tone_ok ops t"
  by (cases "m_PartialFrame t") (simp_all add: tone_ok_def sin_value_def)

lemma tone_ok_partial:
  "tone_ok ops t \<Longrightarrow> length p = m_FrameSize t \<Longrightarrow> k < m_FrameSize t \<Longrightarrow>
     tone_ok ops (t \<lparr> m_PartialFrame := Some p, m_PartialFrameBytes := k \<rparr>)"
  by (simp add: tone_ok_def sin_value_def)

lemma tone_from_add: "tone_from ops t th (n + m) = tone_from ops t th n @ tone_from ops t (theta_after ops t th n) m"
  by (induction n arbitrary: th) simp_all

lemma theta_after_Suc: "theta_after ops t th (Suc n) = next_theta ops t (theta_after ops t th n)"
  by (induction n arbitrary: th) simp_all

lemma tone_from_length: "tone_ok ops t \<Longrightarrow> length (tone_from ops t th n) = n * m_FrameSize t"
  by (induction n arbitrary: th) (simp_all add: frame_bytes_length)

lemma generate_frames_eq:
  "tone_ok ops t \<Longrightarrow> pos + n * m_FrameSize t \<le> length buf \<Longrightarrow>
     generate_frames ops n t buf pos
       = Some (t \<lparr> m_Theta := theta_after ops t (m_Theta t) n \<rparr>, put_slice buf pos (tone_from ops t (m_Theta t) n))"
proof (induction n arbitrary: t buf pos)
  case (Suc n)
  let ?t = "t \<lparr> m_Theta := next_theta ops t (m_Theta t) \<rparr>" and ?f = "frame_bytes ops t (m_Theta t)"
  have l: "length ?f = m_FrameSize t" using Suc.prems(1) by (rule frame_bytes_length)
  have "InitNewFrame ops t buf pos (m_FrameSize t) = Some (?t, put_slice buf pos ?f)"
    using Suc.prems by (intro InitNewFrame_eq) simp_all
  moreover have "generate_frames ops n ?t (put_slice buf pos ?f) (pos + m_FrameSize t)
      = Some (t \<lparr> m_Theta := theta_after ops t (m_Theta t) (Suc n) \<rparr>,
              put_slice (put_slice buf pos ?f) (pos + m_FrameSize t) (tone_from ops t (m_Theta ?t) n))"
    using Suc.IH [of ?t "pos + m_FrameSize t" "put_slice buf pos ?f"] Suc.prems l by simp
  moreover have "put_slice (put_slice buf pos ?f) (pos + m_FrameSize t) (tone_from ops t (m_Theta ?t) n)
      = put_slice buf pos (?f @ tone_from ops t (m_Theta ?t) n)"
    using put_slice_append [of pos ?f "tone_from ops t (m_Theta ?t) n" buf] Suc.prems l
    by (simp add: tone_from_length)
  ultimately show ?case by simp
qed simp

lemma residue_length: "tone_ok ops t \<Longrightarrow> length (residue t) = m_PartialFrameBytes t"
  by (auto simp: residue_def tone_ok_def split: option.splits)

lemma frame_size_small: "tone_ok ops t \<Longrightarrow> m_FrameSize t < 4294967296 \<and> 0 < m_FrameSize t"
proof -
  assume t: "tone_ok ops t"
  then have "m_ChannelCount t * m_BitsPerSample t \<le> 65536 * 32"
    by (intro mult_mono) (auto simp: tone_ok_def)
  with t show ?thesis by (auto simp: tone_ok_def)
qed

text \<open>The residue is copied, as far as it fits, and then counts as used up in any case.\<close>

lemma copy_residue_eq:
  assumes t: "tone_ok ops t" and L: "L \<le> length buf"
  shows "\<exists>p. length p = m_FrameSize t \<and> copy_residue t buf L
     = Some (t \<lparr> m_PartialFrame := Some p, m_PartialFrameBytes := 0 \<rparr>,
             put_slice buf 0 (take L (residue t)), min (m_PartialFrameBytes t) L)"
proof -
  let ?k = "m_PartialFrameBytes t" and ?fs = "m_FrameSize t" and ?c = "min (m_PartialFrameBytes t) L"
  obtain p where p: "m_PartialFrame t = Some p" "length p = ?fs" using t by (auto simp: tone_ok_def split: option.splits)
  have k: "?k < ?fs" "?fs < 4294967296" using t frame_size_small [OF t] by (auto simp: tone_ok_def)
  have r: "slice p (?fs - ?k) ?c = take L (residue t)"
    using p k residue_length [OF t] by (auto simp: slice_def residue_def min_def)
  show ?thesis
  proof (cases "?k = 0")
    case True
    then have "residue t = []" using residue_length [OF t] by simp
    moreover have "t \<lparr> m_PartialFrame := Some p, m_PartialFrameBytes := 0 \<rparr> = t" using p True by simp
    ultimately show ?thesis using p True by (intro exI [of _ p]) (simp add: copy_residue_def)
  next
    case False
    let ?p = "put_slice p (?fs - ?k) (replicate ?c 0)"
    have "length ?p = ?fs" using p k by simp
    moreover have "copy_residue t buf L = Some (t \<lparr> m_PartialFrame := Some ?p, m_PartialFrameBytes := 0 \<rparr>,
        put_slice buf 0 (take L (residue t)), ?c)"
      using False p k L r by (simp add: copy_residue_def rtl_copy_eq store_all_put_slice Let_def)
    ultimately show ?thesis by blast
  qed
qed

text \<open>One call on a buffer that has room for the residue.\<close>

lemma GenerateSine_step:
  assumes t: "tone_ok ops t" and save: "NT_SUCCESS save" and L: "m_PartialFrameBytes t \<le> length buf"
  shows "\<exists>t' out k. GenerateSine ops False save t buf (length buf) = Some (t', out)
     \<and> tone_ok ops t' \<and> m_FrameSize t' = m_FrameSize t \<and> length out = length buf
     \<and> (\<forall>m. out @ upcoming ops t' m = upcoming ops t (k + m))"
proof -
  let ?fs = "m_FrameSize t" and ?R = "residue t" and ?pos = "m_PartialFrameBytes t" and ?th = "m_Theta t"
  let ?n = "(length buf - ?pos) div ?fs" and ?rest = "(length buf - ?pos) mod ?fs"
  have R: "length ?R = ?pos" by (rule residue_length [OF t])
  have fs: "0 < ?fs" "?fs < 4294967296" using frame_size_small [OF t] by simp_all
  have mute: "\<not> m_Mute t" using t by (simp add: tone_ok_def)
  have len: "length buf = ?pos + ?n * ?fs + ?rest" using L by simp
  obtain p where p: "length p = ?fs" "copy_residue t buf (length buf)
      = Some (t \<lparr> m_PartialFrame := Some p, m_PartialFrameBytes := 0 \<rparr>, put_slice buf 0 ?R, ?pos)"
    using copy_residue_eq [OF t, of "length buf" buf] L R by (auto simp: min_def)
  let ?t1 = "t \<lparr> m_PartialFrame := Some p, m_PartialFrameBytes := 0 \<rparr>"
  have t1: "tone_ok ops ?t1" using tone_ok_partial [OF t p(1)] fs by simp
  let ?T = "tone_from ops t ?th ?n" and ?th2 = "theta_after ops t ?th ?n"
  let ?t2 = "?t1 \<lparr> m_Theta := ?th2 \<rparr>" and ?b2 = "put_slice buf 0 (?R @ ?T)"
  have T: "length ?T = ?n * ?fs" by (rule tone_from_length [OF t])
  have g: "generate_frames ops ?n ?t1 (put_slice buf 0 ?R) ?pos = Some (?t2, ?b2)"
  proof -
    have le: "?pos + ?n * ?fs \<le> length buf" using len by linarith
    then have "put_slice (put_slice buf 0 ?R) ?pos ?T = ?b2"
      using put_slice_append [of 0 ?R ?T buf] R T by simp
    moreover have "length (put_slice buf 0 ?R) = length buf" using R L by simp
    ultimately show ?thesis using generate_frames_eq [OF t1, of ?pos ?n "put_slice buf 0 ?R"] le by simp
  qed
  have t2: "tone_ok ops ?t2" using t1 by simp
  have r: "length buf - ?pos - ?n * ?fs = ?rest" using len by linarith
  show ?thesis
  proof (cases "?rest = 0")
    case True
    have G: "GenerateSine ops False save t buf (length buf) = Some (?t2, ?b2)"
    proof (cases "length buf - ?pos = 0")
      case z: True
      then have "?n = 0" by simp
      then have "?b2 = put_slice buf 0 ?R" "?t2 = ?t1" by simp_all
      then show ?thesis using p(2) save mute z by (simp add: GenerateSine_def)
    next
      case False
      then show ?thesis using p(2) save mute g fs r True
        by (simp add: GenerateSine_def Let_def del: diff_is_0_eq diff_diff_left zero_less_diff neq0_conv)
    qed
    have l: "length (?R @ ?T) = length buf" using len R T True by (simp only: length_append)
    then have b: "?b2 = ?R @ ?T" by (simp add: put_slice_def)
    moreover have "residue ?t2 = []" using p(1) by (simp add: residue_def)
    ultimately have "\<forall>m. ?b2 @ upcoming ops ?t2 m = upcoming ops t (?n + m)"
      by (simp add: upcoming_def tone_from_add)
    moreover have "length ?b2 = length buf" using b l by simp
    ultimately show ?thesis using G t2 by (intro exI [of _ ?t2] exI [of _ ?b2] exI [of _ ?n]) simp
  next
    case False
    let ?f = "frame_bytes ops t ?th2"
    have f: "length ?f = ?fs" by (rule frame_bytes_length [OF t])
    have rl: "?rest < ?fs" using fs by simp
    let ?p2 = "replicate ?rest 0 @ drop ?rest ?f" and ?out = "?R @ ?T @ take ?rest ?f"
    let ?t3 = "?t2 \<lparr> m_Theta := next_theta ops t ?th2, m_PartialFrame := Some ?p2, m_PartialFrameBytes := ?fs - ?rest \<rparr>"
    have i: "InitNewFrame ops ?t2 p 0 ?fs = Some (?t2 \<lparr> m_Theta := next_theta ops t ?th2 \<rparr>, ?f)"
      using InitNewFrame_eq [OF t2, of 0 p] p(1) f by (simp add: put_slice_def)
    have c: "rtl_copy ?b2 (?pos + ?n * ?fs) ?f 0 ?rest = Some ?out"
      using len R T rl f by (simp add: rtl_copy_eq slice_def put_slice_def)
    have z: "store_all ?f 0 (replicate ?rest 0) = Some ?p2"
      using rl f by (simp add: store_all_eq)
    have "?rest < 4294967296" using rl fs by linarith
    then have us: "usub ?fs (ulong ?rest) = ?fs - ?rest" using rl fs by (simp del: mod_less_divisor)
    have sp: "split_frame ops ?t2 ?b2 (?pos + ?n * ?fs) ?rest = Some (?t3, ?out)"
      using i c z by (simp add: split_frame_def us)
    have "length buf - ?pos \<noteq> 0" using False by auto
    then have G: "GenerateSine ops False save t buf (length buf) = Some (?t3, ?out)"
      using p(2) save mute g fs r False sp
      by (simp add: GenerateSine_def Let_def del: diff_is_0_eq diff_diff_left zero_less_diff neq0_conv)
    have "tone_ok ops (?t2 \<lparr> m_Theta := next_theta ops t ?th2 \<rparr>)" using t2 by simp
    then have t3: "tone_ok ops ?t3" using tone_ok_partial [of ops "?t2 \<lparr> m_Theta := next_theta ops t ?th2 \<rparr>" ?p2 "?fs - ?rest"]
        f rl fs False by simp
    have "residue ?t3 = drop ?rest ?f" using rl f by (simp add: residue_def)
    moreover have "tone_from ops t ?th (Suc ?n + m) = ?T @ ?f @ tone_from ops t (next_theta ops t ?th2) m" for m
      using tone_from_add [of ops t ?th ?n "Suc m"] by (simp only: add_Suc add_Suc_right tone_from.simps)
    moreover have "take ?rest ?f @ drop ?rest ?f @ ys = ?f @ ys" for ys by (simp flip: append_assoc)
    ultimately have "\<forall>m. ?out @ upcoming ops ?t3 m = upcoming ops t (Suc ?n + m)"
      by (simp add: upcoming_def del: add_Suc tone_from.simps)
    moreover have "length ?out = length buf" using len R T rl f by simp
    ultimately show ?thesis using G t3 by (intro exI [of _ ?t3] exI [of _ ?out] exI [of _ "Suc ?n"]) simp
  qed
qed

section \<open>Properties\<close>

text \<open>A sequence of calls, each on a buffer with its old content; the outputs are joined.\<close>

fun tone_run :: "'d fp_ops \<Rightarrow> NTSTATUS \<Rightarrow> 'd ToneGenerator \<Rightarrow> BYTE list list \<Rightarrow> ('d ToneGenerator \<times> BYTE list) option" where
  "tone_run ops save t [] = Some (t, [])"
| "tone_run ops save t (b # bs) = do {
     (t1, o1) \<leftarrow> GenerateSine ops False save t b (length b);
     (t2, o2) \<leftarrow> tone_run ops save t1 bs;
     Some (t2, o1 @ o2) }"

lemma tone_run_upcoming:
  "tone_ok ops t \<Longrightarrow> NT_SUCCESS save \<Longrightarrow> list_all (\<lambda>b. m_FrameSize t \<le> length b) bufs \<Longrightarrow>
     \<exists>t' out k. tone_run ops save t bufs = Some (t', out) \<and> tone_ok ops t'
       \<and> length out = sum_list (map length bufs)
       \<and> (\<forall>m. out @ upcoming ops t' m = upcoming ops t (k + m))"
proof (induction bufs arbitrary: t)
  case Nil
  have "\<forall>m. [] @ upcoming ops t m = upcoming ops t (0 + m)" by simp
  then show ?case using Nil.prems(1) by (intro exI [of _ t] exI [of _ "[]"] exI [of _ 0]) simp
next
  case (Cons b bufs)
  have "m_PartialFrameBytes t \<le> length b" using Cons.prems(1,3) by (auto simp: tone_ok_def)
  then obtain t1 o1 k1 where 1: "GenerateSine ops False save t b (length b) = Some (t1, o1)" "tone_ok ops t1"
      "m_FrameSize t1 = m_FrameSize t" "length o1 = length b"
      "\<forall>m. o1 @ upcoming ops t1 m = upcoming ops t (k1 + m)"
    using GenerateSine_step [OF Cons.prems(1,2)] by blast
  obtain t2 o2 k2 where 2: "tone_run ops save t1 bufs = Some (t2, o2)" "tone_ok ops t2"
      "length o2 = sum_list (map length bufs)" "\<forall>m. o2 @ upcoming ops t2 m = upcoming ops t1 (k2 + m)"
    using Cons.IH [OF 1(2) Cons.prems(2)] Cons.prems(3) 1(3) by auto
  have "(o1 @ o2) @ upcoming ops t2 m = upcoming ops t (k1 + k2 + m)" for m
    using 1(5) 2(4) by (simp add: add.assoc)
  then show ?case
    using 1 2 by (intro exI [of _ t2] exI [of _ "o1 @ o2"] exI [of _ "k1 + k2"]) simp
qed

text \<open>
  C20. The tone is continuous over any way of cutting it into buffers: as long as every buffer has
  room for a frame, the joined output of any number of calls is the rest of the last partial frame
  followed by the frames of the sine at successive phases, complete up to a final cut, and the
  bytes kept for the next call are exactly the rest of the frame that was cut.
\<close>

theorem tone_stream_continuous:
  assumes "tone_ok ops t" and "NT_SUCCESS save" and "list_all (\<lambda>b. m_FrameSize t \<le> length b) bufs"
  shows "\<exists>t' out k. tone_run ops save t bufs = Some (t', out) \<and> tone_ok ops t'
     \<and> length out = sum_list (map length bufs)
     \<and> out @ residue t' = residue t @ tone_from ops t (m_Theta t) k"
proof -
  obtain t' out k where r: "tone_run ops save t bufs = Some (t', out)" "tone_ok ops t'"
      "length out = sum_list (map length bufs)" "\<forall>m. out @ upcoming ops t' m = upcoming ops t (k + m)"
    using tone_run_upcoming [OF assms] by blast
  have "out @ residue t' = residue t @ tone_from ops t (m_Theta t) k"
    using r(4) [rule_format, of 0] by (simp add: upcoming_def)
  with r show ?thesis by blast
qed

text \<open>
  A buffer shorter than the residue of the last frame loses audio: the call fills it, but then
  counts the whole residue as delivered, so the bytes that did not fit are skipped.
\<close>

theorem tone_short_buffer_drops:
  assumes "tone_ok ops t" and "NT_SUCCESS save" and "length buf < m_PartialFrameBytes t"
  shows "\<exists>t'. GenerateSine ops False save t buf (length buf) = Some (t', take (length buf) (residue t))
     \<and> residue t' = [] \<and> m_Theta t' = m_Theta t"
proof -
  obtain p where p: "length p = m_FrameSize t" "copy_residue t buf (length buf)
      = Some (t \<lparr> m_PartialFrame := Some p, m_PartialFrameBytes := 0 \<rparr>,
              put_slice buf 0 (take (length buf) (residue t)), length buf)"
    using copy_residue_eq [OF assms(1), of "length buf" buf] assms(3) by (auto simp: min_def)
  have "put_slice buf 0 (take (length buf) (residue t)) = take (length buf) (residue t)"
    using residue_length [OF assms(1)] assms(3) by (simp add: put_slice_def)
  moreover have "\<not> m_Mute t" using assms(1) by (simp add: tone_ok_def)
  ultimately show ?thesis using p assms(2) by (simp add: GenerateSine_def residue_def)
qed

lemma channel_loop_24:
  "sample_bytes ops 24 v = Some s \<Longrightarrow> off + 3 \<le> length buf \<Longrightarrow>
     channel_loop ops 24 v buf off i (Suc n) = Some (put_slice buf off s)"
proof (induction n arbitrary: buf i)
  case 0
  then show ?case
    using channel_write_eq [of 24 ops v s buf off i] sample_bytes_length [of ops 24 v s]
    by (simp add: stride_def store_all_put_slice)
next
  case (Suc n)
  have l: "length s = 3" using sample_bytes_length [OF Suc.prems(1)] by simp
  have w: "channel_write ops 24 v buf off i = Some (put_slice buf off s)"
    using channel_write_eq [of 24 ops v s buf off i] Suc.prems l by (simp add: stride_def store_all_put_slice)
  have "put_slice (put_slice buf off s) off s = put_slice buf off s"
    using Suc.prems(2) l by (simp add: put_slice_def)
  then show ?case using w Suc.IH [OF Suc.prems(1), of "put_slice buf off s" "Suc i"] Suc.prems(2) l by simp
qed

text \<open>
  With 24-bit samples only the first channel is produced: a new frame writes its three sample
  bytes at the start of the frame for every channel, and the rest of the frame keeps the bytes the
  buffer had before.
\<close>

theorem tone_24bit_first_channel_only:
  assumes "m_BitsPerSample t = 24" and "0 < m_ChannelCount t" and "m_ChannelCount t < 65536"
    and "m_FrameSize t = m_ChannelCount t * 3"
    and "off + m_FrameSize t \<le> length buf"
    and "sample_bytes ops 24 (sin_value ops t (m_Theta t)) = Some s"
  shows "\<exists>buf'. InitNewFrame ops t buf off (m_FrameSize t)
       = Some (t \<lparr> m_Theta := next_theta ops t (m_Theta t) \<rparr>, buf')
     \<and> slice buf' off 3 = s
     \<and> slice buf' (off + 3) (m_FrameSize t - 3) = slice buf (off + 3) (m_FrameSize t - 3)"
proof -
  obtain n where n: "m_ChannelCount t = Suc n" using assms(2) gr0_implies_Suc by blast
  have l: "length s = 3" using sample_bytes_length [OF assms(6)] by simp
  have o3: "off + 3 \<le> length buf" using assms(4,5) n by simp
  have f: "ulong (m_ChannelCount t * 24) div 8 = m_FrameSize t" using assms(3,4) by simp
  have "slice (put_slice buf off s) off 3 = s" using slice_put_same [of off s buf] l o3 by simp
  moreover have "slice (put_slice buf off s) (off + 3) (m_FrameSize t - 3) = slice buf (off + 3) (m_FrameSize t - 3)"
    using slice_put_other [of off s buf "off + 3"] l o3 assms(4,5) n by simp
  ultimately show ?thesis
    using channel_loop_24 [OF assms(6) o3, of 0 n] assms(1) f n by (simp add: InitNewFrame_def)
qed

section \<open>A concrete tone\<close>

text \<open>A square wave on integers as doubles: four phases with the values 0, 1, 0, -1.\<close>

definition square :: "int fp_ops" where
  "square = \<lparr> fadd = (+), fsub = (-), fmul = (*), fdiv = (div), fge = (\<lambda>x y. y \<le> x),
     fsin = (\<lambda>x. if x = 1 then 1 else if x = 3 then -1 else 0), ftrunc = id, fint = id, F_127_5 = 127, TWO_PI = 4 \<rparr>"

definition raw_tone :: "int ToneGenerator" where
  "raw_tone = \<lparr> m_Frequency = 7, m_ChannelCount = 7, m_BitsPerSample = 7, m_SamplesPerSecond = 7, m_Theta = 7,
     m_SampleIncrement = 7, m_Mute = True, m_PartialFrame = None, m_PartialFrameBytes = 7, m_FrameSize = 7,
     m_ToneAmplitude = 7, m_ToneDCOffset = 7 \<rparr>"

definition square_tone :: "nat \<Rightarrow> nat \<Rightarrow> int ToneGenerator" where
  "square_tone ch bits = snd (tone_Init square STATUS_SUCCESS True 1 1 0 0
     \<lparr> tf_tag = 1, tf_subformat_pcm = True, tf_channels = ch, tf_bits = bits, tf_rate = 4 \<rparr> (tone_ctor raw_tone))"

lemma square_tone_eq:
  "square_tone ch bits = \<lparr> m_Frequency = 1, m_ChannelCount = ch, m_BitsPerSample = bits, m_SamplesPerSecond = 4,
     m_Theta = 0, m_SampleIncrement = 1, m_Mute = False, m_PartialFrame = Some (replicate (ulong (ch * bits) div 8) 0),
     m_PartialFrameBytes = 0, m_FrameSize = ulong (ch * bits) div 8, m_ToneAmplitude = 1, m_ToneDCOffset = 0 \<rparr>"
  by (simp add: square_tone_def tone_Init_def tone_ctor_def raw_tone_def square_def Let_def)

lemma square_tone_ok: "tone_ok square (square_tone 2 16)"
  by (simp add: tone_ok_def square_tone_eq square_def sample_bytes_def ConvertToShort_def sin_value_def)

lemma tone_stream_continuous_witness:
  "\<exists>t' out k. tone_run square STATUS_SUCCESS (square_tone 2 16) [replicate 5 9, replicate 7 9, replicate 4 9] = Some (t', out)
     \<and> length out = 16 \<and> out @ residue t' = tone_from square (square_tone 2 16) 0 k"
  using tone_stream_continuous [OF square_tone_ok NT_SUCCESS_codes(1),
      of "[replicate 5 9, replicate 7 9, replicate 4 9]"]
  by (simp add: square_tone_eq residue_def del: tone_run.simps) fastforce

lemma tone_short_buffer_drops_witness:
  "\<exists>t'. GenerateSine square False STATUS_SUCCESS
        (square_tone 2 16 \<lparr> m_PartialFrame := Some [0, 1, 2, 3], m_PartialFrameBytes := 3 \<rparr>) [9] 1 = Some (t', [1])
     \<and> residue t' = []"
proof -
  let ?t = "square_tone 2 16 \<lparr> m_PartialFrame := Some [0, 1, 2, 3], m_PartialFrameBytes := 3 \<rparr>"
  have t: "tone_ok square ?t" using square_tone_ok by (intro tone_ok_partial) (simp_all add: square_tone_eq)
  have "residue ?t = [1, 2, 3]" by (simp add: residue_def square_tone_eq)
  then show ?thesis
    using tone_short_buffer_drops [OF t NT_SUCCESS_codes(1), of "[9]"] by (auto simp: square_tone_eq)
qed

lemma tone_24bit_first_channel_only_witness:
  "\<exists>t' buf'. InitNewFrame square (square_tone 2 24) [1, 2, 3, 4, 5, 6] 0 6 = Some (t', buf')
     \<and> slice buf' 3 3 = [4, 5, 6]"
proof -
  have s: "\<exists>s. sample_bytes square 24 (sin_value square (square_tone 2 24) (m_Theta (square_tone 2 24))) = Some s"
    by (simp add: square_tone_eq square_def sample_bytes_def ConvertToLong_def sin_value_def)
  then obtain s where "sample_bytes square 24 (sin_value square (square_tone 2 24) (m_Theta (square_tone 2 24))) = Some s"
    by blast
  from tone_24bit_first_channel_only [OF _ _ _ _ _ this, of 0 "[1, 2, 3, 4, 5, 6]"]
  show ?thesis by (auto simp: square_tone_eq slice_def)
qed

end
