(* ===== verification/BaseTopology.thy ===== *)
theory BaseTopology
  imports KsProperty
begin

text \<open>
  The topology miniport CMiniportTopologySYSVAD of basetopo.cpp: construction, Init (which takes
  references on the adapter and on the port's event interface and resets the mixer), the generic
  property handler with the mux and device-specific handlers, and the forwarding of events to the
  port. The handlers act on the mixer of the adapter object that Init stored in
  \<open>m_AdapterCommon\<close>; the port class calls them only on a miniport whose Init succeeded.
\<close>

section \<open>Construction and initialisation\<close>

definition DEV_SPECIFIC_VT_BOOL :: ULONG where [const_defs]: "DEV_SPECIFIC_VT_BOOL = 9"
definition DEV_SPECIFIC_VT_I4 :: ULONG where [const_defs]: "DEV_SPECIFIC_VT_I4 = 10"
definition DEV_SPECIFIC_VT_UI4 :: ULONG where [const_defs]: "DEV_SPECIFIC_VT_UI4 = 11"

text \<open>Interface pointers are present or NULL; \<open>'f\<close> stands for the filter descriptor.\<close>

record 'f CMiniportTopologySYSVAD =
  m_AdapterCommon :: bool
  m_PortEvents :: bool
  m_FilterDescriptor :: 'f
  m_DeviceMaxChannels :: USHORT

text \<open>The reference counts a miniport contributes to, and the mixer of the adapter.\<close>

record topo_env =
  AdapterRefs :: nat
  PortRefs :: nat
  Mixer :: m_pHW

definition topo_ctor :: "'f \<Rightarrow> USHORT \<Rightarrow> 'f CMiniportTopologySYSVAD" where
  "topo_ctor FilterDesc DeviceMaxChannels =
     \<lparr> m_AdapterCommon = False, m_PortEvents = False, m_FilterDescriptor = FilterDesc,
       m_DeviceMaxChannels = DeviceMaxChannels \<rparr>"

text \<open>SAFE_RELEASE drops the reference a non-NULL pointer holds and clears the pointer.\<close>

definition release_adapter ::
  "'f CMiniportTopologySYSVAD \<times> topo_env \<Rightarrow> 'f CMiniportTopologySYSVAD \<times> topo_env" where
  "release_adapter = (\<lambda>(t, e). if m_AdapterCommon t
     then (t \<lparr> m_AdapterCommon := False \<rparr>, e \<lparr> AdapterRefs := AdapterRefs e - 1 \<rparr>) else (t, e))"

definition release_port ::
  "'f CMiniportTopologySYSVAD \<times> topo_env \<Rightarrow> 'f CMiniportTopologySYSVAD \<times> topo_env" where
  "release_port = (\<lambda>(t, e). if m_PortEvents t
     then (t \<lparr> m_PortEvents := False \<rparr>, e \<lparr> PortRefs := PortRefs e - 1 \<rparr>) else (t, e))"

definition topo_dtor :: "'f CMiniportTopologySYSVAD \<Rightarrow> topo_env \<Rightarrow> topo_env" where
  "topo_dtor t e = snd (release_port (release_adapter (t, e)))"

text \<open>
  \<open>adapter_qi\<close> and \<open>port_qi\<close> are the results of the two QueryInterface calls; a successful call
  stores a pointer and takes a reference, a failing one stores NULL.
\<close>

definition topo_Init :: "NTSTATUS \<Rightarrow> NTSTATUS \<Rightarrow> 'f CMiniportTopologySYSVAD \<Rightarrow> topo_env \<Rightarrow>
    NTSTATUS \<times> 'f CMiniportTopologySYSVAD \<times> topo_env" where
  "topo_Init adapter_qi port_qi t e =
     (let (t1, e1) = (if NT_SUCCESS adapter_qi
                      then (t \<lparr> m_AdapterCommon := True \<rparr>, e \<lparr> AdapterRefs := AdapterRefs e + 1 \<rparr>)
                      else (t \<lparr> m_AdapterCommon := False \<rparr>, e));
          (st, t2, e2) = (if NT_SUCCESS adapter_qi then
                            if NT_SUCCESS port_qi
                            then (port_qi, t1 \<lparr> m_PortEvents := True \<rparr>, e1 \<lparr> PortRefs := PortRefs e1 + 1 \<rparr>)
                            else (port_qi, t1 \<lparr> m_PortEvents := False \<rparr>, e1)
                          else (adapter_qi, t1, e1));
          e3 = (if NT_SUCCESS st then e2 \<lparr> Mixer := MixerReset (Mixer e2) \<rparr> else e2)
      in if NT_SUCCESS st then (st, t2, e3)
         else (let (t4, e4) = release_port (release_adapter (t2, e3)) in (st, t4, e4)))"

definition topo_DataRangeIntersection :: "'f CMiniportTopologySYSVAD \<Rightarrow> NTSTATUS" where
  "topo_DataRangeIntersection t = STATUS_NOT_IMPLEMENTED"

definition topo_GetDescription :: "'f CMiniportTopologySYSVAD \<Rightarrow> NTSTATUS \<times> 'f" where
  "topo_GetDescription t = (STATUS_SUCCESS, m_FilterDescriptor t)"

section \<open>Property handlers\<close>

definition PropertyHandlerMuxSource :: "m_pHW handler" where
  "PropertyHandlerMuxSource hw r =
     (if 4 \<le> ValueSize r then
        if has_flag (Verb r) KSPROPERTY_TYPE_GET then do {
          r1 \<leftarrow> write_value r 0 [MixerMuxRead hw];
          Some (STATUS_SUCCESS, hw, set_size r1 4) }
        else if has_flag (Verb r) KSPROPERTY_TYPE_SET then do {
          v \<leftarrow> deref (Value r);
          Some (STATUS_SUCCESS, MixerMuxWrite hw v, r) }
        else if has_flag (Verb r) KSPROPERTY_TYPE_BASICSUPPORT then do {
          (st, r1) \<leftarrow> PropertyHandler_BasicSupport r KSPROPERTY_TYPE_ALL VT_I4;
          Some (st, hw, r1) }
        else Some (STATUS_INVALID_DEVICE_REQUEST, hw, r)
      else Some (STATUS_INVALID_PARAMETER, hw, r))"

text \<open>Basic support of the two ranged device-specific nodes; 64 is \<open>ExpectedSize\<close>.\<close>

definition DevSpecific_ranged :: "prop_request \<Rightarrow> ULONG \<Rightarrow> (NTSTATUS \<times> prop_request) option" where
  "DevSpecific_ranged r ulPropTypeSetId =
     (if ValueSize r = 0 then Some (STATUS_BUFFER_OVERFLOW, set_size r 64)
      else if 40 \<le> ValueSize r then do {
        r1 \<leftarrow> write_value r 0 ([KSPROPERTY_TYPE_ALL, 64] @ KSPROPTYPESETID_General
                @ [ulPropTypeSetId, 0, 0, 0]);
        if 64 \<le> ValueSize r1 then do {
          r2 \<leftarrow> write_value r1 8 [1];
          r3 \<leftarrow> write_value r2 10 [KSPROPERTY_MEMBER_RANGES, 8, 1, 0];
          r4 \<leftarrow> write_value r3 14 (if VT_I4 = ulPropTypeSetId then [0, 0x7fffffff] else [0, 0xffffffff]);
          Some (STATUS_SUCCESS, set_size r4 64) }
        else Some (STATUS_SUCCESS, set_size r1 40) }
      else if 4 \<le> ValueSize r then do {
        r1 \<leftarrow> write_value r 0 [KSPROPERTY_TYPE_ALL];
        Some (STATUS_SUCCESS, set_size r1 4) }
      else Some (STATUS_BUFFER_TOO_SMALL, set_size r 0))"

definition DevSpecific_support :: "prop_request \<Rightarrow> (NTSTATUS \<times> prop_request) option" where
  "DevSpecific_support r =
     (if DEV_SPECIFIC_VT_BOOL = Node r then PropertyHandler_BasicSupport r KSPROPERTY_TYPE_ALL VT_BOOL
      else if DEV_SPECIFIC_VT_I4 = Node r then DevSpecific_ranged r VT_I4
      else if DEV_SPECIFIC_VT_UI4 = Node r then DevSpecific_ranged r VT_UI4
      else Some (STATUS_INVALID_PARAMETER, r))"

definition PropertyHandlerDevSpecific :: "m_pHW handler" where
  "PropertyHandlerDevSpecific hw r =
     (if has_flag (Verb r) KSPROPERTY_TYPE_BASICSUPPORT then do {
        (st, r1) \<leftarrow> DevSpecific_support r; Some (st, hw, r1) }
      else if Node r = DEV_SPECIFIC_VT_BOOL then
        (let (st, r1) = validate r 4 0
         in if NT_SUCCESS st then
              if has_flag (Verb r1) KSPROPERTY_TYPE_GET then do {
                r2 \<leftarrow> write_value r1 0 [bDevSpecificRead hw]; Some (st, hw, set_size r2 4) }
              else if has_flag (Verb r1) KSPROPERTY_TYPE_SET then do {
                b \<leftarrow> deref (Value r1); Some (st, bDevSpecificWrite hw b, r1) }
              else Some (STATUS_INVALID_PARAMETER, hw, r1)
            else Some (st, hw, r1))
      else if Node r = DEV_SPECIFIC_VT_I4 then
        (let (st, r1) = validate r 4 0
         in if NT_SUCCESS st then
              if has_flag (Verb r1) KSPROPERTY_TYPE_GET then do {
                r2 \<leftarrow> write_value r1 0 [iDevSpecificRead hw]; Some (st, hw, set_size r2 4) }
              else if has_flag (Verb r1) KSPROPERTY_TYPE_SET then do {
                i \<leftarrow> deref (Value r1); Some (st, iDevSpecificWrite hw i, r1) }
              else Some (STATUS_INVALID_PARAMETER, hw, r1)
            else Some (st, hw, r1))
      else if Node r = DEV_SPECIFIC_VT_UI4 then
        (let (st, r1) = validate r 4 0
         in if NT_SUCCESS st then
              if has_flag (Verb r1) KSPROPERTY_TYPE_GET then do {
                r2 \<leftarrow> write_value r1 0 [uiDevSpecificRead hw]; Some (st, hw, set_size r2 4) }
              else if has_flag (Verb r1) KSPROPERTY_TYPE_SET then do {
                u \<leftarrow> deref (Value r1); Some (st, uiDevSpecificWrite hw u, r1) }
              else Some (STATUS_INVALID_PARAMETER, hw, r1)
            else Some (st, hw, r1))
      else Some (STATUS_INVALID_PARAMETER, hw, r))"

definition PropertyHandlerGeneric :: "'f CMiniportTopologySYSVAD \<Rightarrow> m_pHW handler" where
  "PropertyHandlerGeneric t hw r =
     (case Id r of
        KSPROPERTY_AUDIO_VOLUMELEVEL \<Rightarrow> PropertyHandler_Volume hw r (ucast (m_DeviceMaxChannels t))
      | KSPROPERTY_AUDIO_MUTE \<Rightarrow> PropertyHandler_Mute hw r (ucast (m_DeviceMaxChannels t))
      | KSPROPERTY_AUDIO_PEAKMETER2 \<Rightarrow> PropertyHandler_PeakMeter2 hw r (ucast (m_DeviceMaxChannels t))
      | KSPROPERTY_AUDIO_CPU_RESOURCES \<Rightarrow>
          do { (st, r1) \<leftarrow> PropertyHandler_CpuResources r; Some (st, hw, r1) }
      | KSPROPERTY_AUDIO_MUX_SOURCE \<Rightarrow> PropertyHandlerMuxSource hw r
      | KSPROPERTY_AUDIO_DEV_SPECIFIC \<Rightarrow> PropertyHandlerDevSpecific hw r
      | OtherProperty _ \<Rightarrow> Some (STATUS_INVALID_DEVICE_REQUEST, hw, r))"

section \<open>Events\<close>

text \<open>The calls a miniport makes on the port's event interface, in order; NULL faults.\<close>

datatype ('entry, 'set) port_call = PortAddEvent 'entry
  | PortGenerate "'set option" ULONG BOOL ULONG BOOL ULONG

definition topo_AddEventToEventList :: "'f CMiniportTopologySYSVAD \<Rightarrow> 'entry \<Rightarrow>
    ('entry, 'set) port_call list \<Rightarrow> ('entry, 'set) port_call list option" where
  "topo_AddEventToEventList t EventEntry log =
     (if m_PortEvents t then Some (log @ [PortAddEvent EventEntry]) else None)"

definition topo_GenerateEventList :: "'f CMiniportTopologySYSVAD \<Rightarrow> 'set option \<Rightarrow> ULONG \<Rightarrow> BOOL \<Rightarrow>
    ULONG \<Rightarrow> BOOL \<Rightarrow> ULONG \<Rightarrow> ('entry, 'set) port_call list \<Rightarrow> ('entry, 'set) port_call list option" where
  "topo_GenerateEventList t Set EventId PinEvent PinId NodeEvent NodeId log =
     (if m_PortEvents t
      then Some (log @ [PortGenerate Set EventId PinEvent PinId NodeEvent NodeId]) else None)"

section \<open>Initialisation is all or nothing\<close>

text \<open>
  C7. Init of a freshly constructed topology miniport either succeeds, holding one reference on
  the adapter and one on the port events with the mixer reset, or fails with the status of the
  query that failed, holding nothing and leaving mixer and reference counts as they were. In both
  cases the destructor gives back what Init took.
\<close>

theorem topo_init_balanced:
  "case topo_Init adapter_qi port_qi (topo_ctor f n) e of (st, t, e') \<Rightarrow>
     (NT_SUCCESS st = (NT_SUCCESS adapter_qi \<and> NT_SUCCESS port_qi))
     \<and> (if NT_SUCCESS st
        then m_AdapterCommon t \<and> m_PortEvents t
             \<and> e' = \<lparr> AdapterRefs = AdapterRefs e + 1, PortRefs = PortRefs e + 1, Mixer = MixerReset (Mixer e) \<rparr>
        else st = (if NT_SUCCESS adapter_qi then port_qi else adapter_qi)
             \<and> t = topo_ctor f n \<and> e' = e)
     \<and> topo_dtor t e' = e \<lparr> Mixer := Mixer e' \<rparr>"
  by (cases e) (auto simp: topo_Init_def topo_ctor_def topo_dtor_def release_adapter_def
      release_port_def Let_def)

section \<open>Every request is handled\<close>

lemma validated_dev_specific:
  assumes r: "req_ok r" and p: "peak_ok hw"
    and w: "\<And>v. mixer_ok hw \<Longrightarrow> mixer_ok (wr hw v)" "\<And>v. peak_ok (wr hw v)"
  shows "handled hw r (let (st, r1) = validate r 4 0
         in if NT_SUCCESS st then
              if has_flag (Verb r1) KSPROPERTY_TYPE_GET then do {
                r2 \<leftarrow> write_value r1 0 [rd hw]; Some (st, hw, set_size r2 4) }
              else if has_flag (Verb r1) KSPROPERTY_TYPE_SET then do {
                b \<leftarrow> deref (Value r1); Some (st, wr hw b, r1) }
              else Some (STATUS_INVALID_PARAMETER, hw, r1)
            else Some (st, hw, r1))"
  unfolding Let_def
proof (rule validated_handled [OF r p], goal_cases)
  case (2 b)
  then obtain x b' where "b = x # b'" by (cases b) auto
  then show ?case using p w 2 by (simp add: write_value_Cons handled_def set_size_def)
qed simp_all

lemma DevSpecific_ranged_handled:
  assumes b: "buffer_ok (ValueSize r) (Value r)" and p: "peak_ok hw"
  shows "handled hw r (do { (st, r1) \<leftarrow> DevSpecific_ranged r t; Some (st, hw, r1) })"
proof (cases "4 \<le> ValueSize r")
  case False
  then have "\<not> 40 \<le> ValueSize r" by (simp add: unat_le_iff)
  with False p show ?thesis by (simp add: DevSpecific_ranged_def handled_def set_size_def)
next
  case v4: True
  then have v0: "ValueSize r \<noteq> 0" by (auto simp: unat_le_iff)
  obtain x b' where v: "Value r = Some (x # b')" and l: "Suc (length b') = unat (ValueSize r) div 4"
    using buffer_ok_Some [OF b v4] by blast
  show ?thesis
  proof (cases "40 \<le> ValueSize r")
    case False
    with v4 v0 v p show ?thesis
      by (simp add: DevSpecific_ranged_def write_value_Cons handled_def set_size_def)
  next
    case v40: True
    then have l10: "10 \<le> Suc (length b')" using l by (simp add: unat_le_iff)
    show ?thesis
    proof (cases "64 \<le> ValueSize r")
      case False
      with v40 v0 v l10 p show ?thesis
        by (simp add: DevSpecific_ranged_def write_value_eq KSPROPTYPESETID_General_def handled_def
            set_size_def)
    next
      case True
      then have "16 \<le> Suc (length b')" using l by (simp add: unat_le_iff)
      with v40 v0 v True p show ?thesis
        by (simp add: DevSpecific_ranged_def write_value_eq KSPROPTYPESETID_General_def handled_def
            set_size_def)
    qed
  qed
qed

lemma DevSpecific_handled:
  assumes r: "req_ok r" and p: "peak_ok hw"
  shows "handled hw r (PropertyHandlerDevSpecific hw r)"
proof -
  have b: "buffer_ok (ValueSize r) (Value r)" using r by (simp add: req_ok_def)
  note sup = DevSpecific_ranged_handled [OF b p] basic_support_handled [OF b p]
  have s: "handled hw r (do { (st, r1) \<leftarrow> DevSpecific_support r; Some (st, hw, r1) })"
    using sup p by (simp add: DevSpecific_support_def handled_def)
  note v = validated_dev_specific [OF r p]
  show ?thesis
    unfolding PropertyHandlerDevSpecific_def
    using s p v [of bDevSpecificWrite bDevSpecificRead] v [of iDevSpecificWrite iDevSpecificRead]
      v [of uiDevSpecificWrite uiDevSpecificRead]
    by (simp add: handled_def)
qed

lemma MuxSource_handled:
  assumes r: "req_ok r" and p: "peak_ok hw"
  shows "handled hw r (PropertyHandlerMuxSource hw r)"
proof (cases "4 \<le> ValueSize r")
  case False
  then show ?thesis using p by (simp add: PropertyHandlerMuxSource_def handled_def)
next
  case True
  have b: "buffer_ok (ValueSize r) (Value r)" using r by (simp add: req_ok_def)
  then obtain x b' where v: "Value r = Some (x # b')" using buffer_ok_Some [OF b True] by blast
  have "handled hw r (do { (st, r1) \<leftarrow> PropertyHandler_BasicSupport r KSPROPERTY_TYPE_ALL VT_I4;
                           Some (st, hw, r1) })"
    by (rule basic_support_handled [OF b p])
  with True v p show ?thesis
    by (simp add: PropertyHandlerMuxSource_def write_value_Cons handled_def set_size_def)
qed

text \<open>
  C8. The generic property handler is total and safe: for every property, verb, node, channel and
  buffer that the port class may pass, it returns without touching memory outside the buffers and
  without a signed overflow, keeps the mixer well formed, leaves the mixer alone when it reports
  an error, and returns a size that fits the buffer unless it answers a size query.
\<close>

theorem property_handler_safe:
  assumes "req_ok r" and "peak_ok hw"
  shows "handled hw r (PropertyHandlerGeneric t hw r)"
proof -
  have "unat (ucast (m_DeviceMaxChannels t) :: ULONG) \<le> 65535"
  proof -
    have "unat (m_DeviceMaxChannels t) < 65536"
      using unsigned_less [of "m_DeviceMaxChannels t", where ?'a = nat] by simp
    then show ?thesis by (simp add: unsigned_ucast_eq take_bit_nat_eq_self)
  qed
  then show ?thesis
    using assms Volume_handled Mute_handled PeakMeter2_handled CpuResources_handled
      MuxSource_handled DevSpecific_handled
    by (auto simp: PropertyHandlerGeneric_def handled_def split: prop_id.split)
qed

theorem property_handler_safe_witness:
  "handled (MixerReset (Some (CSYSVADHW_ctor undefined)))
     \<lparr> Verb = 0x200, Node = 10, Id = KSPROPERTY_AUDIO_DEV_SPECIFIC, ItemFlags = 0, InstanceSize = 0,
       Instance = None, ValueSize = 64, Value = Some (replicate 16 0) \<rparr>
     (PropertyHandlerGeneric (topo_ctor () 2) (MixerReset (Some (CSYSVADHW_ctor undefined)))
       \<lparr> Verb = 0x200, Node = 10, Id = KSPROPERTY_AUDIO_DEV_SPECIFIC, ItemFlags = 0, InstanceSize = 0,
         Instance = None, ValueSize = 64, Value = Some (replicate 16 0) \<rparr>)"
  by (rule property_handler_safe) (simp_all add: req_ok_def buffer_ok_def)

end
