(* ===== verification/JackTopology.thy ===== *)
theory JackTopology
  imports BaseTopology
begin

text \<open>
  The jack properties of the topology filters: hdmitopo.cpp (class CHdmiMiniportTopology, with the
  sink information), micintopo.cpp and spdiftopo.cpp, and the jack descriptions of their tables.
  The handlers of the S/PDIF filter call methods of CMiniportTopology, which is not part of the
  repository; they are parameters of the dispatch.

  As in KsProperty values are buffers of 32-bit slots. The layouts are those of ksmedia.h:
  KSMULTIPLE_ITEM has 8 bytes, KSJACK_DESCRIPTION 28, KSJACK_DESCRIPTION2 8 and
  KSJACK_SINK_INFORMATION 96.
\<close>

section \<open>Jack descriptions\<close>

record KSJACK_DESCRIPTION =
  ChannelMapping :: ULONG
  JackColor :: ULONG
  ConnectionType :: ULONG
  GeoLocation :: ULONG
  GenLocation :: ULONG
  PortConnection :: ULONG
  IsConnected :: BOOL

definition jack_slots :: "KSJACK_DESCRIPTION \<Rightarrow> ULONG list" where
  "jack_slots d = [ChannelMapping d, JackColor d, ConnectionType d, GeoLocation d, GenLocation d,
     PortConnection d, IsConnected d]"

definition JACKDESC_RGB :: "ULONG \<Rightarrow> ULONG \<Rightarrow> ULONG \<Rightarrow> ULONG" where
  "JACKDESC_RGB r g b = push_bit 16 r OR push_bit 8 g OR b"

definition KSAUDIO_SPEAKER_STEREO :: ULONG where [const_defs]: "KSAUDIO_SPEAKER_STEREO = 3"
definition KSAUDIO_SPEAKER_MONO :: ULONG where [const_defs]: "KSAUDIO_SPEAKER_MONO = 4"
definition eConnTypeOtherDigital :: ULONG where [const_defs]: "eConnTypeOtherDigital = 6"
definition eConnTypeCombination :: ULONG where [const_defs]: "eConnTypeCombination = 11"
definition eGeoLocRear :: ULONG where [const_defs]: "eGeoLocRear = 1"
definition eGeoLocHDMI :: ULONG where [const_defs]: "eGeoLocHDMI = 11"
definition eGenLocPrimaryBox :: ULONG where [const_defs]: "eGenLocPrimaryBox = 0"
definition ePortConnJack :: ULONG where [const_defs]: "ePortConnJack = 0"

definition HdmiJackDesc :: KSJACK_DESCRIPTION where
  "HdmiJackDesc = \<lparr> ChannelMapping = KSAUDIO_SPEAKER_STEREO, JackColor = 0, ConnectionType = eConnTypeOtherDigital,
     GeoLocation = eGeoLocHDMI, GenLocation = eGenLocPrimaryBox, PortConnection = ePortConnJack, IsConnected = TRUE_BOOL \<rparr>"

definition HdmiJackDescriptions :: "KSJACK_DESCRIPTION option list" where
  "HdmiJackDescriptions = [None, Some HdmiJackDesc]"

definition MicInJackDesc :: KSJACK_DESCRIPTION where
  "MicInJackDesc = \<lparr> ChannelMapping = KSAUDIO_SPEAKER_MONO, JackColor = JACKDESC_RGB 179 201 140,
     ConnectionType = eConnTypeCombination, GeoLocation = eGeoLocRear, GenLocation = eGenLocPrimaryBox,
     PortConnection = ePortConnJack, IsConnected = TRUE_BOOL \<rparr>"

definition MicInJackDescriptions :: "KSJACK_DESCRIPTION option list" where
  "MicInJackDescriptions = [Some MicInJackDesc, None]"

definition SpdifJackDesc :: KSJACK_DESCRIPTION where
  "SpdifJackDesc = \<lparr> ChannelMapping = KSAUDIO_SPEAKER_STEREO, JackColor = 0, ConnectionType = eConnTypeOtherDigital,
     GeoLocation = eGeoLocRear, GenLocation = eGenLocPrimaryBox, PortConnection = ePortConnJack, IsConnected = TRUE_BOOL \<rparr>"

definition SpdifJackDescriptions :: "KSJACK_DESCRIPTION option list" where
  "SpdifJackDescriptions = [None, Some SpdifJackDesc]"

section \<open>Answering a request\<close>

text \<open>
  The part common to all jack handlers behind the choice of the pin: basic support, the size
  query, and a GET whose answer is \<open>slots\<close>.
\<close>

definition jack_value :: "ULONG list \<Rightarrow> prop_request \<Rightarrow> (NTSTATUS \<times> prop_request) option" where
  "jack_value slots r =
     (if has_flag (Verb r) KSPROPERTY_TYPE_BASICSUPPORT then
        PropertyHandler_BasicSupport r (KSPROPERTY_TYPE_BASICSUPPORT OR KSPROPERTY_TYPE_GET) VT_ILLEGAL
      else
        (let cbNeeded = of_nat (4 * length slots)
         in if ValueSize r = 0 then Some (STATUS_BUFFER_OVERFLOW, set_size r cbNeeded)
            else if ValueSize r < cbNeeded then Some (STATUS_BUFFER_TOO_SMALL, r)
            else if has_flag (Verb r) KSPROPERTY_TYPE_GET then do {
              r1 \<leftarrow> write_value r 0 slots;
              Some (STATUS_SUCCESS, r1) }
            else Some (STATUS_INVALID_DEVICE_REQUEST, r)))"

text \<open>The handlers of a pin with a jack; \<open>answer\<close> gives the slots behind the KSMULTIPLE_ITEM.\<close>

definition jack_of_pin :: "(KSJACK_DESCRIPTION \<Rightarrow> ULONG list) \<Rightarrow> KSJACK_DESCRIPTION option list \<Rightarrow> prop_request \<Rightarrow>
    (NTSTATUS \<times> prop_request) option" where
  "jack_of_pin answer JackDescriptions r =
     (if 4 \<le> InstanceSize r then do {
        nPinId \<leftarrow> deref (Instance r);
        if nPinId < of_nat (length JackDescriptions) then do {
          jack \<leftarrow> load JackDescriptions (unat nPinId);
          (case jack of
             Some d \<Rightarrow> jack_value ([4 * of_nat (2 + length (answer d)), 1] @ answer d) r
           | None \<Rightarrow> Some (STATUS_INVALID_DEVICE_REQUEST, r)) }
        else Some (STATUS_INVALID_DEVICE_REQUEST, r) }
      else Some (STATUS_INVALID_DEVICE_REQUEST, r))"

definition JACKDESC2_PRESENCE_DETECT_CAPABILITY :: ULONG where
  [const_defs]: "JACKDESC2_PRESENCE_DETECT_CAPABILITY = 1"

definition PropertyHandler_MicInJackDescription :: "prop_request \<Rightarrow> (NTSTATUS \<times> prop_request) option" where
  "PropertyHandler_MicInJackDescription = jack_of_pin jack_slots MicInJackDescriptions"

text \<open>DeviceStateInfo is 0; the second field are the jack capabilities.\<close>

definition PropertyHandler_MicInJackDescription2 :: "prop_request \<Rightarrow> (NTSTATUS \<times> prop_request) option" where
  "PropertyHandler_MicInJackDescription2 = jack_of_pin (\<lambda>d. [0, 0]) MicInJackDescriptions"

definition hdmi_PropertyHandlerJackDescription :: "prop_request \<Rightarrow> (NTSTATUS \<times> prop_request) option" where
  "hdmi_PropertyHandlerJackDescription = jack_of_pin jack_slots HdmiJackDescriptions"

definition hdmi_PropertyHandlerJackDescription2 :: "prop_request \<Rightarrow> (NTSTATUS \<times> prop_request) option" where
  "hdmi_PropertyHandlerJackDescription2 =
     jack_of_pin (\<lambda>d. [0, JACKDESC2_PRESENCE_DETECT_CAPABILITY]) HdmiJackDescriptions"

section \<open>Sink information\<close>

definition KSPIN_TOPO_LINEOUT_DEST :: ULONG where [const_defs]: "KSPIN_TOPO_LINEOUT_DEST = 1"
definition KSJACK_SINK_CONNECTIONTYPE_HDMI :: ULONG where [const_defs]: "KSJACK_SINK_CONNECTIONTYPE_HDMI = 0"
definition MAX_SINK_DESCRIPTION_NAME_LENGTH :: nat where [const_defs]: "MAX_SINK_DESCRIPTION_NAME_LENGTH = 32"

definition SINK_DESC_STR :: string where
  "SINK_DESC_STR = ''SinkDescription Sample''"

text \<open>The UTF-16 units of a name field, padded with zeros, and two units in a slot.\<close>

definition wide :: "string \<Rightarrow> USHORT list" where
  "wide s = map (\<lambda>c. of_nat (of_char c)) s @ replicate (MAX_SINK_DESCRIPTION_NAME_LENGTH - length s) 0"

definition two_units :: "USHORT \<Rightarrow> USHORT \<Rightarrow> ULONG" where
  "two_units lo hi = ucast lo OR push_bit 16 (ucast hi)"

text \<open>
  The structure: connection type, manufacturer and product, latency, the two capability flags, the
  byte with the length of the name followed by the first unit of the name, the other units (the
  last slot is half padding), and the port LUID.
\<close>

fun pair_units :: "USHORT list \<Rightarrow> ULONG list" where
  "pair_units [] = []"
| "pair_units [u] = [two_units u 0]"
| "pair_units (u # v # us) = two_units u v # pair_units us"

definition sink_slots :: "string \<Rightarrow> ULONG list" where
  "sink_slots name =
     (let cchLength = length name;
          fits = cchLength < MAX_SINK_DESCRIPTION_NAME_LENGTH;
          units = (if fits then wide name else replicate MAX_SINK_DESCRIPTION_NAME_LENGTH 0);
          len = (if fits then of_nat cchLength else 0)
      in [KSJACK_SINK_CONNECTIONTYPE_HDMI, 0, 0, TRUE_BOOL, TRUE_BOOL] @ pair_units (len # units) @ [0, 0])"

definition PropertyHandlerJackSinkInfo :: "prop_request \<Rightarrow> (NTSTATUS \<times> prop_request) option" where
  "PropertyHandlerJackSinkInfo r =
     (if 4 \<le> InstanceSize r then do {
        nPinId \<leftarrow> deref (Instance r);
        if nPinId = KSPIN_TOPO_LINEOUT_DEST then jack_value (sink_slots SINK_DESC_STR) r
        else Some (STATUS_INVALID_DEVICE_REQUEST, r) }
      else Some (STATUS_INVALID_DEVICE_REQUEST, r))"

section \<open>The filters\<close>

datatype prop_set = KSPROPSETID_Jack | OtherSet
datatype jack_prop = KSPROPERTY_JACK_DESCRIPTION | KSPROPERTY_JACK_DESCRIPTION2 | KSPROPERTY_JACK_SINK_INFO
  | OtherJackProperty ULONG

definition PropertyHandler_MicInTopoFilter :: "prop_set \<Rightarrow> jack_prop \<Rightarrow> prop_request \<Rightarrow>
    (NTSTATUS \<times> prop_request) option" where
  "PropertyHandler_MicInTopoFilter set_id prop r =
     (if set_id = KSPROPSETID_Jack then
        if prop = KSPROPERTY_JACK_DESCRIPTION then PropertyHandler_MicInJackDescription r
        else if prop = KSPROPERTY_JACK_DESCRIPTION2 then PropertyHandler_MicInJackDescription2 r
        else Some (STATUS_INVALID_DEVICE_REQUEST, r)
      else Some (STATUS_INVALID_DEVICE_REQUEST, r))"

definition PropertyHandler_HdmiTopoFilter :: "prop_set \<Rightarrow> jack_prop \<Rightarrow> prop_request \<Rightarrow>
    (NTSTATUS \<times> prop_request) option" where
  "PropertyHandler_HdmiTopoFilter set_id prop r =
     (if set_id = KSPROPSETID_Jack then
        if prop = KSPROPERTY_JACK_DESCRIPTION then hdmi_PropertyHandlerJackDescription r
        else if prop = KSPROPERTY_JACK_DESCRIPTION2 then hdmi_PropertyHandlerJackDescription2 r
        else if prop = KSPROPERTY_JACK_SINK_INFO then PropertyHandlerJackSinkInfo r
        else Some (STATUS_INVALID_DEVICE_REQUEST, r)
      else Some (STATUS_INVALID_DEVICE_REQUEST, r))"

text \<open>\<open>desc\<close> and \<open>desc2\<close> are the methods of CMiniportTopology; they get the table (and capabilities 0).\<close>

definition PropertyHandler_SpdifTopoFilter ::
  "(prop_request \<Rightarrow> KSJACK_DESCRIPTION option list \<Rightarrow> (NTSTATUS \<times> prop_request) option) \<Rightarrow>
   (prop_request \<Rightarrow> KSJACK_DESCRIPTION option list \<Rightarrow> ULONG \<Rightarrow> (NTSTATUS \<times> prop_request) option) \<Rightarrow>
   prop_set \<Rightarrow> jack_prop \<Rightarrow> prop_request \<Rightarrow> (NTSTATUS \<times> prop_request) option" where
  "PropertyHandler_SpdifTopoFilter desc desc2 set_id prop r =
     (if set_id = KSPROPSETID_Jack then
        if prop = KSPROPERTY_JACK_DESCRIPTION then desc r SpdifJackDescriptions
        else if prop = KSPROPERTY_JACK_DESCRIPTION2 then desc2 r SpdifJackDescriptions 0
        else Some (STATUS_INVALID_DEVICE_REQUEST, r)
      else Some (STATUS_INVALID_DEVICE_REQUEST, r))"

section \<open>The HDMI miniport object\<close>

text \<open>
  The object has the base class part and the reference count of CUnknown. \<open>alloc\<close> tells whether the
  allocation succeeds; the created object carries one reference.
\<close>

record 'f CHdmiMiniportTopology =
  base_topo :: "'f CMiniportTopologySYSVAD"
  m_lRefCount :: nat

definition CreateHdmiMiniportTopology :: "bool \<Rightarrow> 'f \<Rightarrow> USHORT \<Rightarrow> NTSTATUS \<times> 'f CHdmiMiniportTopology option" where
  "CreateHdmiMiniportTopology alloc TopoDescriptor DeviceMaxChannels =
     (if \<not> alloc then (STATUS_INSUFFICIENT_RESOURCES, None)
      else (STATUS_SUCCESS, Some \<lparr> base_topo = topo_ctor TopoDescriptor DeviceMaxChannels, m_lRefCount = 1 \<rparr>))"

definition hdmi_Init :: "NTSTATUS \<Rightarrow> NTSTATUS \<Rightarrow> 'f CHdmiMiniportTopology \<times> topo_env \<Rightarrow>
    NTSTATUS \<times> 'f CHdmiMiniportTopology \<times> topo_env" where
  "hdmi_Init adapter_qi port_qi = (\<lambda>(o1, e).
     (case topo_Init adapter_qi port_qi (base_topo o1) e of (st, t, e1) \<Rightarrow> (st, o1 \<lparr> base_topo := t \<rparr>, e1)))"

datatype topo_iid = IID_IUnknown | IID_IMiniport | IID_IMiniportTopology | OtherInterface

text \<open>The second component is the interface handed out, if any.\<close>

definition hdmi_NonDelegatingQueryInterface :: "topo_iid \<Rightarrow> 'f CHdmiMiniportTopology \<Rightarrow>
    NTSTATUS \<times> topo_iid option \<times> 'f CHdmiMiniportTopology" where
  "hdmi_NonDelegatingQueryInterface iid o1 =
     (let Object = (if iid = IID_IUnknown then Some IID_IUnknown
                    else if iid = IID_IMiniport then Some IID_IMiniport
                    else if iid = IID_IMiniportTopology then Some IID_IMiniportTopology
                    else None)
      in if Object \<noteq> None then (STATUS_SUCCESS, Object, o1 \<lparr> m_lRefCount := m_lRefCount o1 + 1 \<rparr>)
         else (STATUS_INVALID_PARAMETER, None, o1))"

text \<open>The last Release runs the destructor, which runs that of the base class.\<close>

definition hdmi_Release :: "'f CHdmiMiniportTopology \<times> topo_env \<Rightarrow> ('f CHdmiMiniportTopology option \<times> topo_env) option" where
  "hdmi_Release = (\<lambda>(o1, e).
     if m_lRefCount o1 = 0 then None
     else if m_lRefCount o1 = 1 then Some (None, topo_dtor (base_topo o1) e)
     else Some (Some (o1 \<lparr> m_lRefCount := m_lRefCount o1 - 1 \<rparr>), e))"

section \<open>Replies of the filters\<close>

text \<open>
  What a client reads, slot by slot: for the HDMI filter from pin 1, for the microphone from pin 0.
\<close>

fun hdmi_reply :: "jack_prop \<Rightarrow> ULONG \<Rightarrow> ULONG list option" where
  "hdmi_reply KSPROPERTY_JACK_DESCRIPTION pin = (if pin = 1 then Some [36, 1, 3, 0, 6, 11, 0, 0, 1] else None)"
| "hdmi_reply KSPROPERTY_JACK_DESCRIPTION2 pin = (if pin = 1 then Some [16, 1, 0, 1] else None)"
| "hdmi_reply KSPROPERTY_JACK_SINK_INFO pin = (if pin = 1 then
     Some [0, 0, 0, 1, 1, 0x00530016, 0x006E0069, 0x0044006B, 0x00730065, 0x00720063, 0x00700069, 0x00690074,
           0x006E006F, 0x00530020, 0x006D0061, 0x006C0070, 0x00000065, 0, 0, 0, 0, 0, 0, 0] else None)"
| "hdmi_reply (OtherJackProperty n) pin = None"

fun micin_reply :: "jack_prop \<Rightarrow> ULONG \<Rightarrow> ULONG list option" where
  "micin_reply KSPROPERTY_JACK_DESCRIPTION pin = (if pin = 0 then Some [36, 1, 4, 0x00B3C98C, 11, 1, 0, 0, 1] else None)"
| "micin_reply KSPROPERTY_JACK_DESCRIPTION2 pin = (if pin = 0 then Some [16, 1, 0, 0] else None)"
| "micin_reply KSPROPERTY_JACK_SINK_INFO pin = None"
| "micin_reply (OtherJackProperty n) pin = None"

lemma sink_slots_eq: "Some (sink_slots SINK_DESC_STR) = hdmi_reply KSPROPERTY_JACK_SINK_INFO 1"
  by code_simp

lemma pin_less_2: "(pin :: ULONG) < 2 \<longleftrightarrow> pin = 0 \<or> pin = 1"
  by (auto simp: word_less_nat_alt word_unat_eq_iff less_2_cases_iff)

lemma jack_of_pin_right: "deref (Instance r) = Some pin \<Longrightarrow> 4 \<le> InstanceSize r \<Longrightarrow>
   jack_of_pin answer [None, Some d] r
     = (if pin = 1 then jack_value ([4 * of_nat (2 + length (answer d)), 1] @ answer d) r
        else Some (STATUS_INVALID_DEVICE_REQUEST, r))"
  by (auto simp: jack_of_pin_def load_def pin_less_2)

lemma jack_of_pin_left: "deref (Instance r) = Some pin \<Longrightarrow> 4 \<le> InstanceSize r \<Longrightarrow>
   jack_of_pin answer [Some d, None] r
     = (if pin = 0 then jack_value ([4 * of_nat (2 + length (answer d)), 1] @ answer d) r
        else Some (STATUS_INVALID_DEVICE_REQUEST, r))"
  by (auto simp: jack_of_pin_def load_def pin_less_2)

lemmas jack_table_defs = HdmiJackDescriptions_def HdmiJackDesc_def MicInJackDescriptions_def MicInJackDesc_def
  jack_slots_def TRUE_BOOL_def JACKDESC_RGB_def

definition reply_or_refuse :: "ULONG list option \<Rightarrow> prop_request \<Rightarrow> (NTSTATUS \<times> prop_request) option" where
  "reply_or_refuse reply r = (case reply of None \<Rightarrow> Some (STATUS_INVALID_DEVICE_REQUEST, r) | Some slots \<Rightarrow> jack_value slots r)"

lemma hdmi_filter_reply:
  assumes "deref (Instance r) = Some pin" and "4 \<le> InstanceSize r"
  shows "PropertyHandler_HdmiTopoFilter KSPROPSETID_Jack prop r = reply_or_refuse (hdmi_reply prop pin) r"
proof (cases "prop")
  case KSPROPERTY_JACK_SINK_INFO
  then show ?thesis using assms sink_slots_eq
    by (simp add: PropertyHandler_HdmiTopoFilter_def PropertyHandlerJackSinkInfo_def KSPIN_TOPO_LINEOUT_DEST_def
        reply_or_refuse_def)
qed (simp_all add: PropertyHandler_HdmiTopoFilter_def hdmi_PropertyHandlerJackDescription_def
    hdmi_PropertyHandlerJackDescription2_def jack_of_pin_right [OF assms] jack_table_defs const_defs reply_or_refuse_def)

lemma micin_filter_reply:
  assumes "deref (Instance r) = Some pin" and "4 \<le> InstanceSize r"
  shows "PropertyHandler_MicInTopoFilter KSPROPSETID_Jack prop r = reply_or_refuse (micin_reply prop pin) r"
  by (cases "prop") (simp_all add: PropertyHandler_MicInTopoFilter_def PropertyHandler_MicInJackDescription_def
    PropertyHandler_MicInJackDescription2_def jack_of_pin_left [OF assms] jack_table_defs const_defs reply_or_refuse_def)

lemma reply_lengths:
  "hdmi_reply prop pin = Some slots \<Longrightarrow> slots \<noteq> [] \<and> length slots \<le> 24"
  "micin_reply prop pin = Some slots \<Longrightarrow> slots \<noteq> [] \<and> length slots \<le> 24"
  by (cases "prop"; auto split: if_splits)+

text \<open>
  What a client of a jack property sees, for a request \<open>r\<close> that is not for basic support: the size of
  the reply on a query, a GET with a buffer of at least that size that overwrites exactly the first
  slots, and refusals without effect.
\<close>

definition jack_protocol :: "(prop_request \<Rightarrow> (NTSTATUS \<times> prop_request) option) \<Rightarrow> ULONG list option \<Rightarrow> prop_request \<Rightarrow> bool" where
  "jack_protocol f reply r \<longleftrightarrow>
     (case reply of
        None \<Rightarrow> f r = Some (STATUS_INVALID_DEVICE_REQUEST, r)
      | Some slots \<Rightarrow>
          (\<exists>q. f (r \<lparr> ValueSize := 0, Value := None \<rparr>) = Some (STATUS_BUFFER_OVERFLOW, q)
             \<and> unat (ValueSize q) = 4 * length slots)
          \<and> (\<forall>b n. n \<noteq> 0 \<longrightarrow> unat n < 4 * length slots \<longrightarrow> f (r \<lparr> ValueSize := n, Value := b \<rparr>)
               = Some (STATUS_BUFFER_TOO_SMALL, r \<lparr> ValueSize := n, Value := b \<rparr>))
          \<and> (\<forall>old rest n. length old = length slots \<longrightarrow> 4 * length slots \<le> unat n \<longrightarrow>
               f (r \<lparr> ValueSize := n, Value := Some (old @ rest) \<rparr>)
               = (if has_flag (Verb r) KSPROPERTY_TYPE_GET
                  then Some (STATUS_SUCCESS, r \<lparr> ValueSize := n, Value := Some (slots @ rest) \<rparr>)
                  else Some (STATUS_INVALID_DEVICE_REQUEST, r \<lparr> ValueSize := n, Value := Some (old @ rest) \<rparr>))))"

lemma jack_value_protocol:
  assumes "\<not> has_flag (Verb r) KSPROPERTY_TYPE_BASICSUPPORT" and "slots \<noteq> []" and "length slots \<le> 24"
  shows "jack_protocol (jack_value slots) (Some slots) r"
proof -
  have n: "unat (of_nat (4 * length slots) :: ULONG) = 4 * length slots"
    using assms(3) by (intro unat_of_nat_ULONG) simp
  have nz: "(of_nat (4 * length slots) :: ULONG) \<noteq> 0"
    using n assms(2) by (metis length_0_conv mult_is_0 unat_0 zero_neq_numeral)
  have nn: "4 * length slots \<le> unat m \<Longrightarrow> m \<noteq> 0" for m :: ULONG using assms(2) by auto
  show ?thesis
    using assms(1) n nz nn
    by (auto simp: jack_protocol_def jack_value_def Let_def unat_less_iff set_size_def write_value_eq
        simp del: of_nat_mult)
qed

lemma jack_protocol_cong:
  assumes "f r = g r" and "\<And>n b. f (r \<lparr> ValueSize := n, Value := b \<rparr>) = g (r \<lparr> ValueSize := n, Value := b \<rparr>)"
  shows "jack_protocol f reply r = jack_protocol g reply r"
  unfolding jack_protocol_def assms ..

lemma reply_or_refuse_protocol:
  assumes "\<not> has_flag (Verb r) KSPROPERTY_TYPE_BASICSUPPORT" and "\<And>slots. reply = Some slots \<Longrightarrow> slots \<noteq> [] \<and> length slots \<le> 24"
  shows "jack_protocol (reply_or_refuse reply) reply r"
proof (cases reply)
  case None
  then show ?thesis by (simp add: jack_protocol_def reply_or_refuse_def)
next
  case (Some slots)
  have "reply_or_refuse reply = jack_value slots" by (simp add: Some reply_or_refuse_def fun_eq_iff)
  then show ?thesis using jack_value_protocol [OF assms(1), of slots] assms(2) [OF Some] by (simp add: Some)
qed

text \<open>
  C29. The size query and the GET of every jack property agree, for every pin and every buffer: the
  query announces the size of the reply, any smaller buffer is refused unchanged, and a GET into a
  buffer of at least that size succeeds and overwrites exactly its first slots with the reply,
  whatever was in the buffer. The replies are the literal descriptions \<open>hdmi_reply\<close> and
  \<open>micin_reply\<close>; pins without a jack and unknown properties are refused.
\<close>

theorem jack_query_then_get:
  assumes "deref (Instance r) = Some pin" and "4 \<le> InstanceSize r"
    and "\<not> has_flag (Verb r) KSPROPERTY_TYPE_BASICSUPPORT"
  shows "jack_protocol (PropertyHandler_HdmiTopoFilter KSPROPSETID_Jack prop) (hdmi_reply prop pin) r
     \<and> jack_protocol (PropertyHandler_MicInTopoFilter KSPROPSETID_Jack prop) (micin_reply prop pin) r"
proof
  let ?h = "PropertyHandler_HdmiTopoFilter KSPROPSETID_Jack prop" and ?m = "PropertyHandler_MicInTopoFilter KSPROPSETID_Jack prop"
  have "jack_protocol ?h (hdmi_reply prop pin) r = jack_protocol (reply_or_refuse (hdmi_reply prop pin)) (hdmi_reply prop pin) r"
    using assms(1,2) by (intro jack_protocol_cong hdmi_filter_reply) simp_all
  then show "jack_protocol ?h (hdmi_reply prop pin) r"
    using reply_or_refuse_protocol [OF assms(3)] reply_lengths(1) by blast
  have "jack_protocol ?m (micin_reply prop pin) r = jack_protocol (reply_or_refuse (micin_reply prop pin)) (micin_reply prop pin) r"
    using assms(1,2) by (intro jack_protocol_cong micin_filter_reply) simp_all
  then show "jack_protocol ?m (micin_reply prop pin) r"
    using reply_or_refuse_protocol [OF assms(3)] reply_lengths(2) by blast
qed

lemma jack_protocol_get:
  "jack_protocol f (Some slots) r \<Longrightarrow> has_flag (Verb r) KSPROPERTY_TYPE_GET \<Longrightarrow> length old = length slots \<Longrightarrow>
     4 * length slots \<le> unat n \<Longrightarrow> f (r \<lparr> ValueSize := n, Value := Some (old @ rest) \<rparr>)
       = Some (STATUS_SUCCESS, r \<lparr> ValueSize := n, Value := Some (slots @ rest) \<rparr>)"
  by (simp add: jack_protocol_def)

definition jack_request :: prop_request where
  "jack_request = \<lparr> Verb = KSPROPERTY_TYPE_GET, Node = 0, Id = OtherProperty 1, ItemFlags = 0, InstanceSize = 4,
     Instance = Some [1], ValueSize = 0, Value = None \<rparr>"

theorem jack_query_then_get_witness:
  "PropertyHandler_HdmiTopoFilter KSPROPSETID_Jack KSPROPERTY_JACK_DESCRIPTION
     (jack_request \<lparr> ValueSize := 40, Value := Some [7, 7, 7, 7, 7, 7, 7, 7, 7, 7] \<rparr>)
   = Some (STATUS_SUCCESS, jack_request \<lparr> ValueSize := 40, Value := Some [36, 1, 3, 0, 6, 11, 0, 0, 1, 7] \<rparr>)"
proof -
  have "jack_protocol (PropertyHandler_HdmiTopoFilter KSPROPSETID_Jack KSPROPERTY_JACK_DESCRIPTION)
      (Some [36, 1, 3, 0, 6, 11, 0, 0, 1]) jack_request"
    using jack_query_then_get [of jack_request 1 KSPROPERTY_JACK_DESCRIPTION] by (simp add: jack_request_def)
  from jack_protocol_get [OF this, of "[7, 7, 7, 7, 7, 7, 7, 7, 7]" 40 "[7]"]
  show ?thesis by (simp add: jack_request_def)
qed

section \<open>Every request is handled\<close>

definition jack_handled :: "prop_request \<Rightarrow> (NTSTATUS \<times> prop_request) option \<Rightarrow> bool" where
  "jack_handled r out = (case out of None \<Rightarrow> False | Some (st, r') \<Rightarrow>
     map_option length (Value r') = map_option length (Value r) \<and> Instance r' = Instance r
     \<and> (st \<noteq> STATUS_BUFFER_OVERFLOW \<longrightarrow> ValueSize r' \<le> ValueSize r)
     \<and> (NT_SUCCESS st \<longrightarrow> has_flag (Verb r) (KSPROPERTY_TYPE_BASICSUPPORT OR KSPROPERTY_TYPE_GET)))"

lemma flag_or: "has_flag v f \<Longrightarrow> has_flag v (f OR g)" "has_flag v g \<Longrightarrow> has_flag v (f OR g)"
  by (auto simp: has_flag_def bit.conj_disj_distrib word_bw_lcs or_eq_0_iff)

lemma jack_value_handled:
  assumes "buffer_ok (ValueSize r) (Value r)" and "length slots \<le> 24"
  shows "jack_handled r (jack_value slots r)"
proof (cases "has_flag (Verb r) KSPROPERTY_TYPE_BASICSUPPORT")
  case True
  obtain st r' where r': "PropertyHandler_BasicSupport r (KSPROPERTY_TYPE_BASICSUPPORT OR KSPROPERTY_TYPE_GET) VT_ILLEGAL
       = Some (st, r')" "ValueSize r' \<le> ValueSize r"
    using basic_support_total [OF assms(1)] by blast
  have "map_option length (Value r') = map_option length (Value r)" "Instance r' = Instance r"
    using r'(1) write_value_length
    by (auto simp: PropertyHandler_BasicSupport_def split: if_split_asm Option.bind_splits)
  then show ?thesis using True r' flag_or(1) by (simp add: jack_value_def jack_handled_def)
next
  case False
  have n: "unat (of_nat (4 * length slots) :: ULONG) = 4 * length slots"
    using assms(2) by (intro unat_of_nat_ULONG) simp
  show ?thesis
  proof (cases "ValueSize r = 0 \<or> ValueSize r < of_nat (4 * length slots)")
    case True
    then show ?thesis using False by (auto simp: jack_value_def jack_handled_def Let_def)
  next
    case big: False
    then have "4 * length slots \<le> unat (ValueSize r)" using n by (simp add: unat_less_iff del: of_nat_mult)
    then have "length slots \<le> unat (ValueSize r) div 4" by simp
    moreover obtain b where "Value r = Some b" "length b = unat (ValueSize r) div 4"
      using assms(1) big by (auto simp: buffer_ok_def split: option.splits)
    ultimately show ?thesis using False big flag_or(2)
      by (auto simp: jack_value_def jack_handled_def Let_def write_value_eq simp del: of_nat_mult)
  qed
qed

lemma filter_short: "\<not> 4 \<le> InstanceSize r \<Longrightarrow>
    PropertyHandler_HdmiTopoFilter KSPROPSETID_Jack prop r = Some (STATUS_INVALID_DEVICE_REQUEST, r)
    \<and> PropertyHandler_MicInTopoFilter KSPROPSETID_Jack prop r = Some (STATUS_INVALID_DEVICE_REQUEST, r)"
  by (simp add: PropertyHandler_HdmiTopoFilter_def PropertyHandler_MicInTopoFilter_def hdmi_PropertyHandlerJackDescription_def
      hdmi_PropertyHandlerJackDescription2_def PropertyHandlerJackSinkInfo_def PropertyHandler_MicInJackDescription_def
      PropertyHandler_MicInJackDescription2_def jack_of_pin_def)

lemma refused_handled [simp]: "jack_handled r (Some (STATUS_INVALID_DEVICE_REQUEST, r))"
  by (simp add: jack_handled_def)

lemma reply_handled:
  assumes "buffer_ok (ValueSize r) (Value r)" and "\<And>slots. reply = Some slots \<Longrightarrow> length slots \<le> 24"
  shows "jack_handled r (reply_or_refuse reply r)"
  using jack_value_handled [OF assms(1)] assms(2) by (cases reply) (simp_all add: reply_or_refuse_def)

text \<open>
  C30. The jack filters handle every well-formed request, for every property set, property, verb and
  pin: no access outside the value or instance buffer, the buffers keep their lengths, an answer
  never claims more bytes than the buffer has except to a size query, and only GET and
  basic-support requests succeed.
\<close>

theorem jack_filters_safe:
  assumes "req_ok r"
  shows "jack_handled r (PropertyHandler_HdmiTopoFilter set_id prop r)
     \<and> jack_handled r (PropertyHandler_MicInTopoFilter set_id prop r)"
proof (cases "set_id = KSPROPSETID_Jack \<and> 4 \<le> InstanceSize r")
  case True
  have v: "buffer_ok (ValueSize r) (Value r)" and i: "buffer_ok (InstanceSize r) (Instance r)"
    using assms by (simp_all add: req_ok_def)
  obtain pin where "deref (Instance r) = Some pin" using buffer_ok_Some [OF i] True by auto
  then show ?thesis
    using True reply_handled [OF v] reply_lengths
    by (simp add: hdmi_filter_reply [of r pin] micin_filter_reply [of r pin])
next
  case False
  show ?thesis
  proof (cases "set_id = KSPROPSETID_Jack")
    case True
    then show ?thesis using False filter_short by simp
  next
    case other: False
    then show ?thesis by (simp add: PropertyHandler_HdmiTopoFilter_def PropertyHandler_MicInTopoFilter_def)
  qed
qed

theorem jack_filters_safe_witness:
  "jack_handled jack_request (PropertyHandler_HdmiTopoFilter KSPROPSETID_Jack KSPROPERTY_JACK_SINK_INFO jack_request)"
  using jack_filters_safe [of jack_request KSPROPSETID_Jack KSPROPERTY_JACK_SINK_INFO]
  by (simp add: jack_request_def req_ok_def buffer_ok_def)

section \<open>Life of the HDMI miniport\<close>

text \<open>A client: it asks for interfaces and releases each one it was given, then its own reference.\<close>

fun use_hdmi :: "topo_iid list \<Rightarrow> 'f CHdmiMiniportTopology \<Rightarrow> nat \<times> 'f CHdmiMiniportTopology" where
  "use_hdmi [] o1 = (0, o1)"
| "use_hdmi (i # is) o1 =
     (case hdmi_NonDelegatingQueryInterface i o1 of (st, p, o2) \<Rightarrow>
        (case use_hdmi is o2 of (n, o3) \<Rightarrow> (if p = None then n else Suc n, o3)))"

fun release_hdmi :: "nat \<Rightarrow> 'f CHdmiMiniportTopology \<times> topo_env \<Rightarrow> ('f CHdmiMiniportTopology option \<times> topo_env) option" where
  "release_hdmi 0 s = Some (Some (fst s), snd s)"
| "release_hdmi (Suc n) s = do {
     (o1, e) \<leftarrow> hdmi_Release s;
     (case o1 of None \<Rightarrow> if n = 0 then Some (None, e) else None | Some o2 \<Rightarrow> release_hdmi n (o2, e)) }"

lemma use_hdmi_eq: "use_hdmi is o1 =
    (let n = length (filter (\<lambda>i. i \<noteq> OtherInterface) is) in (n, o1 \<lparr> m_lRefCount := m_lRefCount o1 + n \<rparr>))"
proof (induction "is" arbitrary: o1)
  case (Cons i "is")
  show ?case by (cases i) (simp_all add: hdmi_NonDelegatingQueryInterface_def Cons Let_def)
qed simp

lemma release_hdmi_eq: "m_lRefCount o1 = Suc n \<Longrightarrow> release_hdmi (Suc n) (o1, e) = Some (None, topo_dtor (base_topo o1) e)"
  by (induction n arbitrary: o1) (simp_all add: hdmi_Release_def)

lemma topo_life:
  "topo_Init adapter_qi port_qi (topo_ctor f n) e = (st, t, e') \<Longrightarrow> topo_dtor t e' = e \<lparr> Mixer := Mixer e' \<rparr>"
  by (cases e) (auto simp: topo_Init_def topo_ctor_def topo_dtor_def release_adapter_def release_port_def Let_def
      split: if_splits)

text \<open>
  C31. An HDMI topology miniport lives exactly as long as its references: created, initialised with
  any outcome, queried for any sequence of interfaces, it survives until the interfaces handed out
  and the creating reference are released, and its destruction returns the references on adapter
  and port events.
\<close>

theorem hdmi_lifetime_balanced:
  "case CreateHdmiMiniportTopology alloc f n of
     (st, None) \<Rightarrow> \<not> alloc \<and> st = STATUS_INSUFFICIENT_RESOURCES
   | (st, Some o1) \<Rightarrow> alloc \<and>
       (case hdmi_Init adapter_qi port_qi (o1, e) of (st1, o2, e1) \<Rightarrow>
          (case use_hdmi is o2 of (k, o3) \<Rightarrow>
             k = length (filter (\<lambda>i. i \<noteq> OtherInterface) is)
             \<and> release_hdmi (k + 1) (o3, e1) = Some (None, e \<lparr> Mixer := Mixer e1 \<rparr>)))"
proof (cases alloc)
  case True
  obtain st t e1 where i: "topo_Init adapter_qi port_qi (topo_ctor f n) e = (st, t, e1)"
    by (cases "topo_Init adapter_qi port_qi (topo_ctor f n) e")
  let ?k = "length (filter (\<lambda>i. i \<noteq> OtherInterface) is)"
  have "release_hdmi (Suc ?k) (\<lparr> base_topo = t, m_lRefCount = Suc ?k \<rparr>, e1) = Some (None, topo_dtor t e1)"
    by (subst release_hdmi_eq) simp_all
  then show ?thesis using True topo_life [OF i]
    by (simp add: CreateHdmiMiniportTopology_def hdmi_Init_def i use_hdmi_eq Let_def del: release_hdmi.simps)
qed (simp add: CreateHdmiMiniportTopology_def)

end
