(* ===== verification/FilterTypes.thy ===== *)
theory FilterTypes
  imports JackTopology
begin

text \<open>
  The types of the static tables of the driver (common.h, sysvad.h and the kernel streaming headers):
  formats, data ranges, pins, nodes, connections, properties, filters. A table is a list. A pointer to
  an entry of a table is the table with an index; a pointer to a table with its count is the list with
  the count. Identifiers that the code compares only for equality (GUIDs, names) are datatypes.

  The predicates say when tables are well formed: counts are the lengths of their arrays, pointers are
  inside their tables, connections run along the graph of the filter, an attribute list follows exactly
  the ranges that announce one, a format is consistent with itself and inside a range of its pin.
\<close>

named_theorems table_consts
named_theorems table_rows
named_theorems filter_defs

section \<open>Formats\<close>

datatype ks_type = TYPE_AUDIO
datatype ks_subtype = SUBTYPE_PCM | SUBTYPE_ANALOG | SUBTYPE_IEC61937_DOLBY_DIGITAL
  | SUBTYPE_IEC61937_DOLBY_MLP | SUBTYPE_IEC61937_DOLBY_MAT20 | SUBTYPE_IEC61937_DOLBY_MAT21
  | SUBTYPE_IEC61937_DTS | SUBTYPE_IEC61937_DTS_HD | SUBTYPE_IEC61937_DTSX_E1
  | SUBTYPE_IEC61937_DTSX_E2
datatype ks_specifier = SPECIFIER_WAVEFORMATEX | SPECIFIER_NONE

text \<open>KSDATAFORMAT and KSDATARANGE are the same structure.\<close>

record DATAFORMAT =
  FormatSize :: nat
  FormatFlags :: nat
  SampleSize :: nat
  FormatReserved :: nat
  FormatType :: ks_type
  SubFormat :: ks_subtype
  FormatSpecifier :: ks_specifier

type_synonym KSDATARANGE = DATAFORMAT

record WAVEFORMATEX =
  wFormatTag :: nat
  nChannels :: nat
  nSamplesPerSec :: nat
  nAvgBytesPerSec :: nat
  nBlockAlign :: nat
  wBitsPerSample :: nat
  cbSize :: nat

record WAVEFORMATEXTENSIBLE =
  WaveFormat :: WAVEFORMATEX
  wValidBitsPerSample :: nat
  dwChannelMask :: nat
  WaveSubFormat :: ks_subtype

record KSDATAFORMAT_WAVEFORMATEXTENSIBLE =
  DataFormat :: DATAFORMAT
  WaveFormatExt :: WAVEFORMATEXTENSIBLE

record KSDATARANGE_AUDIO =
  DataRange :: KSDATARANGE
  MaximumChannels :: nat
  MinimumBitsPerSample :: nat
  MaximumBitsPerSample :: nat
  MinimumSampleFrequency :: nat
  MaximumSampleFrequency :: nat

definition sizeof_KSDATARANGE :: nat where [table_consts]: "sizeof_KSDATARANGE = 64"
definition sizeof_KSDATARANGE_AUDIO :: nat where [table_consts]: "sizeof_KSDATARANGE_AUDIO = 88"
definition sizeof_WAVEFORMATEX :: nat where [table_consts]: "sizeof_WAVEFORMATEX = 18"
definition sizeof_WAVEFORMATEXTENSIBLE :: nat where [table_consts]: "sizeof_WAVEFORMATEXTENSIBLE = 40"
definition sizeof_KSDATAFORMAT_WAVEFORMATEXTENSIBLE :: nat where [table_consts]: "sizeof_KSDATAFORMAT_WAVEFORMATEXTENSIBLE = 104"

definition WAVE_FORMAT_EXTENSIBLE :: nat where [table_consts]: "WAVE_FORMAT_EXTENSIBLE = 0xFFFE"
definition KSDATARANGE_ATTRIBUTES :: nat where [table_consts]: "KSDATARANGE_ATTRIBUTES = 2"
definition SPEAKER_DIRECTOUT :: nat where [table_consts]: "SPEAKER_DIRECTOUT = 0"
definition SPEAKER_MONO :: nat where [table_consts]: "SPEAKER_MONO = 0x4"
definition SPEAKER_STEREO :: nat where [table_consts]: "SPEAKER_STEREO = 0x3"
definition SPEAKER_5POINT1_SURROUND :: nat where [table_consts]: "SPEAKER_5POINT1_SURROUND = 0x60F"
definition SPEAKER_7POINT1 :: nat where [table_consts]: "SPEAKER_7POINT1 = 0xFF"
definition SPEAKER_7POINT1_SURROUND :: nat where [table_consts]: "SPEAKER_7POINT1_SURROUND = 0x63F"

section \<open>Modes and pins\<close>

datatype signal_mode = SIGNALPROCESSINGMODE_DEFAULT | SIGNALPROCESSINGMODE_RAW
  | SIGNALPROCESSINGMODE_SPEECH | SIGNALPROCESSINGMODE_COMMUNICATIONS
  | SIGNALPROCESSINGMODE_MOVIE | SIGNALPROCESSINGMODE_FAR_FIELD_SPEECH

type_synonym 'a entry = "'a list \<times> nat"

record MODE_AND_DEFAULT_FORMAT =
  Mode :: signal_mode
  DefaultFormat :: "KSDATAFORMAT_WAVEFORMATEXTENSIBLE entry option"

datatype PINTYPE = NoPin | BridgePin | SystemRenderPin | OffloadRenderPin | RenderLoopbackPin | SystemCapturePin
  | KeywordCapturePin | TelephonyBidiPin

record PIN_DEVICE_FORMATS_AND_MODES =
  PinType :: PINTYPE
  WaveFormats :: "KSDATAFORMAT_WAVEFORMATEXTENSIBLE list option"
  WaveFormatsCount :: nat
  ModeAndDefaultFormat :: "MODE_AND_DEFAULT_FORMAT list option"
  ModeAndDefaultFormatCount :: nat

text \<open>An array of data range pointers mixes ranges with attribute lists.\<close>

datatype PKSDATARANGE = AudioRange "KSDATARANGE_AUDIO entry" | PlainRange "KSDATARANGE entry" | PinDataRangeAttributeList

datatype KSPIN_DATAFLOW = KSPIN_DATAFLOW_IN | KSPIN_DATAFLOW_OUT
datatype KSPIN_COMMUNICATION = KSPIN_COMMUNICATION_NONE | KSPIN_COMMUNICATION_SINK

datatype ks_category = KSCATEGORY_AUDIO | KSNODETYPE_AUDIO_LOOPBACK | KSNODETYPE_HDMI_INTERFACE | KSNODETYPE_SPDIF_INTERFACE
  | KSNODETYPE_MICROPHONE | KSNODETYPE_MICROPHONE_ARRAY | KSNODETYPE_AUDIO_KEYWORDDETECTOR
datatype ks_name = KSAUDFNAME_WAVE_VOLUME | KSAUDFNAME_WAVE_MUTE | KSAUDFNAME_PEAKMETER | KSAUDFNAME_MIC_VOLUME
  | KSAUDFNAME_MIC_MUTE | KSAUDFNAME_RECORDING_CONTROL | MICIN_CUSTOM_NAME | MICARRAY2_CUSTOM_NAME | MICARRAY3_CUSTOM_NAME

section \<open>Properties and events\<close>

datatype ks_property_set = Set_Audio | Set_Jack | Set_Pin | Set_General
  | Set_AudioEffectsDiscovery | Set_SoundDetector | Set_SoundDetector2
  | Set_InterleavedAudio | Set_OffloadPin | Set_SysVAD
datatype ks_property_id = AUDIO_VOLUMELEVEL | AUDIO_MUTE | AUDIO_PEAKMETER2
  | AUDIO_CPU_RESOURCES | AUDIO_MIC_ARRAY_GEOMETRY | JACK_DESCRIPTION
  | JACK_DESCRIPTION2 | JACK_SINK_INFO | PIN_PROPOSEDATAFORMAT
  | PIN_PROPOSEDATAFORMAT2 | GENERAL_COMPONENTID | AUDIOEFFECTSDISCOVERY_EFFECTSLIST
  | SOUNDDETECTOR_SUPPORTEDPATTERNS | SOUNDDETECTOR_PATTERNS | SOUNDDETECTOR_ARMED
  | SOUNDDETECTOR_MATCHRESULT | SOUNDDETECTOR_RESET | SOUNDDETECTOR_STREAMINGSUPPORT
  | INTERLEAVEDAUDIO_FORMATINFORMATION | OFFLOAD_PIN_GET_STREAM_OBJECT_POINTER
  | OFFLOAD_PIN_VERIFY_STREAM_OBJECT_POINTER | SYSVAD_DEFAULTSTREAMEFFECTS
datatype property_handler = Handler_WaveFilter | Handler_Topology | Handler_OffloadPin
  | Handler_MicArrayTopology | Handler_MicArrayTopoFilter | Handler_HdmiTopoFilter
  | Handler_SpdifTopoFilter | Handler_MicInTopoFilter | Handler_Sysvad

record PCPROPERTY_ITEM =
  PropSet :: ks_property_set
  PropId :: ks_property_id
  PropFlags :: ULONG
  PropHandler :: property_handler

record INTERLEAVED_AUDIO_FORMAT_INFORMATION =
  InterleavedSize :: nat
  PrimaryChannelCount :: nat
  PrimaryChannelStartPosition :: nat
  PrimaryChannelMask :: nat
  InterleavedChannelCount :: nat
  InterleavedChannelStartPosition :: nat
  InterleavedChannelMask :: nat

text \<open>Handlers of the wave miniport, which is not in the repository, are given by their names.\<close>

record SYSVAD_ITEM =
  PropertyItem :: PCPROPERTY_ITEM
  ContextMinProperty :: nat
  ContextMinData :: nat
  ContextGetHandler :: "string option"
  ContextSetHandler :: "string option"
  ContextSupportHandler :: "string option"
  ContextData :: "INTERLEAVED_AUDIO_FORMAT_INFORMATION option"
  ContextDataSize :: nat

record PCEVENT_ITEM =
  EventSet :: string
  EventId :: string
  EventFlags :: ULONG
  EventHandler :: string

definition KSEVENT_TYPE_ENABLE :: ULONG where [const_defs]: "KSEVENT_TYPE_ENABLE = 1"
definition KSEVENT_TYPE_BASICSUPPORT :: ULONG where [const_defs]: "KSEVENT_TYPE_BASICSUPPORT = 0x200"

datatype PCAUTOMATION_TABLE = PropertyTable "PCPROPERTY_ITEM list" | SysvadTable "SYSVAD_ITEM list" "PCEVENT_ITEM list"

section \<open>Filters\<close>

record KSPIN_DESCRIPTOR =
  InterfacesCount :: nat
  Interfaces :: "unit option"
  MediumsCount :: nat
  Mediums :: "unit option"
  DataRangesCount :: nat
  DataRanges :: "PKSDATARANGE list"
  DataFlow :: KSPIN_DATAFLOW
  Communication :: KSPIN_COMMUNICATION
  PinCategory :: ks_category
  PinName :: "ks_name option"
  PinReserved :: nat

record PCPIN_DESCRIPTOR =
  MaxGlobalInstanceCount :: nat
  MaxFilterInstanceCount :: nat
  MinFilterInstanceCount :: nat
  PinAutomationTable :: "PCAUTOMATION_TABLE option"
  KsPinDescriptor :: KSPIN_DESCRIPTOR

datatype ks_nodetype = KSNODETYPE_SUM | KSNODETYPE_VOLUME | KSNODETYPE_MUTE | KSNODETYPE_PEAKMETER | KSNODETYPE_ADC
  | KSNODETYPE_AUDIO_ENGINE

record PCNODE_DESCRIPTOR =
  NodeFlags :: nat
  NodeAutomationTable :: "PCAUTOMATION_TABLE option"
  NodeType :: ks_nodetype
  NodeName :: "ks_name option"

record PCCONNECTION_DESCRIPTOR =
  FromNode :: nat
  FromPin :: nat
  ToNode :: nat
  ToPin :: nat

record PCFILTER_DESCRIPTOR =
  Version :: nat
  FilterAutomationTable :: PCAUTOMATION_TABLE
  PinSize :: nat
  PinCount :: nat
  FilterPins :: "PCPIN_DESCRIPTOR list"
  NodeSize :: nat
  NodeCount :: nat
  FilterNodes :: "PCNODE_DESCRIPTOR list option"
  ConnectionCount :: nat
  FilterConnections :: "PCCONNECTION_DESCRIPTOR list"
  CategoryCount :: nat
  Categories :: "unit option"

definition sizeof_INTERLEAVED_AUDIO_FORMAT_INFORMATION :: nat where [table_consts]: "sizeof_INTERLEAVED_AUDIO_FORMAT_INFORMATION = 28"
definition PCFILTER_NODE :: nat where [table_consts]: "PCFILTER_NODE = 0xFFFFFFFF"
definition sizeof_PCPIN_DESCRIPTOR :: nat where [table_consts]: "sizeof_PCPIN_DESCRIPTOR = 112"
definition sizeof_PCNODE_DESCRIPTOR :: nat where [table_consts]: "sizeof_PCNODE_DESCRIPTOR = 32"

text \<open>
  Values of headers that are not in the repository: the numbers of pins and nodes, limits of pin
  instances, sizes of structures.
\<close>

datatype ks_enum = PIN_WAVE_RENDER_SINK_SYSTEM | PIN_WAVE_RENDER_SINK_OFFLOAD | PIN_WAVE_RENDER_SINK_LOOPBACK
  | PIN_WAVE_RENDER_SOURCE | PIN_WAVE_RENDER2_SINK_SYSTEM | PIN_WAVE_RENDER2_SINK_LOOPBACK | PIN_WAVE_RENDER2_SOURCE
  | PIN_WAVE_BRIDGE | PIN_WAVEIN_HOST | PIN_WAVEIN_KEYWORD | PIN_TOPO_WAVEOUT_SOURCE | PIN_TOPO_LINEOUT_DEST
  | PIN_TOPO_MIC_ELEMENTS | PIN_TOPO_BRIDGE | NODE_WAVE_SUM | NODE_WAVE_VOLUME | NODE_WAVE_MUTE
  | NODE_WAVE_PEAKMETER | NODE_WAVE_ADC | NODE_WAVE_AUDIO_ENGINE | NODE_TOPO_VOLUME | NODE_TOPO_MUTE
  | NODE_TOPO_PEAKMETER

record headers =
  enum :: "ks_enum \<Rightarrow> nat"
  MAX_INPUT_OFFLOAD_STREAMS :: nat
  MAX_OUTPUT_LOOPBACK_STREAMS :: nat
  size_of :: "string \<Rightarrow> nat"

text \<open>
  The numbers that the C_ASSERTs of the tables, the names over the entries of the pin arrays and the
  drawings of the filters give.
\<close>

definition numbered :: "headers \<Rightarrow> bool" where
  "numbered h \<longleftrightarrow> map (enum h) [PIN_WAVE_RENDER_SINK_SYSTEM, PIN_WAVE_RENDER_SINK_OFFLOAD, PIN_WAVE_RENDER_SINK_LOOPBACK,
       PIN_WAVE_RENDER_SOURCE] = [0, 1, 2, 3]
     \<and> map (enum h) [PIN_WAVE_RENDER2_SINK_SYSTEM, PIN_WAVE_RENDER2_SINK_LOOPBACK, PIN_WAVE_RENDER2_SOURCE] = [0, 1, 2]
     \<and> map (enum h) [PIN_WAVE_BRIDGE, PIN_WAVEIN_HOST, PIN_WAVEIN_KEYWORD] = [0, 1, 2]
     \<and> map (enum h) [PIN_TOPO_WAVEOUT_SOURCE, PIN_TOPO_LINEOUT_DEST] = [0, 1]
     \<and> map (enum h) [PIN_TOPO_MIC_ELEMENTS, PIN_TOPO_BRIDGE] = [0, 1]
     \<and> map (enum h) [NODE_WAVE_SUM, NODE_WAVE_VOLUME, NODE_WAVE_MUTE, NODE_WAVE_PEAKMETER] = [0, 1, 2, 3]
     \<and> enum h NODE_WAVE_ADC = 0 \<and> enum h NODE_WAVE_AUDIO_ENGINE = 0
     \<and> map (enum h) [NODE_TOPO_VOLUME, NODE_TOPO_MUTE, NODE_TOPO_PEAKMETER] = [0, 1, 2]
     \<and> 0 < MAX_INPUT_OFFLOAD_STREAMS h \<and> 0 < MAX_OUTPUT_LOOPBACK_STREAMS h"

lemma numbered_enum:
  assumes "numbered h"
  shows "enum h PIN_WAVE_RENDER_SINK_SYSTEM = 0" "enum h PIN_WAVE_RENDER_SINK_OFFLOAD = 1" "enum h PIN_WAVE_RENDER_SINK_LOOPBACK = 2"
    "enum h PIN_WAVE_RENDER_SOURCE = 3" "enum h PIN_WAVE_RENDER2_SINK_SYSTEM = 0" "enum h PIN_WAVE_RENDER2_SINK_LOOPBACK = 1"
    "enum h PIN_WAVE_RENDER2_SOURCE = 2" "enum h PIN_WAVE_BRIDGE = 0" "enum h PIN_WAVEIN_HOST = 1" "enum h PIN_WAVEIN_KEYWORD = 2"
    "enum h PIN_TOPO_WAVEOUT_SOURCE = 0" "enum h PIN_TOPO_LINEOUT_DEST = 1" "enum h PIN_TOPO_MIC_ELEMENTS = 0"
    "enum h PIN_TOPO_BRIDGE = 1" "enum h NODE_WAVE_SUM = 0" "enum h NODE_WAVE_VOLUME = 1" "enum h NODE_WAVE_MUTE = 2"
    "enum h NODE_WAVE_PEAKMETER = 3" "enum h NODE_WAVE_ADC = 0" "enum h NODE_WAVE_AUDIO_ENGINE = 0" "enum h NODE_TOPO_VOLUME = 0"
    "enum h NODE_TOPO_MUTE = 1" "enum h NODE_TOPO_PEAKMETER = 2"
    "0 < MAX_INPUT_OFFLOAD_STREAMS h" "0 < MAX_OUTPUT_LOOPBACK_STREAMS h"
  using assms by (simp_all add: numbered_def)

section \<open>Well-formed formats and ranges\<close>

fun speakers :: "nat \<Rightarrow> nat" where
  "speakers m = (if m = 0 then 0 else m mod 2 + speakers (m div 2))"

declare speakers.simps [simp del]

definition format_ok :: "KSDATAFORMAT_WAVEFORMATEXTENSIBLE \<Rightarrow> bool" where
  "format_ok f \<longleftrightarrow> (let d = DataFormat f; x = WaveFormatExt f; w = WaveFormat x in
     FormatSize d = sizeof_KSDATAFORMAT_WAVEFORMATEXTENSIBLE \<and> FormatSpecifier d = SPECIFIER_WAVEFORMATEX
     \<and> WaveSubFormat x = SubFormat d \<and> wFormatTag w = WAVE_FORMAT_EXTENSIBLE
     \<and> cbSize w = sizeof_WAVEFORMATEXTENSIBLE - sizeof_WAVEFORMATEX
     \<and> 0 < nChannels w \<and> 8 * nBlockAlign w = nChannels w * wBitsPerSample w
     \<and> nAvgBytesPerSec w = nBlockAlign w * nSamplesPerSec w \<and> wValidBitsPerSample x \<le> wBitsPerSample w
     \<and> (SubFormat d = SUBTYPE_PCM \<longrightarrow> dwChannelMask x = 0 \<or> speakers (dwChannelMask x) = nChannels w))"

definition audio_range_ok :: "KSDATARANGE_AUDIO \<Rightarrow> bool" where
  "audio_range_ok r \<longleftrightarrow> FormatSize (DataRange r) = sizeof_KSDATARANGE_AUDIO
     \<and> FormatSpecifier (DataRange r) = SPECIFIER_WAVEFORMATEX \<and> 0 < MaximumChannels r
     \<and> MinimumBitsPerSample r \<le> MaximumBitsPerSample r \<and> MinimumSampleFrequency r \<le> MaximumSampleFrequency r"

definition plain_range_ok :: "KSDATARANGE \<Rightarrow> bool" where
  "plain_range_ok r \<longleftrightarrow> FormatSize r = sizeof_KSDATARANGE \<and> FormatFlags r = 0 \<and> FormatSpecifier r = SPECIFIER_NONE"

definition inside :: "'a entry \<Rightarrow> bool" where "inside e \<longleftrightarrow> snd e < length (fst e)"
definition entry_of :: "'a entry \<Rightarrow> 'a" where "entry_of e = fst e ! snd e"

text \<open>An attribute list stands exactly behind the ranges that announce one.\<close>

fun ranges_ok :: "PKSDATARANGE list \<Rightarrow> bool" where
  "ranges_ok [] = True"
| "ranges_ok (PinDataRangeAttributeList # ps) = False"
| "ranges_ok (PlainRange e # ps) = (inside e \<and> plain_range_ok (entry_of e) \<and> ranges_ok ps)"
| "ranges_ok (AudioRange e # PinDataRangeAttributeList # ps) =
     (inside e \<and> audio_range_ok (entry_of e) \<and> FormatFlags (DataRange (entry_of e)) = KSDATARANGE_ATTRIBUTES \<and> ranges_ok ps)"
| "ranges_ok (AudioRange e # ps) =
     (inside e \<and> audio_range_ok (entry_of e) \<and> FormatFlags (DataRange (entry_of e)) = 0 \<and> ranges_ok ps)"

fun audio_ranges :: "PKSDATARANGE list \<Rightarrow> KSDATARANGE_AUDIO list" where
  "audio_ranges [] = []"
| "audio_ranges (AudioRange e # ps) = entry_of e # audio_ranges ps"
| "audio_ranges (p # ps) = audio_ranges ps"

fun plain_ranges :: "PKSDATARANGE list \<Rightarrow> KSDATARANGE list" where
  "plain_ranges [] = []"
| "plain_ranges (PlainRange e # ps) = entry_of e # plain_ranges ps"
| "plain_ranges (p # ps) = plain_ranges ps"

definition in_range :: "KSDATAFORMAT_WAVEFORMATEXTENSIBLE \<Rightarrow> KSDATARANGE_AUDIO \<Rightarrow> bool" where
  "in_range f r \<longleftrightarrow> (let w = WaveFormat (WaveFormatExt f) in
     SubFormat (DataFormat f) = SubFormat (DataRange r) \<and> nChannels w \<le> MaximumChannels r
     \<and> MinimumBitsPerSample r \<le> wBitsPerSample w \<and> wBitsPerSample w \<le> MaximumBitsPerSample r
     \<and> MinimumSampleFrequency r \<le> nSamplesPerSec w \<and> nSamplesPerSec w \<le> MaximumSampleFrequency r)"

section \<open>Well-formed filters\<close>

definition flags_ok :: "ULONG \<Rightarrow> bool" where
  "flags_ok f \<longleftrightarrow> has_flag f KSPROPERTY_TYPE_BASICSUPPORT \<and> (has_flag f KSPROPERTY_TYPE_GET \<or> has_flag f KSPROPERTY_TYPE_SET)"

definition item_id :: "PCPROPERTY_ITEM \<Rightarrow> ks_property_set \<times> ks_property_id" where
  "item_id i = (PropSet i, PropId i)"

text \<open>An item that is dispatched by SysvadPropertyDispatch has the handlers its flags promise, the others have none.\<close>

definition sysvad_item_ok :: "SYSVAD_ITEM \<Rightarrow> bool" where
  "sysvad_item_ok i \<longleftrightarrow> flags_ok (PropFlags (PropertyItem i)) \<and> (ContextData i = None \<longleftrightarrow> ContextDataSize i = 0)
     \<and> (if PropHandler (PropertyItem i) = Handler_Sysvad
        then (ContextGetHandler i \<noteq> None \<longleftrightarrow> has_flag (PropFlags (PropertyItem i)) KSPROPERTY_TYPE_GET)
           \<and> (ContextSetHandler i \<noteq> None \<longleftrightarrow> has_flag (PropFlags (PropertyItem i)) KSPROPERTY_TYPE_SET)
        else ContextGetHandler i = None \<and> ContextSetHandler i = None \<and> ContextMinProperty i = 0 \<and> ContextMinData i = 0)"

fun automation_ok :: "PCAUTOMATION_TABLE \<Rightarrow> bool" where
  "automation_ok (PropertyTable is) = (distinct (map item_id is) \<and> list_all (\<lambda>i. flags_ok (PropFlags i) \<and> PropHandler i \<noteq> Handler_Sysvad) is)"
| "automation_ok (SysvadTable is es) = (distinct (map (item_id \<circ> PropertyItem) is) \<and> list_all sysvad_item_ok is
     \<and> distinct (map (\<lambda>e. (EventSet e, EventId e)) es))"

definition pin_ok :: "PCPIN_DESCRIPTOR \<Rightarrow> bool" where
  "pin_ok p \<longleftrightarrow> (let d = KsPinDescriptor p in
     InterfacesCount d = 0 \<and> MediumsCount d = 0 \<and> PinReserved d = 0
     \<and> DataRangesCount d = length (DataRanges d) \<and> DataRanges d \<noteq> [] \<and> ranges_ok (DataRanges d)
     \<and> pred_option automation_ok (PinAutomationTable p)
     \<and> MinFilterInstanceCount p \<le> MaxFilterInstanceCount p \<and> MaxFilterInstanceCount p \<le> MaxGlobalInstanceCount p
     \<and> (if Communication d = KSPIN_COMMUNICATION_NONE
        then MaxGlobalInstanceCount p = 0 \<and> audio_ranges (DataRanges d) = []
        else 0 < MaxFilterInstanceCount p \<and> plain_ranges (DataRanges d) = []))"

definition node_ok :: "PCNODE_DESCRIPTOR \<Rightarrow> bool" where
  "node_ok n \<longleftrightarrow> NodeFlags n = 0 \<and> pred_option automation_ok (NodeAutomationTable n)"

definition flow_of :: "PCPIN_DESCRIPTOR \<Rightarrow> KSPIN_DATAFLOW" where "flow_of p = DataFlow (KsPinDescriptor p)"

text \<open>
  A connection leaves an existing pin into which data flows or an output of an existing node, and
  enters a pin out of which data flows or an input of a node; nodes are numbered along the flow.
\<close>

definition connection_ok :: "KSPIN_DATAFLOW list \<Rightarrow> nat \<Rightarrow> PCCONNECTION_DESCRIPTOR \<Rightarrow> bool" where
  "connection_ok flows nodes c \<longleftrightarrow>
     (if FromNode c = PCFILTER_NODE then FromPin c < length flows \<and> flows ! FromPin c = KSPIN_DATAFLOW_IN
      else FromNode c < nodes \<and> FromPin c \<noteq> 1)
     \<and> (if ToNode c = PCFILTER_NODE then ToPin c < length flows \<and> flows ! ToPin c = KSPIN_DATAFLOW_OUT
        else ToNode c < nodes \<and> 0 < ToPin c)
     \<and> (FromNode c \<noteq> PCFILTER_NODE \<longrightarrow> ToNode c \<noteq> PCFILTER_NODE \<longrightarrow> FromNode c < ToNode c)"

definition connections_ok :: "KSPIN_DATAFLOW list \<Rightarrow> nat \<Rightarrow> PCCONNECTION_DESCRIPTOR list \<Rightarrow> bool" where
  "connections_ok flows nodes cs \<longleftrightarrow> list_all (connection_ok flows nodes) cs \<and> distinct cs
     \<and> list_all (\<lambda>n. list_ex (\<lambda>c. FromNode c = n) cs \<and> list_ex (\<lambda>c. ToNode c = n) cs) [0..<nodes]
     \<and> list_all (\<lambda>p. list_ex (\<lambda>c. FromNode c = PCFILTER_NODE \<and> FromPin c = p \<or> ToNode c = PCFILTER_NODE \<and> ToPin c = p) cs)
         [0..<length flows]"

definition nodes_of :: "PCFILTER_DESCRIPTOR \<Rightarrow> PCNODE_DESCRIPTOR list" where
  "nodes_of f = (case FilterNodes f of None \<Rightarrow> [] | Some ns \<Rightarrow> ns)"

definition filter_ok :: "PCFILTER_DESCRIPTOR \<Rightarrow> bool" where
  "filter_ok f \<longleftrightarrow> Version f = 0 \<and> PinSize f = sizeof_PCPIN_DESCRIPTOR \<and> PinCount f = length (FilterPins f)
     \<and> NodeSize f = sizeof_PCNODE_DESCRIPTOR \<and> NodeCount f = length (nodes_of f) \<and> NodeCount f < PCFILTER_NODE
     \<and> ConnectionCount f = length (FilterConnections f) \<and> CategoryCount f = 0 \<and> Categories f = None
     \<and> automation_ok (FilterAutomationTable f) \<and> list_all pin_ok (FilterPins f) \<and> list_all node_ok (nodes_of f)
     \<and> connections_ok (map flow_of (FilterPins f)) (length (nodes_of f)) (FilterConnections f)"

text \<open>What the properties below compute with: the constructors of the rows, the numbers, one bit of a mask.\<close>

lemmas makes = DATAFORMAT.defs WAVEFORMATEX.defs WAVEFORMATEXTENSIBLE.defs KSDATAFORMAT_WAVEFORMATEXTENSIBLE.defs
  KSDATARANGE_AUDIO.defs MODE_AND_DEFAULT_FORMAT.defs PIN_DEVICE_FORMATS_AND_MODES.defs PCPROPERTY_ITEM.defs SYSVAD_ITEM.defs
  PCEVENT_ITEM.defs INTERLEAVED_AUDIO_FORMAT_INFORMATION.defs KSPIN_DESCRIPTOR.defs PCPIN_DESCRIPTOR.defs PCNODE_DESCRIPTOR.defs
  PCCONNECTION_DESCRIPTOR.defs PCFILTER_DESCRIPTOR.defs

lemma speakers_eval: "speakers 0 = 0" "0 < m \<Longrightarrow> speakers m = m mod 2 + speakers (m div 2)"
  by (simp_all add: speakers.simps)

end
