(* ===== verification/HdmiTables.thy ===== *)
theory HdmiTables
  imports FilterTypes
begin

text \<open>
  hdmiwavtable.h and hdmitoptable.h: formats, modes, data ranges, pins, nodes, connections, properties
  and filters of the HDMI endpoint, row by row. A table of more than 150 lines is given in parts.
  \<open>h\<close> are the values of headers that are not in the repository; the jack descriptions are in
  JackTopology.
\<close>

unbundle bit_operations_syntax

section \<open>hdmiwavtable.h\<close>

definition HDMI_DEVICE_MAX_CHANNELS :: nat where [table_consts]: "HDMI_DEVICE_MAX_CHANNELS = 2"
definition HDMI_HOST_MAX_CHANNELS :: nat where [table_consts]: "HDMI_HOST_MAX_CHANNELS = 2"
definition HDMI_HOST_MIN_BITS_PER_SAMPLE :: nat where [table_consts]: "HDMI_HOST_MIN_BITS_PER_SAMPLE = 16"
definition HDMI_HOST_MAX_BITS_PER_SAMPLE :: nat where [table_consts]: "HDMI_HOST_MAX_BITS_PER_SAMPLE = 16"
definition HDMI_HOST_MIN_SAMPLE_RATE :: nat where [table_consts]: "HDMI_HOST_MIN_SAMPLE_RATE = 44100"
definition HDMI_HOST_MAX_SAMPLE_RATE :: nat where [table_consts]: "HDMI_HOST_MAX_SAMPLE_RATE = 96000"
definition HDMI_LOOPBACK_MAX_CHANNELS :: nat where [table_consts]: "HDMI_LOOPBACK_MAX_CHANNELS = HDMI_HOST_MAX_CHANNELS"
definition HDMI_LOOPBACK_MIN_BITS_PER_SAMPLE :: nat where [table_consts]: "HDMI_LOOPBACK_MIN_BITS_PER_SAMPLE =
  HDMI_HOST_MIN_BITS_PER_SAMPLE"
definition HDMI_LOOPBACK_MAX_BITS_PER_SAMPLE :: nat where [table_consts]: "HDMI_LOOPBACK_MAX_BITS_PER_SAMPLE =
  HDMI_HOST_MAX_BITS_PER_SAMPLE"
definition HDMI_LOOPBACK_MIN_SAMPLE_RATE :: nat where [table_consts]: "HDMI_LOOPBACK_MIN_SAMPLE_RATE =
  HDMI_HOST_MIN_SAMPLE_RATE"
definition HDMI_LOOPBACK_MAX_SAMPLE_RATE :: nat where [table_consts]: "HDMI_LOOPBACK_MAX_SAMPLE_RATE =
  HDMI_HOST_MAX_SAMPLE_RATE"
definition HDMI_DOLBY_DIGITAL_MAX_CHANNELS :: nat where [table_consts]: "HDMI_DOLBY_DIGITAL_MAX_CHANNELS = 2"
definition HDMI_DOLBY_DIGITAL_MIN_BITS_PER_SAMPLE :: nat where [table_consts]: "HDMI_DOLBY_DIGITAL_MIN_BITS_PER_SAMPLE = 16"
definition HDMI_DOLBY_DIGITAL_MAX_BITS_PER_SAMPLE :: nat where [table_consts]: "HDMI_DOLBY_DIGITAL_MAX_BITS_PER_SAMPLE = 16"
definition HDMI_DOLBY_DIGITAL_MIN_SAMPLE_RATE :: nat where [table_consts]: "HDMI_DOLBY_DIGITAL_MIN_SAMPLE_RATE = 44100"
definition HDMI_DOLBY_DIGITAL_MAX_SAMPLE_RATE :: nat where [table_consts]: "HDMI_DOLBY_DIGITAL_MAX_SAMPLE_RATE = 48000"
definition HDMI_DOLBY_MAT_MAX_CHANNELS :: nat where [table_consts]: "HDMI_DOLBY_MAT_MAX_CHANNELS = 8"
definition HDMI_DOLBY_MAT_MIN_BITS_PER_SAMPLE :: nat where [table_consts]: "HDMI_DOLBY_MAT_MIN_BITS_PER_SAMPLE = 16"
definition HDMI_DOLBY_MAT_MAX_BITS_PER_SAMPLE :: nat where [table_consts]: "HDMI_DOLBY_MAT_MAX_BITS_PER_SAMPLE = 16"
definition HDMI_DOLBY_MAT_MIN_SAMPLE_RATE :: nat where [table_consts]: "HDMI_DOLBY_MAT_MIN_SAMPLE_RATE = 192000"
definition HDMI_DOLBY_MAT_MAX_SAMPLE_RATE :: nat where [table_consts]: "HDMI_DOLBY_MAT_MAX_SAMPLE_RATE = 192000"
definition HDMI_DTS_MAX_CHANNELS :: nat where [table_consts]: "HDMI_DTS_MAX_CHANNELS = 2"
definition HDMI_DTS_MIN_BITS_PER_SAMPLE :: nat where [table_consts]: "HDMI_DTS_MIN_BITS_PER_SAMPLE = 16"
definition HDMI_DTS_MAX_BITS_PER_SAMPLE :: nat where [table_consts]: "HDMI_DTS_MAX_BITS_PER_SAMPLE = 16"
definition HDMI_DTS_MIN_SAMPLE_RATE :: nat where [table_consts]: "HDMI_DTS_MIN_SAMPLE_RATE = 48000"
definition HDMI_DTS_MAX_SAMPLE_RATE :: nat where [table_consts]: "HDMI_DTS_MAX_SAMPLE_RATE = 48000"
definition HDMI_DTS_HD_MAX_CHANNELS :: nat where [table_consts]: "HDMI_DTS_HD_MAX_CHANNELS = 8"
definition HDMI_DTS_HD_MIN_BITS_PER_SAMPLE :: nat where [table_consts]: "HDMI_DTS_HD_MIN_BITS_PER_SAMPLE = 16"
definition HDMI_DTS_HD_MAX_BITS_PER_SAMPLE :: nat where [table_consts]: "HDMI_DTS_HD_MAX_BITS_PER_SAMPLE = 16"
definition HDMI_DTS_HD_MIN_SAMPLE_RATE :: nat where [table_consts]: "HDMI_DTS_HD_MIN_SAMPLE_RATE = 192000"
definition HDMI_DTS_HD_MAX_SAMPLE_RATE :: nat where [table_consts]: "HDMI_DTS_HD_MAX_SAMPLE_RATE = 192000"
definition HDMI_MAX_INPUT_SYSTEM_STREAMS :: nat where [table_consts]: "HDMI_MAX_INPUT_SYSTEM_STREAMS = 2"
definition HDMI_MAX_OUTPUT_LOOPBACK_STREAMS :: "headers \<Rightarrow> nat" where [table_consts]:
  "HDMI_MAX_OUTPUT_LOOPBACK_STREAMS h = MAX_OUTPUT_LOOPBACK_STREAMS h"

definition HdmiHostPinSupportedDeviceFormats_1 :: "KSDATAFORMAT_WAVEFORMATEXTENSIBLE list" where [table_rows]:
  "HdmiHostPinSupportedDeviceFormats_1 = [
    KSDATAFORMAT_WAVEFORMATEXTENSIBLE.make
      (DATAFORMAT.make sizeof_KSDATAFORMAT_WAVEFORMATEXTENSIBLE 0 0 0 TYPE_AUDIO SUBTYPE_PCM SPECIFIER_WAVEFORMATEX)
      (WAVEFORMATEXTENSIBLE.make
        (WAVEFORMATEX.make WAVE_FORMAT_EXTENSIBLE 2 44100 176400 4 16 (sizeof_WAVEFORMATEXTENSIBLE - sizeof_WAVEFORMATEX))
          16 SPEAKER_STEREO SUBTYPE_PCM),
    KSDATAFORMAT_WAVEFORMATEXTENSIBLE.make
      (DATAFORMAT.make sizeof_KSDATAFORMAT_WAVEFORMATEXTENSIBLE 0 0 0 TYPE_AUDIO SUBTYPE_PCM SPECIFIER_WAVEFORMATEX)
      (WAVEFORMATEXTENSIBLE.make
        (WAVEFORMATEX.make WAVE_FORMAT_EXTENSIBLE 2 48000 192000 4 16 (sizeof_WAVEFORMATEXTENSIBLE - sizeof_WAVEFORMATEX))
          16 SPEAKER_STEREO SUBTYPE_PCM),
    KSDATAFORMAT_WAVEFORMATEXTENSIBLE.make
      (DATAFORMAT.make sizeof_KSDATAFORMAT_WAVEFORMATEXTENSIBLE 0 0 0 TYPE_AUDIO SUBTYPE_PCM SPECIFIER_WAVEFORMATEX)
      (WAVEFORMATEXTENSIBLE.make
        (WAVEFORMATEX.make WAVE_FORMAT_EXTENSIBLE 2 88200 352800 4 16 (sizeof_WAVEFORMATEXTENSIBLE - sizeof_WAVEFORMATEX))
          16 SPEAKER_STEREO SUBTYPE_PCM),
    KSDATAFORMAT_WAVEFORMATEXTENSIBLE.make
      (DATAFORMAT.make sizeof_KSDATAFORMAT_WAVEFORMATEXTENSIBLE 0 0 0 TYPE_AUDIO SUBTYPE_PCM SPECIFIER_WAVEFORMATEX)
      (WAVEFORMATEXTENSIBLE.make
        (WAVEFORMATEX.make WAVE_FORMAT_EXTENSIBLE 2 96000 384000 4 16 (sizeof_WAVEFORMATEXTENSIBLE - sizeof_WAVEFORMATEX))
          16 SPEAKER_STEREO SUBTYPE_PCM),
    KSDATAFORMAT_WAVEFORMATEXTENSIBLE.make
      (DATAFORMAT.make sizeof_KSDATAFORMAT_WAVEFORMATEXTENSIBLE 0 0 0 TYPE_AUDIO SUBTYPE_IEC61937_DOLBY_DIGITAL
        SPECIFIER_WAVEFORMATEX)
      (WAVEFORMATEXTENSIBLE.make
        (WAVEFORMATEX.make WAVE_FORMAT_EXTENSIBLE 2 44100 176400 4 16 (sizeof_WAVEFORMATEXTENSIBLE - sizeof_WAVEFORMATEX))
          16 SPEAKER_5POINT1_SURROUND SUBTYPE_IEC61937_DOLBY_DIGITAL),
    KSDATAFORMAT_WAVEFORMATEXTENSIBLE.make
      (DATAFORMAT.make sizeof_KSDATAFORMAT_WAVEFORMATEXTENSIBLE 0 0 0 TYPE_AUDIO SUBTYPE_IEC61937_DOLBY_DIGITAL
        SPECIFIER_WAVEFORMATEX)
      (WAVEFORMATEXTENSIBLE.make
        (WAVEFORMATEX.make WAVE_FORMAT_EXTENSIBLE 2 48000 192000 4 16 (sizeof_WAVEFORMATEXTENSIBLE - sizeof_WAVEFORMATEX))
          16 SPEAKER_5POINT1_SURROUND SUBTYPE_IEC61937_DOLBY_DIGITAL)]"

definition HdmiHostPinSupportedDeviceFormats_2 :: "KSDATAFORMAT_WAVEFORMATEXTENSIBLE list" where [table_rows]:
  "HdmiHostPinSupportedDeviceFormats_2 = [
    KSDATAFORMAT_WAVEFORMATEXTENSIBLE.make
      (DATAFORMAT.make sizeof_KSDATAFORMAT_WAVEFORMATEXTENSIBLE 0 0 0 TYPE_AUDIO SUBTYPE_IEC61937_DOLBY_MLP
        SPECIFIER_WAVEFORMATEX)
      (WAVEFORMATEXTENSIBLE.make
        (WAVEFORMATEX.make WAVE_FORMAT_EXTENSIBLE 8 192000 3072000 16 16 (sizeof_WAVEFORMATEXTENSIBLE -
          sizeof_WAVEFORMATEX)) 16 SPEAKER_7POINT1 SUBTYPE_IEC61937_DOLBY_MLP),
    KSDATAFORMAT_WAVEFORMATEXTENSIBLE.make
      (DATAFORMAT.make sizeof_KSDATAFORMAT_WAVEFORMATEXTENSIBLE 0 0 0 TYPE_AUDIO SUBTYPE_IEC61937_DOLBY_MLP
        SPECIFIER_WAVEFORMATEX)
      (WAVEFORMATEXTENSIBLE.make
        (WAVEFORMATEX.make WAVE_FORMAT_EXTENSIBLE 8 192000 3072000 16 16 (sizeof_WAVEFORMATEXTENSIBLE -
          sizeof_WAVEFORMATEX)) 16 SPEAKER_7POINT1_SURROUND SUBTYPE_IEC61937_DOLBY_MLP),
    KSDATAFORMAT_WAVEFORMATEXTENSIBLE.make
      (DATAFORMAT.make sizeof_KSDATAFORMAT_WAVEFORMATEXTENSIBLE 0 0 0 TYPE_AUDIO SUBTYPE_IEC61937_DTS SPECIFIER_WAVEFORMATEX)
      (WAVEFORMATEXTENSIBLE.make
        (WAVEFORMATEX.make WAVE_FORMAT_EXTENSIBLE 2 48000 192000 4 16 (sizeof_WAVEFORMATEXTENSIBLE - sizeof_WAVEFORMATEX))
          16 SPEAKER_5POINT1_SURROUND SUBTYPE_IEC61937_DTS),
    KSDATAFORMAT_WAVEFORMATEXTENSIBLE.make
      (DATAFORMAT.make sizeof_KSDATAFORMAT_WAVEFORMATEXTENSIBLE 0 0 0 TYPE_AUDIO SUBTYPE_IEC61937_DTS_HD SPECIFIER_WAVEFORMATEX)
      (WAVEFORMATEXTENSIBLE.make
        (WAVEFORMATEX.make WAVE_FORMAT_EXTENSIBLE 8 192000 3072000 16 16 (sizeof_WAVEFORMATEXTENSIBLE -
          sizeof_WAVEFORMATEX)) 16 SPEAKER_7POINT1 SUBTYPE_IEC61937_DTS_HD),
    KSDATAFORMAT_WAVEFORMATEXTENSIBLE.make
      (DATAFORMAT.make sizeof_KSDATAFORMAT_WAVEFORMATEXTENSIBLE 0 0 0 TYPE_AUDIO SUBTYPE_IEC61937_DTSX_E1
        SPECIFIER_WAVEFORMATEX)
      (WAVEFORMATEXTENSIBLE.make
        (WAVEFORMATEX.make WAVE_FORMAT_EXTENSIBLE 8 192000 3072000 16 16 (sizeof_WAVEFORMATEXTENSIBLE -
          sizeof_WAVEFORMATEX)) 16 SPEAKER_7POINT1 SUBTYPE_IEC61937_DTSX_E1),
    KSDATAFORMAT_WAVEFORMATEXTENSIBLE.make
      (DATAFORMAT.make sizeof_KSDATAFORMAT_WAVEFORMATEXTENSIBLE 0 0 0 TYPE_AUDIO SUBTYPE_IEC61937_DTSX_E2
        SPECIFIER_WAVEFORMATEX)
      (WAVEFORMATEXTENSIBLE.make
        (WAVEFORMATEX.make WAVE_FORMAT_EXTENSIBLE 8 192000 3072000 16 16 (sizeof_WAVEFORMATEXTENSIBLE -
          sizeof_WAVEFORMATEX)) 16 SPEAKER_7POINT1 SUBTYPE_IEC61937_DTSX_E2)]"

definition HdmiHostPinSupportedDeviceFormats_3 :: "KSDATAFORMAT_WAVEFORMATEXTENSIBLE list" where [table_rows]:
  "HdmiHostPinSupportedDeviceFormats_3 = [
    KSDATAFORMAT_WAVEFORMATEXTENSIBLE.make
      (DATAFORMAT.make sizeof_KSDATAFORMAT_WAVEFORMATEXTENSIBLE 0 0 0 TYPE_AUDIO SUBTYPE_IEC61937_DOLBY_MAT20
        SPECIFIER_WAVEFORMATEX)
      (WAVEFORMATEXTENSIBLE.make
        (WAVEFORMATEX.make WAVE_FORMAT_EXTENSIBLE 8 192000 3072000 16 16 (sizeof_WAVEFORMATEXTENSIBLE -
          sizeof_WAVEFORMATEX)) 16 SPEAKER_7POINT1 SUBTYPE_IEC61937_DOLBY_MAT20),
    KSDATAFORMAT_WAVEFORMATEXTENSIBLE.make
      (DATAFORMAT.make sizeof_KSDATAFORMAT_WAVEFORMATEXTENSIBLE 0 0 0 TYPE_AUDIO SUBTYPE_IEC61937_DOLBY_MAT21
        SPECIFIER_WAVEFORMATEX)
      (WAVEFORMATEXTENSIBLE.make
        (WAVEFORMATEX.make WAVE_FORMAT_EXTENSIBLE 8 192000 3072000 16 16 (sizeof_WAVEFORMATEXTENSIBLE -
          sizeof_WAVEFORMATEX)) 16 SPEAKER_7POINT1 SUBTYPE_IEC61937_DOLBY_MAT21)]"

definition HdmiHostPinSupportedDeviceFormats :: "KSDATAFORMAT_WAVEFORMATEXTENSIBLE list" where [table_rows]:
  "HdmiHostPinSupportedDeviceFormats = HdmiHostPinSupportedDeviceFormats_1 @ HdmiHostPinSupportedDeviceFormats_2 @
    HdmiHostPinSupportedDeviceFormats_3"

definition HdmiHostPinSupportedDeviceModes :: "MODE_AND_DEFAULT_FORMAT list" where [table_rows]:
  "HdmiHostPinSupportedDeviceModes = [
    MODE_AND_DEFAULT_FORMAT.make SIGNALPROCESSINGMODE_RAW None]"

definition HdmiPinDeviceFormatsAndModes :: "PIN_DEVICE_FORMATS_AND_MODES list" where [table_rows]:
  "HdmiPinDeviceFormatsAndModes = [
    PIN_DEVICE_FORMATS_AND_MODES.make SystemRenderPin (Some HdmiHostPinSupportedDeviceFormats) (length
      HdmiHostPinSupportedDeviceFormats) (Some HdmiHostPinSupportedDeviceModes) (length HdmiHostPinSupportedDeviceModes),
    PIN_DEVICE_FORMATS_AND_MODES.make RenderLoopbackPin (Some HdmiHostPinSupportedDeviceFormats) (length
      HdmiHostPinSupportedDeviceFormats) None 0,
    PIN_DEVICE_FORMATS_AND_MODES.make BridgePin None 0 None 0]"

definition HdmiPinDataRangesStream_1 :: "KSDATARANGE_AUDIO list" where [table_rows]:
  "HdmiPinDataRangesStream_1 = [
    KSDATARANGE_AUDIO.make
      (DATAFORMAT.make sizeof_KSDATARANGE_AUDIO KSDATARANGE_ATTRIBUTES 0 0 TYPE_AUDIO SUBTYPE_PCM SPECIFIER_WAVEFORMATEX)
      HDMI_HOST_MAX_CHANNELS HDMI_HOST_MIN_BITS_PER_SAMPLE HDMI_HOST_MAX_BITS_PER_SAMPLE HDMI_HOST_MIN_SAMPLE_RATE
        HDMI_HOST_MAX_SAMPLE_RATE,
    KSDATARANGE_AUDIO.make
      (DATAFORMAT.make sizeof_KSDATARANGE_AUDIO 0 0 0 TYPE_AUDIO SUBTYPE_PCM SPECIFIER_WAVEFORMATEX)
      HDMI_LOOPBACK_MAX_CHANNELS HDMI_LOOPBACK_MIN_BITS_PER_SAMPLE HDMI_LOOPBACK_MAX_BITS_PER_SAMPLE
        HDMI_LOOPBACK_MIN_SAMPLE_RATE HDMI_LOOPBACK_MAX_SAMPLE_RATE,
    KSDATARANGE_AUDIO.make
      (DATAFORMAT.make sizeof_KSDATARANGE_AUDIO KSDATARANGE_ATTRIBUTES 0 0 TYPE_AUDIO SUBTYPE_IEC61937_DOLBY_DIGITAL
        SPECIFIER_WAVEFORMATEX)
      HDMI_DOLBY_DIGITAL_MAX_CHANNELS HDMI_DOLBY_DIGITAL_MIN_BITS_PER_SAMPLE HDMI_DOLBY_DIGITAL_MAX_BITS_PER_SAMPLE
        HDMI_DOLBY_DIGITAL_MIN_SAMPLE_RATE HDMI_DOLBY_DIGITAL_MAX_SAMPLE_RATE,
    KSDATARANGE_AUDIO.make
      (DATAFORMAT.make sizeof_KSDATARANGE_AUDIO KSDATARANGE_ATTRIBUTES 0 0 TYPE_AUDIO SUBTYPE_IEC61937_DOLBY_MLP
        SPECIFIER_WAVEFORMATEX)
      HDMI_DOLBY_MAT_MAX_CHANNELS HDMI_DOLBY_MAT_MIN_BITS_PER_SAMPLE HDMI_DOLBY_MAT_MAX_BITS_PER_SAMPLE
        HDMI_DOLBY_MAT_MIN_SAMPLE_RATE HDMI_DOLBY_MAT_MAX_SAMPLE_RATE,
    KSDATARANGE_AUDIO.make
      (DATAFORMAT.make sizeof_KSDATARANGE_AUDIO KSDATARANGE_ATTRIBUTES 0 0 TYPE_AUDIO SUBTYPE_IEC61937_DTS
        SPECIFIER_WAVEFORMATEX)
      HDMI_DTS_MAX_CHANNELS HDMI_DTS_MIN_BITS_PER_SAMPLE HDMI_DTS_MAX_BITS_PER_SAMPLE HDMI_DTS_MIN_SAMPLE_RATE
        HDMI_DTS_MAX_SAMPLE_RATE,
    KSDATARANGE_AUDIO.make
      (DATAFORMAT.make sizeof_KSDATARANGE_AUDIO KSDATARANGE_ATTRIBUTES 0 0 TYPE_AUDIO SUBTYPE_IEC61937_DTS_HD
        SPECIFIER_WAVEFORMATEX)
      HDMI_DTS_HD_MAX_CHANNELS HDMI_DTS_HD_MIN_BITS_PER_SAMPLE HDMI_DTS_HD_MAX_BITS_PER_SAMPLE HDMI_DTS_HD_MIN_SAMPLE_RATE
        HDMI_DTS_HD_MAX_SAMPLE_RATE,
    KSDATARANGE_AUDIO.make
      (DATAFORMAT.make sizeof_KSDATARANGE_AUDIO KSDATARANGE_ATTRIBUTES 0 0 TYPE_AUDIO SUBTYPE_IEC61937_DTSX_E1
        SPECIFIER_WAVEFORMATEX)
      HDMI_DTS_HD_MAX_CHANNELS HDMI_DTS_HD_MIN_BITS_PER_SAMPLE HDMI_DTS_HD_MAX_BITS_PER_SAMPLE HDMI_DTS_HD_MIN_SAMPLE_RATE
        HDMI_DTS_HD_MAX_SAMPLE_RATE,
    KSDATARANGE_AUDIO.make
      (DATAFORMAT.make sizeof_KSDATARANGE_AUDIO KSDATARANGE_ATTRIBUTES 0 0 TYPE_AUDIO SUBTYPE_IEC61937_DTSX_E2
        SPECIFIER_WAVEFORMATEX)
      HDMI_DTS_HD_MAX_CHANNELS HDMI_DTS_HD_MIN_BITS_PER_SAMPLE HDMI_DTS_HD_MAX_BITS_PER_SAMPLE HDMI_DTS_HD_MIN_SAMPLE_RATE
        HDMI_DTS_HD_MAX_SAMPLE_RATE,
    KSDATARANGE_AUDIO.make
      (DATAFORMAT.make sizeof_KSDATARANGE_AUDIO KSDATARANGE_ATTRIBUTES 0 0 TYPE_AUDIO SUBTYPE_IEC61937_DOLBY_MAT20
        SPECIFIER_WAVEFORMATEX)
      HDMI_DOLBY_MAT_MAX_CHANNELS HDMI_DOLBY_MAT_MIN_BITS_PER_SAMPLE HDMI_DOLBY_MAT_MAX_BITS_PER_SAMPLE
        HDMI_DOLBY_MAT_MIN_SAMPLE_RATE HDMI_DOLBY_MAT_MAX_SAMPLE_RATE]"

definition HdmiPinDataRangesStream_2 :: "KSDATARANGE_AUDIO list" where [table_rows]:
  "HdmiPinDataRangesStream_2 = [
    KSDATARANGE_AUDIO.make
      (DATAFORMAT.make sizeof_KSDATARANGE_AUDIO KSDATARANGE_ATTRIBUTES 0 0 TYPE_AUDIO SUBTYPE_IEC61937_DOLBY_MAT21
        SPECIFIER_WAVEFORMATEX)
      HDMI_DOLBY_MAT_MAX_CHANNELS HDMI_DOLBY_MAT_MIN_BITS_PER_SAMPLE HDMI_DOLBY_MAT_MAX_BITS_PER_SAMPLE
        HDMI_DOLBY_MAT_MIN_SAMPLE_RATE HDMI_DOLBY_MAT_MAX_SAMPLE_RATE]"

definition HdmiPinDataRangesStream :: "KSDATARANGE_AUDIO list" where [table_rows]:
  "HdmiPinDataRangesStream = HdmiPinDataRangesStream_1 @ HdmiPinDataRangesStream_2"

definition HdmiPinDataRangePointersStream :: "PKSDATARANGE list" where [table_rows]:
  "HdmiPinDataRangePointersStream = [
    AudioRange (HdmiPinDataRangesStream, 0),
    PinDataRangeAttributeList,
    AudioRange (HdmiPinDataRangesStream, 2),
    PinDataRangeAttributeList,
    AudioRange (HdmiPinDataRangesStream, 3),
    PinDataRangeAttributeList,
    AudioRange (HdmiPinDataRangesStream, 4),
    PinDataRangeAttributeList,
    AudioRange (HdmiPinDataRangesStream, 5),
    PinDataRangeAttributeList,
    AudioRange (HdmiPinDataRangesStream, 6),
    PinDataRangeAttributeList,
    AudioRange (HdmiPinDataRangesStream, 7),
    PinDataRangeAttributeList,
    AudioRange (HdmiPinDataRangesStream, 8),
    PinDataRangeAttributeList,
    AudioRange (HdmiPinDataRangesStream, 9),
    PinDataRangeAttributeList]"

definition HdmiPinDataRangePointersLoopbackStream :: "PKSDATARANGE list" where [table_rows]:
  "HdmiPinDataRangePointersLoopbackStream = [
    AudioRange (HdmiPinDataRangesStream, 1)]"

definition HdmiPinDataRangesBridge :: "KSDATARANGE list" where [table_rows]:
  "HdmiPinDataRangesBridge = [
    DATAFORMAT.make sizeof_KSDATARANGE 0 0 0 TYPE_AUDIO SUBTYPE_ANALOG SPECIFIER_NONE,
    DATAFORMAT.make sizeof_KSDATARANGE 0 0 0 TYPE_AUDIO SUBTYPE_IEC61937_DOLBY_DIGITAL SPECIFIER_NONE,
    DATAFORMAT.make sizeof_KSDATARANGE 0 0 0 TYPE_AUDIO SUBTYPE_IEC61937_DOLBY_MLP SPECIFIER_NONE,
    DATAFORMAT.make sizeof_KSDATARANGE 0 0 0 TYPE_AUDIO SUBTYPE_IEC61937_DTS SPECIFIER_NONE,
    DATAFORMAT.make sizeof_KSDATARANGE 0 0 0 TYPE_AUDIO SUBTYPE_IEC61937_DTS_HD SPECIFIER_NONE,
    DATAFORMAT.make sizeof_KSDATARANGE 0 0 0 TYPE_AUDIO SUBTYPE_IEC61937_DTSX_E1 SPECIFIER_NONE,
    DATAFORMAT.make sizeof_KSDATARANGE 0 0 0 TYPE_AUDIO SUBTYPE_IEC61937_DTSX_E2 SPECIFIER_NONE,
    DATAFORMAT.make sizeof_KSDATARANGE 0 0 0 TYPE_AUDIO SUBTYPE_IEC61937_DOLBY_MAT20 SPECIFIER_NONE,
    DATAFORMAT.make sizeof_KSDATARANGE 0 0 0 TYPE_AUDIO SUBTYPE_IEC61937_DOLBY_MAT21 SPECIFIER_NONE]"

definition HdmiPinDataRangePointersBridge :: "PKSDATARANGE list" where [table_rows]:
  "HdmiPinDataRangePointersBridge = [
    PlainRange (HdmiPinDataRangesBridge, 0),
    PlainRange (HdmiPinDataRangesBridge, 1),
    PlainRange (HdmiPinDataRangesBridge, 2),
    PlainRange (HdmiPinDataRangesBridge, 3),
    PlainRange (HdmiPinDataRangesBridge, 4),
    PlainRange (HdmiPinDataRangesBridge, 5),
    PlainRange (HdmiPinDataRangesBridge, 6),
    PlainRange (HdmiPinDataRangesBridge, 7),
    PlainRange (HdmiPinDataRangesBridge, 8)]"

definition HdmiWaveMiniportPins :: "headers \<Rightarrow> PCPIN_DESCRIPTOR list" where [filter_defs]:
  "HdmiWaveMiniportPins h = [
    PCPIN_DESCRIPTOR.make HDMI_MAX_INPUT_SYSTEM_STREAMS HDMI_MAX_INPUT_SYSTEM_STREAMS 0 None
      (KSPIN_DESCRIPTOR.make 0 None 0 None (length HdmiPinDataRangePointersStream) HdmiPinDataRangePointersStream
        KSPIN_DATAFLOW_IN KSPIN_COMMUNICATION_SINK KSCATEGORY_AUDIO None 0),
    PCPIN_DESCRIPTOR.make (HDMI_MAX_OUTPUT_LOOPBACK_STREAMS h) (HDMI_MAX_OUTPUT_LOOPBACK_STREAMS h) 0 None
      (KSPIN_DESCRIPTOR.make 0 None 0 None (length HdmiPinDataRangePointersLoopbackStream)
        HdmiPinDataRangePointersLoopbackStream KSPIN_DATAFLOW_OUT KSPIN_COMMUNICATION_SINK KSNODETYPE_AUDIO_LOOPBACK None 0),
    PCPIN_DESCRIPTOR.make 0 0 0 None
      (KSPIN_DESCRIPTOR.make 0 None 0 None (length HdmiPinDataRangePointersBridge) HdmiPinDataRangePointersBridge
        KSPIN_DATAFLOW_OUT KSPIN_COMMUNICATION_NONE KSCATEGORY_AUDIO None 0)]"

definition HdmiPropertiesVolume :: "PCPROPERTY_ITEM list" where [filter_defs]:
  "HdmiPropertiesVolume = [
    PCPROPERTY_ITEM.make Set_Audio AUDIO_VOLUMELEVEL
      (KSPROPERTY_TYPE_GET OR KSPROPERTY_TYPE_SET OR KSPROPERTY_TYPE_BASICSUPPORT) Handler_WaveFilter]"

definition AutomationHdmiVolume :: PCAUTOMATION_TABLE where [filter_defs]:
  "AutomationHdmiVolume = PropertyTable HdmiPropertiesVolume"

definition HdmiPropertiesMute :: "PCPROPERTY_ITEM list" where [filter_defs]:
  "HdmiPropertiesMute = [
    PCPROPERTY_ITEM.make Set_Audio AUDIO_MUTE
      (KSPROPERTY_TYPE_GET OR KSPROPERTY_TYPE_SET OR KSPROPERTY_TYPE_BASICSUPPORT) Handler_WaveFilter]"

definition AutomationHdmiMute :: PCAUTOMATION_TABLE where [filter_defs]:
  "AutomationHdmiMute = PropertyTable HdmiPropertiesMute"

definition HdmiPropertiesPeakMeter :: "PCPROPERTY_ITEM list" where [filter_defs]:
  "HdmiPropertiesPeakMeter = [
    PCPROPERTY_ITEM.make Set_Audio AUDIO_PEAKMETER2
      (KSPROPERTY_TYPE_GET OR KSPROPERTY_TYPE_BASICSUPPORT) Handler_WaveFilter,
    PCPROPERTY_ITEM.make Set_Audio AUDIO_CPU_RESOURCES
      (KSPROPERTY_TYPE_GET OR KSPROPERTY_TYPE_BASICSUPPORT) Handler_WaveFilter]"

definition AutomationHdmiPeakMeter :: PCAUTOMATION_TABLE where [filter_defs]:
  "AutomationHdmiPeakMeter = PropertyTable HdmiPropertiesPeakMeter"

definition HdmiWaveMiniportNodes :: "PCNODE_DESCRIPTOR list" where [filter_defs]:
  "HdmiWaveMiniportNodes = [
    PCNODE_DESCRIPTOR.make 0 None KSNODETYPE_SUM None,
    PCNODE_DESCRIPTOR.make 0 (Some AutomationHdmiVolume) KSNODETYPE_VOLUME (Some KSAUDFNAME_WAVE_VOLUME),
    PCNODE_DESCRIPTOR.make 0 (Some AutomationHdmiMute) KSNODETYPE_MUTE (Some KSAUDFNAME_WAVE_MUTE),
    PCNODE_DESCRIPTOR.make 0 (Some AutomationHdmiPeakMeter) KSNODETYPE_PEAKMETER (Some KSAUDFNAME_PEAKMETER)]"

definition HdmiWaveMiniportConnections :: "headers \<Rightarrow> PCCONNECTION_DESCRIPTOR list" where [filter_defs]:
  "HdmiWaveMiniportConnections h = [
    PCCONNECTION_DESCRIPTOR.make PCFILTER_NODE (enum h PIN_WAVE_RENDER2_SINK_SYSTEM) (enum h NODE_WAVE_SUM) 1,
    PCCONNECTION_DESCRIPTOR.make (enum h NODE_WAVE_SUM) 0 (enum h NODE_WAVE_VOLUME) 1,
    PCCONNECTION_DESCRIPTOR.make (enum h NODE_WAVE_VOLUME) 0 (enum h NODE_WAVE_MUTE) 1,
    PCCONNECTION_DESCRIPTOR.make (enum h NODE_WAVE_MUTE) 0 (enum h NODE_WAVE_PEAKMETER) 1,
    PCCONNECTION_DESCRIPTOR.make (enum h NODE_WAVE_PEAKMETER) 2 PCFILTER_NODE (enum h PIN_WAVE_RENDER2_SINK_LOOPBACK),
    PCCONNECTION_DESCRIPTOR.make (enum h NODE_WAVE_PEAKMETER) 0 PCFILTER_NODE (enum h PIN_WAVE_RENDER2_SOURCE)]"

definition PropertiesHdmiWaveFilter :: "PCPROPERTY_ITEM list" where [filter_defs]:
  "PropertiesHdmiWaveFilter = [
    PCPROPERTY_ITEM.make Set_Pin PIN_PROPOSEDATAFORMAT
      (KSPROPERTY_TYPE_SET OR KSPROPERTY_TYPE_BASICSUPPORT) Handler_WaveFilter]"

definition AutomationHdmiWaveFilter :: PCAUTOMATION_TABLE where [filter_defs]:
  "AutomationHdmiWaveFilter = PropertyTable PropertiesHdmiWaveFilter"

definition HdmiWaveMiniportFilterDescriptor :: "headers \<Rightarrow> PCFILTER_DESCRIPTOR" where [filter_defs]:
  "HdmiWaveMiniportFilterDescriptor h = PCFILTER_DESCRIPTOR.make 0 AutomationHdmiWaveFilter sizeof_PCPIN_DESCRIPTOR (length
    (HdmiWaveMiniportPins h)) (HdmiWaveMiniportPins h) sizeof_PCNODE_DESCRIPTOR (length HdmiWaveMiniportNodes) (Some
    HdmiWaveMiniportNodes)
     (length (HdmiWaveMiniportConnections h)) (HdmiWaveMiniportConnections h) 0 None"

section \<open>hdmitoptable.h\<close>

definition HdmiTopoPinDataRangesBridge :: "KSDATARANGE list" where [table_rows]:
  "HdmiTopoPinDataRangesBridge = [
    DATAFORMAT.make sizeof_KSDATARANGE 0 0 0 TYPE_AUDIO SUBTYPE_ANALOG SPECIFIER_NONE,
    DATAFORMAT.make sizeof_KSDATARANGE 0 0 0 TYPE_AUDIO SUBTYPE_IEC61937_DOLBY_DIGITAL SPECIFIER_NONE,
    DATAFORMAT.make sizeof_KSDATARANGE 0 0 0 TYPE_AUDIO SUBTYPE_IEC61937_DOLBY_MLP SPECIFIER_NONE,
    DATAFORMAT.make sizeof_KSDATARANGE 0 0 0 TYPE_AUDIO SUBTYPE_IEC61937_DTS SPECIFIER_NONE,
    DATAFORMAT.make sizeof_KSDATARANGE 0 0 0 TYPE_AUDIO SUBTYPE_IEC61937_DTS_HD SPECIFIER_NONE,
    DATAFORMAT.make sizeof_KSDATARANGE 0 0 0 TYPE_AUDIO SUBTYPE_IEC61937_DTSX_E1 SPECIFIER_NONE,
    DATAFORMAT.make sizeof_KSDATARANGE 0 0 0 TYPE_AUDIO SUBTYPE_IEC61937_DTSX_E2 SPECIFIER_NONE,
    DATAFORMAT.make sizeof_KSDATARANGE 0 0 0 TYPE_AUDIO SUBTYPE_IEC61937_DOLBY_MAT20 SPECIFIER_NONE,
    DATAFORMAT.make sizeof_KSDATARANGE 0 0 0 TYPE_AUDIO SUBTYPE_IEC61937_DOLBY_MAT21 SPECIFIER_NONE]"

definition HdmiTopoPinDataRangePointersBridge :: "PKSDATARANGE list" where [table_rows]:
  "HdmiTopoPinDataRangePointersBridge = [
    PlainRange (HdmiTopoPinDataRangesBridge, 0),
    PlainRange (HdmiTopoPinDataRangesBridge, 1),
    PlainRange (HdmiTopoPinDataRangesBridge, 2),
    PlainRange (HdmiTopoPinDataRangesBridge, 3),
    PlainRange (HdmiTopoPinDataRangesBridge, 4),
    PlainRange (HdmiTopoPinDataRangesBridge, 5),
    PlainRange (HdmiTopoPinDataRangesBridge, 6)]"

definition HdmiTopoMiniportPins :: "PCPIN_DESCRIPTOR list" where [filter_defs]:
  "HdmiTopoMiniportPins = [
    PCPIN_DESCRIPTOR.make 0 0 0 None
      (KSPIN_DESCRIPTOR.make 0 None 0 None (length HdmiTopoPinDataRangePointersBridge) HdmiTopoPinDataRangePointersBridge
        KSPIN_DATAFLOW_IN KSPIN_COMMUNICATION_NONE KSCATEGORY_AUDIO None 0),
    PCPIN_DESCRIPTOR.make 0 0 0 None
      (KSPIN_DESCRIPTOR.make 0 None 0 None (length HdmiTopoPinDataRangePointersBridge) HdmiTopoPinDataRangePointersBridge
        KSPIN_DATAFLOW_OUT KSPIN_COMMUNICATION_NONE KSNODETYPE_HDMI_INTERFACE None 0)]"

definition HdmiTopoMiniportConnections :: "headers \<Rightarrow> PCCONNECTION_DESCRIPTOR list" where [filter_defs]:
  "HdmiTopoMiniportConnections h = [
    PCCONNECTION_DESCRIPTOR.make PCFILTER_NODE (enum h PIN_TOPO_WAVEOUT_SOURCE) PCFILTER_NODE (enum h PIN_TOPO_LINEOUT_DEST)]"

definition PropertiesHdmiTopoFilter :: "PCPROPERTY_ITEM list" where [filter_defs]:
  "PropertiesHdmiTopoFilter = [
    PCPROPERTY_ITEM.make Set_Jack JACK_DESCRIPTION
      (KSPROPERTY_TYPE_GET OR KSPROPERTY_TYPE_BASICSUPPORT) Handler_HdmiTopoFilter,
    PCPROPERTY_ITEM.make Set_Jack JACK_DESCRIPTION2
      (KSPROPERTY_TYPE_GET OR KSPROPERTY_TYPE_BASICSUPPORT) Handler_HdmiTopoFilter,
    PCPROPERTY_ITEM.make Set_Jack JACK_SINK_INFO
      (KSPROPERTY_TYPE_GET OR KSPROPERTY_TYPE_BASICSUPPORT) Handler_HdmiTopoFilter]"

definition AutomationHdmiTopoFilter :: PCAUTOMATION_TABLE where [filter_defs]:
  "AutomationHdmiTopoFilter = PropertyTable PropertiesHdmiTopoFilter"

definition HdmiTopoMiniportFilterDescriptor :: "headers \<Rightarrow> PCFILTER_DESCRIPTOR" where [filter_defs]:
  "HdmiTopoMiniportFilterDescriptor h = PCFILTER_DESCRIPTOR.make 0 AutomationHdmiTopoFilter sizeof_PCPIN_DESCRIPTOR (length
    HdmiTopoMiniportPins) HdmiTopoMiniportPins sizeof_PCNODE_DESCRIPTOR 0 None
     (length (HdmiTopoMiniportConnections h)) (HdmiTopoMiniportConnections h) 0 None"

end
