(* ===== verification/SpdifTables.thy ===== *)
theory SpdifTables
  imports FilterTypes
begin

text \<open>
  spdifwavtable.h and spdiftoptable.h: the tables of the S/PDIF endpoint with an offload pin and an
  audio engine node, row by row; the conventions are those of HdmiTables.
\<close>

unbundle bit_operations_syntax

section \<open>spdifwavtable.h\<close>

definition SPDIF_DEVICE_MAX_CHANNELS :: nat where [table_consts]: "SPDIF_DEVICE_MAX_CHANNELS = 2"
definition SPDIF_HOST_MAX_CHANNELS :: nat where [table_consts]: "SPDIF_HOST_MAX_CHANNELS = 2"
definition SPDIF_HOST_MIN_BITS_PER_SAMPLE :: nat where [table_consts]: "SPDIF_HOST_MIN_BITS_PER_SAMPLE = 16"
definition SPDIF_HOST_MAX_BITS_PER_SAMPLE :: nat where [table_consts]: "SPDIF_HOST_MAX_BITS_PER_SAMPLE = 16"
definition SPDIF_HOST_MIN_SAMPLE_RATE :: nat where [table_consts]: "SPDIF_HOST_MIN_SAMPLE_RATE = 44100"
definition SPDIF_HOST_MAX_SAMPLE_RATE :: nat where [table_consts]: "SPDIF_HOST_MAX_SAMPLE_RATE = 96000"
definition SPDIF_OFFLOAD_MAX_CHANNELS :: nat where [table_consts]: "SPDIF_OFFLOAD_MAX_CHANNELS = 2"
definition SPDIF_OFFLOAD_MIN_BITS_PER_SAMPLE :: nat where [table_consts]: "SPDIF_OFFLOAD_MIN_BITS_PER_SAMPLE = 16"
definition SPDIF_OFFLOAD_MAX_BITS_PER_SAMPLE :: nat where [table_consts]: "SPDIF_OFFLOAD_MAX_BITS_PER_SAMPLE = 16"
definition SPDIF_OFFLOAD_MIN_SAMPLE_RATE :: nat where [table_consts]: "SPDIF_OFFLOAD_MIN_SAMPLE_RATE = 44100"
definition SPDIF_OFFLOAD_MAX_SAMPLE_RATE :: nat where [table_consts]: "SPDIF_OFFLOAD_MAX_SAMPLE_RATE = 96000"
definition SPDIF_LOOPBACK_MAX_CHANNELS :: nat where [table_consts]: "SPDIF_LOOPBACK_MAX_CHANNELS = SPDIF_HOST_MAX_CHANNELS"
definition SPDIF_LOOPBACK_MIN_BITS_PER_SAMPLE :: nat where [table_consts]: "SPDIF_LOOPBACK_MIN_BITS_PER_SAMPLE =
  SPDIF_HOST_MIN_BITS_PER_SAMPLE"
definition SPDIF_LOOPBACK_MAX_BITS_PER_SAMPLE :: nat where [table_consts]: "SPDIF_LOOPBACK_MAX_BITS_PER_SAMPLE =
  SPDIF_HOST_MAX_BITS_PER_SAMPLE"
definition SPDIF_LOOPBACK_MIN_SAMPLE_RATE :: nat where [table_consts]: "SPDIF_LOOPBACK_MIN_SAMPLE_RATE =
  SPDIF_HOST_MIN_SAMPLE_RATE"
definition SPDIF_LOOPBACK_MAX_SAMPLE_RATE :: nat where [table_consts]: "SPDIF_LOOPBACK_MAX_SAMPLE_RATE =
  SPDIF_HOST_MAX_SAMPLE_RATE"
definition SPDIF_DOLBY_DIGITAL_MAX_CHANNELS :: nat where [table_consts]: "SPDIF_DOLBY_DIGITAL_MAX_CHANNELS = 2"
definition SPDIF_DOLBY_DIGITAL_MIN_BITS_PER_SAMPLE :: nat where [table_consts]: "SPDIF_DOLBY_DIGITAL_MIN_BITS_PER_SAMPLE = 16"
definition SPDIF_DOLBY_DIGITAL_MAX_BITS_PER_SAMPLE :: nat where [table_consts]: "SPDIF_DOLBY_DIGITAL_MAX_BITS_PER_SAMPLE = 16"
definition SPDIF_DOLBY_DIGITAL_MIN_SAMPLE_RATE :: nat where [table_consts]: "SPDIF_DOLBY_DIGITAL_MIN_SAMPLE_RATE = 44100"
definition SPDIF_DOLBY_DIGITAL_MAX_SAMPLE_RATE :: nat where [table_consts]: "SPDIF_DOLBY_DIGITAL_MAX_SAMPLE_RATE = 48000"
definition SPDIF_MAX_INPUT_SYSTEM_STREAMS :: nat where [table_consts]: "SPDIF_MAX_INPUT_SYSTEM_STREAMS = 2"
definition SPDIF_MAX_INPUT_OFFLOAD_STREAMS :: "headers \<Rightarrow> nat" where [table_consts]:
  "SPDIF_MAX_INPUT_OFFLOAD_STREAMS h = MAX_INPUT_OFFLOAD_STREAMS h"
definition SPDIF_MAX_OUTPUT_LOOPBACK_STREAMS :: "headers \<Rightarrow> nat" where [table_consts]:
  "SPDIF_MAX_OUTPUT_LOOPBACK_STREAMS h = MAX_OUTPUT_LOOPBACK_STREAMS h"

definition SpdifAudioEngineSupportedDeviceFormats :: "KSDATAFORMAT_WAVEFORMATEXTENSIBLE list" where [table_rows]:
  "SpdifAudioEngineSupportedDeviceFormats = [
    KSDATAFORMAT_WAVEFORMATEXTENSIBLE.make
      (DATAFORMAT.make sizeof_KSDATAFORMAT_WAVEFORMATEXTENSIBLE 0 0 0 TYPE_AUDIO SUBTYPE_PCM SPECIFIER_WAVEFORMATEX)
      (WAVEFORMATEXTENSIBLE.make
        (WAVEFORMATEX.make WAVE_FORMAT_EXTENSIBLE 2 44100 176400 4 16 (sizeof_WAVEFORMATEXTENSIBLE - sizeof_WAVEFORMATEX))
          16 SPEAKER_STEREO SUBTYPE_PCM),
    KSDATAFORMAT_WAVEFORMATEXTENSIBLE.make
      (DATAFORMAT.make sizeof_KSDATAFORMAT_WAVEFORMATEXTENSIBLE 0 0 0 TYPE_AUDIO SUBTYPE_PCM SPECIFIER_WAVEFORMATEX)
      (WAVEFORMATEXTENSIBLE.make
        (WAVEFORMATEX.make WAVE_FORMAT_EXTENSIBLE 2 48000 192000 4 16 (sizeof_WAVEFORMATEXTENSIBLE - sizeof_WAVEFORMATEX))
          16 SPEAKER_STEREO SUBTYPE_PCM),
    KSDATAFORMAT_WAVEFORMATEXTENSIBLE.make
      (DATAFORMAT.make sizeof_KSDATAFORMAT_WAVEFORMATEXTENSIBLE 0 0 0 TYPE_AUDIO SUBTYPE_PCM SPECIFIER_WAVEFORMATEX)
      (WAVEFORMATEXTENSIBLE.make
        (WAVEFORMATEX.make WAVE_FORMAT_EXTENSIBLE 2 88200 352800 4 16 (sizeof_WAVEFORMATEXTENSIBLE - sizeof_WAVEFORMATEX))
          16 SPEAKER_STEREO SUBTYPE_PCM),
    KSDATAFORMAT_WAVEFORMATEXTENSIBLE.make
      (DATAFORMAT.make sizeof_KSDATAFORMAT_WAVEFORMATEXTENSIBLE 0 0 0 TYPE_AUDIO SUBTYPE_PCM SPECIFIER_WAVEFORMATEX)
      (WAVEFORMATEXTENSIBLE.make
        (WAVEFORMATEX.make WAVE_FORMAT_EXTENSIBLE 2 96000 384000 4 16 (sizeof_WAVEFORMATEXTENSIBLE - sizeof_WAVEFORMATEX))
          16 SPEAKER_STEREO SUBTYPE_PCM)]"

definition SpdifHostPinSupportedDeviceFormats_1 :: "KSDATAFORMAT_WAVEFORMATEXTENSIBLE list" where [table_rows]:
  "SpdifHostPinSupportedDeviceFormats_1 = [
    KSDATAFORMAT_WAVEFORMATEXTENSIBLE.make
      (DATAFORMAT.make sizeof_KSDATAFORMAT_WAVEFORMATEXTENSIBLE 0 0 0 TYPE_AUDIO SUBTYPE_PCM SPECIFIER_WAVEFORMATEX)
      (WAVEFORMATEXTENSIBLE.make
        (WAVEFORMATEX.make WAVE_FORMAT_EXTENSIBLE 2 44100 176400 4 16 (sizeof_WAVEFORMATEXTENSIBLE - sizeof_WAVEFORMATEX))
          16 SPEAKER_STEREO SUBTYPE_PCM),
    KSDATAFORMAT_WAVEFORMATEXTENSIBLE.make
      (DATAFORMAT.make sizeof_KSDATAFORMAT_WAVEFORMATEXTENSIBLE 0 0 0 TYPE_AUDIO SUBTYPE_PCM SPECIFIER_WAVEFORMATEX)
      (WAVEFORMATEXTENSIBLE.make
        (WAVEFORMATEX.make WAVE_FORMAT_EXTENSIBLE 2 48000 192000 4 16 (sizeof_WAVEFORMATEXTENSIBLE - sizeof_WAVEFORMATEX))
          16 SPEAKER_STEREO SUBTYPE_PCM),
    KSDATAFORMAT_WAVEFORMATEXTENSIBLE.make
      (DATAFORMAT.make sizeof_KSDATAFORMAT_WAVEFORMATEXTENSIBLE 0 0 0 TYPE_AUDIO SUBTYPE_PCM SPECIFIER_WAVEFORMATEX)
      (WAVEFORMATEXTENSIBLE.make
        (WAVEFORMATEX.make WAVE_FORMAT_EXTENSIBLE 2 88200 352800 4 16 (sizeof_WAVEFORMATEXTENSIBLE - sizeof_WAVEFORMATEX))
          16 SPEAKER_STEREO SUBTYPE_PCM),
    KSDATAFORMAT_WAVEFORMATEXTENSIBLE.make
      (DATAFORMAT.make sizeof_KSDATAFORMAT_WAVEFORMATEXTENSIBLE 0 0 0 TYPE_AUDIO SUBTYPE_PCM SPECIFIER_WAVEFORMATEX)
      (WAVEFORMATEXTENSIBLE.make
        (WAVEFORMATEX.make WAVE_FORMAT_EXTENSIBLE 2 96000 384000 4 16 (sizeof_WAVEFORMATEXTENSIBLE - sizeof_WAVEFORMATEX))
          16 SPEAKER_STEREO SUBTYPE_PCM),
    KSDATAFORMAT_WAVEFORMATEXTENSIBLE.make
      (DATAFORMAT.make sizeof_KSDATAFORMAT_WAVEFORMATEXTENSIBLE 0 0 0 TYPE_AUDIO SUBTYPE_IEC61937_DOLBY_DIGITAL
        SPECIFIER_WAVEFORMATEX)
      (WAVEFORMATEXTENSIBLE.make
        (WAVEFORMATEX.make WAVE_FORMAT_EXTENSIBLE 2 44100 176400 4 16 (sizeof_WAVEFORMATEXTENSIBLE - sizeof_WAVEFORMATEX))
          16 SPEAKER_5POINT1_SURROUND SUBTYPE_IEC61937_DOLBY_DIGITAL),
    KSDATAFORMAT_WAVEFORMATEXTENSIBLE.make
      (DATAFORMAT.make sizeof_KSDATAFORMAT_WAVEFORMATEXTENSIBLE 0 0 0 TYPE_AUDIO SUBTYPE_IEC61937_DOLBY_DIGITAL
        SPECIFIER_WAVEFORMATEX)
      (WAVEFORMATEXTENSIBLE.make
        (WAVEFORMATEX.make WAVE_FORMAT_EXTENSIBLE 2 48000 192000 4 16 (sizeof_WAVEFORMATEXTENSIBLE - sizeof_WAVEFORMATEX))
          16 SPEAKER_5POINT1_SURROUND SUBTYPE_IEC61937_DOLBY_DIGITAL)]"

definition SpdifHostPinSupportedDeviceFormats :: "KSDATAFORMAT_WAVEFORMATEXTENSIBLE list" where [table_rows]:
  "SpdifHostPinSupportedDeviceFormats = SpdifHostPinSupportedDeviceFormats_1"

definition SpdifOffloadPinSupportedDeviceFormats :: "KSDATAFORMAT_WAVEFORMATEXTENSIBLE list" where [table_rows]:
  "SpdifOffloadPinSupportedDeviceFormats = [
    KSDATAFORMAT_WAVEFORMATEXTENSIBLE.make
      (DATAFORMAT.make sizeof_KSDATAFORMAT_WAVEFORMATEXTENSIBLE 0 0 0 TYPE_AUDIO SUBTYPE_PCM SPECIFIER_WAVEFORMATEX)
      (WAVEFORMATEXTENSIBLE.make
        (WAVEFORMATEX.make WAVE_FORMAT_EXTENSIBLE 2 44100 176400 4 16 (sizeof_WAVEFORMATEXTENSIBLE - sizeof_WAVEFORMATEX))
          16 SPEAKER_STEREO SUBTYPE_PCM),
    KSDATAFORMAT_WAVEFORMATEXTENSIBLE.make
      (DATAFORMAT.make sizeof_KSDATAFORMAT_WAVEFORMATEXTENSIBLE 0 0 0 TYPE_AUDIO SUBTYPE_PCM SPECIFIER_WAVEFORMATEX)
      (WAVEFORMATEXTENSIBLE.make
        (WAVEFORMATEX.make WAVE_FORMAT_EXTENSIBLE 2 48000 192000 4 16 (sizeof_WAVEFORMATEXTENSIBLE - sizeof_WAVEFORMATEX))
          16 SPEAKER_STEREO SUBTYPE_PCM),
    KSDATAFORMAT_WAVEFORMATEXTENSIBLE.make
      (DATAFORMAT.make sizeof_KSDATAFORMAT_WAVEFORMATEXTENSIBLE 0 0 0 TYPE_AUDIO SUBTYPE_PCM SPECIFIER_WAVEFORMATEX)
      (WAVEFORMATEXTENSIBLE.make
        (WAVEFORMATEX.make WAVE_FORMAT_EXTENSIBLE 2 88200 352800 4 16 (sizeof_WAVEFORMATEXTENSIBLE - sizeof_WAVEFORMATEX))
          16 SPEAKER_STEREO SUBTYPE_PCM),
    KSDATAFORMAT_WAVEFORMATEXTENSIBLE.make
      (DATAFORMAT.make sizeof_KSDATAFORMAT_WAVEFORMATEXTENSIBLE 0 0 0 TYPE_AUDIO SUBTYPE_PCM SPECIFIER_WAVEFORMATEX)
      (WAVEFORMATEXTENSIBLE.make
        (WAVEFORMATEX.make WAVE_FORMAT_EXTENSIBLE 2 96000 384000 4 16 (sizeof_WAVEFORMATEXTENSIBLE - sizeof_WAVEFORMATEX))
          16 SPEAKER_STEREO SUBTYPE_PCM)]"

definition SpdifHostPinSupportedDeviceModes :: "MODE_AND_DEFAULT_FORMAT list" where [table_rows]:
  "SpdifHostPinSupportedDeviceModes = [
    MODE_AND_DEFAULT_FORMAT.make SIGNALPROCESSINGMODE_RAW None,
    MODE_AND_DEFAULT_FORMAT.make SIGNALPROCESSINGMODE_DEFAULT None]"

definition SpdifOffloadPinSupportedDeviceModes :: "MODE_AND_DEFAULT_FORMAT list" where [table_rows]:
  "SpdifOffloadPinSupportedDeviceModes = [
    MODE_AND_DEFAULT_FORMAT.make SIGNALPROCESSINGMODE_RAW None]"

definition SpdifPinDeviceFormatsAndModes :: "PIN_DEVICE_FORMATS_AND_MODES list" where [table_rows]:
  "SpdifPinDeviceFormatsAndModes = [
    PIN_DEVICE_FORMATS_AND_MODES.make SystemRenderPin (Some SpdifHostPinSupportedDeviceFormats) (length
      SpdifHostPinSupportedDeviceFormats) (Some SpdifHostPinSupportedDeviceModes) (length SpdifHostPinSupportedDeviceModes),
    PIN_DEVICE_FORMATS_AND_MODES.make OffloadRenderPin (Some SpdifOffloadPinSupportedDeviceFormats) (length
      SpdifOffloadPinSupportedDeviceFormats) (Some SpdifOffloadPinSupportedDeviceModes) (length
      SpdifOffloadPinSupportedDeviceModes),
    PIN_DEVICE_FORMATS_AND_MODES.make RenderLoopbackPin (Some SpdifHostPinSupportedDeviceFormats) (length
      SpdifHostPinSupportedDeviceFormats) None 0,
    PIN_DEVICE_FORMATS_AND_MODES.make BridgePin None 0 None 0,
    PIN_DEVICE_FORMATS_AND_MODES.make NoPin (Some SpdifAudioEngineSupportedDeviceFormats) (length
      SpdifAudioEngineSupportedDeviceFormats) None 0]"

definition SpdifPinDataRangesStream :: "KSDATARANGE_AUDIO list" where [table_rows]:
  "SpdifPinDataRangesStream = [
    KSDATARANGE_AUDIO.make
      (DATAFORMAT.make sizeof_KSDATARANGE_AUDIO KSDATARANGE_ATTRIBUTES 0 0 TYPE_AUDIO SUBTYPE_PCM SPECIFIER_WAVEFORMATEX)
      SPDIF_HOST_MAX_CHANNELS SPDIF_HOST_MIN_BITS_PER_SAMPLE SPDIF_HOST_MAX_BITS_PER_SAMPLE SPDIF_HOST_MIN_SAMPLE_RATE
        SPDIF_HOST_MAX_SAMPLE_RATE,
    KSDATARANGE_AUDIO.make
      (DATAFORMAT.make sizeof_KSDATARANGE_AUDIO KSDATARANGE_ATTRIBUTES 0 0 TYPE_AUDIO SUBTYPE_PCM SPECIFIER_WAVEFORMATEX)
      SPDIF_OFFLOAD_MAX_CHANNELS SPDIF_OFFLOAD_MIN_BITS_PER_SAMPLE SPDIF_OFFLOAD_MAX_BITS_PER_SAMPLE
        SPDIF_OFFLOAD_MIN_SAMPLE_RATE SPDIF_OFFLOAD_MAX_SAMPLE_RATE,
    KSDATARANGE_AUDIO.make
      (DATAFORMAT.make sizeof_KSDATARANGE_AUDIO 0 0 0 TYPE_AUDIO SUBTYPE_PCM SPECIFIER_WAVEFORMATEX)
      SPDIF_LOOPBACK_MAX_CHANNELS SPDIF_LOOPBACK_MIN_BITS_PER_SAMPLE SPDIF_LOOPBACK_MAX_BITS_PER_SAMPLE
        SPDIF_LOOPBACK_MIN_SAMPLE_RATE SPDIF_LOOPBACK_MAX_SAMPLE_RATE,
    KSDATARANGE_AUDIO.make
      (DATAFORMAT.make sizeof_KSDATARANGE_AUDIO KSDATARANGE_ATTRIBUTES 0 0 TYPE_AUDIO SUBTYPE_IEC61937_DOLBY_DIGITAL
        SPECIFIER_WAVEFORMATEX)
      SPDIF_DOLBY_DIGITAL_MAX_CHANNELS SPDIF_DOLBY_DIGITAL_MIN_BITS_PER_SAMPLE SPDIF_DOLBY_DIGITAL_MAX_BITS_PER_SAMPLE
        SPDIF_DOLBY_DIGITAL_MIN_SAMPLE_RATE SPDIF_DOLBY_DIGITAL_MAX_SAMPLE_RATE]"

definition SpdifPinDataRangePointersStream :: "PKSDATARANGE list" where [table_rows]:
  "SpdifPinDataRangePointersStream = [
    AudioRange (SpdifPinDataRangesStream, 0),
    PinDataRangeAttributeList,
    AudioRange (SpdifPinDataRangesStream, 3),
    PinDataRangeAttributeList]"

definition SpdifPinDataRangePointersOffloadStream :: "PKSDATARANGE list" where [table_rows]:
  "SpdifPinDataRangePointersOffloadStream = [
    AudioRange (SpdifPinDataRangesStream, 1),
    PinDataRangeAttributeList]"

definition SpdifPinDataRangePointersLoopbackStream :: "PKSDATARANGE list" where [table_rows]:
  "SpdifPinDataRangePointersLoopbackStream = [
    AudioRange (SpdifPinDataRangesStream, 2)]"

definition SpdifPinDataRangesBridge :: "KSDATARANGE list" where [table_rows]:
  "SpdifPinDataRangesBridge = [
    DATAFORMAT.make sizeof_KSDATARANGE 0 0 0 TYPE_AUDIO SUBTYPE_ANALOG SPECIFIER_NONE,
    DATAFORMAT.make sizeof_KSDATARANGE 0 0 0 TYPE_AUDIO SUBTYPE_IEC61937_DOLBY_DIGITAL SPECIFIER_NONE]"

definition SpdifPinDataRangePointersBridge :: "PKSDATARANGE list" where [table_rows]:
  "SpdifPinDataRangePointersBridge = [
    PlainRange (SpdifPinDataRangesBridge, 0),
    PlainRange (SpdifPinDataRangesBridge, 1)]"

definition PropertiesSpdifOffloadPin :: "PCPROPERTY_ITEM list" where [filter_defs]:
  "PropertiesSpdifOffloadPin = [
    PCPROPERTY_ITEM.make Set_OffloadPin OFFLOAD_PIN_GET_STREAM_OBJECT_POINTER
      (KSPROPERTY_TYPE_GET OR KSPROPERTY_TYPE_BASICSUPPORT) Handler_OffloadPin,
    PCPROPERTY_ITEM.make Set_OffloadPin OFFLOAD_PIN_VERIFY_STREAM_OBJECT_POINTER
      (KSPROPERTY_TYPE_SET OR KSPROPERTY_TYPE_BASICSUPPORT) Handler_OffloadPin]"

definition AutomationSpdifOffloadPin :: PCAUTOMATION_TABLE where [filter_defs]:
  "AutomationSpdifOffloadPin = PropertyTable PropertiesSpdifOffloadPin"

definition SpdifWaveMiniportPins :: "headers \<Rightarrow> PCPIN_DESCRIPTOR list" where [filter_defs]:
  "SpdifWaveMiniportPins h = [
    PCPIN_DESCRIPTOR.make SPDIF_MAX_INPUT_SYSTEM_STREAMS SPDIF_MAX_INPUT_SYSTEM_STREAMS 0 None
      (KSPIN_DESCRIPTOR.make 0 None 0 None (length SpdifPinDataRangePointersStream) SpdifPinDataRangePointersStream
        KSPIN_DATAFLOW_IN KSPIN_COMMUNICATION_SINK KSCATEGORY_AUDIO None 0),
    PCPIN_DESCRIPTOR.make (SPDIF_MAX_INPUT_OFFLOAD_STREAMS h) (SPDIF_MAX_INPUT_OFFLOAD_STREAMS h) 0 (Some
      AutomationSpdifOffloadPin)
      (KSPIN_DESCRIPTOR.make 0 None 0 None (length SpdifPinDataRangePointersOffloadStream)
        SpdifPinDataRangePointersOffloadStream KSPIN_DATAFLOW_IN KSPIN_COMMUNICATION_SINK KSCATEGORY_AUDIO None 0),
    PCPIN_DESCRIPTOR.make (SPDIF_MAX_OUTPUT_LOOPBACK_STREAMS h) (SPDIF_MAX_OUTPUT_LOOPBACK_STREAMS h) 0 None
      (KSPIN_DESCRIPTOR.make 0 None 0 None (length SpdifPinDataRangePointersLoopbackStream)
        SpdifPinDataRangePointersLoopbackStream KSPIN_DATAFLOW_OUT KSPIN_COMMUNICATION_SINK KSNODETYPE_AUDIO_LOOPBACK None 0),
    PCPIN_DESCRIPTOR.make 0 0 0 None
      (KSPIN_DESCRIPTOR.make 0 None 0 None (length SpdifPinDataRangePointersBridge) SpdifPinDataRangePointersBridge
        KSPIN_DATAFLOW_OUT KSPIN_COMMUNICATION_NONE KSCATEGORY_AUDIO None 0)]"

definition SpdifWaveMiniportNodes :: "PCNODE_DESCRIPTOR list" where [filter_defs]:
  "SpdifWaveMiniportNodes = [
    PCNODE_DESCRIPTOR.make 0 None KSNODETYPE_AUDIO_ENGINE None]"

definition SpdifWaveMiniportConnections :: "headers \<Rightarrow> PCCONNECTION_DESCRIPTOR list" where [filter_defs]:
  "SpdifWaveMiniportConnections h = [
    PCCONNECTION_DESCRIPTOR.make PCFILTER_NODE (enum h PIN_WAVE_RENDER_SINK_SYSTEM) (enum h NODE_WAVE_AUDIO_ENGINE) 1,
    PCCONNECTION_DESCRIPTOR.make PCFILTER_NODE (enum h PIN_WAVE_RENDER_SINK_OFFLOAD) (enum h NODE_WAVE_AUDIO_ENGINE) 2,
    PCCONNECTION_DESCRIPTOR.make (enum h NODE_WAVE_AUDIO_ENGINE) 3 PCFILTER_NODE (enum h PIN_WAVE_RENDER_SINK_LOOPBACK),
    PCCONNECTION_DESCRIPTOR.make (enum h NODE_WAVE_AUDIO_ENGINE) 0 PCFILTER_NODE (enum h PIN_WAVE_RENDER_SOURCE)]"

definition PropertiesSpdifWaveFilter :: "PCPROPERTY_ITEM list" where [filter_defs]:
  "PropertiesSpdifWaveFilter = [
    PCPROPERTY_ITEM.make Set_Pin PIN_PROPOSEDATAFORMAT
      (KSPROPERTY_TYPE_SET OR KSPROPERTY_TYPE_BASICSUPPORT) Handler_WaveFilter,
    PCPROPERTY_ITEM.make Set_SysVAD SYSVAD_DEFAULTSTREAMEFFECTS
      (KSPROPERTY_TYPE_GET OR KSPROPERTY_TYPE_BASICSUPPORT) Handler_WaveFilter]"

definition AutomationSpdifWaveFilter :: PCAUTOMATION_TABLE where [filter_defs]:
  "AutomationSpdifWaveFilter = PropertyTable PropertiesSpdifWaveFilter"

definition SpdifWaveMiniportFilterDescriptor :: "headers \<Rightarrow> PCFILTER_DESCRIPTOR" where [filter_defs]:
  "SpdifWaveMiniportFilterDescriptor h = PCFILTER_DESCRIPTOR.make 0 AutomationSpdifWaveFilter sizeof_PCPIN_DESCRIPTOR
    (length (SpdifWaveMiniportPins h)) (SpdifWaveMiniportPins h) sizeof_PCNODE_DESCRIPTOR (length SpdifWaveMiniportNodes)
    (Some SpdifWaveMiniportNodes)
     (length (SpdifWaveMiniportConnections h)) (SpdifWaveMiniportConnections h) 0 None"

section \<open>spdiftoptable.h\<close>

definition SpdifTopoPinDataRangesBridge :: "KSDATARANGE list" where [table_rows]:
  "SpdifTopoPinDataRangesBridge = [
    DATAFORMAT.make sizeof_KSDATARANGE 0 0 0 TYPE_AUDIO SUBTYPE_ANALOG SPECIFIER_NONE,
    DATAFORMAT.make sizeof_KSDATARANGE 0 0 0 TYPE_AUDIO SUBTYPE_IEC61937_DOLBY_DIGITAL SPECIFIER_NONE]"

definition SpdifTopoPinDataRangePointersBridge :: "PKSDATARANGE list" where [table_rows]:
  "SpdifTopoPinDataRangePointersBridge = [
    PlainRange (SpdifTopoPinDataRangesBridge, 0),
    PlainRange (SpdifTopoPinDataRangesBridge, 1)]"

definition SpdifTopoMiniportPins :: "PCPIN_DESCRIPTOR list" where [filter_defs]:
  "SpdifTopoMiniportPins = [
    PCPIN_DESCRIPTOR.make 0 0 0 None
      (KSPIN_DESCRIPTOR.make 0 None 0 None (length SpdifTopoPinDataRangePointersBridge) SpdifTopoPinDataRangePointersBridge
        KSPIN_DATAFLOW_IN KSPIN_COMMUNICATION_NONE KSCATEGORY_AUDIO None 0),
    PCPIN_DESCRIPTOR.make 0 0 0 None
      (KSPIN_DESCRIPTOR.make 0 None 0 None (length SpdifTopoPinDataRangePointersBridge) SpdifTopoPinDataRangePointersBridge
        KSPIN_DATAFLOW_OUT KSPIN_COMMUNICATION_NONE KSNODETYPE_SPDIF_INTERFACE None 0)]"

definition SpdifTopoMiniportConnections :: "headers \<Rightarrow> PCCONNECTION_DESCRIPTOR list" where [filter_defs]:
  "SpdifTopoMiniportConnections h = [
    PCCONNECTION_DESCRIPTOR.make PCFILTER_NODE (enum h PIN_TOPO_WAVEOUT_SOURCE) PCFILTER_NODE (enum h PIN_TOPO_LINEOUT_DEST)]"

definition PropertiesSpdifTopoFilter :: "PCPROPERTY_ITEM list" where [filter_defs]:
  "PropertiesSpdifTopoFilter = [
    PCPROPERTY_ITEM.make Set_Jack JACK_DESCRIPTION
      (KSPROPERTY_TYPE_GET OR KSPROPERTY_TYPE_BASICSUPPORT) Handler_SpdifTopoFilter,
    PCPROPERTY_ITEM.make Set_Jack JACK_DESCRIPTION2
      (KSPROPERTY_TYPE_GET OR KSPROPERTY_TYPE_BASICSUPPORT) Handler_SpdifTopoFilter]"

definition AutomationSpdifTopoFilter :: PCAUTOMATION_TABLE where [filter_defs]:
  "AutomationSpdifTopoFilter = PropertyTable PropertiesSpdifTopoFilter"

definition SpdifTopoMiniportFilterDescriptor :: "headers \<Rightarrow> PCFILTER_DESCRIPTOR" where [filter_defs]:
  "SpdifTopoMiniportFilterDescriptor h = PCFILTER_DESCRIPTOR.make 0 AutomationSpdifTopoFilter sizeof_PCPIN_DESCRIPTOR
    (length SpdifTopoMiniportPins) SpdifTopoMiniportPins sizeof_PCNODE_DESCRIPTOR 0 None
     (length (SpdifTopoMiniportConnections h)) (SpdifTopoMiniportConnections h) 0 None"

end
