(* ===== verification/MicTables.thy ===== *)
theory MicTables
  imports FilterTypes
begin

text \<open>
  The tables of the capture endpoints, row by row: micinwavtable.h and micintoptable.h, the second
  microphone array with a keyword pin and sound detector properties (micarray2wavtable.h and
  micarray2toptable.h), the third (micarray3wavtable.h and micarray3toptable.h). The handlers of the
  wave miniport are not in the repository and given by name.
\<close>

unbundle bit_operations_syntax

section \<open>micinwavtable.h\<close>

definition MICIN_DEVICE_MAX_CHANNELS :: nat where [table_consts]: "MICIN_DEVICE_MAX_CHANNELS = 1"
definition MICIN_MIN_BITS_PER_SAMPLE_PCM :: nat where [table_consts]: "MICIN_MIN_BITS_PER_SAMPLE_PCM = 16"
definition MICIN_MAX_BITS_PER_SAMPLE_PCM :: nat where [table_consts]: "MICIN_MAX_BITS_PER_SAMPLE_PCM = 16"
definition MICIN_MIN_SAMPLE_RATE :: nat where [table_consts]: "MICIN_MIN_SAMPLE_RATE = 8000"
definition MICIN_MAX_SAMPLE_RATE :: nat where [table_consts]: "MICIN_MAX_SAMPLE_RATE = 48000"
definition MICIN_MAX_INPUT_STREAMS :: nat where [table_consts]: "MICIN_MAX_INPUT_STREAMS = 5"

definition MicInPinSupportedDeviceFormats_1 :: "KSDATAFORMAT_WAVEFORMATEXTENSIBLE list" where [table_rows]:
  "MicInPinSupportedDeviceFormats_1 = [
    KSDATAFORMAT_WAVEFORMATEXTENSIBLE.make
      (DATAFORMAT.make sizeof_KSDATAFORMAT_WAVEFORMATEXTENSIBLE 0 0 0 TYPE_AUDIO SUBTYPE_PCM SPECIFIER_WAVEFORMATEX)
      (WAVEFORMATEXTENSIBLE.make
        (WAVEFORMATEX.make WAVE_FORMAT_EXTENSIBLE 1 8000 16000 2 16 (sizeof_WAVEFORMATEXTENSIBLE - sizeof_WAVEFORMATEX)) 16
          SPEAKER_MONO SUBTYPE_PCM),
    KSDATAFORMAT_WAVEFORMATEXTENSIBLE.make
      (DATAFORMAT.make sizeof_KSDATAFORMAT_WAVEFORMATEXTENSIBLE 0 0 0 TYPE_AUDIO SUBTYPE_PCM SPECIFIER_WAVEFORMATEX)
      (WAVEFORMATEXTENSIBLE.make
        (WAVEFORMATEX.make WAVE_FORMAT_EXTENSIBLE 1 11025 22050 2 16 (sizeof_WAVEFORMATEXTENSIBLE - sizeof_WAVEFORMATEX))
          16 SPEAKER_MONO SUBTYPE_PCM),
    KSDATAFORMAT_WAVEFORMATEXTENSIBLE.make
      (DATAFORMAT.make sizeof_KSDATAFORMAT_WAVEFORMATEXTENSIBLE 0 0 0 TYPE_AUDIO SUBTYPE_PCM SPECIFIER_WAVEFORMATEX)
      (WAVEFORMATEXTENSIBLE.make
        (WAVEFORMATEX.make WAVE_FORMAT_EXTENSIBLE 1 16000 32000 2 16 (sizeof_WAVEFORMATEXTENSIBLE - sizeof_WAVEFORMATEX))
          16 SPEAKER_MONO SUBTYPE_PCM),
    KSDATAFORMAT_WAVEFORMATEXTENSIBLE.make
      (DATAFORMAT.make sizeof_KSDATAFORMAT_WAVEFORMATEXTENSIBLE 0 0 0 TYPE_AUDIO SUBTYPE_PCM SPECIFIER_WAVEFORMATEX)
      (WAVEFORMATEXTENSIBLE.make
        (WAVEFORMATEX.make WAVE_FORMAT_EXTENSIBLE 1 22050 44100 2 16 (sizeof_WAVEFORMATEXTENSIBLE - sizeof_WAVEFORMATEX))
          16 SPEAKER_MONO SUBTYPE_PCM),
    KSDATAFORMAT_WAVEFORMATEXTENSIBLE.make
      (DATAFORMAT.make sizeof_KSDATAFORMAT_WAVEFORMATEXTENSIBLE 0 0 0 TYPE_AUDIO SUBTYPE_PCM SPECIFIER_WAVEFORMATEX)
      (WAVEFORMATEXTENSIBLE.make
        (WAVEFORMATEX.make WAVE_FORMAT_EXTENSIBLE 1 24000 48000 2 16 (sizeof_WAVEFORMATEXTENSIBLE - sizeof_WAVEFORMATEX))
          16 SPEAKER_MONO SUBTYPE_PCM),
    KSDATAFORMAT_WAVEFORMATEXTENSIBLE.make
      (DATAFORMAT.make sizeof_KSDATAFORMAT_WAVEFORMATEXTENSIBLE 0 0 0 TYPE_AUDIO SUBTYPE_PCM SPECIFIER_WAVEFORMATEX)
      (WAVEFORMATEXTENSIBLE.make
        (WAVEFORMATEX.make WAVE_FORMAT_EXTENSIBLE 1 32000 64000 2 16 (sizeof_WAVEFORMATEXTENSIBLE - sizeof_WAVEFORMATEX))
          16 SPEAKER_MONO SUBTYPE_PCM)]"

definition MicInPinSupportedDeviceFormats_2 :: "KSDATAFORMAT_WAVEFORMATEXTENSIBLE list" where [table_rows]:
  "MicInPinSupportedDeviceFormats_2 = [
    KSDATAFORMAT_WAVEFORMATEXTENSIBLE.make
      (DATAFORMAT.make sizeof_KSDATAFORMAT_WAVEFORMATEXTENSIBLE 0 0 0 TYPE_AUDIO SUBTYPE_PCM SPECIFIER_WAVEFORMATEX)
      (WAVEFORMATEXTENSIBLE.make
        (WAVEFORMATEX.make WAVE_FORMAT_EXTENSIBLE 1 44100 88200 2 16 (sizeof_WAVEFORMATEXTENSIBLE - sizeof_WAVEFORMATEX))
          16 SPEAKER_MONO SUBTYPE_PCM),
    KSDATAFORMAT_WAVEFORMATEXTENSIBLE.make
      (DATAFORMAT.make sizeof_KSDATAFORMAT_WAVEFORMATEXTENSIBLE 0 0 0 TYPE_AUDIO SUBTYPE_PCM SPECIFIER_WAVEFORMATEX)
      (WAVEFORMATEXTENSIBLE.make
        (WAVEFORMATEX.make WAVE_FORMAT_EXTENSIBLE 1 48000 96000 2 16 (sizeof_WAVEFORMATEXTENSIBLE - sizeof_WAVEFORMATEX))
          16 SPEAKER_MONO SUBTYPE_PCM)]"

definition MicInPinSupportedDeviceFormats :: "KSDATAFORMAT_WAVEFORMATEXTENSIBLE list" where [table_rows]:
  "MicInPinSupportedDeviceFormats = MicInPinSupportedDeviceFormats_1 @ MicInPinSupportedDeviceFormats_2"

definition MicInPinSupportedDeviceModes :: "MODE_AND_DEFAULT_FORMAT list" where [table_rows]:
  "MicInPinSupportedDeviceModes = [
    MODE_AND_DEFAULT_FORMAT.make SIGNALPROCESSINGMODE_RAW (Some (MicInPinSupportedDeviceFormats, length
      MicInPinSupportedDeviceFormats - 1)),
    MODE_AND_DEFAULT_FORMAT.make SIGNALPROCESSINGMODE_DEFAULT (Some (MicInPinSupportedDeviceFormats, length
      MicInPinSupportedDeviceFormats - 1)),
    MODE_AND_DEFAULT_FORMAT.make SIGNALPROCESSINGMODE_SPEECH (Some (MicInPinSupportedDeviceFormats, 2)),
    MODE_AND_DEFAULT_FORMAT.make SIGNALPROCESSINGMODE_COMMUNICATIONS (Some (MicInPinSupportedDeviceFormats, 4)),
    MODE_AND_DEFAULT_FORMAT.make SIGNALPROCESSINGMODE_FAR_FIELD_SPEECH (Some (MicInPinSupportedDeviceFormats, 2))]"

definition MicInPinDeviceFormatsAndModes :: "PIN_DEVICE_FORMATS_AND_MODES list" where [table_rows]:
  "MicInPinDeviceFormatsAndModes = [
    PIN_DEVICE_FORMATS_AND_MODES.make BridgePin None 0 None 0,
    PIN_DEVICE_FORMATS_AND_MODES.make SystemCapturePin (Some MicInPinSupportedDeviceFormats) (length
      MicInPinSupportedDeviceFormats) (Some MicInPinSupportedDeviceModes) (length MicInPinSupportedDeviceModes)]"

definition MicInPinDataRangesBridge :: "KSDATARANGE list" where [table_rows]:
  "MicInPinDataRangesBridge = [
    DATAFORMAT.make sizeof_KSDATARANGE 0 0 0 TYPE_AUDIO SUBTYPE_ANALOG SPECIFIER_NONE]"

definition MicInPinDataRangePointersBridge :: "PKSDATARANGE list" where [table_rows]:
  "MicInPinDataRangePointersBridge = [
    PlainRange (MicInPinDataRangesBridge, 0)]"

definition MicInPinDataRangesStream :: "KSDATARANGE_AUDIO list" where [table_rows]:
  "MicInPinDataRangesStream = [
    KSDATARANGE_AUDIO.make
      (DATAFORMAT.make sizeof_KSDATARANGE_AUDIO KSDATARANGE_ATTRIBUTES 0 0 TYPE_AUDIO SUBTYPE_PCM SPECIFIER_WAVEFORMATEX)
      MICIN_DEVICE_MAX_CHANNELS MICIN_MIN_BITS_PER_SAMPLE_PCM MICIN_MAX_BITS_PER_SAMPLE_PCM MICIN_MIN_SAMPLE_RATE
        MICIN_MAX_SAMPLE_RATE]"

definition MicInPinDataRangePointersStream :: "PKSDATARANGE list" where [table_rows]:
  "MicInPinDataRangePointersStream = [
    AudioRange (MicInPinDataRangesStream, 0),
    PinDataRangeAttributeList]"

definition MicInWaveMiniportPins :: "PCPIN_DESCRIPTOR list" where [filter_defs]:
  "MicInWaveMiniportPins = [
    PCPIN_DESCRIPTOR.make 0 0 0 None
      (KSPIN_DESCRIPTOR.make 0 None 0 None (length MicInPinDataRangePointersBridge) MicInPinDataRangePointersBridge
        KSPIN_DATAFLOW_IN KSPIN_COMMUNICATION_NONE KSCATEGORY_AUDIO None 0),
    PCPIN_DESCRIPTOR.make MICIN_MAX_INPUT_STREAMS MICIN_MAX_INPUT_STREAMS 0 None
      (KSPIN_DESCRIPTOR.make 0 None 0 None (length MicInPinDataRangePointersStream) MicInPinDataRangePointersStream
        KSPIN_DATAFLOW_OUT KSPIN_COMMUNICATION_SINK KSCATEGORY_AUDIO (Some KSAUDFNAME_RECORDING_CONTROL) 0)]"

definition MicInWaveMiniportNodes :: "PCNODE_DESCRIPTOR list" where [filter_defs]:
  "MicInWaveMiniportNodes = [
    PCNODE_DESCRIPTOR.make 0 None KSNODETYPE_ADC None]"

definition MicInWaveMiniportConnections :: "headers \<Rightarrow> PCCONNECTION_DESCRIPTOR list" where [filter_defs]:
  "MicInWaveMiniportConnections h = [
    PCCONNECTION_DESCRIPTOR.make PCFILTER_NODE (enum h PIN_WAVE_BRIDGE) (enum h NODE_WAVE_ADC) 1,
    PCCONNECTION_DESCRIPTOR.make (enum h NODE_WAVE_ADC) 0 PCFILTER_NODE (enum h PIN_WAVEIN_HOST)]"

definition PropertiesMicInWaveFilter :: "PCPROPERTY_ITEM list" where [filter_defs]:
  "PropertiesMicInWaveFilter = [
    PCPROPERTY_ITEM.make Set_General GENERAL_COMPONENTID
      (KSPROPERTY_TYPE_GET OR KSPROPERTY_TYPE_BASICSUPPORT) Handler_WaveFilter,
    PCPROPERTY_ITEM.make Set_Pin PIN_PROPOSEDATAFORMAT
      (KSPROPERTY_TYPE_SET OR KSPROPERTY_TYPE_BASICSUPPORT) Handler_WaveFilter,
    PCPROPERTY_ITEM.make Set_Pin PIN_PROPOSEDATAFORMAT2
      (KSPROPERTY_TYPE_GET OR KSPROPERTY_TYPE_BASICSUPPORT) Handler_WaveFilter]"

definition AutomationMicInWaveFilter :: PCAUTOMATION_TABLE where [filter_defs]:
  "AutomationMicInWaveFilter = PropertyTable PropertiesMicInWaveFilter"

definition MicInWaveMiniportFilterDescriptor :: "headers \<Rightarrow> PCFILTER_DESCRIPTOR" where [filter_defs]:
  "MicInWaveMiniportFilterDescriptor h = PCFILTER_DESCRIPTOR.make 0 AutomationMicInWaveFilter sizeof_PCPIN_DESCRIPTOR
    (length MicInWaveMiniportPins) MicInWaveMiniportPins sizeof_PCNODE_DESCRIPTOR (length MicInWaveMiniportNodes) (Some
    MicInWaveMiniportNodes)
     (length (MicInWaveMiniportConnections h)) (MicInWaveMiniportConnections h) 0 None"

section \<open>micintoptable.h\<close>

definition MicInTopoPinDataRangesBridge :: "KSDATARANGE list" where [table_rows]:
  "MicInTopoPinDataRangesBridge = [
    DATAFORMAT.make sizeof_KSDATARANGE 0 0 0 TYPE_AUDIO SUBTYPE_ANALOG SPECIFIER_NONE]"

definition MicInTopoPinDataRangePointersBridge :: "PKSDATARANGE list" where [table_rows]:
  "MicInTopoPinDataRangePointersBridge = [
    PlainRange (MicInTopoPinDataRangesBridge, 0)]"

definition MicInTopoMiniportPins :: "PCPIN_DESCRIPTOR list" where [filter_defs]:
  "MicInTopoMiniportPins = [
    PCPIN_DESCRIPTOR.make 0 0 0 None
      (KSPIN_DESCRIPTOR.make 0 None 0 None (length MicInTopoPinDataRangePointersBridge) MicInTopoPinDataRangePointersBridge
        KSPIN_DATAFLOW_IN KSPIN_COMMUNICATION_NONE KSNODETYPE_MICROPHONE (Some MICIN_CUSTOM_NAME) 0),
    PCPIN_DESCRIPTOR.make 0 0 0 None
      (KSPIN_DESCRIPTOR.make 0 None 0 None (length MicInTopoPinDataRangePointersBridge) MicInTopoPinDataRangePointersBridge
        KSPIN_DATAFLOW_OUT KSPIN_COMMUNICATION_NONE KSCATEGORY_AUDIO None 0)]"

definition MicInPropertiesVolume :: "PCPROPERTY_ITEM list" where [filter_defs]:
  "MicInPropertiesVolume = [
    PCPROPERTY_ITEM.make Set_Audio AUDIO_VOLUMELEVEL
      (KSPROPERTY_TYPE_GET OR KSPROPERTY_TYPE_SET OR KSPROPERTY_TYPE_BASICSUPPORT) Handler_Topology]"

definition AutomationMicInVolume :: PCAUTOMATION_TABLE where [filter_defs]:
  "AutomationMicInVolume = PropertyTable MicInPropertiesVolume"

definition MicInPropertiesMute :: "PCPROPERTY_ITEM list" where [filter_defs]:
  "MicInPropertiesMute = [
    PCPROPERTY_ITEM.make Set_Audio AUDIO_MUTE
      (KSPROPERTY_TYPE_GET OR KSPROPERTY_TYPE_SET OR KSPROPERTY_TYPE_BASICSUPPORT) Handler_Topology]"

definition AutomationMicInMute :: PCAUTOMATION_TABLE where [filter_defs]:
  "AutomationMicInMute = PropertyTable MicInPropertiesMute"

definition MicInPropertiesPeakMeter :: "PCPROPERTY_ITEM list" where [filter_defs]:
  "MicInPropertiesPeakMeter = [
    PCPROPERTY_ITEM.make Set_Audio AUDIO_PEAKMETER2
      (KSPROPERTY_TYPE_GET OR KSPROPERTY_TYPE_BASICSUPPORT) Handler_Topology,
    PCPROPERTY_ITEM.make Set_Audio AUDIO_CPU_RESOURCES
      (KSPROPERTY_TYPE_GET OR KSPROPERTY_TYPE_BASICSUPPORT) Handler_Topology]"

definition AutomationMicInPeakMeter :: PCAUTOMATION_TABLE where [filter_defs]:
  "AutomationMicInPeakMeter = PropertyTable MicInPropertiesPeakMeter"

definition MicInTopologyNodes :: "PCNODE_DESCRIPTOR list" where [filter_defs]:
  "MicInTopologyNodes = [
    PCNODE_DESCRIPTOR.make 0 (Some AutomationMicInVolume) KSNODETYPE_VOLUME (Some KSAUDFNAME_MIC_VOLUME),
    PCNODE_DESCRIPTOR.make 0 (Some AutomationMicInMute) KSNODETYPE_MUTE (Some KSAUDFNAME_MIC_MUTE),
    PCNODE_DESCRIPTOR.make 0 (Some AutomationMicInPeakMeter) KSNODETYPE_PEAKMETER (Some KSAUDFNAME_PEAKMETER)]"

definition MicInMiniportConnections :: "headers \<Rightarrow> PCCONNECTION_DESCRIPTOR list" where [filter_defs]:
  "MicInMiniportConnections h = [
    PCCONNECTION_DESCRIPTOR.make PCFILTER_NODE (enum h PIN_TOPO_MIC_ELEMENTS) (enum h NODE_TOPO_VOLUME) 1,
    PCCONNECTION_DESCRIPTOR.make (enum h NODE_TOPO_VOLUME) 0 (enum h NODE_TOPO_MUTE) 1,
    PCCONNECTION_DESCRIPTOR.make (enum h NODE_TOPO_MUTE) 0 (enum h NODE_TOPO_PEAKMETER) 1,
    PCCONNECTION_DESCRIPTOR.make (enum h NODE_TOPO_PEAKMETER) 0 PCFILTER_NODE (enum h PIN_TOPO_BRIDGE)]"

definition MicInPropertiesTopoFilter :: "PCPROPERTY_ITEM list" where [filter_defs]:
  "MicInPropertiesTopoFilter = [
    PCPROPERTY_ITEM.make Set_Jack JACK_DESCRIPTION
      (KSPROPERTY_TYPE_GET OR KSPROPERTY_TYPE_BASICSUPPORT) Handler_MicInTopoFilter,
    PCPROPERTY_ITEM.make Set_Jack JACK_DESCRIPTION2
      (KSPROPERTY_TYPE_GET OR KSPROPERTY_TYPE_BASICSUPPORT) Handler_MicInTopoFilter]"

definition AutomationMicInTopoFilter :: PCAUTOMATION_TABLE where [filter_defs]:
  "AutomationMicInTopoFilter = PropertyTable MicInPropertiesTopoFilter"

definition MicInTopoMiniportFilterDescriptor :: "headers \<Rightarrow> PCFILTER_DESCRIPTOR" where [filter_defs]:
  "MicInTopoMiniportFilterDescriptor h = PCFILTER_DESCRIPTOR.make 0 AutomationMicInTopoFilter sizeof_PCPIN_DESCRIPTOR
    (length MicInTopoMiniportPins) MicInTopoMiniportPins sizeof_PCNODE_DESCRIPTOR (length MicInTopologyNodes) (Some
    MicInTopologyNodes)
     (length (MicInMiniportConnections h)) (MicInMiniportConnections h) 0 None"

section \<open>micarray2wavtable.h\<close>

definition MICARRAY2_RAW_CHANNELS :: nat where [table_consts]: "MICARRAY2_RAW_CHANNELS = 2"
definition MICARRAY2_PROCESSED_CHANNELS :: nat where [table_consts]: "MICARRAY2_PROCESSED_CHANNELS = 1"
definition MICARRAY2_DEVICE_MAX_CHANNELS :: nat where [table_consts]: "MICARRAY2_DEVICE_MAX_CHANNELS = 2"
definition MICARRAY2_16_BITS_PER_SAMPLE_PCM :: nat where [table_consts]: "MICARRAY2_16_BITS_PER_SAMPLE_PCM = 16"
definition MICARRAY2_32_BITS_PER_SAMPLE_PCM :: nat where [table_consts]: "MICARRAY2_32_BITS_PER_SAMPLE_PCM = 32"
definition MICARRAY2_RAW_SAMPLE_RATE :: nat where [table_consts]: "MICARRAY2_RAW_SAMPLE_RATE = 48000"
definition MICARRAY2_PROCESSED_MIN_SAMPLE_RATE :: nat where [table_consts]: "MICARRAY2_PROCESSED_MIN_SAMPLE_RATE = 8000"
definition MICARRAY2_PROCESSED_MAX_SAMPLE_RATE :: nat where [table_consts]: "MICARRAY2_PROCESSED_MAX_SAMPLE_RATE = 48000"
definition MICARRAY2_MAX_INPUT_STREAMS :: nat where [table_consts]: "MICARRAY2_MAX_INPUT_STREAMS = 4"

definition MicArray2PinSupportedDeviceFormats_1 :: "KSDATAFORMAT_WAVEFORMATEXTENSIBLE list" where [table_rows]:
  "MicArray2PinSupportedDeviceFormats_1 = [
    KSDATAFORMAT_WAVEFORMATEXTENSIBLE.make
      (DATAFORMAT.make sizeof_KSDATAFORMAT_WAVEFORMATEXTENSIBLE 0 0 0 TYPE_AUDIO SUBTYPE_PCM SPECIFIER_WAVEFORMATEX)
      (WAVEFORMATEXTENSIBLE.make
        (WAVEFORMATEX.make WAVE_FORMAT_EXTENSIBLE 1 48000 96000 2 16 (sizeof_WAVEFORMATEXTENSIBLE - sizeof_WAVEFORMATEX))
          16 SPEAKER_MONO SUBTYPE_PCM),
    KSDATAFORMAT_WAVEFORMATEXTENSIBLE.make
      (DATAFORMAT.make sizeof_KSDATAFORMAT_WAVEFORMATEXTENSIBLE 0 0 0 TYPE_AUDIO SUBTYPE_PCM SPECIFIER_WAVEFORMATEX)
      (WAVEFORMATEXTENSIBLE.make
        (WAVEFORMATEX.make WAVE_FORMAT_EXTENSIBLE 1 8000 16000 2 16 (sizeof_WAVEFORMATEXTENSIBLE - sizeof_WAVEFORMATEX)) 16
          SPEAKER_MONO SUBTYPE_PCM),
    KSDATAFORMAT_WAVEFORMATEXTENSIBLE.make
      (DATAFORMAT.make sizeof_KSDATAFORMAT_WAVEFORMATEXTENSIBLE 0 0 0 TYPE_AUDIO SUBTYPE_PCM SPECIFIER_WAVEFORMATEX)
      (WAVEFORMATEXTENSIBLE.make
        (WAVEFORMATEX.make WAVE_FORMAT_EXTENSIBLE 1 11025 22050 2 16 (sizeof_WAVEFORMATEXTENSIBLE - sizeof_WAVEFORMATEX))
          16 SPEAKER_MONO SUBTYPE_PCM),
    KSDATAFORMAT_WAVEFORMATEXTENSIBLE.make
      (DATAFORMAT.make sizeof_KSDATAFORMAT_WAVEFORMATEXTENSIBLE 0 0 0 TYPE_AUDIO SUBTYPE_PCM SPECIFIER_WAVEFORMATEX)
      (WAVEFORMATEXTENSIBLE.make
        (WAVEFORMATEX.make WAVE_FORMAT_EXTENSIBLE 1 16000 32000 2 16 (sizeof_WAVEFORMATEXTENSIBLE - sizeof_WAVEFORMATEX))
          16 SPEAKER_MONO SUBTYPE_PCM),
    KSDATAFORMAT_WAVEFORMATEXTENSIBLE.make
      (DATAFORMAT.make sizeof_KSDATAFORMAT_WAVEFORMATEXTENSIBLE 0 0 0 TYPE_AUDIO SUBTYPE_PCM SPECIFIER_WAVEFORMATEX)
      (WAVEFORMATEXTENSIBLE.make
        (WAVEFORMATEX.make WAVE_FORMAT_EXTENSIBLE 1 22050 44100 2 16 (sizeof_WAVEFORMATEXTENSIBLE - sizeof_WAVEFORMATEX))
          16 SPEAKER_MONO SUBTYPE_PCM)]"

definition MicArray2PinSupportedDeviceFormats_2 :: "KSDATAFORMAT_WAVEFORMATEXTENSIBLE list" where [table_rows]:
  "MicArray2PinSupportedDeviceFormats_2 = [
    KSDATAFORMAT_WAVEFORMATEXTENSIBLE.make
      (DATAFORMAT.make sizeof_KSDATAFORMAT_WAVEFORMATEXTENSIBLE 0 0 0 TYPE_AUDIO SUBTYPE_PCM SPECIFIER_WAVEFORMATEX)
      (WAVEFORMATEXTENSIBLE.make
        (WAVEFORMATEX.make WAVE_FORMAT_EXTENSIBLE 1 24000 48000 2 16 (sizeof_WAVEFORMATEXTENSIBLE - sizeof_WAVEFORMATEX))
          16 SPEAKER_MONO SUBTYPE_PCM),
    KSDATAFORMAT_WAVEFORMATEXTENSIBLE.make
      (DATAFORMAT.make sizeof_KSDATAFORMAT_WAVEFORMATEXTENSIBLE 0 0 0 TYPE_AUDIO SUBTYPE_PCM SPECIFIER_WAVEFORMATEX)
      (WAVEFORMATEXTENSIBLE.make
        (WAVEFORMATEX.make WAVE_FORMAT_EXTENSIBLE 1 32000 64000 2 16 (sizeof_WAVEFORMATEXTENSIBLE - sizeof_WAVEFORMATEX))
          16 SPEAKER_MONO SUBTYPE_PCM),
    KSDATAFORMAT_WAVEFORMATEXTENSIBLE.make
      (DATAFORMAT.make sizeof_KSDATAFORMAT_WAVEFORMATEXTENSIBLE 0 0 0 TYPE_AUDIO SUBTYPE_PCM SPECIFIER_WAVEFORMATEX)
      (WAVEFORMATEXTENSIBLE.make
        (WAVEFORMATEX.make WAVE_FORMAT_EXTENSIBLE 1 44100 88200 2 16 (sizeof_WAVEFORMATEXTENSIBLE - sizeof_WAVEFORMATEX))
          16 SPEAKER_MONO SUBTYPE_PCM),
    KSDATAFORMAT_WAVEFORMATEXTENSIBLE.make
      (DATAFORMAT.make sizeof_KSDATAFORMAT_WAVEFORMATEXTENSIBLE 0 0 0 TYPE_AUDIO SUBTYPE_PCM SPECIFIER_WAVEFORMATEX)
      (WAVEFORMATEXTENSIBLE.make
        (WAVEFORMATEX.make WAVE_FORMAT_EXTENSIBLE 2 48000 384000 8 32 (sizeof_WAVEFORMATEXTENSIBLE - sizeof_WAVEFORMATEX))
          32 0 SUBTYPE_PCM)]"

definition MicArray2PinSupportedDeviceFormats :: "KSDATAFORMAT_WAVEFORMATEXTENSIBLE list" where [table_rows]:
  "MicArray2PinSupportedDeviceFormats = MicArray2PinSupportedDeviceFormats_1 @ MicArray2PinSupportedDeviceFormats_2"

definition MicArray2PinSupportedDeviceModes :: "MODE_AND_DEFAULT_FORMAT list" where [table_rows]:
  "MicArray2PinSupportedDeviceModes = [
    MODE_AND_DEFAULT_FORMAT.make SIGNALPROCESSINGMODE_RAW (Some (MicArray2PinSupportedDeviceFormats, length
      MicArray2PinSupportedDeviceFormats - 1)),
    MODE_AND_DEFAULT_FORMAT.make SIGNALPROCESSINGMODE_DEFAULT (Some (MicArray2PinSupportedDeviceFormats, 0)),
    MODE_AND_DEFAULT_FORMAT.make SIGNALPROCESSINGMODE_SPEECH (Some (MicArray2PinSupportedDeviceFormats, 3)),
    MODE_AND_DEFAULT_FORMAT.make SIGNALPROCESSINGMODE_COMMUNICATIONS (Some (MicArray2PinSupportedDeviceFormats, 5))]"

definition InterleavedFormatInformation :: INTERLEAVED_AUDIO_FORMAT_INFORMATION where [table_rows]:
  "InterleavedFormatInformation = INTERLEAVED_AUDIO_FORMAT_INFORMATION.make sizeof_INTERLEAVED_AUDIO_FORMAT_INFORMATION 4 0
    0 2 2 SPEAKER_STEREO"

definition KeywordPin2SupportedDeviceFormats :: "KSDATAFORMAT_WAVEFORMATEXTENSIBLE list" where [table_rows]:
  "KeywordPin2SupportedDeviceFormats = [
    KSDATAFORMAT_WAVEFORMATEXTENSIBLE.make
      (DATAFORMAT.make sizeof_KSDATAFORMAT_WAVEFORMATEXTENSIBLE 0 0 0 TYPE_AUDIO SUBTYPE_PCM SPECIFIER_WAVEFORMATEX)
      (WAVEFORMATEXTENSIBLE.make
        (WAVEFORMATEX.make WAVE_FORMAT_EXTENSIBLE 6 16000 192000 12 16 (sizeof_WAVEFORMATEXTENSIBLE - sizeof_WAVEFORMATEX))
          16 0 SUBTYPE_PCM)]"

definition KeywordPin2SupportedDeviceModes :: "MODE_AND_DEFAULT_FORMAT list" where [table_rows]:
  "KeywordPin2SupportedDeviceModes = [
    MODE_AND_DEFAULT_FORMAT.make SIGNALPROCESSINGMODE_SPEECH (Some (KeywordPin2SupportedDeviceFormats, length
      KeywordPin2SupportedDeviceFormats - 1))]"

definition MicArray2PinDeviceFormatsAndModes :: "PIN_DEVICE_FORMATS_AND_MODES list" where [table_rows]:
  "MicArray2PinDeviceFormatsAndModes = [
    PIN_DEVICE_FORMATS_AND_MODES.make BridgePin None 0 None 0,
    PIN_DEVICE_FORMATS_AND_MODES.make SystemCapturePin (Some MicArray2PinSupportedDeviceFormats) (length
      MicArray2PinSupportedDeviceFormats) (Some MicArray2PinSupportedDeviceModes) (length MicArray2PinSupportedDeviceModes),
    PIN_DEVICE_FORMATS_AND_MODES.make KeywordCapturePin (Some KeywordPin2SupportedDeviceFormats) (length
      KeywordPin2SupportedDeviceFormats) (Some KeywordPin2SupportedDeviceModes) (length KeywordPin2SupportedDeviceModes)]"

definition MicArray2PinDataRangesRawStream :: "KSDATARANGE_AUDIO list" where [table_rows]:
  "MicArray2PinDataRangesRawStream = [
    KSDATARANGE_AUDIO.make
      (DATAFORMAT.make sizeof_KSDATARANGE_AUDIO KSDATARANGE_ATTRIBUTES 0 0 TYPE_AUDIO SUBTYPE_PCM SPECIFIER_WAVEFORMATEX)
      MICARRAY2_RAW_CHANNELS MICARRAY2_32_BITS_PER_SAMPLE_PCM MICARRAY2_32_BITS_PER_SAMPLE_PCM MICARRAY2_RAW_SAMPLE_RATE
        MICARRAY2_RAW_SAMPLE_RATE]"

definition MicArray2PinDataRangesProcessedStream :: "KSDATARANGE_AUDIO list" where [table_rows]:
  "MicArray2PinDataRangesProcessedStream = [
    KSDATARANGE_AUDIO.make
      (DATAFORMAT.make sizeof_KSDATARANGE_AUDIO KSDATARANGE_ATTRIBUTES 0 0 TYPE_AUDIO SUBTYPE_PCM SPECIFIER_WAVEFORMATEX)
      MICARRAY2_PROCESSED_CHANNELS MICARRAY2_16_BITS_PER_SAMPLE_PCM MICARRAY2_16_BITS_PER_SAMPLE_PCM
        MICARRAY2_PROCESSED_MIN_SAMPLE_RATE MICARRAY2_PROCESSED_MIN_SAMPLE_RATE,
    KSDATARANGE_AUDIO.make
      (DATAFORMAT.make sizeof_KSDATARANGE_AUDIO KSDATARANGE_ATTRIBUTES 0 0 TYPE_AUDIO SUBTYPE_PCM SPECIFIER_WAVEFORMATEX)
      MICARRAY2_PROCESSED_CHANNELS MICARRAY2_16_BITS_PER_SAMPLE_PCM MICARRAY2_16_BITS_PER_SAMPLE_PCM 11025 11025,
    KSDATARANGE_AUDIO.make
      (DATAFORMAT.make sizeof_KSDATARANGE_AUDIO KSDATARANGE_ATTRIBUTES 0 0 TYPE_AUDIO SUBTYPE_PCM SPECIFIER_WAVEFORMATEX)
      MICARRAY2_PROCESSED_CHANNELS MICARRAY2_16_BITS_PER_SAMPLE_PCM MICARRAY2_16_BITS_PER_SAMPLE_PCM 16000 16000,
    KSDATARANGE_AUDIO.make
      (DATAFORMAT.make sizeof_KSDATARANGE_AUDIO KSDATARANGE_ATTRIBUTES 0 0 TYPE_AUDIO SUBTYPE_PCM SPECIFIER_WAVEFORMATEX)
      MICARRAY2_PROCESSED_CHANNELS MICARRAY2_16_BITS_PER_SAMPLE_PCM MICARRAY2_16_BITS_PER_SAMPLE_PCM 22050 22050,
    KSDATARANGE_AUDIO.make
      (DATAFORMAT.make sizeof_KSDATARANGE_AUDIO KSDATARANGE_ATTRIBUTES 0 0 TYPE_AUDIO SUBTYPE_PCM SPECIFIER_WAVEFORMATEX)
      MICARRAY2_PROCESSED_CHANNELS MICARRAY2_16_BITS_PER_SAMPLE_PCM MICARRAY2_16_BITS_PER_SAMPLE_PCM 24000 24000,
    KSDATARANGE_AUDIO.make
      (DATAFORMAT.make sizeof_KSDATARANGE_AUDIO KSDATARANGE_ATTRIBUTES 0 0 TYPE_AUDIO SUBTYPE_PCM SPECIFIER_WAVEFORMATEX)
      MICARRAY2_PROCESSED_CHANNELS MICARRAY2_16_BITS_PER_SAMPLE_PCM MICARRAY2_16_BITS_PER_SAMPLE_PCM 32000 32000,
    KSDATARANGE_AUDIO.make
      (DATAFORMAT.make sizeof_KSDATARANGE_AUDIO KSDATARANGE_ATTRIBUTES 0 0 TYPE_AUDIO SUBTYPE_PCM SPECIFIER_WAVEFORMATEX)
      MICARRAY2_PROCESSED_CHANNELS MICARRAY2_16_BITS_PER_SAMPLE_PCM MICARRAY2_16_BITS_PER_SAMPLE_PCM 44100 44100,
    KSDATARANGE_AUDIO.make
      (DATAFORMAT.make sizeof_KSDATARANGE_AUDIO KSDATARANGE_ATTRIBUTES 0 0 TYPE_AUDIO SUBTYPE_PCM SPECIFIER_WAVEFORMATEX)
      MICARRAY2_PROCESSED_CHANNELS MICARRAY2_16_BITS_PER_SAMPLE_PCM MICARRAY2_16_BITS_PER_SAMPLE_PCM
        MICARRAY2_PROCESSED_MAX_SAMPLE_RATE MICARRAY2_PROCESSED_MAX_SAMPLE_RATE]"

definition MicArray2PinDataRangePointersStream :: "PKSDATARANGE list" where [table_rows]:
  "MicArray2PinDataRangePointersStream = [
    AudioRange (MicArray2PinDataRangesProcessedStream, 0),
    PinDataRangeAttributeList,
    AudioRange (MicArray2PinDataRangesProcessedStream, 1),
    PinDataRangeAttributeList,
    AudioRange (MicArray2PinDataRangesProcessedStream, 2),
    PinDataRangeAttributeList,
    AudioRange (MicArray2PinDataRangesProcessedStream, 3),
    PinDataRangeAttributeList,
    AudioRange (MicArray2PinDataRangesProcessedStream, 4),
    PinDataRangeAttributeList,
    AudioRange (MicArray2PinDataRangesProcessedStream, 5),
    PinDataRangeAttributeList,
    AudioRange (MicArray2PinDataRangesProcessedStream, 6),
    PinDataRangeAttributeList,
    AudioRange (MicArray2PinDataRangesProcessedStream, 7),
    PinDataRangeAttributeList,
    AudioRange (MicArray2PinDataRangesRawStream, 0),
    PinDataRangeAttributeList]"

definition MicArray2PinDataRangesBridge :: "KSDATARANGE list" where [table_rows]:
  "MicArray2PinDataRangesBridge = [
    DATAFORMAT.make sizeof_KSDATARANGE 0 0 0 TYPE_AUDIO SUBTYPE_ANALOG SPECIFIER_NONE]"

definition MicArray2PinDataRangePointersBridge :: "PKSDATARANGE list" where [table_rows]:
  "MicArray2PinDataRangePointersBridge = [
    PlainRange (MicArray2PinDataRangesBridge, 0)]"

definition KeywordPin2DataRangesStream :: "KSDATARANGE_AUDIO list" where [table_rows]:
  "KeywordPin2DataRangesStream = [
    KSDATARANGE_AUDIO.make
      (DATAFORMAT.make sizeof_KSDATARANGE_AUDIO KSDATARANGE_ATTRIBUTES 0 0 TYPE_AUDIO SUBTYPE_PCM SPECIFIER_WAVEFORMATEX)
      6 16 16 16000 16000]"

definition KeywordPin2DataRangePointersStream :: "PKSDATARANGE list" where [table_rows]:
  "KeywordPin2DataRangePointersStream = [
    AudioRange (KeywordPin2DataRangesStream, 0),
    PinDataRangeAttributeList]"

definition MicArray2WaveMiniportPins :: "PCPIN_DESCRIPTOR list" where [filter_defs]:
  "MicArray2WaveMiniportPins = [
    PCPIN_DESCRIPTOR.make 0 0 0 None
      (KSPIN_DESCRIPTOR.make 0 None 0 None (length MicArray2PinDataRangePointersBridge) MicArray2PinDataRangePointersBridge
        KSPIN_DATAFLOW_IN KSPIN_COMMUNICATION_NONE KSCATEGORY_AUDIO None 0),
    PCPIN_DESCRIPTOR.make MICARRAY2_MAX_INPUT_STREAMS MICARRAY2_MAX_INPUT_STREAMS 0 None
      (KSPIN_DESCRIPTOR.make 0 None 0 None (length MicArray2PinDataRangePointersStream) MicArray2PinDataRangePointersStream
        KSPIN_DATAFLOW_OUT KSPIN_COMMUNICATION_SINK KSCATEGORY_AUDIO (Some KSAUDFNAME_RECORDING_CONTROL) 0),
    PCPIN_DESCRIPTOR.make 1 1 0 None
      (KSPIN_DESCRIPTOR.make 0 None 0 None (length KeywordPin2DataRangePointersStream) KeywordPin2DataRangePointersStream
        KSPIN_DATAFLOW_OUT KSPIN_COMMUNICATION_SINK KSNODETYPE_AUDIO_KEYWORDDETECTOR None 0)]"

definition MicArray2WaveMiniportNodes :: "PCNODE_DESCRIPTOR list" where [filter_defs]:
  "MicArray2WaveMiniportNodes = [
    PCNODE_DESCRIPTOR.make 0 None KSNODETYPE_ADC None]"

definition MicArray2WaveMiniportConnections :: "headers \<Rightarrow> PCCONNECTION_DESCRIPTOR list" where [filter_defs]:
  "MicArray2WaveMiniportConnections h = [
    PCCONNECTION_DESCRIPTOR.make PCFILTER_NODE (enum h PIN_WAVE_BRIDGE) (enum h NODE_WAVE_ADC) 1,
    PCCONNECTION_DESCRIPTOR.make (enum h NODE_WAVE_ADC) 0 PCFILTER_NODE (enum h PIN_WAVEIN_HOST),
    PCCONNECTION_DESCRIPTOR.make (enum h NODE_WAVE_ADC) 0 PCFILTER_NODE (enum h PIN_WAVEIN_KEYWORD)]"

definition PropertiesMicArray2WaveFilter_1 :: "headers \<Rightarrow> SYSVAD_ITEM list" where [filter_defs]:
  "PropertiesMicArray2WaveFilter_1 h = [
    SYSVAD_ITEM.make (PCPROPERTY_ITEM.make Set_General GENERAL_COMPONENTID
      (KSPROPERTY_TYPE_GET OR KSPROPERTY_TYPE_BASICSUPPORT) Handler_WaveFilter)
      0 0 None None None None 0,
    SYSVAD_ITEM.make (PCPROPERTY_ITEM.make Set_Pin PIN_PROPOSEDATAFORMAT
      (KSPROPERTY_TYPE_SET OR KSPROPERTY_TYPE_GET OR KSPROPERTY_TYPE_BASICSUPPORT) Handler_WaveFilter)
      0 0 None None None None 0,
    SYSVAD_ITEM.make (PCPROPERTY_ITEM.make Set_Pin PIN_PROPOSEDATAFORMAT2
      (KSPROPERTY_TYPE_GET OR KSPROPERTY_TYPE_BASICSUPPORT) Handler_WaveFilter)
      0 0 None None None None 0,
    SYSVAD_ITEM.make (PCPROPERTY_ITEM.make Set_AudioEffectsDiscovery AUDIOEFFECTSDISCOVERY_EFFECTSLIST
      (KSPROPERTY_TYPE_GET OR KSPROPERTY_TYPE_BASICSUPPORT) Handler_WaveFilter)
      0 0 None None None None 0,
    SYSVAD_ITEM.make (PCPROPERTY_ITEM.make Set_SoundDetector SOUNDDETECTOR_SUPPORTEDPATTERNS
      (KSPROPERTY_TYPE_GET OR KSPROPERTY_TYPE_BASICSUPPORT) Handler_Sysvad)
      0 (size_of h ''CONTOSO_SUPPORTEDPATTERNSVALUE'') (Some ''CMiniportWaveRT_Get_SoundDetectorSupportedPatterns'') None
        None None 0,
    SYSVAD_ITEM.make (PCPROPERTY_ITEM.make Set_SoundDetector SOUNDDETECTOR_PATTERNS
      (KSPROPERTY_TYPE_SET OR KSPROPERTY_TYPE_BASICSUPPORT) Handler_Sysvad)
      0 ((size_of h ''KSMULTIPLE_ITEM'') + (size_of h ''CONTOSO_KEYWORDCONFIGURATION'')) None (Some
        ''CMiniportWaveRT_Set_SoundDetectorPatterns'') None None 0,
    SYSVAD_ITEM.make (PCPROPERTY_ITEM.make Set_SoundDetector SOUNDDETECTOR_ARMED
      (KSPROPERTY_TYPE_GET OR KSPROPERTY_TYPE_SET OR KSPROPERTY_TYPE_BASICSUPPORT) Handler_Sysvad)
      0 (size_of h ''BOOL'') (Some ''CMiniportWaveRT_Get_SoundDetectorArmed'') (Some
        ''CMiniportWaveRT_Set_SoundDetectorArmed'') None None 0,
    SYSVAD_ITEM.make (PCPROPERTY_ITEM.make Set_SoundDetector SOUNDDETECTOR_MATCHRESULT
      (KSPROPERTY_TYPE_GET OR KSPROPERTY_TYPE_BASICSUPPORT) Handler_Sysvad)
      0 (size_of h ''CONTOSO_KEYWORDDETECTIONRESULT'') (Some ''CMiniportWaveRT_Get_SoundDetectorMatchResult'') None None None 0,
    SYSVAD_ITEM.make (PCPROPERTY_ITEM.make Set_SoundDetector2 SOUNDDETECTOR_SUPPORTEDPATTERNS
      (KSPROPERTY_TYPE_GET OR KSPROPERTY_TYPE_BASICSUPPORT) Handler_Sysvad)
      ((size_of h ''KSSOUNDDETECTORPROPERTY'') - (size_of h ''KSPROPERTY'')) (size_of h ''CONTOSO_SUPPORTEDPATTERNSVALUE'')
        (Some ''CMiniportWaveRT_Get_SoundDetectorSupportedPatterns2'') None None None 0,
    SYSVAD_ITEM.make (PCPROPERTY_ITEM.make Set_SoundDetector2 SOUNDDETECTOR_PATTERNS
      (KSPROPERTY_TYPE_SET OR KSPROPERTY_TYPE_BASICSUPPORT) Handler_Sysvad)
      ((size_of h ''KSSOUNDDETECTORPROPERTY'') - (size_of h ''KSPROPERTY'')) ((size_of h ''KSMULTIPLE_ITEM'') + (size_of h
        ''CONTOSO_KEYWORDCONFIGURATION'')) None (Some ''CMiniportWaveRT_Set_SoundDetectorPatterns2'') None None 0]"

definition PropertiesMicArray2WaveFilter_2 :: "headers \<Rightarrow> SYSVAD_ITEM list" where [filter_defs]:
  "PropertiesMicArray2WaveFilter_2 h = [
    SYSVAD_ITEM.make (PCPROPERTY_ITEM.make Set_SoundDetector2 SOUNDDETECTOR_ARMED
      (KSPROPERTY_TYPE_GET OR KSPROPERTY_TYPE_SET OR KSPROPERTY_TYPE_BASICSUPPORT) Handler_Sysvad)
      ((size_of h ''KSSOUNDDETECTORPROPERTY'') - (size_of h ''KSPROPERTY'')) (size_of h ''BOOL'') (Some
        ''CMiniportWaveRT_Get_SoundDetectorArmed2'') (Some ''CMiniportWaveRT_Set_SoundDetectorArmed2'') None None 0,
    SYSVAD_ITEM.make (PCPROPERTY_ITEM.make Set_SoundDetector2 SOUNDDETECTOR_RESET
      (KSPROPERTY_TYPE_SET OR KSPROPERTY_TYPE_BASICSUPPORT) Handler_Sysvad)
      ((size_of h ''KSSOUNDDETECTORPROPERTY'') - (size_of h ''KSPROPERTY'')) (size_of h ''BOOL'') None (Some
        ''CMiniportWaveRT_Set_SoundDetectorReset2'') None None 0,
    SYSVAD_ITEM.make (PCPROPERTY_ITEM.make Set_SoundDetector2 SOUNDDETECTOR_STREAMINGSUPPORT
      (KSPROPERTY_TYPE_GET OR KSPROPERTY_TYPE_BASICSUPPORT) Handler_Sysvad)
      ((size_of h ''KSSOUNDDETECTORPROPERTY'') - (size_of h ''KSPROPERTY'')) (size_of h ''BOOL'') (Some
        ''CMiniportWaveRT_Get_SoundDetectorStreamingSupport2'') None None None 0,
    SYSVAD_ITEM.make (PCPROPERTY_ITEM.make Set_InterleavedAudio INTERLEAVEDAUDIO_FORMATINFORMATION
      (KSPROPERTY_TYPE_GET OR KSPROPERTY_TYPE_BASICSUPPORT) Handler_Sysvad)
      ((size_of h ''KSP_PIN'') - (size_of h ''KSPROPERTY'')) sizeof_INTERLEAVED_AUDIO_FORMAT_INFORMATION (Some
        ''CMiniportWaveRT_Get_InterleavedFormatInformation'') None None (Some InterleavedFormatInformation)
        sizeof_INTERLEAVED_AUDIO_FORMAT_INFORMATION]"

definition PropertiesMicArray2WaveFilter :: "headers \<Rightarrow> SYSVAD_ITEM list" where [filter_defs]:
  "PropertiesMicArray2WaveFilter h = (PropertiesMicArray2WaveFilter_1 h) @ (PropertiesMicArray2WaveFilter_2 h)"

definition EventsMicArray2WaveFilter :: "PCEVENT_ITEM list" where [filter_defs]:
  "EventsMicArray2WaveFilter = [
    PCEVENT_ITEM.make ''KSEVENTSETID_SoundDetector'' ''KSEVENT_SOUNDDETECTOR_MATCHDETECTED'' (KSEVENT_TYPE_ENABLE OR
      KSEVENT_TYPE_BASICSUPPORT) ''CMiniportWaveRT_EventHandler_SoundDetectorMatchDetected'']"

definition AutomationMicArray2WaveFilter :: "headers \<Rightarrow> PCAUTOMATION_TABLE" where [filter_defs]:
  "AutomationMicArray2WaveFilter h = SysvadTable (PropertiesMicArray2WaveFilter h) EventsMicArray2WaveFilter"

definition MicArray2WaveMiniportFilterDescriptor :: "headers \<Rightarrow> PCFILTER_DESCRIPTOR" where [filter_defs]:
  "MicArray2WaveMiniportFilterDescriptor h = PCFILTER_DESCRIPTOR.make 0 (AutomationMicArray2WaveFilter h)
    sizeof_PCPIN_DESCRIPTOR (length MicArray2WaveMiniportPins) MicArray2WaveMiniportPins sizeof_PCNODE_DESCRIPTOR (length
    MicArray2WaveMiniportNodes) (Some MicArray2WaveMiniportNodes)
     (length (MicArray2WaveMiniportConnections h)) (MicArray2WaveMiniportConnections h) 0 None"

section \<open>micarray2toptable.h\<close>

definition MicArray2TopoPinDataRangesBridge :: "KSDATARANGE list" where [table_rows]:
  "MicArray2TopoPinDataRangesBridge = [
    DATAFORMAT.make sizeof_KSDATARANGE 0 0 0 TYPE_AUDIO SUBTYPE_ANALOG SPECIFIER_NONE]"

definition MicArray2TopoPinDataRangePointersBridge :: "PKSDATARANGE list" where [table_rows]:
  "MicArray2TopoPinDataRangePointersBridge = [
    PlainRange (MicArray2TopoPinDataRangesBridge, 0)]"

definition MicArray2TopoMiniportPins :: "PCPIN_DESCRIPTOR list" where [filter_defs]:
  "MicArray2TopoMiniportPins = [
    PCPIN_DESCRIPTOR.make 0 0 0 None
      (KSPIN_DESCRIPTOR.make 0 None 0 None (length MicArray2TopoPinDataRangePointersBridge)
        MicArray2TopoPinDataRangePointersBridge KSPIN_DATAFLOW_IN KSPIN_COMMUNICATION_NONE KSNODETYPE_MICROPHONE_ARRAY
        (Some MICARRAY2_CUSTOM_NAME) 0),
    PCPIN_DESCRIPTOR.make 0 0 0 None
      (KSPIN_DESCRIPTOR.make 0 None 0 None (length MicArray2TopoPinDataRangePointersBridge)
        MicArray2TopoPinDataRangePointersBridge KSPIN_DATAFLOW_OUT KSPIN_COMMUNICATION_NONE KSCATEGORY_AUDIO None 0)]"

definition MicArray2PropertiesVolume :: "PCPROPERTY_ITEM list" where [filter_defs]:
  "MicArray2PropertiesVolume = [
    PCPROPERTY_ITEM.make Set_Audio AUDIO_VOLUMELEVEL
      (KSPROPERTY_TYPE_GET OR KSPROPERTY_TYPE_SET OR KSPROPERTY_TYPE_BASICSUPPORT) Handler_MicArrayTopology]"

definition AutomationMicArray2Volume :: PCAUTOMATION_TABLE where [filter_defs]:
  "AutomationMicArray2Volume = PropertyTable MicArray2PropertiesVolume"

definition MicArray2PropertiesMute :: "PCPROPERTY_ITEM list" where [filter_defs]:
  "MicArray2PropertiesMute = [
    PCPROPERTY_ITEM.make Set_Audio AUDIO_MUTE
      (KSPROPERTY_TYPE_GET OR KSPROPERTY_TYPE_SET OR KSPROPERTY_TYPE_BASICSUPPORT) Handler_MicArrayTopology]"

definition AutomationMicArray2Mute :: PCAUTOMATION_TABLE where [filter_defs]:
  "AutomationMicArray2Mute = PropertyTable MicArray2PropertiesMute"

definition MicArray2PropertiesPeakMeter :: "PCPROPERTY_ITEM list" where [filter_defs]:
  "MicArray2PropertiesPeakMeter = [
    PCPROPERTY_ITEM.make Set_Audio AUDIO_PEAKMETER2
      (KSPROPERTY_TYPE_GET OR KSPROPERTY_TYPE_BASICSUPPORT) Handler_MicArrayTopology,
    PCPROPERTY_ITEM.make Set_Audio AUDIO_CPU_RESOURCES
      (KSPROPERTY_TYPE_GET OR KSPROPERTY_TYPE_BASICSUPPORT) Handler_MicArrayTopology]"

definition AutomationMicArray2PeakMeter :: PCAUTOMATION_TABLE where [filter_defs]:
  "AutomationMicArray2PeakMeter = PropertyTable MicArray2PropertiesPeakMeter"

definition MicArray2TopologyNodes :: "PCNODE_DESCRIPTOR list" where [filter_defs]:
  "MicArray2TopologyNodes = [
    PCNODE_DESCRIPTOR.make 0 (Some AutomationMicArray2Volume) KSNODETYPE_VOLUME (Some KSAUDFNAME_MIC_VOLUME),
    PCNODE_DESCRIPTOR.make 0 (Some AutomationMicArray2Mute) KSNODETYPE_MUTE (Some KSAUDFNAME_MIC_MUTE),
    PCNODE_DESCRIPTOR.make 0 (Some AutomationMicArray2PeakMeter) KSNODETYPE_PEAKMETER (Some KSAUDFNAME_PEAKMETER)]"

definition MicArray2TopoMiniportConnections :: "headers \<Rightarrow> PCCONNECTION_DESCRIPTOR list" where [filter_defs]:
  "MicArray2TopoMiniportConnections h = [
    PCCONNECTION_DESCRIPTOR.make PCFILTER_NODE (enum h PIN_TOPO_MIC_ELEMENTS) (enum h NODE_TOPO_VOLUME) 1,
    PCCONNECTION_DESCRIPTOR.make (enum h NODE_TOPO_VOLUME) 0 (enum h NODE_TOPO_MUTE) 1,
    PCCONNECTION_DESCRIPTOR.make (enum h NODE_TOPO_MUTE) 0 (enum h NODE_TOPO_PEAKMETER) 1,
    PCCONNECTION_DESCRIPTOR.make (enum h NODE_TOPO_PEAKMETER) 0 PCFILTER_NODE (enum h PIN_TOPO_BRIDGE)]"

definition MicArray2PropertiesTopoFilter :: "PCPROPERTY_ITEM list" where [filter_defs]:
  "MicArray2PropertiesTopoFilter = [
    PCPROPERTY_ITEM.make Set_Jack JACK_DESCRIPTION
      (KSPROPERTY_TYPE_GET OR KSPROPERTY_TYPE_BASICSUPPORT) Handler_MicArrayTopoFilter,
    PCPROPERTY_ITEM.make Set_Jack JACK_DESCRIPTION2
      (KSPROPERTY_TYPE_GET OR KSPROPERTY_TYPE_BASICSUPPORT) Handler_MicArrayTopoFilter,
    PCPROPERTY_ITEM.make Set_Audio AUDIO_MIC_ARRAY_GEOMETRY
      (KSPROPERTY_TYPE_GET OR KSPROPERTY_TYPE_BASICSUPPORT) Handler_MicArrayTopoFilter]"

definition AutomationMicArray2TopoFilter :: PCAUTOMATION_TABLE where [filter_defs]:
  "AutomationMicArray2TopoFilter = PropertyTable MicArray2PropertiesTopoFilter"

definition MicArray2TopoMiniportFilterDescriptor :: "headers \<Rightarrow> PCFILTER_DESCRIPTOR" where [filter_defs]:
  "MicArray2TopoMiniportFilterDescriptor h = PCFILTER_DESCRIPTOR.make 0 AutomationMicArray2TopoFilter
    sizeof_PCPIN_DESCRIPTOR (length MicArray2TopoMiniportPins) MicArray2TopoMiniportPins sizeof_PCNODE_DESCRIPTOR (length
    MicArray2TopologyNodes) (Some MicArray2TopologyNodes)
     (length (MicArray2TopoMiniportConnections h)) (MicArray2TopoMiniportConnections h) 0 None"

section \<open>micarray3wavtable.h\<close>

definition MICARRAY3_RAW_CHANNELS :: nat where [table_consts]: "MICARRAY3_RAW_CHANNELS = 4"
definition MICARRAY3_PROCESSED_CHANNELS :: nat where [table_consts]: "MICARRAY3_PROCESSED_CHANNELS = 1"
definition MICARRAY3_DEVICE_MAX_CHANNELS :: nat where [table_consts]: "MICARRAY3_DEVICE_MAX_CHANNELS = 4"
definition MICARRAY3_MIN_BITS_PER_SAMPLE_PCM :: nat where [table_consts]: "MICARRAY3_MIN_BITS_PER_SAMPLE_PCM = 16"
definition MICARRAY3_MAX_BITS_PER_SAMPLE_PCM :: nat where [table_consts]: "MICARRAY3_MAX_BITS_PER_SAMPLE_PCM = 16"
definition MICARRAY3_RAW_SAMPLE_RATE :: nat where [table_consts]: "MICARRAY3_RAW_SAMPLE_RATE = 48000"
definition MICARRAY3_MAX_INPUT_STREAMS :: nat where [table_consts]: "MICARRAY3_MAX_INPUT_STREAMS = 2"

definition MicArray3PinSupportedDeviceFormats :: "KSDATAFORMAT_WAVEFORMATEXTENSIBLE list" where [table_rows]:
  "MicArray3PinSupportedDeviceFormats = [
    KSDATAFORMAT_WAVEFORMATEXTENSIBLE.make
      (DATAFORMAT.make sizeof_KSDATAFORMAT_WAVEFORMATEXTENSIBLE 0 0 0 TYPE_AUDIO SUBTYPE_PCM SPECIFIER_WAVEFORMATEX)
      (WAVEFORMATEXTENSIBLE.make
        (WAVEFORMATEX.make WAVE_FORMAT_EXTENSIBLE 1 48000 96000 2 16 (sizeof_WAVEFORMATEXTENSIBLE - sizeof_WAVEFORMATEX))
          16 SPEAKER_MONO SUBTYPE_PCM),
    KSDATAFORMAT_WAVEFORMATEXTENSIBLE.make
      (DATAFORMAT.make sizeof_KSDATAFORMAT_WAVEFORMATEXTENSIBLE 0 0 0 TYPE_AUDIO SUBTYPE_PCM SPECIFIER_WAVEFORMATEX)
      (WAVEFORMATEXTENSIBLE.make
        (WAVEFORMATEX.make WAVE_FORMAT_EXTENSIBLE 1 16000 32000 2 16 (sizeof_WAVEFORMATEXTENSIBLE - sizeof_WAVEFORMATEX))
          16 SPEAKER_MONO SUBTYPE_PCM),
    KSDATAFORMAT_WAVEFORMATEXTENSIBLE.make
      (DATAFORMAT.make sizeof_KSDATAFORMAT_WAVEFORMATEXTENSIBLE 0 0 0 TYPE_AUDIO SUBTYPE_PCM SPECIFIER_WAVEFORMATEX)
      (WAVEFORMATEXTENSIBLE.make
        (WAVEFORMATEX.make WAVE_FORMAT_EXTENSIBLE 1 11025 22050 2 16 (sizeof_WAVEFORMATEXTENSIBLE - sizeof_WAVEFORMATEX))
          16 SPEAKER_MONO SUBTYPE_PCM),
    KSDATAFORMAT_WAVEFORMATEXTENSIBLE.make
      (DATAFORMAT.make sizeof_KSDATAFORMAT_WAVEFORMATEXTENSIBLE 0 0 0 TYPE_AUDIO SUBTYPE_PCM SPECIFIER_WAVEFORMATEX)
      (WAVEFORMATEXTENSIBLE.make
        (WAVEFORMATEX.make WAVE_FORMAT_EXTENSIBLE 1 8000 16000 2 16 (sizeof_WAVEFORMATEXTENSIBLE - sizeof_WAVEFORMATEX)) 16
          SPEAKER_MONO SUBTYPE_PCM),
    KSDATAFORMAT_WAVEFORMATEXTENSIBLE.make
      (DATAFORMAT.make sizeof_KSDATAFORMAT_WAVEFORMATEXTENSIBLE 0 0 0 TYPE_AUDIO SUBTYPE_PCM SPECIFIER_WAVEFORMATEX)
      (WAVEFORMATEXTENSIBLE.make
        (WAVEFORMATEX.make WAVE_FORMAT_EXTENSIBLE 4 48000 384000 8 16 (sizeof_WAVEFORMATEXTENSIBLE - sizeof_WAVEFORMATEX))
          16 0 SUBTYPE_PCM)]"

definition MicArray3PinSupportedDeviceModes :: "MODE_AND_DEFAULT_FORMAT list" where [table_rows]:
  "MicArray3PinSupportedDeviceModes = [
    MODE_AND_DEFAULT_FORMAT.make SIGNALPROCESSINGMODE_RAW (Some (MicArray3PinSupportedDeviceFormats, length
      MicArray3PinSupportedDeviceFormats - 1)),
    MODE_AND_DEFAULT_FORMAT.make SIGNALPROCESSINGMODE_DEFAULT (Some (MicArray3PinSupportedDeviceFormats, 0))]"

definition MicArray3PinDeviceFormatsAndModes :: "PIN_DEVICE_FORMATS_AND_MODES list" where [table_rows]:
  "MicArray3PinDeviceFormatsAndModes = [
    PIN_DEVICE_FORMATS_AND_MODES.make BridgePin None 0 None 0,
    PIN_DEVICE_FORMATS_AND_MODES.make SystemCapturePin (Some MicArray3PinSupportedDeviceFormats) (length
      MicArray3PinSupportedDeviceFormats) (Some MicArray3PinSupportedDeviceModes) (length MicArray3PinSupportedDeviceModes)]"

definition MicArray3PinDataRangesRawStream :: "KSDATARANGE_AUDIO list" where [table_rows]:
  "MicArray3PinDataRangesRawStream = [
    KSDATARANGE_AUDIO.make
      (DATAFORMAT.make sizeof_KSDATARANGE_AUDIO KSDATARANGE_ATTRIBUTES 0 0 TYPE_AUDIO SUBTYPE_PCM SPECIFIER_WAVEFORMATEX)
      MICARRAY3_RAW_CHANNELS MICARRAY3_MIN_BITS_PER_SAMPLE_PCM MICARRAY3_MAX_BITS_PER_SAMPLE_PCM MICARRAY3_RAW_SAMPLE_RATE
        MICARRAY3_RAW_SAMPLE_RATE]"

definition MicArray3PinDataRangesProcessedStream :: "KSDATARANGE_AUDIO list" where [table_rows]:
  "MicArray3PinDataRangesProcessedStream = [
    KSDATARANGE_AUDIO.make
      (DATAFORMAT.make sizeof_KSDATARANGE_AUDIO KSDATARANGE_ATTRIBUTES 0 0 TYPE_AUDIO SUBTYPE_PCM SPECIFIER_WAVEFORMATEX)
      MICARRAY3_PROCESSED_CHANNELS MICARRAY3_MIN_BITS_PER_SAMPLE_PCM MICARRAY3_MAX_BITS_PER_SAMPLE_PCM 48000 48000,
    KSDATARANGE_AUDIO.make
      (DATAFORMAT.make sizeof_KSDATARANGE_AUDIO KSDATARANGE_ATTRIBUTES 0 0 TYPE_AUDIO SUBTYPE_PCM SPECIFIER_WAVEFORMATEX)
      MICARRAY3_PROCESSED_CHANNELS MICARRAY3_MIN_BITS_PER_SAMPLE_PCM MICARRAY3_MAX_BITS_PER_SAMPLE_PCM 16000 16000,
    KSDATARANGE_AUDIO.make
      (DATAFORMAT.make sizeof_KSDATARANGE_AUDIO KSDATARANGE_ATTRIBUTES 0 0 TYPE_AUDIO SUBTYPE_PCM SPECIFIER_WAVEFORMATEX)
      MICARRAY3_PROCESSED_CHANNELS MICARRAY3_MIN_BITS_PER_SAMPLE_PCM MICARRAY3_MAX_BITS_PER_SAMPLE_PCM 11025 11025,
    KSDATARANGE_AUDIO.make
      (DATAFORMAT.make sizeof_KSDATARANGE_AUDIO KSDATARANGE_ATTRIBUTES 0 0 TYPE_AUDIO SUBTYPE_PCM SPECIFIER_WAVEFORMATEX)
      MICARRAY3_PROCESSED_CHANNELS MICARRAY3_MIN_BITS_PER_SAMPLE_PCM MICARRAY3_MAX_BITS_PER_SAMPLE_PCM 8000 8000]"

definition MicArray3PinDataRangePointersStream :: "PKSDATARANGE list" where [table_rows]:
  "MicArray3PinDataRangePointersStream = [
    AudioRange (MicArray3PinDataRangesProcessedStream, 0),
    PinDataRangeAttributeList,
    AudioRange (MicArray3PinDataRangesProcessedStream, 1),
    PinDataRangeAttributeList,
    AudioRange (MicArray3PinDataRangesProcessedStream, 2),
    PinDataRangeAttributeList,
    AudioRange (MicArray3PinDataRangesProcessedStream, 3),
    PinDataRangeAttributeList,
    AudioRange (MicArray3PinDataRangesRawStream, 0),
    PinDataRangeAttributeList]"

definition MicArray3PinDataRangesBridge :: "KSDATARANGE list" where [table_rows]:
  "MicArray3PinDataRangesBridge = [
    DATAFORMAT.make sizeof_KSDATARANGE 0 0 0 TYPE_AUDIO SUBTYPE_ANALOG SPECIFIER_NONE]"

definition MicArray3PinDataRangePointersBridge :: "PKSDATARANGE list" where [table_rows]:
  "MicArray3PinDataRangePointersBridge = [
    PlainRange (MicArray3PinDataRangesBridge, 0)]"

definition MicArray3WaveMiniportPins :: "PCPIN_DESCRIPTOR list" where [filter_defs]:
  "MicArray3WaveMiniportPins = [
    PCPIN_DESCRIPTOR.make 0 0 0 None
      (KSPIN_DESCRIPTOR.make 0 None 0 None (length MicArray3PinDataRangePointersBridge) MicArray3PinDataRangePointersBridge
        KSPIN_DATAFLOW_IN KSPIN_COMMUNICATION_NONE KSCATEGORY_AUDIO None 0),
    PCPIN_DESCRIPTOR.make MICARRAY3_MAX_INPUT_STREAMS MICARRAY3_MAX_INPUT_STREAMS 0 None
      (KSPIN_DESCRIPTOR.make 0 None 0 None (length MicArray3PinDataRangePointersStream) MicArray3PinDataRangePointersStream
        KSPIN_DATAFLOW_OUT KSPIN_COMMUNICATION_SINK KSCATEGORY_AUDIO (Some KSAUDFNAME_RECORDING_CONTROL) 0)]"

definition MicArray3WaveMiniportNodes :: "PCNODE_DESCRIPTOR list" where [filter_defs]:
  "MicArray3WaveMiniportNodes = [
    PCNODE_DESCRIPTOR.make 0 None KSNODETYPE_ADC None]"

definition MicArray3WaveMiniportConnections :: "headers \<Rightarrow> PCCONNECTION_DESCRIPTOR list" where [filter_defs]:
  "MicArray3WaveMiniportConnections h = [
    PCCONNECTION_DESCRIPTOR.make PCFILTER_NODE (enum h PIN_WAVE_BRIDGE) (enum h NODE_WAVE_ADC) 1,
    PCCONNECTION_DESCRIPTOR.make (enum h NODE_WAVE_ADC) 0 PCFILTER_NODE (enum h PIN_WAVEIN_HOST)]"

definition PropertiesMicArray3WaveFilter :: "PCPROPERTY_ITEM list" where [filter_defs]:
  "PropertiesMicArray3WaveFilter = [
    PCPROPERTY_ITEM.make Set_General GENERAL_COMPONENTID
      (KSPROPERTY_TYPE_GET OR KSPROPERTY_TYPE_BASICSUPPORT) Handler_WaveFilter,
    PCPROPERTY_ITEM.make Set_Pin PIN_PROPOSEDATAFORMAT
      (KSPROPERTY_TYPE_SET OR KSPROPERTY_TYPE_BASICSUPPORT) Handler_WaveFilter,
    PCPROPERTY_ITEM.make Set_Pin PIN_PROPOSEDATAFORMAT2
      (KSPROPERTY_TYPE_GET OR KSPROPERTY_TYPE_BASICSUPPORT) Handler_WaveFilter]"

definition AutomationMicArray3WaveFilter :: PCAUTOMATION_TABLE where [filter_defs]:
  "AutomationMicArray3WaveFilter = PropertyTable PropertiesMicArray3WaveFilter"

definition MicArray3WaveMiniportFilterDescriptor :: "headers \<Rightarrow> PCFILTER_DESCRIPTOR" where [filter_defs]:
  "MicArray3WaveMiniportFilterDescriptor h = PCFILTER_DESCRIPTOR.make 0 AutomationMicArray3WaveFilter
    sizeof_PCPIN_DESCRIPTOR (length MicArray3WaveMiniportPins) MicArray3WaveMiniportPins sizeof_PCNODE_DESCRIPTOR (length
    MicArray3WaveMiniportNodes) (Some MicArray3WaveMiniportNodes)
     (length (MicArray3WaveMiniportConnections h)) (MicArray3WaveMiniportConnections h) 0 None"

section \<open>micarray3toptable.h\<close>

definition MicArray3TopoPinDataRangesBridge :: "KSDATARANGE list" where [table_rows]:
  "MicArray3TopoPinDataRangesBridge = [
    DATAFORMAT.make sizeof_KSDATARANGE 0 0 0 TYPE_AUDIO SUBTYPE_ANALOG SPECIFIER_NONE]"

definition MicArray3TopoPinDataRangePointersBridge :: "PKSDATARANGE list" where [table_rows]:
  "MicArray3TopoPinDataRangePointersBridge = [
    PlainRange (MicArray3TopoPinDataRangesBridge, 0)]"

definition MicArray3TopoMiniportPins :: "PCPIN_DESCRIPTOR list" where [filter_defs]:
  "MicArray3TopoMiniportPins = [
    PCPIN_DESCRIPTOR.make 0 0 0 None
      (KSPIN_DESCRIPTOR.make 0 None 0 None (length MicArray3TopoPinDataRangePointersBridge)
        MicArray3TopoPinDataRangePointersBridge KSPIN_DATAFLOW_IN KSPIN_COMMUNICATION_NONE KSNODETYPE_MICROPHONE_ARRAY
        (Some MICARRAY3_CUSTOM_NAME) 0),
    PCPIN_DESCRIPTOR.make 0 0 0 None
      (KSPIN_DESCRIPTOR.make 0 None 0 None (length MicArray3TopoPinDataRangePointersBridge)
        MicArray3TopoPinDataRangePointersBridge KSPIN_DATAFLOW_OUT KSPIN_COMMUNICATION_NONE KSCATEGORY_AUDIO None 0)]"

definition MicArray3PropertiesVolume :: "PCPROPERTY_ITEM list" where [filter_defs]:
  "MicArray3PropertiesVolume = [
    PCPROPERTY_ITEM.make Set_Audio AUDIO_VOLUMELEVEL
      (KSPROPERTY_TYPE_GET OR KSPROPERTY_TYPE_SET OR KSPROPERTY_TYPE_BASICSUPPORT) Handler_MicArrayTopology]"

definition AutomationMicArray3Volume :: PCAUTOMATION_TABLE where [filter_defs]:
  "AutomationMicArray3Volume = PropertyTable MicArray3PropertiesVolume"

definition MicArray3PropertiesMute :: "PCPROPERTY_ITEM list" where [filter_defs]:
  "MicArray3PropertiesMute = [
    PCPROPERTY_ITEM.make Set_Audio AUDIO_MUTE
      (KSPROPERTY_TYPE_GET OR KSPROPERTY_TYPE_SET OR KSPROPERTY_TYPE_BASICSUPPORT) Handler_MicArrayTopology]"

definition AutomationMicArray3Mute :: PCAUTOMATION_TABLE where [filter_defs]:
  "AutomationMicArray3Mute = PropertyTable MicArray3PropertiesMute"

definition MicArray3PropertiesPeakMeter :: "PCPROPERTY_ITEM list" where [filter_defs]:
  "MicArray3PropertiesPeakMeter = [
    PCPROPERTY_ITEM.make Set_Audio AUDIO_PEAKMETER2
      (KSPROPERTY_TYPE_GET OR KSPROPERTY_TYPE_BASICSUPPORT) Handler_MicArrayTopology,
    PCPROPERTY_ITEM.make Set_Audio AUDIO_CPU_RESOURCES
      (KSPROPERTY_TYPE_GET OR KSPROPERTY_TYPE_BASICSUPPORT) Handler_MicArrayTopology]"

definition AutomationMicArray3PeakMeter :: PCAUTOMATION_TABLE where [filter_defs]:
  "AutomationMicArray3PeakMeter = PropertyTable MicArray3PropertiesPeakMeter"

definition MicArray3TopologyNodes :: "PCNODE_DESCRIPTOR list" where [filter_defs]:
  "MicArray3TopologyNodes = [
    PCNODE_DESCRIPTOR.make 0 (Some AutomationMicArray3Volume) KSNODETYPE_VOLUME (Some KSAUDFNAME_MIC_VOLUME),
    PCNODE_DESCRIPTOR.make 0 (Some AutomationMicArray3Mute) KSNODETYPE_MUTE (Some KSAUDFNAME_MIC_MUTE),
    PCNODE_DESCRIPTOR.make 0 (Some AutomationMicArray3PeakMeter) KSNODETYPE_PEAKMETER (Some KSAUDFNAME_PEAKMETER)]"

definition MicArray3TopoMiniportConnections :: "headers \<Rightarrow> PCCONNECTION_DESCRIPTOR list" where [filter_defs]:
  "MicArray3TopoMiniportConnections h = [
    PCCONNECTION_DESCRIPTOR.make PCFILTER_NODE (enum h PIN_TOPO_MIC_ELEMENTS) (enum h NODE_TOPO_VOLUME) 1,
    PCCONNECTION_DESCRIPTOR.make (enum h NODE_TOPO_VOLUME) 0 (enum h NODE_TOPO_MUTE) 1,
    PCCONNECTION_DESCRIPTOR.make (enum h NODE_TOPO_MUTE) 0 (enum h NODE_TOPO_PEAKMETER) 1,
    PCCONNECTION_DESCRIPTOR.make (enum h NODE_TOPO_PEAKMETER) 0 PCFILTER_NODE (enum h PIN_TOPO_BRIDGE)]"

definition MicArray3PropertiesTopoFilter :: "PCPROPERTY_ITEM list" where [filter_defs]:
  "MicArray3PropertiesTopoFilter = [
    PCPROPERTY_ITEM.make Set_Jack JACK_DESCRIPTION
      (KSPROPERTY_TYPE_GET OR KSPROPERTY_TYPE_BASICSUPPORT) Handler_MicArrayTopoFilter,
    PCPROPERTY_ITEM.make Set_Jack JACK_DESCRIPTION2
      (KSPROPERTY_TYPE_GET OR KSPROPERTY_TYPE_BASICSUPPORT) Handler_MicArrayTopoFilter,
    PCPROPERTY_ITEM.make Set_Audio AUDIO_MIC_ARRAY_GEOMETRY
      (KSPROPERTY_TYPE_GET OR KSPROPERTY_TYPE_BASICSUPPORT) Handler_MicArrayTopoFilter]"

definition AutomationMicArray3TopoFilter :: PCAUTOMATION_TABLE where [filter_defs]:
  "AutomationMicArray3TopoFilter = PropertyTable MicArray3PropertiesTopoFilter"

definition MicArray3TopoMiniportFilterDescriptor :: "headers \<Rightarrow> PCFILTER_DESCRIPTOR" where [filter_defs]:
  "MicArray3TopoMiniportFilterDescriptor h = PCFILTER_DESCRIPTOR.make 0 AutomationMicArray3TopoFilter
    sizeof_PCPIN_DESCRIPTOR (length MicArray3TopoMiniportPins) MicArray3TopoMiniportPins sizeof_PCNODE_DESCRIPTOR (length
    MicArray3TopologyNodes) (Some MicArray3TopologyNodes)
     (length (MicArray3TopoMiniportConnections h)) (MicArray3TopoMiniportConnections h) 0 None"

end
