(* ===== verification/FilterProps.thy ===== *)
theory FilterProps
  imports HdmiTables SpdifTables MicTables
begin

text \<open>
  What the static tables guarantee: every filter is well formed and wired through from pin to pin,
  the formats and modes fit the pins, and the interleaving of the keyword stream.
\<close>

section \<open>Signal paths\<close>

text \<open>\<open>signal cs c e\<close>: data that enters connection \<open>c\<close> flows on to connection \<open>e\<close>.\<close>

inductive signal :: "PCCONNECTION_DESCRIPTOR list \<Rightarrow> PCCONNECTION_DESCRIPTOR \<Rightarrow> PCCONNECTION_DESCRIPTOR \<Rightarrow> bool"
  for cs where
  signal_start: "c \<in> set cs \<Longrightarrow> signal cs c c"
| signal_node: "signal cs c d \<Longrightarrow> e \<in> set cs \<Longrightarrow> ToNode d \<noteq> PCFILTER_NODE \<Longrightarrow> FromNode e = ToNode d \<Longrightarrow> signal cs c e"

lemma signal_trans: "signal cs d e \<Longrightarrow> signal cs c d \<Longrightarrow> signal cs c e"
  by (induction rule: signal.induct) (auto intro: signal_node)

lemma signal_front:
  assumes "c \<in> set cs" "ToNode c \<noteq> PCFILTER_NODE" "FromNode d = ToNode c" "signal cs d e"
  shows "signal cs c e"
proof -
  have "d \<in> set cs" using assms(4) by (induction rule: signal.induct) auto
  with assms show ?thesis by (blast intro: signal_start signal_node signal_trans)
qed

lemma signal_in: "signal cs c e \<Longrightarrow> c \<in> set cs \<and> e \<in> set cs"
  by (induction rule: signal.induct) auto

lemma connections_okD:
  assumes "connections_ok flows nodes cs"
  shows "c \<in> set cs \<Longrightarrow> connection_ok flows nodes c"
    and "n < nodes \<Longrightarrow> \<exists>c\<in>set cs. FromNode c = n" "n < nodes \<Longrightarrow> \<exists>c\<in>set cs. ToNode c = n"
    and "p < length flows \<Longrightarrow> \<exists>c\<in>set cs. FromNode c = PCFILTER_NODE \<and> FromPin c = p \<or> ToNode c = PCFILTER_NODE \<and> ToPin c = p"
  using assms by (simp_all add: connections_ok_def list_all_iff list_ex_iff)

text \<open>Following the connections backwards the numbers of the nodes fall, forwards they rise.\<close>

lemma fed_by_pin:
  assumes ok: "connections_ok flows nodes cs" and "nodes < PCFILTER_NODE"
  shows "d \<in> set cs \<Longrightarrow> \<exists>c. signal cs c d \<and> FromNode c = PCFILTER_NODE"
proof (induction "FromNode d" arbitrary: d rule: less_induct)
  case less
  show ?case
  proof (cases "FromNode d = PCFILTER_NODE")
    case False
    then have "FromNode d < nodes" using connections_okD(1) [OF ok less.prems] by (simp add: connection_ok_def)
    from connections_okD(3) [OF ok this] obtain b where b: "b \<in> set cs" "ToNode b = FromNode d" by blast
    show ?thesis
    proof (cases "FromNode b = PCFILTER_NODE")
      case True
      with b less.prems False show ?thesis by (metis signal_start signal_node)
    next
      case no: False
      then have "FromNode b < FromNode d"
        using connections_okD(1) [OF ok b(1)] b(2) False by (simp add: connection_ok_def)
      from less.hyps [OF this b(1)] obtain c where "signal cs c b" "FromNode c = PCFILTER_NODE" by blast
      then show ?thesis using signal_node [of cs c b d] b less.prems False by metis
    qed
  qed (use less.prems signal_start in blast)
qed

lemma reaches_pin:
  assumes ok: "connections_ok flows nodes cs" and "nodes < PCFILTER_NODE"
  shows "c \<in> set cs \<Longrightarrow> \<exists>e. signal cs c e \<and> ToNode e = PCFILTER_NODE"
proof (induction "nodes - ToNode c" arbitrary: c rule: less_induct)
  case less
  show ?case
  proof (cases "ToNode c = PCFILTER_NODE")
    case False
    then have "ToNode c < nodes" using connections_okD(1) [OF ok less.prems] by (simp add: connection_ok_def)
    from connections_okD(2) [OF ok this] obtain d where d: "d \<in> set cs" "FromNode d = ToNode c" by blast
    show ?thesis
    proof (cases "ToNode d = PCFILTER_NODE")
      case True
      with d less.prems False show ?thesis by (metis signal_start signal_node)
    next
      case no: False
      then have "ToNode c < ToNode d" "ToNode d < nodes"
        using connections_okD(1) [OF ok d(1)] d(2) False by (simp_all add: connection_ok_def)
      then have "nodes - ToNode d < nodes - ToNode c" by simp
      from less.hyps [OF this d(1)] obtain e where "signal cs d e" "ToNode e = PCFILTER_NODE" by blast
      then show ?thesis using signal_front less.prems False d(2) by metis
    qed
  qed (use less.prems signal_start in blast)
qed

text \<open>A pin is wired when it is an end of a path between a pin into and a pin out of which data flows.\<close>

definition wired :: "PCFILTER_DESCRIPTOR \<Rightarrow> nat \<Rightarrow> bool" where
  "wired f p \<longleftrightarrow> (\<exists>c e. signal (FilterConnections f) c e \<and> FromNode c = PCFILTER_NODE \<and> ToNode e = PCFILTER_NODE
     \<and> FromPin c < PinCount f \<and> flow_of (FilterPins f ! FromPin c) = KSPIN_DATAFLOW_IN
     \<and> ToPin e < PinCount f \<and> flow_of (FilterPins f ! ToPin e) = KSPIN_DATAFLOW_OUT
     \<and> (p = FromPin c \<or> p = ToPin e))"

lemma filter_wired:
  assumes "filter_ok f" and "p < PinCount f"
  shows "wired f p"
proof -
  let ?cs = "FilterConnections f" and ?flows = "map flow_of (FilterPins f)"
  have ok: "connections_ok ?flows (length (nodes_of f)) ?cs" and n: "length (nodes_of f) < PCFILTER_NODE"
    and pins: "PinCount f = length (FilterPins f)"
    using assms(1) by (auto simp: filter_ok_def)
  have ends: "FromNode c = PCFILTER_NODE \<Longrightarrow> FromPin c < PinCount f \<and> flow_of (FilterPins f ! FromPin c) = KSPIN_DATAFLOW_IN"
    "ToNode c = PCFILTER_NODE \<Longrightarrow> ToPin c < PinCount f \<and> flow_of (FilterPins f ! ToPin c) = KSPIN_DATAFLOW_OUT"
    if "c \<in> set ?cs" for c
    using connections_okD(1) [OF ok that] pins by (auto simp: connection_ok_def)
  obtain d where d: "d \<in> set ?cs" "FromNode d = PCFILTER_NODE \<and> FromPin d = p \<or> ToNode d = PCFILTER_NODE \<and> ToPin d = p"
    using connections_okD(4) [OF ok, of p] assms(2) pins by auto
  obtain c where c: "signal ?cs c d" "FromNode c = PCFILTER_NODE" using fed_by_pin [OF ok n d(1)] by blast
  obtain e where e: "signal ?cs d e" "ToNode e = PCFILTER_NODE" using reaches_pin [OF ok n d(1)] by blast
  from d(2) show ?thesis
  proof
    assume "FromNode d = PCFILTER_NODE \<and> FromPin d = p"
    then show ?thesis using ends [of d] ends [of e] signal_in [OF e(1)] e d(1) by (auto simp: wired_def)
  next
    assume "ToNode d = PCFILTER_NODE \<and> ToPin d = p"
    then show ?thesis using ends [of c] ends [of d] signal_in [OF c(1)] c d(1) by (fastforce simp: wired_def)
  qed
qed

section \<open>The filters\<close>

definition wave_filters :: "headers \<Rightarrow> PCFILTER_DESCRIPTOR list" where
  "wave_filters h = [HdmiWaveMiniportFilterDescriptor h, SpdifWaveMiniportFilterDescriptor h, MicInWaveMiniportFilterDescriptor h,
     MicArray2WaveMiniportFilterDescriptor h, MicArray3WaveMiniportFilterDescriptor h]"

definition topology_filters :: "headers \<Rightarrow> PCFILTER_DESCRIPTOR list" where
  "topology_filters h = [HdmiTopoMiniportFilterDescriptor h, SpdifTopoMiniportFilterDescriptor h, MicInTopoMiniportFilterDescriptor h,
     MicArray2TopoMiniportFilterDescriptor h, MicArray3TopoMiniportFilterDescriptor h]"

lemmas ranges_eval = inside_def entry_of_def audio_range_ok_def plain_range_ok_def makes table_consts table_rows
lemmas filter_eval = filter_ok_def connections_ok_def connection_ok_def pin_ok_def node_ok_def nodes_of_def flow_of_def flags_ok_def
  item_id_def sysvad_item_ok_def has_flag_def const_defs ranges_eval

lemma wave_filters_ok: "numbered h \<Longrightarrow> list_all filter_ok (wave_filters h)"
  by (simp add: wave_filters_def filter_eval filter_defs numbered_enum upt_rec)

lemma topology_filters_ok: "numbered h \<Longrightarrow> list_all filter_ok (topology_filters h)"
  by (simp add: topology_filters_def filter_eval filter_defs numbered_enum upt_rec)

text \<open>
  C5. Every filter of the static tables is well formed and wired through: the counts are the lengths
  of their arrays, every pointer stays inside its table, an attribute list follows exactly the data
  ranges that announce one, the property tables have no duplicates and sensible flags, connections
  join existing pins and nodes in the direction of the data, and every pin of the filter lies at an
  end of a path of connections from a pin into which data flows to a pin out of which it flows.
\<close>

theorem filters_wired:
  assumes "numbered h" and "f \<in> set (wave_filters h @ topology_filters h)"
  shows "filter_ok f \<and> (\<forall>p<PinCount f. wired f p)"
  using assms wave_filters_ok [of h] topology_filters_ok [of h] filter_wired by (auto simp: list_all_iff)

text \<open>The numbering of the headers the tables are written for.\<close>

definition usual_headers :: headers where
  "usual_headers = \<lparr> enum = (\<lambda>e. case e of
       PIN_WAVE_RENDER_SINK_SYSTEM \<Rightarrow> 0 | PIN_WAVE_RENDER_SINK_OFFLOAD \<Rightarrow> 1 | PIN_WAVE_RENDER_SINK_LOOPBACK \<Rightarrow> 2 | PIN_WAVE_RENDER_SOURCE \<Rightarrow> 3
     | PIN_WAVE_RENDER2_SINK_SYSTEM \<Rightarrow> 0 | PIN_WAVE_RENDER2_SINK_LOOPBACK \<Rightarrow> 1 | PIN_WAVE_RENDER2_SOURCE \<Rightarrow> 2
     | PIN_WAVE_BRIDGE \<Rightarrow> 0 | PIN_WAVEIN_HOST \<Rightarrow> 1 | PIN_WAVEIN_KEYWORD \<Rightarrow> 2
     | PIN_TOPO_WAVEOUT_SOURCE \<Rightarrow> 0 | PIN_TOPO_LINEOUT_DEST \<Rightarrow> 1 | PIN_TOPO_MIC_ELEMENTS \<Rightarrow> 0 | PIN_TOPO_BRIDGE \<Rightarrow> 1
     | NODE_WAVE_SUM \<Rightarrow> 0 | NODE_WAVE_VOLUME \<Rightarrow> 1 | NODE_WAVE_MUTE \<Rightarrow> 2 | NODE_WAVE_PEAKMETER \<Rightarrow> 3
     | NODE_WAVE_ADC \<Rightarrow> 0 | NODE_WAVE_AUDIO_ENGINE \<Rightarrow> 0
     | NODE_TOPO_VOLUME \<Rightarrow> 0 | NODE_TOPO_MUTE \<Rightarrow> 1 | NODE_TOPO_PEAKMETER \<Rightarrow> 2),
     MAX_INPUT_OFFLOAD_STREAMS = 3, MAX_OUTPUT_LOOPBACK_STREAMS = 1, size_of = (\<lambda>_. 4) \<rparr>"

lemma usual_numbered: "numbered usual_headers"
  by (simp add: numbered_def usual_headers_def)

theorem filters_wired_witness:
  "filter_ok (HdmiWaveMiniportFilterDescriptor usual_headers) \<and> wired (HdmiWaveMiniportFilterDescriptor usual_headers) 1"
proof -
  have "HdmiWaveMiniportFilterDescriptor usual_headers \<in> set (wave_filters usual_headers @ topology_filters usual_headers)"
    by (simp add: wave_filters_def)
  from filters_wired [OF usual_numbered this] show ?thesis by (simp add: filter_defs makes)
qed

section \<open>Formats and modes of the pins\<close>

definition rows_of :: "'a list option \<Rightarrow> 'a list" where "rows_of t = (case t of None \<Rightarrow> [] | Some xs \<Rightarrow> xs)"

text \<open>The kind of a row of a formats table fits the pin with the same number.\<close>

definition kind_ok :: "PINTYPE \<Rightarrow> KSPIN_DESCRIPTOR \<Rightarrow> bool" where
  "kind_ok k d \<longleftrightarrow> (case k of
       BridgePin \<Rightarrow> Communication d = KSPIN_COMMUNICATION_NONE
     | SystemRenderPin \<Rightarrow> Communication d = KSPIN_COMMUNICATION_SINK \<and> DataFlow d = KSPIN_DATAFLOW_IN
     | OffloadRenderPin \<Rightarrow> Communication d = KSPIN_COMMUNICATION_SINK \<and> DataFlow d = KSPIN_DATAFLOW_IN
     | RenderLoopbackPin \<Rightarrow> Communication d = KSPIN_COMMUNICATION_SINK \<and> DataFlow d = KSPIN_DATAFLOW_OUT
         \<and> PinCategory d = KSNODETYPE_AUDIO_LOOPBACK
     | SystemCapturePin \<Rightarrow> Communication d = KSPIN_COMMUNICATION_SINK \<and> DataFlow d = KSPIN_DATAFLOW_OUT
         \<and> PinCategory d = KSCATEGORY_AUDIO
     | KeywordCapturePin \<Rightarrow> Communication d = KSPIN_COMMUNICATION_SINK \<and> DataFlow d = KSPIN_DATAFLOW_OUT
         \<and> PinCategory d = KSNODETYPE_AUDIO_KEYWORDDETECTOR
     | _ \<Rightarrow> False)"

text \<open>The formats are consistent, and so are the modes with their default formats in the table of the row.\<close>

definition row_ok :: "PIN_DEVICE_FORMATS_AND_MODES \<Rightarrow> bool" where
  "row_ok r \<longleftrightarrow> WaveFormatsCount r = length (rows_of (WaveFormats r))
     \<and> ModeAndDefaultFormatCount r = length (rows_of (ModeAndDefaultFormat r))
     \<and> list_all format_ok (rows_of (WaveFormats r)) \<and> distinct (map Mode (rows_of (ModeAndDefaultFormat r)))
     \<and> list_all (\<lambda>m. pred_option (\<lambda>e. fst e = rows_of (WaveFormats r) \<and> inside e) (DefaultFormat m))
         (rows_of (ModeAndDefaultFormat r))
     \<and> (WaveFormats r = None \<longleftrightarrow> PinType r = BridgePin)
     \<and> (ModeAndDefaultFormat r = None \<longleftrightarrow> PinType r \<in> {BridgePin, RenderLoopbackPin, NoPin})"

text \<open>Every format is inside a data range of the pin and every range has a format.\<close>

definition ranges_cover :: "KSPIN_DESCRIPTOR \<Rightarrow> PIN_DEVICE_FORMATS_AND_MODES \<Rightarrow> bool" where
  "ranges_cover d r \<longleftrightarrow>
     list_all (\<lambda>f. list_ex (in_range f) (audio_ranges (DataRanges d))) (rows_of (WaveFormats r))
     \<and> list_all (\<lambda>g. list_ex (\<lambda>f. in_range f g) (rows_of (WaveFormats r))) (audio_ranges (DataRanges d))"

definition pin_formats_ok :: "PCPIN_DESCRIPTOR \<Rightarrow> PIN_DEVICE_FORMATS_AND_MODES \<Rightarrow> bool" where
  "pin_formats_ok p r \<longleftrightarrow> kind_ok (PinType r) (KsPinDescriptor p)
     \<and> (PinType r \<noteq> RenderLoopbackPin \<longrightarrow> ranges_cover (KsPinDescriptor p) r)"

text \<open>Rows behind those of the pins are not pins; the loopback row has the formats of the host pin.\<close>

definition formats_table_ok :: "PCFILTER_DESCRIPTOR \<Rightarrow> PIN_DEVICE_FORMATS_AND_MODES list \<Rightarrow> bool" where
  "formats_table_ok f rs \<longleftrightarrow> list_all row_ok rs \<and> PinCount f \<le> length rs
     \<and> list_all2 pin_formats_ok (FilterPins f) (take (PinCount f) rs)
     \<and> list_all (\<lambda>r. PinType r = NoPin) (drop (PinCount f) rs)
     \<and> list_all (\<lambda>r. PinType r = RenderLoopbackPin \<longrightarrow>
          list_ex (\<lambda>s. PinType s = SystemRenderPin \<and> WaveFormats s = WaveFormats r) rs) rs"

definition formats_tables :: "PIN_DEVICE_FORMATS_AND_MODES list list" where
  "formats_tables = [HdmiPinDeviceFormatsAndModes, SpdifPinDeviceFormatsAndModes, MicInPinDeviceFormatsAndModes,
     MicArray2PinDeviceFormatsAndModes, MicArray3PinDeviceFormatsAndModes]"

lemmas formats_eval = formats_table_ok_def row_ok_def pin_formats_ok_def kind_ok_def ranges_cover_def in_range_def
  rows_of_def format_ok_def speakers_eval ranges_eval


section \<open>Where tables disagree\<close>

definition outside :: "PKSDATARANGE list \<Rightarrow> KSDATAFORMAT_WAVEFORMATEXTENSIBLE list \<Rightarrow> KSDATAFORMAT_WAVEFORMATEXTENSIBLE list" where
  "outside ps fs = filter (\<lambda>f. \<not> list_ex (in_range f) (audio_ranges ps)) fs"

definition encoded :: "KSDATAFORMAT_WAVEFORMATEXTENSIBLE list \<Rightarrow> KSDATAFORMAT_WAVEFORMATEXTENSIBLE list" where
  "encoded fs = filter (\<lambda>f. SubFormat (DataFormat f) \<noteq> SUBTYPE_PCM) fs"

text \<open>The channels of an interleaved frame that carry microphone data and those that carry loopback data.\<close>

definition primary_channels :: "INTERLEAVED_AUDIO_FORMAT_INFORMATION \<Rightarrow> nat set" where
  "primary_channels i = {PrimaryChannelStartPosition i ..< PrimaryChannelStartPosition i + PrimaryChannelCount i}"
definition interleaved_channels :: "INTERLEAVED_AUDIO_FORMAT_INFORMATION \<Rightarrow> nat set" where
  "interleaved_channels i = {InterleavedChannelStartPosition i ..< InterleavedChannelStartPosition i + InterleavedChannelCount i}"

lemma loopback_outside:
  "outside HdmiPinDataRangePointersLoopbackStream HdmiHostPinSupportedDeviceFormats = encoded HdmiHostPinSupportedDeviceFormats"
  "length (encoded HdmiHostPinSupportedDeviceFormats) = 10"
  "outside SpdifPinDataRangePointersLoopbackStream SpdifHostPinSupportedDeviceFormats = encoded SpdifHostPinSupportedDeviceFormats"
  "length (encoded SpdifHostPinSupportedDeviceFormats) = 2"
  by (simp_all add: outside_def encoded_def formats_eval)

lemma bridge_ranges:
  "plain_ranges HdmiTopoPinDataRangePointersBridge = take 7 (plain_ranges HdmiPinDataRangePointersBridge)"
  "map SubFormat (drop 7 (plain_ranges HdmiPinDataRangePointersBridge)) = [SUBTYPE_IEC61937_DOLBY_MAT20, SUBTYPE_IEC61937_DOLBY_MAT21]"
  "plain_ranges SpdifTopoPinDataRangePointersBridge = plain_ranges SpdifPinDataRangePointersBridge"
  by (simp_all add: formats_eval)

lemma keyword_channels:
  "map (\<lambda>f. nChannels (WaveFormat (WaveFormatExt f))) KeywordPin2SupportedDeviceFormats =
     [PrimaryChannelCount InterleavedFormatInformation + InterleavedChannelCount InterleavedFormatInformation]"
  "primary_channels InterleavedFormatInformation \<inter> interleaved_channels InterleavedFormatInformation = {2, 3}"
  "{..<6} - (primary_channels InterleavedFormatInformation \<union> interleaved_channels InterleavedFormatInformation) = {4, 5}"
  by (auto simp: primary_channels_def interleaved_channels_def formats_eval)


end
