(* ===== verification/SubdeviceCache.thy ===== *)
theory SubdeviceCache
  imports DriverBase "HOL-Library.Multiset"
begin

text \<open>
  The part of CAdapterCommon (common.cpp) that installs and removes the port/miniport pairs of an
  endpoint: creation and registration of a subdevice, the cache of subdevices by name, the
  physical connections between topology and wave filter, InstallEndpointFilters,
  RemoveEndpointFilters, GetFilters and the idle power requests.

  COM objects are numbers with the reference count the driver holds on them; a Release on a count
  of 0 is \<open>None\<close>. QueryInterface for a second interface of an object takes a reference on that
  object. The results of port-class and kernel calls are arguments (records of NTSTATUS values).
\<close>

section \<open>State\<close>

type_synonym obj = nat

text \<open>A physical connection: output object and pin, input object and pin.\<close>

type_synonym physical_conn = "obj \<times> nat \<times> obj \<times> nat"

datatype CONNECTIONTYPE = CONNECTIONTYPE_TOPOLOGY_OUTPUT | CONNECTIONTYPE_WAVE_OUTPUT

record PHYSICALCONNECTIONTABLE =
  ulTopology :: nat
  ulWave :: nat
  eType :: CONNECTIONTYPE

text \<open>
  A cache record. \<open>PowerInterface\<close> and \<open>MiniportChange\<close> are further interfaces of the miniport
  object, present or NULL.
\<close>

record MINIPAIR_UNKNOWN =
  Name :: string
  PortInterface :: obj
  MiniportInterface :: obj
  PowerInterface :: bool
  MiniportChange :: bool

text \<open>What the code uses of an endpoint's descriptor.\<close>

record ENDPOINT_MINIPAIR =
  TopoName :: string
  TemplateTopoName :: "string option"
  WaveName :: string
  TemplateWaveName :: "string option"
  PhysicalConnections :: "PHYSICALCONNECTIONTABLE list"

text \<open>
  The adapter's cache and idle counter, the reference counts, and what port class has recorded on
  the driver's behalf: registered subdevices, connections, whether idle power-down is enabled.
\<close>

record adapter_world =
  refs :: "obj \<Rightarrow> nat"
  m_SubdeviceCache :: "MINIPAIR_UNKNOWN list"
  m_dwIdleRequests :: nat
  registered :: "obj list"
  connections :: "physical_conn list"
  idle_enabled :: bool

definition addref :: "obj \<Rightarrow> adapter_world \<Rightarrow> adapter_world" where
  "addref p w = w \<lparr> refs := (refs w)(p := refs w p + 1) \<rparr>"

definition release :: "obj \<Rightarrow> adapter_world \<Rightarrow> adapter_world option" where
  "release p w = (if refs w p = 0 then None else Some (w \<lparr> refs := (refs w)(p := refs w p - 1) \<rparr>))"

definition safe_release :: "obj option \<Rightarrow> adapter_world \<Rightarrow> adapter_world option" where
  "safe_release p w = (case p of None \<Rightarrow> Some w | Some q \<Rightarrow> release q w)"

section \<open>The cache\<close>

definition MAX_PATH :: nat where [const_defs]: "MAX_PATH = 260"

fun lookup_record :: "string \<Rightarrow> MINIPAIR_UNKNOWN list \<Rightarrow> MINIPAIR_UNKNOWN option" where
  "lookup_record nm [] = None"
| "lookup_record nm (r # rs) = (if Name r = nm then Some r else lookup_record nm rs)"

fun delete_record :: "string \<Rightarrow> MINIPAIR_UNKNOWN list \<Rightarrow> MINIPAIR_UNKNOWN list" where
  "delete_record nm [] = []"
| "delete_record nm (r # rs) = (if Name r = nm then rs else r # delete_record nm rs)"

text \<open>Both output pointers are requested by every caller; each receives a reference.\<close>

definition GetCachedSubdevice :: "string \<Rightarrow> adapter_world \<Rightarrow>
    NTSTATUS \<times> obj option \<times> obj option \<times> adapter_world" where
  "GetCachedSubdevice nm w =
     (case lookup_record nm (m_SubdeviceCache w) of
        Some r \<Rightarrow> (STATUS_SUCCESS, Some (PortInterface r), Some (MiniportInterface r),
                   addref (MiniportInterface r) (addref (PortInterface r) w))
      | None \<Rightarrow> (STATUS_OBJECT_NAME_NOT_FOUND, None, None, w))"

text \<open>The allocation of a cache record and the two optional queries on the miniport.\<close>

record cache_env =
  ce_alloc :: bool
  ce_power :: bool
  ce_change :: bool

text \<open>The two pointers are dereferenced only when record and name are in place.\<close>

definition CacheSubdevice :: "cache_env \<Rightarrow> string \<Rightarrow> obj option \<Rightarrow> obj option \<Rightarrow> adapter_world \<Rightarrow>
    (NTSTATUS \<times> adapter_world) option" where
  "CacheSubdevice e nm UnknownPort UnknownMiniport w =
     (if \<not> ce_alloc e then Some (STATUS_INSUFFICIENT_RESOURCES, w)
      else if MAX_PATH \<le> length nm then Some (STATUS_BUFFER_OVERFLOW, w)
      else do {
        port \<leftarrow> UnknownPort;
        miniport \<leftarrow> UnknownMiniport;
        let w1 = addref miniport (addref port w);
        let w2 = (if ce_power e then addref miniport w1 else w1);
        let w3 = (if ce_change e then addref miniport w2 else w2);
        Some (STATUS_SUCCESS,
              w3 \<lparr> m_SubdeviceCache := m_SubdeviceCache w3 @
                     [\<lparr> Name = nm, PortInterface = port, MiniportInterface = miniport,
                        PowerInterface = ce_power e, MiniportChange = ce_change e \<rparr>] \<rparr>) })"

definition release_record :: "MINIPAIR_UNKNOWN \<Rightarrow> adapter_world \<Rightarrow> adapter_world option" where
  "release_record r w = do {
     w1 \<leftarrow> release (PortInterface r) w;
     w2 \<leftarrow> release (MiniportInterface r) w1;
     w3 \<leftarrow> (if PowerInterface r then release (MiniportInterface r) w2 else Some w2);
     if MiniportChange r then release (MiniportInterface r) w3 else Some w3 }"

definition RemoveCachedSubdevice :: "string \<Rightarrow> adapter_world \<Rightarrow> (NTSTATUS \<times> adapter_world) option" where
  "RemoveCachedSubdevice nm w =
     (case lookup_record nm (m_SubdeviceCache w) of
        Some r \<Rightarrow> do {
          w1 \<leftarrow> release_record r w;
          Some (STATUS_SUCCESS, w1 \<lparr> m_SubdeviceCache := delete_record nm (m_SubdeviceCache w1) \<rparr>) }
      | None \<Rightarrow> Some (STATUS_OBJECT_NAME_NOT_FOUND, w))"

fun empty_cache :: "MINIPAIR_UNKNOWN list \<Rightarrow> adapter_world \<Rightarrow> adapter_world option" where
  "empty_cache [] w = Some (w \<lparr> m_SubdeviceCache := [] \<rparr>)"
| "empty_cache (r # rs) w = do { w1 \<leftarrow> release_record r (w \<lparr> m_SubdeviceCache := rs \<rparr>); empty_cache rs w1 }"

definition EmptySubdeviceCache :: "adapter_world \<Rightarrow> adapter_world option" where
  "EmptySubdeviceCache w = empty_cache (m_SubdeviceCache w) w"

section \<open>Installing a subdevice\<close>

text \<open>Setting device-interface properties one by one stops at the first failure.\<close>

fun first_failure :: "NTSTATUS list \<Rightarrow> NTSTATUS" where
  "first_failure [] = STATUS_SUCCESS"
| "first_failure (s # ss) = (if \<not> NT_SUCCESS s then s else first_failure ss)"

definition SysvadIoSetDeviceInterfacePropertyDataMultiple :: "NTSTATUS list option \<Rightarrow> NTSTATUS" where
  "SysvadIoSetDeviceInterfacePropertyDataMultiple props =
     (case props of None \<Rightarrow> STATUS_SUCCESS | Some ss \<Rightarrow> first_failure ss)"

text \<open>
  The results of the calls one InstallSubdevice makes, and the port and miniport object the
  creation calls return.
\<close>

record install_env =
  ie_iface :: NTSTATUS
  ie_migrate :: NTSTATUS
  ie_props :: "NTSTATUS list option"
  ie_newport :: NTSTATUS
  ie_miniport :: NTSTATUS
  ie_init :: NTSTATUS
  ie_register :: NTSTATUS
  ie_qi_port :: NTSTATUS
  ie_qi_iface :: NTSTATUS
  ie_qi_mini :: NTSTATUS
  ie_port :: obj
  ie_mini :: obj

text \<open>The second result tells whether the symbolic link string is allocated.\<close>

definition CreateAudioInterfaceWithProperties :: "install_env \<Rightarrow> string option \<Rightarrow> NTSTATUS \<times> bool" where
  "CreateAudioInterfaceWithProperties e template =
     (if \<not> NT_SUCCESS (ie_iface e) then (ie_iface e, False)
      else if template \<noteq> None \<and> \<not> NT_SUCCESS (ie_migrate e) then (ie_migrate e, False)
      else
        (let st = SysvadIoSetDeviceInterfacePropertyDataMultiple (ie_props e)
         in if \<not> NT_SUCCESS st then (st, False) else (STATUS_SUCCESS, True)))"

text \<open>The queries that deposit the output pointers; each overwrites the status of the previous.\<close>

definition deposit :: "bool \<Rightarrow> NTSTATUS \<Rightarrow> obj \<Rightarrow> NTSTATUS \<times> adapter_world \<Rightarrow>
    NTSTATUS \<times> obj option \<times> adapter_world" where
  "deposit want qi p = (\<lambda>(st, w).
     if want then (if NT_SUCCESS qi then (qi, Some p, addref p w) else (qi, None, w))
     else (st, None, w))"

text \<open>
  \<open>wantIface\<close>, \<open>wantPort\<close> and \<open>wantMini\<close> tell whether the output arguments OutPortInterface,
  OutPortUnknown and OutMiniportUnknown are not NULL.
\<close>

definition InstallSubdevice :: "install_env \<Rightarrow> string option \<Rightarrow> bool \<Rightarrow> bool \<Rightarrow> bool \<Rightarrow> adapter_world \<Rightarrow>
    (NTSTATUS \<times> obj option \<times> obj option \<times> obj option \<times> adapter_world) option" where
  "InstallSubdevice e template wantIface wantPort wantMini w =
     (let st0 = fst (CreateAudioInterfaceWithProperties e template);
          (st1, port, w1) = (if NT_SUCCESS st0 then
                               if NT_SUCCESS (ie_newport e)
                               then (ie_newport e, Some (ie_port e), addref (ie_port e) w)
                               else (ie_newport e, None, w)
                             else (st0, None, w));
          (st2, mini, w2) = (if NT_SUCCESS st1 then
                               if NT_SUCCESS (ie_miniport e)
                               then (ie_miniport e, Some (ie_mini e), addref (ie_mini e) w1)
                               else (ie_miniport e, None, w1)
                             else (st1, None, w1));
          (st3, w3) = (if NT_SUCCESS st2 then
                         if NT_SUCCESS (ie_init e) then
                           (ie_register e,
                            if NT_SUCCESS (ie_register e)
                            then w2 \<lparr> registered := ie_port e # registered w2 \<rparr> else w2)
                         else (ie_init e, w2)
                       else (st2, w2));
          (st4, outPort, w4) = (if NT_SUCCESS st3 then deposit wantPort (ie_qi_port e) (ie_port e) (st3, w3)
                                else (st3, None, w3));
          (st5, outIface, w5) = (if NT_SUCCESS st3 then deposit wantIface (ie_qi_iface e) (ie_port e) (st4, w4)
                                 else (st4, None, w4));
          (st6, outMini, w6) = (if NT_SUCCESS st3 then deposit wantMini (ie_qi_mini e) (ie_mini e) (st5, w5)
                                else (st5, None, w5))
      in do {
        w7 \<leftarrow> safe_release port w6;
        w8 \<leftarrow> safe_release mini w7;
        Some (st6, outIface, outPort, outMini, w8) })"

definition UnregisterSubdevice :: "NTSTATUS \<Rightarrow> NTSTATUS \<Rightarrow> obj option \<Rightarrow> adapter_world \<Rightarrow> NTSTATUS \<times> adapter_world" where
  "UnregisterSubdevice qi unregister port w =
     (case port of
        None \<Rightarrow> (STATUS_SUCCESS, w)
      | Some p \<Rightarrow>
          if NT_SUCCESS qi then
            (unregister, if NT_SUCCESS unregister
                         then w \<lparr> registered := removeAll p (registered w) \<rparr> else w)
          else (qi, w))"

section \<open>Physical connections\<close>

definition physical :: "obj \<Rightarrow> obj \<Rightarrow> PHYSICALCONNECTIONTABLE \<Rightarrow> physical_conn" where
  "physical topo wave c =
     (case eType c of
        CONNECTIONTYPE_TOPOLOGY_OUTPUT \<Rightarrow> (topo, ulTopology c, wave, ulWave c)
      | CONNECTIONTYPE_WAVE_OUTPUT \<Rightarrow> (wave, ulWave c, topo, ulTopology c))"

text \<open>\<open>stat i\<close> is the result of the call for connection \<open>i\<close>.\<close>

fun connect_loop :: "obj \<Rightarrow> obj \<Rightarrow> (nat \<Rightarrow> NTSTATUS) \<Rightarrow> nat \<Rightarrow> PHYSICALCONNECTIONTABLE list \<Rightarrow>
    NTSTATUS \<Rightarrow> physical_conn list \<Rightarrow> NTSTATUS \<times> physical_conn list" where
  "connect_loop topo wave stat i [] st cs = (st, cs)"
| "connect_loop topo wave stat i (c # rest) st cs =
     (if NT_SUCCESS st then
        connect_loop topo wave stat (Suc i) rest (stat i)
          (if NT_SUCCESS (stat i) then physical topo wave c # cs else cs)
      else (st, cs))"

text \<open>
  The disconnect loop: the result of each call replaces the status, and a success is replaced by
  \<open>ntStatus2\<close>, which nothing ever changes.
\<close>

fun disconnect_loop :: "obj \<Rightarrow> obj \<Rightarrow> (nat \<Rightarrow> NTSTATUS) \<Rightarrow> nat \<Rightarrow> PHYSICALCONNECTIONTABLE list \<Rightarrow>
    NTSTATUS \<Rightarrow> physical_conn list \<Rightarrow> NTSTATUS \<times> physical_conn list" where
  "disconnect_loop topo wave stat i [] st cs = (st, cs)"
| "disconnect_loop topo wave stat i (c # rest) st cs =
     disconnect_loop topo wave stat (Suc i) rest
       (if NT_SUCCESS (stat i) then STATUS_SUCCESS else stat i)
       (if NT_SUCCESS (stat i) then removeAll (physical topo wave c) cs else cs)"

definition DisconnectTopologies :: "NTSTATUS \<Rightarrow> (nat \<Rightarrow> NTSTATUS) \<Rightarrow> obj \<Rightarrow> obj \<Rightarrow>
    PHYSICALCONNECTIONTABLE list \<Rightarrow> adapter_world \<Rightarrow> NTSTATUS \<times> adapter_world" where
  "DisconnectTopologies qi stat topo wave table w =
     (if NT_SUCCESS qi then
        (case disconnect_loop topo wave stat 0 table qi (connections w) of
           (st, cs) \<Rightarrow> (st, w \<lparr> connections := cs \<rparr>))
      else (qi, w))"

definition ConnectTopologies :: "(nat \<Rightarrow> NTSTATUS) \<Rightarrow> NTSTATUS \<Rightarrow> (nat \<Rightarrow> NTSTATUS) \<Rightarrow> obj \<Rightarrow> obj \<Rightarrow>
    PHYSICALCONNECTIONTABLE list \<Rightarrow> adapter_world \<Rightarrow> NTSTATUS \<times> adapter_world" where
  "ConnectTopologies stat dqi dstat topo wave table w =
     (case connect_loop topo wave stat 0 table STATUS_SUCCESS (connections w) of
        (st, cs) \<Rightarrow>
          (let w1 = w \<lparr> connections := cs \<rparr>
           in if \<not> NT_SUCCESS st then (st, snd (DisconnectTopologies dqi dstat topo wave table w1))
              else (st, w1)))"

section \<open>Endpoint filters\<close>

text \<open>The results of the calls one InstallEndpointFilters may make.\<close>

record filters_env =
  fe_topo :: install_env
  fe_wave :: install_env
  fe_cache_topo :: cache_env
  fe_cache_wave :: cache_env
  fe_connect :: "nat \<Rightarrow> NTSTATUS"
  fe_disc_qi :: NTSTATUS
  fe_disc :: "nat \<Rightarrow> NTSTATUS"
  fe_unreg_qi :: "obj \<Rightarrow> NTSTATUS"
  fe_unreg :: "obj \<Rightarrow> NTSTATUS"

text \<open>Which output arguments the caller wants, and the pointers returned.\<close>

record 'a filter_outs =
  out_topo :: 'a
  out_wave :: 'a
  out_mini_topo :: 'a
  out_mini_wave :: 'a

text \<open>
  One half of the function: find the filter in the cache or install and cache it. The result has
  the status, whether it was created, the port and the miniport.
\<close>

definition find_or_install :: "install_env \<Rightarrow> cache_env \<Rightarrow> string \<Rightarrow> string option \<Rightarrow> adapter_world \<Rightarrow>
    (NTSTATUS \<times> bool \<times> obj option \<times> obj option \<times> adapter_world) option" where
  "find_or_install e ce nm template w =
     (case GetCachedSubdevice nm w of (st, port, mini, w1) \<Rightarrow>
        if \<not> NT_SUCCESS st \<or> port = None \<or> mini = None then do {
          (st1, _, port1, mini1, w2) \<leftarrow> InstallSubdevice e template False True True w1;
          (st2, w3) \<leftarrow> (if NT_SUCCESS st1 then CacheSubdevice ce nm port1 mini1 w2 else Some (st1, w2));
          Some (st2, True, port1, mini1, w3) }
        else Some (st, False, port, mini, w1))"

definition hand_out :: "bool \<Rightarrow> obj option \<Rightarrow> adapter_world \<Rightarrow> obj option \<times> adapter_world" where
  "hand_out want p w = (case p of Some q \<Rightarrow> if want then (Some q, addref q w) else (None, w) | None \<Rightarrow> (None, w))"

definition undo_filter :: "filters_env \<Rightarrow> string \<Rightarrow> bool \<Rightarrow> obj option \<Rightarrow> adapter_world \<Rightarrow> adapter_world option" where
  "undo_filter e nm created port w =
     (case port of
        Some p \<Rightarrow>
          if created then do {
            let w1 = snd (UnregisterSubdevice (fe_unreg_qi e p) (fe_unreg e p) (Some p) w);
            (_, w2) \<leftarrow> RemoveCachedSubdevice nm w1;
            Some w2 }
          else Some w
      | None \<Rightarrow> Some w)"

definition InstallEndpointFilters :: "filters_env \<Rightarrow> ENDPOINT_MINIPAIR \<Rightarrow> bool filter_outs \<Rightarrow> adapter_world \<Rightarrow>
    (NTSTATUS \<times> obj option filter_outs \<times> adapter_world) option" where
  "InstallEndpointFilters e pair want w = do {
     (st1, topoCreated, topo, miniTopo, w1) \<leftarrow>
        find_or_install (fe_topo e) (fe_cache_topo e) (TopoName pair) (TemplateTopoName pair) w;
     (st2, waveCreated, wave, miniWave, w2) \<leftarrow>
        find_or_install (fe_wave e) (fe_cache_wave e) (WaveName pair) (TemplateWaveName pair) w1;
     let (st, w3) = (case (topo, wave) of
                       (Some t, Some v) \<Rightarrow>
                         ConnectTopologies (fe_connect e) (fe_disc_qi e) (fe_disc e) t v
                           (PhysicalConnections pair) w2
                     | _ \<Rightarrow> (st2, w2));
     (outs, w4) \<leftarrow>
       (if NT_SUCCESS st then
          (case hand_out (out_topo want) topo w3 of (o1, x1) \<Rightarrow>
           case hand_out (out_wave want) wave x1 of (o2, x2) \<Rightarrow>
           case hand_out (out_mini_topo want) miniTopo x2 of (o3, x3) \<Rightarrow>
           case hand_out (out_mini_wave want) miniWave x3 of (o4, x4) \<Rightarrow>
             Some (\<lparr> out_topo = o1, out_wave = o2, out_mini_topo = o3, out_mini_wave = o4 \<rparr>, x4))
        else do {
          x1 \<leftarrow> undo_filter e (TopoName pair) topoCreated topo w3;
          x2 \<leftarrow> undo_filter e (WaveName pair) waveCreated wave x1;
          Some (\<lparr> out_topo = None, out_wave = None, out_mini_topo = None, out_mini_wave = None \<rparr>, x2) });
     w5 \<leftarrow> safe_release miniTopo w4;
     w6 \<leftarrow> safe_release topo w5;
     w7 \<leftarrow> safe_release miniWave w6;
     w8 \<leftarrow> safe_release wave w7;
     Some (st, outs, w8) }"

definition RemoveEndpointFilters :: "filters_env \<Rightarrow> ENDPOINT_MINIPAIR \<Rightarrow> obj option \<Rightarrow> obj option \<Rightarrow>
    adapter_world \<Rightarrow> (NTSTATUS \<times> adapter_world) option" where
  "RemoveEndpointFilters e pair topo wave w = do {
     let w1 = (case (topo, wave) of
                 (Some t, Some v) \<Rightarrow>
                   snd (DisconnectTopologies (fe_disc_qi e) (fe_disc e) t v (PhysicalConnections pair) w)
               | _ \<Rightarrow> w);
     (_, w2) \<leftarrow> RemoveCachedSubdevice (WaveName pair) w1;
     let w3 = (case wave of Some v \<Rightarrow> snd (UnregisterSubdevice (fe_unreg_qi e v) (fe_unreg e v) wave w2)
                          | None \<Rightarrow> w2);
     (_, w4) \<leftarrow> RemoveCachedSubdevice (TopoName pair) w3;
     let w5 = (case topo of Some t \<Rightarrow> snd (UnregisterSubdevice (fe_unreg_qi e t) (fe_unreg e t) topo w4)
                          | None \<Rightarrow> w4);
     Some (STATUS_SUCCESS, w5) }"

text \<open>The pointers of GetFilters are handed out as GetCachedSubdevice returned them.\<close>

definition GetFilters :: "ENDPOINT_MINIPAIR \<Rightarrow> bool filter_outs \<Rightarrow> adapter_world \<Rightarrow>
    NTSTATUS \<times> obj option filter_outs \<times> adapter_world" where
  "GetFilters pair want w =
     (let (st1, o1, o3, w1) =
            (if out_topo want \<or> out_mini_topo want then
               (case GetCachedSubdevice (TopoName pair) w of (st, p, mp, x) \<Rightarrow>
                  (st, if NT_SUCCESS st \<and> out_topo want then p else None,
                       if NT_SUCCESS st \<and> out_mini_topo want then mp else None, x))
             else (STATUS_SUCCESS, None, None, w));
          (st2, o2, o4, w2) =
            (if NT_SUCCESS st1 \<and> (out_wave want \<or> out_mini_wave want) then
               (case GetCachedSubdevice (WaveName pair) w1 of (st, p, mp, x) \<Rightarrow>
                  (st, if NT_SUCCESS st \<and> out_wave want then p else None,
                       if NT_SUCCESS st \<and> out_mini_wave want then mp else None, x))
             else (st1, None, None, w1))
      in (st2, \<lparr> out_topo = o1, out_wave = o2, out_mini_topo = o3, out_mini_wave = o4 \<rparr>, w2))"

text \<open>\<open>qi\<close> is the result of the query for IPortClsPower; \<open>m_dwIdleRequests\<close> is a DWORD.\<close>

definition SetIdlePowerManagement :: "NTSTATUS \<Rightarrow> ENDPOINT_MINIPAIR \<Rightarrow> bool \<Rightarrow> adapter_world \<Rightarrow>
    (NTSTATUS \<times> adapter_world) option" where
  "SetIdlePowerManagement qi pair bEnabled w =
     (case GetFilters pair \<lparr> out_topo = False, out_wave = True, out_mini_topo = False, out_mini_wave = False \<rparr> w of
        (st, outs, w1) \<Rightarrow>
          (if NT_SUCCESS st then
             (case out_wave outs of
                None \<Rightarrow> None
              | Some p \<Rightarrow>
                  if NT_SUCCESS qi then
                    (let w2 = addref p w1;
                         w3 = (if bEnabled then
                                 (let n = usub (m_dwIdleRequests w2) 1
                                  in w2 \<lparr> m_dwIdleRequests := n, idle_enabled := (n = 0 \<or> idle_enabled w2) \<rparr>)
                               else w2 \<lparr> idle_enabled := (m_dwIdleRequests w2 \<noteq> 0 \<and> idle_enabled w2),
                                         m_dwIdleRequests := ulong (m_dwIdleRequests w2 + 1) \<rparr>)
                     in do { w4 \<leftarrow> release p w3; w5 \<leftarrow> release p w4; Some (qi, w5) })
                  else do { w2 \<leftarrow> release p w1; Some (qi, w2) })
           else Some (st, w1)))"

section \<open>The cache as a map from names\<close>

text \<open>The contract of a keyed store, and its use by the cache of subdevices.\<close>

locale keyed_store =
  fixes look :: "'k \<Rightarrow> 's \<Rightarrow> 'v option"
    and ins :: "'k \<Rightarrow> 'v \<Rightarrow> 's \<Rightarrow> 's"
    and del :: "'k \<Rightarrow> 's \<Rightarrow> 's"
    and ok :: "'s \<Rightarrow> bool"
  assumes look_ins: "ok s \<Longrightarrow> look k s = None \<Longrightarrow> look j (ins k v s) = (if j = k then Some v else look j s)"
    and look_del: "ok s \<Longrightarrow> look j (del k s) = (if j = k then None else look j s)"
    and ok_ins: "ok s \<Longrightarrow> look k s = None \<Longrightarrow> ok (ins k v s)"
    and ok_del: "ok s \<Longrightarrow> ok (del k s)"
begin

lemma ins_del: "ok s \<Longrightarrow> look k s = None \<Longrightarrow> look j (del k (ins k v s)) = look j s"
  by (simp add: look_del ok_ins look_ins)

lemma two_ins:
  "ok s \<Longrightarrow> look k s = None \<Longrightarrow> look j s = None \<Longrightarrow> j \<noteq> k \<Longrightarrow>
     look k (ins j u (ins k v s)) = Some v \<and> look j (ins j u (ins k v s)) = Some u"
  by (simp add: look_ins ok_ins)

lemma two_ins_two_del:
  "ok s \<Longrightarrow> look k s = None \<Longrightarrow> look j s = None \<Longrightarrow> j \<noteq> k \<Longrightarrow>
     look i (del k (del j (ins j u (ins k v s)))) = look i s"
  by (simp add: look_del look_ins ok_ins ok_del)

end

definition cache_ok :: "MINIPAIR_UNKNOWN list \<Rightarrow> bool" where
  "cache_ok rs \<longleftrightarrow> distinct (map Name rs)"

type_synonym cached = "obj \<times> obj \<times> bool \<times> bool"

definition payload :: "MINIPAIR_UNKNOWN \<Rightarrow> cached" where
  "payload r = (PortInterface r, MiniportInterface r, PowerInterface r, MiniportChange r)"

definition record_of :: "string \<Rightarrow> cached \<Rightarrow> MINIPAIR_UNKNOWN" where
  "record_of nm = (\<lambda>(p, m, a, b). \<lparr> Name = nm, PortInterface = p, MiniportInterface = m,
     PowerInterface = a, MiniportChange = b \<rparr>)"

definition lookup_cached :: "string \<Rightarrow> MINIPAIR_UNKNOWN list \<Rightarrow> cached option" where
  "lookup_cached nm rs = map_option payload (lookup_record nm rs)"

definition insert_record :: "string \<Rightarrow> cached \<Rightarrow> MINIPAIR_UNKNOWN list \<Rightarrow> MINIPAIR_UNKNOWN list" where
  "insert_record nm v rs = rs @ [record_of nm v]"

lemma lookup_record_None: "lookup_record nm rs = None \<longleftrightarrow> nm \<notin> Name ` set rs"
  by (induction rs) auto

lemma lookup_record_Some: "lookup_record nm rs = Some r \<Longrightarrow> Name r = nm \<and> r \<in> set rs"
  by (induction rs) (auto split: if_splits)

lemma lookup_record_append:
  "lookup_record nm (rs @ [r]) = (case lookup_record nm rs of Some x \<Rightarrow> Some x
     | None \<Rightarrow> if Name r = nm then Some r else None)"
  by (induction rs) auto

lemma delete_record_set: "set (delete_record nm rs) \<subseteq> set rs"
  by (induction rs) auto

lemma delete_record_distinct: "distinct (map Name rs) \<Longrightarrow> distinct (map Name (delete_record nm rs))"
proof (induction rs)
  case (Cons r rs)
  have "Name ` set (delete_record nm rs) \<subseteq> Name ` set rs" using delete_record_set by blast
  with Cons show ?case by auto
qed simp

lemma lookup_delete: "distinct (map Name rs) \<Longrightarrow>
    lookup_record j (delete_record k rs) = (if j = k then None else lookup_record j rs)"
  by (induction rs) (auto simp: lookup_record_None)

lemma delete_append: "lookup_record nm rs = None \<Longrightarrow> Name r = nm \<Longrightarrow> delete_record nm (rs @ [r]) = rs"
  by (induction rs) (auto split: if_splits)


lemma payload_record_of [simp]: "payload (record_of nm v) = v" "Name (record_of nm v) = nm"
  by (simp_all add: payload_def record_of_def split: prod.splits)

interpretation subdevices: keyed_store lookup_cached insert_record delete_record cache_ok
proof
  fix s :: "MINIPAIR_UNKNOWN list" and j k :: string and v :: cached
  show "cache_ok s \<Longrightarrow> lookup_cached k s = None \<Longrightarrow>
      lookup_cached j (insert_record k v s) = (if j = k then Some v else lookup_cached j s)"
    by (auto simp: lookup_cached_def insert_record_def lookup_record_append split: option.splits)
  show "cache_ok s \<Longrightarrow> lookup_cached j (delete_record k s) = (if j = k then None else lookup_cached j s)"
    by (simp add: lookup_cached_def cache_ok_def lookup_delete)
  show "cache_ok s \<Longrightarrow> lookup_cached k s = None \<Longrightarrow> cache_ok (insert_record k v s)"
    by (simp add: cache_ok_def insert_record_def lookup_cached_def lookup_record_None)
  show "cache_ok s \<Longrightarrow> cache_ok (delete_record k s)"
    by (simp add: cache_ok_def delete_record_distinct)
qed

section \<open>Reference accounting\<close>

text \<open>
  The references the driver owns: those of the cache and those held elsewhere (local pointers,
  output pointers of callers), the multiset \<open>E\<close>. \<open>acct w E\<close> states that the counts are exactly
  these.
\<close>

definition record_refs :: "MINIPAIR_UNKNOWN \<Rightarrow> obj multiset" where
  "record_refs r = {#PortInterface r, MiniportInterface r#}
     + (if PowerInterface r then {#MiniportInterface r#} else {#})
     + (if MiniportChange r then {#MiniportInterface r#} else {#})"

definition cache_refs :: "MINIPAIR_UNKNOWN list \<Rightarrow> obj multiset" where
  "cache_refs rs = sum_list (map record_refs rs)"

definition opt_ref :: "obj option \<Rightarrow> obj multiset" where
  "opt_ref p = (case p of None \<Rightarrow> {#} | Some q \<Rightarrow> {#q#})"

definition acct :: "adapter_world \<Rightarrow> obj multiset \<Rightarrow> bool" where
  "acct w E \<longleftrightarrow> refs w = count (cache_refs (m_SubdeviceCache w) + E)"

lemma opt_ref_simps [simp]: "opt_ref None = {#}" "opt_ref (Some q) = {#q#}"
  by (simp_all add: opt_ref_def)

lemma refs_cong: "M = N \<Longrightarrow> (w :: adapter_world) \<lparr> refs := count M \<rparr> = w \<lparr> refs := count N \<rparr>"
  by simp

lemma addref_eq: "refs w = count M \<Longrightarrow> addref p w = w \<lparr> refs := count (add_mset p M) \<rparr>"
  by (simp add: addref_def fun_eq_iff)

lemma release_eq: "refs w = count (add_mset p M) \<Longrightarrow> release p w = Some (w \<lparr> refs := count M \<rparr>)"
  by (simp add: release_def fun_eq_iff)

lemma safe_release_eq:
  "refs w = count (opt_ref p + M) \<Longrightarrow> safe_release p w = Some (w \<lparr> refs := count M \<rparr>)"
  by (cases p) (simp_all add: safe_release_def release_eq)

lemma release_record_eq:
  assumes "refs w = count (record_refs r + M)"
  shows "release_record r w = Some (w \<lparr> refs := count M \<rparr>)"
  using assms by (auto simp: release_record_def record_refs_def release_eq)

lemma acct_counts: "acct w E \<longleftrightarrow> refs w = count (cache_refs (m_SubdeviceCache w) + E)"
  by (simp add: acct_def)

lemma acct_addref: "acct w E \<Longrightarrow> acct (addref p w) (add_mset p E)"
  by (simp add: acct_def addref_eq)

text \<open>What the steps of an installation leave alone besides the counts.\<close>

definition same_rest :: "adapter_world \<Rightarrow> adapter_world \<Rightarrow> bool" where
  "same_rest w w' \<longleftrightarrow> m_SubdeviceCache w' = m_SubdeviceCache w \<and> registered w' = registered w
     \<and> connections w' = connections w \<and> m_dwIdleRequests w' = m_dwIdleRequests w
     \<and> idle_enabled w' = idle_enabled w"

lemma same_rest_refl [simp]: "same_rest w w" "same_rest w (w \<lparr> refs := f \<rparr>)"
  by (simp_all add: same_rest_def)

lemma same_rest_trans: "same_rest u v \<Longrightarrow> same_rest v w \<Longrightarrow> same_rest u w"
  by (simp add: same_rest_def)

lemma acct_release:
  "acct w (add_mset p E) \<Longrightarrow> \<exists>w'. release p w = Some w' \<and> acct w' E \<and> same_rest w w'"
  by (auto simp: acct_def release_eq)

lemma acct_safe_release:
  "acct w (opt_ref p + E) \<Longrightarrow> \<exists>w'. safe_release p w = Some w' \<and> acct w' E \<and> same_rest w w'"
proof -
  assume "acct w (opt_ref p + E)"
  then have "refs w = count (opt_ref p + (cache_refs (m_SubdeviceCache w) + E))"
    by (simp add: acct_def ac_simps)
  from safe_release_eq [OF this] show ?thesis by (simp add: acct_def)
qed

lemma acct_frame [simp]:
  "acct (w \<lparr> registered := x \<rparr>) E = acct w E" "acct (w \<lparr> connections := y \<rparr>) E = acct w E"
  "acct (w \<lparr> m_dwIdleRequests := z \<rparr>) E = acct w E" "acct (w \<lparr> idle_enabled := b \<rparr>) E = acct w E"
  by (simp_all add: acct_def)

lemma cache_refs_append [simp]: "cache_refs (rs @ [r]) = cache_refs rs + record_refs r"
  by (simp add: cache_refs_def)

lemma cache_refs_Cons [simp]: "cache_refs (r # rs) = record_refs r + cache_refs rs" "cache_refs [] = {#}"
  by (simp_all add: cache_refs_def)

lemma cache_refs_delete:
  "lookup_record nm rs = Some r \<Longrightarrow> cache_refs rs = record_refs r + cache_refs (delete_record nm rs)"
  by (induction rs) (auto split: if_splits)

lemma acct_Get:
  assumes "acct w E" and "GetCachedSubdevice nm w = (st, p, mp, w')"
  shows "acct w' (opt_ref p + opt_ref mp + E) \<and> same_rest w w'"
  using assms acct_addref [OF acct_addref [OF assms(1)]]
  by (auto simp: GetCachedSubdevice_def addref_def same_rest_def add_mset_commute split: option.splits)

lemma CacheSubdevice_total: "\<exists>st w'. CacheSubdevice e nm (Some p) (Some mp) w = Some (st, w')"
  by (simp add: CacheSubdevice_def Let_def)

text \<open>On success the record is appended; on failure nothing changes.\<close>

lemma CacheSubdevice_success:
  assumes "refs w = count M" and "ce_alloc e" and "length nm < MAX_PATH"
  shows "CacheSubdevice e nm (Some p) (Some mp) w = Some (STATUS_SUCCESS,
     w \<lparr> m_SubdeviceCache := insert_record nm (p, mp, ce_power e, ce_change e) (m_SubdeviceCache w),
         refs := count (record_refs (record_of nm (p, mp, ce_power e, ce_change e)) + M) \<rparr>)"
  using assms by (auto simp: CacheSubdevice_def Let_def addref_eq insert_record_def record_of_def
      record_refs_def add_mset_commute)

lemma acct_Cache:
  assumes "acct w E" and "CacheSubdevice e nm (Some p) (Some mp) w = Some (st, w')"
  shows "acct w' E \<and> registered w' = registered w \<and> connections w' = connections w
     \<and> (if NT_SUCCESS st then m_SubdeviceCache w' =
           insert_record nm (p, mp, ce_power e, ce_change e) (m_SubdeviceCache w) else w' = w)"
proof (cases "ce_alloc e \<and> length nm < MAX_PATH")
  case False
  then show ?thesis using assms by (auto simp: CacheSubdevice_def split: if_splits)
next
  case True
  with assms CacheSubdevice_success [of w _ e nm p mp] show ?thesis
    by (auto simp: acct_def insert_record_def ac_simps)
qed

lemma delete_absent: "lookup_record nm rs = None \<Longrightarrow> delete_record nm rs = rs"
  by (induction rs) (auto split: if_splits)

lemma acct_Remove:
  assumes "acct w E"
  shows "\<exists>st w'. RemoveCachedSubdevice nm w = Some (st, w') \<and> acct w' E
    \<and> m_SubdeviceCache w' = delete_record nm (m_SubdeviceCache w)
    \<and> registered w' = registered w \<and> connections w' = connections w"
proof (cases "lookup_record nm (m_SubdeviceCache w)")
  case None
  then show ?thesis using assms by (simp add: RemoveCachedSubdevice_def delete_absent)
next
  case (Some r)
  have "refs w = count (record_refs r + (cache_refs (delete_record nm (m_SubdeviceCache w)) + E))"
    using assms cache_refs_delete [OF Some] by (simp add: acct_def ac_simps)
  from release_record_eq [OF this] Some show ?thesis
    by (simp add: RemoveCachedSubdevice_def acct_def)
qed

lemma acct_Empty: "acct w E \<Longrightarrow> \<exists>w'. EmptySubdeviceCache w = Some w' \<and> refs w' = count E \<and> m_SubdeviceCache w' = []"
proof -
  have "refs w = count (cache_refs rs + E) \<Longrightarrow>
      \<exists>w'. empty_cache rs w = Some w' \<and> refs w' = count E \<and> m_SubdeviceCache w' = []" for rs w
  proof (induction rs arbitrary: w)
    case (Cons r rs)
    let ?x = "w \<lparr> m_SubdeviceCache := rs \<rparr>"
    have "refs ?x = count (record_refs r + (cache_refs rs + E))" using Cons.prems by (simp add: fun_eq_iff ac_simps)
    from release_record_eq [OF this] Cons.IH show ?case by simp
  qed simp
  then show "acct w E \<Longrightarrow> ?thesis" by (simp add: EmptySubdeviceCache_def acct_def)
qed

section \<open>Accounting for the endpoint operations\<close>

text \<open>
  COM never fails a query for IUnknown; the two queries for it in InstallSubdevice succeed.
\<close>

definition unknown_ok :: "install_env \<Rightarrow> bool" where
  "unknown_ok e \<longleftrightarrow> NT_SUCCESS (ie_qi_port e) \<and> NT_SUCCESS (ie_qi_mini e)"

lemma InstallSubdevice_acct:
  assumes a: "acct w E" and u: "unknown_ok e"
  shows "\<exists>st oi op om w'. InstallSubdevice e template False True True w = Some (st, oi, op, om, w')
     \<and> acct w' (opt_ref op + opt_ref om + E) \<and> m_SubdeviceCache w' = m_SubdeviceCache w
     \<and> connections w' = connections w
     \<and> registered w' = (if op = None then registered w else ie_port e # registered w)
     \<and> (NT_SUCCESS st \<longleftrightarrow> op \<noteq> None)
     \<and> (if op = None then om = None else op = Some (ie_port e) \<and> om = Some (ie_mini e))"
proof -
  define M where "M = cache_refs (m_SubdeviceCache w) + E"
  have r: "refs w = count M" using a by (simp add: acct_def M_def)
  let ?st0 = "fst (CreateAudioInterfaceWithProperties e template)"
  have rel1: "release (ie_port e) (x \<lparr> refs := count (add_mset (ie_mini e) (add_mset (ie_port e) M)) \<rparr>)
      = Some (x \<lparr> refs := count (add_mset (ie_mini e) M) \<rparr>)" for x
    by (subst release_eq [where M = "add_mset (ie_mini e) M"]) (simp_all add: add_mset_commute)
  have rel2: "release (ie_port e) (x \<lparr> refs := count (add_mset (ie_mini e) (add_mset (ie_port e)
        (add_mset (ie_mini e) (add_mset (ie_port e) M)))) \<rparr>)
      = Some (x \<lparr> refs := count (add_mset (ie_mini e) (add_mset (ie_mini e) (add_mset (ie_port e) M))) \<rparr>)" for x
    by (subst release_eq [where M = "add_mset (ie_mini e) (add_mset (ie_mini e) (add_mset (ie_port e) M))"])
      (simp_all add: add_mset_commute)
  have fin: "refs x = count M \<Longrightarrow> m_SubdeviceCache x = m_SubdeviceCache w \<Longrightarrow> acct x E" for x
    by (simp add: acct_def M_def)
  have fin2: "refs x = count (add_mset (ie_mini e) (add_mset (ie_port e) M)) \<Longrightarrow>
      m_SubdeviceCache x = m_SubdeviceCache w \<Longrightarrow> acct x (add_mset (ie_mini e) (add_mset (ie_port e) E))" for x
    by (simp add: acct_def M_def)
  consider "\<not> NT_SUCCESS ?st0" | "NT_SUCCESS ?st0" "\<not> NT_SUCCESS (ie_newport e)"
    | "NT_SUCCESS ?st0" "NT_SUCCESS (ie_newport e)" "\<not> NT_SUCCESS (ie_miniport e)"
    | "NT_SUCCESS ?st0" "NT_SUCCESS (ie_newport e)" "NT_SUCCESS (ie_miniport e)" "\<not> NT_SUCCESS (ie_init e)"
    | "NT_SUCCESS ?st0" "NT_SUCCESS (ie_newport e)" "NT_SUCCESS (ie_miniport e)" "NT_SUCCESS (ie_init e)"
      "\<not> NT_SUCCESS (ie_register e)"
    | "NT_SUCCESS ?st0" "NT_SUCCESS (ie_newport e)" "NT_SUCCESS (ie_miniport e)" "NT_SUCCESS (ie_init e)"
      "NT_SUCCESS (ie_register e)" by blast
  then show ?thesis
    using r u
    by cases (simp_all add: InstallSubdevice_def Let_def deposit_def safe_release_def addref_eq
        release_eq rel1 rel2 fin fin2 unknown_ok_def)
qed

lemma find_or_install_acct:
  assumes a: "acct w E" and u: "unknown_ok e"
  shows "\<exists>st created p mp w'. find_or_install e ce nm template w = Some (st, created, p, mp, w')
     \<and> acct w' (opt_ref p + opt_ref mp + E) \<and> connections w' = connections w"
proof -
  obtain st p mp w1 where g: "GetCachedSubdevice nm w = (st, p, mp, w1)" by (metis prod_cases4)
  note g' = acct_Get [OF a g]
  show ?thesis
  proof (cases "\<not> NT_SUCCESS st \<or> p = None \<or> mp = None")
    case False
    then have "find_or_install e ce nm template w = Some (st, False, p, mp, w1)"
      using g by (auto simp: find_or_install_def)
    with g' show ?thesis by (auto simp: same_rest_def)
  next
    case True
    then have n: "p = None" "mp = None" using g by (auto simp: GetCachedSubdevice_def split: option.splits)
    obtain st1 oi op om w2 where i: "InstallSubdevice e template False True True w1 = Some (st1, oi, op, om, w2)"
        "acct w2 (opt_ref op + opt_ref om + E)" "connections w2 = connections w1"
        "NT_SUCCESS st1 \<longleftrightarrow> op \<noteq> None"
        "if op = None then om = None else op = Some (ie_port e) \<and> om = Some (ie_mini e)"
      using InstallSubdevice_acct [of w1 E e template] g' u n by auto
    show ?thesis
    proof (cases "NT_SUCCESS st1")
      case False
      then have "find_or_install e ce nm template w = Some (st1, True, op, om, w2)"
        using g i(1) n False by (simp add: find_or_install_def)
      moreover have "connections w2 = connections w" using g' i(3) by (simp add: same_rest_def)
      ultimately show ?thesis using i(2) by (metis (no_types))
    next
      case ok: True
      then have o: "op = Some (ie_port e)" "om = Some (ie_mini e)" using i by auto
      obtain st2 w3 where c: "CacheSubdevice ce nm op om w2 = Some (st2, w3)"
        using CacheSubdevice_total o by metis
      then have c': "CacheSubdevice ce nm (Some (ie_port e)) (Some (ie_mini e)) w2 = Some (st2, w3)"
        using o by simp
      have "acct w3 (opt_ref op + opt_ref om + E)" "connections w3 = connections w2"
        using acct_Cache [OF i(2) c'] by blast+
      moreover have "find_or_install e ce nm template w = Some (st2, True, op, om, w3)"
        using g True i(1) ok c n by (simp add: find_or_install_def)
      moreover have "connections w2 = connections w" using g' i(3) by (simp add: same_rest_def)
      ultimately show ?thesis by (metis (no_types))
    qed
  qed
qed

lemma DisconnectTopologies_frame: "\<exists>cs. snd (DisconnectTopologies qi stat t v table w) = w \<lparr> connections := cs \<rparr>"
proof (cases "NT_SUCCESS qi")
  case False
  then have "snd (DisconnectTopologies qi stat t v table w) = w \<lparr> connections := connections w \<rparr>"
    by (simp add: DisconnectTopologies_def)
  then show ?thesis by blast
qed (auto simp: DisconnectTopologies_def split: prod.split)

lemma ConnectTopologies_frame: "\<exists>cs. snd (ConnectTopologies stat dqi dstat t v table w) = w \<lparr> connections := cs \<rparr>"
proof -
  have "\<exists>cs'. snd (DisconnectTopologies dqi dstat t v table (w \<lparr> connections := cs \<rparr>)) = w \<lparr> connections := cs' \<rparr>" for cs
    using DisconnectTopologies_frame [of dqi dstat t v table "w \<lparr> connections := cs \<rparr>"] by auto
  then show ?thesis by (auto simp: ConnectTopologies_def Let_def split: prod.split)
qed

lemma hand_out_acct:
  "acct w E \<Longrightarrow> hand_out want p w = (o', w') \<Longrightarrow> acct w' (opt_ref o' + E)"
  by (auto simp: hand_out_def acct_addref split: option.splits if_splits)

lemma undo_filter_acct:
  assumes "acct w E"
  shows "\<exists>w'. undo_filter e nm created p w = Some w' \<and> acct w' E"
proof (cases p)
  case (Some q)
  let ?x = "snd (UnregisterSubdevice (fe_unreg_qi e q) (fe_unreg e q) (Some q) w)"
  have "acct ?x E" using assms by (simp add: UnregisterSubdevice_def)
  from acct_Remove [OF this, of nm] Some assms show ?thesis by (auto simp: undo_filter_def)
qed (simp add: undo_filter_def assms)

definition outs_refs :: "obj option filter_outs \<Rightarrow> obj multiset" where
  "outs_refs r = opt_ref (out_topo r) + opt_ref (out_wave r) + opt_ref (out_mini_topo r)
     + opt_ref (out_mini_wave r)"

lemma InstallEndpointFilters_acct:
  assumes a: "acct w E" and u: "unknown_ok (fe_topo e)" "unknown_ok (fe_wave e)"
  shows "\<exists>st outs w'. InstallEndpointFilters e pair want w = Some (st, outs, w')
     \<and> acct w' (outs_refs outs + E)"
proof -
  obtain st1 c1 t mt w1 where f1: "find_or_install (fe_topo e) (fe_cache_topo e) (TopoName pair)
      (TemplateTopoName pair) w = Some (st1, c1, t, mt, w1)" "acct w1 (opt_ref t + opt_ref mt + E)"
    using find_or_install_acct [OF a u(1)] by blast
  obtain st2 c2 v mv w2 where f2: "find_or_install (fe_wave e) (fe_cache_wave e) (WaveName pair)
      (TemplateWaveName pair) w1 = Some (st2, c2, v, mv, w2)"
      "acct w2 (opt_ref v + opt_ref mv + (opt_ref t + opt_ref mt + E))"
    using find_or_install_acct [OF f1(2) u(2)] by blast
  let ?L = "opt_ref mt + (opt_ref t + (opt_ref mv + (opt_ref v + E)))"
  obtain st w3 where c: "(case (t, v) of
                       (Some t, Some v) \<Rightarrow> ConnectTopologies (fe_connect e) (fe_disc_qi e) (fe_disc e) t v
                           (PhysicalConnections pair) w2
                     | _ \<Rightarrow> (st2, w2)) = (st, w3)" by fastforce
  have a3: "acct w3 ?L"
  proof -
    have "acct w2 ?L" using f2(2) by (simp add: ac_simps)
    moreover have "\<exists>cs. w3 = w2 \<lparr> connections := cs \<rparr>"
    proof (cases "\<exists>q r. t = Some q \<and> v = Some r")
      case True
      then obtain q x where "t = Some q" "v = Some x" by blast
      then have "w3 = snd (ConnectTopologies (fe_connect e) (fe_disc_qi e) (fe_disc e) q x
          (PhysicalConnections pair) w2)" using c by simp
      then show ?thesis using ConnectTopologies_frame by simp
    next
      case False
      then have "w3 = w2" using c by (auto split: option.splits)
      then have "w3 = w2 \<lparr> connections := connections w2 \<rparr>" by simp
      then show ?thesis by blast
    qed
    ultimately show ?thesis by auto
  qed
  have "\<exists>outs w4. (if NT_SUCCESS st then
          (case hand_out (out_topo want) t w3 of (o1, x1) \<Rightarrow>
           case hand_out (out_wave want) v x1 of (o2, x2) \<Rightarrow>
           case hand_out (out_mini_topo want) mt x2 of (o3, x3) \<Rightarrow>
           case hand_out (out_mini_wave want) mv x3 of (o4, x4) \<Rightarrow>
             Some (\<lparr> out_topo = o1, out_wave = o2, out_mini_topo = o3, out_mini_wave = o4 \<rparr>, x4))
        else do {
          x1 \<leftarrow> undo_filter e (TopoName pair) c1 t w3;
          x2 \<leftarrow> undo_filter e (WaveName pair) c2 v x1;
          Some (\<lparr> out_topo = None, out_wave = None, out_mini_topo = None, out_mini_wave = None \<rparr>, x2) })
      = Some (outs, w4) \<and> acct w4 (?L + outs_refs outs)"
  proof (cases "NT_SUCCESS st")
    case True
    obtain o1 x1 where 1: "hand_out (out_topo want) t w3 = (o1, x1)" by fastforce
    obtain o2 x2 where 2: "hand_out (out_wave want) v x1 = (o2, x2)" by fastforce
    obtain o3 x3 where 3: "hand_out (out_mini_topo want) mt x2 = (o3, x3)" by fastforce
    obtain o4 x4 where 4: "hand_out (out_mini_wave want) mv x3 = (o4, x4)" by fastforce
    have "acct x4 (opt_ref o4 + (opt_ref o3 + (opt_ref o2 + (opt_ref o1 + ?L))))"
      by (intro hand_out_acct [OF _ 4] hand_out_acct [OF _ 3] hand_out_acct [OF _ 2] hand_out_acct [OF a3 1])
    then have "acct x4 (?L + outs_refs \<lparr> out_topo = o1, out_wave = o2, out_mini_topo = o3, out_mini_wave = o4 \<rparr>)"
      by (simp add: outs_refs_def ac_simps)
    with True 1 2 3 4 show ?thesis by simp
  next
    case False
    obtain x1 where x1: "undo_filter e (TopoName pair) c1 t w3 = Some x1" "acct x1 ?L"
      using undo_filter_acct [OF a3] by blast
    obtain x2 where x2: "undo_filter e (WaveName pair) c2 v x1 = Some x2" "acct x2 ?L"
      using undo_filter_acct [OF x1(2)] by blast
    with False x1 show ?thesis by (simp add: outs_refs_def)
  qed
  then obtain outs w4 where f: "(if NT_SUCCESS st then
          (case hand_out (out_topo want) t w3 of (o1, x1) \<Rightarrow>
           case hand_out (out_wave want) v x1 of (o2, x2) \<Rightarrow>
           case hand_out (out_mini_topo want) mt x2 of (o3, x3) \<Rightarrow>
           case hand_out (out_mini_wave want) mv x3 of (o4, x4) \<Rightarrow>
             Some (\<lparr> out_topo = o1, out_wave = o2, out_mini_topo = o3, out_mini_wave = o4 \<rparr>, x4))
        else do {
          x1 \<leftarrow> undo_filter e (TopoName pair) c1 t w3;
          x2 \<leftarrow> undo_filter e (WaveName pair) c2 v x1;
          Some (\<lparr> out_topo = None, out_wave = None, out_mini_topo = None, out_mini_wave = None \<rparr>, x2) })
      = Some (outs, w4)" "acct w4 (?L + outs_refs outs)" by blast
  have a4: "acct w4 (opt_ref mt + (opt_ref t + (opt_ref mv + (opt_ref v + (outs_refs outs + E)))))"
    using f(2) by (simp add: ac_simps)
  obtain w5 where w5: "safe_release mt w4 = Some w5" "acct w5 (opt_ref t + (opt_ref mv + (opt_ref v + (outs_refs outs + E))))"
    using acct_safe_release [OF a4] by blast
  obtain w6 where w6: "safe_release t w5 = Some w6" "acct w6 (opt_ref mv + (opt_ref v + (outs_refs outs + E)))"
    using acct_safe_release [OF w5(2)] by blast
  obtain w7 where w7: "safe_release mv w6 = Some w7" "acct w7 (opt_ref v + (outs_refs outs + E))"
    using acct_safe_release [OF w6(2)] by blast
  obtain w8 where w8: "safe_release v w7 = Some w8" "acct w8 (outs_refs outs + E)"
    using acct_safe_release [OF w7(2)] by blast
  show ?thesis
    using f1(1) f2(1) c f(1) w5(1) w6(1) w7(1) w8
    by (simp add: InstallEndpointFilters_def Let_def)
qed

lemma RemoveEndpointFilters_acct:
  assumes "acct w E"
  shows "\<exists>w'. RemoveEndpointFilters e pair topo wave w = Some (STATUS_SUCCESS, w') \<and> acct w' E
    \<and> m_SubdeviceCache w' = delete_record (TopoName pair) (delete_record (WaveName pair) (m_SubdeviceCache w))"
proof -
  define w1 where "w1 = (case (topo, wave) of
      (Some t, Some v) \<Rightarrow> snd (DisconnectTopologies (fe_disc_qi e) (fe_disc e) t v (PhysicalConnections pair) w)
    | _ \<Rightarrow> w)"
  obtain cs where cs: "w1 = w \<lparr> connections := cs \<rparr>"
  proof (cases "\<exists>t v. topo = Some t \<and> wave = Some v")
    case True
    then obtain t v where "topo = Some t" "wave = Some v" by blast
    then show ?thesis
      using that DisconnectTopologies_frame [of "fe_disc_qi e" "fe_disc e" t v "PhysicalConnections pair" w]
      by (auto simp: w1_def)
  next
    case False
    then have "w1 = w" by (auto simp: w1_def split: option.splits)
    then show ?thesis using that [of "connections w"] by simp
  qed
  have a1: "acct w1 E" using assms by (simp add: cs)
  obtain s2 w2 where w2: "RemoveCachedSubdevice (WaveName pair) w1 = Some (s2, w2)" "acct w2 E"
      "m_SubdeviceCache w2 = delete_record (WaveName pair) (m_SubdeviceCache w)"
    using acct_Remove [OF a1, of "WaveName pair"] by (auto simp: cs)
  define w3 where "w3 = (case wave of Some v \<Rightarrow> snd (UnregisterSubdevice (fe_unreg_qi e v) (fe_unreg e v) wave w2)
      | None \<Rightarrow> w2)"
  have w3: "acct w3 E" "m_SubdeviceCache w3 = m_SubdeviceCache w2"
    using w2(2) by (auto simp: w3_def UnregisterSubdevice_def split: option.split)
  obtain s4 w4 where w4: "RemoveCachedSubdevice (TopoName pair) w3 = Some (s4, w4)" "acct w4 E"
      "m_SubdeviceCache w4 = delete_record (TopoName pair) (m_SubdeviceCache w3)"
    using acct_Remove [OF w3(1), of "TopoName pair"] by auto
  define w5 where "w5 = (case topo of Some t \<Rightarrow> snd (UnregisterSubdevice (fe_unreg_qi e t) (fe_unreg e t) topo w4)
      | None \<Rightarrow> w4)"
  have w5: "acct w5 E" "m_SubdeviceCache w5 = m_SubdeviceCache w4"
    using w4(2) by (auto simp: w5_def UnregisterSubdevice_def split: option.split)
  have "RemoveEndpointFilters e pair topo wave w = Some (STATUS_SUCCESS, w5)"
    using w2(1) w4(1) unfolding RemoveEndpointFilters_def Let_def w1_def [symmetric]
    by (simp add: w3_def [symmetric] w5_def [symmetric])
  then show ?thesis using w5 w4(3) w3(2) w2(3) by simp
qed

text \<open>
  C15. Reference counting is exact in every outcome: whatever the port-class and kernel calls
  return, installing and removing the filters of an endpoint never releases an object too often,
  and afterwards the reference counts are those of the cache records, of the pointers handed to
  the caller and of the references held before. (COM does not fail a query for IUnknown, which is
  the hypothesis on the two queries.)
\<close>

theorem endpoint_references_exact:
  assumes "acct w E" and "unknown_ok (fe_topo e)" and "unknown_ok (fe_wave e)"
  shows "(\<exists>st outs w'. InstallEndpointFilters e pair want w = Some (st, outs, w') \<and> acct w' (outs_refs outs + E))
     \<and> (\<exists>w'. RemoveEndpointFilters e pair topo wave w = Some (STATUS_SUCCESS, w') \<and> acct w' E)
     \<and> (\<exists>w'. EmptySubdeviceCache w = Some w' \<and> refs w' = count E \<and> m_SubdeviceCache w' = [])"
  using InstallEndpointFilters_acct [OF assms] RemoveEndpointFilters_acct [OF assms(1)]
    acct_Empty [OF assms(1)] by blast

section \<open>Connections\<close>

lemma connect_loop_all:
  "list_all (\<lambda>j. NT_SUCCESS (stat j)) [i..<i + length table] \<Longrightarrow> NT_SUCCESS st \<Longrightarrow>
     \<exists>st'. connect_loop t v stat i table st cs = (st', rev (map (physical t v) table) @ cs) \<and> NT_SUCCESS st'"
proof (induction table arbitrary: i st cs)
  case (Cons c table)
  have l: "NT_SUCCESS (stat i)" "list_all (\<lambda>j. NT_SUCCESS (stat j)) [Suc i..<Suc i + length table]"
    using Cons.prems(1) by (auto simp: list_all_iff)
  from Cons.IH [OF l(2) l(1), of "physical t v c # cs"] l(1) Cons.prems(2) show ?case by simp
qed simp

lemma disconnect_loop_all:
  "list_all (\<lambda>j. NT_SUCCESS (stat j)) [i..<i + length table] \<Longrightarrow>
     snd (disconnect_loop t v stat i table st cs) = filter (\<lambda>c. c \<notin> physical t v ` set table) cs"
proof (induction table arbitrary: i st cs)
  case (Cons c table)
  have l: "NT_SUCCESS (stat i)" "list_all (\<lambda>j. NT_SUCCESS (stat j)) [Suc i..<Suc i + length table]"
    using Cons.prems(1) by (auto simp: list_all_iff)
  have f: "filter (\<lambda>x. x \<notin> A) (removeAll y cs) = filter (\<lambda>x. x \<noteq> y \<and> x \<notin> A) cs" for A and y :: physical_conn
    by (induction cs) auto
  from Cons.IH [OF l(2)] l(1) show ?case by (simp add: f)
qed simp

lemma disconnect_loop_last:
  "fst (disconnect_loop t v stat i (table @ [c]) st cs) =
     (if NT_SUCCESS (stat (i + length table)) then STATUS_SUCCESS else stat (i + length table))"
  by (induction table arbitrary: i st cs) simp_all

text \<open>
  DisconnectTopologies reports the result of the last connection only: an earlier failure is
  forgotten as soon as a later call succeeds, whereas the comment in the loop promises the first
  error encountered.
\<close>

theorem disconnect_reports_last:
  "fst (DisconnectTopologies qi stat t v (table @ [c]) w) =
     (if \<not> NT_SUCCESS qi then qi
      else if NT_SUCCESS (stat (length table)) then STATUS_SUCCESS else stat (length table))"
proof (cases "NT_SUCCESS qi")
  case True
  have "fst (disconnect_loop t v stat 0 (table @ [c]) qi (connections w)) =
      (if NT_SUCCESS (stat (length table)) then STATUS_SUCCESS else stat (length table))"
    using disconnect_loop_last [of t v stat 0 table c qi "connections w"] by simp
  with True show ?thesis
    by (cases "disconnect_loop t v stat 0 (table @ [c]) qi (connections w)")
      (simp add: DisconnectTopologies_def)
qed (simp add: DisconnectTopologies_def)

section \<open>Failures that are not reported\<close>

text \<open>
  InstallEndpointFilters forgets a failing topology filter: when the topology filter is not
  cached and its installation fails, but the wave filter is found or installed, the function
  returns the wave filter's success, no topology filter, and nothing is connected.
\<close>

theorem install_swallows_topology_failure:
  assumes "acct w E" and "unknown_ok (fe_wave e)"
    and "lookup_record (TopoName pair) (m_SubdeviceCache w) = None"
    and "\<not> NT_SUCCESS (ie_iface (fe_topo e))"
    and "find_or_install (fe_wave e) (fe_cache_wave e) (WaveName pair) (TemplateWaveName pair) w
           = Some (st, created, Some v, Some mv, w2)" and "NT_SUCCESS st"
  shows "\<exists>outs w'. InstallEndpointFilters e pair want w = Some (st, outs, w')
     \<and> out_topo outs = None \<and> out_mini_topo outs = None \<and> connections w' = connections w"
proof -
  have t: "find_or_install (fe_topo e) (fe_cache_topo e) (TopoName pair) (TemplateTopoName pair) w
      = Some (ie_iface (fe_topo e), True, None, None, w)"
    using assms(3,4) by (simp add: find_or_install_def GetCachedSubdevice_def InstallSubdevice_def
        CreateAudioInterfaceWithProperties_def safe_release_def Let_def)
  have a2: "acct w2 ({#v#} + {#mv#} + E)" "connections w2 = connections w"
    using find_or_install_acct [OF assms(1,2), of "fe_cache_wave e" "WaveName pair" "TemplateWaveName pair"]
      assms(5) by auto
  let ?o2 = "fst (hand_out (out_wave want) (Some v) w2)" and ?x2 = "snd (hand_out (out_wave want) (Some v) w2)"
  let ?o4 = "fst (hand_out (out_mini_wave want) (Some mv) ?x2)"
  let ?x4 = "snd (hand_out (out_mini_wave want) (Some mv) ?x2)"
  have a4: "acct ?x4 (opt_ref ?o4 + (opt_ref ?o2 + ({#v#} + {#mv#} + E)))"
    by (intro hand_out_acct [where w = ?x2] hand_out_acct [where w = w2] a2(1)) simp_all
  have c4: "connections ?x4 = connections w"
    using a2(2) by (simp add: hand_out_def addref_def)
  have "acct ?x4 (add_mset mv (add_mset v (opt_ref ?o4 + (opt_ref ?o2 + E))))"
    using a4 by (simp add: add_mset_commute)
  then obtain w7 where w7: "release mv ?x4 = Some w7" "acct w7 (add_mset v (opt_ref ?o4 + (opt_ref ?o2 + E)))"
      "same_rest ?x4 w7"
    using acct_release by blast
  then obtain w8 where w8: "release v w7 = Some w8" "same_rest w7 w8"
    using acct_release by blast
  have "connections w8 = connections w" using w7(3) w8(2) c4 by (simp add: same_rest_def)
  then show ?thesis
    using t assms(5,6) w7(1) w8(1)
    by (simp add: InstallEndpointFilters_def Let_def case_prod_unfold safe_release_def)
      (simp add: hand_out_def)
qed

section \<open>Installation in the normal case\<close>

definition install_ok :: "install_env \<Rightarrow> string option \<Rightarrow> bool" where
  "install_ok e template \<longleftrightarrow> NT_SUCCESS (fst (CreateAudioInterfaceWithProperties e template))
     \<and> NT_SUCCESS (ie_newport e) \<and> NT_SUCCESS (ie_miniport e) \<and> NT_SUCCESS (ie_init e)
     \<and> NT_SUCCESS (ie_register e) \<and> unknown_ok e"

lemma InstallSubdevice_ok:
  assumes a: "acct w E" and i: "install_ok e template"
  shows "\<exists>st oi w'. InstallSubdevice e template False True True w
       = Some (st, oi, Some (ie_port e), Some (ie_mini e), w') \<and> NT_SUCCESS st
     \<and> acct w' ({#ie_port e#} + {#ie_mini e#} + E) \<and> m_SubdeviceCache w' = m_SubdeviceCache w
     \<and> connections w' = connections w \<and> registered w' = ie_port e # registered w"
proof -
  obtain st oi op om w' where s: "InstallSubdevice e template False True True w = Some (st, oi, op, om, w')"
      "acct w' (opt_ref op + opt_ref om + E)" "m_SubdeviceCache w' = m_SubdeviceCache w"
      "connections w' = connections w" "registered w' = (if op = None then registered w else ie_port e # registered w)"
      "NT_SUCCESS st \<longleftrightarrow> op \<noteq> None"
      "if op = None then om = None else op = Some (ie_port e) \<and> om = Some (ie_mini e)"
    using InstallSubdevice_acct [OF a, of e template] i by (auto simp: install_ok_def)
  have "NT_SUCCESS st"
    using s(1) i by (auto simp: InstallSubdevice_def install_ok_def unknown_ok_def deposit_def Let_def
        split: bind_splits)
  with s show ?thesis by auto
qed

lemma find_or_install_ok:
  assumes a: "acct w E" and i: "install_ok e template" and c: "ce_alloc ce" "length nm < MAX_PATH"
    and n: "lookup_record nm (m_SubdeviceCache w) = None"
  shows "\<exists>w'. find_or_install e ce nm template w
       = Some (STATUS_SUCCESS, True, Some (ie_port e), Some (ie_mini e), w')
     \<and> acct w' ({#ie_port e#} + {#ie_mini e#} + E) \<and> connections w' = connections w
     \<and> registered w' = ie_port e # registered w
     \<and> m_SubdeviceCache w' = insert_record nm (ie_port e, ie_mini e, ce_power ce, ce_change ce) (m_SubdeviceCache w)"
proof -
  obtain st oi w1 where s: "InstallSubdevice e template False True True w
       = Some (st, oi, Some (ie_port e), Some (ie_mini e), w1)" "NT_SUCCESS st"
     "acct w1 ({#ie_port e#} + {#ie_mini e#} + E)" "m_SubdeviceCache w1 = m_SubdeviceCache w"
     "connections w1 = connections w" "registered w1 = ie_port e # registered w"
    using InstallSubdevice_ok [OF a i] by blast
  have r: "refs w1 = count (cache_refs (m_SubdeviceCache w1) + ({#ie_port e#} + {#ie_mini e#} + E))"
    using s(3) by (simp add: acct_def)
  from CacheSubdevice_success [OF r c] obtain w2 where
    w2: "CacheSubdevice ce nm (Some (ie_port e)) (Some (ie_mini e)) w1 = Some (STATUS_SUCCESS, w2)" by blast
  have "acct w2 ({#ie_port e#} + {#ie_mini e#} + E)" "registered w2 = registered w1"
      "connections w2 = connections w1"
      "m_SubdeviceCache w2 = insert_record nm (ie_port e, ie_mini e, ce_power ce, ce_change ce) (m_SubdeviceCache w1)"
    using acct_Cache [OF s(3) w2] by simp_all
  moreover have "find_or_install e ce nm template w
       = Some (STATUS_SUCCESS, True, Some (ie_port e), Some (ie_mini e), w2)"
    using n s(1,2) w2 by (simp add: find_or_install_def GetCachedSubdevice_def)
  ultimately show ?thesis using s by simp
qed

text \<open>Every call of an installation and of the removal succeeds, and the names fit.\<close>

definition all_calls_ok :: "filters_env \<Rightarrow> ENDPOINT_MINIPAIR \<Rightarrow> bool" where
  "all_calls_ok e pair \<longleftrightarrow>
     install_ok (fe_topo e) (TemplateTopoName pair) \<and> install_ok (fe_wave e) (TemplateWaveName pair)
     \<and> ce_alloc (fe_cache_topo e) \<and> ce_alloc (fe_cache_wave e)
     \<and> length (TopoName pair) < MAX_PATH \<and> length (WaveName pair) < MAX_PATH
     \<and> list_all (\<lambda>j. NT_SUCCESS (fe_connect e j)) [0..<length (PhysicalConnections pair)]
     \<and> NT_SUCCESS (fe_disc_qi e)
     \<and> list_all (\<lambda>j. NT_SUCCESS (fe_disc e j)) [0..<length (PhysicalConnections pair)]
     \<and> list_all (\<lambda>p. NT_SUCCESS (fe_unreg_qi e p) \<and> NT_SUCCESS (fe_unreg e p))
         [ie_port (fe_topo e), ie_port (fe_wave e)]"

text \<open>The objects of the new filters are not in use yet.\<close>

definition fresh_ports :: "filters_env \<Rightarrow> ENDPOINT_MINIPAIR \<Rightarrow> adapter_world \<Rightarrow> bool" where
  "fresh_ports e pair w \<longleftrightarrow>
     ie_port (fe_topo e) \<notin> set (registered w) \<and> ie_port (fe_wave e) \<notin> set (registered w)
     \<and> set (connections w) \<inter> set (map (physical (ie_port (fe_topo e)) (ie_port (fe_wave e)))
           (PhysicalConnections pair)) = {}"

abbreviation all_outs :: "bool filter_outs" where
  "all_outs \<equiv> \<lparr> out_topo = True, out_wave = True, out_mini_topo = True, out_mini_wave = True \<rparr>"

definition new_outs :: "filters_env \<Rightarrow> obj option filter_outs" where
  "new_outs e = \<lparr> out_topo = Some (ie_port (fe_topo e)), out_wave = Some (ie_port (fe_wave e)),
     out_mini_topo = Some (ie_mini (fe_topo e)), out_mini_wave = Some (ie_mini (fe_wave e)) \<rparr>"

definition both_records :: "filters_env \<Rightarrow> ENDPOINT_MINIPAIR \<Rightarrow> MINIPAIR_UNKNOWN list \<Rightarrow> MINIPAIR_UNKNOWN list" where
  "both_records e pair rs =
     insert_record (WaveName pair) (ie_port (fe_wave e), ie_mini (fe_wave e),
         ce_power (fe_cache_wave e), ce_change (fe_cache_wave e))
       (insert_record (TopoName pair) (ie_port (fe_topo e), ie_mini (fe_topo e),
         ce_power (fe_cache_topo e), ce_change (fe_cache_topo e)) rs)"

lemma delete_insert: "lookup_record nm rs = None \<Longrightarrow> delete_record nm (insert_record nm v rs) = rs"
  by (simp add: insert_record_def delete_append)

lemma lookup_insert_other:
  "lookup_record j rs = None \<Longrightarrow> k \<noteq> j \<Longrightarrow> lookup_record j (insert_record k v rs) = None"
  by (simp add: insert_record_def lookup_record_append)

lemma lookup_insert: "lookup_record nm rs = None \<Longrightarrow> lookup_cached nm (insert_record nm v rs) = Some v"
    "k \<noteq> j \<Longrightarrow> lookup_cached j (insert_record k v rs) = lookup_cached j rs"
  by (simp_all add: insert_record_def lookup_cached_def lookup_record_append split: option.split)

lemma both_records_delete:
  assumes "lookup_record (TopoName pair) rs = None" "lookup_record (WaveName pair) rs = None"
    and "TopoName pair \<noteq> WaveName pair"
  shows "delete_record (TopoName pair) (delete_record (WaveName pair) (both_records e pair rs)) = rs"
  using assms by (simp add: both_records_def delete_insert lookup_insert_other)

lemma InstallEndpointFilters_ok:
  assumes a: "acct w E" and ok: "all_calls_ok e pair"
    and n: "lookup_record (TopoName pair) (m_SubdeviceCache w) = None"
      "lookup_record (WaveName pair) (m_SubdeviceCache w) = None" "TopoName pair \<noteq> WaveName pair"
  shows "\<exists>st w'. InstallEndpointFilters e pair all_outs w = Some (st, new_outs e, w') \<and> NT_SUCCESS st
     \<and> acct w' (outs_refs (new_outs e) + E)
     \<and> m_SubdeviceCache w' = both_records e pair (m_SubdeviceCache w)
     \<and> registered w' = [ie_port (fe_wave e), ie_port (fe_topo e)] @ registered w
     \<and> connections w' = rev (map (physical (ie_port (fe_topo e)) (ie_port (fe_wave e)))
           (PhysicalConnections pair)) @ connections w"
proof -
  let ?t = "ie_port (fe_topo e)" and ?mt = "ie_mini (fe_topo e)"
  let ?v = "ie_port (fe_wave e)" and ?mv = "ie_mini (fe_wave e)"
  note i = ok [unfolded all_calls_ok_def]
  obtain w1 where w1: "find_or_install (fe_topo e) (fe_cache_topo e) (TopoName pair) (TemplateTopoName pair) w
       = Some (STATUS_SUCCESS, True, Some ?t, Some ?mt, w1)" "acct w1 ({#?t#} + {#?mt#} + E)"
     "connections w1 = connections w" "registered w1 = ?t # registered w"
     "m_SubdeviceCache w1 = insert_record (TopoName pair)
        (?t, ?mt, ce_power (fe_cache_topo e), ce_change (fe_cache_topo e)) (m_SubdeviceCache w)"
    using find_or_install_ok [OF a _ _ _ n(1)] i by blast
  have n1: "lookup_record (WaveName pair) (m_SubdeviceCache w1) = None"
    using n w1(5) by (simp add: lookup_insert_other)
  obtain w2 where w2: "find_or_install (fe_wave e) (fe_cache_wave e) (WaveName pair) (TemplateWaveName pair) w1
       = Some (STATUS_SUCCESS, True, Some ?v, Some ?mv, w2)" "acct w2 ({#?v#} + {#?mv#} + ({#?t#} + {#?mt#} + E))"
     "connections w2 = connections w" "registered w2 = ?v # ?t # registered w"
     "m_SubdeviceCache w2 = both_records e pair (m_SubdeviceCache w)"
    using find_or_install_ok [OF w1(2) _ _ _ n1, of "fe_wave e" "TemplateWaveName pair" "fe_cache_wave e"] i
      w1(3,4,5) by (auto simp: both_records_def)
  obtain st where st: "connect_loop ?t ?v (fe_connect e) 0 (PhysicalConnections pair) STATUS_SUCCESS (connections w2)
       = (st, rev (map (physical ?t ?v) (PhysicalConnections pair)) @ connections w)" "NT_SUCCESS st"
    using connect_loop_all [of "fe_connect e" 0 "PhysicalConnections pair" STATUS_SUCCESS ?t ?v "connections w2"]
      i w2(3) by auto
  define w3 where "w3 = w2 \<lparr> connections := rev (map (physical ?t ?v) (PhysicalConnections pair)) @ connections w \<rparr>"
  have c: "ConnectTopologies (fe_connect e) (fe_disc_qi e) (fe_disc e) ?t ?v (PhysicalConnections pair) w2 = (st, w3)"
    using st by (simp add: ConnectTopologies_def w3_def)
  define M where "M = cache_refs (m_SubdeviceCache w3) + E"
  have r: "refs w3 = count (add_mset ?v (add_mset ?mv (add_mset ?t (add_mset ?mt M))))"
    using w2(2) by (simp add: acct_def w3_def M_def add_mset_commute)
  let ?N = "add_mset ?v (add_mset ?mv (add_mset ?t (add_mset ?mt M)))"
  have q: "safe_release (Some ?mt) (w3 \<lparr> refs := count (add_mset ?mv (add_mset ?mt (add_mset ?v (add_mset ?t ?N)))) \<rparr>)
      = Some (w3 \<lparr> refs := count (add_mset ?mv (add_mset ?v (add_mset ?t ?N))) \<rparr>)"
    "safe_release (Some ?t) (w3 \<lparr> refs := count (add_mset ?mv (add_mset ?v (add_mset ?t ?N))) \<rparr>)
      = Some (w3 \<lparr> refs := count (add_mset ?mv (add_mset ?v ?N)) \<rparr>)"
    "safe_release (Some ?mv) (w3 \<lparr> refs := count (add_mset ?mv (add_mset ?v ?N)) \<rparr>)
      = Some (w3 \<lparr> refs := count (add_mset ?v ?N) \<rparr>)"
    "safe_release (Some ?v) (w3 \<lparr> refs := count (add_mset ?v ?N) \<rparr>) = Some (w3 \<lparr> refs := count ?N \<rparr>)"
    by (rule safe_release_eq [THEN trans], simp_all add: add_mset_commute)+
  have h: "hand_out True (Some ?t) w3 = (Some ?t, w3 \<lparr> refs := count (add_mset ?t ?N) \<rparr>)"
    "hand_out True (Some ?v) (w3 \<lparr> refs := count (add_mset ?t ?N) \<rparr>)
      = (Some ?v, w3 \<lparr> refs := count (add_mset ?v (add_mset ?t ?N)) \<rparr>)"
    "hand_out True (Some ?mt) (w3 \<lparr> refs := count (add_mset ?v (add_mset ?t ?N)) \<rparr>)
      = (Some ?mt, w3 \<lparr> refs := count (add_mset ?mt (add_mset ?v (add_mset ?t ?N))) \<rparr>)"
    "hand_out True (Some ?mv) (w3 \<lparr> refs := count (add_mset ?mt (add_mset ?v (add_mset ?t ?N))) \<rparr>)
      = (Some ?mv, w3 \<lparr> refs := count (add_mset ?mv (add_mset ?mt (add_mset ?v (add_mset ?t ?N)))) \<rparr>)"
    using r by (simp_all add: hand_out_def addref_eq)
  have "InstallEndpointFilters e pair all_outs w = Some (st, new_outs e, w3 \<lparr> refs := count ?N \<rparr>)"
    by (simp add: InstallEndpointFilters_def w1(1) w2(1) c st(2) h q new_outs_def)
  moreover have "acct (w3 \<lparr> refs := count ?N \<rparr>) (outs_refs (new_outs e) + E)"
    by (simp add: acct_def outs_refs_def new_outs_def M_def add_mset_commute)
  ultimately show ?thesis using st(2) w2(4,5) by (simp add: w3_def)
qed

lemma RemoveEndpointFilters_ok:
  assumes a: "acct w E" and ok: "all_calls_ok e pair"
    and d: "t = ie_port (fe_topo e)" "v = ie_port (fe_wave e)"
  shows "\<exists>w'. RemoveEndpointFilters e pair (Some t) (Some v) w = Some (STATUS_SUCCESS, w') \<and> acct w' E
    \<and> m_SubdeviceCache w' = delete_record (TopoName pair) (delete_record (WaveName pair) (m_SubdeviceCache w))
    \<and> registered w' = removeAll t (removeAll v (registered w))
    \<and> connections w' = filter (\<lambda>c. c \<notin> physical t v ` set (PhysicalConnections pair)) (connections w)"
proof -
  note i = ok [unfolded all_calls_ok_def]
  define w1 where "w1 = snd (DisconnectTopologies (fe_disc_qi e) (fe_disc e) t v (PhysicalConnections pair) w)"
  have w1: "w1 = w \<lparr> connections := filter (\<lambda>c. c \<notin> physical t v ` set (PhysicalConnections pair)) (connections w) \<rparr>"
    using disconnect_loop_all [of "fe_disc e" 0 "PhysicalConnections pair" t v "fe_disc_qi e" "connections w"] i
    by (auto simp: w1_def DisconnectTopologies_def split: prod.split)
  obtain s2 w2 where w2: "RemoveCachedSubdevice (WaveName pair) w1 = Some (s2, w2)" "acct w2 E"
      "m_SubdeviceCache w2 = delete_record (WaveName pair) (m_SubdeviceCache w1)"
      "registered w2 = registered w1" "connections w2 = connections w1"
    using acct_Remove [of w1 E "WaveName pair"] a by (auto simp: w1)
  define w3 where "w3 = snd (UnregisterSubdevice (fe_unreg_qi e v) (fe_unreg e v) (Some v) w2)"
  have w3: "w3 = w2 \<lparr> registered := removeAll v (registered w2) \<rparr>"
    using i d by (simp add: w3_def UnregisterSubdevice_def)
  obtain s4 w4 where w4: "RemoveCachedSubdevice (TopoName pair) w3 = Some (s4, w4)" "acct w4 E"
      "m_SubdeviceCache w4 = delete_record (TopoName pair) (m_SubdeviceCache w3)"
      "registered w4 = registered w3" "connections w4 = connections w3"
    using acct_Remove [of w3 E "TopoName pair"] w2(2) by (auto simp: w3)
  define w5 where "w5 = snd (UnregisterSubdevice (fe_unreg_qi e t) (fe_unreg e t) (Some t) w4)"
  have w5: "w5 = w4 \<lparr> registered := removeAll t (registered w4) \<rparr>"
    using i d by (simp add: w5_def UnregisterSubdevice_def)
  have "RemoveEndpointFilters e pair (Some t) (Some v) w = Some (STATUS_SUCCESS, w5)"
    using w2(1) w4(1) by (simp add: RemoveEndpointFilters_def w1_def w3_def w5_def)
  then show ?thesis using w4 w2 by (simp add: w5 w3 w1)
qed

text \<open>
  C18. Installing an endpoint and removing it again is a round trip: when the two filters are not
  cached and every call succeeds, InstallEndpointFilters caches both filters under their names,
  registers both ports, makes every connection of the endpoint and returns all four pointers;
  RemoveEndpointFilters with the returned ports restores the cache, the registrations and the
  connections as they were, and the only new references left are the four the caller holds.
\<close>

theorem endpoint_roundtrip:
  assumes "acct w E" and "all_calls_ok e pair" and "fresh_ports e pair w"
    and "lookup_record (TopoName pair) (m_SubdeviceCache w) = None"
    and "lookup_record (WaveName pair) (m_SubdeviceCache w) = None"
    and "TopoName pair \<noteq> WaveName pair"
  shows "\<exists>st w1 w2. InstallEndpointFilters e pair all_outs w = Some (st, new_outs e, w1) \<and> NT_SUCCESS st
     \<and> lookup_cached (TopoName pair) (m_SubdeviceCache w1) = Some (ie_port (fe_topo e), ie_mini (fe_topo e),
          ce_power (fe_cache_topo e), ce_change (fe_cache_topo e))
     \<and> lookup_cached (WaveName pair) (m_SubdeviceCache w1) = Some (ie_port (fe_wave e), ie_mini (fe_wave e),
          ce_power (fe_cache_wave e), ce_change (fe_cache_wave e))
     \<and> registered w1 = [ie_port (fe_wave e), ie_port (fe_topo e)] @ registered w
     \<and> set (connections w1) = set (connections w)
          \<union> physical (ie_port (fe_topo e)) (ie_port (fe_wave e)) ` set (PhysicalConnections pair)
     \<and> RemoveEndpointFilters e pair (out_topo (new_outs e)) (out_wave (new_outs e)) w1 = Some (STATUS_SUCCESS, w2)
     \<and> m_SubdeviceCache w2 = m_SubdeviceCache w \<and> registered w2 = registered w
     \<and> connections w2 = connections w \<and> acct w2 (outs_refs (new_outs e) + E)"
proof -
  let ?t = "ie_port (fe_topo e)" and ?v = "ie_port (fe_wave e)"
  note f = assms(3) [unfolded fresh_ports_def]
  obtain st w1 where w1: "InstallEndpointFilters e pair all_outs w = Some (st, new_outs e, w1)" "NT_SUCCESS st"
     "acct w1 (outs_refs (new_outs e) + E)" "m_SubdeviceCache w1 = both_records e pair (m_SubdeviceCache w)"
     "registered w1 = [?v, ?t] @ registered w"
     "connections w1 = rev (map (physical ?t ?v) (PhysicalConnections pair)) @ connections w"
    using InstallEndpointFilters_ok [OF assms(1,2,4,5,6)] by blast
  obtain w2 where w2: "RemoveEndpointFilters e pair (Some ?t) (Some ?v) w1 = Some (STATUS_SUCCESS, w2)"
      "acct w2 (outs_refs (new_outs e) + E)"
      "m_SubdeviceCache w2 = delete_record (TopoName pair) (delete_record (WaveName pair) (m_SubdeviceCache w1))"
      "registered w2 = removeAll ?t (removeAll ?v (registered w1))"
      "connections w2 = filter (\<lambda>c. c \<notin> physical ?t ?v ` set (PhysicalConnections pair)) (connections w1)"
    using RemoveEndpointFilters_ok [OF w1(3) assms(2) refl refl] by blast
  have "m_SubdeviceCache w2 = m_SubdeviceCache w"
    using w2(3) w1(4) assms(4,5,6) by (simp add: both_records_delete)
  moreover have "registered w2 = registered w" using w2(4) w1(5) f by simp
  moreover have "filter (\<lambda>c. c \<notin> physical ?t ?v ` set (PhysicalConnections pair)) (connections w) = connections w"
    using f by (auto intro!: filter_True)
  then have "connections w2 = connections w" using w2(5) w1(6) by (simp add: filter_empty_conv)
  moreover have "lookup_cached (TopoName pair) (m_SubdeviceCache w1) = Some (?t, ie_mini (fe_topo e),
          ce_power (fe_cache_topo e), ce_change (fe_cache_topo e))"
      "lookup_cached (WaveName pair) (m_SubdeviceCache w1) = Some (?v, ie_mini (fe_wave e),
          ce_power (fe_cache_wave e), ce_change (fe_cache_wave e))"
    using w1(4) assms(4,5,6)
    by (simp_all add: both_records_def lookup_insert lookup_insert_other)
  ultimately show ?thesis using w1 w2(1,2) by (auto simp: new_outs_def)
qed

section \<open>Idle power requests\<close>

text \<open>A history of requests: the endpoint and the flag of each, with port class succeeding.\<close>

fun idle_requests :: "NTSTATUS \<Rightarrow> (ENDPOINT_MINIPAIR \<times> bool) list \<Rightarrow> adapter_world \<Rightarrow> adapter_world option" where
  "idle_requests qi [] w = Some w"
| "idle_requests qi ((pair, b) # rs) w = do {
     (_, w1) \<leftarrow> SetIdlePowerManagement qi pair b w;
     idle_requests qi rs w1 }"

text \<open>The nesting depth of a history in which requests come in pairs, disable first.\<close>

fun nest :: "nat \<Rightarrow> bool list \<Rightarrow> nat option" where
  "nest n [] = Some n"
| "nest n (False # bs) = nest (Suc n) bs"
| "nest n (True # bs) = (case n of 0 \<Rightarrow> None | Suc k \<Rightarrow> nest k bs)"

definition wave_miniport :: "MINIPAIR_UNKNOWN list \<Rightarrow> ENDPOINT_MINIPAIR \<Rightarrow> obj multiset" where
  "wave_miniport rs pair = (case lookup_record (WaveName pair) rs of
     Some r \<Rightarrow> {#MiniportInterface r#} | None \<Rightarrow> {#})"

lemma SetIdlePowerManagement_cached:
  assumes a: "acct w E" and r: "lookup_record (WaveName pair) (m_SubdeviceCache w) = Some r"
    and q: "NT_SUCCESS qi" and n: "m_dwIdleRequests w < 4294967295" "b \<longrightarrow> m_dwIdleRequests w \<noteq> 0"
    and i: "idle_enabled w \<longleftrightarrow> m_dwIdleRequests w = 0"
  shows "\<exists>w'. SetIdlePowerManagement qi pair b w = Some (qi, w')
     \<and> acct w' (wave_miniport (m_SubdeviceCache w) pair + E) \<and> m_SubdeviceCache w' = m_SubdeviceCache w
     \<and> m_dwIdleRequests w' = (if b then m_dwIdleRequests w - 1 else m_dwIdleRequests w + 1)
     \<and> (idle_enabled w' \<longleftrightarrow> m_dwIdleRequests w' = 0)"
proof -
  define M where "M = cache_refs (m_SubdeviceCache w) + E"
  have c: "refs w = count M" using a by (simp add: acct_def M_def)
  let ?p = "PortInterface r" and ?m = "MiniportInterface r"
  have rel: "refs x = count (add_mset ?p (add_mset ?m (add_mset ?p M))) \<Longrightarrow>
      release ?p x = Some (x \<lparr> refs := count (add_mset ?m (add_mset ?p M)) \<rparr>)"
    "refs x = count (add_mset ?m (add_mset ?p M)) \<Longrightarrow>
      release ?p x = Some (x \<lparr> refs := count (add_mset ?m M) \<rparr>)" for x
    by (rule release_eq, simp add: add_mset_commute)+
  have fin: "acct x (wave_miniport (m_SubdeviceCache w) pair + E)"
    if "refs x = count (add_mset ?m M)" "m_SubdeviceCache x = m_SubdeviceCache w" for x
    using that r by (simp add: acct_def M_def wave_miniport_def)
  show ?thesis
    using r q n i c
    by (cases b) (simp_all add: SetIdlePowerManagement_def GetFilters_def GetCachedSubdevice_def Let_def
        addref_eq rel fin, linarith)
qed

text \<open>
  C19. Idle power-down is reference counted correctly: for any history of requests on cached
  endpoints in which enables and disables come in pairs, the counter is the number of open disable
  requests and idle power-down is enabled exactly when there is none. Each request leaks one
  reference on the wave miniport: GetFilters queries the cache for port and miniport, and the
  miniport reference, which the caller did not ask for, is never released.
\<close>

theorem idle_requests_correct:
  assumes "acct w E" and "NT_SUCCESS qi" and "idle_enabled w \<longleftrightarrow> m_dwIdleRequests w = 0"
    and "list_all (\<lambda>(pair, b). lookup_record (WaveName pair) (m_SubdeviceCache w) \<noteq> None) rs"
    and "m_dwIdleRequests w + length rs < 4294967296"
    and "nest (m_dwIdleRequests w) (map snd rs) = Some n"
  shows "\<exists>w'. idle_requests qi rs w = Some w' \<and> m_dwIdleRequests w' = n \<and> (idle_enabled w' \<longleftrightarrow> n = 0)
     \<and> m_SubdeviceCache w' = m_SubdeviceCache w
     \<and> acct w' (sum_list (map (\<lambda>(pair, b). wave_miniport (m_SubdeviceCache w) pair) rs) + E)"
  using assms
proof (induction rs arbitrary: w E)
  case (Cons x rs)
  obtain pair b where x: "x = (pair, b)" by (cases x)
  obtain r where r: "lookup_record (WaveName pair) (m_SubdeviceCache w) = Some r"
    using Cons.prems(4) x by auto
  have bn: "b \<longrightarrow> m_dwIdleRequests w \<noteq> 0"
    using Cons.prems(6) x by (cases b) (auto split: nat.splits)
  obtain w1 where w1: "SetIdlePowerManagement qi pair b w = Some (qi, w1)"
     "acct w1 (wave_miniport (m_SubdeviceCache w) pair + E)" "m_SubdeviceCache w1 = m_SubdeviceCache w"
     "m_dwIdleRequests w1 = (if b then m_dwIdleRequests w - 1 else m_dwIdleRequests w + 1)"
     "idle_enabled w1 \<longleftrightarrow> m_dwIdleRequests w1 = 0"
    using SetIdlePowerManagement_cached [OF Cons.prems(1) r Cons.prems(2) _ bn Cons.prems(3)]
      Cons.prems(5) by auto
  have "nest (m_dwIdleRequests w1) (map snd rs) = Some n"
    using Cons.prems(6) x w1(4) by (cases b) (auto split: nat.splits)
  moreover have "m_dwIdleRequests w1 + length rs < 4294967296"
    using Cons.prems(5) w1(4) by (auto split: if_splits)
  ultimately obtain w2 where "idle_requests qi rs w1 = Some w2" "m_dwIdleRequests w2 = n"
     "idle_enabled w2 \<longleftrightarrow> n = 0" "m_SubdeviceCache w2 = m_SubdeviceCache w1"
     "acct w2 (sum_list (map (\<lambda>(pair, b). wave_miniport (m_SubdeviceCache w1) pair) rs)
        + (wave_miniport (m_SubdeviceCache w) pair + E))"
    using Cons.IH [OF w1(2) Cons.prems(2) w1(5)] Cons.prems(4) w1(3) x by auto
  then show ?case using w1(1,3) x by (simp add: ac_simps)
qed simp

section \<open>Concrete endpoints\<close>

text \<open>A speaker endpoint with one bridge connection, an empty adapter, and calls that succeed.\<close>

definition speaker :: ENDPOINT_MINIPAIR where
  "speaker = \<lparr> TopoName = ''TopologySpeaker'', TemplateTopoName = None, WaveName = ''WaveSpeaker'',
     TemplateWaveName = Some ''WaveTemplate'',
     PhysicalConnections = [\<lparr> ulTopology = 0, ulWave = 1, eType = CONNECTIONTYPE_WAVE_OUTPUT \<rparr>] \<rparr>"

definition empty_adapter :: adapter_world where
  "empty_adapter = \<lparr> refs = (\<lambda>_. 0), m_SubdeviceCache = [], m_dwIdleRequests = 0, registered = [],
     connections = [], idle_enabled = True \<rparr>"

definition good_install :: "obj \<Rightarrow> obj \<Rightarrow> install_env" where
  "good_install p m = \<lparr> ie_iface = STATUS_SUCCESS, ie_migrate = STATUS_SUCCESS, ie_props = None,
     ie_newport = STATUS_SUCCESS, ie_miniport = STATUS_SUCCESS, ie_init = STATUS_SUCCESS,
     ie_register = STATUS_SUCCESS, ie_qi_port = STATUS_SUCCESS, ie_qi_iface = STATUS_SUCCESS,
     ie_qi_mini = STATUS_SUCCESS, ie_port = p, ie_mini = m \<rparr>"

definition good_calls :: "install_env \<Rightarrow> filters_env" where
  "good_calls topo = \<lparr> fe_topo = topo, fe_wave = good_install 3 4,
     fe_cache_topo = \<lparr> ce_alloc = True, ce_power = False, ce_change = True \<rparr>,
     fe_cache_wave = \<lparr> ce_alloc = True, ce_power = True, ce_change = False \<rparr>,
     fe_connect = (\<lambda>_. STATUS_SUCCESS), fe_disc_qi = STATUS_SUCCESS, fe_disc = (\<lambda>_. STATUS_SUCCESS),
     fe_unreg_qi = (\<lambda>_. STATUS_SUCCESS), fe_unreg = (\<lambda>_. STATUS_SUCCESS) \<rparr>"

lemma good_install_ok [simp]: "install_ok (good_install p m) template" "unknown_ok (good_install p m)"
  by (simp_all add: install_ok_def unknown_ok_def good_install_def CreateAudioInterfaceWithProperties_def
      SysvadIoSetDeviceInterfacePropertyDataMultiple_def)

lemma acct_empty [simp]: "acct empty_adapter {#}"
  by (simp add: acct_def empty_adapter_def fun_eq_iff)

lemmas concrete = speaker_def empty_adapter_def good_calls_def MAX_PATH_def

lemma endpoint_references_exact_witness:
  "(\<exists>st outs w'. InstallEndpointFilters (good_calls (good_install 1 2)) speaker all_outs empty_adapter
       = Some (st, outs, w') \<and> acct w' (outs_refs outs + {#}))"
  using endpoint_references_exact [of empty_adapter "{#}" "good_calls (good_install 1 2)" speaker all_outs]
  by (simp add: good_calls_def)

lemma install_swallows_topology_failure_witness:
  "\<exists>outs w'. InstallEndpointFilters (good_calls (good_install 1 2 \<lparr> ie_iface := STATUS_UNSUCCESSFUL \<rparr>))
        speaker all_outs empty_adapter = Some (STATUS_SUCCESS, outs, w')
     \<and> out_topo outs = None \<and> out_mini_topo outs = None \<and> connections w' = connections empty_adapter"
proof -
  let ?e = "good_calls (good_install 1 2 \<lparr> ie_iface := STATUS_UNSUCCESSFUL \<rparr>)"
  obtain w2 where "find_or_install (fe_wave ?e) (fe_cache_wave ?e) (WaveName speaker)
      (TemplateWaveName speaker) empty_adapter = Some (STATUS_SUCCESS, True, Some 3, Some 4, w2)"
    using find_or_install_ok [OF acct_empty, of "fe_wave ?e" "TemplateWaveName speaker" "fe_cache_wave ?e"
        "WaveName speaker"]
    by (auto simp: concrete good_install_def install_ok_def unknown_ok_def
        CreateAudioInterfaceWithProperties_def SysvadIoSetDeviceInterfacePropertyDataMultiple_def)
  then show ?thesis
    using install_swallows_topology_failure [OF acct_empty, of ?e speaker STATUS_SUCCESS True 3 4 w2 all_outs]
    by (simp add: concrete good_install_def unknown_ok_def)
qed

lemma endpoint_roundtrip_witness:
  "\<exists>st w1 w2. InstallEndpointFilters (good_calls (good_install 1 2)) speaker all_outs empty_adapter
        = Some (st, new_outs (good_calls (good_install 1 2)), w1)
     \<and> RemoveEndpointFilters (good_calls (good_install 1 2)) speaker (Some 1) (Some 3) w1 = Some (STATUS_SUCCESS, w2)
     \<and> m_SubdeviceCache w2 = [] \<and> connections w2 = []"
proof -
  let ?e = "good_calls (good_install 1 2)"
  have p: "ie_port (good_install p m) = p" for p m by (simp add: good_install_def)
  have "all_calls_ok ?e speaker" by (simp add: all_calls_ok_def concrete)
  moreover have "fresh_ports ?e speaker empty_adapter" by (simp add: fresh_ports_def concrete p)
  ultimately show ?thesis
    using endpoint_roundtrip [OF acct_empty, of ?e speaker] by (auto simp: concrete new_outs_def p)
qed

definition idle_adapter :: adapter_world where
  "idle_adapter = empty_adapter \<lparr> refs := count {#3, 4#},
     m_SubdeviceCache := [record_of ''WaveSpeaker'' (3, 4, False, False)] \<rparr>"

lemma idle_requests_correct_witness:
  "\<exists>w'. idle_requests STATUS_SUCCESS [(speaker, False), (speaker, False), (speaker, True)] idle_adapter
       = Some w' \<and> m_dwIdleRequests w' = 1 \<and> \<not> idle_enabled w' \<and> refs w' 4 = 4"
proof -
  let ?rs = "[(speaker, False), (speaker, False), (speaker, True)]"
  have w: "acct idle_adapter {#}" "idle_enabled idle_adapter \<longleftrightarrow> m_dwIdleRequests idle_adapter = 0"
    "list_all (\<lambda>(pair, b). lookup_record (WaveName pair) (m_SubdeviceCache idle_adapter) \<noteq> None) ?rs"
    "m_dwIdleRequests idle_adapter + length ?rs < 4294967296"
    "nest (m_dwIdleRequests idle_adapter) (map snd ?rs) = Some 1"
    by (simp_all add: idle_adapter_def concrete acct_def record_refs_def record_of_def)
  have m: "wave_miniport (m_SubdeviceCache idle_adapter) speaker = {#4#}"
      "cache_refs (m_SubdeviceCache idle_adapter) = {#3, 4#}"
    by (simp_all add: idle_adapter_def concrete wave_miniport_def record_of_def record_refs_def)
  obtain w' where "idle_requests STATUS_SUCCESS ?rs idle_adapter = Some w'" "m_dwIdleRequests w' = 1"
      "\<not> idle_enabled w'" "m_SubdeviceCache w' = m_SubdeviceCache idle_adapter"
      "acct w' (sum_list (map (\<lambda>(pair, b). wave_miniport (m_SubdeviceCache idle_adapter) pair) ?rs) + {#})"
    using idle_requests_correct [OF w(1) NT_SUCCESS_codes(1) w(2-5)] by auto
  then show ?thesis by (intro exI [of _ w']) (simp add: acct_def m)
qed

end
