(* ===== verification/SidebandManager.thy ===== *)
theory SidebandManager
  imports DriverBase
begin

text \<open>
  The managers of sideband audio interfaces in CAdapterCommon (common.cpp): for Bluetooth HFP SCO
  bypass, USB sideband and A2DP sideband the adapter keeps a list of devices, a queue of start and
  stop tasks and a work item that runs them, driven by PnP notifications. The three copies of the
  code differ only in names (and in one more step of InitA2dpSideband), so each operation is
  defined once on the record \<open>sideband\<close> and then applied to the field of the adapter.

  A device is an object in a heap, with its reference count and its life-cycle state; any access
  to a freed device, and a Release on a count of 0, is \<open>None\<close>. \<open>trace\<close> records the calls of Start
  and Stop. What Start does to the endpoints is not part of this theory, only whether it fails.
  The code relies on the framework running one instance of the work item at a time.
\<close>

section \<open>State\<close>

type_synonym device = nat

datatype eHsState = StateInvalid | StateInitializing | StateRunning | StateStopping | StateStopped
  | StateFailed

datatype eTaskAction = TaskStart | TaskStop

record hs_device =
  LinkName :: string
  RefCount :: nat
  DevState :: eHsState

type_synonym task = "eTaskAction \<times> device"

text \<open>
  \<open>WorkItem\<close> and \<open>NotificationHandle\<close> tell whether the pointers are not NULL, \<open>Queued\<close> and \<open>Busy\<close>
  whether the work item is waiting to run or running, \<open>TasksOut\<close> counts the tasks allocated from
  the lookaside list, which is usable while \<open>Pool\<close> holds.
\<close>

record sideband =
  EnableCleanup :: bool
  WorkItem :: bool
  Queued :: bool
  Busy :: bool
  NotificationHandle :: bool
  Pool :: bool
  TasksOut :: nat
  WorkTasks :: "task list"
  Devices :: "device list"
  heap :: "device \<Rightarrow> hs_device option"
  next_device :: device
  trace :: "task list"

section \<open>Devices\<close>

definition dev_addref :: "device \<Rightarrow> sideband \<Rightarrow> sideband option" where
  "dev_addref d s = (case heap s d of
     None \<Rightarrow> None
   | Some v \<Rightarrow> Some (s \<lparr> heap := (heap s)(d \<mapsto> v \<lparr> RefCount := RefCount v + 1 \<rparr>) \<rparr>))"

text \<open>The last Release deletes the object.\<close>

definition dev_release :: "device \<Rightarrow> sideband \<Rightarrow> sideband option" where
  "dev_release d s = (case heap s d of
     None \<Rightarrow> None
   | Some v \<Rightarrow>
       if RefCount v = 0 then None
       else if RefCount v = 1 then Some (s \<lparr> heap := (heap s)(d := None) \<rparr>)
       else Some (s \<lparr> heap := (heap s)(d \<mapsto> v \<lparr> RefCount := RefCount v - 1 \<rparr>) \<rparr>))"

definition dev_new :: "sideband \<Rightarrow> device \<times> sideband" where
  "dev_new s = (next_device s,
     s \<lparr> heap := (heap s)(next_device s \<mapsto> \<lparr> LinkName = [], RefCount = 0, DevState = StateInvalid \<rparr>),
         next_device := Suc (next_device s) \<rparr>)"

text \<open>
  Init takes the first reference; the device is running when everything it creates succeeds
  (\<open>st\<close> is the result).
\<close>

definition dev_Init :: "NTSTATUS \<Rightarrow> string \<Rightarrow> device \<Rightarrow> sideband \<Rightarrow> (NTSTATUS \<times> sideband) option" where
  "dev_Init st nm d s = do {
     s1 \<leftarrow> dev_addref d s;
     v \<leftarrow> heap s1 d;
     Some (st, s1 \<lparr> heap := (heap s1)(d \<mapsto> v \<lparr> LinkName := nm,
                       DevState := (if NT_SUCCESS st then StateRunning else StateInitializing) \<rparr>) \<rparr>) }"

definition dev_Start :: "NTSTATUS \<Rightarrow> device \<Rightarrow> sideband \<Rightarrow> sideband option" where
  "dev_Start st d s = do {
     v \<leftarrow> heap s d;
     Some (s \<lparr> heap := (heap s)(d \<mapsto> (if NT_SUCCESS st then v else v \<lparr> DevState := StateFailed \<rparr>)),
               trace := trace s @ [(TaskStart, d)] \<rparr>) }"

definition dev_Stop :: "device \<Rightarrow> sideband \<Rightarrow> sideband option" where
  "dev_Stop d s = do {
     v \<leftarrow> heap s d;
     Some (s \<lparr> heap := (heap s)(d \<mapsto> v \<lparr> DevState := StateStopped \<rparr>),
               trace := trace s @ [(TaskStop, d)] \<rparr>) }"

section \<open>The operations of a manager\<close>

text \<open>\<open>WdfWorkItemEnqueue\<close> has no effect on an item that is waiting already.\<close>

definition enqueue_work :: "sideband \<Rightarrow> sideband option" where
  "enqueue_work s = (if WorkItem s then Some (s \<lparr> Queued := True \<rparr>) else None)"

fun find_link :: "(device \<Rightarrow> hs_device option) \<Rightarrow> string \<Rightarrow> device list \<Rightarrow> device option option" where
  "find_link h nm [] = Some None"
| "find_link h nm (d # ds) = do {
     v \<leftarrow> h d;
     if LinkName v = nm then Some (Some d) else find_link h nm ds }"

text \<open>The device found carries a reference for the caller.\<close>

definition DeviceFind :: "string \<Rightarrow> sideband \<Rightarrow> (device option \<times> sideband) option" where
  "DeviceFind nm s = do {
     r \<leftarrow> find_link (heap s) nm (Devices s);
     (case r of
        None \<Rightarrow> Some (None, s)
      | Some d \<Rightarrow> do { s1 \<leftarrow> dev_addref d s; Some (Some d, s1) }) }"

text \<open>Allocation of the device, result of its Init, allocation of the task.\<close>

record arrival_env =
  ae_device :: bool
  ae_init :: NTSTATUS
  ae_task :: bool

definition InterfaceArrival :: "arrival_env \<Rightarrow> string \<Rightarrow> sideband \<Rightarrow> (NTSTATUS \<times> sideband) option" where
  "InterfaceArrival e nm s = do {
     (found, s1) \<leftarrow> DeviceFind nm s;
     (case found of
        Some d \<Rightarrow> do { s2 \<leftarrow> dev_release d s1; Some (STATUS_SUCCESS, s2) }
      | None \<Rightarrow>
          if \<not> ae_device e then Some (STATUS_INSUFFICIENT_RESOURCES, s1)
          else do {
            let (d, s2) = dev_new s1;
            (st, s3) \<leftarrow> dev_Init (ae_init e) nm d s2;
            if \<not> NT_SUCCESS st then do { s4 \<leftarrow> dev_release d s3; Some (st, s4) }
            else if \<not> ae_task e then do { s4 \<leftarrow> dev_release d s3; Some (STATUS_INSUFFICIENT_RESOURCES, s4) }
            else do {
              let s4 = s3 \<lparr> TasksOut := TasksOut s3 + 1, Devices := Devices s3 @ [d],
                            WorkTasks := WorkTasks s3 @ [(TaskStart, d)] \<rparr>;
              s5 \<leftarrow> dev_addref d s4;
              s6 \<leftarrow> enqueue_work s5;
              Some (st, s6) } }) }"

definition InterfaceRemoval :: "bool \<Rightarrow> string \<Rightarrow> sideband \<Rightarrow> (NTSTATUS \<times> sideband) option" where
  "InterfaceRemoval alloc_task nm s = do {
     (found, s1) \<leftarrow> DeviceFind nm s;
     (case found of
        None \<Rightarrow> Some (STATUS_SUCCESS, s1)
      | Some d \<Rightarrow>
          if \<not> alloc_task then do { s2 \<leftarrow> dev_release d s1; Some (STATUS_INSUFFICIENT_RESOURCES, s2) }
          else do {
            let s2 = s1 \<lparr> TasksOut := TasksOut s1 + 1, Devices := remove1 d (Devices s1) \<rparr>;
            s3 \<leftarrow> dev_release d s2;
            let s4 = s3 \<lparr> WorkTasks := WorkTasks s3 @ [(TaskStop, d)] \<rparr>;
            s5 \<leftarrow> enqueue_work s4;
            Some (STATUS_SUCCESS, s5) }) }"

datatype pnp_event = GUID_DEVICE_INTERFACE_ARRIVAL | GUID_DEVICE_INTERFACE_REMOVAL | OtherEvent

definition EvtInterfaceChange :: "bool \<Rightarrow> pnp_event \<Rightarrow> arrival_env \<Rightarrow> string \<Rightarrow> sideband \<Rightarrow>
    (NTSTATUS \<times> sideband) option" where
  "EvtInterfaceChange class_ok ev e nm s =
     (if \<not> class_ok then Some (STATUS_SUCCESS, s)
      else (case ev of
              GUID_DEVICE_INTERFACE_ARRIVAL \<Rightarrow> InterfaceArrival e nm s
            | GUID_DEVICE_INTERFACE_REMOVAL \<Rightarrow> InterfaceRemoval (ae_task e) nm s
            | OtherEvent \<Rightarrow> Some (STATUS_SUCCESS, s)))"

text \<open>
  One round of the work-item loop on the task at the head of the queue; \<open>starts d\<close> is the result
  of starting device \<open>d\<close>.
\<close>

definition run_task :: "(device \<Rightarrow> NTSTATUS) \<Rightarrow> task \<Rightarrow> sideband \<Rightarrow> sideband option" where
  "run_task starts t s = do {
     s1 \<leftarrow> (case fst t of TaskStart \<Rightarrow> dev_Start (starts (snd t)) (snd t) s | TaskStop \<Rightarrow> dev_Stop (snd t) s);
     s2 \<leftarrow> dev_release (snd t) s1;
     Some (s2 \<lparr> TasksOut := TasksOut s2 - 1 \<rparr>) }"

definition work_round :: "(device \<Rightarrow> NTSTATUS) \<Rightarrow> sideband \<Rightarrow> sideband option" where
  "work_round starts s = (case WorkTasks s of
     [] \<Rightarrow> Some (s \<lparr> Busy := False \<rparr>)
   | t # ts \<Rightarrow> run_task starts t (s \<lparr> WorkTasks := ts \<rparr>))"

fun run_tasks :: "(device \<Rightarrow> NTSTATUS) \<Rightarrow> task list \<Rightarrow> sideband \<Rightarrow> sideband option" where
  "run_tasks starts [] s = Some s"
| "run_tasks starts (t # ts) s = do {
     s1 \<leftarrow> run_task starts t (s \<lparr> WorkTasks := ts \<rparr>);
     run_tasks starts ts s1 }"

text \<open>The whole callback when nothing is queued meanwhile.\<close>

definition EvtInterfaceWorkItem :: "(device \<Rightarrow> NTSTATUS) \<Rightarrow> sideband \<Rightarrow> sideband option" where
  "EvtInterfaceWorkItem starts s = run_tasks starts (WorkTasks s) s"

text \<open>The stop loop of the cleanup, on the device list.\<close>

fun stop_all :: "device list \<Rightarrow> sideband \<Rightarrow> sideband option" where
  "stop_all [] s = Some s"
| "stop_all (d # ds) s = do {
     s1 \<leftarrow> dev_Stop d (s \<lparr> Devices := ds \<rparr>);
     s2 \<leftarrow> dev_release d s1;
     stop_all ds s2 }"

text \<open>\<open>WdfWorkItemFlush\<close> returns when the work item has run; it is then deleted.\<close>

definition flush_work :: "(device \<Rightarrow> NTSTATUS) \<Rightarrow> sideband \<Rightarrow> sideband option" where
  "flush_work starts s = do {
     s1 \<leftarrow> (if Queued s \<or> Busy s then EvtInterfaceWorkItem starts s else Some s);
     Some (s1 \<lparr> Queued := False, Busy := False \<rparr>) }"

definition CleanupInterface :: "(device \<Rightarrow> NTSTATUS) \<Rightarrow> sideband \<Rightarrow> sideband option" where
  "CleanupInterface starts s =
     (if \<not> EnableCleanup s then Some s
      else do {
        let s1 = s \<lparr> NotificationHandle := False \<rparr>;
        s2 \<leftarrow> (if WorkItem s1 then do {
                  s2 \<leftarrow> flush_work starts s1;
                  Some (s2 \<lparr> WorkItem := False \<rparr>) }
                else Some s1);
        s3 \<leftarrow> stop_all (Devices s2) s2;
        if Pool s3 then Some (s3 \<lparr> Pool := False \<rparr>) else None })"

text \<open>
  Initialisation: results of creating the work item, of the steps between (none for Bluetooth and
  USB), and of the registration for notifications.
\<close>

definition InitInterface :: "NTSTATUS \<Rightarrow> NTSTATUS list \<Rightarrow> NTSTATUS \<Rightarrow> sideband \<Rightarrow> NTSTATUS \<times> sideband" where
  "InitInterface workitem middle registration s =
     (let s1 = s \<lparr> WorkItem := False, NotificationHandle := False, WorkTasks := [], Devices := [],
                   Pool := True, EnableCleanup := True \<rparr>
      in if \<not> NT_SUCCESS workitem then (workitem, s1)
         else
           (let s2 = s1 \<lparr> WorkItem := True \<rparr>
            in case dropWhile NT_SUCCESS middle of
                 st # _ \<Rightarrow> (st, s2)
               | [] \<Rightarrow>
                   if NT_SUCCESS registration
                   then (STATUS_SUCCESS, s2 \<lparr> NotificationHandle := True \<rparr>)
                   else (registration, s2)))"

section \<open>The three managers of the adapter\<close>

record adapter_bands =
  BthHfp :: sideband
  UsbSideband :: sideband
  A2dpSideband :: sideband

definition on_band :: "(sideband \<Rightarrow> 'r \<times> sideband) \<Rightarrow> ('b \<Rightarrow> sideband) \<Rightarrow> (sideband \<Rightarrow> 'b \<Rightarrow> 'b) \<Rightarrow> 'b \<Rightarrow> 'r \<times> 'b" where
  "on_band f get put a = (case f (get a) of (r, s) \<Rightarrow> (r, put s a))"

definition lift_band :: "(sideband \<Rightarrow> ('r \<times> sideband) option) \<Rightarrow> ('b \<Rightarrow> sideband) \<Rightarrow> (sideband \<Rightarrow> 'b \<Rightarrow> 'b) \<Rightarrow> 'b \<Rightarrow>
    ('r \<times> 'b) option" where
  "lift_band f get put a = map_option (\<lambda>(r, s). (r, put s a)) (f (get a))"

definition put_bth :: "sideband \<Rightarrow> adapter_bands \<Rightarrow> adapter_bands" where "put_bth s a = a \<lparr> BthHfp := s \<rparr>"
definition put_usb :: "sideband \<Rightarrow> adapter_bands \<Rightarrow> adapter_bands" where "put_usb s a = a \<lparr> UsbSideband := s \<rparr>"
definition put_a2dp :: "sideband \<Rightarrow> adapter_bands \<Rightarrow> adapter_bands" where "put_a2dp s a = a \<lparr> A2dpSideband := s \<rparr>"

definition BthHfpDeviceFind :: "string \<Rightarrow> adapter_bands \<Rightarrow> (device option \<times> adapter_bands) option" where
  "BthHfpDeviceFind nm = lift_band (DeviceFind nm) BthHfp put_bth"
definition UsbSidebandDeviceFind :: "string \<Rightarrow> adapter_bands \<Rightarrow> (device option \<times> adapter_bands) option" where
  "UsbSidebandDeviceFind nm = lift_band (DeviceFind nm) UsbSideband put_usb"
definition A2dpSidebandDeviceFind :: "string \<Rightarrow> adapter_bands \<Rightarrow> (device option \<times> adapter_bands) option" where
  "A2dpSidebandDeviceFind nm = lift_band (DeviceFind nm) A2dpSideband put_a2dp"

definition BthHfpScoInterfaceArrival :: "arrival_env \<Rightarrow> string \<Rightarrow> adapter_bands \<Rightarrow> (NTSTATUS \<times> adapter_bands) option" where
  "BthHfpScoInterfaceArrival e nm = lift_band (InterfaceArrival e nm) BthHfp put_bth"
definition UsbSidebandInterfaceArrival :: "arrival_env \<Rightarrow> string \<Rightarrow> adapter_bands \<Rightarrow> (NTSTATUS \<times> adapter_bands) option" where
  "UsbSidebandInterfaceArrival e nm = lift_band (InterfaceArrival e nm) UsbSideband put_usb"
definition A2dpSidebandInterfaceArrival :: "arrival_env \<Rightarrow> string \<Rightarrow> adapter_bands \<Rightarrow> (NTSTATUS \<times> adapter_bands) option" where
  "A2dpSidebandInterfaceArrival e nm = lift_band (InterfaceArrival e nm) A2dpSideband put_a2dp"

definition BthHfpScoInterfaceRemoval :: "bool \<Rightarrow> string \<Rightarrow> adapter_bands \<Rightarrow> (NTSTATUS \<times> adapter_bands) option" where
  "BthHfpScoInterfaceRemoval alloc nm = lift_band (InterfaceRemoval alloc nm) BthHfp put_bth"
definition UsbSidebandInterfaceRemoval :: "bool \<Rightarrow> string \<Rightarrow> adapter_bands \<Rightarrow> (NTSTATUS \<times> adapter_bands) option" where
  "UsbSidebandInterfaceRemoval alloc nm = lift_band (InterfaceRemoval alloc nm) UsbSideband put_usb"
definition A2dpSidebandInterfaceRemoval :: "bool \<Rightarrow> string \<Rightarrow> adapter_bands \<Rightarrow> (NTSTATUS \<times> adapter_bands) option" where
  "A2dpSidebandInterfaceRemoval alloc nm = lift_band (InterfaceRemoval alloc nm) A2dpSideband put_a2dp"

definition EvtBthHfpScoBypassInterfaceChange ::
    "bool \<Rightarrow> pnp_event \<Rightarrow> arrival_env \<Rightarrow> string \<Rightarrow> adapter_bands \<Rightarrow> (NTSTATUS \<times> adapter_bands) option" where
  "EvtBthHfpScoBypassInterfaceChange c ev e nm = lift_band (EvtInterfaceChange c ev e nm) BthHfp put_bth"
definition EvtUsbSidebandInterfaceChange ::
    "bool \<Rightarrow> pnp_event \<Rightarrow> arrival_env \<Rightarrow> string \<Rightarrow> adapter_bands \<Rightarrow> (NTSTATUS \<times> adapter_bands) option" where
  "EvtUsbSidebandInterfaceChange c ev e nm = lift_band (EvtInterfaceChange c ev e nm) UsbSideband put_usb"
definition EvtA2dpSidebandInterfaceChange ::
    "bool \<Rightarrow> pnp_event \<Rightarrow> arrival_env \<Rightarrow> string \<Rightarrow> adapter_bands \<Rightarrow> (NTSTATUS \<times> adapter_bands) option" where
  "EvtA2dpSidebandInterfaceChange c ev e nm = lift_band (EvtInterfaceChange c ev e nm) A2dpSideband put_a2dp"

definition EvtBthHfpScoBypassInterfaceWorkItem :: "(device \<Rightarrow> NTSTATUS) \<Rightarrow> adapter_bands \<Rightarrow> adapter_bands option" where
  "EvtBthHfpScoBypassInterfaceWorkItem starts a = map_option (\<lambda>s. put_bth s a) (EvtInterfaceWorkItem starts (BthHfp a))"
definition EvtUsbSidebandInterfaceWorkItem :: "(device \<Rightarrow> NTSTATUS) \<Rightarrow> adapter_bands \<Rightarrow> adapter_bands option" where
  "EvtUsbSidebandInterfaceWorkItem starts a = map_option (\<lambda>s. put_usb s a) (EvtInterfaceWorkItem starts (UsbSideband a))"
definition EvtA2dpSidebandInterfaceWorkItem :: "(device \<Rightarrow> NTSTATUS) \<Rightarrow> adapter_bands \<Rightarrow> adapter_bands option" where
  "EvtA2dpSidebandInterfaceWorkItem starts a = map_option (\<lambda>s. put_a2dp s a) (EvtInterfaceWorkItem starts (A2dpSideband a))"

definition InitBthScoBypass :: "NTSTATUS \<Rightarrow> NTSTATUS \<Rightarrow> adapter_bands \<Rightarrow> NTSTATUS \<times> adapter_bands" where
  "InitBthScoBypass workitem reg = on_band (InitInterface workitem [] reg) BthHfp put_bth"
definition InitUsbSideband :: "NTSTATUS \<Rightarrow> NTSTATUS \<Rightarrow> adapter_bands \<Rightarrow> NTSTATUS \<times> adapter_bands" where
  "InitUsbSideband workitem reg = on_band (InitInterface workitem [] reg) UsbSideband put_usb"

text \<open>\<open>publish\<close> and \<open>enable\<close> are the results of registering and enabling the support interface.\<close>

definition InitA2dpSideband :: "NTSTATUS \<Rightarrow> NTSTATUS \<Rightarrow> NTSTATUS \<Rightarrow> NTSTATUS \<Rightarrow> adapter_bands \<Rightarrow>
    NTSTATUS \<times> adapter_bands" where
  "InitA2dpSideband workitem publish enable reg =
     on_band (InitInterface workitem [publish, enable] reg) A2dpSideband put_a2dp"

definition CleanupBthScoBypass :: "(device \<Rightarrow> NTSTATUS) \<Rightarrow> adapter_bands \<Rightarrow> adapter_bands option" where
  "CleanupBthScoBypass starts a = map_option (\<lambda>s. put_bth s a) (CleanupInterface starts (BthHfp a))"
definition CleanupUsbSideband :: "(device \<Rightarrow> NTSTATUS) \<Rightarrow> adapter_bands \<Rightarrow> adapter_bands option" where
  "CleanupUsbSideband starts a = map_option (\<lambda>s. put_usb s a) (CleanupInterface starts (UsbSideband a))"
definition CleanupA2dpSideband :: "(device \<Rightarrow> NTSTATUS) \<Rightarrow> adapter_bands \<Rightarrow> adapter_bands option" where
  "CleanupA2dpSideband starts a = map_option (\<lambda>s. put_a2dp s a) (CleanupInterface starts (A2dpSideband a))"

section \<open>The invariant\<close>

text \<open>The actions done or queued for one device.\<close>

definition acts :: "device \<Rightarrow> task list \<Rightarrow> eTaskAction list" where
  "acts d ts = map fst (filter (\<lambda>t. snd t = d) ts)"

lemma acts_simps [simp]:
  "acts d [] = []" "acts d (ts @ us) = acts d ts @ acts d us"
  "acts d ((a, e) # ts) = (if e = d then a # acts d ts else acts d ts)"
  by (simp_all add: acts_def)

text \<open>
  The life of a device: in the list it has the reference of the list and one per queued task, and
  its actions done and queued are a start; off the list it lives until a start and a stop are
  done, and only tasks hold references.
\<close>

definition dev_inv :: "bool \<Rightarrow> hs_device option \<Rightarrow> eTaskAction list \<Rightarrow> eTaskAction list \<Rightarrow> bool" where
  "dev_inv listed h dne todo \<longleftrightarrow> (case h of
     None \<Rightarrow> \<not> listed \<and> todo = [] \<and> (dne = [] \<or> dne = [TaskStart, TaskStop])
   | Some v \<Rightarrow> (DevState v = StateRunning \<or> DevState v = StateFailed)
       \<and> RefCount v = (if listed then 1 else 0) + length todo
       \<and> dne @ todo = (if listed then [TaskStart] else [TaskStart, TaskStop]) \<and> (listed \<or> todo \<noteq> []))"

definition devs_ok :: "sideband \<Rightarrow> bool" where
  "devs_ok s \<longleftrightarrow> distinct (Devices s)
     \<and> (\<forall>d. dev_inv (d \<in> set (Devices s)) (heap s d) (acts d (trace s)) (acts d (WorkTasks s)))
     \<and> (\<forall>d \<ge> next_device s. heap s d = None \<and> acts d (trace s) = [])
     \<and> TasksOut s = length (WorkTasks s)"

definition links_ok :: "sideband \<Rightarrow> bool" where
  "links_ok s \<longleftrightarrow> distinct (map (\<lambda>d. map_option LinkName (heap s d)) (Devices s))"

definition sb_ok :: "sideband \<Rightarrow> bool" where
  "sb_ok s \<longleftrightarrow> devs_ok s \<and> Pool s \<and> EnableCleanup s
     \<and> (NotificationHandle s \<longrightarrow> WorkItem s) \<and> (Queued s \<or> Busy s \<longrightarrow> WorkItem s)
     \<and> (WorkTasks s \<noteq> [] \<longrightarrow> Queued s \<or> Busy s)"

lemma devs_okD: "devs_ok s \<Longrightarrow> dev_inv (d \<in> set (Devices s)) (heap s d) (acts d (trace s)) (acts d (WorkTasks s))"
  by (simp add: devs_ok_def)

lemma listed_in_heap: "devs_ok s \<Longrightarrow> d \<in> set (Devices s) \<Longrightarrow>
    \<exists>v. heap s d = Some v \<and> RefCount v = Suc (length (acts d (WorkTasks s)))"
  using devs_okD [of s d] by (auto simp: dev_inv_def split: option.splits)

lemma queued_in_heap: "devs_ok s \<Longrightarrow> acts d (WorkTasks s) \<noteq> [] \<Longrightarrow> heap s d \<noteq> None"
  using devs_okD [of s d] by (auto simp: dev_inv_def split: option.splits)

lemma in_heap_old: "devs_ok s \<Longrightarrow> heap s d = Some v \<Longrightarrow> d < next_device s"
  by (metis devs_ok_def not_le option.distinct(1))

lemma find_link_total:
  "\<forall>d \<in> set ds. h d \<noteq> None \<Longrightarrow> (\<exists>d v. find_link h nm ds = Some (Some d) \<and> d \<in> set ds \<and> h d = Some v \<and> LinkName v = nm)
      \<or> find_link h nm ds = Some None \<and> (\<forall>d \<in> set ds. map_option LinkName (h d) \<noteq> Some nm)"
proof (induction ds)
  case (Cons d ds)
  then obtain v where v: "h d = Some v" by auto
  show ?case
  proof (cases "LinkName v = nm")
    case True
    then show ?thesis using v by auto
  next
    case False
    then show ?thesis using v Cons by auto
  qed
qed simp

text \<open>A search finds a listed device and takes a reference, or leaves everything alone.\<close>

lemma DeviceFind_cases:
  assumes "devs_ok s"
  obtains (found) d v where "DeviceFind nm s = Some (Some d, s \<lparr> heap := (heap s)(d \<mapsto> v \<lparr> RefCount := RefCount v + 1 \<rparr>) \<rparr>)"
      "d \<in> set (Devices s)" "heap s d = Some v" "RefCount v = Suc (length (acts d (WorkTasks s)))"
  | (absent) "DeviceFind nm s = Some (None, s)"
      "\<forall>d \<in> set (Devices s). map_option LinkName (heap s d) \<noteq> Some nm"
proof -
  have h: "\<forall>d \<in> set (Devices s). heap s d \<noteq> None" using listed_in_heap [OF assms] by fastforce
  from find_link_total [OF h, of nm] show ?thesis
  proof
    assume "\<exists>d v. find_link (heap s) nm (Devices s) = Some (Some d) \<and> d \<in> set (Devices s) \<and> heap s d = Some v \<and> LinkName v = nm"
    then obtain d v where d: "find_link (heap s) nm (Devices s) = Some (Some d)" "d \<in> set (Devices s)" "heap s d = Some v"
      by blast
    then show ?thesis
      using listed_in_heap [OF assms d(2)] by (intro found [of d v]) (auto simp: DeviceFind_def dev_addref_def)
  next
    assume "find_link (heap s) nm (Devices s) = Some None
      \<and> (\<forall>d \<in> set (Devices s). map_option LinkName (heap s d) \<noteq> Some nm)"
    then show ?thesis using absent by (simp add: DeviceFind_def)
  qed
qed

text \<open>Only one device changes.\<close>

lemma devs_ok_change:
  assumes "devs_ok s" and "distinct (Devices s')" and "TasksOut s' = length (WorkTasks s')"
    and "\<And>e. e \<noteq> d \<Longrightarrow> (e \<in> set (Devices s') \<longleftrightarrow> e \<in> set (Devices s)) \<and> heap s' e = heap s e
           \<and> acts e (trace s') = acts e (trace s) \<and> acts e (WorkTasks s') = acts e (WorkTasks s)"
    and "dev_inv (d \<in> set (Devices s')) (heap s' d) (acts d (trace s')) (acts d (WorkTasks s'))"
    and "next_device s \<le> next_device s'" and "d < next_device s'"
  shows "devs_ok s'"
  unfolding devs_ok_def
proof (intro conjI allI impI)
  fix e
  show "dev_inv (e \<in> set (Devices s')) (heap s' e) (acts e (trace s')) (acts e (WorkTasks s'))"
    using assms(4) [of e] assms(5) devs_okD [OF assms(1), of e] by (cases "e = d") simp_all
  assume "next_device s' \<le> e"
  then have "e \<noteq> d" "next_device s \<le> e" using assms(6,7) by simp_all
  then show "heap s' e = None" "acts e (trace s') = []"
    using assms(1) assms(4) [of e] by (simp_all add: devs_ok_def)
qed (use assms(2,3) in simp_all)

section \<open>Every operation keeps the invariant\<close>

lemma sb_ok_devs: "sb_ok s \<Longrightarrow> devs_ok s"
  by (simp add: sb_ok_def)

lemma InterfaceArrival_ok:
  assumes s: "sb_ok s" and l: "links_ok s" and w: "WorkItem s"
  shows "\<exists>st s'. InterfaceArrival e nm s = Some (st, s') \<and> sb_ok s' \<and> links_ok s'"
  using sb_ok_devs [OF s]
proof (cases rule: DeviceFind_cases [of s nm])
  case (found d v)
  then have "dev_release d (s \<lparr> heap := (heap s)(d \<mapsto> v \<lparr> RefCount := RefCount v + 1 \<rparr>) \<rparr>) = Some s"
    by (simp add: dev_release_def fun_upd_idem)
  then show ?thesis using found(1) s l by (simp add: InterfaceArrival_def)
next
  case absent
  let ?n = "next_device s"
  have n: "heap s ?n = None" "acts ?n (trace s) = []" using sb_ok_devs [OF s] by (simp_all add: devs_ok_def)
  then have n': "?n \<notin> set (Devices s)" "acts ?n (WorkTasks s) = []"
    using devs_okD [OF sb_ok_devs [OF s], of ?n] by (simp_all add: dev_inv_def)
  let ?f = "s \<lparr> next_device := Suc ?n \<rparr>"
  have f: "sb_ok ?f" "links_ok ?f" using s l by (auto simp: sb_ok_def devs_ok_def links_ok_def)
  have u: "(heap s)(?n := None) = heap s" using n(1) by (simp add: fun_upd_idem)
  let ?g = "s \<lparr> heap := (heap s)(?n \<mapsto> \<lparr> LinkName = nm, RefCount = 2, DevState = StateRunning \<rparr>),
    next_device := Suc ?n, TasksOut := TasksOut s + 1, Devices := Devices s @ [?n],
    WorkTasks := WorkTasks s @ [(TaskStart, ?n)], Queued := True \<rparr>"
  have "devs_ok ?g"
    using n n' sb_ok_devs [OF s]
    by (intro devs_ok_change [OF sb_ok_devs [OF s], of ?g ?n]) (auto simp: dev_inv_def devs_ok_def)
  then have "sb_ok ?g" using s w by (simp add: sb_ok_def)
  moreover have "links_ok ?g"
  proof -
    have m: "map (\<lambda>d. map_option LinkName (heap ?g d)) (Devices ?g)
        = map (\<lambda>d. map_option LinkName (heap s d)) (Devices s) @ [Some nm]"
      using n'(1) by auto
    have "Some nm \<notin> set (map (\<lambda>d. map_option LinkName (heap s d)) (Devices s))"
      using absent(2) by (metis (mono_tags, lifting) imageE set_map)
    then show ?thesis using l unfolding links_ok_def m by (simp del: map_map set_map)
  qed
  moreover have "InterfaceArrival e nm s = Some (ae_init e, ?g)" if "ae_device e" "NT_SUCCESS (ae_init e)" "ae_task e"
    using absent(1) that w by (simp add: InterfaceArrival_def dev_new_def dev_Init_def dev_addref_def enqueue_work_def
        numeral_2_eq_2)
  moreover have "InterfaceArrival e nm s = Some (STATUS_INSUFFICIENT_RESOURCES, s)" if "\<not> ae_device e"
    using absent(1) that by (simp add: InterfaceArrival_def)
  moreover have "\<exists>st. InterfaceArrival e nm s = Some (st, ?f)" if "ae_device e" "\<not> (NT_SUCCESS (ae_init e) \<and> ae_task e)"
    using absent(1) that u by (auto simp: InterfaceArrival_def dev_new_def dev_Init_def dev_addref_def dev_release_def)
  ultimately show ?thesis using f s l by blast
qed

lemma InterfaceRemoval_ok:
  assumes s: "sb_ok s" and l: "links_ok s" and w: "WorkItem s"
  shows "\<exists>st s'. InterfaceRemoval a nm s = Some (st, s') \<and> sb_ok s' \<and> links_ok s'"
  using sb_ok_devs [OF s]
proof (cases rule: DeviceFind_cases [of s nm])
  case absent
  then show ?thesis using s l by (simp add: InterfaceRemoval_def)
next
  case (found d v)
  have rel: "dev_release d (x \<lparr> heap := (heap s)(d \<mapsto> v \<lparr> RefCount := RefCount v + 1 \<rparr>) \<rparr>) = Some (x \<lparr> heap := heap s \<rparr>)" for x
    using found by (simp add: dev_release_def fun_upd_idem)
  show ?thesis
  proof (cases a)
    case False
    then show ?thesis using found(1) rel [of s] s l by (simp add: InterfaceRemoval_def)
  next
    case True
    let ?g = "s \<lparr> TasksOut := TasksOut s + 1, Devices := remove1 d (Devices s),
      WorkTasks := WorkTasks s @ [(TaskStop, d)], Queued := True \<rparr>"
    have ds: "distinct (Devices s)" using sb_ok_devs [OF s] by (simp add: devs_ok_def)
    have "dev_inv False (heap s d) (acts d (trace s)) (acts d (WorkTasks s) @ [TaskStop])"
      using devs_okD [OF sb_ok_devs [OF s], of d] found(2,3) by (simp add: dev_inv_def flip: append_assoc)
    then have "devs_ok ?g"
      using ds sb_ok_devs [OF s] in_heap_old [OF sb_ok_devs [OF s] found(3)]
      by (intro devs_ok_change [OF sb_ok_devs [OF s], of ?g d]) (auto simp: devs_ok_def)
    then have "sb_ok ?g" using s w by (simp add: sb_ok_def)
    moreover have "links_ok ?g"
      using l by (simp add: links_ok_def distinct_map ds inj_on_diff)
    moreover have "InterfaceRemoval a nm s = Some (STATUS_SUCCESS, ?g)"
    proof -
      let ?x = "s \<lparr> heap := (heap s)(d \<mapsto> v \<lparr> RefCount := RefCount v + 1 \<rparr>), TasksOut := TasksOut s + 1,
        Devices := remove1 d (Devices s) \<rparr>"
      have "dev_release d ?x = Some (?x \<lparr> heap := heap s \<rparr>)"
        using found(3,4) by (simp add: dev_release_def fun_upd_idem)
      moreover have "?x \<lparr> heap := heap s, WorkTasks := WorkTasks s @ [(TaskStop, d)], Queued := True \<rparr> = ?g"
        by (rule sideband.equality) simp_all
      ultimately show ?thesis
        using found(1) True w by (simp add: InterfaceRemoval_def enqueue_work_def)
    qed
    ultimately show ?thesis by blast
  qed
qed

text \<open>A task at the head of the queue runs without a fault.\<close>

lemma run_task_ok:
  assumes s: "devs_ok s" and t: "WorkTasks s = t # ts"
  shows "\<exists>s'. run_task starts t (s \<lparr> WorkTasks := ts \<rparr>) = Some s' \<and> devs_ok s'
    \<and> WorkTasks s' = ts \<and> Devices s' = Devices s \<and> Pool s' = Pool s \<and> EnableCleanup s' = EnableCleanup s
    \<and> NotificationHandle s' = NotificationHandle s \<and> WorkItem s' = WorkItem s \<and> Queued s' = Queued s \<and> Busy s' = Busy s
    \<and> next_device s' = next_device s
    \<and> (\<forall>e \<in> set (Devices s). map_option LinkName (heap s' e) = map_option LinkName (heap s e))"
proof -
  obtain a d where ad: "t = (a, d)" by (cases t)
  have todo: "acts d (WorkTasks s) = a # acts d ts" using t ad by simp
  obtain v where v: "heap s d = Some v" using queued_in_heap [OF s, of d] todo by auto
  have inv: "DevState v = StateRunning \<or> DevState v = StateFailed"
     "RefCount v = (if d \<in> set (Devices s) then 1 else 0) + Suc (length (acts d ts))"
     "acts d (trace s) @ a # acts d ts = (if d \<in> set (Devices s) then [TaskStart] else [TaskStart, TaskStop])"
    using devs_okD [OF s, of d] v todo by (auto simp: dev_inv_def)
  define v' where "v' = (case a of TaskStart \<Rightarrow> if NT_SUCCESS (starts d) then v else v \<lparr> DevState := StateFailed \<rparr>
     | TaskStop \<Rightarrow> v \<lparr> DevState := StateStopped \<rparr>)"
  have v': "RefCount v' = RefCount v" "LinkName v' = LinkName v"
    by (simp_all add: v'_def split: eTaskAction.split)
  let ?h = "(heap s)(d := if RefCount v = 1 then None else Some (v' \<lparr> RefCount := RefCount v - 1 \<rparr>))"
  let ?g = "s \<lparr> WorkTasks := ts, heap := ?h, trace := trace s @ [(a, d)], TasksOut := TasksOut s - 1 \<rparr>"
  have r: "run_task starts t (s \<lparr> WorkTasks := ts \<rparr>) = Some ?g"
    using v inv(2) v' ad
    by (cases a) (simp_all add: run_task_def dev_Start_def dev_Stop_def dev_release_def v'_def)
  have "dev_inv (d \<in> set (Devices s)) (?h d) (acts d (trace s) @ [a]) (acts d ts)"
  proof (cases "acts d (trace s)")
    case Nil
    then show ?thesis using inv v'
      by (cases "d \<in> set (Devices s)") (auto simp: dev_inv_def v'_def)
  next
    case (Cons b bs)
    then show ?thesis using inv v' by (auto simp: dev_inv_def Cons_eq_append_conv append_eq_Cons_conv split: if_splits)
  qed
  then have "devs_ok ?g"
    using s t ad in_heap_old [OF s v]
    by (intro devs_ok_change [OF s, of ?g d]) (auto simp: devs_ok_def)
  moreover have "map_option LinkName (heap ?g e) = map_option LinkName (heap s e)" if "e \<in> set (Devices s)" for e
    using that inv(2) v v' by auto
  ultimately show ?thesis using r by auto
qed

lemma links_ok_same:
  "links_ok s \<Longrightarrow> Devices s' = Devices s \<Longrightarrow>
     \<forall>e \<in> set (Devices s). map_option LinkName (heap s' e) = map_option LinkName (heap s e) \<Longrightarrow> links_ok s'"
  unfolding links_ok_def by (simp cong: map_cong)

lemma work_round_ok:
  assumes s: "sb_ok s" and l: "links_ok s" and b: "Busy s"
  shows "\<exists>s'. work_round starts s = Some s' \<and> sb_ok s' \<and> links_ok s'"
proof (cases "WorkTasks s")
  case Nil
  then show ?thesis using s l by (auto simp: work_round_def sb_ok_def devs_ok_def links_ok_def)
next
  case (Cons t ts)
  obtain s' where s': "run_task starts t (s \<lparr> WorkTasks := ts \<rparr>) = Some s'" "devs_ok s'"
     "WorkTasks s' = ts" "Devices s' = Devices s" "Pool s' = Pool s" "EnableCleanup s' = EnableCleanup s"
     "NotificationHandle s' = NotificationHandle s" "WorkItem s' = WorkItem s" "Queued s' = Queued s" "Busy s' = Busy s"
     "\<forall>e \<in> set (Devices s). map_option LinkName (heap s' e) = map_option LinkName (heap s e)"
    using run_task_ok [OF sb_ok_devs [OF s] Cons] by blast
  then have "sb_ok s'" using s b by (simp add: sb_ok_def)
  moreover have "links_ok s'" using links_ok_same [OF l s'(4)] s'(11) by blast
  ultimately show ?thesis using s'(1) Cons by (simp add: work_round_def)
qed

lemma run_tasks_ok:
  "devs_ok s \<Longrightarrow> \<exists>s'. run_tasks starts (WorkTasks s) s = Some s' \<and> devs_ok s'
    \<and> WorkTasks s' = [] \<and> Devices s' = Devices s \<and> Pool s' = Pool s \<and> EnableCleanup s' = EnableCleanup s
    \<and> NotificationHandle s' = NotificationHandle s \<and> WorkItem s' = WorkItem s \<and> next_device s' = next_device s"
proof (induction "WorkTasks s" arbitrary: s)
  case (Cons t ts)
  obtain s1 where s1: "run_task starts t (s \<lparr> WorkTasks := ts \<rparr>) = Some s1" "devs_ok s1"
     "WorkTasks s1 = ts" "Devices s1 = Devices s" "Pool s1 = Pool s" "EnableCleanup s1 = EnableCleanup s"
     "NotificationHandle s1 = NotificationHandle s" "WorkItem s1 = WorkItem s" "next_device s1 = next_device s"
    using run_task_ok [OF Cons.prems Cons.hyps(2) [symmetric]] by blast
  from Cons.hyps(1) [OF s1(3) [symmetric] s1(2)] s1 show ?case by (simp flip: Cons.hyps(2))
qed auto

text \<open>After the queue has drained the listed devices are started and hold one reference each.\<close>

lemma stop_all_ok:
  "devs_ok s \<Longrightarrow> WorkTasks s = [] \<Longrightarrow> \<exists>s'. stop_all (Devices s) s = Some s' \<and> devs_ok s'
    \<and> WorkTasks s' = [] \<and> Devices s' = [] \<and> Pool s' = Pool s \<and> WorkItem s' = WorkItem s
    \<and> EnableCleanup s' = EnableCleanup s \<and> NotificationHandle s' = NotificationHandle s
    \<and> Queued s' = Queued s \<and> Busy s' = Busy s \<and> next_device s' = next_device s"
proof (induction "Devices s" arbitrary: s)
  case (Cons d ds)
  note D = Cons.hyps(2) [symmetric]
  obtain v where v: "heap s d = Some v" "RefCount v = 1"
    using listed_in_heap [OF Cons.prems(1), of d] Cons.prems(2) D by auto
  have t: "acts d (trace s) = [TaskStart]"
    using devs_okD [OF Cons.prems(1), of d] v Cons.prems(2) D by (simp add: dev_inv_def)
  let ?g = "s \<lparr> Devices := ds, heap := (heap s)(d := None), trace := trace s @ [(TaskStop, d)] \<rparr>"
  have r: "Option.bind (dev_Stop d (s \<lparr> Devices := ds \<rparr>)) (dev_release d) = Some ?g"
    using v by (simp add: dev_Stop_def dev_release_def)
  have g: "devs_ok ?g"
    using Cons.prems D t in_heap_old [OF Cons.prems(1) v(1)]
    by (intro devs_ok_change [OF Cons.prems(1), of ?g d]) (auto simp: devs_ok_def dev_inv_def)
  from Cons.hyps(1) [of ?g] g Cons.prems(2) r show ?case by (simp add: D bind_assoc [symmetric])
qed auto

section \<open>Interleavings\<close>

text \<open>
  Notifications arrive while they are registered; the work item starts when it is queued and then
  handles one task per round. The rounds interleave with notifications in any order.
\<close>

inductive sb_step :: "sideband \<Rightarrow> sideband \<Rightarrow> bool" where
  change: "NotificationHandle s \<Longrightarrow> EvtInterfaceChange c ev e nm s = Some (st, s') \<Longrightarrow> sb_step s s'"
| begins: "Queued s \<Longrightarrow> \<not> Busy s \<Longrightarrow> sb_step s (s \<lparr> Queued := False, Busy := True \<rparr>)"
| round: "Busy s \<Longrightarrow> work_round starts s = Some s' \<Longrightarrow> sb_step s s'"

definition blank :: "sideband \<Rightarrow> bool" where
  "blank s \<longleftrightarrow> heap s = Map.empty \<and> trace s = [] \<and> \<not> Queued s \<and> \<not> Busy s \<and> TasksOut s = 0"

inductive sb_reachable :: "sideband \<Rightarrow> bool" where
  init: "blank raw \<Longrightarrow> sb_reachable (snd (InitInterface wi middle reg raw))"
| step: "sb_reachable s \<Longrightarrow> sb_step s s' \<Longrightarrow> sb_reachable s'"

inductive_cases sb_stepE: "sb_step s s'"

lemma Init_ok: "blank raw \<Longrightarrow> sb_ok (snd (InitInterface wi middle reg raw)) \<and> links_ok (snd (InitInterface wi middle reg raw))"
  by (auto simp: InitInterface_def Let_def blank_def sb_ok_def devs_ok_def dev_inv_def links_ok_def split: list.split)

lemma EvtInterfaceChange_ok:
  assumes "sb_ok s" and "links_ok s" and "NotificationHandle s"
  shows "\<exists>st s'. EvtInterfaceChange c ev e nm s = Some (st, s') \<and> sb_ok s' \<and> links_ok s'"
proof -
  have "WorkItem s" using assms by (simp add: sb_ok_def)
  then show ?thesis
    using assms(1,2) InterfaceArrival_ok [OF assms(1,2), of e nm] InterfaceRemoval_ok [OF assms(1,2), of "ae_task e" nm]
    by (auto simp: EvtInterfaceChange_def split: pnp_event.split)
qed

lemma sb_step_ok: "sb_step s s' \<Longrightarrow> sb_ok s \<Longrightarrow> links_ok s \<Longrightarrow> sb_ok s' \<and> links_ok s'"
proof (induction rule: sb_step.induct)
  case (change s c ev e nm st s')
  then show ?case using EvtInterfaceChange_ok [of s c ev e nm] by auto
next
  case (begins s)
  then show ?case by (auto simp: sb_ok_def devs_ok_def links_ok_def)
next
  case (round s starts s')
  then show ?case using work_round_ok [of s starts] by auto
qed

lemma reachable_ok: "sb_reachable s \<Longrightarrow> sb_ok s \<and> links_ok s"
  by (induction rule: sb_reachable.induct) (use Init_ok sb_step_ok in blast)+

lemma flush_work_ok:
  assumes s: "sb_ok s"
  shows "\<exists>s'. flush_work starts s = Some s' \<and> devs_ok s' \<and> WorkTasks s' = [] \<and> Pool s'"
proof (cases "Queued s \<or> Busy s")
  case True
  then show ?thesis
    using run_tasks_ok [OF sb_ok_devs [OF s], of starts] s
    by (auto simp: flush_work_def EvtInterfaceWorkItem_def sb_ok_def devs_ok_def)
next
  case False
  then show ?thesis using s by (auto simp: flush_work_def sb_ok_def devs_ok_def)
qed

lemma CleanupInterface_ok:
  assumes s: "sb_ok s"
  shows "\<exists>s'. CleanupInterface starts s = Some s' \<and> heap s' = Map.empty \<and> Devices s' = [] \<and> WorkTasks s' = []
    \<and> TasksOut s' = 0 \<and> \<not> Pool s' \<and> (\<forall>d. acts d (trace s') = [] \<or> acts d (trace s') = [TaskStart, TaskStop])"
proof -
  let ?s1 = "s \<lparr> NotificationHandle := False \<rparr>"
  have s1: "sb_ok ?s1" using s by (simp add: sb_ok_def devs_ok_def)
  obtain s2 where s2: "(if WorkItem ?s1 then do {
                  s2 \<leftarrow> flush_work starts ?s1;
                  Some (s2 \<lparr> WorkItem := False \<rparr>) }
                else Some ?s1) = Some s2" "devs_ok s2" "WorkTasks s2 = []" "Pool s2"
  proof (cases "WorkItem ?s1")
    case True
    obtain x where "flush_work starts ?s1 = Some x" "devs_ok x" "WorkTasks x = []" "Pool x"
      using flush_work_ok [OF s1] by blast
    then show ?thesis using that [of "x \<lparr> WorkItem := False \<rparr>"] True by (simp add: devs_ok_def)
  next
    case False
    then show ?thesis using that [of ?s1] s1 by (auto simp: sb_ok_def)
  qed
  obtain s3 where s3: "stop_all (Devices s2) s2 = Some s3" "devs_ok s3" "WorkTasks s3 = []" "Devices s3 = []"
      "Pool s3"
    using stop_all_ok [OF s2(2,3)] s2(4) by blast
  have d: "heap s3 d = None \<and> (acts d (trace s3) = [] \<or> acts d (trace s3) = [TaskStart, TaskStop])" for d
    using devs_okD [OF s3(2), of d] s3(3,4) by (auto simp: dev_inv_def split: option.splits)
  then have "heap s3 = Map.empty" by auto
  moreover have "CleanupInterface starts s = Some (s3 \<lparr> Pool := False \<rparr>)"
    using s s2(1) s3(1,5) by (simp add: CleanupInterface_def sb_ok_def)
  moreover have "TasksOut s3 = 0" using s3(2,3) by (simp add: devs_ok_def)
  ultimately show ?thesis using s3 d by simp
qed

text \<open>
  C23. No interleaving of interface notifications with the rounds of the work item faults: from
  every reachable state each notification and each round is defined (no access to a freed device,
  no count below zero, no list of a device twice), devices in the list have distinct interfaces,
  a queued task always finds the work item queued or running, and Stop is called only on a device
  that is running or failed: in every reachable state the devices alive are in one of those two
  states and their reference count is one for the list and one per queued task.
\<close>

theorem sideband_interleavings_safe:
  assumes "sb_reachable s"
  shows "(NotificationHandle s \<longrightarrow> EvtInterfaceChange c ev e nm s \<noteq> None)
     \<and> (Busy s \<longrightarrow> work_round starts s \<noteq> None)
     \<and> distinct (Devices s) \<and> distinct (map (\<lambda>d. map_option LinkName (heap s d)) (Devices s))
     \<and> (WorkTasks s \<noteq> [] \<longrightarrow> Queued s \<or> Busy s)
     \<and> (\<forall>d v. heap s d = Some v \<longrightarrow> (DevState v = StateRunning \<or> DevState v = StateFailed)
           \<and> RefCount v = count_list (Devices s) d + count_list (map snd (WorkTasks s)) d)
     \<and> (\<forall>d. heap s d = None \<longrightarrow> d \<notin> set (Devices s) \<and> d \<notin> snd ` set (WorkTasks s))"
proof -
  have ok: "sb_ok s" "links_ok s" using reachable_ok [OF assms] by blast+
  note dv = sb_ok_devs [OF ok(1)]
  have ds: "distinct (Devices s)" using dv by (simp add: devs_ok_def)
  have c: "count_list (Devices s) d = (if d \<in> set (Devices s) then 1 else 0)" for d
  proof -
    have "distinct xs \<Longrightarrow> count_list xs d = (if d \<in> set xs then 1 else 0)" for xs
      by (induction xs) (auto simp: count_list_0_iff)
    then show ?thesis using ds by blast
  qed
  have l: "length (acts d ts) = count_list (map snd ts) d" for d and ts :: "task list"
    by (induction ts) auto
  have n: "acts d ts = [] \<longleftrightarrow> d \<notin> snd ` set ts" for d and ts :: "task list"
    by (auto simp: acts_def filter_empty_conv)
  have v: "heap s d = Some v \<Longrightarrow> (DevState v = StateRunning \<or> DevState v = StateFailed)
           \<and> RefCount v = count_list (Devices s) d + count_list (map snd (WorkTasks s)) d" for d v
    using devs_okD [OF dv, of d] by (simp add: dev_inv_def c l)
  have f: "heap s d = None \<Longrightarrow> d \<notin> set (Devices s) \<and> d \<notin> snd ` set (WorkTasks s)" for d
    using devs_okD [OF dv, of d] by (simp add: dev_inv_def n)
  have e: "NotificationHandle s \<Longrightarrow> EvtInterfaceChange c ev e nm s \<noteq> None"
    using EvtInterfaceChange_ok [OF ok, of c ev e nm] by auto
  have r: "Busy s \<Longrightarrow> work_round starts s \<noteq> None" using work_round_ok [OF ok, of starts] by auto
  have w: "WorkTasks s \<noteq> [] \<longrightarrow> Queued s \<or> Busy s" using ok(1) by (simp add: sb_ok_def)
  show ?thesis using e r ds ok(2) w v f by (simp add: links_ok_def)
qed

text \<open>
  C24. Cleanup at any moment leaves nothing behind: from every reachable state, with start and stop
  tasks still queued or half done, CleanupInterface returns without a fault, all devices are freed,
  every task has gone back to its pool, and every device ever started was started exactly once and
  then stopped exactly once, in this order.
\<close>

theorem sideband_cleanup_complete:
  assumes "sb_reachable s"
  shows "\<exists>s'. CleanupInterface starts s = Some s' \<and> heap s' = Map.empty \<and> Devices s' = [] \<and> WorkTasks s' = []
    \<and> TasksOut s' = 0 \<and> \<not> Pool s' \<and> (\<forall>d. acts d (trace s') = [] \<or> acts d (trace s') = [TaskStart, TaskStop])"
  using CleanupInterface_ok [of s starts] reachable_ok [OF assms] by blast

section \<open>A concrete run\<close>

text \<open>An interface arrives, the work item starts, the interface goes away before it is started.\<close>

definition blank_band :: sideband where
  "blank_band = \<lparr> EnableCleanup = False, WorkItem = False, Queued = False, Busy = False, NotificationHandle = False,
     Pool = False, TasksOut = 0, WorkTasks = [], Devices = [], heap = (\<lambda>_. None), next_device = 0, trace = [] \<rparr>"

definition good_arrival :: arrival_env where
  "good_arrival = \<lparr> ae_device = True, ae_init = STATUS_SUCCESS, ae_task = True \<rparr>"

definition run1 :: sideband where
  "run1 = snd (InitInterface STATUS_SUCCESS [] STATUS_SUCCESS blank_band)"

definition run2 :: sideband where
  "run2 = snd (the (EvtInterfaceChange True GUID_DEVICE_INTERFACE_ARRIVAL good_arrival ''hs'' run1))"

definition run3 :: sideband where
  "run3 = run2 \<lparr> Queued := False, Busy := True \<rparr>"

definition run4 :: sideband where
  "run4 = snd (the (EvtInterfaceChange True GUID_DEVICE_INTERFACE_REMOVAL good_arrival ''hs'' run3))"

lemmas run_defs = run1_def blank_band_def InitInterface_def good_arrival_def EvtInterfaceChange_def
  InterfaceArrival_def InterfaceRemoval_def DeviceFind_def dev_new_def dev_Init_def dev_addref_def dev_release_def
  enqueue_work_def

lemma run1_eq: "run1 = blank_band \<lparr> EnableCleanup := True, WorkItem := True, NotificationHandle := True, Pool := True \<rparr>"
  by (simp add: run1_def InitInterface_def blank_band_def)

lemma run2_eq: "EvtInterfaceChange True GUID_DEVICE_INTERFACE_ARRIVAL good_arrival ''hs'' run1 = Some (STATUS_SUCCESS, run2)"
    "run2 = run1 \<lparr> Queued := True, TasksOut := 1, WorkTasks := [(TaskStart, 0)], Devices := [0],
       heap := [0 \<mapsto> \<lparr> LinkName = ''hs'', RefCount = 2, DevState = StateRunning \<rparr>], next_device := 1 \<rparr>"
  by (simp_all add: run2_def run1_eq run_defs numeral_2_eq_2)

lemma run4_eq: "EvtInterfaceChange True GUID_DEVICE_INTERFACE_REMOVAL good_arrival ''hs'' run3 = Some (STATUS_SUCCESS, run4)"
    "run4 = run3 \<lparr> Queued := True, TasksOut := 2, WorkTasks := [(TaskStart, 0), (TaskStop, 0)], Devices := [] \<rparr>"
  by (simp_all add: run4_def run3_def run2_eq(2) run1_eq run_defs numeral_2_eq_2)

lemma run4_reachable: "sb_reachable run4"
proof -
  have "sb_reachable run1" unfolding run1_def by (rule sb_reachable.init) (simp add: blank_def blank_band_def)
  then have "sb_reachable run2"
    by (rule sb_reachable.step) (rule sb_step.change [OF _ run2_eq(1)], simp add: run1_eq)
  then have "sb_reachable run3"
    unfolding run3_def by (rule sb_reachable.step) (rule sb_step.begins, simp_all add: run2_eq(2) run1_eq blank_band_def)
  then show ?thesis
    by (rule sb_reachable.step) (rule sb_step.change [OF _ run4_eq(1)], simp add: run3_def run2_eq(2) run1_eq)
qed

lemma sideband_interleavings_safe_witness:
  "work_round (\<lambda>_. STATUS_SUCCESS) run4 \<noteq> None \<and> WorkTasks run4 = [(TaskStart, 0), (TaskStop, 0)]"
  using sideband_interleavings_safe [OF run4_reachable, of True OtherEvent good_arrival "''hs''" "\<lambda>_. STATUS_SUCCESS"]
  by (simp add: run4_eq(2) run3_def)

lemma sideband_cleanup_complete_witness:
  "\<exists>s'. CleanupInterface (\<lambda>_. STATUS_UNSUCCESSFUL) run4 = Some s' \<and> heap s' = Map.empty"
  using sideband_cleanup_complete [OF run4_reachable] by blast

end
