(* ===== verification/AdapterCommon.thy ===== *)
theory AdapterCommon
  imports MixerHw ShmBridge SubdeviceCache SidebandManager
begin

text \<open>
  The adapter object CAdapterCommon of common.cpp as a whole: the single instance, Init and the
  destructor, the helper pointers it holds, power state changes and queries over the cached
  miniports, the power relations (devices the adapter depends on) and Cleanup, which composes the
  sideband managers, the shared-memory bridge and the subdevice cache.
\<close>

section \<open>State\<close>

datatype DEVICE_POWER_STATE = PowerDeviceUnspecified | PowerDeviceD0 | PowerDeviceD1 | PowerDeviceD2
  | PowerDeviceD3 | PowerDeviceMaximum

type_synonym pdo = nat

record CAdapterCommon =
  m_pServiceGroupWave :: "obj option"
  m_pDeviceObject :: nat
  m_pPhysicalDeviceObject :: "pdo option"
  m_WdfDevice :: bool
  m_PowerState :: DEVICE_POWER_STATE
  m_pHW :: m_pHW
  m_pPortClsEtwHelper :: "obj option"
  m_PowerRelations :: "pdo list"

section \<open>Interfaces\<close>

datatype adapter_iid = IID_Unknown_adapter | IID_IAdapterCommon | IID_IAdapterPowerManagement | IID_Other_adapter

datatype adapter_interface = As_AdapterCommon | As_AdapterPowerManagement

text \<open>The interface handed out, with the reference count of the adapter.\<close>

definition adapter_NonDelegatingQueryInterface :: "adapter_iid \<Rightarrow> nat \<Rightarrow> NTSTATUS \<times> adapter_interface option \<times> nat" where
  "adapter_NonDelegatingQueryInterface iid n =
     (case (case iid of
              IID_Unknown_adapter \<Rightarrow> Some As_AdapterCommon
            | IID_IAdapterCommon \<Rightarrow> Some As_AdapterCommon
            | IID_IAdapterPowerManagement \<Rightarrow> Some As_AdapterPowerManagement
            | IID_Other_adapter \<Rightarrow> None) of
        Some v \<Rightarrow> (STATUS_SUCCESS, Some v, n + 1)
      | None \<Rightarrow> (STATUS_INVALID_PARAMETER, None, n))"

section \<open>The single instance\<close>

text \<open>
  \<open>m_AdapterInstances\<close> is a LONG changed by interlocked operations. The result has the status,
  whether an object was created, and the new count.
\<close>

definition NewAdapterCommon :: "bool \<Rightarrow> int \<Rightarrow> NTSTATUS \<times> bool \<times> int" where
  "NewAdapterCommon alloc m_AdapterInstances =
     (if m_AdapterInstances \<noteq> 0 then (STATUS_DEVICE_BUSY, False, m_AdapterInstances)
      else if \<not> alloc then (STATUS_INSUFFICIENT_RESOURCES, False, 1)
      else (STATUS_SUCCESS, True, 1))"

text \<open>The destructor: hardware, the two interface pointers, the WDF device, the instance count.\<close>

definition adapter_dtor :: "CAdapterCommon \<Rightarrow> adapter_world \<Rightarrow> int \<Rightarrow>
    (CAdapterCommon \<times> adapter_world \<times> int) option" where
  "adapter_dtor a w m_AdapterInstances = do {
     let a1 = (if m_pHW a \<noteq> None then a \<lparr> m_pHW := None \<rparr> else a);
     w1 \<leftarrow> safe_release (m_pPortClsEtwHelper a1) w;
     w2 \<leftarrow> safe_release (m_pServiceGroupWave a1) w1;
     let a2 = a1 \<lparr> m_pPortClsEtwHelper := None, m_pServiceGroupWave := None \<rparr>;
     Some (if m_WdfDevice a2 then a2 \<lparr> m_WdfDevice := False \<rparr> else a2, w2, m_AdapterInstances - 1) }"

section \<open>Initialisation\<close>

text \<open>
  Results of the calls of Init: the PDO, the WDF device, the allocation of the hardware object (its
  memory before construction), the two calls of InfernoShmInit.
\<close>

record adapter_env =
  av_pdo :: "NTSTATUS \<times> pdo"
  av_wdf :: NTSTATUS
  av_hw :: "CSYSVADHW option"
  av_shm_create :: NTSTATUS
  av_shm_map :: NTSTATUS

text \<open>The cleanup flags of the three sideband managers are cleared and the lists initialised.\<close>

definition disarm :: "sideband \<Rightarrow> sideband" where
  "disarm s = s \<lparr> EnableCleanup := False \<rparr>"

definition adapter_Init :: "adapter_env \<Rightarrow> nat \<Rightarrow> CAdapterCommon \<times> adapter_bands \<times> adapter_world \<times> shm_globals \<Rightarrow>
    NTSTATUS \<times> CAdapterCommon \<times> adapter_bands \<times> adapter_world \<times> shm_globals" where
  "adapter_Init e DeviceObject = (\<lambda>(a, b, w, g).
     (let b1 = \<lparr> BthHfp = disarm (BthHfp b), UsbSideband = disarm (UsbSideband b),
                 A2dpSideband = disarm (A2dpSideband b) \<rparr>;
          a1 = a \<lparr> m_pServiceGroupWave := None, m_pDeviceObject := DeviceObject, m_pPhysicalDeviceObject := None,
                   m_WdfDevice := False, m_PowerState := PowerDeviceD0, m_pHW := None,
                   m_pPortClsEtwHelper := None, m_PowerRelations := [] \<rparr>;
          w1 = w \<lparr> m_SubdeviceCache := [] \<rparr>
      in if \<not> NT_SUCCESS (fst (av_pdo e)) then (fst (av_pdo e), a1, b1, w1, g)
         else
           (let a2 = a1 \<lparr> m_pPhysicalDeviceObject := Some (snd (av_pdo e)) \<rparr>
            in if \<not> NT_SUCCESS (av_wdf e) then (av_wdf e, a2, b1, w1, g)
               else
                 (let a3 = a2 \<lparr> m_WdfDevice := True \<rparr>
                  in case av_hw e of
                       None \<Rightarrow> (STATUS_INSUFFICIENT_RESOURCES, a3, b1, w1, g)
                     | Some raw \<Rightarrow>
                         (av_wdf e, a3 \<lparr> m_pHW := MixerReset (Some (CSYSVADHW_ctor raw)) \<rparr>, b1, w1,
                          snd (InfernoShmInit (av_shm_create e) (av_shm_map e) g INFERNO_SHM_CHANNELS 48000))))))"

section \<open>Helper pointers\<close>

definition addref_opt :: "obj option \<Rightarrow> adapter_world \<Rightarrow> adapter_world" where
  "addref_opt p w = (case p of None \<Rightarrow> w | Some q \<Rightarrow> addref q w)"

definition SetEtwHelper :: "obj option \<Rightarrow> CAdapterCommon \<times> adapter_world \<Rightarrow> (CAdapterCommon \<times> adapter_world) option" where
  "SetEtwHelper helper = (\<lambda>(a, w). do {
     w1 \<leftarrow> safe_release (m_pPortClsEtwHelper a) w;
     Some (a \<lparr> m_pPortClsEtwHelper := helper \<rparr>, addref_opt helper w1) })"

definition SetWaveServiceGroup :: "obj option \<Rightarrow> CAdapterCommon \<times> adapter_world \<Rightarrow> (CAdapterCommon \<times> adapter_world) option" where
  "SetWaveServiceGroup sg = (\<lambda>(a, w). do {
     w1 \<leftarrow> safe_release (m_pServiceGroupWave a) w;
     Some (a \<lparr> m_pServiceGroupWave := sg \<rparr>, addref_opt sg w1) })"

text \<open>\<open>event\<close> is what the helper returns.\<close>

definition WriteEtwEvent :: "NTSTATUS \<Rightarrow> CAdapterCommon \<Rightarrow> NTSTATUS" where
  "WriteEtwEvent event a = (if m_pPortClsEtwHelper a \<noteq> None then event else STATUS_SUCCESS)"

section \<open>Power state\<close>

text \<open>The miniports with a power interface are told first; the result lists them in order.\<close>

definition PowerChangeState :: "DEVICE_POWER_STATE \<Rightarrow> adapter_world \<Rightarrow> CAdapterCommon \<Rightarrow> obj list \<times> CAdapterCommon" where
  "PowerChangeState NewState w a =
     (map MiniportInterface (filter PowerInterface (m_SubdeviceCache w)),
      if NewState \<noteq> m_PowerState a
      then (case NewState of
              PowerDeviceD0 \<Rightarrow> a \<lparr> m_PowerState := NewState \<rparr>
            | PowerDeviceD1 \<Rightarrow> a \<lparr> m_PowerState := NewState \<rparr>
            | PowerDeviceD2 \<Rightarrow> a \<lparr> m_PowerState := NewState \<rparr>
            | PowerDeviceD3 \<Rightarrow> a \<lparr> m_PowerState := NewState \<rparr>
            | _ \<Rightarrow> a)
      else a)"

definition QueryDeviceCapabilities :: NTSTATUS where
  "QueryDeviceCapabilities = STATUS_SUCCESS"

text \<open>The loop over the cache; \<open>asked\<close> collects the miniports that were asked.\<close>

fun query_loop :: "(obj \<Rightarrow> NTSTATUS) \<Rightarrow> MINIPAIR_UNKNOWN list \<Rightarrow> NTSTATUS \<Rightarrow> obj list \<Rightarrow> NTSTATUS \<times> obj list" where
  "query_loop answer [] status asked = (status, asked)"
| "query_loop answer (r # rs) status asked =
     (if NT_SUCCESS status then
        if PowerInterface r
        then query_loop answer rs (answer (MiniportInterface r)) (asked @ [MiniportInterface r])
        else query_loop answer rs status asked
      else (status, asked))"

definition QueryPowerChangeState :: "(obj \<Rightarrow> NTSTATUS) \<Rightarrow> adapter_world \<Rightarrow> NTSTATUS \<times> obj list" where
  "QueryPowerChangeState answer w = query_loop answer (m_SubdeviceCache w) STATUS_SUCCESS []"

section \<open>Power relations\<close>

text \<open>Reference counts of physical device objects; \<open>Some\<close> while no count drops below zero.\<close>

type_synonym pdo_refs = "pdo \<Rightarrow> nat"

definition ob_reference :: "pdo \<Rightarrow> pdo_refs \<Rightarrow> pdo_refs" where
  "ob_reference p r = r(p := r p + 1)"

definition ob_dereference :: "pdo \<Rightarrow> pdo_refs \<Rightarrow> pdo_refs option" where
  "ob_dereference p r = (if r p = 0 then None else Some (r(p := r p - 1)))"

definition AddDeviceAsPowerDependency :: "bool \<Rightarrow> pdo \<Rightarrow> CAdapterCommon \<Rightarrow> pdo_refs \<Rightarrow>
    NTSTATUS \<times> CAdapterCommon \<times> pdo_refs" where
  "AddDeviceAsPowerDependency alloc p a r =
     (if \<not> alloc then (STATUS_INSUFFICIENT_RESOURCES, a, r)
      else (STATUS_SUCCESS, a \<lparr> m_PowerRelations := m_PowerRelations a @ [p] \<rparr>, ob_reference p r))"

fun remove_relations :: "pdo \<Rightarrow> pdo list \<Rightarrow> pdo_refs \<Rightarrow> (pdo list \<times> pdo_refs) option" where
  "remove_relations p [] r = Some ([], r)"
| "remove_relations p (q # qs) r =
     (if q = p then do { r1 \<leftarrow> ob_dereference q r; remove_relations p qs r1 }
      else do { (qs', r1) \<leftarrow> remove_relations p qs r; Some (q # qs', r1) })"

definition RemoveDeviceAsPowerDependency :: "pdo \<Rightarrow> CAdapterCommon \<Rightarrow> pdo_refs \<Rightarrow>
    (NTSTATUS \<times> CAdapterCommon \<times> pdo_refs) option" where
  "RemoveDeviceAsPowerDependency p a r = do {
     (qs, r1) \<leftarrow> remove_relations p (m_PowerRelations a) r;
     Some (STATUS_SUCCESS, a \<lparr> m_PowerRelations := qs \<rparr>, r1) }"

text \<open>
  A DEVICE_RELATIONS structure: the ULONG count and the objects there is room for. The structure
  with room for \<open>count\<close> objects is allocated zeroed; one object is part of the structure, so the
  room is \<open>1 + (count - 1)\<close> in ULONG arithmetic.
\<close>

record DEVICE_RELATIONS =
  Count :: nat
  Objects :: "pdo list"

definition relations_room :: "nat \<Rightarrow> nat" where
  "relations_room k = 1 + usub k 1"

definition new_relations :: "nat \<Rightarrow> DEVICE_RELATIONS" where
  "new_relations k = \<lparr> Count = 0, Objects = replicate (relations_room k) 0 \<rparr>"

text \<open>Copying the prior structure copies its count and its objects.\<close>

definition copy_relations :: "DEVICE_RELATIONS \<Rightarrow> DEVICE_RELATIONS \<Rightarrow> DEVICE_RELATIONS option" where
  "copy_relations dst src =
     (if relations_room (Count src) \<le> length (Objects src) \<and> relations_room (Count src) \<le> length (Objects dst)
      then Some \<lparr> Count = Count src,
                  Objects = put_slice (Objects dst) 0 (take (relations_room (Count src)) (Objects src)) \<rparr>
      else None)"

fun append_relations :: "pdo list \<Rightarrow> DEVICE_RELATIONS \<Rightarrow> pdo_refs \<Rightarrow> (DEVICE_RELATIONS \<times> pdo_refs) option" where
  "append_relations [] n r = Some (n, r)"
| "append_relations (p # ps) n r = do {
     objs \<leftarrow> store (Objects n) (Count n) p;
     append_relations ps (n \<lparr> Objects := objs, Count := ulong (Count n + 1) \<rparr>) (ob_reference p r) }"

fun deref_all :: "pdo list \<Rightarrow> pdo_refs \<Rightarrow> pdo_refs option" where
  "deref_all [] r = Some r"
| "deref_all (p # ps) r = do { r1 \<leftarrow> ob_dereference p r; deref_all ps r1 }"

text \<open>
  \<open>info\<close> is the structure the IRP carries on entry; the result has the status and the structure
  it carries on return. The prior structure is freed, the new one belongs to the PnP manager.
\<close>

definition UpdatePowerRelations :: "bool \<Rightarrow> DEVICE_RELATIONS option \<Rightarrow> CAdapterCommon \<Rightarrow> pdo_refs \<Rightarrow>
    (NTSTATUS \<times> DEVICE_RELATIONS option \<times> pdo_refs) option" where
  "UpdatePowerRelations alloc info a r =
     (let qprPdosCount = ulong (length (m_PowerRelations a))
      in if qprPdosCount = 0 then Some (STATUS_SUCCESS, info, r)
         else
           (let total = (case info of None \<Rightarrow> qprPdosCount | Some prior \<Rightarrow> ulong (Count prior + qprPdosCount))
            in if \<not> alloc then
                 (case info of
                    None \<Rightarrow> Some (STATUS_INSUFFICIENT_RESOURCES, None, r)
                  | Some prior \<Rightarrow> do {
                      r1 \<leftarrow> (if Count prior \<le> length (Objects prior)
                            then deref_all (take (Count prior) (Objects prior)) r else None);
                      Some (STATUS_INSUFFICIENT_RESOURCES, None, r1) })
               else do {
                 n1 \<leftarrow> (case info of
                         None \<Rightarrow> Some (new_relations total)
                       | Some prior \<Rightarrow> if 0 < Count prior then copy_relations (new_relations total) prior
                                       else Some (new_relations total));
                 (n2, r2) \<leftarrow> append_relations (m_PowerRelations a) n1 r;
                 Some (STATUS_SUCCESS, Some n2, r2) }))"

section \<open>Cleanup\<close>

definition Cleanup :: "(device \<Rightarrow> NTSTATUS) \<Rightarrow> adapter_bands \<times> shm_globals \<times> adapter_world \<Rightarrow>
    (adapter_bands \<times> shm_globals \<times> adapter_world) option" where
  "Cleanup starts = (\<lambda>(b, g, w). do {
     b1 \<leftarrow> CleanupBthScoBypass starts b;
     b2 \<leftarrow> CleanupUsbSideband starts b1;
     b3 \<leftarrow> CleanupA2dpSideband starts b2;
     let g1 = InfernoShmCleanup g;
     w1 \<leftarrow> EmptySubdeviceCache w;
     Some (b3, g1, w1) })"

section \<open>Power states and queries\<close>

definition power_miniports :: "adapter_world \<Rightarrow> obj list" where
  "power_miniports w = map MiniportInterface (filter PowerInterface (m_SubdeviceCache w))"

lemma query_loop_eq:
  "NT_SUCCESS status \<Longrightarrow> query_loop answer rs status asked =
     (let ms = map MiniportInterface (filter PowerInterface rs);
          ok = takeWhile (\<lambda>m. NT_SUCCESS (answer m)) ms
      in case dropWhile (\<lambda>m. NT_SUCCESS (answer m)) ms of
           [] \<Rightarrow> (if ms = [] then status else answer (last ms), asked @ ms)
         | v # _ \<Rightarrow> (answer v, asked @ ok @ [v]))"
proof (induction rs arbitrary: status asked)
  case (Cons r rs)
  show ?case
  proof (cases "PowerInterface r \<and> \<not> NT_SUCCESS (answer (MiniportInterface r))")
    case True
    then show ?thesis using Cons.prems by (cases rs) (simp_all add: Let_def)
  next
    case False
    then show ?thesis using Cons.prems Cons.IH
      by (cases "dropWhile (\<lambda>m. NT_SUCCESS (answer m)) (map MiniportInterface (filter PowerInterface rs))")
        (auto simp: Let_def simp del: dropWhile_eq_Nil_conv)
  qed
qed simp

text \<open>
  A power query asks the miniports with a power interface in order and stops at the first that
  refuses, whose status it returns; it succeeds exactly when none refuses. A power change tells
  every such miniport, and the adapter then is in the new state if it is one of D0 to D3 and in
  its old state otherwise.
\<close>

theorem power_query_and_change:
  "(NT_SUCCESS (fst (QueryPowerChangeState answer w)) \<longleftrightarrow> list_all (\<lambda>m. NT_SUCCESS (answer m)) (power_miniports w))
   \<and> snd (QueryPowerChangeState answer w)
       = takeWhile (\<lambda>m. NT_SUCCESS (answer m)) (power_miniports w)
         @ take 1 (dropWhile (\<lambda>m. NT_SUCCESS (answer m)) (power_miniports w))
   \<and> (case dropWhile (\<lambda>m. NT_SUCCESS (answer m)) (power_miniports w) of
        [] \<Rightarrow> True | v # _ \<Rightarrow> fst (QueryPowerChangeState answer w) = answer v)
   \<and> fst (PowerChangeState new w a) = power_miniports w
   \<and> m_PowerState (snd (PowerChangeState new w a))
       = (if new \<in> {PowerDeviceD0, PowerDeviceD1, PowerDeviceD2, PowerDeviceD3} then new else m_PowerState a)"
proof -
  let ?ms = "power_miniports w" and ?P = "\<lambda>m. NT_SUCCESS (answer m)"
  have q: "QueryPowerChangeState answer w =
     (case dropWhile ?P ?ms of
        [] \<Rightarrow> (if ?ms = [] then STATUS_SUCCESS else answer (last ?ms), ?ms)
      | v # _ \<Rightarrow> (answer v, takeWhile ?P ?ms @ [v]))"
    by (simp add: QueryPowerChangeState_def query_loop_eq power_miniports_def Let_def cong: list.case_cong)
  have p: "fst (PowerChangeState new w a) = ?ms"
      "m_PowerState (snd (PowerChangeState new w a))
       = (if new \<in> {PowerDeviceD0, PowerDeviceD1, PowerDeviceD2, PowerDeviceD3} then new else m_PowerState a)"
    by (simp add: PowerChangeState_def power_miniports_def) (cases new; simp add: PowerChangeState_def)
  show ?thesis
  proof (cases "dropWhile ?P ?ms")
    case Nil
    then have all: "\<forall>m \<in> set ?ms. ?P m" by (simp add: dropWhile_eq_Nil_conv)
    then have t: "?ms = takeWhile ?P ?ms" by (metis takeWhile_eq_all_conv)
    have q': "QueryPowerChangeState answer w = (if ?ms = [] then STATUS_SUCCESS else answer (last ?ms), ?ms)"
      using q unfolding Nil by simp
    moreover have "NT_SUCCESS (fst (QueryPowerChangeState answer w))"
      using all last_in_set [of ?ms] unfolding q' by simp
    moreover have "list_all ?P ?ms" using all by (simp add: list_all_iff)
    ultimately show ?thesis using p q' unfolding Nil by simp (rule t)
  next
    case (Cons v vs)
    have nv: "\<not> ?P v" using hd_dropWhile [of ?P ?ms] Cons by simp
    moreover have "v \<in> set ?ms" using Cons set_dropWhileD [of v ?P ?ms] by simp
    ultimately have "\<not> list_all ?P ?ms" by (auto simp: list_all_iff)
    then show ?thesis using Cons q p nv by simp
  qed
qed

section \<open>Life of the single instance\<close>

datatype life_event = Create bool | Destroy

text \<open>Instance count and live adapters; only a live adapter can be destroyed.\<close>

fun lives :: "life_event list \<Rightarrow> int \<times> nat \<Rightarrow> (int \<times> nat) option" where
  "lives [] s = Some s"
| "lives (Create alloc # es) (n, l) =
     (case NewAdapterCommon alloc n of (_, created, n') \<Rightarrow> lives es (n', if created then l + 1 else l))"
| "lives (Destroy # es) (n, l) = (if l = 0 then None else lives es (n - 1, l - 1))"

lemma lives_stuck: "lives es (1, 0) = Some s \<Longrightarrow> s = (1, 0)"
proof (induction es)
  case (Cons e es)
  then show ?case by (cases e) (simp_all add: NewAdapterCommon_def)
qed simp

lemma lives_inv:
  "lives es (n, l) = Some (n', l') \<Longrightarrow> 0 \<le> n \<and> n \<le> 1 \<and> int l \<le> n \<Longrightarrow> 0 \<le> n' \<and> n' \<le> 1 \<and> int l' \<le> n'"
proof (induction es arbitrary: n l)
  case (Cons e es)
  show ?case
  proof (cases e)
    case (Create b)
    with Cons show ?thesis by (auto simp: NewAdapterCommon_def split: if_splits)
  next
    case Destroy
    with Cons.prems have "lives es (n - 1, l - 1) = Some (n', l')" "l \<noteq> 0" by (auto split: if_splits)
    then show ?thesis using Cons.IH [of "n - 1" "l - 1"] Cons.prems(2) by auto
  qed
qed auto

text \<open>
  There is never more than one adapter, over any history of creations and destructions. But a
  creation whose allocation fails keeps the slot: from then on no adapter can ever be created,
  every later attempt reports STATUS_DEVICE_BUSY.
\<close>

theorem adapter_single_instance:
  "(case lives es (0, 0) of
      None \<Rightarrow> True
    | Some (n, l) \<Rightarrow> l \<le> 1 \<and> int l \<le> n \<and> n \<le> 1)
   \<and> lives [Create False] (0, 0) = Some (1, 0)
   \<and> lives (Create False # es) (0, 0) \<in> {None, Some (1, 0)}
   \<and> fst (NewAdapterCommon alloc 1) = STATUS_DEVICE_BUSY"
proof -
  have "case lives es (0, 0) of None \<Rightarrow> True | Some (n, l) \<Rightarrow> l \<le> 1 \<and> int l \<le> n \<and> n \<le> 1"
  proof (cases "lives es (0, 0)")
    case (Some s)
    then obtain n l where "lives es (0, 0) = Some (n, l)" by (cases s) simp
    then show ?thesis using lives_inv [of es 0 0 n l] by auto
  qed simp
  moreover have "lives (Create False # es) (0, 0) \<in> {None, Some (1, 0)}"
    using lives_stuck [of es] by (cases "lives es (1, 0)") (auto simp: NewAdapterCommon_def)
  ultimately show ?thesis by (simp add: NewAdapterCommon_def)
qed

section \<open>Accounting of the power relations\<close>

definition pdos_of :: "DEVICE_RELATIONS option \<Rightarrow> pdo list" where
  "pdos_of info = (case info of None \<Rightarrow> [] | Some n \<Rightarrow> take (Count n) (Objects n))"

definition relations_ok :: "DEVICE_RELATIONS option \<Rightarrow> bool" where
  "relations_ok info \<longleftrightarrow> (case info of None \<Rightarrow> True
     | Some n \<Rightarrow> Count n < 4294967296 \<and> Count n \<le> length (Objects n) \<and> length (Objects n) \<noteq> 0)"

lemma relations_room_eq: "k < 4294967296 \<Longrightarrow> 0 < k \<Longrightarrow> relations_room k = k"
  by (simp add: relations_room_def)

lemma ob_reference_eq: "ob_reference p (count M) = count (add_mset p M)"
  by (simp add: ob_reference_def fun_eq_iff)

lemma ob_dereference_eq: "ob_dereference p (count (add_mset p M)) = Some (count M)"
  by (simp add: ob_dereference_def fun_eq_iff)

lemma append_relations_eq:
  "Count n + length ps \<le> length (Objects n) \<Longrightarrow> Count n + length ps < 4294967296 \<Longrightarrow>
     append_relations ps n (count M)
       = Some (\<lparr> Count = Count n + length ps, Objects = put_slice (Objects n) (Count n) ps \<rparr>, count (mset ps + M))"
proof (induction ps arbitrary: n M)
  case (Cons p ps)
  let ?n = "n \<lparr> Objects := (Objects n)[Count n := p], Count := Count n + 1 \<rparr>"
  have "append_relations ps ?n (count (add_mset p M))
      = Some (\<lparr> Count = Count ?n + length ps, Objects = put_slice (Objects ?n) (Count ?n) ps \<rparr>, count (mset ps + add_mset p M))"
    using Cons.prems by (intro Cons.IH) simp_all
  moreover have "put_slice ((Objects n)[Count n := p]) (Suc (Count n)) ps = put_slice (Objects n) (Count n) (p # ps)"
    using Cons.prems(1) by (simp add: put_slice_def take_Suc_conv_app_nth)
  ultimately show ?case using Cons.prems by (simp add: store_def ob_reference_eq del: count_union count_add_mset)
qed (simp add: put_slice_def)

lemma deref_all_eq: "deref_all ps (count (mset ps + M)) = Some (count M)"
  by (induction ps) (simp_all add: ob_dereference_eq del: count_union count_add_mset)

lemma remove_relations_eq:
  "remove_relations p qs (count (mset qs + M)) = Some (filter (\<lambda>q. q \<noteq> p) qs, count (mset (filter (\<lambda>q. q \<noteq> p) qs) + M))"
proof (induction qs arbitrary: M)
  case (Cons q qs)
  show ?case
  proof (cases "q = p")
    case True
    then show ?thesis using Cons.IH [of M] ob_dereference_eq [of p "mset qs + M"]
      by (simp del: count_union count_add_mset)
  next
    case False
    then show ?thesis using Cons.IH [of "add_mset q M"] by (simp del: count_union count_add_mset)
  qed
qed simp

lemma Add_accounted:
  "r = count (mset (m_PowerRelations a) + M) \<Longrightarrow> case AddDeviceAsPowerDependency alloc p a r of (st, a', r') \<Rightarrow>
     r' = count (mset (m_PowerRelations a') + M) \<and> m_PowerRelations a' = m_PowerRelations a @ (if alloc then [p] else [])"
  by (simp add: AddDeviceAsPowerDependency_def ob_reference_eq del: count_union count_add_mset)

lemma Remove_accounted:
  "r = count (mset (m_PowerRelations a) + M) \<Longrightarrow> \<exists>a' r'. RemoveDeviceAsPowerDependency p a r = Some (STATUS_SUCCESS, a', r')
     \<and> r' = count (mset (m_PowerRelations a') + M) \<and> m_PowerRelations a' = filter (\<lambda>q. q \<noteq> p) (m_PowerRelations a)"
  by (simp add: RemoveDeviceAsPowerDependency_def remove_relations_eq del: count_union count_add_mset)

lemma put_slice_front: "length vs \<le> length xs \<Longrightarrow> take (length vs) (put_slice xs 0 vs) = vs"
  by (simp add: put_slice_def)

lemma Update_accounted:
  assumes r: "r = count (mset (m_PowerRelations a) + mset (pdos_of info) + M)" and ok: "relations_ok info"
    and n: "length (pdos_of info) + length (m_PowerRelations a) < 4294967296"
  shows "\<exists>st info' r'. UpdatePowerRelations alloc info a r = Some (st, info', r')
      \<and> r' = count (mset (m_PowerRelations a) + mset (pdos_of info') + M) \<and> relations_ok info'
      \<and> (if m_PowerRelations a = [] then st = STATUS_SUCCESS \<and> info' = info
         else if alloc then st = STATUS_SUCCESS \<and> pdos_of info' = pdos_of info @ m_PowerRelations a
         else st = STATUS_INSUFFICIENT_RESOURCES \<and> info' = None)"
proof (cases "m_PowerRelations a = []")
  case True
  then show ?thesis using r ok by (simp add: UpdatePowerRelations_def)
next
  case ne: False
  let ?ps = "m_PowerRelations a" and ?qs = "pdos_of info"
  let ?k = "length ?qs + length ?ps"
  have q: "ulong (length ?ps) = length ?ps" "ulong (length ?ps) \<noteq> 0" using n ne by simp_all
  have lq: "Count prior = length ?qs" if "info = Some prior" for prior
    using that ok by (simp add: pdos_of_def relations_ok_def)
  have total: "(case info of None \<Rightarrow> ulong (length ?ps) | Some prior \<Rightarrow> ulong (Count prior + ulong (length ?ps))) = ?k"
  proof (cases info)
    case None
    then have "?qs = []" by (simp add: pdos_of_def)
    then show ?thesis using None q by simp
  next
    case (Some prior)
    then show ?thesis using lq [OF Some] n q(1) by simp
  qed
  show ?thesis
  proof (cases alloc)
    case False
    have d: "deref_all ?qs r = Some (count (mset ?ps + M))"
      using deref_all_eq [of ?qs "mset ?ps + M"] r by (simp add: ac_simps del: count_union)
    have "UpdatePowerRelations alloc info a r = Some (STATUS_INSUFFICIENT_RESOURCES, None, count (mset ?ps + M))"
    proof (cases info)
      case None
      then show ?thesis using False q d by (simp add: UpdatePowerRelations_def pdos_of_def del: count_union)
    next
      case (Some prior)
      have "take (Count prior) (Objects prior) = ?qs" using Some by (simp add: pdos_of_def)
      then show ?thesis using Some False q d ok
        by (simp add: UpdatePowerRelations_def relations_ok_def Let_def del: count_union)
    qed
    then show ?thesis using False ne by (simp add: pdos_of_def relations_ok_def del: count_union)
  next
    case True
    have k: "0 < ?k" "?k < 4294967296" using n ne by simp_all
    obtain n1 where n1: "(case info of None \<Rightarrow> Some (new_relations ?k)
             | Some prior \<Rightarrow> if 0 < Count prior then copy_relations (new_relations ?k) prior
                             else Some (new_relations ?k)) = Some n1"
        "Count n1 = length ?qs" "length (Objects n1) = ?k" "take (length ?qs) (Objects n1) = ?qs"
    proof (cases "?qs = []")
      case True
      then have "\<forall>prior. info = Some prior \<longrightarrow> Count prior = 0" using lq by auto
      then show ?thesis using that [of "new_relations ?k"] True k
        by (cases info) (simp_all add: new_relations_def relations_room_eq)
    next
      case False
      then obtain prior where i: "info = Some prior" by (cases info) (simp_all add: pdos_of_def)
      have c: "Count prior = length ?qs" "0 < length ?qs" "length ?qs < 4294967296" using lq [OF i] False n by simp_all
      have t: "take (length ?qs) (Objects prior) = ?qs" using i c(1) by (simp add: pdos_of_def)
      have l: "length ?qs \<le> length (Objects prior)" using ok i c(1) by (simp add: relations_ok_def)
      let ?n = "\<lparr> Count = length ?qs, Objects = put_slice (replicate ?k 0) 0 ?qs \<rparr>"
      have "copy_relations (new_relations ?k) prior = Some ?n"
        using c k l t by (simp add: copy_relations_def new_relations_def relations_room_eq)
      moreover have "take (length ?qs) (Objects ?n) = ?qs" by (simp add: put_slice_def)
      ultimately show ?thesis using that [of ?n] i c by simp
    qed
    let ?n2 = "\<lparr> Count = Count n1 + length ?ps, Objects = put_slice (Objects n1) (Count n1) ?ps \<rparr>"
    have ap: "append_relations ?ps n1 r = Some (?n2, count (mset ?ps + (mset ?ps + mset ?qs + M)))"
      using append_relations_eq [of n1 ?ps "mset ?ps + mset ?qs + M"] n1 k r by simp
    let ?c = "count (mset ?ps + (mset ?ps + mset ?qs + M))"
    have u: "UpdatePowerRelations alloc info a r = Some (STATUS_SUCCESS, Some ?n2, ?c)"
      using q True n1(1) ap unfolding UpdatePowerRelations_def Let_def total by (simp del: count_union)
    have p2: "pdos_of (Some ?n2) = ?qs @ ?ps"
      using n1 by (simp add: pdos_of_def put_slice_def)
    have e: "?c = count (mset ?ps + mset (pdos_of (Some ?n2)) + M)"
      unfolding p2 by (simp only: mset_append ac_simps)
    have ok2: "relations_ok (Some ?n2)" using n1 k by (simp add: relations_ok_def)
    show ?thesis
      by (rule exI [of _ STATUS_SUCCESS], rule exI [of _ "Some ?n2"], rule exI [of _ ?c])
        (intro conjI u e ok2, simp only: ne True if_True if_False p2 simp_thms)
  qed
qed

text \<open>
  C27. The references on physical device objects are accounted for exactly by the adapter's list,
  the relations structure in the IRP and the other holders \<open>M\<close>, in every outcome: adding and
  removing dependencies keeps the account, and UpdatePowerRelations either leaves an empty list's
  IRP alone, or returns the prior relations followed by the adapter's devices, each newly
  referenced, or on an allocation failure drops the structure and the references it carried. No
  access leaves a structure.
\<close>

theorem power_relations_accounted:
  assumes "r = count (mset (m_PowerRelations a) + mset (pdos_of info) + M)" and "relations_ok info"
    and "length (pdos_of info) + length (m_PowerRelations a) < 4294967296"
  shows "(\<exists>st info' r'. UpdatePowerRelations alloc info a r = Some (st, info', r')
      \<and> r' = count (mset (m_PowerRelations a) + mset (pdos_of info') + M) \<and> relations_ok info'
      \<and> (if m_PowerRelations a = [] then st = STATUS_SUCCESS \<and> info' = info
         else if alloc then st = STATUS_SUCCESS \<and> pdos_of info' = pdos_of info @ m_PowerRelations a
         else st = STATUS_INSUFFICIENT_RESOURCES \<and> info' = None))
    \<and> (case AddDeviceAsPowerDependency alloc p a r of (st, a', r') \<Rightarrow>
            r' = count (mset (m_PowerRelations a') + (mset (pdos_of info) + M))
            \<and> m_PowerRelations a' = m_PowerRelations a @ (if alloc then [p] else []))
    \<and> (\<exists>a' r'. RemoveDeviceAsPowerDependency p a r = Some (STATUS_SUCCESS, a', r')
            \<and> r' = count (mset (m_PowerRelations a') + (mset (pdos_of info) + M))
            \<and> m_PowerRelations a' = filter (\<lambda>q. q \<noteq> p) (m_PowerRelations a))"
proof -
  have r: "r = count (mset (m_PowerRelations a) + (mset (pdos_of info) + M))"
    using assms(1) by (simp only: add.assoc)
  show ?thesis
    using Update_accounted [OF assms, of alloc] Add_accounted [OF r, of alloc p] Remove_accounted [OF r, of p] by blast
qed

definition sample_adapter :: CAdapterCommon where
  "sample_adapter = \<lparr> m_pServiceGroupWave = None, m_pDeviceObject = 0, m_pPhysicalDeviceObject = None,
     m_WdfDevice = True, m_PowerState = PowerDeviceD0, m_pHW = None, m_pPortClsEtwHelper = None,
     m_PowerRelations = [5, 7] \<rparr>"

definition sample_relations :: "DEVICE_RELATIONS option" where
  "sample_relations = Some \<lparr> Count = 1, Objects = [7] \<rparr>"

lemma sample_facts: "m_PowerRelations sample_adapter = [5, 7]" "pdos_of sample_relations = [7]" "relations_ok sample_relations"
  by (simp_all add: sample_adapter_def sample_relations_def pdos_of_def relations_ok_def)

theorem power_relations_accounted_witness:
  "\<exists>st info' r'. UpdatePowerRelations True sample_relations sample_adapter (count {#5, 7, 7#}) = Some (st, info', r')
     \<and> pdos_of info' = [7, 5, 7]"
proof -
  have "count {#5, 7, 7#} = count (mset (m_PowerRelations sample_adapter) + mset (pdos_of sample_relations) + {#})"
    by (simp add: sample_facts add_mset_commute del: count_union count_add_mset)
  from power_relations_accounted [OF this, of True 5] show ?thesis by (auto simp: sample_facts)
qed

end
