(* ===== verification/SidebandIo.thy ===== *)
theory SidebandIo
  imports SubdeviceCache
begin

text \<open>
  What the three sideband devices (BthhfpDevice.cpp, UsbHsDevice.cpp, A2dpHpDevice.cpp) have in
  common: pool memory and WDF objects, the I/O target with synchronous IOCTLs and asynchronous
  notification requests, the completion routine and the work item that processes completed
  notifications and sends the requests again, and the endpoint miniport pairs that are copied and
  adapted to a device. The code repeats these functions in every class; the state they work on is
  the record \<open>sideband_io\<close>, and what differs is a parameter.

  The remote device is a function \<open>remote\<close> from the IOCTLs sent so far and the next one to a status
  and a value. Freeing a block with another tag than it was allocated with, freeing or deleting
  what does not exist, sending a request that is pending and using a NULL request are faults.
\<close>

section \<open>Sequences of steps that may fail\<close>

text \<open>The bodies made of calls followed by IF_FAILED_JUMP: the first failure ends the sequence.\<close>

type_synonym 's step = "'s \<Rightarrow> (NTSTATUS \<times> 's) option"

fun run_steps :: "'s step list \<Rightarrow> 's step" where
  "run_steps [] s = Some (STATUS_SUCCESS, s)"
| "run_steps (f # fs) s = do {
     (st, s1) \<leftarrow> f s;
     if NT_SUCCESS st then run_steps fs s1 else Some (st, s1) }"

text \<open>\<open>step_spec P f Q R\<close>: from \<open>P\<close> the step has no fault; it ends in \<open>Q\<close> on success and in \<open>R\<close> on failure.\<close>

definition step_spec :: "('s \<Rightarrow> bool) \<Rightarrow> 's step \<Rightarrow> ('s \<Rightarrow> bool) \<Rightarrow> ('s \<Rightarrow> bool) \<Rightarrow> bool" where
  "step_spec P f Q R \<longleftrightarrow> (\<forall>s. P s \<longrightarrow> (\<exists>st s'. f s = Some (st, s') \<and> (if NT_SUCCESS st then Q s' else R s')))"

named_theorems step_specs "specifications of the steps of a device"

lemma step_specI:
  "(\<And>s. P s \<Longrightarrow> \<exists>st s'. f s = Some (st, s') \<and> (if NT_SUCCESS st then Q s' else R s')) \<Longrightarrow> step_spec P f Q R"
  by (simp add: step_spec_def)

lemma step_specD:
  "step_spec P f Q R \<Longrightarrow> P s \<Longrightarrow> \<exists>st s'. f s = Some (st, s') \<and> (if NT_SUCCESS st then Q s' else R s')"
  by (simp add: step_spec_def)

lemma step_spec_Nil: "step_spec P (run_steps []) P R"
  by (simp add: step_spec_def)

lemma step_spec_Cons:
  assumes f: "step_spec P f Q R" and fs: "step_spec Q (run_steps fs) S R"
  shows "step_spec P (run_steps (f # fs)) S R"
proof (rule step_specI)
  fix s assume "P s"
  then obtain st s1 where 1: "f s = Some (st, s1)" "if NT_SUCCESS st then Q s1 else R s1"
    using step_specD [OF f] by blast
  show "\<exists>st s'. run_steps (f # fs) s = Some (st, s') \<and> (if NT_SUCCESS st then S s' else R s')"
  proof (cases "NT_SUCCESS st")
    case True
    then show ?thesis using 1 step_specD [OF fs, of s1] by auto
  qed (use 1 in auto)
qed

lemma step_spec_conseq:
  "step_spec P f Q R \<Longrightarrow> (\<And>s. P' s \<Longrightarrow> P s) \<Longrightarrow> (\<And>s. Q s \<Longrightarrow> Q' s) \<Longrightarrow> (\<And>s. R s \<Longrightarrow> R' s) \<Longrightarrow> step_spec P' f Q' R'"
  unfolding step_spec_def by (metis (no_types, lifting))

lemma run_steps_inv:
  "list_all (\<lambda>f. step_spec P f P R) fs \<Longrightarrow> step_spec P (run_steps fs) P R"
  by (induction fs) (auto intro: step_spec_Nil step_spec_Cons)

lemma run_steps_append:
  "run_steps (fs @ gs) s = Option.bind (run_steps fs s) (\<lambda>(st, s1). if NT_SUCCESS st then run_steps gs s1 else Some (st, s1))"
  by (induction fs arbitrary: s) (auto split: bind_splits)

text \<open>Something no step of a sequence changes.\<close>

definition step_keeps :: "('s \<Rightarrow> 'a) \<Rightarrow> 's step \<Rightarrow> bool" where
  "step_keeps g f \<longleftrightarrow> (\<forall>s st s'. f s = Some (st, s') \<longrightarrow> g s' = g s)"

lemma run_steps_keeps: "list_all (step_keeps g) fs \<Longrightarrow> run_steps fs s = Some (st, s') \<Longrightarrow> g s' = g s"
proof (induction fs arbitrary: s)
  case (Cons f fs)
  then show ?case by (force simp: step_keeps_def split: bind_splits if_splits)
qed simp

text \<open>
  Code whose faults all have a cause: \<open>unless_fault B x Q\<close> says that the outcome \<open>x\<close> is a fault only
  if \<open>B\<close> holds, and otherwise a value with \<open>Q\<close>. \<open>step_may\<close> is \<open>step_spec\<close> with such a cause.
\<close>

definition unless_fault :: "bool \<Rightarrow> 'a option \<Rightarrow> ('a \<Rightarrow> bool) \<Rightarrow> bool" where
  "unless_fault B x Q \<longleftrightarrow> (case x of None \<Rightarrow> B | Some y \<Rightarrow> Q y)"

lemma unless_fault_simps [simp]: "unless_fault B None Q = B" "unless_fault B (Some y) Q = Q y"
  by (simp_all add: unless_fault_def)

lemma unless_fault_bind:
  "unless_fault B x Q \<Longrightarrow> (\<And>y. x = Some y \<Longrightarrow> Q y \<Longrightarrow> unless_fault B (f y) R) \<Longrightarrow> unless_fault B (Option.bind x f) R"
  by (cases x) simp_all

lemma unless_fault_mono: "unless_fault B x Q \<Longrightarrow> (\<And>y. x = Some y \<Longrightarrow> Q y \<Longrightarrow> Q' y) \<Longrightarrow> unless_fault B x Q'"
  by (cases x) simp_all

lemma unless_fault_iff: "unless_fault B x Q \<longleftrightarrow> (x = None \<longrightarrow> B) \<and> (\<forall>y. x = Some y \<longrightarrow> Q y)"
  by (cases x) simp_all

lemma unless_faultD: "unless_fault B x Q \<Longrightarrow> x = None \<Longrightarrow> B" "unless_fault B x Q \<Longrightarrow> x = Some y \<Longrightarrow> Q y"
  by simp_all

definition step_may :: "bool \<Rightarrow> ('s \<Rightarrow> bool) \<Rightarrow> 's step \<Rightarrow> ('s \<Rightarrow> bool) \<Rightarrow> ('s \<Rightarrow> bool) \<Rightarrow> bool" where
  "step_may B P f Q R \<longleftrightarrow> (\<forall>s. P s \<longrightarrow> unless_fault B (f s) (\<lambda>(st, s'). if NT_SUCCESS st then Q s' else R s'))"

lemma step_mayI:
  "(\<And>s. P s \<Longrightarrow> unless_fault B (f s) (\<lambda>(st, s'). if NT_SUCCESS st then Q s' else R s')) \<Longrightarrow> step_may B P f Q R"
  by (simp add: step_may_def)

lemma step_mayD:
  "step_may B P f Q R \<Longrightarrow> P s \<Longrightarrow> unless_fault B (f s) (\<lambda>(st, s'). if NT_SUCCESS st then Q s' else R s')"
  by (simp add: step_may_def)

lemma step_may_spec: "step_spec P f Q R \<Longrightarrow> step_may B P f Q R"
  by (fastforce simp: step_spec_def step_may_def)

lemma step_may_Nil: "step_may B P (run_steps []) P R"
  by (simp add: step_may_def)

lemma step_may_Cons:
  assumes f: "step_may B P f Q R" and fs: "step_may B Q (run_steps fs) S R"
  shows "step_may B P (run_steps (f # fs)) S R"
proof (rule step_mayI)
  fix s assume "P s"
  from step_mayD [OF f this] show "unless_fault B (run_steps (f # fs) s) (\<lambda>(st, s'). if NT_SUCCESS st then S s' else R s')"
  proof (cases "f s")
    case (Some y)
    then show ?thesis using step_mayD [OF f \<open>P s\<close>] step_mayD [OF fs, of "snd y"]
      by (cases "NT_SUCCESS (fst y)") (simp_all add: case_prod_beta)
  qed simp
qed

lemma step_may_conseq:
  "step_may B P f Q R \<Longrightarrow> (\<And>s. P' s \<Longrightarrow> P s) \<Longrightarrow> (\<And>s. Q s \<Longrightarrow> Q' s) \<Longrightarrow> (\<And>s. R s \<Longrightarrow> R' s) \<Longrightarrow> step_may B P' f Q' R'"
  unfolding step_may_def by (fastforce elim!: unless_fault_mono split: if_splits)

section \<open>Pool memory and WDF objects\<close>

text \<open>A pointer to a block remembers the tag of the block, the pool is the multiset of live blocks.\<close>

type_synonym pool_tag = string

datatype wdf_object = WdfIoTarget | WdfRequest | WdfMemory | WdfWorkItem | WdfCollection

definition MINADAPTER_POOLTAG :: pool_tag where [const_defs]: "MINADAPTER_POOLTAG = ''uAyS''"
definition SYSVAD_POOLTAG :: pool_tag where [const_defs]: "SYSVAD_POOLTAG = ''DVSM''"

text \<open>A handler with its context.\<close>

type_synonym event_callback = "nat \<times> nat"

section \<open>State of the I/O of a device\<close>

text \<open>
  A notification request with its context: \<open>Errors\<close> counts failures in a row, \<open>Pending\<close> says that
  it is with the I/O target, \<open>Code\<close> and \<open>IoStatus\<close> are the completion parameters. \<open>io_collection\<close> is
  m_ReqCollection, \<open>io_queued\<close> and \<open>io_busy\<close> the state of the work item, \<open>io_log\<close> the IOCTLs sent
  synchronously with their results.
\<close>

record ('c, 'b) notif =
  Errors :: nat
  Buffer :: 'b
  MemIn :: bool
  MemOut :: bool
  Pending :: bool
  Code :: 'c
  IoStatus :: NTSTATUS

record ('q, 'c, 'b) sideband_io =
  io_log :: "('c \<times> NTSTATUS) list"
  io_purged :: bool
  io_reqs :: "'q \<Rightarrow> ('c, 'b) notif option"
  io_collection :: "'q list"
  io_queued :: bool
  io_busy :: bool
  io_pool :: "pool_tag multiset"
  io_objects :: "wdf_object multiset"

type_synonym ('c, 'v) remote = "('c \<times> NTSTATUS) list \<Rightarrow> 'c \<Rightarrow> NTSTATUS \<times> 'v"

definition pool_alloc :: "pool_tag \<Rightarrow> ('q, 'c, 'b) sideband_io \<Rightarrow> pool_tag \<times> ('q, 'c, 'b) sideband_io" where
  "pool_alloc tag io = (tag, io \<lparr> io_pool := add_mset tag (io_pool io) \<rparr>)"

definition pool_free :: "pool_tag \<Rightarrow> pool_tag \<Rightarrow> ('q, 'c, 'b) sideband_io \<Rightarrow> ('q, 'c, 'b) sideband_io option" where
  "pool_free p tag io =
     (if p = tag \<and> p \<in># io_pool io then Some (io \<lparr> io_pool := io_pool io - {#p#} \<rparr>) else None)"

definition pool_free_opt :: "pool_tag option \<Rightarrow> pool_tag \<Rightarrow> ('q, 'c, 'b) sideband_io \<Rightarrow> ('q, 'c, 'b) sideband_io option" where
  "pool_free_opt p tag io = (case p of None \<Rightarrow> Some io | Some q \<Rightarrow> pool_free q tag io)"

definition wdf_create :: "wdf_object \<Rightarrow> ('q, 'c, 'b) sideband_io \<Rightarrow> ('q, 'c, 'b) sideband_io" where
  "wdf_create x io = io \<lparr> io_objects := add_mset x (io_objects io) \<rparr>"

definition wdf_delete :: "wdf_object \<Rightarrow> ('q, 'c, 'b) sideband_io \<Rightarrow> ('q, 'c, 'b) sideband_io option" where
  "wdf_delete x io =
     (if x \<in># io_objects io then Some (io \<lparr> io_objects := io_objects io - {#x#} \<rparr>) else None)"

definition wdf_delete_if :: "bool \<Rightarrow> wdf_object \<Rightarrow> ('q, 'c, 'b) sideband_io \<Rightarrow> ('q, 'c, 'b) sideband_io option" where
  "wdf_delete_if present x io = (if present then wdf_delete x io else Some io)"

section \<open>IOCTLs\<close>

definition SendIoCtrlSynchronously :: "('c, 'v) remote \<Rightarrow> 'c \<Rightarrow> ('q, 'c, 'b) sideband_io \<Rightarrow>
    NTSTATUS \<times> 'v \<times> ('q, 'c, 'b) sideband_io" where
  "SendIoCtrlSynchronously remote code io =
     (case remote (io_log io) code of (st, v) \<Rightarrow> (st, v, io \<lparr> io_log := io_log io @ [(code, st)] \<rparr>))"

text \<open>
  Formatting the request, sending it and the status of a request that could not be sent. A purged
  target takes no request.
\<close>

record send_env =
  se_format :: NTSTATUS
  se_sent :: bool
  se_status :: NTSTATUS

definition SendIoCtrlAsynchronously :: "send_env \<Rightarrow> 'q \<Rightarrow> 'c \<Rightarrow> ('q, 'c, 'b) sideband_io \<Rightarrow>
    (NTSTATUS \<times> ('q, 'c, 'b) sideband_io) option" where
  "SendIoCtrlAsynchronously e q code io = do {
     r \<leftarrow> io_reqs io q;
     if Pending r then None
     else if \<not> NT_SUCCESS (se_format e) then Some (se_format e, io)
     else if \<not> se_sent e \<or> io_purged io then
       Some (if NT_SUCCESS (se_status e) then STATUS_INVALID_DEVICE_STATE else se_status e, io)
     else Some (STATUS_SUCCESS, io \<lparr> io_reqs := (io_reqs io)(q \<mapsto> r \<lparr> Pending := True, Code := code \<rparr>) \<rparr>) }"

text \<open>The status after IF_FAILED_JUMP and the assignment of STATUS_SUCCESS.\<close>

definition ioctl_done :: "NTSTATUS \<Rightarrow> NTSTATUS" where
  "ioctl_done st = (if NT_SUCCESS st then STATUS_SUCCESS else st)"

text \<open>The Enable...Notification functions: mark the buffer as a notification and send the request.\<close>

definition enable_notification :: "send_env \<Rightarrow> 'q \<Rightarrow> 'c \<Rightarrow> 'b \<Rightarrow> ('q, 'c, 'b) sideband_io \<Rightarrow>
    (NTSTATUS \<times> ('q, 'c, 'b) sideband_io) option" where
  "enable_notification e q code b io = do {
     r \<leftarrow> io_reqs io q;
     (st, io1) \<leftarrow> SendIoCtrlAsynchronously e q code (io \<lparr> io_reqs := (io_reqs io)(q \<mapsto> r \<lparr> Buffer := b \<rparr>) \<rparr>);
     Some (ioctl_done st, io1) }"

text \<open>
  The functions that ask a device for a block of unknown size: a first IOCTL that is answered with
  STATUS_BUFFER_TOO_SMALL and the size, an allocation of that size and a second IOCTL, both through
  one temporary request. \<open>code\<close> makes the IOCTL from the length of the output buffer, \<open>info\<close> reads
  WdfRequestGetInformation from the first reply.
\<close>

record query_env =
  qe_create :: NTSTATUS
  qe_alloc :: bool
  qe_reuse :: NTSTATUS

definition query_block :: "('c, 'v) remote \<Rightarrow> query_env \<Rightarrow> pool_tag \<Rightarrow> ('v \<Rightarrow> nat) \<Rightarrow> (nat \<Rightarrow> 'c) \<Rightarrow>
    ('q, 'c, 'b) sideband_io \<Rightarrow> (NTSTATUS \<times> (pool_tag \<times> 'v) option \<times> ('q, 'c, 'b) sideband_io) option" where
  "query_block remote e tag info code io =
     (if \<not> NT_SUCCESS (qe_create e) then Some (qe_create e, None, io)
      else
        (let io1 = wdf_create WdfRequest io;
             (st, v, io2) = SendIoCtrlSynchronously remote (code 0) io1
         in if st \<noteq> STATUS_BUFFER_TOO_SMALL then do {
              io3 \<leftarrow> wdf_delete WdfRequest io2;
              Some (if NT_SUCCESS st then STATUS_INVALID_DEVICE_STATE else st, None, io3) }
            else if info v = 0 \<or> info v > 0xFFFFFFFF then do {
              io3 \<leftarrow> wdf_delete WdfRequest io2;
              Some (STATUS_INVALID_DEVICE_STATE, None, io3) }
            else if \<not> qe_alloc e then do {
              io3 \<leftarrow> wdf_delete WdfRequest io2;
              Some (STATUS_INSUFFICIENT_RESOURCES, None, io3) }
            else
              (let (p, io3) = pool_alloc tag io2;
                   (st2, v2, io4) = (if NT_SUCCESS (qe_reuse e)
                                     then SendIoCtrlSynchronously remote (code (info v)) io3
                                     else (qe_reuse e, v, io3))
               in if NT_SUCCESS st2 then do {
                    io5 \<leftarrow> wdf_delete WdfRequest io4;
                    Some (STATUS_SUCCESS, Some (p, v2), io5) }
                  else do {
                    io5 \<leftarrow> pool_free p tag io4;
                    io6 \<leftarrow> wdf_delete WdfRequest io5;
                    Some (st2, None, io6) })))"

text \<open>A block of known size: an allocation and one IOCTL. \<open>freetag\<close> is the tag it is freed with on failure.\<close>

definition fetch_block :: "('c, 'v) remote \<Rightarrow> bool \<Rightarrow> pool_tag \<Rightarrow> pool_tag \<Rightarrow> 'c \<Rightarrow>
    ('q, 'c, 'b) sideband_io \<Rightarrow> (NTSTATUS \<times> (pool_tag \<times> 'v) option \<times> ('q, 'c, 'b) sideband_io) option" where
  "fetch_block remote alloc tag freetag code io =
     (if \<not> alloc then Some (STATUS_INSUFFICIENT_RESOURCES, None, io)
      else
        (let (p, io1) = pool_alloc tag io;
             (st, v, io2) = SendIoCtrlSynchronously remote code io1
         in if NT_SUCCESS st then Some (STATUS_SUCCESS, Some (p, v), io2)
            else do { io3 \<leftarrow> pool_free p freetag io2; Some (st, None, io3) }))"

text \<open>
  Reading a structure through a pointer to a block. The block may be shorter than the structure, as
  the device announced its size and nobody compares it with the size of the structure: \<open>whole\<close> says
  of a reply that the announced bytes hold all of it. Otherwise, and through NULL, the read is a fault.
\<close>

definition read_block :: "('v \<Rightarrow> bool) \<Rightarrow> (pool_tag \<times> 'v) option \<Rightarrow> 'v option" where
  "read_block whole p = (case p of None \<Rightarrow> None | Some (t, v) \<Rightarrow> if whole v then Some v else None)"

section \<open>Requests\<close>

record request_env =
  re_create :: NTSTATUS
  re_mem_in :: NTSTATUS
  re_mem_out :: NTSTATUS

definition new_notif :: "'c \<Rightarrow> 'b \<Rightarrow> ('c, 'b) notif" where
  "new_notif code b = \<lparr> Errors = 0, Buffer = b, MemIn = False, MemOut = False, Pending = False, Code = code,
     IoStatus = STATUS_SUCCESS \<rparr>"

text \<open>A request of Init with the memory objects for its input and output buffer.\<close>

definition create_request :: "request_env \<Rightarrow> 'q \<Rightarrow> 'c \<Rightarrow> 'b \<Rightarrow> ('q, 'c, 'b) sideband_io \<Rightarrow>
    NTSTATUS \<times> ('q, 'c, 'b) sideband_io" where
  "create_request e q code b io =
     (if \<not> NT_SUCCESS (re_create e) then (re_create e, io)
      else
        (let r = new_notif code b;
             io1 = wdf_create WdfRequest (io \<lparr> io_reqs := (io_reqs io)(q \<mapsto> r) \<rparr>)
         in if \<not> NT_SUCCESS (re_mem_in e) then (re_mem_in e, io1)
            else
              (let io2 = wdf_create WdfMemory (io1 \<lparr> io_reqs := (io_reqs io1)(q \<mapsto> r \<lparr> MemIn := True \<rparr>) \<rparr>)
               in if \<not> NT_SUCCESS (re_mem_out e) then (re_mem_out e, io2)
                  else (STATUS_SUCCESS,
                        wdf_create WdfMemory (io2 \<lparr> io_reqs := (io_reqs io2)(q \<mapsto> r \<lparr> MemIn := True, MemOut := True \<rparr>) \<rparr>)))))"

text \<open>The part of a destructor for one request. Deleting a request the target has is a fault.\<close>

definition delete_request :: "'q \<Rightarrow> ('q, 'c, 'b) sideband_io \<Rightarrow> ('q, 'c, 'b) sideband_io option" where
  "delete_request q io = (case io_reqs io q of
     None \<Rightarrow> Some io
   | Some r \<Rightarrow>
       if Pending r then None
       else do {
         io1 \<leftarrow> wdf_delete_if (MemIn r) WdfMemory io;
         io2 \<leftarrow> wdf_delete_if (MemOut r) WdfMemory io1;
         io3 \<leftarrow> wdf_delete WdfRequest io2;
         Some (io3 \<lparr> io_reqs := (io_reqs io3)(q := None) \<rparr>) })"

fun delete_requests :: "'q list \<Rightarrow> ('q, 'c, 'b) sideband_io \<Rightarrow> ('q, 'c, 'b) sideband_io option" where
  "delete_requests [] io = Some io"
| "delete_requests (q # qs) io = do { io1 \<leftarrow> delete_request q io; delete_requests qs io1 }"

section \<open>Completion and processing of notifications\<close>

definition NOTIFICATION_MAX_ERROR_COUNT :: nat where [const_defs]: "NOTIFICATION_MAX_ERROR_COUNT = 5"

text \<open>
  The target completes a request with status \<open>st\<close> and the contents \<open>b\<close> of the output buffer; \<open>add\<close> is
  the result of WdfCollectionAdd.
\<close>

definition NotificationStatusCompletion :: "NTSTATUS \<Rightarrow> NTSTATUS \<Rightarrow> 'b \<Rightarrow> 'q \<Rightarrow> ('q, 'c, 'b) sideband_io \<Rightarrow>
    ('q, 'c, 'b) sideband_io option" where
  "NotificationStatusCompletion add st b q io = do {
     r \<leftarrow> io_reqs io q;
     if \<not> Pending r then None
     else do {
       let r1 = r \<lparr> Pending := False, IoStatus := st, Buffer := b \<rparr>;
       let io1 = io \<lparr> io_reqs := (io_reqs io)(q \<mapsto> r1) \<rparr>;
       if st = STATUS_CANCELLED then Some io1
       else do {
         let errors = (if NT_SUCCESS st then 0 else Errors r1 + 1);
         let io2 = io1 \<lparr> io_reqs := (io_reqs io1)(q \<mapsto> r1 \<lparr> Errors := errors \<rparr>) \<rparr>;
         if errors > NOTIFICATION_MAX_ERROR_COUNT then Some io2
         else if NT_SUCCESS add
         then Some (io2 \<lparr> io_collection := io_collection io2 @ [q], io_queued := True \<rparr>)
         else Some io2 } } }"

text \<open>
  One round of the work item on the state \<open>(io, d)\<close> of the device. \<open>handle\<close> is the switch over the
  IOCTL codes: it says whether to send the request again. \<open>rearm\<close> prepares the buffer.
\<close>

type_synonym ('q, 'c, 'b, 'd) notif_handler =
  "'c \<Rightarrow> 'b \<Rightarrow> ('q, 'c, 'b) sideband_io \<times> 'd \<Rightarrow> bool \<times> 'b \<times> ('q, 'c, 'b) sideband_io \<times> 'd"

record 'q round_env =
  ne_reuse :: "'q \<Rightarrow> NTSTATUS"
  ne_send :: "'q \<Rightarrow> send_env"

definition notif_round :: "('q, 'c, 'b, 'd) notif_handler \<Rightarrow> ('b \<Rightarrow> 'b) \<Rightarrow> 'q round_env \<Rightarrow>
    ('q, 'c, 'b) sideband_io \<times> 'd \<Rightarrow> (('q, 'c, 'b) sideband_io \<times> 'd) option" where
  "notif_round handle rearm e = (\<lambda>(io, d).
     (case io_collection io of
        [] \<Rightarrow> Some (io \<lparr> io_busy := False \<rparr>, d)
      | q # qs \<Rightarrow> do {
          r \<leftarrow> io_reqs io q;
          let io1 = io \<lparr> io_collection := qs \<rparr>;
          let (resend, b, io2, d2) =
            (if NT_SUCCESS (IoStatus r) then handle (Code r) (Buffer r) (io1, d) else (True, Buffer r, io1, d));
          let io3 = io2 \<lparr> io_reqs := (io_reqs io2)(q \<mapsto> r \<lparr> Buffer := b \<rparr>) \<rparr>;
          if \<not> resend then Some (io3, d2)
          else if \<not> NT_SUCCESS (ne_reuse e q) then Some (io3 \<lparr> io_busy := False \<rparr>, d2)
          else do {
            let io4 = io3 \<lparr> io_reqs := (io_reqs io3)(q \<mapsto> r \<lparr> Buffer := rearm b \<rparr>) \<rparr>;
            (st, io5) \<leftarrow> SendIoCtrlAsynchronously (ne_send e q) q (Code r) io4;
            Some (if NT_SUCCESS st then io5 else io5 \<lparr> io_busy := False \<rparr>, d2) } }))"

text \<open>The whole callback when nothing completes meanwhile; \<open>n\<close> bounds the number of rounds.\<close>

fun notif_rounds :: "nat \<Rightarrow> ('q, 'c, 'b, 'd) notif_handler \<Rightarrow> ('b \<Rightarrow> 'b) \<Rightarrow> 'q round_env \<Rightarrow>
    ('q, 'c, 'b) sideband_io \<times> 'd \<Rightarrow> (('q, 'c, 'b) sideband_io \<times> 'd) option" where
  "notif_rounds 0 handle rearm e s = None"
| "notif_rounds (Suc n) handle rearm e s = do {
     s1 \<leftarrow> notif_round handle rearm e s;
     if io_busy (fst s1) then notif_rounds n handle rearm e s1 else Some s1 }"

definition begin_work :: "('q, 'c, 'b) sideband_io \<Rightarrow> ('q, 'c, 'b) sideband_io" where
  "begin_work io = io \<lparr> io_queued := False, io_busy := True \<rparr>"

text \<open>Flushing waits for a callback that is running and for one that is queued.\<close>

definition notif_work :: "('q, 'c, 'b, 'd) notif_handler \<Rightarrow> ('b \<Rightarrow> 'b) \<Rightarrow> 'q round_env \<Rightarrow>
    ('q, 'c, 'b) sideband_io \<times> 'd \<Rightarrow> (('q, 'c, 'b) sideband_io \<times> 'd) option" where
  "notif_work handle rearm e s = notif_rounds (Suc (length (io_collection (fst s)))) handle rearm e s"

definition notif_flush :: "('q, 'c, 'b, 'd) notif_handler \<Rightarrow> ('b \<Rightarrow> 'b) \<Rightarrow> 'q round_env \<Rightarrow>
    ('q, 'c, 'b) sideband_io \<times> 'd \<Rightarrow> (('q, 'c, 'b) sideband_io \<times> 'd) option" where
  "notif_flush handle rearm e s = do {
     s1 \<leftarrow> (if io_busy (fst s) then notif_work handle rearm e s else Some s);
     if io_queued (fst s1) then notif_work handle rearm e (begin_work (fst s1), snd s1) else Some s1 }"

text \<open>
  The same for a handler that may fault or allocate memory. A handler without faults is the special
  case \<open>flush_faults_total\<close> below.
\<close>

type_synonym ('q, 'c, 'b, 'd) faulty_handler =
  "'c \<Rightarrow> 'b \<Rightarrow> ('q, 'c, 'b) sideband_io \<times> 'd \<Rightarrow> (bool \<times> 'b \<times> ('q, 'c, 'b) sideband_io \<times> 'd) option"

definition faulty_round :: "('q, 'c, 'b, 'd) faulty_handler \<Rightarrow> ('b \<Rightarrow> 'b) \<Rightarrow> 'q round_env \<Rightarrow>
    ('q, 'c, 'b) sideband_io \<times> 'd \<Rightarrow> (('q, 'c, 'b) sideband_io \<times> 'd) option" where
  "faulty_round handle rearm e = (\<lambda>(io, d).
     (case io_collection io of
        [] \<Rightarrow> Some (io \<lparr> io_busy := False \<rparr>, d)
      | q # qs \<Rightarrow> do {
          r \<leftarrow> io_reqs io q;
          let io1 = io \<lparr> io_collection := qs \<rparr>;
          (resend, b, io2, d2) \<leftarrow>
            (if NT_SUCCESS (IoStatus r) then handle (Code r) (Buffer r) (io1, d) else Some (True, Buffer r, io1, d));
          let io3 = io2 \<lparr> io_reqs := (io_reqs io2)(q \<mapsto> r \<lparr> Buffer := b \<rparr>) \<rparr>;
          if \<not> resend then Some (io3, d2)
          else if \<not> NT_SUCCESS (ne_reuse e q) then Some (io3 \<lparr> io_busy := False \<rparr>, d2)
          else do {
            let io4 = io3 \<lparr> io_reqs := (io_reqs io3)(q \<mapsto> r \<lparr> Buffer := rearm b \<rparr>) \<rparr>;
            (st, io5) \<leftarrow> SendIoCtrlAsynchronously (ne_send e q) q (Code r) io4;
            Some (if NT_SUCCESS st then io5 else io5 \<lparr> io_busy := False \<rparr>, d2) } }))"

fun faulty_rounds :: "nat \<Rightarrow> ('q, 'c, 'b, 'd) faulty_handler \<Rightarrow> ('b \<Rightarrow> 'b) \<Rightarrow> 'q round_env \<Rightarrow>
    ('q, 'c, 'b) sideband_io \<times> 'd \<Rightarrow> (('q, 'c, 'b) sideband_io \<times> 'd) option" where
  "faulty_rounds 0 handle rearm e s = None"
| "faulty_rounds (Suc n) handle rearm e s = do {
     s1 \<leftarrow> faulty_round handle rearm e s;
     if io_busy (fst s1) then faulty_rounds n handle rearm e s1 else Some s1 }"

definition faulty_work :: "('q, 'c, 'b, 'd) faulty_handler \<Rightarrow> ('b \<Rightarrow> 'b) \<Rightarrow> 'q round_env \<Rightarrow>
    ('q, 'c, 'b) sideband_io \<times> 'd \<Rightarrow> (('q, 'c, 'b) sideband_io \<times> 'd) option" where
  "faulty_work handle rearm e s = faulty_rounds (Suc (length (io_collection (fst s)))) handle rearm e s"

definition faulty_flush :: "('q, 'c, 'b, 'd) faulty_handler \<Rightarrow> ('b \<Rightarrow> 'b) \<Rightarrow> 'q round_env \<Rightarrow>
    ('q, 'c, 'b) sideband_io \<times> 'd \<Rightarrow> (('q, 'c, 'b) sideband_io \<times> 'd) option" where
  "faulty_flush handle rearm e s = do {
     s1 \<leftarrow> (if io_busy (fst s) then faulty_work handle rearm e s else Some s);
     if io_queued (fst s1) then faulty_work handle rearm e (begin_work (fst s1), snd s1) else Some s1 }"

abbreviation without_faults :: "('q, 'c, 'b, 'd) notif_handler \<Rightarrow> ('q, 'c, 'b, 'd) faulty_handler" where
  "without_faults handle \<equiv> \<lambda>c b s. Some (handle c b s)"

lemma round_faults_total: "faulty_round (without_faults handle) rearm e = notif_round handle rearm e"
  unfolding faulty_round_def notif_round_def Let_def
  by (intro ext) (auto split: list.split prod.split intro!: Option.bind_cong)

lemma rounds_faults_total: "faulty_rounds n (without_faults handle) rearm e s = notif_rounds n handle rearm e s"
  by (induction n arbitrary: s) (simp_all add: round_faults_total cong: if_cong)

lemma work_faults_total: "faulty_work (without_faults handle) rearm e = notif_work handle rearm e"
  by (intro ext) (simp add: faulty_work_def notif_work_def rounds_faults_total del: faulty_rounds.simps notif_rounds.simps)

lemma flush_faults_total: "faulty_flush (without_faults handle) rearm e = notif_flush handle rearm e"
  by (intro ext) (simp add: faulty_flush_def notif_flush_def work_faults_total cong: if_cong)

text \<open>Purging the target completes every request it has as cancelled; \<open>qs\<close> are the notification requests.\<close>

fun cancel_all :: "'q list \<Rightarrow> ('q, 'c, 'b) sideband_io \<Rightarrow> ('q, 'c, 'b) sideband_io option" where
  "cancel_all [] io = Some io"
| "cancel_all (q # qs) io = do {
     io1 \<leftarrow> (case io_reqs io q of
              None \<Rightarrow> Some io
            | Some r \<Rightarrow> if Pending r then NotificationStatusCompletion STATUS_SUCCESS STATUS_CANCELLED (Buffer r) q io
                        else Some io);
     cancel_all qs io1 }"

section \<open>Requests are never lost track of\<close>

text \<open>
  \<open>Q\<close> lists the notification requests of a device. A completed request is in the collection at most
  once and is not pending; a request that failed more often in a row than allowed is neither.
\<close>

definition notifs_ok :: "'q list \<Rightarrow> ('q, 'c, 'b) sideband_io \<Rightarrow> bool" where
  "notifs_ok Q io \<longleftrightarrow> distinct (io_collection io)
     \<and> (\<forall>q \<in> set (io_collection io). q \<in> set Q \<and> (\<exists>r. io_reqs io q = Some r \<and> \<not> Pending r))
     \<and> (\<forall>q \<in> set Q. \<forall>r. io_reqs io q = Some r \<longrightarrow> Errors r \<le> Suc NOTIFICATION_MAX_ERROR_COUNT
          \<and> (Pending r \<or> q \<in> set (io_collection io) \<longrightarrow> Errors r \<le> NOTIFICATION_MAX_ERROR_COUNT))"

text \<open>What all these operations leave alone: memory, objects and which requests exist.\<close>

definition io_frame :: "('q, 'c, 'b) sideband_io \<Rightarrow> ('q, 'c, 'b) sideband_io \<Rightarrow> bool" where
  "io_frame io io' \<longleftrightarrow> io_pool io' = io_pool io \<and> io_objects io' = io_objects io \<and> io_purged io' = io_purged io
     \<and> (\<forall>q. map_option (\<lambda>r. (MemIn r, MemOut r)) (io_reqs io' q) = map_option (\<lambda>r. (MemIn r, MemOut r)) (io_reqs io q))"

lemma io_frame_refl [simp]: "io_frame io io" "io_frame io (io \<lparr> io_log := l \<rparr>)" "io_frame io (io \<lparr> io_busy := x \<rparr>)"
  "io_frame io (io \<lparr> io_collection := c \<rparr>)" "io_frame io (io \<lparr> io_queued := x \<rparr>)"
  by (simp_all add: io_frame_def)

lemma io_frame_trans [trans]: "io_frame a b \<Longrightarrow> io_frame b c \<Longrightarrow> io_frame a c"
  by (simp add: io_frame_def)

text \<open>The requests with the target, of those in a list.\<close>

definition pending_in :: "('q, 'c, 'b) sideband_io \<Rightarrow> 'q \<Rightarrow> bool" where
  "pending_in io q \<longleftrightarrow> (case io_reqs io q of None \<Rightarrow> False | Some r \<Rightarrow> Pending r)"

lemma pending_simps [simp]:
  "pending_in (io \<lparr> io_log := l \<rparr>) q = pending_in io q" "pending_in (io \<lparr> io_busy := x \<rparr>) q = pending_in io q"
  "pending_in (io \<lparr> io_collection := c \<rparr>) q = pending_in io q" "pending_in (io \<lparr> io_queued := x \<rparr>) q = pending_in io q"
  "pending_in (io \<lparr> io_pool := y \<rparr>) q = pending_in io q" "pending_in (io \<lparr> io_objects := z \<rparr>) q = pending_in io q"
  "pending_in (io \<lparr> io_purged := x \<rparr>) q = pending_in io q"
  by (simp_all add: pending_in_def)

lemma Completion_ok:
  assumes ok: "notifs_ok Q io" and q: "q \<in> set Q" and r: "io_reqs io q = Some r" "Pending r"
  shows "\<exists>io'. NotificationStatusCompletion add st b q io = Some io' \<and> notifs_ok Q io' \<and> io_frame io io'
     \<and> \<not> pending_in io' q \<and> (\<forall>p. p \<noteq> q \<longrightarrow> io_reqs io' p = io_reqs io p) \<and> io_busy io' = io_busy io
     \<and> (st = STATUS_CANCELLED \<longrightarrow> io_collection io' = io_collection io \<and> io_queued io' = io_queued io)
     \<and> io_log io' = io_log io"
proof -
  have n: "q \<notin> set (io_collection io)" using ok r by (auto simp: notifs_ok_def)
  have e: "Errors r \<le> NOTIFICATION_MAX_ERROR_COUNT" using ok q r by (auto simp: notifs_ok_def)
  have d: "distinct (io_collection io)" using ok by (simp add: notifs_ok_def)
  have c: "p \<in> set (io_collection io) \<Longrightarrow> p \<in> set Q \<and> (\<exists>r. io_reqs io p = Some r \<and> \<not> Pending r)" for p
    using ok by (simp add: notifs_ok_def)
  have s: "p \<in> set Q \<Longrightarrow> io_reqs io p = Some x \<Longrightarrow> Errors x \<le> Suc NOTIFICATION_MAX_ERROR_COUNT
      \<and> (Pending x \<or> p \<in> set (io_collection io) \<longrightarrow> Errors x \<le> NOTIFICATION_MAX_ERROR_COUNT)" for p x
    using ok by (simp add: notifs_ok_def)
  show ?thesis
    using r n e d c s q
    by (auto simp: NotificationStatusCompletion_def Let_def notifs_ok_def io_frame_def pending_in_def)
qed

text \<open>What is left alone by operations that may also change memory.\<close>

definition req_frame :: "('q, 'c, 'b) sideband_io \<Rightarrow> ('q, 'c, 'b) sideband_io \<Rightarrow> bool" where
  "req_frame io io' \<longleftrightarrow> io_objects io' = io_objects io \<and> io_purged io' = io_purged io
     \<and> (\<forall>q. map_option (\<lambda>r. (MemIn r, MemOut r)) (io_reqs io' q) = map_option (\<lambda>r. (MemIn r, MemOut r)) (io_reqs io q))"

lemma req_frame_refl [simp]: "req_frame io io" "req_frame io (begin_work io)"
  by (simp_all add: req_frame_def begin_work_def)

lemma req_frame_trans [trans]: "req_frame a b \<Longrightarrow> req_frame b c \<Longrightarrow> req_frame a c"
  by (simp add: req_frame_def)

lemma io_frame_req: "io_frame io io' = (io_pool io' = io_pool io \<and> req_frame io io')"
  by (auto simp: io_frame_def req_frame_def)

lemma notifs_ok_work: "notifs_ok Q io \<Longrightarrow> notifs_ok Q (begin_work io)"
  by (simp add: notifs_ok_def begin_work_def)

text \<open>
  What a handler may do to the I/O state: send synchronous IOCTLs, allocate and free. \<open>inv\<close> is a
  relation between the IOCTLs sent, the memory and the state of the device that the handler
  maintains; from it the handler faults only when \<open>trouble\<close> holds.
\<close>

locale faulty_notification_handler =
  fixes handle :: "('q, 'c, 'b, 'd) faulty_handler"
    and inv :: "('c \<times> NTSTATUS) list \<Rightarrow> pool_tag multiset \<Rightarrow> 'd \<Rightarrow> bool"
    and trouble :: bool
  assumes handle_ok: "inv (io_log io) (io_pool io) d \<Longrightarrow> unless_fault trouble (handle c b (io, d))
    (\<lambda>(resend, b', io', d'). \<exists>l p. io' = io \<lparr> io_log := l, io_pool := p \<rparr> \<and> inv l p d')"
begin

lemma round_ok:
  assumes ok: "notifs_ok Q io" and i: "inv (io_log io) (io_pool io) d"
  shows "unless_fault trouble (faulty_round handle rearm e (io, d)) (\<lambda>(io', d'). notifs_ok Q io' \<and> req_frame io io'
     \<and> io_queued io' = io_queued io \<and> io_collection io' = tl (io_collection io)
     \<and> (io_busy io' \<longrightarrow> io_busy io \<and> io_collection io \<noteq> [])
     \<and> (\<forall>q. q \<notin> set Q \<longrightarrow> io_reqs io' q = io_reqs io q)
     \<and> (\<forall>q. io_purged io \<longrightarrow> pending_in io' q = pending_in io q)
     \<and> inv (io_log io') (io_pool io') d')"
proof (cases "io_collection io")
  case Nil
  then show ?thesis using ok i by (auto simp: faulty_round_def notifs_ok_def req_frame_def)
next
  case (Cons q qs)
  from ok Cons obtain r where r: "io_reqs io q = Some r" "\<not> Pending r" "q \<in> set Q" "q \<notin> set qs"
    and e: "Errors r \<le> NOTIFICATION_MAX_ERROR_COUNT"
    by (auto simp: notifs_ok_def)
  let ?io1 = "io \<lparr> io_collection := qs \<rparr>"
  let ?h = "if NT_SUCCESS (IoStatus r) then handle (Code r) (Buffer r) (?io1, d) else Some (True, Buffer r, ?io1, d)"
  have h: "unless_fault trouble ?h (\<lambda>(resend, b', io', d'). \<exists>l p. io' = ?io1 \<lparr> io_log := l, io_pool := p \<rparr> \<and> inv l p d')"
  proof (cases "NT_SUCCESS (IoStatus r)")
    case True
    then show ?thesis using handle_ok [of ?io1 d "Code r" "Buffer r"] i by simp
  next
    case False
    then show ?thesis using i by (auto intro!: exI [of _ "io_log io"] exI [of _ "io_pool io"])
  qed
  show ?thesis
  proof (cases ?h)
    case None
    then have "faulty_round handle rearm e (io, d) = None" using Cons r by (simp add: faulty_round_def Let_def)
    then show ?thesis using h None by simp
  next
    case (Some y)
    obtain resend b l p d2 where y: "y = (resend, b, ?io1 \<lparr> io_log := l, io_pool := p \<rparr>, d2)" and k: "inv l p d2"
      using h Some by (cases y) auto
    let ?upd = "\<lambda>io :: ('q, 'c, 'b) sideband_io. io \<lparr> io_collection := qs, io_log := l, io_pool := p \<rparr>"
    have n: "notifs_ok Q ((?upd io) \<lparr> io_reqs := (io_reqs io)(q \<mapsto> r \<lparr> Buffer := b' \<rparr>) \<rparr>)"
      "notifs_ok Q ((?upd io) \<lparr> io_reqs := (io_reqs io)(q \<mapsto> r \<lparr> Buffer := b' \<rparr>), io_busy := x \<rparr>)"
      "notifs_ok Q ((?upd io) \<lparr> io_reqs := (io_reqs io)(q \<mapsto> r \<lparr> Buffer := b', Pending := True, Code := Code r \<rparr>) \<rparr>)"
      for b' x
      using ok r Cons e by (auto simp: notifs_ok_def)
    have f: "req_frame io ((?upd io) \<lparr> io_reqs := (io_reqs io)(q \<mapsto> r \<lparr> Buffer := b' \<rparr>) \<rparr>)"
      "req_frame io ((?upd io) \<lparr> io_reqs := (io_reqs io)(q \<mapsto> r \<lparr> Buffer := b' \<rparr>), io_busy := x \<rparr>)"
      "req_frame io ((?upd io) \<lparr> io_reqs := (io_reqs io)(q \<mapsto> r \<lparr> Buffer := b', Pending := True, Code := Code r \<rparr>) \<rparr>)"
      for b' x
      using r by (auto simp: req_frame_def)
    have p: "(case ((io_reqs io)(q \<mapsto> r \<lparr> Buffer := b' \<rparr>)) p of None \<Rightarrow> False | Some r \<Rightarrow> Pending r) = pending_in io p" for b' p
      using r by (auto simp: pending_in_def)
    show ?thesis
      using r Cons n f p k
      by (auto simp: faulty_round_def Some [unfolded y] SendIoCtrlAsynchronously_def pending_in_def Let_def)
  qed
qed

lemma rounds_ok:
  assumes "notifs_ok Q io" and "inv (io_log io) (io_pool io) d" and "length (io_collection io) < n"
  shows "unless_fault trouble (faulty_rounds n handle rearm e (io, d)) (\<lambda>(io', d'). notifs_ok Q io' \<and> req_frame io io'
     \<and> io_queued io' = io_queued io \<and> \<not> io_busy io'
     \<and> (\<forall>q. q \<notin> set Q \<longrightarrow> io_reqs io' q = io_reqs io q)
     \<and> (\<forall>q. io_purged io \<longrightarrow> pending_in io' q = pending_in io q)
     \<and> inv (io_log io') (io_pool io') d')"
  using assms
proof (induction n arbitrary: io d)
  case (Suc n)
  note rd = round_ok [OF Suc.prems(1,2), of rearm e]
  show ?case
  proof (cases "faulty_round handle rearm e (io, d)")
    case None
    then show ?thesis using rd by simp
  next
    case (Some y)
    obtain io1 d1 where y: "y = (io1, d1)" by (cases y)
    have 1: "notifs_ok Q io1" "req_frame io io1"
        "io_queued io1 = io_queued io" "io_collection io1 = tl (io_collection io)"
        "io_busy io1 \<longrightarrow> io_busy io \<and> io_collection io \<noteq> []"
        "\<forall>q. q \<notin> set Q \<longrightarrow> io_reqs io1 q = io_reqs io q" "\<forall>q. io_purged io \<longrightarrow> pending_in io1 q = pending_in io q"
        "inv (io_log io1) (io_pool io1) d1"
      using rd Some y by auto
    show ?thesis
    proof (cases "io_busy io1")
      case False
      then show ?thesis using 1 Some y by simp
    next
      case True
      then have "length (io_collection io1) < n" using 1(4,5) Suc.prems(3) by (cases "io_collection io") auto
      note ih = Suc.IH [OF 1(1,8) this]
      have "io_purged io1 = io_purged io" using 1(2) by (simp add: req_frame_def)
      then have "unless_fault trouble (faulty_rounds n handle rearm e (io1, d1)) (\<lambda>(io', d'). notifs_ok Q io' \<and> req_frame io io'
         \<and> io_queued io' = io_queued io \<and> \<not> io_busy io'
         \<and> (\<forall>q. q \<notin> set Q \<longrightarrow> io_reqs io' q = io_reqs io q)
         \<and> (\<forall>q. io_purged io \<longrightarrow> pending_in io' q = pending_in io q)
         \<and> inv (io_log io') (io_pool io') d')"
        using 1 by (intro unless_fault_mono [OF ih]) (auto intro: req_frame_trans)
      then show ?thesis using Some y True by simp
    qed
  qed
qed simp

lemma work_ok:
  "notifs_ok Q io \<Longrightarrow> inv (io_log io) (io_pool io) d \<Longrightarrow>
   unless_fault trouble (faulty_work handle rearm e (io, d)) (\<lambda>(io', d'). notifs_ok Q io' \<and> req_frame io io'
     \<and> io_queued io' = io_queued io \<and> \<not> io_busy io'
     \<and> (\<forall>q. q \<notin> set Q \<longrightarrow> io_reqs io' q = io_reqs io q)
     \<and> (\<forall>q. io_purged io \<longrightarrow> pending_in io' q = pending_in io q)
     \<and> inv (io_log io') (io_pool io') d')"
  using rounds_ok [where n = "Suc (length (io_collection io))" and d = d and rearm = rearm and e = e] by (simp add: faulty_work_def)

lemma flush_ok:
  assumes "notifs_ok Q io" and "inv (io_log io) (io_pool io) d"
  shows "unless_fault trouble (faulty_flush handle rearm e (io, d)) (\<lambda>(io', d'). notifs_ok Q io' \<and> req_frame io io'
     \<and> \<not> io_queued io' \<and> \<not> io_busy io'
     \<and> (\<forall>q. q \<notin> set Q \<longrightarrow> io_reqs io' q = io_reqs io q)
     \<and> (\<forall>q. io_purged io \<longrightarrow> pending_in io' q = pending_in io q)
     \<and> inv (io_log io') (io_pool io') d')" (is "unless_fault trouble _ ?post")
proof -
  have "unless_fault trouble (if io_busy io then faulty_work handle rearm e (io, d) else Some (io, d))
     (\<lambda>(io1, d1). notifs_ok Q io1 \<and> req_frame io io1 \<and> \<not> io_busy io1 \<and> (\<forall>q. q \<notin> set Q \<longrightarrow> io_reqs io1 q = io_reqs io q)
       \<and> (\<forall>q. io_purged io \<longrightarrow> pending_in io1 q = pending_in io q) \<and> inv (io_log io1) (io_pool io1) d1)"
    using assms by (auto intro: unless_fault_mono [OF work_ok])
  then have "unless_fault trouble (Option.bind (if io_busy io then faulty_work handle rearm e (io, d) else Some (io, d))
     (\<lambda>s1. if io_queued (fst s1) then faulty_work handle rearm e (begin_work (fst s1), snd s1) else Some s1)) ?post"
  proof (rule unless_fault_bind)
    fix y :: "('q, 'c, 'b) sideband_io \<times> 'd"
    assume y: "case y of (io1, d1) \<Rightarrow> notifs_ok Q io1 \<and> req_frame io io1 \<and> \<not> io_busy io1
       \<and> (\<forall>q. q \<notin> set Q \<longrightarrow> io_reqs io1 q = io_reqs io q)
       \<and> (\<forall>q. io_purged io \<longrightarrow> pending_in io1 q = pending_in io q) \<and> inv (io_log io1) (io_pool io1) d1"
    obtain io1 d1 where p1: "y = (io1, d1)" by (cases y)
    have 1: "notifs_ok Q io1" "req_frame io io1" "\<not> io_busy io1" "\<forall>q. q \<notin> set Q \<longrightarrow> io_reqs io1 q = io_reqs io q"
      "\<forall>q. io_purged io \<longrightarrow> pending_in io1 q = pending_in io q" "inv (io_log io1) (io_pool io1) d1"
      using y p1 by auto
    have p: "io_purged io1 = io_purged io" using 1(2) by (simp add: req_frame_def)
    have i: "inv (io_log (begin_work io1)) (io_pool (begin_work io1)) d1" using 1(6) by (simp add: begin_work_def)
    have fr: "req_frame (begin_work io1) x \<Longrightarrow> req_frame io x" for x
      using 1(2) req_frame_trans req_frame_refl(2) by blast
    have "unless_fault trouble (faulty_work handle rearm e (begin_work io1, d1)) ?post"
      by (rule unless_fault_mono [OF work_ok [OF notifs_ok_work [OF 1(1)] i]])
        (use 1 p in \<open>auto simp: begin_work_def dest: fr [unfolded begin_work_def]\<close>)
    then show "unless_fault trouble (if io_queued (fst y) then faulty_work handle rearm e (begin_work (fst y), snd y) else Some y) ?post"
      using 1 p1 by simp
  qed
  then show ?thesis by (simp add: faulty_flush_def cong: if_cong)
qed

end

text \<open>
  A handler that only sends synchronous IOCTLs. \<open>keeps\<close> is a relation between the IOCTLs sent and the
  state of the device that the handler maintains. The lemmas are those of the locale above, for the
  invariant that memory is as before and \<open>keeps\<close> holds if it did.
\<close>

locale notification_handler =
  fixes handle :: "('q, 'c, 'b, 'd) notif_handler"
    and keeps :: "('c \<times> NTSTATUS) list \<Rightarrow> 'd \<Rightarrow> bool"
  assumes handle_io: "handle c b (io, d) = (resend, b', io', d') \<Longrightarrow> \<exists>l. io' = io \<lparr> io_log := l \<rparr>"
    and handle_keeps: "handle c b (io, d) = (resend, b', io', d') \<Longrightarrow> keeps (io_log io) d \<Longrightarrow> keeps (io_log io') d'"
begin

lemma no_faults: "faulty_notification_handler (without_faults handle) (\<lambda>l p d. p = P \<and> (K \<longrightarrow> keeps l d)) False"
proof
  fix io :: "('q, 'c, 'b) sideband_io" and d c b
  assume i: "io_pool io = P \<and> (K \<longrightarrow> keeps (io_log io) d)"
  obtain resend b' io' d' where h: "handle c b (io, d) = (resend, b', io', d')" by (cases "handle c b (io, d)")
  obtain l where "io' = io \<lparr> io_log := l \<rparr>" using handle_io [OF h] by blast
  moreover from this have "io' = io \<lparr> io_log := l, io_pool := io_pool io \<rparr>" by simp
  ultimately show "unless_fault False (Some (handle c b (io, d)))
      (\<lambda>(resend, b', io', d'). \<exists>l p. io' = io \<lparr> io_log := l, io_pool := p \<rparr> \<and> p = P \<and> (K \<longrightarrow> keeps l d'))"
    using h i handle_keeps [OF h] by (auto intro!: exI [of _ l])
qed

lemma round_ok:
  assumes ok: "notifs_ok Q io"
  shows "\<exists>io' d'. notif_round handle rearm e (io, d) = Some (io', d') \<and> notifs_ok Q io' \<and> io_frame io io'
     \<and> io_queued io' = io_queued io \<and> io_collection io' = tl (io_collection io)
     \<and> (io_busy io' \<longrightarrow> io_busy io \<and> io_collection io \<noteq> [])
     \<and> (\<forall>q. q \<notin> set Q \<longrightarrow> io_reqs io' q = io_reqs io q)
     \<and> (\<forall>q. io_purged io \<longrightarrow> pending_in io' q = pending_in io q)
     \<and> (keeps (io_log io) d \<longrightarrow> keeps (io_log io') d')"
  using faulty_notification_handler.round_ok [OF no_faults [of "io_pool io" "keeps (io_log io) d"] ok, where d = d and rearm = rearm and e = e]
  by (auto simp: round_faults_total io_frame_req unless_fault_def split: option.splits)

lemma work_ok:
  "notifs_ok Q io \<Longrightarrow> \<exists>io' d'. notif_work handle rearm e (io, d) = Some (io', d') \<and> notifs_ok Q io' \<and> io_frame io io'
     \<and> io_queued io' = io_queued io \<and> \<not> io_busy io'
     \<and> (\<forall>q. q \<notin> set Q \<longrightarrow> io_reqs io' q = io_reqs io q)
     \<and> (\<forall>q. io_purged io \<longrightarrow> pending_in io' q = pending_in io q)
     \<and> (keeps (io_log io) d \<longrightarrow> keeps (io_log io') d')"
  using faulty_notification_handler.work_ok [OF no_faults [of "io_pool io" "keeps (io_log io) d"], of Q io d rearm e]
  by (auto simp: work_faults_total io_frame_req unless_fault_def split: option.splits)

lemma flush_ok:
  assumes "notifs_ok Q io"
  shows "\<exists>io' d'. notif_flush handle rearm e (io, d) = Some (io', d') \<and> notifs_ok Q io' \<and> io_frame io io'
     \<and> \<not> io_queued io' \<and> \<not> io_busy io'
     \<and> (\<forall>q. q \<notin> set Q \<longrightarrow> io_reqs io' q = io_reqs io q)
     \<and> (\<forall>q. io_purged io \<longrightarrow> pending_in io' q = pending_in io q)
     \<and> (keeps (io_log io) d \<longrightarrow> keeps (io_log io') d')"
  using faulty_notification_handler.flush_ok [OF no_faults [of "io_pool io" "keeps (io_log io) d"] assms, where d = d and rearm = rearm and e = e]
  by (auto simp: flush_faults_total io_frame_req unless_fault_def split: option.splits)

end

lemma cancel_all_ok:
  assumes "notifs_ok Q io" and "set qs \<subseteq> set Q"
  shows "\<exists>io'. cancel_all qs io = Some io' \<and> notifs_ok Q io' \<and> io_frame io io' \<and> io_collection io' = io_collection io
     \<and> io_queued io' = io_queued io \<and> io_busy io' = io_busy io \<and> (\<forall>q \<in> set qs. \<not> pending_in io' q)
     \<and> (\<forall>q. q \<notin> set qs \<longrightarrow> io_reqs io' q = io_reqs io q) \<and> (\<forall>q. \<not> pending_in io q \<longrightarrow> \<not> pending_in io' q)
     \<and> io_log io' = io_log io"
  using assms
proof (induction qs arbitrary: io)
  case (Cons q qs)
  obtain io1 where 1: "(case io_reqs io q of
              None \<Rightarrow> Some io
            | Some r \<Rightarrow> if Pending r then NotificationStatusCompletion STATUS_SUCCESS STATUS_CANCELLED (Buffer r) q io
                        else Some io) = Some io1" "notifs_ok Q io1" "io_frame io io1"
        "io_collection io1 = io_collection io" "io_queued io1 = io_queued io" "io_busy io1 = io_busy io"
        "\<not> pending_in io1 q" "\<forall>p. p \<noteq> q \<longrightarrow> io_reqs io1 p = io_reqs io p" "io_log io1 = io_log io"
  proof (cases "pending_in io q")
    case True
    then obtain r where r: "io_reqs io q = Some r" "Pending r" by (auto simp: pending_in_def split: option.splits)
    then show ?thesis
      using that Completion_ok [OF Cons.prems(1) _ r, of STATUS_SUCCESS STATUS_CANCELLED "Buffer r"] Cons.prems(2) by auto
  next
    case False
    then show ?thesis using that [of io] Cons.prems(1) by (auto simp: pending_in_def split: option.splits)
  qed
  from Cons.IH [OF 1(2)] Cons.prems(2) obtain io2 where 2: "cancel_all qs io1 = Some io2" "notifs_ok Q io2" "io_frame io1 io2"
        "io_collection io2 = io_collection io1" "io_queued io2 = io_queued io1" "io_busy io2 = io_busy io1"
        "\<forall>p \<in> set qs. \<not> pending_in io2 p" "\<forall>p. p \<notin> set qs \<longrightarrow> io_reqs io2 p = io_reqs io1 p"
        "\<forall>p. \<not> pending_in io1 p \<longrightarrow> \<not> pending_in io2 p" "io_log io2 = io_log io1" by auto
  have "\<not> pending_in io p \<Longrightarrow> \<not> pending_in io1 p" for p
    using 1(7,8) by (cases "p = q") (auto simp: pending_in_def)
  then show ?case using 1 2 io_frame_trans by auto
qed simp

section \<open>What the operations change\<close>

lemma ioctl_done_simps [simp]: "NT_SUCCESS (ioctl_done st) = NT_SUCCESS st" "\<not> NT_SUCCESS st \<Longrightarrow> ioctl_done st = st"
  by (simp_all add: ioctl_done_def)

lemma Send_sync: "\<exists>st v. SendIoCtrlSynchronously remote code io = (st, v, io \<lparr> io_log := io_log io @ [(code, st)] \<rparr>)
    \<and> remote (io_log io) code = (st, v)"
  by (cases "remote (io_log io) code") (simp add: SendIoCtrlSynchronously_def)

lemma enable_ok:
  assumes ok: "notifs_ok Q io" and q: "q \<in> set Q" and r: "io_reqs io q = Some r" "\<not> Pending r"
    "q \<notin> set (io_collection io)" "Errors r \<le> NOTIFICATION_MAX_ERROR_COUNT"
  shows "\<exists>st io'. enable_notification e q code b io = Some (st, io') \<and> notifs_ok Q io' \<and> io_frame io io'
     \<and> (\<forall>p. p \<noteq> q \<longrightarrow> io_reqs io' p = io_reqs io p) \<and> io_log io' = io_log io \<and> io_collection io' = io_collection io
     \<and> io_queued io' = io_queued io \<and> io_busy io' = io_busy io \<and> (NT_SUCCESS st \<longrightarrow> pending_in io' q)"
proof -
  have d: "distinct (io_collection io)" using ok by (simp add: notifs_ok_def)
  have c: "p \<in> set (io_collection io) \<Longrightarrow> p \<in> set Q \<and> (\<exists>r. io_reqs io p = Some r \<and> \<not> Pending r)" for p
    using ok by (simp add: notifs_ok_def)
  have s: "p \<in> set Q \<Longrightarrow> io_reqs io p = Some x \<Longrightarrow> Errors x \<le> Suc NOTIFICATION_MAX_ERROR_COUNT
      \<and> (Pending x \<or> p \<in> set (io_collection io) \<longrightarrow> Errors x \<le> NOTIFICATION_MAX_ERROR_COUNT)" for p x
    using ok by (simp add: notifs_ok_def)
  show ?thesis using r d c s q
    by (auto simp: enable_notification_def SendIoCtrlAsynchronously_def notifs_ok_def io_frame_def pending_in_def)
qed

text \<open>The blocks a block pointer stands for.\<close>

definition block_of :: "(pool_tag \<times> 'v) option \<Rightarrow> pool_tag multiset" where
  "block_of p = (case p of None \<Rightarrow> {#} | Some (t, v) \<Rightarrow> {#t#})"

lemma block_of_simps [simp]: "block_of None = {#}" "block_of (Some (t, v)) = {#t#}"
  by (simp_all add: block_of_def)

lemma query_block_memory:
  "\<exists>st p l. query_block remote e tag info code io = Some (st, p, io \<lparr> io_log := l, io_pool := block_of p + io_pool io \<rparr>)
     \<and> (NT_SUCCESS st \<longleftrightarrow> p \<noteq> None) \<and> (\<forall>t v. p = Some (t, v) \<longrightarrow> t = tag)
     \<and> (\<exists>m. l = io_log io @ m \<and> set (map fst m) \<subseteq> range code)"
proof (cases "NT_SUCCESS (qe_create e)")
  case True
  obtain st v where 1: "remote (io_log io) (code 0) = (st, v)" by fastforce
  obtain st2 v2 where 2: "remote (io_log io @ [(code 0, st)]) (code (info v)) = (st2, v2)" by fastforce
  show ?thesis using True 1 2
    by (cases io) (auto simp: query_block_def SendIoCtrlSynchronously_def Let_def wdf_create_def wdf_delete_def pool_alloc_def
        pool_free_def)
next
  case False
  then show ?thesis by (cases io) (simp add: query_block_def)
qed

lemma fetch_block_memory:
  assumes "tag = freetag"
  shows "\<exists>st p l. fetch_block remote alloc tag freetag code io = Some (st, p, io \<lparr> io_log := l, io_pool := block_of p + io_pool io \<rparr>)
     \<and> (NT_SUCCESS st \<longleftrightarrow> p \<noteq> None) \<and> (\<forall>t v. p = Some (t, v) \<longrightarrow> t = tag)
     \<and> (\<exists>m. l = io_log io @ m \<and> set (map fst m) \<subseteq> {code})"
proof -
  obtain st v where "remote (io_log io) code = (st, v)" by fastforce
  then show ?thesis using assms
    by (cases io) (auto simp: fetch_block_def SendIoCtrlSynchronously_def Let_def pool_alloc_def pool_free_def)
qed

text \<open>What a block contains, and reading it.\<close>

lemma query_block_value:
  "query_block remote e tag info code io = Some (st, Some (t, v), io') \<Longrightarrow> \<exists>l n st'. remote l (code n) = (st', v) \<and> NT_SUCCESS st'"
  by (auto simp: query_block_def SendIoCtrlSynchronously_def Let_def split: if_splits prod.splits bind_splits)

lemma read_block_Some: "read_block whole p = Some v \<longleftrightarrow> (\<exists>t. p = Some (t, v)) \<and> whole v"
  by (auto simp: read_block_def split: option.splits if_splits)

lemma read_block_simps [simp]: "read_block whole None = None" "read_block whole (Some (t, v)) = (if whole v then Some v else None)"
  by (simp_all add: read_block_def)

text \<open>The objects of a request, from its memory objects.\<close>

definition req_objs :: "(bool \<times> bool) option \<Rightarrow> wdf_object multiset" where
  "req_objs x = (case x of None \<Rightarrow> {#} | Some (i, out) \<Rightarrow>
     {#WdfRequest#} + (if i then {#WdfMemory#} else {#}) + (if out then {#WdfMemory#} else {#}))"

abbreviation req_mems :: "('q, 'c, 'b) sideband_io \<Rightarrow> 'q \<Rightarrow> (bool \<times> bool) option" where
  "req_mems io q \<equiv> map_option (\<lambda>r. (MemIn r, MemOut r)) (io_reqs io q)"

lemma req_objs_None [simp]: "req_objs None = {#}"
  by (simp add: req_objs_def)

lemma io_frame_mems: "io_frame io io' \<Longrightarrow> req_mems io' q = req_mems io q"
  by (simp add: io_frame_def)

text \<open>Operations on a request that is not among the notifications \<open>Q\<close>.\<close>

lemma notifs_ok_other:
  assumes ok: "notifs_ok Q io" and q: "q \<notin> set Q"
  shows "notifs_ok Q (io \<lparr> io_reqs := (io_reqs io)(q := x) \<rparr>)"
proof -
  have "p \<noteq> q" if "p \<in> set Q" for p using q that by blast
  moreover have "p \<in> set Q" if "p \<in> set (io_collection io)" for p using ok that by (simp add: notifs_ok_def)
  ultimately show ?thesis using ok by (simp add: notifs_ok_def)
qed

lemma notifs_ok_frame [simp]:
  "notifs_ok Q (io \<lparr> io_log := l \<rparr>) = notifs_ok Q io" "notifs_ok Q (io \<lparr> io_pool := p \<rparr>) = notifs_ok Q io"
  "notifs_ok Q (io \<lparr> io_objects := x \<rparr>) = notifs_ok Q io" "notifs_ok Q (io \<lparr> io_purged := b \<rparr>) = notifs_ok Q io"
  "notifs_ok Q (io \<lparr> io_queued := b \<rparr>) = notifs_ok Q io" "notifs_ok Q (io \<lparr> io_busy := b \<rparr>) = notifs_ok Q io"
  by (simp_all add: notifs_ok_def)

lemma enable_other:
  assumes r: "io_reqs io q = Some r" "\<not> Pending r"
  shows "\<exists>st r'. enable_notification e q code b io = Some (st, io \<lparr> io_reqs := (io_reqs io)(q \<mapsto> r') \<rparr>)
     \<and> MemIn r' = MemIn r \<and> MemOut r' = MemOut r \<and> Pending r' = NT_SUCCESS st"
  using r by (auto simp: enable_notification_def SendIoCtrlAsynchronously_def)

text \<open>Creation and deletion keep the account of objects.\<close>

lemma create_request_objs:
  assumes "io_reqs io q = None"
  shows "\<exists>st io'. create_request e q c b io = (st, io') \<and> io_pool io' = io_pool io
     \<and> io_objects io' = req_objs (req_mems io' q) + io_objects io \<and> (\<forall>p. p \<noteq> q \<longrightarrow> io_reqs io' p = io_reqs io p)
     \<and> io_collection io' = io_collection io \<and> io_log io' = io_log io \<and> io_purged io' = io_purged io
     \<and> io_queued io' = io_queued io \<and> io_busy io' = io_busy io
     \<and> (\<forall>r. io_reqs io' q = Some r \<longrightarrow> Errors r = 0 \<and> \<not> Pending r)
     \<and> (NT_SUCCESS st \<longrightarrow> req_mems io' q = Some (True, True))"
  using assms by (auto simp: create_request_def Let_def wdf_create_def new_notif_def req_objs_def)

lemma delete_request_objs:
  assumes "\<not> pending_in io q" and "io_objects io = req_objs (req_mems io q) + M"
  shows "\<exists>io'. delete_request q io = Some io' \<and> io' = io \<lparr> io_objects := M, io_reqs := (io_reqs io)(q := None) \<rparr>"
proof (cases "io_reqs io q")
  case None
  then have "io_reqs io = (io_reqs io)(q := None)" by auto
  with None assms show ?thesis by (simp add: delete_request_def)
next
  case (Some r)
  with assms show ?thesis
    by (auto simp: delete_request_def pending_in_def req_objs_def wdf_delete_if_def wdf_delete_def)
qed

text \<open>Init from an I/O state with nothing in it.\<close>

definition io_fresh :: "('q, 'c, 'b) sideband_io \<Rightarrow> bool" where
  "io_fresh io \<longleftrightarrow> io_collection io = [] \<and> \<not> io_queued io \<and> \<not> io_busy io \<and> io_log io = []"

lemma delete_requests_ok:
  assumes "\<forall>q. \<not> pending_in io q" and "distinct qs"
    and "io_objects io = sum_list (map (\<lambda>q. req_objs (req_mems io q)) qs) + M"
  shows "\<exists>f. delete_requests qs io = Some (io \<lparr> io_objects := M, io_reqs := f \<rparr>) \<and> (\<forall>q. q \<notin> set qs \<longrightarrow> f q = io_reqs io q)"
  using assms
proof (induction qs arbitrary: io)
  case Nil
  then have "io = io \<lparr> io_objects := M, io_reqs := io_reqs io \<rparr>" by (cases io) simp
  then show ?case by (metis delete_requests.simps(1))
next
  case (Cons q qs)
  let ?M = "sum_list (map (\<lambda>q. req_objs (req_mems io q)) qs) + M"
  have q: "\<not> pending_in io q" "io_objects io = req_objs (req_mems io q) + ?M" using Cons.prems by (simp_all add: ac_simps)
  let ?io1 = "io \<lparr> io_objects := ?M, io_reqs := (io_reqs io)(q := None) \<rparr>"
  have 1: "delete_request q io = Some ?io1" using delete_request_objs [OF q] by blast
  have 3: "map (\<lambda>p. req_objs (req_mems ?io1 p)) qs = map (\<lambda>p. req_objs (req_mems io p)) qs"
    using Cons.prems(2) by (intro map_cong) auto
  have "io_objects ?io1 = sum_list (map (\<lambda>p. req_objs (req_mems ?io1 p)) qs) + M" unfolding 3 by simp
  moreover have "\<forall>p. \<not> pending_in ?io1 p" using Cons.prems(1) by (simp add: pending_in_def)
  ultimately obtain f where f: "delete_requests qs ?io1 = Some (?io1 \<lparr> io_objects := M, io_reqs := f \<rparr>)"
      "\<forall>p. p \<notin> set qs \<longrightarrow> f p = io_reqs ?io1 p"
    using Cons.IH [of ?io1] Cons.prems(2) by auto
  then have "delete_requests (q # qs) io = Some (io \<lparr> io_objects := M, io_reqs := f \<rparr>)" using 1 by simp
  then show ?case using f(2) by auto
qed

lemma delete_if_eq: "io_objects io = (if b then {#x#} else {#}) + M \<Longrightarrow> wdf_delete_if b x io = Some (io \<lparr> io_objects := M \<rparr>)"
  by (cases b) (simp_all add: wdf_delete_if_def wdf_delete_def)

text \<open>A block with its tag, and freeing it with that tag.\<close>

definition tagged :: "pool_tag \<Rightarrow> (pool_tag \<times> 'v) option \<Rightarrow> bool" where
  "tagged t p \<longleftrightarrow> (\<forall>u v. p = Some (u, v) \<longrightarrow> u = t)"

lemma tagged_simps [simp]: "tagged t None" "tagged t (Some (u, v)) = (u = t)"
  by (simp_all add: tagged_def)

lemma free_tagged_eq: "io_pool io = block_of p + M \<Longrightarrow> tagged t p \<Longrightarrow>
    pool_free_opt (map_option fst p) t io = Some (io \<lparr> io_pool := M \<rparr>)"
  by (cases p) (auto simp: pool_free_opt_def pool_free_def tagged_def)

lemma free_wrong_tag: "tagged u p \<Longrightarrow> u \<noteq> t \<Longrightarrow> p \<noteq> None \<Longrightarrow> pool_free_opt (map_option fst p) t io = None"
  by (cases p) (auto simp: pool_free_opt_def pool_free_def tagged_def)

end
