(* ===== verification/EndpointPair.thy ===== *)
theory EndpointPair
  imports SidebandIo
begin

text \<open>
  The private copy of an endpoint's miniport pair that a sideband device makes for itself:
  CreateCustomEndpointMinipair, UpdateCustomEndpointCategory and DeleteCustomEndpointMinipair of
  BthHfpDevice (UsbHsDevice has the same text), and CAdapterCommon::NotifyEndpointPair.

  A copy has four blocks of pool memory: the pair, its topology properties, the filter descriptor
  and the pins. A pointer is \<open>None\<close> when it is NULL. The descriptor's pins are reduced to their
  categories, the only field the code looks at.
\<close>

section \<open>Data\<close>

type_synonym GUID = "128 word"

definition KSCATEGORY_AUDIO :: GUID where [const_defs]: "KSCATEGORY_AUDIO = 0x6994AD0493EF11D0A3CC00A0C9223196"

datatype devpropkey = DEVPKEY_DeviceInterface_FriendlyName | OtherPropertyKey GUID nat
datatype devproptype = DEVPROP_TYPE_STRING_INDIRECT | OtherPropertyType nat

record SYSVAD_DEVPROPERTY =
  PropertyKey :: devpropkey
  PropertyType :: devproptype
  PropertyBufferSize :: nat
  PropertyBuffer :: string

text \<open>
  What the devices need of a pair besides what the installation of the filters uses;
  \<open>PinDeviceFormatsAndModes\<close> stands for the address of a static table.
\<close>

record endpoint_pair = ENDPOINT_MINIPAIR +
  TopoInterfaceProperties :: "SYSVAD_DEVPROPERTY list"
  TopoPinCategories :: "GUID list"
  PinDeviceFormatsAndModes :: nat

record custom_pair =
  cp_pair :: endpoint_pair
  cp_block :: pool_tag
  cp_properties :: "pool_tag option"
  cp_descriptor :: "pool_tag option"
  cp_pins :: "pool_tag option"

text \<open>Which of the four allocations succeed.\<close>

record pair_env =
  pe_properties :: bool
  pe_pair :: bool
  pe_descriptor :: bool
  pe_pins :: bool

section \<open>Operations\<close>

text \<open>
  The loop over the pins: \<open>foundAudio\<close> and \<open>foundNode\<close> are FoundCategoryAudio and FoundNodeType,
  \<open>st\<close> is the status so far.
\<close>

fun update_category :: "GUID \<Rightarrow> bool \<Rightarrow> bool \<Rightarrow> NTSTATUS \<Rightarrow> GUID list \<Rightarrow> NTSTATUS \<times> GUID list" where
  "update_category cat foundAudio foundNode st [] = (st, [])"
| "update_category cat foundAudio foundNode st (p # ps) =
     (if p = KSCATEGORY_AUDIO then
        if foundAudio then (STATUS_INVALID_DEVICE_STATE, p # ps)
        else map_prod id ((#) p) (update_category cat True foundNode st ps)
      else if foundNode then (STATUS_INVALID_DEVICE_STATE, p # ps)
      else map_prod id ((#) cat) (update_category cat foundAudio True STATUS_SUCCESS ps))"

definition UpdateCustomEndpointCategory :: "GUID \<Rightarrow> GUID list \<Rightarrow> NTSTATUS \<times> GUID list" where
  "UpdateCustomEndpointCategory cat pins = update_category cat False False STATUS_NOT_FOUND pins"

definition alloc_if :: "bool \<Rightarrow> pool_tag \<Rightarrow> ('q, 'c, 'b) sideband_io \<Rightarrow> pool_tag option \<times> ('q, 'c, 'b) sideband_io" where
  "alloc_if ok tag io = (if ok then map_prod Some id (pool_alloc tag io) else (None, io))"

definition friendly_name_property :: "string \<Rightarrow> SYSVAD_DEVPROPERTY" where
  "friendly_name_property nm = \<lparr> PropertyKey = DEVPKEY_DeviceInterface_FriendlyName,
     PropertyType = DEVPROP_TYPE_STRING_INDIRECT, PropertyBufferSize = 2 * length nm + 2, PropertyBuffer = nm \<rparr>"

text \<open>The copy before its category is changed.\<close>

definition copy_pair :: "endpoint_pair \<Rightarrow> string \<Rightarrow> endpoint_pair" where
  "copy_pair base nm = base \<lparr> TopoInterfaceProperties := TopoInterfaceProperties base @ [friendly_name_property nm] \<rparr>"

definition CreateCustomEndpointMinipair :: "pair_env \<Rightarrow> endpoint_pair \<Rightarrow> string \<Rightarrow> GUID \<Rightarrow>
    ('q, 'c, 'b) sideband_io \<Rightarrow> (NTSTATUS \<times> custom_pair option \<times> ('q, 'c, 'b) sideband_io) option" where
  "CreateCustomEndpointMinipair e base nm cat io =
     (let (props, io1) = alloc_if (pe_properties e) SYSVAD_POOLTAG io;
          (pair, io2) = alloc_if (pe_pair e) SYSVAD_POOLTAG io1;
          (desc, io3) = alloc_if (pe_descriptor e) SYSVAD_POOLTAG io2;
          (pins, io4) = alloc_if (pe_pins e) SYSVAD_POOLTAG io3;
          (st, result) = (case pair of
             None \<Rightarrow> (STATUS_INSUFFICIENT_RESOURCES, None)
           | Some block \<Rightarrow>
               if props = None \<or> desc = None \<or> pins = None then (STATUS_INSUFFICIENT_RESOURCES, None)
               else (case UpdateCustomEndpointCategory cat (TopoPinCategories base) of
                       (st, cats) \<Rightarrow>
                         (st, if NT_SUCCESS st then
                                Some \<lparr> cp_pair = (copy_pair base nm) \<lparr> TopoPinCategories := cats \<rparr>, cp_block = block,
                                       cp_properties = props, cp_descriptor = desc, cp_pins = pins \<rparr>
                              else None)))
      in if result \<noteq> None then Some (STATUS_SUCCESS, result, io4)
         else do {
           io5 \<leftarrow> pool_free_opt props SYSVAD_POOLTAG io4;
           io6 \<leftarrow> pool_free_opt pair SYSVAD_POOLTAG io5;
           io7 \<leftarrow> pool_free_opt desc SYSVAD_POOLTAG io6;
           io8 \<leftarrow> pool_free_opt pins SYSVAD_POOLTAG io7;
           Some (st, None, io8) })"

definition DeleteCustomEndpointMinipair :: "custom_pair option \<Rightarrow> ('q, 'c, 'b) sideband_io \<Rightarrow>
    ('q, 'c, 'b) sideband_io option" where
  "DeleteCustomEndpointMinipair p io = (case p of
     None \<Rightarrow> Some io
   | Some c \<Rightarrow> do {
       io1 \<leftarrow> pool_free_opt (cp_properties c) SYSVAD_POOLTAG io;
       io2 \<leftarrow> (case cp_descriptor c of
                 None \<Rightarrow> Some io1
               | Some d \<Rightarrow> do {
                   x \<leftarrow> pool_free_opt (cp_pins c) SYSVAD_POOLTAG io1;
                   pool_free d SYSVAD_POOLTAG x });
       pool_free (cp_block c) SYSVAD_POOLTAG io2 })"

text \<open>The miniports with an IMiniportChange interface are told, in the order of the cache.\<close>

definition NotifyEndpointPair :: "adapter_world \<Rightarrow> NTSTATUS \<times> obj list" where
  "NotifyEndpointPair w =
     (STATUS_SUCCESS, map MiniportInterface (filter MiniportChange (m_SubdeviceCache w)))"

section \<open>Memory\<close>

text \<open>The blocks a copy has.\<close>

definition opt_block :: "pool_tag option \<Rightarrow> pool_tag multiset" where
  "opt_block p = (case p of None \<Rightarrow> {#} | Some t \<Rightarrow> {#t#})"

definition pair_blocks :: "custom_pair option \<Rightarrow> pool_tag multiset" where
  "pair_blocks p = (case p of None \<Rightarrow> {#} | Some c \<Rightarrow>
     {#cp_block c#} + opt_block (cp_properties c) + opt_block (cp_descriptor c) + opt_block (cp_pins c))"

text \<open>A copy as the creation leaves it.\<close>

definition pair_ok :: "custom_pair option \<Rightarrow> bool" where
  "pair_ok p \<longleftrightarrow> (\<forall>c. p = Some c \<longrightarrow> cp_block c = SYSVAD_POOLTAG \<and> cp_properties c = Some SYSVAD_POOLTAG
     \<and> cp_descriptor c = Some SYSVAD_POOLTAG \<and> cp_pins c = Some SYSVAD_POOLTAG)"

lemma opt_block_simps [simp]: "opt_block None = {#}" "opt_block (Some t) = {#t#}"
  by (simp_all add: opt_block_def)

lemma pair_blocks_None [simp]: "pair_blocks None = {#}" "pair_ok None"
  by (simp_all add: pair_blocks_def pair_ok_def)

lemma pool_free_eq: "io_pool io = add_mset t M \<Longrightarrow> pool_free t t io = Some (io \<lparr> io_pool := M \<rparr>)"
  by (simp add: pool_free_def)

lemma pool_free_opt_eq:
  "io_pool io = opt_block p + M \<Longrightarrow> p = None \<or> p = Some t \<Longrightarrow> pool_free_opt p t io = Some (io \<lparr> io_pool := M \<rparr>)"
  by (cases p) (simp_all add: pool_free_opt_def pool_free_eq)

lemma wdf_delete_eq: "io_objects io = add_mset x M \<Longrightarrow> wdf_delete x io = Some (io \<lparr> io_objects := M \<rparr>)"
  by (simp add: wdf_delete_def)

lemma pool_free_other: "p \<noteq> t \<Longrightarrow> pool_free p t io = None"
  by (simp add: pool_free_def)

lemma alloc_if_eq: "alloc_if ok t io = (if ok then Some t else None,
    io \<lparr> io_pool := opt_block (if ok then Some t else None) + io_pool io \<rparr>)"
  by (simp add: alloc_if_def pool_alloc_def)

lemma Create_memory:
  "\<exists>st p. CreateCustomEndpointMinipair e base nm cat io = Some (st, p, io \<lparr> io_pool := pair_blocks p + io_pool io \<rparr>)
     \<and> pair_ok p \<and> (NT_SUCCESS st \<longleftrightarrow> p \<noteq> None)"
proof (cases "pe_properties e \<and> pe_pair e \<and> pe_descriptor e \<and> pe_pins e")
  case True
  then show ?thesis
    by (cases "UpdateCustomEndpointCategory cat (TopoPinCategories base)")
      (auto simp: CreateCustomEndpointMinipair_def Let_def alloc_if_eq pool_free_opt_def pool_free_def
        pair_blocks_def pair_ok_def)
next
  case False
  then have "CreateCustomEndpointMinipair e base nm cat io = Some (STATUS_INSUFFICIENT_RESOURCES, None, io)"
    by (cases "pe_properties e"; cases "pe_pair e"; cases "pe_descriptor e"; cases "pe_pins e")
      (simp_all add: CreateCustomEndpointMinipair_def Let_def alloc_if_eq pool_free_opt_def pool_free_def)
  then show ?thesis by simp
qed

lemma Delete_memory:
  "io_pool io = pair_blocks p + M \<Longrightarrow> pair_ok p \<Longrightarrow>
     DeleteCustomEndpointMinipair p io = Some (io \<lparr> io_pool := M \<rparr>)"
  by (cases p) (auto simp: DeleteCustomEndpointMinipair_def pair_blocks_def pair_ok_def pool_free_opt_def pool_free_def)

section \<open>The category of a copy\<close>

text \<open>
  The function succeeds exactly when there is one pin that is not of category KSCATEGORY_AUDIO and
  at most one that is; then that pin has the new category and nothing else changes.
\<close>

abbreviation audio_pins :: "GUID list \<Rightarrow> nat" where "audio_pins ps \<equiv> length (filter (\<lambda>p. p = KSCATEGORY_AUDIO) ps)"
abbreviation node_pins :: "GUID list \<Rightarrow> nat" where "node_pins ps \<equiv> length (filter (\<lambda>p. p \<noteq> KSCATEGORY_AUDIO) ps)"

lemma update_category_fail:
  "\<not> (audio_pins ps + (if a then 1 else 0) \<le> 1 \<and> node_pins ps + (if n then 1 else 0) \<le> 1) \<Longrightarrow>
     fst (update_category cat a n st ps) = STATUS_INVALID_DEVICE_STATE"
  by (induction cat a n st ps rule: update_category.induct) (auto split: if_splits)

lemma update_category_ok:
  "audio_pins ps + (if a then 1 else 0) \<le> 1 \<Longrightarrow> node_pins ps + (if n then 1 else 0) \<le> 1 \<Longrightarrow>
     update_category cat a n st ps = (if node_pins ps = 0 then st else STATUS_SUCCESS,
       map (\<lambda>p. if p = KSCATEGORY_AUDIO then p else cat) ps)"
  by (induction cat a n st ps rule: update_category.induct) (auto split: if_splits)

lemma UpdateCustomEndpointCategory_spec:
  "(case UpdateCustomEndpointCategory cat ps of (st, qs) \<Rightarrow>
      NT_SUCCESS st = (node_pins ps = 1 \<and> audio_pins ps \<le> 1)
      \<and> (NT_SUCCESS st \<longrightarrow> qs = map (\<lambda>p. if p = KSCATEGORY_AUDIO then p else cat) ps))"
proof (cases "audio_pins ps \<le> 1 \<and> node_pins ps \<le> 1")
  case True
  then show ?thesis
    by (cases "node_pins ps = 0") (auto simp: UpdateCustomEndpointCategory_def update_category_ok le_Suc_eq)
next
  case False
  then have "fst (UpdateCustomEndpointCategory cat ps) = STATUS_INVALID_DEVICE_STATE"
    unfolding UpdateCustomEndpointCategory_def by (intro update_category_fail) auto
  then have "\<not> NT_SUCCESS (fst (UpdateCustomEndpointCategory cat ps))" by simp
  with False show ?thesis by (auto split: prod.splits)
qed

section \<open>Names of the filters\<close>

text \<open>\<open>%lu\<close>, and \<open>%s-%lu\<close> cut to a buffer of \<open>n\<close> characters with the terminating zero.\<close>

definition digit :: "nat \<Rightarrow> char" where "digit n = char_of (48 + n)"

fun decimal :: "nat \<Rightarrow> string" where
  "decimal n = (if n < 10 then [digit n] else decimal (n div 10) @ [digit (n mod 10)])"

declare decimal.simps [simp del]

definition filter_name :: "nat \<Rightarrow> string \<Rightarrow> nat \<Rightarrow> string" where
  "filter_name n base h = take (n - 1) (base @ ''-'' @ decimal h)"

section \<open>Filters of a pair\<close>

definition want_filters :: "bool filter_outs" where
  "want_filters = \<lparr> out_topo = True, out_wave = True, out_mini_topo = False, out_mini_wave = False \<rparr>"

text \<open>Removing the filters of one side; the pair is dereferenced only when there is a filter.\<close>

definition remove_pair_filters :: "filters_env \<Rightarrow> custom_pair option \<Rightarrow> obj option \<Rightarrow> obj option \<Rightarrow>
    adapter_world \<Rightarrow> adapter_world option" where
  "remove_pair_filters e p topo wave w =
     (if topo \<noteq> None \<or> wave \<noteq> None then do {
        c \<leftarrow> p;
        (_, w1) \<leftarrow> RemoveEndpointFilters e (ENDPOINT_MINIPAIR.truncate (cp_pair c)) topo wave w;
        Some w1 }
      else Some w)"

text \<open>Only the pointers asked for are handed out.\<close>

lemma want_none: "hand_out False p w = (o', w') \<Longrightarrow> o' = None"
  by (auto simp: hand_out_def split: option.splits)

lemma Install_outs:
  assumes "InstallEndpointFilters e pair want_filters w = Some (st, outs, w')"
  shows "out_mini_topo outs = None \<and> out_mini_wave outs = None"
  using assms by (auto simp: InstallEndpointFilters_def want_filters_def Let_def dest: want_none
      split: bind_splits if_splits prod.splits)

definition filters_ok :: "filters_env \<Rightarrow> bool" where
  "filters_ok e \<longleftrightarrow> unknown_ok (fe_topo e) \<and> unknown_ok (fe_wave e)"

lemma Install_refs:
  assumes "acct w E" and "filters_ok e"
  shows "\<exists>st outs w'. InstallEndpointFilters e pair want_filters w = Some (st, outs, w')
    \<and> acct w' (opt_ref (out_topo outs) + opt_ref (out_wave outs) + E)"
proof -
  obtain st outs w' where i: "InstallEndpointFilters e pair want_filters w = Some (st, outs, w')" "acct w' (outs_refs outs + E)"
    using InstallEndpointFilters_acct [OF assms(1)] assms(2) unfolding filters_ok_def by blast
  from Install_outs [OF i(1)] i show ?thesis by (simp add: outs_refs_def)
qed

lemma remove_filters_ok:
  assumes "acct w E" and "topo \<noteq> None \<or> wave \<noteq> None \<longrightarrow> p \<noteq> None"
  shows "\<exists>w'. remove_pair_filters e p topo wave w = Some w' \<and> acct w' E"
proof (cases "topo \<noteq> None \<or> wave \<noteq> None")
  case True
  then obtain c where "p = Some c" using assms(2) by blast
  then show ?thesis using True RemoveEndpointFilters_acct [OF assms(1), of e "ENDPOINT_MINIPAIR.truncate (cp_pair c)" topo wave]
    by (auto simp: remove_pair_filters_def)
qed (use assms in \<open>simp add: remove_pair_filters_def\<close>)

lemma release_four:
  assumes "acct w (opt_ref a + opt_ref b + opt_ref c + opt_ref f + E)"
  shows "\<exists>w1 w2 w3 w4. safe_release a w = Some w1 \<and> safe_release b w1 = Some w2 \<and> safe_release c w2 = Some w3
    \<and> safe_release f w3 = Some w4 \<and> acct w4 E"
proof -
  have 0: "acct w (opt_ref a + (opt_ref b + (opt_ref c + (opt_ref f + E))))" using assms by (simp add: ac_simps)
  obtain w1 where 1: "safe_release a w = Some w1" "acct w1 (opt_ref b + (opt_ref c + (opt_ref f + E)))"
    using acct_safe_release [OF 0] by blast
  obtain w2 where 2: "safe_release b w1 = Some w2" "acct w2 (opt_ref c + (opt_ref f + E))"
    using acct_safe_release [OF 1(2)] by blast
  obtain w3 where 3: "safe_release c w2 = Some w3" "acct w3 (opt_ref f + E)" using acct_safe_release [OF 2(2)] by blast
  obtain w4 where 4: "safe_release f w3 = Some w4" "acct w4 E" using acct_safe_release [OF 3(2)] by blast
  show ?thesis using 1 2 3 4 by blast
qed

end
