(* ===== verification/PnpDriver.thy ===== *)
theory PnpDriver
  imports AdapterCommon EndpointPair
begin

text \<open>
  The driver's entry points (adapter.cpp): DriverEntry and DriverUnload with the registry settings,
  StartDevice, which creates the adapter and installs the filters of all endpoints, and PnpHandler,
  which tears it down. The adapter object is created, used and freed here, so this theory composes the
  theories of the adapter.

  The device extension holds a pointer to the adapter, the only one of this file: \<open>dv_common\<close> tells
  whether it is set. \<open>dv_refs\<close> counts the references on the adapter object. Other holders (port class
  after the registration for power management, miniports) take and drop references as well.
\<close>

section \<open>Driver globals\<close>

text \<open>A wide string in memory: its characters and what follows them. A string that ends nowhere is read beyond its memory.\<close>

record unicode_string =
  us_Length :: USHORT
  us_Buffer :: string

record driver_globals =
  g_RegistryPath :: "string option"
  g_DoNotCreateDataFiles :: ULONG
  g_DisableToneGenerator :: ULONG
  g_DisableBthScoBypass :: ULONG
  g_DisableUsbSideband :: ULONG
  dg_WdfDriver :: bool
  gPCDriverUnloadRoutine :: bool
  dg_PnpHandler :: bool
  dg_DriverUnload :: bool

definition ReleaseRegistryStringBuffer :: "driver_globals \<Rightarrow> driver_globals" where
  "ReleaseRegistryStringBuffer g = (if g_RegistryPath g \<noteq> None then g \<lparr> g_RegistryPath := None \<rparr> else g)"

text \<open>
  RtlAppendUnicodeToString reads its source up to a NUL and copies it when it fits into
  \<open>MaximumLength\<close> bytes; its result is ignored. The length is a USHORT.
\<close>

definition CopyRegistrySettingsPath :: "bool \<Rightarrow> unicode_string \<Rightarrow> driver_globals \<Rightarrow> (NTSTATUS \<times> driver_globals) option" where
  "CopyRegistrySettingsPath alloc path g =
     (let g1 = g \<lparr> g_RegistryPath := None \<rparr>; MaximumLength = us_Length path + 2
      in if \<not> alloc then Some (STATUS_INSUFFICIENT_RESOURCES, g1)
         else if CHR 0x00 \<notin> set (us_Buffer path) then None
         else
           (let text = takeWhile (\<lambda>c. c \<noteq> CHR 0x00) (us_Buffer path)
            in Some (STATUS_SUCCESS, g1 \<lparr> g_RegistryPath := Some (if 2 * length text \<le> unat MaximumLength then text else []) \<rparr>)))"

text \<open>
  RtlQueryRegistryValues over the table: a value that is missing keeps its default, which is the value
  of the variable; a value of another type than REG_DWORD ends the query with a failure.
\<close>

fun query_registry :: "(string \<Rightarrow> ULONG option option) \<Rightarrow> (string \<times> (ULONG \<Rightarrow> driver_globals \<Rightarrow> driver_globals)) list \<Rightarrow>
    driver_globals \<Rightarrow> driver_globals" where
  "query_registry reg [] g = g"
| "query_registry reg ((n, f) # t) g = (case reg n of
     None \<Rightarrow> query_registry reg t g
   | Some None \<Rightarrow> g
   | Some (Some v) \<Rightarrow> query_registry reg t (f v g))"

definition paramTable :: "(string \<times> (ULONG \<Rightarrow> driver_globals \<Rightarrow> driver_globals)) list" where
  "paramTable =
     [(''DoNotCreateDataFiles'', \<lambda>v g. g \<lparr> g_DoNotCreateDataFiles := v \<rparr>),
      (''DisableToneGenerator'', \<lambda>v g. g \<lparr> g_DisableToneGenerator := v \<rparr>),
      (''DisableBthScoBypass'', \<lambda>v g. g \<lparr> g_DisableBthScoBypass := v \<rparr>),
      (''DisableUsbSideband'', \<lambda>v g. g \<lparr> g_DisableUsbSideband := v \<rparr>)]"

definition GetRegistrySettings :: "NTSTATUS \<Rightarrow> (string \<Rightarrow> ULONG option option) \<Rightarrow> driver_globals \<Rightarrow> NTSTATUS \<times> driver_globals" where
  "GetRegistrySettings open_key reg g =
     (if \<not> NT_SUCCESS open_key then (open_key, g) else (STATUS_SUCCESS, query_registry reg paramTable g))"

record entry_env =
  ev_alloc :: bool
  ev_wdf :: NTSTATUS
  ev_open :: NTSTATUS
  ev_registry :: "string \<Rightarrow> ULONG option option"
  ev_pc :: NTSTATUS

definition DriverEntry :: "entry_env \<Rightarrow> unicode_string \<Rightarrow> driver_globals \<Rightarrow> (NTSTATUS \<times> driver_globals) option" where
  "DriverEntry e path g = do {
     (st, g1) \<leftarrow> run_steps
       [CopyRegistrySettingsPath (ev_alloc e) path,
        \<lambda>g. Some (ev_wdf e, if NT_SUCCESS (ev_wdf e) then g \<lparr> dg_WdfDriver := True \<rparr> else g),
        \<lambda>g. Some (GetRegistrySettings (ev_open e) (ev_registry e) g),
        \<lambda>g. Some (ev_pc e, if NT_SUCCESS (ev_pc e)
                           then g \<lparr> dg_PnpHandler := True, gPCDriverUnloadRoutine := True, dg_DriverUnload := True \<rparr> else g)] g;
     Some (if NT_SUCCESS st then (STATUS_SUCCESS, g1)
           else (st, ReleaseRegistryStringBuffer (if dg_WdfDriver g1 then g1 \<lparr> dg_WdfDriver := False \<rparr> else g1))) }"

text \<open>The first result tells whether the port class routine was called.\<close>

definition DriverUnload :: "bool \<Rightarrow> driver_globals \<Rightarrow> bool \<times> driver_globals" where
  "DriverUnload DriverObject g =
     (let g1 = ReleaseRegistryStringBuffer g
      in if \<not> DriverObject then (False, g1)
         else (gPCDriverUnloadRoutine g1, if dg_WdfDriver g1 then g1 \<lparr> dg_WdfDriver := False \<rparr> else g1))"

definition AddDevice :: "nat \<Rightarrow> nat \<Rightarrow> nat \<Rightarrow> NTSTATUS \<Rightarrow> nat \<times> NTSTATUS" where
  "AddDevice g_MaxMiniports g_MaxBthHfpMiniports g_MaxUsbHsMiniports add =
     (ulong (g_MaxMiniports + g_MaxBthHfpMiniports + g_MaxUsbHsMiniports), add)"

section \<open>Filters of an endpoint\<close>

record render_env =
  rv_filters :: filters_env
  rv_etw :: NTSTATUS
  rv_power :: NTSTATUS
  rv_send :: NTSTATUS
  rv_add_callback :: NTSTATUS
  rv_remove_callback :: NTSTATUS
  rv_resources :: NTSTATUS
  rv_resources2 :: NTSTATUS

definition PowerControlCallback :: NTSTATUS where "PowerControlCallback = STATUS_NOT_IMPLEMENTED"

text \<open>A query for an interface that is used and released again.\<close>

definition probe :: "NTSTATUS \<Rightarrow> obj \<Rightarrow> adapter_world \<Rightarrow> adapter_world option" where
  "probe qi v w = (if NT_SUCCESS qi then release v (addref v w) else Some w)"

definition runtime_power :: "render_env \<Rightarrow> NTSTATUS" where
  "runtime_power e =
     (if \<not> NT_SUCCESS (rv_power e) then rv_power e
      else if NT_SUCCESS (rv_send e) \<or> rv_send e = STATUS_NOT_IMPLEMENTED \<or> rv_send e = STATUS_NOT_SUPPORTED
      then (if NT_SUCCESS (rv_add_callback e) then rv_remove_callback e else rv_add_callback e)
      else rv_send e)"

text \<open>
  The queries on the wave port; each overwrites the status. The stream resource that is added and
  removed again while a resource manager is held has no effect on the status and none here.
\<close>

definition render_interfaces :: "render_env \<Rightarrow> obj \<Rightarrow> (CAdapterCommon \<times> adapter_world) step" where
  "render_interfaces e v = (\<lambda>(a, w). do {
     let st0 = rv_etw e;
     (a1, w1) \<leftarrow> (if NT_SUCCESS st0 then do {
                     (a1, y1) \<leftarrow> SetEtwHelper (Some v) (a, addref v w);
                     y2 \<leftarrow> release v y1;
                     Some (a1, y2) }
                   else Some (a, w));
     let st1 = runtime_power e;
     w2 \<leftarrow> probe (rv_power e) v w1;
     let st2 = rv_resources e;
     w3 \<leftarrow> probe st2 v w2;
     let st3 = rv_resources2 e;
     w4 \<leftarrow> probe st3 v w3;
     Some (st3, a1, w4) })"

definition InstallEndpointRenderFilters :: "render_env \<Rightarrow> ENDPOINT_MINIPAIR \<Rightarrow> (CAdapterCommon \<times> adapter_world) step" where
  "InstallEndpointRenderFilters e pair = (\<lambda>(a, w). do {
     (st0, outs, w1) \<leftarrow> InstallEndpointFilters (rv_filters e) pair want_filters w;
     (st, a2, w2) \<leftarrow> (case out_wave outs of None \<Rightarrow> Some (st0, a, w1) | Some v \<Rightarrow> render_interfaces e v (a, w1));
     w3 \<leftarrow> safe_release (out_topo outs) w2;
     w4 \<leftarrow> safe_release (out_wave outs) w3;
     Some (st, a2, w4) })"

definition InstallAllRenderFilters :: "(nat \<Rightarrow> render_env) \<Rightarrow> ENDPOINT_MINIPAIR list \<Rightarrow> (CAdapterCommon \<times> adapter_world) step" where
  "InstallAllRenderFilters e pairs = run_steps (map (\<lambda>(i, p). InstallEndpointRenderFilters (e i) p) (enumerate 0 pairs))"

definition want_nothing :: "bool filter_outs" where
  "want_nothing = \<lparr> out_topo = False, out_wave = False, out_mini_topo = False, out_mini_wave = False \<rparr>"

definition InstallEndpointCaptureFilters :: "filters_env \<Rightarrow> ENDPOINT_MINIPAIR \<Rightarrow> (CAdapterCommon \<times> adapter_world) step" where
  "InstallEndpointCaptureFilters e pair = (\<lambda>(a, w). do {
     (st, _, w1) \<leftarrow> InstallEndpointFilters e pair want_nothing w;
     Some (st, a, w1) })"

definition InstallAllCaptureFilters :: "(nat \<Rightarrow> filters_env) \<Rightarrow> ENDPOINT_MINIPAIR list \<Rightarrow> (CAdapterCommon \<times> adapter_world) step" where
  "InstallAllCaptureFilters e pairs = run_steps (map (\<lambda>(i, p). InstallEndpointCaptureFilters (e i) p) (enumerate 0 pairs))"

section \<open>Starting the device\<close>

record driver =
  dv_instances :: int
  dv_common :: bool
  dv_refs :: nat
  dv_adapter :: CAdapterCommon
  dv_bands :: adapter_bands
  dv_shm :: shm_globals
  dv_world :: adapter_world
  dv_pdos :: pdo_refs

definition adapter_release :: "driver \<Rightarrow> driver option" where
  "adapter_release s =
     (if dv_refs s = 0 then None
      else if dv_refs s = 1 then do {
        (a, w, n) \<leftarrow> adapter_dtor (dv_adapter s) (dv_world s) (dv_instances s);
        Some (s \<lparr> dv_refs := 0, dv_adapter := a, dv_world := w, dv_instances := n \<rparr>) }
      else Some (s \<lparr> dv_refs := dv_refs s - 1 \<rparr>))"

record driver_config =
  g_RenderEndpoints :: "ENDPOINT_MINIPAIR list"
  g_CaptureEndpoints :: "ENDPOINT_MINIPAIR list"
  dc_DisableBthScoBypass :: ULONG
  dc_DisableUsbSideband :: ULONG
  dc_DisableA2dpSideband :: ULONG

text \<open>\<open>sv_raw\<close> and \<open>sv_raw_bands\<close> are the members of the adapter object as it is allocated.\<close>

record start_env =
  sv_alloc :: bool
  sv_raw :: CAdapterCommon
  sv_raw_bands :: adapter_bands
  sv_object :: nat
  sv_init :: adapter_env
  sv_register :: NTSTATUS
  sv_render :: "nat \<Rightarrow> render_env"
  sv_capture :: "nat \<Rightarrow> filters_env"
  sv_bth :: "NTSTATUS \<times> NTSTATUS"
  sv_usb :: "NTSTATUS \<times> NTSTATUS"
  sv_a2dp :: "NTSTATUS \<times> NTSTATUS \<times> NTSTATUS \<times> NTSTATUS"
  sv_pofx :: NTSTATUS

definition start_init :: "start_env \<Rightarrow> driver step" where
  "start_init e s = (case adapter_Init (sv_init e) (sv_object e) (dv_adapter s, dv_bands s, dv_world s, dv_shm s) of
     (st, a, b, w, g) \<Rightarrow> Some (st, s \<lparr> dv_adapter := a, dv_bands := b, dv_world := w, dv_shm := g \<rparr>))"

text \<open>Port class keeps a reference on the adapter.\<close>

definition start_register :: "NTSTATUS \<Rightarrow> driver step" where
  "start_register st s = Some (st, if NT_SUCCESS st then s \<lparr> dv_refs := dv_refs s + 1 \<rparr> else s)"

definition on_filters :: "(CAdapterCommon \<times> adapter_world) step \<Rightarrow> driver step" where
  "on_filters f s = do { (st, a, w) \<leftarrow> f (dv_adapter s, dv_world s); Some (st, s \<lparr> dv_adapter := a, dv_world := w \<rparr>) }"

definition on_bands :: "ULONG \<Rightarrow> (adapter_bands \<Rightarrow> NTSTATUS \<times> adapter_bands) \<Rightarrow> driver step" where
  "on_bands disabled f s = Some (if disabled = 0 then (case f (dv_bands s) of (st, b) \<Rightarrow> (st, s \<lparr> dv_bands := b \<rparr>)) else (STATUS_SUCCESS, s))"

definition start_steps :: "driver_config \<Rightarrow> start_env \<Rightarrow> driver step list" where
  "start_steps cf e =
     [start_init e,
      start_register (sv_register e),
      on_filters (InstallAllRenderFilters (sv_render e) (g_RenderEndpoints cf)),
      on_filters (InstallAllCaptureFilters (sv_capture e) (g_CaptureEndpoints cf)),
      on_bands (dc_DisableBthScoBypass cf) (InitBthScoBypass (fst (sv_bth e)) (snd (sv_bth e))),
      on_bands (dc_DisableUsbSideband cf) (InitUsbSideband (fst (sv_usb e)) (snd (sv_usb e))),
      on_bands (dc_DisableA2dpSideband cf) (case sv_a2dp e of (wi, publish, enable, reg) \<Rightarrow> InitA2dpSideband wi publish enable reg),
      \<lambda>s. Some (sv_pofx e, s)]"

text \<open>
  The adapter is put into the device extension whenever it was created, also when a later step
  failed; it is torn down by the removal of the device.
\<close>

definition StartDevice :: "driver_config \<Rightarrow> start_env \<Rightarrow> driver step" where
  "StartDevice cf e s =
     (case NewAdapterCommon (sv_alloc e) (dv_instances s) of (st0, created, n) \<Rightarrow>
        (if \<not> NT_SUCCESS st0 then Some (st0, s \<lparr> dv_instances := n \<rparr>)
         else
           (let s1 = s \<lparr> dv_instances := n, dv_refs := 1, dv_adapter := sv_raw e, dv_bands := sv_raw_bands e \<rparr>
            in case adapter_NonDelegatingQueryInterface IID_IAdapterCommon (dv_refs s1) of (st1, iface, r) \<Rightarrow>
                 (let s2 = s1 \<lparr> dv_refs := r \<rparr>
                  in do {
                    (st, s3) \<leftarrow> (if NT_SUCCESS st1 then run_steps (start_steps cf e) s2 else Some (st1, s2));
                    s4 \<leftarrow> adapter_release (if iface \<noteq> None then s3 \<lparr> dv_common := True \<rparr> else s3);
                    Some (st, s4) }))))"

section \<open>Plug and play requests\<close>

text \<open>A query for power relations carries the relations reported so far.\<close>

datatype pnp_irp = IRP_MN_QUERY_POWER_RELATIONS bool "DEVICE_RELATIONS option" | IRP_MN_QUERY_OTHER_RELATIONS
  | IRP_MN_REMOVE_DEVICE | IRP_MN_SURPRISE_REMOVAL | IRP_MN_STOP_DEVICE | IRP_MN_OTHER

definition removes :: "pnp_irp \<Rightarrow> bool" where
  "removes irp \<longleftrightarrow> irp \<in> {IRP_MN_REMOVE_DEVICE, IRP_MN_SURPRISE_REMOVAL, IRP_MN_STOP_DEVICE}"

text \<open>
  \<open>dispatch\<close> is what port class returns for the request. The first result is the status, the second
  whether the request was completed here, the third the relations it carries on return.
\<close>

definition PnpHandler :: "(device \<Rightarrow> NTSTATUS) \<Rightarrow> NTSTATUS \<Rightarrow> pnp_irp \<Rightarrow> driver \<Rightarrow>
    (NTSTATUS \<times> bool \<times> DEVICE_RELATIONS option \<times> driver) option" where
  "PnpHandler starts dispatch irp s = (case irp of
     IRP_MN_QUERY_POWER_RELATIONS alloc info \<Rightarrow>
       if dv_common s then do {
         (st, info1, r) \<leftarrow> UpdatePowerRelations alloc info (dv_adapter s) (dv_pdos s);
         Some (if \<not> NT_SUCCESS st then (st, True, info1, s \<lparr> dv_pdos := r \<rparr>)
               else (dispatch, False, info1, s \<lparr> dv_pdos := r \<rparr>)) }
       else Some (dispatch, False, info, s)
   | _ \<Rightarrow>
       if removes irp \<and> dv_common s then do {
         (b, g, w) \<leftarrow> Cleanup starts (dv_bands s, dv_shm s, dv_world s);
         s1 \<leftarrow> adapter_release (s \<lparr> dv_bands := b, dv_shm := g, dv_world := w \<rparr>);
         Some (dispatch, False, None, s1 \<lparr> dv_common := False \<rparr>) }
       else Some (dispatch, False, None, s))"

section \<open>Power framework\<close>

text \<open>The settings of the four F-states: latency and residency in units of 100 ns.\<close>

definition WDF_ABS_TIMEOUT_IN_MS :: "nat \<Rightarrow> nat" where "WDF_ABS_TIMEOUT_IN_MS n = n * 10000"
definition WDF_ABS_TIMEOUT_IN_SEC :: "nat \<Rightarrow> nat" where "WDF_ABS_TIMEOUT_IN_SEC n = n * 10000000"

definition fstate_hints :: "(nat \<times> nat) list" where "fstate_hints = [(0, 0), (200, 3), (400, 6), (800, 12)]"

definition idleStates :: "(nat \<times> nat \<times> nat) list" where
  "idleStates = map (\<lambda>(ms, sec). (WDF_ABS_TIMEOUT_IN_MS ms, WDF_ABS_TIMEOUT_IN_SEC sec, 0)) fstate_hints"

definition PcPowerFxRegisterDevice :: "nat \<Rightarrow> nat option \<Rightarrow> NTSTATUS \<times> nat option \<times> nat \<times> nat" where
  "PcPowerFxRegisterDevice PoHandle m_poHandle =
     (STATUS_SUCCESS, Some PoHandle, WDF_ABS_TIMEOUT_IN_MS (fst (last fstate_hints)) + 1,
      WDF_ABS_TIMEOUT_IN_SEC (snd (last fstate_hints)) + 1)"

definition PcPowerFxUnregisterDevice :: "nat \<Rightarrow> nat option \<Rightarrow> nat option" where
  "PcPowerFxUnregisterDevice PoHandle m_poHandle = None"

section \<open>Teardown of the adapter\<close>

text \<open>A sideband manager is either not initialised or in a state reached by its operations.\<close>

definition band_ok :: "sideband \<Rightarrow> bool" where
  "band_ok s \<longleftrightarrow> \<not> EnableCleanup s \<or> sb_reachable s"

text \<open>What Cleanup leaves of a manager.\<close>

definition band_gone :: "sideband \<Rightarrow> sideband \<Rightarrow> bool" where
  "band_gone s s' \<longleftrightarrow> (if EnableCleanup s then heap s' = Map.empty \<and> WorkTasks s' = [] \<and> TasksOut s' = 0
     \<and> list_all (\<lambda>d. acts d (trace s') = [] \<or> acts d (trace s') = [TaskStart, TaskStop]) [0..<next_device s']
   else s' = s)"

lemma band_cleanup: "band_ok s \<Longrightarrow> \<exists>s'. CleanupInterface starts s = Some s' \<and> band_gone s s'"
proof (cases "EnableCleanup s")
  case True
  assume "band_ok s"
  then have "sb_ok s" using True reachable_ok by (simp add: band_ok_def)
  from CleanupInterface_ok [OF this, of starts] True show ?thesis by (auto simp: band_gone_def list_all_iff)
qed (simp add: CleanupInterface_def band_gone_def)

text \<open>The references of the adapter object on its two helper interfaces.\<close>

definition helper_refs :: "CAdapterCommon \<Rightarrow> obj multiset" where
  "helper_refs a = opt_ref (m_pPortClsEtwHelper a) + opt_ref (m_pServiceGroupWave a)"

lemma adapter_dtor_eq:
  assumes "refs w = count (helper_refs a + E)"
  shows "\<exists>a' w'. adapter_dtor a w n = Some (a', w', n - 1) \<and> refs w' = count E \<and> m_pHW a' = None
    \<and> \<not> m_WdfDevice a' \<and> helper_refs a' = {#} \<and> m_SubdeviceCache w' = m_SubdeviceCache w"
proof -
  have r: "refs w = count (opt_ref (m_pPortClsEtwHelper a) + (opt_ref (m_pServiceGroupWave a) + E))"
    using assms by (simp only: helper_refs_def add.assoc)
  have 1: "safe_release (m_pPortClsEtwHelper a) w = Some (w \<lparr> refs := count (opt_ref (m_pServiceGroupWave a) + E) \<rparr>)"
    by (rule safe_release_eq [OF r])
  have 2: "safe_release (m_pServiceGroupWave a) (w \<lparr> refs := count (opt_ref (m_pServiceGroupWave a) + E) \<rparr>)
      = Some (w \<lparr> refs := count E \<rparr>)"
    by (rule safe_release_eq [THEN trans]) (simp_all del: count_union)
  show ?thesis
    by (cases "m_pHW a"; cases "m_WdfDevice a") (simp_all add: adapter_dtor_def helper_refs_def 1 2 Let_def del: count_union)
qed

section \<open>Correctness\<close>

lemma safe_acct: "acct w (opt_ref p + E) \<Longrightarrow> \<exists>w'. safe_release p w = Some w' \<and> acct w' E"
  using acct_safe_release by blast

lemma probe_ok: "acct w E \<Longrightarrow> \<exists>w'. probe qi v w = Some w' \<and> acct w' E"
  using acct_release [OF acct_addref, of w E v] by (auto simp: probe_def)

lemma SetEtwHelper_ok:
  assumes "acct w (helper_refs a + E)"
  shows "\<exists>a' w'. SetEtwHelper h (a, w) = Some (a', w') \<and> acct w' (helper_refs a' + E) \<and> m_PowerRelations a' = m_PowerRelations a"
proof -
  have "acct w (opt_ref (m_pPortClsEtwHelper a) + (opt_ref (m_pServiceGroupWave a) + E))"
    using assms by (simp add: helper_refs_def add.assoc)
  then obtain w1 where w1: "safe_release (m_pPortClsEtwHelper a) w = Some w1" "acct w1 (opt_ref (m_pServiceGroupWave a) + E)"
    using safe_acct by blast
  have "acct (addref_opt h w1) (opt_ref h + (opt_ref (m_pServiceGroupWave a) + E))"
    using w1(2) acct_addref by (cases h) (simp_all add: addref_opt_def opt_ref_def)
  then show ?thesis using w1(1) by (simp add: SetEtwHelper_def helper_refs_def add.assoc)
qed

definition filters_at :: "obj multiset \<Rightarrow> CAdapterCommon \<times> adapter_world \<Rightarrow> bool" where
  "filters_at E aw \<longleftrightarrow> acct (snd aw) (helper_refs (fst aw) + E) \<and> m_PowerRelations (fst aw) = []"

lemma render_wave:
  assumes "filters_at (add_mset v E) (a, w)"
  shows "\<exists>a1 w4. render_interfaces e v (a, w) = Some (rv_resources2 e, a1, w4) \<and> filters_at (add_mset v E) (a1, w4)"
proof -
  have "\<exists>a1 x1. (if NT_SUCCESS (rv_etw e) then do {
                      (a1, y1) \<leftarrow> SetEtwHelper (Some v) (a, addref v w);
                      y2 \<leftarrow> release v y1;
                      Some (a1, y2) }
                    else Some (a, w)) = Some (a1, x1) \<and> filters_at (add_mset v E) (a1, x1)"
  proof (cases "NT_SUCCESS (rv_etw e)")
    case True
    have "acct (addref v w) (helper_refs a + add_mset v (add_mset v E))"
      using acct_addref [OF assms [unfolded filters_at_def, THEN conjunct1], of v] by simp
    from SetEtwHelper_ok [OF this, of "Some v"] obtain a1 y1 where 1: "SetEtwHelper (Some v) (a, addref v w) = Some (a1, y1)"
        "acct y1 (add_mset v (helper_refs a1 + add_mset v E))" "m_PowerRelations a1 = []"
      using assms by (auto simp: filters_at_def)
    from acct_release [OF 1(2)] 1(1,3) True show ?thesis by (auto simp: filters_at_def)
  qed (use assms in auto)
  then obtain a1 x1 where 1: "(if NT_SUCCESS (rv_etw e) then do {
                      (a1, y1) \<leftarrow> SetEtwHelper (Some v) (a, addref v w);
                      y2 \<leftarrow> release v y1;
                      Some (a1, y2) }
                    else Some (a, w)) = Some (a1, x1)" "filters_at (add_mset v E) (a1, x1)" by blast
  obtain x2 where 2: "probe (rv_power e) v x1 = Some x2" "filters_at (add_mset v E) (a1, x2)"
    using probe_ok 1(2) unfolding filters_at_def by force
  obtain x3 where 3: "probe (rv_resources e) v x2 = Some x3" "filters_at (add_mset v E) (a1, x3)"
    using probe_ok 2(2) unfolding filters_at_def by force
  obtain x4 where 4: "probe (rv_resources2 e) v x3 = Some x4" "filters_at (add_mset v E) (a1, x4)"
    using probe_ok 3(2) unfolding filters_at_def by force
  show ?thesis using 1(1) 2(1) 3(1) 4 by (auto simp: render_interfaces_def Let_def)
qed

lemma render_ok:
  assumes "filters_at E (a, w)" and "filters_ok (rv_filters e)"
  shows "\<exists>st a' w'. InstallEndpointRenderFilters e pair (a, w) = Some (st, a', w') \<and> filters_at E (a', w')"
proof -
  obtain st0 outs w1 where 1: "InstallEndpointFilters (rv_filters e) pair want_filters w = Some (st0, outs, w1)"
      "acct w1 (opt_ref (out_topo outs) + opt_ref (out_wave outs) + (helper_refs a + E))"
    using Install_refs [OF assms(1) [unfolded filters_at_def, THEN conjunct1] assms(2), of pair] by auto
  show ?thesis
  proof (cases "out_wave outs")
    case None
    have "acct w1 (opt_ref (out_topo outs) + (helper_refs a + E))" using 1(2) None by (simp add: opt_ref_def)
    from safe_acct [OF this] obtain w3 where "safe_release (out_topo outs) w1 = Some w3" "acct w3 (helper_refs a + E)" by blast
    then show ?thesis using 1(1) None assms(1) by (simp add: InstallEndpointRenderFilters_def safe_release_def filters_at_def)
  next
    case (Some v)
    let ?E = "opt_ref (out_topo outs) + E"
    have "filters_at (add_mset v ?E) (a, w1)" using 1(2) Some assms(1) by (simp add: filters_at_def opt_ref_def ac_simps)
    from render_wave [OF this, of e] obtain a1 x4 where 2: "render_interfaces e v (a, w1) = Some (rv_resources2 e, a1, x4)"
        "filters_at (add_mset v ?E) (a1, x4)" by blast
    have "acct x4 (opt_ref (out_topo outs) + (opt_ref (Some v) + (helper_refs a1 + E)))"
      using 2(2) by (simp add: filters_at_def opt_ref_def ac_simps)
    from safe_acct [OF this] obtain w3 where 3: "safe_release (out_topo outs) x4 = Some w3"
        "acct w3 (opt_ref (Some v) + (helper_refs a1 + E))" by blast
    from safe_acct [OF this(2)] obtain w4 where 4: "safe_release (Some v) w3 = Some w4" "acct w4 (helper_refs a1 + E)" by blast
    show ?thesis using 1(1) Some 2 3(1) 4 by (simp add: InstallEndpointRenderFilters_def filters_at_def Let_def)
  qed
qed

lemma render_all_ok:
  assumes "\<forall>i. filters_ok (rv_filters (e i))"
  shows "step_spec (filters_at E) (InstallAllRenderFilters e pairs) (filters_at E) (filters_at E)"
  unfolding InstallAllRenderFilters_def
proof (rule run_steps_inv)
  have "step_spec (filters_at E) (InstallEndpointRenderFilters (e i) p) (filters_at E) (filters_at E)" for i p
    using render_ok assms by (fastforce intro: step_specI)
  then show "list_all (\<lambda>f. step_spec (filters_at E) f (filters_at E) (filters_at E))
      (map (\<lambda>(i, p). InstallEndpointRenderFilters (e i) p) (enumerate 0 pairs))"
    by (auto simp: list_all_iff)
qed

lemma capture_outs:
  "InstallEndpointFilters e pair want_nothing w = Some (st, outs, w') \<Longrightarrow> outs_refs outs = {#}"
  by (auto simp: InstallEndpointFilters_def want_nothing_def Let_def outs_refs_def opt_ref_def dest!: want_none
      split: bind_splits if_splits prod.splits)

lemma capture_all_ok:
  assumes "\<forall>i. filters_ok (e i)"
  shows "step_spec (filters_at E) (InstallAllCaptureFilters e pairs) (filters_at E) (filters_at E)"
  unfolding InstallAllCaptureFilters_def
proof (rule run_steps_inv)
  have "\<exists>st a' w'. InstallEndpointCaptureFilters (e i) p (a, w) = Some (st, a', w') \<and> filters_at E (a', w')"
    if f: "filters_at E (a, w)" for i p a w
  proof -
    obtain st outs w' where 1: "InstallEndpointFilters (e i) p want_nothing w = Some (st, outs, w')"
        "acct w' (outs_refs outs + (helper_refs a + E))"
      using InstallEndpointFilters_acct [OF f [unfolded filters_at_def, THEN conjunct1], of "e i" p want_nothing] assms
      unfolding filters_ok_def by auto
    from capture_outs [OF 1(1)] 1 f show ?thesis by (simp add: InstallEndpointCaptureFilters_def filters_at_def)
  qed
  then have "step_spec (filters_at E) (InstallEndpointCaptureFilters (e i) p) (filters_at E) (filters_at E)" for i p
    by (fastforce intro: step_specI)
  then show "list_all (\<lambda>f. step_spec (filters_at E) f (filters_at E) (filters_at E))
      (map (\<lambda>(i, p). InstallEndpointCaptureFilters (e i) p) (enumerate 0 pairs))"
    by (auto simp: list_all_iff)
qed

text \<open>
  The adapter during its start: \<open>fresh_from k\<close> are the managers that are still to be initialised.
\<close>

definition fresh_band :: "sideband \<Rightarrow> bool" where
  "fresh_band s \<longleftrightarrow> \<not> EnableCleanup s \<and> blank s"

definition bands_ok :: "nat \<Rightarrow> adapter_bands \<Rightarrow> bool" where
  "bands_ok k b \<longleftrightarrow> band_ok (BthHfp b) \<and> band_ok (UsbSideband b) \<and> band_ok (A2dpSideband b)
     \<and> (k < 1 \<longrightarrow> fresh_band (BthHfp b)) \<and> (k < 2 \<longrightarrow> fresh_band (UsbSideband b)) \<and> (k < 3 \<longrightarrow> fresh_band (A2dpSideband b))"

definition starting :: "obj multiset \<Rightarrow> nat \<Rightarrow> driver \<Rightarrow> bool" where
  "starting E k s \<longleftrightarrow> 2 \<le> dv_refs s \<and> dv_instances s = 1 \<and> \<not> dv_common s \<and> filters_at E (dv_adapter s, dv_world s)
     \<and> bands_ok k (dv_bands s) \<and> (\<exists>M. dv_pdos s = count M)"

lemma bands_later: "bands_ok j b \<Longrightarrow> j \<le> k \<Longrightarrow> bands_ok k b"
  by (auto simp: bands_ok_def)

lemma starting_later: "starting E j s \<Longrightarrow> j \<le> k \<Longrightarrow> starting E k s"
  by (auto simp: starting_def intro: bands_later)

lemma init_band: "fresh_band s \<Longrightarrow> band_ok (snd (InitInterface wi middle reg s))"
  by (simp add: fresh_band_def band_ok_def sb_reachable.init)

lemma on_filters_ok:
  assumes "step_spec (filters_at E) f (filters_at E) (filters_at E)"
  shows "step_spec (starting E k) (on_filters f) (starting E k) (starting E 3)"
proof (rule step_specI)
  fix s assume s: "starting E k s"
  then obtain st a w where 1: "f (dv_adapter s, dv_world s) = Some (st, a, w)" "filters_at E (a, w)"
    using step_specD [OF assms] unfolding starting_def by (metis (no_types, lifting) surj_pair)
  then have "starting E k (s \<lparr> dv_adapter := a, dv_world := w \<rparr>)" using s by (simp add: starting_def)
  then show "\<exists>st s'. on_filters f s = Some (st, s') \<and> (if NT_SUCCESS st then starting E k s' else starting E 3 s')"
    using 1(1) starting_later [of E k _ 3] starting_later [of E k _ k] by (cases "k \<le> 3") (auto simp: on_filters_def starting_def bands_ok_def)
qed

text \<open>The adapter as it was created, before its Init.\<close>

definition created_at :: "obj multiset \<Rightarrow> driver \<Rightarrow> bool" where
  "created_at E s \<longleftrightarrow> dv_refs s = 2 \<and> dv_instances s = 1 \<and> \<not> dv_common s \<and> acct (dv_world s) E \<and> m_SubdeviceCache (dv_world s) = []
     \<and> (\<exists>M. dv_pdos s = count M) \<and> blank (BthHfp (dv_bands s)) \<and> blank (UsbSideband (dv_bands s)) \<and> blank (A2dpSideband (dv_bands s))"

lemma start_init_ok: "step_spec (created_at E) (start_init e) (starting E 0) (starting E 3)"
proof (rule step_specI)
  fix s assume s: "created_at E s"
  obtain st a b w g where 1: "adapter_Init (sv_init e) (sv_object e) (dv_adapter s, dv_bands s, dv_world s, dv_shm s) = (st, a, b, w, g)"
    by (metis surj_pair)
  have "m_pPortClsEtwHelper a = None" "m_pServiceGroupWave a = None" "m_PowerRelations a = []" "w = dv_world s \<lparr> m_SubdeviceCache := [] \<rparr>"
      "b = \<lparr> BthHfp = disarm (BthHfp (dv_bands s)), UsbSideband = disarm (UsbSideband (dv_bands s)), A2dpSideband = disarm (A2dpSideband (dv_bands s)) \<rparr>"
    using 1 by (auto simp: adapter_Init_def Let_def split: if_splits option.splits)
  then have "starting E 0 (s \<lparr> dv_adapter := a, dv_bands := b, dv_world := w, dv_shm := g \<rparr>)"
    using s by (simp add: starting_def created_at_def filters_at_def helper_refs_def opt_ref_def acct_def bands_ok_def
        fresh_band_def band_ok_def disarm_def blank_def)
  then show "\<exists>st s'. start_init e s = Some (st, s') \<and> (if NT_SUCCESS st then starting E 0 s' else starting E 3 s')"
    using 1 starting_later [of E 0 _ 3] by (simp add: start_init_def)
qed

lemma start_register_ok: "step_spec (starting E 0) (start_register st) (starting E 0) (starting E 3)"
  by (rule step_specI) (auto simp: start_register_def starting_def intro: bands_later)

lemma on_bands_ok:
  assumes "\<And>b. bands_ok k b \<Longrightarrow> bands_ok (Suc k) (snd (f b))" and "k < 3"
  shows "step_spec (starting E k) (on_bands d f) (starting E (Suc k)) (starting E 3)"
proof (rule step_specI)
  fix s assume s: "starting E k s"
  obtain st b where f: "f (dv_bands s) = (st, b)" by fastforce
  have "starting E (Suc k) (s \<lparr> dv_bands := b \<rparr>)" using s assms(1) [of "dv_bands s"] f by (simp add: starting_def)
  then show "\<exists>st s'. on_bands d f s = Some (st, s') \<and> (if NT_SUCCESS st then starting E (Suc k) s' else starting E 3 s')"
    using f starting_later [OF s, of "Suc k"] starting_later [of E "Suc k" _ 3] assms(2) by (auto simp: on_bands_def)
qed

lemma init_bands:
  "bands_ok 0 b \<Longrightarrow> bands_ok (Suc 0) (snd (InitBthScoBypass wi reg b))"
  "bands_ok (Suc 0) b \<Longrightarrow> bands_ok (Suc (Suc 0)) (snd (InitUsbSideband wi reg b))"
  "bands_ok (Suc (Suc 0)) b \<Longrightarrow> bands_ok (Suc (Suc (Suc 0))) (snd (InitA2dpSideband wi publish enable reg b))"
  by (auto simp: bands_ok_def InitBthScoBypass_def InitUsbSideband_def InitA2dpSideband_def on_band_def put_bth_def put_usb_def
      put_a2dp_def split_beta intro: init_band)

definition start_ok :: "start_env \<Rightarrow> bool" where
  "start_ok e \<longleftrightarrow> (\<forall>i. filters_ok (rv_filters (sv_render e i))) \<and> (\<forall>i. filters_ok (sv_capture e i))
     \<and> blank (BthHfp (sv_raw_bands e)) \<and> blank (UsbSideband (sv_raw_bands e)) \<and> blank (A2dpSideband (sv_raw_bands e))"

lemma start_steps_ok:
  assumes "start_ok e"
  shows "step_spec (created_at E) (run_steps (start_steps cf e)) (starting E 3) (starting E 3)"
proof -
  have r: "\<forall>i. filters_ok (rv_filters (sv_render e i))" and c: "\<forall>i. filters_ok (sv_capture e i)"
    using assms by (simp_all add: start_ok_def)
  obtain x1 x2 x3 x4 where a2dp: "sv_a2dp e = (x1, x2, x3, x4)" by (metis surj_pair)
  have last: "step_spec (starting E 3) (\<lambda>s. Some (sv_pofx e, s)) (starting E 3) (starting E 3)" by (simp add: step_spec_def)
  have bth: "step_spec (starting E 0) (on_bands d (InitBthScoBypass x y)) (starting E (Suc 0)) (starting E 3)" for d x y
    by (rule on_bands_ok) (auto intro: init_bands)
  have usb: "step_spec (starting E (Suc 0)) (on_bands d (InitUsbSideband x y)) (starting E (Suc (Suc 0))) (starting E 3)" for d x y
    by (rule on_bands_ok) (auto intro: init_bands)
  have a2: "step_spec (starting E (Suc (Suc 0))) (on_bands d (InitA2dpSideband x1 x2 x3 x4)) (starting E 3) (starting E 3)" for d
    using on_bands_ok [of "Suc (Suc 0)" "InitA2dpSideband x1 x2 x3 x4" E d] init_bands(3) by (simp add: numeral_3_eq_3)
  show ?thesis unfolding start_steps_def a2dp prod.case
    by (rule step_spec_Cons [OF start_init_ok step_spec_Cons [OF start_register_ok step_spec_Cons [OF on_filters_ok [OF render_all_ok [OF r]]
          step_spec_Cons [OF on_filters_ok [OF capture_all_ok [OF c]] step_spec_Cons [OF bth step_spec_Cons [OF usb step_spec_Cons
          [OF a2 step_spec_Cons [OF last]]]]]]]]) (rule step_spec_Nil)
qed

text \<open>
  The invariant of the driver between two operations. \<open>E\<close> are the references of others on the
  subdevices; the adapter accounts for those of its cache and its helper pointers and for those on
  the devices of its power relations.
\<close>

definition driver_inv :: "obj multiset \<Rightarrow> driver \<Rightarrow> bool" where
  "driver_inv E s \<longleftrightarrow> dv_instances s \<in> {0, 1} \<and> (dv_common s \<longrightarrow> 0 < dv_refs s) \<and> (0 < dv_refs s \<longrightarrow> dv_instances s = 1)
     \<and> (if dv_refs s = 0 then acct (dv_world s) E \<and> (\<exists>M. dv_pdos s = count M)
        else acct (dv_world s) (helper_refs (dv_adapter s) + E) \<and> (\<exists>M. dv_pdos s = count (mset (m_PowerRelations (dv_adapter s)) + M)))
     \<and> (if dv_common s then bands_ok 3 (dv_bands s) else m_SubdeviceCache (dv_world s) = [])"

lemma release_many: "1 < dv_refs s \<Longrightarrow> adapter_release s = Some (s \<lparr> dv_refs := dv_refs s - 1 \<rparr>)"
  by (simp add: adapter_release_def)

lemma StartDevice_ok:
  assumes inv: "driver_inv E s" and e: "start_ok e"
  shows "\<exists>st s'. StartDevice cf e s = Some (st, s') \<and> driver_inv E s'
    \<and> (dv_common s' \<longleftrightarrow> dv_common s \<or> dv_instances s = 0 \<and> sv_alloc e)
    \<and> (dv_instances s \<noteq> 0 \<longrightarrow> st = STATUS_DEVICE_BUSY \<and> s' = s) \<and> (NT_SUCCESS st \<longrightarrow> dv_common s')"
proof (cases "dv_instances s = 0 \<and> sv_alloc e")
  case False
  then show ?thesis using inv by (auto simp: StartDevice_def NewAdapterCommon_def driver_inv_def status_defs NT_SUCCESS_def)
next
  case True
  let ?s2 = "s \<lparr> dv_instances := 1, dv_refs := 2, dv_adapter := sv_raw e, dv_bands := sv_raw_bands e \<rparr>"
  have eq: "s \<lparr> dv_instances := 1, dv_refs := 1, dv_adapter := sv_raw e, dv_bands := sv_raw_bands e, dv_refs := Suc (Suc 0) \<rparr> = ?s2"
    by (cases s) (simp add: numeral_2_eq_2)
  have "dv_refs s = 0" "\<not> dv_common s" using inv True by (auto simp: driver_inv_def)
  then have "created_at E ?s2" using inv e by (simp add: created_at_def driver_inv_def start_ok_def)
  from step_specD [OF start_steps_ok [OF e] this, of cf] obtain st s3 where 3: "run_steps (start_steps cf e) ?s2 = Some (st, s3)"
      "starting E 3 s3" by (auto split: if_splits)
  let ?s4 = "s3 \<lparr> dv_common := True, dv_refs := dv_refs s3 - 1 \<rparr>"
  have "StartDevice cf e s = Some (st, ?s4)"
    using True 3 release_many [of "s3 \<lparr> dv_common := True \<rparr>"]
    by (cases s) (simp add: StartDevice_def NewAdapterCommon_def adapter_NonDelegatingQueryInterface_def Let_def starting_def NT_SUCCESS_codes numeral_2_eq_2)
  moreover have "driver_inv E ?s4" using 3(2) by (auto simp: driver_inv_def starting_def filters_at_def)
  ultimately show ?thesis using True by auto
qed

section \<open>Removing the device\<close>

text \<open>What Cleanup leaves of the managers, the shared section and the cache.\<close>

definition cleaned :: "driver \<Rightarrow> driver \<Rightarrow> bool" where
  "cleaned s s' \<longleftrightarrow> band_gone (BthHfp (dv_bands s)) (BthHfp (dv_bands s'))
     \<and> band_gone (UsbSideband (dv_bands s)) (UsbSideband (dv_bands s'))
     \<and> band_gone (A2dpSideband (dv_bands s)) (A2dpSideband (dv_bands s'))
     \<and> g_ShmBase (dv_shm s') = None \<and> \<not> g_ShmHandle (dv_shm s') \<and> m_SubdeviceCache (dv_world s') = []"

lemma Cleanup_ok:
  assumes "band_ok (BthHfp b)" and "band_ok (UsbSideband b)" and "band_ok (A2dpSideband b)" and "acct w F"
  shows "\<exists>b' g' w'. Cleanup starts (b, g, w) = Some (b', g', w')
     \<and> band_gone (BthHfp b) (BthHfp b') \<and> band_gone (UsbSideband b) (UsbSideband b')
     \<and> band_gone (A2dpSideband b) (A2dpSideband b')
     \<and> g_ShmBase g' = None \<and> \<not> g_ShmHandle g' \<and> m_SubdeviceCache w' = [] \<and> refs w' = count F"
proof -
  obtain s1 where s1: "CleanupInterface starts (BthHfp b) = Some s1" "band_gone (BthHfp b) s1"
    using band_cleanup [OF assms(1)] by blast
  obtain s2 where s2: "CleanupInterface starts (UsbSideband b) = Some s2" "band_gone (UsbSideband b) s2"
    using band_cleanup [OF assms(2)] by blast
  obtain s3 where s3: "CleanupInterface starts (A2dpSideband b) = Some s3" "band_gone (A2dpSideband b) s3"
    using band_cleanup [OF assms(3)] by blast
  obtain w1 where w1: "EmptySubdeviceCache w = Some w1" "refs w1 = count F" "m_SubdeviceCache w1 = []"
    using acct_Empty [OF assms(4)] by blast
  let ?b = "b \<lparr> BthHfp := s1, UsbSideband := s2, A2dpSideband := s3 \<rparr>"
  have "Cleanup starts (b, g, w) = Some (?b, InfernoShmCleanup g, w1)"
    using s1(1) s2(1) s3(1) w1(1)
    by (simp add: Cleanup_def CleanupBthScoBypass_def CleanupUsbSideband_def CleanupA2dpSideband_def
        put_bth_def put_usb_def put_a2dp_def)
  moreover have "g_ShmBase (InfernoShmCleanup g) = None" "\<not> g_ShmHandle (InfernoShmCleanup g)"
    by (simp_all add: InfernoShmCleanup_def Let_def)
  ultimately show ?thesis using s1(2) s2(2) s3(2) w1(2,3)
    by (intro exI [of _ ?b] exI [of _ "InfernoShmCleanup g"] exI [of _ w1]) simp
qed

lemma adapter_release_ok:
  assumes inv: "driver_inv E (s \<lparr> dv_common := False \<rparr>)" and r: "0 < dv_refs s" and c: "dv_common s \<longrightarrow> dv_refs s \<noteq> 1"
  shows "\<exists>s'. adapter_release s = Some s' \<and> driver_inv E (s' \<lparr> dv_common := False \<rparr>) \<and> dv_refs s' = dv_refs s - 1
    \<and> dv_common s' = dv_common s \<and> dv_bands s' = dv_bands s \<and> dv_shm s' = dv_shm s
    \<and> m_SubdeviceCache (dv_world s') = m_SubdeviceCache (dv_world s) \<and> dv_pdos s' = dv_pdos s
    \<and> (dv_refs s = 1 \<longrightarrow> dv_instances s' = 0 \<and> refs (dv_world s') = count E \<and> m_pHW (dv_adapter s') = None \<and> \<not> m_WdfDevice (dv_adapter s'))"
proof (cases "dv_refs s = 1")
  case False
  then show ?thesis using inv r by (auto simp: adapter_release_def driver_inv_def)
next
  case True
  have m: "m_SubdeviceCache (dv_world s) = []" and n: "dv_instances s = 1"
    and a: "acct (dv_world s) (helper_refs (dv_adapter s) + E)"
    using inv True by (auto simp: driver_inv_def)
  have "refs (dv_world s) = count (helper_refs (dv_adapter s) + E)" using a m by (simp add: acct_def)
  from adapter_dtor_eq [OF this, of 1] obtain a' w' where d: "adapter_dtor (dv_adapter s) (dv_world s) 1 = Some (a', w', 0)"
      "refs w' = count E" "m_pHW a' = None" "\<not> m_WdfDevice a'" "m_SubdeviceCache w' = []"
    using m by auto
  have "\<exists>M. dv_pdos s = count M" using inv True by (auto simp: driver_inv_def)
  then show ?thesis using True d n m c by (simp add: adapter_release_def driver_inv_def acct_def)
qed

text \<open>
  A request is in order when the references of the relations it carries are held besides those of
  the adapter (they belong to the plug and play manager), and their number fits a ULONG.
\<close>

definition irp_ok :: "pnp_irp \<Rightarrow> driver \<Rightarrow> bool" where
  "irp_ok irp s \<longleftrightarrow> (case irp of
     IRP_MN_QUERY_POWER_RELATIONS alloc info \<Rightarrow> relations_ok info
       \<and> length (pdos_of info) + length (m_PowerRelations (dv_adapter s)) < 4294967296
       \<and> (\<exists>M. dv_pdos s = count (mset (m_PowerRelations (dv_adapter s)) + mset (pdos_of info) + M))
   | _ \<Rightarrow> True)"

lemma remove_ok:
  assumes inv: "driver_inv E s" and rem: "removes irp"
  shows "\<exists>s'. PnpHandler starts d irp s = Some (d, False, None, s') \<and> driver_inv E s' \<and> \<not> dv_common s'
    \<and> (if dv_common s then cleaned s s' \<and> dv_refs s' = dv_refs s - 1
         \<and> (dv_refs s = 1 \<longrightarrow> dv_instances s' = 0 \<and> refs (dv_world s') = count E)
       else s' = s)"
proof (cases "dv_common s")
  case False
  then show ?thesis using inv rem by (cases irp) (simp_all add: PnpHandler_def removes_def)
next
  case True
  have b: "band_ok (BthHfp (dv_bands s))" "band_ok (UsbSideband (dv_bands s))" "band_ok (A2dpSideband (dv_bands s))"
    and a: "acct (dv_world s) (helper_refs (dv_adapter s) + E)" and r: "0 < dv_refs s"
    using inv True by (auto simp: driver_inv_def bands_ok_def)
  from Cleanup_ok [OF b a, of starts "dv_shm s"] obtain b' g' w' where
    1: "Cleanup starts (dv_bands s, dv_shm s, dv_world s) = Some (b', g', w')"
    and 2: "band_gone (BthHfp (dv_bands s)) (BthHfp b')" "band_gone (UsbSideband (dv_bands s)) (UsbSideband b')"
      "band_gone (A2dpSideband (dv_bands s)) (A2dpSideband b')" "g_ShmBase g' = None" "\<not> g_ShmHandle g'"
      "m_SubdeviceCache w' = []" "refs w' = count (helper_refs (dv_adapter s) + E)" by blast
  let ?s = "s \<lparr> dv_bands := b', dv_shm := g', dv_world := w' \<rparr>"
  let ?t = "?s \<lparr> dv_common := False \<rparr>"
  have "driver_inv E ?t" using inv True r 2(6,7) by (auto simp: driver_inv_def acct_def)
  from adapter_release_ok [of E ?t] this r obtain s1 where 3: "adapter_release ?t = Some s1" "driver_inv E (s1 \<lparr> dv_common := False \<rparr>)"
      "dv_refs s1 = dv_refs s - 1" "dv_bands s1 = b'" "dv_shm s1 = g'" "m_SubdeviceCache (dv_world s1) = []"
      "dv_refs s = 1 \<longrightarrow> dv_instances s1 = 0 \<and> refs (dv_world s1) = count E" using 2(6) by auto
  have "map_option (\<lambda>x. x \<lparr> dv_common := False \<rparr>) (adapter_release ?s) = map_option (\<lambda>x. x \<lparr> dv_common := False \<rparr>) (adapter_release ?t)"
    by (auto simp: adapter_release_def split: bind_splits)
  then obtain s2 where 4: "adapter_release ?s = Some s2" "s2 \<lparr> dv_common := False \<rparr> = s1 \<lparr> dv_common := False \<rparr>"
    using 3(1) by (auto simp: map_option_case split: option.splits)
  have "PnpHandler starts d irp s = Some (d, False, None, s1 \<lparr> dv_common := False \<rparr>)"
    using True rem 1 4 by (cases irp) (simp_all add: PnpHandler_def removes_def)
  then show ?thesis using True 2 3 by (auto simp: cleaned_def)
qed

lemma PnpHandler_ok:
  assumes inv: "driver_inv E s" and ok: "irp_ok irp s"
  shows "\<exists>st completed info s'. PnpHandler starts d irp s = Some (st, completed, info, s') \<and> driver_inv E s'
    \<and> (\<not> removes irp \<longrightarrow> dv_common s' = dv_common s \<and> dv_refs s' = dv_refs s \<and> dv_instances s' = dv_instances s)"
proof (cases "removes irp")
  case True
  then show ?thesis using remove_ok [OF inv True, of starts d] by blast
next
  case False
  show ?thesis
  proof (cases irp)
    case (IRP_MN_QUERY_POWER_RELATIONS alloc info)
    show ?thesis
    proof (cases "dv_common s")
      case True
      obtain M where "relations_ok info" "length (pdos_of info) + length (m_PowerRelations (dv_adapter s)) < 4294967296"
          "dv_pdos s = count (mset (m_PowerRelations (dv_adapter s)) + mset (pdos_of info) + M)"
        using ok IRP_MN_QUERY_POWER_RELATIONS by (auto simp: irp_ok_def)
      from Update_accounted [OF this(3,1,2), of alloc] obtain st info' r' where
        1: "UpdatePowerRelations alloc info (dv_adapter s) (dv_pdos s) = Some (st, info', r')"
           "r' = count (mset (m_PowerRelations (dv_adapter s)) + mset (pdos_of info') + M)" by blast
      have "\<exists>N. r' = count (mset (m_PowerRelations (dv_adapter s)) + N)" using 1(2) by (auto simp: add.assoc)
      then have "driver_inv E (s \<lparr> dv_pdos := r' \<rparr>)" using inv True by (auto simp: driver_inv_def)
      then show ?thesis using 1(1) True IRP_MN_QUERY_POWER_RELATIONS by (auto simp: PnpHandler_def)
    next
      case False
      then show ?thesis using inv IRP_MN_QUERY_POWER_RELATIONS by (auto simp: PnpHandler_def removes_def)
    qed
  qed (use False inv in \<open>auto simp: PnpHandler_def removes_def\<close>)
qed

section \<open>Histories\<close>

text \<open>
  The device is started, gets requests, its managers run, devices are added to and removed from the
  power relations, the power state changes, and others take and drop references on the adapter.
\<close>

inductive driver_step :: "driver \<Rightarrow> driver \<Rightarrow> bool" where
  start: "start_ok e \<Longrightarrow> StartDevice cf e s = Some (st, s') \<Longrightarrow> driver_step s s'"
| irp: "irp_ok irp s \<Longrightarrow> PnpHandler starts d irp s = Some (st, completed, info, s') \<Longrightarrow> driver_step s s'"
| bth: "dv_common s \<Longrightarrow> EnableCleanup (BthHfp (dv_bands s)) \<Longrightarrow> sb_step (BthHfp (dv_bands s)) b \<Longrightarrow>
    driver_step s (s \<lparr> dv_bands := put_bth b (dv_bands s) \<rparr>)"
| usb: "dv_common s \<Longrightarrow> EnableCleanup (UsbSideband (dv_bands s)) \<Longrightarrow> sb_step (UsbSideband (dv_bands s)) b \<Longrightarrow>
    driver_step s (s \<lparr> dv_bands := put_usb b (dv_bands s) \<rparr>)"
| a2dp: "dv_common s \<Longrightarrow> EnableCleanup (A2dpSideband (dv_bands s)) \<Longrightarrow> sb_step (A2dpSideband (dv_bands s)) b \<Longrightarrow>
    driver_step s (s \<lparr> dv_bands := put_a2dp b (dv_bands s) \<rparr>)"
| depend: "dv_common s \<Longrightarrow> AddDeviceAsPowerDependency alloc p (dv_adapter s) (dv_pdos s) = (st, a, r) \<Longrightarrow>
    driver_step s (s \<lparr> dv_adapter := a, dv_pdos := r \<rparr>)"
| undepend: "dv_common s \<Longrightarrow> RemoveDeviceAsPowerDependency p (dv_adapter s) (dv_pdos s) = Some (st, a, r) \<Longrightarrow>
    driver_step s (s \<lparr> dv_adapter := a, dv_pdos := r \<rparr>)"
| power: "dv_common s \<Longrightarrow> driver_step s (s \<lparr> dv_adapter := snd (PowerChangeState p (dv_world s) (dv_adapter s)) \<rparr>)"
| take_ref: "0 < dv_refs s \<Longrightarrow> driver_step s (s \<lparr> dv_refs := dv_refs s + 1 \<rparr>)"
| drop_ref: "(if dv_common s then 1 else 0) < dv_refs s \<Longrightarrow> adapter_release s = Some s' \<Longrightarrow> driver_step s s'"

text \<open>Before the first start there is no adapter.\<close>

definition driver_fresh :: "obj multiset \<Rightarrow> driver \<Rightarrow> bool" where
  "driver_fresh E s \<longleftrightarrow> dv_instances s = 0 \<and> \<not> dv_common s \<and> dv_refs s = 0 \<and> acct (dv_world s) E
     \<and> m_SubdeviceCache (dv_world s) = [] \<and> (\<exists>M. dv_pdos s = count M)"

inductive driver_reachable :: "obj multiset \<Rightarrow> driver \<Rightarrow> bool" for E where
  init: "driver_fresh E s \<Longrightarrow> driver_reachable E s"
| step: "driver_reachable E s \<Longrightarrow> driver_step s s' \<Longrightarrow> driver_reachable E s'"

lemma band_step: "band_ok x \<Longrightarrow> EnableCleanup x \<Longrightarrow> sb_step x y \<Longrightarrow> band_ok y"
  by (auto simp: band_ok_def intro: sb_reachable.step)

lemma bands_put:
  "bands_ok 3 b \<Longrightarrow> band_ok x \<Longrightarrow> bands_ok 3 (put_bth x b)"
  "bands_ok 3 b \<Longrightarrow> band_ok x \<Longrightarrow> bands_ok 3 (put_usb x b)"
  "bands_ok 3 b \<Longrightarrow> band_ok x \<Longrightarrow> bands_ok 3 (put_a2dp x b)"
  by (simp_all add: bands_ok_def put_bth_def put_usb_def put_a2dp_def)

lemma inv_bands: "driver_inv E s \<Longrightarrow> dv_common s \<Longrightarrow> bands_ok 3 b \<Longrightarrow> driver_inv E (s \<lparr> dv_bands := b \<rparr>)"
  by (simp add: driver_inv_def)

lemma inv_adapter:
  "driver_inv E s \<Longrightarrow> dv_common s \<Longrightarrow> helper_refs a = helper_refs (dv_adapter s) \<Longrightarrow>
     \<exists>M. r = count (mset (m_PowerRelations a) + M) \<Longrightarrow> driver_inv E (s \<lparr> dv_adapter := a, dv_pdos := r \<rparr>)"
  by (auto simp: driver_inv_def)

lemma inv_relations: "driver_inv E s \<Longrightarrow> dv_common s \<Longrightarrow> \<exists>M. dv_pdos s = count (mset (m_PowerRelations (dv_adapter s)) + M)"
  by (auto simp: driver_inv_def split: if_splits)

lemma driver_step_inv: "driver_step s s' \<Longrightarrow> driver_inv E s \<Longrightarrow> driver_inv E s'"
proof (induction rule: driver_step.induct)
  case (start e cf s st s')
  then show ?case using StartDevice_ok [of E s e cf] by auto
next
  case (irp i s starts d st completed info s')
  then show ?case using PnpHandler_ok [of E s i starts d] by auto
next
  case (bth s b)
  then have "bands_ok 3 (dv_bands s)" "band_ok (BthHfp (dv_bands s))" by (auto simp: driver_inv_def bands_ok_def)
  then show ?case using bth bands_put(1) band_step inv_bands by blast
next
  case (usb s b)
  then have "bands_ok 3 (dv_bands s)" "band_ok (UsbSideband (dv_bands s))" by (auto simp: driver_inv_def bands_ok_def)
  then show ?case using usb bands_put(2) band_step inv_bands by blast
next
  case (a2dp s b)
  then have "bands_ok 3 (dv_bands s)" "band_ok (A2dpSideband (dv_bands s))" by (auto simp: driver_inv_def bands_ok_def)
  then show ?case using a2dp bands_put(3) band_step inv_bands by blast
next
  case (depend s alloc p st a r)
  obtain M where "dv_pdos s = count (mset (m_PowerRelations (dv_adapter s)) + M)" using inv_relations depend by blast
  from Add_accounted [OF this, of alloc p] have "r = count (mset (m_PowerRelations a) + M)" using depend by simp
  moreover have "helper_refs a = helper_refs (dv_adapter s)"
    using depend(2) by (auto simp: AddDeviceAsPowerDependency_def helper_refs_def split: if_splits)
  ultimately show ?case using depend inv_adapter by blast
next
  case (undepend s p st a r)
  obtain M where "dv_pdos s = count (mset (m_PowerRelations (dv_adapter s)) + M)" using inv_relations undepend by blast
  from Remove_accounted [OF this, of p] have "r = count (mset (m_PowerRelations a) + M)" using undepend by auto
  moreover have "helper_refs a = helper_refs (dv_adapter s)"
    using undepend(2) by (auto simp: RemoveDeviceAsPowerDependency_def helper_refs_def split: bind_splits)
  ultimately show ?case using undepend inv_adapter by blast
next
  case (power s p)
  let ?a = "snd (PowerChangeState p (dv_world s) (dv_adapter s))"
  have "helper_refs ?a = helper_refs (dv_adapter s)" "m_PowerRelations ?a = m_PowerRelations (dv_adapter s)"
    by (simp_all add: PowerChangeState_def helper_refs_def split: DEVICE_POWER_STATE.split)
  then show ?case using power by (auto simp: driver_inv_def)
next
  case (take_ref s)
  then show ?case by (auto simp: driver_inv_def)
next
  case (drop_ref s s')
  show ?case
  proof (cases "dv_common s")
    case True
    then show ?thesis using drop_ref by (auto simp: adapter_release_def driver_inv_def)
  next
    case False
    then have "s \<lparr> dv_common := False \<rparr> = s" by simp
    with adapter_release_ok [of E s] drop_ref False obtain t where "adapter_release s = Some t"
        "driver_inv E (t \<lparr> dv_common := False \<rparr>)" "dv_common t = dv_common s" by auto
    moreover have "t \<lparr> dv_common := False \<rparr> = t" using calculation(3) False by simp
    ultimately show ?thesis using drop_ref by simp
  qed
qed

lemma reachable_inv: "driver_reachable E s \<Longrightarrow> driver_inv E s"
proof (induction rule: driver_reachable.induct)
  case (init s)
  then show ?case by (auto simp: driver_fresh_def driver_inv_def)
qed (rule driver_step_inv)

text \<open>A failed allocation of the adapter leaves the instance counted although there is none.\<close>

definition slot_lost :: "driver \<Rightarrow> bool" where
  "slot_lost s \<longleftrightarrow> dv_refs s = 0 \<and> dv_instances s = 1 \<and> \<not> dv_common s"

lemma slot_lost_step: "driver_step s s' \<Longrightarrow> slot_lost s \<Longrightarrow> slot_lost s'"
proof (induction rule: driver_step.induct)
  case (start e cf s st s')
  then show ?case by (auto simp: slot_lost_def StartDevice_def NewAdapterCommon_def NT_SUCCESS_def status_defs)
next
  case (irp i s starts d st completed info s')
  then show ?case by (cases i) (auto simp: slot_lost_def PnpHandler_def)
qed (auto simp: slot_lost_def)

text \<open>
  C26. Over every history of starts, requests, notifications and rounds of the work items, changes of
  the power relations and references of others: there is at most one adapter; a start runs without a
  fault, is refused with STATUS_DEVICE_BUSY while an adapter is counted, and otherwise leaves the
  adapter in the device extension exactly when its allocation succeeded, whatever failed later; every
  request is handled without a fault; a removal cleans the adapter up (managers, shared section, cache)
  and clears the pointer to it, and the last reference destroys it, leaving exactly the references of
  others. But after a start whose allocation failed no adapter can be created any more.
\<close>

theorem pnp_safe:
  assumes "driver_reachable E s"
  shows "dv_instances s \<in> {0, 1} \<and> (0 < dv_refs s \<longrightarrow> dv_instances s = 1)
    \<and> (start_ok e \<longrightarrow> (\<exists>st s'. StartDevice cf e s = Some (st, s') \<and> driver_reachable E s'
         \<and> (if dv_instances s = 0 then dv_common s' = sv_alloc e \<and> (NT_SUCCESS st \<longrightarrow> sv_alloc e) \<and> (\<not> sv_alloc e \<longrightarrow> slot_lost s')
            else st = STATUS_DEVICE_BUSY \<and> s' = s)))
    \<and> (irp_ok irp s \<longrightarrow> (\<exists>st completed info s'. PnpHandler starts d irp s = Some (st, completed, info, s') \<and> driver_reachable E s'
         \<and> (removes irp \<and> dv_common s \<longrightarrow> \<not> dv_common s' \<and> cleaned s s'
              \<and> (dv_refs s = 1 \<longrightarrow> dv_refs s' = 0 \<and> dv_instances s' = 0 \<and> refs (dv_world s') = count E))))
    \<and> (slot_lost s \<and> driver_step s t \<longrightarrow> slot_lost t)"
proof -
  note inv = reachable_inv [OF assms]
  have "dv_instances s \<in> {0, 1} \<and> (0 < dv_refs s \<longrightarrow> dv_instances s = 1)" using inv by (simp add: driver_inv_def)
  moreover have "\<exists>st s'. StartDevice cf e s = Some (st, s') \<and> driver_reachable E s'
      \<and> (if dv_instances s = 0 then dv_common s' = sv_alloc e \<and> (NT_SUCCESS st \<longrightarrow> sv_alloc e) \<and> (\<not> sv_alloc e \<longrightarrow> slot_lost s')
         else st = STATUS_DEVICE_BUSY \<and> s' = s)" if e: "start_ok e"
  proof -
    obtain st s' where s': "StartDevice cf e s = Some (st, s')" "dv_common s' \<longleftrightarrow> dv_common s \<or> dv_instances s = 0 \<and> sv_alloc e"
        "dv_instances s \<noteq> 0 \<longrightarrow> st = STATUS_DEVICE_BUSY \<and> s' = s" "NT_SUCCESS st \<longrightarrow> dv_common s'"
      using StartDevice_ok [OF inv e, of cf] by blast
    have "dv_instances s = 0 \<Longrightarrow> \<not> dv_common s \<and> dv_refs s = 0" using inv by (auto simp: driver_inv_def)
    moreover have "\<not> sv_alloc e \<Longrightarrow> dv_instances s = 0 \<Longrightarrow> slot_lost s'"
      using s'(1) calculation by (auto simp: slot_lost_def StartDevice_def NewAdapterCommon_def NT_SUCCESS_def status_defs)
    ultimately show ?thesis using s' driver_reachable.step [OF assms driver_step.start [OF e s'(1)]] by auto
  qed
  moreover have "\<exists>st completed info s'. PnpHandler starts d irp s = Some (st, completed, info, s') \<and> driver_reachable E s'
      \<and> (removes irp \<and> dv_common s \<longrightarrow> \<not> dv_common s' \<and> cleaned s s'
           \<and> (dv_refs s = 1 \<longrightarrow> dv_refs s' = 0 \<and> dv_instances s' = 0 \<and> refs (dv_world s') = count E))" if i: "irp_ok irp s"
  proof -
    obtain st completed info s' where 1: "PnpHandler starts d irp s = Some (st, completed, info, s')"
      using PnpHandler_ok [OF inv i, of starts d] by blast
    show ?thesis using 1 driver_reachable.step [OF assms driver_step.irp [OF i 1]] remove_ok [OF inv, of irp starts d] by auto
  qed
  ultimately show ?thesis using slot_lost_step by blast
qed

text \<open>A driver that was just loaded, and a start that finds no memory for the hardware object.\<close>

definition sample_render_env :: render_env where
  "sample_render_env = \<lparr> rv_filters = good_calls (good_install 1 2), rv_etw = STATUS_SUCCESS, rv_power = STATUS_SUCCESS,
     rv_send = STATUS_NOT_SUPPORTED, rv_add_callback = STATUS_SUCCESS, rv_remove_callback = STATUS_SUCCESS,
     rv_resources = STATUS_SUCCESS, rv_resources2 = STATUS_SUCCESS \<rparr>"

definition sample_bands :: adapter_bands where
  "sample_bands = \<lparr> BthHfp = blank_band, UsbSideband = blank_band, A2dpSideband = blank_band \<rparr>"

definition sample_start_env :: start_env where
  "sample_start_env = \<lparr> sv_alloc = True, sv_raw = sample_adapter, sv_raw_bands = sample_bands, sv_object = 1,
     sv_init = \<lparr> av_pdo = (STATUS_SUCCESS, 3), av_wdf = STATUS_SUCCESS, av_hw = None, av_shm_create = STATUS_SUCCESS,
                 av_shm_map = STATUS_SUCCESS \<rparr>, sv_register = STATUS_SUCCESS, sv_render = (\<lambda>_. sample_render_env),
     sv_capture = (\<lambda>_. good_calls (good_install 5 6)), sv_bth = (STATUS_SUCCESS, STATUS_SUCCESS),
     sv_usb = (STATUS_SUCCESS, STATUS_SUCCESS), sv_a2dp = (STATUS_SUCCESS, STATUS_SUCCESS, STATUS_SUCCESS, STATUS_SUCCESS),
     sv_pofx = STATUS_UNSUCCESSFUL \<rparr>"

definition sample_driver_config :: driver_config where
  "sample_driver_config = \<lparr> g_RenderEndpoints = [speaker], g_CaptureEndpoints = [], dc_DisableBthScoBypass = 0,
     dc_DisableUsbSideband = 0, dc_DisableA2dpSideband = 1 \<rparr>"

definition sample_driver :: driver where
  "sample_driver = \<lparr> dv_instances = 0, dv_common = False, dv_refs = 0, dv_adapter = sample_adapter, dv_bands = sample_bands,
     dv_shm = \<lparr> g_ShmBase = None, g_ShmHandle = False \<rparr>, dv_world = empty_adapter, dv_pdos = (\<lambda>_. 0) \<rparr>"

lemma sample_driver_fresh: "driver_reachable {#} sample_driver"
proof (rule driver_reachable.init)
  have "(\<lambda>_. 0) = count {#}" by (simp add: fun_eq_iff)
  then show "driver_fresh {#} sample_driver" unfolding driver_fresh_def
    by (auto simp: sample_driver_def) (simp add: empty_adapter_def)
qed

lemma sample_start_ok: "start_ok sample_start_env"
  by (simp add: start_ok_def sample_start_env_def sample_render_env_def sample_bands_def filters_ok_def good_calls_def
      blank_def blank_band_def)

lemma pnp_safe_witness:
  "\<exists>st s1 s2. StartDevice sample_driver_config sample_start_env sample_driver = Some (st, s1) \<and> dv_common s1
     \<and> PnpHandler (\<lambda>_. STATUS_SUCCESS) STATUS_SUCCESS IRP_MN_SURPRISE_REMOVAL s1 = Some (STATUS_SUCCESS, False, None, s2)
     \<and> \<not> dv_common s2 \<and> m_SubdeviceCache (dv_world s2) = []"
proof -
  have i: "dv_instances sample_driver = 0" "sv_alloc sample_start_env" by (simp_all add: sample_driver_def sample_start_env_def)
  obtain st s1 where 1: "StartDevice sample_driver_config sample_start_env sample_driver = Some (st, s1)" "driver_reachable {#} s1"
      "dv_common s1"
    using pnp_safe [OF sample_driver_fresh, THEN conjunct2, THEN conjunct2, THEN conjunct1, THEN mp, OF sample_start_ok,
        of sample_driver_config] i by auto
  have "irp_ok IRP_MN_SURPRISE_REMOVAL s1" "removes IRP_MN_SURPRISE_REMOVAL" by (simp_all add: irp_ok_def removes_def)
  then obtain s2 where "PnpHandler (\<lambda>_. STATUS_SUCCESS) STATUS_SUCCESS IRP_MN_SURPRISE_REMOVAL s1 = Some (STATUS_SUCCESS, False, None, s2)"
      "\<not> dv_common s2" "cleaned s1 s2"
    using pnp_safe [OF 1(2), THEN conjunct2, THEN conjunct2, THEN conjunct2, THEN conjunct1, THEN mp, of IRP_MN_SURPRISE_REMOVAL
        "\<lambda>_. STATUS_SUCCESS" STATUS_SUCCESS] 1(3)
    by (auto simp: PnpHandler_def split: bind_splits)
  then show ?thesis using 1 by (auto simp: cleaned_def)
qed

section \<open>Status of the render filters\<close>

text \<open>
  The status of an installed render endpoint is that of its last query alone: the outcome of the
  registration for power control is lost, and a port without the second resource manager interface
  makes the installation fail although its filters are in place.
\<close>

lemma render_status:
  assumes "filters_at E (a, w)" and "filters_ok (rv_filters e)"
    and "InstallEndpointFilters (rv_filters e) pair want_filters w = Some (st0, outs, w1)"
  shows "\<exists>a' w'. InstallEndpointRenderFilters e pair (a, w)
       = Some (if out_wave outs = None then st0 else rv_resources2 e, a', w')"
proof -
  from render_ok [OF assms(1,2), of pair] obtain st a' w' where
    1: "InstallEndpointRenderFilters e pair (a, w) = Some (st, a', w')" by blast
  moreover have "st = (if out_wave outs = None then st0 else rv_resources2 e)"
    using 1 assms(3) by (auto simp: InstallEndpointRenderFilters_def render_interfaces_def Let_def split: bind_splits option.splits if_splits)
  ultimately show ?thesis by blast
qed

section \<open>Loading and unloading\<close>

text \<open>
  A failed DriverEntry leaves neither the registry path nor the WDF driver behind, and installs none
  of the hooks; a loaded driver is unloaded completely.
\<close>

lemma DriverEntry_outcome:
  assumes "CHR 0x00 \<in> set (us_Buffer path)" and "\<not> dg_WdfDriver g" and "\<not> dg_PnpHandler g" and "\<not> dg_DriverUnload g"
  shows "\<exists>st g'. DriverEntry e path g = Some (st, g') \<and> (g_RegistryPath g' \<noteq> None \<longleftrightarrow> NT_SUCCESS st)
     \<and> (dg_WdfDriver g' \<longleftrightarrow> NT_SUCCESS st) \<and> (dg_PnpHandler g' \<longleftrightarrow> NT_SUCCESS st) \<and> (dg_DriverUnload g' \<longleftrightarrow> NT_SUCCESS st)
     \<and> (NT_SUCCESS st \<longrightarrow> DriverUnload True g' = (gPCDriverUnloadRoutine g', g' \<lparr> g_RegistryPath := None, dg_WdfDriver := False \<rparr>))"
proof -
  have q: "dg_WdfDriver (query_registry reg paramTable x) = dg_WdfDriver x \<and> g_RegistryPath (query_registry reg paramTable x) = g_RegistryPath x
      \<and> dg_PnpHandler (query_registry reg paramTable x) = dg_PnpHandler x \<and> dg_DriverUnload (query_registry reg paramTable x) = dg_DriverUnload x"
    for reg x by (simp add: paramTable_def split: option.split)
  show ?thesis
    using assms by (cases "ev_alloc e"; cases "NT_SUCCESS (ev_wdf e)"; cases "NT_SUCCESS (ev_open e)"; cases "NT_SUCCESS (ev_pc e)")
      (simp_all add: DriverEntry_def CopyRegistrySettingsPath_def GetRegistrySettings_def ReleaseRegistryStringBuffer_def
        DriverUnload_def Let_def q NT_SUCCESS_codes)
qed

end
