(* ===== verification/MiniPairs.thy ===== *)
theory MiniPairs
  imports FilterProps PnpDriver
begin

text \<open>
  minipairs.h: the endpoints of the driver as pairs of a topology and a wave filter, with the
  connections between them, the properties of their interfaces, formats and flags, and the two
  tables DriverEntry and StartDevice work with. The filters of the two speakers and of the first
  microphone array come from headers that are not in the repository; they are parameters.
\<close>

unbundle bit_operations_syntax

named_theorems pair_defs

section \<open>Packet size constraints\<close>

definition HNSTIME_PER_MILLISECOND :: nat where [pair_defs]: "HNSTIME_PER_MILLISECOND = 10000"
definition FILE_BYTE_ALIGNMENT :: nat where [pair_defs]: "FILE_BYTE_ALIGNMENT = 0"

record mode_constraint =
  ProcessingMode :: signal_mode
  SamplesPerProcessingPacket :: nat
  ProcessingPacketDurationInHns :: nat

text \<open>\<open>AdditionalConstraints\<close> are those behind the structure, whose first constraint is part of it.\<close>

record packet_constraints =
  MinPacketPeriodInHns :: nat
  PacketSizeFileAlignment :: nat
  MaxPacketSizeInBytes :: nat
  NumProcessingModeConstraints :: nat
  ProcessingModeConstraints :: mode_constraint
  AdditionalConstraints :: "mode_constraint list"

definition sizeof_constraints :: "packet_constraints \<Rightarrow> nat" where
  "sizeof_constraints c = 40 + 24 * length (AdditionalConstraints c)"

definition SysvadWaveRtPacketSizeConstraintsRender :: packet_constraints where [pair_defs]:
  "SysvadWaveRtPacketSizeConstraintsRender = packet_constraints.make (2 * HNSTIME_PER_MILLISECOND) FILE_BYTE_ALIGNMENT 0 2
     (mode_constraint.make SIGNALPROCESSINGMODE_DEFAULT 128 0) [mode_constraint.make SIGNALPROCESSINGMODE_MOVIE 1024 0]"

definition SysvadWaveRtPacketSizeConstraintsCapture :: packet_constraints where [pair_defs]:
  "SysvadWaveRtPacketSizeConstraintsCapture = packet_constraints.make (2 * HNSTIME_PER_MILLISECOND) FILE_BYTE_ALIGNMENT
    0x100000 1
     (mode_constraint.make SIGNALPROCESSINGMODE_COMMUNICATIONS 0 (20 * HNSTIME_PER_MILLISECOND)) []"

datatype interface_key = DEVPKEY_KsAudio_PacketSize_Constraints2
datatype interface_type = DEVPROP_TYPE_BINARY

record interface_property =
  InterfaceKey :: interface_key
  InterfaceType :: interface_type
  InterfaceBufferSize :: nat
  InterfaceBuffer :: packet_constraints

definition SysvadWaveFilterInterfacePropertiesRender :: "interface_property list" where [pair_defs]:
  "SysvadWaveFilterInterfacePropertiesRender = [
     interface_property.make DEVPKEY_KsAudio_PacketSize_Constraints2 DEVPROP_TYPE_BINARY
       (sizeof_constraints SysvadWaveRtPacketSizeConstraintsRender) SysvadWaveRtPacketSizeConstraintsRender]"

definition SysvadWaveFilterInterfacePropertiesCapture :: "interface_property list" where [pair_defs]:
  "SysvadWaveFilterInterfacePropertiesCapture = [
     interface_property.make DEVPKEY_KsAudio_PacketSize_Constraints2 DEVPROP_TYPE_BINARY
       (sizeof_constraints SysvadWaveRtPacketSizeConstraintsCapture) SysvadWaveRtPacketSizeConstraintsCapture]"

section \<open>The endpoints\<close>

datatype static_device = eSpeakerDevice | eSpeakerHpDevice | eHdmiRenderDevice | eSpdifRenderDevice | eMicInDevice
  | eMicArrayDevice1 | eMicArrayDevice2 | eMicArrayDevice3

datatype create_miniport = CreateMiniportTopologySYSVAD | CreateMicArrayMiniportTopology | CreateHdmiMiniportTopology
  | CreateMiniportWaveRTSYSVAD

definition ENDPOINT_NO_FLAGS :: ULONG where [pair_defs]: "ENDPOINT_NO_FLAGS = 0"
definition ENDPOINT_OFFLOAD_SUPPORTED :: ULONG where [pair_defs]: "ENDPOINT_OFFLOAD_SUPPORTED = 1"
definition ENDPOINT_LOOPBACK_SUPPORTED :: ULONG where [pair_defs]: "ENDPOINT_LOOPBACK_SUPPORTED = 2"
definition ENDPOINT_SOUNDDETECTOR_SUPPORTED :: ULONG where [pair_defs]: "ENDPOINT_SOUNDDETECTOR_SUPPORTED = 4"

text \<open>The whole ENDPOINT_MINIPAIR; SubdeviceCache has the part the installation of the filters reads.\<close>

record static_pair = ENDPOINT_MINIPAIR +
  DeviceType :: static_device
  TopoCreateCallback :: create_miniport
  TopoDescriptor :: PCFILTER_DESCRIPTOR
  TopoPropertyCount :: nat
  TopoProperties :: "interface_property list option"
  WaveCreateCallback :: create_miniport
  WaveDescriptor :: PCFILTER_DESCRIPTOR
  WavePropertyCount :: nat
  WaveProperties :: "interface_property list option"
  DeviceMaxChannels :: nat
  PairFormats :: "PIN_DEVICE_FORMATS_AND_MODES list"
  PairFormatsCount :: nat
  PhysicalConnectionCount :: nat
  DeviceFlags :: ULONG
  ModuleList :: "string list option"
  ModuleListCount :: nat
  ModuleNotificationDeviceId :: "string option"

text \<open>What the headers that are not in the repository give for an endpoint.\<close>

record foreign_pair =
  f_topo :: PCFILTER_DESCRIPTOR
  f_wave :: PCFILTER_DESCRIPTOR
  f_channels :: nat
  f_formats :: "PIN_DEVICE_FORMATS_AND_MODES list"
  f_modules :: "string list"
  f_notification :: string

definition SpeakerTopologyPhysicalConnections :: "headers \<Rightarrow> PHYSICALCONNECTIONTABLE list" where [pair_defs]:
  "SpeakerTopologyPhysicalConnections h = [PHYSICALCONNECTIONTABLE.make (enum h PIN_TOPO_WAVEOUT_SOURCE) (enum h
    PIN_WAVE_RENDER_SOURCE) CONNECTIONTYPE_WAVE_OUTPUT]"

definition SpeakerMiniports :: "foreign_pair \<Rightarrow> headers \<Rightarrow> static_pair" where [pair_defs]:
  "SpeakerMiniports f h = \<lparr>
     TopoName = ''TopologySpeaker'', TemplateTopoName = None, WaveName = ''WaveSpeaker'', TemplateWaveName = None,
     PhysicalConnections = SpeakerTopologyPhysicalConnections h, DeviceType = eSpeakerDevice,
     TopoCreateCallback = CreateMiniportTopologySYSVAD, TopoDescriptor = f_topo f, TopoPropertyCount = 0, TopoProperties = None,
     WaveCreateCallback = CreateMiniportWaveRTSYSVAD, WaveDescriptor = f_wave f,
     WavePropertyCount = length SysvadWaveFilterInterfacePropertiesRender, WaveProperties = Some
       SysvadWaveFilterInterfacePropertiesRender,
     DeviceMaxChannels = f_channels f, PairFormats = f_formats f, PairFormatsCount = length (f_formats f),
     PhysicalConnectionCount = length (SpeakerTopologyPhysicalConnections h), DeviceFlags = ENDPOINT_OFFLOAD_SUPPORTED,
     ModuleList = Some (f_modules f), ModuleListCount = length (f_modules f), ModuleNotificationDeviceId = Some
       (f_notification f) \<rparr>"

definition SpeakerHpTopologyPhysicalConnections :: "headers \<Rightarrow> PHYSICALCONNECTIONTABLE list" where [pair_defs]:
  "SpeakerHpTopologyPhysicalConnections h = [PHYSICALCONNECTIONTABLE.make (enum h PIN_TOPO_WAVEOUT_SOURCE) (enum h
    PIN_WAVE_RENDER_SOURCE) CONNECTIONTYPE_WAVE_OUTPUT]"

definition SpeakerHpMiniports :: "foreign_pair \<Rightarrow> headers \<Rightarrow> static_pair" where [pair_defs]:
  "SpeakerHpMiniports f h = \<lparr>
     TopoName = ''TopologySpeakerHeadphone'', TemplateTopoName = None, WaveName = ''WaveSpeakerHeadphone'',
       TemplateWaveName = None,
     PhysicalConnections = SpeakerHpTopologyPhysicalConnections h, DeviceType = eSpeakerHpDevice,
     TopoCreateCallback = CreateMiniportTopologySYSVAD, TopoDescriptor = f_topo f, TopoPropertyCount = 0, TopoProperties = None,
     WaveCreateCallback = CreateMiniportWaveRTSYSVAD, WaveDescriptor = f_wave f,
     WavePropertyCount = 0, WaveProperties = None,
     DeviceMaxChannels = f_channels f, PairFormats = f_formats f, PairFormatsCount = length (f_formats f),
     PhysicalConnectionCount = length (SpeakerHpTopologyPhysicalConnections h), DeviceFlags = ENDPOINT_OFFLOAD_SUPPORTED,
     ModuleList = Some (f_modules f), ModuleListCount = length (f_modules f), ModuleNotificationDeviceId = Some
       (f_notification f) \<rparr>"

definition HdmiTopologyPhysicalConnections :: "headers \<Rightarrow> PHYSICALCONNECTIONTABLE list" where [pair_defs]:
  "HdmiTopologyPhysicalConnections h = [PHYSICALCONNECTIONTABLE.make (enum h PIN_TOPO_WAVEOUT_SOURCE) (enum h
    PIN_WAVE_RENDER2_SOURCE) CONNECTIONTYPE_WAVE_OUTPUT]"

definition HdmiMiniports :: "headers \<Rightarrow> static_pair" where [pair_defs]:
  "HdmiMiniports h = \<lparr>
     TopoName = ''TopologyHdmi'', TemplateTopoName = None, WaveName = ''WaveHdmi'', TemplateWaveName = None,
     PhysicalConnections = HdmiTopologyPhysicalConnections h, DeviceType = eHdmiRenderDevice,
     TopoCreateCallback = CreateHdmiMiniportTopology, TopoDescriptor = HdmiTopoMiniportFilterDescriptor h,
       TopoPropertyCount = 0, TopoProperties = None,
     WaveCreateCallback = CreateMiniportWaveRTSYSVAD, WaveDescriptor = HdmiWaveMiniportFilterDescriptor h,
     WavePropertyCount = 0, WaveProperties = None,
     DeviceMaxChannels = HDMI_DEVICE_MAX_CHANNELS, PairFormats = HdmiPinDeviceFormatsAndModes, PairFormatsCount = length
       HdmiPinDeviceFormatsAndModes,
     PhysicalConnectionCount = length (HdmiTopologyPhysicalConnections h), DeviceFlags = ENDPOINT_LOOPBACK_SUPPORTED,
     ModuleList = None, ModuleListCount = 0, ModuleNotificationDeviceId = None \<rparr>"

definition SpdifTopologyPhysicalConnections :: "headers \<Rightarrow> PHYSICALCONNECTIONTABLE list" where [pair_defs]:
  "SpdifTopologyPhysicalConnections h = [PHYSICALCONNECTIONTABLE.make (enum h PIN_TOPO_WAVEOUT_SOURCE) (enum h
    PIN_WAVE_RENDER_SOURCE) CONNECTIONTYPE_WAVE_OUTPUT]"

definition SpdifMiniports :: "headers \<Rightarrow> static_pair" where [pair_defs]:
  "SpdifMiniports h = \<lparr>
     TopoName = ''TopologySpdif'', TemplateTopoName = None, WaveName = ''WaveSpdif'', TemplateWaveName = None,
     PhysicalConnections = SpdifTopologyPhysicalConnections h, DeviceType = eSpdifRenderDevice,
     TopoCreateCallback = CreateMiniportTopologySYSVAD, TopoDescriptor = SpdifTopoMiniportFilterDescriptor h,
       TopoPropertyCount = 0, TopoProperties = None,
     WaveCreateCallback = CreateMiniportWaveRTSYSVAD, WaveDescriptor = SpdifWaveMiniportFilterDescriptor h,
     WavePropertyCount = length SysvadWaveFilterInterfacePropertiesRender, WaveProperties = Some
       SysvadWaveFilterInterfacePropertiesRender,
     DeviceMaxChannels = SPDIF_DEVICE_MAX_CHANNELS, PairFormats = SpdifPinDeviceFormatsAndModes, PairFormatsCount = length
       SpdifPinDeviceFormatsAndModes,
     PhysicalConnectionCount = length (SpdifTopologyPhysicalConnections h), DeviceFlags = ENDPOINT_OFFLOAD_SUPPORTED,
     ModuleList = None, ModuleListCount = 0, ModuleNotificationDeviceId = None \<rparr>"

definition MicInTopologyPhysicalConnections :: "headers \<Rightarrow> PHYSICALCONNECTIONTABLE list" where [pair_defs]:
  "MicInTopologyPhysicalConnections h = [PHYSICALCONNECTIONTABLE.make (enum h PIN_TOPO_BRIDGE) (enum h PIN_WAVE_BRIDGE)
    CONNECTIONTYPE_TOPOLOGY_OUTPUT]"

definition MicInMiniports :: "headers \<Rightarrow> static_pair" where [pair_defs]:
  "MicInMiniports h = \<lparr>
     TopoName = ''TopologyMicIn'', TemplateTopoName = None, WaveName = ''WaveMicIn'', TemplateWaveName = None,
     PhysicalConnections = MicInTopologyPhysicalConnections h, DeviceType = eMicInDevice,
     TopoCreateCallback = CreateMiniportTopologySYSVAD, TopoDescriptor = MicInTopoMiniportFilterDescriptor h,
       TopoPropertyCount = 0, TopoProperties = None,
     WaveCreateCallback = CreateMiniportWaveRTSYSVAD, WaveDescriptor = MicInWaveMiniportFilterDescriptor h,
     WavePropertyCount = 0, WaveProperties = None,
     DeviceMaxChannels = MICIN_DEVICE_MAX_CHANNELS, PairFormats = MicInPinDeviceFormatsAndModes, PairFormatsCount = length
       MicInPinDeviceFormatsAndModes,
     PhysicalConnectionCount = length (MicInTopologyPhysicalConnections h), DeviceFlags = ENDPOINT_NO_FLAGS,
     ModuleList = None, ModuleListCount = 0, ModuleNotificationDeviceId = None \<rparr>"

definition MicArray1TopologyPhysicalConnections :: "headers \<Rightarrow> PHYSICALCONNECTIONTABLE list" where [pair_defs]:
  "MicArray1TopologyPhysicalConnections h = [PHYSICALCONNECTIONTABLE.make (enum h PIN_TOPO_BRIDGE) (enum h PIN_WAVE_BRIDGE)
    CONNECTIONTYPE_TOPOLOGY_OUTPUT]"

definition MicArray1Miniports :: "foreign_pair \<Rightarrow> headers \<Rightarrow> static_pair" where [pair_defs]:
  "MicArray1Miniports f h = \<lparr>
     TopoName = ''TopologyMicArray1'', TemplateTopoName = None, WaveName = ''WaveMicArray1'', TemplateWaveName = None,
     PhysicalConnections = MicArray1TopologyPhysicalConnections h, DeviceType = eMicArrayDevice1,
     TopoCreateCallback = CreateMicArrayMiniportTopology, TopoDescriptor = f_topo f, TopoPropertyCount = 0, TopoProperties
       = None,
     WaveCreateCallback = CreateMiniportWaveRTSYSVAD, WaveDescriptor = f_wave f,
     WavePropertyCount = length SysvadWaveFilterInterfacePropertiesCapture, WaveProperties = Some
       SysvadWaveFilterInterfacePropertiesCapture,
     DeviceMaxChannels = f_channels f, PairFormats = f_formats f, PairFormatsCount = length (f_formats f),
     PhysicalConnectionCount = length (MicArray1TopologyPhysicalConnections h), DeviceFlags = ENDPOINT_SOUNDDETECTOR_SUPPORTED,
     ModuleList = None, ModuleListCount = 0, ModuleNotificationDeviceId = None \<rparr>"

definition MicArray2TopologyPhysicalConnections :: "headers \<Rightarrow> PHYSICALCONNECTIONTABLE list" where [pair_defs]:
  "MicArray2TopologyPhysicalConnections h = [PHYSICALCONNECTIONTABLE.make (enum h PIN_TOPO_BRIDGE) (enum h PIN_WAVE_BRIDGE)
    CONNECTIONTYPE_TOPOLOGY_OUTPUT]"

definition MicArray2Miniports :: "headers \<Rightarrow> static_pair" where [pair_defs]:
  "MicArray2Miniports h = \<lparr>
     TopoName = ''TopologyMicArray2'', TemplateTopoName = None, WaveName = ''WaveMicArray2'', TemplateWaveName = None,
     PhysicalConnections = MicArray2TopologyPhysicalConnections h, DeviceType = eMicArrayDevice2,
     TopoCreateCallback = CreateMicArrayMiniportTopology, TopoDescriptor = MicArray2TopoMiniportFilterDescriptor h,
       TopoPropertyCount = 0, TopoProperties = None,
     WaveCreateCallback = CreateMiniportWaveRTSYSVAD, WaveDescriptor = MicArray2WaveMiniportFilterDescriptor h,
     WavePropertyCount = length SysvadWaveFilterInterfacePropertiesCapture, WaveProperties = Some
       SysvadWaveFilterInterfacePropertiesCapture,
     DeviceMaxChannels = MICARRAY2_DEVICE_MAX_CHANNELS, PairFormats = MicArray2PinDeviceFormatsAndModes, PairFormatsCount =
       length MicArray2PinDeviceFormatsAndModes,
     PhysicalConnectionCount = length (MicArray2TopologyPhysicalConnections h), DeviceFlags = ENDPOINT_SOUNDDETECTOR_SUPPORTED,
     ModuleList = None, ModuleListCount = 0, ModuleNotificationDeviceId = None \<rparr>"

definition MicArray3TopologyPhysicalConnections :: "headers \<Rightarrow> PHYSICALCONNECTIONTABLE list" where [pair_defs]:
  "MicArray3TopologyPhysicalConnections h = [PHYSICALCONNECTIONTABLE.make (enum h PIN_TOPO_BRIDGE) (enum h PIN_WAVE_BRIDGE)
    CONNECTIONTYPE_TOPOLOGY_OUTPUT]"

definition MicArray3Miniports :: "headers \<Rightarrow> static_pair" where [pair_defs]:
  "MicArray3Miniports h = \<lparr>
     TopoName = ''TopologyMicArray3'', TemplateTopoName = None, WaveName = ''WaveMicArray3'', TemplateWaveName = None,
     PhysicalConnections = MicArray3TopologyPhysicalConnections h, DeviceType = eMicArrayDevice3,
     TopoCreateCallback = CreateMicArrayMiniportTopology, TopoDescriptor = MicArray3TopoMiniportFilterDescriptor h,
       TopoPropertyCount = 0, TopoProperties = None,
     WaveCreateCallback = CreateMiniportWaveRTSYSVAD, WaveDescriptor = MicArray3WaveMiniportFilterDescriptor h,
     WavePropertyCount = 0, WaveProperties = None,
     DeviceMaxChannels = MICARRAY3_DEVICE_MAX_CHANNELS, PairFormats = MicArray3PinDeviceFormatsAndModes, PairFormatsCount =
       length MicArray3PinDeviceFormatsAndModes,
     PhysicalConnectionCount = length (MicArray3TopologyPhysicalConnections h), DeviceFlags = ENDPOINT_NO_FLAGS,
     ModuleList = None, ModuleListCount = 0, ModuleNotificationDeviceId = None \<rparr>"

record foreign_pairs =
  fp_speaker :: foreign_pair
  fp_headphone :: foreign_pair
  fp_array1 :: foreign_pair

definition RenderEndpoints :: "foreign_pairs \<Rightarrow> headers \<Rightarrow> static_pair list" where
  "RenderEndpoints f h = [SpeakerMiniports (fp_speaker f) h, SpeakerHpMiniports (fp_headphone f) h, HdmiMiniports h,
    SpdifMiniports h]"

definition CaptureEndpoints :: "foreign_pairs \<Rightarrow> headers \<Rightarrow> static_pair list" where
  "CaptureEndpoints f h = [MicInMiniports h, MicArray1Miniports (fp_array1 f) h, MicArray2Miniports h, MicArray3Miniports h]"

definition g_cRenderEndpoints :: "foreign_pairs \<Rightarrow> headers \<Rightarrow> nat" where
  "g_cRenderEndpoints f h = length (RenderEndpoints f h)"
definition g_cCaptureEndpoints :: "foreign_pairs \<Rightarrow> headers \<Rightarrow> nat" where
  "g_cCaptureEndpoints f h = length (CaptureEndpoints f h)"
definition g_MaxMiniports :: "foreign_pairs \<Rightarrow> headers \<Rightarrow> nat" where
  "g_MaxMiniports f h = (g_cRenderEndpoints f h + g_cCaptureEndpoints f h) * 2"

section \<open>Consistent endpoints\<close>

text \<open>A physical connection joins two bridge pins, from one out of which data flows to one into which it flows.\<close>

definition bridge :: "PCFILTER_DESCRIPTOR \<Rightarrow> nat \<Rightarrow> KSPIN_DATAFLOW \<Rightarrow> bool" where
  "bridge f p flow \<longleftrightarrow> p < PinCount f \<and> Communication (KsPinDescriptor (FilterPins f ! p)) =
    KSPIN_COMMUNICATION_NONE
     \<and> flow_of (FilterPins f ! p) = flow"

definition physical_ok :: "static_pair \<Rightarrow> PHYSICALCONNECTIONTABLE \<Rightarrow> bool" where
  "physical_ok p c \<longleftrightarrow> (case eType c of
       CONNECTIONTYPE_WAVE_OUTPUT \<Rightarrow> bridge (WaveDescriptor p) (ulWave c) KSPIN_DATAFLOW_OUT
         \<and> bridge (TopoDescriptor p) (ulTopology c) KSPIN_DATAFLOW_IN
     | CONNECTIONTYPE_TOPOLOGY_OUTPUT \<Rightarrow> bridge (TopoDescriptor p) (ulTopology c) KSPIN_DATAFLOW_OUT
         \<and> bridge (WaveDescriptor p) (ulWave c) KSPIN_DATAFLOW_IN)"

definition has_pin :: "static_pair \<Rightarrow> PINTYPE \<Rightarrow> bool" where
  "has_pin p k \<longleftrightarrow> list_ex (\<lambda>r. PinType r = k) (PairFormats p)"

definition constraints_ok :: "interface_property \<Rightarrow> bool" where
  "constraints_ok i \<longleftrightarrow> InterfaceBufferSize i = 16 + 24 * NumProcessingModeConstraints (InterfaceBuffer i)"

text \<open>The parts of a pair that do not depend on its filters, and the whole pair.\<close>

definition pair_counts_ok :: "static_pair \<Rightarrow> bool" where
  "pair_counts_ok p \<longleftrightarrow> TopoPropertyCount p = length (rows_of (TopoProperties p)) \<and>
    WavePropertyCount p = length (rows_of (WaveProperties p))
     \<and> list_all constraints_ok (rows_of (TopoProperties p) @ rows_of (WaveProperties p))
     \<and> PairFormatsCount p = length (PairFormats p) \<and> PhysicalConnectionCount p = length (PhysicalConnections p)
     \<and> PhysicalConnections p \<noteq> [] \<and> ModuleListCount p = length (rows_of (ModuleList p))
     \<and> (ModuleList p = None \<longleftrightarrow> ModuleNotificationDeviceId p = None)
     \<and> length (TopoName p) < MAX_PATH \<and> length (WaveName p) < MAX_PATH"

definition pair_ok :: "static_pair \<Rightarrow> bool" where
  "pair_ok p \<longleftrightarrow> pair_counts_ok p \<and> list_all (physical_ok p) (PhysicalConnections p)
     \<and> PinCount (WaveDescriptor p) \<le> length (PairFormats p)
     \<and> (has_flag (DeviceFlags p) ENDPOINT_OFFLOAD_SUPPORTED \<longleftrightarrow> has_pin p OffloadRenderPin)
     \<and> (has_flag (DeviceFlags p) ENDPOINT_SOUNDDETECTOR_SUPPORTED \<longleftrightarrow> has_pin p KeywordCapturePin)
     \<and> (has_flag (DeviceFlags p) ENDPOINT_LOOPBACK_SUPPORTED \<longrightarrow> has_pin p RenderLoopbackPin)"

definition own_pairs :: "headers \<Rightarrow> static_pair list" where
  "own_pairs h = [HdmiMiniports h, SpdifMiniports h, MicInMiniports h, MicArray2Miniports h, MicArray3Miniports h]"

definition endpoint_names :: "static_pair list \<Rightarrow> string list" where
  "endpoint_names ps = concat (map (\<lambda>p. [TopoName p, WaveName p]) ps)"

lemmas pair_eval = pair_ok_def pair_counts_ok_def physical_ok_def bridge_def has_pin_def constraints_ok_def
  sizeof_constraints_def
  rows_of_def flow_of_def has_flag_def const_defs makes table_consts packet_constraints.defs mode_constraint.defs
  interface_property.defs PHYSICALCONNECTIONTABLE.defs

lemma own_pairs_ok: "numbered h \<Longrightarrow> list_all pair_ok (own_pairs h)"
  by (simp add: own_pairs_def pair_eval pair_defs filter_defs table_rows numbered_enum)

lemma all_counts_ok: "list_all pair_counts_ok (RenderEndpoints f h @ CaptureEndpoints f h)"
  by (simp add: RenderEndpoints_def CaptureEndpoints_def pair_eval pair_defs table_rows)

lemma names_distinct: "distinct (endpoint_names (RenderEndpoints f h @ CaptureEndpoints f h))"
  by (simp add: endpoint_names_def RenderEndpoints_def CaptureEndpoints_def pair_defs)

lemma max_miniports: "g_MaxMiniports f h = 16" "length (endpoint_names (RenderEndpoints f h @ CaptureEndpoints f h)) = 16"
  by (simp_all add: g_MaxMiniports_def g_cRenderEndpoints_def g_cCaptureEndpoints_def RenderEndpoints_def
    CaptureEndpoints_def endpoint_names_def)

section \<open>What the installation of the endpoints can register and cache\<close>

text \<open>
  \<open>grown n N w w'\<close>: at most \<open>n\<close> more subdevices are registered, the cache has new records only
  under the names \<open>N\<close> and still at most one record for a name.
\<close>

definition cached_names :: "adapter_world \<Rightarrow> string set" where
  "cached_names w = Name ` set (m_SubdeviceCache w)"

definition grown :: "nat \<Rightarrow> string set \<Rightarrow> adapter_world \<Rightarrow> adapter_world \<Rightarrow>
  bool" where
  "grown n N w w' \<longleftrightarrow> length (registered w') \<le> length (registered w) + n
     \<and> cached_names w' \<subseteq> cached_names w \<union> N
     \<and> (cache_ok (m_SubdeviceCache w) \<longrightarrow> cache_ok (m_SubdeviceCache w'))"

lemma grown_same: "registered w' = registered w \<Longrightarrow> m_SubdeviceCache w' = m_SubdeviceCache w
  \<Longrightarrow> grown 0 {} w w'"
  by (simp add: grown_def cached_names_def)

lemma grown_trans: "grown n N u v \<Longrightarrow> grown k K v w \<Longrightarrow> grown (n + k) (N \<union> K) u w"
  by (auto simp: grown_def)

lemma grown_mono: "grown n N u v \<Longrightarrow> n \<le> k \<Longrightarrow> N \<subseteq> K \<Longrightarrow> grown k K u v"
  by (auto simp: grown_def)

lemma grown_release: "release p w = Some w' \<Longrightarrow> grown 0 {} w w'" "safe_release q w = Some w'
  \<Longrightarrow> grown 0 {} w w'"
  by (auto simp: release_def safe_release_def intro!: grown_same split: if_splits option.splits)

lemma grown_addref: "grown 0 {} w (addref p w)"
  by (simp add: addref_def grown_same)

lemma grown_Get: "GetCachedSubdevice nm w = (st, p, mp, w') \<Longrightarrow> grown 0 {} w w'"
  by (auto simp: GetCachedSubdevice_def addref_def intro!: grown_same split: option.splits)

lemma grown_InstallSubdevice:
  assumes "InstallSubdevice e template False True True w = Some (st, oi, op, om, w')"
  shows "grown 1 {} w w' \<and> m_SubdeviceCache w' = m_SubdeviceCache w"
  using assms
  by (auto simp: cached_names_def InstallSubdevice_def deposit_def addref_def safe_release_def release_def Let_def
    grown_def split: if_splits option.splits bind_splits)

lemma grown_Cache:
  assumes "CacheSubdevice ce nm p mp w = Some (st, w')" and "lookup_record nm (m_SubdeviceCache w) = None"
  shows "grown 0 {nm} w w'"
  using assms by (auto simp: CacheSubdevice_def addref_def Let_def grown_def cached_names_def cache_ok_def
    lookup_record_None split: if_splits bind_splits)

lemma grown_find:
  assumes "find_or_install e ce nm template w = Some (st, c, p, mp, w')"
  shows "grown 1 {nm} w w'"
proof -
  obtain st0 p0 m0 w1 where g: "GetCachedSubdevice nm w = (st0, p0, m0, w1)" by (metis prod_cases4)
  show ?thesis
  proof (cases "\<not> NT_SUCCESS st0 \<or> p0 = None \<or> m0 = None")
    case False
    with assms g have "w' = w1" by (auto simp: find_or_install_def)
    then show ?thesis using grown_mono [OF grown_Get [OF g], of 1 "{nm}"] by simp
  next
    case True
    with g have n: "lookup_record nm (m_SubdeviceCache w) = None" "w1 = w" by (auto simp: GetCachedSubdevice_def split:
      option.splits)
    from assms g True n obtain st1 oi p1 m1 w2 where i: "InstallSubdevice e template False True True w = Some (st1, oi, p1,
      m1, w2)"
      and c: "(if NT_SUCCESS st1 then CacheSubdevice ce nm p1 m1 w2 else Some (st1, w2)) = Some (st, w')"
      by (auto simp: find_or_install_def split: bind_splits prod.splits)
    have k: "grown 1 {} w w2" "lookup_record nm (m_SubdeviceCache w2) = None" using grown_InstallSubdevice [OF i] n by simp_all
    have "grown 0 {nm} w2 w'"
    proof (cases "NT_SUCCESS st1")
      case True
      with c grown_Cache k(2) show ?thesis by simp
    next
      case False
      with c show ?thesis by (auto simp: grown_def)
    qed
    from grown_trans [OF k(1) this] show ?thesis by simp
  qed
qed

lemma grown_Remove: "RemoveCachedSubdevice nm w = Some (st, w') \<Longrightarrow> grown 0 {} w w'"
  using delete_record_set delete_record_distinct
  by (fastforce simp: RemoveCachedSubdevice_def release_record_def release_def grown_def cached_names_def cache_ok_def
      split: option.splits bind_splits if_splits)

lemma grown_undo: "undo_filter e nm c p w = Some w' \<Longrightarrow> grown 0 {} w w'"
proof -
  assume u: "undo_filter e nm c p w = Some w'"
  show ?thesis
  proof (cases "c \<and> p \<noteq> None")
    case True
    then obtain q where q: "p = Some q" by blast
    define w1 where "w1 = snd (UnregisterSubdevice (fe_unreg_qi e q) (fe_unreg e q) (Some q) w)"
    have a: "grown 0 {} w w1"
      by (simp add: w1_def UnregisterSubdevice_def grown_def cached_names_def)
    from u True q obtain st where "RemoveCachedSubdevice nm w1 = Some (st, w')"
      by (auto simp: undo_filter_def w1_def Let_def split: bind_splits)
    from grown_trans [OF a grown_Remove [OF this]] show ?thesis by simp
  next
    case False
    with u show ?thesis by (auto simp: undo_filter_def grown_def split: option.splits)
  qed
qed

lemma grown_connect: "ConnectTopologies s q d t v tab w = (st, w') \<Longrightarrow> grown 0 {} w w'"
  by (auto simp: ConnectTopologies_def DisconnectTopologies_def Let_def intro!: grown_same split: prod.splits if_splits)

lemma grown_hand: "hand_out want p w = (q, w') \<Longrightarrow> grown 0 {} w w'"
  by (auto simp: hand_out_def addref_def intro!: grown_same split: option.splits if_splits)

lemma grown_chain: "grown n N u v \<Longrightarrow> grown 0 {} v w \<Longrightarrow> grown n N u w"
  using grown_trans by fastforce

lemma grown_Install:
  assumes i: "InstallEndpointFilters e pair want w = Some (st, outs, w')"
  shows "grown 2 {TopoName pair, WaveName pair} w w'"
proof -
  obtain st1 c1 t mt w1 where
    1: "find_or_install (fe_topo e) (fe_cache_topo e) (TopoName pair) (TemplateTopoName pair) w = Some (st1, c1, t, mt, w1)"
    using i by (cases "find_or_install (fe_topo e) (fe_cache_topo e) (TopoName pair) (TemplateTopoName pair) w")
      (simp add: InstallEndpointFilters_def, metis prod_cases5)
  note i1 = i [unfolded InstallEndpointFilters_def 1 bind.bind_lunit prod.case]
  obtain st2 c2 v mv w2 where
    2: "find_or_install (fe_wave e) (fe_cache_wave e) (WaveName pair) (TemplateWaveName pair) w1 = Some (st2, c2, v, mv, w2)"
    using i1 by (cases "find_or_install (fe_wave e) (fe_cache_wave e) (WaveName pair) (TemplateWaveName pair) w1")
      (simp, metis prod_cases5)
  note i2 = i1 [unfolded 2 bind.bind_lunit prod.case]
  obtain st3 w3 where
    3: "(case (t, v) of (Some t, Some v) \<Rightarrow> ConnectTopologies (fe_connect e) (fe_disc_qi e) (fe_disc e) t v
      (PhysicalConnections pair) w2
         | _ \<Rightarrow> (st2, w2)) = (st3, w3)" by (metis surj_pair)
  define M where "M = (if NT_SUCCESS st3 then
          (case hand_out (out_topo want) t w3 of (o1, x1) \<Rightarrow>
           case hand_out (out_wave want) v x1 of (o2, x2) \<Rightarrow>
           case hand_out (out_mini_topo want) mt x2 of (o3, x3) \<Rightarrow>
           case hand_out (out_mini_wave want) mv x3 of (o4, x4) \<Rightarrow>
             Some (\<lparr> out_topo = o1, out_wave = o2, out_mini_topo = o3, out_mini_wave = o4 \<rparr>, x4))
        else do {
          x1 \<leftarrow> undo_filter e (TopoName pair) c1 t w3;
          x2 \<leftarrow> undo_filter e (WaveName pair) c2 v x1;
          Some (\<lparr> out_topo = None, out_wave = None, out_mini_topo = None, out_mini_wave = None \<rparr>, x2) })"
  note i3 = i2 [unfolded 3 [unfolded prod.case] Let_def prod.case, folded M_def]
  obtain outs' w4 where 4: "M = Some (outs', w4)" using i3 by (cases M) auto
  obtain w5 w6 w7 where
    5: "safe_release mt w4 = Some w5" "safe_release t w5 = Some w6" "safe_release mv w6 = Some w7" "safe_release v w7 = Some w'"
    using i3 by (auto simp: 4 split: bind_splits)
  have a: "grown 2 {TopoName pair, WaveName pair} w w2"
    using grown_trans [OF grown_find [OF 1] grown_find [OF 2]] by (simp add: insert_commute numeral_2_eq_2)
  have b: "grown 0 {} w2 w3" using 3 grown_connect by (auto simp: grown_def split: option.splits)
  have c: "grown 0 {} w3 w4"
  proof (cases "NT_SUCCESS st3")
    case True
    obtain o1 x1 where h1: "hand_out (out_topo want) t w3 = (o1, x1)" by (metis surj_pair)
    obtain o2 x2 where h2: "hand_out (out_wave want) v x1 = (o2, x2)" by (metis surj_pair)
    obtain o3 x3 where h3: "hand_out (out_mini_topo want) mt x2 = (o3, x3)" by (metis surj_pair)
    obtain o4 x4 where h4: "hand_out (out_mini_wave want) mv x3 = (o4, x4)" by (metis surj_pair)
    have "x4 = w4" using 4 True by (simp add: M_def h1 h2 h3 h4)
    then show ?thesis
      using grown_chain [OF grown_chain [OF grown_chain [OF grown_hand [OF h1] grown_hand [OF h2]] grown_hand [OF h3]]
        grown_hand [OF h4]]
      by simp
  next
    case False
    with 4 obtain x1 where "undo_filter e (TopoName pair) c1 t w3 = Some x1" "undo_filter e (WaveName pair) c2 v x1 = Some w4"
      by (auto simp: M_def split: bind_splits)
    then show ?thesis using grown_chain [OF grown_undo grown_undo] by blast
  qed
  note r = grown_release(2) [OF 5(1)] grown_release(2) [OF 5(2)] grown_release(2) [OF 5(3)] grown_release(2) [OF 5(4)]
  show ?thesis
    using grown_chain [OF grown_chain [OF grown_chain [OF grown_chain [OF grown_chain [OF grown_chain [OF a b] c] r(1)]
      r(2)] r(3)] r(4)] .
qed

lemma grown_interfaces:
  assumes "render_interfaces e v (a, w) = Some (st, a', w')"
  shows "grown 0 {} w w'"
  using assms
  by (auto simp: render_interfaces_def SetEtwHelper_def probe_def addref_def addref_opt_def release_def safe_release_def Let_def
      intro!: grown_same split: bind_splits if_splits option.splits prod.splits)

lemma grown_render:
  assumes "InstallEndpointRenderFilters e pair (a, w) = Some (st, a', w')"
  shows "grown 2 {TopoName pair, WaveName pair} w w'"
proof -
  from assms obtain st0 outs w1 w2 w3 where
    1: "InstallEndpointFilters (rv_filters e) pair want_filters w = Some (st0, outs, w1)" and
    2: "(case out_wave outs of None \<Rightarrow> Some (st0, a, w1) | Some v \<Rightarrow> render_interfaces e v (a, w1)) =
      Some (st, a', w2)" and
    3: "safe_release (out_topo outs) w2 = Some w3" "safe_release (out_wave outs) w3 = Some w'"
    by (auto simp: InstallEndpointRenderFilters_def split: bind_splits prod.splits)
  have "grown 0 {} w1 w2" using 2 grown_interfaces by (auto simp: grown_def split: option.splits)
  from grown_chain [OF grown_chain [OF grown_chain [OF grown_Install [OF 1] this] grown_release(2) [OF 3(1)]]
    grown_release(2) [OF 3(2)]]
  show ?thesis .
qed

lemma grown_capture:
  assumes "InstallEndpointCaptureFilters e pair (a, w) = Some (st, a', w')"
  shows "grown 2 {TopoName pair, WaveName pair} w w'"
  using assms grown_Install by (fastforce simp: InstallEndpointCaptureFilters_def split: bind_splits)

text \<open>A run of steps that each install one pair.\<close>

lemma grown_steps:
  assumes "\<And>i p a w st a' w'. F i p (a, w) = Some (st, a', w') \<Longrightarrow> grown 2 {TopoName p, WaveName p} w w'"
  shows "run_steps (map (\<lambda>(i, p). F i p) (enumerate k ps)) (a, w) = Some (st, a', w') \<Longrightarrow>
     grown (2 * length ps) (set (concat (map (\<lambda>p. [TopoName p, WaveName p]) ps))) w w'"
proof (induction ps arbitrary: k a w)
  case Nil
  then show ?case by (simp add: grown_def)
next
  case (Cons p ps)
  from Cons.prems obtain st1 a1 w1 where 1: "F k p (a, w) = Some (st1, a1, w1)"
    and 2: "(if NT_SUCCESS st1 then run_steps (map (\<lambda>(i, p). F i p) (enumerate (Suc k) ps)) (a1, w1) else Some
      (st1, a1, w1))
        = Some (st, a', w')"
    by (auto split: bind_splits prod.splits)
  show ?case
  proof (cases "NT_SUCCESS st1")
    case True
    with 2 Cons.IH have "grown (2 * length ps) (set (concat (map (\<lambda>p. [TopoName p, WaveName p]) ps))) w1 w'" by simp
    from grown_trans [OF assms [OF 1] this] show ?thesis by (rule grown_mono) auto
  next
    case False
    with 2 assms [OF 1] have "grown 2 {TopoName p, WaveName p} w w'" by simp
    then show ?thesis by (rule grown_mono) auto
  qed
qed

text \<open>The endpoints as the installation sees them.\<close>

abbreviation pairs_of :: "static_pair list \<Rightarrow> ENDPOINT_MINIPAIR list" where
  "pairs_of \<equiv> map ENDPOINT_MINIPAIR.truncate"

definition static_config :: "foreign_pairs \<Rightarrow> headers \<Rightarrow> ULONG \<Rightarrow> ULONG \<Rightarrow>
  ULONG \<Rightarrow> driver_config" where
  "static_config f h bth usb a2dp = \<lparr> g_RenderEndpoints = pairs_of (RenderEndpoints f h), g_CaptureEndpoints =
    pairs_of (CaptureEndpoints f h),
     dc_DisableBthScoBypass = bth, dc_DisableUsbSideband = usb, dc_DisableA2dpSideband = a2dp \<rparr>"

lemma names_of_pairs: "concat (map (\<lambda>p. [TopoName p, WaveName p]) (pairs_of ps)) = endpoint_names ps"
  by (induction ps) (simp_all add: endpoint_names_def ENDPOINT_MINIPAIR.truncate_def)

text \<open>
  C6. The tables of endpoints are consistent and stay within what DriverEntry's AddDevice announces.
  In every pair the counts are those of the arrays, the packet constraints have the announced size,
  and for the endpoints whose filters are in the repository the physical connection joins a bridge
  pin out of which data flows to one into which it flows, and the flags for offload, loopback and
  sound detection fit the kinds of the pins. All sixteen filter names differ. Whatever the calls
  return, installing all render and then all capture endpoints completes without a fault, registers
  at most g_MaxMiniports subdevices, caches filters only under these names and none twice.
\<close>

theorem endpoints_within_limit:
  assumes "numbered h" and "filters_at E (a, w)" and "\<forall>i. filters_ok (rv_filters (er i))" and "\<forall>i.
    filters_ok (ec i)"
    and cf: "cf = static_config f h bth usb a2dp" and ps: "ps = RenderEndpoints f h @ CaptureEndpoints f h"
  shows "list_all pair_ok (own_pairs h) \<and> list_all pair_counts_ok ps \<and> distinct (endpoint_names ps)
    \<and> (\<exists>st1 a1 w1 st2 a2 w2. InstallAllRenderFilters er (g_RenderEndpoints cf) (a, w) = Some (st1, a1, w1)
         \<and> InstallAllCaptureFilters ec (g_CaptureEndpoints cf) (a1, w1) = Some (st2, a2, w2)
         \<and> length (registered w2) \<le> length (registered w) + g_MaxMiniports f h
         \<and> cached_names w2 \<subseteq> cached_names w \<union> set (endpoint_names ps)
         \<and> (cache_ok (m_SubdeviceCache w) \<longrightarrow> cache_ok (m_SubdeviceCache w2)))"
proof -
  obtain st1 a1 w1 where 1: "InstallAllRenderFilters er (g_RenderEndpoints cf) (a, w) = Some (st1, a1, w1)" "filters_at E
    (a1, w1)"
    using step_specD [OF render_all_ok [OF assms(3)] assms(2), of "g_RenderEndpoints cf"] by force
  obtain st2 a2 w2 where 2: "InstallAllCaptureFilters ec (g_CaptureEndpoints cf) (a1, w1) = Some (st2, a2, w2)"
    using step_specD [OF capture_all_ok [OF assms(4)] 1(2), of "g_CaptureEndpoints cf"] by force
  have "grown (2 * length (RenderEndpoints f h)) (set (endpoint_names (RenderEndpoints f h))) w w1"
    using grown_steps [OF grown_render 1(1) [unfolded InstallAllRenderFilters_def]]
    by (simp add: cf static_config_def names_of_pairs [symmetric])
  moreover have "grown (2 * length (CaptureEndpoints f h)) (set (endpoint_names (CaptureEndpoints f h))) w1 w2"
    using grown_steps [OF grown_capture 2 [unfolded InstallAllCaptureFilters_def]]
    by (simp add: cf static_config_def names_of_pairs [symmetric])
  ultimately have "grown (2 * length (RenderEndpoints f h) + 2 * length (CaptureEndpoints f h))
      (set (endpoint_names (RenderEndpoints f h)) \<union> set (endpoint_names (CaptureEndpoints f h))) w w2" by (rule
        grown_trans)
  then have "grown (g_MaxMiniports f h) (set (endpoint_names ps)) w w2"
    by (rule grown_mono) (auto simp: g_MaxMiniports_def g_cRenderEndpoints_def g_cCaptureEndpoints_def ps endpoint_names_def)
  with 1 2 show ?thesis using own_pairs_ok [OF assms(1)] all_counts_ok [of f h] names_distinct [of f h] by (auto simp:
    grown_def ps)
qed

definition no_filter :: PCFILTER_DESCRIPTOR where
  "no_filter = PCFILTER_DESCRIPTOR.make 0 (PropertyTable []) sizeof_PCPIN_DESCRIPTOR 0 [] sizeof_PCNODE_DESCRIPTOR 0 None 0
    [] 0 None"

definition sample_foreign :: foreign_pairs where
  "sample_foreign = (let p = \<lparr> f_topo = no_filter, f_wave = no_filter, f_channels = 2, f_formats = [], f_modules =
    [], f_notification = [] \<rparr>
     in \<lparr> fp_speaker = p, fp_headphone = p, fp_array1 = p \<rparr>)"

definition blank_adapter :: CAdapterCommon where
  "blank_adapter = sample_adapter \<lparr> m_PowerRelations := [] \<rparr>"

theorem endpoints_within_limit_witness:
  "\<exists>st1 a1 w1 st2 a2 w2.
     InstallAllRenderFilters (\<lambda>_. sample_render_env) (pairs_of (RenderEndpoints sample_foreign usual_headers))
       (blank_adapter, empty_adapter)
       = Some (st1, a1, w1)
   \<and> InstallAllCaptureFilters (\<lambda>_. good_calls (good_install 5 6)) (pairs_of (CaptureEndpoints sample_foreign
     usual_headers)) (a1, w1)
       = Some (st2, a2, w2)
   \<and> length (registered w2) \<le> 16"
proof -
  have 1: "filters_at {#} (blank_adapter, empty_adapter)"
    by (simp add: filters_at_def acct_def blank_adapter_def sample_adapter_def empty_adapter_def helper_refs_def fun_eq_iff)
  have 2: "\<forall>i. filters_ok (rv_filters ((\<lambda>_::nat. sample_render_env) i))" "\<forall>i. filters_ok
    ((\<lambda>_::nat. good_calls (good_install 5 6)) i)"
    by (simp_all add: filters_ok_def sample_render_env_def good_calls_def)
  from endpoints_within_limit [OF usual_numbered 1 2 refl refl, of sample_foreign 0 0 0] show ?thesis
    by (force simp: static_config_def max_miniports empty_adapter_def)
qed

end
