(* ===== verification/RegistryCopy.thy ===== *)
theory RegistryCopy
  imports DriverBase "HOL-Library.Sublist"
begin

text \<open>
  The copy of the parameters of a template interface to a device interface (common.cpp:
  CopyRegistryValues, CopyRegistryKey and MigrateDeviceInterfaceTemplateParameters).

  A key of the source is a tree, whose values and subkeys are enumerated in the order of their lists.
  The destination is a map from paths to the values of the keys that exist. Names are sequences of
  WCHAR; RtlInitUnicodeString cuts them at the first NUL. Names are compared as they are: the
  registry's folding of case is not modelled.

  Pool blocks and handles are numbers that are never used twice; to free a block that is not live
  or to close a handle that is not open is \<open>None\<close>, as is a write through NULL. ZwClose of NULL does
  nothing, and a failing ZwOpenKey or ZwCreateKey leaves the handle variable as it was.
\<close>

section \<open>Registry and kernel calls\<close>

type_synonym reg_value = "nat \<times> BYTE list"

datatype reg_key = RegKey (rk_values: "(string \<times> reg_value) list") (rk_subkeys: "(string \<times> reg_key) list")

type_synonym reg_path = "string list"

record reg_state =
  rs_next :: nat
  rs_pool :: "nat set"
  rs_handles :: "nat set"
  rs_dest :: "reg_path \<Rightarrow> (string \<rightharpoonup> reg_value) option"

definition c_name :: "string \<Rightarrow> string" where
  "c_name n = takeWhile (\<lambda>c. c \<noteq> CHR 0x00) n"

definition reg_alloc :: "reg_state \<Rightarrow> nat \<times> reg_state" where
  "reg_alloc s = (rs_next s, s \<lparr> rs_next := rs_next s + 1, rs_pool := insert (rs_next s) (rs_pool s) \<rparr>)"

definition reg_free :: "nat \<Rightarrow> reg_state \<Rightarrow> reg_state option" where
  "reg_free b s = (if b \<in> rs_pool s then Some (s \<lparr> rs_pool := rs_pool s - {b} \<rparr>) else None)"

definition free_if :: "nat option \<Rightarrow> reg_state \<Rightarrow> reg_state option" where
  "free_if b s = (case b of None \<Rightarrow> Some s | Some x \<Rightarrow> reg_free x s)"

definition reg_open :: "reg_state \<Rightarrow> nat \<times> reg_state" where
  "reg_open s = (rs_next s, s \<lparr> rs_next := rs_next s + 1, rs_handles := insert (rs_next s) (rs_handles s) \<rparr>)"

definition ZwClose :: "nat option \<Rightarrow> reg_state \<Rightarrow> reg_state option" where
  "ZwClose h s = (case h of None \<Rightarrow> Some s
     | Some x \<Rightarrow> if x \<in> rs_handles s then Some (s \<lparr> rs_handles := rs_handles s - {x} \<rparr>) else None)"

definition ZwSetValueKey :: "reg_path \<Rightarrow> string \<Rightarrow> reg_value \<Rightarrow> reg_state \<Rightarrow> reg_state" where
  "ZwSetValueKey p n v s = s \<lparr> rs_dest := (rs_dest s)(p := map_option (\<lambda>m. m(n \<mapsto> v)) (rs_dest s p)) \<rparr>"

definition ZwCreateKey :: "reg_path \<Rightarrow> reg_state \<Rightarrow> reg_state" where
  "ZwCreateKey p s = s \<lparr> rs_dest := (rs_dest s)(p := Some (case rs_dest s p of None \<Rightarrow> Map.empty | Some m \<Rightarrow> m)) \<rparr>"

text \<open>
  Which calls fail. A call is identified by the positions of the subkeys on the way to the source key
  and the position of the entry; \<open>None\<close> is a call that does what it is documented to do.
\<close>

record reg_env =
  re_alloc_basic :: "nat list \<Rightarrow> bool"
  re_alloc_full :: "nat list \<Rightarrow> bool"
  re_key :: "nat list \<Rightarrow> nat \<Rightarrow> NTSTATUS option"
  re_key_alloc :: "nat list \<Rightarrow> nat \<Rightarrow> bool"
  re_key_again :: "nat list \<Rightarrow> nat \<Rightarrow> NTSTATUS option"
  re_key_name :: "nat list \<Rightarrow> nat \<Rightarrow> bool"
  re_open :: "nat list \<Rightarrow> nat \<Rightarrow> NTSTATUS option"
  re_create :: "nat list \<Rightarrow> nat \<Rightarrow> NTSTATUS option"
  re_value :: "nat list \<Rightarrow> nat \<Rightarrow> NTSTATUS option"
  re_value_alloc :: "nat list \<Rightarrow> nat \<Rightarrow> bool"
  re_value_again :: "nat list \<Rightarrow> nat \<Rightarrow> NTSTATUS option"
  re_value_name :: "nat list \<Rightarrow> nat \<Rightarrow> bool"
  re_set :: "nat list \<Rightarrow> nat \<Rightarrow> NTSTATUS option"
  sizeof_KEY_BASIC_INFORMATION :: nat
  sizeof_KEY_VALUE_FULL_INFORMATION :: nat

definition MAX_DEVICE_REG_KEY_LENGTH :: nat where [const_defs]: "MAX_DEVICE_REG_KEY_LENGTH = 256"

definition key_info_size :: "reg_env \<Rightarrow> string \<Rightarrow> nat" where
  "key_info_size e n = sizeof_KEY_BASIC_INFORMATION e + 2 * length n"

definition value_info_size :: "reg_env \<Rightarrow> string \<times> reg_value \<Rightarrow> nat" where
  "value_info_size e v = sizeof_KEY_VALUE_FULL_INFORMATION e + 2 * length (fst v) + length (snd (snd v))"

text \<open>ZwEnumerateKey and ZwEnumerateValueKey with a buffer of \<open>len\<close> bytes, at an entry of the given size or past the end.\<close>

definition zw_enumerate :: "NTSTATUS option \<Rightarrow> nat \<Rightarrow> nat option \<Rightarrow> NTSTATUS" where
  "zw_enumerate f len entry = (case f of Some st \<Rightarrow> st | None \<Rightarrow>
     (case entry of None \<Rightarrow> STATUS_NO_MORE_ENTRIES | Some n \<Rightarrow> if n \<le> len then STATUS_SUCCESS else STATUS_BUFFER_OVERFLOW))"

section \<open>The copy\<close>

text \<open>
  Enumerating an entry, with a second try in a buffer of the size the first one asked for. The
  buffer with its length is threaded; it is \<open>None\<close> when it cannot be allocated again.
\<close>

definition fetch_entry :: "NTSTATUS option \<Rightarrow> bool \<Rightarrow> NTSTATUS option \<Rightarrow> nat option \<Rightarrow> nat \<times> nat \<Rightarrow> reg_state \<Rightarrow>
    (NTSTATUS \<times> nat option \<times> nat \<times> reg_state) option" where
  "fetch_entry f1 alloc f2 entry buf s =
     (let st = zw_enumerate f1 (snd buf) entry
      in if st = STATUS_BUFFER_TOO_SMALL \<or> st = STATUS_BUFFER_OVERFLOW then do {
           s1 \<leftarrow> reg_free (fst buf) s;
           let len = (case entry of None \<Rightarrow> 0 | Some n \<Rightarrow> n);
           if \<not> alloc then Some (STATUS_INSUFFICIENT_RESOURCES, None, len, s1)
           else (case reg_alloc s1 of (b, s2) \<Rightarrow> Some (zw_enumerate f2 len entry, Some b, len, s2)) }
         else Some (st, Some (fst buf), snd buf, s))"

text \<open>Leaving with a status: the buffer is freed.\<close>

definition reg_exit :: "NTSTATUS \<Rightarrow> nat option \<Rightarrow> reg_state \<Rightarrow> (NTSTATUS \<times> reg_state) option" where
  "reg_exit st b s = map_option (Pair st) (free_if b s)"

definition failed :: "NTSTATUS option \<Rightarrow> NTSTATUS" where
  "failed f = (case f of None \<Rightarrow> STATUS_SUCCESS | Some st \<Rightarrow> st)"

text \<open>
  The loop of CopyRegistryValues from position \<open>i\<close> on, with the values not yet enumerated and the
  pointer to the name of the last one, which is not reset after the name was freed.
\<close>

fun copy_values_loop :: "reg_env \<Rightarrow> nat list \<Rightarrow> reg_path \<Rightarrow> nat \<Rightarrow> (string \<times> reg_value) list \<Rightarrow> nat \<times> nat \<Rightarrow> nat option \<Rightarrow>
    reg_state \<Rightarrow> (NTSTATUS \<times> reg_state) option" where
  "copy_values_loop e ip p i vs buf name s = do {
     (st, b, len, s1) \<leftarrow> fetch_entry (re_value e ip i) (re_value_alloc e ip i) (re_value_again e ip i)
        (case vs of [] \<Rightarrow> None | v # _ \<Rightarrow> Some (value_info_size e v)) buf s;
     if st = STATUS_NO_MORE_ENTRIES then reg_exit STATUS_SUCCESS b s1
     else if \<not> NT_SUCCESS st then do { s2 \<leftarrow> free_if name s1; reg_exit st b s2 }
     else (case (vs, b) of
       (v # vs', Some b1) \<Rightarrow>
         if \<not> re_value_name e ip i then None
         else (case reg_alloc s1 of (nm, s2) \<Rightarrow>
           (let st2 = failed (re_set e ip i);
                s3 = (if NT_SUCCESS st2 then ZwSetValueKey p (c_name (fst v)) (snd v) s2 else s2)
            in do {
              s4 \<leftarrow> reg_free nm s3;
              if NT_SUCCESS st2 then copy_values_loop e ip p (i + 1) vs' (b1, len) (Some nm) s4
              else reg_exit st2 (Some b1) s4 }))
     | _ \<Rightarrow> None) }"

declare copy_values_loop.simps [simp del]

definition CopyRegistryValues :: "reg_env \<Rightarrow> nat list \<Rightarrow> (string \<times> reg_value) list \<Rightarrow> reg_path \<Rightarrow> reg_state \<Rightarrow>
    (NTSTATUS \<times> reg_state) option" where
  "CopyRegistryValues e ip vs p s =
     (if \<not> re_alloc_full e ip then Some (STATUS_INSUFFICIENT_RESOURCES, s)
      else (case reg_alloc s of (b, s1) \<Rightarrow>
        copy_values_loop e ip p 0 vs (b, sizeof_KEY_VALUE_FULL_INFORMATION e + MAX_DEVICE_REG_KEY_LENGTH) None s1))"

text \<open>The end of a round of CopyRegistryKey: the name and both handles, none of which is reset.\<close>

type_synonym reg_round = "nat option \<times> nat option \<times> nat option"

definition loop_exit :: "reg_round \<Rightarrow> reg_state \<Rightarrow> reg_state option" where
  "loop_exit r s = (case r of (nm, hsrc, hdst) \<Rightarrow> do { s1 \<leftarrow> free_if nm s; s2 \<leftarrow> ZwClose hsrc s1; ZwClose hdst s2 })"

text \<open>ZwOpenKey opens the subkey by its name.\<close>

definition ZwOpenKey :: "NTSTATUS option \<Rightarrow> string \<Rightarrow> reg_key \<Rightarrow> NTSTATUS + reg_key" where
  "ZwOpenKey f n k = (case f of Some st \<Rightarrow> Inl st | None \<Rightarrow>
     (case map_of (rk_subkeys k) n of None \<Rightarrow> Inl STATUS_OBJECT_NAME_NOT_FOUND | Some k1 \<Rightarrow> Inr k1))"

lemma opened_smaller: "ZwOpenKey f n k = Inr k1 \<Longrightarrow> size k1 < size k"
proof (cases k)
  case (RegKey vs ks)
  assume "ZwOpenKey f n k = Inr k1"
  then have "(n, k1) \<in> set ks" by (auto simp: ZwOpenKey_def RegKey split: option.splits dest: map_of_SomeD)
  then have "size_prod (\<lambda>x. 0) size (n, k1) \<le> size_list (size_prod (\<lambda>x. 0) size) ks" by (rule size_list_estimation') simp
  then show ?thesis by (simp add: RegKey)
qed

text \<open>
  CopyRegistryKey for the source key \<open>src\<close> and the destination key at \<open>p\<close>, and its loop from position
  \<open>i\<close> on with the subkeys not yet enumerated.
\<close>

function copy_key :: "reg_env \<Rightarrow> nat list \<Rightarrow> reg_key \<Rightarrow> reg_path \<Rightarrow> bool \<Rightarrow> reg_state \<Rightarrow> (NTSTATUS \<times> reg_state) option"
  and copy_subkeys :: "reg_env \<Rightarrow> nat list \<Rightarrow> reg_key \<Rightarrow> reg_path \<Rightarrow> bool \<Rightarrow> nat \<Rightarrow> (string \<times> reg_key) list \<Rightarrow> nat \<times> nat \<Rightarrow>
    reg_round \<Rightarrow> reg_state \<Rightarrow> (NTSTATUS \<times> reg_state) option" where
  "copy_key e ip src p overwrite s =
     (if \<not> re_alloc_basic e ip then Some (STATUS_INSUFFICIENT_RESOURCES, s)
      else (case reg_alloc s of (b, s1) \<Rightarrow>
        copy_subkeys e ip src p overwrite 0 (rk_subkeys src)
          (b, sizeof_KEY_BASIC_INFORMATION e + MAX_DEVICE_REG_KEY_LENGTH) (None, None, None) s1))"
| "copy_subkeys e ip src p overwrite i ks buf r s = do {
     (st, b, len, s1) \<leftarrow> fetch_entry (re_key e ip i) (re_key_alloc e ip i) (re_key_again e ip i)
        (case ks of [] \<Rightarrow> None | k # _ \<Rightarrow> Some (key_info_size e (fst k))) buf s;
     if st = STATUS_NO_MORE_ENTRIES then do {
       (st1, s2) \<leftarrow> (if overwrite then CopyRegistryValues e ip (rk_values src) p s1 else Some (STATUS_SUCCESS, s1));
       reg_exit st1 b s2 }
     else if \<not> NT_SUCCESS st then do { s2 \<leftarrow> loop_exit r s1; reg_exit st b s2 }
     else (case (ks, b) of
       (k # ks', Some b1) \<Rightarrow>
         if \<not> re_key_name e ip i then None
         else (case reg_alloc s1 of (nm, s2) \<Rightarrow>
           (case ZwOpenKey (re_open e ip i) (c_name (fst k)) src of
              Inl st1 \<Rightarrow> do {
                s3 \<leftarrow> ZwClose (fst (snd r)) s2;
                s4 \<leftarrow> loop_exit (Some nm, snd r) s3;
                reg_exit st1 (Some b1) s4 }
            | Inr k1 \<Rightarrow> (case reg_open s2 of (h, s3) \<Rightarrow>
                (case re_create e ip i of
                   Some st1 \<Rightarrow> do {
                     s4 \<leftarrow> ZwClose (Some h) s3;
                     s5 \<leftarrow> loop_exit (Some nm, Some h, snd (snd r)) s4;
                     reg_exit st1 (Some b1) s5 }
                 | None \<Rightarrow> (case reg_open (ZwCreateKey (p @ [c_name (fst k)]) s3) of (h2, s4) \<Rightarrow> do {
                     (st1, s5) \<leftarrow> copy_key e (ip @ [i]) k1 (p @ [c_name (fst k)]) True s4;
                     s6 \<leftarrow> loop_exit (Some nm, Some h, Some h2) s5;
                     if NT_SUCCESS st1
                     then copy_subkeys e ip src p overwrite (i + 1) ks' (b1, len) (Some nm, Some h, Some h2) s6
                     else reg_exit st1 (Some b1) s6 })))))
     | _ \<Rightarrow> None) }"
  by pat_completeness auto

termination copy_key
  by (relation "measures [\<lambda>x. case x of Inl (e, ip, src, r) \<Rightarrow> size src | Inr (e, ip, src, r) \<Rightarrow> size src,
        \<lambda>x. case x of Inl (e, ip, src, r) \<Rightarrow> Suc (length (rk_subkeys src)) | Inr (e, ip, src, p, ov, i, ks, r) \<Rightarrow> length ks]")
    (auto dest: opened_smaller)

declare copy_key.simps [simp del] copy_subkeys.simps [simp del]

text \<open>A NULL handle is \<open>None\<close>.\<close>

definition CopyRegistryKey :: "reg_env \<Rightarrow> reg_key option \<Rightarrow> reg_path option \<Rightarrow> bool \<Rightarrow> reg_state \<Rightarrow> (NTSTATUS \<times> reg_state) option" where
  "CopyRegistryKey e src dst overwrite s = (case (src, dst) of
     (Some k, Some p) \<Rightarrow> copy_key e [] k p overwrite s | _ \<Rightarrow> Some (STATUS_INVALID_PARAMETER, s))"

text \<open>The result of IoRegisterDeviceInterface for the template is ignored.\<close>

definition MigrateDeviceInterfaceTemplateParameters :: "NTSTATUS option \<Rightarrow> NTSTATUS option \<Rightarrow> reg_env \<Rightarrow> reg_key \<Rightarrow> reg_path \<Rightarrow>
    reg_state \<Rightarrow> (NTSTATUS \<times> reg_state) option" where
  "MigrateDeviceInterfaceTemplateParameters open_template open_device e template p s =
     (case open_template of Some st \<Rightarrow> Some (st, s) | None \<Rightarrow>
       (case reg_open s of (h1, s1) \<Rightarrow>
         (case open_device of
            Some st \<Rightarrow> do { s2 \<leftarrow> ZwClose (Some h1) s1; Some (st, s2) }
          | None \<Rightarrow> (case reg_open s1 of (h2, s2) \<Rightarrow> do {
              (st, s3) \<leftarrow> CopyRegistryKey e (Some template) (Some p) False s2;
              s4 \<leftarrow> ZwClose (Some h1) s3;
              s5 \<leftarrow> ZwClose (Some h2) s4;
              Some (st, s5) }))))"

section \<open>What a copy does\<close>

text \<open>
  The calls of a copy in their order, as if all of them succeeded, each with its status and whether
  the code is lost when it fails: because it goes on with a NULL name, or because it frees the name and
  closes the handles of the round before once more.
\<close>

type_synonym reg_call = "bool \<times> NTSTATUS"

datatype verdict = Completes | Refuses NTSTATUS | Faults

fun decide :: "reg_call list \<Rightarrow> verdict" where
  "decide [] = Completes"
| "decide ((lost, st) # cs) = (if NT_SUCCESS st then decide cs else if lost then Faults else Refuses st)"

definition alloc_status :: "bool \<Rightarrow> NTSTATUS" where
  "alloc_status ok = (if ok then STATUS_SUCCESS else STATUS_INSUFFICIENT_RESOURCES)"

definition fetch_status :: "NTSTATUS option \<Rightarrow> bool \<Rightarrow> NTSTATUS option \<Rightarrow> nat option \<Rightarrow> nat \<Rightarrow> NTSTATUS \<times> nat" where
  "fetch_status f1 alloc f2 entry len =
     (let st = zw_enumerate f1 len entry; len' = (case entry of None \<Rightarrow> 0 | Some n \<Rightarrow> n)
      in if st = STATUS_BUFFER_TOO_SMALL \<or> st = STATUS_BUFFER_OVERFLOW
         then (if alloc then zw_enumerate f2 len' entry else STATUS_INSUFFICIENT_RESOURCES, len') else (st, len))"

definition end_status :: "NTSTATUS \<Rightarrow> NTSTATUS" where
  "end_status st = (if st = STATUS_NO_MORE_ENTRIES then STATUS_SUCCESS else st)"

fun values_calls :: "reg_env \<Rightarrow> nat list \<Rightarrow> nat \<Rightarrow> (string \<times> reg_value) list \<Rightarrow> nat \<Rightarrow> reg_call list" where
  "values_calls e ip i [] len =
     [(0 < i, end_status (fst (fetch_status (re_value e ip i) (re_value_alloc e ip i) (re_value_again e ip i) None len)))]"
| "values_calls e ip i (v # vs) len =
     (case fetch_status (re_value e ip i) (re_value_alloc e ip i) (re_value_again e ip i) (Some (value_info_size e v)) len of
        (st, len') \<Rightarrow> (0 < i, st) # (True, alloc_status (re_value_name e ip i)) # (False, failed (re_set e ip i))
          # values_calls e ip (i + 1) vs len')"

fun key_calls :: "reg_env \<Rightarrow> nat list \<Rightarrow> reg_key \<Rightarrow> bool \<Rightarrow> reg_call list"
  and subkeys_calls :: "reg_env \<Rightarrow> nat list \<Rightarrow> nat \<Rightarrow> (string \<times> reg_key) list \<Rightarrow> nat \<Rightarrow> reg_call list" where
  "key_calls e ip (RegKey vs ks) overwrite =
     (False, alloc_status (re_alloc_basic e ip))
     # subkeys_calls e ip 0 ks (sizeof_KEY_BASIC_INFORMATION e + MAX_DEVICE_REG_KEY_LENGTH)
     @ (if overwrite then (False, alloc_status (re_alloc_full e ip))
          # values_calls e ip 0 vs (sizeof_KEY_VALUE_FULL_INFORMATION e + MAX_DEVICE_REG_KEY_LENGTH) else [])"
| "subkeys_calls e ip i [] len =
     [(0 < i, end_status (fst (fetch_status (re_key e ip i) (re_key_alloc e ip i) (re_key_again e ip i) None len)))]"
| "subkeys_calls e ip i ((n, k) # ks) len =
     (case fetch_status (re_key e ip i) (re_key_alloc e ip i) (re_key_again e ip i) (Some (key_info_size e n)) len of
        (st, len') \<Rightarrow> (0 < i, st) # (True, alloc_status (re_key_name e ip i)) # (0 < i, failed (re_open e ip i))
          # (True, failed (re_create e ip i)) # key_calls e (ip @ [i]) k True @ subkeys_calls e ip (i + 1) ks len')"

text \<open>What is in the destination after a complete copy.\<close>

fun key_at :: "reg_key \<Rightarrow> reg_path \<Rightarrow> reg_key option" where
  "key_at k [] = Some k"
| "key_at k (n # p) = (case map_of (rk_subkeys k) n of None \<Rightarrow> None | Some k' \<Rightarrow> key_at k' p)"

definition strip :: "reg_path \<Rightarrow> reg_path \<Rightarrow> reg_path option" where
  "strip p q = (if take (length p) q = p then Some (drop (length p) q) else None)"

definition grown :: "reg_key \<Rightarrow> reg_path \<Rightarrow> (string \<rightharpoonup> reg_value) option \<Rightarrow> (string \<rightharpoonup> reg_value) option" where
  "grown k r old = (case key_at k r of None \<Rightarrow> old
     | Some k' \<Rightarrow> Some ((case old of None \<Rightarrow> Map.empty | Some m \<Rightarrow> m) ++ map_of (rk_values k')))"

definition copied :: "reg_key \<Rightarrow> reg_path \<Rightarrow> bool \<Rightarrow> (reg_path \<Rightarrow> (string \<rightharpoonup> reg_value) option) \<Rightarrow>
    reg_path \<Rightarrow> (string \<rightharpoonup> reg_value) option" where
  "copied k p overwrite D q = (case strip p q of None \<Rightarrow> D q
     | Some r \<Rightarrow> if r = [] \<and> \<not> overwrite then D q else grown k r (D q))"

text \<open>Names as the registry has them: no NUL, and no two subkeys or values of a key with the same name.\<close>

fun names_ok :: "reg_key \<Rightarrow> bool" where
  "names_ok (RegKey vs ks) \<longleftrightarrow> distinct (map fst vs) \<and> distinct (map fst ks)
     \<and> list_all (\<lambda>v. CHR 0x00 \<notin> set (fst v)) vs \<and> list_all (\<lambda>k. CHR 0x00 \<notin> set (fst k) \<and> names_ok (snd k)) ks"

text \<open>A failing call returns an error, not the end of an enumeration.\<close>

definition fails :: "NTSTATUS option \<Rightarrow> bool" where
  "fails f \<longleftrightarrow> (\<forall>st. f = Some st \<longrightarrow> \<not> NT_SUCCESS st \<and> st \<noteq> STATUS_NO_MORE_ENTRIES)"

definition reg_env_ok :: "reg_env \<Rightarrow> bool" where
  "reg_env_ok e \<longleftrightarrow> (\<forall>ip i. fails (re_key e ip i) \<and> fails (re_key_again e ip i) \<and> fails (re_open e ip i) \<and> fails (re_create e ip i)
     \<and> fails (re_value e ip i) \<and> fails (re_value_again e ip i) \<and> fails (re_set e ip i))"

definition rg_at :: "nat set \<Rightarrow> nat set \<Rightarrow> reg_state \<Rightarrow> bool" where
  "rg_at P H s \<longleftrightarrow> rs_pool s = P \<and> rs_handles s = H \<and> (\<forall>x \<in> P \<union> H. x < rs_next s)"

section \<open>Correctness\<close>

lemma decide_append [simp]:
  "decide (cs @ ds) = (case decide cs of Completes \<Rightarrow> decide ds | v \<Rightarrow> v)"
  by (induction cs rule: decide.induct) auto

lemma decide_refuses: "decide cs = Refuses st \<Longrightarrow> \<not> NT_SUCCESS st"
  by (induction cs rule: decide.induct) (auto split: if_splits)

lemma c_name_id: "CHR 0x00 \<notin> set n \<Longrightarrow> c_name n = n"
  by (auto simp: c_name_def takeWhile_eq_all_conv)

lemma strip_iff: "strip p q = Some r \<longleftrightarrow> q = p @ r"
  by (auto simp: strip_def) (metis append_take_drop_id)

lemma strip_append [simp]: "strip p (p @ r) = Some r"
  by (simp add: strip_iff)

lemma strip_self [simp]: "strip p p = Some []"
  by (simp add: strip_iff)

lemma strip_snoc: "strip (p @ [n]) q = (case strip p q of Some (m # r) \<Rightarrow> if m = n then Some r else None | _ \<Rightarrow> None)"
proof (cases "strip (p @ [n]) q")
  case None
  then have "q \<noteq> p @ n # r" for r using strip_append [of "p @ [n]" r] by auto
  then show ?thesis using None by (auto simp: strip_iff split: option.splits list.splits)
next
  case (Some r)
  then have "q = p @ n # r" by (simp add: strip_iff)
  then show ?thesis using Some by (simp add: strip_iff)
qed

lemma zw_status:
  assumes "fails f"
  shows "zw_enumerate f len None = STATUS_NO_MORE_ENTRIES \<or> (\<not> NT_SUCCESS (zw_enumerate f len None))"
    and "zw_enumerate f len (Some n) \<noteq> STATUS_NO_MORE_ENTRIES"
  using assms by (auto simp: zw_enumerate_def fails_def status_defs split: option.splits)

text \<open>A buffer that is live apart from \<open>P\<close>, or none.\<close>

definition buf_at :: "nat option \<Rightarrow> nat set \<Rightarrow> nat set \<Rightarrow> reg_state \<Rightarrow> bool" where
  "buf_at b P H s \<longleftrightarrow> (case b of None \<Rightarrow> rg_at P H s | Some x \<Rightarrow> rg_at (insert x P) H s \<and> x \<notin> P)"

text \<open>A name or handle of an earlier round: not live any more and never live again.\<close>

definition gone :: "nat set \<Rightarrow> reg_state \<Rightarrow> nat option \<Rightarrow> bool" where
  "gone P s x \<longleftrightarrow> (\<exists>y. x = Some y \<and> y \<notin> P \<and> y < rs_next s)"

lemma fetch_eq:
  assumes "buf_at (Some b) P H s"
  shows "\<exists>b' s1. fetch_entry f1 al f2 en (b, len) s
      = Some (fst (fetch_status f1 al f2 en len), b', snd (fetch_status f1 al f2 en len), s1)
    \<and> rs_next s \<le> rs_next s1 \<and> rs_dest s1 = rs_dest s \<and> buf_at b' P H s1
    \<and> (b' = None \<longrightarrow> fst (fetch_status f1 al f2 en len) = STATUS_INSUFFICIENT_RESOURCES)
    \<and> (\<forall>x. gone (rs_pool s) s x \<longrightarrow> gone (rs_pool s1) s1 x) \<and> (\<forall>x. gone (rs_handles s) s x \<longrightarrow> gone (rs_handles s1) s1 x)"
proof (cases "zw_enumerate f1 len en = STATUS_BUFFER_TOO_SMALL \<or> zw_enumerate f1 len en = STATUS_BUFFER_OVERFLOW")
  case False
  then show ?thesis using assms by (simp add: fetch_entry_def fetch_status_def Let_def)
next
  case True
  have n: "rs_next s \<notin> P" "rs_pool s - {b} = P" "b \<in> rs_pool s" using assms by (auto simp: rg_at_def buf_at_def)
  show ?thesis using True assms n
    by (cases al) (auto simp: fetch_entry_def fetch_status_def Let_def reg_free_def reg_alloc_def rg_at_def buf_at_def gone_def less_Suc_eq)
qed

lemma free_gone: "gone (rs_pool s) s x \<Longrightarrow> free_if x s = None"
  by (auto simp: gone_def free_if_def reg_free_def)

lemma exit_eq: "buf_at b P H s \<Longrightarrow>
    \<exists>s1. reg_exit st b s = Some (st, s1) \<and> rg_at P H s1 \<and> rs_next s1 = rs_next s \<and> rs_dest s1 = rs_dest s"
  by (cases b) (auto simp: rg_at_def buf_at_def reg_exit_def free_if_def reg_free_def)

text \<open>The result of a run that has to come out as \<open>v\<close>: memory and handles as at the beginning.\<close>

definition outcome :: "verdict \<Rightarrow> nat set \<Rightarrow> nat set \<Rightarrow> reg_path \<Rightarrow> (reg_path \<Rightarrow> (string \<rightharpoonup> reg_value) option) \<Rightarrow> reg_state \<Rightarrow>
    (NTSTATUS \<times> reg_state) option \<Rightarrow> bool" where
  "outcome v P H p D s res \<longleftrightarrow> (case v of
     Faults \<Rightarrow> res = None
   | Refuses st \<Rightarrow> (\<exists>s'. res = Some (st, s') \<and> rg_at P H s' \<and> rs_next s \<le> rs_next s'
       \<and> (\<forall>q. strip p q = None \<longrightarrow> rs_dest s' q = rs_dest s q))
   | Completes \<Rightarrow> (\<exists>s'. res = Some (STATUS_SUCCESS, s') \<and> rg_at P H s' \<and> rs_next s \<le> rs_next s' \<and> rs_dest s' = D))"

lemma exit_outcome:
  assumes "buf_at b P H s1" and "rs_next s \<le> rs_next s1" and "\<forall>q. strip p q = None \<longrightarrow> rs_dest s1 q = rs_dest s q"
  shows "outcome (Refuses st) P H p D s (reg_exit st b s1)"
  using exit_eq [OF assms(1), of st] assms(2,3) by (auto simp: outcome_def)

lemma exit_success:
  assumes "buf_at b P H s1" and "rs_next s \<le> rs_next s1" and "rs_dest s1 = D"
  shows "outcome Completes P H p D s (reg_exit STATUS_SUCCESS b s1)"
  using exit_eq [OF assms(1), of STATUS_SUCCESS] assms(2,3) by (auto simp: outcome_def)

lemma insuff_not: "\<not> NT_SUCCESS STATUS_INSUFFICIENT_RESOURCES" "STATUS_INSUFFICIENT_RESOURCES \<noteq> STATUS_NO_MORE_ENTRIES"
  by (simp_all add: NT_SUCCESS_def status_defs)

lemma fetch_st:
  assumes "fails f1" "fails f2"
  shows "fst (fetch_status f1 al f2 (Some n) len) \<noteq> STATUS_NO_MORE_ENTRIES"
    and "fst (fetch_status f1 al f2 None len) = STATUS_NO_MORE_ENTRIES \<or> \<not> NT_SUCCESS (fst (fetch_status f1 al f2 None len))"
  using zw_status [OF assms(1)] zw_status [OF assms(2)] insuff_not by (auto simp: fetch_status_def Let_def)

lemma failed_success: "fails f \<Longrightarrow> NT_SUCCESS (failed f) \<longleftrightarrow> f = None"
  by (cases f) (auto simp: failed_def fails_def)

text \<open>A round that does not find an entry: the loop is left, and a failure is fatal after the first round.\<close>

lemma values_stop:
  fixes i :: nat
  assumes "buf_at b P H s1" and "if i = 0 then name = None else gone (rs_pool s1) s1 name"
    and "rs_next s \<le> rs_next s1" "rs_dest s1 = rs_dest s"
  shows "outcome (if 0 < i then Faults else Refuses st) P H p D s (do { s2 \<leftarrow> free_if name s1; reg_exit st b s2 })"
  using assms free_gone [of s1 name] exit_outcome [OF assms(1,3), of p st D]
  by (auto simp: outcome_def free_if_def split: if_splits)

lemma add_map_of: "n \<notin> fst ` set vs \<Longrightarrow> m(n \<mapsto> x) ++ map_of vs = m ++ map_of ((n, x) # vs)"
  by (simp add: map_add_upd_left dom_map_of_conv_image_fst)

lemma outcome_mono:
  assumes "outcome v P H p D s1 res" and "rs_next s \<le> rs_next s1" and "\<forall>q. strip p q = None \<longrightarrow> rs_dest s1 q = rs_dest s q"
  shows "outcome v P H p D s res"
  using assms by (cases v) (auto simp: outcome_def)

text \<open>A round that allocates a name and frees it.\<close>

lemma name_round:
  assumes "buf_at (Some b) P H s"
  shows "reg_free (rs_next s) (s \<lparr> rs_next := rs_next s + 1, rs_pool := insert (rs_next s) (rs_pool s), rs_dest := X \<rparr>)
      = Some (s \<lparr> rs_next := rs_next s + 1, rs_dest := X \<rparr>)" (is "_ = Some ?s")
    and "buf_at (Some b) P H (s \<lparr> rs_next := rs_next s + 1, rs_dest := X \<rparr>)"
    and "gone (rs_pool s) (s \<lparr> rs_next := rs_next s + 1, rs_dest := X \<rparr>) (Some (rs_next s))"
proof -
  have n: "rs_next s \<notin> rs_pool s" and P: "\<forall>x \<in> insert b P \<union> H. x < rs_next s" using assms by (auto simp: buf_at_def rg_at_def)
  show "reg_free (rs_next s) (s \<lparr> rs_next := rs_next s + 1, rs_pool := insert (rs_next s) (rs_pool s), rs_dest := X \<rparr>) = Some ?s"
    using n by (simp add: reg_free_def)
  show "buf_at (Some b) P H ?s" using assms P by (auto simp: buf_at_def rg_at_def intro: less_SucI)
  show "gone (rs_pool s) ?s (Some (rs_next s))" using n by (simp add: gone_def)
qed

lemma values_loop_ok:
  assumes e: "reg_env_ok e"
  shows "buf_at (Some b) P H s \<Longrightarrow> if i = 0 then name = None else gone (rs_pool s) s name
    \<Longrightarrow> rs_dest s p = Some m \<Longrightarrow> distinct (map fst vs) \<Longrightarrow> list_all (\<lambda>v. CHR 0x00 \<notin> set (fst v)) vs
    \<Longrightarrow> outcome (decide (values_calls e ip i vs len)) P H p ((rs_dest s)(p := Some (m ++ map_of vs))) s
          (copy_values_loop e ip p i vs (b, len) name s)"
proof (induction vs arbitrary: i b len name s m)
  case Nil
  let ?f = "fetch_status (re_value e ip i) (re_value_alloc e ip i) (re_value_again e ip i) None len"
  have f: "fails (re_value e ip i)" "fails (re_value_again e ip i)" using e by (simp_all add: reg_env_ok_def)
  obtain b' s1 where 1: "fetch_entry (re_value e ip i) (re_value_alloc e ip i) (re_value_again e ip i) None (b, len) s
      = Some (fst ?f, b', snd ?f, s1)" "rs_next s \<le> rs_next s1" "rs_dest s1 = rs_dest s" "buf_at b' P H s1"
      "if i = 0 then name = None else gone (rs_pool s1) s1 name"
    using fetch_eq [OF Nil(1)] Nil(2) by (metis (lifting))
  have D: "(rs_dest s)(p := Some (m ++ map_of [])) = rs_dest s1" using Nil(3) 1(3) by (auto simp: fun_eq_iff)
  show ?case
  proof (cases "fst ?f = STATUS_NO_MORE_ENTRIES")
    case True
    then show ?thesis using exit_success [OF 1(4,2) refl] 1(1)
      unfolding D by (simp add: copy_values_loop.simps [of e ip p i "[]"] end_status_def)
  next
    case False
    then have n: "\<not> NT_SUCCESS (fst ?f)" using fetch_st(2) [OF f] by blast
    have "decide (values_calls e ip i [] len) = (if 0 < i then Faults else Refuses (fst ?f))"
      using n False by (simp add: end_status_def)
    then show ?thesis using values_stop [OF 1(4,5,2,3)] 1(1) n False
      by (simp add: copy_values_loop.simps [of e ip p i "[]"])
  qed
next
  case (Cons v vs)
  let ?f = "fetch_status (re_value e ip i) (re_value_alloc e ip i) (re_value_again e ip i) (Some (value_info_size e v)) len"
  have f: "fails (re_value e ip i)" "fails (re_value_again e ip i)" "fails (re_set e ip i)" using e by (simp_all add: reg_env_ok_def)
  obtain b' s1 where 1: "fetch_entry (re_value e ip i) (re_value_alloc e ip i) (re_value_again e ip i)
        (Some (value_info_size e v)) (b, len) s = Some (fst ?f, b', snd ?f, s1)" "rs_next s \<le> rs_next s1"
      "rs_dest s1 = rs_dest s" "buf_at b' P H s1" "b' = None \<longrightarrow> fst ?f = STATUS_INSUFFICIENT_RESOURCES"
      "if i = 0 then name = None else gone (rs_pool s1) s1 name"
    using fetch_eq [OF Cons.prems(1)] Cons.prems(2) by (metis (lifting))
  note eq = copy_values_loop.simps [of e ip p i "v # vs"] and calls = values_calls.simps(2) [of e ip i v vs len]
  have st: "fst ?f \<noteq> STATUS_NO_MORE_ENTRIES" by (rule fetch_st(1) [OF f(1,2)])
  show ?case
  proof (cases "NT_SUCCESS (fst ?f)")
    case False
    then show ?thesis using values_stop [OF 1(4,6,2,3)] 1(1) st by (simp add: eq calls split_beta)
  next
    case True
    then obtain b1 where b1: "b' = Some b1" using 1(5) insuff_not by (cases b') auto
    note at = 1(4) [unfolded b1]
    show ?thesis
    proof (cases "re_value_name e ip i \<and> re_set e ip i = None")
      case False
      have "re_value_name e ip i \<Longrightarrow> outcome (Refuses (failed (re_set e ip i))) P H p ((rs_dest s)(p := Some (m ++ map_of (v # vs)))) s
          (reg_exit (failed (re_set e ip i)) (Some b1) (s1 \<lparr> rs_next := rs_next s1 + 1, rs_dest := rs_dest s1 \<rparr>))"
        using exit_outcome [OF name_round(2) [OF at]] 1(2,3) by simp
      then show ?thesis using True False 1(1) st b1 failed_success [OF f(3)] name_round(1) [OF at, of "rs_dest s1"] insuff_not(1)
        by (auto simp: eq calls split_beta alloc_status_def outcome_def reg_alloc_def Let_def)
    next
      case ok: True
      let ?X = "(rs_dest s1)(p := Some (m(fst v \<mapsto> snd v)))"
      let ?s4 = "s1 \<lparr> rs_next := rs_next s1 + 1, rs_dest := ?X \<rparr>"
      have set: "ZwSetValueKey p (c_name (fst v)) (snd v) (snd (reg_alloc s1)) = (snd (reg_alloc s1)) \<lparr> rs_dest := ?X \<rparr>"
        using Cons.prems(3,5) 1(3) by (simp add: ZwSetValueKey_def reg_alloc_def c_name_id)
      have "outcome (decide (values_calls e ip (i + 1) vs (snd ?f))) P H p
          ((rs_dest ?s4)(p := Some (m(fst v \<mapsto> snd v) ++ map_of vs))) ?s4 (copy_values_loop e ip p (i + 1) vs (b1, snd ?f) (Some (rs_next s1)) ?s4)"
        using name_round(2,3) [OF at, of ?X] Cons.prems(4,5)
        by (intro Cons.IH) (simp_all del: fun_upd_apply add: fun_upd_same)
      moreover have "(rs_dest ?s4)(p := Some (m(fst v \<mapsto> snd v) ++ map_of vs)) = (rs_dest s)(p := Some (m ++ map_of (v # vs)))"
        using add_map_of [of "fst v" vs m "snd v"] Cons.prems(4) 1(3) by simp
      ultimately have "outcome (decide (values_calls e ip (i + 1) vs (snd ?f))) P H p
          ((rs_dest s)(p := Some (m ++ map_of (v # vs)))) s (copy_values_loop e ip p (i + 1) vs (b1, snd ?f) (Some (rs_next s1)) ?s4)"
        using outcome_mono [where s = s and ?s1.0 = ?s4] 1(2,3) strip_append [of p "[]"] by fastforce
      then show ?thesis using True ok 1(1) st b1 set name_round(1) [OF at, of ?X]
        by (simp add: eq calls split_beta alloc_status_def reg_alloc_def Let_def failed_def del: fun_upd_apply)
    qed
  qed
qed

lemma values_ok:
  assumes "reg_env_ok e" and "rg_at P H s" and "rs_dest s p = Some m" and "names_ok (RegKey vs ks)"
  shows "outcome (decide ((False, alloc_status (re_alloc_full e ip))
      # values_calls e ip 0 vs (sizeof_KEY_VALUE_FULL_INFORMATION e + MAX_DEVICE_REG_KEY_LENGTH))) P H p
    ((rs_dest s)(p := Some (m ++ map_of vs))) s (CopyRegistryValues e ip vs p s)"
proof (cases "re_alloc_full e ip")
  case False
  then show ?thesis using assms(2) by (simp add: CopyRegistryValues_def alloc_status_def insuff_not outcome_def)
next
  case True
  let ?s1 = "s \<lparr> rs_next := rs_next s + 1, rs_pool := insert (rs_next s) (rs_pool s) \<rparr>"
  have "buf_at (Some (rs_next s)) P H ?s1" using assms(2) by (auto simp: buf_at_def rg_at_def intro: less_SucI)
  from values_loop_ok [OF assms(1) this, of 0 None p m vs ip] assms(3,4)
  have "outcome (decide (values_calls e ip 0 vs len)) P H p ((rs_dest s)(p := Some (m ++ map_of vs))) ?s1
      (copy_values_loop e ip p 0 vs (rs_next s, len) None ?s1)" for len by simp
  then have "outcome (decide (values_calls e ip 0 vs len)) P H p ((rs_dest s)(p := Some (m ++ map_of vs))) s
      (copy_values_loop e ip p 0 vs (rs_next s, len) None ?s1)" for len by (rule outcome_mono) simp_all
  then show ?thesis using True by (simp add: CopyRegistryValues_def alloc_status_def reg_alloc_def)
qed

text \<open>What the subkeys put into the destination.\<close>

definition sub_copied :: "(string \<times> reg_key) list \<Rightarrow> reg_path \<Rightarrow> (reg_path \<Rightarrow> (string \<rightharpoonup> reg_value) option) \<Rightarrow>
    reg_path \<Rightarrow> (string \<rightharpoonup> reg_value) option" where
  "sub_copied ks p D q = (case strip p q of
     Some (n # r) \<Rightarrow> (case map_of ks n of None \<Rightarrow> D q | Some k \<Rightarrow> grown k r (D q)) | _ \<Rightarrow> D q)"

lemma copied_key:
  assumes "D p = Some m"
  shows "copied (RegKey vs ks) p overwrite D
    = (if overwrite then (sub_copied ks p D)(p := Some (m ++ map_of vs)) else sub_copied ks p D)"
proof (rule ext)
  fix q
  show "copied (RegKey vs ks) p overwrite D q
    = (if overwrite then (sub_copied ks p D)(p := Some (m ++ map_of vs)) else sub_copied ks p D) q"
  proof (cases "strip p q")
    case None
    then have "q \<noteq> p" using strip_append [of p "[]"] by auto
    then show ?thesis using None by (simp add: copied_def sub_copied_def)
  next
    case (Some r)
    then have "q = p @ r" by (simp add: strip_iff)
    then show ?thesis using Some assms
      by (cases r) (auto simp: copied_def sub_copied_def grown_def split: option.splits)
  qed
qed

lemma sub_copied_Nil: "sub_copied [] p D = D"
  by (auto simp: sub_copied_def fun_eq_iff split: option.splits list.splits)

definition created :: "reg_path \<Rightarrow> (reg_path \<Rightarrow> (string \<rightharpoonup> reg_value) option) \<Rightarrow> reg_path \<Rightarrow> (string \<rightharpoonup> reg_value) option" where
  "created p D = D(p := Some (case D p of None \<Rightarrow> Map.empty | Some m \<Rightarrow> m))"

lemma sub_copied_Cons:
  assumes "n \<notin> fst ` set ks"
  shows "sub_copied ks p (copied k (p @ [n]) True (created (p @ [n]) D)) = sub_copied ((n, k) # ks) p D"
proof (rule ext)
  fix q
  have none: "map_of ks n = None" using assms by (simp add: map_of_eq_None_iff)
  show "sub_copied ks p (copied k (p @ [n]) True (created (p @ [n]) D)) q = sub_copied ((n, k) # ks) p D q"
  proof (cases "strip p q")
    case None
    then have "q \<noteq> p @ [n]" using strip_append [of p "[n]"] by auto
    then show ?thesis using None by (simp add: sub_copied_def copied_def strip_snoc created_def)
  next
    case (Some r)
    show ?thesis
    proof (cases r)
      case Nil
      then show ?thesis using Some by (simp add: sub_copied_def copied_def strip_snoc created_def strip_iff)
    next
      case (Cons x r')
      then have q: "q = p @ x # r'" using Some by (simp add: strip_iff)
      show ?thesis using Some Cons none q
        by (cases r') (auto simp: sub_copied_def copied_def strip_snoc created_def grown_def split: option.splits)
    qed
  qed
qed

lemma copied_root: "copied k (p @ [n]) True D p = D p"
proof -
  have "strip (p @ [n]) p = None" using strip_append [of p "[]"] by (simp add: strip_snoc)
  then show ?thesis by (simp add: copied_def)
qed

text \<open>The name and the handles of a round that are stale in the next one.\<close>

definition stale :: "nat \<Rightarrow> reg_round \<Rightarrow> reg_state \<Rightarrow> bool" where
  "stale i r s \<longleftrightarrow> (if i = 0 then r = (None, None, None)
     else gone (rs_pool s) s (fst r) \<and> gone (rs_handles s) s (fst (snd r)) \<and> gone (rs_handles s) s (snd (snd r)))"

lemma close_gone: "gone (rs_handles s) s h \<Longrightarrow> ZwClose h s = None"
  by (auto simp: gone_def ZwClose_def)

lemma keys_stop:
  assumes "buf_at b P H s1" and "stale i r s1" and "rs_next s \<le> rs_next s1" "rs_dest s1 = rs_dest s"
  shows "outcome (if 0 < i then Faults else Refuses st) P H p D s (do { s2 \<leftarrow> loop_exit r s1; reg_exit st b s2 })"
  using assms free_gone [of s1 "fst r"] exit_outcome [OF assms(1,3), of p st D]
  by (cases r) (auto simp: outcome_def stale_def loop_exit_def ZwClose_def free_if_def split: if_splits)

text \<open>The objects of a round: the name \<open>n\<close> and the handles \<open>n + 1\<close> and \<open>n + 2\<close>.\<close>

definition in_round :: "reg_state \<Rightarrow> nat \<Rightarrow> (reg_path \<Rightarrow> (string \<rightharpoonup> reg_value) option) \<Rightarrow> reg_state" where
  "in_round s k X = s \<lparr> rs_next := rs_next s + Suc k, rs_pool := insert (rs_next s) (rs_pool s),
     rs_handles := (\<lambda>j. rs_next s + Suc j) ` {..<k} \<union> rs_handles s, rs_dest := X \<rparr>"

lemma in_round_0: "in_round s 0 (rs_dest s) = snd (reg_alloc s)"
  by (simp add: in_round_def reg_alloc_def)

lemma in_round_open: "reg_open (in_round s k X) = (rs_next s + Suc k, in_round s (Suc k) X)"
  by (simp add: in_round_def reg_open_def lessThan_Suc)

lemma in_round_create: "ZwCreateKey p (in_round s k X) = in_round s k (created p X)"
  by (simp add: in_round_def ZwCreateKey_def created_def)

lemma in_round_at:
  assumes "buf_at (Some b) P H s"
  shows "rg_at (insert (rs_next s) (insert b P)) ((\<lambda>j. rs_next s + Suc j) ` {..<k} \<union> H) (in_round s k X)"
  using assms by (auto simp: buf_at_def rg_at_def in_round_def intro: trans_less_add1 less_SucI)

text \<open>A failing open or create in a round.\<close>

lemma open_stop:
  assumes at: "buf_at (Some b) P H s1" and r: "stale i r s1" and s1: "rs_next s \<le> rs_next s1" "rs_dest s1 = rs_dest s"
  shows "outcome (if 0 < i then Faults else Refuses st) P H p D s
    (do { s3 \<leftarrow> ZwClose (fst (snd r)) (in_round s1 0 (rs_dest s1)); s4 \<leftarrow> loop_exit (Some (rs_next s1), snd r) s3; reg_exit st (Some b) s4 })"
proof (cases "i = 0")
  case True
  have n: "rs_next s1 \<notin> rs_pool s1" using at by (auto simp: buf_at_def rg_at_def)
  have "outcome (Refuses st) P H p D s (reg_exit st (Some b) (s1 \<lparr> rs_next := rs_next s1 + 1, rs_dest := rs_dest s1 \<rparr>))"
    using exit_outcome [OF name_round(2) [OF at]] s1 by simp
  then show ?thesis using True r n by (simp add: stale_def loop_exit_def ZwClose_def free_if_def in_round_def reg_free_def)
next
  case False
  then have "gone (rs_handles s1) s1 (fst (snd r))" using r by (simp add: stale_def)
  then have "ZwClose (fst (snd r)) (in_round s1 0 (rs_dest s1)) = None"
    by (intro close_gone) (auto simp: gone_def in_round_def)
  then show ?thesis using False by (simp add: outcome_def)
qed

lemma create_stop:
  assumes at: "buf_at (Some b) P H s1"
  shows "(do { s4 \<leftarrow> ZwClose (Some (rs_next s1 + 1)) (in_round s1 1 X);
      s5 \<leftarrow> loop_exit (Some (rs_next s1), Some (rs_next s1 + 1), h) s4; reg_exit st (Some b) s5 }) = None"
  using at by (simp add: ZwClose_def in_round_def loop_exit_def free_if_def reg_free_def)

lemma round_end:
  assumes at: "buf_at (Some b) P H s" and s5: "rg_at (insert (rs_next s) (insert b P)) ((\<lambda>j. rs_next s + Suc j) ` {..<2} \<union> H) s5"
    and n: "rs_next s + 3 \<le> rs_next s5"
  shows "\<exists>s6. loop_exit (Some (rs_next s), Some (rs_next s + 1), Some (rs_next s + 2)) s5 = Some s6 \<and> buf_at (Some b) P H s6
    \<and> rs_next s6 = rs_next s5 \<and> rs_dest s6 = rs_dest s5
    \<and> stale (Suc i) (Some (rs_next s), Some (rs_next s + 1), Some (rs_next s + 2)) s6"
proof -
  have h: "(\<lambda>j. rs_next s + Suc j) ` {..<2} = {rs_next s + 1, rs_next s + 2}" by (auto simp: less_2_cases_iff)
  have lt: "x \<in> insert b P \<union> H \<Longrightarrow> x < rs_next s" for x using at by (auto simp: buf_at_def rg_at_def)
  have new: "rs_next s \<notin> insert b P" "rs_next s + 1 \<notin> H" "rs_next s + 2 \<notin> H" "b \<notin> P"
    using at lt [of "rs_next s"] lt [of "rs_next s + 1"] lt [of "rs_next s + 2"] by (auto simp: buf_at_def)
  have p: "rs_pool s5 - {rs_next s} = insert b P" "rs_next s \<in> rs_pool s5" using s5 new by (auto simp: rg_at_def)
  have q: "rs_handles s5 - {rs_next s + 1} - {rs_next s + 2} = H" "rs_next s + 1 \<in> rs_handles s5" "rs_next s + 2 \<in> rs_handles s5"
    using s5 new h by (auto simp: rg_at_def)
  let ?s6 = "s5 \<lparr> rs_pool := insert b P, rs_handles := H \<rparr>"
  have "loop_exit (Some (rs_next s), Some (rs_next s + 1), Some (rs_next s + 2)) s5 = Some ?s6"
    using p q by (simp add: loop_exit_def free_if_def reg_free_def ZwClose_def)
  moreover have "buf_at (Some b) P H ?s6" using s5 new by (auto simp: buf_at_def rg_at_def)
  moreover have "stale (Suc i) (Some (rs_next s), Some (rs_next s + 1), Some (rs_next s + 2)) ?s6"
    using new n by (simp add: stale_def gone_def)
  ultimately show ?thesis by auto
qed

section \<open>Keys\<close>

definition key_copied :: "reg_env \<Rightarrow> reg_key \<Rightarrow> bool" where
  "key_copied e k \<longleftrightarrow> (\<forall>ip p overwrite s P H m. rg_at P H s \<longrightarrow> rs_dest s p = Some m
     \<longrightarrow> outcome (decide (key_calls e ip k overwrite)) P H p (copied k p overwrite (rs_dest s)) s (copy_key e ip k p overwrite s))"

text \<open>What is left to do once the subkeys \<open>ks\<close> are still to be enumerated.\<close>

definition rest_calls :: "reg_env \<Rightarrow> nat list \<Rightarrow> (string \<times> reg_value) list \<Rightarrow> bool \<Rightarrow> reg_call list" where
  "rest_calls e ip vs overwrite = (if overwrite then (False, alloc_status (re_alloc_full e ip))
      # values_calls e ip 0 vs (sizeof_KEY_VALUE_FULL_INFORMATION e + MAX_DEVICE_REG_KEY_LENGTH) else [])"

definition rest_copied :: "(string \<times> reg_value) list \<Rightarrow> (string \<times> reg_key) list \<Rightarrow> reg_path \<Rightarrow> bool \<Rightarrow> (string \<rightharpoonup> reg_value) \<Rightarrow>
    (reg_path \<Rightarrow> (string \<rightharpoonup> reg_value) option) \<Rightarrow> reg_path \<Rightarrow> (string \<rightharpoonup> reg_value) option" where
  "rest_copied vs ks p overwrite m D = (if overwrite then (sub_copied ks p D)(p := Some (m ++ map_of vs)) else sub_copied ks p D)"

lemma end_of_keys:
  assumes e: "reg_env_ok e" and b: "buf_at b P H s1" and m: "rs_dest s1 p = Some m" and n: "names_ok (RegKey vs ks)"
    and s1: "rs_next s \<le> rs_next s1" "\<forall>q. strip p q = None \<longrightarrow> rs_dest s1 q = rs_dest s q"
  shows "outcome (decide (rest_calls e ip vs overwrite)) P H p (rest_copied vs [] p overwrite m (rs_dest s1)) s
    (do { (st1, s2) \<leftarrow> (if overwrite then CopyRegistryValues e ip vs p s1 else Some (STATUS_SUCCESS, s1)); reg_exit st1 b s2 })"
proof (cases overwrite)
  case False
  then show ?thesis using exit_success [OF b s1(1) refl] by (simp add: rest_calls_def rest_copied_def sub_copied_Nil)
next
  case True
  let ?P = "case b of None \<Rightarrow> P | Some x \<Rightarrow> insert x P"
  have rest: "rest_calls e ip vs overwrite = (False, alloc_status (re_alloc_full e ip))
      # values_calls e ip 0 vs (sizeof_KEY_VALUE_FULL_INFORMATION e + MAX_DEVICE_REG_KEY_LENGTH)"
    "rest_copied vs [] p overwrite m (rs_dest s1) = (rs_dest s1)(p := Some (m ++ map_of vs))"
    using True by (simp_all add: rest_calls_def rest_copied_def sub_copied_Nil)
  have at: "rg_at ?P H s1" using b by (cases b) (simp_all add: buf_at_def)
  have again: "buf_at b P H s2" if "rg_at ?P H s2" for s2 using b that by (cases b) (simp_all add: buf_at_def)
  note oc = values_ok [OF e at m n, of ip, folded rest]
  show ?thesis
  proof (cases "decide (rest_calls e ip vs overwrite)")
    case Completes
    with oc obtain s2 where "CopyRegistryValues e ip vs p s1 = Some (STATUS_SUCCESS, s2)" "rg_at ?P H s2" "rs_next s1 \<le> rs_next s2"
        "rs_dest s2 = rest_copied vs [] p overwrite m (rs_dest s1)" unfolding outcome_def by auto
    then show ?thesis using exit_success [OF again, of s2 s _ p] True Completes s1(1) by simp
  next
    case (Refuses st)
    with oc obtain s2 where "CopyRegistryValues e ip vs p s1 = Some (st, s2)" "rg_at ?P H s2" "rs_next s1 \<le> rs_next s2"
        "\<forall>q. strip p q = None \<longrightarrow> rs_dest s2 q = rs_dest s1 q" unfolding outcome_def by auto
    then show ?thesis using exit_outcome [OF again, of s2 s p st] True Refuses s1 by simp
  next
    case Faults
    then show ?thesis using oc True by (simp add: outcome_def)
  qed
qed

lemma fetch_keys:
  assumes e: "reg_env_ok e" and b: "buf_at (Some b) P H s" and r: "stale i r s"
  obtains b' s1 where "fetch_entry (re_key e ip i) (re_key_alloc e ip i) (re_key_again e ip i) en (b, len) s
      = Some (fst (fetch_status (re_key e ip i) (re_key_alloc e ip i) (re_key_again e ip i) en len), b',
          snd (fetch_status (re_key e ip i) (re_key_alloc e ip i) (re_key_again e ip i) en len), s1)"
    "rs_next s \<le> rs_next s1" "rs_dest s1 = rs_dest s" "buf_at b' P H s1" "stale i r s1"
    "b' = None \<longrightarrow> fst (fetch_status (re_key e ip i) (re_key_alloc e ip i) (re_key_again e ip i) en len) = STATUS_INSUFFICIENT_RESOURCES"
proof -
  obtain b' s1 where 1: "fetch_entry (re_key e ip i) (re_key_alloc e ip i) (re_key_again e ip i) en (b, len) s
      = Some (fst (fetch_status (re_key e ip i) (re_key_alloc e ip i) (re_key_again e ip i) en len), b',
          snd (fetch_status (re_key e ip i) (re_key_alloc e ip i) (re_key_again e ip i) en len), s1)"
    "rs_next s \<le> rs_next s1" "rs_dest s1 = rs_dest s" "buf_at b' P H s1"
    "b' = None \<longrightarrow> fst (fetch_status (re_key e ip i) (re_key_alloc e ip i) (re_key_again e ip i) en len) = STATUS_INSUFFICIENT_RESOURCES"
    "\<forall>x. gone (rs_pool s) s x \<longrightarrow> gone (rs_pool s1) s1 x" "\<forall>x. gone (rs_handles s) s x \<longrightarrow> gone (rs_handles s1) s1 x"
    using fetch_eq [OF b] by blast
  from r 1(6,7) have "stale i r s1" by (auto simp: stale_def split: if_splits)
  with 1 that show thesis by blast
qed

text \<open>A round whose subkey is created: the copy of the subkey, then the end of the round.\<close>

lemma subkey_round:
  fixes ip :: "nat list"
  assumes k: "key_copied e k" and b: "buf_at (Some b) P H s" and q: "strip p q \<noteq> None"
  defines "s4 \<equiv> in_round s 2 (created q (rs_dest s))"
  defines "res \<equiv> do { (st1, s5) \<leftarrow> copy_key e ip k q True s4;
      s6 \<leftarrow> loop_exit (Some (rs_next s), Some (rs_next s + 1), Some (rs_next s + 2)) s5; Some (st1, s6) }"
  shows "case decide (key_calls e ip k True) of
     Faults \<Rightarrow> res = None
   | Refuses st \<Rightarrow> (\<exists>s6. res = Some (st, s6) \<and> buf_at (Some b) P H s6 \<and> rs_next s \<le> rs_next s6
       \<and> (\<forall>x. strip p x = None \<longrightarrow> rs_dest s6 x = rs_dest s x))
   | Completes \<Rightarrow> (\<exists>s6. res = Some (STATUS_SUCCESS, s6) \<and> buf_at (Some b) P H s6 \<and> rs_next s \<le> rs_next s6
       \<and> rs_dest s6 = copied k q True (created q (rs_dest s))
       \<and> stale (Suc i) (Some (rs_next s), Some (rs_next s + 1), Some (rs_next s + 2)) s6)"
proof -
  let ?P = "insert (rs_next s) (insert b P)" and ?H = "(\<lambda>j. rs_next s + Suc j) ` {..<2} \<union> H"
  have 4: "rg_at ?P ?H s4" unfolding s4_def by (rule in_round_at [OF b])
  have n4: "rs_next s4 = rs_next s + 3" "rs_dest s4 = created q (rs_dest s)" by (simp_all add: s4_def in_round_def)
  have "rs_dest s4 q = Some (case rs_dest s q of None \<Rightarrow> Map.empty | Some m \<Rightarrow> m)" by (simp add: n4 created_def)
  then have oc: "outcome (decide (key_calls e ip k True)) ?P ?H q (copied k q True (rs_dest s4)) s4 (copy_key e ip k q True s4)"
    using k 4 by (auto simp: key_copied_def)
  have q': "strip q x = None" if "strip p x = None" for x
  proof (rule ccontr)
    assume "strip q x \<noteq> None"
    then obtain r where "x = q @ r" by (auto simp: strip_iff)
    moreover obtain r' where "q = p @ r'" using assms(3) by (auto simp: strip_iff)
    ultimately show False using that by simp
  qed
  have fr: "rs_dest s4 x = rs_dest s x" if "strip p x = None" for x using that q by (auto simp: n4 created_def)
  show ?thesis
  proof (cases "decide (key_calls e ip k True)")
    case Completes
    with oc obtain s5 where 5: "copy_key e ip k q True s4 = Some (STATUS_SUCCESS, s5)" "rg_at ?P ?H s5" "rs_next s4 \<le> rs_next s5"
        "rs_dest s5 = copied k q True (rs_dest s4)" by (auto simp: outcome_def)
    with round_end [OF b 5(2), of i] Completes n4 show ?thesis by (auto simp: res_def)
  next
    case (Refuses st)
    with oc obtain s5 where 5: "copy_key e ip k q True s4 = Some (st, s5)" "rg_at ?P ?H s5" "rs_next s4 \<le> rs_next s5"
        "\<forall>x. strip q x = None \<longrightarrow> rs_dest s5 x = rs_dest s4 x" by (auto simp: outcome_def)
    with round_end [OF b 5(2), of i] Refuses n4 q' fr show ?thesis by (auto simp: res_def)
  next
    case Faults
    then show ?thesis using oc by (simp add: outcome_def res_def)
  qed
qed

lemma subkeys_ok:
  assumes e: "reg_env_ok e" and src: "src = RegKey vs ks0" "names_ok src"
  shows "buf_at (Some b) P H s \<Longrightarrow> stale i r s \<Longrightarrow> rs_dest s p = Some m \<Longrightarrow> distinct (map fst ks)
    \<Longrightarrow> \<forall>(n, k) \<in> set ks. CHR 0x00 \<notin> set n \<and> map_of ks0 n = Some k \<and> key_copied e k
    \<Longrightarrow> outcome (decide (subkeys_calls e ip i ks len @ rest_calls e ip vs overwrite)) P H p (rest_copied vs ks p overwrite m (rs_dest s)) s
          (copy_subkeys e ip src p overwrite i ks (b, len) r s)"
proof (induction ks arbitrary: i b len r s)
  case Nil
  let ?f = "fetch_status (re_key e ip i) (re_key_alloc e ip i) (re_key_again e ip i) None len"
  have f: "fails (re_key e ip i)" "fails (re_key_again e ip i)" using e by (simp_all add: reg_env_ok_def)
  obtain b' s1 where 1: "fetch_entry (re_key e ip i) (re_key_alloc e ip i) (re_key_again e ip i) None (b, len) s
      = Some (fst ?f, b', snd ?f, s1)" "rs_next s \<le> rs_next s1" "rs_dest s1 = rs_dest s" "buf_at b' P H s1" "stale i r s1"
    by (rule fetch_keys [OF e Nil(1,2), of ip None len]) blast
  note eq = copy_subkeys.simps [of e ip src p overwrite i "[]"]
  show ?case
  proof (cases "fst ?f = STATUS_NO_MORE_ENTRIES")
    case True
    have v: "rk_values src = vs" by (simp add: src(1))
    have "outcome (decide (rest_calls e ip vs overwrite)) P H p (rest_copied vs [] p overwrite m (rs_dest s)) s
        (do { (st1, s2) \<leftarrow> (if overwrite then CopyRegistryValues e ip vs p s1 else Some (STATUS_SUCCESS, s1)); reg_exit st1 b' s2 })"
      using end_of_keys [OF e 1(4) _ src(2) [unfolded src(1)] 1(2), of p m ip overwrite] Nil(3) 1(3) by simp
    then show ?thesis unfolding eq using True 1(1) by (cases overwrite) (simp_all add: v end_status_def)
  next
    case False
    then have n: "\<not> NT_SUCCESS (fst ?f)" using fetch_st(2) [OF f] by blast
    have "decide (subkeys_calls e ip i [] len @ rest_calls e ip vs overwrite) = (if 0 < i then Faults else Refuses (fst ?f))"
      using n False by (simp add: end_status_def)
    then show ?thesis using keys_stop [OF 1(4,5,2,3)] 1(1) n False by (simp add: eq)
  qed
next
  case (Cons nk ks)
  obtain n k where nk: "nk = (n, k)" by (cases nk)
  let ?f = "fetch_status (re_key e ip i) (re_key_alloc e ip i) (re_key_again e ip i) (Some (key_info_size e n)) len"
  let ?D = "rest_copied vs (nk # ks) p overwrite m (rs_dest s)"
  have f: "fails (re_key e ip i)" "fails (re_key_again e ip i)" "fails (re_open e ip i)" "fails (re_create e ip i)"
    using e by (simp_all add: reg_env_ok_def)
  obtain b' s1 where 1: "fetch_entry (re_key e ip i) (re_key_alloc e ip i) (re_key_again e ip i) (Some (key_info_size e n)) (b, len) s
      = Some (fst ?f, b', snd ?f, s1)" "rs_next s \<le> rs_next s1" "rs_dest s1 = rs_dest s" "buf_at b' P H s1" "stale i r s1"
      "b' = None \<longrightarrow> fst ?f = STATUS_INSUFFICIENT_RESOURCES"
    by (rule fetch_keys [OF e Cons.prems(1,2), of ip "Some (key_info_size e n)" len]) blast
  note eq = copy_subkeys.simps [of e ip src p overwrite i "(n, k) # ks"] and calls = subkeys_calls.simps(2) [of e ip i n k ks len]
  have st: "fst ?f \<noteq> STATUS_NO_MORE_ENTRIES" by (rule fetch_st(1) [OF f(1,2)])
  have name: "c_name n = n" and kc: "key_copied e k" using Cons.prems(5) nk by (auto simp: c_name_id)
  have op: "ZwOpenKey (re_open e ip i) n src = (case re_open e ip i of None \<Rightarrow> Inr k | Some x \<Rightarrow> Inl x)"
    using Cons.prems(5) nk src(1) by (simp add: ZwOpenKey_def split: option.split)
  show ?case
  proof (cases "NT_SUCCESS (fst ?f)")
    case False
    then have "decide (subkeys_calls e ip i (nk # ks) len @ rest_calls e ip vs overwrite) = (if 0 < i then Faults else Refuses (fst ?f))"
      by (simp add: calls split_beta nk)
    moreover have "copy_subkeys e ip src p overwrite i (nk # ks) (b, len) r s = do { s2 \<leftarrow> loop_exit r s1; reg_exit (fst ?f) b' s2 }"
      using False 1(1) st by (simp add: eq nk)
    ultimately show ?thesis using keys_stop [OF 1(4,5,2,3)] by simp
  next
    case True
    then obtain b1 where b1: "b' = Some b1" using 1(6) insuff_not by (cases b') auto
    note at = 1(4) [unfolded b1]
    have al: "reg_alloc s1 = (rs_next s1, in_round s1 0 (rs_dest s1))" by (simp add: in_round_def reg_alloc_def)
    show ?thesis
    proof (cases "re_key_name e ip i")
      case False
      then show ?thesis using True 1(1) st b1 insuff_not(1) by (simp add: eq calls split_beta nk alloc_status_def outcome_def)
    next
      case nm: True
      show ?thesis
      proof (cases "re_open e ip i")
        case (Some st1)
        then have "\<not> NT_SUCCESS (failed (re_open e ip i))" using failed_success [OF f(3)] by simp
        then have "decide (subkeys_calls e ip i (nk # ks) len @ rest_calls e ip vs overwrite) = (if 0 < i then Faults else Refuses st1)"
          using True nm Some by (simp add: calls split_beta nk alloc_status_def failed_def)
        moreover have "copy_subkeys e ip src p overwrite i (nk # ks) (b, len) r s
          = (do { s3 \<leftarrow> ZwClose (fst (snd r)) (in_round s1 0 (rs_dest s1)); s4 \<leftarrow> loop_exit (Some (rs_next s1), snd r) s3;
              reg_exit st1 (Some b1) s4 })"
          using True nm 1(1) st b1 Some name op by (simp add: eq nk al)
        ultimately show ?thesis using open_stop [OF at 1(5,2,3), of st1 p ?D] by simp
      next
        case None
        note o1 = this
        show ?thesis
        proof (cases "re_create e ip i")
          case (Some st1)
          then have "\<not> NT_SUCCESS (failed (re_create e ip i))" using failed_success [OF f(4)] by simp
          then show ?thesis using create_stop [OF at, of "rs_dest s1" "snd (snd r)" st1] True nm 1(1) st b1 Some o1 name op
            by (simp add: eq calls split_beta nk alloc_status_def al failed_def in_round_open outcome_def)
        next
          case None
          let ?q = "p @ [n]" and ?n = "rs_next s1"
          let ?r = "(Some ?n, Some (?n + 1), Some (?n + 2))"
          have q: "strip p ?q \<noteq> None" by simp
          have run: "copy_subkeys e ip src p overwrite i (nk # ks) (b, len) r s = do {
              (st1, s5) \<leftarrow> copy_key e (ip @ [i]) k ?q True (in_round s1 2 (created ?q (rs_dest s1)));
              s6 \<leftarrow> loop_exit ?r s5;
              if NT_SUCCESS st1 then copy_subkeys e ip src p overwrite (i + 1) ks (b1, snd ?f) ?r s6 else reg_exit st1 (Some b1) s6 }"
            using True nm 1(1) st b1 None o1 name op
            by (simp add: eq nk al in_round_open in_round_create numeral_2_eq_2 cong: if_cong)
          have ds: "decide (subkeys_calls e ip i (nk # ks) len @ rest_calls e ip vs overwrite)
            = (case decide (key_calls e (ip @ [i]) k True) of
                 Completes \<Rightarrow> decide (subkeys_calls e ip (i + 1) ks (snd ?f) @ rest_calls e ip vs overwrite) | v \<Rightarrow> v)"
            using True nm None o1 by (simp add: calls split_beta nk alloc_status_def failed_def split: verdict.splits)
          note rd = subkey_round [OF kc at q, of "ip @ [i]" i]
          show ?thesis
          proof (cases "decide (key_calls e (ip @ [i]) k True)")
            case Completes
            with rd obtain s6 where 6: "do { (st1, s5) \<leftarrow> copy_key e (ip @ [i]) k ?q True (in_round s1 2 (created ?q (rs_dest s1)));
                s6 \<leftarrow> loop_exit ?r s5; Some (st1, s6) } = Some (STATUS_SUCCESS, s6)" "buf_at (Some b1) P H s6" "rs_next s1 \<le> rs_next s6"
                "rs_dest s6 = copied k ?q True (created ?q (rs_dest s1))" "stale (Suc i) ?r s6" by auto
            have D6: "rs_dest s6 p = Some m" using Cons.prems(3) 1(3) by (simp add: 6(4) copied_root created_def)
            have "sub_copied ks p (rs_dest s6) = sub_copied (nk # ks) p (rs_dest s)"
              using sub_copied_Cons [of n ks p k "rs_dest s1"] Cons.prems(4) nk 1(3) by (simp add: 6(4))
            then have D: "rest_copied vs ks p overwrite m (rs_dest s6) = ?D" by (simp add: rest_copied_def)
            have fr: "\<forall>x. strip p x = None \<longrightarrow> rs_dest s6 x = rs_dest s x"
              using 1(3) by (auto simp: 6(4) copied_def created_def strip_snoc)
            have "outcome (decide (subkeys_calls e ip (i + 1) ks (snd ?f) @ rest_calls e ip vs overwrite)) P H p ?D s6
                (copy_subkeys e ip src p overwrite (i + 1) ks (b1, snd ?f) ?r s6)"
              unfolding D [symmetric] using 6(2,5) D6 Cons.prems(4,5) by (intro Cons.IH) auto
            then have "outcome (decide (subkeys_calls e ip (i + 1) ks (snd ?f) @ rest_calls e ip vs overwrite)) P H p ?D s
                (copy_subkeys e ip src p overwrite (i + 1) ks (b1, snd ?f) ?r s6)"
              using 1(2) 6(3) fr by (intro outcome_mono [where s = s and ?s1.0 = s6]) simp_all
            then show ?thesis using 6(1) Completes unfolding run ds by (auto split: bind_splits)
          next
            case (Refuses st1)
            with rd obtain s6 where 6: "do { (st1, s5) \<leftarrow> copy_key e (ip @ [i]) k ?q True (in_round s1 2 (created ?q (rs_dest s1)));
                s6 \<leftarrow> loop_exit ?r s5; Some (st1, s6) } = Some (st1, s6)" "buf_at (Some b1) P H s6" "rs_next s1 \<le> rs_next s6"
                "\<forall>x. strip p x = None \<longrightarrow> rs_dest s6 x = rs_dest s1 x" by auto
            have "\<not> NT_SUCCESS st1" using Refuses decide_refuses by blast
            then show ?thesis using 6(1) exit_outcome [OF 6(2), of s p st1 ?D] 6(3,4) 1(2,3) Refuses unfolding run ds
              by (auto split: bind_splits)
          next
            case Faults
            then show ?thesis using rd unfolding run ds by (auto simp: outcome_def split: bind_splits)
          qed
        qed
      qed
    qed
  qed
qed

lemma copy_all:
  assumes e: "reg_env_ok e"
  shows "names_ok k \<Longrightarrow> key_copied e k"
proof (induction k)
  case (RegKey vs ks)
  show ?case unfolding key_copied_def
  proof (intro allI impI)
    fix ip p overwrite s P H m
    assume at: "rg_at P H s" and m: "rs_dest s p = Some m"
    let ?src = "RegKey vs ks" and ?len = "sizeof_KEY_BASIC_INFORMATION e + MAX_DEVICE_REG_KEY_LENGTH"
    show "outcome (decide (key_calls e ip ?src overwrite)) P H p (copied ?src p overwrite (rs_dest s)) s (copy_key e ip ?src p overwrite s)"
    proof (cases "re_alloc_basic e ip")
      case False
      then show ?thesis using at by (simp add: copy_key.simps alloc_status_def insuff_not outcome_def)
    next
      case True
      let ?s1 = "s \<lparr> rs_next := rs_next s + 1, rs_pool := insert (rs_next s) (rs_pool s) \<rparr>"
      have b: "buf_at (Some (rs_next s)) P H ?s1" using at by (auto simp: buf_at_def rg_at_def intro: less_SucI)
      have ks: "\<forall>(n, k) \<in> set ks. CHR 0x00 \<notin> set n \<and> map_of ks n = Some k \<and> key_copied e k"
        using RegKey by (fastforce simp: list_all_iff)
      have "outcome (decide (subkeys_calls e ip 0 ks ?len @ rest_calls e ip vs overwrite)) P H p
          (rest_copied vs ks p overwrite m (rs_dest s)) ?s1
          (copy_subkeys e ip ?src p overwrite 0 ks (rs_next s, ?len) (None, None, None) ?s1)"
        using subkeys_ok [OF e refl RegKey.prems b _ _ _ ks, of 0 "(None, None, None)" p m ip ?len overwrite] m RegKey.prems
        by (simp add: stale_def)
      then have "outcome (decide (subkeys_calls e ip 0 ks ?len @ rest_calls e ip vs overwrite)) P H p
          (rest_copied vs ks p overwrite m (rs_dest s)) s
          (copy_subkeys e ip ?src p overwrite 0 ks (rs_next s, ?len) (None, None, None) ?s1)"
        by (rule outcome_mono) simp_all
      then show ?thesis using True copied_key [of "rs_dest s" p m vs ks overwrite, OF m]
        by (simp only: copy_key.simps key_calls.simps rest_calls_def [symmetric] rest_copied_def [symmetric])
          (simp add: alloc_status_def reg_alloc_def)
    qed
  qed
qed

section \<open>Properties\<close>

lemma CopyRegistryKey_outcome:
  assumes "reg_env_ok e" and "names_ok src" and "rg_at P H s" and "rs_dest s p = Some m"
  shows "outcome (decide (key_calls e [] src overwrite)) P H p (copied src p overwrite (rs_dest s)) s
      (CopyRegistryKey e (Some src) (Some p) overwrite s)"
  using copy_all [OF assms(1,2)] assms(3,4) by (simp add: key_copied_def CopyRegistryKey_def)

text \<open>
  C16. The recursive copy of a registry key, over all trees of keys and all failures of the calls it
  makes. The first call that fails decides. When none does, the destination holds the copy: every key
  of the source exists, its values are set and others are as before. When the first failure is
  handled, its status is returned and nothing outside the destination key has changed. In both cases
  all pool memory and all handles are as before. When it is the allocation of a name, the creation of
  a key, or an enumeration or opening after the first round of a loop, the code faults: it writes
  through NULL, or it frees the name and closes the handles of the round before again.
\<close>

theorem registry_copy:
  assumes "reg_env_ok e" and "names_ok src" and "rg_at P H s" and "rs_dest s p = Some m"
  shows "case decide (key_calls e [] src overwrite) of
     Faults \<Rightarrow> CopyRegistryKey e (Some src) (Some p) overwrite s = None
   | Refuses st \<Rightarrow> (\<exists>s'. CopyRegistryKey e (Some src) (Some p) overwrite s = Some (st, s')
       \<and> rs_pool s' = P \<and> rs_handles s' = H \<and> (\<forall>q. strip p q = None \<longrightarrow> rs_dest s' q = rs_dest s q))
   | Completes \<Rightarrow> (\<exists>s'. CopyRegistryKey e (Some src) (Some p) overwrite s = Some (STATUS_SUCCESS, s')
       \<and> rs_pool s' = P \<and> rs_handles s' = H \<and> rs_dest s' = copied src p overwrite (rs_dest s))"
  using CopyRegistryKey_outcome [OF assms, of overwrite]
  by (cases "decide (key_calls e [] src overwrite)") (auto simp: outcome_def rg_at_def)

text \<open>No call fails.\<close>

definition smooth :: "reg_env \<Rightarrow> bool" where
  "smooth e \<longleftrightarrow> (\<forall>ip. re_alloc_basic e ip \<and> re_alloc_full e ip) \<and> (\<forall>ip i. re_key e ip i = None \<and> re_key_alloc e ip i
     \<and> re_key_again e ip i = None \<and> re_key_name e ip i \<and> re_open e ip i = None \<and> re_create e ip i = None \<and> re_value e ip i = None
     \<and> re_value_alloc e ip i \<and> re_value_again e ip i = None \<and> re_value_name e ip i \<and> re_set e ip i = None)"

lemma smooth_fetch: "fst (fetch_status None True None (Some n) len) = STATUS_SUCCESS"
  "end_status (fst (fetch_status None True None None len)) = STATUS_SUCCESS"
  by (simp_all add: fetch_status_def zw_enumerate_def end_status_def Let_def status_defs)

lemma smooth_values: "smooth e \<Longrightarrow> decide (values_calls e ip i vs len) = Completes"
  by (induction vs arbitrary: i len)
    (simp_all add: smooth_def smooth_fetch split_beta alloc_status_def failed_def)

lemma smooth_keys:
  "smooth e \<Longrightarrow> decide (key_calls e ip k overwrite) = Completes"
  "smooth e \<Longrightarrow> decide (subkeys_calls e ip i ks len) = Completes"
proof (induction e ip k overwrite and e ip i ks len rule: key_calls_subkeys_calls.induct)
  case (1 e ip vs ks overwrite)
  then show ?case using smooth_values by (simp add: smooth_def alloc_status_def)
next
  case (3 e ip i n k ks len)
  obtain st len' where f: "fetch_status (re_key e ip i) (re_key_alloc e ip i) (re_key_again e ip i) (Some (key_info_size e n)) len = (st, len')"
    by fastforce
  note sub = "3.IH"(1) [OF f [symmetric] "3.prems"] and rest = "3.IH"(2) [OF f [symmetric] "3.prems"]
  have "NT_SUCCESS st" using f "3.prems" smooth_fetch(1) by (simp add: smooth_def) (metis NT_SUCCESS_codes(1) fst_conv)
  then show ?case using sub rest f "3.prems" by (simp add: smooth_def alloc_status_def failed_def)
qed (simp add: smooth_def smooth_fetch)

lemma smooth_ok: "smooth e \<Longrightarrow> reg_env_ok e"
  by (simp add: smooth_def reg_env_ok_def fails_def)

text \<open>
  C22. Migrating the parameters of a template to a device interface, when no call fails: success, with
  no memory and no handle left behind. The values of the interface key itself stay as they are. Below
  it every key of the template exists and has the template's values over its own, and all other keys
  of the registry are untouched.
\<close>

theorem template_migrated:
  assumes "smooth e" and "names_ok template" and "rg_at P H s" and "rs_dest s p = Some m"
  shows "\<exists>s'. MigrateDeviceInterfaceTemplateParameters None None e template p s = Some (STATUS_SUCCESS, s')
    \<and> rs_pool s' = P \<and> rs_handles s' = H \<and> rs_dest s' p = Some m
    \<and> (\<forall>r. r \<noteq> [] \<longrightarrow> rs_dest s' (p @ r) = (case key_at template r of None \<Rightarrow> rs_dest s (p @ r)
         | Some k \<Rightarrow> Some ((case rs_dest s (p @ r) of None \<Rightarrow> Map.empty | Some v \<Rightarrow> v) ++ map_of (rk_values k))))
    \<and> (\<forall>q. strip p q = None \<longrightarrow> rs_dest s' q = rs_dest s q)"
proof -
  let ?n = "rs_next s"
  let ?s2 = "s \<lparr> rs_next := ?n + 2, rs_handles := insert (?n + 1) (insert ?n H) \<rparr>"
  have lt: "x \<in> P \<union> H \<Longrightarrow> x < ?n" for x using assms(3) by (auto simp: rg_at_def)
  have at: "rg_at P (insert (?n + 1) (insert ?n H)) ?s2" using assms(3) lt by (auto simp: rg_at_def intro: less_SucI)
  have new: "?n \<notin> H" "?n + 1 \<notin> H" using lt [of ?n] lt [of "?n + 1"] by auto
  obtain s3 where c: "CopyRegistryKey e (Some template) (Some p) False ?s2 = Some (STATUS_SUCCESS, s3)" "rs_pool s3 = P"
      "rs_handles s3 = insert (?n + 1) (insert ?n H)" "rs_dest s3 = copied template p False (rs_dest s)"
    using CopyRegistryKey_outcome [OF smooth_ok [OF assms(1)] assms(2) at, of p m False] smooth_keys(1) [OF assms(1), of "[]" template False]
      assms(4) by (auto simp: outcome_def rg_at_def)
  have "rs_handles s = H" using assms(3) by (simp add: rg_at_def)
  then have "MigrateDeviceInterfaceTemplateParameters None None e template p s = Some (STATUS_SUCCESS, s3 \<lparr> rs_handles := H \<rparr>)"
    using c(1,3) new by (simp add: MigrateDeviceInterfaceTemplateParameters_def reg_open_def ZwClose_def insert_Diff_if)
  then show ?thesis using c(2,4) assms(4) by (auto simp: copied_def grown_def)
qed

text \<open>
  A template with two subkeys, and an environment in which the enumeration of the second subkey of the
  first one fails.
\<close>

definition sample_template :: reg_key where
  "sample_template = RegKey [(''FriendlyName'', (1, [65]))]
     [(''EP'', RegKey [(''0'', (4, [1]))] [(''x'', RegKey [] []), (''y'', RegKey [] [])]), (''FX'', RegKey [(''1'', (4, [2]))] [])]"

definition smooth_env :: reg_env where
  "smooth_env = \<lparr> re_alloc_basic = (\<lambda>ip. True), re_alloc_full = (\<lambda>ip. True), re_key = (\<lambda>ip i. None), re_key_alloc = (\<lambda>ip i. True),
     re_key_again = (\<lambda>ip i. None), re_key_name = (\<lambda>ip i. True), re_open = (\<lambda>ip i. None), re_create = (\<lambda>ip i. None),
     re_value = (\<lambda>ip i. None), re_value_alloc = (\<lambda>ip i. True), re_value_again = (\<lambda>ip i. None), re_value_name = (\<lambda>ip i. True),
     re_set = (\<lambda>ip i. None), sizeof_KEY_BASIC_INFORMATION = 18, sizeof_KEY_VALUE_FULL_INFORMATION = 22 \<rparr>"

definition rough_env :: reg_env where
  "rough_env = smooth_env \<lparr> re_key := (\<lambda>ip i. if ip = [0] \<and> i = 1 then Some STATUS_UNSUCCESSFUL else None) \<rparr>"

definition sample_registry :: reg_state where
  "sample_registry = \<lparr> rs_next = 5, rs_pool = {}, rs_handles = {}, rs_dest = [[''Device''] \<mapsto> [''FriendlyName'' \<mapsto> (1, [66])]] \<rparr>"

lemma sample_registry_ok:
  "names_ok sample_template" "rg_at {} {} sample_registry" "rs_dest sample_registry [''Device''] = Some [''FriendlyName'' \<mapsto> (1, [66])]"
  by (simp_all add: sample_template_def sample_registry_def rg_at_def)

theorem registry_copy_witness:
  "CopyRegistryKey rough_env (Some sample_template) (Some [''Device'']) False sample_registry = None"
proof -
  have e: "reg_env_ok rough_env"
    by (simp add: reg_env_ok_def rough_env_def smooth_env_def fails_def NT_SUCCESS_def status_defs)
  have "decide (key_calls rough_env [] sample_template False) = Faults"
    by (simp add: sample_template_def rough_env_def smooth_env_def fetch_status_def zw_enumerate_def key_info_size_def
        MAX_DEVICE_REG_KEY_LENGTH_def alloc_status_def failed_def end_status_def NT_SUCCESS_def status_defs Let_def)
  with registry_copy [OF e sample_registry_ok, of False] show ?thesis by simp
qed

theorem template_migrated_witness:
  "\<exists>s'. MigrateDeviceInterfaceTemplateParameters None None smooth_env sample_template [''Device''] sample_registry = Some (STATUS_SUCCESS, s')
     \<and> rs_pool s' = {} \<and> rs_dest s' [''Device''] = Some [''FriendlyName'' \<mapsto> (1, [66])]
     \<and> rs_dest s' [''Device'', ''FX''] = Some [''1'' \<mapsto> (4, [2])]"
proof -
  have e: "smooth smooth_env" by (simp add: smooth_def smooth_env_def)
  have k: "key_at sample_template [''FX''] = Some (RegKey [(''1'', (4, [2]))] [])" by (simp add: sample_template_def)
  obtain s' where "MigrateDeviceInterfaceTemplateParameters None None smooth_env sample_template [''Device''] sample_registry
      = Some (STATUS_SUCCESS, s')" "rs_pool s' = {}" "rs_dest s' [''Device''] = Some [''FriendlyName'' \<mapsto> (1, [66])]"
      "\<forall>r. r \<noteq> [] \<longrightarrow> rs_dest s' ([''Device''] @ r) = (case key_at sample_template r of None \<Rightarrow> rs_dest sample_registry ([''Device''] @ r)
         | Some k \<Rightarrow> Some ((case rs_dest sample_registry ([''Device''] @ r) of None \<Rightarrow> Map.empty | Some v \<Rightarrow> v) ++ map_of (rk_values k)))"
    using template_migrated [OF e sample_registry_ok] by blast
  moreover from this(4) have "rs_dest s' [''Device'', ''FX''] = Some [''1'' \<mapsto> (4, [2])]"
    using k by (auto simp: sample_registry_def)
  ultimately show ?thesis by blast
qed

end
