(* ===== verification/UsbHsDevice.thy ===== *)
theory UsbHsDevice
  imports EndpointPair AdapterCommon
begin

text \<open>
  UsbHsDevice (UsbHsDevice.cpp): the USB headset with sideband. The code has most functions twice,
  for the speaker and for the microphone, over members that differ in their prefix; here the members
  of a side are the record \<open>usb_side_state\<close> and an operation takes the side as an argument.
  Definitions are prefixed with \<open>usb_\<close> where the other devices have a function of the same name.

  The headset is the parameter \<open>remote\<close>, results of kernel and framework calls are records of status
  values, and the endpoint tables, base names, hardware formats and the hash of the link name, which
  are not in the repository, are the parameter \<open>usb_config\<close>.
\<close>

section \<open>IOCTLs and requests\<close>

datatype usb_side = UsbSpeaker | UsbMic

datatype usb_device_type = eUsbHsSpeakerDevice | eUsbHsMicDevice | eNoUsbHsDevice

fun side_of :: "usb_device_type \<Rightarrow> usb_side option" where
  "side_of eUsbHsSpeakerDevice = Some UsbSpeaker"
| "side_of eUsbHsMicDevice = Some UsbMic"
| "side_of eNoUsbHsDevice = None"

datatype siop_set = SIDEBANDAUDIO_PARAMS_SET_USBAUDIO | SIDEBANDAUDIO_PARAMS_SET_USB_CONTROLLER

datatype siop_type =
    SIOP_TYPE_USBAUD_USBD_INTERFACE_DESCRIPTOR
  | SIOP_TYPE_USBAUD_EP_USBD_ENDPOINT_DESCRIPTOR
  | SIOP_TYPE_USBAUD_EP_USBD_ENDPOINT_OFFLOAD_INFORMATION
  | SIOP_TYPE_USBAUD_EP_USBAUDIO_TRANSPORT_RESOURCES
  | SIOP_TYPE_USBAUD_FB_EP_USBD_ENDPOINT_DESCRIPTOR
  | SIOP_TYPE_USBAUD_FB_EP_USBD_ENDPOINT_OFFLOAD_INFORMATION
  | SIOP_TYPE_USBAUD_FB_EP_USBAUDIO_TRANSPORT_RESOURCES
  | SIOP_TYPE_USBAUD_CONTROLLER_CONFIG_INFO_DEVICE_BEHIND_HUB
  | SIOP_TYPE_USBAUD_EP_OFFLOAD_RESOURCE_ID
  | SIOP_TYPE_USBAUD_FB_EP_OFFLOAD_RESOURCE_ID

text \<open>
  The structures of volume, mute and stream status have an index, a value (or status) and an
  immediate flag in common; a request uses only one of them, so the union of the notification buffer
  is one record.
\<close>

record usb_params =
  up_Immediate :: BOOL
  up_EpIndex :: nat
  up_Channel :: LONG
  up_Value :: LONG

text \<open>
  The IOCTLs with what their input buffer holds. For the three status updates it is \<open>None\<close> when the
  input is the buffer of a notification request. The last number of a query is the length of its
  output buffer.
\<close>

datatype usb_ioctl =
    IOCTL_SBAUD_GET_DEVICE_DESCRIPTOR nat
  | IOCTL_SBAUD_GET_ENDPOINT_DESCRIPTOR2 nat nat
  | IOCTL_SBAUD_GET_SIOP siop_set siop_type nat nat
  | IOCTL_SBAUD_SET_SIOP siop_set siop_type nat nat
  | IOCTL_SBAUD_GET_SUPPORTED_FORMATS nat nat
  | IOCTL_SBAUD_GET_VOLUMEPROPERTYVALUES nat nat
  | IOCTL_SBAUD_GET_MUTEPROPERTYVALUES nat nat
  | IOCTL_SBAUD_SET_VOLUME usb_params
  | IOCTL_SBAUD_SET_MUTE usb_params
  | IOCTL_SBAUD_GET_VOLUME_STATUS_UPDATE "usb_params option"
  | IOCTL_SBAUD_GET_MUTE_STATUS_UPDATE "usb_params option"
  | IOCTL_SBAUD_GET_STREAM_STATUS_UPDATE "usb_params option"
  | IOCTL_SBAUD_STREAM_OPEN nat nat
  | IOCTL_SBAUD_STREAM_START nat
  | IOCTL_SBAUD_STREAM_SUSPEND nat
  | IOCTL_SBAUD_STREAM_CLOSE nat
  | IOCTL_SBAUD_SET_DEVICE_CLAIMED BOOL

datatype usb_req = VolumeReq usb_side | MuteReq usb_side | UsbStreamReq usb_side

datatype ks_dataflow = KSPIN_DATAFLOW_IN | KSPIN_DATAFLOW_OUT | OtherDataflow

record SIDEBANDAUDIO_ENDPOINT_DESCRIPTOR2 =
  ed_Direction :: ks_dataflow
  ed_Volume :: BOOL
  ed_Mute :: BOOL
  ed_Feedback :: BOOL
  ed_VolumePropertyValuesSize :: nat
  ed_MutePropertyValuesSize :: nat
  ed_Category :: GUID
  ed_FriendlyName :: string
  ed_ContainerId :: GUID

text \<open>A data format: its FormatSize and the fields of WAVEFORMATEX the code compares.\<close>

record usb_format =
  FormatSize :: nat
  nSamplesPerSec :: nat
  nChannels :: nat
  wBitsPerSample :: nat

text \<open>
  What a reply may carry. \<open>ur_whole\<close> says that the output buffer, of the length the IOCTL gives, holds
  all of the structure the IOCTL asks for.
\<close>

record usb_reply =
  ur_information :: nat
  ur_whole :: bool
  ur_params :: usb_params
  ur_NumberOfEndpoints :: nat
  ur_endpoint :: SIDEBANDAUDIO_ENDPOINT_DESCRIPTOR2
  ur_formats :: "usb_format list"
  ur_bytes :: "BYTE list"

type_synonym usb_io = "(usb_req, usb_ioctl, usb_params) sideband_io"
type_synonym usb_remote = "(usb_ioctl, usb_reply) remote"
type_synonym usb_block = "(pool_tag \<times> usb_reply) option"

section \<open>State\<close>

definition USBSIDEBANDTEST_POOLTAG02 :: pool_tag where [const_defs]: "USBSIDEBANDTEST_POOLTAG02 = ''2AyS''"
definition USBSIDEBANDTEST_POOLTAG03 :: pool_tag where [const_defs]: "USBSIDEBANDTEST_POOLTAG03 = ''3AyS''"
definition USBSIDEBANDTEST_POOLTAG06 :: pool_tag where [const_defs]: "USBSIDEBANDTEST_POOLTAG06 = ''6AyS''"
definition USBSIDEBANDTEST_POOLTAG07 :: pool_tag where [const_defs]: "USBSIDEBANDTEST_POOLTAG07 = ''7AyS''"
definition USBSIDEBANDTEST_POOLTAG08 :: pool_tag where [const_defs]: "USBSIDEBANDTEST_POOLTAG08 = ''8AyS''"
definition USBSIDEBANDTEST_POOLTAG09 :: pool_tag where [const_defs]: "USBSIDEBANDTEST_POOLTAG09 = ''9AyS''"
definition USBSIDEBANDTEST_POOLTAG010 :: pool_tag where [const_defs]: "USBSIDEBANDTEST_POOLTAG010 = ''aAyS''"
definition USBSIDEBANDTEST_POOLTAG011 :: pool_tag where [const_defs]: "USBSIDEBANDTEST_POOLTAG011 = ''bAyS''"
definition USBSIDEBANDTEST_POOLTAG012 :: pool_tag where [const_defs]: "USBSIDEBANDTEST_POOLTAG012 = ''cAyS''"
definition USBSIDEBANDTEST_POOLTAG013 :: pool_tag where [const_defs]: "USBSIDEBANDTEST_POOLTAG013 = ''dAyS''"
definition USBSIDEBANDTEST_POOLTAG016 :: pool_tag where [const_defs]: "USBSIDEBANDTEST_POOLTAG016 = ''gAyS''"

datatype usb_callback = VolumeCallback | MuteCallback | ConnectionStatusCallback | FormatChangeCallback

text \<open>
  The members of a side. The seven pointers of USBHSDEVICE_EP_TRANSPORT_RESOURCES are named by what
  they were fetched with.
\<close>

type_synonym transport_resources = "siop_type \<Rightarrow> usb_block"

record usb_side_state =
  us_WaveName :: string
  us_TopologyName :: string
  us_Miniports :: "custom_pair option"
  us_UnknownTopology :: "obj option"
  us_UnknownWave :: "obj option"
  us_Descriptor :: usb_block
  us_VolumePropValues :: usb_block
  us_VolumeLevel :: LONG
  us_MutePropValues :: usb_block
  us_Mute :: LONG
  us_EpIndex :: nat
  us_StreamStatus :: LONG
  us_StreamStatusEvent :: bool
  us_SupportedFormatsIntersection :: usb_block
  us_SelectedFormat :: nat
  us_TransportResources :: transport_resources
  us_nStreamsOpen :: int
  us_nStreamsStart :: int
  us_Callbacks :: "usb_callback \<Rightarrow> event_callback option"

record UsbHsDevice =
  uh_State :: eHsState
  uh_WdfIoTarget :: bool
  uh_SymbolicLinkName :: "(pool_tag \<times> string) option"
  uh_Descriptor :: usb_block
  uh_WorkItem :: bool
  uh_ReqCollection :: bool
  uh_Side :: "usb_side \<Rightarrow> usb_side_state"
  uh_Invoked :: "event_callback list"

type_synonym usb = "usb_io \<times> UsbHsDevice"

text \<open>Writing the members of one side.\<close>

definition upd_side :: "usb_side \<Rightarrow> (usb_side_state \<Rightarrow> usb_side_state) \<Rightarrow> UsbHsDevice \<Rightarrow> UsbHsDevice" where
  "upd_side s f d = d \<lparr> uh_Side := (uh_Side d)(s := f (uh_Side d s)) \<rparr>"

record usb_config =
  uc_endpoint :: "usb_side \<Rightarrow> endpoint_pair"
  uc_formats :: "usb_side \<Rightarrow> usb_format list"
  uc_wave :: "usb_side \<Rightarrow> string"
  uc_topo :: "usb_side \<Rightarrow> string"
  uc_refstring_max :: nat
  uc_hash :: "string \<Rightarrow> nat"
  sizeof_KSDATAFORMAT :: nat
  sizeof_KSDATAFORMAT_WAVEFORMATEX :: nat

definition usb_invoke :: "usb_side \<Rightarrow> usb_callback \<Rightarrow> UsbHsDevice \<Rightarrow> UsbHsDevice" where
  "usb_invoke s c d = (case us_Callbacks (uh_Side d s) c of
     None \<Rightarrow> d
   | Some h \<Rightarrow> d \<lparr> uh_Invoked := uh_Invoked d @ [h] \<rparr>)"

section \<open>Requests\<close>

definition usb_SendIoCtrlAsynchronously :: "send_env \<Rightarrow> usb_req \<Rightarrow> usb_ioctl \<Rightarrow> usb_io \<Rightarrow> (NTSTATUS \<times> usb_io) option" where
  "usb_SendIoCtrlAsynchronously = SendIoCtrlAsynchronously"

definition usb_SendIoCtrlSynchronously :: "usb_remote \<Rightarrow> usb_ioctl \<Rightarrow> usb_io \<Rightarrow> NTSTATUS \<times> usb_reply \<times> usb_io" where
  "usb_SendIoCtrlSynchronously = SendIoCtrlSynchronously"

definition usb_NotificationStatusCompletion :: "NTSTATUS \<Rightarrow> NTSTATUS \<Rightarrow> usb_params \<Rightarrow> usb_req \<Rightarrow> usb_io \<Rightarrow> usb_io option" where
  "usb_NotificationStatusCompletion = NotificationStatusCompletion"

text \<open>A call whose reply is not used, and one that returns the value of the structure (0 on failure).\<close>

definition usb_call :: "usb_remote \<Rightarrow> usb_ioctl \<Rightarrow> usb_io \<Rightarrow> NTSTATUS \<times> usb_io" where
  "usb_call remote code io = (case usb_SendIoCtrlSynchronously remote code io of (st, v, io1) \<Rightarrow> (ioctl_done st, io1))"

definition usb_get_value :: "usb_remote \<Rightarrow> usb_ioctl \<Rightarrow> usb_io \<Rightarrow> NTSTATUS \<times> LONG \<times> usb_io" where
  "usb_get_value remote code io = (case usb_SendIoCtrlSynchronously remote code io of (st, v, io1) \<Rightarrow>
     (ioctl_done st, if NT_SUCCESS st then up_Value (ur_params v) else 0, io1))"

definition GetUsbHsDescriptor :: "usb_remote \<Rightarrow> query_env \<Rightarrow> usb_io \<Rightarrow> (NTSTATUS \<times> usb_block \<times> usb_io) option" where
  "GetUsbHsDescriptor remote e io =
     query_block remote e MINADAPTER_POOLTAG ur_information IOCTL_SBAUD_GET_DEVICE_DESCRIPTOR io"

text \<open>
  The index is written into the output buffer before the second request: a fault when the device
  announced fewer than the four bytes of a ULONG.
\<close>

definition ulong_overruns :: "usb_remote \<Rightarrow> query_env \<Rightarrow> (nat \<Rightarrow> usb_ioctl) \<Rightarrow> usb_io \<Rightarrow> bool" where
  "ulong_overruns remote e code io \<longleftrightarrow> (case remote (io_log io) (code 0) of (st, v) \<Rightarrow>
     NT_SUCCESS (qe_create e) \<and> st = STATUS_BUFFER_TOO_SMALL \<and> 0 < ur_information v \<and> ur_information v < 4
     \<and> qe_alloc e \<and> NT_SUCCESS (qe_reuse e))"

definition GetUsbHsEndpointDescriptor :: "usb_remote \<Rightarrow> query_env \<Rightarrow> nat \<Rightarrow> usb_io \<Rightarrow> (NTSTATUS \<times> usb_block \<times> usb_io) option" where
  "GetUsbHsEndpointDescriptor remote e EpIndex io =
     (if ulong_overruns remote e (IOCTL_SBAUD_GET_ENDPOINT_DESCRIPTOR2 EpIndex) io then None
      else query_block remote e MINADAPTER_POOLTAG ur_information (IOCTL_SBAUD_GET_ENDPOINT_DESCRIPTOR2 EpIndex) io)"

definition GetSiop :: "usb_remote \<Rightarrow> query_env \<Rightarrow> siop_set \<Rightarrow> siop_type \<Rightarrow> nat \<Rightarrow> pool_tag \<Rightarrow> usb_io \<Rightarrow>
    (NTSTATUS \<times> usb_block \<times> usb_io) option" where
  "GetSiop remote e ParamSet SiopTypeId EpIndex PoolTag io =
     query_block remote e PoolTag ur_information (IOCTL_SBAUD_GET_SIOP ParamSet SiopTypeId EpIndex) io"

definition GetUsbHsEndpointFormatsIntersection :: "usb_remote \<Rightarrow> query_env \<Rightarrow> nat \<Rightarrow> usb_io \<Rightarrow>
    (NTSTATUS \<times> usb_block \<times> usb_io) option" where
  "GetUsbHsEndpointFormatsIntersection remote e EpIndex io =
     query_block remote e USBSIDEBANDTEST_POOLTAG03 ur_information (IOCTL_SBAUD_GET_SUPPORTED_FORMATS EpIndex) io"

text \<open>
  The property values: the index is written into the buffer of \<open>Length\<close> bytes. The volume values are
  freed with another tag than they were allocated with.
\<close>

definition GetUsbHsVolumePropertyValues :: "usb_remote \<Rightarrow> bool \<Rightarrow> nat \<Rightarrow> nat \<Rightarrow> usb_io \<Rightarrow>
    (NTSTATUS \<times> usb_block \<times> usb_io) option" where
  "GetUsbHsVolumePropertyValues remote alloc EpIndex Length io =
     (if alloc \<and> Length < 4 then None
      else fetch_block remote alloc USBSIDEBANDTEST_POOLTAG02 MINADAPTER_POOLTAG
             (IOCTL_SBAUD_GET_VOLUMEPROPERTYVALUES EpIndex Length) io)"

definition GetUsbHsMutePropertyValues :: "usb_remote \<Rightarrow> bool \<Rightarrow> nat \<Rightarrow> nat \<Rightarrow> usb_io \<Rightarrow>
    (NTSTATUS \<times> usb_block \<times> usb_io) option" where
  "GetUsbHsMutePropertyValues remote alloc EpIndex Length io =
     (if alloc \<and> Length < 4 then None
      else fetch_block remote alloc USBSIDEBANDTEST_POOLTAG06 USBSIDEBANDTEST_POOLTAG06
             (IOCTL_SBAUD_GET_MUTEPROPERTYVALUES EpIndex Length) io)"

section \<open>Volume and mute of a side\<close>

definition usb_now :: "usb_side \<Rightarrow> LONG \<Rightarrow> LONG \<Rightarrow> UsbHsDevice \<Rightarrow> usb_params" where
  "usb_now s Channel v d = \<lparr> up_Immediate = TRUE_BOOL, up_EpIndex = us_EpIndex (uh_Side d s), up_Channel = Channel, up_Value = v \<rparr>"

definition usb_set_volume :: "usb_side \<Rightarrow> usb_remote \<Rightarrow> LONG \<Rightarrow> LONG \<Rightarrow> usb \<Rightarrow> NTSTATUS \<times> usb" where
  "usb_set_volume s remote Channel Volume = (\<lambda>(io, d).
     (case usb_call remote (IOCTL_SBAUD_SET_VOLUME (usb_now s Channel Volume d)) io of (st, io1) \<Rightarrow> (st, io1, d)))"

definition usb_get_volume :: "usb_side \<Rightarrow> usb_remote \<Rightarrow> LONG \<Rightarrow> usb \<Rightarrow> NTSTATUS \<times> LONG \<times> usb" where
  "usb_get_volume s remote Channel = (\<lambda>(io, d).
     (case usb_get_value remote (IOCTL_SBAUD_GET_VOLUME_STATUS_UPDATE (Some (usb_now s Channel 0 d))) io of
        (st, v, io1) \<Rightarrow> (st, v, io1, d)))"

definition usb_set_mute :: "usb_side \<Rightarrow> usb_remote \<Rightarrow> LONG \<Rightarrow> LONG \<Rightarrow> usb \<Rightarrow> NTSTATUS \<times> usb" where
  "usb_set_mute s remote Channel Mute = (\<lambda>(io, d).
     (case usb_call remote (IOCTL_SBAUD_SET_MUTE (usb_now s Channel Mute d)) io of (st, io1) \<Rightarrow> (st, io1, d)))"

definition usb_get_mute :: "usb_side \<Rightarrow> usb_remote \<Rightarrow> LONG \<Rightarrow> usb \<Rightarrow> NTSTATUS \<times> LONG \<times> usb" where
  "usb_get_mute s remote Channel = (\<lambda>(io, d).
     (case usb_get_value remote (IOCTL_SBAUD_GET_MUTE_STATUS_UPDATE (Some (usb_now s Channel 0 d))) io of
        (st, v, io1) \<Rightarrow> (st, v, io1, d)))"

definition SetUsbHsSpeakerVolume where "SetUsbHsSpeakerVolume = usb_set_volume UsbSpeaker"
definition SetUsbHsMicVolume where "SetUsbHsMicVolume = usb_set_volume UsbMic"
definition GetUsbHsSpeakerVolume where "GetUsbHsSpeakerVolume = usb_get_volume UsbSpeaker"
definition GetUsbHsMicVolume where "GetUsbHsMicVolume = usb_get_volume UsbMic"
definition SetUsbHsSpeakerMute where "SetUsbHsSpeakerMute = usb_set_mute UsbSpeaker"
definition SetUsbHsMicMute where "SetUsbHsMicMute = usb_set_mute UsbMic"
definition GetUsbHsSpeakerMute where "GetUsbHsSpeakerMute = usb_get_mute UsbSpeaker"
definition GetUsbHsMicMute where "GetUsbHsMicMute = usb_get_mute UsbMic"

lemmas usb_side_defs = SetUsbHsSpeakerVolume_def SetUsbHsMicVolume_def GetUsbHsSpeakerVolume_def GetUsbHsMicVolume_def
  SetUsbHsSpeakerMute_def SetUsbHsMicMute_def GetUsbHsSpeakerMute_def GetUsbHsMicMute_def

section \<open>Notifications\<close>

text \<open>The buffer of a notification request keeps its channel.\<close>

definition usb_enable :: "send_env \<Rightarrow> usb_req \<Rightarrow> usb_ioctl \<Rightarrow> usb_side \<Rightarrow> usb \<Rightarrow> (NTSTATUS \<times> usb_io) option" where
  "usb_enable e q code s = (\<lambda>(io, d). do {
     r \<leftarrow> io_reqs io q;
     enable_notification e q code
       ((Buffer r) \<lparr> up_Immediate := FALSE_BOOL, up_EpIndex := us_EpIndex (uh_Side d s), up_Value := 0 \<rparr>) io })"

definition EnableUsbHsSpeakerVolumeStatusNotification :: "send_env \<Rightarrow> usb \<Rightarrow> (NTSTATUS \<times> usb_io) option" where
  "EnableUsbHsSpeakerVolumeStatusNotification e =
     usb_enable e (VolumeReq UsbSpeaker) (IOCTL_SBAUD_GET_VOLUME_STATUS_UPDATE None) UsbSpeaker"

definition EnableUsbHsMicVolumeStatusNotification :: "send_env \<Rightarrow> usb \<Rightarrow> (NTSTATUS \<times> usb_io) option" where
  "EnableUsbHsMicVolumeStatusNotification e =
     usb_enable e (VolumeReq UsbMic) (IOCTL_SBAUD_GET_VOLUME_STATUS_UPDATE None) UsbMic"

definition EnableUsbHsSpeakerMuteStatusNotification :: "send_env \<Rightarrow> usb \<Rightarrow> (NTSTATUS \<times> usb_io) option" where
  "EnableUsbHsSpeakerMuteStatusNotification e =
     usb_enable e (MuteReq UsbSpeaker) (IOCTL_SBAUD_GET_MUTE_STATUS_UPDATE None) UsbSpeaker"

definition EnableUsbHsMicMuteStatusNotification :: "send_env \<Rightarrow> usb \<Rightarrow> (NTSTATUS \<times> usb_io) option" where
  "EnableUsbHsMicMuteStatusNotification e =
     usb_enable e (MuteReq UsbMic) (IOCTL_SBAUD_GET_MUTE_STATUS_UPDATE None) UsbMic"

text \<open>Which side a reply is about: the speaker's index is compared first.\<close>

definition side_of_index :: "nat \<Rightarrow> UsbHsDevice \<Rightarrow> usb_side option" where
  "side_of_index i d =
     (if i = us_EpIndex (uh_Side d UsbSpeaker) then Some UsbSpeaker
      else if i = us_EpIndex (uh_Side d UsbMic) then Some UsbMic else None)"

definition usb_volume_update :: "usb_params \<Rightarrow> UsbHsDevice \<Rightarrow> UsbHsDevice" where
  "usb_volume_update b d = (case side_of_index (up_EpIndex b) d of
     None \<Rightarrow> d
   | Some s \<Rightarrow>
       (let d1 = upd_side s (\<lambda>x. x \<lparr> us_VolumeLevel := up_Value b \<rparr>) d
        in if up_Value b \<noteq> us_VolumeLevel (uh_Side d s) then usb_invoke s VolumeCallback d1 else d1))"

definition usb_mute_update :: "usb_params \<Rightarrow> UsbHsDevice \<Rightarrow> UsbHsDevice" where
  "usb_mute_update b d = (case side_of_index (up_EpIndex b) d of
     None \<Rightarrow> d
   | Some s \<Rightarrow>
       (let d1 = upd_side s (\<lambda>x. x \<lparr> us_Mute := up_Value b \<rparr>) d
        in if up_Value b \<noteq> us_Mute (uh_Side d s) then usb_invoke s MuteCallback d1 else d1))"

text \<open>
  The switch of EvtUsbHsDeviceNotificationStatusWorkItem; the loop is \<open>notif_round\<close>. The buffer is
  prepared for the next request here, and not at all after a failure.
\<close>

definition usb_notification :: "(usb_req, usb_ioctl, usb_params, UsbHsDevice) notif_handler" where
  "usb_notification code b = (\<lambda>(io, d).
     (case code of
        IOCTL_SBAUD_GET_VOLUME_STATUS_UPDATE _ \<Rightarrow> (True, b \<lparr> up_Immediate := FALSE_BOOL \<rparr>, io, usb_volume_update b d)
      | IOCTL_SBAUD_GET_MUTE_STATUS_UPDATE _ \<Rightarrow> (True, b \<lparr> up_Immediate := FALSE_BOOL \<rparr>, io, usb_mute_update b d)
      | _ \<Rightarrow> (False, b, io, d)))"

definition usb_work_round :: "usb_req round_env \<Rightarrow> usb \<Rightarrow> usb option" where
  "usb_work_round e = notif_round usb_notification id e"

definition usb_work :: "usb_req round_env \<Rightarrow> usb \<Rightarrow> usb option" where
  "usb_work e = notif_work usb_notification id e"

section \<open>Formats\<close>

text \<open>
  The inner loop of VerifyEndpointFormatCompatibility stops at the first match, the outer one goes on
  to the last hardware format. The index is left alone when there is no match.
\<close>

definition ep_format_matches :: "usb_config \<Rightarrow> usb_format \<Rightarrow> usb_format \<Rightarrow> bool" where
  "ep_format_matches cf h e \<longleftrightarrow> FormatSize e \<ge> sizeof_KSDATAFORMAT cf \<and> FormatSize e \<ge> sizeof_KSDATAFORMAT_WAVEFORMATEX cf
     \<and> nSamplesPerSec e = nSamplesPerSec h \<and> nChannels e = nChannels h \<and> wBitsPerSample e = wBitsPerSample h"

fun ep_format_loop :: "usb_config \<Rightarrow> usb_format \<Rightarrow> usb_format list \<Rightarrow> bool" where
  "ep_format_loop cf h [] = False"
| "ep_format_loop cf h (e # es) = (if ep_format_matches cf h e then True else ep_format_loop cf h es)"

fun hardware_format_loop :: "usb_config \<Rightarrow> usb_format list \<Rightarrow> nat \<Rightarrow> usb_format list \<Rightarrow> NTSTATUS \<times> nat \<Rightarrow> NTSTATUS \<times> nat" where
  "hardware_format_loop cf es i [] acc = acc"
| "hardware_format_loop cf es i (h # hs) acc =
     hardware_format_loop cf es (i + 1) hs (if ep_format_loop cf h es then (STATUS_SUCCESS, i) else acc)"

definition VerifyEndpointFormatCompatibility :: "usb_config \<Rightarrow> usb_format list \<Rightarrow> usb_format list \<Rightarrow> nat \<Rightarrow> NTSTATUS \<times> nat" where
  "VerifyEndpointFormatCompatibility cf EpFormats HardwareFormats index =
     hardware_format_loop cf EpFormats 0 HardwareFormats (STATUS_NOT_SUPPORTED, index)"

section \<open>Transport resources\<close>

text \<open>The resources with the tags of their blocks, in the order they are fetched and freed in.\<close>

definition base_siops :: "(siop_type \<times> pool_tag) list" where
  "base_siops =
     [(SIOP_TYPE_USBAUD_USBD_INTERFACE_DESCRIPTOR, USBSIDEBANDTEST_POOLTAG07),
      (SIOP_TYPE_USBAUD_EP_USBD_ENDPOINT_DESCRIPTOR, USBSIDEBANDTEST_POOLTAG08),
      (SIOP_TYPE_USBAUD_EP_USBD_ENDPOINT_OFFLOAD_INFORMATION, USBSIDEBANDTEST_POOLTAG09),
      (SIOP_TYPE_USBAUD_EP_USBAUDIO_TRANSPORT_RESOURCES, USBSIDEBANDTEST_POOLTAG010)]"

definition feedback_siops :: "(siop_type \<times> pool_tag) list" where
  "feedback_siops =
     [(SIOP_TYPE_USBAUD_FB_EP_USBD_ENDPOINT_DESCRIPTOR, USBSIDEBANDTEST_POOLTAG011),
      (SIOP_TYPE_USBAUD_FB_EP_USBD_ENDPOINT_OFFLOAD_INFORMATION, USBSIDEBANDTEST_POOLTAG012),
      (SIOP_TYPE_USBAUD_FB_EP_USBAUDIO_TRANSPORT_RESOURCES, USBSIDEBANDTEST_POOLTAG013)]"

fun free_siops :: "(siop_type \<times> pool_tag) list \<Rightarrow> transport_resources \<Rightarrow> usb_io \<Rightarrow> usb_io option" where
  "free_siops [] t io = Some io"
| "free_siops ((k, tag) # ks) t io = do { io1 \<leftarrow> pool_free_opt (map_option fst (t k)) tag io; free_siops ks t io1 }"

definition no_resources :: transport_resources where "no_resources = (\<lambda>k. None)"

definition FreeTransportResources :: "transport_resources \<Rightarrow> usb_io \<Rightarrow> (transport_resources \<times> usb_io) option" where
  "FreeTransportResources t io = do { io1 \<leftarrow> free_siops (base_siops @ feedback_siops) t io; Some (no_resources, io1) }"

fun get_siops :: "usb_remote \<Rightarrow> (siop_type \<Rightarrow> query_env) \<Rightarrow> nat \<Rightarrow> (siop_type \<times> pool_tag) list \<Rightarrow> transport_resources \<Rightarrow> usb_io \<Rightarrow>
    (NTSTATUS \<times> transport_resources \<times> usb_io) option" where
  "get_siops remote e EpIndex [] t io = Some (STATUS_SUCCESS, t, io)"
| "get_siops remote e EpIndex ((k, tag) # ks) t io = do {
     (st, p, io1) \<leftarrow> GetSiop remote (e k) SIDEBANDAUDIO_PARAMS_SET_USBAUDIO k EpIndex tag io;
     if NT_SUCCESS st then get_siops remote e EpIndex ks (t(k := p)) io1 else Some (st, t(k := p), io1) }"

text \<open>The descriptor is read after the base resources; a NULL descriptor is \<open>None\<close>.\<close>

definition GetTransportResources :: "usb_remote \<Rightarrow> (siop_type \<Rightarrow> query_env) \<Rightarrow> nat \<Rightarrow> SIDEBANDAUDIO_ENDPOINT_DESCRIPTOR2 option \<Rightarrow>
    transport_resources \<Rightarrow> usb_io \<Rightarrow> (NTSTATUS \<times> transport_resources \<times> usb_io) option" where
  "GetTransportResources remote e EpIndex desc t io = do {
     (st1, t1, io1) \<leftarrow> get_siops remote e EpIndex base_siops t io;
     (st2, t2, io2) \<leftarrow> (if NT_SUCCESS st1 then do {
          x \<leftarrow> desc;
          if ed_Feedback x \<noteq> 0 then get_siops remote e EpIndex feedback_siops t1 io1 else Some (st1, t1, io1) }
        else Some (st1, t1, io1));
     if NT_SUCCESS st2 then Some (st2, t2, io2)
     else do { (t3, io3) \<leftarrow> FreeTransportResources t2 io2; Some (st2, t3, io3) } }"

definition SetTransportResources :: "usb_remote \<Rightarrow> SIDEBANDAUDIO_ENDPOINT_DESCRIPTOR2 option \<Rightarrow> nat \<Rightarrow> usb_io \<Rightarrow>
    (NTSTATUS \<times> usb_io) option" where
  "SetTransportResources remote desc EpIndex io =
     (case usb_call remote (IOCTL_SBAUD_SET_SIOP SIDEBANDAUDIO_PARAMS_SET_USBAUDIO SIOP_TYPE_USBAUD_EP_OFFLOAD_RESOURCE_ID
             EpIndex (ulong (EpIndex + 7))) io of (st, io1) \<Rightarrow>
        if \<not> NT_SUCCESS st then Some (st, io1)
        else do {
          x \<leftarrow> desc;
          Some (if ed_Feedback x \<noteq> 0
                then usb_call remote (IOCTL_SBAUD_SET_SIOP SIDEBANDAUDIO_PARAMS_SET_USBAUDIO
                       SIOP_TYPE_USBAUD_FB_EP_OFFLOAD_RESOURCE_ID EpIndex (ulong (EpIndex + 10))) io1
                else (STATUS_SUCCESS, io1)) })"

section \<open>Streams\<close>

definition side_descriptor :: "usb_side \<Rightarrow> UsbHsDevice \<Rightarrow> SIDEBANDAUDIO_ENDPOINT_DESCRIPTOR2 option" where
  "side_descriptor s d = map_option ur_endpoint (read_block ur_whole (us_Descriptor (uh_Side d s)))"

text \<open>A channel that is open or started already is a success.\<close>

definition usb_call_busy :: "usb_remote \<Rightarrow> usb_ioctl \<Rightarrow> usb_io \<Rightarrow> NTSTATUS \<times> usb_io" where
  "usb_call_busy remote code io = (case usb_SendIoCtrlSynchronously remote code io of (st, v, io1) \<Rightarrow>
     (ioctl_done (if st = STATUS_DEVICE_BUSY then STATUS_SUCCESS else st), io1))"

definition SetUsbHsStreamOpen :: "usb_remote \<Rightarrow> nat \<Rightarrow> nat \<Rightarrow> usb_io \<Rightarrow> NTSTATUS \<times> usb_io" where
  "SetUsbHsStreamOpen remote EpIndex StreamFormat io = usb_call_busy remote (IOCTL_SBAUD_STREAM_OPEN EpIndex StreamFormat) io"
definition SetUsbHsStreamStart :: "usb_remote \<Rightarrow> nat \<Rightarrow> usb_io \<Rightarrow> NTSTATUS \<times> usb_io" where
  "SetUsbHsStreamStart remote EpIndex io = usb_call_busy remote (IOCTL_SBAUD_STREAM_START EpIndex) io"
definition SetUsbHsStreamSuspend :: "usb_remote \<Rightarrow> nat \<Rightarrow> usb_io \<Rightarrow> NTSTATUS \<times> usb_io" where
  "SetUsbHsStreamSuspend remote EpIndex io = usb_call remote (IOCTL_SBAUD_STREAM_SUSPEND EpIndex) io"
definition SetUsbHsStreamClose :: "usb_remote \<Rightarrow> nat \<Rightarrow> usb_io \<Rightarrow> NTSTATUS \<times> usb_io" where
  "SetUsbHsStreamClose remote EpIndex io = usb_call remote (IOCTL_SBAUD_STREAM_CLOSE EpIndex) io"

definition SetSidebandClaimed :: "usb_remote \<Rightarrow> BOOL \<Rightarrow> usb_io \<Rightarrow> NTSTATUS \<times> usb_io" where
  "SetSidebandClaimed remote b io =
     (case usb_SendIoCtrlSynchronously remote (IOCTL_SBAUD_SET_DEVICE_CLAIMED b) io of (st, v, io1) \<Rightarrow> (st, io1))"

text \<open>
  The completion of a stream request with the contents \<open>b\<close> of its buffer. The side is found by the
  index in the buffer, not by the request; a reply with another index sets no event.
\<close>

definition EvtUsbHsDeviceStreamStatusCompletion :: "NTSTATUS \<Rightarrow> usb_params \<Rightarrow> usb_req \<Rightarrow> usb \<Rightarrow> usb option" where
  "EvtUsbHsDeviceStreamStatusCompletion st b q = (\<lambda>(io, d). do {
     r \<leftarrow> io_reqs io q;
     if \<not> Pending r then None
     else Some (io \<lparr> io_reqs := (io_reqs io)(q \<mapsto> r \<lparr> Pending := False, IoStatus := st, Buffer := b \<rparr>) \<rparr>,
       (case side_of_index (up_EpIndex b) d of
          None \<Rightarrow> d
        | Some s \<Rightarrow> upd_side s (\<lambda>x. x \<lparr> us_StreamStatus := (if NT_SUCCESS st then up_Value b else STATUS_INVALID_DEVICE_STATE),
                                         us_StreamStatusEvent := True \<rparr>) d)) })"

definition usb_enable_stream :: "usb_side \<Rightarrow> send_env \<Rightarrow> usb \<Rightarrow> (NTSTATUS \<times> usb) option" where
  "usb_enable_stream s e = (\<lambda>(io, d). do {
     r \<leftarrow> io_reqs io (UsbStreamReq s);
     (st, io1) \<leftarrow> enable_notification e (UsbStreamReq s) (IOCTL_SBAUD_GET_STREAM_STATUS_UPDATE None)
       ((Buffer r) \<lparr> up_Immediate := FALSE_BOOL, up_EpIndex := us_EpIndex (uh_Side d s) \<rparr>) io;
     Some (st, io1, upd_side s (\<lambda>x. x \<lparr> us_StreamStatusEvent := \<not> NT_SUCCESS st \<rparr>) d) })"

text \<open>Cancelling completes the request with its buffer; waiting for an event nobody will set is \<open>None\<close>.\<close>

definition usb_stop_stream :: "usb_side \<Rightarrow> NTSTATUS \<Rightarrow> usb \<Rightarrow> (NTSTATUS \<times> usb) option" where
  "usb_stop_stream s reuse st = do {
     st1 \<leftarrow> (case io_reqs (fst st) (UsbStreamReq s) of
               None \<Rightarrow> None
             | Some r \<Rightarrow> if Pending r then EvtUsbHsDeviceStreamStatusCompletion STATUS_CANCELLED (Buffer r) (UsbStreamReq s) st
                         else Some st);
     if us_StreamStatusEvent (uh_Side (snd st1) s) then Some (STATUS_SUCCESS, st1) else None }"

definition EnableUsbHsSpeakerStreamStatusNotification where "EnableUsbHsSpeakerStreamStatusNotification = usb_enable_stream UsbSpeaker"
definition EnableUsbHsMicStreamStatusNotification where "EnableUsbHsMicStreamStatusNotification = usb_enable_stream UsbMic"
definition StopUsbHsSpeakerStreamStatusNotification where "StopUsbHsSpeakerStreamStatusNotification = usb_stop_stream UsbSpeaker"
definition StopUsbHsMicStreamStatusNotification where "StopUsbHsMicStreamStatusNotification = usb_stop_stream UsbMic"

definition usb_open :: "usb_side \<Rightarrow> usb_remote \<Rightarrow> send_env \<Rightarrow> usb \<Rightarrow> (NTSTATUS \<times> usb) option" where
  "usb_open s remote e = (\<lambda>(io, d).
     (let d1 = upd_side s (\<lambda>x. x \<lparr> us_nStreamsOpen := us_nStreamsOpen x + 1 \<rparr>) d;
          ep = us_EpIndex (uh_Side d s)
      in if us_nStreamsOpen (uh_Side d1 s) = 1 then do {
           let (st, io1) = SetUsbHsStreamOpen remote ep (us_SelectedFormat (uh_Side d s)) io;
           (st2, io2, d2) \<leftarrow> (if NT_SUCCESS st
             then usb_enable_stream s e (io1, upd_side s (\<lambda>x. x \<lparr> us_StreamStatus := STATUS_SUCCESS \<rparr>) d1)
             else Some (st, io1, d1));
           if NT_SUCCESS st2 then Some (st2, io2, d2)
           else Some (st2, if NT_SUCCESS st then snd (SetUsbHsStreamClose remote ep io2) else io2,
                      upd_side s (\<lambda>x. x \<lparr> us_nStreamsOpen := us_nStreamsOpen x - 1,
                                            us_StreamStatus := STATUS_INVALID_DEVICE_STATE \<rparr>) d2) }
         else Some (STATUS_SUCCESS, io, d1)))"

definition usb_close :: "usb_side \<Rightarrow> usb_remote \<Rightarrow> NTSTATUS \<Rightarrow> usb \<Rightarrow> (NTSTATUS \<times> usb) option" where
  "usb_close s remote reuse = (\<lambda>(io, d).
     (let d1 = upd_side s (\<lambda>x. x \<lparr> us_nStreamsOpen := us_nStreamsOpen x - 1 \<rparr>) d
      in if us_nStreamsOpen (uh_Side d1 s) = 0 then do {
           let (st, io1) = SetUsbHsStreamClose remote (us_EpIndex (uh_Side d s)) io;
           (_, io2, d2) \<leftarrow> usb_stop_stream s reuse (io1, d1);
           Some (st, io2, upd_side s (\<lambda>x. x \<lparr> us_StreamStatus := STATUS_INVALID_DEVICE_STATE \<rparr>) d2) }
         else Some (STATUS_SUCCESS, io, d1)))"

definition usb_start :: "usb_side \<Rightarrow> usb_remote \<Rightarrow> (siop_type \<Rightarrow> query_env) \<Rightarrow> usb \<Rightarrow> (NTSTATUS \<times> usb) option" where
  "usb_start s remote e = (\<lambda>(io, d).
     (let d1 = upd_side s (\<lambda>x. x \<lparr> us_nStreamsStart := us_nStreamsStart x + 1 \<rparr>) d;
          ep = us_EpIndex (uh_Side d s); desc = side_descriptor s d
      in if us_nStreamsStart (uh_Side d1 s) = 1 then do {
           (st1, io1) \<leftarrow> SetTransportResources remote desc ep io;
           let (st2, io2) = (if NT_SUCCESS st1 then SetUsbHsStreamStart remote ep io1 else (st1, io1));
           (st3, t, io3) \<leftarrow> (if NT_SUCCESS st2
             then GetTransportResources remote e ep desc (us_TransportResources (uh_Side d s)) io2
             else Some (st2, us_TransportResources (uh_Side d s), io2));
           let d2 = upd_side s (\<lambda>x. x \<lparr> us_TransportResources := t \<rparr>) d1;
           if NT_SUCCESS st3 then Some (st3, io3, d2)
           else Some (st3, if NT_SUCCESS st2 then snd (SetUsbHsStreamSuspend remote ep io3) else io3,
                      upd_side s (\<lambda>x. x \<lparr> us_nStreamsStart := us_nStreamsStart x - 1 \<rparr>) d2) }
         else Some (STATUS_SUCCESS, io, d1)))"

definition usb_suspend :: "usb_side \<Rightarrow> usb_remote \<Rightarrow> usb \<Rightarrow> (NTSTATUS \<times> usb) option" where
  "usb_suspend s remote = (\<lambda>(io, d).
     (let d1 = upd_side s (\<lambda>x. x \<lparr> us_nStreamsStart := us_nStreamsStart x - 1 \<rparr>) d
      in if us_nStreamsStart (uh_Side d1 s) = 0 then do {
           let (st, io1) = SetUsbHsStreamSuspend remote (us_EpIndex (uh_Side d s)) io;
           (t, io2) \<leftarrow> FreeTransportResources (us_TransportResources (uh_Side d s)) io1;
           Some (st, io2, upd_side s (\<lambda>x. x \<lparr> us_TransportResources := t \<rparr>) d1) }
         else Some (STATUS_SUCCESS, io, d1)))"

definition SpeakerStreamOpen where "SpeakerStreamOpen = usb_open UsbSpeaker"
definition MicStreamOpen where "MicStreamOpen = usb_open UsbMic"
definition SpeakerStreamClose where "SpeakerStreamClose = usb_close UsbSpeaker"
definition MicStreamClose where "MicStreamClose = usb_close UsbMic"
definition SpeakerStreamStart where "SpeakerStreamStart = usb_start UsbSpeaker"
definition MicStreamStart where "MicStreamStart = usb_start UsbMic"
definition SpeakerStreamSuspend where "SpeakerStreamSuspend = usb_suspend UsbSpeaker"
definition MicStreamSuspend where "MicStreamSuspend = usb_suspend UsbMic"

lemmas usb_stream_defs = EnableUsbHsSpeakerStreamStatusNotification_def EnableUsbHsMicStreamStatusNotification_def
  StopUsbHsSpeakerStreamStatusNotification_def StopUsbHsMicStreamStatusNotification_def SpeakerStreamOpen_def MicStreamOpen_def
  SpeakerStreamClose_def MicStreamClose_def SpeakerStreamStart_def MicStreamStart_def SpeakerStreamSuspend_def MicStreamSuspend_def

definition usb_StreamOpen :: "usb_remote \<Rightarrow> send_env \<Rightarrow> usb_device_type \<Rightarrow> usb \<Rightarrow> (NTSTATUS \<times> usb) option" where
  "usb_StreamOpen remote e t st = (case t of
     eUsbHsSpeakerDevice \<Rightarrow> SpeakerStreamOpen remote e st
   | eUsbHsMicDevice \<Rightarrow> MicStreamOpen remote e st
   | eNoUsbHsDevice \<Rightarrow> Some (STATUS_INVALID_PARAMETER, st))"

definition usb_StreamClose :: "usb_remote \<Rightarrow> NTSTATUS \<Rightarrow> usb_device_type \<Rightarrow> usb \<Rightarrow> (NTSTATUS \<times> usb) option" where
  "usb_StreamClose remote reuse t st = (case t of
     eUsbHsSpeakerDevice \<Rightarrow> SpeakerStreamClose remote reuse st
   | eUsbHsMicDevice \<Rightarrow> MicStreamClose remote reuse st
   | eNoUsbHsDevice \<Rightarrow> Some (STATUS_INVALID_PARAMETER, st))"

definition usb_StreamStart :: "usb_remote \<Rightarrow> (siop_type \<Rightarrow> query_env) \<Rightarrow> usb_device_type \<Rightarrow> usb \<Rightarrow> (NTSTATUS \<times> usb) option" where
  "usb_StreamStart remote e t st = (case t of
     eUsbHsSpeakerDevice \<Rightarrow> SpeakerStreamStart remote e st
   | eUsbHsMicDevice \<Rightarrow> MicStreamStart remote e st
   | eNoUsbHsDevice \<Rightarrow> Some (STATUS_INVALID_PARAMETER, st))"

definition usb_StreamSuspend :: "usb_remote \<Rightarrow> usb_device_type \<Rightarrow> usb \<Rightarrow> (NTSTATUS \<times> usb) option" where
  "usb_StreamSuspend remote t st = (case t of
     eUsbHsSpeakerDevice \<Rightarrow> SpeakerStreamSuspend remote st
   | eUsbHsMicDevice \<Rightarrow> MicStreamSuspend remote st
   | eNoUsbHsDevice \<Rightarrow> Some (STATUS_INVALID_PARAMETER, st))"

definition usb_GetStreamStatus :: "usb_device_type \<Rightarrow> UsbHsDevice \<Rightarrow> bool" where
  "usb_GetStreamStatus t d = (case side_of t of
     Some s \<Rightarrow> NT_SUCCESS (us_StreamStatus (uh_Side d s))
   | None \<Rightarrow> True)"

section \<open>The interface of the miniports\<close>

text \<open>Reading through the descriptor of a side while it is NULL is \<open>None\<close>; no side at all is answered.\<close>

definition usb_IsVolumeSupported :: "usb_device_type \<Rightarrow> UsbHsDevice \<Rightarrow> BOOL option" where
  "usb_IsVolumeSupported t d = (case side_of t of
     Some s \<Rightarrow> map_option ed_Volume (side_descriptor s d) | None \<Rightarrow> Some FALSE_BOOL)"

definition usb_GetVolumeSettings :: "usb_device_type \<Rightarrow> UsbHsDevice \<Rightarrow> (usb_block \<times> nat option) option" where
  "usb_GetVolumeSettings t d = (case side_of t of
     Some s \<Rightarrow> map_option (\<lambda>x. (us_VolumePropValues (uh_Side d s), Some (ed_VolumePropertyValuesSize x))) (side_descriptor s d)
   | None \<Rightarrow> Some (None, None))"

definition usb_GetVolume :: "usb_remote \<Rightarrow> usb_device_type \<Rightarrow> LONG \<Rightarrow> usb \<Rightarrow> NTSTATUS \<times> LONG option \<times> usb" where
  "usb_GetVolume remote t Channel st = (case side_of t of
     None \<Rightarrow> (STATUS_INVALID_PARAMETER, None, st)
   | Some s \<Rightarrow> (case usb_get_volume s remote Channel st of (st0, v, io, d) \<Rightarrow>
       (st0, Some v, io, if NT_SUCCESS st0 then upd_side s (\<lambda>x. x \<lparr> us_VolumeLevel := v \<rparr>) d else d)))"

definition usb_SetVolume :: "usb_remote \<Rightarrow> usb_device_type \<Rightarrow> LONG \<Rightarrow> LONG \<Rightarrow> usb \<Rightarrow> NTSTATUS \<times> usb" where
  "usb_SetVolume remote t Channel Volume st = (case t of
     eUsbHsSpeakerDevice \<Rightarrow> SetUsbHsSpeakerVolume remote Channel Volume st
   | eUsbHsMicDevice \<Rightarrow> SetUsbHsMicVolume remote Channel Volume st
   | eNoUsbHsDevice \<Rightarrow> (STATUS_INVALID_PARAMETER, st))"

definition usb_IsMuteSupported :: "usb_device_type \<Rightarrow> UsbHsDevice \<Rightarrow> BOOL option" where
  "usb_IsMuteSupported t d = (case side_of t of
     Some s \<Rightarrow> map_option ed_Mute (side_descriptor s d) | None \<Rightarrow> Some FALSE_BOOL)"

definition usb_GetMuteSettings :: "usb_device_type \<Rightarrow> UsbHsDevice \<Rightarrow> (usb_block \<times> nat option) option" where
  "usb_GetMuteSettings t d = (case side_of t of
     Some s \<Rightarrow> map_option (\<lambda>x. (us_MutePropValues (uh_Side d s), Some (ed_MutePropertyValuesSize x))) (side_descriptor s d)
   | None \<Rightarrow> Some (None, None))"

text \<open>For the microphone the code asks for the volume.\<close>

definition usb_GetMute :: "usb_remote \<Rightarrow> usb_device_type \<Rightarrow> LONG \<Rightarrow> usb \<Rightarrow> LONG \<times> usb" where
  "usb_GetMute remote t Channel st = (case t of
     eUsbHsSpeakerDevice \<Rightarrow> (case GetUsbHsSpeakerMute remote Channel st of (st0, v, st1) \<Rightarrow> (if NT_SUCCESS st0 then v else 0, st1))
   | eUsbHsMicDevice \<Rightarrow> (case GetUsbHsMicVolume remote Channel st of (st0, v, st1) \<Rightarrow> (if NT_SUCCESS st0 then v else 0, st1))
   | eNoUsbHsDevice \<Rightarrow> (0, st))"

definition usb_SetMute :: "usb_remote \<Rightarrow> usb_device_type \<Rightarrow> LONG \<Rightarrow> LONG \<Rightarrow> usb \<Rightarrow> NTSTATUS \<times> usb" where
  "usb_SetMute remote t Channel Mute st = (case t of
     eUsbHsSpeakerDevice \<Rightarrow> SetUsbHsSpeakerMute remote Channel Mute st
   | eUsbHsMicDevice \<Rightarrow> SetUsbHsMicMute remote Channel Mute st
   | eNoUsbHsDevice \<Rightarrow> (STATUS_INVALID_PARAMETER, st))"

definition usb_GetConnectionStatus :: BOOL where "usb_GetConnectionStatus = TRUE_BOOL"
definition usb_Connect :: NTSTATUS where "usb_Connect = STATUS_DEVICE_FEATURE_NOT_SUPPORTED"
definition usb_Disconnect :: NTSTATUS where "usb_Disconnect = STATUS_DEVICE_FEATURE_NOT_SUPPORTED"

definition usb_GetContainerId :: "usb_device_type \<Rightarrow> UsbHsDevice \<Rightarrow> GUID option" where
  "usb_GetContainerId t d = (case side_of t of
     Some s \<Rightarrow> map_option ed_ContainerId (side_descriptor s d) | None \<Rightarrow> Some 0)"

definition usb_set_handler :: "usb_callback \<Rightarrow> usb_device_type \<Rightarrow> event_callback option \<Rightarrow> UsbHsDevice \<Rightarrow> UsbHsDevice" where
  "usb_set_handler c t h d = (case side_of t of
     Some s \<Rightarrow> upd_side s (\<lambda>x. x \<lparr> us_Callbacks := (us_Callbacks x)(c := h) \<rparr>) d
   | None \<Rightarrow> d)"

definition usb_SetVolumeHandler where "usb_SetVolumeHandler = usb_set_handler VolumeCallback"
definition usb_SetMuteHandler where "usb_SetMuteHandler = usb_set_handler MuteCallback"
definition usb_SetConnectionStatusHandler where "usb_SetConnectionStatusHandler = usb_set_handler ConnectionStatusCallback"
definition usb_SetFormatChangeHandler where "usb_SetFormatChangeHandler = usb_set_handler FormatChangeCallback"

definition usb_GetFormatsAndModes :: "usb_device_type \<Rightarrow> nat option" where "usb_GetFormatsAndModes t = None"
definition usb_IsNRECSupported :: BOOL where "usb_IsNRECSupported = FALSE_BOOL"
definition usb_GetNRECDisableStatus :: BOOL where "usb_GetNRECDisableStatus = FALSE_BOOL"

datatype usb_iid = IID_Unknown_usb | IID_IUsbHsDeviceCommon | IID_Other_usb

definition usb_NonDelegatingQueryInterface :: "usb_iid \<Rightarrow> nat \<Rightarrow> NTSTATUS \<times> bool \<times> nat" where
  "usb_NonDelegatingQueryInterface iid n =
     (if iid = IID_Unknown_usb \<or> iid = IID_IUsbHsDeviceCommon then (STATUS_SUCCESS, True, n + 1)
      else (STATUS_INVALID_PARAMETER, False, n))"

definition EvtUsbHsTargetQueryRemove :: "usb \<Rightarrow> NTSTATUS \<times> usb" where "EvtUsbHsTargetQueryRemove s = (STATUS_SUCCESS, s)"
definition EvtUsbHsTargetRemoveCanceled :: "usb \<Rightarrow> usb" where "EvtUsbHsTargetRemoveCanceled s = s"
definition EvtUsbHsTargetRemoveComplete :: "usb \<Rightarrow> usb" where "EvtUsbHsTargetRemoveComplete s = s"

section \<open>Init\<close>

definition usb_CreateFilterNames :: "usb_config \<Rightarrow> NTSTATUS \<Rightarrow> string \<Rightarrow> UsbHsDevice \<Rightarrow> NTSTATUS \<times> UsbHsDevice" where
  "usb_CreateFilterNames cf hash_st link d =
     (if \<not> NT_SUCCESS hash_st then (hash_st, d)
      else
        (let name = (\<lambda>s x. x \<lparr> us_WaveName := filter_name (uc_refstring_max cf) (uc_wave cf s) (uc_hash cf link),
                                us_TopologyName := filter_name (uc_refstring_max cf) (uc_topo cf s) (uc_hash cf link) \<rparr>)
         in (hash_st, upd_side UsbMic (name UsbMic) (upd_side UsbSpeaker (name UsbSpeaker) d))))"

text \<open>The adapter's list of power relations with its reference counts is part of the state of Init.\<close>

type_synonym power_state = "CAdapterCommon \<times> pdo_refs"
type_synonym usb_powered = "usb_io \<times> UsbHsDevice \<times> power_state"

record usb_init_env =
  ui_workitem :: NTSTATUS
  ui_collection :: NTSTATUS
  ui_target :: NTSTATUS
  ui_open :: NTSTATUS
  ui_pdo :: pdo
  ui_relation :: bool
  ui_name :: bool
  ui_request :: "usb_req \<Rightarrow> request_env"
  ui_hash :: NTSTATUS

text \<open>
  The members of a side that Init assigns. It does not assign the descriptor, the index, the
  selected format and the names.
\<close>

definition usb_Init_side :: "usb_side_state \<Rightarrow> usb_side_state" where
  "usb_Init_side x = x \<lparr> us_Miniports := None, us_UnknownTopology := None, us_UnknownWave := None, us_VolumePropValues := None,
     us_MutePropValues := None, us_VolumeLevel := 0, us_Mute := 0, us_StreamStatus := STATUS_SUCCESS, us_nStreamsOpen := 0,
     us_nStreamsStart := 0, us_SupportedFormatsIntersection := None, us_StreamStatusEvent := True, us_Callbacks := (\<lambda>c. None),
     us_TransportResources := no_resources \<rparr>"

definition usb_Init_members :: "UsbHsDevice \<Rightarrow> UsbHsDevice" where
  "usb_Init_members d = d \<lparr> uh_State := StateInitializing, uh_WdfIoTarget := False, uh_Descriptor := None, uh_WorkItem := False,
     uh_ReqCollection := False, uh_SymbolicLinkName := None, uh_Side := (\<lambda>s. usb_Init_side (uh_Side d s)) \<rparr>"

definition usb_Init_workitem :: "NTSTATUS \<Rightarrow> usb_powered step" where
  "usb_Init_workitem st = (\<lambda>(io, d, a). Some (st,
     if NT_SUCCESS st then (wdf_create WdfWorkItem io, d \<lparr> uh_WorkItem := True \<rparr>, a) else (io, d, a)))"

definition usb_Init_collection :: "NTSTATUS \<Rightarrow> usb_powered step" where
  "usb_Init_collection st = (\<lambda>(io, d, a). Some (st,
     if NT_SUCCESS st then (wdf_create WdfCollection io, d \<lparr> uh_ReqCollection := True \<rparr>, a) else (io, d, a)))"

definition usb_Init_target :: "NTSTATUS \<Rightarrow> usb_powered step" where
  "usb_Init_target st = (\<lambda>(io, d, a). Some (st,
     if NT_SUCCESS st then (wdf_create WdfIoTarget io, d \<lparr> uh_WdfIoTarget := True \<rparr>, a) else (io, d, a)))"

text \<open>The result of the power dependency is ignored.\<close>

definition usb_Init_open :: "NTSTATUS \<Rightarrow> bool \<Rightarrow> pdo \<Rightarrow> usb_powered step" where
  "usb_Init_open st relation p = (\<lambda>(io, d, a, r). Some (st,
     if NT_SUCCESS st then (case AddDeviceAsPowerDependency relation p a r of (_, a1, r1) \<Rightarrow> (io, d, a1, r1)) else (io, d, a, r)))"

definition usb_Init_link :: "bool \<Rightarrow> string \<Rightarrow> usb_powered step" where
  "usb_Init_link ok link = (\<lambda>(io, d, a).
     (if ok then (case pool_alloc MINADAPTER_POOLTAG io of (p, io1) \<Rightarrow>
                    Some (STATUS_SUCCESS, io1, d \<lparr> uh_SymbolicLinkName := Some (p, link) \<rparr>, a))
      else Some (STATUS_INSUFFICIENT_RESOURCES, io, d, a)))"

definition zero_params :: usb_params where
  "zero_params = \<lparr> up_Immediate = 0, up_EpIndex = 0, up_Channel = 0, up_Value = 0 \<rparr>"

definition usb_Init_request :: "request_env \<Rightarrow> usb_req \<Rightarrow> usb_powered step" where
  "usb_Init_request e q = (\<lambda>(io, d, a).
     (case create_request e q (IOCTL_SBAUD_GET_DEVICE_DESCRIPTOR 0) zero_params io of (st, io1) \<Rightarrow> Some (st, io1, d, a)))"

definition usb_Init_names :: "usb_config \<Rightarrow> NTSTATUS \<Rightarrow> string \<Rightarrow> usb_powered step" where
  "usb_Init_names cf st link = (\<lambda>(io, d, a).
     (case usb_CreateFilterNames cf st link d of (st1, d1) \<Rightarrow> Some (st1, io, d1, a)))"

text \<open>The requests in the order in which Init creates and the destructor deletes them.\<close>

definition usb_requests :: "usb_req list" where
  "usb_requests = [VolumeReq UsbSpeaker, VolumeReq UsbMic, MuteReq UsbSpeaker, MuteReq UsbMic, UsbStreamReq UsbSpeaker,
     UsbStreamReq UsbMic]"

definition usb_Init_basics :: "usb_init_env \<Rightarrow> string \<Rightarrow> usb_powered step list" where
  "usb_Init_basics e link =
     [usb_Init_workitem (ui_workitem e), usb_Init_collection (ui_collection e), usb_Init_target (ui_target e),
      usb_Init_open (ui_open e) (ui_relation e) (ui_pdo e), usb_Init_link (ui_name e) link]"

definition usb_Init :: "usb_config \<Rightarrow> usb_init_env \<Rightarrow> string \<Rightarrow> usb_powered step" where
  "usb_Init cf e link = (\<lambda>(io, d, a). do {
     (st, io1, d1, a1) \<leftarrow> run_steps
       (usb_Init_basics e link
        @ map (\<lambda>q. usb_Init_request (ui_request e q) q) usb_requests
        @ [usb_Init_names cf (ui_hash e) link]) (io \<lparr> io_reqs := Map.empty \<rparr>, usb_Init_members d, a);
     if NT_SUCCESS st then Some (STATUS_SUCCESS, io1, d1 \<lparr> uh_State := StateRunning \<rparr>, a1) else Some (st, io1, d1, a1) })"

section \<open>Start\<close>

record usb_start_env =
  us_device :: query_env
  us_hub :: query_env
  us_endpoints :: "nat \<Rightarrow> query_env"
  us_volume_alloc :: "usb_side \<Rightarrow> bool"
  us_mute_alloc :: "usb_side \<Rightarrow> bool"
  us_formats :: "usb_side \<Rightarrow> query_env"
  us_pair :: "usb_side \<Rightarrow> pair_env"
  us_filters :: "usb_side \<Rightarrow> filters_env"
  us_send :: "usb_side \<Rightarrow> send_env"

type_synonym usb_world = "usb_io \<times> UsbHsDevice \<times> adapter_world"

definition usb_Start_descriptor :: "usb_remote \<Rightarrow> query_env \<Rightarrow> usb_world step" where
  "usb_Start_descriptor remote e = (\<lambda>(io, d, w). do {
     (st, p, io1) \<leftarrow> GetUsbHsDescriptor remote e io;
     Some (st, io1, d \<lparr> uh_Descriptor := p \<rparr>, w) })"

text \<open>Whether the device is behind a hub is asked for and dropped; the index is (ULONG)-1.\<close>

definition usb_Start_hub :: "usb_remote \<Rightarrow> query_env \<Rightarrow> usb_world step" where
  "usb_Start_hub remote e = (\<lambda>(io, d, w). do {
     (st, p, io1) \<leftarrow> GetSiop remote e SIDEBANDAUDIO_PARAMS_SET_USB_CONTROLLER
        SIOP_TYPE_USBAUD_CONTROLLER_CONFIG_INFO_DEVICE_BEHIND_HUB 4294967295 USBSIDEBANDTEST_POOLTAG016 io;
     if \<not> NT_SUCCESS st then Some (st, io1, d, w)
     else do {
       io2 \<leftarrow> pool_free_opt (map_option fst p) USBSIDEBANDTEST_POOLTAG016 io1;
       Some (st, io2, d, w) } })"

text \<open>
  The loop over the endpoints with the numbers of speaker and microphone endpoints. A second endpoint
  of a direction overwrites the pointer to the first one's descriptor.
\<close>

fun usb_endpoint_loop :: "usb_remote \<Rightarrow> (nat \<Rightarrow> query_env) \<Rightarrow> nat list \<Rightarrow> nat \<times> nat \<Rightarrow> usb \<Rightarrow> (NTSTATUS \<times> (nat \<times> nat) \<times> usb) option" where
  "usb_endpoint_loop remote e [] n s = Some (STATUS_SUCCESS, n, s)"
| "usb_endpoint_loop remote e (i # is) (ns, nm) (io, d) = do {
     (st, p, io1) \<leftarrow> GetUsbHsEndpointDescriptor remote (e i) i io;
     if \<not> NT_SUCCESS st then Some (st, (ns, nm), io1, d)
     else do {
       ed \<leftarrow> map_option ur_endpoint (read_block ur_whole p);
       (case ed_Direction ed of
          KSPIN_DATAFLOW_OUT \<Rightarrow> usb_endpoint_loop remote e is (ns + 1, nm)
            (io1, upd_side UsbSpeaker (\<lambda>x. x \<lparr> us_EpIndex := i, us_Descriptor := p \<rparr>) d)
        | KSPIN_DATAFLOW_IN \<Rightarrow> usb_endpoint_loop remote e is (ns, nm + 1)
            (io1, upd_side UsbMic (\<lambda>x. x \<lparr> us_EpIndex := i, us_Descriptor := p \<rparr>) d)
        | OtherDataflow \<Rightarrow> usb_endpoint_loop remote e is (ns, nm) (io1, d)) } }"

definition usb_Start_endpoints :: "usb_remote \<Rightarrow> (nat \<Rightarrow> query_env) \<Rightarrow> usb \<Rightarrow> (NTSTATUS \<times> (nat \<times> nat) \<times> usb) option" where
  "usb_Start_endpoints remote e = (\<lambda>(io, d). do {
     v \<leftarrow> read_block ur_whole (uh_Descriptor d);
     usb_endpoint_loop remote e [0..<ur_NumberOfEndpoints v] (0, 0) (io, d) })"

definition usb_Start_count :: "nat \<times> nat \<Rightarrow> usb_world step" where
  "usb_Start_count n = (\<lambda>(io, d, w).
     (if fst n > 1 \<or> snd n > 1
      then Some (STATUS_DEVICE_FEATURE_NOT_SUPPORTED, io,
             upd_side UsbMic (\<lambda>x. x \<lparr> us_EpIndex := 0 \<rparr>) (upd_side UsbSpeaker (\<lambda>x. x \<lparr> us_EpIndex := 0 \<rparr>) d), w)
      else Some (STATUS_SUCCESS, io, d, w)))"

definition usb_Start_volume :: "usb_side \<Rightarrow> usb_remote \<Rightarrow> bool \<Rightarrow> usb_world step" where
  "usb_Start_volume s remote alloc = (\<lambda>(io, d, w). do {
     x \<leftarrow> side_descriptor s d;
     if ed_Volume x = 0 then Some (STATUS_SUCCESS, io, d, w)
     else do {
       (st, p, io1) \<leftarrow> GetUsbHsVolumePropertyValues remote alloc (us_EpIndex (uh_Side d s)) (ed_VolumePropertyValuesSize x) io;
       if \<not> NT_SUCCESS st then Some (st, io1, d, w)
       else do {
         let d1 = upd_side s (\<lambda>y. y \<lparr> us_VolumePropValues := p \<rparr>) d;
         let (st1, v, io2, d2) = usb_get_volume s remote 0 (io1, d1);
         Some (st1, io2, if NT_SUCCESS st1 then upd_side s (\<lambda>y. y \<lparr> us_VolumeLevel := v \<rparr>) d2 else d2, w) } } })"

definition usb_Start_mute :: "usb_side \<Rightarrow> usb_remote \<Rightarrow> bool \<Rightarrow> usb_world step" where
  "usb_Start_mute s remote alloc = (\<lambda>(io, d, w). do {
     x \<leftarrow> side_descriptor s d;
     if ed_Mute x = 0 then Some (STATUS_SUCCESS, io, d, w)
     else do {
       (st, p, io1) \<leftarrow> GetUsbHsMutePropertyValues remote alloc (us_EpIndex (uh_Side d s)) (ed_MutePropertyValuesSize x) io;
       if \<not> NT_SUCCESS st then Some (st, io1, d, w)
       else do {
         let d1 = upd_side s (\<lambda>y. y \<lparr> us_MutePropValues := p \<rparr>) d;
         let (st1, v, io2, d2) = usb_get_mute s remote 0 (io1, d1);
         Some (st1, io2, if NT_SUCCESS st1 then upd_side s (\<lambda>y. y \<lparr> us_Mute := v \<rparr>) d2 else d2, w) } } })"

definition usb_Start_formats :: "usb_side \<Rightarrow> usb_remote \<Rightarrow> query_env \<Rightarrow> usb_world step" where
  "usb_Start_formats s remote e = (\<lambda>(io, d, w). do {
     (st, p, io1) \<leftarrow> GetUsbHsEndpointFormatsIntersection remote e (us_EpIndex (uh_Side d s)) io;
     Some (st, io1, upd_side s (\<lambda>y. y \<lparr> us_SupportedFormatsIntersection := p \<rparr>) d, w) })"

text \<open>
  The three functions for the copy of a pair; the code has them with the same bodies in BthHfpDevice
  (theory EndpointPair).
\<close>

definition usb_CreateCustomEndpointMinipair :: "pair_env \<Rightarrow> endpoint_pair \<Rightarrow> string \<Rightarrow> GUID \<Rightarrow> usb_io \<Rightarrow>
    (NTSTATUS \<times> custom_pair option \<times> usb_io) option" where
  "usb_CreateCustomEndpointMinipair = CreateCustomEndpointMinipair"

definition usb_UpdateCustomEndpointCategory :: "GUID \<Rightarrow> GUID list \<Rightarrow> NTSTATUS \<times> GUID list" where
  "usb_UpdateCustomEndpointCategory = UpdateCustomEndpointCategory"

definition usb_DeleteCustomEndpointMinipair :: "custom_pair option \<Rightarrow> usb_io \<Rightarrow> usb_io option" where
  "usb_DeleteCustomEndpointMinipair = DeleteCustomEndpointMinipair"

definition usb_Start_pair :: "usb_side \<Rightarrow> usb_config \<Rightarrow> pair_env \<Rightarrow> usb_world step" where
  "usb_Start_pair s cf e = (\<lambda>(io, d, w). do {
     x \<leftarrow> side_descriptor s d;
     (st, p, io1) \<leftarrow> usb_CreateCustomEndpointMinipair e (uc_endpoint cf s) (ed_FriendlyName x) (ed_Category x) io;
     if \<not> NT_SUCCESS st then Some (st, io1, d, w)
     else Some (st, io1, upd_side s (\<lambda>y. y \<lparr> us_Miniports := map_option (\<lambda>c. c \<lparr> cp_pair := (cp_pair c)
            \<lparr> TopoName := us_TopologyName y, WaveName := us_WaveName y \<rparr> \<rparr>) p \<rparr>) d, w) })"

definition usb_Start_verify :: "usb_side \<Rightarrow> usb_config \<Rightarrow> usb_world step" where
  "usb_Start_verify s cf = (\<lambda>(io, d, w). do {
     v \<leftarrow> read_block ur_whole (us_SupportedFormatsIntersection (uh_Side d s));
     let (st, i) = VerifyEndpointFormatCompatibility cf (ur_formats v) (uc_formats cf s) (us_SelectedFormat (uh_Side d s));
     Some (st, io, upd_side s (\<lambda>y. y \<lparr> us_SelectedFormat := i \<rparr>) d, w) })"

definition usb_Start_filters :: "usb_side \<Rightarrow> filters_env \<Rightarrow> usb_world step" where
  "usb_Start_filters s e = (\<lambda>(io, d, w). do {
     c \<leftarrow> us_Miniports (uh_Side d s);
     (st, outs, w1) \<leftarrow> InstallEndpointFilters e (ENDPOINT_MINIPAIR.truncate (cp_pair c)) want_filters w;
     Some (st, io, upd_side s (\<lambda>y. y \<lparr> us_UnknownTopology := out_topo outs, us_UnknownWave := out_wave outs \<rparr>) d, w1) })"

definition usb_Start_enable :: "usb_side \<Rightarrow> send_env \<Rightarrow> usb_world step" where
  "usb_Start_enable s e = (\<lambda>(io, d, w). do {
     x \<leftarrow> side_descriptor s d;
     if ed_Volume x = 0 then Some (STATUS_SUCCESS, io, d, w)
     else do {
       (st, io1) \<leftarrow> (case s of UsbSpeaker \<Rightarrow> EnableUsbHsSpeakerVolumeStatusNotification e (io, d)
                     | UsbMic \<Rightarrow> EnableUsbHsMicVolumeStatusNotification e (io, d));
       Some (st, io1, d, w) } })"

text \<open>The part of Start for a side, which is skipped when the side has no descriptor.\<close>

definition usb_Start_side :: "usb_side \<Rightarrow> usb_remote \<Rightarrow> usb_config \<Rightarrow> usb_start_env \<Rightarrow> usb_world step" where
  "usb_Start_side s remote cf e = (\<lambda>(io, d, w).
     (if us_Descriptor (uh_Side d s) = None then Some (STATUS_SUCCESS, io, d, w)
      else run_steps
        [usb_Start_volume s remote (us_volume_alloc e s), usb_Start_mute s remote (us_mute_alloc e s),
         usb_Start_formats s remote (us_formats e s), usb_Start_pair s cf (us_pair e s), usb_Start_verify s cf,
         usb_Start_filters s (us_filters e s), usb_Start_enable s (us_send e s)] (io, d, w)))"

definition usb_Start_notify :: "nat \<times> nat \<Rightarrow> usb_world step" where
  "usb_Start_notify n = (\<lambda>(io, d, w).
     Some (if fst n > 0 \<and> snd n > 0 then fst (NotifyEndpointPair w) else STATUS_SUCCESS, io, d, w))"

definition usb_Start_claim :: "usb_remote \<Rightarrow> usb_world step" where
  "usb_Start_claim remote = (\<lambda>(io, d, w). (case SetSidebandClaimed remote TRUE_BOOL io of (st, io1) \<Rightarrow> Some (st, io1, d, w)))"

definition usb_Start_rest :: "usb_remote \<Rightarrow> usb_config \<Rightarrow> usb_start_env \<Rightarrow> usb_world step" where
  "usb_Start_rest remote cf e = (\<lambda>(io, d, w). do {
     (st, n, io1, d1) \<leftarrow> usb_Start_endpoints remote (us_endpoints e) (io, d);
     if \<not> NT_SUCCESS st then Some (st, io1, d1, w)
     else run_steps
       [usb_Start_count n, usb_Start_side UsbSpeaker remote cf e, usb_Start_side UsbMic remote cf e, usb_Start_notify n,
        usb_Start_claim remote] (io1, d1, w) })"

definition usb_Start :: "usb_remote \<Rightarrow> usb_config \<Rightarrow> usb_start_env \<Rightarrow> usb_world \<Rightarrow> usb_world option" where
  "usb_Start remote cf e s = do {
     (st, io, d, w) \<leftarrow> run_steps [usb_Start_descriptor remote (us_device e), usb_Start_hub remote (us_hub e),
       usb_Start_rest remote cf e] s;
     Some (if NT_SUCCESS st then (io, d, w)
           else (snd (SetSidebandClaimed remote FALSE_BOOL io), d \<lparr> uh_State := StateFailed \<rparr>, w)) }"

section \<open>Stop and destruction\<close>

record usb_stop_env =
  ux_work :: "usb_req round_env"
  ux_filters :: "usb_side \<Rightarrow> filters_env"

definition usb_notifications :: "usb_req list" where
  "usb_notifications = [VolumeReq UsbSpeaker, VolumeReq UsbMic, MuteReq UsbSpeaker, MuteReq UsbMic]"

definition usb_cancel_stream :: "usb_side \<Rightarrow> usb \<Rightarrow> usb option" where
  "usb_cancel_stream s st = (case io_reqs (fst st) (UsbStreamReq s) of
     None \<Rightarrow> Some st
   | Some r \<Rightarrow> if Pending r then EvtUsbHsDeviceStreamStatusCompletion STATUS_CANCELLED (Buffer r) (UsbStreamReq s) st
               else Some st)"

definition usb_purge :: "usb \<Rightarrow> usb option" where
  "usb_purge = (\<lambda>(io, d). do {
     io1 \<leftarrow> cancel_all usb_notifications (io \<lparr> io_purged := True \<rparr>);
     s1 \<leftarrow> usb_cancel_stream UsbSpeaker (io1, d);
     usb_cancel_stream UsbMic s1 })"

definition usb_remove :: "usb_side \<Rightarrow> filters_env \<Rightarrow> UsbHsDevice \<Rightarrow> adapter_world \<Rightarrow> adapter_world option" where
  "usb_remove s e d w =
     remove_pair_filters e (us_Miniports (uh_Side d s)) (us_UnknownTopology (uh_Side d s)) (us_UnknownWave (uh_Side d s)) w"

definition usb_no_filters :: "UsbHsDevice \<Rightarrow> UsbHsDevice" where
  "usb_no_filters d = d \<lparr> uh_Side := (\<lambda>s. (uh_Side d s) \<lparr> us_UnknownTopology := None, us_UnknownWave := None \<rparr>) \<rparr>"

definition usb_release_filters :: "UsbHsDevice \<Rightarrow> adapter_world \<Rightarrow> adapter_world option" where
  "usb_release_filters d w = do {
     w1 \<leftarrow> safe_release (us_UnknownTopology (uh_Side d UsbSpeaker)) w;
     w2 \<leftarrow> safe_release (us_UnknownWave (uh_Side d UsbSpeaker)) w1;
     w3 \<leftarrow> safe_release (us_UnknownTopology (uh_Side d UsbMic)) w2;
     safe_release (us_UnknownWave (uh_Side d UsbMic)) w3 }"

definition usb_Stop :: "usb_stop_env \<Rightarrow> usb_world \<Rightarrow> usb_world option" where
  "usb_Stop e = (\<lambda>(io, d, w). do {
     s1 \<leftarrow> usb_purge (io, d \<lparr> uh_State := StateStopping \<rparr>);
     (io2, d2) \<leftarrow> notif_flush usb_notification id (ux_work e) s1;
     w1 \<leftarrow> usb_remove UsbSpeaker (ux_filters e UsbSpeaker) d2 w;
     w2 \<leftarrow> usb_remove UsbMic (ux_filters e UsbMic) d2 w1;
     w3 \<leftarrow> usb_release_filters d2 w2;
     Some (io2, (usb_no_filters d2) \<lparr> uh_State := StateStopped \<rparr>, w3) })"

text \<open>
  The destructor: the target with its power dependency, then the memory in the order of the code.
  The endpoint descriptors are freed with another tag than they were allocated with.
\<close>

definition usb_dtor_target :: "pdo \<Rightarrow> usb_powered \<Rightarrow> usb_powered option" where
  "usb_dtor_target p = (\<lambda>(io, d, a, r).
     (if uh_WdfIoTarget d then do {
        (_, a1, r1) \<leftarrow> RemoveDeviceAsPowerDependency p a r;
        io1 \<leftarrow> wdf_delete WdfIoTarget io;
        Some (io1, d \<lparr> uh_WdfIoTarget := False \<rparr>, a1, r1) }
      else Some (io, d, a, r)))"

definition free_side_block :: "(usb_side_state \<Rightarrow> usb_block) \<Rightarrow> pool_tag \<Rightarrow> usb_side \<Rightarrow> UsbHsDevice \<Rightarrow> usb_io \<Rightarrow> usb_io option" where
  "free_side_block f tag s d io = pool_free_opt (map_option fst (f (uh_Side d s))) tag io"

definition usb_dtor_memory :: "UsbHsDevice \<Rightarrow> usb_io \<Rightarrow> usb_io option" where
  "usb_dtor_memory d io = do {
     io1 \<leftarrow> pool_free_opt (map_option fst (uh_SymbolicLinkName d)) MINADAPTER_POOLTAG io;
     io2 \<leftarrow> usb_DeleteCustomEndpointMinipair (us_Miniports (uh_Side d UsbSpeaker)) io1;
     io3 \<leftarrow> usb_DeleteCustomEndpointMinipair (us_Miniports (uh_Side d UsbMic)) io2;
     io4 \<leftarrow> pool_free_opt (map_option fst (uh_Descriptor d)) MINADAPTER_POOLTAG io3;
     io5 \<leftarrow> free_side_block us_Descriptor USBSIDEBANDTEST_POOLTAG02 UsbSpeaker d io4;
     io6 \<leftarrow> free_side_block us_Descriptor USBSIDEBANDTEST_POOLTAG02 UsbMic d io5;
     io7 \<leftarrow> free_side_block us_SupportedFormatsIntersection USBSIDEBANDTEST_POOLTAG03 UsbSpeaker d io6;
     io8 \<leftarrow> free_side_block us_SupportedFormatsIntersection USBSIDEBANDTEST_POOLTAG03 UsbMic d io7;
     (_, io9) \<leftarrow> FreeTransportResources (us_TransportResources (uh_Side d UsbSpeaker)) io8;
     (_, io10) \<leftarrow> FreeTransportResources (us_TransportResources (uh_Side d UsbMic)) io9;
     io11 \<leftarrow> free_side_block us_VolumePropValues USBSIDEBANDTEST_POOLTAG02 UsbSpeaker d io10;
     io12 \<leftarrow> free_side_block us_VolumePropValues USBSIDEBANDTEST_POOLTAG02 UsbMic d io11;
     io13 \<leftarrow> free_side_block us_MutePropValues USBSIDEBANDTEST_POOLTAG06 UsbSpeaker d io12;
     free_side_block us_MutePropValues USBSIDEBANDTEST_POOLTAG06 UsbMic d io13 }"

definition usb_dtor_requests :: "usb_io \<Rightarrow> usb_io option" where
  "usb_dtor_requests io = delete_requests usb_requests io"

definition usb_dtor :: "pdo \<Rightarrow> usb_powered \<times> adapter_world \<Rightarrow> (usb_io \<times> power_state \<times> adapter_world) option" where
  "usb_dtor p = (\<lambda>(s, w). do {
     (io, d, a) \<leftarrow> usb_dtor_target p s;
     io1 \<leftarrow> usb_dtor_memory d io;
     io2 \<leftarrow> usb_dtor_requests io1;
     io3 \<leftarrow> wdf_delete_if (uh_WorkItem d) WdfWorkItem io2;
     io4 \<leftarrow> wdf_delete_if (uh_ReqCollection d) WdfCollection io3;
     w1 \<leftarrow> usb_release_filters d w;
     Some (io4, a, w1) })"

end
