(* ===== verification/UsbHsSafety.thy ===== *)
theory UsbHsSafety
  imports UsbHsDevice
begin

text \<open>
  What holds of the USB headset (theory UsbHsDevice) between Init and the destructor: the account of
  its memory, requests, streams and filters, and its preservation by every operation.
\<close>

section \<open>What notifications change\<close>

definition side_core :: "usb_side_state \<Rightarrow> usb_side_state" where
  "side_core x = x \<lparr> us_VolumeLevel := 0, us_Mute := 0 \<rparr>"

definition usb_core :: "UsbHsDevice \<Rightarrow> UsbHsDevice" where
  "usb_core d = d \<lparr> uh_Side := (\<lambda>s. side_core (uh_Side d s)), uh_Invoked := [] \<rparr>"

lemma upd_side_sel [simp]:
  "uh_Side (upd_side s f d) s = f (uh_Side d s)" "t \<noteq> s \<Longrightarrow> uh_Side (upd_side s f d) t = uh_Side d t"
  "uh_State (upd_side s f d) = uh_State d" "uh_WdfIoTarget (upd_side s f d) = uh_WdfIoTarget d"
  "uh_SymbolicLinkName (upd_side s f d) = uh_SymbolicLinkName d" "uh_Descriptor (upd_side s f d) = uh_Descriptor d"
  "uh_WorkItem (upd_side s f d) = uh_WorkItem d" "uh_ReqCollection (upd_side s f d) = uh_ReqCollection d"
  by (simp_all add: upd_side_def)

lemma upd_side_if: "uh_Side (upd_side s f d) t = (if t = s then f (uh_Side d s) else uh_Side d t)"
  by (simp add: upd_side_def)

lemma upd_side_twice [simp]: "upd_side s f (upd_side s g d) = upd_side s (\<lambda>x. f (g x)) d"
  by (simp add: upd_side_def)

lemma core_upd: "side_core (f (uh_Side d s)) = side_core (uh_Side d s) \<Longrightarrow> usb_core (upd_side s f d) = usb_core d"
  by (auto simp: usb_core_def upd_side_def fun_eq_iff)

lemma core_invoke [simp]: "usb_core (usb_invoke s c d) = usb_core d"
  by (simp add: usb_core_def usb_invoke_def split: option.split)

lemma core_levels [simp]:
  "usb_core (upd_side s (\<lambda>x. x \<lparr> us_VolumeLevel := v \<rparr>) d) = usb_core d"
  "usb_core (upd_side s (\<lambda>x. x \<lparr> us_Mute := v \<rparr>) d) = usb_core d"
  by (rule core_upd, simp add: side_core_def)+

lemma usb_coreD:
  assumes "usb_core d' = usb_core d"
  shows "side_core (uh_Side d' s) = side_core (uh_Side d s)" "uh_State d' = uh_State d" "uh_WdfIoTarget d' = uh_WdfIoTarget d"
    "uh_SymbolicLinkName d' = uh_SymbolicLinkName d" "uh_Descriptor d' = uh_Descriptor d" "uh_WorkItem d' = uh_WorkItem d"
    "uh_ReqCollection d' = uh_ReqCollection d"
  using assms by (cases d; cases d'; simp add: usb_core_def fun_eq_iff)+

lemma updates_core [simp]: "usb_core (usb_volume_update b d) = usb_core d" "usb_core (usb_mute_update b d) = usb_core d"
  by (simp_all add: usb_volume_update_def usb_mute_update_def Let_def split: option.split)

interpretation usb_notif: notification_handler usb_notification "\<lambda>log d. usb_core d = c" for c :: UsbHsDevice
proof
  fix code :: usb_ioctl and b b' :: usb_params and io io' :: usb_io and d d' :: UsbHsDevice and resend
  assume h: "usb_notification code b (io, d) = (resend, b', io', d')"
  then have "io' = io \<and> usb_core d' = usb_core d"
    by (auto simp: usb_notification_def split: usb_ioctl.splits)
  then show "\<exists>l. io' = io \<lparr> io_log := l \<rparr>" "usb_core d = c \<Longrightarrow> usb_core d' = c"
    by (auto intro: exI [of _ "io_log io"])
qed

section \<open>Memory\<close>

definition transport_blocks :: "transport_resources \<Rightarrow> pool_tag multiset" where
  "transport_blocks t = sum_list (map (\<lambda>(k, tag). block_of (t k)) (base_siops @ feedback_siops))"

definition side_blocks :: "usb_side_state \<Rightarrow> pool_tag multiset" where
  "side_blocks x = pair_blocks (us_Miniports x) + block_of (us_Descriptor x) + block_of (us_SupportedFormatsIntersection x)
     + transport_blocks (us_TransportResources x) + block_of (us_VolumePropValues x) + block_of (us_MutePropValues x)"

definition usb_blocks :: "UsbHsDevice \<Rightarrow> pool_tag multiset" where
  "usb_blocks d = block_of (uh_SymbolicLinkName d) + block_of (uh_Descriptor d) + side_blocks (uh_Side d UsbSpeaker)
     + side_blocks (uh_Side d UsbMic)"

text \<open>
  The tags the blocks of a side were allocated with. The endpoint descriptor of a side can be read.
\<close>

definition transport_tags :: "transport_resources \<Rightarrow> bool" where
  "transport_tags t \<longleftrightarrow> list_all (\<lambda>(k, tag). tagged tag (t k)) (base_siops @ feedback_siops)"

definition side_tags :: "usb_side_state \<Rightarrow> bool" where
  "side_tags x \<longleftrightarrow> pair_ok (us_Miniports x) \<and> tagged MINADAPTER_POOLTAG (us_Descriptor x)
     \<and> (us_Descriptor x \<noteq> None \<longrightarrow> read_block ur_whole (us_Descriptor x) \<noteq> None)
     \<and> tagged USBSIDEBANDTEST_POOLTAG03 (us_SupportedFormatsIntersection x) \<and> transport_tags (us_TransportResources x)
     \<and> tagged USBSIDEBANDTEST_POOLTAG02 (us_VolumePropValues x) \<and> tagged USBSIDEBANDTEST_POOLTAG06 (us_MutePropValues x)"

definition usb_members :: "UsbHsDevice \<Rightarrow> wdf_object multiset" where
  "usb_members d = (if uh_WdfIoTarget d then {#WdfIoTarget#} else {#}) + (if uh_WorkItem d then {#WdfWorkItem#} else {#})
     + (if uh_ReqCollection d then {#WdfCollection#} else {#})"

definition usb_req_objs :: "usb_io \<Rightarrow> wdf_object multiset" where
  "usb_req_objs io = sum_list (map (\<lambda>q. req_objs (req_mems io q)) usb_requests)"

text \<open>
  The blocks and objects of the device, and the memory and objects \<open>P\<close> and \<open>X\<close> of others. A block the
  device drops without freeing it goes to \<open>P\<close>.
\<close>

definition usb_mem :: "pool_tag multiset \<Rightarrow> wdf_object multiset \<Rightarrow> usb \<Rightarrow> bool" where
  "usb_mem P X = (\<lambda>(io, d). io_pool io = usb_blocks d + P
     \<and> io_objects io = usb_members d + usb_req_objs io + X
     \<and> tagged MINADAPTER_POOLTAG (uh_SymbolicLinkName d) \<and> tagged MINADAPTER_POOLTAG (uh_Descriptor d)
     \<and> (\<forall>s. side_tags (uh_Side d s)))"

text \<open>
  A stream request is with the target only while a stream is open, its buffer has the index of its
  side and that index is found to be this side; the event is set exactly when it is not with the
  target. Transport resources are held only while a stream is started.
\<close>

definition stream_ok :: "usb_side \<Rightarrow> usb \<Rightarrow> bool" where
  "stream_ok s = (\<lambda>(io, d). (\<exists>r. io_reqs io (UsbStreamReq s) = Some r \<and> us_StreamStatusEvent (uh_Side d s) = (\<not> Pending r)
     \<and> (Pending r \<longrightarrow> up_EpIndex (Buffer r) = us_EpIndex (uh_Side d s) \<and> side_of_index (us_EpIndex (uh_Side d s)) d = Some s
          \<and> 0 < us_nStreamsOpen (uh_Side d s)))
     \<and> 0 \<le> us_nStreamsOpen (uh_Side d s) \<and> 0 \<le> us_nStreamsStart (uh_Side d s)
     \<and> (us_nStreamsStart (uh_Side d s) = 0 \<longrightarrow> us_TransportResources (uh_Side d s) = no_resources))"

definition usb_ok :: "pool_tag multiset \<Rightarrow> wdf_object multiset \<Rightarrow> usb \<Rightarrow> bool" where
  "usb_ok P X st \<longleftrightarrow> usb_mem P X st \<and> notifs_ok usb_notifications (fst st) \<and> (\<forall>s. stream_ok s st)
     \<and> (\<forall>q. req_mems (fst st) q = Some (True, True))"

lemma UNIV_side: "(\<forall>s. P s) = (P UsbSpeaker \<and> P UsbMic)"
  by (metis usb_side.exhaust)

lemma stream_no_notification [simp]: "UsbStreamReq s \<notin> set usb_notifications"
  by (simp add: usb_notifications_def)

lemma notification_or_stream: "q \<in> set usb_notifications \<or> (\<exists>s. q = UsbStreamReq s)"
proof (cases q)
  case (VolumeReq s) then show ?thesis by (cases s) (simp_all add: usb_notifications_def)
next
  case (MuteReq s) then show ?thesis by (cases s) (simp_all add: usb_notifications_def)
qed simp

lemma usb_req_objs_frame: "io_frame io io' \<Longrightarrow> usb_req_objs io' = usb_req_objs io"
  by (simp add: usb_req_objs_def io_frame_mems)

lemma usb_req_objs_simps [simp]:
  "usb_req_objs (io \<lparr> io_objects := x \<rparr>) = usb_req_objs io" "usb_req_objs (io \<lparr> io_pool := p \<rparr>) = usb_req_objs io"
  "usb_req_objs (io \<lparr> io_log := l \<rparr>) = usb_req_objs io" "usb_req_objs (io \<lparr> io_purged := b \<rparr>) = usb_req_objs io"
  by (simp_all add: usb_req_objs_def)

lemma transport_blocks_none [simp]: "transport_blocks no_resources = {#}" "transport_tags no_resources"
  by (simp_all add: transport_blocks_def transport_tags_def no_resources_def base_siops_def feedback_siops_def)

lemma side_core_blocks:
  assumes "side_core x' = side_core x"
  shows "side_blocks x' = side_blocks x" "side_tags x' = side_tags x" "us_StreamStatusEvent x' = us_StreamStatusEvent x"
    "us_EpIndex x' = us_EpIndex x" "us_nStreamsOpen x' = us_nStreamsOpen x" "us_nStreamsStart x' = us_nStreamsStart x"
    "us_TransportResources x' = us_TransportResources x" "us_UnknownTopology x' = us_UnknownTopology x"
    "us_UnknownWave x' = us_UnknownWave x" "us_Miniports x' = us_Miniports x" "us_Descriptor x' = us_Descriptor x"
  using assms by (cases x; cases x'; simp add: side_core_def side_blocks_def side_tags_def)+

lemma blocks_upd: "side_blocks (f (uh_Side d s)) = B + side_blocks (uh_Side d s) \<Longrightarrow> usb_blocks (upd_side s f d) = B + usb_blocks d"
  by (cases s) (simp_all add: usb_blocks_def upd_side_if ac_simps)

section \<open>Preserving the account\<close>

lemma mem_side:
  assumes m: "usb_mem P X (io, d)" and a: "side_blocks (uh_Side d s) = A + R" and b: "side_blocks (f (uh_Side d s)) = B + R"
    and t: "side_tags (f (uh_Side d s))" and p: "io_pool io = A + M" "io_pool io' = B + M"
    and o: "io_objects io' = io_objects io" "\<And>q. req_mems io' q = req_mems io q"
  shows "usb_mem P X (io', upd_side s f d)"
proof -
  have L: "io_pool io = usb_blocks d + P" using m by (simp add: usb_mem_def)
  obtain Q where q: "usb_blocks d = A + Q" "usb_blocks (upd_side s f d) = B + Q"
  proof (cases s)
    case UsbSpeaker
    then show ?thesis using a b that [of "block_of (uh_SymbolicLinkName d) + block_of (uh_Descriptor d) + R + side_blocks (uh_Side d UsbMic)"]
      by (simp add: usb_blocks_def upd_side_if ac_simps)
  next
    case UsbMic
    then show ?thesis using a b that [of "block_of (uh_SymbolicLinkName d) + block_of (uh_Descriptor d) + side_blocks (uh_Side d UsbSpeaker) + R"]
      by (simp add: usb_blocks_def upd_side_if ac_simps)
  qed
  have "M = Q + P" using L p(1) q(1) by (simp add: add.assoc)
  then have "io_pool io' = usb_blocks (upd_side s f d) + P" using p(2) q(2) by (simp add: add.assoc)
  moreover have "side_tags (uh_Side (upd_side s f d) u)" for u using m t by (simp add: usb_mem_def upd_side_if)
  moreover have "usb_req_objs io' = usb_req_objs io" by (simp add: usb_req_objs_def o(2))
  ultimately show ?thesis using m o(1) by (auto simp: usb_mem_def usb_members_def)
qed

lemma mem_same:
  assumes "usb_mem P X (io, d)" and "side_blocks (f (uh_Side d s)) = side_blocks (uh_Side d s)" and "side_tags (f (uh_Side d s))"
    and "io_frame io io'"
  shows "usb_mem P X (io', upd_side s f d)"
  by (rule mem_side [OF assms(1), of s "{#}" "side_blocks (uh_Side d s)" f "{#}" "io_pool io"])
    (use assms in \<open>simp_all add: io_frame_def\<close>)

lemma index_upd: "us_EpIndex (f (uh_Side d s)) = us_EpIndex (uh_Side d s) \<Longrightarrow> side_of_index i (upd_side s f d) = side_of_index i d"
  by (cases s) (simp_all add: side_of_index_def upd_side_if)

lemma stream_other:
  assumes "stream_ok t (io, d)" and "t \<noteq> s" and "io_reqs io' (UsbStreamReq t) = io_reqs io (UsbStreamReq t)"
    and "us_EpIndex (f (uh_Side d s)) = us_EpIndex (uh_Side d s)"
  shows "stream_ok t (io', upd_side s f d)"
  using assms by (simp add: stream_ok_def index_upd upd_side_if)

lemma ok_side_mem:
  assumes ok: "usb_ok P X (io, d)" and m: "usb_mem P X (io', upd_side s f d)" and n: "notifs_ok usb_notifications io'"
    and i: "us_EpIndex (f (uh_Side d s)) = us_EpIndex (uh_Side d s)" and q: "\<And>q. req_mems io' q = req_mems io q"
    and r: "\<And>u. u \<noteq> s \<Longrightarrow> io_reqs io' (UsbStreamReq u) = io_reqs io (UsbStreamReq u)"
    and st: "stream_ok s (io', upd_side s f d)"
  shows "usb_ok P X (io', upd_side s f d)"
proof -
  have "stream_ok u (io', upd_side s f d)" for u
    using st stream_other [of u io d s io' f] r i ok by (cases "u = s") (auto simp: usb_ok_def)
  then show ?thesis using m n ok q by (simp add: usb_ok_def)
qed

lemma ok_side:
  assumes ok: "usb_ok P X (io, d)" and f: "io_frame io io'" and n: "notifs_ok usb_notifications io'"
    and b: "side_blocks (f (uh_Side d s)) = side_blocks (uh_Side d s)" and t: "side_tags (f (uh_Side d s))"
    and i: "us_EpIndex (f (uh_Side d s)) = us_EpIndex (uh_Side d s)"
    and r: "\<And>u. u \<noteq> s \<Longrightarrow> io_reqs io' (UsbStreamReq u) = io_reqs io (UsbStreamReq u)"
    and st: "stream_ok s (io', upd_side s f d)"
  shows "usb_ok P X (io', upd_side s f d)"
proof (rule ok_side_mem [OF ok _ n i io_frame_mems [OF f] r st])
  show "usb_mem P X (io', upd_side s f d)" using mem_same [of P X io d f s io'] b t f ok by (simp add: usb_ok_def)
qed

text \<open>A change that only writes the work item's fields and touches no stream request.\<close>

lemma usb_ok_core:
  assumes ok: "usb_ok P X (io, d)" and f: "io_frame io io'" and n: "notifs_ok usb_notifications io'"
    and c: "usb_core d' = usb_core d" and r: "\<And>s. io_reqs io' (UsbStreamReq s) = io_reqs io (UsbStreamReq s)"
  shows "usb_ok P X (io', d')"
proof -
  note cd = usb_coreD [OF c] and sd = side_core_blocks [OF usb_coreD(1) [OF c]]
  have si: "side_of_index i d' = side_of_index i d" for i by (simp add: side_of_index_def sd)
  have b: "usb_blocks d' = usb_blocks d" "usb_members d' = usb_members d" by (simp_all add: usb_blocks_def usb_members_def cd sd)
  have "usb_mem P X (io', d')"
    using ok f usb_req_objs_frame [OF f] by (auto simp: usb_ok_def usb_mem_def b cd sd io_frame_def)
  moreover have "stream_ok s (io', d')" for s
    using ok r si by (simp add: usb_ok_def stream_ok_def sd)
  ultimately show ?thesis using ok n io_frame_mems [OF f] by (simp add: usb_ok_def)
qed

lemma ok_stream: "usb_ok P X st \<Longrightarrow> stream_ok s st"
  by (simp add: usb_ok_def)

lemma ok_notifs: "usb_ok P X (io, d) \<Longrightarrow> notifs_ok usb_notifications io"
  by (simp add: usb_ok_def)

lemma ok_tags: "usb_ok P X (io, d) \<Longrightarrow> side_tags (uh_Side d s)"
  by (simp add: usb_ok_def usb_mem_def)

lemma usb_call_log: "usb_call remote c io = (st, io') \<Longrightarrow> \<exists>x. io' = io \<lparr> io_log := io_log io @ [(c, x)] \<rparr>"
  by (auto simp: usb_call_def usb_SendIoCtrlSynchronously_def SendIoCtrlSynchronously_def split: prod.splits)

lemma usb_busy_log: "usb_call_busy remote c io = (st, io') \<Longrightarrow> \<exists>x. io' = io \<lparr> io_log := io_log io @ [(c, x)] \<rparr>"
  by (auto simp: usb_call_busy_def usb_SendIoCtrlSynchronously_def SendIoCtrlSynchronously_def split: prod.splits)

lemma usb_value_log: "usb_get_value remote c io = (st, v, io') \<Longrightarrow> \<exists>x. io' = io \<lparr> io_log := io_log io @ [(c, x)] \<rparr>"
  by (auto simp: usb_get_value_def usb_SendIoCtrlSynchronously_def SendIoCtrlSynchronously_def split: prod.splits)

lemma usb_ok_log [simp]: "usb_ok P X (io \<lparr> io_log := l \<rparr>, d) = usb_ok P X (io, d)"
  by (simp add: usb_ok_def usb_mem_def stream_ok_def)

section \<open>Streams\<close>

text \<open>A side whose index is found to be its own: the speaker, or a microphone with another index.\<close>

definition apart :: "usb_side \<Rightarrow> UsbHsDevice \<Rightarrow> bool" where
  "apart s d \<longleftrightarrow> side_of_index (us_EpIndex (uh_Side d s)) d = Some s"

lemma apart_iff: "apart s d = (s = UsbSpeaker \<or> us_EpIndex (uh_Side d UsbMic) \<noteq> us_EpIndex (uh_Side d UsbSpeaker))"
  by (cases s) (auto simp: apart_def side_of_index_def)

text \<open>What the operations of a running device leave alone.\<close>

definition usb_fixed :: "UsbHsDevice \<Rightarrow> eHsState \<times> (pool_tag \<times> string) option \<times>
    (usb_side \<Rightarrow> custom_pair option \<times> obj option \<times> obj option \<times> nat \<times> usb_block)" where
  "usb_fixed d = (uh_State d, uh_SymbolicLinkName d, \<lambda>s. (us_Miniports (uh_Side d s), us_UnknownTopology (uh_Side d s),
     us_UnknownWave (uh_Side d s), us_EpIndex (uh_Side d s), us_Descriptor (uh_Side d s)))"

lemma fixed_upd:
  "us_Miniports (f x) = us_Miniports x \<Longrightarrow> us_UnknownTopology (f x) = us_UnknownTopology x \<Longrightarrow> us_UnknownWave (f x) = us_UnknownWave x
     \<Longrightarrow> us_EpIndex (f x) = us_EpIndex x \<Longrightarrow> us_Descriptor (f x) = us_Descriptor x \<Longrightarrow> x = uh_Side d s
     \<Longrightarrow> usb_fixed (upd_side s f d) = usb_fixed d"
  by (auto simp: usb_fixed_def upd_side_def fun_eq_iff)

lemma fixed_core: "usb_core d' = usb_core d \<Longrightarrow> usb_fixed d' = usb_fixed d"
  using usb_coreD [of d' d] side_core_blocks [of "uh_Side d' _" "uh_Side d _"] by (simp add: usb_fixed_def)

lemma fixed_apart: "usb_fixed d' = usb_fixed d \<Longrightarrow> apart s d' = apart s d"
  by (simp add: usb_fixed_def apart_iff fun_eq_iff)

text \<open>The request of a side is sent for the first stream.\<close>

lemma enable_stream_eq:
  assumes r: "io_reqs io (UsbStreamReq s) = Some r" "\<not> Pending r"
  shows "\<exists>st r'. usb_enable_stream s e (io, d) = Some (st, io \<lparr> io_reqs := (io_reqs io)(UsbStreamReq s \<mapsto> r') \<rparr>,
       upd_side s (\<lambda>x. x \<lparr> us_StreamStatusEvent := \<not> NT_SUCCESS st \<rparr>) d)
     \<and> MemIn r' = MemIn r \<and> MemOut r' = MemOut r \<and> Pending r' = NT_SUCCESS st
     \<and> up_EpIndex (Buffer r') = us_EpIndex (uh_Side d s)"
  using r by (auto simp: usb_enable_stream_def enable_notification_def SendIoCtrlAsynchronously_def)

lemma frame_req:
  "io_reqs io q = Some r \<Longrightarrow> MemIn r' = MemIn r \<Longrightarrow> MemOut r' = MemOut r \<Longrightarrow> io_frame io (io \<lparr> io_log := l, io_reqs := (io_reqs io)(q \<mapsto> r') \<rparr>)"
  by (simp add: io_frame_def)

lemma notifs_stream:
  assumes "notifs_ok usb_notifications io"
  shows "notifs_ok usb_notifications (io \<lparr> io_log := l, io_reqs := (io_reqs io)(UsbStreamReq s := x) \<rparr>)"
  using notifs_ok_other [of usb_notifications "io \<lparr> io_log := l \<rparr>" "UsbStreamReq s" x] assms by simp

lemma usb_open_ok:
  assumes ok: "usb_ok P X (io, d)" and a: "apart s d"
  shows "\<exists>st io' d'. usb_open s remote e (io, d) = Some (st, io', d') \<and> usb_ok P X (io', d') \<and> usb_fixed d' = usb_fixed d
    \<and> us_nStreamsOpen (uh_Side d' s) = us_nStreamsOpen (uh_Side d s) + (if NT_SUCCESS st then 1 else 0)"
proof (cases "us_nStreamsOpen (uh_Side d s) = 0")
  case False
  let ?f = "\<lambda>x. x \<lparr> us_nStreamsOpen := us_nStreamsOpen x + 1 \<rparr>"
  have "usb_ok P X (io, upd_side s ?f d)"
    by (rule ok_side [OF ok]) (use ok ok_tags [OF ok, of s] in \<open>auto simp: usb_ok_def side_blocks_def side_tags_def stream_ok_def index_upd\<close>)
  moreover have "usb_fixed (upd_side s ?f d) = usb_fixed d" by (rule fixed_upd) simp_all
  ultimately show ?thesis using False by (simp add: usb_open_def Let_def)
next
  case n0: True
  let ?ep = "us_EpIndex (uh_Side d s)"
  let ?c = "IOCTL_SBAUD_STREAM_OPEN ?ep (us_SelectedFormat (uh_Side d s))"
  obtain st io1 where o: "SetUsbHsStreamOpen remote ?ep (us_SelectedFormat (uh_Side d s)) io = (st, io1)" by fastforce
  obtain x where x: "io1 = io \<lparr> io_log := io_log io @ [(?c, x)] \<rparr>"
    using usb_busy_log o unfolding SetUsbHsStreamOpen_def by blast
  obtain r where r: "io_reqs io (UsbStreamReq s) = Some r" "\<not> Pending r" "us_StreamStatusEvent (uh_Side d s)"
    using ok_stream [OF ok, of s] n0 by (auto simp: stream_ok_def)
  have nt: "notifs_ok usb_notifications io" using ok by (simp add: usb_ok_def)
  have s0: "0 \<le> us_nStreamsStart (uh_Side d s)"
      "us_nStreamsStart (uh_Side d s) = 0 \<longrightarrow> us_TransportResources (uh_Side d s) = no_resources"
    using ok by (simp_all add: usb_ok_def stream_ok_def)
  have tg: "side_tags (uh_Side d s)" by (rule ok_tags [OF ok])
  show ?thesis
  proof (cases "NT_SUCCESS st")
    case False
    let ?f = "\<lambda>x. x \<lparr> us_nStreamsOpen := us_nStreamsOpen x + 1 - 1, us_StreamStatus := STATUS_INVALID_DEVICE_STATE \<rparr>"
    have "usb_ok P X (io1, upd_side s ?f d)"
      by (rule ok_side [OF ok]) (use nt r s0 tg in \<open>auto simp: x side_blocks_def side_tags_def stream_ok_def n0\<close>)
    moreover have "usb_fixed (upd_side s ?f d) = usb_fixed d" by (rule fixed_upd) simp_all
    ultimately show ?thesis using False o n0 by (simp add: usb_open_def Let_def)
  next
    case opened: True
    let ?d1 = "upd_side s (\<lambda>x. x \<lparr> us_nStreamsOpen := us_nStreamsOpen x + 1, us_StreamStatus := STATUS_SUCCESS \<rparr>) d"
    have r1: "io_reqs io1 (UsbStreamReq s) = Some r" using r x by simp
    obtain st2 r' where en: "usb_enable_stream s e (io1, ?d1) = Some (st2, io1 \<lparr> io_reqs := (io_reqs io1)(UsbStreamReq s \<mapsto> r') \<rparr>,
         upd_side s (\<lambda>x. x \<lparr> us_StreamStatusEvent := \<not> NT_SUCCESS st2 \<rparr>) ?d1)"
       "MemIn r' = MemIn r" "MemOut r' = MemOut r" "Pending r' = NT_SUCCESS st2" "up_EpIndex (Buffer r') = ?ep"
      using enable_stream_eq [OF r1 r(2), of e ?d1] by auto
    let ?io2 = "io1 \<lparr> io_reqs := (io_reqs io1)(UsbStreamReq s \<mapsto> r') \<rparr>"
    show ?thesis
    proof (cases "NT_SUCCESS st2")
      case True
      let ?f = "\<lambda>x. x \<lparr> us_nStreamsOpen := us_nStreamsOpen x + 1, us_StreamStatus := STATUS_SUCCESS, us_StreamStatusEvent := False \<rparr>"
      have "usb_ok P X (?io2, upd_side s ?f d)"
        by (rule ok_side [OF ok])
          (use r s0 tg en a True n0 nt in \<open>auto simp: x side_blocks_def side_tags_def stream_ok_def apart_def index_upd io_frame_def
            intro!: notifs_stream\<close>)
      moreover have "usb_fixed (upd_side s ?f d) = usb_fixed d" by (rule fixed_upd) simp_all
      ultimately show ?thesis using True o opened en(1) n0 by (simp add: usb_open_def Let_def)
    next
      case False
      obtain st3 io3 where c: "SetUsbHsStreamClose remote ?ep ?io2 = (st3, io3)" by fastforce
      obtain y where y: "io3 = ?io2 \<lparr> io_log := io_log ?io2 @ [(IOCTL_SBAUD_STREAM_CLOSE ?ep, y)] \<rparr>"
        using usb_call_log c unfolding SetUsbHsStreamClose_def by blast
      let ?f = "\<lambda>x. x \<lparr> us_nStreamsOpen := us_nStreamsOpen x + 1 - 1, us_StreamStatusEvent := True,
          us_StreamStatus := STATUS_INVALID_DEVICE_STATE \<rparr>"
      have "usb_ok P X (?io2, upd_side s ?f d)"
        by (rule ok_side [OF ok])
          (use r s0 tg en False n0 nt in \<open>auto simp: x side_blocks_def side_tags_def stream_ok_def io_frame_def
            intro!: notifs_stream\<close>)
      then have "usb_ok P X (io3, upd_side s ?f d)" unfolding y by (simp only: usb_ok_log)
      moreover have "usb_fixed (upd_side s ?f d) = usb_fixed d" by (rule fixed_upd) simp_all
      ultimately show ?thesis using False o opened en(1) n0 c by (simp add: usb_open_def Let_def)
    qed
  qed
qed

text \<open>The request of a side is completed with its own index, by the headset or by a cancellation.\<close>

lemma usb_completion_eq:
  assumes r: "io_reqs io (UsbStreamReq s) = Some r" "Pending r" and b: "side_of_index (up_EpIndex b) d = Some s"
  shows "EvtUsbHsDeviceStreamStatusCompletion st b (UsbStreamReq s) (io, d) = Some
     (io \<lparr> io_reqs := (io_reqs io)(UsbStreamReq s \<mapsto> r \<lparr> Pending := False, IoStatus := st, Buffer := b \<rparr>) \<rparr>,
      upd_side s (\<lambda>x. x \<lparr> us_StreamStatus := (if NT_SUCCESS st then up_Value b else STATUS_INVALID_DEVICE_STATE),
        us_StreamStatusEvent := True \<rparr>) d)"
  using r b by (simp add: EvtUsbHsDeviceStreamStatusCompletion_def)

lemma usb_completion_ok:
  assumes ok: "usb_ok P X (io, d)" and r: "io_reqs io (UsbStreamReq s) = Some r" "Pending r"
    and b: "up_EpIndex b = us_EpIndex (uh_Side d s)"
  shows "\<exists>io' d'. EvtUsbHsDeviceStreamStatusCompletion st b (UsbStreamReq s) (io, d) = Some (io', d') \<and> usb_ok P X (io', d')
    \<and> usb_fixed d' = usb_fixed d \<and> \<not> pending_in io' (UsbStreamReq s) \<and> io_frame io io'
    \<and> (\<forall>q. q \<noteq> UsbStreamReq s \<longrightarrow> io_reqs io' q = io_reqs io q) \<and> io_queued io' = io_queued io \<and> io_busy io' = io_busy io"
proof -
  have so: "stream_ok s (io, d)" by (rule ok_stream [OF ok])
  have i: "side_of_index (up_EpIndex b) d = Some s" using so r b by (simp add: stream_ok_def)
  let ?r = "r \<lparr> Pending := False, IoStatus := st, Buffer := b \<rparr>"
  let ?io = "io \<lparr> io_reqs := (io_reqs io)(UsbStreamReq s \<mapsto> ?r) \<rparr>"
  let ?f = "\<lambda>x. x \<lparr> us_StreamStatus := (if NT_SUCCESS st then up_Value b else STATUS_INVALID_DEVICE_STATE),
        us_StreamStatusEvent := True \<rparr>"
  have fr: "io_frame io ?io" using r by (simp add: io_frame_def)
  have "notifs_ok usb_notifications ?io" using ok by (simp add: usb_ok_def notifs_ok_other)
  then have "usb_ok P X (?io, upd_side s ?f d)"
    by (rule ok_side [OF ok fr]) (use ok_tags [OF ok, of s] so in \<open>auto simp: side_blocks_def side_tags_def stream_ok_def\<close>)
  moreover have "usb_fixed (upd_side s ?f d) = usb_fixed d" by (rule fixed_upd) simp_all
  ultimately show ?thesis using usb_completion_eq [OF r i, of st] fr by (simp add: pending_in_def)
qed

lemma stop_stream_eq:
  assumes r: "io_reqs io (UsbStreamReq s) = Some r" "us_StreamStatusEvent (uh_Side d s) = (\<not> Pending r)"
    and i: "Pending r \<longrightarrow> side_of_index (up_EpIndex (Buffer r)) d = Some s"
  shows "\<exists>v r'. usb_stop_stream s reuse (io, d) = Some (STATUS_SUCCESS, io \<lparr> io_reqs := (io_reqs io)(UsbStreamReq s \<mapsto> r') \<rparr>,
       upd_side s (\<lambda>x. x \<lparr> us_StreamStatus := v, us_StreamStatusEvent := True \<rparr>) d)
     \<and> MemIn r' = MemIn r \<and> MemOut r' = MemOut r \<and> \<not> Pending r'"
proof (cases "Pending r")
  case True
  then show ?thesis using usb_completion_eq [OF r(1) True, of "Buffer r" d STATUS_CANCELLED] i r
    by (auto simp: usb_stop_stream_def intro!: exI [of _ STATUS_INVALID_DEVICE_STATE])
next
  case False
  have "(io_reqs io)(UsbStreamReq s \<mapsto> r) = io_reqs io" using r by auto
  moreover have "upd_side s (\<lambda>x. x \<lparr> us_StreamStatus := us_StreamStatus (uh_Side d s), us_StreamStatusEvent := True \<rparr>) d = d"
  proof -
    have "(uh_Side d s) \<lparr> us_StreamStatusEvent := True \<rparr> = uh_Side d s" using r False by (cases "uh_Side d s") simp
    then show ?thesis by (simp add: upd_side_def)
  qed
  ultimately have "usb_stop_stream s reuse (io, d) = Some (STATUS_SUCCESS, io \<lparr> io_reqs := (io_reqs io)(UsbStreamReq s \<mapsto> r) \<rparr>,
       upd_side s (\<lambda>x. x \<lparr> us_StreamStatus := us_StreamStatus (uh_Side d s), us_StreamStatusEvent := True \<rparr>) d)"
    using r False by (simp add: usb_stop_stream_def)
  then show ?thesis using False by blast
qed

lemma usb_close_ok:
  assumes ok: "usb_ok P X (io, d)" and n: "0 < us_nStreamsOpen (uh_Side d s)"
  shows "\<exists>st io' d'. usb_close s remote reuse (io, d) = Some (st, io', d') \<and> usb_ok P X (io', d') \<and> usb_fixed d' = usb_fixed d
    \<and> us_nStreamsOpen (uh_Side d' s) = us_nStreamsOpen (uh_Side d s) - 1"
proof (cases "us_nStreamsOpen (uh_Side d s) = 1")
  case False
  let ?f = "\<lambda>x. x \<lparr> us_nStreamsOpen := us_nStreamsOpen x - 1 \<rparr>"
  have "usb_ok P X (io, upd_side s ?f d)"
    by (rule ok_side [OF ok])
      (use ok ok_stream [OF ok, of s] ok_tags [OF ok, of s] False n in \<open>auto simp: usb_ok_def side_blocks_def side_tags_def stream_ok_def index_upd\<close>)
  moreover have "usb_fixed (upd_side s ?f d) = usb_fixed d" by (rule fixed_upd) simp_all
  ultimately show ?thesis using False by (simp add: usb_close_def Let_def)
next
  case True
  obtain st io1 where c: "SetUsbHsStreamClose remote (us_EpIndex (uh_Side d s)) io = (st, io1)" by fastforce
  obtain y where y: "io1 = io \<lparr> io_log := io_log io @ [(IOCTL_SBAUD_STREAM_CLOSE (us_EpIndex (uh_Side d s)), y)] \<rparr>"
    using usb_call_log c unfolding SetUsbHsStreamClose_def by blast
  have so: "stream_ok s (io, d)" by (rule ok_stream [OF ok])
  then obtain r where r: "io_reqs io (UsbStreamReq s) = Some r" "us_StreamStatusEvent (uh_Side d s) = (\<not> Pending r)"
      "Pending r \<longrightarrow> side_of_index (up_EpIndex (Buffer r)) d = Some s" by (auto simp: stream_ok_def)
  let ?d1 = "upd_side s (\<lambda>x. x \<lparr> us_nStreamsOpen := us_nStreamsOpen x - 1 \<rparr>) d"
  have "io_reqs io1 (UsbStreamReq s) = Some r" "us_StreamStatusEvent (uh_Side ?d1 s) = (\<not> Pending r)"
      "Pending r \<longrightarrow> side_of_index (up_EpIndex (Buffer r)) ?d1 = Some s" using r y by (simp_all add: index_upd)
  from stop_stream_eq [OF this, of reuse] obtain v r' where e: "usb_stop_stream s reuse (io1, ?d1) = Some (STATUS_SUCCESS,
       io1 \<lparr> io_reqs := (io_reqs io1)(UsbStreamReq s \<mapsto> r') \<rparr>,
       upd_side s (\<lambda>x. x \<lparr> us_StreamStatus := v, us_StreamStatusEvent := True \<rparr>) ?d1)"
     "MemIn r' = MemIn r" "MemOut r' = MemOut r" "\<not> Pending r'" by blast
  let ?io2 = "io1 \<lparr> io_reqs := (io_reqs io1)(UsbStreamReq s \<mapsto> r') \<rparr>"
  let ?f = "\<lambda>x. x \<lparr> us_nStreamsOpen := us_nStreamsOpen x - 1, us_StreamStatusEvent := True,
      us_StreamStatus := STATUS_INVALID_DEVICE_STATE \<rparr>"
  have fr: "io_frame io ?io2" using r(1) e y by (simp add: io_frame_def)
  have "notifs_ok usb_notifications ?io2" using ok y by (simp add: usb_ok_def notifs_stream)
  then have "usb_ok P X (?io2, upd_side s ?f d)"
    by (rule ok_side [OF ok fr])
      (use so e True y ok_tags [OF ok, of s] in \<open>auto simp: side_blocks_def side_tags_def stream_ok_def\<close>)
  moreover have "usb_fixed (upd_side s ?f d) = usb_fixed d" by (rule fixed_upd) simp_all
  ultimately show ?thesis using True c e(1) by (simp add: usb_close_def Let_def)
qed

section \<open>Transport resources\<close>

definition siop_blocks :: "(siop_type \<times> pool_tag) list \<Rightarrow> transport_resources \<Rightarrow> pool_tag multiset" where
  "siop_blocks ks t = sum_list (map (\<lambda>(k, tag). block_of (t k)) ks)"

abbreviation siop_tags :: "(siop_type \<times> pool_tag) list \<Rightarrow> transport_resources \<Rightarrow> bool" where
  "siop_tags ks t \<equiv> list_all (\<lambda>(k, tag). tagged tag (t k)) ks"

lemma siop_blocks_simps [simp]:
  "siop_blocks [] t = {#}" "siop_blocks ((k, tag) # ks) t = block_of (t k) + siop_blocks ks t"
  "siop_blocks (ks @ ls) t = siop_blocks ks t + siop_blocks ls t"
  by (simp_all add: siop_blocks_def)

lemma siop_same:
  "(\<And>k. k \<in> fst ` set ks \<Longrightarrow> t' k = t k) \<Longrightarrow> siop_blocks ks t' = siop_blocks ks t \<and> siop_tags ks t' = siop_tags ks t"
  by (induction ks) auto

lemma free_siops_eq:
  "io_pool io = siop_blocks ks t + M \<Longrightarrow> siop_tags ks t \<Longrightarrow> free_siops ks t io = Some (io \<lparr> io_pool := M \<rparr>)"
proof (induction ks t io rule: free_siops.induct)
  case (2 k tag ks t io)
  have "io_pool io = block_of (t k) + (siop_blocks ks t + M)" using 2 by (simp add: ac_simps)
  then show ?case using 2 free_tagged_eq [of io "t k" "siop_blocks ks t + M" tag] by simp
next
  case (1 t io)
  then show ?case by (cases io) simp
qed

lemma get_siops_eq:
  assumes "distinct (map fst ks)" and "\<forall>k \<in> fst ` set ks. t k = None"
  shows "\<exists>st t' l. get_siops remote e ep ks t io = Some (st, t', io \<lparr> io_log := l, io_pool := siop_blocks ks t' + io_pool io \<rparr>)
    \<and> siop_tags ks t' \<and> (\<forall>k. k \<notin> fst ` set ks \<longrightarrow> t' k = t k)"
  using assms
proof (induction ks arbitrary: t io)
  case Nil
  have "io = io \<lparr> io_log := io_log io, io_pool := io_pool io \<rparr>" by simp
  then show ?case by (auto simp del: sideband_io.surjective intro!: exI [of _ "io_log io"])
next
  case (Cons kt ks)
  obtain k tag where kt: "kt = (k, tag)" by fastforce
  obtain st p l where g: "GetSiop remote (e k) SIDEBANDAUDIO_PARAMS_SET_USBAUDIO k ep tag io
      = Some (st, p, io \<lparr> io_log := l, io_pool := block_of p + io_pool io \<rparr>)" "tagged tag p"
    unfolding GetSiop_def tagged_def using query_block_memory by metis
  have n: "\<forall>j \<in> fst ` set ks. (t(k := p)) j = None" "k \<notin> fst ` set ks" using Cons.prems by (auto simp: kt)
  have keep: "t' k = p" if "\<forall>j. j \<notin> fst ` set ks \<longrightarrow> t' j = (t(k := p)) j" for t' :: transport_resources using that n(2) by simp
  show ?case
  proof (cases "NT_SUCCESS st")
    case True
    have dk: "distinct (map fst ks)" using Cons.prems by simp
    obtain st' t' l' where h: "get_siops remote e ep ks (t(k := p))
        (io \<lparr> io_log := l, io_pool := block_of p + io_pool io \<rparr>)
        = Some (st', t', io \<lparr> io_log := l', io_pool := siop_blocks ks t' + (block_of p + io_pool io) \<rparr>)" "siop_tags ks t'"
      "\<forall>j. j \<notin> fst ` set ks \<longrightarrow> t' j = (t(k := p)) j"
      using Cons.IH [OF dk n(1), of "io \<lparr> io_log := l, io_pool := block_of p + io_pool io \<rparr>"] by (auto simp del: fun_upd_apply)
    show ?thesis using True g h keep [OF h(3)] by (auto simp: kt ac_simps)
  next
    case False
    have "siop_blocks ks (t(k := p)) = {#}" "siop_tags ks (t(k := p))"
      using n by (induction ks) auto
    then show ?thesis using False g by (auto simp: kt)
  qed
qed

lemma siops_eq: "transport_blocks t = siop_blocks (base_siops @ feedback_siops) t"
    "transport_tags t = siop_tags (base_siops @ feedback_siops) t"
  by (simp_all add: transport_blocks_def siop_blocks_def transport_tags_def)

lemma siops_distinct: "distinct (map fst base_siops)" "distinct (map fst feedback_siops)"
    "k \<in> fst ` set feedback_siops \<Longrightarrow> k \<notin> fst ` set base_siops"
  by (auto simp: base_siops_def feedback_siops_def)

lemma no_siops: "(\<And>k. k \<in> fst ` set ks \<Longrightarrow> t k = None) \<Longrightarrow> siop_blocks ks t = {#} \<and> siop_tags ks t"
  by (induction ks) auto

lemma FreeTransport_eq:
  assumes "io_pool io = transport_blocks t + M" and "transport_tags t"
  shows "FreeTransportResources t io = Some (no_resources, io \<lparr> io_pool := M \<rparr>)"
  using free_siops_eq [of io "base_siops @ feedback_siops" t M] assms by (simp add: FreeTransportResources_def siops_eq)

lemma GetTransport_eq:
  assumes "desc \<noteq> None"
  shows "\<exists>st t l. GetTransportResources remote e ep desc no_resources io = Some (st, t, io \<lparr> io_log := l, io_pool := transport_blocks t + io_pool io \<rparr>)
     \<and> transport_tags t \<and> (\<not> NT_SUCCESS st \<longrightarrow> t = no_resources)"
proof -
  obtain x where x: "desc = Some x" using assms by blast
  obtain st1 t1 l1 where 1: "get_siops remote e ep base_siops no_resources io
        = Some (st1, t1, io \<lparr> io_log := l1, io_pool := siop_blocks base_siops t1 + io_pool io \<rparr>)"
      "siop_tags base_siops t1" "\<forall>k. k \<notin> fst ` set base_siops \<longrightarrow> t1 k = None"
    using get_siops_eq [OF siops_distinct(1), of no_resources remote e ep io] by (auto simp: no_resources_def)
  have n1: "\<forall>k \<in> fst ` set feedback_siops. t1 k = None" using 1(3) siops_distinct(3) by simp
  let ?io1 = "io \<lparr> io_log := l1, io_pool := siop_blocks base_siops t1 + io_pool io \<rparr>"
  obtain st2 t2 l2 where 2: "(if NT_SUCCESS st1 then if ed_Feedback x \<noteq> 0 then get_siops remote e ep feedback_siops t1 ?io1
          else Some (st1, t1, ?io1) else Some (st1, t1, ?io1))
        = Some (st2, t2, io \<lparr> io_log := l2, io_pool := transport_blocks t2 + io_pool io \<rparr>)" "transport_tags t2"
  proof (cases "NT_SUCCESS st1 \<and> ed_Feedback x \<noteq> 0")
    case True
    obtain st2 t2 l2 where g: "get_siops remote e ep feedback_siops t1 ?io1
          = Some (st2, t2, ?io1 \<lparr> io_log := l2, io_pool := siop_blocks feedback_siops t2 + io_pool ?io1 \<rparr>)"
        "siop_tags feedback_siops t2" "\<forall>k. k \<notin> fst ` set feedback_siops \<longrightarrow> t2 k = t1 k"
      using get_siops_eq [OF siops_distinct(2) n1, of remote e ep ?io1] by metis
    have "k \<in> fst ` set base_siops \<Longrightarrow> t2 k = t1 k" for k using g(3) siops_distinct(3) [of k] by metis
    from siop_same [OF this] have "siop_blocks base_siops t2 = siop_blocks base_siops t1" "siop_tags base_siops t2" using 1(2) by auto
    then show ?thesis using that [of st2 t2 l2] True g by (simp add: siops_eq ac_simps)
  next
    case False
    then show ?thesis using that [of st1 t1 l1] no_siops [of feedback_siops t1] n1 1(2) by (auto simp: siops_eq)
  qed
  let ?io2 = "io \<lparr> io_log := l2, io_pool := transport_blocks t2 + io_pool io \<rparr>"
  have e: "GetTransportResources remote e ep desc no_resources io = (if NT_SUCCESS st2 then Some (st2, t2, ?io2)
       else do { (t3, io3) \<leftarrow> FreeTransportResources t2 ?io2; Some (st2, t3, io3) })"
    using 1(1) 2(1) by (cases "NT_SUCCESS st1"; cases "ed_Feedback x = 0") (simp_all add: GetTransportResources_def x)
  show ?thesis
  proof (cases "NT_SUCCESS st2")
    case False
    have "FreeTransportResources t2 ?io2 = Some (no_resources, ?io2 \<lparr> io_pool := io_pool io \<rparr>)"
      by (rule FreeTransport_eq) (simp_all add: 2)
    then show ?thesis using False e by auto
  qed (use e 2 in auto)
qed

lemma SetTransport_log:
  assumes "desc \<noteq> None"
  shows "\<exists>st l. SetTransportResources remote desc ep io = Some (st, io \<lparr> io_log := l \<rparr>)"
proof -
  obtain st io1 where c: "usb_call remote (IOCTL_SBAUD_SET_SIOP SIDEBANDAUDIO_PARAMS_SET_USBAUDIO
      SIOP_TYPE_USBAUD_EP_OFFLOAD_RESOURCE_ID ep (ulong (ep + 7))) io = (st, io1)" by fastforce
  obtain st' io2 where c': "usb_call remote (IOCTL_SBAUD_SET_SIOP SIDEBANDAUDIO_PARAMS_SET_USBAUDIO
      SIOP_TYPE_USBAUD_FB_EP_OFFLOAD_RESOURCE_ID ep (ulong (ep + 10))) io1 = (st', io2)" by fastforce
  show ?thesis using assms usb_call_log [OF c] usb_call_log [OF c'] c c' by (auto simp: SetTransportResources_def)
qed

lemma usb_mem_log [simp]: "usb_mem P X (io \<lparr> io_log := l \<rparr>, d) = usb_mem P X (io, d)"
  by (simp add: usb_mem_def)

text \<open>A descriptor that Start has stored can be read: Start has read its direction.\<close>

lemma descriptor_None: "usb_ok P X (io, d) \<Longrightarrow> (side_descriptor s d = None) = (us_Descriptor (uh_Side d s) = None)"
  using ok_tags [of P X io d s] by (auto simp: side_descriptor_def side_tags_def)

text \<open>The resources of a side after a start or suspend that went to the headset.\<close>

lemma start_mem:
  assumes ok: "usb_ok P X (io, d)" and a: "us_TransportResources (uh_Side d s) = no_resources" and t: "transport_tags t"
  shows "usb_ok P X (io \<lparr> io_log := l, io_pool := transport_blocks t + io_pool io \<rparr>,
      upd_side s (\<lambda>x. x \<lparr> us_nStreamsStart := 1, us_TransportResources := t \<rparr>) d)"
proof -
  let ?f = "\<lambda>x. x \<lparr> us_nStreamsStart := 1, us_TransportResources := t \<rparr>"
  let ?io = "io \<lparr> io_log := l, io_pool := transport_blocks t + io_pool io \<rparr>"
  have m: "usb_mem P X (io, d)" using ok by (simp add: usb_ok_def)
  have "usb_mem P X (?io, upd_side s ?f d)"
    by (rule mem_side [OF m, of s "{#}" "side_blocks (uh_Side d s)" ?f "transport_blocks t" "io_pool io"])
      (use ok_tags [OF ok, of s] a t in \<open>simp_all add: side_blocks_def side_tags_def ac_simps\<close>)
  then show ?thesis
    by (rule ok_side_mem [OF ok]) (use ok_notifs [OF ok] ok_stream [OF ok, of s] in \<open>auto simp: stream_ok_def index_upd\<close>)
qed

lemma usb_start_ok:
  assumes ok: "usb_ok P X (io, d)" and ds: "us_Descriptor (uh_Side d s) \<noteq> None"
  shows "\<exists>st io' d'. usb_start s remote e (io, d) = Some (st, io', d') \<and> usb_ok P X (io', d') \<and> usb_fixed d' = usb_fixed d
    \<and> us_nStreamsStart (uh_Side d' s) = us_nStreamsStart (uh_Side d s) + (if NT_SUCCESS st then 1 else 0)"
proof (cases "us_nStreamsStart (uh_Side d s) = 0")
  case False
  let ?f = "\<lambda>x. x \<lparr> us_nStreamsStart := us_nStreamsStart x + 1 \<rparr>"
  have "usb_ok P X (io, upd_side s ?f d)"
    by (rule ok_side [OF ok])
      (use ok_notifs [OF ok] ok_tags [OF ok, of s] ok_stream [OF ok, of s] in \<open>auto simp: side_blocks_def side_tags_def stream_ok_def index_upd\<close>)
  moreover have "usb_fixed (upd_side s ?f d) = usb_fixed d" by (rule fixed_upd) simp_all
  ultimately show ?thesis using False by (simp add: usb_start_def Let_def)
next
  case n0: True
  let ?ep = "us_EpIndex (uh_Side d s)" and ?desc = "side_descriptor s d"
  have none: "us_TransportResources (uh_Side d s) = no_resources" using ok_stream [OF ok, of s] n0 by (simp add: stream_ok_def)
  have nd: "?desc \<noteq> None" using ds by (simp add: descriptor_None [OF ok])
  obtain st1 l1 where 1: "SetTransportResources remote ?desc ?ep io = Some (st1, io \<lparr> io_log := l1 \<rparr>)"
    using SetTransport_log [OF nd] by blast
  obtain st2 l2 where 2: "(if NT_SUCCESS st1 then SetUsbHsStreamStart remote ?ep (io \<lparr> io_log := l1 \<rparr>) else (st1, io \<lparr> io_log := l1 \<rparr>))
      = (st2, io \<lparr> io_log := l2 \<rparr>)"
  proof (cases "SetUsbHsStreamStart remote ?ep (io \<lparr> io_log := l1 \<rparr>)")
    case (Pair a b)
    then obtain y where "b = io \<lparr> io_log := y \<rparr>"
      using usb_busy_log [of remote "IOCTL_SBAUD_STREAM_START ?ep" "io \<lparr> io_log := l1 \<rparr>" a b] by (auto simp: SetUsbHsStreamStart_def)
    then show ?thesis using that [of a y] that [of st1 l1] Pair by (cases "NT_SUCCESS st1") auto
  qed
  obtain st3 t l3 where 3: "(if NT_SUCCESS st2 then GetTransportResources remote e ?ep ?desc no_resources (io \<lparr> io_log := l2 \<rparr>)
        else Some (st2, no_resources, io \<lparr> io_log := l2 \<rparr>))
      = Some (st3, t, io \<lparr> io_log := l3, io_pool := transport_blocks t + io_pool io \<rparr>)" "transport_tags t"
      "\<not> NT_SUCCESS st3 \<longrightarrow> t = no_resources"
  proof (cases "NT_SUCCESS st2")
    case True
    then show ?thesis using that GetTransport_eq [OF nd, of remote e ?ep "io \<lparr> io_log := l2 \<rparr>"] by auto
  next
    case False
    then show ?thesis using that [of st2 no_resources l2] by (cases io) simp
  qed
  let ?io3 = "io \<lparr> io_log := l3, io_pool := transport_blocks t + io_pool io \<rparr>"
  let ?d2 = "upd_side s (\<lambda>x. x \<lparr> us_nStreamsStart := us_nStreamsStart x + 1, us_TransportResources := t \<rparr>) d"
  have fx: "usb_fixed (upd_side s (\<lambda>x. x \<lparr> us_nStreamsStart := n, us_TransportResources := t \<rparr>) d) = usb_fixed d" for n
    by (rule fixed_upd) simp_all
  have eq: "usb_start s remote e (io, d) = (if NT_SUCCESS st3 then Some (st3, ?io3, ?d2)
       else Some (st3, if NT_SUCCESS st2 then snd (SetUsbHsStreamSuspend remote ?ep ?io3) else ?io3,
                  upd_side s (\<lambda>x. x \<lparr> us_nStreamsStart := us_nStreamsStart x + 1 - 1, us_TransportResources := t \<rparr>) d))"
    using 1 2 3(1) n0 none by (cases "NT_SUCCESS st2") (simp_all add: usb_start_def Let_def)
  show ?thesis
  proof (cases "NT_SUCCESS st3")
    case True
    have "?d2 = upd_side s (\<lambda>x. x \<lparr> us_nStreamsStart := 1, us_TransportResources := t \<rparr>) d" using n0 by (simp add: upd_side_def)
    then show ?thesis using True eq n0 start_mem [OF ok none 3(2), of l3] fx [of 1] by simp
  next
    case False
    let ?io4 = "if NT_SUCCESS st2 then snd (SetUsbHsStreamSuspend remote ?ep ?io3) else ?io3"
    obtain l4 where l4: "?io4 = io \<lparr> io_log := l4 \<rparr>"
    proof (cases "SetUsbHsStreamSuspend remote ?ep ?io3")
      case (Pair a b)
      then obtain y where "b = ?io3 \<lparr> io_log := y \<rparr>"
        using usb_call_log [of remote "IOCTL_SBAUD_STREAM_SUSPEND ?ep" ?io3 a b] by (auto simp: SetUsbHsStreamSuspend_def)
      then show ?thesis using that [of y] that [of l3] Pair 3(3) False by (cases "NT_SUCCESS st2"; cases io) auto
    qed
    let ?f = "\<lambda>x. x \<lparr> us_nStreamsStart := us_nStreamsStart x + 1 - 1, us_TransportResources := t \<rparr>"
    have "usb_ok P X (io \<lparr> io_log := l4 \<rparr>, upd_side s ?f d)"
      by (rule ok_side [OF ok])
        (use ok_notifs [OF ok] none False 3(3) n0 ok_tags [OF ok, of s] ok_stream [OF ok, of s] in
          \<open>auto simp: side_blocks_def side_tags_def stream_ok_def index_upd\<close>)
    moreover have "usb_fixed (upd_side s ?f d) = usb_fixed d" by (rule fixed_upd) simp_all
    ultimately show ?thesis using False eq l4 by simp
  qed
qed

lemma usb_suspend_ok:
  assumes ok: "usb_ok P X (io, d)" and n: "0 < us_nStreamsStart (uh_Side d s)"
  shows "\<exists>st io' d'. usb_suspend s remote (io, d) = Some (st, io', d') \<and> usb_ok P X (io', d') \<and> usb_fixed d' = usb_fixed d
    \<and> us_nStreamsStart (uh_Side d' s) = us_nStreamsStart (uh_Side d s) - 1"
proof (cases "us_nStreamsStart (uh_Side d s) = 1")
  case False
  let ?f = "\<lambda>x. x \<lparr> us_nStreamsStart := us_nStreamsStart x - 1 \<rparr>"
  have "usb_ok P X (io, upd_side s ?f d)"
    by (rule ok_side [OF ok])
      (use ok_notifs [OF ok] ok_stream [OF ok, of s] ok_tags [OF ok, of s] False n in \<open>auto simp: side_blocks_def side_tags_def stream_ok_def index_upd\<close>)
  moreover have "usb_fixed (upd_side s ?f d) = usb_fixed d" by (rule fixed_upd) simp_all
  ultimately show ?thesis using False by (simp add: usb_suspend_def Let_def)
next
  case True
  obtain st io1 where c: "SetUsbHsStreamSuspend remote (us_EpIndex (uh_Side d s)) io = (st, io1)" by fastforce
  obtain l where y: "io1 = io \<lparr> io_log := l \<rparr>"
    using usb_call_log c unfolding SetUsbHsStreamSuspend_def by blast
  let ?t = "us_TransportResources (uh_Side d s)"
  let ?f = "\<lambda>x. x \<lparr> us_nStreamsStart := us_nStreamsStart x - 1, us_TransportResources := no_resources \<rparr>"
  let ?R = "side_blocks (?f (uh_Side d s))"
  have R: "side_blocks (uh_Side d s) = transport_blocks ?t + ?R" by (simp add: side_blocks_def ac_simps)
  have m: "usb_mem P X (io, d)" using ok by (simp add: usb_ok_def)
  obtain M where M: "io_pool io = transport_blocks ?t + M"
    using m R by (cases s) (auto simp: usb_mem_def usb_blocks_def ac_simps)
  have F: "FreeTransportResources ?t io1 = Some (no_resources, io1 \<lparr> io_pool := M \<rparr>)"
    by (rule FreeTransport_eq) (use y M ok_tags [OF ok, of s] in \<open>simp_all add: side_tags_def\<close>)
  have "usb_mem P X (io1 \<lparr> io_pool := M \<rparr>, upd_side s ?f d)"
    by (rule mem_side [OF m R, of ?f "{#}"]) (use y M ok_tags [OF ok, of s] in \<open>simp_all add: side_tags_def\<close>)
  then have "usb_ok P X (io1 \<lparr> io_pool := M \<rparr>, upd_side s ?f d)"
    by (rule ok_side_mem [OF ok]) (use ok_notifs [OF ok] ok_stream [OF ok, of s] y True in \<open>auto simp: stream_ok_def index_upd\<close>)
  moreover have "usb_fixed (upd_side s ?f d) = usb_fixed d" by (rule fixed_upd) simp_all
  ultimately show ?thesis using True c F by (simp add: usb_suspend_def Let_def)
qed

section \<open>Events of a running device\<close>

text \<open>
  What the miniports, the headset and the framework do to a running device. The wave miniport of a
  side calls only while the side has a wave filter, opens streams only when the index of the side is
  told apart from the other one's, and closes and suspends what it opened and started. The headset
  completes a request it has, a stream request with the index that was asked for.
\<close>

datatype usb_event =
    EvOpen send_env usb_side
  | EvClose NTSTATUS usb_side
  | EvStart "siop_type \<Rightarrow> query_env" usb_side
  | EvSuspend usb_side
  | EvComplete usb_req NTSTATUS NTSTATUS usb_params
  | EvBegin
  | EvRound "usb_req round_env"
  | EvVolume usb_device_type LONG
  | EvWriteVolume usb_device_type LONG LONG
  | EvMute usb_device_type LONG
  | EvWriteMute usb_device_type LONG LONG
  | EvHandler usb_callback usb_device_type "event_callback option"

definition has_wave :: "usb_side \<Rightarrow> UsbHsDevice \<Rightarrow> bool" where
  "has_wave s d \<longleftrightarrow> us_UnknownWave (uh_Side d s) \<noteq> None"

fun req_side :: "usb_req \<Rightarrow> usb_side" where
  "req_side (VolumeReq s) = s" | "req_side (MuteReq s) = s" | "req_side (UsbStreamReq s) = s"

fun usb_do :: "usb_remote \<Rightarrow> usb_event \<Rightarrow> usb \<Rightarrow> usb option" where
  "usb_do remote (EvOpen e s) (io, d) =
     (if has_wave s d \<and> apart s d then map_option snd (usb_open s remote e (io, d)) else Some (io, d))"
| "usb_do remote (EvClose reuse s) (io, d) =
     (if 0 < us_nStreamsOpen (uh_Side d s) then map_option snd (usb_close s remote reuse (io, d)) else Some (io, d))"
| "usb_do remote (EvStart e s) (io, d) =
     (if has_wave s d then map_option snd (usb_start s remote e (io, d)) else Some (io, d))"
| "usb_do remote (EvSuspend s) (io, d) =
     (if 0 < us_nStreamsStart (uh_Side d s) then map_option snd (usb_suspend s remote (io, d)) else Some (io, d))"
| "usb_do remote (EvComplete q add st b) (io, d) =
     (if \<not> pending_in io q then Some (io, d)
      else (case q of
          UsbStreamReq s \<Rightarrow>
            if up_EpIndex b = us_EpIndex (uh_Side d s) then EvtUsbHsDeviceStreamStatusCompletion st b q (io, d) else Some (io, d)
        | _ \<Rightarrow> map_option (\<lambda>io'. (io', d)) (usb_NotificationStatusCompletion add st b q io)))"
| "usb_do remote EvBegin (io, d) = Some (if io_queued io \<and> \<not> io_busy io then (begin_work io, d) else (io, d))"
| "usb_do remote (EvRound e) (io, d) = (if io_busy io then usb_work_round e (io, d) else Some (io, d))"
| "usb_do remote (EvVolume t ch) s = Some (snd (snd (usb_GetVolume remote t ch s)))"
| "usb_do remote (EvWriteVolume t ch v) s = Some (snd (usb_SetVolume remote t ch v s))"
| "usb_do remote (EvMute t ch) s = Some (snd (usb_GetMute remote t ch s))"
| "usb_do remote (EvWriteMute t ch v) s = Some (snd (usb_SetMute remote t ch v s))"
| "usb_do remote (EvHandler c t h) s = Some (fst s, usb_set_handler c t h (snd s))"

fun usb_run :: "usb_remote \<Rightarrow> usb_event list \<Rightarrow> usb \<Rightarrow> usb option" where
  "usb_run remote [] s = Some s"
| "usb_run remote (e # es) s = do { s1 \<leftarrow> usb_do remote e s; usb_run remote es s1 }"

text \<open>A side with a filter has its pair and its descriptor.\<close>

definition usb_wired :: "UsbHsDevice \<Rightarrow> bool" where
  "usb_wired d \<longleftrightarrow> (\<forall>s. us_UnknownTopology (uh_Side d s) \<noteq> None \<or> us_UnknownWave (uh_Side d s) \<noteq> None \<longrightarrow>
     us_Miniports (uh_Side d s) \<noteq> None \<and> us_Descriptor (uh_Side d s) \<noteq> None)"

lemma wired_fixed: "usb_fixed d' = usb_fixed d \<Longrightarrow> usb_wired d' = usb_wired d"
  by (simp add: usb_fixed_def usb_wired_def fun_eq_iff)

abbreviation (input) usb_kept :: "pool_tag multiset \<Rightarrow> wdf_object multiset \<Rightarrow> UsbHsDevice \<Rightarrow> usb \<Rightarrow> bool" where
  "usb_kept P X d s \<equiv> usb_ok P X s \<and> usb_fixed (snd s) = usb_fixed d"

lemma call_kept:
  assumes ok: "usb_ok P X (io, d)" and c: "usb_core d' = usb_core d"
  shows "usb_kept P X d (io \<lparr> io_log := l \<rparr>, d')"
  using usb_ok_core [OF ok _ _ c, of "io \<lparr> io_log := l \<rparr>"] ok_notifs [OF ok] fixed_core [OF c] by simp

lemma calls_ok:
  assumes ok: "usb_ok P X (io, d)"
  shows "usb_kept P X d (snd (usb_set_volume s remote ch v (io, d)))" "usb_kept P X d (snd (usb_set_mute s remote ch v (io, d)))"
    "usb_kept P X d (snd (snd (usb_get_volume s remote ch (io, d))))" "usb_kept P X d (snd (snd (usb_get_mute s remote ch (io, d))))"
    "usb_kept P X d (snd (snd (usb_GetVolume remote t ch (io, d))))" "usb_kept P X d (snd (usb_SetVolume remote t ch v (io, d)))"
    "usb_kept P X d (snd (usb_GetMute remote t ch (io, d)))" "usb_kept P X d (snd (usb_SetMute remote t ch v (io, d)))"
proof -

  show 1: "usb_kept P X d (snd (usb_set_volume s remote ch v (io, d)))" "usb_kept P X d (snd (usb_set_mute s remote ch v (io, d)))" for s
    by (auto simp: usb_set_volume_def usb_set_mute_def ok split: prod.split dest!: usb_call_log)
  show 2: "usb_kept P X d (snd (snd (usb_get_volume s remote ch (io, d))))" "usb_kept P X d (snd (snd (usb_get_mute s remote ch (io, d))))" for s
    by (auto simp: usb_get_volume_def usb_get_mute_def ok split: prod.split dest!: usb_value_log)
  show "usb_kept P X d (snd (snd (usb_GetVolume remote t ch (io, d))))"
  proof (cases "side_of t")
    case (Some s)
    have "usb_kept P X d (io \<lparr> io_log := l \<rparr>, upd_side s (\<lambda>x. x \<lparr> us_VolumeLevel := v \<rparr>) d)" for l v
      by (rule call_kept [OF ok]) simp
    then show ?thesis using Some
      by (auto simp: usb_GetVolume_def usb_get_volume_def ok split: prod.split dest!: usb_value_log)
  qed (use ok in \<open>simp add: usb_GetVolume_def\<close>)
  show "usb_kept P X d (snd (usb_SetVolume remote t ch v (io, d)))" "usb_kept P X d (snd (usb_SetMute remote t ch v (io, d)))"
    using 1 ok by (cases t; simp add: usb_SetVolume_def usb_SetMute_def usb_side_defs)+
  show "usb_kept P X d (snd (usb_GetMute remote t ch (io, d)))"
    using 2(2) [of UsbSpeaker] 2(1) [of UsbMic] ok by (cases t) (auto simp: usb_GetMute_def usb_side_defs split: prod.splits)
qed

lemma handler_ok:
  assumes ok: "usb_ok P X (io, d)"
  shows "usb_kept P X d (io, usb_set_handler c t h d)"
proof (cases "side_of t")
  case (Some s)
  let ?f = "\<lambda>x. x \<lparr> us_Callbacks := (us_Callbacks x)(c := h) \<rparr>"
  have "usb_ok P X (io, upd_side s ?f d)"
    by (rule ok_side [OF ok])
      (use ok_notifs [OF ok] ok_tags [OF ok, of s] ok_stream [OF ok, of s] in \<open>auto simp: side_blocks_def side_tags_def stream_ok_def index_upd\<close>)
  moreover have "usb_fixed (upd_side s ?f d) = usb_fixed d" by (rule fixed_upd) simp_all
  ultimately show ?thesis using Some by (simp add: usb_set_handler_def)
qed (use ok in \<open>simp add: usb_set_handler_def\<close>)

lemma notification_ok:
  assumes ok: "usb_ok P X (io, d)" and p: "pending_in io q" and q: "q \<in> set usb_notifications"
  shows "\<exists>io'. usb_NotificationStatusCompletion add st b q io = Some io' \<and> usb_ok P X (io', d)"
proof -
  obtain r where r: "io_reqs io q = Some r" "Pending r" using p by (auto simp: pending_in_def split: option.splits)
  from Completion_ok [OF ok_notifs [OF ok] q r, of add st b] obtain io' where
    c: "NotificationStatusCompletion add st b q io = Some io'" "notifs_ok usb_notifications io'" "io_frame io io'"
      "\<forall>p. p \<noteq> q \<longrightarrow> io_reqs io' p = io_reqs io p" by blast
  have "UsbStreamReq s \<noteq> q" for s using q stream_no_notification by metis
  then show ?thesis using usb_ok_core [OF ok c(3) c(2) refl] c(1,4) by (simp add: usb_NotificationStatusCompletion_def)
qed

lemma round_kept:
  assumes ok: "usb_ok P X (io, d)"
  shows "\<exists>s'. usb_work_round e (io, d) = Some s' \<and> usb_kept P X d s'"
proof -
  obtain io' d' where k: "notif_round usb_notification id e (io, d) = Some (io', d')" "notifs_ok usb_notifications io'"
      "io_frame io io'" "\<forall>q. q \<notin> set usb_notifications \<longrightarrow> io_reqs io' q = io_reqs io q" "usb_core d' = usb_core d"
    using usb_notif.round_ok [OF ok_notifs [OF ok], of id e d "usb_core d"] by blast
  then show ?thesis using usb_ok_core [OF ok k(3) k(2) k(5)] fixed_core [OF k(5)] by (simp add: usb_work_round_def)
qed

lemma usb_do_ok:
  assumes ok: "usb_ok P X (io, d)" and w: "usb_wired d"
  shows "\<exists>s'. usb_do remote e (io, d) = Some s' \<and> usb_kept P X d s'"
proof (cases e)
  case (EvOpen se s)
  then show ?thesis using usb_open_ok [OF ok, of s remote se] ok by auto
next
  case (EvClose reuse s)
  then show ?thesis using usb_close_ok [OF ok, of s remote reuse] ok by auto
next
  case (EvStart qe s)
  have "has_wave s d \<Longrightarrow> us_Descriptor (uh_Side d s) \<noteq> None" using w by (auto simp: has_wave_def usb_wired_def)
  then show ?thesis using EvStart usb_start_ok [OF ok, of s remote qe] ok by auto
next
  case (EvSuspend s)
  then show ?thesis using usb_suspend_ok [OF ok, of s remote] ok by auto
next
  case (EvComplete q add st b)
  show ?thesis
  proof (cases "pending_in io q")
    case p: True
    then obtain r where r: "io_reqs io q = Some r" "Pending r" by (auto simp: pending_in_def split: option.splits)
    show ?thesis
    proof (cases "q \<in> set usb_notifications")
      case True
      obtain io' where "usb_NotificationStatusCompletion add st b q io = Some io'" "usb_ok P X (io', d)"
        using notification_ok [OF ok p True] by blast
      then show ?thesis using p True EvComplete by (cases q) (simp_all add: usb_notifications_def)
    next
      case False
      then obtain s where s: "q = UsbStreamReq s" using notification_or_stream by blast
      then show ?thesis using usb_completion_ok [OF ok, of s r b st] r p EvComplete ok by auto
    qed
  qed (use EvComplete ok in simp)
next
  case EvBegin
  have "usb_ok P X (begin_work io, d)"
    using usb_ok_core [OF ok, of "begin_work io" d] ok_notifs [OF ok] by (simp add: begin_work_def io_frame_def notifs_ok_def)
  then show ?thesis using EvBegin ok by simp
next
  case (EvRound ne)
  then show ?thesis using round_kept [OF ok] ok by auto
qed (use calls_ok [OF ok] handler_ok [OF ok] in simp_all)

lemma usb_run_ok:
  "usb_ok P X (io, d) \<Longrightarrow> usb_wired d \<Longrightarrow> \<exists>s'. usb_run remote es (io, d) = Some s' \<and> usb_kept P X d s'"
proof (induction es arbitrary: io d)
  case (Cons e es)
  obtain io1 d1 where 1: "usb_do remote e (io, d) = Some (io1, d1)" "usb_ok P X (io1, d1)" "usb_fixed d1 = usb_fixed d"
    using usb_do_ok [OF Cons.prems, of remote e] by auto
  then show ?case using Cons.IH [OF 1(2)] wired_fixed [OF 1(3)] Cons.prems(2) by auto
qed simp

end
