(* ===== verification/UsbHsLife.thy ===== *)
theory UsbHsLife
  imports UsbHsSafety
begin

text \<open>
  The life of a USB headset: Init, Start and Stop establish and keep the invariant of theory
  UsbHsSafety on every path, and what the destructor does with what the device owns.
\<close>

section \<open>Init\<close>

definition powered :: "pdo multiset \<Rightarrow> power_state \<Rightarrow> bool" where
  "powered M = (\<lambda>(a, r). r = count (mset (m_PowerRelations a) + M))"

lemma powered_add:
  "powered M (a, r) \<Longrightarrow> AddDeviceAsPowerDependency b p a r = (st, a1, r1) \<Longrightarrow> powered M (a1, r1)"
  using Add_accounted [of r a M b p] by (simp add: powered_def)

text \<open>A side before Start.\<close>

definition side_fresh :: "usb_side_state \<Rightarrow> bool" where
  "side_fresh x \<longleftrightarrow> us_Miniports x = None \<and> us_UnknownTopology x = None \<and> us_UnknownWave x = None \<and> us_Descriptor x = None
     \<and> us_VolumePropValues x = None \<and> us_MutePropValues x = None \<and> us_SupportedFormatsIntersection x = None
     \<and> us_TransportResources x = no_resources \<and> us_nStreamsOpen x = 0 \<and> us_nStreamsStart x = 0 \<and> us_StreamStatusEvent x"

text \<open>What holds all through Init.\<close>

definition usb_initial :: "pool_tag multiset \<Rightarrow> wdf_object multiset \<Rightarrow> pdo multiset \<Rightarrow> usb_powered \<Rightarrow> bool" where
  "usb_initial P X M = (\<lambda>(io, d, a). powered M a \<and> io_pool io = block_of (uh_SymbolicLinkName d) + P
     \<and> io_objects io = usb_members d + usb_req_objs io + X \<and> tagged MINADAPTER_POOLTAG (uh_SymbolicLinkName d)
     \<and> io_collection io = [] \<and> \<not> io_queued io \<and> \<not> io_busy io \<and> io_log io = []
     \<and> (\<forall>q r. io_reqs io q = Some r \<longrightarrow> Errors r = 0 \<and> \<not> Pending r)
     \<and> uh_Descriptor d = None \<and> (\<forall>s. side_fresh (uh_Side d s)))"

text \<open>The members that step number \<open>k\<close> of Init and the later ones still have to create.\<close>

definition usb_todo :: "nat \<Rightarrow> usb_powered \<Rightarrow> bool" where
  "usb_todo k = (\<lambda>(io, d, a). (\<forall>q. io_reqs io q = None) \<and> (k \<le> 0 \<longrightarrow> \<not> uh_WorkItem d) \<and> (k \<le> 1 \<longrightarrow> \<not> uh_ReqCollection d)
     \<and> (k \<le> 2 \<longrightarrow> \<not> uh_WdfIoTarget d) \<and> (k \<le> 4 \<longrightarrow> uh_SymbolicLinkName d = None))"

lemma usb_members_ok:
  assumes "io_fresh io" and "\<forall>s. us_Descriptor (uh_Side d s) = None" and "powered M a"
  shows "usb_initial (io_pool io) (io_objects io) M (io \<lparr> io_reqs := Map.empty \<rparr>, usb_Init_members d, a)
    \<and> usb_todo 0 (io \<lparr> io_reqs := Map.empty \<rparr>, usb_Init_members d, a)"
  using assms by (simp add: usb_initial_def usb_todo_def usb_Init_members_def usb_Init_side_def side_fresh_def usb_members_def
      usb_req_objs_def usb_requests_def io_fresh_def)

lemma usb_basics_ok:
  "step_spec (\<lambda>s. usb_initial P X M s \<and> usb_todo 0 s)
     (run_steps (usb_Init_basics e link))
     (\<lambda>s. usb_initial P X M s \<and> usb_todo 5 s) (usb_initial P X M)"
proof -
  let ?S = "\<lambda>k s. usb_initial P X M s \<and> usb_todo k s"
  note defs = step_spec_def usb_initial_def usb_todo_def usb_members_def
  have 0: "step_spec (?S 0) (usb_Init_workitem (ui_workitem e)) (?S 1) (usb_initial P X M)"
    by (auto simp: defs usb_Init_workitem_def wdf_create_def)
  have 1: "step_spec (?S 1) (usb_Init_collection (ui_collection e)) (?S 2) (usb_initial P X M)"
    by (auto simp: defs usb_Init_collection_def wdf_create_def)
  have 2: "step_spec (?S 2) (usb_Init_target (ui_target e)) (?S 3) (usb_initial P X M)"
    by (auto simp: defs usb_Init_target_def wdf_create_def)
  have 3: "step_spec (?S 3) (usb_Init_open (ui_open e) (ui_relation e) (ui_pdo e)) (?S 4) (usb_initial P X M)"
    by (auto simp: defs usb_Init_open_def split: prod.split dest: powered_add)
  have 4: "step_spec (?S 4) (usb_Init_link (ui_name e) link) (?S 5) (usb_initial P X M)"
    by (auto simp: defs usb_Init_link_def pool_alloc_def)
  show ?thesis unfolding usb_Init_basics_def
    by (rule step_spec_Cons [OF 0 step_spec_Cons [OF 1 step_spec_Cons [OF 2 step_spec_Cons [OF 3 step_spec_Cons [OF 4
            step_spec_Nil]]]]])
qed

lemma usb_requests_all: "q \<in> set usb_requests"
  using notification_or_stream [of q] by (auto simp: usb_requests_def usb_notifications_def) (metis usb_side.exhaust)

lemma usb_req_objs_new:
  assumes "io_reqs io q = None" and "\<forall>p. p \<noteq> q \<longrightarrow> io_reqs io' p = io_reqs io p"
  shows "usb_req_objs io' = req_objs (req_mems io' q) + usb_req_objs io"
proof -
  have "usb_req_objs io = sum_list (map (\<lambda>p. req_objs (req_mems io p)) (remove1 q usb_requests))"
    "usb_req_objs io' = req_objs (req_mems io' q) + sum_list (map (\<lambda>p. req_objs (req_mems io' p)) (remove1 q usb_requests))"
    using sum_list_map_remove1 [OF usb_requests_all [of q], of "\<lambda>p. req_objs (req_mems io p)"]
      sum_list_map_remove1 [OF usb_requests_all [of q], of "\<lambda>p. req_objs (req_mems io' p)"] assms(1)
    by (simp_all add: usb_req_objs_def)
  moreover have "map (\<lambda>p. req_objs (req_mems io' p)) (remove1 q usb_requests) = map (\<lambda>p. req_objs (req_mems io p)) (remove1 q usb_requests)"
    using assms(2) by (intro map_cong) (auto simp: usb_requests_def split: if_splits)
  ultimately show ?thesis by simp
qed

lemma usb_Init_request_ok:
  assumes ok: "usb_initial P X M (io, d, a)" and n: "io_reqs io q = None"
  shows "\<exists>st io'. usb_Init_request e q (io, d, a) = Some (st, io', d, a) \<and> usb_initial P X M (io', d, a)
    \<and> (\<forall>p. p \<noteq> q \<longrightarrow> io_reqs io' p = io_reqs io p) \<and> (NT_SUCCESS st \<longrightarrow> req_mems io' q = Some (True, True))"
proof -
  obtain st io' where c: "create_request e q (IOCTL_SBAUD_GET_DEVICE_DESCRIPTOR 0) zero_params io = (st, io')" "io_pool io' = io_pool io"
      "io_objects io' = req_objs (req_mems io' q) + io_objects io" "\<forall>p. p \<noteq> q \<longrightarrow> io_reqs io' p = io_reqs io p"
      "io_collection io' = io_collection io" "io_log io' = io_log io"
      "io_queued io' = io_queued io" "io_busy io' = io_busy io" "\<forall>r. io_reqs io' q = Some r \<longrightarrow> Errors r = 0 \<and> \<not> Pending r"
      "NT_SUCCESS st \<longrightarrow> req_mems io' q = Some (True, True)"
    using create_request_objs [OF n, of e "IOCTL_SBAUD_GET_DEVICE_DESCRIPTOR 0" zero_params] by blast
  have "Errors r = 0 \<and> \<not> Pending r" if "io_reqs io' p = Some r" for p r
    using that c(4,9) ok by (cases "p = q") (auto simp: usb_initial_def)
  then have "usb_initial P X M (io', d, a)"
    using ok c usb_req_objs_new [OF n c(4)] by (simp add: usb_initial_def)
  then show ?thesis using c by (simp add: usb_Init_request_def)
qed

lemma usb_Init_requests_ok:
  assumes "usb_initial P X M (io, d, a)" and "distinct qs" and "\<forall>q \<in> set qs. io_reqs io q = None"
  shows "\<exists>st io'. run_steps (map (\<lambda>q. usb_Init_request (e q) q) qs) (io, d, a) = Some (st, io', d, a) \<and> usb_initial P X M (io', d, a)
    \<and> (\<forall>p. p \<notin> set qs \<longrightarrow> io_reqs io' p = io_reqs io p)
    \<and> (NT_SUCCESS st \<longrightarrow> (\<forall>q \<in> set qs. req_mems io' q = Some (True, True)))"
  using assms
proof (induction qs arbitrary: io)
  case (Cons q qs)
  obtain st io1 where 1: "usb_Init_request (e q) q (io, d, a) = Some (st, io1, d, a)" "usb_initial P X M (io1, d, a)"
      "\<forall>p. p \<noteq> q \<longrightarrow> io_reqs io1 p = io_reqs io p" "NT_SUCCESS st \<longrightarrow> req_mems io1 q = Some (True, True)"
    using usb_Init_request_ok [OF Cons.prems(1), of q "e q"] Cons.prems(3) by auto
  show ?case
  proof (cases "NT_SUCCESS st")
    case True
    have "\<forall>p \<in> set qs. io_reqs io1 p = None" using 1(3) Cons.prems(2,3) by auto
    from Cons.IH [OF 1(2) _ this] Cons.prems(2) obtain st2 io2 where
      2: "run_steps (map (\<lambda>q. usb_Init_request (e q) q) qs) (io1, d, a) = Some (st2, io2, d, a)" "usb_initial P X M (io2, d, a)"
        "\<forall>p. p \<notin> set qs \<longrightarrow> io_reqs io2 p = io_reqs io1 p"
        "NT_SUCCESS st2 \<longrightarrow> (\<forall>q \<in> set qs. req_mems io2 q = Some (True, True))" by auto
    have "req_mems io2 q = req_mems io1 q" using 2(3) Cons.prems(2) by simp
    then show ?thesis using True 1 2 by auto
  qed (use 1 in auto)
qed simp

lemma usb_initial_ok:
  assumes i: "usb_initial P X M (io, d, a)" and r: "\<forall>q. req_mems io q = Some (True, True)"
  shows "usb_ok P X (io, d)"
proof -
  have fr: "side_fresh (uh_Side d s)" for s using i by (simp add: usb_initial_def)
  have b: "side_blocks (uh_Side d s) = {#}" "side_tags (uh_Side d s)" for s
    using fr [of s] by (simp_all add: side_fresh_def side_blocks_def side_tags_def)
  have "usb_mem P X (io, d)"
    using i b by (auto simp: usb_initial_def usb_mem_def usb_blocks_def)
  moreover have "stream_ok s (io, d)" for s
  proof -
    obtain x where "io_reqs io (UsbStreamReq s) = Some x" using r [rule_format, of "UsbStreamReq s"] by auto
    then show ?thesis using i fr [of s] by (simp add: usb_initial_def stream_ok_def side_fresh_def)
  qed
  moreover have "notifs_ok usb_notifications io" using i by (auto simp: usb_initial_def notifs_ok_def)
  ultimately show ?thesis using r by (simp add: usb_ok_def)
qed

lemma names_fresh: "side_fresh x \<Longrightarrow> side_fresh (x \<lparr> us_WaveName := a, us_TopologyName := b \<rparr>)"
  by (simp add: side_fresh_def)

lemma usb_names_ok:
  assumes "usb_initial P X M (io, d, a)" and "usb_CreateFilterNames cf h link d = (st, d')"
  shows "usb_initial P X M (io, d', a) \<and> uh_State d' = uh_State d \<and> uh_SymbolicLinkName d' = uh_SymbolicLinkName d"
  using assms by (auto simp: usb_CreateFilterNames_def Let_def usb_initial_def usb_members_def upd_side_if names_fresh
      split: if_splits)

lemma usb_Init_ok:
  assumes f: "io_fresh io" and dn: "\<forall>s. us_Descriptor (uh_Side d s) = None" and pw: "powered M a"
  shows "\<exists>st io' d' a'. usb_Init cf e link (io, d, a) = Some (st, io', d', a') \<and> usb_initial (io_pool io) (io_objects io) M (io', d', a')
    \<and> (NT_SUCCESS st \<longrightarrow> uh_State d' = StateRunning \<and> uh_SymbolicLinkName d' = Some (MINADAPTER_POOLTAG, link)
        \<and> (\<forall>q. req_mems io' q = Some (True, True)))
    \<and> (\<not> NT_SUCCESS st \<longrightarrow> uh_State d' = StateInitializing)"
proof -
  let ?P = "io_pool io" and ?X = "io_objects io"
  let ?s0 = "(io \<lparr> io_reqs := Map.empty \<rparr>, usb_Init_members d, a)"
  let ?A = "usb_Init_basics e link"
  let ?B = "map (\<lambda>q. usb_Init_request (ui_request e q) q) usb_requests"
  let ?C = "[usb_Init_names cf (ui_hash e) link]"
  obtain st1 io1 d1 a1 where 1: "run_steps ?A ?s0 = Some (st1, io1, d1, a1)" "usb_initial ?P ?X M (io1, d1, a1)"
      "NT_SUCCESS st1 \<longrightarrow> usb_todo 5 (io1, d1, a1)"
    using step_specD [OF usb_basics_ok usb_members_ok [OF f dn pw], of e link] by (auto split: if_splits)
  have st_link: "uh_State d1 = StateInitializing \<and> (NT_SUCCESS st1 \<longrightarrow> uh_SymbolicLinkName d1 = Some (MINADAPTER_POOLTAG, link))"
    using 1(1) by (cases a) (auto simp: usb_Init_basics_def usb_Init_workitem_def usb_Init_collection_def usb_Init_target_def usb_Init_open_def
        usb_Init_link_def pool_alloc_def usb_Init_members_def split: if_splits prod.splits)
  show ?thesis
  proof (cases "NT_SUCCESS st1")
    case False
    then have "usb_Init cf e link (io, d, a) = Some (st1, io1, d1, a1)" using 1(1) by (simp add: usb_Init_def run_steps_append)
    then show ?thesis using 1 st_link False by auto
  next
    case True
    have "distinct usb_requests" "\<forall>q \<in> set usb_requests. io_reqs io1 q = None"
      using 1(3) True by (simp_all add: usb_requests_def usb_todo_def)
    from usb_Init_requests_ok [OF 1(2) this, of "ui_request e"] obtain st2 io2 where
      2: "run_steps ?B (io1, d1, a1) = Some (st2, io2, d1, a1)" "usb_initial ?P ?X M (io2, d1, a1)"
        "NT_SUCCESS st2 \<longrightarrow> (\<forall>q \<in> set usb_requests. req_mems io2 q = Some (True, True))" by blast
    show ?thesis
    proof (cases "NT_SUCCESS st2")
      case False
      then have "usb_Init cf e link (io, d, a) = Some (st2, io2, d1, a1)"
        using True 1(1) 2(1) by (simp add: usb_Init_def run_steps_append)
      then show ?thesis using 2 st_link False by auto
    next
      case ok2: True
      obtain st3 d3 where 3: "usb_CreateFilterNames cf (ui_hash e) link d1 = (st3, d3)" by fastforce
      note k = usb_names_ok [OF 2(2) 3]
      have c: "run_steps ?C (io2, d1, a1) = Some (if NT_SUCCESS st3 then STATUS_SUCCESS else st3, io2, d3, a1)"
        using 3 by (simp add: usb_Init_names_def)
      have all: "\<forall>q. req_mems io2 q = Some (True, True)" using 2(3) ok2 usb_requests_all by blast
      show ?thesis
      proof (cases "NT_SUCCESS st3")
        case False
        then have "usb_Init cf e link (io, d, a) = Some (st3, io2, d3, a1)"
          using True ok2 1(1) 2(1) c by (simp add: usb_Init_def run_steps_append)
        then show ?thesis using k st_link False by auto
      next
        case ok3: True
        then have "usb_Init cf e link (io, d, a) = Some (STATUS_SUCCESS, io2, d3 \<lparr> uh_State := StateRunning \<rparr>, a1)"
          using True ok2 1(1) 2(1) c by (simp add: usb_Init_def run_steps_append)
        moreover have "usb_initial ?P ?X M (io2, d3 \<lparr> uh_State := StateRunning \<rparr>, a1)"
          using conjunct1 [OF k] by (simp add: usb_initial_def usb_members_def)
        ultimately show ?thesis using k st_link True all by auto
      qed
    qed
  qed
qed

section \<open>Start\<close>

text \<open>References on filters, and the invariant with the adapter's filters; \<open>E\<close> are references of others.\<close>

definition side_refs :: "usb_side_state \<Rightarrow> obj multiset" where
  "side_refs x = opt_ref (us_UnknownTopology x) + opt_ref (us_UnknownWave x)"

definition usb_refs :: "UsbHsDevice \<Rightarrow> obj multiset" where
  "usb_refs d = side_refs (uh_Side d UsbSpeaker) + side_refs (uh_Side d UsbMic)"

definition usb_full :: "pool_tag multiset \<Rightarrow> wdf_object multiset \<Rightarrow> obj multiset \<Rightarrow> usb_world \<Rightarrow> bool" where
  "usb_full P X E = (\<lambda>(io, d, w). usb_ok P X (io, d) \<and> acct w (usb_refs d + E) \<and> usb_wired d)"

text \<open>
  What Start relies on, without checking it. The blocks the headset announces hold the structures that
  are read from them, the endpoint descriptor has at least the four bytes the index is written to, the
  property structures it mentions have at least four bytes too, and the query for the volume values
  succeeds (its error path frees the block with another tag than it was allocated with). Nothing here
  is guaranteed by anybody: it names the causes of the faults of Start.
\<close>

definition props_ok :: "SIDEBANDAUDIO_ENDPOINT_DESCRIPTOR2 \<Rightarrow> bool" where
  "props_ok x \<longleftrightarrow> (ed_Volume x \<noteq> 0 \<longrightarrow> 4 \<le> ed_VolumePropertyValuesSize x) \<and> (ed_Mute x \<noteq> 0 \<longrightarrow> 4 \<le> ed_MutePropertyValuesSize x)"

definition usb_whole :: "usb_remote \<Rightarrow> bool" where
  "usb_whole remote \<longleftrightarrow> (\<forall>l c i n st v. remote l c = (st, v) \<and> NT_SUCCESS st
     \<and> c \<in> {IOCTL_SBAUD_GET_DEVICE_DESCRIPTOR n, IOCTL_SBAUD_GET_ENDPOINT_DESCRIPTOR2 i n, IOCTL_SBAUD_GET_SUPPORTED_FORMATS i n}
     \<longrightarrow> ur_whole v)"

definition usb_sizes :: "usb_remote \<Rightarrow> bool" where
  "usb_sizes remote \<longleftrightarrow> (\<forall>l i n st v. remote l (IOCTL_SBAUD_GET_ENDPOINT_DESCRIPTOR2 i n) = (st, v) \<longrightarrow>
     (st = STATUS_BUFFER_TOO_SMALL \<longrightarrow> ur_information v = 0 \<or> 4 \<le> ur_information v)
     \<and> (NT_SUCCESS st \<longrightarrow> props_ok (ur_endpoint v)))"

definition usb_answers :: "usb_remote \<Rightarrow> bool" where
  "usb_answers remote \<longleftrightarrow> (\<forall>l i n st v. remote l (IOCTL_SBAUD_GET_VOLUMEPROPERTYVALUES i n) = (st, v) \<longrightarrow> NT_SUCCESS st)"

lemma usb_answersD: "usb_answers remote \<Longrightarrow> NT_SUCCESS (fst (remote l (IOCTL_SBAUD_GET_VOLUMEPROPERTYVALUES i n)))"
  unfolding usb_answers_def by (metis prod.collapse)

definition usb_honest :: "usb_remote \<Rightarrow> bool" where
  "usb_honest remote \<longleftrightarrow> usb_whole remote \<and> usb_sizes remote \<and> usb_answers remote"

text \<open>The part of a side that its streams and filters rest on.\<close>

definition side_stream :: "usb_side_state \<Rightarrow> bool \<times> nat \<times> int \<times> int \<times> transport_resources" where
  "side_stream x = (us_StreamStatusEvent x, us_EpIndex x, us_nStreamsOpen x, us_nStreamsStart x, us_TransportResources x)"

lemma ok_add:
  assumes ok: "usb_ok P X (io, d)" and b: "side_blocks (f (uh_Side d s)) = B + side_blocks (uh_Side d s)"
    and t: "side_tags (f (uh_Side d s))" and i: "side_stream (f (uh_Side d s)) = side_stream (uh_Side d s)"
  shows "usb_ok P X (io \<lparr> io_log := l, io_pool := B + io_pool io \<rparr>, upd_side s f d)"
proof -
  have m: "usb_mem P X (io, d)" using ok by (simp add: usb_ok_def)
  have "usb_mem P X (io \<lparr> io_log := l, io_pool := B + io_pool io \<rparr>, upd_side s f d)"
    by (rule mem_side [OF m, of s "{#}" "side_blocks (uh_Side d s)" f B "io_pool io"]) (use b t in simp_all)
  then show ?thesis
    by (rule ok_side_mem [OF ok]) (use ok_notifs [OF ok] ok_stream [OF ok, of s] i in \<open>auto simp: stream_ok_def index_upd side_stream_def\<close>)
qed

definition side_wired :: "usb_side_state \<Rightarrow> bool" where
  "side_wired x \<longleftrightarrow> (us_UnknownTopology x \<noteq> None \<or> us_UnknownWave x \<noteq> None \<longrightarrow> us_Miniports x \<noteq> None \<and> us_Descriptor x \<noteq> None)"

lemma wired_upd: "usb_wired d \<Longrightarrow> side_wired (f (uh_Side d s)) \<Longrightarrow> usb_wired (upd_side s f d)"
  by (simp add: usb_wired_def side_wired_def upd_side_if)

lemma refs_upd: "side_refs (f (uh_Side d s)) = R + side_refs (uh_Side d s) \<Longrightarrow> usb_refs (upd_side s f d) = R + usb_refs d"
  by (cases s) (simp_all add: usb_refs_def upd_side_if ac_simps)

text \<open>A step that adds blocks \<open>B\<close> and references \<open>R\<close> to a side.\<close>

definition grows :: "pool_tag multiset \<Rightarrow> obj multiset \<Rightarrow> usb_side_state \<Rightarrow> usb_side_state \<Rightarrow> bool" where
  "grows B R x y \<longleftrightarrow> side_blocks y = B + side_blocks x \<and> side_tags y \<and> side_stream y = side_stream x \<and> side_wired y
     \<and> side_refs y = R + side_refs x \<and> us_Descriptor y = us_Descriptor x"

lemma full_add:
  assumes "usb_full P X E (io, d, w)" and "grows B R (uh_Side d s) (f (uh_Side d s))" and "acct w' (R + (usb_refs d + E))"
  shows "usb_full P X E (io \<lparr> io_log := l, io_pool := B + io_pool io \<rparr>, upd_side s f d, w')"
  using assms ok_add [of P X io d f s B l] wired_upd [of d f s] refs_upd [of f d s R]
  by (simp add: usb_full_def grows_def add.assoc)

lemma full_tags: "usb_full P X E (io, d, w) \<Longrightarrow> side_tags (uh_Side d s) \<and> side_wired (uh_Side d s)"
  using ok_tags by (auto simp: usb_full_def usb_wired_def side_wired_def)

lemma full_core:
  assumes f: "usb_full P X E (io, d, w)" and c: "usb_core d' = usb_core d"
  shows "usb_full P X E (io \<lparr> io_log := l \<rparr>, d', w)"
proof -
  have ok: "usb_ok P X (io, d)" using f by (simp add: usb_full_def)
  have "usb_refs d' = usb_refs d" using side_core_blocks(8,9) [OF usb_coreD(1) [OF c]] by (simp add: usb_refs_def side_refs_def)
  then show ?thesis using f call_kept [OF ok c] wired_fixed [OF fixed_core [OF c]] by (simp add: usb_full_def)
qed

subsection \<open>The part of a side\<close>

text \<open>What the steps before number \<open>k\<close> have made and the others still have to make.\<close>

definition side_stage :: "bool \<Rightarrow> nat \<Rightarrow> usb_side_state \<Rightarrow> bool" where
  "side_stage h k x \<longleftrightarrow> (k \<le> 0 \<longrightarrow> us_VolumePropValues x = None) \<and> (k \<le> 1 \<longrightarrow> us_MutePropValues x = None)
     \<and> (if k \<le> 2 then us_SupportedFormatsIntersection x = None else us_SupportedFormatsIntersection x \<noteq> None)
     \<and> (h \<and> 3 \<le> k \<longrightarrow> read_block ur_whole (us_SupportedFormatsIntersection x) \<noteq> None)
     \<and> (if k \<le> 3 then us_Miniports x = None else us_Miniports x \<noteq> None)
     \<and> (k \<le> 5 \<longrightarrow> us_UnknownTopology x = None \<and> us_UnknownWave x = None)"

definition side_props_ok :: "bool \<Rightarrow> usb_side_state \<Rightarrow> bool" where
  "side_props_ok h x \<longleftrightarrow> (\<forall>t v. h \<and> us_Descriptor x = Some (t, v) \<longrightarrow> props_ok (ur_endpoint v))"

text \<open>A notification request that can be sent.\<close>

definition usb_idle :: "usb_io \<Rightarrow> usb_req \<Rightarrow> bool" where
  "usb_idle io q \<longleftrightarrow> (\<exists>r. io_reqs io q = Some r \<and> \<not> Pending r \<and> q \<notin> set (io_collection io) \<and> Errors r \<le> NOTIFICATION_MAX_ERROR_COUNT)"

lemma usb_idle_frame [simp]:
  "usb_idle (io \<lparr> io_log := l \<rparr>) q = usb_idle io q" "usb_idle (io \<lparr> io_pool := p \<rparr>) q = usb_idle io q"
  by (simp_all add: usb_idle_def)

text \<open>Sides \<open>ts\<close> that Start has not come to.\<close>

definition sides_todo :: "bool \<Rightarrow> usb_side list \<Rightarrow> usb_io \<Rightarrow> UsbHsDevice \<Rightarrow> bool" where
  "sides_todo h ts io d \<longleftrightarrow> (\<forall>t \<in> set ts. side_stage h 0 (uh_Side d t) \<and> side_props_ok h (uh_Side d t) \<and> usb_idle io (VolumeReq t))"

definition at_stage :: "bool \<Rightarrow> pool_tag multiset \<Rightarrow> wdf_object multiset \<Rightarrow> obj multiset \<Rightarrow> usb_side list \<Rightarrow> nat \<Rightarrow> usb_side \<Rightarrow> usb_world \<Rightarrow> bool" where
  "at_stage h P X E ts k s = (\<lambda>(io, d, w). usb_full P X E (io, d, w) \<and> sides_todo h ts io d \<and> side_stage h k (uh_Side d s)
     \<and> side_props_ok h (uh_Side d s) \<and> us_Descriptor (uh_Side d s) \<noteq> None \<and> usb_idle io (VolumeReq s))"

lemma stage_core: "side_core x' = side_core x \<Longrightarrow> side_stage h k x' = side_stage h k x \<and> side_props_ok h x' = side_props_ok h x"
  by (cases x; cases x') (simp add: side_core_def side_stage_def side_props_ok_def)

lemma at_stage_core:
  assumes a: "at_stage h P X E ts k s (io, d, w)" and c: "usb_core d' = usb_core d"
  shows "at_stage h P X E ts k s (io \<lparr> io_log := l \<rparr>, d', w)"
proof -
  note sc = stage_core [OF usb_coreD(1) [OF c]] side_core_blocks(11) [OF usb_coreD(1) [OF c]]
  show ?thesis using a full_core [OF _ c, of P X E io w l] by (simp add: at_stage_def sides_todo_def sc)
qed

lemma at_stage_add:
  assumes a: "at_stage h P X E ts k s (io, d, w)" and s: "s \<notin> set ts" and g: "grows B R (uh_Side d s) (f (uh_Side d s))"
    and ac: "acct w' (R + (usb_refs d + E))"
  shows "usb_full P X E (io \<lparr> io_log := l, io_pool := B + io_pool io \<rparr>, upd_side s f d, w')"
    "side_stage h j (f (uh_Side d s)) \<Longrightarrow> at_stage h P X E ts j s (io \<lparr> io_log := l, io_pool := B + io_pool io \<rparr>, upd_side s f d, w')"
proof -
  show f: "usb_full P X E (io \<lparr> io_log := l, io_pool := B + io_pool io \<rparr>, upd_side s f d, w')"
    using full_add [of P X E io d w B R s f w' l] g ac a by (simp add: at_stage_def)
  have "sides_todo h ts (io \<lparr> io_log := l, io_pool := B + io_pool io \<rparr>) (upd_side s f d)"
    using a s by (auto simp: at_stage_def sides_todo_def upd_side_if)
  then show "side_stage h j (f (uh_Side d s)) \<Longrightarrow> at_stage h P X E ts j s (io \<lparr> io_log := l, io_pool := B + io_pool io \<rparr>, upd_side s f d, w')"
    using a f g by (simp add: at_stage_def side_props_ok_def grows_def)
qed

text \<open>The parts of a state a step needs.\<close>

lemma at_stageD:
  assumes "at_stage h P X E ts k s (io, d, w)"
  shows "usb_full P X E (io, d, w)" "side_stage h k (uh_Side d s)" "side_tags (uh_Side d s)" "side_wired (uh_Side d s)"
    "acct w (usb_refs d + E)" "\<exists>x. side_descriptor s d = Some x \<and> (h \<longrightarrow> props_ok x)"
  using assms full_tags [of P X E io d w s]
  by (auto simp: at_stage_def usb_full_def side_descriptor_def side_props_ok_def side_tags_def split: if_splits)

text \<open>The query for the volume values faults exactly when the buffer is too small for the index or the IOCTL fails.\<close>

lemma fetch_block_fault:
  assumes "tag \<noteq> freetag"
  shows "fetch_block remote alloc tag freetag code io = None \<longleftrightarrow> alloc \<and> \<not> NT_SUCCESS (fst (remote (io_log io) code))"
  using assms by (cases "remote (io_log io) code")
    (simp add: fetch_block_def SendIoCtrlSynchronously_def Let_def pool_alloc_def pool_free_def)

lemma fetch_block_may:
  assumes "fetch_block remote alloc tag freetag code io = Some (st, p, io')"
  shows "(\<exists>l. io' = io \<lparr> io_log := l, io_pool := block_of p + io_pool io \<rparr>) \<and> (NT_SUCCESS st \<longleftrightarrow> p \<noteq> None) \<and> tagged tag p"
proof -
  obtain x v where "remote (io_log io) code = (x, v)" by fastforce
  then show ?thesis using assms
    by (cases io) (auto simp: fetch_block_def SendIoCtrlSynchronously_def Let_def pool_alloc_def pool_free_def split: if_splits)
qed

lemmas grow_defs = grows_def side_blocks_def side_tags_def side_stream_def side_wired_def side_refs_def

lemma volume_values_fault:
  "GetUsbHsVolumePropertyValues remote alloc i n io = None \<longleftrightarrow>
     alloc \<and> (n < 4 \<or> \<not> NT_SUCCESS (fst (remote (io_log io) (IOCTL_SBAUD_GET_VOLUMEPROPERTYVALUES i n))))"
  by (auto simp: GetUsbHsVolumePropertyValues_def fetch_block_fault USBSIDEBANDTEST_POOLTAG02_def MINADAPTER_POOLTAG_def)

lemma volume_values:
  assumes "GetUsbHsVolumePropertyValues remote alloc i n io = Some (st, p, io')"
  shows "(\<exists>l. io' = io \<lparr> io_log := l, io_pool := block_of p + io_pool io \<rparr>) \<and> (NT_SUCCESS st \<longleftrightarrow> p \<noteq> None)
    \<and> tagged USBSIDEBANDTEST_POOLTAG02 p"
  using assms fetch_block_may [of remote alloc USBSIDEBANDTEST_POOLTAG02 MINADAPTER_POOLTAG "IOCTL_SBAUD_GET_VOLUMEPROPERTYVALUES i n" io st p io']
  unfolding GetUsbHsVolumePropertyValues_def by (metis option.distinct(1))

lemma mute_values:
  "(GetUsbHsMutePropertyValues remote alloc i n io = None \<longleftrightarrow> alloc \<and> n < 4)
   \<and> (\<forall>st p io'. GetUsbHsMutePropertyValues remote alloc i n io = Some (st, p, io') \<longrightarrow>
       (\<exists>l. io' = io \<lparr> io_log := l, io_pool := block_of p + io_pool io \<rparr>) \<and> (NT_SUCCESS st \<longleftrightarrow> p \<noteq> None)
       \<and> tagged USBSIDEBANDTEST_POOLTAG06 p)"
proof -
  have "fetch_block remote alloc USBSIDEBANDTEST_POOLTAG06 USBSIDEBANDTEST_POOLTAG06 (IOCTL_SBAUD_GET_MUTEPROPERTYVALUES i n) io \<noteq> None"
    using fetch_block_memory [OF refl, of remote alloc USBSIDEBANDTEST_POOLTAG06 "IOCTL_SBAUD_GET_MUTEPROPERTYVALUES i n" io] by auto
  then show ?thesis unfolding GetUsbHsMutePropertyValues_def using fetch_block_may by (metis option.distinct(1))
qed

lemma usb_get_volume_log: "\<exists>st v y. usb_get_volume s remote ch (io, d) = (st, v, io \<lparr> io_log := y \<rparr>, d)"
  and usb_get_mute_log: "\<exists>st v y. usb_get_mute s remote ch (io, d) = (st, v, io \<lparr> io_log := y \<rparr>, d)"
  by (auto simp: usb_get_volume_def usb_get_mute_def split: prod.split dest!: usb_value_log)

lemma usb_stage_0:
  assumes h: "h = usb_honest remote" and s: "s \<notin> set ts"
  shows "step_may (\<not> h) (at_stage h P X E ts 0 s) (usb_Start_volume s remote alloc) (at_stage h P X E ts 1 s) (usb_full P X E)"
proof (rule step_mayI, clarify)
  fix io d w assume a: "at_stage h P X E ts 0 s (io, d, w)"
  note ad = at_stageD [OF a]
  obtain x where x: "side_descriptor s d = Some x" "h \<longrightarrow> props_ok x" using ad(6) by blast
  show "unless_fault (\<not> h) (usb_Start_volume s remote alloc (io, d, w)) (\<lambda>(st, s'). if NT_SUCCESS st then at_stage h P X E ts 1 s s' else usb_full P X E s')"
  proof (cases "ed_Volume x = 0")
    case True
    have "at_stage h P X E ts 1 s (io, d, w)" using a by (simp add: at_stage_def side_stage_def)
    then show ?thesis using True x by (simp add: usb_Start_volume_def)
  next
    case False
    note vol = False
    have none: "\<not> h" if "GetUsbHsVolumePropertyValues remote alloc (us_EpIndex (uh_Side d s)) (ed_VolumePropertyValuesSize x) io = None"
      using that x(2) False h usb_answersD by (auto simp: volume_values_fault usb_honest_def props_ok_def)
    show ?thesis
    proof (cases "GetUsbHsVolumePropertyValues remote alloc (us_EpIndex (uh_Side d s)) (ed_VolumePropertyValuesSize x) io")
      case None
      then show ?thesis using vol x(1) none by (simp add: usb_Start_volume_def)
    next
      case (Some y)
      obtain st p io1 where y: "y = (st, p, io1)" by (metis prod_cases3)
      obtain l where q: "GetUsbHsVolumePropertyValues remote alloc (us_EpIndex (uh_Side d s)) (ed_VolumePropertyValuesSize x) io = Some (st, p, io \<lparr> io_log := l, io_pool := block_of p + io_pool io \<rparr>)"
          "NT_SUCCESS st \<longleftrightarrow> p \<noteq> None" "tagged USBSIDEBANDTEST_POOLTAG02 p"
        using volume_values [OF Some [unfolded y]] Some y by blast
    let ?f = "\<lambda>y. y \<lparr> us_VolumePropValues := p \<rparr>"
    let ?io1 = "io \<lparr> io_log := l, io_pool := block_of p + io_pool io \<rparr>" and ?d1 = "upd_side s ?f d"
    have g: "grows (block_of p) {#} (uh_Side d s) (?f (uh_Side d s))"
      using ad(2-4) q(3) by (auto simp: grow_defs side_stage_def ac_simps)
    have 1: "at_stage h P X E ts 1 s (?io1, ?d1, w)"
      by (rule at_stage_add(2) [where f = ?f, OF a s g]) (use ad(2,5) in \<open>simp_all add: side_stage_def\<close>)
    show ?thesis
    proof (cases "NT_SUCCESS st")
      case True
      obtain st1 v y where v: "usb_get_volume s remote 0 (?io1, ?d1) = (st1, v, ?io1 \<lparr> io_log := y \<rparr>, ?d1)"
        using usb_get_volume_log by blast
      show ?thesis
        using True vol x q(1) v at_stage_core [OF 1, of "upd_side s (\<lambda>y. y \<lparr> us_VolumeLevel := v \<rparr>) ?d1" y] at_stage_core [OF 1 refl, of y]
        by (auto simp: usb_Start_volume_def Let_def core_levels simp del: upd_side_twice dest: at_stageD(1))
    next
      case f: False
      then have "p = None" using q(2) by blast
      then have "usb_full P X E (?io1, d, w)" using full_core [OF ad(1) refl, of l] by (cases io) simp
      then show ?thesis using vol x(1) q(1) f by (simp add: usb_Start_volume_def)
    qed
  qed
  qed
qed

lemma usb_stage_1:
  assumes h: "h = usb_honest remote" and s: "s \<notin> set ts"
  shows "step_may (\<not> h) (at_stage h P X E ts 1 s) (usb_Start_mute s remote alloc) (at_stage h P X E ts 2 s) (usb_full P X E)"
proof (rule step_mayI, clarify)
  fix io d w assume a: "at_stage h P X E ts 1 s (io, d, w)"
  note ad = at_stageD [OF a]
  obtain x where x: "side_descriptor s d = Some x" "h \<longrightarrow> props_ok x" using ad(6) by blast
  show "unless_fault (\<not> h) (usb_Start_mute s remote alloc (io, d, w)) (\<lambda>(st, s'). if NT_SUCCESS st then at_stage h P X E ts 2 s s' else usb_full P X E s')"
  proof (cases "ed_Mute x = 0")
    case True
    have "at_stage h P X E ts 2 s (io, d, w)" using a by (simp add: at_stage_def side_stage_def)
    then show ?thesis using True x by (simp add: usb_Start_mute_def)
  next
    case False
    note vol = False
    have none: "\<not> h" if "GetUsbHsMutePropertyValues remote alloc (us_EpIndex (uh_Side d s)) (ed_MutePropertyValuesSize x) io = None"
      using that x(2) False mute_values [of remote alloc "us_EpIndex (uh_Side d s)" "ed_MutePropertyValuesSize x" io] by (auto simp: props_ok_def)
    show ?thesis
    proof (cases "GetUsbHsMutePropertyValues remote alloc (us_EpIndex (uh_Side d s)) (ed_MutePropertyValuesSize x) io")
      case None
      then show ?thesis using vol x(1) none by (simp add: usb_Start_mute_def)
    next
      case (Some y)
      obtain st p io1 where y: "y = (st, p, io1)" by (metis prod_cases3)
      obtain l where q: "GetUsbHsMutePropertyValues remote alloc (us_EpIndex (uh_Side d s)) (ed_MutePropertyValuesSize x) io = Some (st, p, io \<lparr> io_log := l, io_pool := block_of p + io_pool io \<rparr>)"
          "NT_SUCCESS st \<longleftrightarrow> p \<noteq> None" "tagged USBSIDEBANDTEST_POOLTAG06 p"
        using conjunct2 [OF mute_values, rule_format, OF Some [unfolded y]] Some y by blast
    let ?f = "\<lambda>y. y \<lparr> us_MutePropValues := p \<rparr>"
    let ?io1 = "io \<lparr> io_log := l, io_pool := block_of p + io_pool io \<rparr>" and ?d1 = "upd_side s ?f d"
    have g: "grows (block_of p) {#} (uh_Side d s) (?f (uh_Side d s))"
      using ad(2-4) q(3) by (auto simp: grow_defs side_stage_def ac_simps)
    have 1: "at_stage h P X E ts 2 s (?io1, ?d1, w)"
      by (rule at_stage_add(2) [where f = ?f, OF a s g]) (use ad(2,5) in \<open>simp_all add: side_stage_def\<close>)
    show ?thesis
    proof (cases "NT_SUCCESS st")
      case True
      obtain st1 v y where v: "usb_get_mute s remote 0 (?io1, ?d1) = (st1, v, ?io1 \<lparr> io_log := y \<rparr>, ?d1)"
        using usb_get_mute_log by blast
      show ?thesis
        using True vol x q(1) v at_stage_core [OF 1, of "upd_side s (\<lambda>y. y \<lparr> us_Mute := v \<rparr>) ?d1" y] at_stage_core [OF 1 refl, of y]
        by (auto simp: usb_Start_mute_def Let_def core_levels simp del: upd_side_twice dest: at_stageD(1))
    next
      case f: False
      then have "p = None" using q(2) by blast
      then have "usb_full P X E (?io1, d, w)" using full_core [OF ad(1) refl, of l] by (cases io) simp
      then show ?thesis using vol x(1) q(1) f by (simp add: usb_Start_mute_def)
    qed
  qed
  qed
qed

lemma query_tagged:
  "\<exists>st p l. query_block remote e tag info code io = Some (st, p, io \<lparr> io_log := l, io_pool := block_of p + io_pool io \<rparr>)
     \<and> (NT_SUCCESS st \<longleftrightarrow> p \<noteq> None) \<and> tagged tag p"
  unfolding tagged_def using query_block_memory by metis

lemma usb_stage_2:
  assumes h: "h = usb_honest remote" and s: "s \<notin> set ts"
  shows "step_spec (at_stage h P X E ts 2 s) (usb_Start_formats s remote e) (at_stage h P X E ts 3 s) (usb_full P X E)"
proof (rule step_specI, clarify)
  fix io d w assume a: "at_stage h P X E ts 2 s (io, d, w)"
  note ad = at_stageD [OF a]
  obtain st p l where q: "GetUsbHsEndpointFormatsIntersection remote e (us_EpIndex (uh_Side d s)) io
        = Some (st, p, io \<lparr> io_log := l, io_pool := block_of p + io_pool io \<rparr>)" "NT_SUCCESS st \<longleftrightarrow> p \<noteq> None"
      "tagged USBSIDEBANDTEST_POOLTAG03 p"
    unfolding GetUsbHsEndpointFormatsIntersection_def using query_tagged by blast
  let ?f = "\<lambda>y. y \<lparr> us_SupportedFormatsIntersection := p \<rparr>"
  have g: "grows (block_of p) {#} (uh_Side d s) (?f (uh_Side d s))"
    using ad(2-4) q(3) by (auto simp: grow_defs side_stage_def ac_simps)
  have ac: "acct w ({#} + (usb_refs d + E))" using ad(5) by simp
  note k = at_stage_add [where f = ?f and l = l, OF a s g ac]
  have "read_block ur_whole p \<noteq> None" if "NT_SUCCESS st" "h"
  proof -
    from that(1) q(2) obtain t v where p: "p = Some (t, v)" by auto
    obtain l' n st' where "remote l' (IOCTL_SBAUD_GET_SUPPORTED_FORMATS (us_EpIndex (uh_Side d s)) n) = (st', v)" "NT_SUCCESS st'"
      using query_block_value [OF q(1) [unfolded p GetUsbHsEndpointFormatsIntersection_def]] by blast
    then have "ur_whole v" using \<open>h\<close> h unfolding usb_honest_def usb_whole_def by blast
    then show ?thesis using p by simp
  qed
  then have "side_stage h 3 (?f (uh_Side d s))" if "NT_SUCCESS st" using that ad(2) q(2) by (simp add: side_stage_def)
  then show "\<exists>st s'. usb_Start_formats s remote e (io, d, w) = Some (st, s') \<and>
      (if NT_SUCCESS st then at_stage h P X E ts 3 s s' else usb_full P X E s')"
    using q(1) k by (simp add: usb_Start_formats_def)
qed

lemma usb_stage_3:
  assumes s: "s \<notin> set ts"
  shows "step_spec (at_stage h P X E ts 3 s) (usb_Start_pair s cf e) (at_stage h P X E ts 4 s) (usb_full P X E)"
proof (rule step_specI, clarify)
  fix io d w assume a: "at_stage h P X E ts 3 s (io, d, w)"
  note ad = at_stageD [OF a]
  obtain x where x: "side_descriptor s d = Some x" using ad(6) by blast
  obtain st p where c: "CreateCustomEndpointMinipair e (uc_endpoint cf s) (ed_FriendlyName x) (ed_Category x) io
      = Some (st, p, io \<lparr> io_pool := pair_blocks p + io_pool io \<rparr>)" "pair_ok p" "NT_SUCCESS st \<longleftrightarrow> p \<noteq> None"
    using Create_memory by blast
  let ?n = "\<lambda>y :: usb_side_state. map_option (\<lambda>c. c \<lparr> cp_pair := (cp_pair c) \<lparr> TopoName := us_TopologyName y, WaveName := us_WaveName y \<rparr> \<rparr>) p"
  let ?f = "\<lambda>y. y \<lparr> us_Miniports := ?n y \<rparr>"
  have n: "pair_blocks (?n y) = pair_blocks p" "pair_ok (?n y)" for y
    using c(2) by (cases p; simp add: pair_blocks_def pair_ok_def)+
  have g: "grows (pair_blocks p) {#} (uh_Side d s) (?f (uh_Side d s))"
    using ad(2-4) n by (simp add: grow_defs side_stage_def)
  have ac: "acct w ({#} + (usb_refs d + E))" using ad(5) by simp
  note k = at_stage_add [where f = ?f and l = "io_log io", OF a s g ac]
  have "side_stage h 4 (?f (uh_Side d s))" if "NT_SUCCESS st" using that ad(2) c(3) by (simp add: side_stage_def)
  moreover have "p = None" if "\<not> NT_SUCCESS st" using that c(3) by blast
  ultimately show "\<exists>st s'. usb_Start_pair s cf e (io, d, w) = Some (st, s') \<and>
      (if NT_SUCCESS st then at_stage h P X E ts 4 s s' else usb_full P X E s')"
    using x c(1) k ad(1) by (simp add: usb_Start_pair_def usb_CreateCustomEndpointMinipair_def)
qed

lemma usb_stage_4:
  assumes s: "s \<notin> set ts"
  shows "step_may (\<not> h) (at_stage h P X E ts 4 s) (usb_Start_verify s cf) (at_stage h P X E ts 5 s) (usb_full P X E)"
proof (rule step_mayI, clarify)
  fix io d w assume a: "at_stage h P X E ts 4 s (io, d, w)"
  note ad = at_stageD [OF a]
  show "unless_fault (\<not> h) (usb_Start_verify s cf (io, d, w))
      (\<lambda>(st, s'). if NT_SUCCESS st then at_stage h P X E ts 5 s s' else usb_full P X E s')"
  proof (cases "read_block ur_whole (us_SupportedFormatsIntersection (uh_Side d s))")
    case None
    then have "\<not> h" using ad(2) by (auto simp: side_stage_def)
    then show ?thesis using None by (simp add: usb_Start_verify_def)
  next
    case (Some v)
    obtain st i where v: "VerifyEndpointFormatCompatibility cf (ur_formats v) (uc_formats cf s) (us_SelectedFormat (uh_Side d s)) = (st, i)"
      by fastforce
    let ?f = "\<lambda>y. y \<lparr> us_SelectedFormat := i \<rparr>"
    have g: "grows {#} {#} (uh_Side d s) (?f (uh_Side d s))" using ad(3,4) by (simp add: grow_defs)
    have ac: "acct w ({#} + (usb_refs d + E))" using ad(5) by simp
    note k = at_stage_add [where f = ?f and l = "io_log io", OF a s g ac]
    have "side_stage h 5 (?f (uh_Side d s))" using ad(2) by (simp add: side_stage_def)
    then show ?thesis using Some v k by (simp add: usb_Start_verify_def)
  qed
qed

lemma usb_stage_5:
  assumes s: "s \<notin> set ts" and e: "filters_ok e"
  shows "step_spec (at_stage h P X E ts 5 s) (usb_Start_filters s e) (at_stage h P X E ts 6 s) (usb_full P X E)"
proof (rule step_specI, clarify)
  fix io d w assume a: "at_stage h P X E ts 5 s (io, d, w)"
  note ad = at_stageD [OF a]
  obtain c where c: "us_Miniports (uh_Side d s) = Some c" using ad(2) by (auto simp: side_stage_def)
  from Install_refs [OF ad(5) e] obtain st outs w' where
    i: "InstallEndpointFilters e (ENDPOINT_MINIPAIR.truncate (cp_pair c)) want_filters w = Some (st, outs, w')"
      "acct w' (opt_ref (out_topo outs) + opt_ref (out_wave outs) + (usb_refs d + E))" by blast
  let ?f = "\<lambda>y. y \<lparr> us_UnknownTopology := out_topo outs, us_UnknownWave := out_wave outs \<rparr>"
  have "us_Descriptor (uh_Side d s) \<noteq> None" using a by (simp add: at_stage_def)
  then have g: "grows {#} (opt_ref (out_topo outs) + opt_ref (out_wave outs)) (uh_Side d s) (?f (uh_Side d s))"
    using ad(2,3) c by (simp add: grow_defs side_stage_def)
  note k = at_stage_add [where f = ?f and l = "io_log io", OF a s g i(2)]
  have "side_stage h 6 (?f (uh_Side d s))" using ad(2) by (simp add: side_stage_def)
  then show "\<exists>st s'. usb_Start_filters s e (io, d, w) = Some (st, s') \<and>
      (if NT_SUCCESS st then at_stage h P X E ts 6 s s' else usb_full P X E s')"
    using c i(1) k by (simp add: usb_Start_filters_def)
qed

lemma usb_enable_volume: "(case s of UsbSpeaker \<Rightarrow> EnableUsbHsSpeakerVolumeStatusNotification e x
      | UsbMic \<Rightarrow> EnableUsbHsMicVolumeStatusNotification e x) = usb_enable e (VolumeReq s) (IOCTL_SBAUD_GET_VOLUME_STATUS_UPDATE None) s x"
  by (cases s) (simp_all add: EnableUsbHsSpeakerVolumeStatusNotification_def EnableUsbHsMicVolumeStatusNotification_def)

text \<open>After its last step a side asks nothing more of Start.\<close>

lemma usb_stage_6:
  assumes s: "s \<notin> set ts"
  shows "step_spec (at_stage h P X E ts 6 s) (usb_Start_enable s e)
    (\<lambda>(io, d, w). usb_full P X E (io, d, w) \<and> sides_todo h ts io d) (usb_full P X E)"
proof (rule step_specI, clarify)
  fix io d w assume a: "at_stage h P X E ts 6 s (io, d, w)"
  note ad = at_stageD [OF a]
  obtain x where x: "side_descriptor s d = Some x" using ad(6) by blast
  obtain r where r: "io_reqs io (VolumeReq s) = Some r" "\<not> Pending r" "VolumeReq s \<notin> set (io_collection io)"
      "Errors r \<le> NOTIFICATION_MAX_ERROR_COUNT" using a by (auto simp: at_stage_def usb_idle_def)
  have ok: "usb_ok P X (io, d)" using ad(1) by (simp add: usb_full_def)
  have m: "VolumeReq s \<in> set usb_notifications" by (cases s) (simp_all add: usb_notifications_def)
  let ?c = "IOCTL_SBAUD_GET_VOLUME_STATUS_UPDATE None"
  let ?b = "(Buffer r) \<lparr> up_Immediate := FALSE_BOOL, up_EpIndex := us_EpIndex (uh_Side d s), up_Value := 0 \<rparr>"
  from enable_ok [OF ok_notifs [OF ok] m r, of e ?c ?b] obtain st io' where
    en: "enable_notification e (VolumeReq s) ?c ?b io = Some (st, io')" "notifs_ok usb_notifications io'" "io_frame io io'"
      "\<forall>p. p \<noteq> VolumeReq s \<longrightarrow> io_reqs io' p = io_reqs io p" "io_collection io' = io_collection io" by blast
  have "usb_ok P X (io', d)" using usb_ok_core [OF ok en(3) en(2) refl] en(4) by simp
  then have f: "usb_full P X E (io', d, w)" using ad(1) by (simp add: usb_full_def)
  have t: "sides_todo h ts io d" using a by (simp add: at_stage_def)
  have "usb_idle io' (VolumeReq u)" if "u \<in> set ts" for u
    using that s t en(4,5) by (auto simp: sides_todo_def usb_idle_def)
  then have "sides_todo h ts io' d" using t by (simp add: sides_todo_def)
  then show "\<exists>st s'. usb_Start_enable s e (io, d, w) = Some (st, s') \<and>
      (if NT_SUCCESS st then (\<lambda>(io, d, w). usb_full P X E (io, d, w) \<and> sides_todo h ts io d) s' else usb_full P X E s')"
    using x r(1) en(1) f ad(1) t by (cases "ed_Volume x = 0") (simp_all add: usb_Start_enable_def usb_enable_volume usb_enable_def)
qed

lemma usb_Start_side_ok:
  assumes h: "h = usb_honest remote" and s: "s \<notin> set ts" and e: "\<forall>s. filters_ok (us_filters e s)"
  shows "step_may (\<not> h) (\<lambda>(io, d, w). usb_full P X E (io, d, w) \<and> sides_todo h (s # ts) io d) (usb_Start_side s remote cf e)
    (\<lambda>(io, d, w). usb_full P X E (io, d, w) \<and> sides_todo h ts io d) (usb_full P X E)"
proof (rule step_mayI, clarify)
  fix io d w assume f: "usb_full P X E (io, d, w)" and t: "sides_todo h (s # ts) io d"
  have t': "sides_todo h ts io d" using t by (simp add: sides_todo_def)
  note all = step_may_Cons [OF usb_stage_0 [OF h s] step_may_Cons [OF usb_stage_1 [unfolded one_add_one, OF h s]
    step_may_Cons [OF step_may_spec [OF usb_stage_2 [OF h s]] step_may_Cons [OF step_may_spec [OF usb_stage_3 [OF s]]
    step_may_Cons [OF usb_stage_4 [OF s] step_may_Cons [OF step_may_spec [OF usb_stage_5 [OF s e [rule_format]]]
    step_may_Cons [OF step_may_spec [OF usb_stage_6 [OF s]] step_may_Nil]]]]]]]
  show "unless_fault (\<not> h) (usb_Start_side s remote cf e (io, d, w))
      (\<lambda>(st, s'). if NT_SUCCESS st then (\<lambda>(io, d, w). usb_full P X E (io, d, w) \<and> sides_todo h ts io d) s' else usb_full P X E s')"
  proof (cases "us_Descriptor (uh_Side d s) = None")
    case True
    then show ?thesis using f t' by (simp add: usb_Start_side_def)
  next
    case False
    then have "at_stage h P X E ts 0 s (io, d, w)" using f t by (simp add: at_stage_def sides_todo_def)
    from step_mayD [OF all this] show ?thesis unfolding usb_Start_side_def prod.case if_not_P [OF False] .
  qed
qed

subsection \<open>The endpoints\<close>

lemma usb_members_state: "usb_members (d \<lparr> uh_State := x \<rparr>) = usb_members d"
  by (simp add: usb_members_def)

lemma side_of_index_frame [simp]:
  "side_of_index i (d \<lparr> uh_Descriptor := p \<rparr>) = side_of_index i d" "side_of_index i (d \<lparr> uh_State := x \<rparr>) = side_of_index i d"
  by (simp_all add: side_of_index_def)

text \<open>Before the sides are started: no stream request is with the headset.\<close>

definition usb_before :: "bool \<Rightarrow> pool_tag multiset \<Rightarrow> wdf_object multiset \<Rightarrow> obj multiset \<Rightarrow> usb_world \<Rightarrow> bool" where
  "usb_before h P X E = (\<lambda>(io, d, w). usb_full P X E (io, d, w) \<and> sides_todo h [UsbSpeaker, UsbMic] io d
     \<and> (\<forall>s. \<not> pending_in io (UsbStreamReq s)))"

lemma before_side: "usb_before h P X E (io, d, w) \<Longrightarrow> side_stage h 0 (uh_Side d s) \<and> side_props_ok h (uh_Side d s) \<and> usb_idle io (VolumeReq s)"
  by (cases s) (simp_all add: usb_before_def sides_todo_def)

lemma blocks_swap:
  "A + side_blocks (f (uh_Side d s)) = B + side_blocks (uh_Side d s) \<Longrightarrow> A + usb_blocks (upd_side s f d) = B + usb_blocks d"
  by (cases s) (simp_all add: usb_blocks_def upd_side_if ac_simps)

text \<open>A stream that is not open takes any index.\<close>

lemma stream_quiet:
  assumes "stream_ok s (io, d)" and "\<not> pending_in io (UsbStreamReq s)" and "io_reqs io' = io_reqs io"
    and "us_StreamStatusEvent (uh_Side d' s) = us_StreamStatusEvent (uh_Side d s)"
    and "us_nStreamsOpen (uh_Side d' s) = us_nStreamsOpen (uh_Side d s)" "us_nStreamsStart (uh_Side d' s) = us_nStreamsStart (uh_Side d s)"
    and "us_TransportResources (uh_Side d' s) = us_TransportResources (uh_Side d s)"
  shows "stream_ok s (io', d')"
  using assms by (auto simp: stream_ok_def pending_in_def)

lemma set_index:
  assumes b: "usb_before h P X E (io, d, w)" and t: "tagged MINADAPTER_POOLTAG p" and r: "read_block ur_whole p \<noteq> None"
    and v: "\<forall>u v. h \<and> p = Some (u, v) \<longrightarrow> props_ok (ur_endpoint v)"
  shows "usb_before h (block_of (us_Descriptor (uh_Side d s)) + P) X E (io \<lparr> io_log := l, io_pool := block_of p + io_pool io \<rparr>,
      upd_side s (\<lambda>x. x \<lparr> us_EpIndex := i, us_Descriptor := p \<rparr>) d, w)"
proof -
  let ?f = "\<lambda>x. x \<lparr> us_EpIndex := i, us_Descriptor := p \<rparr>" and ?x = "uh_Side d s"
  let ?io = "io \<lparr> io_log := l, io_pool := block_of p + io_pool io \<rparr>" and ?d = "upd_side s ?f d"
  let ?A = "block_of (us_Descriptor ?x)"
  have full: "usb_full P X E (io, d, w)" using b by (simp add: usb_before_def)
  then have ok: "usb_ok P X (io, d)" by (simp add: usb_full_def)
  have st: "side_stage h 0 ?x" using before_side [OF b] by blast
  have sw: "?A + usb_blocks ?d = block_of p + usb_blocks d" by (rule blocks_swap) (simp add: side_blocks_def ac_simps)
  have L: "io_pool io = usb_blocks d + P" using ok by (simp add: usb_ok_def usb_mem_def)
  have "io_pool ?io = usb_blocks ?d + (?A + P)"
  proof -
    have "io_pool ?io = (block_of p + usb_blocks d) + P" using L by (simp add: add.assoc)
    then show ?thesis unfolding sw [symmetric] by (simp add: ac_simps)
  qed
  moreover have "side_tags (uh_Side ?d u)" for u using ok_tags [OF ok, of u] ok_tags [OF ok, of s] t r by (simp add: upd_side_if side_tags_def)
  ultimately have m: "usb_mem (?A + P) X (?io, ?d)" using ok by (simp add: usb_ok_def usb_mem_def usb_members_def)
  have "stream_ok u (?io, ?d)" for u
    by (rule stream_quiet [OF ok_stream [OF ok]]) (use b in \<open>simp_all add: usb_before_def upd_side_if\<close>)
  then have "usb_ok (?A + P) X (?io, ?d)" using ok m by (simp add: usb_ok_def)
  moreover have "usb_refs ?d = usb_refs d" using refs_upd [of ?f d s "{#}"] by (simp add: side_refs_def)
  moreover have "usb_wired ?d" using full st by (intro wired_upd) (simp_all add: usb_full_def side_wired_def side_stage_def)
  ultimately have "usb_full (?A + P) X E (?io, ?d, w)" using full by (simp add: usb_full_def)
  moreover have "sides_todo h [UsbSpeaker, UsbMic] ?io ?d"
    using b v by (simp add: usb_before_def sides_todo_def upd_side_if side_stage_def side_props_ok_def)
  ultimately show ?thesis using b by (simp add: usb_before_def)
qed

text \<open>A descriptor that is dropped.\<close>

lemma before_leak:
  assumes b: "usb_before h P X E (io, d, w)"
  shows "usb_before h (block_of p + P) X E (io \<lparr> io_log := l, io_pool := block_of p + io_pool io \<rparr>, d, w)"
proof -
  let ?io = "io \<lparr> io_log := l, io_pool := block_of p + io_pool io \<rparr>"
  have ok: "usb_ok P X (io, d)" using b by (simp add: usb_before_def usb_full_def)
  then have "usb_mem (block_of p + P) X (?io, d)" by (simp add: usb_ok_def usb_mem_def ac_simps)
  moreover have "stream_ok s (?io, d)" for s using ok_stream [OF ok, of s] by (simp add: stream_ok_def)
  ultimately have "usb_ok (block_of p + P) X (?io, d)" using ok by (simp add: usb_ok_def)
  then show ?thesis using b by (simp add: usb_before_def usb_full_def sides_todo_def)
qed

text \<open>
  How many sides have a descriptor, how many endpoints the headset announced, and the blocks of \<open>k\<close>
  descriptors that were dropped.
\<close>

definition usb_stored :: "UsbHsDevice \<Rightarrow> nat" where
  "usb_stored d = size (block_of (us_Descriptor (uh_Side d UsbSpeaker))) + size (block_of (us_Descriptor (uh_Side d UsbMic)))"

definition usb_announced :: "UsbHsDevice \<Rightarrow> nat" where
  "usb_announced d = (case uh_Descriptor d of None \<Rightarrow> 0 | Some (t, v) \<Rightarrow> ur_NumberOfEndpoints v)"

abbreviation dropped :: "nat \<Rightarrow> pool_tag multiset" where
  "dropped k \<equiv> replicate_mset k MINADAPTER_POOLTAG"

lemma tagged_dropped: "tagged MINADAPTER_POOLTAG p \<Longrightarrow> block_of p = dropped (size (block_of p))"
  by (cases p) auto

lemma stored_upd:
  "size (block_of (us_Descriptor (uh_Side d s))) + usb_stored (upd_side s (\<lambda>x. x \<lparr> us_EpIndex := i, us_Descriptor := p \<rparr>) d)
    = size (block_of p) + usb_stored d"
  by (cases s) (simp_all add: usb_stored_def upd_side_if)

lemma dropped_add: "dropped k + (dropped l + P) = dropped (k + l) + P"
  by (induction k) simp_all

lemma endpoint_descriptor:
  assumes h: "h = usb_honest remote"
  shows "unless_fault (\<not> h) (GetUsbHsEndpointDescriptor remote e i io) (\<lambda>(st, p, io').
      (\<exists>l. io' = io \<lparr> io_log := l, io_pool := block_of p + io_pool io \<rparr>) \<and> (NT_SUCCESS st \<longleftrightarrow> p \<noteq> None)
      \<and> tagged MINADAPTER_POOLTAG p \<and> (\<forall>u v. h \<and> p = Some (u, v) \<longrightarrow> ur_whole v \<and> props_ok (ur_endpoint v)))"
proof (cases "ulong_overruns remote e (IOCTL_SBAUD_GET_ENDPOINT_DESCRIPTOR2 i) io")
  case True
  then have "\<not> usb_sizes remote" unfolding usb_sizes_def ulong_overruns_def
    by (auto split: prod.splits) (metis leD less_nat_zero_code)
  then show ?thesis using True h by (simp add: GetUsbHsEndpointDescriptor_def usb_honest_def)
next
  case False
  then have q: "GetUsbHsEndpointDescriptor remote e i io
      = query_block remote e MINADAPTER_POOLTAG ur_information (IOCTL_SBAUD_GET_ENDPOINT_DESCRIPTOR2 i) io"
    by (simp add: GetUsbHsEndpointDescriptor_def)
  obtain st p l where k: "query_block remote e MINADAPTER_POOLTAG ur_information (IOCTL_SBAUD_GET_ENDPOINT_DESCRIPTOR2 i) io
      = Some (st, p, io \<lparr> io_log := l, io_pool := block_of p + io_pool io \<rparr>)" "NT_SUCCESS st \<longleftrightarrow> p \<noteq> None" "tagged MINADAPTER_POOLTAG p"
    using query_tagged by blast
  have "ur_whole v \<and> props_ok (ur_endpoint v)" if p: "h" "p = Some (u, v)" for u v
  proof -
    obtain l n st' where "remote l (IOCTL_SBAUD_GET_ENDPOINT_DESCRIPTOR2 i n) = (st', v)" "NT_SUCCESS st'"
      using query_block_value [OF k(1) [unfolded p(2)]] by blast
    then show ?thesis using h p(1) unfolding usb_honest_def usb_whole_def usb_sizes_def by blast
  qed
  then show ?thesis using q k by auto
qed

text \<open>
  Every endpoint gives a descriptor; it is stored or dropped, and so is one that another overwrites.
\<close>

definition loop_post :: "bool \<Rightarrow> pool_tag multiset \<Rightarrow> wdf_object multiset \<Rightarrow> obj multiset \<Rightarrow> nat \<Rightarrow> bool \<Rightarrow> usb_world \<Rightarrow> bool" where
  "loop_post h P X E n ok = (\<lambda>(io, d, w). \<exists>k. usb_before h (dropped k + P) X E (io, d, w) \<and> k + usb_stored d \<le> n
     \<and> (ok \<longrightarrow> k + usb_stored d = n))"

lemma loop_post_drop: "loop_post h (B + P) X E m ok s \<Longrightarrow> B = dropped j \<Longrightarrow> m + j = n \<Longrightarrow> loop_post h P X E n ok s"
  unfolding loop_post_def by (cases s) (force simp: dropped_add)

lemma endpoint_loop_ok:
  assumes h: "h = usb_honest remote"
  shows "usb_before h P X E (io, d, w) \<Longrightarrow>
     unless_fault (\<not> h) (usb_endpoint_loop remote e is m (io, d))
       (\<lambda>(st, n, io', d'). loop_post h P X E (length is + usb_stored d) (NT_SUCCESS st) (io', d', w))"
proof (induction "is" arbitrary: m io d P)
  case Nil
  then show ?case by (auto simp: loop_post_def intro!: exI [of _ 0])
next
  case (Cons i js)
  obtain ns nm where m: "m = (ns, nm)" by fastforce
  note ed = endpoint_descriptor [OF h, of "e i" i io]
  show ?case
  proof (cases "GetUsbHsEndpointDescriptor remote (e i) i io")
    case None
    then show ?thesis using ed m by simp
  next
    case got: (Some x)
    obtain st p io1 where x: "x = (st, p, io1)" by (metis prod_cases3)
    obtain l where io1: "io1 = io \<lparr> io_log := l, io_pool := block_of p + io_pool io \<rparr>"
      and g: "NT_SUCCESS st \<longleftrightarrow> p \<noteq> None" "tagged MINADAPTER_POOLTAG p"
        "\<forall>u v. h \<and> p = Some (u, v) \<longrightarrow> ur_whole v \<and> props_ok (ur_endpoint v)" using ed got x by auto
    have pr: "\<forall>u v. h \<and> p = Some (u, v) \<longrightarrow> props_ok (ur_endpoint v)" using g(3) by blast
    show ?thesis
    proof (cases "NT_SUCCESS st")
      case False
      then have "p = None" using g(1) by blast
      then have "io1 = io \<lparr> io_log := l \<rparr>" using io1 by (cases io) simp
      then have "usb_before h (dropped 0 + P) X E (io1, d, w)" using Cons.prems by (simp add: usb_before_def usb_full_def sides_todo_def)
      then have "loop_post h P X E (length (i # js) + usb_stored d) False (io1, d, w)" unfolding loop_post_def by fastforce
      then show ?thesis using False got x m by simp
    next
      case True
      then obtain v where p: "p = Some (MINADAPTER_POOLTAG, v)" using g(1,2) by auto
      show ?thesis
      proof (cases "ur_whole v")
        case False
        then show ?thesis using got x m True p g(3) by simp
      next
        case whole: True
        then have r: "read_block ur_whole p \<noteq> None" using p by simp
        let ?old = "\<lambda>s. size (block_of (us_Descriptor (uh_Side d s)))"
        let ?d = "\<lambda>s. upd_side s (\<lambda>x. x \<lparr> us_EpIndex := i, us_Descriptor := p \<rparr>) d"
        have old: "block_of (us_Descriptor (uh_Side d s)) = dropped (?old s)" for s
        proof -
          have "side_tags (uh_Side d s)" using Cons.prems ok_tags by (auto simp: usb_before_def usb_full_def)
          then show ?thesis by (intro tagged_dropped) (simp add: side_tags_def)
        qed
        have n: "length js + usb_stored (?d s) + ?old s = Suc (length js) + usb_stored d" for s
          using stored_upd [where d = d and s = s and i = i and p = p] p by simp
        have step: "unless_fault (\<not> h) (usb_endpoint_loop remote e js m' (io1, ?d s))
            (\<lambda>(st, n, io', d'). loop_post h P X E (Suc (length js) + usb_stored d) (NT_SUCCESS st) (io', d', w))" for s m'
        proof (rule unless_fault_mono [OF Cons.IH [OF set_index [OF Cons.prems g(2) r pr, where l = l and s = s and i = i, folded io1]]])
          fix y assume "case y of (st, n, io', d') \<Rightarrow> loop_post h (block_of (us_Descriptor (uh_Side d s)) + P) X E
              (length js + usb_stored (?d s)) (NT_SUCCESS st) (io', d', w)"
          then show "case y of (st, n, io', d') \<Rightarrow> loop_post h P X E (Suc (length js) + usb_stored d) (NT_SUCCESS st) (io', d', w)"
            using loop_post_drop [OF _ old [of s] n [of s]] by (cases y) blast
        qed
        have leak: "unless_fault (\<not> h) (usb_endpoint_loop remote e js m' (io1, d))
            (\<lambda>(st, n, io', d'). loop_post h P X E (Suc (length js) + usb_stored d) (NT_SUCCESS st) (io', d', w))" for m'
        proof (rule unless_fault_mono [OF Cons.IH [OF before_leak [OF Cons.prems, where p = p and l = l, folded io1]]])
          fix y assume "case y of (st, n, io', d') \<Rightarrow> loop_post h (block_of p + P) X E (length js + usb_stored d) (NT_SUCCESS st) (io', d', w)"
          then show "case y of (st, n, io', d') \<Rightarrow> loop_post h P X E (Suc (length js) + usb_stored d) (NT_SUCCESS st) (io', d', w)"
            using loop_post_drop [where B = "block_of p" and j = 1 and m = "length js + usb_stored d"] p by (cases y) simp
        qed
        show ?thesis
        proof (cases "ed_Direction (ur_endpoint v)")
          case KSPIN_DATAFLOW_OUT
          then show ?thesis using step [of "(ns + 1, nm)" UsbSpeaker] got x True p whole m by simp
        next
          case KSPIN_DATAFLOW_IN
          then show ?thesis using step [of "(ns, nm + 1)" UsbMic] got x True p whole m by simp
        next
          case OtherDataflow
          then show ?thesis using leak [of m] got x True p whole m by simp
        qed
      qed
    qed
  qed
qed

subsection \<open>The whole of Start\<close>

lemma before_log: "usb_before h P X E (io \<lparr> io_log := l \<rparr>, d, w) = usb_before h P X E (io, d, w)"
  by (simp add: usb_before_def usb_full_def sides_todo_def)

abbreviation (input) usb_described :: "bool \<Rightarrow> pool_tag multiset \<Rightarrow> wdf_object multiset \<Rightarrow> obj multiset \<Rightarrow> usb_world \<Rightarrow> bool" where
  "usb_described h P X E s \<equiv> (case s of (io, d, w) \<Rightarrow> usb_before h P X E (io, d, w) \<and> usb_stored d = 0
     \<and> (h \<longrightarrow> read_block ur_whole (uh_Descriptor d) \<noteq> None))"

text \<open>What Start ends in: \<open>k\<close> descriptors are dropped, and when all of Start was done the others are stored.\<close>

definition usb_counted :: "pool_tag multiset \<Rightarrow> wdf_object multiset \<Rightarrow> obj multiset \<Rightarrow> bool \<Rightarrow> usb_world \<Rightarrow> bool" where
  "usb_counted P X E ok = (\<lambda>(io, d, w). \<exists>k. usb_full (dropped k + P) X E (io, d, w) \<and> k + usb_stored d \<le> usb_announced d
     \<and> (ok \<longrightarrow> k + usb_stored d = usb_announced d))"

lemma counted_none: "usb_full P X E (io, d, w) \<Longrightarrow> usb_stored d = 0 \<Longrightarrow> usb_counted P X E False (io, d, w)"
  unfolding usb_counted_def by (auto intro!: exI [of _ 0])

lemma start_descriptor_ok:
  assumes h: "h = usb_honest remote"
  shows "step_spec (\<lambda>(io, d, w). usb_before h P X E (io, d, w) \<and> uh_Descriptor d = None \<and> usb_stored d = 0) (usb_Start_descriptor remote e)
     (usb_described h P X E) (usb_counted P X E False)"
proof (rule step_specI, clarify)
  fix io d w assume b: "usb_before h P X E (io, d, w)" and n: "uh_Descriptor d = None" and z: "usb_stored d = 0"
  obtain st p l where q: "GetUsbHsDescriptor remote e io = Some (st, p, io \<lparr> io_log := l, io_pool := block_of p + io_pool io \<rparr>)"
      "NT_SUCCESS st \<longleftrightarrow> p \<noteq> None" "tagged MINADAPTER_POOLTAG p"
    unfolding GetUsbHsDescriptor_def using query_tagged by blast
  let ?io = "io \<lparr> io_log := l, io_pool := block_of p + io_pool io \<rparr>" and ?d = "d \<lparr> uh_Descriptor := p \<rparr>"
  have ok: "usb_ok P X (io, d)" using b by (simp add: usb_before_def usb_full_def)
  have "usb_mem P X (?io, ?d)"
    using ok n q(3) by (auto simp: usb_ok_def usb_mem_def usb_blocks_def usb_members_def ac_simps)
  moreover have "stream_ok s (?io, ?d)" for s using ok_stream [OF ok, of s] by (simp add: stream_ok_def)
  ultimately have "usb_ok P X (?io, ?d)" using ok by (simp add: usb_ok_def)
  then have "usb_before h P X E (?io, ?d, w)" using b by (simp add: usb_before_def usb_full_def sides_todo_def usb_refs_def usb_wired_def)
  moreover have "read_block ur_whole p \<noteq> None" if "NT_SUCCESS st" "h"
  proof -
    from that(1) q(2) obtain t v where p: "p = Some (t, v)" by auto
    obtain l' n st' where "remote l' (IOCTL_SBAUD_GET_DEVICE_DESCRIPTOR n) = (st', v)" "NT_SUCCESS st'"
      using query_block_value [OF q(1) [unfolded p GetUsbHsDescriptor_def]] by blast
    then have "ur_whole v" using \<open>h\<close> h unfolding usb_honest_def usb_whole_def by blast
    then show ?thesis using p by simp
  qed
  ultimately show "\<exists>st s'. usb_Start_descriptor remote e (io, d, w) = Some (st, s') \<and>
      (if NT_SUCCESS st then (usb_described h P X E) s' else usb_counted P X E False s')"
    using q(1,2) z counted_none by (simp add: usb_Start_descriptor_def usb_stored_def) (simp add: usb_before_def usb_stored_def)
qed

lemma start_hub_ok:
  "step_spec (usb_described h P X E) (usb_Start_hub remote e)
     (usb_described h P X E) (usb_counted P X E False)"
proof (rule step_specI, clarify)
  fix io d w assume b: "usb_before h P X E (io, d, w)" and z: "usb_stored d = 0" and n: "h \<longrightarrow> read_block ur_whole (uh_Descriptor d) \<noteq> None"
  obtain st p l where q: "GetSiop remote e SIDEBANDAUDIO_PARAMS_SET_USB_CONTROLLER SIOP_TYPE_USBAUD_CONTROLLER_CONFIG_INFO_DEVICE_BEHIND_HUB
        4294967295 USBSIDEBANDTEST_POOLTAG016 io = Some (st, p, io \<lparr> io_log := l, io_pool := block_of p + io_pool io \<rparr>)"
      "NT_SUCCESS st \<longleftrightarrow> p \<noteq> None" "tagged USBSIDEBANDTEST_POOLTAG016 p"
    unfolding GetSiop_def using query_tagged by blast
  let ?io = "io \<lparr> io_log := l, io_pool := block_of p + io_pool io \<rparr>"
  have f: "pool_free_opt (map_option fst p) USBSIDEBANDTEST_POOLTAG016 ?io = Some (?io \<lparr> io_pool := io_pool io \<rparr>)"
    by (rule free_tagged_eq) (simp_all add: q)
  have e: "?io \<lparr> io_pool := io_pool io \<rparr> = io \<lparr> io_log := l \<rparr>" by (cases io) simp
  have "usb_before h P X E (io \<lparr> io_log := l \<rparr>, d, w)" using b by (simp only: before_log)
  moreover have "?io = io \<lparr> io_log := l \<rparr>" if "\<not> NT_SUCCESS st"
  proof -
    have "p = None" using that q(2) by blast
    then show ?thesis by (cases io) simp
  qed
  ultimately show "\<exists>st s'. usb_Start_hub remote e (io, d, w) = Some (st, s') \<and>
      (if NT_SUCCESS st then (usb_described h P X E) s' else usb_counted P X E False s')"
    using q(1) f n z counted_none by (cases "NT_SUCCESS st") (simp_all add: usb_Start_hub_def e usb_before_def)
qed

lemma start_count_ok:
  "step_spec (usb_before h P X E) (usb_Start_count n)
     (\<lambda>(io, d, w). usb_full P X E (io, d, w) \<and> sides_todo h [UsbSpeaker, UsbMic] io d) (usb_full P X E)"
proof (rule step_specI, clarify)
  fix io d w assume b: "usb_before h P X E (io, d, w)"
  let ?i = "\<lambda>x. x \<lparr> us_EpIndex := 0 \<rparr>"
  let ?d = "upd_side UsbMic ?i (upd_side UsbSpeaker ?i d)"
  have sd: "uh_Side ?d s = ?i (uh_Side d s)" for s by (cases s) (simp_all add: upd_side_if)
  have full: "usb_full P X E (io, d, w)" using b by (simp add: usb_before_def)
  then have ok: "usb_ok P X (io, d)" by (simp add: usb_full_def)
  have bl: "side_blocks (?i x) = side_blocks x" "side_tags (?i x) = side_tags x" "side_refs (?i x) = side_refs x" for x :: usb_side_state
    by (simp_all add: side_blocks_def side_tags_def side_refs_def)
  have "usb_mem P X (io, ?d)" using ok by (simp add: usb_ok_def usb_mem_def usb_blocks_def sd bl usb_members_def)
  moreover have "stream_ok s (io, ?d)" for s
    by (rule stream_quiet [OF ok_stream [OF ok]]) (use b in \<open>simp_all add: usb_before_def sd\<close>)
  ultimately have "usb_ok P X (io, ?d)" using ok by (simp add: usb_ok_def)
  then have "usb_full P X E (io, ?d, w)" using full by (simp add: usb_full_def usb_refs_def usb_wired_def sd bl)
  then show "\<exists>st s'. usb_Start_count n (io, d, w) = Some (st, s') \<and>
      (if NT_SUCCESS st then (\<lambda>(io, d, w). usb_full P X E (io, d, w) \<and> sides_todo h [UsbSpeaker, UsbMic] io d) s' else usb_full P X E s')"
    using b by (simp add: usb_Start_count_def usb_before_def)
qed

lemma claim_log: "\<exists>st l. SetSidebandClaimed remote b io = (st, io \<lparr> io_log := l \<rparr>)"
  by (auto simp: SetSidebandClaimed_def usb_SendIoCtrlSynchronously_def SendIoCtrlSynchronously_def split: prod.split)

text \<open>After the endpoints, Start keeps the descriptors.\<close>

definition usb_found :: "usb_world \<Rightarrow> usb_block \<times> (usb_side \<Rightarrow> usb_block)" where
  "usb_found = (\<lambda>(io, d, w). (uh_Descriptor d, \<lambda>s. us_Descriptor (uh_Side d s)))"

lemma usb_value_found: "usb_get_volume s remote ch (io, d) = (st, v, io', d') \<Longrightarrow> usb_found (io', d', w) = usb_found (io, d, w)"
  "usb_get_mute s remote ch (io, d) = (st, v, io', d') \<Longrightarrow> usb_found (io', d', w) = usb_found (io, d, w)"
  using usb_get_volume_log [of s remote ch io d] usb_get_mute_log [of s remote ch io d] by (auto simp: usb_found_def)

lemma upd_found [simp]:
  "us_Descriptor (f (uh_Side d s)) = us_Descriptor (uh_Side d s) \<Longrightarrow> usb_found (io, upd_side s f d, w) = usb_found (io', d, w')"
  by (auto simp: usb_found_def upd_side_if)

lemma found_io [simp]: "NO_MATCH (io :: usb_io) io' \<Longrightarrow> usb_found (io', d, w') = usb_found (io, d, w')"
  by (simp add: usb_found_def)

lemma usb_Start_found:
  "step_keeps usb_found (usb_Start_count n)" "step_keeps usb_found (usb_Start_volume s remote al)"
  "step_keeps usb_found (usb_Start_mute s remote al)" "step_keeps usb_found (usb_Start_formats s remote qe)"
  "step_keeps usb_found (usb_Start_pair s cf pe)" "step_keeps usb_found (usb_Start_verify s cf)"
  "step_keeps usb_found (usb_Start_filters s fe)" "step_keeps usb_found (usb_Start_enable s se)"
  "step_keeps usb_found (usb_Start_notify n)" "step_keeps usb_found (usb_Start_claim remote)"
  by (auto simp: step_keeps_def usb_Start_count_def usb_Start_volume_def usb_Start_mute_def usb_Start_formats_def usb_Start_pair_def
      usb_Start_verify_def usb_Start_filters_def usb_Start_enable_def usb_Start_notify_def usb_Start_claim_def Let_def usb_found_def
      upd_side_if fun_eq_iff split: prod.splits bind_splits if_splits dest!: usb_value_found [unfolded usb_found_def])

lemma side_found: "step_keeps usb_found (usb_Start_side s remote cf e)"
  unfolding step_keeps_def usb_Start_side_def
  by (auto simp del: run_steps.simps split: if_splits elim!: run_steps_keeps [rotated] simp: usb_Start_found)

lemma endpoints_announced:
  "usb_Start_endpoints remote e (io, d) = Some (st, n, io', d') \<Longrightarrow> usb_announced d' = usb_announced d"
proof -
  have "usb_endpoint_loop remote e is m (io, d) = Some (st, n, io', d') \<Longrightarrow> uh_Descriptor d' = uh_Descriptor d" for "is" m
  proof (induction "is" arbitrary: m io d)
    case (Cons i js)
    obtain ns nm where m: "m = (ns, nm)" by (cases m)
    from Cons.prems m obtain st1 p io1 where g: "GetUsbHsEndpointDescriptor remote (e i) i io = Some (st1, p, io1)" by (auto split: bind_splits)
    show ?case
    proof (cases "NT_SUCCESS st1")
      case True
      then obtain ed where "map_option ur_endpoint (read_block ur_whole p) = Some ed" using Cons.prems m g by (auto split: bind_splits)
      then show ?thesis using Cons.prems m g True by (auto split: ks_dataflow.splits dest!: Cons.IH)
    qed (use Cons.prems m g in simp)
  qed simp
  then show "usb_Start_endpoints remote e (io, d) = Some (st, n, io', d') \<Longrightarrow> usb_announced d' = usb_announced d"
    by (auto simp: usb_Start_endpoints_def usb_announced_def split: bind_splits)
qed

lemma found_counts: "usb_found (io', d', w') = usb_found (io, d, w) \<Longrightarrow> usb_stored d' = usb_stored d \<and> usb_announced d' = usb_announced d"
  by (auto simp: usb_found_def usb_stored_def usb_announced_def fun_eq_iff)

lemma start_rest_ok:
  assumes h: "h = usb_honest remote" and e: "\<forall>s. filters_ok (us_filters e s)"
  shows "step_may (\<not> h) (usb_described h P X E) (usb_Start_rest remote cf e) (usb_counted P X E True) (usb_counted P X E False)"
proof (rule step_mayI, clarify)
  fix io d w assume b: "usb_before h P X E (io, d, w)" and z: "usb_stored d = 0" and n: "h \<longrightarrow> read_block ur_whole (uh_Descriptor d) \<noteq> None"
  let ?steps = "\<lambda>m. [usb_Start_count m, usb_Start_side UsbSpeaker remote cf e, usb_Start_side UsbMic remote cf e, usb_Start_notify m,
    usb_Start_claim remote]"
  let ?post = "\<lambda>(st, s'). if NT_SUCCESS st then usb_counted P X E True s' else usb_counted P X E False s'"
  have steps: "unless_fault (\<not> h) (run_steps (?steps m) s) (\<lambda>(st, s'). if NT_SUCCESS st then usb_full P' X E s' else usb_full P' X E s')"
    if "usb_before h P' X E s" for P' m s
  proof -
    have 3: "step_spec (\<lambda>(io, d, w). usb_full P' X E (io, d, w) \<and> sides_todo h [] io d) (usb_Start_notify m) (usb_full P' X E) (usb_full P' X E)"
      by (auto simp: step_spec_def usb_Start_notify_def)
    have 4: "step_spec (usb_full P' X E) (usb_Start_claim remote) (usb_full P' X E) (usb_full P' X E)"
    proof (rule step_specI, clarify)
      fix io d w assume "usb_full P' X E (io, d, w)"
      then show "\<exists>st s'. usb_Start_claim remote (io, d, w) = Some (st, s') \<and> (if NT_SUCCESS st then usb_full P' X E s' else usb_full P' X E s')"
        using claim_log [of remote TRUE_BOOL io] full_core [OF _ refl, of P' X E io d w] by (auto simp: usb_Start_claim_def)
    qed
    note all = step_may_Cons [OF step_may_spec [OF start_count_ok] step_may_Cons [OF usb_Start_side_ok [OF h _ e]
        step_may_Cons [OF usb_Start_side_ok [OF h _ e] step_may_Cons [OF step_may_spec [OF 3] step_may_Cons [OF step_may_spec [OF 4] step_may_Nil]]]]]
    show ?thesis by (rule step_mayD [OF all that]) simp_all
  qed
  have l: "unless_fault (\<not> h) (usb_Start_endpoints remote (us_endpoints e) (io, d))
      (\<lambda>(st, m, io1, d1). loop_post h P X E (usb_announced d) (NT_SUCCESS st) (io1, d1, w))"
  proof (cases "read_block ur_whole (uh_Descriptor d)")
    case (Some v)
    then have "usb_announced d = ur_NumberOfEndpoints v" by (auto simp: usb_announced_def read_block_Some)
    then show ?thesis
      using Some z endpoint_loop_ok [OF h b, of "us_endpoints e" "[0..<ur_NumberOfEndpoints v]" "(0, 0)"] by (simp add: usb_Start_endpoints_def)
  qed (use n in \<open>simp add: usb_Start_endpoints_def\<close>)
  show "unless_fault (\<not> h) (usb_Start_rest remote cf e (io, d, w)) ?post"
    unfolding usb_Start_rest_def prod.case
  proof (rule unless_fault_bind [OF l], clarify)
    fix st ns nm io1 d1
    assume r: "usb_Start_endpoints remote (us_endpoints e) (io, d) = Some (st, (ns, nm), io1, d1)"
      and k: "loop_post h P X E (usb_announced d) (NT_SUCCESS st) (io1, d1, w)"
    have an: "usb_announced d1 = usb_announced d" using endpoints_announced [OF r] .
    obtain k where k: "usb_before h (dropped k + P) X E (io1, d1, w)" "k + usb_stored d1 \<le> usb_announced d1"
        "NT_SUCCESS st \<longrightarrow> k + usb_stored d1 = usb_announced d1" using k by (auto simp: loop_post_def an)
    show "unless_fault (\<not> h) (if \<not> NT_SUCCESS st then Some (st, io1, d1, w) else run_steps (?steps (ns, nm)) (io1, d1, w)) ?post"
    proof (cases "NT_SUCCESS st")
      case False
      then show ?thesis using k by (auto simp: usb_counted_def usb_before_def)
    next
      case True
      have "unless_fault (\<not> h) (run_steps (?steps (ns, nm)) (io1, d1, w)) ?post"
      proof (rule unless_fault_mono [OF steps [OF k(1)]], clarify)
        fix st' io2 d2 w2
        assume r2: "run_steps (?steps (ns, nm)) (io1, d1, w) = Some (st', io2, d2, w2)"
          and f: "if NT_SUCCESS st' then usb_full (dropped k + P) X E (io2, d2, w2) else usb_full (dropped k + P) X E (io2, d2, w2)"
        have "usb_found (io2, d2, w2) = usb_found (io1, d1, w)"
          by (rule run_steps_keeps [OF _ r2]) (simp add: usb_Start_found side_found)
        from found_counts [OF this] f k(3) True
        show "if NT_SUCCESS st' then usb_counted P X E True (io2, d2, w2) else usb_counted P X E False (io2, d2, w2)"
          by (auto simp: usb_counted_def)
      qed
      then show ?thesis using True by simp
    qed
  qed
qed

lemma usb_Start_ok:
  assumes b: "usb_before h P X E (io, d, w)" and n: "uh_Descriptor d = None" and z: "usb_stored d = 0" and h: "h = usb_honest remote"
    and e: "\<forall>s. filters_ok (us_filters e s)"
  shows "unless_fault (\<not> h) (usb_Start remote cf e (io, d, w))
    (\<lambda>(io', d', w'). usb_counted P X E (uh_State d' \<noteq> StateFailed) (io', d', w'))"
proof -
  note all = step_may_Cons [OF step_may_spec [OF start_descriptor_ok [OF h]] step_may_Cons [OF step_may_spec [OF start_hub_ok]
    step_may_Cons [OF start_rest_ok [OF h e] step_may_Nil]]]
  have pre: "(\<lambda>(io, d, w). usb_before h P X E (io, d, w) \<and> uh_Descriptor d = None \<and> usb_stored d = 0) (io, d, w)" using b n z by simp
  have failed: "usb_counted P X E False (snd (SetSidebandClaimed remote FALSE_BOOL io1), d1 \<lparr> uh_State := StateFailed \<rparr>, w1)"
    if c0: "usb_counted P X E False (io1, d1, w1)" for io1 d1 w1
  proof -
    obtain k where k: "usb_full (dropped k + P) X E (io1, d1, w1)" "k + usb_stored d1 \<le> usb_announced d1" using c0 by (auto simp: usb_counted_def)
    obtain st' l where c: "SetSidebandClaimed remote FALSE_BOOL io1 = (st', io1 \<lparr> io_log := l \<rparr>)" using claim_log by blast
    have "usb_full (dropped k + P) X E (io1 \<lparr> io_log := l \<rparr>, d1, w1)" by (rule full_core [OF k(1) refl])
    then have "usb_full (dropped k + P) X E (io1 \<lparr> io_log := l \<rparr>, d1 \<lparr> uh_State := StateFailed \<rparr>, w1)"
      by (simp add: usb_full_def usb_ok_def usb_mem_def stream_ok_def usb_blocks_def usb_members_def usb_refs_def usb_wired_def)
    then show ?thesis using k(2) by (auto simp: c usb_counted_def usb_stored_def usb_announced_def)
  qed
  have weaker: "usb_counted P X E True s \<Longrightarrow> usb_counted P X E ok s" for s ok by (auto simp: usb_counted_def)
  show ?thesis unfolding usb_Start_def
    by (rule unless_fault_bind [OF step_mayD [OF all pre]]) (auto simp: failed weaker split: if_splits)
qed

section \<open>Stop\<close>

lemma usb_cancel_ok:
  assumes ok: "usb_ok P X (io, d)"
  shows "\<exists>io' d'. usb_cancel_stream s (io, d) = Some (io', d') \<and> usb_ok P X (io', d') \<and> usb_fixed d' = usb_fixed d
    \<and> \<not> pending_in io' (UsbStreamReq s) \<and> io_purged io' = io_purged io \<and> (\<forall>q. q \<noteq> UsbStreamReq s \<longrightarrow> io_reqs io' q = io_reqs io q)"
proof -
  obtain r where r: "io_reqs io (UsbStreamReq s) = Some r" "Pending r \<longrightarrow> up_EpIndex (Buffer r) = us_EpIndex (uh_Side d s)"
    using ok_stream [OF ok, of s] by (auto simp: stream_ok_def)
  show ?thesis
  proof (cases "Pending r")
    case True
    then show ?thesis using usb_completion_ok [OF ok r(1) True, of "Buffer r" STATUS_CANCELLED] r
      by (auto simp: usb_cancel_stream_def io_frame_def)
  qed (use r ok in \<open>simp add: usb_cancel_stream_def pending_in_def\<close>)
qed

lemma usb_purge_ok:
  assumes ok: "usb_ok P X (io, d)"
  shows "\<exists>io' d'. usb_purge (io, d) = Some (io', d') \<and> usb_ok P X (io', d') \<and> usb_fixed d' = usb_fixed d
    \<and> io_purged io' \<and> (\<forall>q. \<not> pending_in io' q)"
proof -
  let ?io0 = "io \<lparr> io_purged := True \<rparr>"
  have ok0: "usb_ok P X (?io0, d)" using ok by (simp add: usb_ok_def usb_mem_def stream_ok_def)
  obtain io1 where c: "cancel_all usb_notifications ?io0 = Some io1" "notifs_ok usb_notifications io1" "io_frame ?io0 io1"
      "\<forall>q \<in> set usb_notifications. \<not> pending_in io1 q" "\<forall>q. q \<notin> set usb_notifications \<longrightarrow> io_reqs io1 q = io_reqs ?io0 q"
    using cancel_all_ok [OF ok_notifs [OF ok0] order.refl] by blast
  have ok1: "usb_ok P X (io1, d)" using usb_ok_core [OF ok0 c(3) c(2) refl] c(5) by simp
  obtain io2 d2 where 2: "usb_cancel_stream UsbSpeaker (io1, d) = Some (io2, d2)" "usb_ok P X (io2, d2)" "usb_fixed d2 = usb_fixed d"
      "\<not> pending_in io2 (UsbStreamReq UsbSpeaker)" "io_purged io2 = io_purged io1"
      "\<forall>q. q \<noteq> UsbStreamReq UsbSpeaker \<longrightarrow> io_reqs io2 q = io_reqs io1 q"
    using usb_cancel_ok [OF ok1, of UsbSpeaker] by blast
  obtain io3 d3 where 3: "usb_cancel_stream UsbMic (io2, d2) = Some (io3, d3)" "usb_ok P X (io3, d3)" "usb_fixed d3 = usb_fixed d2"
      "\<not> pending_in io3 (UsbStreamReq UsbMic)" "io_purged io3 = io_purged io2"
      "\<forall>q. q \<noteq> UsbStreamReq UsbMic \<longrightarrow> io_reqs io3 q = io_reqs io2 q"
    using usb_cancel_ok [OF 2(2), of UsbMic] by blast
  have "\<not> pending_in io3 q" for q
  proof (cases "q \<in> set usb_notifications")
    case True
    then have "q \<noteq> UsbStreamReq s" for s using stream_no_notification by blast
    then have "io_reqs io3 q = io_reqs io1 q" using 2(6) 3(6) by simp
    then show ?thesis using c(4) True by (simp add: pending_in_def)
  next
    case False
    then obtain s where "q = UsbStreamReq s" using notification_or_stream by blast
    then show ?thesis using 2(4) 3(4,6) by (cases s) (simp_all add: pending_in_def)
  qed
  moreover have "io_purged io3" using 2(5) 3(5) c(3) by (simp add: io_frame_def)
  ultimately show ?thesis using c(1) 2(1,3) 3(1,2,3) by (simp add: usb_purge_def)
qed

lemma no_filters_index [simp]: "side_of_index i (usb_no_filters d) = side_of_index i d"
  by (simp add: side_of_index_def usb_no_filters_def)

lemma no_filters_side [simp]: "uh_Side (usb_no_filters d) s = (uh_Side d s) \<lparr> us_UnknownTopology := None, us_UnknownWave := None \<rparr>"
  "uh_SymbolicLinkName (usb_no_filters d) = uh_SymbolicLinkName d" "uh_Descriptor (usb_no_filters d) = uh_Descriptor d"
  "usb_members (usb_no_filters d) = usb_members d"
  by (simp_all add: usb_no_filters_def usb_members_def)

lemma no_filters_ok: "usb_ok P X (io, d) \<Longrightarrow> usb_ok P X (io, (usb_no_filters d) \<lparr> uh_State := x \<rparr>)"
  by (simp add: usb_ok_def usb_mem_def stream_ok_def usb_blocks_def side_blocks_def side_tags_def usb_members_state)

lemma fixedD:
  assumes "usb_fixed d' = usb_fixed d"
  shows "us_Miniports (uh_Side d' s) = us_Miniports (uh_Side d s)" "us_UnknownTopology (uh_Side d' s) = us_UnknownTopology (uh_Side d s)"
    "us_UnknownWave (uh_Side d' s) = us_UnknownWave (uh_Side d s)" "us_Descriptor (uh_Side d' s) = us_Descriptor (uh_Side d s)"
    "uh_SymbolicLinkName d' = uh_SymbolicLinkName d" "uh_State d' = uh_State d"
  using assms by (auto simp: usb_fixed_def fun_eq_iff)

lemma release_refs:
  assumes "acct w (usb_refs d + E)"
  shows "\<exists>w'. usb_release_filters d w = Some w' \<and> acct w' E"
  using release_four [of w "us_UnknownTopology (uh_Side d UsbSpeaker)" "us_UnknownWave (uh_Side d UsbSpeaker)"
      "us_UnknownTopology (uh_Side d UsbMic)" "us_UnknownWave (uh_Side d UsbMic)" E] assms
  by (auto simp: usb_refs_def side_refs_def usb_release_filters_def add.assoc)

lemma usb_Stop_ok:
  assumes f: "usb_full P X E (io, d, w)"
  shows "\<exists>io' d' w'. usb_Stop e (io, d, w) = Some (io', d', w') \<and> usb_full P X E (io', d', w') \<and> (\<forall>q. \<not> pending_in io' q)
    \<and> \<not> io_queued io' \<and> \<not> io_busy io' \<and> usb_refs d' = {#} \<and> uh_State d' = StateStopped
    \<and> (\<forall>s. us_Descriptor (uh_Side d' s) = us_Descriptor (uh_Side d s)) \<and> uh_SymbolicLinkName d' = uh_SymbolicLinkName d"
proof -
  let ?d0 = "d \<lparr> uh_State := StateStopping \<rparr>"
  have ok: "usb_ok P X (io, ?d0)"
    using f by (simp add: usb_full_def usb_ok_def usb_mem_def stream_ok_def usb_blocks_def usb_members_def)
  obtain io1 d1 where 1: "usb_purge (io, ?d0) = Some (io1, d1)" "usb_ok P X (io1, d1)" "usb_fixed d1 = usb_fixed ?d0" "io_purged io1"
      "\<forall>q. \<not> pending_in io1 q" using usb_purge_ok [OF ok] by blast
  obtain io2 d2 where 2: "notif_flush usb_notification id (ux_work e) (io1, d1) = Some (io2, d2)"
      "notifs_ok usb_notifications io2" "io_frame io1 io2" "\<not> io_queued io2" "\<not> io_busy io2"
      "\<forall>q. q \<notin> set usb_notifications \<longrightarrow> io_reqs io2 q = io_reqs io1 q"
      "\<forall>q. io_purged io1 \<longrightarrow> pending_in io2 q = pending_in io1 q" "usb_core d2 = usb_core d1"
    using usb_notif.flush_ok [OF ok_notifs [OF 1(2)], of id "ux_work e" d1 "usb_core d1"] by blast
  have ok2: "usb_ok P X (io2, d2)" using usb_ok_core [OF 1(2) 2(3) 2(2) 2(8)] 2(6) by simp
  have fx: "usb_fixed d2 = usb_fixed ?d0" using fixed_core [OF 2(8)] 1(3) by simp
  note fd = fixedD [OF fx, simplified]
  have refs: "usb_refs d2 = usb_refs d" by (simp add: usb_refs_def side_refs_def fd)
  have a: "acct w (usb_refs d2 + E)" using f refs by (simp add: usb_full_def)
  have i: "us_UnknownTopology (uh_Side d2 s) \<noteq> None \<or> us_UnknownWave (uh_Side d2 s) \<noteq> None \<longrightarrow> us_Miniports (uh_Side d2 s) \<noteq> None" for s
    using f by (simp add: fd usb_full_def usb_wired_def)
  obtain w1 where w1: "usb_remove UsbSpeaker (ux_filters e UsbSpeaker) d2 w = Some w1" "acct w1 (usb_refs d2 + E)"
    unfolding usb_remove_def using remove_filters_ok [OF a i] by blast
  obtain w2 where w2: "usb_remove UsbMic (ux_filters e UsbMic) d2 w1 = Some w2" "acct w2 (usb_refs d2 + E)"
    unfolding usb_remove_def using remove_filters_ok [OF w1(2) i] by blast
  obtain w3 where w3: "usb_release_filters d2 w2 = Some w3" "acct w3 E" using release_refs [OF w2(2)] by blast
  let ?d3 = "(usb_no_filters d2) \<lparr> uh_State := StateStopped \<rparr>"
  have "usb_Stop e (io, d, w) = Some (io2, ?d3, w3)" using 1(1) 2(1) w1(1) w2(1) w3(1) by (simp add: usb_Stop_def)
  moreover have "usb_refs ?d3 = {#}" "usb_wired ?d3" by (simp_all add: usb_refs_def side_refs_def usb_wired_def)
  moreover have "usb_ok P X (io2, ?d3)" by (rule no_filters_ok [OF ok2])
  moreover have "us_Descriptor (uh_Side ?d3 s) = us_Descriptor (uh_Side d s)" "uh_SymbolicLinkName ?d3 = uh_SymbolicLinkName d" for s
    by (simp_all add: fd)
  ultimately show ?thesis using w3(2) 1(4,5) 2(4,5,7) by (simp add: usb_full_def)
qed

section \<open>The destructor\<close>

text \<open>An endpoint descriptor is freed with the wrong tag.\<close>

lemma dtor_memory_fault:
  assumes "side_tags (uh_Side d s)" and "us_Descriptor (uh_Side d s) \<noteq> None"
  shows "usb_dtor_memory d io = None"
proof -
  have "USBSIDEBANDTEST_POOLTAG02 \<noteq> MINADAPTER_POOLTAG" by (simp add: const_defs)
  then have "free_side_block us_Descriptor USBSIDEBANDTEST_POOLTAG02 s d x = None" for x
    using assms free_wrong_tag [of MINADAPTER_POOLTAG "us_Descriptor (uh_Side d s)" USBSIDEBANDTEST_POOLTAG02 x]
    by (simp add: free_side_block_def side_tags_def)
  then show ?thesis by (cases s) (simp_all add: usb_dtor_memory_def)
qed

lemma dtor_memory_ok:
  assumes m: "usb_mem P X (io, d)" and n: "\<forall>s. us_Descriptor (uh_Side d s) = None"
  shows "usb_dtor_memory d io = Some (io \<lparr> io_pool := P \<rparr>)"
proof -
  let ?a = "uh_Side d UsbSpeaker" and ?b = "uh_Side d UsbMic"
  have t: "tagged MINADAPTER_POOLTAG (uh_SymbolicLinkName d)" "tagged MINADAPTER_POOLTAG (uh_Descriptor d)"
    using m by (simp_all add: usb_mem_def)
  have "side_tags (uh_Side d s)" for s using m by (simp add: usb_mem_def)
  then have u: "pair_ok (us_Miniports (uh_Side d s))" "tagged USBSIDEBANDTEST_POOLTAG03 (us_SupportedFormatsIntersection (uh_Side d s))"
      "transport_tags (us_TransportResources (uh_Side d s))" "tagged USBSIDEBANDTEST_POOLTAG02 (us_VolumePropValues (uh_Side d s))"
      "tagged USBSIDEBANDTEST_POOLTAG06 (us_MutePropValues (uh_Side d s))" for s by (simp_all add: side_tags_def)
  have b: "io_pool io = block_of (uh_SymbolicLinkName d) + (pair_blocks (us_Miniports ?a) + (pair_blocks (us_Miniports ?b)
      + (block_of (uh_Descriptor d) + (block_of (us_SupportedFormatsIntersection ?a) + (block_of (us_SupportedFormatsIntersection ?b)
      + (transport_blocks (us_TransportResources ?a) + (transport_blocks (us_TransportResources ?b)
      + (block_of (us_VolumePropValues ?a) + (block_of (us_VolumePropValues ?b) + (block_of (us_MutePropValues ?a)
      + (block_of (us_MutePropValues ?b) + P)))))))))))"
    using m n by (simp add: usb_mem_def usb_blocks_def side_blocks_def ac_simps)
  have none: "us_Descriptor (uh_Side d s) = None" "pool_free_opt None tag x = Some x" for s tag and x :: usb_io
    using n by (simp_all add: pool_free_opt_def)
  show ?thesis
    unfolding usb_dtor_memory_def usb_DeleteCustomEndpointMinipair_def
    by (simp add: none free_side_block_def free_tagged_eq [OF _ t(1)] free_tagged_eq [OF _ t(2)] Delete_memory [OF _ u(1)]
        free_tagged_eq [OF _ u(2)] FreeTransport_eq [OF _ u(3)] free_tagged_eq [OF _ u(4)] free_tagged_eq [OF _ u(5)] b)
qed

lemma dtor_target_ok:
  assumes pw: "powered M a" and o: "io_objects io = usb_members d + Y"
  shows "\<exists>a' d'. usb_dtor_target p (io, d, a) = Some (io \<lparr> io_objects := usb_members d' + Y \<rparr>, d', a') \<and> powered M a'
    \<and> d' = d \<lparr> uh_WdfIoTarget := False \<rparr>"
proof -
  obtain c r where a: "a = (c, r)" by fastforce
  obtain c' r' where 1: "RemoveDeviceAsPowerDependency p c r = Some (STATUS_SUCCESS, c', r')" "powered M (c', r')"
    using Remove_accounted [of r c M p] pw by (auto simp: a powered_def)
  show ?thesis
  proof (cases "uh_WdfIoTarget d")
    case True
    then show ?thesis using 1 a o by (auto simp: usb_dtor_target_def wdf_delete_def usb_members_def)
  next
    case False
    have "io = io \<lparr> io_objects := usb_members (d \<lparr> uh_WdfIoTarget := False \<rparr>) + Y \<rparr>" using o False by (cases io) (simp add: usb_members_def)
    moreover have "d = d \<lparr> uh_WdfIoTarget := False \<rparr>" using False by (cases d) simp
    ultimately show ?thesis using False a pw by (auto simp: usb_dtor_target_def)
  qed
qed

text \<open>
  The destructor faults exactly when the device has an endpoint descriptor. Otherwise it returns all
  memory, all objects, the power relation and the filters.
\<close>

lemma usb_dtor_ok:
  assumes m: "usb_mem P X (io, d)" and p: "\<forall>q. \<not> pending_in io q" and pw: "powered M a" and w: "acct w (usb_refs d + E)"
  shows "if \<exists>s. us_Descriptor (uh_Side d s) \<noteq> None then usb_dtor pd ((io, d, a), w) = None
    else \<exists>io' a' w'. usb_dtor pd ((io, d, a), w) = Some (io', a', w') \<and> io_pool io' = P
      \<and> io_objects io' = X \<and> powered M a' \<and> acct w' E"
proof -
  let ?d = "d \<lparr> uh_WdfIoTarget := False \<rparr>"
  have "io_objects io = usb_members d + (usb_req_objs io + X)" using m by (simp add: usb_mem_def add.assoc)
  from dtor_target_ok [OF pw this, of pd] obtain a' where
    1: "usb_dtor_target pd (io, d, a) = Some (io \<lparr> io_objects := usb_members ?d + (usb_req_objs io + X) \<rparr>, ?d, a')" "powered M a'" by auto
  let ?io1 = "io \<lparr> io_objects := usb_members ?d + (usb_req_objs io + X) \<rparr>"
  have m1: "usb_mem P X (?io1, ?d)" using m by (simp add: usb_mem_def usb_blocks_def add.assoc)
  show ?thesis
  proof (cases "\<exists>s. us_Descriptor (uh_Side d s) \<noteq> None")
    case True
    then obtain s where s: "us_Descriptor (uh_Side d s) \<noteq> None" by blast
    have "usb_dtor_memory ?d ?io1 = None" by (rule dtor_memory_fault [of _ s]) (use m s in \<open>simp_all add: usb_mem_def\<close>)
    then show ?thesis using True 1(1) by (simp add: usb_dtor_def)
  next
    case False
    then have "\<forall>s. us_Descriptor (uh_Side d s) = None" by blast
    then have "\<forall>s. us_Descriptor (uh_Side ?d s) = None" by simp
    then have 2: "usb_dtor_memory ?d ?io1 = Some (?io1 \<lparr> io_pool := P \<rparr>)" by (rule dtor_memory_ok [OF m1])
    let ?W = "if uh_WorkItem d then {#WdfWorkItem#} else {#}" and ?C = "if uh_ReqCollection d then {#WdfCollection#} else {#}"
    let ?io2 = "?io1 \<lparr> io_pool := P \<rparr>"
    have o: "io_objects ?io2 = sum_list (map (\<lambda>q. req_objs (req_mems ?io2 q)) usb_requests) + (?W + (?C + X))"
      by (simp add: usb_members_def usb_req_objs_def ac_simps)
    have "\<forall>q. \<not> pending_in ?io2 q" "distinct usb_requests" using p by (simp_all add: usb_requests_def)
    from delete_requests_ok [OF this o] obtain g where
      3: "delete_requests usb_requests ?io2 = Some (?io2 \<lparr> io_objects := ?W + (?C + X), io_reqs := g \<rparr>)" by blast
    let ?io3 = "?io2 \<lparr> io_objects := ?W + (?C + X), io_reqs := g \<rparr>"
    let ?io4 = "?io3 \<lparr> io_objects := ?C + X \<rparr>"
    have 4: "wdf_delete_if (uh_WorkItem d) WdfWorkItem ?io3 = Some ?io4" by (rule delete_if_eq) simp
    have 5: "wdf_delete_if (uh_ReqCollection d) WdfCollection ?io4 = Some (?io4 \<lparr> io_objects := X \<rparr>)" by (rule delete_if_eq) simp
    have "usb_refs ?d = usb_refs d" by (simp add: usb_refs_def)
    then obtain w' where 6: "usb_release_filters ?d w = Some w'" "acct w' E" using release_refs [of w ?d E] w by auto
    have "usb_dtor pd ((io, d, a), w) = Some (?io4 \<lparr> io_objects := X \<rparr>, a', w')"
      unfolding usb_dtor_def usb_dtor_requests_def prod.case 1(1) bind.bind_lunit 2 3 using 4 5 6(1) by simp
    then show ?thesis using False 1(2) 6(2) by auto
  qed
qed

section \<open>From Init to the destructor\<close>

lemma initial_mem:
  assumes "usb_initial P X M (io, d, a)"
  shows "usb_mem P X (io, d)" "usb_stored d = 0" "usb_refs d = {#}" "\<forall>s. us_Descriptor (uh_Side d s) = None"
    "\<forall>q. \<not> pending_in io q" "powered M a" "uh_Descriptor d = None"
proof -
  have "side_fresh (uh_Side d s)" for s using assms by (simp add: usb_initial_def)
  then have s: "side_blocks (uh_Side d s) = {#}" "side_tags (uh_Side d s)" "side_refs (uh_Side d s) = {#}"
      "us_Descriptor (uh_Side d s) = None" for s
    by (simp_all add: side_fresh_def side_blocks_def side_tags_def side_refs_def)
  then show "usb_stored d = 0" by (simp add: usb_stored_def)
  show "usb_mem P X (io, d)" using assms s by (simp add: usb_initial_def usb_mem_def usb_blocks_def)
  show "usb_refs d = {#}" "\<forall>s. us_Descriptor (uh_Side d s) = None" using s by (simp_all add: usb_refs_def)
  show "\<forall>q. \<not> pending_in io q" using assms by (auto simp: usb_initial_def pending_in_def split: option.splits)
  show "powered M a" "uh_Descriptor d = None" using assms by (simp_all add: usb_initial_def)
qed

lemma initial_before:
  assumes i: "usb_initial P X M (io, d, a)" and r: "\<forall>q. req_mems io q = Some (True, True)" and a: "acct w E"
  shows "usb_before h P X E (io, d, w)"
proof -
  have fr: "side_fresh (uh_Side d s)" for s using i by (simp add: usb_initial_def)
  have id: "usb_idle io q" for q
  proof -
    obtain x where "io_reqs io q = Some x" using r [rule_format, of q] by auto
    then show ?thesis using i by (simp add: usb_initial_def usb_idle_def)
  qed
  have st: "side_stage h 0 (uh_Side d s) \<and> side_props_ok h (uh_Side d s)" for s
    using fr [of s] by (simp add: side_fresh_def side_stage_def side_props_ok_def)
  have "usb_wired d" using fr by (simp add: usb_wired_def side_fresh_def)
  then have "usb_full P X E (io, d, w)" using usb_initial_ok [OF i r] a initial_mem(3) [OF i] by (simp add: usb_full_def)
  then show ?thesis using id st initial_mem(5) [OF i] by (simp add: usb_before_def sides_todo_def)
qed

lemma usb_run_full:
  assumes f: "usb_full P X E (io, d, w)"
  shows "\<exists>io1 d1. usb_run remote es (io, d) = Some (io1, d1) \<and> usb_full P X E (io1, d1, w) \<and> usb_fixed d1 = usb_fixed d"
proof -
  obtain io1 d1 where 1: "usb_run remote es (io, d) = Some (io1, d1)" "usb_ok P X (io1, d1)" "usb_fixed d1 = usb_fixed d"
    using usb_run_ok [of P X io d remote es] f by (auto simp: usb_full_def)
  have "usb_refs d1 = usb_refs d" by (simp add: usb_refs_def side_refs_def fixedD [OF 1(3)])
  then show ?thesis using 1 f wired_fixed [OF 1(3)] by (simp add: usb_full_def)
qed

end
