(* ===== verification/HfpDevice.thy ===== *)
theory HfpDevice
  imports EndpointPair SidebandManager
begin

text \<open>
  BthHfpDevice (BthhfpDevice.cpp): the Bluetooth hands-free device with SCO bypass. Definitions are
  prefixed with \<open>hfp_\<close> where the other devices have a function of the same name.

  The state of an operation is the pair of the I/O state and the record \<open>BthHfpDevice\<close>; Start, Stop
  and the destructor also change the adapter's filters. The remote headset is the parameter
  \<open>remote\<close>, results of kernel and framework calls are records of status values, and the endpoint
  tables, the base names of the filters and the hash of the link name, which are not in the
  repository, are the parameter \<open>hfp_config\<close>.
\<close>

section \<open>IOCTLs and requests\<close>

text \<open>
  The IOCTLs with what their input buffer holds. The argument of an ..._UPDATE code is bImmediate;
  that of the two queries for a block is the length of the output buffer.
\<close>

datatype hfp_ioctl =
    IOCTL_BTHHFP_DEVICE_GET_CODEC_ID
  | IOCTL_BTHHFP_DEVICE_REQUEST_CONNECT
  | IOCTL_BTHHFP_DEVICE_REQUEST_DISCONNECT
  | IOCTL_BTHHFP_DEVICE_INDICATE_AUDIO_DEVICE_CAPABILITIES BOOL
  | IOCTL_BTHHFP_DEVICE_GET_DESCRIPTOR2 nat
  | IOCTL_BTHHFP_DEVICE_GET_VOLUMEPROPERTYVALUES nat
  | IOCTL_BTHHFP_SPEAKER_SET_VOLUME LONG
  | IOCTL_BTHHFP_MIC_SET_VOLUME LONG
  | IOCTL_BTHHFP_SPEAKER_GET_VOLUME_STATUS_UPDATE BOOL
  | IOCTL_BTHHFP_MIC_GET_VOLUME_STATUS_UPDATE BOOL
  | IOCTL_BTHHFP_DEVICE_GET_CONNECTION_STATUS_UPDATE BOOL
  | IOCTL_BTHHFP_DEVICE_GET_NRECDISABLE_STATUS_UPDATE BOOL
  | IOCTL_BTHHFP_STREAM_GET_STATUS_UPDATE BOOL
  | IOCTL_BTHHFP_STREAM_OPEN
  | IOCTL_BTHHFP_STREAM_CLOSE

datatype hfp_req = NRECDisableStatusReq | SpeakerVolumeReq | MicVolumeReq | ConnectionReq | StreamReq

record BTHHFP_DESCRIPTOR2 =
  SupportsNREC :: BOOL
  SupportsVolume :: BOOL
  VolumePropertyValuesSize :: nat
  OutputPinCategory :: GUID
  InputPinCategory :: GUID
  FriendlyName :: string
  ContainerId :: GUID

text \<open>
  What a reply may carry. The union of the notification buffer has four 32-bit members. \<open>rp_whole\<close> says
  that the output buffer, of the length the IOCTL gives, holds a whole BTHHFP_DESCRIPTOR2.
\<close>

record hfp_reply =
  rp_long :: LONG
  rp_codec :: BYTE
  rp_information :: nat
  rp_whole :: bool
  rp_descriptor :: BTHHFP_DESCRIPTOR2
  rp_values :: "BYTE list"

type_synonym hfp_io = "(hfp_req, hfp_ioctl, LONG) sideband_io"
type_synonym hfp_remote = "(hfp_ioctl, hfp_reply) remote"

section \<open>State\<close>

datatype eDeviceType = eBthHfpSpeakerDevice | eBthHfpMicDevice | eOtherDevice

datatype hfp_callback =
    SpeakerVolumeCallback | SpeakerMuteCallback | SpeakerConnectionStatusCallback | SpeakerFormatChangeCallback
  | MicVolumeCallback | MicMuteCallback | MicConnectionStatusCallback | MicFormatChangeCallback

text \<open>
  \<open>m_Invoked\<close> lists the calls of handlers; pointers to WDF objects are present or NULL; a pointer to
  a block is the block's tag with its contents.
\<close>

record BthHfpDevice =
  m_State :: eHsState
  m_WdfIoTarget :: bool
  m_WorkItem :: bool
  m_ReqCollection :: bool
  m_SymbolicLinkName :: "(pool_tag \<times> string) option"
  m_SpeakerWaveName :: string
  m_SpeakerTopologyName :: string
  m_MicWaveName :: string
  m_MicTopologyName :: string
  m_SpeakerMiniports :: "custom_pair option"
  m_MicMiniports :: "custom_pair option"
  m_UnknownSpeakerTopology :: "obj option"
  m_UnknownSpeakerWave :: "obj option"
  m_UnknownMicTopology :: "obj option"
  m_UnknownMicWave :: "obj option"
  m_CodecId :: LONG
  m_Descriptor :: "(pool_tag \<times> hfp_reply) option"
  m_VolumePropValues :: "(pool_tag \<times> hfp_reply) option"
  m_SpeakerVolumeLevel :: LONG
  m_MicVolumeLevel :: LONG
  m_ConnectionStatus :: LONG
  m_StreamStatus :: LONG
  m_StreamStatusEvent :: bool
  m_NRECDisableStatus :: LONG
  m_nStreams :: int
  m_Callbacks :: "hfp_callback \<Rightarrow> event_callback option"
  m_Invoked :: "event_callback list"

type_synonym hfp = "hfp_io \<times> BthHfpDevice"

record hfp_config =
  cf_render :: "nat \<Rightarrow> endpoint_pair"
  cf_capture :: "nat \<Rightarrow> endpoint_pair"
  cf_speaker_wave :: string
  cf_speaker_topo :: string
  cf_mic_wave :: string
  cf_mic_topo :: string
  cf_refstring_max :: nat
  cf_hash :: "string \<Rightarrow> nat"

definition invoke :: "hfp_callback \<Rightarrow> BthHfpDevice \<Rightarrow> BthHfpDevice" where
  "invoke c d = (case m_Callbacks d c of None \<Rightarrow> d | Some h \<Rightarrow> d \<lparr> m_Invoked := m_Invoked d @ [h] \<rparr>)"

section \<open>Synchronous requests\<close>

text \<open>A call whose reply is not used, and one that returns a 32-bit value (0 on failure).\<close>

definition hfp_call :: "hfp_remote \<Rightarrow> hfp_ioctl \<Rightarrow> hfp_io \<Rightarrow> NTSTATUS \<times> hfp_io" where
  "hfp_call remote code io = (case SendIoCtrlSynchronously remote code io of (st, v, io1) \<Rightarrow> (ioctl_done st, io1))"

definition hfp_get_long :: "hfp_remote \<Rightarrow> hfp_ioctl \<Rightarrow> hfp_io \<Rightarrow> NTSTATUS \<times> LONG \<times> hfp_io" where
  "hfp_get_long remote code io = (case SendIoCtrlSynchronously remote code io of (st, v, io1) \<Rightarrow>
     (ioctl_done st, if NT_SUCCESS st then rp_long v else 0, io1))"

definition GetBthHfpCodecId :: "hfp_remote \<Rightarrow> hfp_io \<Rightarrow> NTSTATUS \<times> BYTE \<times> hfp_io" where
  "GetBthHfpCodecId remote io = (case SendIoCtrlSynchronously remote IOCTL_BTHHFP_DEVICE_GET_CODEC_ID io of
     (st, v, io1) \<Rightarrow> (ioctl_done st, if NT_SUCCESS st then rp_codec v else 0, io1))"

definition SetBthHfpDeviceCapabilities :: "hfp_remote \<Rightarrow> BOOL \<Rightarrow> hfp_io \<Rightarrow> NTSTATUS \<times> hfp_io" where
  "SetBthHfpDeviceCapabilities remote b io =
     hfp_call remote (IOCTL_BTHHFP_DEVICE_INDICATE_AUDIO_DEVICE_CAPABILITIES b) io"

definition SetBthHfpSpeakerVolume :: "hfp_remote \<Rightarrow> LONG \<Rightarrow> hfp_io \<Rightarrow> NTSTATUS \<times> hfp_io" where
  "SetBthHfpSpeakerVolume remote v io = hfp_call remote (IOCTL_BTHHFP_SPEAKER_SET_VOLUME v) io"

definition SetBthHfpMicVolume :: "hfp_remote \<Rightarrow> LONG \<Rightarrow> hfp_io \<Rightarrow> NTSTATUS \<times> hfp_io" where
  "SetBthHfpMicVolume remote v io = hfp_call remote (IOCTL_BTHHFP_MIC_SET_VOLUME v) io"

definition GetBthHfpSpeakerVolume :: "hfp_remote \<Rightarrow> hfp_io \<Rightarrow> NTSTATUS \<times> LONG \<times> hfp_io" where
  "GetBthHfpSpeakerVolume remote io = hfp_get_long remote (IOCTL_BTHHFP_SPEAKER_GET_VOLUME_STATUS_UPDATE TRUE_BOOL) io"

definition GetBthHfpMicVolume :: "hfp_remote \<Rightarrow> hfp_io \<Rightarrow> NTSTATUS \<times> LONG \<times> hfp_io" where
  "GetBthHfpMicVolume remote io = hfp_get_long remote (IOCTL_BTHHFP_MIC_GET_VOLUME_STATUS_UPDATE TRUE_BOOL) io"

definition GetBthHfpConnectionStatus :: "hfp_remote \<Rightarrow> hfp_io \<Rightarrow> NTSTATUS \<times> LONG \<times> hfp_io" where
  "GetBthHfpConnectionStatus remote io =
     hfp_get_long remote (IOCTL_BTHHFP_DEVICE_GET_CONNECTION_STATUS_UPDATE TRUE_BOOL) io"

definition SetBthHfpConnect :: "hfp_remote \<Rightarrow> hfp_io \<Rightarrow> NTSTATUS \<times> hfp_io" where
  "SetBthHfpConnect remote io = hfp_call remote IOCTL_BTHHFP_DEVICE_REQUEST_CONNECT io"

definition SetBthHfpDisconnect :: "hfp_remote \<Rightarrow> hfp_io \<Rightarrow> NTSTATUS \<times> hfp_io" where
  "SetBthHfpDisconnect remote io = hfp_call remote IOCTL_BTHHFP_DEVICE_REQUEST_DISCONNECT io"

text \<open>A channel that is open already is a success.\<close>

definition SetBthHfpStreamOpen :: "hfp_remote \<Rightarrow> hfp_io \<Rightarrow> NTSTATUS \<times> hfp_io" where
  "SetBthHfpStreamOpen remote io = (case SendIoCtrlSynchronously remote IOCTL_BTHHFP_STREAM_OPEN io of
     (st, v, io1) \<Rightarrow> (ioctl_done (if st = STATUS_DEVICE_BUSY then STATUS_SUCCESS else st), io1))"

definition SetBthHfpStreamClose :: "hfp_remote \<Rightarrow> hfp_io \<Rightarrow> NTSTATUS \<times> hfp_io" where
  "SetBthHfpStreamClose remote io = hfp_call remote IOCTL_BTHHFP_STREAM_CLOSE io"

definition GetBthHfpDescriptor :: "hfp_remote \<Rightarrow> query_env \<Rightarrow> hfp_io \<Rightarrow>
    (NTSTATUS \<times> (pool_tag \<times> hfp_reply) option \<times> hfp_io) option" where
  "GetBthHfpDescriptor remote e io =
     query_block remote e MINADAPTER_POOLTAG rp_information IOCTL_BTHHFP_DEVICE_GET_DESCRIPTOR2 io"

definition GetBthHfpVolumePropertyValues :: "hfp_remote \<Rightarrow> bool \<Rightarrow> nat \<Rightarrow> hfp_io \<Rightarrow>
    (NTSTATUS \<times> (pool_tag \<times> hfp_reply) option \<times> hfp_io) option" where
  "GetBthHfpVolumePropertyValues remote alloc len io =
     fetch_block remote alloc MINADAPTER_POOLTAG MINADAPTER_POOLTAG (IOCTL_BTHHFP_DEVICE_GET_VOLUMEPROPERTYVALUES len) io"

section \<open>Notification requests\<close>

definition EnableBthHfpNrecDisableStatusNotification :: "send_env \<Rightarrow> hfp_io \<Rightarrow> (NTSTATUS \<times> hfp_io) option" where
  "EnableBthHfpNrecDisableStatusNotification e io = enable_notification e NRECDisableStatusReq
     (IOCTL_BTHHFP_DEVICE_GET_NRECDISABLE_STATUS_UPDATE FALSE_BOOL) FALSE_BOOL io"

definition EnableBthHfpSpeakerVolumeStatusNotification :: "send_env \<Rightarrow> hfp_io \<Rightarrow> (NTSTATUS \<times> hfp_io) option" where
  "EnableBthHfpSpeakerVolumeStatusNotification e io = enable_notification e SpeakerVolumeReq
     (IOCTL_BTHHFP_SPEAKER_GET_VOLUME_STATUS_UPDATE FALSE_BOOL) FALSE_BOOL io"

definition EnableBthHfpMicVolumeStatusNotification :: "send_env \<Rightarrow> hfp_io \<Rightarrow> (NTSTATUS \<times> hfp_io) option" where
  "EnableBthHfpMicVolumeStatusNotification e io = enable_notification e MicVolumeReq
     (IOCTL_BTHHFP_MIC_GET_VOLUME_STATUS_UPDATE FALSE_BOOL) FALSE_BOOL io"

definition EnableBthHfpConnectionStatusNotification :: "send_env \<Rightarrow> hfp_io \<Rightarrow> (NTSTATUS \<times> hfp_io) option" where
  "EnableBthHfpConnectionStatusNotification e io = enable_notification e ConnectionReq
     (IOCTL_BTHHFP_DEVICE_GET_CONNECTION_STATUS_UPDATE FALSE_BOOL) FALSE_BOOL io"

text \<open>A volume that differs from the last one is reported to the miniport.\<close>

definition volume_update :: "LONG \<Rightarrow> (BthHfpDevice \<Rightarrow> LONG) \<Rightarrow> (LONG \<Rightarrow> BthHfpDevice \<Rightarrow> BthHfpDevice) \<Rightarrow>
    hfp_callback \<Rightarrow> BthHfpDevice \<Rightarrow> BthHfpDevice" where
  "volume_update b level set_level c d =
     (let d1 = set_level b d in if b \<noteq> level d then invoke c d1 else d1)"

text \<open>
  A new connection status: when connected, the codec is asked for, a change of codec is reported as
  a change of format; then a change of the status is reported.
\<close>

definition connection_update :: "hfp_remote \<Rightarrow> LONG \<Rightarrow> hfp \<Rightarrow> hfp" where
  "connection_update remote b = (\<lambda>(io, d).
     let (io1, d1) =
       (if b \<noteq> 0 then
          (case GetBthHfpCodecId remote io of (st0, codec, io1) \<Rightarrow>
             (let st = (if st0 = STATUS_INVALID_DEVICE_REQUEST then STATUS_SUCCESS else st0)
              in if NT_SUCCESS st then
                   (let d1 = d \<lparr> m_CodecId := ucast codec \<rparr>
                    in (io1, if codec \<noteq> ucast (m_CodecId d)
                             then invoke MicFormatChangeCallback (invoke SpeakerFormatChangeCallback d1) else d1))
                 else (io1, d)))
        else (io, d));
         d2 = d1 \<lparr> m_ConnectionStatus := b \<rparr>
     in (io1, if b \<noteq> m_ConnectionStatus d1
              then invoke MicConnectionStatusCallback (invoke SpeakerConnectionStatusCallback d2) else d2))"

text \<open>The switch of EvtBthHfpDeviceNotificationStatusWorkItem; the loop is \<open>notif_round\<close>.\<close>

definition hfp_notification :: "hfp_remote \<Rightarrow> (hfp_req, hfp_ioctl, LONG, BthHfpDevice) notif_handler" where
  "hfp_notification remote code b = (\<lambda>(io, d).
     (case code of
        IOCTL_BTHHFP_DEVICE_GET_NRECDISABLE_STATUS_UPDATE _ \<Rightarrow> (True, b, io, d \<lparr> m_NRECDisableStatus := b \<rparr>)
      | IOCTL_BTHHFP_SPEAKER_GET_VOLUME_STATUS_UPDATE _ \<Rightarrow>
          (True, b, io, volume_update b m_SpeakerVolumeLevel (\<lambda>v x. x \<lparr> m_SpeakerVolumeLevel := v \<rparr>) SpeakerVolumeCallback d)
      | IOCTL_BTHHFP_MIC_GET_VOLUME_STATUS_UPDATE _ \<Rightarrow>
          (True, b, io, volume_update b m_MicVolumeLevel (\<lambda>v x. x \<lparr> m_MicVolumeLevel := v \<rparr>) MicVolumeCallback d)
      | IOCTL_BTHHFP_DEVICE_GET_CONNECTION_STATUS_UPDATE _ \<Rightarrow>
          (case connection_update remote b (io, d) of (io1, d1) \<Rightarrow> (True, b, io1, d1))
      | _ \<Rightarrow> (False, b, io, d)))"

definition rearm_buffer :: "LONG \<Rightarrow> LONG" where
  "rearm_buffer b = FALSE_BOOL"

section \<open>Streams\<close>

definition EvtBthHfpDeviceStreamStatusCompletion :: "NTSTATUS \<Rightarrow> LONG \<Rightarrow> hfp \<Rightarrow> hfp option" where
  "EvtBthHfpDeviceStreamStatusCompletion st b = (\<lambda>(io, d). do {
     r \<leftarrow> io_reqs io StreamReq;
     if \<not> Pending r then None
     else Some (io \<lparr> io_reqs := (io_reqs io)(StreamReq \<mapsto> r \<lparr> Pending := False, IoStatus := st, Buffer := b \<rparr>) \<rparr>,
                d \<lparr> m_StreamStatus := (if NT_SUCCESS st then b else STATUS_INVALID_DEVICE_STATE),
                    m_StreamStatusEvent := True \<rparr>) })"

definition EnableBthHfpStreamStatusNotification :: "send_env \<Rightarrow> hfp \<Rightarrow> (NTSTATUS \<times> hfp) option" where
  "EnableBthHfpStreamStatusNotification e = (\<lambda>(io, d). do {
     let d1 = d \<lparr> m_StreamStatusEvent := False \<rparr>;
     (st, io1) \<leftarrow> enable_notification e StreamReq (IOCTL_BTHHFP_STREAM_GET_STATUS_UPDATE FALSE_BOOL) FALSE_BOOL io;
     Some (st, io1, if NT_SUCCESS st then d1 else d1 \<lparr> m_StreamStatusEvent := True \<rparr>) })"

text \<open>Waiting for an event that nobody will set is \<open>None\<close>. The result of the reuse is only logged.\<close>

definition StopBthHfpStreamStatusNotification :: "NTSTATUS \<Rightarrow> hfp \<Rightarrow> (NTSTATUS \<times> hfp) option" where
  "StopBthHfpStreamStatusNotification reuse s = do {
     s1 \<leftarrow> (if pending_in (fst s) StreamReq then EvtBthHfpDeviceStreamStatusCompletion STATUS_CANCELLED 0 s else Some s);
     if m_StreamStatusEvent (snd s1) then Some (STATUS_SUCCESS, s1) else None }"

definition hfp_StreamOpen :: "eDeviceType \<Rightarrow> NTSTATUS" where "hfp_StreamOpen t = STATUS_SUCCESS"
definition hfp_StreamClose :: "eDeviceType \<Rightarrow> NTSTATUS" where "hfp_StreamClose t = STATUS_SUCCESS"

definition hfp_StreamStart :: "hfp_remote \<Rightarrow> send_env \<Rightarrow> eDeviceType \<Rightarrow> hfp \<Rightarrow> (NTSTATUS \<times> hfp) option" where
  "hfp_StreamStart remote e t = (\<lambda>(io, d).
     (let d1 = d \<lparr> m_nStreams := m_nStreams d + 1 \<rparr>
      in if m_nStreams d1 = 1 then do {
           let (st, io1) = SetBthHfpStreamOpen remote io;
           (st2, io2, d2) \<leftarrow> (if NT_SUCCESS st
             then EnableBthHfpStreamStatusNotification e (io1, d1 \<lparr> m_StreamStatus := STATUS_SUCCESS \<rparr>)
             else Some (st, io1, d1));
           if NT_SUCCESS st2 then Some (st2, io2, d2)
           else Some (st2, if NT_SUCCESS st then snd (SetBthHfpStreamClose remote io2) else io2,
                      d2 \<lparr> m_nStreams := m_nStreams d2 - 1, m_StreamStatus := STATUS_INVALID_DEVICE_STATE \<rparr>) }
         else Some (STATUS_SUCCESS, io, d1)))"

definition hfp_StreamSuspend :: "hfp_remote \<Rightarrow> NTSTATUS \<Rightarrow> eDeviceType \<Rightarrow> hfp \<Rightarrow> (NTSTATUS \<times> hfp) option" where
  "hfp_StreamSuspend remote reuse t = (\<lambda>(io, d).
     (let d1 = d \<lparr> m_nStreams := m_nStreams d - 1 \<rparr>
      in if m_nStreams d1 = 0 then do {
           let (st, io1) = SetBthHfpStreamClose remote io;
           (_, io2, d2) \<leftarrow> StopBthHfpStreamStatusNotification reuse (io1, d1);
           Some (st, io2, d2 \<lparr> m_StreamStatus := STATUS_INVALID_DEVICE_STATE \<rparr>) }
         else Some (STATUS_SUCCESS, io, d1)))"

definition hfp_GetStreamStatus :: "eDeviceType \<Rightarrow> BthHfpDevice \<Rightarrow> bool" where
  "hfp_GetStreamStatus t d = NT_SUCCESS (m_StreamStatus d)"

section \<open>The interface of the miniports\<close>

text \<open>Reading through m_Descriptor while it is NULL or points to a block that is too short is \<open>None\<close>.\<close>

definition hfp_descriptor :: "BthHfpDevice \<Rightarrow> BTHHFP_DESCRIPTOR2 option" where
  "hfp_descriptor d = map_option rp_descriptor (read_block rp_whole (m_Descriptor d))"

definition hfp_IsVolumeSupported :: "eDeviceType \<Rightarrow> BthHfpDevice \<Rightarrow> BOOL option" where
  "hfp_IsVolumeSupported t d = map_option SupportsVolume (hfp_descriptor d)"

definition hfp_GetVolumeSettings :: "eDeviceType \<Rightarrow> BthHfpDevice \<Rightarrow> ((pool_tag \<times> hfp_reply) option \<times> nat) option" where
  "hfp_GetVolumeSettings t d = map_option (\<lambda>x. (m_VolumePropValues d, VolumePropertyValuesSize x)) (hfp_descriptor d)"

definition hfp_GetVolume :: "hfp_remote \<Rightarrow> eDeviceType \<Rightarrow> LONG \<Rightarrow> hfp \<Rightarrow> NTSTATUS \<times> LONG option \<times> hfp" where
  "hfp_GetVolume remote t channel = (\<lambda>(io, d).
     (case t of
        eBthHfpSpeakerDevice \<Rightarrow> (case GetBthHfpSpeakerVolume remote io of (st, v, io1) \<Rightarrow>
          (st, Some v, io1, if NT_SUCCESS st then d \<lparr> m_SpeakerVolumeLevel := v \<rparr> else d))
      | eBthHfpMicDevice \<Rightarrow> (case GetBthHfpMicVolume remote io of (st, v, io1) \<Rightarrow>
          (st, Some v, io1, if NT_SUCCESS st then d \<lparr> m_MicVolumeLevel := v \<rparr> else d))
      | eOtherDevice \<Rightarrow> (STATUS_INVALID_PARAMETER, None, io, d)))"

definition hfp_SetVolume :: "hfp_remote \<Rightarrow> eDeviceType \<Rightarrow> LONG \<Rightarrow> LONG \<Rightarrow> hfp_io \<Rightarrow> NTSTATUS \<times> hfp_io" where
  "hfp_SetVolume remote t channel v io = (case t of
     eBthHfpSpeakerDevice \<Rightarrow> SetBthHfpSpeakerVolume remote v io
   | eBthHfpMicDevice \<Rightarrow> SetBthHfpMicVolume remote v io
   | eOtherDevice \<Rightarrow> (STATUS_INVALID_PARAMETER, io))"

definition hfp_IsMuteSupported :: "eDeviceType \<Rightarrow> BOOL" where "hfp_IsMuteSupported t = FALSE_BOOL"
definition hfp_GetMuteSettings :: "eDeviceType \<Rightarrow> pool_tag option" where "hfp_GetMuteSettings t = None"
definition hfp_GetMute :: "eDeviceType \<Rightarrow> LONG \<Rightarrow> LONG" where "hfp_GetMute t channel = 0"
definition hfp_SetMute :: "eDeviceType \<Rightarrow> LONG \<Rightarrow> LONG \<Rightarrow> NTSTATUS" where
  "hfp_SetMute t channel mute = STATUS_NOT_IMPLEMENTED"

definition hfp_GetConnectionStatus :: "BthHfpDevice \<Rightarrow> BOOL" where "hfp_GetConnectionStatus d = m_ConnectionStatus d"
definition hfp_GetContainerId :: "eDeviceType \<Rightarrow> BthHfpDevice \<Rightarrow> GUID option" where
  "hfp_GetContainerId t d = map_option ContainerId (hfp_descriptor d)"
definition hfp_IsNRECSupported :: "BthHfpDevice \<Rightarrow> BOOL option" where
  "hfp_IsNRECSupported d = map_option SupportsNREC (hfp_descriptor d)"
definition hfp_GetNRECDisableStatus :: "BthHfpDevice \<Rightarrow> BOOL" where "hfp_GetNRECDisableStatus d = m_NRECDisableStatus d"

definition hfp_Connect :: "hfp_remote \<Rightarrow> hfp_io \<Rightarrow> NTSTATUS \<times> hfp_io" where
  "hfp_Connect remote io = SetBthHfpConnect remote io"
definition hfp_Disconnect :: "hfp_remote \<Rightarrow> hfp_io \<Rightarrow> NTSTATUS \<times> hfp_io" where
  "hfp_Disconnect remote io = SetBthHfpDisconnect remote io"

text \<open>The wide-band tables are used when the codec is not the narrow-band one.\<close>

definition BTHHFP_CODEC_CVSD :: LONG where [const_defs]: "BTHHFP_CODEC_CVSD = 0"

definition hfp_GetFormatsAndModes :: "hfp_config \<Rightarrow> eDeviceType \<Rightarrow> BthHfpDevice \<Rightarrow> nat option" where
  "hfp_GetFormatsAndModes cf t d =
     (let endpointIndex = (if BTHHFP_CODEC_CVSD <s m_CodecId d then 1 else 0)
      in case t of
           eBthHfpSpeakerDevice \<Rightarrow> Some (PinDeviceFormatsAndModes (cf_render cf endpointIndex))
         | eBthHfpMicDevice \<Rightarrow> Some (PinDeviceFormatsAndModes (cf_capture cf endpointIndex))
         | eOtherDevice \<Rightarrow> None)"

definition set_handler :: "hfp_callback \<Rightarrow> hfp_callback \<Rightarrow> eDeviceType \<Rightarrow> event_callback option \<Rightarrow> BthHfpDevice \<Rightarrow> BthHfpDevice" where
  "set_handler cs cm t h d = (case t of
     eBthHfpSpeakerDevice \<Rightarrow> d \<lparr> m_Callbacks := (m_Callbacks d)(cs := h) \<rparr>
   | eBthHfpMicDevice \<Rightarrow> d \<lparr> m_Callbacks := (m_Callbacks d)(cm := h) \<rparr>
   | eOtherDevice \<Rightarrow> d)"

definition hfp_SetVolumeHandler :: "eDeviceType \<Rightarrow> event_callback option \<Rightarrow> BthHfpDevice \<Rightarrow> BthHfpDevice" where
  "hfp_SetVolumeHandler t h d = set_handler SpeakerVolumeCallback MicVolumeCallback t h d"
definition hfp_SetMuteHandler :: "eDeviceType \<Rightarrow> event_callback option \<Rightarrow> BthHfpDevice \<Rightarrow> BthHfpDevice" where
  "hfp_SetMuteHandler t h d = set_handler SpeakerMuteCallback MicMuteCallback t h d"
definition hfp_SetConnectionStatusHandler :: "eDeviceType \<Rightarrow> event_callback option \<Rightarrow> BthHfpDevice \<Rightarrow> BthHfpDevice" where
  "hfp_SetConnectionStatusHandler t h d = set_handler SpeakerConnectionStatusCallback MicConnectionStatusCallback t h d"
definition hfp_SetFormatChangeHandler :: "eDeviceType \<Rightarrow> event_callback option \<Rightarrow> BthHfpDevice \<Rightarrow> BthHfpDevice" where
  "hfp_SetFormatChangeHandler t h d = set_handler SpeakerFormatChangeCallback MicFormatChangeCallback t h d"

section \<open>Life cycle\<close>

text \<open>The interfaces the object answers for; every answer is the object itself with a reference more.\<close>

datatype hfp_iid = IID_Unknown | IID_IBthHfpDeviceCommon | IID_Other

definition hfp_NonDelegatingQueryInterface :: "hfp_iid \<Rightarrow> nat \<Rightarrow> NTSTATUS \<times> bool \<times> nat" where
  "hfp_NonDelegatingQueryInterface iid n =
     (if iid = IID_Unknown \<or> iid = IID_IBthHfpDeviceCommon then (STATUS_SUCCESS, True, n + 1)
      else (STATUS_INVALID_PARAMETER, False, n))"

text \<open>The callbacks of the target only keep the framework from closing it.\<close>

definition EvtBthHfpTargetQueryRemove :: "hfp \<Rightarrow> NTSTATUS \<times> hfp" where "EvtBthHfpTargetQueryRemove s = (STATUS_SUCCESS, s)"
definition EvtBthHfpTargetRemoveCanceled :: "hfp \<Rightarrow> hfp" where "EvtBthHfpTargetRemoveCanceled s = s"
definition EvtBthHfpTargetRemoveComplete :: "hfp \<Rightarrow> hfp" where "EvtBthHfpTargetRemoveComplete s = s"

definition hfp_CreateFilterNames :: "hfp_config \<Rightarrow> NTSTATUS \<Rightarrow> string \<Rightarrow> BthHfpDevice \<Rightarrow> NTSTATUS \<times> BthHfpDevice" where
  "hfp_CreateFilterNames cf hash_st link d =
     (if \<not> NT_SUCCESS hash_st then (hash_st, d)
      else
        (let h = cf_hash cf link; n = cf_refstring_max cf
         in (hash_st, d \<lparr> m_SpeakerWaveName := filter_name n (cf_speaker_wave cf) h,
                          m_SpeakerTopologyName := filter_name n (cf_speaker_topo cf) h,
                          m_MicWaveName := filter_name n (cf_mic_wave cf) h,
                          m_MicTopologyName := filter_name n (cf_mic_topo cf) h \<rparr>)))"

record hfp_init_env =
  hi_workitem :: NTSTATUS
  hi_collection :: NTSTATUS
  hi_target :: NTSTATUS
  hi_open :: NTSTATUS
  hi_name :: bool
  hi_request :: "hfp_req \<Rightarrow> request_env"
  hi_hash :: NTSTATUS

text \<open>The members Init assigns; it does not touch the two mute callbacks.\<close>

definition hfp_Init_members :: "BthHfpDevice \<Rightarrow> BthHfpDevice" where
  "hfp_Init_members d = d \<lparr> m_State := StateInitializing, m_WdfIoTarget := False, m_SpeakerMiniports := None,
     m_MicMiniports := None, m_UnknownSpeakerTopology := None, m_UnknownSpeakerWave := None,
     m_UnknownMicTopology := None, m_UnknownMicWave := None, m_Descriptor := None, m_VolumePropValues := None,
     m_SpeakerVolumeLevel := 0, m_MicVolumeLevel := 0, m_ConnectionStatus := 0,
     m_StreamStatus := STATUS_INVALID_DEVICE_STATE, m_NRECDisableStatus := 0, m_WorkItem := False,
     m_ReqCollection := False, m_CodecId := 0, m_nStreams := 0, m_StreamStatusEvent := True,
     m_SymbolicLinkName := None,
     m_Callbacks := (\<lambda>c. if c = SpeakerMuteCallback \<or> c = MicMuteCallback then m_Callbacks d c else None) \<rparr>"

definition hfp_Init_workitem :: "NTSTATUS \<Rightarrow> hfp step" where
  "hfp_Init_workitem st = (\<lambda>(io, d). Some (st,
     if NT_SUCCESS st then (wdf_create WdfWorkItem io, d \<lparr> m_WorkItem := True \<rparr>) else (io, d)))"

definition hfp_Init_collection :: "NTSTATUS \<Rightarrow> hfp step" where
  "hfp_Init_collection st = (\<lambda>(io, d). Some (st,
     if NT_SUCCESS st then (wdf_create WdfCollection io, d \<lparr> m_ReqCollection := True \<rparr>) else (io, d)))"

definition hfp_Init_target :: "NTSTATUS \<Rightarrow> hfp step" where
  "hfp_Init_target st = (\<lambda>(io, d). Some (st,
     if NT_SUCCESS st then (wdf_create WdfIoTarget io, d \<lparr> m_WdfIoTarget := True \<rparr>) else (io, d)))"

definition hfp_Init_open :: "NTSTATUS \<Rightarrow> hfp step" where
  "hfp_Init_open st s = Some (st, s)"

definition hfp_Init_link :: "bool \<Rightarrow> string \<Rightarrow> hfp step" where
  "hfp_Init_link ok link = (\<lambda>(io, d).
     (if ok then (case pool_alloc MINADAPTER_POOLTAG io of (p, io1) \<Rightarrow>
                    Some (STATUS_SUCCESS, io1, d \<lparr> m_SymbolicLinkName := Some (p, link) \<rparr>))
      else Some (STATUS_INSUFFICIENT_RESOURCES, io, d)))"

definition hfp_Init_request :: "request_env \<Rightarrow> hfp_req \<Rightarrow> hfp step" where
  "hfp_Init_request e q = (\<lambda>(io, d).
     (case create_request e q IOCTL_BTHHFP_DEVICE_GET_CODEC_ID 0 io of (st, io1) \<Rightarrow> Some (st, io1, d)))"

definition hfp_Init_names :: "hfp_config \<Rightarrow> NTSTATUS \<Rightarrow> string \<Rightarrow> hfp step" where
  "hfp_Init_names cf st link = (\<lambda>(io, d).
     (case hfp_CreateFilterNames cf st link d of (st1, d1) \<Rightarrow> Some (st1, io, d1)))"

text \<open>The requests in the order in which Init creates them.\<close>

definition hfp_requests :: "hfp_req list" where
  "hfp_requests = [NRECDisableStatusReq, SpeakerVolumeReq, MicVolumeReq, ConnectionReq, StreamReq]"

definition hfp_Init_basics :: "hfp_init_env \<Rightarrow> string \<Rightarrow> hfp step list" where
  "hfp_Init_basics e link =
     [hfp_Init_workitem (hi_workitem e), hfp_Init_collection (hi_collection e), hfp_Init_target (hi_target e),
      hfp_Init_open (hi_open e), hfp_Init_link (hi_name e) link]"

definition hfp_Init :: "hfp_config \<Rightarrow> hfp_init_env \<Rightarrow> string \<Rightarrow> hfp step" where
  "hfp_Init cf e link = (\<lambda>(io, d). do {
     (st, io1, d1) \<leftarrow> run_steps
       (hfp_Init_basics e link
        @ map (\<lambda>q. hfp_Init_request (hi_request e q) q) hfp_requests
        @ [hfp_Init_names cf (hi_hash e) link]) (io \<lparr> io_reqs := Map.empty \<rparr>, hfp_Init_members d);
     if NT_SUCCESS st then Some (STATUS_SUCCESS, io1, d1 \<lparr> m_State := StateRunning \<rparr>) else Some (st, io1, d1) })"

text \<open>The results of the calls of Start.\<close>

record hfp_start_env =
  hs_descriptor :: query_env
  hs_values :: bool
  hs_speaker_pair :: pair_env
  hs_mic_pair :: pair_env
  hs_speaker_filters :: filters_env
  hs_mic_filters :: filters_env
  hs_send :: "hfp_req \<Rightarrow> send_env"

type_synonym hfp_world = "hfp_io \<times> BthHfpDevice \<times> adapter_world"

definition hfp_Start_capabilities :: "hfp_remote \<Rightarrow> hfp_world step" where
  "hfp_Start_capabilities remote = (\<lambda>(io, d, w).
     (case SetBthHfpDeviceCapabilities remote TRUE_BOOL io of (st, io1) \<Rightarrow> Some (st, io1, d, w)))"

definition hfp_Start_descriptor :: "hfp_remote \<Rightarrow> query_env \<Rightarrow> hfp_world step" where
  "hfp_Start_descriptor remote e = (\<lambda>(io, d, w). do {
     (st, p, io1) \<leftarrow> GetBthHfpDescriptor remote e io;
     Some (st, io1, d \<lparr> m_Descriptor := p \<rparr>, w) })"

definition hfp_Start_volume :: "hfp_remote \<Rightarrow> bool \<Rightarrow> hfp_world step" where
  "hfp_Start_volume remote alloc = (\<lambda>(io, d, w). do {
     x \<leftarrow> hfp_descriptor d;
     if SupportsVolume x = 0 then Some (STATUS_SUCCESS, io, d, w)
     else do {
       (st, p, io1) \<leftarrow> GetBthHfpVolumePropertyValues remote alloc (VolumePropertyValuesSize x) io;
       if \<not> NT_SUCCESS st then Some (st, io1, d, w)
       else do {
         let d1 = d \<lparr> m_VolumePropValues := p \<rparr>;
         let (st1, v1, io2) = GetBthHfpSpeakerVolume remote io1;
         if \<not> NT_SUCCESS st1 then Some (st1, io2, d1, w)
         else do {
           let d2 = d1 \<lparr> m_SpeakerVolumeLevel := v1 \<rparr>;
           let (st2, v2, io3) = GetBthHfpMicVolume remote io2;
           if \<not> NT_SUCCESS st2 then Some (st2, io3, d2, w)
           else Some (st2, io3, d2 \<lparr> m_MicVolumeLevel := v2 \<rparr>, w) } } } })"

definition hfp_Start_connection :: "hfp_remote \<Rightarrow> hfp_world step" where
  "hfp_Start_connection remote = (\<lambda>(io, d, w).
     (case GetBthHfpConnectionStatus remote io of (st, conn, io1) \<Rightarrow>
        if \<not> NT_SUCCESS st then Some (st, io1, d, w)
        else
          (let d1 = d \<lparr> m_ConnectionStatus := conn \<rparr>;
               (st2, codec, io2) = (if conn \<noteq> 0 then
                  (case GetBthHfpCodecId remote io1 of (st0, c, x) \<Rightarrow>
                     (if st0 = STATUS_INVALID_DEVICE_REQUEST then STATUS_SUCCESS else st0, c, x))
                else (st, 0, io1))
           in if \<not> NT_SUCCESS st2 then Some (st2, io2, d1, w)
              else Some (st2, io2, d1 \<lparr> m_CodecId := ucast codec \<rparr>, w))))"

text \<open>A copy gets the names of this device; \<open>idx\<close> selects the tables with 16 kHz formats.\<close>

definition hfp_named :: "string \<Rightarrow> string \<Rightarrow> custom_pair \<Rightarrow> custom_pair" where
  "hfp_named topo wave c = c \<lparr> cp_pair := (cp_pair c) \<lparr> TopoName := topo, WaveName := wave \<rparr> \<rparr>"

definition hfp_Start_speaker_pair :: "hfp_config \<Rightarrow> pair_env \<Rightarrow> hfp_world step" where
  "hfp_Start_speaker_pair cf e = (\<lambda>(io, d, w). do {
     x \<leftarrow> hfp_descriptor d;
     let idx = (if BTHHFP_CODEC_CVSD <s m_CodecId d then 1 else 0);
     (st, p, io1) \<leftarrow> CreateCustomEndpointMinipair e (cf_render cf idx) (FriendlyName x) (OutputPinCategory x) io;
     if \<not> NT_SUCCESS st then Some (st, io1, d, w)
     else Some (st, io1, d \<lparr> m_SpeakerMiniports := map_option (hfp_named (m_SpeakerTopologyName d) (m_SpeakerWaveName d)) p \<rparr>, w) })"

definition hfp_Start_mic_pair :: "hfp_config \<Rightarrow> pair_env \<Rightarrow> hfp_world step" where
  "hfp_Start_mic_pair cf e = (\<lambda>(io, d, w). do {
     x \<leftarrow> hfp_descriptor d;
     let idx = (if BTHHFP_CODEC_CVSD <s m_CodecId d then 1 else 0);
     (st, p, io1) \<leftarrow> CreateCustomEndpointMinipair e (cf_capture cf idx) (FriendlyName x) (InputPinCategory x) io;
     if \<not> NT_SUCCESS st then Some (st, io1, d, w)
     else Some (st, io1, d \<lparr> m_MicMiniports := map_option (hfp_named (m_MicTopologyName d) (m_MicWaveName d)) p \<rparr>, w) })"

definition hfp_Start_speaker_filters :: "filters_env \<Rightarrow> hfp_world step" where
  "hfp_Start_speaker_filters e = (\<lambda>(io, d, w). do {
     c \<leftarrow> m_SpeakerMiniports d;
     (st, outs, w1) \<leftarrow> InstallEndpointFilters e (ENDPOINT_MINIPAIR.truncate (cp_pair c)) want_filters w;
     Some (st, io, d \<lparr> m_UnknownSpeakerTopology := out_topo outs, m_UnknownSpeakerWave := out_wave outs \<rparr>, w1) })"

definition hfp_Start_mic_filters :: "filters_env \<Rightarrow> hfp_world step" where
  "hfp_Start_mic_filters e = (\<lambda>(io, d, w). do {
     c \<leftarrow> m_MicMiniports d;
     (st, outs, w1) \<leftarrow> InstallEndpointFilters e (ENDPOINT_MINIPAIR.truncate (cp_pair c)) want_filters w;
     Some (st, io, d \<lparr> m_UnknownMicTopology := out_topo outs, m_UnknownMicWave := out_wave outs \<rparr>, w1) })"

definition hfp_Start_notify :: "hfp_world step" where
  "hfp_Start_notify = (\<lambda>(io, d, w). Some (fst (NotifyEndpointPair w), io, d, w))"

definition hfp_Start_enable :: "(hfp_io \<Rightarrow> (NTSTATUS \<times> hfp_io) option) \<Rightarrow> hfp_world step" where
  "hfp_Start_enable f = (\<lambda>(io, d, w). do { (st, io1) \<leftarrow> f io; Some (st, io1, d, w) })"

definition hfp_Start :: "hfp_remote \<Rightarrow> hfp_config \<Rightarrow> hfp_start_env \<Rightarrow> hfp_world \<Rightarrow> hfp_world option" where
  "hfp_Start remote cf e s = do {
     (st, io, d, w) \<leftarrow> run_steps
       [hfp_Start_capabilities remote, hfp_Start_descriptor remote (hs_descriptor e),
        hfp_Start_volume remote (hs_values e), hfp_Start_connection remote,
        hfp_Start_speaker_pair cf (hs_speaker_pair e), hfp_Start_mic_pair cf (hs_mic_pair e),
        hfp_Start_speaker_filters (hs_speaker_filters e), hfp_Start_mic_filters (hs_mic_filters e), hfp_Start_notify,
        hfp_Start_enable (EnableBthHfpNrecDisableStatusNotification (hs_send e NRECDisableStatusReq)),
        hfp_Start_enable (EnableBthHfpSpeakerVolumeStatusNotification (hs_send e SpeakerVolumeReq)),
        hfp_Start_enable (EnableBthHfpMicVolumeStatusNotification (hs_send e MicVolumeReq)),
        hfp_Start_enable (EnableBthHfpConnectionStatusNotification (hs_send e ConnectionReq))] s;
     Some (io, if NT_SUCCESS st then d else d \<lparr> m_State := StateFailed \<rparr>, w) }"

text \<open>
  Purging the target completes what is pending as cancelled: the notifications through their
  completion routine, the stream request through its own. Then the work item is flushed and the
  filters are removed. \<open>hx_work\<close> holds the results of the work item's calls.
\<close>

record hfp_stop_env =
  hx_work :: "hfp_req round_env"
  hx_speaker :: filters_env
  hx_mic :: filters_env

definition hfp_notifications :: "hfp_req list" where
  "hfp_notifications = [NRECDisableStatusReq, SpeakerVolumeReq, MicVolumeReq, ConnectionReq]"

definition hfp_purge :: "hfp \<Rightarrow> hfp option" where
  "hfp_purge = (\<lambda>(io, d). do {
     io1 \<leftarrow> cancel_all hfp_notifications (io \<lparr> io_purged := True \<rparr>);
     if pending_in io1 StreamReq then EvtBthHfpDeviceStreamStatusCompletion STATUS_CANCELLED 0 (io1, d)
     else Some (io1, d) })"

definition hfp_Stop :: "hfp_remote \<Rightarrow> hfp_stop_env \<Rightarrow> hfp_world \<Rightarrow> hfp_world option" where
  "hfp_Stop remote e = (\<lambda>(io, d, w). do {
     s1 \<leftarrow> hfp_purge (io, d \<lparr> m_State := StateStopping \<rparr>);
     (io2, d2) \<leftarrow> notif_flush (hfp_notification remote) rearm_buffer (hx_work e) s1;
     w1 \<leftarrow> remove_pair_filters (hx_speaker e) (m_SpeakerMiniports d2) (m_UnknownSpeakerTopology d2) (m_UnknownSpeakerWave d2) w;
     w2 \<leftarrow> remove_pair_filters (hx_mic e) (m_MicMiniports d2) (m_UnknownMicTopology d2) (m_UnknownMicWave d2) w1;
     w3 \<leftarrow> safe_release (m_UnknownSpeakerTopology d2) w2;
     w4 \<leftarrow> safe_release (m_UnknownSpeakerWave d2) w3;
     w5 \<leftarrow> safe_release (m_UnknownMicTopology d2) w4;
     w6 \<leftarrow> safe_release (m_UnknownMicWave d2) w5;
     Some (io2, d2 \<lparr> m_UnknownSpeakerTopology := None, m_UnknownSpeakerWave := None, m_UnknownMicTopology := None,
                      m_UnknownMicWave := None, m_State := StateStopped \<rparr>, w6) })"

text \<open>The destructor deletes four of the five requests, in this order.\<close>

definition hfp_deleted_requests :: "hfp_req list" where
  "hfp_deleted_requests = [SpeakerVolumeReq, MicVolumeReq, ConnectionReq, StreamReq]"

definition hfp_dtor :: "hfp_world \<Rightarrow> hfp_world option" where
  "hfp_dtor = (\<lambda>(io, d, w). do {
     io1 \<leftarrow> wdf_delete_if (m_WdfIoTarget d) WdfIoTarget io;
     io2 \<leftarrow> pool_free_opt (map_option fst (m_SymbolicLinkName d)) MINADAPTER_POOLTAG io1;
     io3 \<leftarrow> DeleteCustomEndpointMinipair (m_SpeakerMiniports d) io2;
     io4 \<leftarrow> DeleteCustomEndpointMinipair (m_MicMiniports d) io3;
     io5 \<leftarrow> pool_free_opt (map_option fst (m_Descriptor d)) MINADAPTER_POOLTAG io4;
     io6 \<leftarrow> pool_free_opt (map_option fst (m_VolumePropValues d)) MINADAPTER_POOLTAG io5;
     io7 \<leftarrow> delete_requests hfp_deleted_requests io6;
     io8 \<leftarrow> wdf_delete_if (m_WorkItem d) WdfWorkItem io7;
     io9 \<leftarrow> wdf_delete_if (m_ReqCollection d) WdfCollection io8;
     w1 \<leftarrow> safe_release (m_UnknownSpeakerTopology d) w;
     w2 \<leftarrow> safe_release (m_UnknownSpeakerWave d) w1;
     w3 \<leftarrow> safe_release (m_UnknownMicTopology d) w2;
     w4 \<leftarrow> safe_release (m_UnknownMicWave d) w3;
     Some (io9, d \<lparr> m_WdfIoTarget := False, m_SymbolicLinkName := None, m_SpeakerMiniports := None, m_MicMiniports := None,
                    m_Descriptor := None, m_VolumePropValues := None, m_WorkItem := False, m_ReqCollection := False,
                    m_UnknownSpeakerTopology := None, m_UnknownSpeakerWave := None, m_UnknownMicTopology := None,
                    m_UnknownMicWave := None \<rparr>, w4) })"

end
