(* ===== verification/HfpSafety.thy ===== *)
theory HfpSafety
  imports HfpDevice
begin

text \<open>
  What holds of the hands-free device (theory HfpDevice) between Start and Stop: the invariant of
  streams, notification requests and memory, and its preservation by every sequence of client
  calls, completions and work-item rounds.
\<close>

section \<open>The channel\<close>

text \<open>Whether the driver has the SCO channel open, from the IOCTLs sent so far.\<close>

fun sco_open :: "(hfp_ioctl \<times> NTSTATUS) list \<Rightarrow> bool \<Rightarrow> bool" where
  "sco_open [] b = b"
| "sco_open ((c, st) # log) b = sco_open log
     (if c = IOCTL_BTHHFP_STREAM_OPEN then b \<or> NT_SUCCESS st \<or> st = STATUS_DEVICE_BUSY
      else if c = IOCTL_BTHHFP_STREAM_CLOSE then False else b)"

lemma sco_open_append: "sco_open (l @ m) b = sco_open m (sco_open l b)"
  by (induction l b rule: sco_open.induct) auto

lemma sco_open_other:
  "\<forall>c \<in> set (map fst m). c \<noteq> IOCTL_BTHHFP_STREAM_OPEN \<and> c \<noteq> IOCTL_BTHHFP_STREAM_CLOSE \<Longrightarrow> sco_open m b = b"
  by (induction m b rule: sco_open.induct) auto

section \<open>What notifications change\<close>

text \<open>The record without the fields the work item writes.\<close>

definition hfp_core :: "BthHfpDevice \<Rightarrow> BthHfpDevice" where
  "hfp_core d = d \<lparr> m_SpeakerVolumeLevel := 0, m_MicVolumeLevel := 0, m_ConnectionStatus := 0, m_CodecId := 0,
     m_NRECDisableStatus := 0, m_Invoked := [] \<rparr>"

lemma hfp_coreD:
  "hfp_core d' = hfp_core d \<Longrightarrow> m_State d' = m_State d \<and> m_WdfIoTarget d' = m_WdfIoTarget d \<and> m_WorkItem d' = m_WorkItem d
     \<and> m_ReqCollection d' = m_ReqCollection d \<and> m_SymbolicLinkName d' = m_SymbolicLinkName d
     \<and> m_SpeakerMiniports d' = m_SpeakerMiniports d \<and> m_MicMiniports d' = m_MicMiniports d
     \<and> m_UnknownSpeakerTopology d' = m_UnknownSpeakerTopology d \<and> m_UnknownSpeakerWave d' = m_UnknownSpeakerWave d
     \<and> m_UnknownMicTopology d' = m_UnknownMicTopology d \<and> m_UnknownMicWave d' = m_UnknownMicWave d
     \<and> m_Descriptor d' = m_Descriptor d \<and> m_VolumePropValues d' = m_VolumePropValues d
     \<and> m_StreamStatus d' = m_StreamStatus d \<and> m_StreamStatusEvent d' = m_StreamStatusEvent d \<and> m_nStreams d' = m_nStreams d"
  by (cases d; cases d') (simp add: hfp_core_def)

lemma invoke_core [simp]: "hfp_core (invoke c d) = hfp_core d"
  by (cases d) (simp add: invoke_def hfp_core_def split: option.split)

lemma core_updates [simp]:
  "hfp_core (d \<lparr> m_SpeakerVolumeLevel := v \<rparr>) = hfp_core d" "hfp_core (d \<lparr> m_MicVolumeLevel := v \<rparr>) = hfp_core d"
  "hfp_core (d \<lparr> m_ConnectionStatus := v \<rparr>) = hfp_core d" "hfp_core (d \<lparr> m_CodecId := v \<rparr>) = hfp_core d"
  "hfp_core (d \<lparr> m_NRECDisableStatus := v \<rparr>) = hfp_core d"
  by (simp_all add: hfp_core_def)

lemma call_log: "hfp_call remote c io = (st, io') \<Longrightarrow> \<exists>x. io' = io \<lparr> io_log := io_log io @ [(c, x)] \<rparr> \<and> NT_SUCCESS st = NT_SUCCESS x"
  by (auto simp: hfp_call_def SendIoCtrlSynchronously_def split: prod.splits)

lemma long_log: "hfp_get_long remote c io = (st, v, io') \<Longrightarrow> \<exists>x. io' = io \<lparr> io_log := io_log io @ [(c, x)] \<rparr>"
  by (auto simp: hfp_get_long_def SendIoCtrlSynchronously_def split: prod.splits)

lemma codec_log: "GetBthHfpCodecId remote io = (st, v, io') \<Longrightarrow>
    \<exists>x. io' = io \<lparr> io_log := io_log io @ [(IOCTL_BTHHFP_DEVICE_GET_CODEC_ID, x)] \<rparr>"
  by (auto simp: GetBthHfpCodecId_def SendIoCtrlSynchronously_def split: prod.splits)

lemma connection_update_io:
  assumes "connection_update remote b (io, d) = (io', d')"
  shows "(\<exists>m. io' = io \<lparr> io_log := io_log io @ m \<rparr> \<and> (\<forall>c \<in> set (map fst m). c = IOCTL_BTHHFP_DEVICE_GET_CODEC_ID))
    \<and> hfp_core d' = hfp_core d"
proof -
  obtain st codec io1 where c: "GetBthHfpCodecId remote io = (st, codec, io1)" by (metis prod_cases3)
  obtain x where x: "io1 = io \<lparr> io_log := io_log io @ [(IOCTL_BTHHFP_DEVICE_GET_CODEC_ID, x)] \<rparr>"
    using codec_log [OF c] by blast
  have n: "\<exists>m. io = io \<lparr> io_log := io_log io @ m \<rparr> \<and> (\<forall>c \<in> set (map fst m). c = IOCTL_BTHHFP_DEVICE_GET_CODEC_ID)"
    by (rule exI [of _ "[]"]) simp
  show ?thesis
  proof (cases "b = 0")
    case True
    then show ?thesis using assms n by (auto simp: connection_update_def Let_def split: if_splits)
  next
    case False
    have "io' = io1" "hfp_core d' = hfp_core d"
      using assms False c by (auto simp: connection_update_def Let_def split: if_splits)
    then show ?thesis using x by (intro conjI exI [of _ "[(IOCTL_BTHHFP_DEVICE_GET_CODEC_ID, x)]"]) simp_all
  qed
qed

text \<open>The work item leaves the channel and everything but its own fields alone.\<close>

interpretation hfp_notif: notification_handler "hfp_notification remote"
    "\<lambda>log d. sco_open log False = s \<and> hfp_core d = c"
  for remote :: hfp_remote and s :: bool and c :: BthHfpDevice
proof
  fix code :: hfp_ioctl and b b' :: LONG and io io' :: hfp_io and d d' :: BthHfpDevice and resend
  assume h: "hfp_notification remote code b (io, d) = (resend, b', io', d')"
  have "(\<exists>m. io' = io \<lparr> io_log := io_log io @ m \<rparr> \<and> sco_open m (sco_open (io_log io) False) = sco_open (io_log io) False)
      \<and> hfp_core d' = hfp_core d"
  proof (cases "\<exists>i. code = IOCTL_BTHHFP_DEVICE_GET_CONNECTION_STATUS_UPDATE i")
    case True
    then obtain i where i: "code = IOCTL_BTHHFP_DEVICE_GET_CONNECTION_STATUS_UPDATE i" by blast
    obtain io1 d1 where u: "connection_update remote b (io, d) = (io1, d1)" by fastforce
    obtain m where m: "io1 = io \<lparr> io_log := io_log io @ m \<rparr>" "\<forall>c \<in> set (map fst m). c = IOCTL_BTHHFP_DEVICE_GET_CODEC_ID"
        "hfp_core d1 = hfp_core d"
      using connection_update_io [OF u] by blast
    have "sco_open m (sco_open (io_log io) False) = sco_open (io_log io) False"
      using m(2) by (intro sco_open_other) auto
    moreover have "io' = io1" "d' = d1" using h i u by (simp_all add: hfp_notification_def)
    ultimately show ?thesis using m by blast
  next
    case False
    then have "io' = io" "hfp_core d' = hfp_core d"
      using h by (auto simp: hfp_notification_def volume_update_def Let_def split: hfp_ioctl.splits if_splits)
    then show ?thesis by (intro conjI exI [of _ "[]"]) simp_all
  qed
  then obtain m where m: "io' = io \<lparr> io_log := io_log io @ m \<rparr>" "sco_open m (sco_open (io_log io) False) = sco_open (io_log io) False"
      "hfp_core d' = hfp_core d" by blast
  from m(1) show "\<exists>l. io' = io \<lparr> io_log := l \<rparr>" by blast
  assume "sco_open (io_log io) False = s \<and> hfp_core d = c"
  then show "sco_open (io_log io') False = s \<and> hfp_core d' = c" using m by (simp add: sco_open_append)
qed

section \<open>The invariant\<close>

text \<open>The pool memory and the WDF objects the device owns, on top of \<open>P\<close> and \<open>X\<close>.\<close>

definition hfp_blocks :: "BthHfpDevice \<Rightarrow> pool_tag multiset" where
  "hfp_blocks d = block_of (m_SymbolicLinkName d) + pair_blocks (m_SpeakerMiniports d) + pair_blocks (m_MicMiniports d)
     + block_of (m_Descriptor d) + block_of (m_VolumePropValues d)"

definition hfp_members :: "BthHfpDevice \<Rightarrow> wdf_object multiset" where
  "hfp_members d = (if m_WdfIoTarget d then {#WdfIoTarget#} else {#}) + (if m_WorkItem d then {#WdfWorkItem#} else {#})
     + (if m_ReqCollection d then {#WdfCollection#} else {#})"

definition hfp_req_objs :: "hfp_io \<Rightarrow> wdf_object multiset" where
  "hfp_req_objs io = sum_list (map (\<lambda>q. req_objs (req_mems io q)) hfp_requests)"

definition tag_ok :: "(pool_tag \<times> 'v) option \<Rightarrow> bool" where
  "tag_ok p \<longleftrightarrow> (\<forall>t v. p = Some (t, v) \<longrightarrow> t = MINADAPTER_POOLTAG)"

definition hfp_mem :: "pool_tag multiset \<Rightarrow> wdf_object multiset \<Rightarrow> hfp \<Rightarrow> bool" where
  "hfp_mem P X = (\<lambda>(io, d). io_pool io = hfp_blocks d + P \<and> io_objects io = hfp_members d + hfp_req_objs io + X
     \<and> tag_ok (m_SymbolicLinkName d) \<and> tag_ok (m_Descriptor d) \<and> tag_ok (m_VolumePropValues d)
     \<and> pair_ok (m_SpeakerMiniports d) \<and> pair_ok (m_MicMiniports d))"

text \<open>
  Streams: the event is set exactly when the stream request is not with the target, the request is
  with the target and the status is a success only while a stream runs, and the channel is open
  exactly while a stream runs.
\<close>

definition streams_ok :: "hfp \<Rightarrow> bool" where
  "streams_ok = (\<lambda>(io, d). io_reqs io StreamReq \<noteq> None \<and> m_StreamStatusEvent d = (\<not> pending_in io StreamReq)
     \<and> 0 \<le> m_nStreams d \<and> (pending_in io StreamReq \<longrightarrow> 0 < m_nStreams d)
     \<and> (NT_SUCCESS (m_StreamStatus d) \<longrightarrow> 0 < m_nStreams d) \<and> sco_open (io_log io) False = (0 < m_nStreams d))"

text \<open>All requests exist with both memory objects.\<close>

definition hfp_ok :: "pool_tag multiset \<Rightarrow> wdf_object multiset \<Rightarrow> hfp \<Rightarrow> bool" where
  "hfp_ok P X s \<longleftrightarrow> hfp_mem P X s \<and> notifs_ok hfp_notifications (fst s) \<and> streams_ok s
     \<and> (\<forall>q. req_mems (fst s) q = Some (True, True))"

lemma tag_ok_simps [simp]: "tag_ok None" "tag_ok (Some (MINADAPTER_POOLTAG, v))"
  by (simp_all add: tag_ok_def)

lemma StreamReq_no_notification [simp]: "StreamReq \<notin> set hfp_notifications"
  by (simp add: hfp_notifications_def)

lemma hfp_req_objs_frame: "io_frame io io' \<Longrightarrow> hfp_req_objs io' = hfp_req_objs io"
  by (simp add: hfp_req_objs_def io_frame_mems)

lemma mem_frame:
  assumes "hfp_mem P X (io, d)" and "io_frame io io'"
    and "m_WdfIoTarget d' = m_WdfIoTarget d" "m_WorkItem d' = m_WorkItem d" "m_ReqCollection d' = m_ReqCollection d"
    "m_SymbolicLinkName d' = m_SymbolicLinkName d" "m_SpeakerMiniports d' = m_SpeakerMiniports d"
    "m_MicMiniports d' = m_MicMiniports d" "m_Descriptor d' = m_Descriptor d" "m_VolumePropValues d' = m_VolumePropValues d"
  shows "hfp_mem P X (io', d')"
  using assms hfp_req_objs_frame [OF assms(2)]
  by (simp add: hfp_mem_def hfp_blocks_def hfp_members_def io_frame_def)

text \<open>A change that only writes the work item's fields, sends other IOCTLs and touches no stream request.\<close>

lemma ok_core:
  assumes ok: "hfp_ok P X (io, d)" and f: "io_frame io io'" and n: "notifs_ok hfp_notifications io'"
    and c: "hfp_core d' = hfp_core d" and s: "sco_open (io_log io') False = sco_open (io_log io) False"
    and r: "io_reqs io' StreamReq = io_reqs io StreamReq"
  shows "hfp_ok P X (io', d')"
proof -
  note cd = hfp_coreD [OF c]
  have m: "hfp_mem P X (io, d)" using ok by (simp add: hfp_ok_def)
  have "hfp_mem P X (io', d')" by (rule mem_frame [OF m f]) (simp_all add: cd)
  moreover have "pending_in io' StreamReq = pending_in io StreamReq" using r by (simp add: pending_in_def)
  ultimately show ?thesis using ok n s r cd io_frame_mems [OF f] by (simp add: hfp_ok_def streams_ok_def)
qed

section \<open>Events between Start and Stop\<close>

text \<open>
  Calls of the miniports, completions by the target (with the result of WdfCollectionAdd, the status
  and the contents of the buffer), and the rounds of the work item. An event that cannot happen in a
  state leaves it alone: a miniport suspends only what it started, the target completes only what it
  has, and the work item runs when it is queued.
\<close>

datatype hfp_handler = VolumeHandler | MuteHandler | ConnectionStatusHandler | FormatChangeHandler

datatype hfp_event =
    EvStreamStart send_env eDeviceType
  | EvStreamSuspend NTSTATUS eDeviceType
  | EvCompletion hfp_req NTSTATUS NTSTATUS LONG
  | EvWorkBegin
  | EvWorkRound "hfp_req round_env"
  | EvGetVolume eDeviceType LONG
  | EvSetVolume eDeviceType LONG LONG
  | EvConnect
  | EvDisconnect
  | EvSetHandler hfp_handler eDeviceType "event_callback option"

fun hfp_do :: "hfp_remote \<Rightarrow> hfp_event \<Rightarrow> hfp \<Rightarrow> hfp option" where
  "hfp_do remote (EvStreamStart e t) s = map_option snd (hfp_StreamStart remote e t s)"
| "hfp_do remote (EvStreamSuspend reuse t) s =
     (if 0 < m_nStreams (snd s) then map_option snd (hfp_StreamSuspend remote reuse t s) else Some s)"
| "hfp_do remote (EvCompletion q add st b) s =
     (if \<not> pending_in (fst s) q then Some s
      else if q = StreamReq then EvtBthHfpDeviceStreamStatusCompletion st b s
      else map_option (\<lambda>io. (io, snd s)) (NotificationStatusCompletion add st b q (fst s)))"
| "hfp_do remote EvWorkBegin s =
     Some (if io_queued (fst s) \<and> \<not> io_busy (fst s) then (begin_work (fst s), snd s) else s)"
| "hfp_do remote (EvWorkRound e) s =
     (if io_busy (fst s) then notif_round (hfp_notification remote) rearm_buffer e s else Some s)"
| "hfp_do remote (EvGetVolume t ch) s = Some (snd (snd (hfp_GetVolume remote t ch s)))"
| "hfp_do remote (EvSetVolume t ch v) s = Some (snd (hfp_SetVolume remote t ch v (fst s)), snd s)"
| "hfp_do remote EvConnect s = Some (snd (hfp_Connect remote (fst s)), snd s)"
| "hfp_do remote EvDisconnect s = Some (snd (hfp_Disconnect remote (fst s)), snd s)"
| "hfp_do remote (EvSetHandler k t h) s = Some (fst s,
     (case k of VolumeHandler \<Rightarrow> hfp_SetVolumeHandler t h (snd s) | MuteHandler \<Rightarrow> hfp_SetMuteHandler t h (snd s)
      | ConnectionStatusHandler \<Rightarrow> hfp_SetConnectionStatusHandler t h (snd s)
      | FormatChangeHandler \<Rightarrow> hfp_SetFormatChangeHandler t h (snd s)))"

fun hfp_run :: "hfp_remote \<Rightarrow> hfp_event list \<Rightarrow> hfp \<Rightarrow> hfp option" where
  "hfp_run remote [] s = Some s"
| "hfp_run remote (e # es) s = do { s1 \<leftarrow> hfp_do remote e s; hfp_run remote es s1 }"

section \<open>Events keep the invariant\<close>

lemma frame_streams:
  assumes "hfp_ok P X (io, d)" and "io_frame io io'" and "notifs_ok hfp_notifications io'" and "streams_ok (io', d')"
    and "m_WdfIoTarget d' = m_WdfIoTarget d" "m_WorkItem d' = m_WorkItem d" "m_ReqCollection d' = m_ReqCollection d"
    "m_SymbolicLinkName d' = m_SymbolicLinkName d" "m_SpeakerMiniports d' = m_SpeakerMiniports d"
    "m_MicMiniports d' = m_MicMiniports d" "m_Descriptor d' = m_Descriptor d" "m_VolumePropValues d' = m_VolumePropValues d"
  shows "hfp_ok P X (io', d')"
  using assms mem_frame [of P X io d io' d'] io_frame_mems [OF assms(2)] by (simp add: hfp_ok_def)

lemma io_frame_stream: "io_reqs io StreamReq = Some r \<Longrightarrow> MemIn r' = MemIn r \<Longrightarrow> MemOut r' = MemOut r \<Longrightarrow>
    io_frame io (io \<lparr> io_reqs := (io_reqs io)(StreamReq \<mapsto> r') \<rparr>)"
  by (simp add: io_frame_def)

lemma StreamStart_ok:
  assumes ok: "hfp_ok P X (io, d)"
  shows "\<exists>st s'. hfp_StreamStart remote e t (io, d) = Some (st, s') \<and> hfp_ok P X s'
    \<and> m_nStreams (snd s') = m_nStreams d + (if NT_SUCCESS st then 1 else 0)
    \<and> (\<not> NT_SUCCESS st \<longrightarrow> m_nStreams d = 0)"
proof (cases "m_nStreams d = 0")
  case False
  then have "hfp_ok P X (io, d \<lparr> m_nStreams := m_nStreams d + 1 \<rparr>)"
    using ok by (intro frame_streams [OF ok]) (auto simp: hfp_ok_def streams_ok_def)
  then show ?thesis using False by (simp add: hfp_StreamStart_def)
next
  case n0: True
  obtain r where r: "io_reqs io StreamReq = Some r" "\<not> Pending r"
    using ok n0 by (auto simp: hfp_ok_def streams_ok_def pending_in_def)
  obtain x v where x: "remote (io_log io) IOCTL_BTHHFP_STREAM_OPEN = (x, v)" by fastforce
  let ?st = "ioctl_done (if x = STATUS_DEVICE_BUSY then STATUS_SUCCESS else x)"
  let ?io1 = "io \<lparr> io_log := io_log io @ [(IOCTL_BTHHFP_STREAM_OPEN, x)] \<rparr>"
  have o: "SetBthHfpStreamOpen remote io = (?st, ?io1)"
    using x by (simp add: SetBthHfpStreamOpen_def SendIoCtrlSynchronously_def)
  let ?d1 = "d \<lparr> m_nStreams := 1 \<rparr>"
  have s0: "\<not> sco_open (io_log io) False" "m_StreamStatusEvent d" using ok n0 by (auto simp: hfp_ok_def streams_ok_def)
  show ?thesis
  proof (cases "NT_SUCCESS ?st")
    case False
    then have "\<not> NT_SUCCESS x" "x \<noteq> STATUS_DEVICE_BUSY" by (auto split: if_splits)
    then have "hfp_ok P X (?io1, d \<lparr> m_nStreams := 0, m_StreamStatus := STATUS_INVALID_DEVICE_STATE \<rparr>)"
      using ok n0 s0 by (intro frame_streams [OF ok]) (auto simp: hfp_ok_def streams_ok_def sco_open_append)
    then show ?thesis using False o n0 by (simp add: hfp_StreamStart_def)
  next
    case opened: True
    let ?b = "FALSE_BOOL :: LONG"
    obtain st r' where en: "enable_notification e StreamReq (IOCTL_BTHHFP_STREAM_GET_STATUS_UPDATE FALSE_BOOL) ?b ?io1
          = Some (st, ?io1 \<lparr> io_reqs := (io_reqs io)(StreamReq \<mapsto> r') \<rparr>)"
        "MemIn r' = MemIn r" "MemOut r' = MemOut r" "Pending r' = NT_SUCCESS st"
      using enable_other [of ?io1 StreamReq r e "IOCTL_BTHHFP_STREAM_GET_STATUS_UPDATE FALSE_BOOL" ?b] r by auto
    let ?io2 = "?io1 \<lparr> io_reqs := (io_reqs io)(StreamReq \<mapsto> r') \<rparr>"
    have f: "io_frame io ?io2" using r en by (simp add: io_frame_def)
    have nt: "notifs_ok hfp_notifications ?io2"
      using ok notifs_ok_other [of hfp_notifications ?io1 StreamReq "Some r'"] by (simp add: hfp_ok_def)
    have op: "x = STATUS_DEVICE_BUSY \<or> NT_SUCCESS x" using opened by (auto split: if_splits)
    show ?thesis
    proof (cases "NT_SUCCESS st")
      case True
      have "streams_ok (?io2, ?d1 \<lparr> m_StreamStatus := STATUS_SUCCESS, m_StreamStatusEvent := False \<rparr>)"
        using op en(4) True by (auto simp: streams_ok_def pending_in_def sco_open_append)
      then have "hfp_ok P X (?io2, ?d1 \<lparr> m_StreamStatus := STATUS_SUCCESS, m_StreamStatusEvent := False \<rparr>)"
        by (rule frame_streams [OF ok f nt]) simp_all
      then show ?thesis
        using True o opened en n0 by (simp add: hfp_StreamStart_def EnableBthHfpStreamStatusNotification_def)
    next
      case False
      obtain y where y: "snd (SetBthHfpStreamClose remote ?io2) = ?io2 \<lparr> io_log := io_log ?io2 @ [(IOCTL_BTHHFP_STREAM_CLOSE, y)] \<rparr>"
        using call_log [of remote IOCTL_BTHHFP_STREAM_CLOSE ?io2] by (metis SetBthHfpStreamClose_def prod.collapse)
      let ?io3 = "?io2 \<lparr> io_log := io_log ?io2 @ [(IOCTL_BTHHFP_STREAM_CLOSE, y)] \<rparr>"
      let ?d2 = "d \<lparr> m_StreamStatusEvent := True, m_nStreams := 0, m_StreamStatus := STATUS_INVALID_DEVICE_STATE \<rparr>"
      have "io_frame io ?io3" by (rule io_frame_trans [OF f io_frame_refl(2)])
      moreover have "notifs_ok hfp_notifications ?io3" using nt by (simp only: notifs_ok_frame)
      moreover have "streams_ok (?io3, ?d2)" using en(4) False by (simp add: streams_ok_def pending_in_def sco_open_append)
      ultimately have "hfp_ok P X (?io3, ?d2)" by (rule frame_streams [OF ok]) simp_all
      then show ?thesis
        using False o opened en n0 y by (simp add: hfp_StreamStart_def EnableBthHfpStreamStatusNotification_def)
    qed
  qed
qed

text \<open>The completion of the stream request, by the device or by a cancellation.\<close>

lemma stream_completion:
  assumes r: "io_reqs io StreamReq = Some r" "Pending r"
  shows "EvtBthHfpDeviceStreamStatusCompletion st b (io, d) = Some
     (io \<lparr> io_reqs := (io_reqs io)(StreamReq \<mapsto> r \<lparr> Pending := False, IoStatus := st, Buffer := b \<rparr>) \<rparr>,
      d \<lparr> m_StreamStatus := (if NT_SUCCESS st then b else STATUS_INVALID_DEVICE_STATE), m_StreamStatusEvent := True \<rparr>)"
  using r by (simp add: EvtBthHfpDeviceStreamStatusCompletion_def)

lemma stream_completion_ok:
  assumes ok: "hfp_ok P X (io, d)" and p: "pending_in io StreamReq"
  shows "\<exists>s'. EvtBthHfpDeviceStreamStatusCompletion st b (io, d) = Some s' \<and> hfp_ok P X s'
    \<and> \<not> pending_in (fst s') StreamReq \<and> m_nStreams (snd s') = m_nStreams d"
proof -
  obtain r where r: "io_reqs io StreamReq = Some r" "Pending r"
    using p by (auto simp: pending_in_def split: option.splits)
  let ?r' = "r \<lparr> Pending := False, IoStatus := st, Buffer := b \<rparr>"
  let ?io' = "io \<lparr> io_reqs := (io_reqs io)(StreamReq \<mapsto> ?r') \<rparr>"
  let ?d' = "d \<lparr> m_StreamStatus := (if NT_SUCCESS st then b else STATUS_INVALID_DEVICE_STATE), m_StreamStatusEvent := True \<rparr>"
  have f: "io_frame io ?io'" using r by (simp add: io_frame_def)
  have nt: "notifs_ok hfp_notifications ?io'" using ok by (intro notifs_ok_other) (simp_all add: hfp_ok_def)
  have "streams_ok (?io', ?d')" using ok r by (auto simp: hfp_ok_def streams_ok_def pending_in_def)
  then have "hfp_ok P X (?io', ?d')" by (rule frame_streams [OF ok f nt]) simp_all
  then show ?thesis using stream_completion [OF r] by (simp add: pending_in_def)
qed

lemma StreamSuspend_ok:
  assumes ok: "hfp_ok P X (io, d)" and n: "0 < m_nStreams d"
  shows "\<exists>st s'. hfp_StreamSuspend remote reuse t (io, d) = Some (st, s') \<and> hfp_ok P X s'
    \<and> m_nStreams (snd s') = m_nStreams d - 1"
proof (cases "m_nStreams d = 1")
  case False
  then have "hfp_ok P X (io, d \<lparr> m_nStreams := m_nStreams d - 1 \<rparr>)"
    using ok n by (intro frame_streams [OF ok]) (auto simp: hfp_ok_def streams_ok_def)
  then show ?thesis using False by (simp add: hfp_StreamSuspend_def)
next
  case one: True
  obtain st io1 where c: "SetBthHfpStreamClose remote io = (st, io1)" by fastforce
  obtain y where y: "io1 = io \<lparr> io_log := io_log io @ [(IOCTL_BTHHFP_STREAM_CLOSE, y)] \<rparr>"
    using call_log [of remote IOCTL_BTHHFP_STREAM_CLOSE io st io1] c by (auto simp: SetBthHfpStreamClose_def)
  let ?d1 = "d \<lparr> m_nStreams := 0 \<rparr>"
  obtain r where r: "io_reqs io StreamReq = Some r" using ok by (auto simp: hfp_ok_def streams_ok_def)
  let ?r' = "if Pending r then r \<lparr> Pending := False, IoStatus := STATUS_CANCELLED, Buffer := 0 \<rparr> else r"
  let ?io2 = "io1 \<lparr> io_reqs := (io_reqs io)(StreamReq \<mapsto> ?r') \<rparr>"
  let ?d2 = "d \<lparr> m_nStreams := 0, m_StreamStatusEvent := True, m_StreamStatus := STATUS_INVALID_DEVICE_STATE \<rparr>"
  have e: "m_StreamStatusEvent d = (\<not> Pending r)" using ok r by (simp add: hfp_ok_def streams_ok_def pending_in_def)
  have f: "io_frame io ?io2" using r y by (simp add: io_frame_def)
  have nt: "notifs_ok hfp_notifications ?io2"
    using ok notifs_ok_other [of hfp_notifications io1 StreamReq "Some ?r'"] y by (simp add: hfp_ok_def)
  have "streams_ok (?io2, ?d2)" using y by (simp add: streams_ok_def pending_in_def sco_open_append)
  then have k: "hfp_ok P X (?io2, ?d2)" by (rule frame_streams [OF ok f nt]) simp_all
  have r1: "io_reqs io1 StreamReq = Some r" using r y by simp
  have "\<exists>d2. StopBthHfpStreamStatusNotification reuse (io1, ?d1) = Some (STATUS_SUCCESS, ?io2, d2)
      \<and> d2 \<lparr> m_StreamStatus := STATUS_INVALID_DEVICE_STATE \<rparr> = ?d2"
  proof (cases "Pending r")
    case True
    then show ?thesis
      using stream_completion [OF r1, of STATUS_CANCELLED 0 ?d1] r1 y
      by (simp add: StopBthHfpStreamStatusNotification_def pending_in_def)
  next
    case False
    have "(io_reqs io)(StreamReq \<mapsto> r) = io_reqs io" using r by auto
    then show ?thesis using False r1 e y by (simp add: StopBthHfpStreamStatusNotification_def pending_in_def)
  qed
  then show ?thesis using k c one by (auto simp: hfp_StreamSuspend_def)
qed

lemma call_ok:
  assumes ok: "hfp_ok P X (io, d)" and c: "c \<noteq> IOCTL_BTHHFP_STREAM_OPEN" "c \<noteq> IOCTL_BTHHFP_STREAM_CLOSE"
    and d: "hfp_core d' = hfp_core d"
  shows "hfp_ok P X (io \<lparr> io_log := io_log io @ [(c, x)] \<rparr>, d')"
  by (rule ok_core [OF ok _ _ d]) (use ok c in \<open>simp_all add: hfp_ok_def sco_open_append\<close>)

lemma GetVolume_ok: "hfp_ok P X (io, d) \<Longrightarrow> hfp_ok P X (snd (snd (hfp_GetVolume remote t ch (io, d))))"
  by (cases t) (auto simp: hfp_GetVolume_def GetBthHfpSpeakerVolume_def GetBthHfpMicVolume_def call_ok
      split: prod.split dest!: long_log)

lemma hfp_call_ok:
  assumes "hfp_ok P X (io, d)" and "c \<noteq> IOCTL_BTHHFP_STREAM_OPEN" "c \<noteq> IOCTL_BTHHFP_STREAM_CLOSE"
  shows "hfp_ok P X (snd (hfp_call remote c io), d)"
  using call_log [of remote c io] call_ok [OF assms refl] by (metis prod.collapse)

lemma SetVolume_ok: "hfp_ok P X (io, d) \<Longrightarrow> hfp_ok P X (snd (hfp_SetVolume remote t ch v io), d)"
  by (cases t) (simp_all add: hfp_SetVolume_def SetBthHfpSpeakerVolume_def SetBthHfpMicVolume_def hfp_call_ok)

lemma set_handler_ok: "hfp_ok P X (io, d) \<Longrightarrow> hfp_ok P X (io, set_handler cs cm t h d)"
  by (cases t) (auto simp: set_handler_def hfp_ok_def streams_ok_def hfp_mem_def hfp_blocks_def hfp_members_def)

lemma Completion_event_ok:
  assumes ok: "hfp_ok P X (io, d)" and p: "pending_in io q" "q \<noteq> StreamReq"
  shows "\<exists>io'. NotificationStatusCompletion add st b q io = Some io' \<and> hfp_ok P X (io', d)"
proof -
  obtain r where r: "io_reqs io q = Some r" "Pending r" using p by (auto simp: pending_in_def split: option.splits)
  have "q \<in> set hfp_notifications" using p(2) by (cases q) (simp_all add: hfp_notifications_def)
  from Completion_ok [OF _ this r, of add st b] ok obtain io' where
    "NotificationStatusCompletion add st b q io = Some io'" "notifs_ok hfp_notifications io'" "io_frame io io'"
    "\<forall>p. p \<noteq> q \<longrightarrow> io_reqs io' p = io_reqs io p" "io_log io' = io_log io"
    by (auto simp: hfp_ok_def)
  then show ?thesis using ok_core [OF ok] p(2) by auto
qed

lemma Round_event_ok:
  assumes ok: "hfp_ok P X (io, d)"
  shows "\<exists>s'. notif_round (hfp_notification remote) rearm_buffer e (io, d) = Some s' \<and> hfp_ok P X s'"
proof -
  obtain io' d' where k: "notif_round (hfp_notification remote) rearm_buffer e (io, d) = Some (io', d')"
      "notifs_ok hfp_notifications io'" "io_frame io io'" "io_reqs io' StreamReq = io_reqs io StreamReq"
      "sco_open (io_log io') False = sco_open (io_log io) False" "hfp_core d' = hfp_core d"
    using hfp_notif.round_ok [of hfp_notifications io remote rearm_buffer e d "sco_open (io_log io) False" "hfp_core d"] ok
    by (auto simp: hfp_ok_def)
  then show ?thesis using ok_core [OF ok k(3) k(2) k(6) k(5) k(4)] by blast
qed

lemma Begin_event_ok: "hfp_ok P X (io, d) \<Longrightarrow> hfp_ok P X (begin_work io, d)"
  by (rule ok_core [of P X io d]) (auto simp: begin_work_def hfp_ok_def io_frame_def)

lemma hfp_do_ok:
  assumes ok: "hfp_ok P X (io, d)"
  shows "\<exists>s'. hfp_do remote e (io, d) = Some s' \<and> hfp_ok P X s'"
proof (cases e)
  case (EvStreamStart se t)
  then show ?thesis using StreamStart_ok [OF ok, of remote se t] by auto
next
  case (EvStreamSuspend reuse t)
  then show ?thesis using StreamSuspend_ok [OF ok, of remote reuse t] ok by auto
next
  case (EvCompletion q add st b)
  then show ?thesis
    using Completion_event_ok [OF ok, of q add st b] stream_completion_ok [OF ok, of st b] ok by auto
next
  case EvWorkBegin
  then show ?thesis using Begin_event_ok [OF ok] ok by simp
next
  case (EvWorkRound ne)
  then show ?thesis using Round_event_ok [OF ok] ok by auto
next
  case (EvSetHandler k t h)
  then show ?thesis using set_handler_ok [OF ok]
    by (cases k) (simp_all add: hfp_SetVolumeHandler_def hfp_SetMuteHandler_def hfp_SetConnectionStatusHandler_def
        hfp_SetFormatChangeHandler_def)
qed (use ok in \<open>simp_all add: GetVolume_ok SetVolume_ok hfp_Connect_def hfp_Disconnect_def SetBthHfpConnect_def
    SetBthHfpDisconnect_def hfp_call_ok\<close>)

lemma hfp_run_ok: "hfp_ok P X s \<Longrightarrow> \<exists>s'. hfp_run remote es s = Some s' \<and> hfp_ok P X s'"
proof (induction es arbitrary: s)
  case (Cons e es)
  obtain s1 where "hfp_do remote e s = Some s1" "hfp_ok P X s1"
    using hfp_do_ok [of P X "fst s" "snd s" remote e] Cons.prems by auto
  then show ?case using Cons.IH by simp
qed simp

end
