(* ===== verification/HfpLife.thy ===== *)
theory HfpLife
  imports HfpSafety
begin

text \<open>
  The life of a hands-free device: Init, Start and Stop establish and keep the invariant of theory
  HfpSafety on every path, and the destructor releases what the device owns except one request.
\<close>

section \<open>Init\<close>

lemma hfp_req_objs_simps [simp]:
  "hfp_req_objs (io \<lparr> io_objects := x \<rparr>) = hfp_req_objs io" "hfp_req_objs (io \<lparr> io_pool := p \<rparr>) = hfp_req_objs io"
  "hfp_req_objs (io \<lparr> io_log := l \<rparr>) = hfp_req_objs io" "hfp_req_objs (io \<lparr> io_purged := b \<rparr>) = hfp_req_objs io"
  by (simp_all add: hfp_req_objs_def)

text \<open>What holds all through Init.\<close>

definition hfp_initial :: "pool_tag multiset \<Rightarrow> wdf_object multiset \<Rightarrow> hfp \<Rightarrow> bool" where
  "hfp_initial P X = (\<lambda>(io, d). hfp_mem P X (io, d) \<and> io_collection io = [] \<and> \<not> io_queued io \<and> \<not> io_busy io
     \<and> io_log io = [] \<and> (\<forall>q r. io_reqs io q = Some r \<longrightarrow> Errors r = 0 \<and> \<not> Pending r)
     \<and> m_nStreams d = 0 \<and> m_StreamStatusEvent d \<and> m_StreamStatus d = STATUS_INVALID_DEVICE_STATE
     \<and> m_SpeakerMiniports d = None \<and> m_MicMiniports d = None \<and> m_Descriptor d = None \<and> m_VolumePropValues d = None
     \<and> m_UnknownSpeakerTopology d = None \<and> m_UnknownSpeakerWave d = None \<and> m_UnknownMicTopology d = None
     \<and> m_UnknownMicWave d = None)"

text \<open>The members that step number \<open>k\<close> of Init and the later ones still have to create.\<close>

definition init_todo :: "nat \<Rightarrow> hfp \<Rightarrow> bool" where
  "init_todo k = (\<lambda>(io, d). (\<forall>q. io_reqs io q = None) \<and> (k \<le> 0 \<longrightarrow> \<not> m_WorkItem d) \<and> (k \<le> 1 \<longrightarrow> \<not> m_ReqCollection d)
     \<and> (k \<le> 2 \<longrightarrow> \<not> m_WdfIoTarget d) \<and> (k \<le> 4 \<longrightarrow> m_SymbolicLinkName d = None))"

lemma Init_members_ok:
  assumes "io_collection io = []" "\<not> io_queued io" "\<not> io_busy io" "io_log io = []"
  shows "hfp_initial (io_pool io) (io_objects io) (io \<lparr> io_reqs := Map.empty \<rparr>, hfp_Init_members d)
    \<and> init_todo 0 (io \<lparr> io_reqs := Map.empty \<rparr>, hfp_Init_members d)"
  using assms by (simp add: hfp_initial_def init_todo_def hfp_Init_members_def hfp_mem_def hfp_blocks_def hfp_members_def
      hfp_req_objs_def hfp_requests_def tag_ok_def)

lemma Init_members_steps:
  "step_spec (\<lambda>s. hfp_initial P X s \<and> init_todo 0 s)
     (run_steps (hfp_Init_basics e link))
     (\<lambda>s. hfp_initial P X s \<and> init_todo 5 s) (hfp_initial P X)"
proof -
  let ?S = "\<lambda>k s. hfp_initial P X s \<and> init_todo k s"
  note defs = step_spec_def hfp_initial_def init_todo_def hfp_mem_def hfp_blocks_def hfp_members_def
  have 0: "step_spec (?S 0) (hfp_Init_workitem (hi_workitem e)) (?S 1) (hfp_initial P X)"
    by (auto simp: defs hfp_Init_workitem_def wdf_create_def)
  have 1: "step_spec (?S 1) (hfp_Init_collection (hi_collection e)) (?S 2) (hfp_initial P X)"
    by (auto simp: defs hfp_Init_collection_def wdf_create_def)
  have 2: "step_spec (?S 2) (hfp_Init_target (hi_target e)) (?S 3) (hfp_initial P X)"
    by (auto simp: defs hfp_Init_target_def wdf_create_def)
  have 3: "step_spec (?S 3) (hfp_Init_open (hi_open e)) (?S 4) (hfp_initial P X)"
    by (auto simp: defs hfp_Init_open_def)
  have 4: "step_spec (?S 4) (hfp_Init_link (hi_name e) link) (?S 5) (hfp_initial P X)"
    by (auto simp: defs hfp_Init_link_def pool_alloc_def tag_ok_def)
  show ?thesis unfolding hfp_Init_basics_def
    by (rule step_spec_Cons [OF 0 step_spec_Cons [OF 1 step_spec_Cons [OF 2 step_spec_Cons [OF 3 step_spec_Cons [OF 4
            step_spec_Nil]]]]])
qed

lemma hfp_req_objs_new:
  assumes "io_reqs io q = None" and "\<forall>p. p \<noteq> q \<longrightarrow> io_reqs io' p = io_reqs io p"
  shows "hfp_req_objs io' = req_objs (req_mems io' q) + hfp_req_objs io"
  using assms by (cases q) (simp_all add: hfp_req_objs_def hfp_requests_def)

lemma Init_request_ok:
  assumes ok: "hfp_initial P X (io, d)" and n: "io_reqs io q = None"
  shows "\<exists>st io'. hfp_Init_request e q (io, d) = Some (st, io', d) \<and> hfp_initial P X (io', d)
    \<and> (\<forall>p. p \<noteq> q \<longrightarrow> io_reqs io' p = io_reqs io p) \<and> (NT_SUCCESS st \<longrightarrow> req_mems io' q = Some (True, True))"
proof -
  obtain st io' where c: "create_request e q IOCTL_BTHHFP_DEVICE_GET_CODEC_ID 0 io = (st, io')" "io_pool io' = io_pool io"
      "io_objects io' = req_objs (req_mems io' q) + io_objects io" "\<forall>p. p \<noteq> q \<longrightarrow> io_reqs io' p = io_reqs io p"
      "io_collection io' = io_collection io" "io_log io' = io_log io"
      "io_queued io' = io_queued io" "io_busy io' = io_busy io" "\<forall>r. io_reqs io' q = Some r \<longrightarrow> Errors r = 0 \<and> \<not> Pending r"
      "NT_SUCCESS st \<longrightarrow> req_mems io' q = Some (True, True)"
    using create_request_objs [OF n, of e IOCTL_BTHHFP_DEVICE_GET_CODEC_ID 0] by blast
  have "\<forall>p r. io_reqs io' p = Some r \<longrightarrow> Errors r = 0 \<and> \<not> Pending r"
  proof (intro allI)
    fix p r show "io_reqs io' p = Some r \<longrightarrow> Errors r = 0 \<and> \<not> Pending r"
      using c(4,9) ok by (cases "p = q") (auto simp: hfp_initial_def)
  qed
  moreover have "hfp_mem P X (io', d)"
    using ok c(2,3) hfp_req_objs_new [OF n c(4)] by (simp add: hfp_initial_def hfp_mem_def)
  ultimately have "hfp_initial P X (io', d)" using ok c by (simp add: hfp_initial_def)
  then show ?thesis using c by (simp add: hfp_Init_request_def)
qed

lemma Init_requests_ok:
  assumes "hfp_initial P X (io, d)" and "distinct qs" and "\<forall>q \<in> set qs. io_reqs io q = None"
  shows "\<exists>st io'. run_steps (map (\<lambda>q. hfp_Init_request (e q) q) qs) (io, d) = Some (st, io', d) \<and> hfp_initial P X (io', d)
    \<and> (\<forall>p. p \<notin> set qs \<longrightarrow> io_reqs io' p = io_reqs io p)
    \<and> (NT_SUCCESS st \<longrightarrow> (\<forall>q \<in> set qs. req_mems io' q = Some (True, True)))"
  using assms
proof (induction qs arbitrary: io)
  case (Cons q qs)
  obtain st io1 where 1: "hfp_Init_request (e q) q (io, d) = Some (st, io1, d)" "hfp_initial P X (io1, d)"
      "\<forall>p. p \<noteq> q \<longrightarrow> io_reqs io1 p = io_reqs io p" "NT_SUCCESS st \<longrightarrow> req_mems io1 q = Some (True, True)"
    using Init_request_ok [OF Cons.prems(1), of q "e q"] Cons.prems(3) by auto
  show ?case
  proof (cases "NT_SUCCESS st")
    case True
    have "\<forall>p \<in> set qs. io_reqs io1 p = None" using 1(3) Cons.prems(2,3) by auto
    from Cons.IH [OF 1(2) _ this] Cons.prems(2) obtain st2 io2 where
      2: "run_steps (map (\<lambda>q. hfp_Init_request (e q) q) qs) (io1, d) = Some (st2, io2, d)" "hfp_initial P X (io2, d)"
        "\<forall>p. p \<notin> set qs \<longrightarrow> io_reqs io2 p = io_reqs io1 p"
        "NT_SUCCESS st2 \<longrightarrow> (\<forall>q \<in> set qs. req_mems io2 q = Some (True, True))" by auto
    have "req_mems io2 q = req_mems io1 q" using 2(3) Cons.prems(2) by simp
    then show ?thesis using True 1 2 by auto
  qed (use 1 in auto)
qed simp

lemma hfp_initial_ok:
  assumes i: "hfp_initial P X (io, d)" and r: "\<forall>q. req_mems io q = Some (True, True)"
  shows "hfp_ok P X (io, d)"
proof -
  have "io_reqs io StreamReq \<noteq> None" using r [rule_format, of StreamReq] by auto
  then show ?thesis
    using i r by (auto simp: hfp_initial_def hfp_ok_def streams_ok_def notifs_ok_def pending_in_def split: option.splits)
qed

lemma hfp_Init_ok:
  assumes f: "io_fresh io"
  shows "\<exists>st io' d'. hfp_Init cf e link (io, d) = Some (st, io', d') \<and> hfp_initial (io_pool io) (io_objects io) (io', d')
    \<and> (NT_SUCCESS st \<longrightarrow> m_State d' = StateRunning \<and> m_SymbolicLinkName d' = Some (MINADAPTER_POOLTAG, link)
        \<and> (\<forall>q. req_mems io' q = Some (True, True)))
    \<and> (\<not> NT_SUCCESS st \<longrightarrow> m_State d' = StateInitializing)"
proof -
  let ?P = "io_pool io" and ?X = "io_objects io"
  let ?s0 = "(io \<lparr> io_reqs := Map.empty \<rparr>, hfp_Init_members d)"
  let ?A = "hfp_Init_basics e link"
  let ?B = "map (\<lambda>q. hfp_Init_request (hi_request e q) q) hfp_requests"
  let ?C = "[hfp_Init_names cf (hi_hash e) link]"
  have s0: "hfp_initial ?P ?X ?s0 \<and> init_todo 0 ?s0"
    using f by (intro Init_members_ok) (simp_all add: io_fresh_def)
  obtain st1 io1 d1 where 1: "run_steps ?A ?s0 = Some (st1, io1, d1)" "hfp_initial ?P ?X (io1, d1)"
      "NT_SUCCESS st1 \<longrightarrow> init_todo 5 (io1, d1)"
    using step_specD [OF Init_members_steps s0, of e link]
    by (auto split: if_splits)
  have st_link: "m_State d1 = StateInitializing \<and> (NT_SUCCESS st1 \<longrightarrow> m_SymbolicLinkName d1 = Some (MINADAPTER_POOLTAG, link))"
    using 1(1) by (auto simp: hfp_Init_basics_def hfp_Init_workitem_def hfp_Init_collection_def hfp_Init_target_def hfp_Init_open_def
        hfp_Init_link_def pool_alloc_def hfp_Init_members_def split: if_splits)
  show ?thesis
  proof (cases "NT_SUCCESS st1")
    case False
    then have "hfp_Init cf e link (io, d) = Some (st1, io1, d1)"
      using 1(1) by (simp add: hfp_Init_def run_steps_append)
    then show ?thesis using 1 st_link False by auto
  next
    case True
    have "distinct hfp_requests" "\<forall>q \<in> set hfp_requests. io_reqs io1 q = None"
      using 1(3) True by (simp_all add: hfp_requests_def init_todo_def)
    from Init_requests_ok [OF 1(2) this, of "hi_request e"] obtain st2 io2 where
      2: "run_steps ?B (io1, d1) = Some (st2, io2, d1)" "hfp_initial ?P ?X (io2, d1)"
        "NT_SUCCESS st2 \<longrightarrow> (\<forall>q \<in> set hfp_requests. req_mems io2 q = Some (True, True))" by blast
    show ?thesis
    proof (cases "NT_SUCCESS st2")
      case False
      then have "hfp_Init cf e link (io, d) = Some (st2, io2, d1)"
        using True 1(1) 2(1) by (simp add: hfp_Init_def run_steps_append)
      then show ?thesis using 2 st_link False by auto
    next
      case ok2: True
      obtain st3 d3 where 3: "hfp_CreateFilterNames cf (hi_hash e) link d1 = (st3, d3)" by fastforce
      have k: "hfp_initial ?P ?X (io2, d3)" "m_State d3 = m_State d1" "m_SymbolicLinkName d3 = m_SymbolicLinkName d1"
        using 2(2) 3 by (auto simp: hfp_CreateFilterNames_def Let_def hfp_initial_def hfp_mem_def hfp_blocks_def
            hfp_members_def split: if_splits)
      have c: "run_steps ?C (io2, d1) = Some (if NT_SUCCESS st3 then STATUS_SUCCESS else st3, io2, d3)" using 3 by (simp add: hfp_Init_names_def)
      have all: "\<forall>q. req_mems io2 q = Some (True, True)"
      proof
        fix q show "req_mems io2 q = Some (True, True)" using 2(3) ok2 by (cases q) (simp_all add: hfp_requests_def)
      qed
      show ?thesis
      proof (cases "NT_SUCCESS st3")
        case False
        then have "hfp_Init cf e link (io, d) = Some (st3, io2, d3)"
          using True ok2 1(1) 2(1) c by (simp add: hfp_Init_def run_steps_append)
        then show ?thesis using k st_link False by auto
      next
        case ok3: True
        then have "hfp_Init cf e link (io, d) = Some (STATUS_SUCCESS, io2, d3 \<lparr> m_State := StateRunning \<rparr>)"
          using True ok2 1(1) 2(1) c by (simp add: hfp_Init_def run_steps_append)
        moreover have "hfp_initial ?P ?X (io2, d3 \<lparr> m_State := StateRunning \<rparr>)"
          using k(1) by (simp add: hfp_initial_def hfp_mem_def hfp_blocks_def hfp_members_def)
        ultimately show ?thesis using k st_link True all by auto
      qed
    qed
  qed
qed

section \<open>Start\<close>

text \<open>References on filters, and the invariant with the adapter's filters; \<open>E\<close> are references of others.\<close>

definition hfp_refs :: "BthHfpDevice \<Rightarrow> obj multiset" where
  "hfp_refs d = opt_ref (m_UnknownSpeakerTopology d) + opt_ref (m_UnknownSpeakerWave d)
     + opt_ref (m_UnknownMicTopology d) + opt_ref (m_UnknownMicWave d)"

definition hfp_full :: "pool_tag multiset \<Rightarrow> wdf_object multiset \<Rightarrow> obj multiset \<Rightarrow> hfp_world \<Rightarrow> bool" where
  "hfp_full P X E = (\<lambda>(io, d, w). hfp_ok P X (io, d) \<and> acct w (hfp_refs d + E)
     \<and> (m_UnknownSpeakerTopology d \<noteq> None \<or> m_UnknownSpeakerWave d \<noteq> None \<longrightarrow> m_SpeakerMiniports d \<noteq> None)
     \<and> (m_UnknownMicTopology d \<noteq> None \<or> m_UnknownMicWave d \<noteq> None \<longrightarrow> m_MicMiniports d \<noteq> None))"

text \<open>A notification request that can be sent.\<close>

definition idle :: "hfp_io \<Rightarrow> hfp_req \<Rightarrow> bool" where
  "idle io q \<longleftrightarrow> (\<exists>r. io_reqs io q = Some r \<and> \<not> Pending r \<and> q \<notin> set (io_collection io) \<and> Errors r \<le> NOTIFICATION_MAX_ERROR_COUNT)"

text \<open>What the steps of Start before number \<open>k\<close> have made and the others still have to make.\<close>

definition start_stage :: "nat \<Rightarrow> hfp_world \<Rightarrow> bool" where
  "start_stage k = (\<lambda>(io, d, w). (if k \<le> 1 then m_Descriptor d = None else m_Descriptor d \<noteq> None)
     \<and> (3 \<le> k \<longrightarrow> hfp_descriptor d \<noteq> None)
     \<and> (k \<le> 2 \<longrightarrow> m_VolumePropValues d = None)
     \<and> (if k \<le> 4 then m_SpeakerMiniports d = None else m_SpeakerMiniports d \<noteq> None)
     \<and> (if k \<le> 5 then m_MicMiniports d = None else m_MicMiniports d \<noteq> None)
     \<and> (k \<le> 6 \<longrightarrow> m_UnknownSpeakerTopology d = None \<and> m_UnknownSpeakerWave d = None)
     \<and> (k \<le> 7 \<longrightarrow> m_UnknownMicTopology d = None \<and> m_UnknownMicWave d = None)
     \<and> (\<forall>q \<in> set (drop (k - 9) hfp_notifications). idle io q))"

lemma idle_frame [simp]:
  "idle (io \<lparr> io_log := l \<rparr>) q = idle io q" "idle (io \<lparr> io_pool := p \<rparr>) q = idle io q"
  by (simp_all add: idle_def)

text \<open>Steps that change the log, the pool and the device's own pointers.\<close>

lemma full_io:
  assumes "hfp_full P X E (io, d, w)"
    and "sco_open (io_log io @ m) False = sco_open (io_log io) False"
    and "B + hfp_blocks d = hfp_blocks d'" and "hfp_members d' = hfp_members d"
    and "tag_ok (m_SymbolicLinkName d')" "tag_ok (m_Descriptor d')" "tag_ok (m_VolumePropValues d')"
    "pair_ok (m_SpeakerMiniports d')" "pair_ok (m_MicMiniports d')"
    and "m_StreamStatusEvent d' = m_StreamStatusEvent d" "m_nStreams d' = m_nStreams d" "m_StreamStatus d' = m_StreamStatus d"
    and "hfp_refs d' = hfp_refs d"
    and "m_UnknownSpeakerTopology d' \<noteq> None \<or> m_UnknownSpeakerWave d' \<noteq> None \<longrightarrow> m_SpeakerMiniports d' \<noteq> None"
    and "m_UnknownMicTopology d' \<noteq> None \<or> m_UnknownMicWave d' \<noteq> None \<longrightarrow> m_MicMiniports d' \<noteq> None"
  shows "hfp_full P X E (io \<lparr> io_log := io_log io @ m, io_pool := B + io_pool io \<rparr>, d', w)"
proof -
  have "hfp_mem P X (io \<lparr> io_log := io_log io @ m, io_pool := B + io_pool io \<rparr>, d')"
    using assms by (simp add: hfp_full_def hfp_ok_def hfp_mem_def add.assoc [symmetric])
  moreover have "streams_ok (io \<lparr> io_log := io_log io @ m, io_pool := B + io_pool io \<rparr>, d')"
    using assms by (simp add: hfp_full_def hfp_ok_def streams_ok_def)
  ultimately show ?thesis using assms by (simp add: hfp_full_def hfp_ok_def)
qed

lemma full_parts: "hfp_full P X E (io, d, w) \<Longrightarrow> tag_ok (m_SymbolicLinkName d) \<and> tag_ok (m_Descriptor d)
    \<and> tag_ok (m_VolumePropValues d) \<and> pair_ok (m_SpeakerMiniports d) \<and> pair_ok (m_MicMiniports d)
    \<and> (m_UnknownSpeakerTopology d \<noteq> None \<or> m_UnknownSpeakerWave d \<noteq> None \<longrightarrow> m_SpeakerMiniports d \<noteq> None)
    \<and> (m_UnknownMicTopology d \<noteq> None \<or> m_UnknownMicWave d \<noteq> None \<longrightarrow> m_MicMiniports d \<noteq> None)"
  by (simp add: hfp_full_def hfp_ok_def hfp_mem_def)

text \<open>A step that only sends IOCTLs other than those of the stream and writes the work item's fields.\<close>

lemma full_log:
  assumes f: "hfp_full P X E (io, d, w)" and m: "\<forall>c \<in> set (map fst m). c \<noteq> IOCTL_BTHHFP_STREAM_OPEN \<and> c \<noteq> IOCTL_BTHHFP_STREAM_CLOSE"
    and c: "hfp_core d' = hfp_core d"
  shows "hfp_full P X E (io \<lparr> io_log := io_log io @ m \<rparr>, d', w)"
proof -
  have "hfp_full P X E (io \<lparr> io_log := io_log io @ m, io_pool := {#} + io_pool io \<rparr>, d', w)"
    by (rule full_io [OF f]) (use full_parts [OF f] hfp_coreD [OF c] in
      \<open>simp_all add: sco_open_append sco_open_other [OF m] hfp_blocks_def hfp_members_def hfp_refs_def\<close>)
  then show ?thesis by simp
qed

lemma start_stage_log:
  assumes "hfp_core d' = hfp_core d"
  shows "start_stage k (io \<lparr> io_log := l \<rparr>, d', w) = start_stage k (io, d, w)"
  using hfp_coreD [OF assms] by (simp add: start_stage_def hfp_descriptor_def)

text \<open>The headset never announces a descriptor that is shorter than its structure.\<close>

definition hfp_whole :: "hfp_remote \<Rightarrow> bool" where
  "hfp_whole remote \<longleftrightarrow> (\<forall>l n st v. remote l (IOCTL_BTHHFP_DEVICE_GET_DESCRIPTOR2 n) = (st, v) \<and> NT_SUCCESS st \<longrightarrow> rp_whole v)"

abbreviation (input) full_stage :: "pool_tag multiset \<Rightarrow> wdf_object multiset \<Rightarrow> obj multiset \<Rightarrow> nat \<Rightarrow> hfp_world \<Rightarrow> bool" where
  "full_stage P X E k s \<equiv> hfp_full P X E s \<and> start_stage k s"

lemma start_0: "step_spec (full_stage P X E 0) (hfp_Start_capabilities remote) (full_stage P X E 1) (hfp_full P X E)"
proof (rule step_specI, clarify)
  fix io d w assume f: "hfp_full P X E (io, d, w)" and s: "start_stage 0 (io, d, w)"
  obtain st io1 where c: "SetBthHfpDeviceCapabilities remote TRUE_BOOL io = (st, io1)" by fastforce
  then obtain x where x: "io1 = io \<lparr> io_log := io_log io @ [(IOCTL_BTHHFP_DEVICE_INDICATE_AUDIO_DEVICE_CAPABILITIES TRUE_BOOL, x)] \<rparr>"
    using call_log by (fastforce simp: SetBthHfpDeviceCapabilities_def)
  have "hfp_full P X E (io1, d, w)" unfolding x by (rule full_log [OF f]) simp_all
  moreover have "start_stage 1 (io1, d, w)" using s by (simp add: x start_stage_def)
  ultimately show "\<exists>st s'. hfp_Start_capabilities remote (io, d, w) = Some (st, s') \<and>
      (if NT_SUCCESS st then full_stage P X E 1 s' else hfp_full P X E s')"
    using c by (simp add: hfp_Start_capabilities_def)
qed

abbreviation (input) described :: "pool_tag multiset \<Rightarrow> wdf_object multiset \<Rightarrow> obj multiset \<Rightarrow> hfp_remote \<Rightarrow> hfp_world \<Rightarrow> bool" where
  "described P X E remote s \<equiv> full_stage P X E 2 s \<and> (hfp_whole remote \<longrightarrow> hfp_descriptor (fst (snd s)) \<noteq> None)"

lemma start_1: "step_spec (full_stage P X E 1) (hfp_Start_descriptor remote e) (described P X E remote) (hfp_full P X E)"
proof (rule step_specI, clarify)
  fix io d w assume f: "hfp_full P X E (io, d, w)" and s: "start_stage 1 (io, d, w)"
  obtain st p m where q: "GetBthHfpDescriptor remote e io = Some (st, p, io \<lparr> io_log := io_log io @ m, io_pool := block_of p + io_pool io \<rparr>)"
      "NT_SUCCESS st \<longleftrightarrow> p \<noteq> None" "\<forall>t v. p = Some (t, v) \<longrightarrow> t = MINADAPTER_POOLTAG"
      "set (map fst m) \<subseteq> range IOCTL_BTHHFP_DEVICE_GET_DESCRIPTOR2"
    using query_block_memory [of remote e MINADAPTER_POOLTAG rp_information IOCTL_BTHHFP_DEVICE_GET_DESCRIPTOR2 io]
    unfolding GetBthHfpDescriptor_def by blast
  have o: "sco_open m b = b" for b using q(4) by (intro sco_open_other) auto
  have "m_Descriptor d = None" using s by (simp add: start_stage_def)
  then have "hfp_full P X E (io \<lparr> io_log := io_log io @ m, io_pool := block_of p + io_pool io \<rparr>, d \<lparr> m_Descriptor := p \<rparr>, w)"
    by (intro full_io [OF f])
      (use full_parts [OF f] q(3) in \<open>auto simp: sco_open_append o hfp_blocks_def hfp_members_def hfp_refs_def tag_ok_def\<close>)
  moreover have "start_stage 2 (io \<lparr> io_log := io_log io @ m, io_pool := block_of p + io_pool io \<rparr>, d \<lparr> m_Descriptor := p \<rparr>, w)"
    if "NT_SUCCESS st" using that s q(2) by (simp add: start_stage_def)
  moreover have "hfp_descriptor (d \<lparr> m_Descriptor := p \<rparr>) \<noteq> None" if ok: "NT_SUCCESS st" and wh: "hfp_whole remote"
  proof -
    obtain t v where p: "p = Some (t, v)" using ok q(2) by auto
    obtain l n st' where "remote l (IOCTL_BTHHFP_DEVICE_GET_DESCRIPTOR2 n) = (st', v)" "NT_SUCCESS st'"
      using query_block_value [OF q(1) [unfolded p GetBthHfpDescriptor_def]] by blast
    then show ?thesis using wh p unfolding hfp_whole_def hfp_descriptor_def by auto
  qed
  ultimately show "\<exists>st s'. hfp_Start_descriptor remote e (io, d, w) = Some (st, s') \<and>
      (if NT_SUCCESS st then described P X E remote s' else hfp_full P X E s')"
    using q(1) by (simp add: hfp_Start_descriptor_def)
qed

lemma volume_described:
  assumes f: "hfp_full P X E (io, d, w)" and s: "start_stage 2 (io, d, w)" and x: "hfp_descriptor d = Some x"
  shows "\<exists>st s'. hfp_Start_volume remote alloc (io, d, w) = Some (st, s') \<and>
      (if NT_SUCCESS st then full_stage P X E 3 s' else hfp_full P X E s')"
proof -
  have s3: "start_stage 3 (io, d, w)" using s x by (simp add: start_stage_def)
  show ?thesis
  proof (cases "SupportsVolume x = 0")
    case True
    then show ?thesis using f s3 x by (simp add: hfp_Start_volume_def)
  next
    case False
    let ?c = "IOCTL_BTHHFP_DEVICE_GET_VOLUMEPROPERTYVALUES (VolumePropertyValuesSize x)"
    obtain st p m where q: "GetBthHfpVolumePropertyValues remote alloc (VolumePropertyValuesSize x) io
          = Some (st, p, io \<lparr> io_log := io_log io @ m, io_pool := block_of p + io_pool io \<rparr>)"
        "NT_SUCCESS st \<longleftrightarrow> p \<noteq> None" "\<forall>t v. p = Some (t, v) \<longrightarrow> t = MINADAPTER_POOLTAG" "set (map fst m) \<subseteq> {?c}"
      using fetch_block_memory [OF refl, of remote alloc MINADAPTER_POOLTAG ?c io]
      unfolding GetBthHfpVolumePropertyValues_def by blast
    let ?io1 = "io \<lparr> io_log := io_log io @ m, io_pool := block_of p + io_pool io \<rparr>"
    let ?d1 = "d \<lparr> m_VolumePropValues := p \<rparr>"
    have o: "sco_open m b = b" for b using q(4) by (intro sco_open_other) auto
    have "m_VolumePropValues d = None" using s by (simp add: start_stage_def)
    then have f1: "hfp_full P X E (?io1, ?d1, w)"
      by (intro full_io [OF f])
        (use full_parts [OF f] q(3) in \<open>auto simp: sco_open_append o hfp_blocks_def hfp_members_def hfp_refs_def tag_ok_def\<close>)
    have s1: "start_stage 3 (?io1, ?d1, w)" using s x by (auto simp: start_stage_def hfp_descriptor_def)
    have d1: "?d1 = d" if "\<not> NT_SUCCESS st"
    proof -
      have "p = None" using that q(2) by blast
      then show ?thesis using \<open>m_VolumePropValues d = None\<close> by (cases d) simp
    qed
    obtain st1 v1 io2 where g1: "GetBthHfpSpeakerVolume remote ?io1 = (st1, v1, io2)" by (metis prod_cases3)
    then obtain y1 where y1: "io2 = ?io1 \<lparr> io_log := io_log ?io1 @ [(IOCTL_BTHHFP_SPEAKER_GET_VOLUME_STATUS_UPDATE TRUE_BOOL, y1)] \<rparr>"
      using long_log by (fastforce simp: GetBthHfpSpeakerVolume_def)
    have f2: "hfp_full P X E (io2, ?d1, w)" unfolding y1 by (rule full_log [OF f1]) simp_all
    have s2: "start_stage 3 (io2, ?d1, w)" unfolding y1 by (subst start_stage_log [OF refl]) (rule s1)
    obtain st2 v2 io3 where g2: "GetBthHfpMicVolume remote io2 = (st2, v2, io3)" by (metis prod_cases3)
    then obtain y2 where y2: "io3 = io2 \<lparr> io_log := io_log io2 @ [(IOCTL_BTHHFP_MIC_GET_VOLUME_STATUS_UPDATE TRUE_BOOL, y2)] \<rparr>"
      using long_log by (fastforce simp: GetBthHfpMicVolume_def)
    have c: "hfp_core (?d1 \<lparr> m_SpeakerVolumeLevel := v1 \<rparr>) = hfp_core ?d1"
      "hfp_core (?d1 \<lparr> m_SpeakerVolumeLevel := v1, m_MicVolumeLevel := v2 \<rparr>) = hfp_core ?d1"
      by (simp_all add: hfp_core_def)
    have f3: "hfp_full P X E (io3, ?d1 \<lparr> m_SpeakerVolumeLevel := v1 \<rparr>, w)"
      "hfp_full P X E (io3, ?d1 \<lparr> m_SpeakerVolumeLevel := v1, m_MicVolumeLevel := v2 \<rparr>, w)"
      unfolding y2 by (rule full_log [OF f2 _ c(1)], simp, rule full_log [OF f2 _ c(2)], simp)
    have s4: "start_stage 3 (io3, ?d1 \<lparr> m_SpeakerVolumeLevel := v1, m_MicVolumeLevel := v2 \<rparr>, w)"
      unfolding y2 by (subst start_stage_log [OF c(2)]) (rule s2)
    have f0: "hfp_full P X E (?io1, d, w)" if "\<not> NT_SUCCESS st" using f1 d1 [OF that] by simp
    consider "\<not> NT_SUCCESS st" | "NT_SUCCESS st" "\<not> NT_SUCCESS st1" | "NT_SUCCESS st" "NT_SUCCESS st1" by blast
    then show ?thesis
    proof cases
      case 1
      then show ?thesis using False x q(1) f0 by (simp add: hfp_Start_volume_def)
    next
      case 2
      then show ?thesis using False x q(1) g1 f2 by (simp add: hfp_Start_volume_def)
    next
      case 3
      then show ?thesis using False x q(1) g1 g2 f3 s4
        by (cases "NT_SUCCESS st2") (simp_all add: hfp_Start_volume_def Let_def)
    qed
  qed
qed

text \<open>The first read through the new descriptor; a short block is a fault here.\<close>

lemma start_2: "step_may (\<not> hfp_whole remote) (described P X E remote) (hfp_Start_volume remote alloc) (full_stage P X E 3) (hfp_full P X E)"
proof (rule step_mayI, clarify)
  fix io d w assume f: "hfp_full P X E (io, d, w)" "start_stage 2 (io, d, w)"
    and x: "hfp_whole remote \<longrightarrow> hfp_descriptor (fst (snd (io, d, w))) \<noteq> None"
  show "unless_fault (\<not> hfp_whole remote) (hfp_Start_volume remote alloc (io, d, w))
      (\<lambda>(st, s'). if NT_SUCCESS st then full_stage P X E 3 s' else hfp_full P X E s')"
  proof (cases "hfp_descriptor d")
    case None
    then show ?thesis using x by (simp add: hfp_Start_volume_def)
  next
    case (Some y)
    from volume_described [OF f this, of remote alloc] show ?thesis by auto
  qed
qed

lemma start_3: "step_spec (full_stage P X E 3) (hfp_Start_connection remote) (full_stage P X E 4) (hfp_full P X E)"
proof (rule step_specI, clarify)
  fix io d w assume f: "hfp_full P X E (io, d, w)" and s: "start_stage 3 (io, d, w)"
  obtain st conn io1 where g: "GetBthHfpConnectionStatus remote io = (st, conn, io1)" by (metis prod_cases3)
  then obtain x where x: "io1 = io \<lparr> io_log := io_log io @ [(IOCTL_BTHHFP_DEVICE_GET_CONNECTION_STATUS_UPDATE TRUE_BOOL, x)] \<rparr>"
    using long_log by (fastforce simp: GetBthHfpConnectionStatus_def)
  obtain st2 codec io2 where h: "GetBthHfpCodecId remote io1 = (st2, codec, io2)" by (metis prod_cases3)
  then obtain y where y: "io2 = io1 \<lparr> io_log := io_log io1 @ [(IOCTL_BTHHFP_DEVICE_GET_CODEC_ID, y)] \<rparr>"
    using codec_log by blast
  have c: "hfp_core (d \<lparr> m_ConnectionStatus := a, m_CodecId := b \<rparr>) = hfp_core d"
    "hfp_core (d \<lparr> m_ConnectionStatus := a \<rparr>) = hfp_core d" for a b by (simp_all add: hfp_core_def)
  have f1: "hfp_core d' = hfp_core d \<Longrightarrow> hfp_full P X E (io1, d', w)" for d'
    unfolding x by (rule full_log [OF f]) simp_all
  have f2: "hfp_core d' = hfp_core d \<Longrightarrow> hfp_full P X E (io2, d', w)" for d'
    unfolding y by (rule full_log [OF f1 [OF refl]]) simp_all
  have s4: "start_stage 4 (io, d, w)" using s by (simp add: start_stage_def)
  have s1: "hfp_core d' = hfp_core d \<Longrightarrow> start_stage 4 (io1, d', w)" for d' using start_stage_log s4 unfolding x by blast
  have s2: "hfp_core d' = hfp_core d \<Longrightarrow> start_stage 4 (io2, d', w)" for d' using start_stage_log s1 unfolding y by blast
  show "\<exists>st s'. hfp_Start_connection remote (io, d, w) = Some (st, s') \<and>
      (if NT_SUCCESS st then full_stage P X E 4 s' else hfp_full P X E s')"
    using g h f1 f2 s1 s2 c by (simp add: hfp_Start_connection_def Let_def)
qed

text \<open>Naming a copy keeps its memory.\<close>

lemma named_memory [simp]: "pair_blocks (map_option (hfp_named a b) p) = pair_blocks p" "pair_ok (map_option (hfp_named a b) p) = pair_ok p"
  by (cases p; simp add: pair_blocks_def pair_ok_def hfp_named_def)+

lemma start_4: "step_spec (full_stage P X E 4) (hfp_Start_speaker_pair cf e) (full_stage P X E 5) (hfp_full P X E)"
proof (rule step_specI, clarify)
  fix io d w assume f: "hfp_full P X E (io, d, w)" and s: "start_stage 4 (io, d, w)"
  obtain x where x: "hfp_descriptor d = Some x" using s by (auto simp: start_stage_def)
  let ?i = "if BTHHFP_CODEC_CVSD <s m_CodecId d then 1 else 0"
  obtain st p where c: "CreateCustomEndpointMinipair e (cf_render cf ?i) (FriendlyName x) (OutputPinCategory x) io
      = Some (st, p, io \<lparr> io_pool := pair_blocks p + io_pool io \<rparr>)" "pair_ok p" "NT_SUCCESS st \<longleftrightarrow> p \<noteq> None"
    using Create_memory by blast
  let ?d1 = "d \<lparr> m_SpeakerMiniports := map_option (hfp_named (m_SpeakerTopologyName d) (m_SpeakerWaveName d)) p \<rparr>"
  have n: "m_SpeakerMiniports d = None" "m_UnknownSpeakerTopology d = None" "m_UnknownSpeakerWave d = None"
    using s by (simp_all add: start_stage_def)
  have "hfp_full P X E (io \<lparr> io_log := io_log io @ [], io_pool := pair_blocks p + io_pool io \<rparr>, ?d1, w)"
    by (rule full_io [OF f]) (use full_parts [OF f] n c(2) in \<open>simp_all add: hfp_blocks_def hfp_members_def hfp_refs_def\<close>)
  then have g: "hfp_full P X E (io \<lparr> io_pool := pair_blocks p + io_pool io \<rparr>, ?d1, w)" by simp
  have "start_stage 5 (io \<lparr> io_pool := pair_blocks p + io_pool io \<rparr>, ?d1, w)" if "NT_SUCCESS st"
    using that s c(3) by (simp add: start_stage_def hfp_descriptor_def)
  moreover have "p = None" if "\<not> NT_SUCCESS st" using that c(3) by blast
  ultimately show "\<exists>st s'. hfp_Start_speaker_pair cf e (io, d, w) = Some (st, s') \<and>
      (if NT_SUCCESS st then full_stage P X E 5 s' else hfp_full P X E s')"
    using x c(1) f g by (simp add: hfp_Start_speaker_pair_def Let_def)
qed

lemma start_5: "step_spec (full_stage P X E 5) (hfp_Start_mic_pair cf e) (full_stage P X E 6) (hfp_full P X E)"
proof (rule step_specI, clarify)
  fix io d w assume f: "hfp_full P X E (io, d, w)" and s: "start_stage 5 (io, d, w)"
  obtain x where x: "hfp_descriptor d = Some x" using s by (auto simp: start_stage_def)
  let ?i = "if BTHHFP_CODEC_CVSD <s m_CodecId d then 1 else 0"
  obtain st p where c: "CreateCustomEndpointMinipair e (cf_capture cf ?i) (FriendlyName x) (InputPinCategory x) io
      = Some (st, p, io \<lparr> io_pool := pair_blocks p + io_pool io \<rparr>)" "pair_ok p" "NT_SUCCESS st \<longleftrightarrow> p \<noteq> None"
    using Create_memory by blast
  let ?d1 = "d \<lparr> m_MicMiniports := map_option (hfp_named (m_MicTopologyName d) (m_MicWaveName d)) p \<rparr>"
  have n: "m_MicMiniports d = None" "m_UnknownMicTopology d = None" "m_UnknownMicWave d = None"
    using s by (simp_all add: start_stage_def)
  have "hfp_full P X E (io \<lparr> io_log := io_log io @ [], io_pool := pair_blocks p + io_pool io \<rparr>, ?d1, w)"
    by (rule full_io [OF f]) (use full_parts [OF f] n c(2) in \<open>simp_all add: hfp_blocks_def hfp_members_def hfp_refs_def\<close>)
  then have g: "hfp_full P X E (io \<lparr> io_pool := pair_blocks p + io_pool io \<rparr>, ?d1, w)" by simp
  have "start_stage 6 (io \<lparr> io_pool := pair_blocks p + io_pool io \<rparr>, ?d1, w)" if "NT_SUCCESS st"
    using that s c(3) by (simp add: start_stage_def hfp_descriptor_def)
  moreover have "p = None" if "\<not> NT_SUCCESS st" using that c(3) by blast
  ultimately show "\<exists>st s'. hfp_Start_mic_pair cf e (io, d, w) = Some (st, s') \<and>
      (if NT_SUCCESS st then full_stage P X E 6 s' else hfp_full P X E s')"
    using x c(1) f g by (simp add: hfp_Start_mic_pair_def Let_def)
qed

lemma start_6: "filters_ok e \<Longrightarrow> step_spec (full_stage P X E 6) (hfp_Start_speaker_filters e) (full_stage P X E 7) (hfp_full P X E)"
proof (rule step_specI, clarify)
  fix io d w assume e: "filters_ok e" and f: "hfp_full P X E (io, d, w)" and s: "start_stage 6 (io, d, w)"
  obtain c where c: "m_SpeakerMiniports d = Some c" using s by (auto simp: start_stage_def)
  have "acct w (hfp_refs d + E)" using f by (simp add: hfp_full_def)
  from Install_refs [OF this e] obtain st outs w' where
    i: "InstallEndpointFilters e (ENDPOINT_MINIPAIR.truncate (cp_pair c)) want_filters w = Some (st, outs, w')"
      "acct w' (opt_ref (out_topo outs) + opt_ref (out_wave outs) + (hfp_refs d + E))" by blast
  let ?d1 = "d \<lparr> m_UnknownSpeakerTopology := out_topo outs, m_UnknownSpeakerWave := out_wave outs \<rparr>"
  have n: "m_UnknownSpeakerTopology d = None" "m_UnknownSpeakerWave d = None" using s by (simp_all add: start_stage_def)
  have "hfp_full P X E (io, ?d1, w')"
    using f i(2) c n by (simp add: hfp_full_def hfp_ok_def hfp_mem_def streams_ok_def hfp_blocks_def hfp_members_def hfp_refs_def
        ac_simps)
  moreover have "start_stage 7 (io, ?d1, w')" using s by (simp add: start_stage_def hfp_descriptor_def)
  ultimately show "\<exists>st s'. hfp_Start_speaker_filters e (io, d, w) = Some (st, s') \<and>
      (if NT_SUCCESS st then full_stage P X E 7 s' else hfp_full P X E s')"
    using c i(1) by (simp add: hfp_Start_speaker_filters_def)
qed

lemma start_7: "filters_ok e \<Longrightarrow> step_spec (full_stage P X E 7) (hfp_Start_mic_filters e) (full_stage P X E 8) (hfp_full P X E)"
proof (rule step_specI, clarify)
  fix io d w assume e: "filters_ok e" and f: "hfp_full P X E (io, d, w)" and s: "start_stage 7 (io, d, w)"
  obtain c where c: "m_MicMiniports d = Some c" using s by (auto simp: start_stage_def)
  have "acct w (hfp_refs d + E)" using f by (simp add: hfp_full_def)
  from Install_refs [OF this e] obtain st outs w' where
    i: "InstallEndpointFilters e (ENDPOINT_MINIPAIR.truncate (cp_pair c)) want_filters w = Some (st, outs, w')"
      "acct w' (opt_ref (out_topo outs) + opt_ref (out_wave outs) + (hfp_refs d + E))" by blast
  let ?d1 = "d \<lparr> m_UnknownMicTopology := out_topo outs, m_UnknownMicWave := out_wave outs \<rparr>"
  have n: "m_UnknownMicTopology d = None" "m_UnknownMicWave d = None" using s by (simp_all add: start_stage_def)
  have "hfp_full P X E (io, ?d1, w')"
    using f i(2) c n by (simp add: hfp_full_def hfp_ok_def hfp_mem_def streams_ok_def hfp_blocks_def hfp_members_def hfp_refs_def
        ac_simps)
  moreover have "start_stage 8 (io, ?d1, w')" using s by (simp add: start_stage_def hfp_descriptor_def)
  ultimately show "\<exists>st s'. hfp_Start_mic_filters e (io, d, w) = Some (st, s') \<and>
      (if NT_SUCCESS st then full_stage P X E 8 s' else hfp_full P X E s')"
    using c i(1) by (simp add: hfp_Start_mic_filters_def)
qed

lemma start_8: "step_spec (full_stage P X E 8) hfp_Start_notify (full_stage P X E 9) (hfp_full P X E)"
  by (auto simp: step_spec_def hfp_Start_notify_def NotifyEndpointPair_def start_stage_def)

text \<open>The four notifications, in the order of \<open>hfp_notifications\<close>.\<close>

lemma start_enable:
  assumes k: "k < 4" and q: "q = hfp_notifications ! k" and g: "g = enable_notification e q c b"
  shows "step_spec (full_stage P X E (9 + k)) (hfp_Start_enable g) (full_stage P X E (9 + Suc k)) (hfp_full P X E)"
proof (rule step_specI, clarify)
  fix io d w assume f: "hfp_full P X E (io, d, w)" and s: "start_stage (9 + k) (io, d, w)"
  have l: "k < length hfp_notifications" using k by (simp add: hfp_notifications_def)
  have m: "q \<in> set hfp_notifications" using nth_mem [OF l] q by simp
  have dr: "drop k hfp_notifications = q # drop (Suc k) hfp_notifications"
    using Cons_nth_drop_Suc [OF l] q by simp
  then have i: "idle io q" using s by (simp add: start_stage_def)
  then obtain r where r: "io_reqs io q = Some r" "\<not> Pending r" "q \<notin> set (io_collection io)" "Errors r \<le> NOTIFICATION_MAX_ERROR_COUNT"
    by (auto simp: idle_def)
  have ok: "hfp_ok P X (io, d)" using f by (simp add: hfp_full_def)
  then have "notifs_ok hfp_notifications io" by (simp add: hfp_ok_def)
  from enable_ok [OF this m r, of e c b] obtain st io' where
    en: "enable_notification e q c b io = Some (st, io')" "notifs_ok hfp_notifications io'" "io_frame io io'"
      "\<forall>p. p \<noteq> q \<longrightarrow> io_reqs io' p = io_reqs io p" "io_log io' = io_log io" "io_collection io' = io_collection io" by blast
  have "q \<noteq> StreamReq" using m StreamReq_no_notification by metis
  then have "io_reqs io' StreamReq = io_reqs io StreamReq" using en(4) by simp
  then have "hfp_ok P X (io', d)" using ok_core [OF ok en(3) en(2) refl] en(5) by simp
  then have "hfp_full P X E (io', d, w)" using f by (simp add: hfp_full_def)
  moreover have "start_stage (9 + Suc k) (io', d, w)"
  proof -
    have "q \<notin> set (drop (Suc k) hfp_notifications)"
      using dr distinct_drop [of hfp_notifications k] by (simp add: hfp_notifications_def)
    then have "idle io' p" if "p \<in> set (drop (Suc k) hfp_notifications)" for p
      using s that dr en(4,6) by (auto simp: start_stage_def idle_def)
    then show ?thesis using s by (simp add: start_stage_def)
  qed
  ultimately show "\<exists>st s'. hfp_Start_enable g (io, d, w) = Some (st, s') \<and>
      (if NT_SUCCESS st then full_stage P X E (9 + Suc k) s' else hfp_full P X E s')"
    using en(1) g by (simp add: hfp_Start_enable_def)
qed

lemma hfp_Start_ok:
  assumes f: "hfp_full P X E (io, d, w)" and s: "start_stage 0 (io, d, w)"
    and e: "filters_ok (hs_speaker_filters e)" "filters_ok (hs_mic_filters e)"
  shows "unless_fault (\<not> hfp_whole remote) (hfp_Start remote cf e (io, d, w)) (hfp_full P X E)"
proof -
  have n: "step_spec (full_stage P X E 9) (hfp_Start_enable (EnableBthHfpNrecDisableStatusNotification a)) (full_stage P X E 10) (hfp_full P X E)"
    "step_spec (full_stage P X E 10) (hfp_Start_enable (EnableBthHfpSpeakerVolumeStatusNotification b)) (full_stage P X E 11) (hfp_full P X E)"
    "step_spec (full_stage P X E 11) (hfp_Start_enable (EnableBthHfpMicVolumeStatusNotification c)) (full_stage P X E 12) (hfp_full P X E)"
    "step_spec (full_stage P X E 12) (hfp_Start_enable (EnableBthHfpConnectionStatusNotification g)) (full_stage P X E 13) (hfp_full P X E)"
    for a b c g
    using start_enable [of 0 NRECDisableStatusReq] start_enable [of 1 SpeakerVolumeReq]
      start_enable [of 2 MicVolumeReq] start_enable [of 3 ConnectionReq]
    by (simp_all add: hfp_notifications_def numeral_2_eq_2 numeral_3_eq_3 EnableBthHfpNrecDisableStatusNotification_def [abs_def]
        EnableBthHfpSpeakerVolumeStatusNotification_def [abs_def] EnableBthHfpMicVolumeStatusNotification_def [abs_def]
        EnableBthHfpConnectionStatusNotification_def [abs_def])
  note all = step_may_Cons [OF step_may_spec [OF start_0] step_may_Cons [OF step_may_spec [OF start_1] step_may_Cons [OF start_2
    step_may_Cons [OF step_may_spec [OF start_3] step_may_Cons [OF step_may_spec [OF start_4] step_may_Cons [OF step_may_spec [OF start_5]
    step_may_Cons [OF step_may_spec [OF start_6 [OF e(1)]] step_may_Cons [OF step_may_spec [OF start_7 [OF e(2)]]
    step_may_Cons [OF step_may_spec [OF start_8] step_may_Cons [OF step_may_spec [OF n(1)] step_may_Cons [OF step_may_spec [OF n(2)]
    step_may_Cons [OF step_may_spec [OF n(3)] step_may_Cons [OF step_may_spec [OF n(4)] step_may_Nil]]]]]]]]]]]]]
  have failed: "hfp_full P X E (io1, d1 \<lparr> m_State := StateFailed \<rparr>, w1)" if "hfp_full P X E (io1, d1, w1)" for io1 d1 w1
    using that by (simp add: hfp_full_def hfp_ok_def hfp_mem_def streams_ok_def hfp_blocks_def hfp_members_def hfp_refs_def)
  have pre: "full_stage P X E 0 (io, d, w)" using f s by blast
  show ?thesis unfolding hfp_Start_def
    by (rule unless_fault_bind [OF step_mayD [OF all pre]]) (auto simp: failed split: if_splits)
qed

text \<open>Start changes the life-cycle state only when it fails, and never the link name.\<close>

definition hfp_ident :: "hfp_world \<Rightarrow> eHsState \<times> (pool_tag \<times> string) option" where
  "hfp_ident = (\<lambda>(io, d, w). (m_State d, m_SymbolicLinkName d))"

lemma Start_keeps:
  "step_keeps hfp_ident (hfp_Start_capabilities remote)" "step_keeps hfp_ident (hfp_Start_descriptor remote qe)"
  "step_keeps hfp_ident (hfp_Start_volume remote a)" "step_keeps hfp_ident (hfp_Start_connection remote)"
  "step_keeps hfp_ident (hfp_Start_speaker_pair cf pe)" "step_keeps hfp_ident (hfp_Start_mic_pair cf pe)"
  "step_keeps hfp_ident (hfp_Start_speaker_filters fe)" "step_keeps hfp_ident (hfp_Start_mic_filters fe)"
  "step_keeps hfp_ident hfp_Start_notify" "step_keeps hfp_ident (hfp_Start_enable f)"
  by (auto simp: step_keeps_def hfp_ident_def hfp_Start_capabilities_def hfp_Start_descriptor_def hfp_Start_volume_def
      hfp_Start_connection_def hfp_Start_speaker_pair_def hfp_Start_mic_pair_def hfp_Start_speaker_filters_def
      hfp_Start_mic_filters_def hfp_Start_notify_def hfp_Start_enable_def Let_def
      split: prod.splits bind_splits if_splits)

lemma hfp_Start_state:
  assumes "hfp_Start remote cf e (io, d, w) = Some (io1, d1, w1)"
  shows "m_SymbolicLinkName d1 = m_SymbolicLinkName d \<and> (m_State d1 = m_State d \<or> m_State d1 = StateFailed)"
proof -
  from assms obtain st d2 where r: "run_steps
       [hfp_Start_capabilities remote, hfp_Start_descriptor remote (hs_descriptor e),
        hfp_Start_volume remote (hs_values e), hfp_Start_connection remote,
        hfp_Start_speaker_pair cf (hs_speaker_pair e), hfp_Start_mic_pair cf (hs_mic_pair e),
        hfp_Start_speaker_filters (hs_speaker_filters e), hfp_Start_mic_filters (hs_mic_filters e), hfp_Start_notify,
        hfp_Start_enable (EnableBthHfpNrecDisableStatusNotification (hs_send e NRECDisableStatusReq)),
        hfp_Start_enable (EnableBthHfpSpeakerVolumeStatusNotification (hs_send e SpeakerVolumeReq)),
        hfp_Start_enable (EnableBthHfpMicVolumeStatusNotification (hs_send e MicVolumeReq)),
        hfp_Start_enable (EnableBthHfpConnectionStatusNotification (hs_send e ConnectionReq))] (io, d, w) = Some (st, io1, d2, w1)"
      "d1 = (if NT_SUCCESS st then d2 else d2 \<lparr> m_State := StateFailed \<rparr>)"
    unfolding hfp_Start_def by (auto simp del: run_steps.simps split: bind_splits)
  have "hfp_ident (io1, d2, w1) = hfp_ident (io, d, w)"
    by (rule run_steps_keeps [OF _ r(1)]) (simp add: Start_keeps)
  then show ?thesis using r(2) by (simp add: hfp_ident_def)
qed

section \<open>Stop\<close>

lemma purge_ok:
  assumes ok: "hfp_ok P X (io, d)"
  shows "\<exists>io' d'. hfp_purge (io, d) = Some (io', d') \<and> hfp_ok P X (io', d') \<and> io_purged io' \<and> (\<forall>q. \<not> pending_in io' q)
    \<and> (\<exists>a b. d' = d \<lparr> m_StreamStatus := a, m_StreamStatusEvent := b \<rparr>)"
proof -
  let ?io0 = "io \<lparr> io_purged := True \<rparr>"
  have ok0: "hfp_ok P X (?io0, d)"
    using ok by (simp add: hfp_ok_def hfp_mem_def streams_ok_def)
  obtain io1 where c: "cancel_all hfp_notifications ?io0 = Some io1" "notifs_ok hfp_notifications io1" "io_frame ?io0 io1"
      "\<forall>q \<in> set hfp_notifications. \<not> pending_in io1 q" "\<forall>q. q \<notin> set hfp_notifications \<longrightarrow> io_reqs io1 q = io_reqs ?io0 q"
      "io_log io1 = io_log ?io0"
    using cancel_all_ok [of hfp_notifications ?io0 hfp_notifications] ok0 by (auto simp: hfp_ok_def)
  have ok1: "hfp_ok P X (io1, d)" using ok_core [OF ok0 c(3) c(2) refl] c(5,6) by simp
  have pu: "io_purged io1" using c(3) by (simp add: io_frame_def)
  have others: "\<not> pending_in io1 q" if "q \<noteq> StreamReq" for q
    using c(4) that by (cases q) (simp_all add: hfp_notifications_def)
  show ?thesis
  proof (cases "pending_in io1 StreamReq")
    case False
    then have "\<forall>q. \<not> pending_in io1 q" using others by metis
    moreover have "\<exists>a b. d = d \<lparr> m_StreamStatus := a, m_StreamStatusEvent := b \<rparr>"
      by (intro exI [of _ "m_StreamStatus d"] exI [of _ "m_StreamStatusEvent d"]) simp
    moreover have "hfp_purge (io, d) = Some (io1, d)" using False c(1) by (simp add: hfp_purge_def)
    ultimately show ?thesis using ok1 pu by blast
  next
    case True
    obtain r where r: "io_reqs io1 StreamReq = Some r" "Pending r"
      using True by (auto simp: pending_in_def split: option.splits)
    obtain s' where s': "EvtBthHfpDeviceStreamStatusCompletion STATUS_CANCELLED 0 (io1, d) = Some s'" "hfp_ok P X s'"
        "\<not> pending_in (fst s') StreamReq"
      using stream_completion_ok [OF ok1 True] by blast
    have e: "s' = (io1 \<lparr> io_reqs := (io_reqs io1)(StreamReq \<mapsto> r \<lparr> Pending := False, IoStatus := STATUS_CANCELLED, Buffer := 0 \<rparr>) \<rparr>,
        d \<lparr> m_StreamStatus := STATUS_INVALID_DEVICE_STATE, m_StreamStatusEvent := True \<rparr>)"
      using stream_completion [OF r, of STATUS_CANCELLED 0 d] s'(1) by simp
    have "hfp_purge (io, d) = Some s'" using True c(1) s'(1) by (simp add: hfp_purge_def)
    moreover have "\<not> pending_in (fst s') q" for q
      using others [of q] s'(3) by (cases "q = StreamReq") (simp_all add: e pending_in_def)
    moreover have "io_purged (fst s')" using pu by (simp add: e)
    moreover have "\<exists>a b. snd s' = d \<lparr> m_StreamStatus := a, m_StreamStatusEvent := b \<rparr>"
      by (intro exI [of _ STATUS_INVALID_DEVICE_STATE] exI [of _ True]) (simp add: e)
    ultimately show ?thesis using s'(2) by (metis prod.collapse)
  qed
qed

lemma hfp_Stop_ok:
  assumes f: "hfp_full P X E (io, d, w)"
  shows "\<exists>io' d' w'. hfp_Stop remote e (io, d, w) = Some (io', d', w') \<and> hfp_full P X E (io', d', w')
    \<and> (\<forall>q. \<not> pending_in io' q) \<and> \<not> io_queued io' \<and> \<not> io_busy io' \<and> io_purged io' \<and> hfp_refs d' = {#}
    \<and> m_State d' = StateStopped \<and> m_SymbolicLinkName d' = m_SymbolicLinkName d"
proof -
  let ?d0 = "d \<lparr> m_State := StateStopping \<rparr>"
  have ok: "hfp_ok P X (io, ?d0)"
    using f by (simp add: hfp_full_def hfp_ok_def hfp_mem_def streams_ok_def hfp_blocks_def hfp_members_def)
  obtain io1 d1 where 1: "hfp_purge (io, ?d0) = Some (io1, d1)" "hfp_ok P X (io1, d1)" "io_purged io1"
      "\<forall>q. \<not> pending_in io1 q" "\<exists>a b. d1 = ?d0 \<lparr> m_StreamStatus := a, m_StreamStatusEvent := b \<rparr>"
    using purge_ok [OF ok] by blast
  have n1: "notifs_ok hfp_notifications io1" using 1(2) by (simp add: hfp_ok_def)
  obtain io2 d2 where 2: "notif_flush (hfp_notification remote) rearm_buffer (hx_work e) (io1, d1) = Some (io2, d2)"
      "notifs_ok hfp_notifications io2" "io_frame io1 io2" "\<not> io_queued io2" "\<not> io_busy io2"
      "\<forall>q. q \<notin> set hfp_notifications \<longrightarrow> io_reqs io2 q = io_reqs io1 q"
      "\<forall>q. io_purged io1 \<longrightarrow> pending_in io2 q = pending_in io1 q"
      "sco_open (io_log io2) False = sco_open (io_log io1) False \<and> hfp_core d2 = hfp_core d1"
    using hfp_notif.flush_ok [OF n1, of remote rearm_buffer "hx_work e" d1 "sco_open (io_log io1) False" "hfp_core d1"]
    by blast
  have ok2: "hfp_ok P X (io2, d2)" using ok_core [OF 1(2) 2(3) 2(2)] 2(6,8) by simp
  note cd = hfp_coreD [OF conjunct2 [OF 2(8)]]
  have dd: "m_UnknownSpeakerTopology d2 = m_UnknownSpeakerTopology d" "m_UnknownSpeakerWave d2 = m_UnknownSpeakerWave d"
    "m_UnknownMicTopology d2 = m_UnknownMicTopology d" "m_UnknownMicWave d2 = m_UnknownMicWave d"
    "m_SpeakerMiniports d2 = m_SpeakerMiniports d" "m_MicMiniports d2 = m_MicMiniports d"
    using cd 1(5) by auto
  have lk: "m_SymbolicLinkName d2 = m_SymbolicLinkName d" using cd 1(5) by auto
  have a: "acct w (hfp_refs d + E)" using f by (simp add: hfp_full_def)
  have i1: "m_UnknownSpeakerTopology d2 \<noteq> None \<or> m_UnknownSpeakerWave d2 \<noteq> None \<longrightarrow> m_SpeakerMiniports d2 \<noteq> None"
    and i2: "m_UnknownMicTopology d2 \<noteq> None \<or> m_UnknownMicWave d2 \<noteq> None \<longrightarrow> m_MicMiniports d2 \<noteq> None"
    using f by (simp_all add: dd hfp_full_def)
  obtain w1 where w1: "remove_pair_filters (hx_speaker e) (m_SpeakerMiniports d2) (m_UnknownSpeakerTopology d2) (m_UnknownSpeakerWave d2) w = Some w1"
      "acct w1 (hfp_refs d + E)"
    using remove_filters_ok [OF a i1] by blast
  obtain w2 where w2: "remove_pair_filters (hx_mic e) (m_MicMiniports d2) (m_UnknownMicTopology d2) (m_UnknownMicWave d2) w1 = Some w2"
      "acct w2 (hfp_refs d + E)"
    using remove_filters_ok [OF w1(2) i2] by blast
  obtain w3 w4 w5 w6 where r: "safe_release (m_UnknownSpeakerTopology d2) w2 = Some w3" "safe_release (m_UnknownSpeakerWave d2) w3 = Some w4"
      "safe_release (m_UnknownMicTopology d2) w4 = Some w5" "safe_release (m_UnknownMicWave d2) w5 = Some w6" "acct w6 E"
    using release_four [of w2 "m_UnknownSpeakerTopology d2" "m_UnknownSpeakerWave d2" "m_UnknownMicTopology d2" "m_UnknownMicWave d2" E]
      w2(2) dd by (auto simp: hfp_refs_def)
  let ?d3 = "d2 \<lparr> m_UnknownSpeakerTopology := None, m_UnknownSpeakerWave := None, m_UnknownMicTopology := None,
      m_UnknownMicWave := None, m_State := StateStopped \<rparr>"
  have "hfp_Stop remote e (io, d, w) = Some (io2, ?d3, w6)"
    using 1(1) 2(1) w1(1) w2(1) r by (simp add: hfp_Stop_def)
  moreover have "hfp_full P X E (io2, ?d3, w6)"
    using ok2 r(5) by (simp add: hfp_full_def hfp_ok_def hfp_mem_def streams_ok_def hfp_blocks_def hfp_members_def hfp_refs_def)
  moreover have "io_purged io2" using 1(3) 2(3) by (simp add: io_frame_def)
  ultimately show ?thesis using 1(3,4) 2(4,5,7) lk by (simp add: hfp_refs_def)
qed

section \<open>The destructor\<close>

lemma free_block_eq: "io_pool io = block_of p + M \<Longrightarrow> tag_ok p \<Longrightarrow>
    pool_free_opt (map_option fst p) MINADAPTER_POOLTAG io = Some (io \<lparr> io_pool := M \<rparr>)"
  by (cases p) (auto simp: pool_free_opt_def pool_free_eq tag_ok_def)

text \<open>The destructor leaves one request with its memory objects behind, if there is one.\<close>

lemma hfp_dtor_ok:
  assumes m: "hfp_mem P X (io, d)" and p: "\<forall>q. \<not> pending_in io q" and a: "acct w (hfp_refs d + E)"
  shows "\<exists>io' d' w'. hfp_dtor (io, d, w) = Some (io', d', w') \<and> io_pool io' = P
    \<and> io_objects io' = req_objs (req_mems io NRECDisableStatusReq) + X \<and> acct w' E"
proof -
  let ?N = "req_objs (req_mems io NRECDisableStatusReq)"
  let ?D = "sum_list (map (\<lambda>q. req_objs (req_mems io q)) hfp_deleted_requests)"
  let ?W = "if m_WorkItem d then {#WdfWorkItem#} else {#}" and ?C = "if m_ReqCollection d then {#WdfCollection#} else {#}"
  have o: "io_objects io = (if m_WdfIoTarget d then {#WdfIoTarget#} else {#}) + (?D + (?W + (?C + (?N + X))))"
    using m by (simp add: hfp_mem_def hfp_members_def hfp_req_objs_def hfp_requests_def hfp_deleted_requests_def ac_simps)
  have b: "io_pool io = block_of (m_SymbolicLinkName d) + (pair_blocks (m_SpeakerMiniports d) + (pair_blocks (m_MicMiniports d)
      + (block_of (m_Descriptor d) + (block_of (m_VolumePropValues d) + P))))"
    using m by (simp add: hfp_mem_def hfp_blocks_def ac_simps)
  have t: "tag_ok (m_SymbolicLinkName d)" "tag_ok (m_Descriptor d)" "tag_ok (m_VolumePropValues d)"
    "pair_ok (m_SpeakerMiniports d)" "pair_ok (m_MicMiniports d)" using m by (simp_all add: hfp_mem_def)
  let ?io1 = "io \<lparr> io_objects := ?D + (?W + (?C + (?N + X))) \<rparr>"
  let ?io6 = "?io1 \<lparr> io_pool := P \<rparr>"
  have 1: "wdf_delete_if (m_WdfIoTarget d) WdfIoTarget io = Some ?io1" by (rule delete_if_eq [OF o])
  have 2: "do { x2 \<leftarrow> pool_free_opt (map_option fst (m_SymbolicLinkName d)) MINADAPTER_POOLTAG ?io1;
     x3 \<leftarrow> DeleteCustomEndpointMinipair (m_SpeakerMiniports d) x2;
     x4 \<leftarrow> DeleteCustomEndpointMinipair (m_MicMiniports d) x3;
     x5 \<leftarrow> pool_free_opt (map_option fst (m_Descriptor d)) MINADAPTER_POOLTAG x4;
     x6 \<leftarrow> pool_free_opt (map_option fst (m_VolumePropValues d)) MINADAPTER_POOLTAG x5;
     F x6 } = F ?io6" for F
    by (simp add: free_block_eq [OF _ t(1)] free_block_eq [OF _ t(2)] free_block_eq [OF _ t(3)] Delete_memory [OF _ t(4)]
        Delete_memory [OF _ t(5)] b)
  have "io_objects ?io6 = sum_list (map (\<lambda>q. req_objs (req_mems ?io6 q)) hfp_deleted_requests) + (?W + (?C + (?N + X)))" by simp
  moreover have "\<forall>q. \<not> pending_in ?io6 q" using p by simp
  moreover have "distinct hfp_deleted_requests" by (simp add: hfp_deleted_requests_def)
  ultimately obtain f where 7: "delete_requests hfp_deleted_requests ?io6 = Some (?io6 \<lparr> io_objects := ?W + (?C + (?N + X)), io_reqs := f \<rparr>)"
    using delete_requests_ok by blast
  let ?io7 = "?io6 \<lparr> io_objects := ?W + (?C + (?N + X)), io_reqs := f \<rparr>"
  let ?io8 = "?io7 \<lparr> io_objects := ?C + (?N + X) \<rparr>"
  have 8: "wdf_delete_if (m_WorkItem d) WdfWorkItem ?io7 = Some ?io8" by (rule delete_if_eq) simp
  have 9: "wdf_delete_if (m_ReqCollection d) WdfCollection ?io8 = Some (?io8 \<lparr> io_objects := ?N + X \<rparr>)" by (rule delete_if_eq) simp
  obtain w1 w2 w3 w4 where r: "safe_release (m_UnknownSpeakerTopology d) w = Some w1" "safe_release (m_UnknownSpeakerWave d) w1 = Some w2"
      "safe_release (m_UnknownMicTopology d) w2 = Some w3" "safe_release (m_UnknownMicWave d) w3 = Some w4" "acct w4 E"
    using release_four [of w "m_UnknownSpeakerTopology d" "m_UnknownSpeakerWave d" "m_UnknownMicTopology d" "m_UnknownMicWave d" E] a
    by (auto simp: hfp_refs_def)
  show ?thesis
    unfolding hfp_dtor_def prod.case 1 bind.bind_lunit 2 7 8 9
    using r by simp
qed

section \<open>Reachable states\<close>

text \<open>
  A running device: created by a successful Init on an I/O state with nothing in it, started with
  filters whose port-class objects answer for IUnknown, then driven by any events.
\<close>

inductive hfp_reachable :: "hfp_remote \<Rightarrow> hfp_world \<Rightarrow> bool" for remote where
  started: "io_fresh io \<Longrightarrow> acct w E \<Longrightarrow> hfp_Init cf ie link (io, d) = Some (st, io1, d1) \<Longrightarrow> NT_SUCCESS st \<Longrightarrow>
    filters_ok (hs_speaker_filters se) \<Longrightarrow> filters_ok (hs_mic_filters se) \<Longrightarrow>
    hfp_Start remote cf se (io1, d1, w) = Some s \<Longrightarrow> hfp_reachable remote s"
| event: "hfp_reachable remote (io, d, w) \<Longrightarrow> hfp_do remote e (io, d) = Some (io1, d1) \<Longrightarrow> hfp_reachable remote (io1, d1, w)"

lemma initial_full:
  assumes i: "hfp_initial P X (io, d)" and r: "\<forall>q. req_mems io q = Some (True, True)" and a: "acct w E"
  shows "hfp_full P X E (io, d, w) \<and> start_stage 0 (io, d, w)"
proof -
  have ne: "\<exists>x. io_reqs io q = Some x" for q using r [rule_format, of q] by auto
  have ok: "hfp_ok P X (io, d)" by (rule hfp_initial_ok [OF i r])
  have id: "idle io q" for q
    using ne [of q] i by (auto simp: hfp_initial_def idle_def)
  show ?thesis using ok i a id by (simp add: hfp_full_def start_stage_def hfp_initial_def hfp_refs_def)
qed

lemma Init_full:
  assumes "io_fresh io" and "acct w E" and "hfp_Init cf ie link (io, d) = Some (st, io1, d1)" and "NT_SUCCESS st"
  shows "hfp_full (io_pool io) (io_objects io) E (io1, d1, w) \<and> start_stage 0 (io1, d1, w)"
  using hfp_Init_ok [OF assms(1), of cf ie link d] initial_full assms by auto

text \<open>What events leave alone: the filters, the life-cycle state and the link name.\<close>

definition hfp_filters :: "BthHfpDevice \<Rightarrow> custom_pair option \<times> custom_pair option \<times> obj option \<times> obj option \<times> obj option
    \<times> obj option \<times> eHsState \<times> (pool_tag \<times> string) option" where
  "hfp_filters d = (m_SpeakerMiniports d, m_MicMiniports d, m_UnknownSpeakerTopology d, m_UnknownSpeakerWave d,
     m_UnknownMicTopology d, m_UnknownMicWave d, m_State d, m_SymbolicLinkName d)"

lemma core_filters: "hfp_core d' = hfp_core d \<Longrightarrow> hfp_filters d' = hfp_filters d"
  by (drule hfp_coreD) (simp add: hfp_filters_def)

lemma filters_updates [simp]:
  "hfp_filters (d \<lparr> m_nStreams := n \<rparr>) = hfp_filters d" "hfp_filters (d \<lparr> m_StreamStatus := x \<rparr>) = hfp_filters d"
  "hfp_filters (d \<lparr> m_StreamStatusEvent := b \<rparr>) = hfp_filters d" "hfp_filters (d \<lparr> m_Callbacks := c \<rparr>) = hfp_filters d"
  "hfp_filters (d \<lparr> m_SpeakerVolumeLevel := x \<rparr>) = hfp_filters d" "hfp_filters (d \<lparr> m_MicVolumeLevel := x \<rparr>) = hfp_filters d"
  by (simp_all add: hfp_filters_def)

lemma completion_filters:
  "EvtBthHfpDeviceStreamStatusCompletion st b (io, d) = Some (io1, d1) \<Longrightarrow> hfp_filters d1 = hfp_filters d"
  by (auto simp: EvtBthHfpDeviceStreamStatusCompletion_def split: bind_splits if_splits)

lemma StreamStart_filters:
  "hfp_StreamStart remote e t (io, d) = Some (st, io1, d1) \<Longrightarrow> hfp_filters d1 = hfp_filters d"
  by (auto simp: hfp_StreamStart_def EnableBthHfpStreamStatusNotification_def Let_def split: bind_splits if_splits prod.splits)

lemma Stop_notification_filters:
  assumes "StopBthHfpStreamStatusNotification reuse (io, d) = Some (st, io1, d1)"
  shows "hfp_filters d1 = hfp_filters d"
proof (cases "pending_in io StreamReq")
  case True
  then show ?thesis using assms completion_filters [of STATUS_CANCELLED 0 io d]
    by (cases "EvtBthHfpDeviceStreamStatusCompletion STATUS_CANCELLED 0 (io, d)")
      (auto simp: StopBthHfpStreamStatusNotification_def split: if_splits)
qed (use assms in \<open>auto simp: StopBthHfpStreamStatusNotification_def split: if_splits\<close>)

lemma StreamSuspend_filters:
  assumes "hfp_StreamSuspend remote reuse t (io, d) = Some (st, io1, d1)"
  shows "hfp_filters d1 = hfp_filters d"
proof (cases "m_nStreams d = 1")
  case True
  obtain x io2 where "SetBthHfpStreamClose remote io = (x, io2)" by fastforce
  with True assms obtain y d2 where "StopBthHfpStreamStatusNotification reuse (io2, d \<lparr> m_nStreams := 0 \<rparr>) = Some (y, io1, d2)"
      "d1 = d2 \<lparr> m_StreamStatus := STATUS_INVALID_DEVICE_STATE \<rparr>"
    by (auto simp: hfp_StreamSuspend_def split: bind_splits)
  then show ?thesis using Stop_notification_filters by fastforce
qed (use assms in \<open>auto simp: hfp_StreamSuspend_def\<close>)

lemma do_filters:
  assumes ok: "hfp_ok P X (io, d)" and e: "hfp_do remote e (io, d) = Some (io1, d1)"
  shows "hfp_filters d1 = hfp_filters d"
proof (cases e)
  case (EvWorkRound ne)
  have "notifs_ok hfp_notifications io" using ok by (simp add: hfp_ok_def)
  then obtain io' d' where r: "notif_round (hfp_notification remote) rearm_buffer ne (io, d) = Some (io', d')" "hfp_core d' = hfp_core d"
    using hfp_notif.round_ok [of hfp_notifications io remote rearm_buffer ne d "sco_open (io_log io) False" "hfp_core d"] by blast
  from core_filters [OF r(2)] show ?thesis using e EvWorkRound r(1) by (simp split: if_splits)
next
  case (EvSetHandler k t h)
  then show ?thesis using e
    by (cases k; cases t) (auto simp: hfp_SetVolumeHandler_def hfp_SetMuteHandler_def hfp_SetConnectionStatusHandler_def
        hfp_SetFormatChangeHandler_def set_handler_def)
next
  case (EvGetVolume t ch)
  then show ?thesis using e by (cases t) (auto simp: hfp_GetVolume_def split: prod.splits if_splits)
qed (use e in \<open>auto split: if_splits dest: StreamStart_filters StreamSuspend_filters completion_filters\<close>)

lemma full_filters:
  "hfp_full P X E (io, d, w) \<Longrightarrow> hfp_ok P X (io1, d1) \<Longrightarrow> hfp_filters d1 = hfp_filters d \<Longrightarrow> hfp_full P X E (io1, d1, w)"
  by (simp add: hfp_full_def hfp_filters_def hfp_refs_def)

lemma do_full:
  assumes f: "hfp_full P X E (io, d, w)"
  shows "\<exists>io1 d1. hfp_do remote e (io, d) = Some (io1, d1) \<and> hfp_full P X E (io1, d1, w) \<and> hfp_filters d1 = hfp_filters d"
proof -
  have ok: "hfp_ok P X (io, d)" using f by (simp add: hfp_full_def)
  obtain io1 d1 where 1: "hfp_do remote e (io, d) = Some (io1, d1)" "hfp_ok P X (io1, d1)"
    using hfp_do_ok [OF ok, of remote e] by auto
  have "hfp_filters d1 = hfp_filters d" by (rule do_filters [OF ok 1(1)])
  then show ?thesis using 1 full_filters [OF f] by simp
qed

lemma run_full:
  "hfp_full P X E (io, d, w) \<Longrightarrow> \<exists>io1 d1. hfp_run remote es (io, d) = Some (io1, d1) \<and> hfp_full P X E (io1, d1, w)
     \<and> hfp_filters d1 = hfp_filters d"
proof (induction es arbitrary: io d)
  case (Cons e es)
  obtain io1 d1 where 1: "hfp_do remote e (io, d) = Some (io1, d1)" "hfp_full P X E (io1, d1, w)" "hfp_filters d1 = hfp_filters d"
    using do_full [OF Cons.prems, of remote e] by blast
  then show ?case using Cons.IH [OF 1(2)] by auto
qed simp

lemma reachable_full: "hfp_reachable remote s \<Longrightarrow> \<exists>P X E. hfp_full P X E s"
proof (induction rule: hfp_reachable.induct)
  case (started io w E cf ie link d st io1 d1 se s)
  have "hfp_full (io_pool io) (io_objects io) E (io1, d1, w)" "start_stage 0 (io1, d1, w)"
    using Init_full [OF started(1-4)] by blast+
  from hfp_Start_ok [OF this started(5,6), of remote cf] show ?case using started(7) by auto
next
  case (event io d w e io1 d1)
  then obtain P X E where "hfp_full P X E (io, d, w)" by blast
  from do_full [OF this, of remote e] event(2) show ?case by auto
qed

end
