(* ===== verification/ManagedDevice.thy ===== *)
theory ManagedDevice
  imports SidebandIo SidebandManager
begin

text \<open>
  The sideband manager (theory SidebandManager) and its devices. The manager knows a device by the name
  of its link and its life-cycle state and calls Init, Start and Stop. The locale \<open>managed_device\<close> states
  what it relies on; it is interpreted on the hands-free device (HfpProps), the USB headset (UsbHsProps)
  and the A2DP headphones (A2dpProps).
\<close>

section \<open>What the manager relies on\<close>

text \<open>
  Device \<open>k\<close> of the manager's state stands for a device with the state and the link name \<open>p\<close>; the name
  is not compared while Init has not succeeded.
\<close>

definition device_abs :: "eHsState \<times> (pool_tag \<times> string) option \<Rightarrow> device \<Rightarrow> sideband \<Rightarrow> bool" where
  "device_abs p k s \<longleftrightarrow> (\<exists>v. heap s k = Some v \<and> DevState v = fst p
     \<and> (fst p \<noteq> StateInitializing \<longrightarrow> snd p = Some (MINADAPTER_POOLTAG, LinkName v)))"

text \<open>
  From the state \<open>x\<close> the life \<open>ini\<close>, \<open>start\<close>, \<open>run\<close>, \<open>stop\<close> does, step by step, what dev_Init,
  dev_Start (with some status), nothing and dev_Stop do to the device of the manager. Init always
  returns; a later step faults only if \<open>trouble\<close> holds.
\<close>

definition refines_device :: "('s \<Rightarrow> eHsState \<times> (pool_tag \<times> string) option) \<Rightarrow> ('s \<Rightarrow> (NTSTATUS \<times> 's) option) \<Rightarrow>
    ('s \<Rightarrow> 's option) \<Rightarrow> ('s \<Rightarrow> 's option) \<Rightarrow> ('s \<Rightarrow> 's option) \<Rightarrow> string \<Rightarrow> bool \<Rightarrow> 's \<Rightarrow> bool" where
  "refines_device view ini start run stop link trouble x \<longleftrightarrow> (\<forall>k v s. heap s k = Some v \<longrightarrow>
     (\<exists>st y s1. ini x = Some (st, y) \<and> dev_Init st link k s = Some (st, s1) \<and> device_abs (view y) k s1
      \<and> (NT_SUCCESS st \<longrightarrow> unless_fault trouble (start y)
          (\<lambda>z. \<exists>st2 s2. dev_Start st2 k s1 = Some s2 \<and> device_abs (view z) k s2
           \<and> unless_fault trouble (run z) (\<lambda>z1. device_abs (view z1) k s2
              \<and> unless_fault trouble (stop z1) (\<lambda>z2. \<exists>s4. dev_Stop k s2 = Some s4 \<and> device_abs (view z2) k s4))))))"

locale managed_device =
  fixes view :: "'s \<Rightarrow> eHsState \<times> (pool_tag \<times> string) option"
    and ini :: "'s \<Rightarrow> (NTSTATUS \<times> 's) option"
    and start :: "'s \<Rightarrow> 's option" and run :: "'s \<Rightarrow> 's option" and stop :: "'s \<Rightarrow> 's option"
    and link :: string and trouble :: bool
    and fresh :: "'s \<Rightarrow> bool" and ready :: "'s \<Rightarrow> bool" and good :: "'s \<Rightarrow> bool"
  assumes ini_returns: "fresh x \<Longrightarrow> \<exists>st y. ini x = Some (st, y)
      \<and> (if NT_SUCCESS st then ready y \<and> view y = (StateRunning, Some (MINADAPTER_POOLTAG, link)) else fst (view y) = StateInitializing)"
    and start_returns: "ready y \<Longrightarrow> unless_fault trouble (start y) (\<lambda>z. good z \<and> snd (view z) = snd (view y)
      \<and> (fst (view z) = fst (view y) \<or> fst (view z) = StateFailed))"
    and run_returns: "good z \<Longrightarrow> unless_fault trouble (run z) (\<lambda>z1. good z1 \<and> view z1 = view z)"
    and stop_returns: "good z \<Longrightarrow> unless_fault trouble (stop z) (\<lambda>z2. view z2 = (StateStopped, snd (view z)))"
begin

lemma ini_refines:
  assumes "fresh x" and "heap s k = Some v"
  shows "\<exists>st y s1. ini x = Some (st, y) \<and> dev_Init st link k s = Some (st, s1) \<and> device_abs (view y) k s1
     \<and> (NT_SUCCESS st \<longrightarrow> ready y \<and> view y = (StateRunning, Some (MINADAPTER_POOLTAG, link)))"
proof -
  obtain st y where i: "ini x = Some (st, y)" "if NT_SUCCESS st then ready y \<and> view y = (StateRunning, Some (MINADAPTER_POOLTAG, link))
      else fst (view y) = StateInitializing" using ini_returns [OF assms(1)] by blast
  obtain s1 where "dev_Init st link k s = Some (st, s1)" "device_abs (view y) k s1"
    using assms(2) i(2) by (auto simp: dev_Init_def dev_addref_def device_abs_def split: if_splits)
  then show ?thesis using i by auto
qed

lemma start_refines:
  assumes "ready y" and "view y = (StateRunning, Some (MINADAPTER_POOLTAG, link))" and "device_abs (view y) k s"
  shows "unless_fault trouble (start y)
     (\<lambda>z. good z \<and> (\<exists>st s2. dev_Start st k s = Some s2 \<and> device_abs (view z) k s2) \<and> fst (view z) \<noteq> StateInitializing)"
proof (rule unless_fault_mono [OF start_returns [OF assms(1)]])
  fix z assume z: "good z \<and> snd (view z) = snd (view y) \<and> (fst (view z) = fst (view y) \<or> fst (view z) = StateFailed)"
  let ?st = "if fst (view z) = StateRunning then STATUS_SUCCESS else STATUS_UNSUCCESSFUL"
  have "\<exists>s2. dev_Start ?st k s = Some s2 \<and> device_abs (view z) k s2"
    using assms(2,3) z by (auto simp: device_abs_def dev_Start_def)
  moreover have "fst (view z) \<noteq> StateInitializing" using z assms(2) by auto
  ultimately show "good z \<and> (\<exists>st s2. dev_Start st k s = Some s2 \<and> device_abs (view z) k s2) \<and> fst (view z) \<noteq> StateInitializing"
    using z by blast
qed

lemma stop_refines:
  assumes "good z" and "device_abs (view z) k s" and "fst (view z) \<noteq> StateInitializing"
  shows "unless_fault trouble (stop z) (\<lambda>z2. \<exists>s4. dev_Stop k s = Some s4 \<and> device_abs (view z2) k s4)"
  by (rule unless_fault_mono [OF stop_returns [OF assms(1)]]) (use assms(2,3) in \<open>auto simp: device_abs_def dev_Stop_def\<close>)

lemma run_refines:
  assumes "good z" and "device_abs (view z) k s" and "fst (view z) \<noteq> StateInitializing"
  shows "unless_fault trouble (run z) (\<lambda>z1. device_abs (view z1) k s
     \<and> unless_fault trouble (stop z1) (\<lambda>z2. \<exists>s4. dev_Stop k s = Some s4 \<and> device_abs (view z2) k s4))"
  by (rule unless_fault_mono [OF run_returns [OF assms(1)]]) (use assms(2,3) stop_refines in auto)

lemma refines: "fresh x \<Longrightarrow> refines_device view ini start run stop link trouble x"
  unfolding refines_device_def
proof (intro allI impI)
  fix k v and s :: sideband assume f: "fresh x" and h: "heap s k = Some v"
  from ini_refines [OF f h] obtain st y s1 where i: "ini x = Some (st, y)" "dev_Init st link k s = Some (st, s1)" "device_abs (view y) k s1"
      "NT_SUCCESS st \<longrightarrow> ready y \<and> view y = (StateRunning, Some (MINADAPTER_POOLTAG, link))" by blast
  have "unless_fault trouble (start y)
          (\<lambda>z. \<exists>st2 s2. dev_Start st2 k s1 = Some s2 \<and> device_abs (view z) k s2
           \<and> unless_fault trouble (run z) (\<lambda>z1. device_abs (view z1) k s2
              \<and> unless_fault trouble (stop z1) (\<lambda>z2. \<exists>s4. dev_Stop k s2 = Some s4 \<and> device_abs (view z2) k s4)))"
    if "NT_SUCCESS st"
    using start_refines [OF _ _ i(3)] i(4) that by (blast intro: unless_fault_mono run_refines)
  then show "\<exists>st y s1. ini x = Some (st, y) \<and> dev_Init st link k s = Some (st, s1) \<and> device_abs (view y) k s1
      \<and> (NT_SUCCESS st \<longrightarrow> unless_fault trouble (start y)
          (\<lambda>z. \<exists>st2 s2. dev_Start st2 k s1 = Some s2 \<and> device_abs (view z) k s2
           \<and> unless_fault trouble (run z) (\<lambda>z1. device_abs (view z1) k s2
              \<and> unless_fault trouble (stop z1) (\<lambda>z2. \<exists>s4. dev_Stop k s2 = Some s4 \<and> device_abs (view z2) k s4))))"
    using i by blast
qed

end

text \<open>Lifting the operations that do not touch the adapter's filters.\<close>

definition ini_with :: "('a \<times> 'b \<Rightarrow> (NTSTATUS \<times> 'a \<times> 'b) option) \<Rightarrow> 'a \<times> 'b \<times> 'w \<Rightarrow> (NTSTATUS \<times> 'a \<times> 'b \<times> 'w) option" where
  "ini_with f = (\<lambda>(io, d, w). map_option (\<lambda>(st, io', d'). (st, io', d', w)) (f (io, d)))"

definition run_with :: "('a \<times> 'b \<Rightarrow> ('a \<times> 'b) option) \<Rightarrow> 'a \<times> 'b \<times> 'w \<Rightarrow> ('a \<times> 'b \<times> 'w) option" where
  "run_with f = (\<lambda>(io, d, w). map_option (\<lambda>(io', d'). (io', d', w)) (f (io, d)))"

end
