(* ===== verification/HfpProps.thy ===== *)
theory HfpProps
  imports HfpLife ManagedDevice
begin

text \<open>
  The properties of the hands-free device (theories HfpDevice, HfpSafety, HfpLife): its streams, its
  notifications, what Stop and the destructor leave, the notifications that are lost when the work
  item gives up, and the refinement of the device the sideband manager works with.
\<close>

section \<open>A sample headset\<close>

text \<open>A device whose calls all succeed, and an adapter without filters, for the examples.\<close>

definition sample_descriptor :: BTHHFP_DESCRIPTOR2 where
  "sample_descriptor = \<lparr> SupportsNREC = 1, SupportsVolume = 1, VolumePropertyValuesSize = 40, OutputPinCategory = 1,
     InputPinCategory = 2, FriendlyName = ''Headset'', ContainerId = 3 \<rparr>"

definition sample_hfp_remote :: hfp_remote where
  "sample_hfp_remote log code = (if code = IOCTL_BTHHFP_DEVICE_GET_DESCRIPTOR2 0 then STATUS_BUFFER_TOO_SMALL else STATUS_SUCCESS,
     \<lparr> rp_long = 1, rp_codec = 1, rp_information = 100, rp_whole = True, rp_descriptor = sample_descriptor, rp_values = [] \<rparr>)"

definition sample_send :: send_env where
  "sample_send = \<lparr> se_format = STATUS_SUCCESS, se_sent = True, se_status = STATUS_SUCCESS \<rparr>"

definition sample_request :: request_env where
  "sample_request = \<lparr> re_create = STATUS_SUCCESS, re_mem_in = STATUS_SUCCESS, re_mem_out = STATUS_SUCCESS \<rparr>"

definition sample_pair :: pair_env where
  "sample_pair = \<lparr> pe_properties = True, pe_pair = True, pe_descriptor = True, pe_pins = True \<rparr>"

definition sample_endpoint :: endpoint_pair where
  "sample_endpoint = \<lparr> TopoName = ''T'', TemplateTopoName = None, WaveName = ''W'', TemplateWaveName = None,
     PhysicalConnections = [], TopoInterfaceProperties = [], TopoPinCategories = [KSCATEGORY_AUDIO, 5],
     PinDeviceFormatsAndModes = 0 \<rparr>"

definition sample_config :: hfp_config where
  "sample_config = \<lparr> cf_render = (\<lambda>i. sample_endpoint), cf_capture = (\<lambda>i. sample_endpoint), cf_speaker_wave = ''SW'',
     cf_speaker_topo = ''ST'', cf_mic_wave = ''MW'', cf_mic_topo = ''MT'', cf_refstring_max = 64, cf_hash = (\<lambda>l. length l) \<rparr>"

definition sample_install :: "obj \<Rightarrow> install_env" where
  "sample_install p = \<lparr> ie_iface = STATUS_SUCCESS, ie_migrate = STATUS_SUCCESS, ie_props = None, ie_newport = STATUS_SUCCESS,
     ie_miniport = STATUS_SUCCESS, ie_init = STATUS_SUCCESS, ie_register = STATUS_SUCCESS, ie_qi_port = STATUS_SUCCESS,
     ie_qi_iface = STATUS_SUCCESS, ie_qi_mini = STATUS_SUCCESS, ie_port = p, ie_mini = p + 1 \<rparr>"

definition sample_filters :: "obj \<Rightarrow> filters_env" where
  "sample_filters p = \<lparr> fe_topo = sample_install p, fe_wave = sample_install (p + 2),
     fe_cache_topo = \<lparr> ce_alloc = True, ce_power = False, ce_change = False \<rparr>,
     fe_cache_wave = \<lparr> ce_alloc = True, ce_power = False, ce_change = False \<rparr>,
     fe_connect = (\<lambda>i. STATUS_SUCCESS), fe_disc_qi = STATUS_SUCCESS, fe_disc = (\<lambda>i. STATUS_SUCCESS),
     fe_unreg_qi = (\<lambda>p. STATUS_SUCCESS), fe_unreg = (\<lambda>p. STATUS_SUCCESS) \<rparr>"

definition sample_init :: hfp_init_env where
  "sample_init = \<lparr> hi_workitem = STATUS_SUCCESS, hi_collection = STATUS_SUCCESS, hi_target = STATUS_SUCCESS,
     hi_open = STATUS_SUCCESS, hi_name = True, hi_request = (\<lambda>q. sample_request), hi_hash = STATUS_SUCCESS \<rparr>"

definition sample_start :: hfp_start_env where
  "sample_start = \<lparr> hs_descriptor = \<lparr> qe_create = STATUS_SUCCESS, qe_alloc = True, qe_reuse = STATUS_SUCCESS \<rparr>,
     hs_values = True, hs_speaker_pair = sample_pair, hs_mic_pair = sample_pair, hs_speaker_filters = sample_filters 1,
     hs_mic_filters = sample_filters 10, hs_send = (\<lambda>q. sample_send) \<rparr>"

definition sample_io :: hfp_io where
  "sample_io = \<lparr> io_log = [], io_purged = False, io_reqs = (\<lambda>q. None), io_collection = [], io_queued = False,
     io_busy = False, io_pool = {#}, io_objects = {#} \<rparr>"

definition sample_hfp :: BthHfpDevice where
  "sample_hfp = \<lparr> m_State = StateInvalid, m_WdfIoTarget = False, m_WorkItem = False, m_ReqCollection = False,
     m_SymbolicLinkName = None, m_SpeakerWaveName = [], m_SpeakerTopologyName = [], m_MicWaveName = [],
     m_MicTopologyName = [], m_SpeakerMiniports = None, m_MicMiniports = None, m_UnknownSpeakerTopology = None,
     m_UnknownSpeakerWave = None, m_UnknownMicTopology = None, m_UnknownMicWave = None, m_CodecId = 0,
     m_Descriptor = None, m_VolumePropValues = None, m_SpeakerVolumeLevel = 0, m_MicVolumeLevel = 0,
     m_ConnectionStatus = 0, m_StreamStatus = 0, m_StreamStatusEvent = False, m_NRECDisableStatus = 0, m_nStreams = 0,
     m_Callbacks = (\<lambda>c. None), m_Invoked = [] \<rparr>"

definition sample_world :: adapter_world where
  "sample_world = \<lparr> refs = (\<lambda>p. 0), m_SubdeviceCache = [], m_dwIdleRequests = 0, registered = [], connections = [],
     idle_enabled = False \<rparr>"

lemmas sample_defs = sample_descriptor_def sample_hfp_remote_def sample_send_def sample_request_def sample_pair_def
  sample_endpoint_def sample_config_def sample_install_def sample_filters_def sample_init_def sample_start_def sample_io_def
  sample_hfp_def sample_world_def

definition sample_stop :: hfp_stop_env where
  "sample_stop = \<lparr> hx_work = \<lparr> ne_reuse = (\<lambda>q. STATUS_SUCCESS), ne_send = (\<lambda>q. sample_send) \<rparr>, hx_speaker = sample_filters 1,
     hx_mic = sample_filters 10 \<rparr>"

text \<open>The device after Init and Start.\<close>

definition sample_started :: hfp_world where
  "sample_started = (case the (hfp_Init sample_config sample_init ''link'' (sample_io, sample_hfp)) of (st, io, d) \<Rightarrow>
     the (hfp_Start sample_hfp_remote sample_config sample_start (io, d, sample_world)))"

lemma sample_whole: "hfp_whole sample_hfp_remote"
  by (simp add: hfp_whole_def sample_hfp_remote_def)

lemma sample_fresh: "io_fresh sample_io" "acct sample_world {#}" "filters_ok (sample_filters p)"
  by (simp_all add: io_fresh_def sample_io_def acct_def sample_world_def filters_ok_def unknown_ok_def sample_filters_def
      sample_install_def fun_eq_iff)

lemma sample_Init_success:
  assumes "hfp_Init sample_config sample_init link (io, d) = Some (st, s)"
  shows "NT_SUCCESS st"
proof -
  let ?fs = "hfp_Init_basics sample_init link @ map (\<lambda>q. hfp_Init_request (hi_request sample_init q) q) hfp_requests
      @ [hfp_Init_names sample_config (hi_hash sample_init) link]"
  let ?ok = "\<lambda>f. step_spec (\<lambda>s. True) f (\<lambda>s. True) (\<lambda>s. False)"
  have 1: "list_all ?ok (hfp_Init_basics sample_init link)"
    by (auto simp: step_spec_def hfp_Init_basics_def sample_init_def hfp_Init_workitem_def hfp_Init_collection_def
        hfp_Init_target_def hfp_Init_open_def hfp_Init_link_def pool_alloc_def)
  have 2: "?ok (hfp_Init_request (hi_request sample_init q) q)" for q
    by (auto simp: step_spec_def sample_init_def sample_request_def hfp_Init_request_def create_request_def Let_def)
  have 3: "?ok (hfp_Init_names sample_config (hi_hash sample_init) link)"
    by (auto simp: step_spec_def sample_init_def hfp_Init_names_def hfp_CreateFilterNames_def Let_def)
  have "list_all ?ok ?fs" using 1 2 3 by (auto simp: list_all_iff)
  then have "?ok (run_steps ?fs)" by (rule run_steps_inv)
  from step_specD [OF this TrueI, of "(io \<lparr> io_reqs := Map.empty \<rparr>, hfp_Init_members d)"] obtain x y z where
    "run_steps ?fs (io \<lparr> io_reqs := Map.empty \<rparr>, hfp_Init_members d) = Some (x, y, z)" "NT_SUCCESS x"
    by (auto split: if_splits)
  then show ?thesis using assms by (simp add: hfp_Init_def)
qed

text \<open>A device that Init and Start have just made: the state in which histories begin.\<close>

definition hfp_started :: "hfp_remote \<Rightarrow> hfp_world \<Rightarrow> bool" where
  "hfp_started remote s \<longleftrightarrow> (\<exists>io d w E cf ie link st io1 d1 se. io_fresh io \<and> acct w E
     \<and> hfp_Init cf ie link (io, d) = Some (st, io1, d1) \<and> NT_SUCCESS st
     \<and> filters_ok (hs_speaker_filters se) \<and> filters_ok (hs_mic_filters se) \<and> hfp_Start remote cf se (io1, d1, w) = Some s)"

lemma started_reachable: "hfp_started remote s \<Longrightarrow> hfp_reachable remote s"
  by (auto simp: hfp_started_def intro: hfp_reachable.started)

lemma sample_started_ok: "hfp_started sample_hfp_remote sample_started"
proof -
  obtain st io d where i: "hfp_Init sample_config sample_init ''link'' (sample_io, sample_hfp) = Some (st, io, d)"
    using hfp_Init_ok [OF sample_fresh(1), of sample_config sample_init "''link''" sample_hfp] by blast
  then have ok: "NT_SUCCESS st" by (rule sample_Init_success)
  have f: "filters_ok (hs_speaker_filters sample_start)" "filters_ok (hs_mic_filters sample_start)"
    by (simp_all add: sample_start_def sample_fresh)
  note full = Init_full [OF sample_fresh(1,2) i ok]
  obtain s where s: "hfp_Start sample_hfp_remote sample_config sample_start (io, d, sample_world) = Some s"
    using hfp_Start_ok [OF conjunct1 [OF full] conjunct2 [OF full] f, of sample_hfp_remote sample_config] sample_whole
    by (auto simp: unless_fault_iff)
  then have "sample_started = s" using i by (simp add: sample_started_def)
  then show ?thesis unfolding hfp_started_def using sample_fresh(1,2) i ok f s by blast
qed

lemma sample_reachable: "hfp_reachable sample_hfp_remote sample_started"
  by (rule started_reachable [OF sample_started_ok])

section \<open>Properties\<close>

lemma Suspend_last:
  assumes ok: "hfp_ok P X s" and n: "m_nStreams (snd s) = 0"
  shows "\<not> pending_in (fst s) StreamReq \<and> \<not> hfp_GetStreamStatus t (snd s)"
  using assms by (cases s) (auto simp: hfp_ok_def streams_ok_def hfp_GetStreamStatus_def)



text \<open>
  How often request \<open>q\<close> has failed in a row over a history of events, after \<open>n\<close> failures before it:
  counted from the completions themselves, not from what the driver notes. A completion counts when
  the target has the request; a cancelled one is neither a failure nor a success.
\<close>

definition failures_after :: "hfp_event \<Rightarrow> hfp_req \<Rightarrow> hfp \<Rightarrow> nat \<Rightarrow> nat" where
  "failures_after e q s n = (case e of
     EvCompletion p add st b \<Rightarrow>
       if p = q \<and> pending_in (fst s) q \<and> st \<noteq> STATUS_CANCELLED then (if NT_SUCCESS st then 0 else n + 1) else n
   | _ \<Rightarrow> n)"

fun failures :: "hfp_remote \<Rightarrow> hfp_req \<Rightarrow> nat \<Rightarrow> hfp_event list \<Rightarrow> hfp \<Rightarrow> nat" where
  "failures remote q n [] s = n"
| "failures remote q n (e # es) s = (case hfp_do remote e s of
     None \<Rightarrow> n
   | Some s1 \<Rightarrow> failures remote q (failures_after e q s n) es s1)"

text \<open>The member Errors of a request agrees with that count.\<close>

definition errors_of :: "hfp_io \<Rightarrow> hfp_req \<Rightarrow> nat option" where
  "errors_of io q = map_option Errors (io_reqs io q)"

lemma errors_simps [simp]: "errors_of (io \<lparr> io_log := l \<rparr>) = errors_of io" "errors_of (io \<lparr> io_pool := p \<rparr>) = errors_of io"
  "errors_of (begin_work io) = errors_of io" "errors_of (io \<lparr> io_objects := x \<rparr>) = errors_of io"
  by (simp_all add: errors_of_def begin_work_def fun_eq_iff)

lemma errors_call: "errors_of (snd (hfp_call remote c io)) = errors_of io"
  by (auto simp: hfp_call_def SendIoCtrlSynchronously_def split: prod.splits)

lemma errors_enable: "enable_notification e p c b io = Some (st, io1) \<Longrightarrow> errors_of io1 = errors_of io"
  by (auto simp: enable_notification_def SendIoCtrlAsynchronously_def errors_of_def fun_eq_iff split: bind_splits if_splits)

lemma errors_stream: "EvtBthHfpDeviceStreamStatusCompletion st b (io, d) = Some (io1, d1) \<Longrightarrow> errors_of io1 = errors_of io"
  by (auto simp: EvtBthHfpDeviceStreamStatusCompletion_def errors_of_def fun_eq_iff split: bind_splits if_splits)

lemma errors_round:
  assumes "notif_round (hfp_notification remote) rearm_buffer e (io, d) = Some (io1, d1)"
  shows "errors_of io1 = errors_of io"
proof (cases "io_collection io")
  case Nil
  then show ?thesis using assms by (auto simp: notif_round_def errors_of_def fun_eq_iff)
next
  case (Cons p qs)
  obtain r where r: "io_reqs io p = Some r" using assms Cons by (auto simp: notif_round_def split: bind_splits)
  let ?io1 = "io \<lparr> io_collection := qs \<rparr>"
  obtain resend b io2 d2 where h: "(if NT_SUCCESS (IoStatus r) then hfp_notification remote (Code r) (Buffer r) (?io1, d)
      else (True, Buffer r, ?io1, d)) = (resend, b, io2, d2)" by (metis prod_cases4)
  have "io_reqs io2 = io_reqs io"
    using h hfp_notif.handle_io [of remote "Code r" "Buffer r" ?io1 d resend b io2 d2] by (auto split: if_splits)
  then show ?thesis using assms Cons r
    by (auto simp: notif_round_def h errors_of_def fun_eq_iff SendIoCtrlAsynchronously_def Let_def split: bind_splits if_splits)
qed

lemma errors_StreamStart:
  assumes "hfp_StreamStart remote e t (io, d) = Some (st, io1, d1)"
  shows "errors_of io1 = errors_of io"
proof -
  obtain x io2 where o: "SetBthHfpStreamOpen remote io = (x, io2)" by fastforce
  then have 2: "errors_of io2 = errors_of io"
    by (auto simp: SetBthHfpStreamOpen_def SendIoCtrlSynchronously_def split: prod.splits)
  have 3: "errors_of (snd (SetBthHfpStreamClose remote y)) = errors_of y" for y
    by (simp add: SetBthHfpStreamClose_def errors_call)
  show ?thesis using assms 2 3 o
    by (auto simp: hfp_StreamStart_def EnableBthHfpStreamStatusNotification_def Let_def split: bind_splits if_splits
        dest!: errors_enable)
qed

lemma errors_StreamSuspend:
  assumes "hfp_StreamSuspend remote reuse t (io, d) = Some (st, io1, d1)"
  shows "errors_of io1 = errors_of io"
proof (cases "m_nStreams d = 1")
  case True
  obtain x io2 where c: "SetBthHfpStreamClose remote io = (x, io2)" by fastforce
  then have 2: "errors_of io2 = errors_of io"
    using errors_call [of remote IOCTL_BTHHFP_STREAM_CLOSE io] by (simp add: SetBthHfpStreamClose_def)
  from True assms c obtain y d2 where s: "StopBthHfpStreamStatusNotification reuse (io2, d \<lparr> m_nStreams := 0 \<rparr>) = Some (y, io1, d2)"
    by (auto simp: hfp_StreamSuspend_def split: bind_splits)
  have "errors_of io1 = errors_of io2"
  proof (cases "pending_in io2 StreamReq")
    case True
    then show ?thesis using s errors_stream [of STATUS_CANCELLED 0 io2]
      by (cases "EvtBthHfpDeviceStreamStatusCompletion STATUS_CANCELLED 0 (io2, d \<lparr> m_nStreams := 0 \<rparr>)")
        (auto simp: StopBthHfpStreamStatusNotification_def split: if_splits)
  qed (use s in \<open>auto simp: StopBthHfpStreamStatusNotification_def split: if_splits\<close>)
  with 2 show ?thesis by simp
qed (use assms in \<open>auto simp: hfp_StreamSuspend_def\<close>)

lemma errors_completion:
  assumes "NotificationStatusCompletion add st b p io = Some io1" and "pending_in io p"
  shows "errors_of io1 q = (if p = q \<and> st \<noteq> STATUS_CANCELLED
    then map_option (\<lambda>n. if NT_SUCCESS st then 0 else n + 1) (errors_of io q) else errors_of io q)"
  using assms by (auto simp: NotificationStatusCompletion_def errors_of_def pending_in_def Let_def split: bind_splits if_splits option.splits)

lemma failures_after_other: "\<nexists>p add st b. e = EvCompletion p add st b \<Longrightarrow> failures_after e q s = (\<lambda>n. n)"
  by (cases e) (simp_all add: failures_after_def fun_eq_iff)

lemma errors_event:
  assumes "hfp_do remote e (io, d) = Some (io1, d1)" and "q \<noteq> StreamReq"
  shows "errors_of io1 q = map_option (failures_after e q (io, d)) (errors_of io q)"
proof (cases "\<exists>p add st b. e = EvCompletion p add st b")
  case True
  then obtain p add st b where e: "e = EvCompletion p add st b" by blast
  consider "\<not> pending_in io p" | "pending_in io p" "p = StreamReq" | "pending_in io p" "p \<noteq> StreamReq" by blast
  then show ?thesis
  proof cases
    case 1
    then have "failures_after e q (io, d) = (\<lambda>n. n)" by (auto simp: failures_after_def e fun_eq_iff)
    then show ?thesis using 1 assms(1) e by (simp add: option.map_ident)
  next
    case 2
    then have "errors_of io1 = errors_of io" using assms(1) e errors_stream by auto
    moreover have "failures_after e q (io, d) = (\<lambda>n. n)" using 2 assms(2) by (auto simp: failures_after_def e fun_eq_iff)
    ultimately show ?thesis by (simp add: option.map_ident)
  next
    case 3
    then have "NotificationStatusCompletion add st b p io = Some io1" using assms(1) e by auto
    from errors_completion [OF this 3(1), of q] show ?thesis using e 3(1)
      by (cases "errors_of io q") (auto simp: failures_after_def)
  qed
next
  case False
  then have f: "failures_after e q (io, d) = (\<lambda>n. n)" by (rule failures_after_other)
  have "errors_of io1 = errors_of io"
  proof (cases e)
    case (EvGetVolume t ch)
    then show ?thesis using assms(1)
      by (cases t) (auto simp: hfp_GetVolume_def GetBthHfpSpeakerVolume_def GetBthHfpMicVolume_def split: prod.splits dest!: long_log)
  next
    case (EvSetVolume t ch v)
    then show ?thesis using assms(1) errors_call
      by (cases t) (auto simp: hfp_SetVolume_def SetBthHfpSpeakerVolume_def SetBthHfpMicVolume_def)
  qed (use assms False errors_call in \<open>auto simp: hfp_Connect_def hfp_Disconnect_def SetBthHfpConnect_def SetBthHfpDisconnect_def
      split: if_splits dest: errors_StreamStart errors_StreamSuspend errors_round\<close>)
  then show ?thesis unfolding f by (simp add: option.map_ident)
qed

lemma errors_run:
  assumes "hfp_run remote es (io, d) = Some (io1, d1)" and "q \<noteq> StreamReq" and "errors_of io q = Some n"
  shows "errors_of io1 q = Some (failures remote q n es (io, d))"
  using assms
proof (induction es arbitrary: io d n)
  case (Cons e es)
  obtain io2 d2 where 2: "hfp_do remote e (io, d) = Some (io2, d2)" "hfp_run remote es (io2, d2) = Some (io1, d1)"
    using Cons.prems(1) by (auto split: bind_splits)
  have "errors_of io2 q = Some (failures_after e q (io, d) n)" using errors_event [OF 2(1) Cons.prems(2)] Cons.prems(3) by simp
  from Cons.IH [OF 2(2) Cons.prems(2) this] show ?case using 2(1) by simp
qed simp

text \<open>Init leaves every counter at zero and Start leaves it there.\<close>

definition all_errors :: "hfp_world \<Rightarrow> hfp_req \<Rightarrow> nat option" where
  "all_errors = (\<lambda>(io, d, w). errors_of io)"

lemma errors_query: "query_block remote e tag info code io = Some (st, p, io1) \<Longrightarrow> errors_of io1 = errors_of io"
  using query_block_memory [of remote e tag info code io] by (auto simp: fun_eq_iff)

lemma errors_fetch: "fetch_block remote a tag tag code io = Some (st, p, io1) \<Longrightarrow> errors_of io1 = errors_of io"
  using fetch_block_memory [OF refl, of remote a tag code io] by (auto simp: fun_eq_iff)

lemma errors_pair: "CreateCustomEndpointMinipair e a b c io = Some (st, p, io1) \<Longrightarrow> errors_of io1 = errors_of io"
  using Create_memory [of e a b c io] by (auto simp: fun_eq_iff)

lemma errors_enable_all: "enable_notification e p c b io = Some (st, io1) \<Longrightarrow> errors_of io1 = errors_of io"
  using errors_enable by (auto simp: fun_eq_iff)

lemma errors_codec: "GetBthHfpCodecId remote io = (st, v, io1) \<Longrightarrow> errors_of io1 = errors_of io"
  by (drule codec_log) (auto simp: fun_eq_iff)

lemma errors_long: "hfp_get_long remote c io = (st, v, io1) \<Longrightarrow> errors_of io1 = errors_of io"
  by (drule long_log) (auto simp: fun_eq_iff)

lemmas errors_calls = errors_query errors_fetch errors_pair errors_enable_all errors_codec errors_long

lemma Start_keeps_errors:
  "step_keeps all_errors (hfp_Start_capabilities remote)" "step_keeps all_errors (hfp_Start_descriptor remote qe)"
  "step_keeps all_errors (hfp_Start_volume remote a)" "step_keeps all_errors (hfp_Start_connection remote)"
  "step_keeps all_errors (hfp_Start_speaker_pair cf pe)" "step_keeps all_errors (hfp_Start_mic_pair cf pe)"
  "step_keeps all_errors (hfp_Start_speaker_filters fe)" "step_keeps all_errors (hfp_Start_mic_filters fe)"
  "step_keeps all_errors hfp_Start_notify"
  "step_keeps all_errors (hfp_Start_enable (EnableBthHfpNrecDisableStatusNotification se))"
  "step_keeps all_errors (hfp_Start_enable (EnableBthHfpSpeakerVolumeStatusNotification se))"
  "step_keeps all_errors (hfp_Start_enable (EnableBthHfpMicVolumeStatusNotification se))"
  "step_keeps all_errors (hfp_Start_enable (EnableBthHfpConnectionStatusNotification se))"
  by (auto simp: step_keeps_def all_errors_def hfp_Start_capabilities_def hfp_Start_descriptor_def hfp_Start_volume_def
      hfp_Start_connection_def hfp_Start_speaker_pair_def hfp_Start_mic_pair_def hfp_Start_speaker_filters_def
      hfp_Start_mic_filters_def hfp_Start_notify_def hfp_Start_enable_def Let_def SetBthHfpDeviceCapabilities_def
      GetBthHfpDescriptor_def GetBthHfpVolumePropertyValues_def GetBthHfpSpeakerVolume_def GetBthHfpMicVolume_def
      GetBthHfpConnectionStatus_def EnableBthHfpNrecDisableStatusNotification_def
      EnableBthHfpSpeakerVolumeStatusNotification_def EnableBthHfpMicVolumeStatusNotification_def
      EnableBthHfpConnectionStatusNotification_def
      split: prod.splits bind_splits if_splits dest!: errors_calls call_log)
lemma Start_errors:
  assumes "hfp_Start remote cf e (io, d, w) = Some (io1, d1, w1)"
  shows "errors_of io1 = errors_of io"
proof -
  from assms obtain st d2 where r: "run_steps
       [hfp_Start_capabilities remote, hfp_Start_descriptor remote (hs_descriptor e),
        hfp_Start_volume remote (hs_values e), hfp_Start_connection remote,
        hfp_Start_speaker_pair cf (hs_speaker_pair e), hfp_Start_mic_pair cf (hs_mic_pair e),
        hfp_Start_speaker_filters (hs_speaker_filters e), hfp_Start_mic_filters (hs_mic_filters e), hfp_Start_notify,
        hfp_Start_enable (EnableBthHfpNrecDisableStatusNotification (hs_send e NRECDisableStatusReq)),
        hfp_Start_enable (EnableBthHfpSpeakerVolumeStatusNotification (hs_send e SpeakerVolumeReq)),
        hfp_Start_enable (EnableBthHfpMicVolumeStatusNotification (hs_send e MicVolumeReq)),
        hfp_Start_enable (EnableBthHfpConnectionStatusNotification (hs_send e ConnectionReq))] (io, d, w) = Some (st, io1, d2, w1)"
    unfolding hfp_Start_def by (auto simp del: run_steps.simps split: bind_splits)
  have "all_errors (io1, d2, w1) = all_errors (io, d, w)"
    by (rule run_steps_keeps [OF _ r]) (simp add: Start_keeps_errors)
  then show ?thesis by (simp add: all_errors_def)
qed

lemma started_full:
  assumes "hfp_started remote (io, d, w)"
  shows "(\<exists>P X E. hfp_full P X E (io, d, w)) \<and> (\<forall>q. errors_of io q = Some 0)"
proof -
  obtain io0 d0 w0 E cf ie link st io1 d1 se where s: "io_fresh io0" "acct w0 E" "hfp_Init cf ie link (io0, d0) = Some (st, io1, d1)"
      "NT_SUCCESS st" "filters_ok (hs_speaker_filters se)" "filters_ok (hs_mic_filters se)"
      "hfp_Start remote cf se (io1, d1, w0) = Some (io, d, w)"
    using assms by (auto simp: hfp_started_def)
  have i: "hfp_initial (io_pool io0) (io_objects io0) (io1, d1)" "\<forall>q. req_mems io1 q = Some (True, True)"
    using hfp_Init_ok [OF s(1), of cf ie link d0] s(3,4) by auto
  have "errors_of io1 q = Some 0" for q
    using i(1) i(2) [rule_format, of q] by (auto simp: hfp_initial_def errors_of_def)
  then show ?thesis
    using Start_errors [OF s(7)] reachable_full [OF started_reachable [OF assms]] by simp
qed

lemma run_append:
  "hfp_run remote es s = Some s1 \<Longrightarrow> failures remote q n (es @ fs) s = failures remote q (failures remote q n es s) fs s1"
  by (induction es arbitrary: n s) (auto split: bind_splits)

text \<open>The completion of a pending request, by how often it has failed.\<close>

lemma completion_queues:
  assumes n: "notifs_ok hfp_notifications io" and q: "q \<in> set hfp_notifications" and p: "pending_in io q" and e: "errors_of io q = Some k"
  shows "\<exists>io1. NotificationStatusCompletion add st b q io = Some io1
    \<and> (NT_SUCCESS add \<and> st \<noteq> STATUS_CANCELLED \<longrightarrow> (q \<in> set (io_collection io1)) = (NT_SUCCESS st \<or> k < NOTIFICATION_MAX_ERROR_COUNT)
         \<and> (q \<in> set (io_collection io1) \<longrightarrow> io_queued io1))"
proof -
  obtain r where r: "io_reqs io q = Some r" "Pending r" "Errors r = k"
    using p e by (auto simp: pending_in_def errors_of_def split: option.splits)
  have "q \<notin> set (io_collection io)" using n r by (auto simp: notifs_ok_def)
  then show ?thesis using r by (auto simp: NotificationStatusCompletion_def Let_def)
qed

text \<open>A request that has failed six times stays where it is, whatever happens.\<close>

lemma given_up_stays:
  assumes "hfp_full P X E (io, d, w)" and "q \<in> set hfp_notifications" and "errors_of io q = Some 6"
  shows "hfp_run remote es (io, d) = Some (io1, d1) \<Longrightarrow> errors_of io1 q = Some 6"
  using assms
proof (induction es arbitrary: io d)
  case (Cons e es)
  have q: "q \<noteq> StreamReq" using Cons.prems(3) StreamReq_no_notification by metis
  obtain io2 d2 where 2: "hfp_do remote e (io, d) = Some (io2, d2)" "hfp_run remote es (io2, d2) = Some (io1, d1)"
    using Cons.prems(1) by (auto split: bind_splits)
  have f2: "hfp_full P X E (io2, d2, w)" using do_full [OF Cons.prems(2), of remote e] 2(1) by auto
  have "notifs_ok hfp_notifications io" using Cons.prems(2) by (simp add: hfp_full_def hfp_ok_def)
  then have "\<not> pending_in io q"
    using Cons.prems(3,4) by (fastforce simp: notifs_ok_def NOTIFICATION_MAX_ERROR_COUNT_def pending_in_def errors_of_def split: option.splits)
  then have "failures_after e q (io, d) = (\<lambda>n. n)" by (auto simp: failures_after_def fun_eq_iff split: hfp_event.splits)
  then have "errors_of io2 q = Some 6" using errors_event [OF 2(1) q] Cons.prems(4) by simp
  from Cons.IH [OF 2(2) f2 Cons.prems(3) this] show ?case .
qed simp

text \<open>
  C33. Failures of the notification requests over any history of a device that has just been started,
  whatever the headset answers, counted from the completions: no request completes with a failure more
  than six times in a row. With the sixth failure it is given up: from then on, whatever happens, it
  is not with the target and does not wait for the work item. Before that a failed request is put
  aside for the work item again (when WdfCollectionAdd succeeds), and so is one that succeeded. A
  request never is with the target and waits at once, and a run of the work item ends.
\<close>

theorem hfp_failures_bounded:
  assumes "hfp_started remote (io0, d0, w)" and "hfp_run remote evs (io0, d0) = Some (io, d)" and "q \<in> set hfp_notifications"
  shows "failures remote q 0 evs (io0, d0) \<le> 6
    \<and> (failures remote q 0 evs (io0, d0) = 6 \<longrightarrow>
        (\<forall>es. \<exists>s. hfp_run remote es (io, d) = Some s \<and> \<not> pending_in (fst s) q \<and> q \<notin> set (io_collection (fst s))))
    \<and> (pending_in io q \<longrightarrow> (\<forall>add st b. \<exists>io1. NotificationStatusCompletion add st b q io = Some io1
        \<and> (NT_SUCCESS add \<and> st \<noteq> STATUS_CANCELLED \<longrightarrow>
             (q \<in> set (io_collection io1)) = (NT_SUCCESS st \<or> failures remote q 0 evs (io0, d0) < 5)
             \<and> (q \<in> set (io_collection io1) \<longrightarrow> io_queued io1))))
    \<and> distinct (io_collection io) \<and> \<not> (pending_in io q \<and> q \<in> set (io_collection io))
    \<and> (\<exists>s. notif_work (hfp_notification remote) rearm_buffer e (io, d) = Some s \<and> \<not> io_busy (fst s))"
proof -
  have q: "q \<noteq> StreamReq" using assms(3) StreamReq_no_notification by metis
  obtain P X E where f0: "hfp_full P X E (io0, d0, w)" and e0: "errors_of io0 q = Some 0" using started_full [OF assms(1)] by blast
  let ?n = "failures remote q 0 evs (io0, d0)"
  have en: "errors_of io q = Some ?n" by (rule errors_run [OF assms(2) q e0])
  have f: "hfp_full P X E (io, d, w)" using run_full [OF f0, of remote evs] assms(2) by auto
  have dead: "(k \<le> 6 \<and> (k = 6 \<longrightarrow> \<not> pending_in io' q \<and> q \<notin> set (io_collection io')))"
    if "hfp_full P X E (io', d', w)" "errors_of io' q = Some k" for io' d' k
    using that assms(3)
    by (fastforce simp: hfp_full_def hfp_ok_def notifs_ok_def NOTIFICATION_MAX_ERROR_COUNT_def pending_in_def errors_of_def split: option.splits)
  have n: "notifs_ok hfp_notifications io" using f by (simp add: hfp_full_def hfp_ok_def)
  have "\<exists>s. hfp_run remote es (io, d) = Some s \<and> \<not> pending_in (fst s) q \<and> q \<notin> set (io_collection (fst s))" if six: "?n = 6" for es
  proof -
    obtain io1 d1 where 1: "hfp_run remote es (io, d) = Some (io1, d1)" "hfp_full P X E (io1, d1, w)" using run_full [OF f, of remote es] by blast
    show ?thesis using dead [OF 1(2) given_up_stays [OF f assms(3) _ 1(1)]] en six 1(1) by auto
  qed
  moreover have "distinct (io_collection io)" "\<not> (pending_in io q \<and> q \<in> set (io_collection io))"
    using n by (auto simp: notifs_ok_def pending_in_def)
  moreover have "\<exists>s. notif_work (hfp_notification remote) rearm_buffer e (io, d) = Some s \<and> \<not> io_busy (fst s)"
    using hfp_notif.work_ok [OF n, of remote rearm_buffer e d] by fastforce
  ultimately show ?thesis
    using dead [OF f en] completion_queues [OF n assms(3) _ en] by (simp add: NOTIFICATION_MAX_ERROR_COUNT_def)
qed

theorem hfp_failures_bounded_witness:
  "\<exists>io d. hfp_run sample_hfp_remote [EvCompletion MicVolumeReq STATUS_SUCCESS STATUS_UNSUCCESSFUL 0, EvWorkBegin,
        EvWorkRound (hx_work sample_stop), EvCompletion MicVolumeReq STATUS_SUCCESS STATUS_UNSUCCESSFUL 0]
      (fst sample_started, fst (snd sample_started)) = Some (io, d)
    \<and> failures sample_hfp_remote MicVolumeReq 0 [EvCompletion MicVolumeReq STATUS_SUCCESS STATUS_UNSUCCESSFUL 0, EvWorkBegin,
        EvWorkRound (hx_work sample_stop), EvCompletion MicVolumeReq STATUS_SUCCESS STATUS_UNSUCCESSFUL 0]
      (fst sample_started, fst (snd sample_started)) \<le> 6"
proof -
  let ?evs = "[EvCompletion MicVolumeReq STATUS_SUCCESS STATUS_UNSUCCESSFUL 0, EvWorkBegin,
        EvWorkRound (hx_work sample_stop), EvCompletion MicVolumeReq STATUS_SUCCESS STATUS_UNSUCCESSFUL 0]"
  let ?io = "fst sample_started" and ?d = "fst (snd sample_started)" and ?w = "snd (snd sample_started)"
  have s: "hfp_started sample_hfp_remote (?io, ?d, ?w)" using sample_started_ok by simp
  then obtain P X E where "hfp_full P X E (?io, ?d, ?w)" using started_full by blast
  then obtain io d where r: "hfp_run sample_hfp_remote ?evs (?io, ?d) = Some (io, d)"
    using run_full [of P X E ?io ?d ?w sample_hfp_remote ?evs] by blast
  have "MicVolumeReq \<in> set hfp_notifications" by (simp add: hfp_notifications_def)
  from hfp_failures_bounded [OF s r this] r show ?thesis by blast
qed

text \<open>
  C34. Stop always returns, and afterwards no request is with the target, the work item neither runs
  nor is queued, the device holds no filter and is stopped; the streams are still consistent, so
  that a miniport that suspends its stream later does not block either.
\<close>

theorem hfp_Stop_quiet:
  assumes "hfp_reachable remote s"
  shows "\<exists>io' d' w'. hfp_Stop remote e s = Some (io', d', w') \<and> (\<forall>q. \<not> pending_in io' q) \<and> \<not> io_queued io' \<and> \<not> io_busy io'
    \<and> m_UnknownSpeakerTopology d' = None \<and> m_UnknownSpeakerWave d' = None \<and> m_UnknownMicTopology d' = None
    \<and> m_UnknownMicWave d' = None \<and> m_State d' = StateStopped
    \<and> (0 < m_nStreams d' \<longrightarrow> hfp_StreamSuspend remote reuse t (io', d') \<noteq> None)"
proof -
  obtain io d w where s: "s = (io, d, w)" by (metis prod_cases3)
  obtain P X E where "hfp_full P X E (io, d, w)" using reachable_full [OF assms] s by blast
  then obtain io' d' w' where k: "hfp_Stop remote e s = Some (io', d', w')" "hfp_full P X E (io', d', w')"
      "\<forall>q. \<not> pending_in io' q" "\<not> io_queued io'" "\<not> io_busy io'" "hfp_refs d' = {#}" "m_State d' = StateStopped"
    using hfp_Stop_ok s by blast
  have "0 < m_nStreams d' \<longrightarrow> hfp_StreamSuspend remote reuse t (io', d') \<noteq> None"
    using StreamSuspend_ok [of P X io' d' remote reuse t] k(2) by (auto simp: hfp_full_def)
  moreover have "m_UnknownSpeakerTopology d' = None \<and> m_UnknownSpeakerWave d' = None \<and> m_UnknownMicTopology d' = None
      \<and> m_UnknownMicWave d' = None"
    using k(6) by (auto simp: hfp_refs_def opt_ref_def split: option.splits)
  ultimately show ?thesis using k by blast
qed

theorem hfp_Stop_quiet_witness:
  "\<exists>io' d' w'. hfp_Stop sample_hfp_remote sample_stop sample_started = Some (io', d', w') \<and> m_State d' = StateStopped"
  using hfp_Stop_quiet [OF sample_reachable, of sample_stop STATUS_SUCCESS eBthHfpMicDevice] by blast

section \<open>Memory and references of a whole life\<close>

text \<open>
  Init, and when it succeeds Start, any events and Stop; then the destructor. \<open>None\<close> is a fault.
\<close>

definition hfp_life :: "hfp_remote \<Rightarrow> hfp_config \<Rightarrow> hfp_init_env \<Rightarrow> hfp_start_env \<Rightarrow> hfp_stop_env \<Rightarrow> string \<Rightarrow>
    hfp_event list \<Rightarrow> hfp_world \<Rightarrow> (NTSTATUS \<times> hfp_world) option" where
  "hfp_life remote cf ie se xe link evs = (\<lambda>(io, d, w). do {
     (st, io1, d1) \<leftarrow> hfp_Init cf ie link (io, d);
     if NT_SUCCESS st then do {
       (io2, d2, w2) \<leftarrow> hfp_Start remote cf se (io1, d1, w);
       (io3, d3) \<leftarrow> hfp_run remote evs (io2, d2);
       s4 \<leftarrow> hfp_Stop remote xe (io3, d3, w2);
       s5 \<leftarrow> hfp_dtor s4;
       Some (st, s5) }
     else do { s5 \<leftarrow> hfp_dtor (io1, d1, w); Some (st, s5) } })"

lemma req_objs_bound: "req_objs x \<subseteq># {#WdfRequest, WdfMemory, WdfMemory#}"
  by (auto simp: req_objs_def split: option.split prod.split)

text \<open>
  C35. Over a whole life, whatever fails, the only thing that faults is reading a descriptor that the
  headset announced with fewer bytes than the structure has, and nothing else does. When the life
  returns, all pool memory and all references on port and miniport objects are returned, and of the
  framework objects at most one request with its two memory objects is left; after a successful Init
  exactly these are left, those of m_NRECDisableStatusReq, which the destructor forgets.
\<close>

theorem hfp_life_balanced:
  assumes "io_fresh io" and "acct w E" and "filters_ok (hs_speaker_filters se)" and "filters_ok (hs_mic_filters se)"
  shows "(hfp_life remote cf ie se xe link evs (io, d, w) = None \<longrightarrow> \<not> hfp_whole remote)
    \<and> (\<forall>st io' d' w'. hfp_life remote cf ie se xe link evs (io, d, w) = Some (st, io', d', w') \<longrightarrow>
        io_pool io' = io_pool io \<and> acct w' E
        \<and> (\<exists>L. io_objects io' = L + io_objects io \<and> L \<subseteq># {#WdfRequest, WdfMemory, WdfMemory#}
             \<and> (NT_SUCCESS st \<longrightarrow> L = {#WdfRequest, WdfMemory, WdfMemory#})))"
proof -
  let ?P = "io_pool io" and ?X = "io_objects io"
  obtain st io1 d1 where i: "hfp_Init cf ie link (io, d) = Some (st, io1, d1)" "hfp_initial ?P ?X (io1, d1)"
    using hfp_Init_ok [OF assms(1), of cf ie link d] by blast
  show ?thesis
  proof (cases "NT_SUCCESS st")
    case False
    have m: "hfp_mem ?P ?X (io1, d1)" "\<forall>q. \<not> pending_in io1 q" "acct w (hfp_refs d1 + E)"
      using i(2) assms(2) by (auto simp: hfp_initial_def pending_in_def hfp_refs_def split: option.splits)
    from hfp_dtor_ok [OF m] obtain io' d' w' where "hfp_dtor (io1, d1, w) = Some (io', d', w')" "io_pool io' = ?P"
        "io_objects io' = req_objs (req_mems io1 NRECDisableStatusReq) + ?X" "acct w' E" by blast
    then show ?thesis using i(1) False req_objs_bound by (auto simp: hfp_life_def)
  next
    case True
    note fs = Init_full [OF assms(1,2) i(1) True]
    note start = hfp_Start_ok [OF conjunct1 [OF fs] conjunct2 [OF fs] assms(3,4), of remote cf]
    show ?thesis
    proof (cases "hfp_Start remote cf se (io1, d1, w)")
      case None
      then show ?thesis using start i(1) True by (simp add: hfp_life_def)
    next
      case (Some s2)
      then obtain io2 d2 w2 where 2: "hfp_Start remote cf se (io1, d1, w) = Some (io2, d2, w2)" "hfp_full ?P ?X E (io2, d2, w2)"
        using start by (cases s2) auto
      obtain io3 d3 where 3: "hfp_run remote evs (io2, d2) = Some (io3, d3)" "hfp_full ?P ?X E (io3, d3, w2)"
        using run_full [OF 2(2), of remote evs] by blast
      obtain io4 d4 w4 where 4: "hfp_Stop remote xe (io3, d3, w2) = Some (io4, d4, w4)" "hfp_full ?P ?X E (io4, d4, w4)"
          "\<forall>q. \<not> pending_in io4 q"
        using hfp_Stop_ok [OF 3(2), of remote xe] by blast
      have m: "hfp_mem ?P ?X (io4, d4)" "acct w4 (hfp_refs d4 + E)" "req_mems io4 NRECDisableStatusReq = Some (True, True)"
        using 4(2) by (simp_all add: hfp_full_def hfp_ok_def)
      from hfp_dtor_ok [OF m(1) 4(3) m(2)] obtain io' d' w' where 5: "hfp_dtor (io4, d4, w4) = Some (io', d', w')" "io_pool io' = ?P"
          "io_objects io' = req_objs (req_mems io4 NRECDisableStatusReq) + ?X" "acct w' E" by blast
      have "io_objects io' = {#WdfRequest, WdfMemory, WdfMemory#} + ?X" using 5(3) m(3) by (simp add: req_objs_def)
      then show ?thesis using i(1) True 2(1) 3(1) 4(1) 5 by (simp add: hfp_life_def)
    qed
  qed
qed

theorem hfp_life_balanced_witness:
  "\<exists>st io' d' w'. hfp_life sample_hfp_remote sample_config sample_init sample_start sample_stop ''link''
      [EvStreamStart sample_send eBthHfpSpeakerDevice, EvCompletion NRECDisableStatusReq STATUS_SUCCESS STATUS_SUCCESS 1,
       EvWorkBegin] (sample_io, sample_hfp, sample_world) = Some (st, io', d', w')
    \<and> io_pool io' = io_pool sample_io \<and> acct w' {#}"
proof -
  have "filters_ok (hs_speaker_filters sample_start)" "filters_ok (hs_mic_filters sample_start)"
    by (simp_all add: sample_start_def sample_fresh)
  note life = hfp_life_balanced [OF sample_fresh(1,2) this]
  show ?thesis using sample_whole conjunct1 [OF life] conjunct2 [OF life] by (metis not_Some_eq prod_cases4)
qed

section \<open>Notifications that are lost\<close>

text \<open>The part of the I/O state that belongs to the notifications.\<close>

definition notif_part :: "hfp_io \<Rightarrow> hfp_req list \<times> bool \<times> bool \<times> (hfp_req \<Rightarrow> (hfp_ioctl, LONG) notif option)" where
  "notif_part io = (io_collection io, io_queued io, io_busy io, (io_reqs io)(StreamReq := None))"

lemma notif_part_simps [simp]:
  "notif_part (io \<lparr> io_log := l \<rparr>) = notif_part io"
  "notif_part (io \<lparr> io_reqs := (io_reqs io)(StreamReq := x) \<rparr>) = notif_part io"
  by (simp_all add: notif_part_def)

lemma notif_part_enable:
  "enable_notification e StreamReq c b io = Some (st, io1) \<Longrightarrow> notif_part io1 = notif_part io"
  by (auto simp: enable_notification_def SendIoCtrlAsynchronously_def notif_part_def split: bind_splits if_splits)

lemma notif_part_call: "notif_part (snd (hfp_call remote c io)) = notif_part io"
  by (auto simp: hfp_call_def SendIoCtrlSynchronously_def split: prod.splits)

lemma notif_part_completion:
  "EvtBthHfpDeviceStreamStatusCompletion st b (io, d) = Some (io1, d1) \<Longrightarrow> notif_part io1 = notif_part io"
  by (auto simp: EvtBthHfpDeviceStreamStatusCompletion_def split: bind_splits if_splits)

lemma notif_part_start:
  assumes "hfp_StreamStart remote e t (io, d) = Some (st, io1, d1)"
  shows "notif_part io1 = notif_part io"
proof -
  obtain x io2 where o: "SetBthHfpStreamOpen remote io = (x, io2)" by fastforce
  then have 2: "notif_part io2 = notif_part io"
    by (auto simp: SetBthHfpStreamOpen_def SendIoCtrlSynchronously_def split: prod.splits)
  have 3: "notif_part (snd (SetBthHfpStreamClose remote y)) = notif_part y" for y
    by (simp add: SetBthHfpStreamClose_def notif_part_call)
  show ?thesis using assms 2 3 o
    by (auto simp: hfp_StreamStart_def EnableBthHfpStreamStatusNotification_def Let_def split: bind_splits if_splits
        dest!: notif_part_enable)
qed

lemma notif_part_suspend:
  assumes "hfp_StreamSuspend remote reuse t (io, d) = Some (st, io1, d1)"
  shows "notif_part io1 = notif_part io"
proof (cases "m_nStreams d = 1")
  case True
  obtain x io2 where c: "SetBthHfpStreamClose remote io = (x, io2)" by fastforce
  then have 2: "notif_part io2 = notif_part io"
    using notif_part_call [of remote IOCTL_BTHHFP_STREAM_CLOSE io] by (simp add: SetBthHfpStreamClose_def)
  from True assms c obtain y d2 where s: "StopBthHfpStreamStatusNotification reuse (io2, d \<lparr> m_nStreams := 0 \<rparr>) = Some (y, io1, d2)"
    by (auto simp: hfp_StreamSuspend_def split: bind_splits)
  have "notif_part io1 = notif_part io2"
  proof (cases "pending_in io2 StreamReq")
    case True
    then show ?thesis using s notif_part_completion [of STATUS_CANCELLED 0 io2]
      by (cases "EvtBthHfpDeviceStreamStatusCompletion STATUS_CANCELLED 0 (io2, d \<lparr> m_nStreams := 0 \<rparr>)")
        (auto simp: StopBthHfpStreamStatusNotification_def split: if_splits)
  qed (use s in \<open>auto simp: StopBthHfpStreamStatusNotification_def split: if_splits\<close>)
  with 2 show ?thesis by simp
qed (use assms in \<open>auto simp: hfp_StreamSuspend_def\<close>)

text \<open>Without a notification request at the target and with the work item idle, nothing more happens.\<close>

definition notifs_dead :: "hfp_io \<Rightarrow> bool" where
  "notifs_dead io \<longleftrightarrow> \<not> io_queued io \<and> \<not> io_busy io \<and> (\<forall>q. q \<noteq> StreamReq \<longrightarrow> \<not> pending_in io q)"

lemma notifs_dead_part: "notif_part io' = notif_part io \<Longrightarrow> notifs_dead io' = notifs_dead io"
proof -
  assume p: "notif_part io' = notif_part io"
  then have "(io_reqs io')(StreamReq := None) = (io_reqs io)(StreamReq := None)" by (simp add: notif_part_def)
  then have "io_reqs io' q = io_reqs io q" if "q \<noteq> StreamReq" for q using that by (metis fun_upd_other)
  then show ?thesis using p by (auto simp: notifs_dead_def pending_in_def notif_part_def)
qed

lemma dead_do:
  assumes "notifs_dead io" and "hfp_do remote e (io, d) = Some (io1, d1)"
  shows "notif_part io1 = notif_part io"
proof (cases e)
  case (EvGetVolume t ch)
  then show ?thesis using assms(2)
    by (cases t) (auto simp: hfp_GetVolume_def GetBthHfpSpeakerVolume_def GetBthHfpMicVolume_def split: prod.splits dest!: long_log)
next
  case (EvSetVolume t ch v)
  then show ?thesis using assms(2) notif_part_call
    by (cases t) (auto simp: hfp_SetVolume_def SetBthHfpSpeakerVolume_def SetBthHfpMicVolume_def)
qed (use assms in \<open>auto simp: notifs_dead_def hfp_Connect_def hfp_Disconnect_def SetBthHfpConnect_def SetBthHfpDisconnect_def
    notif_part_call split: if_splits dest: notif_part_start notif_part_suspend notif_part_completion\<close>)

lemma dead_run: "notifs_dead io \<Longrightarrow> hfp_run remote es (io, d) = Some (io1, d1) \<Longrightarrow> notif_part io1 = notif_part io"
proof (induction es arbitrary: io d)
  case (Cons e es)
  obtain io2 d2 where 2: "hfp_do remote e (io, d) = Some (io2, d2)" "hfp_run remote es (io2, d2) = Some (io1, d1)"
    using Cons.prems(2) by (auto split: bind_splits)
  have 3: "notif_part io2 = notif_part io" by (rule dead_do [OF Cons.prems(1) 2(1)])
  then have "notifs_dead io2" using notifs_dead_part Cons.prems(1) by blast
  from Cons.IH [OF this 2(2)] 3 show ?case by simp
qed simp


definition lost_io :: hfp_io where
  "lost_io = (let r = \<lparr> Errors = 1, Buffer = 0, MemIn = True, MemOut = True, Pending = False,
       Code = IOCTL_BTHHFP_DEVICE_GET_NRECDISABLE_STATUS_UPDATE 0, IoStatus = STATUS_UNSUCCESSFUL \<rparr>
     in sample_io \<lparr> io_collection := [NRECDisableStatusReq, SpeakerVolumeReq],
          io_reqs := (\<lambda>q. if q = StreamReq then None else Some r) \<rparr>)"


section \<open>The device of the sideband manager\<close>

definition hfp_view :: "hfp_io \<times> BthHfpDevice \<times> adapter_world \<Rightarrow> eHsState \<times> (pool_tag \<times> string) option" where
  "hfp_view = (\<lambda>(io, d, w). (m_State d, m_SymbolicLinkName d))"

definition hfp_env_ok :: "hfp_start_env \<Rightarrow> bool" where
  "hfp_env_ok e \<longleftrightarrow> filters_ok (hs_speaker_filters e) \<and> filters_ok (hs_mic_filters e)"

interpretation hfp_managed: managed_device hfp_view "ini_with (hfp_Init cf ie link)" "hfp_Start remote cf se"
    "run_with (hfp_run remote evs)" "hfp_Stop remote xe" link "\<not> hfp_whole remote"
    "\<lambda>(io, d, w). io_fresh io \<and> acct w E \<and> hfp_env_ok se"
    "\<lambda>(io, d, w). hfp_env_ok se \<and> (\<exists>P X. hfp_full P X E (io, d, w) \<and> start_stage 0 (io, d, w))"
    "\<lambda>s. \<exists>P X. hfp_full P X E s"
  for cf ie link remote se evs xe E
proof (unfold_locales, goal_cases)
  case (1 x)
  obtain io d w where x: "x = (io, d, w)" by (metis prod_cases3)
  obtain st io1 d1 where i: "hfp_Init cf ie link (io, d) = Some (st, io1, d1)"
      "NT_SUCCESS st \<longrightarrow> m_State d1 = StateRunning \<and> m_SymbolicLinkName d1 = Some (MINADAPTER_POOLTAG, link)"
      "\<not> NT_SUCCESS st \<longrightarrow> m_State d1 = StateInitializing"
    using hfp_Init_ok [of io cf ie link d] 1 x by auto
  then show ?case using Init_full [of io w E cf ie link d st io1 d1] 1 x by (auto simp: ini_with_def hfp_view_def)
next
  case (2 y)
  obtain io d w where y: "y = (io, d, w)" by (metis prod_cases3)
  then obtain P X where f: "hfp_full P X E (io, d, w)" "start_stage 0 (io, d, w)" "hfp_env_ok se" using 2 by auto
  have "unless_fault (\<not> hfp_whole remote) (hfp_Start remote cf se (io, d, w)) (hfp_full P X E)"
    using hfp_Start_ok [OF f(1,2), of se remote cf] f(3) by (simp add: hfp_env_ok_def)
  then show ?case unfolding y
  proof (rule unless_fault_mono)
    fix z assume z: "hfp_Start remote cf se (io, d, w) = Some z" "hfp_full P X E z"
    obtain io2 d2 w2 where z2: "z = (io2, d2, w2)" by (metis prod_cases3)
    show "(\<exists>P X. hfp_full P X E z) \<and> snd (hfp_view z) = snd (hfp_view (io, d, w))
        \<and> (fst (hfp_view z) = fst (hfp_view (io, d, w)) \<or> fst (hfp_view z) = StateFailed)"
      using z hfp_Start_state [OF z(1) [unfolded z2]] by (auto simp: hfp_view_def z2)
  qed
next
  case (3 z)
  obtain io d w where z: "z = (io, d, w)" by (metis prod_cases3)
  then obtain P X where f: "hfp_full P X E (io, d, w)" using 3 by auto
  obtain io3 d3 where "hfp_run remote evs (io, d) = Some (io3, d3)" "hfp_full P X E (io3, d3, w)" "hfp_filters d3 = hfp_filters d"
    using run_full [OF f, of remote evs] by blast
  then show ?case using z by (auto simp: run_with_def hfp_view_def hfp_filters_def)
next
  case (4 z)
  obtain io d w where z: "z = (io, d, w)" by (metis prod_cases3)
  then obtain P X where f: "hfp_full P X E (io, d, w)" using 4 by auto
  obtain io4 d4 w4 where "hfp_Stop remote xe (io, d, w) = Some (io4, d4, w4)" "m_State d4 = StateStopped"
      "m_SymbolicLinkName d4 = m_SymbolicLinkName d"
    using hfp_Stop_ok [OF f, of remote xe] by blast
  then show ?case using z by (auto simp: hfp_view_def)
qed

text \<open>The refinement for the hands-free device.\<close>

lemma hfp_refines:
  assumes "io_fresh io" and "acct w E" and "hfp_env_ok se"
  shows "refines_device hfp_view (ini_with (hfp_Init cf ie link)) (hfp_Start remote cf se) (run_with (hfp_run remote evs))
    (hfp_Stop remote xe) link (\<not> hfp_whole remote) (io, d, w)"
  by (rule hfp_managed.refines [where E = E]) (use assms in simp)

end
