(* ===== verification/UsbHsProps.thy ===== *)
theory UsbHsProps
  imports UsbHsLife HfpProps
begin

text \<open>
  The properties of the USB headset (theories UsbHsDevice, UsbHsSafety, UsbHsLife): the choice of a
  format, the life of a device from Init to the destructor, and when closing a stream returns.
\<close>

section \<open>Formats\<close>

text \<open>The hardware formats some format of the endpoint matches, by their indices.\<close>

definition compatible_formats :: "usb_config \<Rightarrow> usb_format list \<Rightarrow> usb_format list \<Rightarrow> nat list" where
  "compatible_formats cf es hs = filter (\<lambda>i. \<exists>e \<in> set es. ep_format_matches cf (hs ! i) e) [0..<length hs]"

lemma ep_format_loop_iff: "ep_format_loop cf h es = (\<exists>e \<in> set es. ep_format_matches cf h e)"
  by (induction es) auto

lemma hardware_format_loop_eq:
  "hardware_format_loop cf es k hs acc =
     (let M = filter (\<lambda>i. \<exists>e \<in> set es. ep_format_matches cf (hs ! i) e) [0..<length hs]
      in if M = [] then acc else (STATUS_SUCCESS, k + last M))"
proof (induction hs arbitrary: k acc)
  case (Cons h hs)
  have "[0..<length (h # hs)] = 0 # map Suc [0..<length hs]" by (simp add: map_Suc_upt upt_conv_Cons del: upt_Suc)
  then show ?case by (auto simp: Cons.IH Let_def ep_format_loop_iff filter_map comp_def last_map simp del: upt_Suc)
qed simp

text \<open>
  C38. VerifyEndpointFormatCompatibility chooses the last hardware format that some format of the
  endpoint matches in rate, channels and sample size, and succeeds exactly when there is one;
  otherwise it leaves the index alone and answers STATUS_NOT_SUPPORTED.
\<close>

theorem usb_format_selection:
  "VerifyEndpointFormatCompatibility cf es hs index =
     (if compatible_formats cf es hs = [] then (STATUS_NOT_SUPPORTED, index)
      else (STATUS_SUCCESS, last (compatible_formats cf es hs)))"
  by (simp add: VerifyEndpointFormatCompatibility_def hardware_format_loop_eq compatible_formats_def Let_def)

section \<open>Life of a headset\<close>


text \<open>A headset whose only endpoint has neither volume nor mute, and an environment without failures.\<close>

definition sample_usb_remote :: usb_remote where
  "sample_usb_remote log code = ((case code of IOCTL_SBAUD_GET_VOLUMEPROPERTYVALUES i n \<Rightarrow> STATUS_SUCCESS
       | _ \<Rightarrow> if even (length log) then STATUS_BUFFER_TOO_SMALL else STATUS_SUCCESS),
     \<lparr> ur_information = 100, ur_whole = True, ur_params = zero_params, ur_NumberOfEndpoints = 1,
       ur_endpoint = \<lparr> ed_Direction = KSPIN_DATAFLOW_OUT, ed_Volume = 0, ed_Mute = 0, ed_Feedback = 0,
         ed_VolumePropertyValuesSize = 0, ed_MutePropertyValuesSize = 0, ed_Category = 1, ed_FriendlyName = ''Headset'',
         ed_ContainerId = 3 \<rparr>,
       ur_formats = [], ur_bytes = [] \<rparr>)"

definition sample_usb_config :: usb_config where
  "sample_usb_config = \<lparr> uc_endpoint = (\<lambda>s. sample_endpoint), uc_formats = (\<lambda>s. []), uc_wave = (\<lambda>s. ''W''), uc_topo = (\<lambda>s. ''T''),
     uc_refstring_max = 64, uc_hash = length, sizeof_KSDATAFORMAT = 64, sizeof_KSDATAFORMAT_WAVEFORMATEX = 82 \<rparr>"

definition sample_query :: query_env where
  "sample_query = \<lparr> qe_create = STATUS_SUCCESS, qe_alloc = True, qe_reuse = STATUS_SUCCESS \<rparr>"

definition sample_usb_init :: usb_init_env where
  "sample_usb_init = \<lparr> ui_workitem = STATUS_SUCCESS, ui_collection = STATUS_SUCCESS, ui_target = STATUS_SUCCESS,
     ui_open = STATUS_SUCCESS, ui_pdo = 9, ui_relation = True, ui_name = True, ui_request = (\<lambda>q. sample_request),
     ui_hash = STATUS_SUCCESS \<rparr>"

definition sample_usb_start :: usb_start_env where
  "sample_usb_start = \<lparr> us_device = sample_query, us_hub = sample_query, us_endpoints = (\<lambda>i. sample_query),
     us_volume_alloc = (\<lambda>s. True), us_mute_alloc = (\<lambda>s. True), us_formats = (\<lambda>s. sample_query), us_pair = (\<lambda>s. sample_pair),
     us_filters = (\<lambda>s. sample_filters 1), us_send = (\<lambda>s. sample_send) \<rparr>"

definition sample_usb_io :: usb_io where
  "sample_usb_io = \<lparr> io_log = [], io_purged = False, io_reqs = (\<lambda>q. None), io_collection = [], io_queued = False,
     io_busy = False, io_pool = {#}, io_objects = {#} \<rparr>"

definition sample_side :: usb_side_state where
  "sample_side = \<lparr> us_WaveName = [], us_TopologyName = [], us_Miniports = None, us_UnknownTopology = None, us_UnknownWave = None,
     us_Descriptor = None, us_VolumePropValues = None, us_VolumeLevel = 0, us_MutePropValues = None, us_Mute = 0, us_EpIndex = 0,
     us_StreamStatus = 0, us_StreamStatusEvent = True, us_SupportedFormatsIntersection = None, us_SelectedFormat = 0,
     us_TransportResources = no_resources, us_nStreamsOpen = 0, us_nStreamsStart = 0, us_Callbacks = (\<lambda>c. None) \<rparr>"

definition sample_usb :: UsbHsDevice where
  "sample_usb = \<lparr> uh_State = StateInvalid, uh_WdfIoTarget = False, uh_SymbolicLinkName = None, uh_Descriptor = None,
     uh_WorkItem = False, uh_ReqCollection = False, uh_Side = (\<lambda>s. sample_side), uh_Invoked = [] \<rparr>"

lemma sample_usb_honest: "usb_honest sample_usb_remote"
  by (auto simp: usb_honest_def usb_whole_def usb_sizes_def usb_answers_def sample_usb_remote_def props_ok_def)

lemma sample_usb_Init_success:
  assumes "usb_Init sample_usb_config sample_usb_init link (io, d, a) = Some (st, s)"
  shows "NT_SUCCESS st"
proof -
  let ?fs = "usb_Init_basics sample_usb_init link @ map (\<lambda>q. usb_Init_request (ui_request sample_usb_init q) q) usb_requests
      @ [usb_Init_names sample_usb_config (ui_hash sample_usb_init) link]"
  let ?ok = "\<lambda>f. step_spec (\<lambda>s. True) f (\<lambda>s. True) (\<lambda>s. False)"
  have 1: "list_all ?ok (usb_Init_basics sample_usb_init link)"
    by (auto simp: step_spec_def usb_Init_basics_def sample_usb_init_def usb_Init_workitem_def usb_Init_collection_def
        usb_Init_target_def usb_Init_open_def AddDeviceAsPowerDependency_def usb_Init_link_def pool_alloc_def)
  have 2: "?ok (usb_Init_request (ui_request sample_usb_init q) q)" for q
    by (auto simp: step_spec_def sample_usb_init_def sample_request_def usb_Init_request_def create_request_def Let_def)
  have 3: "?ok (usb_Init_names sample_usb_config (ui_hash sample_usb_init) link)"
    by (auto simp: step_spec_def sample_usb_init_def usb_Init_names_def usb_CreateFilterNames_def Let_def)
  have "list_all ?ok ?fs" using 1 2 3 by (auto simp: list_all_iff)
  then have "?ok (run_steps ?fs)" by (rule run_steps_inv)
  from step_specD [OF this TrueI, of "(io \<lparr> io_reqs := Map.empty \<rparr>, usb_Init_members d, a)"] obtain x y where
    "run_steps ?fs (io \<lparr> io_reqs := Map.empty \<rparr>, usb_Init_members d, a) = Some (x, y)" "NT_SUCCESS x"
    by (auto split: if_splits)
  then show ?thesis using assms by (cases y) (simp add: usb_Init_def)
qed


section \<open>Closing a stream\<close>

lemma open_first:
  assumes r: "io_reqs io (UsbStreamReq s) = Some r" "\<not> Pending r" and n: "us_nStreamsOpen (uh_Side d s) = 0"
    and o: "usb_open s remote e (io, d) = Some (st, io1, d1)" and ok: "NT_SUCCESS st"
  shows "\<exists>l r'. io1 = io \<lparr> io_log := l, io_reqs := (io_reqs io)(UsbStreamReq s \<mapsto> r') \<rparr> \<and> Pending r'
    \<and> up_EpIndex (Buffer r') = us_EpIndex (uh_Side d s)
    \<and> d1 = upd_side s (\<lambda>x. x \<lparr> us_nStreamsOpen := us_nStreamsOpen x + 1, us_StreamStatus := STATUS_SUCCESS, us_StreamStatusEvent := False \<rparr>) d"
proof -
  let ?ep = "us_EpIndex (uh_Side d s)"
  obtain st0 io0 where c: "SetUsbHsStreamOpen remote ?ep (us_SelectedFormat (uh_Side d s)) io = (st0, io0)" by fastforce
  then obtain l where l: "io0 = io \<lparr> io_log := l \<rparr>" using usb_busy_log unfolding SetUsbHsStreamOpen_def by blast
  let ?d1 = "upd_side s (\<lambda>x. x \<lparr> us_nStreamsOpen := us_nStreamsOpen x + 1, us_StreamStatus := STATUS_SUCCESS \<rparr>) d"
  have "io_reqs io0 (UsbStreamReq s) = Some r" using r l by simp
  from enable_stream_eq [OF this r(2), of e ?d1] obtain st2 r' where
    en: "usb_enable_stream s e (io0, ?d1) = Some (st2, io0 \<lparr> io_reqs := (io_reqs io0)(UsbStreamReq s \<mapsto> r') \<rparr>,
        upd_side s (\<lambda>x. x \<lparr> us_StreamStatusEvent := \<not> NT_SUCCESS st2 \<rparr>) ?d1)"
      "Pending r' = NT_SUCCESS st2" "up_EpIndex (Buffer r') = ?ep" by auto
  have "NT_SUCCESS st0" using o ok c n by (auto simp: usb_open_def Let_def split: if_splits)
  moreover from this have "NT_SUCCESS st2" using o ok c n en(1) by (auto simp: usb_open_def Let_def split: if_splits)
  ultimately show ?thesis using o c n en l by (auto simp: usb_open_def Let_def)
qed

text \<open>
  C40. Closing the only stream of a side. After a successful open with the request of the side at
  hand, close returns exactly when the completion of the cancelled request is taken for this side:
  for the speaker always, for the microphone only when its endpoint index differs from the speaker's.
  A headset with a microphone at endpoint 0 and no speaker has both indices 0; there the completion
  sets the speaker's event and close waits for the microphone's for ever.
\<close>

theorem usb_close_returns_iff:
  assumes "io_reqs io (UsbStreamReq s) = Some r" and "\<not> Pending r" and "us_nStreamsOpen (uh_Side d s) = 0"
    and "usb_open s remote e (io, d) = Some (st, io1, d1)" and "NT_SUCCESS st"
  shows "(usb_close s remote reuse (io1, d1) \<noteq> None)
    = (s = UsbSpeaker \<or> us_EpIndex (uh_Side d UsbMic) \<noteq> us_EpIndex (uh_Side d UsbSpeaker))"
proof -
  let ?f = "\<lambda>x. x \<lparr> us_nStreamsOpen := us_nStreamsOpen x + 1, us_StreamStatus := STATUS_SUCCESS, us_StreamStatusEvent := False \<rparr>"
  obtain l r' where o: "io1 = io \<lparr> io_log := l, io_reqs := (io_reqs io)(UsbStreamReq s \<mapsto> r') \<rparr>" "Pending r'"
      "up_EpIndex (Buffer r') = us_EpIndex (uh_Side d s)" "d1 = upd_side s ?f d"
    using open_first [OF assms] by blast
  obtain st0 io2 where c: "SetUsbHsStreamClose remote (us_EpIndex (uh_Side d s)) io1 = (st0, io2)" by fastforce
  then obtain y where y: "io2 = io1 \<lparr> io_log := y \<rparr>" using usb_call_log unfolding SetUsbHsStreamClose_def by blast
  let ?g = "\<lambda>x. x \<lparr> us_nStreamsOpen := us_nStreamsOpen x + 1 - 1, us_StreamStatus := STATUS_SUCCESS, us_StreamStatusEvent := False \<rparr>"
  let ?d2 = "upd_side s ?g d"
  have i: "side_of_index (us_EpIndex (uh_Side d s)) ?d2 = side_of_index (us_EpIndex (uh_Side d s)) d" by (rule index_upd) simp
  have r2: "io_reqs io2 (UsbStreamReq s) = Some r'" using o(1) y by simp
  have "usb_close s remote reuse (io1, d1) \<noteq> None \<longleftrightarrow> usb_stop_stream s reuse (io2, ?d2) \<noteq> None"
    using c o(4) assms(3) by (auto simp: usb_close_def Let_def split: bind_splits)
  also have "\<dots> \<longleftrightarrow> side_of_index (us_EpIndex (uh_Side d s)) d = Some s"
    using r2 o(2,3) i by (auto simp: usb_stop_stream_def EvtUsbHsDeviceStreamStatusCompletion_def upd_side_if split: option.split)
  also have "\<dots> \<longleftrightarrow> s = UsbSpeaker \<or> us_EpIndex (uh_Side d UsbMic) \<noteq> us_EpIndex (uh_Side d UsbSpeaker)"
    using apart_iff [of s d] by (simp add: apart_def)
  finally show ?thesis .
qed

text \<open>A headset that answers every call, and a microphone whose request is at hand.\<close>

definition willing_remote :: usb_remote where
  "willing_remote log code = (STATUS_SUCCESS, snd (sample_usb_remote log code))"

definition mic_only_io :: usb_io where
  "mic_only_io = sample_usb_io \<lparr> io_reqs := (\<lambda>q. Some (new_notif (IOCTL_SBAUD_GET_DEVICE_DESCRIPTOR 0) zero_params)) \<rparr>"

theorem usb_close_returns_iff_witness:
  "\<exists>io1 d1. usb_open UsbMic willing_remote sample_send (mic_only_io, sample_usb) = Some (STATUS_SUCCESS, io1, d1)
     \<and> usb_close UsbMic willing_remote STATUS_SUCCESS (io1, d1) = None"
proof -
  have h: "io_reqs mic_only_io (UsbStreamReq UsbMic) = Some (new_notif (IOCTL_SBAUD_GET_DEVICE_DESCRIPTOR 0) zero_params)"
    "\<not> Pending (new_notif (IOCTL_SBAUD_GET_DEVICE_DESCRIPTOR 0) zero_params)"
    "us_nStreamsOpen (uh_Side sample_usb UsbMic) = 0"
    by (simp_all add: mic_only_io_def new_notif_def sample_usb_def sample_side_def)
  obtain io1 d1 where o: "usb_open UsbMic willing_remote sample_send (mic_only_io, sample_usb) = Some (STATUS_SUCCESS, io1, d1)"
    by (simp add: usb_open_def SetUsbHsStreamOpen_def usb_call_busy_def usb_SendIoCtrlSynchronously_def SendIoCtrlSynchronously_def
        willing_remote_def mic_only_io_def sample_usb_io_def sample_usb_def sample_side_def usb_enable_stream_def enable_notification_def
        SendIoCtrlAsynchronously_def sample_send_def new_notif_def ioctl_done_def upd_side_def)
  have "us_EpIndex (uh_Side sample_usb UsbMic) = us_EpIndex (uh_Side sample_usb UsbSpeaker)" by (simp add: sample_usb_def)
  with usb_close_returns_iff [OF h o NT_SUCCESS_codes(1), of STATUS_SUCCESS]
  have "usb_close UsbMic willing_remote STATUS_SUCCESS (io1, d1) = None" by (metis usb_side.distinct(1))
  then show ?thesis using o by blast
qed

section \<open>The device of the sideband manager\<close>

text \<open>
  The state of the headset has the adapter's power state next to its filters: Init adds the headset to
  the power relations, Start and Stop use the filters, and the events use neither.
\<close>

type_synonym usb_device = "usb_io \<times> UsbHsDevice \<times> power_state \<times> adapter_world"

definition usb_ini_with :: "usb_powered step \<Rightarrow> usb_device \<Rightarrow> (NTSTATUS \<times> usb_device) option" where
  "usb_ini_with f = (\<lambda>(io, d, a, w). map_option (\<lambda>(st, io', d', a'). (st, io', d', a', w)) (f (io, d, a)))"

definition usb_filters_with :: "(usb_world \<Rightarrow> usb_world option) \<Rightarrow> usb_device \<Rightarrow> usb_device option" where
  "usb_filters_with f = (\<lambda>(io, d, a, w). map_option (\<lambda>(io', d', w'). (io', d', a, w')) (f (io, d, w)))"

definition usb_ident :: "usb_world \<Rightarrow> eHsState \<times> (pool_tag \<times> string) option" where
  "usb_ident = (\<lambda>(io, d, w). (uh_State d, uh_SymbolicLinkName d))"

definition usb_view :: "usb_device \<Rightarrow> eHsState \<times> (pool_tag \<times> string) option" where
  "usb_view = (\<lambda>(io, d, a, w). (uh_State d, uh_SymbolicLinkName d))"

lemma usb_values_keep:
  "usb_get_volume s remote ch (io, d) = (st, v, io', d') \<Longrightarrow> d' = d" "usb_get_mute s remote ch (io, d) = (st, v, io', d') \<Longrightarrow> d' = d"
  by (auto simp: usb_get_volume_def usb_get_mute_def split: prod.splits)

lemma upd_side_ident [simp]:
  "uh_State (upd_side s f d) = uh_State d" "uh_SymbolicLinkName (upd_side s f d) = uh_SymbolicLinkName d"
  by (simp_all add: upd_side_def)

lemma usb_Start_keeps:
  "step_keeps usb_ident (usb_Start_descriptor remote qe)" "step_keeps usb_ident (usb_Start_hub remote qe)"
  "step_keeps usb_ident (usb_Start_count n)" "step_keeps usb_ident (usb_Start_volume s remote al)"
  "step_keeps usb_ident (usb_Start_mute s remote al)" "step_keeps usb_ident (usb_Start_formats s remote qe)"
  "step_keeps usb_ident (usb_Start_pair s cf pe)" "step_keeps usb_ident (usb_Start_verify s cf)"
  "step_keeps usb_ident (usb_Start_filters s fe)" "step_keeps usb_ident (usb_Start_enable s se)"
  "step_keeps usb_ident (usb_Start_notify n)" "step_keeps usb_ident (usb_Start_claim remote)"
  by (auto simp: step_keeps_def usb_ident_def usb_Start_descriptor_def usb_Start_hub_def usb_Start_count_def usb_Start_volume_def
      usb_Start_mute_def usb_Start_formats_def usb_Start_pair_def usb_Start_verify_def usb_Start_filters_def usb_Start_enable_def
      usb_Start_notify_def usb_Start_claim_def Let_def split: prod.splits bind_splits if_splits dest!: usb_values_keep)

lemma usb_loop_keeps:
  "usb_endpoint_loop remote e is n (io, d) = Some (st, m, io', d') \<Longrightarrow> usb_ident (io', d', w) = usb_ident (io, d, w)"
proof (induction "is" arbitrary: n io d)
  case (Cons i js)
  obtain ns nm where n: "n = (ns, nm)" by (cases n)
  from Cons.prems n obtain st1 p io1 where g: "GetUsbHsEndpointDescriptor remote (e i) i io = Some (st1, p, io1)" by (auto split: bind_splits)
  show ?case
  proof (cases "NT_SUCCESS st1")
    case True
    then obtain ed where "map_option ur_endpoint (read_block ur_whole p) = Some ed" using Cons.prems n g by (auto split: bind_splits)
    then show ?thesis using Cons.prems n g True by (auto simp: usb_ident_def split: ks_dataflow.splits dest!: Cons.IH)
  qed (use Cons.prems n g in \<open>simp add: usb_ident_def\<close>)
qed (simp add: usb_ident_def)

lemma usb_Start_side_keeps: "step_keeps usb_ident (usb_Start_side s remote cf e)"
  unfolding step_keeps_def usb_Start_side_def
  by (auto simp del: run_steps.simps split: if_splits elim!: run_steps_keeps [rotated] simp: usb_Start_keeps)

lemma usb_Start_state:
  assumes "usb_Start remote cf e (io, d, w) = Some (io1, d1, w1)"
  shows "uh_SymbolicLinkName d1 = uh_SymbolicLinkName d \<and> (uh_State d1 = uh_State d \<or> uh_State d1 = StateFailed)"
proof -
  have rest: "step_keeps usb_ident (usb_Start_rest remote cf e)"
    unfolding step_keeps_def
  proof (intro allI impI)
    fix s st s' assume a: "usb_Start_rest remote cf e s = Some (st, s')"
    obtain io d w where s: "s = (io, d, w)" by (metis prod_cases3)
    from a s obtain st1 n io1 d1 where l: "usb_Start_endpoints remote (us_endpoints e) (io, d) = Some (st1, n, io1, d1)"
      "if NT_SUCCESS st1 then run_steps [usb_Start_count n, usb_Start_side UsbSpeaker remote cf e, usb_Start_side UsbMic remote cf e,
         usb_Start_notify n, usb_Start_claim remote] (io1, d1, w) = Some (st, s') else s' = (io1, d1, w)"
      by (auto simp: usb_Start_rest_def simp del: run_steps.simps split: bind_splits if_splits)
    have k: "usb_ident (io1, d1, w) = usb_ident s"
      using l(1) usb_loop_keeps s by (auto simp: usb_Start_endpoints_def split: bind_splits)
    show "usb_ident s' = usb_ident s"
    proof (cases "NT_SUCCESS st1")
      case True
      have "usb_ident s' = usb_ident (io1, d1, w)"
        by (rule run_steps_keeps [where fs = "[usb_Start_count n, usb_Start_side UsbSpeaker remote cf e, usb_Start_side UsbMic remote cf e,
           usb_Start_notify n, usb_Start_claim remote]"])
          (use l(2) True in \<open>simp_all add: usb_Start_keeps usb_Start_side_keeps del: run_steps.simps\<close>)
      then show ?thesis using k by simp
    qed (use l(2) k in simp)
  qed
  from assms obtain st d2 io2 where r: "run_steps [usb_Start_descriptor remote (us_device e), usb_Start_hub remote (us_hub e),
       usb_Start_rest remote cf e] (io, d, w) = Some (st, io2, d2, w1)" "d1 = (if NT_SUCCESS st then d2 else d2 \<lparr> uh_State := StateFailed \<rparr>)"
    unfolding usb_Start_def by (auto simp del: run_steps.simps split: bind_splits if_splits)
  have "usb_ident (io2, d2, w1) = usb_ident (io, d, w)"
    by (rule run_steps_keeps [OF _ r(1)]) (simp add: usb_Start_keeps rest)
  then show ?thesis using r(2) by (simp add: usb_ident_def)
qed

definition usb_env_ok :: "usb_start_env \<Rightarrow> bool" where
  "usb_env_ok e \<longleftrightarrow> filters_ok (us_filters e UsbSpeaker) \<and> filters_ok (us_filters e UsbMic)"

interpretation usb_managed: managed_device usb_view "usb_ini_with (usb_Init cf ie link)" "usb_filters_with (usb_Start remote cf se)"
    "usb_filters_with (run_with (usb_run remote evs))" "usb_filters_with (usb_Stop xe)" link "\<not> usb_honest remote"
    "\<lambda>(io, d, a, w). io_fresh io \<and> (\<forall>s. us_Descriptor (uh_Side d s) = None) \<and> powered M a \<and> acct w E \<and> usb_env_ok se"
    "\<lambda>(io, d, a, w). usb_env_ok se \<and> (\<exists>P X. usb_before (usb_honest remote) P X E (io, d, w)) \<and> uh_Descriptor d = None \<and> usb_stored d = 0"
    "\<lambda>(io, d, a, w). \<exists>P X. usb_full P X E (io, d, w)"
  for cf ie link remote se evs xe M E
proof (unfold_locales, goal_cases)
  case (1 x)
  obtain io d a w where x: "x = (io, d, a, w)" by (metis prod_cases4)
  with 1 have h: "io_fresh io" "\<forall>s. us_Descriptor (uh_Side d s) = None" "powered M a" "acct w E" "usb_env_ok se" by auto
  obtain st io1 d1 a1 where i: "usb_Init cf ie link (io, d, a) = Some (st, io1, d1, a1)"
      "usb_initial (io_pool io) (io_objects io) M (io1, d1, a1)"
      "NT_SUCCESS st \<longrightarrow> uh_State d1 = StateRunning \<and> uh_SymbolicLinkName d1 = Some (MINADAPTER_POOLTAG, link)
         \<and> (\<forall>q. req_mems io1 q = Some (True, True))"
      "\<not> NT_SUCCESS st \<longrightarrow> uh_State d1 = StateInitializing"
    using usb_Init_ok [OF h(1-3), of cf ie link] by blast
  have "NT_SUCCESS st \<longrightarrow> usb_before (usb_honest remote) (io_pool io) (io_objects io) E (io1, d1, w)
      \<and> uh_Descriptor d1 = None \<and> usb_stored d1 = 0"
    using initial_before [OF i(2) _ h(4)] initial_mem(2,7) [OF i(2)] i(3) by blast
  then show ?case using i(1,3,4) h(5) x by (auto simp: usb_ini_with_def usb_view_def)
next
  case (2 y)
  obtain io d a w where y: "y = (io, d, a, w)" by (metis prod_cases4)
  then obtain P X where f: "usb_before (usb_honest remote) P X E (io, d, w)" "uh_Descriptor d = None" "usb_stored d = 0" "usb_env_ok se"
    using 2 by auto
  have e: "\<forall>s. filters_ok (us_filters se s)" using f(4) by (auto simp: usb_env_ok_def) (metis usb_side.exhaust)
  note start = usb_Start_ok [OF f(1-3) refl e, of cf]
  show ?case
  proof (cases "usb_Start remote cf se (io, d, w)")
    case None
    then show ?thesis using start y by (simp add: usb_filters_with_def)
  next
    case (Some s)
    obtain io2 d2 w2 where t: "s = (io2, d2, w2)" by (metis prod_cases3)
    have "uh_SymbolicLinkName d2 = uh_SymbolicLinkName d \<and> (uh_State d2 = uh_State d \<or> uh_State d2 = StateFailed)"
      by (rule usb_Start_state [OF Some [unfolded t]])
    then show ?thesis using Some start y t by (auto simp: usb_filters_with_def usb_view_def usb_counted_def)
  qed
next
  case (3 z)
  obtain io d a w where z: "z = (io, d, a, w)" by (metis prod_cases4)
  then obtain P X where f: "usb_full P X E (io, d, w)" using 3 by auto
  obtain io3 d3 where r: "usb_run remote evs (io, d) = Some (io3, d3)" "usb_full P X E (io3, d3, w)" "usb_fixed d3 = usb_fixed d"
    using usb_run_full [OF f, of remote evs] by blast
  have "usb_view (io3, d3, a, w) = usb_view (io, d, a, w)" using fixedD [OF r(3)] by (simp add: usb_view_def)
  moreover have "usb_filters_with (run_with (usb_run remote evs)) z = Some (io3, d3, a, w)"
    using r(1) z by (simp add: usb_filters_with_def run_with_def)
  ultimately show ?case using r(2) z by auto
next
  case (4 z)
  obtain io d a w where z: "z = (io, d, a, w)" by (metis prod_cases4)
  then obtain P X where f: "usb_full P X E (io, d, w)" using 4 by auto
  obtain io4 d4 w4 where "usb_Stop xe (io, d, w) = Some (io4, d4, w4)" "uh_State d4 = StateStopped"
      "uh_SymbolicLinkName d4 = uh_SymbolicLinkName d"
    using usb_Stop_ok [OF f, of xe] by blast
  then show ?case using z by (auto simp: usb_filters_with_def usb_view_def)
qed

text \<open>The refinement for the headset.\<close>

lemma usb_refines:
  assumes "io_fresh io" and "\<forall>s. us_Descriptor (uh_Side d s) = None" and "powered M a" and "acct w E" and "usb_env_ok se"
  shows "refines_device usb_view (usb_ini_with (usb_Init cf ie link)) (usb_filters_with (usb_Start remote cf se))
    (usb_filters_with (run_with (usb_run remote evs))) (usb_filters_with (usb_Stop xe)) link (\<not> usb_honest remote) (io, d, a, w)"
  by (rule usb_managed.refines [where E = E and M = M]) (use assms in simp)

end
