(* ===== verification/A2dpDevice.thy ===== *)
theory A2dpDevice
  imports UsbHsDevice
begin

text \<open>
  A2dpHpDevice (A2dpHpDevice.cpp): Bluetooth A2DP headphones with sideband, a device with a speaker
  only. Structures of the sideband interface it shares with the USB headset are those of theory
  UsbHsDevice. Definitions are prefixed with \<open>a2dp_\<close> where another device has a function of the same
  name; the constructors of \<open>a2dp_ioctl\<close> are the names of the IOCTLs without IOCTL_.

  The headphones are the parameter \<open>remote\<close>, results of kernel and framework calls are records of
  status values. Tables, base names and the hash of the link name, which are not in the repository, are
  a \<open>usb_config\<close> of which only the speaker is used.
\<close>

section \<open>Codecs\<close>

text \<open>The headers of A2dpHpDevice.h with their bit fields, the first field in the low bits.\<close>

record A2DP_SBC_MEDIA_HEADER =
  sbc_SvcCategory :: BYTE
  sbc_Losc :: BYTE
  sbc_Rfa :: BYTE
  sbc_MediaType :: BYTE
  sbc_CodecType :: BYTE
  sbc_ChannelMode :: BYTE
  sbc_SamplingFrequency :: BYTE
  sbc_AllocMethod :: BYTE
  sbc_Subbands :: BYTE
  sbc_BlockLength :: BYTE
  sbc_MinBitpoolVal :: BYTE
  sbc_MaxBitpoolVal :: BYTE

record A2DP_AAC_MEDIA_HEADER =
  aac_SvcCategory :: BYTE
  aac_Losc :: BYTE
  aac_Rfa :: BYTE
  aac_MediaType :: BYTE
  aac_CodecType :: BYTE
  aac_ObjectType :: BYTE
  aac_SamplingFrequencyUpper8Bits :: BYTE
  aac_RFA :: BYTE
  aac_Channels :: BYTE
  aac_SamplingFrequencyLower4Bits :: BYTE
  aac_BitRateUpper7Bits :: BYTE
  aac_VariableBitRate :: BYTE
  aac_BitRateMiddle8Bits :: BYTE
  aac_BitRateLower8Bits :: BYTE

text \<open>\<open>bits w k v\<close>: a field of \<open>w\<close> bits that begins at bit \<open>k\<close>.\<close>

definition bits :: "nat \<Rightarrow> nat \<Rightarrow> BYTE \<Rightarrow> BYTE" where
  "bits w k v = push_bit k (take_bit w v)"

definition sbc_bytes :: "A2DP_SBC_MEDIA_HEADER \<Rightarrow> BYTE list" where
  "sbc_bytes h = [sbc_SvcCategory h, sbc_Losc h, bits 4 0 (sbc_Rfa h) + bits 4 4 (sbc_MediaType h), sbc_CodecType h,
     bits 4 0 (sbc_ChannelMode h) + bits 4 4 (sbc_SamplingFrequency h),
     bits 2 0 (sbc_AllocMethod h) + bits 2 2 (sbc_Subbands h) + bits 4 4 (sbc_BlockLength h),
     sbc_MinBitpoolVal h, sbc_MaxBitpoolVal h]"

definition aac_bytes :: "A2DP_AAC_MEDIA_HEADER \<Rightarrow> BYTE list" where
  "aac_bytes h = [aac_SvcCategory h, aac_Losc h, bits 4 0 (aac_Rfa h) + bits 4 4 (aac_MediaType h), aac_CodecType h,
     aac_ObjectType h, aac_SamplingFrequencyUpper8Bits h,
     bits 2 0 (aac_RFA h) + bits 2 2 (aac_Channels h) + bits 4 4 (aac_SamplingFrequencyLower4Bits h),
     bits 7 0 (aac_BitRateUpper7Bits h) + bits 1 7 (aac_VariableBitRate h),
     aac_BitRateMiddle8Bits h, aac_BitRateLower8Bits h]"

definition zero_sbc :: A2DP_SBC_MEDIA_HEADER where
  "zero_sbc = \<lparr> sbc_SvcCategory = 0, sbc_Losc = 0, sbc_Rfa = 0, sbc_MediaType = 0, sbc_CodecType = 0, sbc_ChannelMode = 0,
     sbc_SamplingFrequency = 0, sbc_AllocMethod = 0, sbc_Subbands = 0, sbc_BlockLength = 0, sbc_MinBitpoolVal = 0,
     sbc_MaxBitpoolVal = 0 \<rparr>"

definition zero_aac :: A2DP_AAC_MEDIA_HEADER where
  "zero_aac = \<lparr> aac_SvcCategory = 0, aac_Losc = 0, aac_Rfa = 0, aac_MediaType = 0, aac_CodecType = 0, aac_ObjectType = 0,
     aac_SamplingFrequencyUpper8Bits = 0, aac_RFA = 0, aac_Channels = 0, aac_SamplingFrequencyLower4Bits = 0,
     aac_BitRateUpper7Bits = 0, aac_VariableBitRate = 0, aac_BitRateMiddle8Bits = 0, aac_BitRateLower8Bits = 0 \<rparr>"

definition sizeof_sbc :: nat where "sizeof_sbc = length (sbc_bytes zero_sbc)"
definition sizeof_aac :: nat where "sizeof_aac = length (aac_bytes zero_aac)"
definition sizeof_category_header :: nat where "sizeof_category_header = 2"

definition sbc_CorrectLosc :: BYTE where "sbc_CorrectLosc = of_nat (sizeof_sbc - sizeof_category_header)"
definition aac_CorrectLosc :: BYTE where "aac_CorrectLosc = of_nat (sizeof_aac - sizeof_category_header)"

text \<open>The union A2DPHPDEVICE_CODEC_CAPABILITIES has the size of its larger member.\<close>

definition sizeof_codec_capabilities :: nat where "sizeof_codec_capabilities = max sizeof_sbc sizeof_aac"

section \<open>IOCTLs and requests\<close>

datatype a2dp_device_type = eA2dpHpSpeakerDevice | eNoA2dpHpDevice

datatype a2dp_param_set = SIDEBANDAUDIO_PARAMS_SET_A2DP | OtherParamSet nat
datatype a2dp_param_type =
  SIDEANDAUDIO_PARAM_A2DP_CONFIGURED_CODEC | SIDEBANDAUDIO_PARAM_A2DP_CODECS | OtherParamType nat

text \<open>
  The union A2dpHpDeviceNotificationBuffer: a request uses only one of the structures in it, so that
  their fields are one record. \<open>ap_Value\<close> is the volume, the mute state, the status of a stream or the
  connection status.
\<close>

record a2dp_params =
  ap_Immediate :: BOOL
  ap_EpIndex :: nat
  ap_Channel :: LONG
  ap_Value :: LONG
  ap_ParamSet :: a2dp_param_set
  ap_TypeId :: a2dp_param_type
  ap_Size :: nat

text \<open>As in theory UsbHsDevice: \<open>None\<close> stands for the buffer of a request, the last number of a query is a length.\<close>

datatype a2dp_ioctl =
    SBAUD_GET_DEVICE_DESCRIPTOR nat
  | SBAUD_GET_ENDPOINT_DESCRIPTOR2 nat nat
  | SBAUD_GET_SIOP a2dp_param_set a2dp_param_type nat nat
  | SBAUD_SET_SIOP a2dp_param_set a2dp_param_type nat "BYTE list"
  | SBAUD_GET_SUPPORTED_FORMATS "usb_format list" nat
  | SBAUD_GET_VOLUMEPROPERTYVALUES nat nat
  | SBAUD_GET_MUTEPROPERTYVALUES nat nat
  | SBAUD_SET_VOLUME a2dp_params
  | SBAUD_SET_MUTE a2dp_params
  | SBAUD_GET_VOLUME_STATUS_UPDATE "a2dp_params option"
  | SBAUD_GET_MUTE_STATUS_UPDATE "a2dp_params option"
  | SBAUD_GET_CONNECTION_STATUS_UPDATE "a2dp_params option"
  | SBAUD_GET_STREAM_STATUS_UPDATE "a2dp_params option"
  | SBAUD_GET_SIOP_UPDATE "a2dp_params option"
  | SBAUD_STREAM_OPEN nat nat
  | SBAUD_STREAM_START nat
  | SBAUD_STREAM_SUSPEND nat
  | SBAUD_STREAM_CLOSE nat
  | SBAUD_SET_DEVICE_CLAIMED BOOL

datatype a2dp_req = A2dpVolumeReq | A2dpMuteReq | A2dpConnectionReq | A2dpStreamReq | A2dpSiopUpdateReq

record a2dp_endpoint = SIDEBANDAUDIO_ENDPOINT_DESCRIPTOR2 +
  ed_FilterInterfaceProperties :: "SYSVAD_DEVPROPERTY list"

text \<open>\<open>ar_whole\<close>: the output buffer holds the structure that is read from it, as in theory UsbHsDevice.\<close>

record a2dp_reply =
  ar_information :: nat
  ar_whole :: bool
  ar_params :: a2dp_params
  ar_NumberOfEndpoints :: nat
  ar_endpoint :: a2dp_endpoint
  ar_formats :: "usb_format list"
  ar_bytes :: "BYTE list"

type_synonym a2dp_io = "(a2dp_req, a2dp_ioctl, a2dp_params) sideband_io"
type_synonym a2dp_remote = "(a2dp_ioctl, a2dp_reply) remote"
type_synonym a2dp_block = "(pool_tag \<times> a2dp_reply) option"
type_synonym codec_block = "(pool_tag \<times> BYTE list) option"

section \<open>State\<close>

definition A2DPSIDEBANDTEST_POOLTAG02 :: pool_tag where [const_defs]: "A2DPSIDEBANDTEST_POOLTAG02 = ''iAyS''"
definition A2DPSIDEBANDTEST_POOLTAG03 :: pool_tag where [const_defs]: "A2DPSIDEBANDTEST_POOLTAG03 = ''jAyS''"
definition A2DPSIDEBANDTEST_POOLTAG06 :: pool_tag where [const_defs]: "A2DPSIDEBANDTEST_POOLTAG06 = ''mAyS''"
definition A2DPSIDEBANDTEST_POOLTAG07 :: pool_tag where [const_defs]: "A2DPSIDEBANDTEST_POOLTAG07 = ''nAyS''"

record a2dp_custom_pair = custom_pair +
  cp_wave_properties :: "pool_tag option"

text \<open>
  The FAST_MUTEX m_ConnectedCodecLock, the member that follows the pointer m_ConnectedCodecCaps. Init
  zeroes the size of the codec union at the address of the pointer, which is shorter (8 bytes on the
  64-bit targets of the driver), so that the rest overwrites the beginning of the lock.
\<close>

datatype fast_mutex = MutexUninitialised | MutexOverwritten nat | MutexFree

definition sizeof_pointer :: nat where "sizeof_pointer = 8"

record A2dpHpDevice =
  ah_State :: eHsState
  ah_WdfIoTarget :: bool
  ah_SymbolicLinkName :: "(pool_tag \<times> string) option"
  ah_WaveName :: string
  ah_TopologyName :: string
  ah_Miniports :: "a2dp_custom_pair option"
  ah_UnknownTopology :: "obj option"
  ah_UnknownWave :: "obj option"
  ah_Descriptor :: a2dp_block
  ah_SpeakerDescriptor :: a2dp_block
  ah_VolumePropValues :: a2dp_block
  ah_VolumeLevel :: LONG
  ah_MutePropValues :: a2dp_block
  ah_Mute :: LONG
  ah_ConnectedCodecCaps :: codec_block
  ah_ConnectedCodecLock :: fast_mutex
  ah_ConnectionStatus :: LONG
  ah_EpIndex :: nat
  ah_StreamStatus :: LONG
  ah_StreamStatusEvent :: bool
  ah_SupportedFormatsIntersection :: "(pool_tag \<times> usb_format list) option"
  ah_SelectedFormat :: nat
  ah_HwTransportResource :: nat
  ah_WorkItem :: bool
  ah_ReqCollection :: bool
  ah_nStreams :: int
  ah_nStartedStreams :: int
  ah_Callbacks :: "usb_callback \<Rightarrow> event_callback option"
  ah_Invoked :: "event_callback list"

type_synonym a2dp = "a2dp_io \<times> A2dpHpDevice"

definition a2dp_invoke :: "usb_callback \<Rightarrow> A2dpHpDevice \<Rightarrow> A2dpHpDevice" where
  "a2dp_invoke c d = (case ah_Callbacks d c of
     None \<Rightarrow> d
   | Some h \<Rightarrow> d \<lparr> ah_Invoked := ah_Invoked d @ [h] \<rparr>)"

section \<open>Requests\<close>

definition a2dp_SendIoCtrlAsynchronously :: "send_env \<Rightarrow> a2dp_req \<Rightarrow> a2dp_ioctl \<Rightarrow> a2dp_io \<Rightarrow> (NTSTATUS \<times> a2dp_io) option" where
  "a2dp_SendIoCtrlAsynchronously = SendIoCtrlAsynchronously"

definition a2dp_SendIoCtrlSynchronously :: "a2dp_remote \<Rightarrow> a2dp_ioctl \<Rightarrow> a2dp_io \<Rightarrow> NTSTATUS \<times> a2dp_reply \<times> a2dp_io" where
  "a2dp_SendIoCtrlSynchronously = SendIoCtrlSynchronously"

definition a2dp_NotificationStatusCompletion :: "NTSTATUS \<Rightarrow> NTSTATUS \<Rightarrow> a2dp_params \<Rightarrow> a2dp_req \<Rightarrow> a2dp_io \<Rightarrow> a2dp_io option" where
  "a2dp_NotificationStatusCompletion = NotificationStatusCompletion"

definition a2dp_call :: "a2dp_remote \<Rightarrow> a2dp_ioctl \<Rightarrow> a2dp_io \<Rightarrow> NTSTATUS \<times> a2dp_io" where
  "a2dp_call remote code io = (case a2dp_SendIoCtrlSynchronously remote code io of (st, v, io1) \<Rightarrow> (ioctl_done st, io1))"

text \<open>A channel that is busy already is a success.\<close>

definition a2dp_call_busy :: "a2dp_remote \<Rightarrow> a2dp_ioctl \<Rightarrow> a2dp_io \<Rightarrow> NTSTATUS \<times> a2dp_io" where
  "a2dp_call_busy remote code io = (case a2dp_SendIoCtrlSynchronously remote code io of (st, v, io1) \<Rightarrow>
     (ioctl_done (if st = STATUS_DEVICE_BUSY then STATUS_SUCCESS else st), io1))"

definition a2dp_get_value :: "a2dp_remote \<Rightarrow> a2dp_ioctl \<Rightarrow> a2dp_io \<Rightarrow> NTSTATUS \<times> LONG \<times> a2dp_io" where
  "a2dp_get_value remote code io = (case a2dp_SendIoCtrlSynchronously remote code io of (st, v, io1) \<Rightarrow>
     (ioctl_done st, if NT_SUCCESS st then ap_Value (ar_params v) else 0, io1))"

text \<open>The codecs the driver supports, as the device is told.\<close>

definition supported_sbc :: A2DP_SBC_MEDIA_HEADER where
  "supported_sbc = zero_sbc \<lparr> sbc_SvcCategory := 0x7, sbc_Losc := sbc_CorrectLosc, sbc_CodecType := 0, sbc_MediaType := 0,
     sbc_ChannelMode := 0x1, sbc_SamplingFrequency := 0x3, sbc_AllocMethod := 0x1, sbc_Subbands := 0x1, sbc_BlockLength := 0x1,
     sbc_MinBitpoolVal := 0x2, sbc_MaxBitpoolVal := 0x53 \<rparr>"

definition supported_aac :: A2DP_AAC_MEDIA_HEADER where
  "supported_aac = zero_aac \<lparr> aac_SvcCategory := 0x7, aac_Losc := aac_CorrectLosc, aac_MediaType := 0, aac_CodecType := 0x2,
     aac_ObjectType := 0x80, aac_SamplingFrequencyLower4Bits := 0x8, aac_Channels := 0x1, aac_VariableBitRate := 1,
     aac_BitRateUpper7Bits := 0x3, aac_BitRateMiddle8Bits := 0xe8, aac_BitRateLower8Bits := 0 \<rparr>"

definition SetA2dpHpDeviceCapabilities :: "a2dp_remote \<Rightarrow> a2dp_io \<Rightarrow> NTSTATUS \<times> a2dp_io" where
  "SetA2dpHpDeviceCapabilities remote io =
     a2dp_call remote (SBAUD_SET_SIOP SIDEBANDAUDIO_PARAMS_SET_A2DP SIDEBANDAUDIO_PARAM_A2DP_CODECS 0
       (sbc_bytes supported_sbc @ aac_bytes supported_aac)) io"

definition GetA2dpHpDescriptor :: "a2dp_remote \<Rightarrow> query_env \<Rightarrow> a2dp_io \<Rightarrow> (NTSTATUS \<times> a2dp_block \<times> a2dp_io) option" where
  "GetA2dpHpDescriptor remote e io = query_block remote e MINADAPTER_POOLTAG ar_information SBAUD_GET_DEVICE_DESCRIPTOR io"

text \<open>The index is written into the output buffer before the second request.\<close>

definition a2dp_index_overruns :: "a2dp_remote \<Rightarrow> query_env \<Rightarrow> (nat \<Rightarrow> a2dp_ioctl) \<Rightarrow> a2dp_io \<Rightarrow> bool" where
  "a2dp_index_overruns remote e code io \<longleftrightarrow> (case remote (io_log io) (code 0) of (st, v) \<Rightarrow>
     NT_SUCCESS (qe_create e) \<and> st = STATUS_BUFFER_TOO_SMALL \<and> 0 < ar_information v \<and> ar_information v < 4
     \<and> qe_alloc e \<and> NT_SUCCESS (qe_reuse e))"

definition GetA2dpHpEndpointDescriptor :: "a2dp_remote \<Rightarrow> query_env \<Rightarrow> nat \<Rightarrow> a2dp_io \<Rightarrow>
    (NTSTATUS \<times> a2dp_block \<times> a2dp_io) option" where
  "GetA2dpHpEndpointDescriptor remote e EpIndex io =
     (if a2dp_index_overruns remote e (SBAUD_GET_ENDPOINT_DESCRIPTOR2 EpIndex) io then None
      else query_block remote e MINADAPTER_POOLTAG ar_information (SBAUD_GET_ENDPOINT_DESCRIPTOR2 EpIndex) io)"

definition GetA2dpHpEndpointFormatsIntersection :: "a2dp_remote \<Rightarrow> query_env \<Rightarrow> usb_format list \<Rightarrow> a2dp_io \<Rightarrow>
    (NTSTATUS \<times> a2dp_block \<times> a2dp_io) option" where
  "GetA2dpHpEndpointFormatsIntersection remote e DeviceFormats io =
     query_block remote e A2DPSIDEBANDTEST_POOLTAG03 ar_information (SBAUD_GET_SUPPORTED_FORMATS DeviceFormats) io"

text \<open>The volume values are freed with another tag than they were allocated with.\<close>

definition GetA2dpHpVolumePropertyValues :: "a2dp_remote \<Rightarrow> bool \<Rightarrow> nat \<Rightarrow> nat \<Rightarrow> a2dp_io \<Rightarrow>
    (NTSTATUS \<times> a2dp_block \<times> a2dp_io) option" where
  "GetA2dpHpVolumePropertyValues remote alloc EpIndex Length io =
     (if alloc \<and> Length < 4 then None
      else fetch_block remote alloc A2DPSIDEBANDTEST_POOLTAG02 MINADAPTER_POOLTAG
             (SBAUD_GET_VOLUMEPROPERTYVALUES EpIndex Length) io)"

definition GetA2dpHpMutePropertyValues :: "a2dp_remote \<Rightarrow> bool \<Rightarrow> nat \<Rightarrow> nat \<Rightarrow> a2dp_io \<Rightarrow>
    (NTSTATUS \<times> a2dp_block \<times> a2dp_io) option" where
  "GetA2dpHpMutePropertyValues remote alloc EpIndex Length io =
     (if alloc \<and> Length < 4 then None
      else fetch_block remote alloc A2DPSIDEBANDTEST_POOLTAG06 A2DPSIDEBANDTEST_POOLTAG06
             (SBAUD_GET_MUTEPROPERTYVALUES EpIndex Length) io)"

section \<open>Codec capabilities\<close>

definition configured_codec :: "nat \<Rightarrow> nat \<Rightarrow> a2dp_ioctl" where
  "configured_codec EpIndex Size =
     SBAUD_GET_SIOP SIDEBANDAUDIO_PARAMS_SET_A2DP SIDEANDAUDIO_PARAM_A2DP_CONFIGURED_CODEC EpIndex Size"

text \<open>A block of \<open>n\<close> zeros after a reply was written to it.\<close>

definition written :: "nat \<Rightarrow> BYTE list \<Rightarrow> BYTE list" where
  "written n bs = take n (bs @ replicate n 0)"

text \<open>Unlike the other queries, this one goes on with length 0 when its first request succeeds.\<close>

definition GetA2dpHpCodecCaps :: "a2dp_remote \<Rightarrow> query_env \<Rightarrow> nat \<Rightarrow> a2dp_io \<Rightarrow>
    (NTSTATUS \<times> codec_block \<times> a2dp_io) option" where
  "GetA2dpHpCodecCaps remote e EpIndex io =
     (if \<not> NT_SUCCESS (qe_create e) then Some (qe_create e, None, io)
      else
        (let (st, v, io1) = a2dp_SendIoCtrlSynchronously remote (configured_codec EpIndex 0) (wdf_create WdfRequest io);
             Size = (if st = STATUS_BUFFER_TOO_SMALL then ar_information v else 0)
         in if st = STATUS_BUFFER_TOO_SMALL \<and> (Size = 0 \<or> Size > 0xFFFFFFFF) then do {
              io2 \<leftarrow> wdf_delete WdfRequest io1;
              Some (STATUS_INVALID_DEVICE_STATE, None, io2) }
            else if st \<noteq> STATUS_BUFFER_TOO_SMALL \<and> \<not> NT_SUCCESS st then do {
              io2 \<leftarrow> wdf_delete WdfRequest io1;
              Some (st, None, io2) }
            else if \<not> qe_alloc e then do {
              io2 \<leftarrow> wdf_delete WdfRequest io1;
              Some (STATUS_INSUFFICIENT_RESOURCES, None, io2) }
            else
              (let (p, io2) = pool_alloc A2DPSIDEBANDTEST_POOLTAG07 io1;
                   (st2, v2, io3) = (if NT_SUCCESS (qe_reuse e)
                                     then a2dp_SendIoCtrlSynchronously remote (configured_codec EpIndex Size) io2
                                     else (qe_reuse e, v, io2))
               in do {
                 io4 \<leftarrow> wdf_delete WdfRequest io3;
                 if NT_SUCCESS st2 then Some (st2, Some (p, written Size (ar_bytes v2)), io4)
                 else do { io5 \<leftarrow> pool_free p A2DPSIDEBANDTEST_POOLTAG07 io4; Some (st2, None, io5) } })))"

text \<open>
  The blocks are compared over the size of the union, whatever their own size: reading beyond a
  block is a fault.
\<close>

definition codec_caps_differ :: "BYTE list \<Rightarrow> BYTE list \<Rightarrow> bool option" where
  "codec_caps_differ old new =
     (if length old < sizeof_codec_capabilities \<or> length new < sizeof_codec_capabilities then None
      else Some (take sizeof_codec_capabilities old \<noteq> take sizeof_codec_capabilities new))"

text \<open>Acquiring a mutex that was not initialised, or was written over since, is a fault.\<close>

definition UpdateA2dpHpCodecCaps :: "codec_block \<Rightarrow> a2dp \<Rightarrow> (NTSTATUS \<times> a2dp) option" where
  "UpdateA2dpHpCodecCaps CodecCaps = (\<lambda>(io, d). do {
     _ \<leftarrow> (if ah_ConnectedCodecLock d = MutexFree then Some () else None);
     let old = ah_ConnectedCodecCaps d;
     let d1 = d \<lparr> ah_ConnectedCodecCaps := CodecCaps \<rparr>;
     changed \<leftarrow> (case old of
         None \<Rightarrow> Some False
       | Some (_, b) \<Rightarrow> (case CodecCaps of None \<Rightarrow> Some False | Some (_, c) \<Rightarrow> codec_caps_differ b c));
     io1 \<leftarrow> pool_free_opt (map_option fst old) A2DPSIDEBANDTEST_POOLTAG07 io;
     Some (STATUS_SUCCESS, io1, if changed then a2dp_invoke FormatChangeCallback d1 else d1) })"

section \<open>Volume, mute and connection\<close>

definition zero_a2dp_params :: a2dp_params where
  "zero_a2dp_params = \<lparr> ap_Immediate = 0, ap_EpIndex = 0, ap_Channel = 0, ap_Value = 0, ap_ParamSet = OtherParamSet 0,
     ap_TypeId = OtherParamType 0, ap_Size = 0 \<rparr>"

definition a2dp_now :: "LONG \<Rightarrow> LONG \<Rightarrow> A2dpHpDevice \<Rightarrow> a2dp_params" where
  "a2dp_now Channel v d = zero_a2dp_params
     \<lparr> ap_Immediate := TRUE_BOOL, ap_EpIndex := ah_EpIndex d, ap_Channel := Channel, ap_Value := v \<rparr>"

definition SetA2dpHpSpeakerVolume :: "a2dp_remote \<Rightarrow> LONG \<Rightarrow> LONG \<Rightarrow> a2dp \<Rightarrow> NTSTATUS \<times> a2dp" where
  "SetA2dpHpSpeakerVolume remote Channel Volume = (\<lambda>(io, d).
     (case a2dp_call remote (SBAUD_SET_VOLUME (a2dp_now Channel Volume d)) io of (st, io1) \<Rightarrow> (st, io1, d)))"

definition GetA2dpHpSpeakerVolume :: "a2dp_remote \<Rightarrow> LONG \<Rightarrow> a2dp \<Rightarrow> NTSTATUS \<times> LONG \<times> a2dp" where
  "GetA2dpHpSpeakerVolume remote Channel = (\<lambda>(io, d).
     (case a2dp_get_value remote (SBAUD_GET_VOLUME_STATUS_UPDATE (Some (a2dp_now Channel 0 d))) io of
        (st, v, io1) \<Rightarrow> (st, v, io1, d)))"

definition SetA2dpHpSpeakerMute :: "a2dp_remote \<Rightarrow> LONG \<Rightarrow> LONG \<Rightarrow> a2dp \<Rightarrow> NTSTATUS \<times> a2dp" where
  "SetA2dpHpSpeakerMute remote Channel Mute = (\<lambda>(io, d).
     (case a2dp_call remote (SBAUD_SET_MUTE (a2dp_now Channel Mute d)) io of (st, io1) \<Rightarrow> (st, io1, d)))"

definition GetA2dpHpSpeakerMute :: "a2dp_remote \<Rightarrow> LONG \<Rightarrow> a2dp \<Rightarrow> NTSTATUS \<times> LONG \<times> a2dp" where
  "GetA2dpHpSpeakerMute remote Channel = (\<lambda>(io, d).
     (case a2dp_get_value remote (SBAUD_GET_MUTE_STATUS_UPDATE (Some (a2dp_now Channel 0 d))) io of
        (st, v, io1) \<Rightarrow> (st, v, io1, d)))"

definition GetA2dpHpConnectionStatus :: "a2dp_remote \<Rightarrow> a2dp \<Rightarrow> NTSTATUS \<times> BOOL \<times> a2dp" where
  "GetA2dpHpConnectionStatus remote = (\<lambda>(io, d).
     (case a2dp_SendIoCtrlSynchronously remote (SBAUD_GET_CONNECTION_STATUS_UPDATE (Some (a2dp_now 0 0 d))) io of
        (st, v, io1) \<Rightarrow> (st, if NT_SUCCESS st then ap_Value (ar_params v) else FALSE_BOOL, io1, d)))"

section \<open>Notifications\<close>

text \<open>The Enable functions: \<open>f\<close> prepares the buffer of the request.\<close>

definition a2dp_enable :: "send_env \<Rightarrow> a2dp_req \<Rightarrow> a2dp_ioctl \<Rightarrow> (a2dp_params \<Rightarrow> a2dp_params) \<Rightarrow> a2dp_io \<Rightarrow>
    (NTSTATUS \<times> a2dp_io) option" where
  "a2dp_enable e q code f io = do { r \<leftarrow> io_reqs io q; enable_notification e q code (f (Buffer r)) io }"

definition later_value :: "A2dpHpDevice \<Rightarrow> a2dp_params \<Rightarrow> a2dp_params" where
  "later_value d b = b \<lparr> ap_Immediate := FALSE_BOOL, ap_EpIndex := ah_EpIndex d, ap_Value := 0 \<rparr>"

definition EnableA2dpHpConnectionStatusNotification :: "send_env \<Rightarrow> a2dp \<Rightarrow> (NTSTATUS \<times> a2dp_io) option" where
  "EnableA2dpHpConnectionStatusNotification e = (\<lambda>(io, d).
     a2dp_enable e A2dpConnectionReq (SBAUD_GET_CONNECTION_STATUS_UPDATE None) (later_value d) io)"

definition EnableA2dpHpSpeakerVolumeStatusNotification :: "send_env \<Rightarrow> a2dp \<Rightarrow> (NTSTATUS \<times> a2dp_io) option" where
  "EnableA2dpHpSpeakerVolumeStatusNotification e = (\<lambda>(io, d).
     a2dp_enable e A2dpVolumeReq (SBAUD_GET_VOLUME_STATUS_UPDATE None) (later_value d) io)"

definition EnableA2dpHpSpeakerMuteStatusNotification :: "send_env \<Rightarrow> a2dp \<Rightarrow> (NTSTATUS \<times> a2dp_io) option" where
  "EnableA2dpHpSpeakerMuteStatusNotification e = (\<lambda>(io, d).
     a2dp_enable e A2dpMuteReq (SBAUD_GET_MUTE_STATUS_UPDATE None) (later_value d) io)"

definition EnableA2dpHpSpeakerSiopNotification :: "send_env \<Rightarrow> a2dp \<Rightarrow> (NTSTATUS \<times> a2dp_io) option" where
  "EnableA2dpHpSpeakerSiopNotification e = (\<lambda>(io, d).
     a2dp_enable e A2dpSiopUpdateReq (SBAUD_GET_SIOP_UPDATE None)
       (\<lambda>b. b \<lparr> ap_EpIndex := ah_EpIndex d, ap_ParamSet := SIDEBANDAUDIO_PARAMS_SET_A2DP, ap_Size := 0,
                 ap_TypeId := SIDEANDAUDIO_PARAM_A2DP_CONFIGURED_CODEC \<rparr>) io)"

definition a2dp_volume_update :: "a2dp_params \<Rightarrow> A2dpHpDevice \<Rightarrow> A2dpHpDevice" where
  "a2dp_volume_update b d =
     (if ap_EpIndex b = ah_EpIndex d then
        (let d1 = d \<lparr> ah_VolumeLevel := ap_Value b \<rparr>
         in if ap_Value b \<noteq> ah_VolumeLevel d then a2dp_invoke VolumeCallback d1 else d1)
      else d)"

definition a2dp_mute_update :: "a2dp_params \<Rightarrow> A2dpHpDevice \<Rightarrow> A2dpHpDevice" where
  "a2dp_mute_update b d =
     (if ap_EpIndex b = ah_EpIndex d then
        (let d1 = d \<lparr> ah_Mute := ap_Value b \<rparr>
         in if ap_Value b \<noteq> ah_Mute d then a2dp_invoke MuteCallback d1 else d1)
      else d)"

definition a2dp_connection_update :: "a2dp_params \<Rightarrow> A2dpHpDevice \<Rightarrow> A2dpHpDevice" where
  "a2dp_connection_update b d =
     (let d1 = d \<lparr> ah_ConnectionStatus := ap_Value b \<rparr>
      in if ap_Value b \<noteq> ah_ConnectionStatus d then a2dp_invoke ConnectionStatusCallback d1 else d1)"

text \<open>
  The switch of EvtA2dpHpDeviceNotificationStatusWorkItem; the loop is \<open>faulty_round\<close>. \<open>e\<close> has the
  results of the calls that fetch the capabilities, by the IOCTLs sent before.
\<close>

type_synonym codec_env = "(a2dp_ioctl \<times> NTSTATUS) list \<Rightarrow> query_env"

definition a2dp_siop_update :: "a2dp_remote \<Rightarrow> codec_env \<Rightarrow> a2dp_params \<Rightarrow> a2dp \<Rightarrow> a2dp option" where
  "a2dp_siop_update remote e b = (\<lambda>(io, d).
     (if ap_EpIndex b = ah_EpIndex d \<and> ap_ParamSet b = SIDEBANDAUDIO_PARAMS_SET_A2DP
         \<and> ap_TypeId b = SIDEANDAUDIO_PARAM_A2DP_CONFIGURED_CODEC
      then do {
        (st, p, io1) \<leftarrow> GetA2dpHpCodecCaps remote (e (io_log io)) (ah_EpIndex d) io;
        if NT_SUCCESS st then map_option snd (UpdateA2dpHpCodecCaps p (io1, d)) else Some (io1, d) }
      else Some (io, d)))"

definition a2dp_notification :: "a2dp_remote \<Rightarrow> codec_env \<Rightarrow> (a2dp_req, a2dp_ioctl, a2dp_params, A2dpHpDevice) faulty_handler" where
  "a2dp_notification remote e code b = (\<lambda>(io, d).
     (case code of
        SBAUD_GET_VOLUME_STATUS_UPDATE _ \<Rightarrow> Some (True, b \<lparr> ap_Immediate := FALSE_BOOL \<rparr>, io, a2dp_volume_update b d)
      | SBAUD_GET_MUTE_STATUS_UPDATE _ \<Rightarrow> Some (True, b \<lparr> ap_Immediate := FALSE_BOOL \<rparr>, io, a2dp_mute_update b d)
      | SBAUD_GET_CONNECTION_STATUS_UPDATE _ \<Rightarrow> Some (True, b, io, a2dp_connection_update b d)
      | SBAUD_GET_SIOP_UPDATE _ \<Rightarrow> map_option (\<lambda>s. (True, b, s)) (a2dp_siop_update remote e b (io, d))
      | _ \<Rightarrow> Some (False, b, io, d)))"

definition a2dp_work_round :: "a2dp_remote \<Rightarrow> codec_env \<Rightarrow> a2dp_req round_env \<Rightarrow> a2dp \<Rightarrow> a2dp option" where
  "a2dp_work_round remote ce e = faulty_round (a2dp_notification remote ce) id e"

definition a2dp_work :: "a2dp_remote \<Rightarrow> codec_env \<Rightarrow> a2dp_req round_env \<Rightarrow> a2dp \<Rightarrow> a2dp option" where
  "a2dp_work remote ce e = faulty_work (a2dp_notification remote ce) id e"

section \<open>Streams\<close>

definition SetA2dpHpStreamOpen :: "a2dp_remote \<Rightarrow> nat \<Rightarrow> nat \<Rightarrow> a2dp_io \<Rightarrow> NTSTATUS \<times> a2dp_io" where
  "SetA2dpHpStreamOpen remote EpIndex StreamFormat io = a2dp_call_busy remote (SBAUD_STREAM_OPEN EpIndex StreamFormat) io"
definition SetA2dpHpStreamStart :: "a2dp_remote \<Rightarrow> nat \<Rightarrow> a2dp_io \<Rightarrow> NTSTATUS \<times> a2dp_io" where
  "SetA2dpHpStreamStart remote EpIndex io = a2dp_call_busy remote (SBAUD_STREAM_START EpIndex) io"
definition SetA2dpHpStreamSuspend :: "a2dp_remote \<Rightarrow> nat \<Rightarrow> a2dp_io \<Rightarrow> NTSTATUS \<times> a2dp_io" where
  "SetA2dpHpStreamSuspend remote EpIndex io = a2dp_call_busy remote (SBAUD_STREAM_SUSPEND EpIndex) io"
definition SetA2dpHpStreamClose :: "a2dp_remote \<Rightarrow> nat \<Rightarrow> a2dp_io \<Rightarrow> NTSTATUS \<times> a2dp_io" where
  "SetA2dpHpStreamClose remote EpIndex io = a2dp_call remote (SBAUD_STREAM_CLOSE EpIndex) io"

definition a2dp_SetSidebandClaimed :: "a2dp_remote \<Rightarrow> BOOL \<Rightarrow> a2dp_io \<Rightarrow> NTSTATUS \<times> a2dp_io" where
  "a2dp_SetSidebandClaimed remote b io =
     (case a2dp_SendIoCtrlSynchronously remote (SBAUD_SET_DEVICE_CLAIMED b) io of (st, v, io1) \<Rightarrow> (st, io1))"

text \<open>The completion of the stream request with the contents \<open>b\<close> of its buffer.\<close>

definition EvtA2dpHpDeviceStreamStatusCompletion :: "NTSTATUS \<Rightarrow> a2dp_params \<Rightarrow> a2dp \<Rightarrow> a2dp option" where
  "EvtA2dpHpDeviceStreamStatusCompletion st b = (\<lambda>(io, d). do {
     r \<leftarrow> io_reqs io A2dpStreamReq;
     if \<not> Pending r then None
     else Some (io \<lparr> io_reqs := (io_reqs io)(A2dpStreamReq \<mapsto> r \<lparr> Pending := False, IoStatus := st, Buffer := b \<rparr>) \<rparr>,
       if ap_EpIndex b = ah_EpIndex d
       then d \<lparr> ah_StreamStatus := (if NT_SUCCESS st then ap_Value b else STATUS_INVALID_DEVICE_STATE),
                 ah_StreamStatusEvent := True \<rparr>
       else d) })"

definition EnableA2dpHpSpeakerStreamStatusNotification :: "send_env \<Rightarrow> a2dp \<Rightarrow> (NTSTATUS \<times> a2dp) option" where
  "EnableA2dpHpSpeakerStreamStatusNotification e = (\<lambda>(io, d). do {
     (st, io1) \<leftarrow> a2dp_enable e A2dpStreamReq (SBAUD_GET_STREAM_STATUS_UPDATE None)
       (\<lambda>b. b \<lparr> ap_Immediate := FALSE_BOOL, ap_EpIndex := ah_EpIndex d \<rparr>) io;
     Some (st, io1, d \<lparr> ah_StreamStatusEvent := \<not> NT_SUCCESS st \<rparr>) })"

definition a2dp_cancel_stream :: "a2dp \<Rightarrow> a2dp option" where
  "a2dp_cancel_stream s = (case io_reqs (fst s) A2dpStreamReq of
     None \<Rightarrow> Some s
   | Some r \<Rightarrow> if Pending r then EvtA2dpHpDeviceStreamStatusCompletion STATUS_CANCELLED (Buffer r) s else Some s)"

text \<open>Cancelling a NULL request is a fault; waiting for an event nobody will set is \<open>None\<close>.\<close>

definition StopA2dpHpSpeakerStreamStatusNotification :: "NTSTATUS \<Rightarrow> a2dp \<Rightarrow> (NTSTATUS \<times> a2dp) option" where
  "StopA2dpHpSpeakerStreamStatusNotification reuse s =
     (if io_reqs (fst s) A2dpStreamReq = None then None
      else do {
        s1 \<leftarrow> a2dp_cancel_stream s;
        if ah_StreamStatusEvent (snd s1) then Some (STATUS_SUCCESS, s1) else None })"

definition a2dp_SpeakerStreamOpen :: "a2dp_remote \<Rightarrow> send_env \<Rightarrow> a2dp \<Rightarrow> (NTSTATUS \<times> a2dp) option" where
  "a2dp_SpeakerStreamOpen remote e = (\<lambda>(io, d).
     (let d1 = d \<lparr> ah_nStreams := ah_nStreams d + 1 \<rparr>
      in if ah_nStreams d1 = 1 then do {
           let (st, io1) = SetA2dpHpStreamOpen remote (ah_EpIndex d) (ah_SelectedFormat d) io;
           (st2, io2, d2) \<leftarrow> (if NT_SUCCESS st
             then EnableA2dpHpSpeakerStreamStatusNotification e (io1, d1 \<lparr> ah_StreamStatus := STATUS_SUCCESS \<rparr>)
             else Some (st, io1, d1));
           if NT_SUCCESS st2 then Some (st2, io2, d2)
           else Some (st2, if NT_SUCCESS st then snd (SetA2dpHpStreamClose remote (ah_EpIndex d) io2) else io2,
                  d2 \<lparr> ah_nStreams := ah_nStreams d2 - 1, ah_HwTransportResource := 0,
                       ah_StreamStatus := STATUS_INVALID_DEVICE_STATE \<rparr>) }
         else Some (STATUS_SUCCESS, io, d1)))"

text \<open>When the headphones refuse to start the counter stays raised.\<close>

definition a2dp_SpeakerStreamStart :: "a2dp_remote \<Rightarrow> a2dp \<Rightarrow> NTSTATUS \<times> a2dp" where
  "a2dp_SpeakerStreamStart remote = (\<lambda>(io, d).
     (let d1 = d \<lparr> ah_nStartedStreams := ah_nStartedStreams d + 1 \<rparr>
      in if ah_nStartedStreams d1 = 1
         then (case SetA2dpHpStreamStart remote (ah_EpIndex d) io of (st, io1) \<Rightarrow> (st, io1, d1))
         else (STATUS_SUCCESS, io, d1)))"

definition a2dp_SpeakerStreamSuspend :: "a2dp_remote \<Rightarrow> a2dp \<Rightarrow> NTSTATUS \<times> a2dp" where
  "a2dp_SpeakerStreamSuspend remote = (\<lambda>(io, d).
     (let d1 = d \<lparr> ah_nStartedStreams := ah_nStartedStreams d - 1 \<rparr>
      in if ah_nStartedStreams d1 = 0
         then (case SetA2dpHpStreamSuspend remote (ah_EpIndex d) io of (st, io1) \<Rightarrow> (st, io1, d1))
         else (STATUS_SUCCESS, io, d1)))"

definition a2dp_SpeakerStreamClose :: "a2dp_remote \<Rightarrow> NTSTATUS \<Rightarrow> a2dp \<Rightarrow> (NTSTATUS \<times> a2dp) option" where
  "a2dp_SpeakerStreamClose remote reuse = (\<lambda>(io, d).
     (let d1 = d \<lparr> ah_nStreams := ah_nStreams d - 1 \<rparr>
      in if ah_nStreams d1 = 0 then do {
           let (st, io1) = SetA2dpHpStreamClose remote (ah_EpIndex d) io;
           (_, io2, d2) \<leftarrow> StopA2dpHpSpeakerStreamStatusNotification reuse (io1, d1 \<lparr> ah_HwTransportResource := 0 \<rparr>);
           Some (st, io2, d2 \<lparr> ah_StreamStatus := STATUS_INVALID_DEVICE_STATE \<rparr>) }
         else Some (STATUS_SUCCESS, io, d1)))"

definition a2dp_StreamOpen :: "a2dp_remote \<Rightarrow> send_env \<Rightarrow> a2dp_device_type \<Rightarrow> a2dp \<Rightarrow> (NTSTATUS \<times> a2dp) option" where
  "a2dp_StreamOpen remote e t s =
     (if t = eA2dpHpSpeakerDevice then a2dp_SpeakerStreamOpen remote e s else Some (STATUS_INVALID_PARAMETER, s))"

definition a2dp_StreamStart :: "a2dp_remote \<Rightarrow> a2dp_device_type \<Rightarrow> a2dp \<Rightarrow> NTSTATUS \<times> a2dp" where
  "a2dp_StreamStart remote t s =
     (if t = eA2dpHpSpeakerDevice then a2dp_SpeakerStreamStart remote s else (STATUS_INVALID_PARAMETER, s))"

definition a2dp_StreamSuspend :: "a2dp_remote \<Rightarrow> a2dp_device_type \<Rightarrow> a2dp \<Rightarrow> NTSTATUS \<times> a2dp" where
  "a2dp_StreamSuspend remote t s =
     (if t = eA2dpHpSpeakerDevice then a2dp_SpeakerStreamSuspend remote s else (STATUS_INVALID_PARAMETER, s))"

definition a2dp_StreamClose :: "a2dp_remote \<Rightarrow> NTSTATUS \<Rightarrow> a2dp_device_type \<Rightarrow> a2dp \<Rightarrow> (NTSTATUS \<times> a2dp) option" where
  "a2dp_StreamClose remote reuse t s =
     (if t = eA2dpHpSpeakerDevice then a2dp_SpeakerStreamClose remote reuse s else Some (STATUS_INVALID_PARAMETER, s))"

definition a2dp_GetStreamStatus :: "a2dp_device_type \<Rightarrow> A2dpHpDevice \<Rightarrow> bool" where
  "a2dp_GetStreamStatus t d \<longleftrightarrow> NT_SUCCESS (if t = eA2dpHpSpeakerDevice then ah_StreamStatus d else STATUS_SUCCESS)"

section \<open>The interface of the miniports\<close>

text \<open>Reading through the descriptor while it is NULL, or past the end of its block, is \<open>None\<close>.\<close>

definition a2dp_descriptor :: "A2dpHpDevice \<Rightarrow> a2dp_endpoint option" where
  "a2dp_descriptor d = map_option ar_endpoint (read_block ar_whole (ah_SpeakerDescriptor d))"

definition a2dp_IsVolumeSupported :: "a2dp_device_type \<Rightarrow> A2dpHpDevice \<Rightarrow> BOOL option" where
  "a2dp_IsVolumeSupported t d =
     (if t = eA2dpHpSpeakerDevice then map_option ed_Volume (a2dp_descriptor d) else Some FALSE_BOOL)"

definition a2dp_GetVolumeSettings :: "a2dp_device_type \<Rightarrow> A2dpHpDevice \<Rightarrow> (a2dp_block \<times> nat option) option" where
  "a2dp_GetVolumeSettings t d =
     (if t = eA2dpHpSpeakerDevice
      then map_option (\<lambda>x. (ah_VolumePropValues d, Some (ed_VolumePropertyValuesSize x))) (a2dp_descriptor d)
      else Some (None, None))"

definition a2dp_GetVolume :: "a2dp_remote \<Rightarrow> a2dp_device_type \<Rightarrow> LONG \<Rightarrow> a2dp \<Rightarrow> NTSTATUS \<times> LONG option \<times> a2dp" where
  "a2dp_GetVolume remote t Channel s =
     (if t = eA2dpHpSpeakerDevice
      then (case GetA2dpHpSpeakerVolume remote Channel s of (st, v, io, d) \<Rightarrow>
              (st, Some v, io, if NT_SUCCESS st then d \<lparr> ah_VolumeLevel := v \<rparr> else d))
      else (STATUS_INVALID_PARAMETER, None, s))"

definition a2dp_SetVolume :: "a2dp_remote \<Rightarrow> a2dp_device_type \<Rightarrow> LONG \<Rightarrow> LONG \<Rightarrow> a2dp \<Rightarrow> NTSTATUS \<times> a2dp" where
  "a2dp_SetVolume remote t Channel Volume s =
     (if t = eA2dpHpSpeakerDevice then SetA2dpHpSpeakerVolume remote Channel Volume s else (STATUS_INVALID_PARAMETER, s))"

definition a2dp_IsMuteSupported :: "a2dp_device_type \<Rightarrow> A2dpHpDevice \<Rightarrow> BOOL option" where
  "a2dp_IsMuteSupported t d =
     (if t = eA2dpHpSpeakerDevice then map_option ed_Mute (a2dp_descriptor d) else Some FALSE_BOOL)"

definition a2dp_GetMuteSettings :: "a2dp_device_type \<Rightarrow> A2dpHpDevice \<Rightarrow> (a2dp_block \<times> nat option) option" where
  "a2dp_GetMuteSettings t d =
     (if t = eA2dpHpSpeakerDevice
      then map_option (\<lambda>x. (ah_MutePropValues d, Some (ed_MutePropertyValuesSize x))) (a2dp_descriptor d)
      else Some (None, None))"

definition a2dp_GetMute :: "a2dp_remote \<Rightarrow> a2dp_device_type \<Rightarrow> LONG \<Rightarrow> a2dp \<Rightarrow> LONG \<times> a2dp" where
  "a2dp_GetMute remote t Channel s =
     (if t = eA2dpHpSpeakerDevice
      then (case GetA2dpHpSpeakerMute remote Channel s of (st, v, s1) \<Rightarrow> (if NT_SUCCESS st then v else 0, s1))
      else (0, s))"

definition a2dp_SetMute :: "a2dp_remote \<Rightarrow> a2dp_device_type \<Rightarrow> LONG \<Rightarrow> LONG \<Rightarrow> a2dp \<Rightarrow> NTSTATUS \<times> a2dp" where
  "a2dp_SetMute remote t Channel Mute s =
     (if t = eA2dpHpSpeakerDevice then SetA2dpHpSpeakerMute remote Channel Mute s else (STATUS_INVALID_PARAMETER, s))"

definition a2dp_GetConnectionStatus :: "A2dpHpDevice \<Rightarrow> BOOL" where "a2dp_GetConnectionStatus d = ah_ConnectionStatus d"
definition a2dp_Connect :: NTSTATUS where "a2dp_Connect = STATUS_DEVICE_FEATURE_NOT_SUPPORTED"
definition a2dp_Disconnect :: NTSTATUS where "a2dp_Disconnect = STATUS_DEVICE_FEATURE_NOT_SUPPORTED"

definition a2dp_GetContainerId :: "a2dp_device_type \<Rightarrow> A2dpHpDevice \<Rightarrow> GUID option" where
  "a2dp_GetContainerId t d =
     (if t = eA2dpHpSpeakerDevice then map_option ed_ContainerId (a2dp_descriptor d) else Some 0)"

definition a2dp_set_handler :: "usb_callback \<Rightarrow> a2dp_device_type \<Rightarrow> event_callback option \<Rightarrow> A2dpHpDevice \<Rightarrow> A2dpHpDevice" where
  "a2dp_set_handler c t h d =
     (if t = eA2dpHpSpeakerDevice then d \<lparr> ah_Callbacks := (ah_Callbacks d)(c := h) \<rparr> else d)"

definition a2dp_SetVolumeHandler where "a2dp_SetVolumeHandler = a2dp_set_handler VolumeCallback"
definition a2dp_SetMuteHandler where "a2dp_SetMuteHandler = a2dp_set_handler MuteCallback"
definition a2dp_SetConnectionStatusHandler where "a2dp_SetConnectionStatusHandler = a2dp_set_handler ConnectionStatusCallback"
definition a2dp_SetFormatChangeHandler where "a2dp_SetFormatChangeHandler = a2dp_set_handler FormatChangeCallback"

definition a2dp_GetFormatsAndModes :: "a2dp_device_type \<Rightarrow> nat option" where "a2dp_GetFormatsAndModes t = None"
definition a2dp_IsNRECSupported :: BOOL where "a2dp_IsNRECSupported = FALSE_BOOL"
definition a2dp_GetNRECDisableStatus :: BOOL where "a2dp_GetNRECDisableStatus = FALSE_BOOL"

datatype a2dp_iid = IID_Unknown_a2dp | IID_IA2dpHpDeviceCommon | IID_Other_a2dp

definition a2dp_NonDelegatingQueryInterface :: "a2dp_iid \<Rightarrow> nat \<Rightarrow> NTSTATUS \<times> bool \<times> nat" where
  "a2dp_NonDelegatingQueryInterface iid n =
     (if iid = IID_Unknown_a2dp \<or> iid = IID_IA2dpHpDeviceCommon then (STATUS_SUCCESS, True, n + 1)
      else (STATUS_INVALID_PARAMETER, False, n))"

section \<open>Init\<close>

definition a2dp_CreateFilterNames :: "usb_config \<Rightarrow> NTSTATUS \<Rightarrow> string \<Rightarrow> A2dpHpDevice \<Rightarrow> NTSTATUS \<times> A2dpHpDevice" where
  "a2dp_CreateFilterNames cf hash_st link d =
     (if \<not> NT_SUCCESS hash_st then (hash_st, d)
      else (hash_st, d \<lparr> ah_WaveName := filter_name (uc_refstring_max cf) (uc_wave cf UsbSpeaker) (uc_hash cf link),
                         ah_TopologyName := filter_name (uc_refstring_max cf) (uc_topo cf UsbSpeaker) (uc_hash cf link) \<rparr>))"

record a2dp_init_env =
  ai_workitem :: NTSTATUS
  ai_collection :: NTSTATUS
  ai_target :: NTSTATUS
  ai_open :: NTSTATUS
  ai_name :: bool
  ai_request :: "a2dp_req \<Rightarrow> request_env"
  ai_hash :: NTSTATUS

text \<open>The RtlZeroMemory at the address of m_ConnectedCodecCaps: the pointer, and the spill into the lock.\<close>

definition a2dp_zero_codec_caps :: "A2dpHpDevice \<Rightarrow> A2dpHpDevice" where
  "a2dp_zero_codec_caps d = d \<lparr> ah_ConnectedCodecCaps := None,
     ah_ConnectedCodecLock := (if sizeof_codec_capabilities \<le> sizeof_pointer then ah_ConnectedCodecLock d
                               else MutexOverwritten (sizeof_codec_capabilities - sizeof_pointer)) \<rparr>"

text \<open>
  The members Init assigns, in three groups: those before the codec's, the codec's, and the others. The
  lock is initialised after the spill. Init does not assign the endpoint descriptor, the index, the
  selected format and the names.
\<close>

definition a2dp_Init_members :: "A2dpHpDevice \<Rightarrow> A2dpHpDevice" where
  "a2dp_Init_members d =
     (let d1 = d \<lparr> ah_State := StateInitializing, ah_WdfIoTarget := False, ah_Miniports := None,
            ah_UnknownTopology := None, ah_UnknownWave := None, ah_Descriptor := None, ah_VolumePropValues := None,
            ah_MutePropValues := None, ah_VolumeLevel := 0, ah_Mute := 0 \<rparr>;
          d2 = (a2dp_zero_codec_caps d1) \<lparr> ah_ConnectedCodecLock := MutexFree \<rparr>
      in d2 \<lparr> ah_ConnectionStatus := 0, ah_StreamStatus := STATUS_SUCCESS, ah_WorkItem := False, ah_ReqCollection := False,
            ah_nStreams := 0, ah_nStartedStreams := 0, ah_SupportedFormatsIntersection := None, ah_StreamStatusEvent := True,
            ah_SymbolicLinkName := None, ah_Callbacks := (\<lambda>c. None), ah_HwTransportResource := 0 \<rparr>)"

definition a2dp_Init_workitem :: "NTSTATUS \<Rightarrow> a2dp step" where
  "a2dp_Init_workitem st = (\<lambda>(io, d). Some (st,
     if NT_SUCCESS st then (wdf_create WdfWorkItem io, d \<lparr> ah_WorkItem := True \<rparr>) else (io, d)))"

definition a2dp_Init_collection :: "NTSTATUS \<Rightarrow> a2dp step" where
  "a2dp_Init_collection st = (\<lambda>(io, d). Some (st,
     if NT_SUCCESS st then (wdf_create WdfCollection io, d \<lparr> ah_ReqCollection := True \<rparr>) else (io, d)))"

definition a2dp_Init_target :: "NTSTATUS \<Rightarrow> a2dp step" where
  "a2dp_Init_target st = (\<lambda>(io, d). Some (st,
     if NT_SUCCESS st then (wdf_create WdfIoTarget io, d \<lparr> ah_WdfIoTarget := True \<rparr>) else (io, d)))"

definition a2dp_Init_open :: "NTSTATUS \<Rightarrow> a2dp step" where
  "a2dp_Init_open st = (\<lambda>s. Some (st, s))"

definition a2dp_Init_link :: "bool \<Rightarrow> string \<Rightarrow> a2dp step" where
  "a2dp_Init_link ok link = (\<lambda>(io, d).
     (if ok then (case pool_alloc MINADAPTER_POOLTAG io of (p, io1) \<Rightarrow>
                    Some (STATUS_SUCCESS, io1, d \<lparr> ah_SymbolicLinkName := Some (p, link) \<rparr>))
      else Some (STATUS_INSUFFICIENT_RESOURCES, io, d)))"

definition a2dp_Init_request :: "request_env \<Rightarrow> a2dp_req \<Rightarrow> a2dp step" where
  "a2dp_Init_request e q = (\<lambda>(io, d).
     (case create_request e q (SBAUD_GET_DEVICE_DESCRIPTOR 0) zero_a2dp_params io of (st, io1) \<Rightarrow> Some (st, io1, d)))"

definition a2dp_Init_names :: "usb_config \<Rightarrow> NTSTATUS \<Rightarrow> string \<Rightarrow> a2dp step" where
  "a2dp_Init_names cf st link = (\<lambda>(io, d).
     (case a2dp_CreateFilterNames cf st link d of (st1, d1) \<Rightarrow> Some (st1, io, d1)))"

text \<open>The requests in the order in which Init creates and the destructor deletes them.\<close>

definition a2dp_requests :: "a2dp_req list" where
  "a2dp_requests = [A2dpVolumeReq, A2dpMuteReq, A2dpConnectionReq, A2dpStreamReq, A2dpSiopUpdateReq]"

definition a2dp_Init_basics :: "a2dp_init_env \<Rightarrow> string \<Rightarrow> a2dp step list" where
  "a2dp_Init_basics e link =
     [a2dp_Init_workitem (ai_workitem e), a2dp_Init_collection (ai_collection e), a2dp_Init_target (ai_target e),
      a2dp_Init_open (ai_open e), a2dp_Init_link (ai_name e) link]"

definition a2dp_Init :: "usb_config \<Rightarrow> a2dp_init_env \<Rightarrow> string \<Rightarrow> a2dp step" where
  "a2dp_Init cf e link = (\<lambda>(io, d). do {
     (st, io1, d1) \<leftarrow> run_steps
       (a2dp_Init_basics e link @ map (\<lambda>q. a2dp_Init_request (ai_request e q) q) a2dp_requests
        @ [a2dp_Init_names cf (ai_hash e) link]) (io \<lparr> io_reqs := Map.empty \<rparr>, a2dp_Init_members d);
     if NT_SUCCESS st then Some (STATUS_SUCCESS, io1, d1 \<lparr> ah_State := StateRunning \<rparr>) else Some (st, io1, d1) })"

section \<open>The endpoint's miniport pair\<close>

text \<open>
  As in theory EndpointPair, with the properties the device announces and a copy of the properties of
  the wave filter. Deleting the copy does not free the latter.
\<close>

record a2dp_pair_env = pair_env +
  pe_wave :: bool

definition a2dp_CreateCustomEndpointMinipair :: "a2dp_pair_env \<Rightarrow> endpoint_pair \<Rightarrow> string \<Rightarrow> GUID \<Rightarrow> SYSVAD_DEVPROPERTY list \<Rightarrow>
    ('q, 'c, 'b) sideband_io \<Rightarrow> (NTSTATUS \<times> a2dp_custom_pair option \<times> ('q, 'c, 'b) sideband_io) option" where
  "a2dp_CreateCustomEndpointMinipair e base nm cat custom io =
     (let (props, io1) = alloc_if (pe_properties e) SYSVAD_POOLTAG io;
          (pair, io2) = alloc_if (pe_pair e) SYSVAD_POOLTAG io1;
          (desc, io3) = alloc_if (pe_descriptor e) SYSVAD_POOLTAG io2;
          (pins, io4) = alloc_if (pe_pins e) SYSVAD_POOLTAG io3;
          (wave, io5) = alloc_if (pe_wave e) SYSVAD_POOLTAG io4;
          (st, result) = (case pair of
             None \<Rightarrow> (STATUS_INSUFFICIENT_RESOURCES, None)
           | Some block \<Rightarrow>
               if props = None \<or> desc = None \<or> pins = None \<or> wave = None then (STATUS_INSUFFICIENT_RESOURCES, None)
               else (case UpdateCustomEndpointCategory cat (TopoPinCategories base) of
                       (st, cats) \<Rightarrow>
                         (st, if NT_SUCCESS st then
                                Some \<lparr> cp_pair = base \<lparr> TopoInterfaceProperties :=
                                         TopoInterfaceProperties base @ [friendly_name_property nm] @ custom,
                                         TopoPinCategories := cats \<rparr>,
                                       cp_block = block, cp_properties = props, cp_descriptor = desc, cp_pins = pins,
                                       cp_wave_properties = wave \<rparr>
                              else None)))
      in if result \<noteq> None then Some (STATUS_SUCCESS, result, io5)
         else do {
           io6 \<leftarrow> pool_free_opt props SYSVAD_POOLTAG io5;
           io7 \<leftarrow> pool_free_opt wave SYSVAD_POOLTAG io6;
           io8 \<leftarrow> pool_free_opt pair SYSVAD_POOLTAG io7;
           io9 \<leftarrow> pool_free_opt desc SYSVAD_POOLTAG io8;
           io10 \<leftarrow> pool_free_opt pins SYSVAD_POOLTAG io9;
           Some (st, None, io10) })"

definition a2dp_UpdateCustomEndpointCategory :: "GUID \<Rightarrow> GUID list \<Rightarrow> NTSTATUS \<times> GUID list" where
  "a2dp_UpdateCustomEndpointCategory = UpdateCustomEndpointCategory"

definition a2dp_DeleteCustomEndpointMinipair :: "a2dp_custom_pair option \<Rightarrow> ('q, 'c, 'b) sideband_io \<Rightarrow>
    ('q, 'c, 'b) sideband_io option" where
  "a2dp_DeleteCustomEndpointMinipair p = DeleteCustomEndpointMinipair (map_option custom_pair.truncate p)"

section \<open>Start\<close>

record a2dp_start_env =
  as_device :: query_env
  as_endpoints :: "nat \<Rightarrow> query_env"
  as_volume_alloc :: bool
  as_mute_alloc :: bool
  as_formats_alloc :: bool
  as_pair :: a2dp_pair_env
  as_filters :: filters_env
  as_send :: "a2dp_req \<Rightarrow> send_env"

type_synonym a2dp_world = "a2dp_io \<times> A2dpHpDevice \<times> adapter_world"

definition a2dp_Start_caps :: "a2dp_remote \<Rightarrow> a2dp_world step" where
  "a2dp_Start_caps remote = (\<lambda>(io, d, w). (case SetA2dpHpDeviceCapabilities remote io of (st, io1) \<Rightarrow> Some (st, io1, d, w)))"

definition a2dp_Start_descriptor :: "a2dp_remote \<Rightarrow> query_env \<Rightarrow> a2dp_world step" where
  "a2dp_Start_descriptor remote e = (\<lambda>(io, d, w). do {
     (st, p, io1) \<leftarrow> GetA2dpHpDescriptor remote e io;
     Some (st, io1, d \<lparr> ah_Descriptor := p \<rparr>, w) })"

text \<open>
  The loop over the endpoints with the number of speaker endpoints. The descriptor of any other
  endpoint, and of a speaker endpoint before the last one, is dropped.
\<close>

fun a2dp_endpoint_loop :: "a2dp_remote \<Rightarrow> (nat \<Rightarrow> query_env) \<Rightarrow> nat list \<Rightarrow> nat \<Rightarrow> a2dp \<Rightarrow> (NTSTATUS \<times> nat \<times> a2dp) option" where
  "a2dp_endpoint_loop remote e [] n s = Some (STATUS_SUCCESS, n, s)"
| "a2dp_endpoint_loop remote e (i # is) n (io, d) = do {
     (st, p, io1) \<leftarrow> GetA2dpHpEndpointDescriptor remote (e i) i io;
     if \<not> NT_SUCCESS st then Some (st, n, io1, d)
     else do {
       ed \<leftarrow> map_option ar_endpoint (read_block ar_whole p);
       if ed_Direction ed = KSPIN_DATAFLOW_OUT
       then a2dp_endpoint_loop remote e is (n + 1) (io1, d \<lparr> ah_EpIndex := i, ah_SpeakerDescriptor := p \<rparr>)
       else a2dp_endpoint_loop remote e is n (io1, d) } }"

definition a2dp_Start_endpoints :: "a2dp_remote \<Rightarrow> (nat \<Rightarrow> query_env) \<Rightarrow> a2dp \<Rightarrow> (NTSTATUS \<times> nat \<times> a2dp) option" where
  "a2dp_Start_endpoints remote e = (\<lambda>(io, d). do {
     v \<leftarrow> read_block ar_whole (ah_Descriptor d);
     a2dp_endpoint_loop remote e [0..<ar_NumberOfEndpoints v] 0 (io, d) })"

definition a2dp_Start_count :: "nat \<Rightarrow> a2dp_world step" where
  "a2dp_Start_count n = (\<lambda>(io, d, w).
     (if n > 1 then Some (STATUS_DEVICE_FEATURE_NOT_SUPPORTED, io, d \<lparr> ah_EpIndex := 0 \<rparr>, w)
      else Some (STATUS_SUCCESS, io, d, w)))"

definition a2dp_Start_volume :: "a2dp_remote \<Rightarrow> bool \<Rightarrow> a2dp_world step" where
  "a2dp_Start_volume remote alloc = (\<lambda>(io, d, w). do {
     x \<leftarrow> a2dp_descriptor d;
     if ed_Volume x = 0 then Some (STATUS_SUCCESS, io, d, w)
     else do {
       (st, p, io1) \<leftarrow> GetA2dpHpVolumePropertyValues remote alloc (ah_EpIndex d) (ed_VolumePropertyValuesSize x) io;
       if \<not> NT_SUCCESS st then Some (st, io1, d, w)
       else do {
         let (st1, v, io2, d1) = GetA2dpHpSpeakerVolume remote 0 (io1, d \<lparr> ah_VolumePropValues := p \<rparr>);
         Some (st1, io2, if NT_SUCCESS st1 then d1 \<lparr> ah_VolumeLevel := v \<rparr> else d1, w) } } })"

definition a2dp_Start_mute :: "a2dp_remote \<Rightarrow> bool \<Rightarrow> a2dp_world step" where
  "a2dp_Start_mute remote alloc = (\<lambda>(io, d, w). do {
     x \<leftarrow> a2dp_descriptor d;
     if ed_Mute x = 0 then Some (STATUS_SUCCESS, io, d, w)
     else do {
       (st, p, io1) \<leftarrow> GetA2dpHpMutePropertyValues remote alloc (ah_EpIndex d) (ed_MutePropertyValuesSize x) io;
       if \<not> NT_SUCCESS st then Some (st, io1, d, w)
       else do {
         let (st1, v, io2, d1) = GetA2dpHpSpeakerMute remote 0 (io1, d \<lparr> ah_MutePropValues := p \<rparr>);
         Some (st1, io2, if NT_SUCCESS st1 then d1 \<lparr> ah_Mute := v \<rparr> else d1, w) } } })"

text \<open>
  What is called the intersection of the formats is a copy of the driver's own list; the result of the
  allocation is not checked.
\<close>

definition a2dp_Start_formats :: "usb_config \<Rightarrow> bool \<Rightarrow> a2dp_world step" where
  "a2dp_Start_formats cf alloc = (\<lambda>(io, d, w).
     (if \<not> alloc then None
      else (case pool_alloc SYSVAD_POOLTAG io of (p, io1) \<Rightarrow>
              Some (STATUS_SUCCESS, io1, d \<lparr> ah_SupportedFormatsIntersection := Some (p, uc_formats cf UsbSpeaker) \<rparr>, w))))"

definition a2dp_Start_pair :: "usb_config \<Rightarrow> a2dp_pair_env \<Rightarrow> a2dp_world step" where
  "a2dp_Start_pair cf e = (\<lambda>(io, d, w). do {
     x \<leftarrow> a2dp_descriptor d;
     (st, p, io1) \<leftarrow> a2dp_CreateCustomEndpointMinipair e (uc_endpoint cf UsbSpeaker) (ed_FriendlyName x) (ed_Category x)
        (ed_FilterInterfaceProperties x) io;
     if \<not> NT_SUCCESS st then Some (st, io1, d, w)
     else Some (st, io1, d \<lparr> ah_Miniports := map_option (\<lambda>c. c \<lparr> cp_pair := (cp_pair c)
            \<lparr> TopoName := ah_TopologyName d, WaveName := ah_WaveName d \<rparr> \<rparr>) p \<rparr>, w) })"

definition a2dp_VerifyEndpointFormatCompatibility :: "usb_config \<Rightarrow> usb_format list \<Rightarrow> usb_format list \<Rightarrow> nat \<Rightarrow> NTSTATUS \<times> nat" where
  "a2dp_VerifyEndpointFormatCompatibility = VerifyEndpointFormatCompatibility"

definition a2dp_Start_verify :: "usb_config \<Rightarrow> a2dp_world step" where
  "a2dp_Start_verify cf = (\<lambda>(io, d, w). do {
     p \<leftarrow> ah_SupportedFormatsIntersection d;
     let (st, i) = a2dp_VerifyEndpointFormatCompatibility cf (snd p) (uc_formats cf UsbSpeaker) (ah_SelectedFormat d);
     Some (st, io, d \<lparr> ah_SelectedFormat := i \<rparr>, w) })"

definition a2dp_Start_filters :: "filters_env \<Rightarrow> a2dp_world step" where
  "a2dp_Start_filters e = (\<lambda>(io, d, w). do {
     c \<leftarrow> ah_Miniports d;
     (st, outs, w1) \<leftarrow> InstallEndpointFilters e (ENDPOINT_MINIPAIR.truncate (cp_pair c)) want_filters w;
     Some (st, io, d \<lparr> ah_UnknownTopology := out_topo outs, ah_UnknownWave := out_wave outs \<rparr>, w1) })"

definition a2dp_Start_enable :: "(a2dp \<Rightarrow> (NTSTATUS \<times> a2dp_io) option) \<Rightarrow> a2dp_world step" where
  "a2dp_Start_enable enable = (\<lambda>(io, d, w). do { (st, io1) \<leftarrow> enable (io, d); Some (st, io1, d, w) })"

definition a2dp_Start_enable_volume :: "send_env \<Rightarrow> a2dp_world step" where
  "a2dp_Start_enable_volume e = (\<lambda>(io, d, w). do {
     x \<leftarrow> a2dp_descriptor d;
     if ed_Volume x = 0 then Some (STATUS_SUCCESS, io, d, w)
     else a2dp_Start_enable (EnableA2dpHpSpeakerVolumeStatusNotification e) (io, d, w) })"

text \<open>The part of Start that is skipped when there is no speaker endpoint.\<close>

definition a2dp_Start_speaker :: "a2dp_remote \<Rightarrow> usb_config \<Rightarrow> a2dp_start_env \<Rightarrow> a2dp_world step" where
  "a2dp_Start_speaker remote cf e = (\<lambda>(io, d, w).
     (if ah_SpeakerDescriptor d = None then Some (STATUS_SUCCESS, io, d, w)
      else run_steps
        [a2dp_Start_volume remote (as_volume_alloc e), a2dp_Start_mute remote (as_mute_alloc e),
         a2dp_Start_formats cf (as_formats_alloc e), a2dp_Start_pair cf (as_pair e), a2dp_Start_verify cf,
         a2dp_Start_filters (as_filters e),
         a2dp_Start_enable (EnableA2dpHpConnectionStatusNotification (as_send e A2dpConnectionReq)),
         a2dp_Start_enable (EnableA2dpHpSpeakerSiopNotification (as_send e A2dpSiopUpdateReq)),
         a2dp_Start_enable_volume (as_send e A2dpVolumeReq)] (io, d, w)))"

definition a2dp_Start_claim :: "a2dp_remote \<Rightarrow> a2dp_world step" where
  "a2dp_Start_claim remote = (\<lambda>(io, d, w). (case a2dp_SetSidebandClaimed remote TRUE_BOOL io of (st, io1) \<Rightarrow> Some (st, io1, d, w)))"

definition a2dp_Start_rest :: "a2dp_remote \<Rightarrow> usb_config \<Rightarrow> a2dp_start_env \<Rightarrow> a2dp_world step" where
  "a2dp_Start_rest remote cf e = (\<lambda>(io, d, w). do {
     (st, n, io1, d1) \<leftarrow> a2dp_Start_endpoints remote (as_endpoints e) (io, d);
     if \<not> NT_SUCCESS st then Some (st, io1, d1, w)
     else run_steps [a2dp_Start_count n, a2dp_Start_speaker remote cf e, a2dp_Start_claim remote] (io1, d1, w) })"

definition a2dp_Start :: "a2dp_remote \<Rightarrow> usb_config \<Rightarrow> a2dp_start_env \<Rightarrow> a2dp_world \<Rightarrow> a2dp_world option" where
  "a2dp_Start remote cf e s = do {
     (st, io, d, w) \<leftarrow> run_steps [a2dp_Start_caps remote, a2dp_Start_descriptor remote (as_device e),
       a2dp_Start_rest remote cf e] s;
     Some (if NT_SUCCESS st then (io, d, w)
           else (snd (a2dp_SetSidebandClaimed remote FALSE_BOOL io), d \<lparr> ah_State := StateFailed \<rparr>, w)) }"

section \<open>Stop and destruction\<close>

record a2dp_stop_env =
  ax_work :: "a2dp_req round_env"
  ax_codec :: codec_env
  ax_filters :: filters_env

definition a2dp_notifications :: "a2dp_req list" where
  "a2dp_notifications = [A2dpVolumeReq, A2dpMuteReq, A2dpConnectionReq, A2dpSiopUpdateReq]"

definition a2dp_purge :: "a2dp \<Rightarrow> a2dp option" where
  "a2dp_purge = (\<lambda>(io, d). do {
     io1 \<leftarrow> cancel_all a2dp_notifications (io \<lparr> io_purged := True \<rparr>);
     a2dp_cancel_stream (io1, d) })"

definition a2dp_remove :: "filters_env \<Rightarrow> A2dpHpDevice \<Rightarrow> adapter_world \<Rightarrow> adapter_world option" where
  "a2dp_remove e d w =
     remove_pair_filters e (map_option custom_pair.truncate (ah_Miniports d)) (ah_UnknownTopology d) (ah_UnknownWave d) w"

definition a2dp_release_filters :: "A2dpHpDevice \<Rightarrow> adapter_world \<Rightarrow> adapter_world option" where
  "a2dp_release_filters d w = do {
     w1 \<leftarrow> safe_release (ah_UnknownTopology d) w;
     safe_release (ah_UnknownWave d) w1 }"

definition a2dp_Stop :: "a2dp_remote \<Rightarrow> a2dp_stop_env \<Rightarrow> a2dp_world \<Rightarrow> a2dp_world option" where
  "a2dp_Stop remote e = (\<lambda>(io, d, w). do {
     s1 \<leftarrow> a2dp_purge (io, d \<lparr> ah_State := StateStopping \<rparr>);
     (io2, d2) \<leftarrow> faulty_flush (a2dp_notification remote (ax_codec e)) id (ax_work e) s1;
     w1 \<leftarrow> a2dp_remove (ax_filters e) d2 w;
     w2 \<leftarrow> a2dp_release_filters d2 w1;
     Some (io2, d2 \<lparr> ah_UnknownTopology := None, ah_UnknownWave := None, ah_State := StateStopped \<rparr>, w2) })"

text \<open>
  The destructor. The endpoint descriptor and the copy of the formats are freed with other tags than
  they were allocated with.
\<close>

definition a2dp_dtor_target :: "a2dp \<Rightarrow> a2dp option" where
  "a2dp_dtor_target = (\<lambda>(io, d). do {
     io1 \<leftarrow> wdf_delete_if (ah_WdfIoTarget d) WdfIoTarget io;
     Some (io1, d \<lparr> ah_WdfIoTarget := False \<rparr>) })"

definition a2dp_dtor_memory :: "A2dpHpDevice \<Rightarrow> a2dp_io \<Rightarrow> a2dp_io option" where
  "a2dp_dtor_memory d io = do {
     io1 \<leftarrow> pool_free_opt (map_option fst (ah_SymbolicLinkName d)) MINADAPTER_POOLTAG io;
     io2 \<leftarrow> a2dp_DeleteCustomEndpointMinipair (ah_Miniports d) io1;
     io3 \<leftarrow> pool_free_opt (map_option fst (ah_Descriptor d)) MINADAPTER_POOLTAG io2;
     io4 \<leftarrow> pool_free_opt (map_option fst (ah_SpeakerDescriptor d)) A2DPSIDEBANDTEST_POOLTAG02 io3;
     io5 \<leftarrow> pool_free_opt (map_option fst (ah_SupportedFormatsIntersection d)) A2DPSIDEBANDTEST_POOLTAG03 io4;
     io6 \<leftarrow> pool_free_opt (map_option fst (ah_VolumePropValues d)) A2DPSIDEBANDTEST_POOLTAG02 io5;
     io7 \<leftarrow> pool_free_opt (map_option fst (ah_MutePropValues d)) A2DPSIDEBANDTEST_POOLTAG06 io6;
     pool_free_opt (map_option fst (ah_ConnectedCodecCaps d)) A2DPSIDEBANDTEST_POOLTAG07 io7 }"

definition a2dp_dtor :: "a2dp_world \<Rightarrow> (a2dp_io \<times> adapter_world) option" where
  "a2dp_dtor = (\<lambda>(io0, d0, w). do {
     (io, d) \<leftarrow> a2dp_dtor_target (io0, d0);
     io1 \<leftarrow> a2dp_dtor_memory d io;
     io2 \<leftarrow> delete_requests a2dp_requests io1;
     io3 \<leftarrow> wdf_delete_if (ah_WorkItem d) WdfWorkItem io2;
     io4 \<leftarrow> wdf_delete_if (ah_ReqCollection d) WdfCollection io3;
     w1 \<leftarrow> a2dp_release_filters d w;
     Some (io4, w1) })"

end
