(* ===== verification/A2dpSafety.thy ===== *)
theory A2dpSafety
  imports A2dpDevice UsbHsLife
begin

text \<open>
  What holds of the A2DP headphones (theory A2dpDevice) from Init to the destructor: the account of
  memory, objects, requests and filters, its preservation by Init, Start, every event and Stop, and what
  the destructor does with what the device owns.
\<close>

section \<open>Codec capabilities\<close>

lemma sizeof_codec [simp]: "sizeof_codec_capabilities = 10"
  by (simp add: sizeof_codec_capabilities_def sizeof_sbc_def sizeof_aac_def sbc_bytes_def aac_bytes_def)

lemma length_written [simp]: "length (written n bs) = n"
  by (simp add: written_def)

definition caps_size :: "codec_block \<Rightarrow> bool" where
  "caps_size p \<longleftrightarrow> (\<forall>t b. p = Some (t, b) \<longrightarrow> sizeof_codec_capabilities \<le> length b)"

text \<open>
  What the comparison relies on: the headphones answer the first query for the configured codec with
  a size of at least that of the union, or an error.
\<close>

definition codec_honest :: "a2dp_remote \<Rightarrow> bool" where
  "codec_honest remote \<longleftrightarrow> (\<forall>l i. case remote l (configured_codec i 0) of (st, v) \<Rightarrow>
     \<not> NT_SUCCESS st \<and> (ar_information v = 0 \<or> sizeof_codec_capabilities \<le> ar_information v))"

lemma GetCodecCaps_memory:
  "\<exists>st p l. GetA2dpHpCodecCaps remote e i io = Some (st, p, io \<lparr> io_log := l, io_pool := block_of p + io_pool io \<rparr>)
     \<and> (NT_SUCCESS st \<longleftrightarrow> p \<noteq> None) \<and> tagged A2DPSIDEBANDTEST_POOLTAG07 p \<and> (codec_honest remote \<longrightarrow> caps_size p)"
proof (cases "NT_SUCCESS (qe_create e)")
  case True
  obtain st v where 1: "remote (io_log io) (configured_codec i 0) = (st, v)" by fastforce
  have h: "\<not> NT_SUCCESS st \<and> (ar_information v = 0 \<or> 10 \<le> ar_information v)" if "codec_honest remote"
    using that [unfolded codec_honest_def, rule_format, of "io_log io" i] 1 by simp
  let ?n = "if st = STATUS_BUFFER_TOO_SMALL then ar_information v else 0"
  let ?l = "io_log io @ [(configured_codec i 0, st)]"
  obtain st2 v2 where 2: "remote ?l (configured_codec i ?n) = (st2, v2)" by fastforce
  have d: "wdf_delete WdfRequest (io \<lparr> io_objects := add_mset WdfRequest (io_objects io), io_log := l, io_pool := p \<rparr>)
      = Some (io \<lparr> io_log := l, io_pool := p \<rparr>)"
    "wdf_delete WdfRequest (io \<lparr> io_objects := add_mset WdfRequest (io_objects io), io_log := l \<rparr>) = Some (io \<lparr> io_log := l \<rparr>)" for l p
    by (simp_all add: wdf_delete_def)
  have fail: ?thesis if "GetA2dpHpCodecCaps remote e i io = Some (x, None, io \<lparr> io_log := l \<rparr>)" and "\<not> NT_SUCCESS x" for x l
  proof -
    have "io \<lparr> io_log := l \<rparr> = io \<lparr> io_log := l, io_pool := block_of None + io_pool io \<rparr>" by simp
    then show ?thesis using that by (intro exI [of _ x] exI [of _ None] exI [of _ l]) (simp add: caps_size_def)
  qed
  note defs = GetA2dpHpCodecCaps_def a2dp_SendIoCtrlSynchronously_def SendIoCtrlSynchronously_def Let_def wdf_create_def pool_alloc_def
  note eq = True 1 2 d
  consider (bad) "st = STATUS_BUFFER_TOO_SMALL \<and> (?n = 0 \<or> ?n > 0xFFFFFFFF)" | (error) "st \<noteq> STATUS_BUFFER_TOO_SMALL \<and> \<not> NT_SUCCESS st"
    | (memory) "\<not> qe_alloc e" "\<not> (st = STATUS_BUFFER_TOO_SMALL \<and> (?n = 0 \<or> ?n > 0xFFFFFFFF))" "\<not> (st \<noteq> STATUS_BUFFER_TOO_SMALL \<and> \<not> NT_SUCCESS st)"
    | (go) "qe_alloc e" "\<not> (st = STATUS_BUFFER_TOO_SMALL \<and> (?n = 0 \<or> ?n > 0xFFFFFFFF))" "\<not> (st \<noteq> STATUS_BUFFER_TOO_SMALL \<and> \<not> NT_SUCCESS st)"
    by satx
  then show ?thesis
  proof cases
    case bad
    then have "GetA2dpHpCodecCaps remote e i io = Some (STATUS_INVALID_DEVICE_STATE, None, io \<lparr> io_log := ?l \<rparr>)"
      using eq by (auto simp: defs)
    then show ?thesis by (rule fail) simp
  next
    case error
    then have "GetA2dpHpCodecCaps remote e i io = Some (st, None, io \<lparr> io_log := ?l \<rparr>)" using eq by (simp add: defs)
    then show ?thesis by (rule fail) (use error in simp)
  next
    case memory
    then have "GetA2dpHpCodecCaps remote e i io = Some (STATUS_INSUFFICIENT_RESOURCES, None, io \<lparr> io_log := ?l \<rparr>)"
      using eq by (auto simp: defs)
    then show ?thesis by (rule fail) simp
  next
    case go
    let ?st = "if NT_SUCCESS (qe_reuse e) then st2 else qe_reuse e"
    let ?b = "written ?n (ar_bytes (if NT_SUCCESS (qe_reuse e) then v2 else v))"
    let ?k = "if NT_SUCCESS (qe_reuse e) then ?l @ [(configured_codec i ?n, st2)] else ?l"
    have g: "GetA2dpHpCodecCaps remote e i io = (if NT_SUCCESS ?st
        then Some (?st, Some (A2DPSIDEBANDTEST_POOLTAG07, ?b), io \<lparr> io_log := ?k, io_pool := add_mset A2DPSIDEBANDTEST_POOLTAG07 (io_pool io) \<rparr>)
        else Some (?st, None, io \<lparr> io_log := ?k \<rparr>))"
      using go eq by (cases "NT_SUCCESS (qe_reuse e)") (auto simp: defs wdf_delete_def pool_free_def)
    show ?thesis
    proof (cases "NT_SUCCESS ?st")
      case False
      then show ?thesis using g fail by simp
    next
      case ok: True
      have "caps_size (Some (A2DPSIDEBANDTEST_POOLTAG07, ?b))" if "codec_honest remote"
        using h [OF that] go(2,3) by (auto simp: caps_size_def)
      then show ?thesis using g ok by auto
    qed
  qed
next
  case False
  then show ?thesis by (cases io) (simp add: GetA2dpHpCodecCaps_def caps_size_def)
qed

text \<open>
  The new capabilities take the place of the old ones, which are freed. Comparing them faults only when
  one of the blocks is shorter than the union.
\<close>

lemma UpdateCodecCaps_memory:
  assumes "io_pool io = block_of p + (block_of (ah_ConnectedCodecCaps d) + R)"
    and "tagged A2DPSIDEBANDTEST_POOLTAG07 (ah_ConnectedCodecCaps d)" and "ah_ConnectedCodecLock d = MutexFree"
  shows "unless_fault (\<not> (caps_size (ah_ConnectedCodecCaps d) \<and> caps_size p)) (UpdateA2dpHpCodecCaps p (io, d))
    (\<lambda>(st, io', d'). io' = io \<lparr> io_pool := block_of p + R \<rparr>
       \<and> d' \<in> {a2dp_invoke FormatChangeCallback (d \<lparr> ah_ConnectedCodecCaps := p \<rparr>), d \<lparr> ah_ConnectedCodecCaps := p \<rparr>})"
proof -
  let ?old = "ah_ConnectedCodecCaps d"
  have f: "pool_free_opt (map_option fst ?old) A2DPSIDEBANDTEST_POOLTAG07 io = Some (io \<lparr> io_pool := block_of p + R \<rparr>)"
    by (rule free_tagged_eq) (use assms in \<open>simp_all add: ac_simps\<close>)
  have c: "caps_size ?old \<and> caps_size p \<longrightarrow> (case ?old of None \<Rightarrow> Some False
       | Some (_, b) \<Rightarrow> (case p of None \<Rightarrow> Some False | Some (_, c) \<Rightarrow> codec_caps_differ b c)) \<noteq> None"
    by (cases ?old; cases p) (auto simp: caps_size_def codec_caps_differ_def)
  show ?thesis using f c assms(3) by (auto simp: UpdateA2dpHpCodecCaps_def Let_def unless_fault_iff split: bind_splits)
qed

section \<open>What notifications change\<close>

definition a2dp_core :: "A2dpHpDevice \<Rightarrow> A2dpHpDevice" where
  "a2dp_core d = d \<lparr> ah_VolumeLevel := 0, ah_Mute := 0, ah_ConnectionStatus := 0, ah_ConnectedCodecCaps := None, ah_Invoked := [] \<rparr>"

lemma a2dp_core_simps [simp]:
  "a2dp_core (a2dp_invoke c d) = a2dp_core d" "a2dp_core (d \<lparr> ah_ConnectedCodecCaps := p \<rparr>) = a2dp_core d"
  "a2dp_core (a2dp_volume_update b d) = a2dp_core d" "a2dp_core (a2dp_mute_update b d) = a2dp_core d"
  "a2dp_core (a2dp_connection_update b d) = a2dp_core d"
  by (simp_all add: a2dp_core_def a2dp_invoke_def a2dp_volume_update_def a2dp_mute_update_def a2dp_connection_update_def Let_def
      split: option.split)

lemma updates_caps [simp]:
  "ah_ConnectedCodecCaps (a2dp_invoke c d) = ah_ConnectedCodecCaps d"
  "ah_ConnectedCodecCaps (a2dp_volume_update b d) = ah_ConnectedCodecCaps d"
  "ah_ConnectedCodecCaps (a2dp_mute_update b d) = ah_ConnectedCodecCaps d"
  "ah_ConnectedCodecCaps (a2dp_connection_update b d) = ah_ConnectedCodecCaps d"
  "ah_ConnectedCodecLock (a2dp_invoke c d) = ah_ConnectedCodecLock d"
  "ah_ConnectedCodecLock (a2dp_volume_update b d) = ah_ConnectedCodecLock d"
  "ah_ConnectedCodecLock (a2dp_mute_update b d) = ah_ConnectedCodecLock d"
  "ah_ConnectedCodecLock (a2dp_connection_update b d) = ah_ConnectedCodecLock d"
  by (simp_all add: a2dp_invoke_def a2dp_volume_update_def a2dp_mute_update_def a2dp_connection_update_def Let_def split: option.split)

text \<open>The invariant of the work item: the capabilities are its only memory; \<open>R\<close> is that of others.\<close>

definition a2dp_inv :: "a2dp_remote \<Rightarrow> A2dpHpDevice \<Rightarrow> pool_tag multiset \<Rightarrow>
    (a2dp_ioctl \<times> NTSTATUS) list \<Rightarrow> pool_tag multiset \<Rightarrow> A2dpHpDevice \<Rightarrow> bool" where
  "a2dp_inv remote c R l p d \<longleftrightarrow> a2dp_core d = c \<and> p = block_of (ah_ConnectedCodecCaps d) + R
     \<and> tagged A2DPSIDEBANDTEST_POOLTAG07 (ah_ConnectedCodecCaps d) \<and> ah_ConnectedCodecLock d = MutexFree
     \<and> (codec_honest remote \<longrightarrow> caps_size (ah_ConnectedCodecCaps d))"

lemma same_io: "io = io \<lparr> io_log := io_log io, io_pool := io_pool io \<rparr>"
  by simp

lemma siop_update_ok:
  assumes i: "a2dp_inv remote c R (io_log io) (io_pool io) d"
  shows "unless_fault (\<not> codec_honest remote) (a2dp_siop_update remote e b (io, d))
    (\<lambda>(io', d'). \<exists>l p. io' = io \<lparr> io_log := l, io_pool := p \<rparr> \<and> a2dp_inv remote c R l p d')"
proof -
  obtain st p l where g: "GetA2dpHpCodecCaps remote (e (io_log io)) (ah_EpIndex d) io
        = Some (st, p, io \<lparr> io_log := l, io_pool := block_of p + io_pool io \<rparr>)" "NT_SUCCESS st \<longleftrightarrow> p \<noteq> None"
      "tagged A2DPSIDEBANDTEST_POOLTAG07 p" "codec_honest remote \<longrightarrow> caps_size p"
    using GetCodecCaps_memory [of remote "e (io_log io)" "ah_EpIndex d" io] by blast
  let ?io = "io \<lparr> io_log := l, io_pool := block_of p + io_pool io \<rparr>"
  have old: "io_pool ?io = block_of p + (block_of (ah_ConnectedCodecCaps d) + R)"
      "tagged A2DPSIDEBANDTEST_POOLTAG07 (ah_ConnectedCodecCaps d)" "ah_ConnectedCodecLock d = MutexFree"
      "codec_honest remote \<longrightarrow> caps_size (ah_ConnectedCodecCaps d)"
    using i by (simp_all add: a2dp_inv_def)
  have n: "a2dp_inv remote c R l (block_of p + R) (a2dp_invoke FormatChangeCallback (d \<lparr> ah_ConnectedCodecCaps := p \<rparr>))"
      "a2dp_inv remote c R l (block_of p + R) (d \<lparr> ah_ConnectedCodecCaps := p \<rparr>)" for l
    using i g(3,4) by (simp_all add: a2dp_inv_def)
  have k: "a2dp_inv remote c R l (io_pool io) d" for l using i by (simp add: a2dp_inv_def)
  show ?thesis
  proof (cases "ap_EpIndex b = ah_EpIndex d \<and> ap_ParamSet b = SIDEBANDAUDIO_PARAMS_SET_A2DP
         \<and> ap_TypeId b = SIDEANDAUDIO_PARAM_A2DP_CONFIGURED_CODEC")
    case False
    then have "a2dp_siop_update remote e b (io, d) = Some (io, d)" by (auto simp: a2dp_siop_update_def)
    moreover have "\<exists>l p. io = io \<lparr> io_log := l, io_pool := p \<rparr> \<and> a2dp_inv remote c R l p d" using i same_io [of io] by blast
    ultimately show ?thesis by simp
  next
    case True
    show ?thesis
    proof (cases "NT_SUCCESS st")
      case ok: True
      have "a2dp_siop_update remote e b (io, d) = map_option snd (UpdateA2dpHpCodecCaps p (?io, d))"
        using True g(1) ok by (simp add: a2dp_siop_update_def)
      moreover have "unless_fault (\<not> codec_honest remote) (UpdateA2dpHpCodecCaps p (?io, d))
          (\<lambda>(st, io', d'). \<exists>l p. io' = io \<lparr> io_log := l, io_pool := p \<rparr> \<and> a2dp_inv remote c R l p d')"
      proof (cases "UpdateA2dpHpCodecCaps p (?io, d)")
        case None
        then show ?thesis using UpdateCodecCaps_memory [OF old(1-3)] old(4) g(4) by auto
      next
        case (Some y)
        then obtain st' d' where "y = (st', io \<lparr> io_log := l, io_pool := block_of p + R \<rparr>, d')" "a2dp_inv remote c R l (block_of p + R) d'"
          using UpdateCodecCaps_memory [OF old(1-3)] n by auto
        then show ?thesis unfolding Some by (simp only: unless_fault_simps prod.case) blast
      qed
      ultimately show ?thesis by (cases "UpdateA2dpHpCodecCaps p (?io, d)") (simp_all add: case_prod_beta)
    next
      case f: False
      then have "p = None" using g(2) by blast
      then have "a2dp_siop_update remote e b (io, d) = Some (io \<lparr> io_log := l, io_pool := io_pool io \<rparr>, d)"
        using True g(1) f by (simp add: a2dp_siop_update_def)
      then show ?thesis using k by (simp only: unless_fault_simps prod.case) blast
    qed
  qed
qed

interpretation a2dp_notif: faulty_notification_handler "a2dp_notification remote e" "a2dp_inv remote c R" "\<not> codec_honest remote"
  for remote :: a2dp_remote and e and c :: A2dpHpDevice and R
proof
  fix io :: a2dp_io and d code b
  assume i: "a2dp_inv remote c R (io_log io) (io_pool io) d"
  note s = siop_update_ok [OF i, of e b]
  have k: "a2dp_inv remote c R (io_log io) (io_pool io) (a2dp_volume_update b d)"
      "a2dp_inv remote c R (io_log io) (io_pool io) (a2dp_mute_update b d)"
      "a2dp_inv remote c R (io_log io) (io_pool io) (a2dp_connection_update b d)"
    using i by (simp_all add: a2dp_inv_def)
  have same: "\<exists>l p. io = io \<lparr> io_log := l, io_pool := p \<rparr> \<and> a2dp_inv remote c R l p d'"
    if "a2dp_inv remote c R (io_log io) (io_pool io) d'" for d' using that same_io [of io] by blast
  show "unless_fault (\<not> codec_honest remote) (a2dp_notification remote e code b (io, d))
    (\<lambda>(resend, b', io', d'). \<exists>l p. io' = io \<lparr> io_log := l, io_pool := p \<rparr> \<and> a2dp_inv remote c R l p d')"
  proof (cases "\<exists>x. code = SBAUD_GET_SIOP_UPDATE x")
    case True
    then have "a2dp_notification remote e code b (io, d) = map_option (\<lambda>s. (True, b, s)) (a2dp_siop_update remote e b (io, d))"
      by (auto simp: a2dp_notification_def)
    then show ?thesis using s by (cases "a2dp_siop_update remote e b (io, d)") (simp_all add: case_prod_beta)
  next
    case False
    then show ?thesis using same [OF i] k [THEN same] by (cases code) (auto simp: a2dp_notification_def)
  qed
qed

section \<open>Memory\<close>

abbreviation (input) plain_pair :: "a2dp_custom_pair option \<Rightarrow> custom_pair option" where
  "plain_pair \<equiv> map_option custom_pair.truncate"

definition wave_block :: "a2dp_custom_pair option \<Rightarrow> pool_tag multiset" where
  "wave_block p = (case p of None \<Rightarrow> {#} | Some c \<Rightarrow> opt_block (cp_wave_properties c))"

definition a2dp_blocks :: "A2dpHpDevice \<Rightarrow> pool_tag multiset" where
  "a2dp_blocks d = block_of (ah_SymbolicLinkName d) + pair_blocks (plain_pair (ah_Miniports d)) + block_of (ah_Descriptor d)
     + block_of (ah_SpeakerDescriptor d) + block_of (ah_SupportedFormatsIntersection d) + block_of (ah_VolumePropValues d)
     + block_of (ah_MutePropValues d)"

definition a2dp_tags :: "A2dpHpDevice \<Rightarrow> bool" where
  "a2dp_tags d \<longleftrightarrow> tagged MINADAPTER_POOLTAG (ah_SymbolicLinkName d) \<and> pair_ok (plain_pair (ah_Miniports d))
     \<and> tagged MINADAPTER_POOLTAG (ah_Descriptor d) \<and> tagged MINADAPTER_POOLTAG (ah_SpeakerDescriptor d)
     \<and> tagged SYSVAD_POOLTAG (ah_SupportedFormatsIntersection d) \<and> tagged A2DPSIDEBANDTEST_POOLTAG02 (ah_VolumePropValues d)
     \<and> tagged A2DPSIDEBANDTEST_POOLTAG06 (ah_MutePropValues d)
     \<and> (ah_SpeakerDescriptor d \<noteq> None \<longrightarrow> read_block ar_whole (ah_SpeakerDescriptor d) \<noteq> None)"

text \<open>The capabilities: \<open>hc\<close> says that the headphones announce whole ones.\<close>

definition a2dp_caps :: "bool \<Rightarrow> A2dpHpDevice \<Rightarrow> bool" where
  "a2dp_caps hc d \<longleftrightarrow> tagged A2DPSIDEBANDTEST_POOLTAG07 (ah_ConnectedCodecCaps d) \<and> ah_ConnectedCodecLock d = MutexFree
     \<and> (hc \<longrightarrow> caps_size (ah_ConnectedCodecCaps d))"

definition a2dp_members :: "A2dpHpDevice \<Rightarrow> wdf_object multiset" where
  "a2dp_members d = (if ah_WdfIoTarget d then {#WdfIoTarget#} else {#}) + (if ah_WorkItem d then {#WdfWorkItem#} else {#})
     + (if ah_ReqCollection d then {#WdfCollection#} else {#})"

definition a2dp_req_objs :: "a2dp_io \<Rightarrow> wdf_object multiset" where
  "a2dp_req_objs io = sum_list (map (\<lambda>q. req_objs (req_mems io q)) a2dp_requests)"

text \<open>
  Blocks and objects of the device, with the wave properties of the pair, and the memory and objects
  \<open>P\<close> and \<open>X\<close> of others.
\<close>

definition a2dp_mem :: "bool \<Rightarrow> pool_tag multiset \<Rightarrow> wdf_object multiset \<Rightarrow> a2dp \<Rightarrow> bool" where
  "a2dp_mem hc P X = (\<lambda>(io, d).
       io_pool io = block_of (ah_ConnectedCodecCaps d) + (a2dp_blocks d + wave_block (ah_Miniports d) + P)
     \<and> io_objects io = a2dp_members d + a2dp_req_objs io + X \<and> a2dp_tags d \<and> a2dp_caps hc d)"

text \<open>
  The stream request is with the target only while a stream is open, with the index of the speaker; the
  event is set exactly when it is not with the target.
\<close>

definition a2dp_stream :: "a2dp \<Rightarrow> bool" where
  "a2dp_stream = (\<lambda>(io, d). (\<exists>r. io_reqs io A2dpStreamReq = Some r \<and> ah_StreamStatusEvent d = (\<not> Pending r)
     \<and> (Pending r \<longrightarrow> ap_EpIndex (Buffer r) = ah_EpIndex d \<and> 0 < ah_nStreams d))
     \<and> 0 \<le> ah_nStreams d \<and> 0 \<le> ah_nStartedStreams d)"

definition a2dp_ok :: "bool \<Rightarrow> pool_tag multiset \<Rightarrow> wdf_object multiset \<Rightarrow> a2dp \<Rightarrow> bool" where
  "a2dp_ok hc P X s \<longleftrightarrow> a2dp_mem hc P X s \<and> notifs_ok a2dp_notifications (fst s) \<and> a2dp_stream s
     \<and> (\<forall>q. req_mems (fst s) q = Some (True, True))"

text \<open>What a device owns, and what the operations of a running device leave alone.\<close>

definition a2dp_owned where
  "a2dp_owned d = ((ah_SymbolicLinkName d, ah_Miniports d, ah_Descriptor d, ah_SpeakerDescriptor d), ah_SupportedFormatsIntersection d,
     ah_VolumePropValues d, ah_MutePropValues d, ah_WdfIoTarget d, ah_WorkItem d, ah_ReqCollection d)"

definition a2dp_fixed where
  "a2dp_fixed d = (a2dp_owned d, ah_State d, ah_UnknownTopology d, ah_UnknownWave d, ah_EpIndex d)"

abbreviation a2dp_codec :: "A2dpHpDevice \<Rightarrow> codec_block \<times> fast_mutex" where
  "a2dp_codec d \<equiv> (ah_ConnectedCodecCaps d, ah_ConnectedCodecLock d)"

lemma a2dp_owned_parts:
  assumes "a2dp_owned d' = a2dp_owned d"
  shows "a2dp_blocks d' = a2dp_blocks d" "wave_block (ah_Miniports d') = wave_block (ah_Miniports d)" "a2dp_tags d' = a2dp_tags d"
    "a2dp_members d' = a2dp_members d"
  using assms by (simp_all add: a2dp_owned_def a2dp_blocks_def a2dp_tags_def a2dp_members_def)

lemma a2dp_req_objs_frame: "req_frame io io' \<Longrightarrow> a2dp_req_objs io' = a2dp_req_objs io"
  by (simp add: a2dp_req_objs_def req_frame_def)

lemma a2dp_req_objs_simps [simp]:
  "a2dp_req_objs (io \<lparr> io_objects := x \<rparr>) = a2dp_req_objs io" "a2dp_req_objs (io \<lparr> io_pool := p \<rparr>) = a2dp_req_objs io"
  "a2dp_req_objs (io \<lparr> io_log := l \<rparr>) = a2dp_req_objs io" "a2dp_req_objs (io \<lparr> io_purged := b \<rparr>) = a2dp_req_objs io"
  by (simp_all add: a2dp_req_objs_def)

lemma stream_not_notification [simp]: "A2dpStreamReq \<notin> set a2dp_notifications"
  by (simp add: a2dp_notifications_def)

lemma a2dp_notification_or_stream: "q \<in> set a2dp_notifications \<or> q = A2dpStreamReq"
  by (cases q) (simp_all add: a2dp_notifications_def)

section \<open>Preserving the account\<close>

lemma a2dp_mem_upd:
  assumes m: "a2dp_mem hc P X (io, d)" and f: "io_frame io io'" and o: "a2dp_owned d' = a2dp_owned d"
    and c: "a2dp_codec d' = a2dp_codec d"
  shows "a2dp_mem hc P X (io', d')"
  using m f a2dp_owned_parts [OF o] c a2dp_req_objs_frame [of io io']
  by (auto simp: a2dp_mem_def a2dp_caps_def io_frame_req req_frame_def)

lemma a2dp_ok_upd:
  assumes ok: "a2dp_ok hc P X (io, d)" and f: "io_frame io io'" and n: "notifs_ok a2dp_notifications io'"
    and o: "a2dp_owned d' = a2dp_owned d" and c: "a2dp_codec d' = a2dp_codec d" and st: "a2dp_stream (io', d')"
  shows "a2dp_ok hc P X (io', d')"
  using ok n st a2dp_mem_upd [OF _ f o c] io_frame_mems [OF f] by (simp add: a2dp_ok_def)

lemma a2dp_coreD:
  assumes "a2dp_core d' = a2dp_core d"
  shows "a2dp_owned d' = a2dp_owned d" "a2dp_fixed d' = a2dp_fixed d" "ah_StreamStatusEvent d' = ah_StreamStatusEvent d"
    "ah_nStreams d' = ah_nStreams d" "ah_nStartedStreams d' = ah_nStartedStreams d" "ah_EpIndex d' = ah_EpIndex d"
  using assms by (cases d; cases d'; simp add: a2dp_core_def a2dp_owned_def a2dp_fixed_def)+

lemma a2dp_fixedD:
  assumes "a2dp_fixed d' = a2dp_fixed d"
  shows "ah_State d' = ah_State d" "ah_UnknownTopology d' = ah_UnknownTopology d" "ah_UnknownWave d' = ah_UnknownWave d"
    "ah_SpeakerDescriptor d' = ah_SpeakerDescriptor d" "ah_Miniports d' = ah_Miniports d"
    "ah_SymbolicLinkName d' = ah_SymbolicLinkName d" "ah_Descriptor d' = ah_Descriptor d"
  using assms by (simp_all add: a2dp_fixed_def a2dp_owned_def)

text \<open>A change of the work item.\<close>

lemma a2dp_ok_work:
  assumes ok: "a2dp_ok hc P X (io, d)" and h: "hc = codec_honest remote" and f: "req_frame io io'" and n: "notifs_ok a2dp_notifications io'"
    and R: "io_pool io = block_of (ah_ConnectedCodecCaps d) + R"
    and i: "a2dp_inv remote (a2dp_core d) R (io_log io') (io_pool io') d'" and r: "io_reqs io' A2dpStreamReq = io_reqs io A2dpStreamReq"
  shows "a2dp_ok hc P X (io', d') \<and> a2dp_fixed d' = a2dp_fixed d"
proof -
  have c: "a2dp_core d' = a2dp_core d" using i by (simp add: a2dp_inv_def)
  note cd = a2dp_coreD [OF c] and op = a2dp_owned_parts [OF a2dp_coreD(1) [OF c]]
  have L: "io_pool io = block_of (ah_ConnectedCodecCaps d) + (a2dp_blocks d + wave_block (ah_Miniports d) + P)"
      "io_objects io = a2dp_members d + a2dp_req_objs io + X" "a2dp_tags d"
    using ok by (auto simp: a2dp_ok_def a2dp_mem_def)
  have "R = a2dp_blocks d + wave_block (ah_Miniports d) + P" using R L(1) by simp
  then have "io_pool io' = block_of (ah_ConnectedCodecCaps d') + (a2dp_blocks d' + wave_block (ah_Miniports d') + P)"
    using i op by (simp add: a2dp_inv_def)
  moreover have "io_objects io' = a2dp_members d' + a2dp_req_objs io' + X"
    using L(2) f a2dp_req_objs_frame [OF f] op by (simp add: req_frame_def)
  moreover have "a2dp_tags d'" using L(3) op by simp
  moreover have "a2dp_caps hc d'" using i h by (simp add: a2dp_inv_def a2dp_caps_def)
  ultimately have "a2dp_mem hc P X (io', d')" by (auto simp: a2dp_mem_def)
  then show ?thesis using ok n r f cd by (simp add: a2dp_ok_def a2dp_stream_def req_frame_def)
qed

lemma a2dp_inv_start:
  assumes "a2dp_ok hc P X (io, d)" and "hc = codec_honest remote"
  shows "\<exists>R. io_pool io = block_of (ah_ConnectedCodecCaps d) + R \<and> a2dp_inv remote (a2dp_core d) R (io_log io) (io_pool io) d"
  using assms by (auto simp: a2dp_ok_def a2dp_mem_def a2dp_inv_def a2dp_caps_def)

lemma a2dp_okD:
  assumes "a2dp_ok hc P X (io, d)"
  shows "notifs_ok a2dp_notifications io" "a2dp_stream (io, d)" "a2dp_mem hc P X (io, d)" "\<exists>r. io_reqs io q = Some r"
proof -
  show "notifs_ok a2dp_notifications io" "a2dp_stream (io, d)" "a2dp_mem hc P X (io, d)" using assms by (simp_all add: a2dp_ok_def)
  have "req_mems io q = Some (True, True)" using assms by (simp add: a2dp_ok_def)
  then show "\<exists>r. io_reqs io q = Some r" by auto
qed

lemma a2dp_ok_log [simp]: "a2dp_ok hc P X (io \<lparr> io_log := l \<rparr>, d) = a2dp_ok hc P X (io, d)"
  by (simp add: a2dp_ok_def a2dp_mem_def a2dp_stream_def)

lemma a2dp_call_log: "a2dp_call remote c io = (st, io') \<Longrightarrow> \<exists>l. io' = io \<lparr> io_log := l \<rparr>"
  "a2dp_call_busy remote c io = (st, io') \<Longrightarrow> \<exists>l. io' = io \<lparr> io_log := l \<rparr>"
  "a2dp_get_value remote c io = (st, v, io') \<Longrightarrow> \<exists>l. io' = io \<lparr> io_log := l \<rparr>"
  by (auto simp: a2dp_call_def a2dp_call_busy_def a2dp_get_value_def a2dp_SendIoCtrlSynchronously_def SendIoCtrlSynchronously_def
      split: prod.splits)

lemma stream_calls_log:
  "\<exists>st l. SetA2dpHpStreamOpen remote i f io = (st, io \<lparr> io_log := l \<rparr>)" "\<exists>st l. SetA2dpHpStreamStart remote i io = (st, io \<lparr> io_log := l \<rparr>)"
  "\<exists>st l. SetA2dpHpStreamSuspend remote i io = (st, io \<lparr> io_log := l \<rparr>)" "\<exists>st l. SetA2dpHpStreamClose remote i io = (st, io \<lparr> io_log := l \<rparr>)"
  unfolding SetA2dpHpStreamOpen_def SetA2dpHpStreamStart_def SetA2dpHpStreamSuspend_def SetA2dpHpStreamClose_def
  by (metis surj_pair a2dp_call_log)+

section \<open>Streams\<close>

lemma a2dp_enable_stream_eq:
  assumes r: "io_reqs io A2dpStreamReq = Some r" "\<not> Pending r"
  shows "\<exists>st r'. EnableA2dpHpSpeakerStreamStatusNotification e (io, d) = Some (st, io \<lparr> io_reqs := (io_reqs io)(A2dpStreamReq \<mapsto> r') \<rparr>,
       d \<lparr> ah_StreamStatusEvent := \<not> NT_SUCCESS st \<rparr>)
     \<and> MemIn r' = MemIn r \<and> MemOut r' = MemOut r \<and> Pending r' = NT_SUCCESS st \<and> ap_EpIndex (Buffer r') = ah_EpIndex d"
  using r by (auto simp: EnableA2dpHpSpeakerStreamStatusNotification_def a2dp_enable_def enable_notification_def SendIoCtrlAsynchronously_def)

lemma a2dp_notifs_stream:
  "notifs_ok a2dp_notifications io \<Longrightarrow>
     notifs_ok a2dp_notifications (io \<lparr> io_log := l, io_reqs := (io_reqs io)(A2dpStreamReq := x) \<rparr>)"
  using notifs_ok_other [of a2dp_notifications "io \<lparr> io_log := l \<rparr>" A2dpStreamReq x] by simp

lemma stream_frame:
  "io_reqs io A2dpStreamReq = Some r \<Longrightarrow> MemIn r' = MemIn r \<Longrightarrow> MemOut r' = MemOut r \<Longrightarrow>
     io_frame io (io \<lparr> io_log := l, io_reqs := (io_reqs io)(A2dpStreamReq \<mapsto> r') \<rparr>)"
  by (simp add: io_frame_def)

text \<open>The stream request with the target or back from it, and the other members of a stream changed.\<close>

lemma a2dp_ok_stream:
  assumes ok: "a2dp_ok hc P X (io, d)" and r: "io_reqs io A2dpStreamReq = Some r" "MemIn r' = MemIn r" "MemOut r' = MemOut r"
    and d: "a2dp_fixed d' = a2dp_fixed d" "a2dp_codec d' = a2dp_codec d"
    and ev: "ah_StreamStatusEvent d' = (\<not> Pending r')" "Pending r' \<longrightarrow> ap_EpIndex (Buffer r') = ah_EpIndex d \<and> 0 < ah_nStreams d'"
      "0 \<le> ah_nStreams d'" "0 \<le> ah_nStartedStreams d'"
  shows "a2dp_ok hc P X (io \<lparr> io_log := l, io_reqs := (io_reqs io)(A2dpStreamReq \<mapsto> r') \<rparr>, d')"
proof (rule a2dp_ok_upd [OF ok stream_frame [OF r] a2dp_notifs_stream [OF a2dp_okD(1) [OF ok]] _ d(2)])
  show "a2dp_owned d' = a2dp_owned d" using d(1) by (simp add: a2dp_fixed_def)
  have "ah_EpIndex d' = ah_EpIndex d" using d(1) by (simp add: a2dp_fixed_def)
  then show "a2dp_stream (io \<lparr> io_log := l, io_reqs := (io_reqs io)(A2dpStreamReq \<mapsto> r') \<rparr>, d')" using ev by (simp add: a2dp_stream_def)
qed

text \<open>Only members of the device are changed.\<close>

lemma a2dp_ok_members:
  assumes ok: "a2dp_ok hc P X (io, d)" and d: "a2dp_fixed d' = a2dp_fixed d" "a2dp_codec d' = a2dp_codec d"
    and ev: "ah_StreamStatusEvent d' = ah_StreamStatusEvent d" "ah_nStreams d \<le> ah_nStreams d' \<or> (0 \<le> ah_nStreams d' \<and> ah_StreamStatusEvent d)"
      "0 \<le> ah_nStartedStreams d'"
  shows "a2dp_ok hc P X (io, d')"
proof (rule a2dp_ok_upd [OF ok _ a2dp_okD(1) [OF ok] _ d(2)])
  show "a2dp_owned d' = a2dp_owned d" using d(1) by (simp add: a2dp_fixed_def)
  have "ah_EpIndex d' = ah_EpIndex d" using d(1) by (simp add: a2dp_fixed_def)
  then show "a2dp_stream (io, d')" using a2dp_okD(2) [OF ok] ev by (auto simp: a2dp_stream_def)
qed simp

lemmas a2dp_fixed_simps = a2dp_fixed_def a2dp_owned_def

lemma a2dp_open_ok:
  assumes ok: "a2dp_ok hc P X (io, d)"
  shows "\<exists>st io' d'. a2dp_SpeakerStreamOpen remote e (io, d) = Some (st, io', d') \<and> a2dp_ok hc P X (io', d') \<and> a2dp_fixed d' = a2dp_fixed d
    \<and> ah_nStreams d' = ah_nStreams d + (if NT_SUCCESS st then 1 else 0)"
proof -
  obtain r where r: "io_reqs io A2dpStreamReq = Some r" "ah_StreamStatusEvent d = (\<not> Pending r)" "Pending r \<longrightarrow> 0 < ah_nStreams d"
      "0 \<le> ah_nStreams d" "0 \<le> ah_nStartedStreams d"
    using a2dp_okD(2) [OF ok] by (auto simp: a2dp_stream_def)
  show ?thesis
  proof (cases "ah_nStreams d = 0")
    case False
    have "a2dp_ok hc P X (io, d \<lparr> ah_nStreams := ah_nStreams d + 1 \<rparr>)"
      by (rule a2dp_ok_members [OF ok]) (use r in \<open>simp_all add: a2dp_fixed_simps\<close>)
    then show ?thesis using False by (simp add: a2dp_SpeakerStreamOpen_def a2dp_fixed_simps)
  next
    case True
    obtain st l where o: "SetA2dpHpStreamOpen remote (ah_EpIndex d) (ah_SelectedFormat d) io = (st, io \<lparr> io_log := l \<rparr>)"
      using stream_calls_log(1) by blast
    let ?d1 = "d \<lparr> ah_nStreams := ah_nStreams d + 1 \<rparr>"
    let ?u = "\<lambda>d :: A2dpHpDevice. d \<lparr> ah_nStreams := ah_nStreams d - 1, ah_HwTransportResource := 0,
        ah_StreamStatus := STATUS_INVALID_DEVICE_STATE \<rparr>"
    show ?thesis
    proof (cases "NT_SUCCESS st")
      case False
      have "a2dp_ok hc P X (io, ?u ?d1)" by (rule a2dp_ok_members [OF ok]) (use r in \<open>simp_all add: a2dp_fixed_simps\<close>)
      then have "a2dp_ok hc P X (io \<lparr> io_log := l \<rparr>, ?u ?d1)" by simp
      then show ?thesis using False o True by (simp add: a2dp_SpeakerStreamOpen_def a2dp_fixed_simps)
    next
      case opened: True
      let ?io1 = "io \<lparr> io_log := l \<rparr>" and ?d2 = "?d1 \<lparr> ah_StreamStatus := STATUS_SUCCESS \<rparr>"
      have p: "\<not> Pending r" "io_reqs ?io1 A2dpStreamReq = Some r" using r True by auto
      obtain st2 r' where en: "EnableA2dpHpSpeakerStreamStatusNotification e (?io1, ?d2)
            = Some (st2, ?io1 \<lparr> io_reqs := (io_reqs ?io1)(A2dpStreamReq \<mapsto> r') \<rparr>, ?d2 \<lparr> ah_StreamStatusEvent := \<not> NT_SUCCESS st2 \<rparr>)"
          "MemIn r' = MemIn r" "MemOut r' = MemOut r" "Pending r' = NT_SUCCESS st2" "ap_EpIndex (Buffer r') = ah_EpIndex d"
        using a2dp_enable_stream_eq [OF p(2,1), of e ?d2] by auto
      note k = a2dp_ok_stream [OF ok r(1) en(2,3)]
      show ?thesis
      proof (cases "NT_SUCCESS st2")
        case True
        have "a2dp_ok hc P X (io \<lparr> io_log := l, io_reqs := (io_reqs io)(A2dpStreamReq \<mapsto> r') \<rparr>, ?d2 \<lparr> ah_StreamStatusEvent := False \<rparr>)"
          by (rule k) (use r en True \<open>ah_nStreams d = 0\<close> in \<open>simp_all add: a2dp_fixed_simps\<close>)
        then show ?thesis using True opened o en(1) \<open>ah_nStreams d = 0\<close> by (simp add: a2dp_SpeakerStreamOpen_def a2dp_fixed_simps)
      next
        case False
        let ?io2 = "?io1 \<lparr> io_reqs := (io_reqs ?io1)(A2dpStreamReq \<mapsto> r') \<rparr>" and ?d3 = "?d2 \<lparr> ah_StreamStatusEvent := True \<rparr>"
        obtain st3 l3 where c: "SetA2dpHpStreamClose remote (ah_EpIndex d) ?io2 = (st3, ?io2 \<lparr> io_log := l3 \<rparr>)"
          using stream_calls_log(4) by blast
        have "a2dp_ok hc P X (io \<lparr> io_log := l, io_reqs := (io_reqs io)(A2dpStreamReq \<mapsto> r') \<rparr>, ?u ?d3)"
          by (rule k) (use r en False in \<open>simp_all add: a2dp_fixed_simps\<close>)
        then have "a2dp_ok hc P X (?io2 \<lparr> io_log := l3 \<rparr>, ?u ?d3)" by (simp only: a2dp_ok_log) simp
        then show ?thesis using False opened o en(1) c True by (simp add: a2dp_SpeakerStreamOpen_def a2dp_fixed_simps)
      qed
    qed
  qed
qed

lemma a2dp_completion_eq:
  assumes "io_reqs io A2dpStreamReq = Some r" "Pending r" and "ap_EpIndex b = ah_EpIndex d"
  shows "EvtA2dpHpDeviceStreamStatusCompletion st b (io, d) = Some
     (io \<lparr> io_reqs := (io_reqs io)(A2dpStreamReq \<mapsto> r \<lparr> Pending := False, IoStatus := st, Buffer := b \<rparr>) \<rparr>,
      d \<lparr> ah_StreamStatus := (if NT_SUCCESS st then ap_Value b else STATUS_INVALID_DEVICE_STATE), ah_StreamStatusEvent := True \<rparr>)"
  using assms by (simp add: EvtA2dpHpDeviceStreamStatusCompletion_def)

lemma a2dp_completion_ok:
  assumes ok: "a2dp_ok hc P X (io, d)" and r: "io_reqs io A2dpStreamReq = Some r" "Pending r" and b: "ap_EpIndex b = ah_EpIndex d"
  shows "\<exists>io' d'. EvtA2dpHpDeviceStreamStatusCompletion st b (io, d) = Some (io', d') \<and> a2dp_ok hc P X (io', d')
    \<and> a2dp_fixed d' = a2dp_fixed d \<and> \<not> pending_in io' A2dpStreamReq \<and> io_purged io' = io_purged io
    \<and> (\<forall>q. q \<noteq> A2dpStreamReq \<longrightarrow> io_reqs io' q = io_reqs io q)"
proof -
  have "a2dp_ok hc P X (io \<lparr> io_log := io_log io, io_reqs := (io_reqs io)(A2dpStreamReq \<mapsto> r \<lparr> Pending := False, IoStatus := st, Buffer := b \<rparr>) \<rparr>,
      d \<lparr> ah_StreamStatus := (if NT_SUCCESS st then ap_Value b else STATUS_INVALID_DEVICE_STATE), ah_StreamStatusEvent := True \<rparr>)"
    by (rule a2dp_ok_stream [OF ok r(1)]) (use a2dp_okD(2) [OF ok] in \<open>simp_all add: a2dp_stream_def a2dp_fixed_simps\<close>)
  then show ?thesis using a2dp_completion_eq [OF r b, of st] by (auto simp: a2dp_fixed_simps pending_in_def)
qed

text \<open>Cancelling always completes the request with the index that sets the event.\<close>

lemma a2dp_cancel_ok:
  assumes ok: "a2dp_ok hc P X (io, d)"
  shows "\<exists>io' d'. a2dp_cancel_stream (io, d) = Some (io', d') \<and> a2dp_ok hc P X (io', d') \<and> a2dp_fixed d' = a2dp_fixed d
    \<and> \<not> pending_in io' A2dpStreamReq \<and> io_purged io' = io_purged io \<and> (\<forall>q. q \<noteq> A2dpStreamReq \<longrightarrow> io_reqs io' q = io_reqs io q)"
proof -
  obtain r where r: "io_reqs io A2dpStreamReq = Some r" "Pending r \<longrightarrow> ap_EpIndex (Buffer r) = ah_EpIndex d"
    using a2dp_okD(2) [OF ok] by (auto simp: a2dp_stream_def)
  show ?thesis
  proof (cases "Pending r")
    case True
    then show ?thesis using a2dp_completion_ok [OF ok r(1) True, of "Buffer r" STATUS_CANCELLED] r by (auto simp: a2dp_cancel_stream_def)
  qed (use r ok in \<open>simp add: a2dp_cancel_stream_def pending_in_def\<close>)
qed

lemma a2dp_close_ok:
  assumes ok: "a2dp_ok hc P X (io, d)" and n: "0 < ah_nStreams d"
  shows "\<exists>st io' d'. a2dp_SpeakerStreamClose remote reuse (io, d) = Some (st, io', d') \<and> a2dp_ok hc P X (io', d') \<and> a2dp_fixed d' = a2dp_fixed d
    \<and> ah_nStreams d' = ah_nStreams d - 1"
proof (cases "ah_nStreams d = 1")
  case False
  obtain r where r: "io_reqs io A2dpStreamReq = Some r" "ah_StreamStatusEvent d = (\<not> Pending r)"
      "Pending r \<longrightarrow> ap_EpIndex (Buffer r) = ah_EpIndex d" "0 \<le> ah_nStartedStreams d"
    using a2dp_okD(2) [OF ok] by (auto simp: a2dp_stream_def)
  have "a2dp_stream (io, d \<lparr> ah_nStreams := ah_nStreams d - 1 \<rparr>)" using r n False by (simp add: a2dp_stream_def)
  then have "a2dp_ok hc P X (io, d \<lparr> ah_nStreams := ah_nStreams d - 1 \<rparr>)"
    by (intro a2dp_ok_upd [OF ok _ a2dp_okD(1) [OF ok]]) (simp_all add: a2dp_owned_def)
  then show ?thesis using False by (simp add: a2dp_SpeakerStreamClose_def a2dp_fixed_simps)
next
  case True
  obtain st l where c: "SetA2dpHpStreamClose remote (ah_EpIndex d) io = (st, io \<lparr> io_log := l \<rparr>)" using stream_calls_log(4) by blast
  obtain r where r: "io_reqs io A2dpStreamReq = Some r" "ah_StreamStatusEvent d = (\<not> Pending r)"
      "Pending r \<longrightarrow> ap_EpIndex (Buffer r) = ah_EpIndex d" "0 \<le> ah_nStartedStreams d"
    using a2dp_okD(2) [OF ok] by (auto simp: a2dp_stream_def)
  let ?d1 = "d \<lparr> ah_nStreams := ah_nStreams d - 1, ah_HwTransportResource := 0 \<rparr>" and ?io1 = "io \<lparr> io_log := l \<rparr>"
  obtain v r' where e: "StopA2dpHpSpeakerStreamStatusNotification reuse (?io1, ?d1) = Some (STATUS_SUCCESS,
       io \<lparr> io_log := l, io_reqs := (io_reqs io)(A2dpStreamReq \<mapsto> r') \<rparr>, ?d1 \<lparr> ah_StreamStatus := v, ah_StreamStatusEvent := True \<rparr>)"
     "MemIn r' = MemIn r" "MemOut r' = MemOut r" "\<not> Pending r'"
  proof (cases "Pending r")
    case True
    then show ?thesis using that a2dp_completion_eq [of ?io1 r "Buffer r" ?d1 STATUS_CANCELLED] r
      by (simp add: StopA2dpHpSpeakerStreamStatusNotification_def a2dp_cancel_stream_def)
  next
    case False
    have "(io_reqs io)(A2dpStreamReq \<mapsto> r) = io_reqs io" using r by auto
    moreover have "?d1 \<lparr> ah_StreamStatus := ah_StreamStatus d, ah_StreamStatusEvent := True \<rparr> = ?d1" using r False by (cases d) simp
    ultimately show ?thesis using that [of r "ah_StreamStatus d"] r False
      by (simp add: StopA2dpHpSpeakerStreamStatusNotification_def a2dp_cancel_stream_def)
  qed
  let ?d3 = "?d1 \<lparr> ah_StreamStatusEvent := True, ah_StreamStatus := STATUS_INVALID_DEVICE_STATE \<rparr>"
  have "a2dp_ok hc P X (io \<lparr> io_log := l, io_reqs := (io_reqs io)(A2dpStreamReq \<mapsto> r') \<rparr>, ?d3)"
    by (rule a2dp_ok_stream [OF ok r(1) e(2,3)]) (use e(4) True r in \<open>simp_all add: a2dp_fixed_simps\<close>)
  then show ?thesis using True c e(1) by (simp add: a2dp_SpeakerStreamClose_def a2dp_fixed_simps)
qed

text \<open>A stream that could not be started is counted as started.\<close>

lemma a2dp_start_ok:
  assumes ok: "a2dp_ok hc P X (io, d)"
  shows "\<exists>st l. a2dp_SpeakerStreamStart remote (io, d) = (st, io \<lparr> io_log := l \<rparr>, d \<lparr> ah_nStartedStreams := ah_nStartedStreams d + 1 \<rparr>)"
    "a2dp_ok hc P X (io, d \<lparr> ah_nStartedStreams := ah_nStartedStreams d + 1 \<rparr>)"
proof -
  show "\<exists>st l. a2dp_SpeakerStreamStart remote (io, d) = (st, io \<lparr> io_log := l \<rparr>, d \<lparr> ah_nStartedStreams := ah_nStartedStreams d + 1 \<rparr>)"
  proof (cases "ah_nStartedStreams d = 0")
    case True
    then show ?thesis using stream_calls_log(2) [of remote "ah_EpIndex d" io] by (auto simp: a2dp_SpeakerStreamStart_def Let_def)
  next
    case False
    then have "a2dp_SpeakerStreamStart remote (io, d) = (STATUS_SUCCESS, io \<lparr> io_log := io_log io \<rparr>,
        d \<lparr> ah_nStartedStreams := ah_nStartedStreams d + 1 \<rparr>)" by (simp add: a2dp_SpeakerStreamStart_def)
    then show ?thesis by blast
  qed
  show "a2dp_ok hc P X (io, d \<lparr> ah_nStartedStreams := ah_nStartedStreams d + 1 \<rparr>)"
    by (rule a2dp_ok_members [OF ok]) (use a2dp_okD(2) [OF ok] in \<open>simp_all add: a2dp_fixed_simps a2dp_stream_def\<close>)
qed

lemma a2dp_suspend_ok:
  assumes ok: "a2dp_ok hc P X (io, d)" and n: "0 < ah_nStartedStreams d"
  shows "\<exists>st l. a2dp_SpeakerStreamSuspend remote (io, d) = (st, io \<lparr> io_log := l \<rparr>, d \<lparr> ah_nStartedStreams := ah_nStartedStreams d - 1 \<rparr>)"
    "a2dp_ok hc P X (io, d \<lparr> ah_nStartedStreams := ah_nStartedStreams d - 1 \<rparr>)"
proof -
  show "\<exists>st l. a2dp_SpeakerStreamSuspend remote (io, d) = (st, io \<lparr> io_log := l \<rparr>, d \<lparr> ah_nStartedStreams := ah_nStartedStreams d - 1 \<rparr>)"
  proof (cases "ah_nStartedStreams d = 1")
    case True
    then show ?thesis using stream_calls_log(3) [of remote "ah_EpIndex d" io] by (auto simp: a2dp_SpeakerStreamSuspend_def Let_def)
  next
    case False
    then have "a2dp_SpeakerStreamSuspend remote (io, d) = (STATUS_SUCCESS, io \<lparr> io_log := io_log io \<rparr>,
        d \<lparr> ah_nStartedStreams := ah_nStartedStreams d - 1 \<rparr>)" by (simp add: a2dp_SpeakerStreamSuspend_def)
    then show ?thesis by blast
  qed
  show "a2dp_ok hc P X (io, d \<lparr> ah_nStartedStreams := ah_nStartedStreams d - 1 \<rparr>)"
    by (rule a2dp_ok_members [OF ok]) (use n in \<open>simp_all add: a2dp_fixed_simps\<close>)
qed

section \<open>Events of a running device\<close>

text \<open>
  What the miniports, the headphones and the framework do to a running device. The wave miniport calls
  while the device has a wave filter, and closes and suspends what it opened and started. The headphones
  complete a request they have, the stream request with the index that was asked for.
\<close>

datatype a2dp_event =
    AvOpen send_env a2dp_device_type
  | AvClose NTSTATUS a2dp_device_type
  | AvStart a2dp_device_type
  | AvSuspend a2dp_device_type
  | AvComplete a2dp_req NTSTATUS NTSTATUS a2dp_params
  | AvBegin
  | AvRound codec_env "a2dp_req round_env"
  | AvVolume a2dp_device_type LONG
  | AvWriteVolume a2dp_device_type LONG LONG
  | AvMute a2dp_device_type LONG
  | AvWriteMute a2dp_device_type LONG LONG
  | AvHandler usb_callback a2dp_device_type "event_callback option"

fun a2dp_do :: "a2dp_remote \<Rightarrow> a2dp_event \<Rightarrow> a2dp \<Rightarrow> a2dp option" where
  "a2dp_do remote (AvOpen e t) (io, d) =
     (if ah_UnknownWave d \<noteq> None then map_option snd (a2dp_StreamOpen remote e t (io, d)) else Some (io, d))"
| "a2dp_do remote (AvClose reuse t) (io, d) =
     (if 0 < ah_nStreams d then map_option snd (a2dp_StreamClose remote reuse t (io, d)) else Some (io, d))"
| "a2dp_do remote (AvStart t) (io, d) =
     (if ah_UnknownWave d \<noteq> None then Some (snd (a2dp_StreamStart remote t (io, d))) else Some (io, d))"
| "a2dp_do remote (AvSuspend t) (io, d) =
     (if 0 < ah_nStartedStreams d then Some (snd (a2dp_StreamSuspend remote t (io, d))) else Some (io, d))"
| "a2dp_do remote (AvComplete q add st b) (io, d) =
     (if \<not> pending_in io q then Some (io, d)
      else if q = A2dpStreamReq then
        (if ap_EpIndex b = ah_EpIndex d then EvtA2dpHpDeviceStreamStatusCompletion st b (io, d) else Some (io, d))
      else map_option (\<lambda>io'. (io', d)) (a2dp_NotificationStatusCompletion add st b q io))"
| "a2dp_do remote AvBegin (io, d) = Some (if io_queued io \<and> \<not> io_busy io then (begin_work io, d) else (io, d))"
| "a2dp_do remote (AvRound ce e) (io, d) = (if io_busy io then a2dp_work_round remote ce e (io, d) else Some (io, d))"
| "a2dp_do remote (AvVolume t ch) s = Some (snd (snd (a2dp_GetVolume remote t ch s)))"
| "a2dp_do remote (AvWriteVolume t ch v) s = Some (snd (a2dp_SetVolume remote t ch v s))"
| "a2dp_do remote (AvMute t ch) s = Some (snd (a2dp_GetMute remote t ch s))"
| "a2dp_do remote (AvWriteMute t ch v) s = Some (snd (a2dp_SetMute remote t ch v s))"
| "a2dp_do remote (AvHandler c t h) s = Some (fst s, a2dp_set_handler c t h (snd s))"

fun a2dp_run :: "a2dp_remote \<Rightarrow> a2dp_event list \<Rightarrow> a2dp \<Rightarrow> a2dp option" where
  "a2dp_run remote [] s = Some s"
| "a2dp_run remote (e # es) s = do { s1 \<leftarrow> a2dp_do remote e s; a2dp_run remote es s1 }"

abbreviation (input) a2dp_kept :: "bool \<Rightarrow> pool_tag multiset \<Rightarrow> wdf_object multiset \<Rightarrow> A2dpHpDevice \<Rightarrow> a2dp \<Rightarrow> bool" where
  "a2dp_kept hc P X d s \<equiv> a2dp_ok hc P X s \<and> a2dp_fixed (snd s) = a2dp_fixed d"

text \<open>Changes of the volume, the mute state and the callbacks.\<close>

lemma a2dp_ok_values:
  assumes ok: "a2dp_ok hc P X (io, d)"
  shows "a2dp_kept hc P X d (io \<lparr> io_log := l \<rparr>, d \<lparr> ah_VolumeLevel := v \<rparr>)" "a2dp_kept hc P X d (io \<lparr> io_log := l \<rparr>, d \<lparr> ah_Mute := v \<rparr>)"
    "a2dp_kept hc P X d (io, d \<lparr> ah_Callbacks := c \<rparr>)" "a2dp_kept hc P X d (io \<lparr> io_log := l \<rparr>, d)"
proof -
  have "a2dp_ok hc P X (io, d \<lparr> ah_VolumeLevel := v \<rparr>)" "a2dp_ok hc P X (io, d \<lparr> ah_Mute := v \<rparr>)" "a2dp_ok hc P X (io, d \<lparr> ah_Callbacks := c \<rparr>)"
    by (rule a2dp_ok_members [OF ok]; use a2dp_okD(2) [OF ok] in \<open>simp add: a2dp_fixed_simps a2dp_stream_def\<close>)+
  then show "a2dp_kept hc P X d (io \<lparr> io_log := l \<rparr>, d \<lparr> ah_VolumeLevel := v \<rparr>)" "a2dp_kept hc P X d (io \<lparr> io_log := l \<rparr>, d \<lparr> ah_Mute := v \<rparr>)"
    "a2dp_kept hc P X d (io, d \<lparr> ah_Callbacks := c \<rparr>)" "a2dp_kept hc P X d (io \<lparr> io_log := l \<rparr>, d)"
    using ok by (simp_all add: a2dp_fixed_simps)
qed

lemma a2dp_calls:
  "\<exists>st l. SetA2dpHpSpeakerVolume remote ch v (io, d) = (st, io \<lparr> io_log := l \<rparr>, d)"
  "\<exists>st l. SetA2dpHpSpeakerMute remote ch v (io, d) = (st, io \<lparr> io_log := l \<rparr>, d)"
  "\<exists>st x l. GetA2dpHpSpeakerVolume remote ch (io, d) = (st, x, io \<lparr> io_log := l \<rparr>, d)"
  "\<exists>st x l. GetA2dpHpSpeakerMute remote ch (io, d) = (st, x, io \<lparr> io_log := l \<rparr>, d)"
  by (auto simp: SetA2dpHpSpeakerVolume_def SetA2dpHpSpeakerMute_def GetA2dpHpSpeakerVolume_def GetA2dpHpSpeakerMute_def
      split: prod.split dest!: a2dp_call_log)

lemma a2dp_calls_ok:
  assumes ok: "a2dp_ok hc P X (io, d)"
  shows "a2dp_kept hc P X d (snd (snd (a2dp_GetVolume remote t ch (io, d))))" "a2dp_kept hc P X d (snd (a2dp_SetVolume remote t ch v (io, d)))"
    "a2dp_kept hc P X d (snd (a2dp_GetMute remote t ch (io, d)))" "a2dp_kept hc P X d (snd (a2dp_SetMute remote t ch v (io, d)))"
    "a2dp_kept hc P X d (io, a2dp_set_handler c t h d)"
proof -
  note k = a2dp_ok_values [OF ok]
  obtain st1 l1 where 1: "SetA2dpHpSpeakerVolume remote ch v (io, d) = (st1, io \<lparr> io_log := l1 \<rparr>, d)" using a2dp_calls(1) by blast
  obtain st2 l2 where 2: "SetA2dpHpSpeakerMute remote ch v (io, d) = (st2, io \<lparr> io_log := l2 \<rparr>, d)" using a2dp_calls(2) by blast
  obtain st3 x3 l3 where 3: "GetA2dpHpSpeakerVolume remote ch (io, d) = (st3, x3, io \<lparr> io_log := l3 \<rparr>, d)" using a2dp_calls(3) by blast
  obtain st4 x4 l4 where 4: "GetA2dpHpSpeakerMute remote ch (io, d) = (st4, x4, io \<lparr> io_log := l4 \<rparr>, d)" using a2dp_calls(4) by blast
  show "a2dp_kept hc P X d (snd (snd (a2dp_GetVolume remote t ch (io, d))))" using 3 k ok by (simp add: a2dp_GetVolume_def del: a2dp_ok_log)
  show "a2dp_kept hc P X d (snd (a2dp_SetVolume remote t ch v (io, d)))" using 1 k ok by (simp add: a2dp_SetVolume_def del: a2dp_ok_log)
  show "a2dp_kept hc P X d (snd (a2dp_GetMute remote t ch (io, d)))" using 4 k ok by (simp add: a2dp_GetMute_def del: a2dp_ok_log)
  show "a2dp_kept hc P X d (snd (a2dp_SetMute remote t ch v (io, d)))" using 2 k ok by (simp add: a2dp_SetMute_def del: a2dp_ok_log)
  show "a2dp_kept hc P X d (io, a2dp_set_handler c t h d)" using k ok by (simp add: a2dp_set_handler_def)
qed

lemma a2dp_notification_ok:
  assumes ok: "a2dp_ok hc P X (io, d)" and p: "pending_in io q" and q: "q \<noteq> A2dpStreamReq"
  shows "\<exists>io'. a2dp_NotificationStatusCompletion add st b q io = Some io' \<and> a2dp_ok hc P X (io', d)"
proof -
  obtain r where r: "io_reqs io q = Some r" "Pending r" using p by (auto simp: pending_in_def split: option.splits)
  have n: "q \<in> set a2dp_notifications" using q a2dp_notification_or_stream by blast
  from Completion_ok [OF a2dp_okD(1) [OF ok] n r, of add st b] obtain io' where
    c: "NotificationStatusCompletion add st b q io = Some io'" "notifs_ok a2dp_notifications io'" "io_frame io io'"
      "\<forall>p. p \<noteq> q \<longrightarrow> io_reqs io' p = io_reqs io p" by blast
  have "a2dp_stream (io', d)" using a2dp_okD(2) [OF ok] c(4) q by (simp add: a2dp_stream_def)
  then show ?thesis using a2dp_ok_upd [OF ok c(3,2)] c(1) by (simp add: a2dp_NotificationStatusCompletion_def)
qed

lemma a2dp_round_kept:
  assumes ok: "a2dp_ok hc P X (io, d)" and h: "hc = codec_honest remote"
  shows "unless_fault (\<not> hc) (a2dp_work_round remote ce e (io, d)) (a2dp_kept hc P X d)"
proof -
  obtain R where R: "io_pool io = block_of (ah_ConnectedCodecCaps d) + R" "a2dp_inv remote (a2dp_core d) R (io_log io) (io_pool io) d"
    using a2dp_inv_start [OF ok h] by blast
  show ?thesis unfolding a2dp_work_round_def h
    by (rule unless_fault_mono [OF a2dp_notif.round_ok [OF a2dp_okD(1) [OF ok] R(2)]])
      (use a2dp_ok_work [OF ok h _ _ R(1)] h in auto)
qed

text \<open>Only a round of the work item may fault, and only when the capabilities are too short.\<close>

lemma a2dp_do_ok:
  assumes ok: "a2dp_ok hc P X (io, d)" and h: "hc = codec_honest remote"
  shows "unless_fault (\<not> hc) (a2dp_do remote e (io, d)) (a2dp_kept hc P X d)"
proof (cases e)
  case (AvOpen se t)
  then show ?thesis using a2dp_open_ok [OF ok, of remote se] ok by (auto simp: a2dp_StreamOpen_def)
next
  case (AvClose reuse t)
  then show ?thesis using a2dp_close_ok [OF ok, of remote reuse] ok by (auto simp: a2dp_StreamClose_def)
next
  case (AvStart t)
  obtain st l where s: "a2dp_SpeakerStreamStart remote (io, d)
      = (st, io \<lparr> io_log := l \<rparr>, d \<lparr> ah_nStartedStreams := ah_nStartedStreams d + 1 \<rparr>)" using a2dp_start_ok(1) [OF ok] by blast
  show ?thesis using AvStart s a2dp_start_ok(2) [OF ok] ok by (simp add: a2dp_StreamStart_def a2dp_fixed_simps)
next
  case (AvSuspend t)
  show ?thesis
  proof (cases "0 < ah_nStartedStreams d")
    case True
    obtain st l where s: "a2dp_SpeakerStreamSuspend remote (io, d)
        = (st, io \<lparr> io_log := l \<rparr>, d \<lparr> ah_nStartedStreams := ah_nStartedStreams d - 1 \<rparr>)" using a2dp_suspend_ok(1) [OF ok True] by blast
    show ?thesis using AvSuspend s a2dp_suspend_ok(2) [OF ok True] ok by (simp add: a2dp_StreamSuspend_def a2dp_fixed_simps)
  qed (use AvSuspend ok in simp)
next
  case (AvComplete q add st b)
  show ?thesis
  proof (cases "pending_in io q")
    case p: True
    show ?thesis
    proof (cases "q = A2dpStreamReq")
      case True
      obtain r where r: "io_reqs io A2dpStreamReq = Some r" "Pending r" using p True by (auto simp: pending_in_def split: option.splits)
      then show ?thesis using a2dp_completion_ok [OF ok r, of b st] p True AvComplete ok by auto
    next
      case False
      then show ?thesis using a2dp_notification_ok [OF ok p False, of add st b] p AvComplete by auto
    qed
  qed (use AvComplete ok in simp)
next
  case AvBegin
  have "a2dp_ok hc P X (begin_work io, d)"
    using a2dp_ok_upd [OF ok, of "begin_work io" d] notifs_ok_work [OF a2dp_okD(1) [OF ok]] a2dp_okD(2) [OF ok]
    by (simp add: begin_work_def io_frame_def a2dp_stream_def)
  then show ?thesis using AvBegin ok by simp
next
  case (AvRound ce ne)
  then show ?thesis using a2dp_round_kept [OF ok h] ok by simp
qed (use a2dp_calls_ok [OF ok] in simp_all)

lemma a2dp_run_ok:
  "a2dp_ok hc P X (io, d) \<Longrightarrow> hc = codec_honest remote \<Longrightarrow> unless_fault (\<not> hc) (a2dp_run remote es (io, d)) (a2dp_kept hc P X d)"
proof (induction es arbitrary: io d)
  case (Cons e es)
  have "unless_fault (\<not> hc) (Option.bind (a2dp_do remote e (io, d)) (a2dp_run remote es)) (a2dp_kept hc P X d)"
  proof (rule unless_fault_bind [OF a2dp_do_ok [OF Cons.prems]])
    fix s assume s: "a2dp_kept hc P X d s"
    obtain io1 d1 where s1: "s = (io1, d1)" by (cases s)
    then show "unless_fault (\<not> hc) (a2dp_run remote es s) (a2dp_kept hc P X d)"
      using s Cons.IH [of io1 d1] Cons.prems(2) by simp
  qed
  then show ?case by simp
qed simp

end
