(* ===== verification/A2dpLife.thy ===== *)
theory A2dpLife
  imports A2dpSafety
begin

text \<open>
  The life of the A2DP headphones: Init, Start and Stop establish and keep the invariant of theory
  A2dpSafety on every path, and what the destructor does with what the device owns.
\<close>

section \<open>Init\<close>

text \<open>What holds all through Init, and the members step number \<open>k\<close> and the later ones have to create.\<close>

definition a2dp_fresh :: "A2dpHpDevice \<Rightarrow> bool" where
  "a2dp_fresh d \<longleftrightarrow> ah_Miniports d = None \<and> ah_UnknownTopology d = None \<and> ah_UnknownWave d = None \<and> ah_Descriptor d = None
     \<and> ah_SpeakerDescriptor d = None \<and> ah_VolumePropValues d = None \<and> ah_MutePropValues d = None \<and> ah_ConnectedCodecCaps d = None
     \<and> ah_ConnectedCodecLock d = MutexFree
     \<and> ah_SupportedFormatsIntersection d = None \<and> ah_nStreams d = 0 \<and> ah_nStartedStreams d = 0 \<and> ah_StreamStatusEvent d"

definition a2dp_initial :: "pool_tag multiset \<Rightarrow> wdf_object multiset \<Rightarrow> a2dp \<Rightarrow> bool" where
  "a2dp_initial P X = (\<lambda>(io, d). io_pool io = block_of (ah_SymbolicLinkName d) + P
     \<and> io_objects io = a2dp_members d + a2dp_req_objs io + X \<and> tagged MINADAPTER_POOLTAG (ah_SymbolicLinkName d)
     \<and> io_collection io = [] \<and> \<not> io_queued io \<and> \<not> io_busy io
     \<and> (\<forall>q r. io_reqs io q = Some r \<longrightarrow> Errors r = 0 \<and> \<not> Pending r) \<and> a2dp_fresh d)"

definition a2dp_todo :: "nat \<Rightarrow> a2dp \<Rightarrow> bool" where
  "a2dp_todo k = (\<lambda>(io, d). (\<forall>q. io_reqs io q = None) \<and> (k \<le> 0 \<longrightarrow> \<not> ah_WorkItem d) \<and> (k \<le> 1 \<longrightarrow> \<not> ah_ReqCollection d)
     \<and> (k \<le> 2 \<longrightarrow> \<not> ah_WdfIoTarget d) \<and> (k \<le> 4 \<longrightarrow> ah_SymbolicLinkName d = None))"

lemma a2dp_members_ok:
  assumes "io_fresh io" and "ah_SpeakerDescriptor d = None"
  shows "a2dp_initial (io_pool io) (io_objects io) (io \<lparr> io_reqs := Map.empty \<rparr>, a2dp_Init_members d)
    \<and> a2dp_todo 0 (io \<lparr> io_reqs := Map.empty \<rparr>, a2dp_Init_members d)"
  using assms by (simp add: a2dp_initial_def a2dp_todo_def a2dp_Init_members_def a2dp_zero_codec_caps_def Let_def a2dp_fresh_def a2dp_members_def a2dp_req_objs_def
      a2dp_requests_def io_fresh_def)

lemma a2dp_basics_ok:
  "step_spec (\<lambda>s. a2dp_initial P X s \<and> a2dp_todo 0 s) (run_steps (a2dp_Init_basics e link))
     (\<lambda>s. a2dp_initial P X s \<and> a2dp_todo 5 s) (a2dp_initial P X)"
proof -
  let ?S = "\<lambda>k s. a2dp_initial P X s \<and> a2dp_todo k s"
  note defs = step_spec_def a2dp_initial_def a2dp_todo_def a2dp_members_def a2dp_fresh_def
  have 0: "step_spec (?S 0) (a2dp_Init_workitem (ai_workitem e)) (?S 1) (a2dp_initial P X)"
    by (auto simp: defs a2dp_Init_workitem_def wdf_create_def)
  have 1: "step_spec (?S 1) (a2dp_Init_collection (ai_collection e)) (?S 2) (a2dp_initial P X)"
    by (auto simp: defs a2dp_Init_collection_def wdf_create_def)
  have 2: "step_spec (?S 2) (a2dp_Init_target (ai_target e)) (?S 3) (a2dp_initial P X)"
    by (auto simp: defs a2dp_Init_target_def wdf_create_def)
  have 3: "step_spec (?S 3) (a2dp_Init_open (ai_open e)) (?S 4) (a2dp_initial P X)"
    by (auto simp: defs a2dp_Init_open_def)
  have 4: "step_spec (?S 4) (a2dp_Init_link (ai_name e) link) (?S 5) (a2dp_initial P X)"
    by (auto simp: defs a2dp_Init_link_def pool_alloc_def)
  show ?thesis unfolding a2dp_Init_basics_def
    by (rule step_spec_Cons [OF 0 step_spec_Cons [OF 1 step_spec_Cons [OF 2 step_spec_Cons [OF 3 step_spec_Cons [OF 4
            step_spec_Nil]]]]])
qed

lemma a2dp_requests_all: "q \<in> set a2dp_requests"
  by (cases q) (simp_all add: a2dp_requests_def)

lemma a2dp_req_objs_new:
  assumes "io_reqs io q = None" and "\<forall>p. p \<noteq> q \<longrightarrow> io_reqs io' p = io_reqs io p"
  shows "a2dp_req_objs io' = req_objs (req_mems io' q) + a2dp_req_objs io"
  using assms by (cases q) (simp_all add: a2dp_req_objs_def a2dp_requests_def)

lemma a2dp_Init_request_ok:
  assumes ok: "a2dp_initial P X (io, d)" and n: "io_reqs io q = None"
  shows "\<exists>st io'. a2dp_Init_request e q (io, d) = Some (st, io', d) \<and> a2dp_initial P X (io', d)
    \<and> (\<forall>p. p \<noteq> q \<longrightarrow> io_reqs io' p = io_reqs io p) \<and> (NT_SUCCESS st \<longrightarrow> req_mems io' q = Some (True, True))"
proof -
  obtain st io' where c: "create_request e q (SBAUD_GET_DEVICE_DESCRIPTOR 0) zero_a2dp_params io = (st, io')" "io_pool io' = io_pool io"
      "io_objects io' = req_objs (req_mems io' q) + io_objects io" "\<forall>p. p \<noteq> q \<longrightarrow> io_reqs io' p = io_reqs io p"
      "io_collection io' = io_collection io" "io_queued io' = io_queued io" "io_busy io' = io_busy io"
      "\<forall>r. io_reqs io' q = Some r \<longrightarrow> Errors r = 0 \<and> \<not> Pending r" "NT_SUCCESS st \<longrightarrow> req_mems io' q = Some (True, True)"
    using create_request_objs [OF n, of e "SBAUD_GET_DEVICE_DESCRIPTOR 0" zero_a2dp_params] by blast
  have "Errors r = 0 \<and> \<not> Pending r" if "io_reqs io' p = Some r" for p r
    using that c(4,8) ok by (cases "p = q") (auto simp: a2dp_initial_def)
  then have "a2dp_initial P X (io', d)"
    using ok c a2dp_req_objs_new [OF n c(4)] by (simp add: a2dp_initial_def)
  then show ?thesis using c by (simp add: a2dp_Init_request_def)
qed

lemma a2dp_Init_requests_ok:
  assumes "a2dp_initial P X (io, d)" and "distinct qs" and "\<forall>q \<in> set qs. io_reqs io q = None"
  shows "\<exists>st io'. run_steps (map (\<lambda>q. a2dp_Init_request (e q) q) qs) (io, d) = Some (st, io', d) \<and> a2dp_initial P X (io', d)
    \<and> (\<forall>p. p \<notin> set qs \<longrightarrow> io_reqs io' p = io_reqs io p)
    \<and> (NT_SUCCESS st \<longrightarrow> (\<forall>q \<in> set qs. req_mems io' q = Some (True, True)))"
  using assms
proof (induction qs arbitrary: io)
  case (Cons q qs)
  obtain st io1 where 1: "a2dp_Init_request (e q) q (io, d) = Some (st, io1, d)" "a2dp_initial P X (io1, d)"
      "\<forall>p. p \<noteq> q \<longrightarrow> io_reqs io1 p = io_reqs io p" "NT_SUCCESS st \<longrightarrow> req_mems io1 q = Some (True, True)"
    using a2dp_Init_request_ok [OF Cons.prems(1), of q "e q"] Cons.prems(3) by auto
  show ?case
  proof (cases "NT_SUCCESS st")
    case True
    have "\<forall>p \<in> set qs. io_reqs io1 p = None" using 1(3) Cons.prems(2,3) by auto
    from Cons.IH [OF 1(2) _ this] Cons.prems(2) obtain st2 io2 where
      2: "run_steps (map (\<lambda>q. a2dp_Init_request (e q) q) qs) (io1, d) = Some (st2, io2, d)" "a2dp_initial P X (io2, d)"
        "\<forall>p. p \<notin> set qs \<longrightarrow> io_reqs io2 p = io_reqs io1 p"
        "NT_SUCCESS st2 \<longrightarrow> (\<forall>q \<in> set qs. req_mems io2 q = Some (True, True))" by auto
    have "req_mems io2 q = req_mems io1 q" using 2(3) Cons.prems(2) by simp
    then show ?thesis using True 1 2 by auto
  qed (use 1 in auto)
qed simp

lemma a2dp_initial_ok:
  assumes i: "a2dp_initial P X (io, d)" and r: "\<forall>q. req_mems io q = Some (True, True)"
  shows "a2dp_ok hc P X (io, d)"
proof -
  have "\<exists>x. io_reqs io A2dpStreamReq = Some x" using r [rule_format, of A2dpStreamReq] by auto
  then have "a2dp_stream (io, d)" using i by (auto simp: a2dp_initial_def a2dp_stream_def a2dp_fresh_def)
  moreover have "a2dp_mem hc P X (io, d)"
    using i by (auto simp: a2dp_initial_def a2dp_mem_def a2dp_blocks_def a2dp_tags_def a2dp_caps_def caps_size_def wave_block_def
        a2dp_fresh_def)
  moreover have "notifs_ok a2dp_notifications io" using i by (auto simp: a2dp_initial_def notifs_ok_def)
  ultimately show ?thesis using r by (simp add: a2dp_ok_def)
qed

lemma a2dp_names_ok:
  assumes "a2dp_initial P X (io, d)" and "a2dp_CreateFilterNames cf h link d = (st, d')"
  shows "a2dp_initial P X (io, d') \<and> ah_State d' = ah_State d \<and> ah_SymbolicLinkName d' = ah_SymbolicLinkName d"
  using assms by (auto simp: a2dp_CreateFilterNames_def a2dp_initial_def a2dp_members_def a2dp_fresh_def split: if_splits)

lemma a2dp_Init_ok:
  assumes f: "io_fresh io" and dn: "ah_SpeakerDescriptor d = None"
  shows "\<exists>st io' d'. a2dp_Init cf e link (io, d) = Some (st, io', d') \<and> a2dp_initial (io_pool io) (io_objects io) (io', d')
    \<and> (NT_SUCCESS st \<longrightarrow> ah_State d' = StateRunning \<and> ah_SymbolicLinkName d' = Some (MINADAPTER_POOLTAG, link)
        \<and> (\<forall>q. req_mems io' q = Some (True, True)))
    \<and> (\<not> NT_SUCCESS st \<longrightarrow> ah_State d' = StateInitializing)"
proof -
  let ?P = "io_pool io" and ?X = "io_objects io"
  let ?s0 = "(io \<lparr> io_reqs := Map.empty \<rparr>, a2dp_Init_members d)"
  let ?A = "a2dp_Init_basics e link"
  let ?B = "map (\<lambda>q. a2dp_Init_request (ai_request e q) q) a2dp_requests"
  let ?C = "[a2dp_Init_names cf (ai_hash e) link]"
  obtain st1 io1 d1 where 1: "run_steps ?A ?s0 = Some (st1, io1, d1)" "a2dp_initial ?P ?X (io1, d1)"
      "NT_SUCCESS st1 \<longrightarrow> a2dp_todo 5 (io1, d1)"
    using step_specD [OF a2dp_basics_ok a2dp_members_ok [OF f dn], of e link] by (auto split: if_splits)
  have st_link: "ah_State d1 = StateInitializing \<and> (NT_SUCCESS st1 \<longrightarrow> ah_SymbolicLinkName d1 = Some (MINADAPTER_POOLTAG, link))"
    using 1(1) by (auto simp: a2dp_Init_basics_def a2dp_Init_workitem_def a2dp_Init_collection_def a2dp_Init_target_def a2dp_Init_open_def
        a2dp_Init_link_def pool_alloc_def a2dp_Init_members_def a2dp_zero_codec_caps_def Let_def split: if_splits prod.splits)
  show ?thesis
  proof (cases "NT_SUCCESS st1")
    case False
    then have "a2dp_Init cf e link (io, d) = Some (st1, io1, d1)" using 1(1) by (simp add: a2dp_Init_def run_steps_append)
    then show ?thesis using 1 st_link False by auto
  next
    case True
    have "distinct a2dp_requests" "\<forall>q \<in> set a2dp_requests. io_reqs io1 q = None"
      using 1(3) True by (simp_all add: a2dp_requests_def a2dp_todo_def)
    from a2dp_Init_requests_ok [OF 1(2) this, of "ai_request e"] obtain st2 io2 where
      2: "run_steps ?B (io1, d1) = Some (st2, io2, d1)" "a2dp_initial ?P ?X (io2, d1)"
        "NT_SUCCESS st2 \<longrightarrow> (\<forall>q \<in> set a2dp_requests. req_mems io2 q = Some (True, True))" by blast
    show ?thesis
    proof (cases "NT_SUCCESS st2")
      case False
      then have "a2dp_Init cf e link (io, d) = Some (st2, io2, d1)"
        using True 1(1) 2(1) by (simp add: a2dp_Init_def run_steps_append)
      then show ?thesis using 2 st_link False by auto
    next
      case ok2: True
      obtain st3 d3 where 3: "a2dp_CreateFilterNames cf (ai_hash e) link d1 = (st3, d3)" by fastforce
      note k = a2dp_names_ok [OF 2(2) 3]
      have c: "run_steps ?C (io2, d1) = Some (if NT_SUCCESS st3 then STATUS_SUCCESS else st3, io2, d3)"
        using 3 by (simp add: a2dp_Init_names_def)
      have all: "\<forall>q. req_mems io2 q = Some (True, True)" using 2(3) ok2 a2dp_requests_all by blast
      show ?thesis
      proof (cases "NT_SUCCESS st3")
        case False
        then have "a2dp_Init cf e link (io, d) = Some (st3, io2, d3)"
          using True ok2 1(1) 2(1) c by (simp add: a2dp_Init_def run_steps_append)
        then show ?thesis using k st_link False by auto
      next
        case ok3: True
        then have "a2dp_Init cf e link (io, d) = Some (STATUS_SUCCESS, io2, d3 \<lparr> ah_State := StateRunning \<rparr>)"
          using True ok2 1(1) 2(1) c by (simp add: a2dp_Init_def run_steps_append)
        moreover have "a2dp_initial ?P ?X (io2, d3 \<lparr> ah_State := StateRunning \<rparr>)"
          using conjunct1 [OF k] by (simp add: a2dp_initial_def a2dp_members_def a2dp_fresh_def)
        ultimately show ?thesis using k st_link True all by auto
      qed
    qed
  qed
qed

section \<open>Start\<close>

text \<open>References on filters, and the invariant with the adapter's filters; \<open>E\<close> are references of others.\<close>

definition a2dp_refs :: "A2dpHpDevice \<Rightarrow> obj multiset" where
  "a2dp_refs d = opt_ref (ah_UnknownTopology d) + opt_ref (ah_UnknownWave d)"

definition a2dp_wired :: "A2dpHpDevice \<Rightarrow> bool" where
  "a2dp_wired d \<longleftrightarrow> (ah_UnknownTopology d \<noteq> None \<or> ah_UnknownWave d \<noteq> None \<longrightarrow> ah_Miniports d \<noteq> None)
     \<and> (ah_SpeakerDescriptor d = None \<longrightarrow> ah_Miniports d = None \<and> ah_SupportedFormatsIntersection d = None)"

definition a2dp_full :: "bool \<Rightarrow> pool_tag multiset \<Rightarrow> wdf_object multiset \<Rightarrow> obj multiset \<Rightarrow> a2dp_world \<Rightarrow> bool" where
  "a2dp_full hc P X E = (\<lambda>(io, d, w). a2dp_ok hc P X (io, d) \<and> acct w (a2dp_refs d + E) \<and> a2dp_wired d)"

text \<open>
  What Start relies on, without checking it. The blocks the headphones announce hold the structures that
  are read from them, the endpoint descriptor has at least the four bytes the index is written to, the
  property structures it mentions have at least four bytes too, and the query for the volume values
  succeeds (its error path frees the block with another tag than it was allocated with). Nothing here
  is documented behaviour of headphones: it is the condition under which Start does not fault.
\<close>

definition a2dp_props_ok :: "a2dp_endpoint \<Rightarrow> bool" where
  "a2dp_props_ok x \<longleftrightarrow>
     (ed_Volume x \<noteq> 0 \<longrightarrow> 4 \<le> ed_VolumePropertyValuesSize x) \<and> (ed_Mute x \<noteq> 0 \<longrightarrow> 4 \<le> ed_MutePropertyValuesSize x)"

definition a2dp_whole :: "a2dp_remote \<Rightarrow> bool" where
  "a2dp_whole remote \<longleftrightarrow> (\<forall>l c i n st v. remote l c = (st, v) \<and> NT_SUCCESS st
     \<and> c \<in> {SBAUD_GET_DEVICE_DESCRIPTOR n, SBAUD_GET_ENDPOINT_DESCRIPTOR2 i n} \<longrightarrow> ar_whole v)"

definition a2dp_sizes :: "a2dp_remote \<Rightarrow> bool" where
  "a2dp_sizes remote \<longleftrightarrow> (\<forall>l i n st v. remote l (SBAUD_GET_ENDPOINT_DESCRIPTOR2 i n) = (st, v) \<longrightarrow>
     (st = STATUS_BUFFER_TOO_SMALL \<longrightarrow> ar_information v = 0 \<or> 4 \<le> ar_information v)
     \<and> (NT_SUCCESS st \<longrightarrow> a2dp_props_ok (ar_endpoint v)))"

definition a2dp_answers :: "a2dp_remote \<Rightarrow> bool" where
  "a2dp_answers remote \<longleftrightarrow> (\<forall>l i n st v. remote l (SBAUD_GET_VOLUMEPROPERTYVALUES i n) = (st, v) \<longrightarrow> NT_SUCCESS st)"

lemma a2dp_answersD: "a2dp_answers remote \<Longrightarrow> NT_SUCCESS (fst (remote l (SBAUD_GET_VOLUMEPROPERTYVALUES i n)))"
  unfolding a2dp_answers_def by (metis prod.collapse)

definition a2dp_honest :: "a2dp_remote \<Rightarrow> bool" where
  "a2dp_honest remote \<longleftrightarrow> a2dp_whole remote \<and> a2dp_sizes remote \<and> a2dp_answers remote"

text \<open>The part of the device that streams, capabilities and framework objects rest on.\<close>

definition a2dp_base where
  "a2dp_base d = (ah_WdfIoTarget d, ah_WorkItem d, ah_ReqCollection d, (ah_ConnectedCodecCaps d, ah_ConnectedCodecLock d), ah_StreamStatusEvent d,
     ah_nStreams d, ah_nStartedStreams d)"

text \<open>A step that adds blocks \<open>B\<close> and references \<open>R\<close>.\<close>

definition a2dp_grows :: "pool_tag multiset \<Rightarrow> obj multiset \<Rightarrow> A2dpHpDevice \<Rightarrow> A2dpHpDevice \<Rightarrow> bool" where
  "a2dp_grows B R d d' \<longleftrightarrow> a2dp_blocks d' + wave_block (ah_Miniports d') = B + (a2dp_blocks d + wave_block (ah_Miniports d))
     \<and> a2dp_tags d' \<and> a2dp_base d' = a2dp_base d \<and> ah_EpIndex d' = ah_EpIndex d \<and> a2dp_wired d'
     \<and> a2dp_refs d' = R + a2dp_refs d \<and> ah_SpeakerDescriptor d' = ah_SpeakerDescriptor d"

lemma a2dp_baseD:
  assumes "a2dp_base d' = a2dp_base d"
  shows "a2dp_members d' = a2dp_members d" "ah_ConnectedCodecCaps d' = ah_ConnectedCodecCaps d" "ah_ConnectedCodecLock d' = ah_ConnectedCodecLock d"
    "ah_StreamStatusEvent d' = ah_StreamStatusEvent d" "ah_nStreams d' = ah_nStreams d" "ah_nStartedStreams d' = ah_nStartedStreams d"
  using assms by (simp_all add: a2dp_base_def a2dp_members_def)

text \<open>Memory \<open>B\<close> more for the device, \<open>A\<close> dropped by it; the index may change while the stream request is idle.\<close>

lemma a2dp_ok_grow:
  assumes ok: "a2dp_ok hc P X (io, d)"
    and b: "a2dp_blocks d' + wave_block (ah_Miniports d') + A = B + (a2dp_blocks d + wave_block (ah_Miniports d))"
    and t: "a2dp_tags d'" and u: "a2dp_base d' = a2dp_base d"
    and i: "ah_EpIndex d' = ah_EpIndex d \<or> \<not> pending_in io A2dpStreamReq"
  shows "a2dp_ok hc (A + P) X (io \<lparr> io_log := l, io_pool := B + io_pool io \<rparr>, d')"
proof -
  note k = a2dp_baseD [OF u]
  have m: "io_pool io = block_of (ah_ConnectedCodecCaps d) + (a2dp_blocks d + wave_block (ah_Miniports d) + P)"
    using a2dp_okD(3) [OF ok] by (simp add: a2dp_mem_def)
  have "B + io_pool io = block_of (ah_ConnectedCodecCaps d') + ((B + (a2dp_blocks d + wave_block (ah_Miniports d))) + P)"
    unfolding m k(2) by (simp add: ac_simps)
  also have "\<dots> = block_of (ah_ConnectedCodecCaps d') + (a2dp_blocks d' + wave_block (ah_Miniports d') + (A + P))"
    unfolding b [symmetric] by (simp add: ac_simps)
  finally have "a2dp_mem hc (A + P) X (io \<lparr> io_log := l, io_pool := B + io_pool io \<rparr>, d')"
    using a2dp_okD(3) [OF ok] t k(1,2,3) by (simp add: a2dp_mem_def a2dp_caps_def)
  moreover have "a2dp_stream (io \<lparr> io_log := l, io_pool := B + io_pool io \<rparr>, d')"
    using a2dp_okD(2) [OF ok] k i by (auto simp: a2dp_stream_def pending_in_def)
  ultimately show ?thesis using ok by (simp add: a2dp_ok_def)
qed

lemma a2dp_full_add:
  assumes f: "a2dp_full hc P X E (io, d, w)" and g: "a2dp_grows B R d d'" and a: "acct w' (R + (a2dp_refs d + E))"
  shows "a2dp_full hc P X E (io \<lparr> io_log := l, io_pool := B + io_pool io \<rparr>, d', w')"
proof -
  have ok: "a2dp_ok hc P X (io, d)" using f by (simp add: a2dp_full_def)
  have "a2dp_ok hc ({#} + P) X (io \<lparr> io_log := l, io_pool := B + io_pool io \<rparr>, d')"
    by (rule a2dp_ok_grow [OF ok]) (use g in \<open>simp_all add: a2dp_grows_def\<close>)
  then show ?thesis using g a by (simp add: a2dp_full_def a2dp_grows_def add.assoc)
qed

lemma a2dp_full_log: "a2dp_full hc P X E (io, d, w) \<Longrightarrow> a2dp_full hc P X E (io \<lparr> io_log := l \<rparr>, d, w)"
  by (simp add: a2dp_full_def)

lemma a2dp_full_tags: "a2dp_full hc P X E (io, d, w) \<Longrightarrow> a2dp_tags d \<and> a2dp_wired d"
  using a2dp_okD(3) by (auto simp: a2dp_full_def a2dp_mem_def)

subsection \<open>The part of the speaker\<close>

text \<open>What the steps before number \<open>k\<close> have made and the others still have to make.\<close>

definition a2dp_stage :: "nat \<Rightarrow> A2dpHpDevice \<Rightarrow> bool" where
  "a2dp_stage k d \<longleftrightarrow> (k \<le> 0 \<longrightarrow> ah_VolumePropValues d = None) \<and> (k \<le> 1 \<longrightarrow> ah_MutePropValues d = None)
     \<and> (if k \<le> 2 then ah_SupportedFormatsIntersection d = None else ah_SupportedFormatsIntersection d \<noteq> None)
     \<and> (if k \<le> 3 then ah_Miniports d = None else ah_Miniports d \<noteq> None)
     \<and> (k \<le> 5 \<longrightarrow> ah_UnknownTopology d = None \<and> ah_UnknownWave d = None)"

text \<open>\<open>h\<close> says that Start has what it relies on.\<close>

definition speaker_props_ok :: "bool \<Rightarrow> A2dpHpDevice \<Rightarrow> bool" where
  "speaker_props_ok h d \<longleftrightarrow> (\<forall>t v. h \<and> ah_SpeakerDescriptor d = Some (t, v) \<longrightarrow> a2dp_props_ok (ar_endpoint v))"

text \<open>Notification requests that can be sent.\<close>

definition a2dp_idle :: "a2dp_req list \<Rightarrow> a2dp_io \<Rightarrow> bool" where
  "a2dp_idle qs io \<longleftrightarrow> (\<forall>q \<in> set qs. \<exists>r. io_reqs io q = Some r \<and> \<not> Pending r \<and> q \<notin> set (io_collection io)
     \<and> Errors r \<le> NOTIFICATION_MAX_ERROR_COUNT)"

lemma a2dp_idle_frame [simp]:
  "a2dp_idle qs (io \<lparr> io_log := l \<rparr>) = a2dp_idle qs io" "a2dp_idle qs (io \<lparr> io_pool := p \<rparr>) = a2dp_idle qs io"
  by (simp_all add: a2dp_idle_def)

abbreviation (input) start_requests :: "a2dp_req list" where
  "start_requests \<equiv> [A2dpConnectionReq, A2dpSiopUpdateReq, A2dpVolumeReq]"

text \<open>Before step \<open>k\<close>, with the requests \<open>qs\<close> still to be sent.\<close>

definition a2dp_at :: "bool \<Rightarrow> bool \<Rightarrow> pool_tag multiset \<Rightarrow> wdf_object multiset \<Rightarrow> obj multiset \<Rightarrow> nat \<Rightarrow> a2dp_req list \<Rightarrow> a2dp_world \<Rightarrow> bool" where
  "a2dp_at hc h P X E k qs = (\<lambda>(io, d, w). a2dp_full hc P X E (io, d, w) \<and> a2dp_stage k d \<and> speaker_props_ok h d
     \<and> ah_SpeakerDescriptor d \<noteq> None \<and> a2dp_idle qs io)"

lemma a2dp_atD:
  assumes "a2dp_at hc h P X E k qs (io, d, w)"
  shows "a2dp_full hc P X E (io, d, w)" "a2dp_stage k d" "a2dp_tags d" "a2dp_wired d" "acct w (a2dp_refs d + E)"
    "\<exists>x. a2dp_descriptor d = Some x \<and> (h \<longrightarrow> a2dp_props_ok x)" "ah_SpeakerDescriptor d \<noteq> None"
proof -
  show f: "a2dp_full hc P X E (io, d, w)" and "a2dp_stage k d" "ah_SpeakerDescriptor d \<noteq> None" using assms by (simp_all add: a2dp_at_def)
  show t: "a2dp_tags d" and "a2dp_wired d" using a2dp_full_tags [OF f] by simp_all
  show "acct w (a2dp_refs d + E)" using f by (simp add: a2dp_full_def)
  obtain t v where "ah_SpeakerDescriptor d = Some (t, v)" using assms by (auto simp only: a2dp_at_def prod.case)
  moreover have "speaker_props_ok h d" using assms by (simp add: a2dp_at_def)
  moreover have "ah_SpeakerDescriptor d \<noteq> None \<longrightarrow> read_block ar_whole (ah_SpeakerDescriptor d) \<noteq> None" using t by (simp add: a2dp_tags_def)
  ultimately show "\<exists>x. a2dp_descriptor d = Some x \<and> (h \<longrightarrow> a2dp_props_ok x)"
    by (auto simp: a2dp_descriptor_def speaker_props_ok_def split: if_splits)
qed

lemma a2dp_at_add:
  assumes a: "a2dp_at hc h P X E k qs (io, d, w)" and g: "a2dp_grows B R d d'" and ac: "acct w' (R + (a2dp_refs d + E))"
  shows "a2dp_full hc P X E (io \<lparr> io_log := l, io_pool := B + io_pool io \<rparr>, d', w')"
    "a2dp_stage j d' \<Longrightarrow> a2dp_at hc h P X E j qs (io \<lparr> io_log := l, io_pool := B + io_pool io \<rparr>, d', w')"
proof -
  show f: "a2dp_full hc P X E (io \<lparr> io_log := l, io_pool := B + io_pool io \<rparr>, d', w')"
    by (rule a2dp_full_add [OF a2dp_atD(1) [OF a] g ac])
  show "a2dp_stage j d' \<Longrightarrow> a2dp_at hc h P X E j qs (io \<lparr> io_log := l, io_pool := B + io_pool io \<rparr>, d', w')"
    using a f g by (simp add: a2dp_at_def speaker_props_ok_def a2dp_grows_def)
qed

text \<open>A step that changes the log, a level or the selected format only.\<close>

definition a2dp_parts where
  "a2dp_parts d = ((ah_SymbolicLinkName d, ah_Miniports d, ah_Descriptor d, ah_SpeakerDescriptor d, ah_SupportedFormatsIntersection d),
     (ah_VolumePropValues d, ah_MutePropValues d, ah_UnknownTopology d, ah_UnknownWave d, ah_EpIndex d), a2dp_base d)"

lemma a2dp_partsD:
  assumes "a2dp_parts d' = a2dp_parts d"
  shows "a2dp_blocks d' = a2dp_blocks d" "ah_Miniports d' = ah_Miniports d" "a2dp_tags d' = a2dp_tags d" "a2dp_base d' = a2dp_base d"
    "ah_EpIndex d' = ah_EpIndex d" "a2dp_wired d' = a2dp_wired d" "a2dp_refs d' = a2dp_refs d" "a2dp_stage k d' = a2dp_stage k d"
    "ah_SpeakerDescriptor d' = ah_SpeakerDescriptor d"
  using assms by (simp_all add: a2dp_parts_def a2dp_blocks_def a2dp_tags_def a2dp_wired_def a2dp_refs_def a2dp_stage_def)

lemma a2dp_at_values:
  assumes a: "a2dp_at hc h P X E k qs (io, d, w)" and p: "a2dp_parts d' = a2dp_parts d"
  shows "a2dp_at hc h P X E k qs (io \<lparr> io_log := l \<rparr>, d', w)"
proof -
  have e: "io \<lparr> io_log := l, io_pool := {#} + io_pool io \<rparr> = io \<lparr> io_log := l \<rparr>" by (cases io) simp
  have g: "a2dp_grows {#} {#} d d'" using a2dp_partsD [OF p] a2dp_atD(3,4) [OF a] by (simp add: a2dp_grows_def)
  have "a2dp_stage k d'" using a2dp_partsD(8) [OF p] a2dp_atD(2) [OF a] by simp
  from a2dp_at_add(2) [OF a g _ this, of w l] show ?thesis using a2dp_atD(5) [OF a] by (simp add: e)
qed

lemmas a2dp_grow_defs = a2dp_grows_def a2dp_base_def a2dp_wired_def a2dp_refs_def a2dp_blocks_def a2dp_tags_def

lemma a2dp_volume_values_fault:
  "GetA2dpHpVolumePropertyValues remote alloc i n io = None \<longleftrightarrow>
     alloc \<and> (n < 4 \<or> \<not> NT_SUCCESS (fst (remote (io_log io) (SBAUD_GET_VOLUMEPROPERTYVALUES i n))))"
  by (auto simp: GetA2dpHpVolumePropertyValues_def fetch_block_fault A2DPSIDEBANDTEST_POOLTAG02_def MINADAPTER_POOLTAG_def)

lemma a2dp_volume_values:
  assumes "GetA2dpHpVolumePropertyValues remote alloc i n io = Some (st, p, io')"
  shows "(\<exists>l. io' = io \<lparr> io_log := l, io_pool := block_of p + io_pool io \<rparr>) \<and> (NT_SUCCESS st \<longleftrightarrow> p \<noteq> None)
    \<and> tagged A2DPSIDEBANDTEST_POOLTAG02 p"
  using assms fetch_block_may [of remote alloc A2DPSIDEBANDTEST_POOLTAG02 MINADAPTER_POOLTAG "SBAUD_GET_VOLUMEPROPERTYVALUES i n" io st p io']
  unfolding GetA2dpHpVolumePropertyValues_def by (metis option.distinct(1))

lemma a2dp_mute_values_fault: "GetA2dpHpMutePropertyValues remote alloc i n io = None \<longleftrightarrow> alloc \<and> n < 4"
proof -
  have "fetch_block remote alloc A2DPSIDEBANDTEST_POOLTAG06 A2DPSIDEBANDTEST_POOLTAG06 (SBAUD_GET_MUTEPROPERTYVALUES i n) io \<noteq> None"
    using fetch_block_memory [OF refl, of remote alloc A2DPSIDEBANDTEST_POOLTAG06 "SBAUD_GET_MUTEPROPERTYVALUES i n" io] by auto
  then show ?thesis by (auto simp: GetA2dpHpMutePropertyValues_def)
qed

lemma a2dp_mute_values:
  assumes "GetA2dpHpMutePropertyValues remote alloc i n io = Some (st, p, io')"
  shows "(\<exists>l. io' = io \<lparr> io_log := l, io_pool := block_of p + io_pool io \<rparr>) \<and> (NT_SUCCESS st \<longleftrightarrow> p \<noteq> None)
    \<and> tagged A2DPSIDEBANDTEST_POOLTAG06 p"
  using assms fetch_block_may [of remote alloc A2DPSIDEBANDTEST_POOLTAG06 A2DPSIDEBANDTEST_POOLTAG06 "SBAUD_GET_MUTEPROPERTYVALUES i n" io st p io']
  unfolding GetA2dpHpMutePropertyValues_def by (metis option.distinct(1))

text \<open>The steps that get a block and then a level share their outcome: \<open>f\<close> stores the block, \<open>g\<close> the level.\<close>

lemma a2dp_level_step:
  assumes a: "a2dp_at hc h P X E k qs (io, d, w)" and s: "\<And>x. a2dp_stage (Suc k) (f x d)"
    and none: "get io = None \<longrightarrow> \<not> h"
    and q: "\<And>st p io'. get io = Some (st, p, io') \<Longrightarrow> (\<exists>l. io' = io \<lparr> io_log := l, io_pool := block_of p + io_pool io \<rparr>)
        \<and> (NT_SUCCESS st \<longleftrightarrow> p \<noteq> None) \<and> tagged tag p"
    and g: "\<And>p. tagged tag p \<Longrightarrow> a2dp_grows (block_of p) {#} d (f p d)"
    and v: "\<And>io d. \<exists>st v l. lev (io, d) = (st, v, io \<lparr> io_log := l \<rparr>, d)" and u: "\<And>v d. a2dp_parts (u v d) = a2dp_parts d"
    and step: "step (io, d, w) = (case get io of None \<Rightarrow> None | Some (st, p, io1) \<Rightarrow>
       if \<not> NT_SUCCESS st then Some (st, io1, d, w)
       else case lev (io1, f p d) of (st1, v, io2, d1) \<Rightarrow> Some (st1, io2, if NT_SUCCESS st1 then u v d1 else d1, w))"
  shows "unless_fault (\<not> h) (step (io, d, w)) (\<lambda>(st, s'). if NT_SUCCESS st then a2dp_at hc h P X E (Suc k) qs s' else a2dp_full hc P X E s')"
proof (cases "get io")
  case None
  then show ?thesis using none by (simp add: step)
next
  case (Some y)
  obtain st p io0 where y: "y = (st, p, io0)" by (metis prod_cases3)
  obtain l where io0: "io0 = io \<lparr> io_log := l, io_pool := block_of p + io_pool io \<rparr>" and ps: "NT_SUCCESS st \<longleftrightarrow> p \<noteq> None" and t: "tagged tag p"
    using q [OF Some [unfolded y]] by blast
  let ?io1 = "io \<lparr> io_log := l, io_pool := block_of p + io_pool io \<rparr>"
  show ?thesis
  proof (cases "NT_SUCCESS st")
    case True
    have 1: "a2dp_at hc h P X E (Suc k) qs (?io1, f p d, w)"
      by (rule a2dp_at_add(2) [OF a g [OF t] _ s]) (use a2dp_atD(5) [OF a] in simp)
    obtain st1 x z where lv: "lev (?io1, f p d) = (st1, x, ?io1 \<lparr> io_log := z \<rparr>, f p d)" using v by blast
    have e: "step (io, d, w) = Some (st1, ?io1 \<lparr> io_log := z \<rparr>, if NT_SUCCESS st1 then u x (f p d) else f p d, w)"
      unfolding step Some y io0 using True lv by simp
    have "a2dp_at hc h P X E (Suc k) qs (?io1 \<lparr> io_log := z \<rparr>, u x (f p d), w)" "a2dp_at hc h P X E (Suc k) qs (?io1 \<lparr> io_log := z \<rparr>, f p d, w)"
      by (rule a2dp_at_values [OF 1]; simp add: u)+
    then show ?thesis using e a2dp_atD(1) by auto
  next
    case False
    then have "p = None" using ps by blast
    then have "a2dp_full hc P X E (?io1, d, w)"
      using a2dp_full_log [OF a2dp_atD(1) [OF a], of l] by (cases io) simp
    then show ?thesis using False Some y io0 by (simp add: step)
  qed
qed

lemma a2dp_values_log:
  "\<exists>st v l. GetA2dpHpSpeakerVolume remote ch (io, d) = (st, v, io \<lparr> io_log := l \<rparr>, d)"
  "\<exists>st v l. GetA2dpHpSpeakerMute remote ch (io, d) = (st, v, io \<lparr> io_log := l \<rparr>, d)"
  using a2dp_calls(3,4) by blast+

lemma a2dp_parts_levels [simp]:
  "a2dp_parts (d \<lparr> ah_VolumeLevel := v \<rparr>) = a2dp_parts d" "a2dp_parts (d \<lparr> ah_Mute := v \<rparr>) = a2dp_parts d"
  "a2dp_parts (d \<lparr> ah_SelectedFormat := i \<rparr>) = a2dp_parts d"
  by (simp_all add: a2dp_parts_def a2dp_base_def)

lemma a2dp_stage_0:
  assumes h: "h \<longrightarrow> a2dp_honest remote"
  shows "step_may (\<not> h) (a2dp_at hc h P X E (0) qs) (a2dp_Start_volume remote alloc) (a2dp_at hc h P X E (Suc 0) qs) (a2dp_full hc P X E)"
proof (rule step_mayI, clarify)
  fix io d w assume a: "a2dp_at hc h P X E (0) qs (io, d, w)"
  note ad = a2dp_atD [OF a]
  obtain x where x: "a2dp_descriptor d = Some x" "h \<longrightarrow> a2dp_props_ok x" using ad(6) by blast
  let ?get = "GetA2dpHpVolumePropertyValues remote alloc (ah_EpIndex d) (ed_VolumePropertyValuesSize x)"
  show "unless_fault (\<not> h) (a2dp_Start_volume remote alloc (io, d, w))
      (\<lambda>(st, s'). if NT_SUCCESS st then a2dp_at hc h P X E (Suc 0) qs s' else a2dp_full hc P X E s')"
  proof (cases "ed_Volume x = 0")
    case True
    have "a2dp_at hc h P X E (Suc 0) qs (io, d, w)" using a by (simp add: a2dp_at_def a2dp_stage_def)
    then show ?thesis using True x by (simp add: a2dp_Start_volume_def)
  next
    case False
    have none: "?get io = None \<longrightarrow> \<not> h"
      using h x(2) False a2dp_answersD by (auto simp: a2dp_volume_values_fault a2dp_honest_def a2dp_props_ok_def)
    have g: "a2dp_grows (block_of p) {#} d (d \<lparr> ah_VolumePropValues := p \<rparr>)" if "tagged A2DPSIDEBANDTEST_POOLTAG02 p" for p
      using ad(2-4) that by (simp add: a2dp_grow_defs a2dp_stage_def ac_simps)
    show ?thesis
      by (rule a2dp_level_step [where f = "\<lambda>p d. d \<lparr> ah_VolumePropValues := p \<rparr>" and u = "\<lambda>v d. d \<lparr> ah_VolumeLevel := v \<rparr>"
              and get = ?get and lev = "GetA2dpHpSpeakerVolume remote 0" and tag = A2DPSIDEBANDTEST_POOLTAG02,
              OF a _ none a2dp_volume_values g a2dp_values_log(1) a2dp_parts_levels(1)])
        (use ad(2) x False in \<open>simp_all add: a2dp_stage_def a2dp_Start_volume_def Let_def split: Option.bind_splits option.split prod.split\<close>)
  qed
qed

lemma a2dp_stage_1:
  assumes h: "h \<longrightarrow> a2dp_honest remote"
  shows "step_may (\<not> h) (a2dp_at hc h P X E (Suc 0) qs) (a2dp_Start_mute remote alloc) (a2dp_at hc h P X E (Suc (Suc 0)) qs) (a2dp_full hc P X E)"
proof (rule step_mayI, clarify)
  fix io d w assume a: "a2dp_at hc h P X E (Suc 0) qs (io, d, w)"
  note ad = a2dp_atD [OF a]
  obtain x where x: "a2dp_descriptor d = Some x" "h \<longrightarrow> a2dp_props_ok x" using ad(6) by blast
  let ?get = "GetA2dpHpMutePropertyValues remote alloc (ah_EpIndex d) (ed_MutePropertyValuesSize x)"
  show "unless_fault (\<not> h) (a2dp_Start_mute remote alloc (io, d, w))
      (\<lambda>(st, s'). if NT_SUCCESS st then a2dp_at hc h P X E (Suc (Suc 0)) qs s' else a2dp_full hc P X E s')"
  proof (cases "ed_Mute x = 0")
    case True
    have "a2dp_at hc h P X E (Suc (Suc 0)) qs (io, d, w)" using a by (simp add: a2dp_at_def a2dp_stage_def)
    then show ?thesis using True x by (simp add: a2dp_Start_mute_def)
  next
    case False
    have none: "?get io = None \<longrightarrow> \<not> h"
      using h x(2) False by (auto simp: a2dp_mute_values_fault a2dp_props_ok_def)
    have g: "a2dp_grows (block_of p) {#} d (d \<lparr> ah_MutePropValues := p \<rparr>)" if "tagged A2DPSIDEBANDTEST_POOLTAG06 p" for p
      using ad(2-4) that by (simp add: a2dp_grow_defs a2dp_stage_def ac_simps)
    show ?thesis
      by (rule a2dp_level_step [where f = "\<lambda>p d. d \<lparr> ah_MutePropValues := p \<rparr>" and u = "\<lambda>v d. d \<lparr> ah_Mute := v \<rparr>"
              and get = ?get and lev = "GetA2dpHpSpeakerMute remote 0" and tag = A2DPSIDEBANDTEST_POOLTAG06,
              OF a _ none a2dp_mute_values g a2dp_values_log(2) a2dp_parts_levels(2)])
        (use ad(2) x False in \<open>simp_all add: a2dp_stage_def a2dp_Start_mute_def Let_def split: Option.bind_splits option.split prod.split\<close>)
  qed
qed

text \<open>Making the copy of the pair: when it fails everything is freed, also the copy of the wave properties.\<close>

lemma a2dp_Create_memory:
  "\<exists>st p. a2dp_CreateCustomEndpointMinipair e base nm cat props io
       = Some (st, p, io \<lparr> io_pool := pair_blocks (plain_pair p) + wave_block p + io_pool io \<rparr>)
     \<and> pair_ok (plain_pair p) \<and> (NT_SUCCESS st \<longleftrightarrow> p \<noteq> None)"
proof (cases "pe_properties e \<and> pe_pair e \<and> pe_descriptor e \<and> pe_pins e \<and> pe_wave e")
  case True
  then show ?thesis
    by (cases "UpdateCustomEndpointCategory cat (TopoPinCategories base)")
      (auto simp: a2dp_CreateCustomEndpointMinipair_def Let_def alloc_if_eq pool_free_opt_def pool_free_def
        pair_blocks_def pair_ok_def wave_block_def custom_pair.truncate_def)
next
  case False
  then have "a2dp_CreateCustomEndpointMinipair e base nm cat props io = Some (STATUS_INSUFFICIENT_RESOURCES, None, io)"
    by (cases "pe_properties e"; cases "pe_pair e"; cases "pe_descriptor e"; cases "pe_pins e"; cases "pe_wave e")
      (simp_all add: a2dp_CreateCustomEndpointMinipair_def Let_def alloc_if_eq pool_free_opt_def pool_free_def)
  then show ?thesis by (simp add: wave_block_def)
qed

text \<open>The copy of the formats is written through the result of the allocation, also when it is NULL.\<close>

lemma a2dp_stage_2:
  assumes h: "h \<longrightarrow> alloc"
  shows "step_may (\<not> h) (a2dp_at hc h P X E 2 qs) (a2dp_Start_formats cf alloc) (a2dp_at hc h P X E 3 qs) (a2dp_full hc P X E)"
proof (rule step_mayI, clarify)
  fix io d w assume a: "a2dp_at hc h P X E 2 qs (io, d, w)"
  note ad = a2dp_atD [OF a]
  let ?p = "Some (SYSVAD_POOLTAG, uc_formats cf UsbSpeaker)"
  let ?d = "d \<lparr> ah_SupportedFormatsIntersection := ?p \<rparr>"
  have g: "a2dp_grows (block_of ?p) {#} d ?d"
    using ad(2-4,7) by (simp add: a2dp_grow_defs a2dp_stage_def ac_simps tagged_def)
  have "a2dp_stage 3 ?d" using ad(2) by (simp add: a2dp_stage_def)
  from a2dp_at_add(2) [OF a g _ this, of w "io_log io"]
  have "a2dp_at hc h P X E 3 qs (io \<lparr> io_pool := add_mset SYSVAD_POOLTAG (io_pool io) \<rparr>, ?d, w)"
    using ad(5) by (simp add: block_of_def)
  then show "unless_fault (\<not> h) (a2dp_Start_formats cf alloc (io, d, w))
      (\<lambda>(st, s'). if NT_SUCCESS st then a2dp_at hc h P X E 3 qs s' else a2dp_full hc P X E s')"
    using h by (auto simp: a2dp_Start_formats_def pool_alloc_def)
qed

lemma a2dp_stage_3:
  "step_spec (a2dp_at hc h P X E 3 qs) (a2dp_Start_pair cf e) (a2dp_at hc h P X E 4 qs) (a2dp_full hc P X E)"
proof (rule step_specI, clarify)
  fix io d w assume a: "a2dp_at hc h P X E 3 qs (io, d, w)"
  note ad = a2dp_atD [OF a]
  obtain x where x: "a2dp_descriptor d = Some x" using ad(6) by blast
  obtain st p where c: "a2dp_CreateCustomEndpointMinipair e (uc_endpoint cf UsbSpeaker) (ed_FriendlyName x) (ed_Category x)
        (ed_FilterInterfaceProperties x) io = Some (st, p, io \<lparr> io_pool := pair_blocks (plain_pair p) + wave_block p + io_pool io \<rparr>)"
      "pair_ok (plain_pair p)" "NT_SUCCESS st \<longleftrightarrow> p \<noteq> None"
    using a2dp_Create_memory by blast
  let ?n = "map_option (\<lambda>c. c \<lparr> cp_pair := (cp_pair c) \<lparr> TopoName := ah_TopologyName d, WaveName := ah_WaveName d \<rparr> \<rparr>) p"
  let ?d = "d \<lparr> ah_Miniports := ?n \<rparr>" and ?B = "pair_blocks (plain_pair p) + wave_block p"
  have n: "pair_blocks (plain_pair ?n) = pair_blocks (plain_pair p)" "pair_ok (plain_pair ?n)" "wave_block ?n = wave_block p"
    using c(2) by (cases p; simp add: pair_blocks_def pair_ok_def wave_block_def custom_pair.truncate_def)+
  have z: "ah_Miniports d = None" using ad(2) by (simp add: a2dp_stage_def)
  obtain b where b: "ah_SpeakerDescriptor d = Some b" using ad(7) by blast
  have g: "a2dp_grows ?B {#} d ?d"
    using ad(2-4) b n by (simp add: a2dp_grow_defs a2dp_stage_def z wave_block_def ac_simps)
  have ac: "acct w ({#} + (a2dp_refs d + E))" using ad(5) by simp
  note k = a2dp_at_add [where l = "io_log io", OF a g ac]
  have "a2dp_stage 4 ?d" if "NT_SUCCESS st" using that ad(2) c(3) by (simp add: a2dp_stage_def)
  moreover have "p = None" if "\<not> NT_SUCCESS st" using that c(3) by blast
  ultimately show "\<exists>st s'. a2dp_Start_pair cf e (io, d, w) = Some (st, s') \<and>
      (if NT_SUCCESS st then a2dp_at hc h P X E 4 qs s' else a2dp_full hc P X E s')"
    using x c(1) k ad(1) by (cases "NT_SUCCESS st") (simp_all add: a2dp_Start_pair_def wave_block_def)
qed

lemma a2dp_stage_4:
  "step_spec (a2dp_at hc h P X E 4 qs) (a2dp_Start_verify cf) (a2dp_at hc h P X E 5 qs) (a2dp_full hc P X E)"
proof (rule step_specI, clarify)
  fix io d w assume a: "a2dp_at hc h P X E 4 qs (io, d, w)"
  note ad = a2dp_atD [OF a]
  obtain p where p: "ah_SupportedFormatsIntersection d = Some p" using ad(2) by (auto simp: a2dp_stage_def)
  obtain st i where v: "a2dp_VerifyEndpointFormatCompatibility cf (snd p) (uc_formats cf UsbSpeaker) (ah_SelectedFormat d) = (st, i)"
    by fastforce
  have "a2dp_at hc h P X E 4 qs (io \<lparr> io_log := io_log io \<rparr>, d \<lparr> ah_SelectedFormat := i \<rparr>, w)" by (rule a2dp_at_values [OF a]) simp
  then have 1: "a2dp_at hc h P X E 4 qs (io, d \<lparr> ah_SelectedFormat := i \<rparr>, w)" by simp
  then have "a2dp_at hc h P X E 5 qs (io, d \<lparr> ah_SelectedFormat := i \<rparr>, w)" by (simp add: a2dp_at_def a2dp_stage_def)
  then show "\<exists>st s'. a2dp_Start_verify cf (io, d, w) = Some (st, s') \<and>
      (if NT_SUCCESS st then a2dp_at hc h P X E 5 qs s' else a2dp_full hc P X E s')"
    using p v a2dp_atD(1) [OF 1] by (simp add: a2dp_Start_verify_def)
qed

lemma a2dp_stage_5:
  assumes e: "filters_ok e"
  shows "step_spec (a2dp_at hc h P X E 5 qs) (a2dp_Start_filters e) (a2dp_at hc h P X E 6 qs) (a2dp_full hc P X E)"
proof (rule step_specI, clarify)
  fix io d w assume a: "a2dp_at hc h P X E 5 qs (io, d, w)"
  note ad = a2dp_atD [OF a]
  obtain c where c: "ah_Miniports d = Some c" using ad(2) by (auto simp: a2dp_stage_def)
  from Install_refs [OF ad(5) e] obtain st outs w' where
    i: "InstallEndpointFilters e (ENDPOINT_MINIPAIR.truncate (cp_pair c)) want_filters w = Some (st, outs, w')"
      "acct w' (opt_ref (out_topo outs) + opt_ref (out_wave outs) + (a2dp_refs d + E))" by blast
  let ?d = "d \<lparr> ah_UnknownTopology := out_topo outs, ah_UnknownWave := out_wave outs \<rparr>"
  have g: "a2dp_grows {#} (opt_ref (out_topo outs) + opt_ref (out_wave outs)) d ?d"
    using ad(2-4,7) c by (simp add: a2dp_grow_defs a2dp_stage_def)
  note k = a2dp_at_add [where l = "io_log io", OF a g i(2)]
  have "a2dp_stage 6 ?d" using ad(2) by (simp add: a2dp_stage_def)
  then show "\<exists>st s'. a2dp_Start_filters e (io, d, w) = Some (st, s') \<and>
      (if NT_SUCCESS st then a2dp_at hc h P X E 6 qs s' else a2dp_full hc P X E s')"
    using c i(1) k by (simp add: a2dp_Start_filters_def)
qed

text \<open>Sending a notification request that is idle.\<close>

lemma a2dp_enable_at:
  assumes a: "a2dp_at hc h P X E 6 (q # qs) (io, d, w)" and q: "q \<in> set a2dp_notifications" "q \<notin> set qs"
  shows "\<exists>st io'. a2dp_enable e q code f io = Some (st, io') \<and> a2dp_at hc h P X E 6 qs (io', d, w)"
proof -
  have full: "a2dp_full hc P X E (io, d, w)" using a by (simp add: a2dp_at_def)
  then have ok: "a2dp_ok hc P X (io, d)" by (simp add: a2dp_full_def)
  obtain r where r: "io_reqs io q = Some r" "\<not> Pending r" "q \<notin> set (io_collection io)" "Errors r \<le> NOTIFICATION_MAX_ERROR_COUNT"
    using a by (auto simp only: a2dp_at_def a2dp_idle_def prod.case list.set insert_iff)
  from enable_ok [OF a2dp_okD(1) [OF ok] q(1) r, of e code "f (Buffer r)"] obtain st io' where
    en: "enable_notification e q code (f (Buffer r)) io = Some (st, io')" "notifs_ok a2dp_notifications io'" "io_frame io io'"
      "\<forall>p. p \<noteq> q \<longrightarrow> io_reqs io' p = io_reqs io p" "io_collection io' = io_collection io" by blast
  have "q \<noteq> A2dpStreamReq" using q(1) by auto
  then have "a2dp_stream (io', d)" using a2dp_okD(2) [OF ok] en(4) by (simp add: a2dp_stream_def)
  then have "a2dp_ok hc P X (io', d)" by (intro a2dp_ok_upd [OF ok en(3,2)]) simp_all
  then have "a2dp_full hc P X E (io', d, w)" using full by (simp add: a2dp_full_def)
  moreover have "a2dp_idle qs io'" using a q(2) en(4,5) by (auto simp: a2dp_at_def a2dp_idle_def)
  ultimately have "a2dp_at hc h P X E 6 qs (io', d, w)" using a by (simp add: a2dp_at_def)
  then show ?thesis using r(1) en(1) by (simp add: a2dp_enable_def)
qed

lemma a2dp_at_less: "a2dp_at hc h P X E k (q # qs) s \<Longrightarrow> a2dp_at hc h P X E k qs s"
  by (cases s) (simp add: a2dp_at_def a2dp_idle_def)

lemma a2dp_stage_enable:
  assumes q: "q \<in> set a2dp_notifications" "q \<notin> set qs" and f: "\<And>io d. enable (io, d) = a2dp_enable e q code (f d) io"
  shows "step_spec (a2dp_at hc h P X E 6 (q # qs)) (a2dp_Start_enable enable) (a2dp_at hc h P X E 6 qs) (a2dp_full hc P X E)"
proof (rule step_specI, clarify)
  fix io d w assume "a2dp_at hc h P X E 6 (q # qs) (io, d, w)"
  from a2dp_enable_at [OF this q, of e code "f d"] obtain st io' where
    "a2dp_enable e q code (f d) io = Some (st, io')" and k: "a2dp_at hc h P X E 6 qs (io', d, w)" by blast
  then show "\<exists>st s'. a2dp_Start_enable enable (io, d, w) = Some (st, s') \<and>
      (if NT_SUCCESS st then a2dp_at hc h P X E 6 qs s' else a2dp_full hc P X E s')"
    using a2dp_atD(1) [OF k] by (simp add: a2dp_Start_enable_def f)
qed

lemma a2dp_stage_enable_volume:
  "step_spec (a2dp_at hc h P X E 6 [A2dpVolumeReq]) (a2dp_Start_enable_volume e) (a2dp_full hc P X E) (a2dp_full hc P X E)"
proof (rule step_specI, clarify)
  fix io d w assume a: "a2dp_at hc h P X E 6 [A2dpVolumeReq] (io, d, w)"
  obtain x where x: "a2dp_descriptor d = Some x" using a2dp_atD(6) [OF a] by blast
  have "A2dpVolumeReq \<in> set a2dp_notifications" by (simp add: a2dp_notifications_def)
  from a2dp_enable_at [OF a this, of e "SBAUD_GET_VOLUME_STATUS_UPDATE None" "later_value d"] obtain st io' where
    "a2dp_enable e A2dpVolumeReq (SBAUD_GET_VOLUME_STATUS_UPDATE None) (later_value d) io = Some (st, io')"
    and k: "a2dp_at hc h P X E 6 [] (io', d, w)" by auto
  then show "\<exists>st s'. a2dp_Start_enable_volume e (io, d, w) = Some (st, s') \<and>
      (if NT_SUCCESS st then a2dp_full hc P X E s' else a2dp_full hc P X E s')"
    using x a2dp_atD(1) [OF k] a2dp_atD(1) [OF a]
    by (simp add: a2dp_Start_enable_volume_def a2dp_Start_enable_def EnableA2dpHpSpeakerVolumeStatusNotification_def)
qed

text \<open>Before the speaker is started.\<close>

definition a2dp_ready :: "bool \<Rightarrow> bool \<Rightarrow> pool_tag multiset \<Rightarrow> wdf_object multiset \<Rightarrow> obj multiset \<Rightarrow> a2dp_world \<Rightarrow> bool" where
  "a2dp_ready hc h P X E = (\<lambda>(io, d, w). a2dp_full hc P X E (io, d, w) \<and> a2dp_stage 0 d \<and> speaker_props_ok h d
     \<and> a2dp_idle start_requests io \<and> \<not> pending_in io A2dpStreamReq)"

lemma a2dp_Start_speaker_ok:
  assumes h: "h \<longrightarrow> a2dp_honest remote" and e: "filters_ok (as_filters e)" and al: "h \<longrightarrow> as_formats_alloc e"
  shows "step_may (\<not> h) (a2dp_ready hc h P X E) (a2dp_Start_speaker remote cf e) (a2dp_full hc P X E) (a2dp_full hc P X E)"
proof (rule step_mayI, clarify)
  fix io d w assume r: "a2dp_ready hc h P X E (io, d, w)"
  have 6: "step_spec (a2dp_at hc h P X E 6 start_requests)
      (a2dp_Start_enable (EnableA2dpHpConnectionStatusNotification (as_send e A2dpConnectionReq)))
      (a2dp_at hc h P X E 6 [A2dpSiopUpdateReq, A2dpVolumeReq]) (a2dp_full hc P X E)"
    by (rule a2dp_stage_enable) (simp_all add: a2dp_notifications_def EnableA2dpHpConnectionStatusNotification_def)
  have 7: "step_spec (a2dp_at hc h P X E 6 [A2dpSiopUpdateReq, A2dpVolumeReq])
      (a2dp_Start_enable (EnableA2dpHpSpeakerSiopNotification (as_send e A2dpSiopUpdateReq)))
      (a2dp_at hc h P X E 6 [A2dpVolumeReq]) (a2dp_full hc P X E)"
    by (rule a2dp_stage_enable) (simp_all add: a2dp_notifications_def EnableA2dpHpSpeakerSiopNotification_def)
  note all = step_may_Cons [OF a2dp_stage_0 [OF h] step_may_Cons [OF a2dp_stage_1 [OF h] step_may_Cons [OF
    a2dp_stage_2 [OF al, unfolded numeral_2_eq_2] step_may_Cons [OF step_may_spec [OF a2dp_stage_3] step_may_Cons [OF
    step_may_spec [OF a2dp_stage_4] step_may_Cons [OF step_may_spec [OF a2dp_stage_5 [OF e]] step_may_Cons [OF
    step_may_spec [OF 6] step_may_Cons [OF step_may_spec [OF 7] step_may_Cons [OF
    step_may_spec [OF a2dp_stage_enable_volume] step_may_Nil]]]]]]]]]
  show "unless_fault (\<not> h) (a2dp_Start_speaker remote cf e (io, d, w))
      (\<lambda>(st, s'). if NT_SUCCESS st then a2dp_full hc P X E s' else a2dp_full hc P X E s')"
  proof (cases "ah_SpeakerDescriptor d = None")
    case True
    then show ?thesis using r by (simp add: a2dp_Start_speaker_def a2dp_ready_def)
  next
    case False
    then have "a2dp_at hc h P X E 0 start_requests (io, d, w)" using r by (simp add: a2dp_ready_def a2dp_at_def)
    from step_mayD [OF all this] show ?thesis unfolding a2dp_Start_speaker_def prod.case if_not_P [OF False] .
  qed
qed

subsection \<open>The endpoints\<close>

lemma a2dp_readyD:
  assumes "a2dp_ready hc h P X E (io, d, w)"
  shows "a2dp_full hc P X E (io, d, w)" "a2dp_ok hc P X (io, d)" "a2dp_stage 0 d" "a2dp_tags d" "\<not> pending_in io A2dpStreamReq"
proof -
  show f: "a2dp_full hc P X E (io, d, w)" and "a2dp_stage 0 d" "\<not> pending_in io A2dpStreamReq" using assms by (simp_all add: a2dp_ready_def)
  show "a2dp_ok hc P X (io, d)" using f by (simp add: a2dp_full_def)
  show "a2dp_tags d" using a2dp_full_tags [OF f] by blast
qed

text \<open>Members that change before a filter is installed, and memory \<open>A\<close> that is dropped.\<close>

lemma a2dp_ready_upd:
  assumes r: "a2dp_ready hc h P X E (io, d, w)" and ok: "a2dp_ok hc P' X (io \<lparr> io_log := l, io_pool := B + io_pool io \<rparr>, d')"
    and f: "a2dp_stage 0 d'" "speaker_props_ok h d'"
  shows "a2dp_ready hc h P' X E (io \<lparr> io_log := l, io_pool := B + io_pool io \<rparr>, d', w)"
proof -
  have s: "a2dp_refs d' = a2dp_refs d" "a2dp_wired d'"
    using a2dp_readyD(3) [OF r] f(1) by (simp_all add: a2dp_refs_def a2dp_wired_def a2dp_stage_def)
  have "acct w (a2dp_refs d' + E)" using a2dp_readyD(1) [OF r] s(1) by (simp add: a2dp_full_def)
  then have "a2dp_full hc P' X E (io \<lparr> io_log := l, io_pool := B + io_pool io \<rparr>, d', w)" using ok s(2) by (simp add: a2dp_full_def)
  then show ?thesis using r f by (simp add: a2dp_ready_def)
qed

text \<open>A new descriptor of the speaker: the block of the one before is lost.\<close>

lemma set_speaker:
  assumes r: "a2dp_ready hc h P X E (io, d, w)" and t: "tagged MINADAPTER_POOLTAG p" and b: "read_block ar_whole p \<noteq> None"
    and v: "\<forall>u v. h \<and> p = Some (u, v) \<longrightarrow> a2dp_props_ok (ar_endpoint v)"
  shows "a2dp_ready hc h (block_of (ah_SpeakerDescriptor d) + P) X E (io \<lparr> io_log := l, io_pool := block_of p + io_pool io \<rparr>,
      d \<lparr> ah_EpIndex := i, ah_SpeakerDescriptor := p \<rparr>, w)"
proof (rule a2dp_ready_upd [OF r])
  let ?d = "d \<lparr> ah_EpIndex := i, ah_SpeakerDescriptor := p \<rparr>"
  note rd = a2dp_readyD [OF r]
  show "a2dp_ok hc (block_of (ah_SpeakerDescriptor d) + P) X (io \<lparr> io_log := l, io_pool := block_of p + io_pool io \<rparr>, ?d)"
  proof (rule a2dp_ok_grow [OF rd(2)])
    show "a2dp_blocks ?d + wave_block (ah_Miniports ?d) + block_of (ah_SpeakerDescriptor d)
        = block_of p + (a2dp_blocks d + wave_block (ah_Miniports d))" by (simp add: a2dp_blocks_def ac_simps)
    show "a2dp_tags ?d" using rd(4) t b by (simp add: a2dp_tags_def)
  qed (use rd(5) in \<open>simp_all add: a2dp_base_def\<close>)
  show "a2dp_stage 0 ?d" using rd(3) by (simp add: a2dp_stage_def)
  show "speaker_props_ok h ?d" using v by (simp add: speaker_props_ok_def)
qed

text \<open>A descriptor that is not kept.\<close>

lemma drop_descriptor:
  assumes r: "a2dp_ready hc h P X E (io, d, w)"
  shows "a2dp_ready hc h (block_of p + P) X E (io \<lparr> io_log := l, io_pool := block_of p + io_pool io \<rparr>, d, w)"
proof (rule a2dp_ready_upd [OF r])
  note rd = a2dp_readyD [OF r]
  show "a2dp_ok hc (block_of p + P) X (io \<lparr> io_log := l, io_pool := block_of p + io_pool io \<rparr>, d)"
    by (rule a2dp_ok_grow [OF rd(2)]) (use rd(4) in \<open>simp_all add: ac_simps\<close>)
qed (use r in \<open>simp_all add: a2dp_ready_def\<close>)

text \<open>Whether the descriptor of a speaker is stored, and how many endpoints the headphones announced.\<close>

definition a2dp_stored :: "A2dpHpDevice \<Rightarrow> nat" where
  "a2dp_stored d = size (block_of (ah_SpeakerDescriptor d))"

definition a2dp_announced :: "A2dpHpDevice \<Rightarrow> nat" where
  "a2dp_announced d = (case ah_Descriptor d of None \<Rightarrow> 0 | Some (t, v) \<Rightarrow> ar_NumberOfEndpoints v)"

lemma a2dp_endpoint_descriptor:
  assumes h: "h \<longrightarrow> a2dp_honest remote"
  shows "unless_fault (\<not> h) (GetA2dpHpEndpointDescriptor remote e i io) (\<lambda>(st, p, io').
      (\<exists>l. io' = io \<lparr> io_log := l, io_pool := block_of p + io_pool io \<rparr>) \<and> (NT_SUCCESS st \<longleftrightarrow> p \<noteq> None)
      \<and> tagged MINADAPTER_POOLTAG p \<and> (\<forall>u v. h \<and> p = Some (u, v) \<longrightarrow> ar_whole v \<and> a2dp_props_ok (ar_endpoint v)))"
proof (cases "a2dp_index_overruns remote e (SBAUD_GET_ENDPOINT_DESCRIPTOR2 i) io")
  case True
  then have "\<not> a2dp_sizes remote" unfolding a2dp_sizes_def a2dp_index_overruns_def
    by (auto split: prod.splits) (metis leD less_nat_zero_code)
  then show ?thesis using True h by (auto simp: GetA2dpHpEndpointDescriptor_def a2dp_honest_def)
next
  case False
  then have q: "GetA2dpHpEndpointDescriptor remote e i io
      = query_block remote e MINADAPTER_POOLTAG ar_information (SBAUD_GET_ENDPOINT_DESCRIPTOR2 i) io"
    by (simp add: GetA2dpHpEndpointDescriptor_def)
  obtain st p l where k: "query_block remote e MINADAPTER_POOLTAG ar_information (SBAUD_GET_ENDPOINT_DESCRIPTOR2 i) io
      = Some (st, p, io \<lparr> io_log := l, io_pool := block_of p + io_pool io \<rparr>)" "NT_SUCCESS st \<longleftrightarrow> p \<noteq> None" "tagged MINADAPTER_POOLTAG p"
    using query_tagged by blast
  have "ar_whole v \<and> a2dp_props_ok (ar_endpoint v)" if p: "h" "p = Some (u, v)" for u v
  proof -
    obtain l n st' where "remote l (SBAUD_GET_ENDPOINT_DESCRIPTOR2 i n) = (st', v)" "NT_SUCCESS st'"
      using query_block_value [OF k(1) [unfolded p(2)]] by blast
    then show ?thesis using h p(1) unfolding a2dp_honest_def a2dp_whole_def a2dp_sizes_def by blast
  qed
  then show ?thesis using q k by auto
qed

text \<open>Every endpoint gives a descriptor; it is stored or dropped, and so is one that another overwrites.\<close>

definition a2dp_loop_post :: "bool \<Rightarrow> bool \<Rightarrow> pool_tag multiset \<Rightarrow> wdf_object multiset \<Rightarrow> obj multiset \<Rightarrow> nat \<Rightarrow> bool \<Rightarrow> a2dp_world \<Rightarrow> bool" where
  "a2dp_loop_post hc h P X E n ok = (\<lambda>(io, d, w). \<exists>k. a2dp_ready hc h (dropped k + P) X E (io, d, w) \<and> k + a2dp_stored d \<le> n
     \<and> (ok \<longrightarrow> k + a2dp_stored d = n))"

lemma a2dp_loop_post_drop: "a2dp_loop_post hc h (B + P) X E m ok s \<Longrightarrow> B = dropped j \<Longrightarrow> m + j = n \<Longrightarrow> a2dp_loop_post hc h P X E n ok s"
  unfolding a2dp_loop_post_def by (cases s) (force simp: dropped_add)

lemma a2dp_ready_log: "a2dp_ready hc h P X E (io, d, w) \<Longrightarrow> a2dp_ready hc h P X E (io \<lparr> io_log := l \<rparr>, d, w)"
  by (simp add: a2dp_ready_def a2dp_full_def)

lemma a2dp_endpoint_loop_ok:
  assumes h: "h \<longrightarrow> a2dp_honest remote"
  shows "a2dp_ready hc h P X E (io, d, w) \<Longrightarrow>
     unless_fault (\<not> h) (a2dp_endpoint_loop remote e is m (io, d))
       (\<lambda>(st, n, io', d'). a2dp_loop_post hc h P X E (length is + a2dp_stored d) (NT_SUCCESS st) (io', d', w))"
proof (induction "is" arbitrary: m io d P)
  case Nil
  then show ?case by (auto simp: a2dp_loop_post_def intro!: exI [of _ 0])
next
  case (Cons i js)
  note ed = a2dp_endpoint_descriptor [OF h, of "e i" i io]
  let ?n = "Suc (length js) + a2dp_stored d"
  let ?post = "\<lambda>(st, n :: nat, io', d'). a2dp_loop_post hc h P X E ?n (NT_SUCCESS st) (io', d', w)"
  show ?case
  proof (cases "GetA2dpHpEndpointDescriptor remote (e i) i io")
    case None
    then show ?thesis using ed by simp
  next
    case got: (Some x)
    obtain st p io1 where x: "x = (st, p, io1)" by (metis prod_cases3)
    obtain l where io1: "io1 = io \<lparr> io_log := l, io_pool := block_of p + io_pool io \<rparr>"
      and g: "NT_SUCCESS st \<longleftrightarrow> p \<noteq> None" "tagged MINADAPTER_POOLTAG p"
        "\<forall>u v. h \<and> p = Some (u, v) \<longrightarrow> ar_whole v \<and> a2dp_props_ok (ar_endpoint v)" using ed got x by auto
    show ?thesis
    proof (cases "NT_SUCCESS st")
      case False
      then have "p = None" using g(1) by blast
      then have "io1 = io \<lparr> io_log := l \<rparr>" using io1 by (cases io) simp
      then have "a2dp_ready hc h (dropped 0 + P) X E (io1, d, w)" using a2dp_ready_log [OF Cons.prems] by simp
      then have "a2dp_loop_post hc h P X E ?n False (io1, d, w)" unfolding a2dp_loop_post_def by fastforce
      then show ?thesis using False got x by simp
    next
      case True
      then obtain v where p: "p = Some (MINADAPTER_POOLTAG, v)" using g(1,2) by auto
      show ?thesis
      proof (cases "ar_whole v")
        case False
        then show ?thesis using got x True p g(3) by simp
      next
        case whole: True
        let ?old = "size (block_of (ah_SpeakerDescriptor d))" and ?d = "d \<lparr> ah_EpIndex := i, ah_SpeakerDescriptor := p \<rparr>"
        have "tagged MINADAPTER_POOLTAG (ah_SpeakerDescriptor d)" using a2dp_readyD(4) [OF Cons.prems] by (simp add: a2dp_tags_def)
        then have old: "block_of (ah_SpeakerDescriptor d) = dropped ?old" by (rule tagged_dropped)
        have n: "length js + a2dp_stored ?d + ?old = ?n" using p by (simp add: a2dp_stored_def)
        have r: "read_block ar_whole p \<noteq> None" "\<forall>u v. h \<and> p = Some (u, v) \<longrightarrow> a2dp_props_ok (ar_endpoint v)" using p whole g(3) by auto
        have step: "unless_fault (\<not> h) (a2dp_endpoint_loop remote e js m' (io1, ?d)) ?post" for m'
        proof (rule unless_fault_mono [OF Cons.IH [OF set_speaker [OF Cons.prems g(2) r, where l = l and i = i, folded io1]]])
          fix y :: "NTSTATUS \<times> nat \<times> a2dp" assume "case y of (st, n, io', d') \<Rightarrow> a2dp_loop_post hc h (block_of (ah_SpeakerDescriptor d) + P) X E
              (length js + a2dp_stored ?d) (NT_SUCCESS st) (io', d', w)"
          then show "?post y" using a2dp_loop_post_drop [OF _ old n] by (cases y) blast
        qed
        have leak: "unless_fault (\<not> h) (a2dp_endpoint_loop remote e js m' (io1, d)) ?post" for m'
        proof (rule unless_fault_mono [OF Cons.IH [OF drop_descriptor [OF Cons.prems, where p = p and l = l, folded io1]]])
          fix y :: "NTSTATUS \<times> nat \<times> a2dp" assume "case y of (st, n, io', d') \<Rightarrow> a2dp_loop_post hc h (block_of p + P) X E (length js + a2dp_stored d) (NT_SUCCESS st) (io', d', w)"
          then show "?post y"
            using a2dp_loop_post_drop [where B = "block_of p" and j = 1 and m = "length js + a2dp_stored d"] p by (cases y) simp
        qed
        show ?thesis
        proof (cases "ed_Direction (ar_endpoint v) = KSPIN_DATAFLOW_OUT")
          case True
          then show ?thesis using step [of "m + 1"] got x \<open>NT_SUCCESS st\<close> p whole by simp
        next
          case False
          then show ?thesis using leak [of m] got x \<open>NT_SUCCESS st\<close> p whole by simp
        qed
      qed
    qed
  qed
qed

subsection \<open>The whole of Start\<close>

lemma a2dp_caps_log: "\<exists>st l. SetA2dpHpDeviceCapabilities remote io = (st, io \<lparr> io_log := l \<rparr>)"
  and a2dp_claim_log: "\<exists>st l. a2dp_SetSidebandClaimed remote b io = (st, io \<lparr> io_log := l \<rparr>)"
proof -
  show "\<exists>st l. SetA2dpHpDeviceCapabilities remote io = (st, io \<lparr> io_log := l \<rparr>)"
    unfolding SetA2dpHpDeviceCapabilities_def by (metis surj_pair a2dp_call_log(1))
  show "\<exists>st l. a2dp_SetSidebandClaimed remote b io = (st, io \<lparr> io_log := l \<rparr>)"
    by (auto simp: a2dp_SetSidebandClaimed_def a2dp_SendIoCtrlSynchronously_def SendIoCtrlSynchronously_def split: prod.split)
qed

text \<open>What Start ends in: \<open>k\<close> descriptors are dropped, and when all of Start was done the other is stored.\<close>

definition a2dp_counted :: "bool \<Rightarrow> pool_tag multiset \<Rightarrow> wdf_object multiset \<Rightarrow> obj multiset \<Rightarrow> bool \<Rightarrow> a2dp_world \<Rightarrow> bool" where
  "a2dp_counted hc P X E ok = (\<lambda>(io, d, w). \<exists>k. a2dp_full hc (dropped k + P) X E (io, d, w) \<and> k + a2dp_stored d \<le> a2dp_announced d
     \<and> (ok \<longrightarrow> k + a2dp_stored d = a2dp_announced d))"

lemma a2dp_counted_none: "a2dp_full hc P X E (io, d, w) \<Longrightarrow> a2dp_stored d = 0 \<Longrightarrow> a2dp_counted hc P X E False (io, d, w)"
  unfolding a2dp_counted_def by (auto intro!: exI [of _ 0])

abbreviation (input) a2dp_new :: "bool \<Rightarrow> bool \<Rightarrow> pool_tag multiset \<Rightarrow> wdf_object multiset \<Rightarrow> obj multiset \<Rightarrow> a2dp_world \<Rightarrow> bool" where
  "a2dp_new hc h P X E \<equiv> \<lambda>(io, d, w). a2dp_ready hc h P X E (io, d, w) \<and> a2dp_stored d = 0 \<and> ah_Descriptor d = None"

abbreviation (input) a2dp_described :: "bool \<Rightarrow> bool \<Rightarrow> pool_tag multiset \<Rightarrow> wdf_object multiset \<Rightarrow> obj multiset \<Rightarrow> a2dp_world \<Rightarrow> bool" where
  "a2dp_described hc h P X E \<equiv> \<lambda>(io, d, w). a2dp_ready hc h P X E (io, d, w) \<and> a2dp_stored d = 0
     \<and> (h \<longrightarrow> read_block ar_whole (ah_Descriptor d) \<noteq> None)"

lemma a2dp_start_caps_ok:
  "step_spec (a2dp_new hc h P X E) (a2dp_Start_caps remote) (a2dp_new hc h P X E) (a2dp_counted hc P X E False)"
proof (rule step_specI, clarify)
  fix io d w assume r: "a2dp_ready hc h P X E (io, d, w)" and z: "a2dp_stored d = 0" and n: "ah_Descriptor d = None"
  obtain st l where "SetA2dpHpDeviceCapabilities remote io = (st, io \<lparr> io_log := l \<rparr>)" using a2dp_caps_log by blast
  then show "\<exists>st s'. a2dp_Start_caps remote (io, d, w) = Some (st, s') \<and>
      (if NT_SUCCESS st then a2dp_new hc h P X E s' else a2dp_counted hc P X E False s')"
    using a2dp_ready_log [OF r, of l] a2dp_counted_none [OF a2dp_full_log [OF a2dp_readyD(1) [OF r], of l] z] z n
    by (simp add: a2dp_Start_caps_def)
qed

lemma a2dp_start_descriptor_ok:
  assumes h: "h \<longrightarrow> a2dp_honest remote"
  shows "step_spec (a2dp_new hc h P X E) (a2dp_Start_descriptor remote e) (a2dp_described hc h P X E) (a2dp_counted hc P X E False)"
proof (rule step_specI, clarify)
  fix io d w assume r: "a2dp_ready hc h P X E (io, d, w)" and s: "a2dp_stored d = 0" and z: "ah_Descriptor d = None"
  note rd = a2dp_readyD [OF r]
  obtain st p l where q: "GetA2dpHpDescriptor remote e io = Some (st, p, io \<lparr> io_log := l, io_pool := block_of p + io_pool io \<rparr>)"
      "NT_SUCCESS st \<longleftrightarrow> p \<noteq> None" "tagged MINADAPTER_POOLTAG p"
    unfolding GetA2dpHpDescriptor_def using query_tagged by blast
  let ?d = "d \<lparr> ah_Descriptor := p \<rparr>" and ?io = "io \<lparr> io_log := l, io_pool := block_of p + io_pool io \<rparr>"
  have ok: "a2dp_ok hc ({#} + P) X (?io, ?d)"
    by (rule a2dp_ok_grow [OF rd(2)]) (use rd(4,5) z q(3) in \<open>simp_all add: a2dp_blocks_def a2dp_tags_def a2dp_base_def ac_simps\<close>)
  have k: "a2dp_ready hc h ({#} + P) X E (?io, ?d, w)"
    by (rule a2dp_ready_upd [OF r ok]) (use r in \<open>simp_all add: a2dp_ready_def a2dp_stage_def speaker_props_ok_def\<close>)
  have s': "a2dp_stored ?d = 0" using s by (simp add: a2dp_stored_def)
  have "read_block ar_whole p \<noteq> None" if "NT_SUCCESS st" "h"
  proof -
    from that(1) q(2) obtain t v where p: "p = Some (t, v)" by auto
    obtain l' n st' where "remote l' (SBAUD_GET_DEVICE_DESCRIPTOR n) = (st', v)" "NT_SUCCESS st'"
      using query_block_value [OF q(1) [unfolded p GetA2dpHpDescriptor_def]] by blast
    then have "ar_whole v" using \<open>h\<close> h unfolding a2dp_honest_def a2dp_whole_def by blast
    then show ?thesis using p by simp
  qed
  then show "\<exists>st s'. a2dp_Start_descriptor remote e (io, d, w) = Some (st, s') \<and>
      (if NT_SUCCESS st then a2dp_described hc h P X E s' else a2dp_counted hc P X E False s')"
    using q(1,2) k s' a2dp_counted_none [OF a2dp_readyD(1) [OF k] s'] by (simp add: a2dp_Start_descriptor_def)
qed

lemma a2dp_start_count_ok: "step_spec (a2dp_ready hc h P X E) (a2dp_Start_count n) (a2dp_ready hc h P X E) (a2dp_full hc P X E)"
proof (rule step_specI, clarify)
  fix io d w assume r: "a2dp_ready hc h P X E (io, d, w)"
  note rd = a2dp_readyD [OF r]
  let ?d = "d \<lparr> ah_EpIndex := 0 \<rparr>"
  have g: "io \<lparr> io_log := io_log io, io_pool := {#} + io_pool io \<rparr> = io" by (cases io) simp
  have "a2dp_ok hc ({#} + P) X (io \<lparr> io_log := io_log io, io_pool := {#} + io_pool io \<rparr>, ?d)"
    by (rule a2dp_ok_grow [OF rd(2)]) (use rd(4,5) in \<open>simp_all add: a2dp_blocks_def a2dp_tags_def a2dp_base_def\<close>)
  from a2dp_ready_upd [OF r this] have "a2dp_ready hc h P X E (io, ?d, w)"
    unfolding g using r by (simp add: a2dp_ready_def a2dp_stage_def speaker_props_ok_def)
  then show "\<exists>st s'. a2dp_Start_count n (io, d, w) = Some (st, s') \<and>
      (if NT_SUCCESS st then a2dp_ready hc h P X E s' else a2dp_full hc P X E s')"
    using r rd(1) a2dp_readyD(1) by (cases "n > 1") (simp_all add: a2dp_Start_count_def)
qed

lemma a2dp_start_claim_ok: "step_spec (a2dp_full hc P X E) (a2dp_Start_claim remote) (a2dp_full hc P X E) (a2dp_full hc P X E)"
proof (rule step_specI, clarify)
  fix io d w assume f: "a2dp_full hc P X E (io, d, w)"
  obtain st l where "a2dp_SetSidebandClaimed remote TRUE_BOOL io = (st, io \<lparr> io_log := l \<rparr>)" using a2dp_claim_log by blast
  then show "\<exists>st s'. a2dp_Start_claim remote (io, d, w) = Some (st, s') \<and> (if NT_SUCCESS st then a2dp_full hc P X E s' else a2dp_full hc P X E s')"
    using a2dp_full_log [OF f, of l] by (simp add: a2dp_Start_claim_def)
qed

text \<open>The rest of Start keeps the descriptors.\<close>

definition a2dp_found :: "a2dp_world \<Rightarrow> a2dp_block \<times> a2dp_block" where
  "a2dp_found = (\<lambda>(io, d, w). (ah_Descriptor d, ah_SpeakerDescriptor d))"

lemma a2dp_found_simps [simp]: "a2dp_found (io, d, w) = (ah_Descriptor d, ah_SpeakerDescriptor d)"
  by (simp add: a2dp_found_def)

lemma a2dp_values_same:
  "GetA2dpHpSpeakerVolume remote ch (io, d) = (st, v, io', d') \<Longrightarrow> d' = d" "GetA2dpHpSpeakerMute remote ch (io, d) = (st, v, io', d') \<Longrightarrow> d' = d"
  by (auto simp: GetA2dpHpSpeakerVolume_def GetA2dpHpSpeakerMute_def split: prod.splits)

lemma a2dp_Start_found:
  "step_keeps a2dp_found (a2dp_Start_count n)" "step_keeps a2dp_found (a2dp_Start_volume remote a)"
  "step_keeps a2dp_found (a2dp_Start_mute remote a)" "step_keeps a2dp_found (a2dp_Start_formats cf a)"
  "step_keeps a2dp_found (a2dp_Start_pair cf pe)" "step_keeps a2dp_found (a2dp_Start_verify cf)"
  "step_keeps a2dp_found (a2dp_Start_filters fe)" "step_keeps a2dp_found (a2dp_Start_enable f)"
  "step_keeps a2dp_found (a2dp_Start_enable_volume ve)" "step_keeps a2dp_found (a2dp_Start_claim remote)"
  by (auto simp: step_keeps_def a2dp_Start_count_def a2dp_Start_volume_def a2dp_Start_mute_def a2dp_Start_formats_def
      a2dp_Start_pair_def a2dp_Start_verify_def a2dp_Start_filters_def a2dp_Start_enable_def a2dp_Start_enable_volume_def
      a2dp_Start_claim_def Let_def split: prod.splits bind_splits if_splits dest!: a2dp_values_same)

lemma a2dp_speaker_found: "step_keeps a2dp_found (a2dp_Start_speaker remote cf e)"
  unfolding step_keeps_def a2dp_Start_speaker_def
  by (auto simp del: run_steps.simps a2dp_found_simps split: if_splits elim!: run_steps_keeps [rotated] simp: a2dp_Start_found)

lemma a2dp_found_counts:
  "a2dp_found (io', d', w') = a2dp_found (io, d, w) \<Longrightarrow> a2dp_stored d' = a2dp_stored d \<and> a2dp_announced d' = a2dp_announced d"
  by (simp add: a2dp_stored_def a2dp_announced_def)

lemma a2dp_loop_announced:
  "a2dp_endpoint_loop remote e is n (io, d) = Some (st, m, io', d') \<Longrightarrow> a2dp_announced d' = a2dp_announced d"
proof (induction "is" arbitrary: n io d)
  case (Cons i js)
  have u: "a2dp_announced (d \<lparr> ah_EpIndex := i, ah_SpeakerDescriptor := p \<rparr>) = a2dp_announced d" for p by (simp add: a2dp_announced_def)
  show ?case using Cons.prems by (auto simp: u dest!: Cons.IH split: bind_splits if_splits prod.splits)
qed simp

lemma a2dp_start_rest_ok:
  assumes h: "h \<longrightarrow> a2dp_honest remote" and e: "filters_ok (as_filters e)" and al: "h \<longrightarrow> as_formats_alloc e"
  shows "step_may (\<not> h) (a2dp_described hc h P X E) (a2dp_Start_rest remote cf e) (a2dp_counted hc P X E True) (a2dp_counted hc P X E False)"
proof (rule step_mayI, clarify)
  fix io d w assume b: "a2dp_ready hc h P X E (io, d, w)" and z: "a2dp_stored d = 0" and n: "h \<longrightarrow> read_block ar_whole (ah_Descriptor d) \<noteq> None"
  let ?steps = "\<lambda>m. [a2dp_Start_count m, a2dp_Start_speaker remote cf e, a2dp_Start_claim remote]"
  let ?post = "\<lambda>(st, s'). if NT_SUCCESS st then a2dp_counted hc P X E True s' else a2dp_counted hc P X E False s'"
  have steps: "unless_fault (\<not> h) (run_steps (?steps m) s) (\<lambda>(st, s'). a2dp_full hc P' X E s')" if "a2dp_ready hc h P' X E s" for P' m s
  proof -
    note all = step_may_Cons [OF step_may_spec [OF a2dp_start_count_ok] step_may_Cons [OF a2dp_Start_speaker_ok [OF h e al]
        step_may_Cons [OF step_may_spec [OF a2dp_start_claim_ok] step_may_Nil]]]
    show ?thesis by (rule unless_fault_mono [OF step_mayD [OF all that]]) (auto split: if_splits)
  qed
  have l: "unless_fault (\<not> h) (a2dp_Start_endpoints remote (as_endpoints e) (io, d))
      (\<lambda>(st, m, io1, d1). a2dp_loop_post hc h P X E (a2dp_announced d) (NT_SUCCESS st) (io1, d1, w))"
  proof (cases "read_block ar_whole (ah_Descriptor d)")
    case (Some v)
    then have "a2dp_announced d = ar_NumberOfEndpoints v" by (auto simp: a2dp_announced_def read_block_Some)
    then show ?thesis
      using Some z a2dp_endpoint_loop_ok [OF h b, of "as_endpoints e" "[0..<ar_NumberOfEndpoints v]" 0] by (simp add: a2dp_Start_endpoints_def)
  qed (use n in \<open>simp add: a2dp_Start_endpoints_def\<close>)
  show "unless_fault (\<not> h) (a2dp_Start_rest remote cf e (io, d, w)) ?post"
    unfolding a2dp_Start_rest_def prod.case
  proof (rule unless_fault_bind [OF l], clarify)
    fix st m io1 d1
    assume r: "a2dp_Start_endpoints remote (as_endpoints e) (io, d) = Some (st, m, io1, d1)"
      and k: "a2dp_loop_post hc h P X E (a2dp_announced d) (NT_SUCCESS st) (io1, d1, w)"
    have an: "a2dp_announced d1 = a2dp_announced d" using r a2dp_loop_announced by (auto simp: a2dp_Start_endpoints_def split: bind_splits)
    obtain k where k: "a2dp_ready hc h (dropped k + P) X E (io1, d1, w)" "k + a2dp_stored d1 \<le> a2dp_announced d1"
        "NT_SUCCESS st \<longrightarrow> k + a2dp_stored d1 = a2dp_announced d1" using k by (auto simp: a2dp_loop_post_def an)
    show "unless_fault (\<not> h) (if \<not> NT_SUCCESS st then Some (st, io1, d1, w) else run_steps (?steps m) (io1, d1, w)) ?post"
    proof (cases "NT_SUCCESS st")
      case False
      then show ?thesis using k(2) a2dp_readyD(1) [OF k(1)] by (auto simp: a2dp_counted_def)
    next
      case True
      have "unless_fault (\<not> h) (run_steps (?steps m) (io1, d1, w)) ?post"
      proof (rule unless_fault_mono [OF steps [OF k(1)]], clarify)
        fix st' io2 d2 w2
        assume r2: "run_steps (?steps m) (io1, d1, w) = Some (st', io2, d2, w2)" and f: "a2dp_full hc (dropped k + P) X E (io2, d2, w2)"
        have "a2dp_found (io2, d2, w2) = a2dp_found (io1, d1, w)"
          by (rule run_steps_keeps [OF _ r2]) (simp add: a2dp_Start_found a2dp_speaker_found)
        from a2dp_found_counts [OF this] f k(3) True
        show "if NT_SUCCESS st' then a2dp_counted hc P X E True (io2, d2, w2) else a2dp_counted hc P X E False (io2, d2, w2)"
          by (auto simp: a2dp_counted_def)
      qed
      then show ?thesis using True by simp
    qed
  qed
qed

lemma a2dp_full_state: "a2dp_full hc P X E (io, d, w) \<Longrightarrow> a2dp_full hc P X E (io, d \<lparr> ah_State := x \<rparr>, w)"
proof -
  assume f: "a2dp_full hc P X E (io, d, w)"
  then have ok: "a2dp_ok hc P X (io, d)" by (simp add: a2dp_full_def)
  have "a2dp_ok hc P X (io, d \<lparr> ah_State := x \<rparr>)"
    by (rule a2dp_ok_upd [OF ok _ a2dp_okD(1) [OF ok]]) (use a2dp_okD(2) [OF ok] in \<open>simp_all add: a2dp_owned_def a2dp_stream_def\<close>)
  then show ?thesis using f by (simp add: a2dp_full_def a2dp_refs_def a2dp_wired_def)
qed

lemma a2dp_Start_ok:
  assumes b: "a2dp_ready hc h P X E (io, d, w)" and n: "ah_Descriptor d = None" and z: "a2dp_stored d = 0"
    and h: "h \<longrightarrow> a2dp_honest remote" and e: "filters_ok (as_filters e)" and al: "h \<longrightarrow> as_formats_alloc e"
  shows "unless_fault (\<not> h) (a2dp_Start remote cf e (io, d, w))
    (\<lambda>(io', d', w'). a2dp_counted hc P X E (ah_State d' \<noteq> StateFailed) (io', d', w'))"
proof -
  note all = step_may_Cons [OF step_may_spec [OF a2dp_start_caps_ok] step_may_Cons [OF step_may_spec [OF a2dp_start_descriptor_ok [OF h]]
    step_may_Cons [OF a2dp_start_rest_ok [OF h e al] step_may_Nil]]]
  have pre: "a2dp_new hc h P X E (io, d, w)" using b n z by simp
  have failed: "a2dp_counted hc P X E False (snd (a2dp_SetSidebandClaimed remote FALSE_BOOL io1), d1 \<lparr> ah_State := StateFailed \<rparr>, w1)"
    if c0: "a2dp_counted hc P X E False (io1, d1, w1)" for io1 d1 w1
  proof -
    obtain k where k: "a2dp_full hc (dropped k + P) X E (io1, d1, w1)" "k + a2dp_stored d1 \<le> a2dp_announced d1"
      using c0 by (auto simp: a2dp_counted_def)
    obtain st' l where c: "a2dp_SetSidebandClaimed remote FALSE_BOOL io1 = (st', io1 \<lparr> io_log := l \<rparr>)" using a2dp_claim_log by blast
    have "a2dp_full hc (dropped k + P) X E (io1 \<lparr> io_log := l \<rparr>, d1 \<lparr> ah_State := StateFailed \<rparr>, w1)"
      by (rule a2dp_full_state [OF a2dp_full_log [OF k(1)]])
    then show ?thesis using k(2) by (auto simp: c a2dp_counted_def a2dp_stored_def a2dp_announced_def)
  qed
  have weaker: "a2dp_counted hc P X E True s \<Longrightarrow> a2dp_counted hc P X E ok s" for s ok by (auto simp: a2dp_counted_def)
  show ?thesis unfolding a2dp_Start_def
    by (rule unless_fault_bind [OF step_mayD [OF all pre]]) (auto simp: failed weaker split: if_splits)
qed

section \<open>Stop\<close>

lemma a2dp_purge_ok:
  assumes ok: "a2dp_ok hc P X (io, d)"
  shows "\<exists>io' d'. a2dp_purge (io, d) = Some (io', d') \<and> a2dp_ok hc P X (io', d') \<and> a2dp_fixed d' = a2dp_fixed d
    \<and> io_purged io' \<and> (\<forall>q. \<not> pending_in io' q)"
proof -
  let ?io0 = "io \<lparr> io_purged := True \<rparr>"
  have ok0: "a2dp_ok hc P X (?io0, d)" using ok by (simp add: a2dp_ok_def a2dp_mem_def a2dp_stream_def)
  obtain io1 where c: "cancel_all a2dp_notifications ?io0 = Some io1" "notifs_ok a2dp_notifications io1" "io_frame ?io0 io1"
      "\<forall>q \<in> set a2dp_notifications. \<not> pending_in io1 q" "\<forall>q. q \<notin> set a2dp_notifications \<longrightarrow> io_reqs io1 q = io_reqs ?io0 q"
    using cancel_all_ok [OF a2dp_okD(1) [OF ok0] order.refl] by blast
  have "a2dp_stream (io1, d)" using a2dp_okD(2) [OF ok0] c(5) by (simp add: a2dp_stream_def)
  then have ok1: "a2dp_ok hc P X (io1, d)" by (intro a2dp_ok_upd [OF ok0 c(3,2)]) simp_all
  obtain io2 d2 where 2: "a2dp_cancel_stream (io1, d) = Some (io2, d2)" "a2dp_ok hc P X (io2, d2)" "a2dp_fixed d2 = a2dp_fixed d"
      "\<not> pending_in io2 A2dpStreamReq" "io_purged io2 = io_purged io1" "\<forall>q. q \<noteq> A2dpStreamReq \<longrightarrow> io_reqs io2 q = io_reqs io1 q"
    using a2dp_cancel_ok [OF ok1] by blast
  have "\<not> pending_in io2 q" for q
  proof (cases "q = A2dpStreamReq")
    case False
    then have "q \<in> set a2dp_notifications" using a2dp_notification_or_stream by blast
    moreover have "io_reqs io2 q = io_reqs io1 q" using 2(6) False by simp
    ultimately show ?thesis using c(4) by (simp add: pending_in_def)
  qed (use 2(4) in simp)
  moreover have "io_purged io2" using 2(5) c(3) by (simp add: io_frame_def)
  ultimately show ?thesis using c(1) 2(1-3) by (simp add: a2dp_purge_def)
qed

lemma a2dp_release_refs:
  assumes "acct w (a2dp_refs d + E)"
  shows "\<exists>w'. a2dp_release_filters d w = Some w' \<and> acct w' E"
proof -
  have "acct w (opt_ref (ah_UnknownTopology d) + (opt_ref (ah_UnknownWave d) + E))" using assms by (simp add: a2dp_refs_def ac_simps)
  from acct_safe_release [OF this] obtain w1 where
    1: "safe_release (ah_UnknownTopology d) w = Some w1" "acct w1 (opt_ref (ah_UnknownWave d) + E)" by blast
  from acct_safe_release [OF 1(2)] show ?thesis using 1(1) by (auto simp: a2dp_release_filters_def)
qed

text \<open>Stop may fault only in the work item it waits for, which compares capabilities.\<close>

lemma a2dp_Stop_ok:
  assumes f: "a2dp_full hc P X E (io, d, w)" and h: "hc = codec_honest remote"
  shows "unless_fault (\<not> hc) (a2dp_Stop remote e (io, d, w)) (\<lambda>(io', d', w'). a2dp_full hc P X E (io', d', w') \<and> (\<forall>q. \<not> pending_in io' q)
    \<and> \<not> io_queued io' \<and> \<not> io_busy io' \<and> a2dp_refs d' = {#} \<and> ah_State d' = StateStopped
    \<and> ah_SpeakerDescriptor d' = ah_SpeakerDescriptor d \<and> ah_SymbolicLinkName d' = ah_SymbolicLinkName d)" (is "unless_fault _ _ ?post")
proof -
  let ?d0 = "d \<lparr> ah_State := StateStopping \<rparr>"
  have f0: "a2dp_full hc P X E (io, ?d0, w)" by (rule a2dp_full_state [OF f])
  then have ok: "a2dp_ok hc P X (io, ?d0)" by (simp add: a2dp_full_def)
  obtain io1 d1 where 1: "a2dp_purge (io, ?d0) = Some (io1, d1)" "a2dp_ok hc P X (io1, d1)" "a2dp_fixed d1 = a2dp_fixed ?d0" "io_purged io1"
      "\<forall>q. \<not> pending_in io1 q" using a2dp_purge_ok [OF ok] by blast
  obtain R where R: "io_pool io1 = block_of (ah_ConnectedCodecCaps d1) + R" "a2dp_inv remote (a2dp_core d1) R (io_log io1) (io_pool io1) d1"
    using a2dp_inv_start [OF 1(2) h] by blast
  note flush = a2dp_notif.flush_ok [OF a2dp_okD(1) [OF 1(2)] R(2), of "ax_codec e" id "ax_work e"]
  have rest: "\<exists>w'. (do { w1 \<leftarrow> a2dp_remove (ax_filters e) d2 w; w2 \<leftarrow> a2dp_release_filters d2 w1;
        Some (io2, d2 \<lparr> ah_UnknownTopology := None, ah_UnknownWave := None, ah_State := StateStopped \<rparr>, w2) })
      = Some (io2, d2 \<lparr> ah_UnknownTopology := None, ah_UnknownWave := None, ah_State := StateStopped \<rparr>, w')
      \<and> ?post (io2, d2 \<lparr> ah_UnknownTopology := None, ah_UnknownWave := None, ah_State := StateStopped \<rparr>, w')"
    if 2: "notifs_ok a2dp_notifications io2" "req_frame io1 io2" "\<not> io_queued io2" "\<not> io_busy io2"
      "\<forall>q. q \<notin> set a2dp_notifications \<longrightarrow> io_reqs io2 q = io_reqs io1 q"
      "\<forall>q. io_purged io1 \<longrightarrow> pending_in io2 q = pending_in io1 q" "a2dp_inv remote (a2dp_core d1) R (io_log io2) (io_pool io2) d2" for io2 d2
  proof -
    have ok2: "a2dp_ok hc P X (io2, d2)" "a2dp_fixed d2 = a2dp_fixed ?d0"
      using a2dp_ok_work [OF 1(2) h 2(2,1) R(1) 2(7)] 2(5) 1(3) by simp_all
    note fd = a2dp_fixedD [OF ok2(2), simplified]
    have a: "acct w (a2dp_refs d2 + E)" using f by (simp add: a2dp_full_def a2dp_refs_def fd)
    have i: "ah_UnknownTopology d2 \<noteq> None \<or> ah_UnknownWave d2 \<noteq> None \<longrightarrow> plain_pair (ah_Miniports d2) \<noteq> None"
      using f by (simp add: fd a2dp_full_def a2dp_wired_def)
    obtain w1 where w1: "a2dp_remove (ax_filters e) d2 w = Some w1" "acct w1 (a2dp_refs d2 + E)"
      unfolding a2dp_remove_def using remove_filters_ok [OF a i] by blast
    obtain w2 where w2: "a2dp_release_filters d2 w1 = Some w2" "acct w2 E" using a2dp_release_refs [OF w1(2)] by blast
    let ?d3 = "d2 \<lparr> ah_UnknownTopology := None, ah_UnknownWave := None, ah_State := StateStopped \<rparr>"
    have "a2dp_refs ?d3 = {#}" by (simp add: a2dp_refs_def)
    moreover have "a2dp_wired ?d3"
    proof -
      have "a2dp_owned d2 = a2dp_owned d" using ok2(2) by (simp add: a2dp_fixed_def a2dp_owned_def)
      then show ?thesis using f by (simp add: a2dp_wired_def a2dp_full_def a2dp_owned_def)
    qed
    moreover have "a2dp_ok hc P X (io2, ?d3)"
      by (rule a2dp_ok_upd [OF ok2(1) _ 2(1)]) (use a2dp_okD(2) [OF ok2(1)] in \<open>simp_all add: a2dp_owned_def a2dp_stream_def\<close>)
    ultimately show ?thesis using w1(1) w2 1(4,5) 2(3,4,6) fd(4,6) by (simp add: a2dp_full_def)
  qed
  show ?thesis unfolding a2dp_Stop_def prod.case 1(1) bind.bind_lunit
  proof (rule unless_fault_bind [OF flush [folded h]], clarify)
    fix io2 d2
    assume "notifs_ok a2dp_notifications io2" "req_frame io1 io2" "\<not> io_queued io2" "\<not> io_busy io2"
      "\<forall>q. q \<notin> set a2dp_notifications \<longrightarrow> io_reqs io2 q = io_reqs io1 q"
      "\<forall>q. io_purged io1 \<longrightarrow> pending_in io2 q = pending_in io1 q" "a2dp_inv remote (a2dp_core d1) R (io_log io2) (io_pool io2) d2"
    from rest [OF this] show "unless_fault (\<not> hc) (do { w1 \<leftarrow> a2dp_remove (ax_filters e) d2 w; w2 \<leftarrow> a2dp_release_filters d2 w1;
        Some (io2, d2 \<lparr> ah_UnknownTopology := None, ah_UnknownWave := None, ah_State := StateStopped \<rparr>, w2) }) ?post"
      by (elim exE conjE) (simp only: unless_fault_simps)
  qed
qed

section \<open>The destructor\<close>

text \<open>The descriptor of the speaker is freed with the wrong tag.\<close>

lemma a2dp_dtor_memory_fault:
  assumes "a2dp_tags d" and "ah_SpeakerDescriptor d \<noteq> None"
  shows "a2dp_dtor_memory d io = None"
proof -
  have "A2DPSIDEBANDTEST_POOLTAG02 \<noteq> MINADAPTER_POOLTAG" by (simp add: const_defs)
  then have "pool_free_opt (map_option fst (ah_SpeakerDescriptor d)) A2DPSIDEBANDTEST_POOLTAG02 x = None" for x :: a2dp_io
    using assms free_wrong_tag [of MINADAPTER_POOLTAG "ah_SpeakerDescriptor d" A2DPSIDEBANDTEST_POOLTAG02 x] by (simp add: a2dp_tags_def)
  then show ?thesis by (simp add: a2dp_dtor_memory_def)
qed

lemma a2dp_dtor_memory_ok:
  assumes t: "a2dp_tags d" "a2dp_caps hc d" "a2dp_wired d" and n: "ah_SpeakerDescriptor d = None"
    and L: "io_pool io = block_of (ah_ConnectedCodecCaps d) + (a2dp_blocks d + wave_block (ah_Miniports d) + P)"
  shows "a2dp_dtor_memory d io = Some (io \<lparr> io_pool := P \<rparr>)"
proof -
  have z: "ah_Miniports d = None" "ah_SupportedFormatsIntersection d = None" using t(3) n by (simp_all add: a2dp_wired_def)
  have u: "tagged MINADAPTER_POOLTAG (ah_SymbolicLinkName d)" "tagged MINADAPTER_POOLTAG (ah_Descriptor d)"
      "tagged A2DPSIDEBANDTEST_POOLTAG02 (ah_VolumePropValues d)" "tagged A2DPSIDEBANDTEST_POOLTAG06 (ah_MutePropValues d)"
      "tagged A2DPSIDEBANDTEST_POOLTAG07 (ah_ConnectedCodecCaps d)"
    using t(1,2) by (simp_all add: a2dp_tags_def a2dp_caps_def)
  have b: "io_pool io = block_of (ah_SymbolicLinkName d) + (block_of (ah_Descriptor d) + (block_of (ah_VolumePropValues d)
      + (block_of (ah_MutePropValues d) + (block_of (ah_ConnectedCodecCaps d) + P))))"
    using L n z by (simp add: a2dp_blocks_def wave_block_def ac_simps)
  have none: "pool_free_opt None tag x = Some x" "a2dp_DeleteCustomEndpointMinipair None x = Some x" for tag and x :: a2dp_io
    by (simp_all add: pool_free_opt_def a2dp_DeleteCustomEndpointMinipair_def DeleteCustomEndpointMinipair_def)
  show ?thesis
    unfolding a2dp_dtor_memory_def
    by (simp add: none n z b free_tagged_eq [OF _ u(1)] free_tagged_eq [OF _ u(2)] free_tagged_eq [OF _ u(3)]
        free_tagged_eq [OF _ u(4)] free_tagged_eq [OF _ u(5)])
qed

text \<open>
  The destructor faults exactly when the device has a descriptor of the speaker. Otherwise it returns
  all memory, all objects and the filters.
\<close>

lemma a2dp_dtor_ok:
  assumes m: "a2dp_mem hc P X (io, d)" and p: "\<forall>q. \<not> pending_in io q" and w: "acct w (a2dp_refs d + E)" "a2dp_wired d"
  shows "if ah_SpeakerDescriptor d \<noteq> None then a2dp_dtor (io, d, w) = None
    else \<exists>io' w'. a2dp_dtor (io, d, w) = Some (io', w') \<and> io_pool io' = P \<and> io_objects io' = X \<and> acct w' E"
proof -
  let ?d = "d \<lparr> ah_WdfIoTarget := False \<rparr>"
  let ?W = "if ah_WorkItem d then {#WdfWorkItem#} else {#}" and ?C = "if ah_ReqCollection d then {#WdfCollection#} else {#}"
  let ?T = "if ah_WdfIoTarget d then {#WdfIoTarget#} else {#}"
  have L: "io_pool io = block_of (ah_ConnectedCodecCaps d) + (a2dp_blocks d + wave_block (ah_Miniports d) + P)"
    using m by (simp add: a2dp_mem_def)
  have mm: "a2dp_tags d" "a2dp_caps hc d" "io_objects io = a2dp_members d + a2dp_req_objs io + X" using m by (simp_all add: a2dp_mem_def)
  have kd: "a2dp_tags ?d = a2dp_tags d" "a2dp_caps hc ?d = a2dp_caps hc d" "a2dp_wired ?d = a2dp_wired d" "a2dp_blocks ?d = a2dp_blocks d"
    by (simp_all add: a2dp_tags_def a2dp_caps_def a2dp_wired_def a2dp_blocks_def)
  have "io_objects io = ?T + (a2dp_req_objs io + (?W + (?C + X)))" unfolding mm(3) a2dp_members_def by (simp only: ac_simps)
  from delete_if_eq [OF this]
  have 1: "a2dp_dtor_target (io, d) = Some (io \<lparr> io_objects := a2dp_req_objs io + (?W + (?C + X)) \<rparr>, ?d)" by (simp add: a2dp_dtor_target_def)
  let ?io1 = "io \<lparr> io_objects := a2dp_req_objs io + (?W + (?C + X)) \<rparr>"
  show ?thesis
  proof (cases "ah_SpeakerDescriptor d = None")
    case False
    have "a2dp_dtor_memory ?d ?io1 = None" by (rule a2dp_dtor_memory_fault) (use mm(1) kd(1) False in simp_all)
    then show ?thesis using False 1 by (simp add: a2dp_dtor_def)
  next
    case True
    have 2: "a2dp_dtor_memory ?d ?io1 = Some (?io1 \<lparr> io_pool := P \<rparr>)"
      by (rule a2dp_dtor_memory_ok) (use mm w(2) kd True L in simp_all)
    let ?io2 = "?io1 \<lparr> io_pool := P \<rparr>"
    have o: "io_objects ?io2 = sum_list (map (\<lambda>q. req_objs (req_mems ?io2 q)) a2dp_requests) + (?W + (?C + X))"
      by (simp add: a2dp_req_objs_def)
    have "\<forall>q. \<not> pending_in ?io2 q" "distinct a2dp_requests" using p by (simp_all add: a2dp_requests_def)
    from delete_requests_ok [OF this o] obtain g where
      3: "delete_requests a2dp_requests ?io2 = Some (?io2 \<lparr> io_objects := ?W + (?C + X), io_reqs := g \<rparr>)" by blast
    let ?io3 = "?io2 \<lparr> io_objects := ?W + (?C + X), io_reqs := g \<rparr>"
    let ?io4 = "?io3 \<lparr> io_objects := ?C + X \<rparr>"
    have 4: "wdf_delete_if (ah_WorkItem d) WdfWorkItem ?io3 = Some ?io4" by (rule delete_if_eq) simp
    have 5: "wdf_delete_if (ah_ReqCollection d) WdfCollection ?io4 = Some (?io4 \<lparr> io_objects := X \<rparr>)" by (rule delete_if_eq) simp
    have "a2dp_refs ?d = a2dp_refs d" by (simp add: a2dp_refs_def)
    then obtain w' where 6: "a2dp_release_filters ?d w = Some w'" "acct w' E" using a2dp_release_refs [of w ?d E] w(1) by auto
    have "a2dp_dtor (io, d, w) = Some (?io4 \<lparr> io_objects := X \<rparr>, w')"
      unfolding a2dp_dtor_def prod.case 1 bind.bind_lunit 2 3 using 4 5 6(1) by simp
    then show ?thesis using True 6(2) by auto
  qed
qed

section \<open>From Init to the destructor\<close>

lemma a2dp_initial_mem:
  assumes "a2dp_initial P X (io, d)"
  shows "a2dp_mem hc P X (io, d)" "a2dp_stored d = 0"
    "a2dp_refs d = {#}" "a2dp_wired d" "ah_SpeakerDescriptor d = None" "ah_Descriptor d = None" "\<forall>q. \<not> pending_in io q"
proof -
  have f: "a2dp_fresh d" and i: "io_pool io = block_of (ah_SymbolicLinkName d) + P" "io_objects io = a2dp_members d + a2dp_req_objs io + X"
      "tagged MINADAPTER_POOLTAG (ah_SymbolicLinkName d)" and r: "\<forall>q r. io_reqs io q = Some r \<longrightarrow> Errors r = 0 \<and> \<not> Pending r"
    using assms by (simp_all add: a2dp_initial_def)
  have b: "io_pool io = block_of (ah_ConnectedCodecCaps d) + (a2dp_blocks d + wave_block (ah_Miniports d) + P)"
    using f i(1) by (simp add: a2dp_fresh_def a2dp_blocks_def wave_block_def)
  show "a2dp_stored d = 0" using f by (simp add: a2dp_fresh_def a2dp_stored_def)
  have "a2dp_tags d" "a2dp_caps hc d" using f i(3) by (simp_all add: a2dp_fresh_def a2dp_tags_def a2dp_caps_def caps_size_def)
  then show "a2dp_mem hc P X (io, d)" using b i(2) by (simp add: a2dp_mem_def)
  show "a2dp_refs d = {#}" "a2dp_wired d" "ah_SpeakerDescriptor d = None" "ah_Descriptor d = None"
    using f by (simp_all add: a2dp_fresh_def a2dp_refs_def a2dp_wired_def)
  show "\<forall>q. \<not> pending_in io q" using r by (auto simp: pending_in_def split: option.splits)
qed

lemma a2dp_initial_ready:
  assumes i: "a2dp_initial P X (io, d)" and r: "\<forall>q. req_mems io q = Some (True, True)" and a: "acct w E"
  shows "a2dp_ready hc h P X E (io, d, w)"
proof -
  note im = a2dp_initial_mem [OF i]
  have "\<exists>x. io_reqs io q = Some x \<and> \<not> Pending x \<and> q \<notin> set (io_collection io) \<and> Errors x \<le> NOTIFICATION_MAX_ERROR_COUNT" for q
  proof -
    obtain x where "io_reqs io q = Some x" using r [rule_format, of q] by auto
    then show ?thesis using i by (simp add: a2dp_initial_def)
  qed
  then have "a2dp_idle start_requests io" by (simp add: a2dp_idle_def)
  moreover have "a2dp_stage 0 d" using i by (simp add: a2dp_initial_def a2dp_fresh_def a2dp_stage_def)
  moreover have "a2dp_full hc P X E (io, d, w)" using a2dp_initial_ok [OF i r] a im(3,4) by (simp add: a2dp_full_def)
  ultimately show ?thesis using im(5,7) by (simp add: a2dp_ready_def speaker_props_ok_def)
qed

lemma a2dp_run_full:
  assumes f: "a2dp_full hc P X E (io, d, w)" and h: "hc = codec_honest remote"
  shows "unless_fault (\<not> hc) (a2dp_run remote es (io, d)) (\<lambda>(io1, d1). a2dp_full hc P X E (io1, d1, w) \<and> a2dp_fixed d1 = a2dp_fixed d)"
proof -
  have "a2dp_ok hc P X (io, d)" using f by (simp add: a2dp_full_def)
  from a2dp_run_ok [OF this h, of es] show ?thesis
  proof (rule unless_fault_mono, clarify)
    fix io1 d1 assume 1: "a2dp_ok hc P X (io1, d1)" "a2dp_fixed (snd (io1, d1)) = a2dp_fixed d"
    then have fx: "a2dp_fixed d1 = a2dp_fixed d" by simp
    note fd = a2dp_fixedD [OF fx]
    have "a2dp_owned d1 = a2dp_owned d" using fx by (simp add: a2dp_fixed_def)
    then have "a2dp_refs d1 = a2dp_refs d" "a2dp_wired d1 = a2dp_wired d" by (simp_all add: a2dp_refs_def a2dp_wired_def fd a2dp_owned_def)
    then show "a2dp_full hc P X E (io1, d1, w) \<and> a2dp_fixed d1 = a2dp_fixed d" using 1(1) f fx by (simp add: a2dp_full_def)
  qed
qed

end
