(* ===== verification/A2dpProps.thy ===== *)
theory A2dpProps
  imports A2dpLife UsbHsProps
begin

text \<open>
  The properties of the A2DP headphones (theories A2dpDevice, A2dpSafety, A2dpLife): the capabilities
  they are told, the choice of a format, and the life of a device from Init to the destructor.
\<close>

section \<open>Capabilities and formats\<close>

text \<open>
  The bytes SetA2dpHpDeviceCapabilities sends: SBC with joint stereo, 44.1 and 48 kHz and a bit pool of 2
  to 83, AAC with MPEG-2 LC, 48 kHz, stereo and a variable rate of at most 256000 bits per second.
\<close>

lemma sent_capabilities:
  "sbc_bytes supported_sbc = [0x07, 0x06, 0x00, 0x00, 0x31, 0x15, 0x02, 0x53]"
  "aac_bytes supported_aac = [0x07, 0x08, 0x00, 0x02, 0x80, 0x00, 0x84, 0x83, 0xe8, 0x00]"
  by (simp_all add: sbc_bytes_def aac_bytes_def supported_sbc_def supported_aac_def zero_sbc_def zero_aac_def bits_def
      sbc_CorrectLosc_def aac_CorrectLosc_def sizeof_sbc_def sizeof_aac_def sizeof_category_header_def)

text \<open>
  The formats the device compares are both the driver's own list: a list whose formats match themselves
  always yields its last format, and the headphones are not asked.
\<close>

lemma a2dp_format_selection:
  assumes "uc_formats cf UsbSpeaker \<noteq> []" and "\<forall>f \<in> set (uc_formats cf UsbSpeaker). ep_format_matches cf f f"
  shows "a2dp_VerifyEndpointFormatCompatibility cf (uc_formats cf UsbSpeaker) (uc_formats cf UsbSpeaker) index
     = (STATUS_SUCCESS, length (uc_formats cf UsbSpeaker) - 1)"
proof -
  let ?F = "uc_formats cf UsbSpeaker"
  have "compatible_formats cf ?F ?F = [0..<length ?F]"
    unfolding compatible_formats_def by (rule filter_True) (use assms(2) nth_mem in fastforce)
  moreover have "[0..<length ?F] \<noteq> []" "last [0..<length ?F] = length ?F - 1" using assms(1) by (simp_all add: last_upt)
  ultimately show ?thesis
    by (simp add: a2dp_VerifyEndpointFormatCompatibility_def VerifyEndpointFormatCompatibility_def hardware_format_loop_eq
        compatible_formats_def Let_def)
qed

section \<open>Life of the headphones\<close>


text \<open>Headphones with a speaker that has neither volume nor mute, and an environment without failures.\<close>

definition sample_a2dp_remote :: a2dp_remote where
  "sample_a2dp_remote log code =
     (let reply = \<lparr> ar_information = 100, ar_whole = True, ar_params = zero_a2dp_params, ar_NumberOfEndpoints = 1,
            ar_endpoint = \<lparr> ed_Direction = KSPIN_DATAFLOW_OUT, ed_Volume = 0, ed_Mute = 0, ed_Feedback = 0,
              ed_VolumePropertyValuesSize = 0, ed_MutePropertyValuesSize = 0, ed_Category = 1, ed_FriendlyName = ''Headphones'',
              ed_ContainerId = 3, ed_FilterInterfaceProperties = [] \<rparr>,
            ar_formats = [], ar_bytes = [] \<rparr>
      in (case code of
            SBAUD_GET_DEVICE_DESCRIPTOR n \<Rightarrow> (if n = 0 then STATUS_BUFFER_TOO_SMALL else STATUS_SUCCESS, reply)
          | SBAUD_GET_ENDPOINT_DESCRIPTOR2 i n \<Rightarrow> (if n = 0 then STATUS_BUFFER_TOO_SMALL else STATUS_SUCCESS, reply)
          | SBAUD_GET_SIOP s t i n \<Rightarrow> (if n = 0 then STATUS_BUFFER_TOO_SMALL else STATUS_SUCCESS, reply)
          | _ \<Rightarrow> (STATUS_SUCCESS, reply)))"

definition sample_a2dp_init :: a2dp_init_env where
  "sample_a2dp_init = \<lparr> ai_workitem = STATUS_SUCCESS, ai_collection = STATUS_SUCCESS, ai_target = STATUS_SUCCESS,
     ai_open = STATUS_SUCCESS, ai_name = True, ai_request = (\<lambda>q. sample_request), ai_hash = STATUS_SUCCESS \<rparr>"

definition sample_a2dp_start :: a2dp_start_env where
  "sample_a2dp_start = \<lparr> as_device = sample_query, as_endpoints = (\<lambda>i. sample_query), as_volume_alloc = True, as_mute_alloc = True,
     as_formats_alloc = True, as_pair = pair_env.extend sample_pair \<lparr> pe_wave = True \<rparr>, as_filters = sample_filters 1,
     as_send = (\<lambda>q. sample_send) \<rparr>"

definition sample_a2dp_stop :: a2dp_stop_env where
  "sample_a2dp_stop = \<lparr> ax_work = \<lparr> ne_reuse = (\<lambda>q. STATUS_SUCCESS), ne_send = (\<lambda>q. sample_send) \<rparr>,
     ax_codec = (\<lambda>l. sample_query), ax_filters = sample_filters 1 \<rparr>"

definition sample_a2dp_io :: a2dp_io where
  "sample_a2dp_io = \<lparr> io_log = [], io_purged = False, io_reqs = (\<lambda>q. None), io_collection = [], io_queued = False,
     io_busy = False, io_pool = {#}, io_objects = {#} \<rparr>"

definition sample_a2dp :: A2dpHpDevice where
  "sample_a2dp = \<lparr> ah_State = StateInvalid, ah_WdfIoTarget = False, ah_SymbolicLinkName = None, ah_WaveName = [], ah_TopologyName = [],
     ah_Miniports = None, ah_UnknownTopology = None, ah_UnknownWave = None, ah_Descriptor = None, ah_SpeakerDescriptor = None,
     ah_VolumePropValues = None, ah_VolumeLevel = 0, ah_MutePropValues = None, ah_Mute = 0, ah_ConnectedCodecCaps = None,
     ah_ConnectedCodecLock = MutexUninitialised, ah_ConnectionStatus = 0, ah_EpIndex = 0, ah_StreamStatus = 0, ah_StreamStatusEvent = True,
     ah_SupportedFormatsIntersection = None, ah_SelectedFormat = 0, ah_HwTransportResource = 0, ah_WorkItem = False,
     ah_ReqCollection = False, ah_nStreams = 0, ah_nStartedStreams = 0, ah_Callbacks = (\<lambda>c. None), ah_Invoked = [] \<rparr>"

lemma sample_a2dp_honest: "a2dp_honest sample_a2dp_remote" "codec_honest sample_a2dp_remote"
  by (auto simp: a2dp_honest_def a2dp_whole_def a2dp_sizes_def a2dp_answers_def codec_honest_def sample_a2dp_remote_def a2dp_props_ok_def
      configured_codec_def Let_def split: if_splits)

lemma sample_a2dp_Init_success:
  assumes "a2dp_Init sample_usb_config sample_a2dp_init link (io, d) = Some (st, s)"
  shows "NT_SUCCESS st"
proof -
  let ?fs = "a2dp_Init_basics sample_a2dp_init link @ map (\<lambda>q. a2dp_Init_request (ai_request sample_a2dp_init q) q) a2dp_requests
      @ [a2dp_Init_names sample_usb_config (ai_hash sample_a2dp_init) link]"
  let ?ok = "\<lambda>f. step_spec (\<lambda>s. True) f (\<lambda>s. True) (\<lambda>s. False)"
  have 1: "list_all ?ok (a2dp_Init_basics sample_a2dp_init link)"
    by (auto simp: step_spec_def a2dp_Init_basics_def sample_a2dp_init_def a2dp_Init_workitem_def a2dp_Init_collection_def
        a2dp_Init_target_def a2dp_Init_open_def a2dp_Init_link_def pool_alloc_def)
  have 2: "?ok (a2dp_Init_request (ai_request sample_a2dp_init q) q)" for q
    by (auto simp: step_spec_def sample_a2dp_init_def sample_request_def a2dp_Init_request_def create_request_def Let_def)
  have 3: "?ok (a2dp_Init_names sample_usb_config (ai_hash sample_a2dp_init) link)"
    by (auto simp: step_spec_def sample_a2dp_init_def a2dp_Init_names_def a2dp_CreateFilterNames_def Let_def)
  have "list_all ?ok ?fs" using 1 2 3 by (auto simp: list_all_iff)
  then have "?ok (run_steps ?fs)" by (rule run_steps_inv)
  from step_specD [OF this TrueI, of "(io \<lparr> io_reqs := Map.empty \<rparr>, a2dp_Init_members d)"] obtain x y where
    "run_steps ?fs (io \<lparr> io_reqs := Map.empty \<rparr>, a2dp_Init_members d) = Some (x, y)" "NT_SUCCESS x"
    by (auto split: if_splits)
  then show ?thesis using assms by (cases y) (simp add: a2dp_Init_def)
qed


section \<open>Reports of the configured codec\<close>

text \<open>
  C25. What a report of the configured codec does to a running device whose lock is initialised and
  whose capabilities are in the pool. UpdateA2dpHpCodecCaps faults exactly when there are capabilities
  before and after it and one of the two blocks is shorter than the union it compares, ten bytes; a
  complete SBC block has eight. Otherwise the new block takes the place of the old one, which is freed,
  nothing else changes, and the miniport is told (the handler of the format change is called once)
  exactly when both blocks are there and differ in the first ten bytes; the first report tells nobody.
\<close>

theorem codec_update_exact:
  assumes "tagged A2DPSIDEBANDTEST_POOLTAG07 (ah_ConnectedCodecCaps d)" and "block_of (ah_ConnectedCodecCaps d) \<subseteq># io_pool io"
    and "ah_ConnectedCodecLock d = MutexFree"
  shows "UpdateA2dpHpCodecCaps new (io, d) =
    (case (ah_ConnectedCodecCaps d, new) of
       (Some (_, old), Some (_, b)) \<Rightarrow>
         if length old < 10 \<or> length b < 10 then None
         else Some (STATUS_SUCCESS, io \<lparr> io_pool := io_pool io - {#A2DPSIDEBANDTEST_POOLTAG07#} \<rparr>,
           d \<lparr> ah_ConnectedCodecCaps := new, ah_Invoked := ah_Invoked d @ (if take 10 old = take 10 b then []
                else (case ah_Callbacks d FormatChangeCallback of None \<Rightarrow> [] | Some h \<Rightarrow> [h])) \<rparr>)
     | (old, _) \<Rightarrow> Some (STATUS_SUCCESS, io \<lparr> io_pool := io_pool io - block_of old \<rparr>, d \<lparr> ah_ConnectedCodecCaps := new \<rparr>))"
proof -
  have f: "pool_free_opt (map_option fst (ah_ConnectedCodecCaps d)) A2DPSIDEBANDTEST_POOLTAG07 io
      = Some (io \<lparr> io_pool := io_pool io - block_of (ah_ConnectedCodecCaps d) \<rparr>)"
    by (rule free_tagged_eq) (use assms(1,2) in \<open>simp_all add: subset_mset.add_diff_inverse\<close>)
  have t: "\<And>u b. ah_ConnectedCodecCaps d = Some (u, b) \<Longrightarrow> u = A2DPSIDEBANDTEST_POOLTAG07" using assms(1) by (auto simp: tagged_def)
  have k: "d \<lparr> ah_ConnectedCodecCaps := x, ah_Invoked := ah_Invoked d \<rparr> = d \<lparr> ah_ConnectedCodecCaps := x \<rparr>" for x by (cases d) simp
  show ?thesis
  proof (cases "ah_ConnectedCodecCaps d")
    case None
    then show ?thesis using f assms(3) by (simp add: UpdateA2dpHpCodecCaps_def)
  next
    case (Some o1)
    obtain old where o1: "o1 = (A2DPSIDEBANDTEST_POOLTAG07, old)" using t Some by (cases o1) auto
    show ?thesis
      using f assms(3) Some o1
      by (cases new) (auto simp: UpdateA2dpHpCodecCaps_def codec_caps_differ_def a2dp_invoke_def k Let_def split: option.split)
  qed
qed

text \<open>Two SBC blocks: the second report of a codec that is complete faults. Two AAC blocks that differ: the miniport is told.\<close>

definition codec_device :: "BYTE list \<Rightarrow> A2dpHpDevice" where
  "codec_device old = sample_a2dp \<lparr> ah_ConnectedCodecCaps := Some (A2DPSIDEBANDTEST_POOLTAG07, old), ah_ConnectedCodecLock := MutexFree,
     ah_Callbacks := (\<lambda>c. Some (1, 2)) \<rparr>"

theorem codec_update_exact_witness:
  "UpdateA2dpHpCodecCaps (Some (A2DPSIDEBANDTEST_POOLTAG07, sbc_bytes supported_sbc))
     (sample_a2dp_io \<lparr> io_pool := {#A2DPSIDEBANDTEST_POOLTAG07#} \<rparr>, codec_device (sbc_bytes supported_sbc)) = None
   \<and> (\<exists>io' d'. UpdateA2dpHpCodecCaps (Some (A2DPSIDEBANDTEST_POOLTAG07, replicate 10 0))
     (sample_a2dp_io \<lparr> io_pool := {#A2DPSIDEBANDTEST_POOLTAG07#} \<rparr>, codec_device (aac_bytes supported_aac)) = Some (STATUS_SUCCESS, io', d')
     \<and> ah_Invoked d' = [(1, 2)])"
proof -
  have 1: "tagged A2DPSIDEBANDTEST_POOLTAG07 (ah_ConnectedCodecCaps (codec_device b))"
    "block_of (ah_ConnectedCodecCaps (codec_device b)) \<subseteq># io_pool (sample_a2dp_io \<lparr> io_pool := {#A2DPSIDEBANDTEST_POOLTAG07#} \<rparr>)"
    "ah_ConnectedCodecLock (codec_device b) = MutexFree" for b by (simp_all add: codec_device_def tagged_def block_of_def)
  show ?thesis unfolding codec_update_exact [OF 1] by (simp add: codec_device_def sent_capabilities sample_a2dp_def numeral_eq_Suc)
qed

section \<open>The device of the sideband manager\<close>

definition a2dp_view :: "a2dp_world \<Rightarrow> eHsState \<times> (pool_tag \<times> string) option" where
  "a2dp_view = (\<lambda>(io, d, w). (ah_State d, ah_SymbolicLinkName d))"

text \<open>Start changes the life-cycle state only when it fails, and never the link name.\<close>

lemma a2dp_Start_keeps:
  "step_keeps a2dp_view (a2dp_Start_caps remote)" "step_keeps a2dp_view (a2dp_Start_descriptor remote qe)"
  "step_keeps a2dp_view (a2dp_Start_count n)" "step_keeps a2dp_view (a2dp_Start_volume remote a)"
  "step_keeps a2dp_view (a2dp_Start_mute remote a)" "step_keeps a2dp_view (a2dp_Start_formats cf a)"
  "step_keeps a2dp_view (a2dp_Start_pair cf pe)" "step_keeps a2dp_view (a2dp_Start_verify cf)"
  "step_keeps a2dp_view (a2dp_Start_filters fe)" "step_keeps a2dp_view (a2dp_Start_enable f)"
  "step_keeps a2dp_view (a2dp_Start_enable_volume ve)" "step_keeps a2dp_view (a2dp_Start_claim remote)"
  by (auto simp: step_keeps_def a2dp_view_def a2dp_Start_caps_def a2dp_Start_descriptor_def a2dp_Start_count_def a2dp_Start_volume_def
      a2dp_Start_mute_def a2dp_Start_formats_def a2dp_Start_pair_def a2dp_Start_verify_def a2dp_Start_filters_def a2dp_Start_enable_def
      a2dp_Start_enable_volume_def a2dp_Start_claim_def Let_def split: prod.splits bind_splits if_splits dest!: a2dp_values_same)

lemma a2dp_loop_keeps:
  "a2dp_endpoint_loop remote e is n (io, d) = Some (st, m, io', d') \<Longrightarrow> a2dp_view (io', d', w) = a2dp_view (io, d, w)"
proof (induction "is" arbitrary: n io d)
  case (Cons i js)
  then show ?case by (auto simp: a2dp_view_def split: bind_splits if_splits prod.splits)
qed (simp add: a2dp_view_def)

lemma a2dp_Start_state:
  assumes "a2dp_Start remote cf e (io, d, w) = Some (io1, d1, w1)"
  shows "ah_SymbolicLinkName d1 = ah_SymbolicLinkName d \<and> (ah_State d1 = ah_State d \<or> ah_State d1 = StateFailed)"
proof -
  have sp: "step_keeps a2dp_view (a2dp_Start_speaker remote cf e)"
    unfolding step_keeps_def a2dp_Start_speaker_def
    by (auto simp del: run_steps.simps split: if_splits elim!: run_steps_keeps [rotated] simp: a2dp_Start_keeps)
  have rest: "step_keeps a2dp_view (a2dp_Start_rest remote cf e)"
    unfolding step_keeps_def
  proof (intro allI impI)
    fix s st s' assume a: "a2dp_Start_rest remote cf e s = Some (st, s')"
    obtain io d w where s: "s = (io, d, w)" by (metis prod_cases3)
    from a s obtain st1 n io1 d1 where l: "a2dp_Start_endpoints remote (as_endpoints e) (io, d) = Some (st1, n, io1, d1)"
      "if NT_SUCCESS st1 then run_steps [a2dp_Start_count n, a2dp_Start_speaker remote cf e, a2dp_Start_claim remote] (io1, d1, w) = Some (st, s')
       else s' = (io1, d1, w)"
      by (auto simp: a2dp_Start_rest_def simp del: run_steps.simps split: bind_splits if_splits)
    have k: "a2dp_view (io1, d1, w) = a2dp_view s"
      using l(1) a2dp_loop_keeps s by (auto simp: a2dp_Start_endpoints_def split: bind_splits)
    show "a2dp_view s' = a2dp_view s"
    proof (cases "NT_SUCCESS st1")
      case True
      have "a2dp_view s' = a2dp_view (io1, d1, w)"
        by (rule run_steps_keeps [where fs = "[a2dp_Start_count n, a2dp_Start_speaker remote cf e, a2dp_Start_claim remote]"])
          (use l(2) True in \<open>simp_all add: a2dp_Start_keeps sp del: run_steps.simps\<close>)
      then show ?thesis using k by simp
    qed (use l(2) k in simp)
  qed
  from assms obtain st d2 io2 where r: "run_steps [a2dp_Start_caps remote, a2dp_Start_descriptor remote (as_device e),
       a2dp_Start_rest remote cf e] (io, d, w) = Some (st, io2, d2, w1)" "d1 = (if NT_SUCCESS st then d2 else d2 \<lparr> ah_State := StateFailed \<rparr>)"
    unfolding a2dp_Start_def by (auto simp del: run_steps.simps split: bind_splits if_splits)
  have "a2dp_view (io2, d2, w1) = a2dp_view (io, d, w)"
    by (rule run_steps_keeps [OF _ r(1)]) (simp add: a2dp_Start_keeps rest)
  then show ?thesis using r(2) by (simp add: a2dp_view_def)
qed

text \<open>All that Start, the events and Stop may fault for.\<close>

definition a2dp_trouble :: "a2dp_remote \<Rightarrow> a2dp_start_env \<Rightarrow> bool" where
  "a2dp_trouble remote e \<longleftrightarrow> \<not> a2dp_honest remote \<or> \<not> as_formats_alloc e \<or> \<not> codec_honest remote"

interpretation a2dp_managed: managed_device a2dp_view "ini_with (a2dp_Init cf ie link)" "a2dp_Start remote cf se"
    "run_with (a2dp_run remote evs)" "a2dp_Stop remote xe" link "a2dp_trouble remote se"
    "\<lambda>(io, d, w). io_fresh io \<and> ah_SpeakerDescriptor d = None \<and> acct w E \<and> filters_ok (as_filters se)"
    "\<lambda>(io, d, w). filters_ok (as_filters se) \<and> (\<exists>P X. a2dp_ready (codec_honest remote) (a2dp_honest remote \<and> as_formats_alloc se) P X E (io, d, w))
       \<and> ah_Descriptor d = None \<and> a2dp_stored d = 0"
    "\<lambda>s. \<exists>P X. a2dp_full (codec_honest remote) P X E s"
  for cf ie link remote se evs xe E
proof (unfold_locales, goal_cases)
  case (1 x)
  obtain io d w where x: "x = (io, d, w)" by (metis prod_cases3)
  with 1 have h: "io_fresh io" "ah_SpeakerDescriptor d = None" "acct w E" "filters_ok (as_filters se)" by auto
  obtain st io1 d1 where i: "a2dp_Init cf ie link (io, d) = Some (st, io1, d1)" "a2dp_initial (io_pool io) (io_objects io) (io1, d1)"
      "NT_SUCCESS st \<longrightarrow> ah_State d1 = StateRunning \<and> ah_SymbolicLinkName d1 = Some (MINADAPTER_POOLTAG, link)
         \<and> (\<forall>q. req_mems io1 q = Some (True, True))"
      "\<not> NT_SUCCESS st \<longrightarrow> ah_State d1 = StateInitializing"
    using a2dp_Init_ok [OF h(1,2), of cf ie link] by blast
  have "NT_SUCCESS st \<longrightarrow> a2dp_ready (codec_honest remote) (a2dp_honest remote \<and> as_formats_alloc se) (io_pool io) (io_objects io) E (io1, d1, w)
      \<and> ah_Descriptor d1 = None \<and> a2dp_stored d1 = 0"
    using a2dp_initial_ready [OF i(2) _ h(3)] a2dp_initial_mem(2,6) [OF i(2)] i(3) by blast
  then show ?case using i(1,3,4) h(4) x by (auto simp: ini_with_def a2dp_view_def)
next
  case (2 y)
  obtain io d w where y: "y = (io, d, w)" by (metis prod_cases3)
  then obtain P X where f: "a2dp_ready (codec_honest remote) (a2dp_honest remote \<and> as_formats_alloc se) P X E (io, d, w)"
      "ah_Descriptor d = None" "a2dp_stored d = 0" "filters_ok (as_filters se)" using 2 by auto
  from a2dp_Start_ok [OF f(1-3) _ f(4), of remote cf]
  have start: "unless_fault (\<not> (a2dp_honest remote \<and> as_formats_alloc se)) (a2dp_Start remote cf se (io, d, w))
    (\<lambda>(io', d', w'). a2dp_counted (codec_honest remote) P X E (ah_State d' \<noteq> StateFailed) (io', d', w'))" by simp
  show ?case
  proof (cases "a2dp_Start remote cf se (io, d, w)")
    case None
    then show ?thesis using start y by (auto simp: a2dp_trouble_def)
  next
    case (Some s)
    obtain io2 d2 w2 where t: "s = (io2, d2, w2)" by (metis prod_cases3)
    have "ah_SymbolicLinkName d2 = ah_SymbolicLinkName d \<and> (ah_State d2 = ah_State d \<or> ah_State d2 = StateFailed)"
      by (rule a2dp_Start_state [OF Some [unfolded t]])
    then show ?thesis using Some start y t by (auto simp: a2dp_view_def a2dp_counted_def)
  qed
next
  case (3 z)
  obtain io d w where z: "z = (io, d, w)" by (metis prod_cases3)
  then obtain P X where f: "a2dp_full (codec_honest remote) P X E (io, d, w)" using 3 by auto
  note run = a2dp_run_full [OF f refl, of evs]
  show ?case
  proof (cases "a2dp_run remote evs (io, d)")
    case None
    then show ?thesis using run z by (simp add: run_with_def a2dp_trouble_def)
  next
    case (Some s)
    obtain io3 d3 where t: "s = (io3, d3)" by fastforce
    then have r: "a2dp_full (codec_honest remote) P X E (io3, d3, w)" "a2dp_fixed d3 = a2dp_fixed d" using run Some by simp_all
    have "a2dp_view (io3, d3, w) = a2dp_view (io, d, w)" using a2dp_fixedD [OF r(2)] by (simp add: a2dp_view_def)
    moreover have "run_with (a2dp_run remote evs) z = Some (io3, d3, w)" using Some t z by (simp add: run_with_def)
    ultimately show ?thesis using r(1) z by auto
  qed
next
  case (4 z)
  obtain io d w where z: "z = (io, d, w)" by (metis prod_cases3)
  then obtain P X where f: "a2dp_full (codec_honest remote) P X E (io, d, w)" using 4 by auto
  show ?case unfolding z
    by (cases "a2dp_Stop remote xe (io, d, w)")
      (use a2dp_Stop_ok [OF f refl, of xe] in \<open>auto simp: a2dp_trouble_def a2dp_view_def\<close>)
qed


definition sample_usb_stop :: usb_stop_env where
  "sample_usb_stop = \<lparr> ux_work = \<lparr> ne_reuse = (\<lambda>q. STATUS_SUCCESS), ne_send = (\<lambda>q. sample_send) \<rparr>, ux_filters = (\<lambda>s. sample_filters 1) \<rparr>"

lemma sample_env_ok: "hfp_env_ok sample_start" "usb_env_ok sample_usb_start" "filters_ok (as_filters sample_a2dp_start)"
  by (simp_all add: hfp_env_ok_def usb_env_ok_def sample_start_def sample_usb_start_def sample_a2dp_start_def sample_fresh)


end
