(* ===== verification/Spec2Isabelle.thy ===== *)
theory Spec2Isabelle
  imports SaveData ToneGenerator MiniPairs RegistryCopy UsbHsProps A2dpProps
begin

text \<open>
  Inferno is an audio-over-network system for Windows. Its C++ part, inferno_driver, is a kernel-mode
  virtual audio driver of the SYSVAD family extended with a shared-memory bridge: the audio that
  applications render is written to a wave file sink and copied into a ring in a named section, from
  which a user-space service sends it to the network. This development models the C++ driver; the
  Rust crates are not part of it.

  Theories, bottom up, and the code they model (all under inferno_driver):

  DriverBase: the conventions shared by all components. NTSTATUS is a 32-bit word with NT_SUCCESS as
  its sign test; ULONG values are 32-bit words where the code masks or compares
  bits, elsewhere natural numbers whose arithmetic goes through \<open>ulong\<close> and \<open>usub\<close>, which wrap at 2^32; LONG arithmetic that C++ leaves undefined on overflow goes through \<open>ck_long\<close>;
  \<open>load\<close>, \<open>store\<close> and \<open>rtl_copy\<close> are accesses to a buffer given as a list, which fail outside it.
  Results of type option are used for faults: None is an access outside a buffer, a signed overflow,
  a Release of an object without references or the use of a freed object. So a theorem saying that
  an operation is \<open>Some\<close> of something says that none of these happens.

  Normalize: the level macros of sysvad.h (VALUE_NORMALIZE and its instances).
  MixerHw: class CSYSVADHW of hw.cpp and the forwarding accessors of CAdapterCommon.
  KsProperty: kshelper.cpp, the validation, dispatch and basic-support code for kernel streaming
  properties, and the volume, mute, peak-meter and CPU-resource handlers. Property values and
  descriptions are lists of 32-bit slots.
  BaseTopology: class CMiniportTopologySYSVAD of basetopo.cpp.
  ShmBridge: shm.cpp; the section is a header and a list of sample bytes.
  SaveData: class CSaveData of savedata.cpp; data buffer, frame ring, work items, the file as a list
  of bytes, and the copy of rendered audio into the bridge. The worker callback is a step that
  runs between two writes.
  SubdeviceCache: the subdevice part of CAdapterCommon in common.cpp: InstallSubdevice,
  the cache, ConnectTopologies and DisconnectTopologies, Install- and RemoveEndpointFilters, idle
  power requests; objects are numbers with a reference count.
  ToneGenerator: class ToneGenerator; floating-point arithmetic and the sine are parameters, the
  conversions to samples are checked.
  JackTopology: micintopo.cpp, hdmitopo.cpp and spdiftopo.cpp: the jack properties of the three filters
  with their tables, and the HDMI miniport object.
  SidebandManager: the device lists, task queues and work items of the Bluetooth HFP, USB and A2DP
  sideband interfaces in common.cpp. The code has the same manager three times; each operation is
  defined once and applied to the three fields of \<open>adapter_bands\<close>. Notifications, the start of the
  work item and its rounds are the steps of the relation \<open>sb_step\<close>.
  RegistryCopy: the copy of the parameters of a template interface in common.cpp. The source is a
  tree of keys, the destination a map from paths to values; pool blocks and handles are accounted for.
  AdapterCommon: the rest of the adapter object in common.cpp: the single instance, Init and the
  destructor, interface queries, helper pointers, power changes and queries, power relations, and Cleanup, which
  composes the managers, the bridge and the cache.
  SidebandIo: what the sideband devices have in common: sequences of calls that stop at the first
  failure (\<open>run_steps\<close>), pool memory and WDF objects as multisets, IOCTLs to the device, notification
  requests with their completion routine and the work item that processes them.
  ManagedDevice: the contract between the sideband manager and a device, and what it is for a device to
  refine the one of the manager.
  EndpointPair: the private copy of a miniport pair a sideband device makes of an endpoint.
  HfpDevice: class BthHfpDevice of BthhfpDevice.cpp, every member function. HfpSafety is its invariant,
  kept by every operation; HfpLife follows it through Init, Start, events, Stop and the destructor and
  defines the reachable states; HfpProps holds the properties.
  UsbHsDevice: class UsbHsDevice of UsbHsDevice.cpp, every member function. The functions the code has
  twice, for the speaker and for the microphone, are defined once for a side of the headset.
  UsbHsSafety is the invariant of its operations and events, UsbHsLife follows a headset through Init,
  Start, events, Stop and the destructor, UsbHsProps holds the properties.
  A2dpDevice: class A2dpHpDevice of A2dpHpDevice.cpp, every member function, with the codec structures
  of A2dpHpDevice.h. A2dpSafety, A2dpLife and A2dpProps are organised like those of the USB headset; the
  handler of its notifications exchanges blocks of capabilities and can fault.
  PnpDriver: adapter.cpp. DriverEntry and DriverUnload, the installation of the filters of all
  endpoints, StartDevice and PnpHandler. It composes the adapter, its managers, the bridge and the cache
  to the life of the device; \<open>driver_step\<close> is its step relation.
  FilterTypes: the types of the static tables (common.h and the kernel streaming headers) and what makes a
  filter well formed. HdmiTables, SpdifTables and MicTables are the tables themselves, row by row:
  hdmiwavtable.h, hdmitoptable.h, spdifwavtable.h, spdiftoptable.h, micinwavtable.h, micintoptable.h and
  the tables of the second and third microphone array. FilterProps holds their properties. MiniPairs is
  minipairs.h: the endpoints made of these filters, their connections and the endpoint tables that
  StartDevice installs.
  This theory: properties that span components.

  How the parts interact: a property request reaches SysvadPropertyDispatch (KsProperty), which
  validates it and calls the topology handler (BaseTopology), which reads and writes the mixer
  (MixerHw) with normalised levels (Normalize). A render stream calls WriteData (SaveData), which
  copies into its ring and calls InfernoShmWrite (ShmBridge); capture streams call GenerateSine
  (ToneGenerator). The adapter (AdapterCommon) owns the mixer, the bridge, the cache of subdevices
  (SubdeviceCache) and the sideband managers (SidebandManager). StartDevice (PnpDriver) creates it,
  initialises it and installs the filters; PnpHandler has it report its power relations and, when the
  device is stopped or removed, has it cleaned up and releases it.

  The theorems. C1 to C4 are the functional behaviour of levels, property validation, descriptions
  and handlers. C5, C21 and C25 are the static tables: every filter is well formed and its pins are joined
  by paths of connections, formats and modes fit the pins, and where tables contradict each other; C6 says that
  the endpoints are consistent and that their installation stays within the announced number of
  subdevices. C8 says that the generic handler has no fault; C7 is the reference balance of topology construction. C9 refines the bridge to the last
  4096 frames of the stream. C10 to C14 are the sink: buffer safety and invariant, losslessness while the work items
  keep up, the finished wave file, what reaches the bridge, and the overrun of a busy frame. C15, C18
  and C19 are the exact reference account of the subdevice cache over all results of the kernel calls. C16 decides for every failure of a call whether the copy of a registry
  key completes, refuses or faults; C22 says what the copy is when none fails. C20 is the tone
  stream. C23 and C24 are the safety of every
  interleaving of sideband notifications with the work item, and complete cleanup. C27 is
  the account of physical device objects. C26 is the safety of every history of
  starts, requests and notifications of the device, C28 complete teardown. C29 to C31
  are the jack properties and the lifetime of the HDMI miniport. C32 to C36 are the hands-free device:
  streams and SCO channel, bounds of the failing notifications, what Stop leaves, the balance of all
  memory, objects and references over a life, and the notifications lost when the work item gives up.
  C37 is the refinement, by all three sideband devices, of the device that the sideband manager assumes. C38 to C40 are the USB headset: the
  format it selects, its whole life with the exact condition under which the destructor is correct,
  and when the close of a stream returns. C17 is the whole life of the A2DP headphones, again with the
  exact condition under which the destructor is correct.

  Interfaces are locales: \<open>register_bank\<close> (MixerHw; the volume and mute accessors), \<open>frame_sink\<close>
  (ShmBridge; a sink that refines an appended stream, interpreted on the bridge and on the wave file
  sink), \<open>keyed_store\<close> (SubdeviceCache; lookup, insertion and removal of records), \<open>managed_device\<close>
  (ManagedDevice; what the sideband manager expects of Init, Start and Stop of a device, from which the
  refinement is proved once, interpreted on the three sideband devices), and the two contracts of
  the handler of completed notifications in SidebandIo, from which the completion routine and the work
  item are proved once: \<open>faulty_notification_handler\<close> for a handler that calls the device and can fault,
  interpreted on the A2DP headphones, and \<open>notification_handler\<close>, whose facts follow from the former, for
  one that only updates members, interpreted on the hands-free device and on the USB headset.

  Bounds and fuel: all loops of the modelled code run over a list or a counter, so the definitions
  terminate by structure or by a measure. The one loop without a counter, over the collection of
  completed notifications (\<open>notif_rounds\<close> and \<open>faulty_rounds\<close>), has as fuel one round more than the collection has requests;
  each round takes one request away and the last one finds it empty, so that it always ends, which
  C33 states. Values are bounded where the code has
  a width; hypotheses such as a length below 2^32 are stated in the theorems.

  Parameters and assumptions: results of kernel, port-class and framework calls (allocation,
  files, section mapping, registration) are parameters of the operations that use them, in the
  order the code uses them. The driver's locks are not modelled: an operation under a lock is one
  step. The framework runs one instance of a work item at a time, and flushing it waits for it.
  In SidebandManager what a device does in its Init and Start is reduced to the status it returns; C37
  says that the three devices do that. Its Start and Stop are single steps, and the memory of a
  device is the multiset of its blocks. Debug assertions of the code are not branches of the model.

  The events of a USB headset between Start and Stop (C39) are calls of its interface, completions
  and rounds of the work item; a stream is opened only on a side whose endpoint index tells it apart
  (C40 says what happens otherwise), and a reply carries the index of the endpoint asked about.

  The events of the A2DP headphones (C17) are of the same kind; their codec capabilities are queried
  in the work item, and the headphones are assumed to announce blocks of at least the size the driver
  compares.

  Not modelled: of adapter.cpp the empty callbacks of the power framework, and the constants shared with
  user mode. The build leaves A2dpHpDevice.cpp out (SYSVAD_A2DP_SIDEBAND is not defined); it is modelled
  like the other two sideband devices. The headers of the two speakers and of the first microphone array are not in
  the repository, nor are the numbers of pins and nodes: their filters and the record \<open>headers\<close> are
  parameters, and \<open>numbered\<close> states the numbering that the assertions and drawings of the tables give.
\<close>

section \<open>Properties across components\<close>



end
